(* ===== verification/CFS_Prelude.thy ===== *)
theory CFS_Prelude
  imports Main "HOL-Library.Word" "HOL-Library.Signed_Division"
begin

text \<open>
  Shared vocabulary of the development: the machine integers of \<^verbatim>\<open>common_types.h\<close>, the
  status codes of \<^verbatim>\<open>cfe_error.h\<close> that the modelled functions return, the time value that
  several services exchange, and the generic facts on words and lists that the component
  theories share.  The named collections are:
  \<^item> \<open>uint16_bits\<close>: equality of 16-bit words bit by bit, used for the header fields;
  \<^item> \<open>uint32_bits\<close>: the same for 32-bit words;
  \<^item> \<open>unat_simps\<close>: the value in \<open>nat\<close> of the word operations of the code.
\<close>

unbundle bit_operations_syntax

section \<open>Machine integers\<close>

type_synonym uint8 = "8 word"
type_synonym uint16 = "16 word"
type_synonym uint32 = "32 word"
type_synonym uint64 = "64 word"

text \<open>\<^verbatim>\<open>size_t\<close> of a 64-bit platform.\<close>

type_synonym size_t = "64 word"

section \<open>Status codes\<close>

text \<open>
  The codes of \<^verbatim>\<open>cfe_error.h\<close> are 32-bit constants that the code compares with \<^verbatim>\<open>CFE_SUCCESS\<close> and a
  few others, so they are the constructors of a datatype with the names of the source.
  \<^verbatim>\<open>CFE_MSG_BAD_ARGUMENT\<close> is in the source another name of \<^verbatim>\<open>CFE_SB_BAD_ARGUMENT\<close>; no modelled code compares with
  either.  Where event services use the number of a code, \<open>status_code\<close> of \<open>CFS_EvsState\<close> gives it.
\<close>

datatype CFE_Status_t =
    CFE_SUCCESS
  | CFE_STATUS_WRONG_MSG_LENGTH
  | CFE_MSG_BAD_ARGUMENT
  | CFE_MSG_WRONG_MSG_TYPE
  | CFE_SB_BAD_ARGUMENT
  | CFE_ES_BAD_ARGUMENT
  | CFE_ES_ERR_RESOURCEID_NOT_VALID
  | CFE_ES_BUFFER_NOT_IN_POOL
  | CFE_ES_ERR_MEM_BLOCK_SIZE
  | CFE_ES_POOL_BLOCK_INVALID
  | CFE_EVS_UNKNOWN_FILTER
  | CFE_EVS_APP_NOT_REGISTERED
  | CFE_EVS_APP_ILLEGAL_APP_ID
  | CFE_EVS_EVT_NOT_REGISTERED
  | CFE_EVS_INVALID_PARAMETER
  | CFE_EVS_APP_SQUELCHED
  | CFE_TIME_BAD_ARGUMENT
  | CFE_TIME_TOO_MANY_SYNCH_CALLBACKS
  | CFE_TIME_CALLBACK_NOT_REGISTERED
  | CFE_TIME_INTERNAL_ONLY
  | CFE_TIME_OUT_OF_RANGE
  | CFE_STATUS_EXTERNAL_RESOURCE_FAIL
  | CFE_ES_NO_RESOURCE_IDS_AVAILABLE
  | CFE_SB_TIME_OUT
  | CFE_SB_NO_MESSAGE
  | CFE_SB_MAX_PIPES_MET
  | CFE_SB_PIPE_CR_ERR
  | CFE_SB_PIPE_RD_ERR
  | CFE_SB_MSG_TOO_BIG
  | CFE_SB_BUF_ALOC_ERR
  | CFE_SB_MAX_MSGS_MET
  | CFE_SB_MAX_DESTS_MET
  | CFE_SB_BUFFER_INVALID
  | CFE_STATUS_NO_COUNTER_INCREMENT
  | CFE_STATUS_BAD_COMMAND_CODE
  | CFE_STATUS_REQUEST_ALREADY_PENDING
  | CFE_EVS_APP_FILTER_OVERLOAD
  | CFE_EVS_RESET_AREA_POINTER
  | CFE_EVS_FILE_WRITE_ERROR
  | CFE_ES_ERR_NAME_NOT_FOUND
  | CFE_FS_BAD_ARGUMENT
  | CFE_FS_INVALID_PATH
  | CFE_FS_FNAME_TOO_LONG

section \<open>Time values\<close>

record CFE_TIME_SysTime_t =
  Seconds :: uint32
  Subseconds :: uint32

section \<open>Words\<close>

named_theorems uint16_bits \<open>equality of 16-bit words, decided bit by bit\<close>
named_theorems uint32_bits \<open>equality of 32-bit words, decided bit by bit\<close>
named_theorems unat_simps \<open>word operations read in nat\<close>

lemma bit_0xFF [simp]:
  "bit (0xFF :: 'a::semiring_bit_operations) n \<longleftrightarrow> n < 8 \<and> possible_bit TYPE('a) n"
proof -
  have "(mask 8 :: nat) = 255" by (simp add: mask_eq_exp_minus_1)
  then have "(0xFF :: 'a) = mask 8" by (metis of_nat_mask_eq of_nat_numeral)
  then show ?thesis by (simp only: bit_mask_iff) auto
qed

lemma uint16_eq_bits [uint16_bits]:
  "(v :: uint16) = w \<longleftrightarrow> list_all (\<lambda>n. bit v n = bit w n) [0..<16]"
  by (auto simp: list_all_iff intro!: bit_word_eqI)

lemma upt_16 [uint16_bits]: "[0..<16] = [0, 1, 2, 3, 4, 5, 6, 7, 8, 9, 10, 11, 12, 13, 14, 15 :: nat]"
  by (simp add: upt_rec)

lemma uint16_bit_beyond [uint16_bits]: "16 \<le> n \<Longrightarrow> \<not> bit (v :: uint16) n"
  using bit_imp_le_length [of v n] by auto

declare list.pred_inject [uint16_bits]

lemma uint32_eq_bits [uint32_bits]:
  "(v :: uint32) = w \<longleftrightarrow> list_all (\<lambda>n. bit v n = bit w n) [0..<32]"
  by (auto simp: list_all_iff intro!: bit_word_eqI)

lemma upt_32 [uint32_bits]: "[0..<32] = [0, 1, 2, 3, 4, 5, 6, 7, 8, 9, 10, 11, 12, 13, 14, 15, 16, 17,
   18, 19, 20, 21, 22, 23, 24, 25, 26, 27, 28, 29, 30, 31 :: nat]"
  by (simp add: upt_rec)

lemma uint32_bit_beyond [uint32_bits]: "32 \<le> n \<Longrightarrow> \<not> bit (v :: uint32) n"
  using bit_imp_le_length [of v n] by auto
lemma uint8_bit_beyond [uint32_bits]: "8 \<le> n \<Longrightarrow> \<not> bit (v :: uint8) n"
  using bit_imp_le_length [of v n] by auto

declare list.pred_inject [uint32_bits]

lemma less_exp_take_bit: "unat v < 2 ^ k \<longleftrightarrow> take_bit k v = (v :: 'a::len word)"
  by (metis take_bit_nat_eq_self_iff unsigned_take_bit_eq word_unat_eq_iff)

lemma and_not_mask_less:
  "v AND NOT 0x07FF = (0 :: uint16) \<longleftrightarrow> unat v < 2 ^ 11"
  "v AND NOT 0x3FFF = (0 :: uint16) \<longleftrightarrow> unat v < 2 ^ 14"
  "v AND NOT 0x01FF = (0 :: uint16) \<longleftrightarrow> unat v < 2 ^ 9"
  unfolding less_exp_take_bit by (simp_all add: uint16_bits bit_simps)

lemmas and_not_mask_iff [simp] = and_not_mask_less [simplified]

text \<open>A big-endian pair of bytes: the sum of the code is the disjunction of the bit fields.\<close>

lemma bytes_add:
  "push_bit 8 (ucast a) + (ucast (b :: uint8) :: 'a::len word) = push_bit 8 (ucast (a :: uint8)) OR ucast b"
proof -
  have "push_bit 8 (ucast a) AND (ucast b :: 'a word) = 0"
    by (rule bit_word_eqI) (auto simp: bit_simps dest: bit_imp_le_length)
  then show ?thesis by (rule disjunctive_add_eq_or)
qed

end
