(* ===== verification/CFS_MsgHeader.thy ===== *)
theory CFS_MsgHeader
  imports CFS_Prelude
begin

text \<open>
  The CCSDS primary and extended headers of a cFE message: \<^verbatim>\<open>cfe_msg_priv.h\<close>,
  \<^verbatim>\<open>cfe_msg_ccsdspri.c\<close> and \<^verbatim>\<open>cfe_msg_ccsdsext.c\<close>.  A message is the memory its
  pointer points at: a function from byte offset to byte, because the module casts one pointer to
  the header, to the command and telemetry headers and to a byte pointer.  A pointer that may be
  NULL is an \<open>option\<close>; an output parameter is passed in (\<open>None\<close> for NULL, \<open>Some\<close> of its
  contents) and its contents after the call are returned beside the status.

  The abstract header \<open>ccsds_hdr\<close> reads the fields off the bit positions that
  \<^verbatim>\<open>ccsds_hdr.h\<close> documents; the lemmas say that each setter is the update of one field of the
  abstract header and each getter its selector.
\<close>

type_synonym CFE_MSG_Message_t = "nat \<Rightarrow> uint8"

section \<open>Layout and masks\<close>

text \<open>Byte offsets of the members of \<^verbatim>\<open>CCSDS_PrimaryHeader_t\<close> and \<^verbatim>\<open>CCSDS_ExtendedHeader_t\<close>.\<close>

abbreviation (input) Pri_StreamId :: nat where "Pri_StreamId \<equiv> 0"
abbreviation (input) Pri_Sequence :: nat where "Pri_Sequence \<equiv> 2"
abbreviation (input) Pri_Length :: nat where "Pri_Length \<equiv> 4"
abbreviation (input) Ext_Subsystem :: nat where "Ext_Subsystem \<equiv> 6"
abbreviation (input) Ext_SystemId :: nat where "Ext_SystemId \<equiv> 8"

abbreviation (input) CFE_MSG_SIZE_OFFSET :: size_t where "CFE_MSG_SIZE_OFFSET \<equiv> 7"
abbreviation (input) CFE_MSG_CCSDSVER_MASK :: uint16 where "CFE_MSG_CCSDSVER_MASK \<equiv> 0xE000"
abbreviation (input) CFE_MSG_CCSDSVER_SHIFT :: nat where "CFE_MSG_CCSDSVER_SHIFT \<equiv> 13"
abbreviation (input) CFE_MSG_TYPE_MASK :: uint16 where "CFE_MSG_TYPE_MASK \<equiv> 0x1000"
abbreviation (input) CFE_MSG_SHDR_MASK :: uint16 where "CFE_MSG_SHDR_MASK \<equiv> 0x0800"
abbreviation (input) CFE_MSG_APID_MASK :: uint16 where "CFE_MSG_APID_MASK \<equiv> 0x07FF"
abbreviation (input) CFE_MSG_SEGFLG_MASK :: uint16 where "CFE_MSG_SEGFLG_MASK \<equiv> 0xC000"
abbreviation (input) CFE_MSG_SEGFLG_CNT :: uint16 where "CFE_MSG_SEGFLG_CNT \<equiv> 0x0000"
abbreviation (input) CFE_MSG_SEGFLG_FIRST :: uint16 where "CFE_MSG_SEGFLG_FIRST \<equiv> 0x4000"
abbreviation (input) CFE_MSG_SEGFLG_LAST :: uint16 where "CFE_MSG_SEGFLG_LAST \<equiv> 0x8000"
abbreviation (input) CFE_MSG_SEGFLG_UNSEG :: uint16 where "CFE_MSG_SEGFLG_UNSEG \<equiv> 0xC000"
abbreviation (input) CFE_MSG_SEQCNT_MASK :: uint16 where "CFE_MSG_SEQCNT_MASK \<equiv> 0x3FFF"

abbreviation (input) CFE_MSG_EDSVER_SHIFT :: nat where "CFE_MSG_EDSVER_SHIFT \<equiv> 11"
abbreviation (input) CFE_MSG_EDSVER_MASK :: uint16 where "CFE_MSG_EDSVER_MASK \<equiv> 0xF800"
abbreviation (input) CFE_MSG_ENDIAN_MASK :: uint16 where "CFE_MSG_ENDIAN_MASK \<equiv> 0x0400"
abbreviation (input) CFE_MSG_PLAYBACK_MASK :: uint16 where "CFE_MSG_PLAYBACK_MASK \<equiv> 0x0200"
abbreviation (input) CFE_MSG_SUBSYS_MASK :: uint16 where "CFE_MSG_SUBSYS_MASK \<equiv> 0x01FF"

datatype CFE_MSG_Type_t = CFE_MSG_Type_Invalid | CFE_MSG_Type_Cmd | CFE_MSG_Type_Tlm

datatype CFE_MSG_SegmentationFlag_t =
    CFE_MSG_SegFlag_Invalid
  | CFE_MSG_SegFlag_Continue
  | CFE_MSG_SegFlag_First
  | CFE_MSG_SegFlag_Last
  | CFE_MSG_SegFlag_Unsegmented

datatype CFE_MSG_Endian_t = CFE_MSG_Endian_Invalid | CFE_MSG_Endian_Big | CFE_MSG_Endian_Little

datatype CFE_MSG_PlaybackFlag_t =
  CFE_MSG_PlayFlag_Invalid | CFE_MSG_PlayFlag_Original | CFE_MSG_PlayFlag_Playback

section \<open>Generic field access\<close>

definition CFE_MSG_GetHeaderField :: "CFE_MSG_Message_t \<Rightarrow> nat \<Rightarrow> uint16 \<Rightarrow> uint16" where
  "CFE_MSG_GetHeaderField m Word Mask =
     (push_bit 8 (ucast (m Word)) OR ucast (m (Word + 1))) AND Mask"

definition CFE_MSG_SetHeaderField ::
    "CFE_MSG_Message_t \<Rightarrow> nat \<Rightarrow> uint16 \<Rightarrow> uint16 \<Rightarrow> CFE_MSG_Message_t" where
  "CFE_MSG_SetHeaderField m Word Val Mask =
     m(Word := ucast ((ucast (m Word) AND NOT (drop_bit 8 Mask)) OR drop_bit 8 (Val AND Mask)),
       Word + 1 := ucast (((ucast (m (Word + 1)) AND NOT Mask) OR (Val AND Mask)) AND 0xFF))"

section \<open>Primary header\<close>

fun CFE_MSG_GetHeaderVersion ::
    "CFE_MSG_Message_t option \<Rightarrow> uint16 option \<Rightarrow> CFE_Status_t \<times> uint16 option" where
  "CFE_MSG_GetHeaderVersion (Some m) (Some _) =
     (CFE_SUCCESS,
      Some (drop_bit CFE_MSG_CCSDSVER_SHIFT (CFE_MSG_GetHeaderField m Pri_StreamId CFE_MSG_CCSDSVER_MASK)))"
| "CFE_MSG_GetHeaderVersion _ Version = (CFE_MSG_BAD_ARGUMENT, Version)"

fun CFE_MSG_SetHeaderVersion ::
    "CFE_MSG_Message_t option \<Rightarrow> uint16 \<Rightarrow> CFE_Status_t \<times> CFE_MSG_Message_t option" where
  "CFE_MSG_SetHeaderVersion None Version = (CFE_MSG_BAD_ARGUMENT, None)"
| "CFE_MSG_SetHeaderVersion (Some m) Version =
     (if Version > drop_bit CFE_MSG_CCSDSVER_SHIFT CFE_MSG_CCSDSVER_MASK
      then (CFE_MSG_BAD_ARGUMENT, Some m)
      else (CFE_SUCCESS,
            Some (CFE_MSG_SetHeaderField m Pri_StreamId
                    (push_bit CFE_MSG_CCSDSVER_SHIFT Version) CFE_MSG_CCSDSVER_MASK)))"

fun CFE_MSG_GetType ::
    "CFE_MSG_Message_t option \<Rightarrow> CFE_MSG_Type_t option \<Rightarrow> CFE_Status_t \<times> CFE_MSG_Type_t option" where
  "CFE_MSG_GetType (Some m) (Some _) =
     (CFE_SUCCESS,
      Some (if m Pri_StreamId AND ucast (drop_bit 8 CFE_MSG_TYPE_MASK) \<noteq> 0
            then CFE_MSG_Type_Cmd else CFE_MSG_Type_Tlm))"
| "CFE_MSG_GetType _ Type = (CFE_MSG_BAD_ARGUMENT, Type)"

fun CFE_MSG_SetType ::
    "CFE_MSG_Message_t option \<Rightarrow> CFE_MSG_Type_t \<Rightarrow> CFE_Status_t \<times> CFE_MSG_Message_t option" where
  "CFE_MSG_SetType None Type = (CFE_MSG_BAD_ARGUMENT, None)"
| "CFE_MSG_SetType (Some m) CFE_MSG_Type_Cmd =
     (CFE_SUCCESS, Some (m(Pri_StreamId := m Pri_StreamId OR ucast (drop_bit 8 CFE_MSG_TYPE_MASK))))"
| "CFE_MSG_SetType (Some m) CFE_MSG_Type_Tlm =
     (CFE_SUCCESS, Some (m(Pri_StreamId := m Pri_StreamId AND NOT (ucast (drop_bit 8 CFE_MSG_TYPE_MASK)))))"
| "CFE_MSG_SetType (Some m) CFE_MSG_Type_Invalid = (CFE_MSG_BAD_ARGUMENT, Some m)"

fun CFE_MSG_GetHasSecondaryHeader ::
    "CFE_MSG_Message_t option \<Rightarrow> bool option \<Rightarrow> CFE_Status_t \<times> bool option" where
  "CFE_MSG_GetHasSecondaryHeader (Some m) (Some _) =
     (CFE_SUCCESS, Some (m Pri_StreamId AND ucast (drop_bit 8 CFE_MSG_SHDR_MASK) \<noteq> 0))"
| "CFE_MSG_GetHasSecondaryHeader _ HasSecondary = (CFE_MSG_BAD_ARGUMENT, HasSecondary)"

fun CFE_MSG_SetHasSecondaryHeader ::
    "CFE_MSG_Message_t option \<Rightarrow> bool \<Rightarrow> CFE_Status_t \<times> CFE_MSG_Message_t option" where
  "CFE_MSG_SetHasSecondaryHeader None HasSecondary = (CFE_MSG_BAD_ARGUMENT, None)"
| "CFE_MSG_SetHasSecondaryHeader (Some m) HasSecondary =
     (CFE_SUCCESS,
      Some (m(Pri_StreamId :=
        (if HasSecondary then m Pri_StreamId OR ucast (drop_bit 8 CFE_MSG_SHDR_MASK)
         else m Pri_StreamId AND NOT (ucast (drop_bit 8 CFE_MSG_SHDR_MASK))))))"

fun CFE_MSG_GetApId ::
    "CFE_MSG_Message_t option \<Rightarrow> uint16 option \<Rightarrow> CFE_Status_t \<times> uint16 option" where
  "CFE_MSG_GetApId (Some m) (Some _) =
     (CFE_SUCCESS, Some (CFE_MSG_GetHeaderField m Pri_StreamId CFE_MSG_APID_MASK))"
| "CFE_MSG_GetApId _ ApId = (CFE_MSG_BAD_ARGUMENT, ApId)"

fun CFE_MSG_SetApId ::
    "CFE_MSG_Message_t option \<Rightarrow> uint16 \<Rightarrow> CFE_Status_t \<times> CFE_MSG_Message_t option" where
  "CFE_MSG_SetApId None ApId = (CFE_MSG_BAD_ARGUMENT, None)"
| "CFE_MSG_SetApId (Some m) ApId =
     (if ApId AND NOT CFE_MSG_APID_MASK \<noteq> 0 then (CFE_MSG_BAD_ARGUMENT, Some m)
      else (CFE_SUCCESS, Some (CFE_MSG_SetHeaderField m Pri_StreamId ApId CFE_MSG_APID_MASK)))"

fun CFE_MSG_GetSegmentationFlag ::
    "CFE_MSG_Message_t option \<Rightarrow> CFE_MSG_SegmentationFlag_t option
       \<Rightarrow> CFE_Status_t \<times> CFE_MSG_SegmentationFlag_t option" where
  "CFE_MSG_GetSegmentationFlag (Some m) (Some _) =
     (let rawval = CFE_MSG_GetHeaderField m Pri_Sequence CFE_MSG_SEGFLG_MASK in
      (CFE_SUCCESS,
       Some (if rawval = CFE_MSG_SEGFLG_CNT then CFE_MSG_SegFlag_Continue
             else if rawval = CFE_MSG_SEGFLG_FIRST then CFE_MSG_SegFlag_First
             else if rawval = CFE_MSG_SEGFLG_LAST then CFE_MSG_SegFlag_Last
             else CFE_MSG_SegFlag_Unsegmented)))"
| "CFE_MSG_GetSegmentationFlag _ SegFlag = (CFE_MSG_BAD_ARGUMENT, SegFlag)"

fun segflag_rawval :: "CFE_MSG_SegmentationFlag_t \<Rightarrow> uint16 option" where
  "segflag_rawval CFE_MSG_SegFlag_Continue = Some CFE_MSG_SEGFLG_CNT"
| "segflag_rawval CFE_MSG_SegFlag_First = Some CFE_MSG_SEGFLG_FIRST"
| "segflag_rawval CFE_MSG_SegFlag_Last = Some CFE_MSG_SEGFLG_LAST"
| "segflag_rawval CFE_MSG_SegFlag_Unsegmented = Some CFE_MSG_SEGFLG_UNSEG"
| "segflag_rawval CFE_MSG_SegFlag_Invalid = None"

fun CFE_MSG_SetSegmentationFlag ::
    "CFE_MSG_Message_t option \<Rightarrow> CFE_MSG_SegmentationFlag_t \<Rightarrow> CFE_Status_t \<times> CFE_MSG_Message_t option" where
  "CFE_MSG_SetSegmentationFlag None SegFlag = (CFE_MSG_BAD_ARGUMENT, None)"
| "CFE_MSG_SetSegmentationFlag (Some m) SegFlag =
     (case segflag_rawval SegFlag of
        None \<Rightarrow> (CFE_MSG_BAD_ARGUMENT, Some m)
      | Some rawval \<Rightarrow>
          (CFE_SUCCESS, Some (CFE_MSG_SetHeaderField m Pri_Sequence rawval CFE_MSG_SEGFLG_MASK)))"

fun CFE_MSG_GetSequenceCount ::
    "CFE_MSG_Message_t option \<Rightarrow> uint16 option \<Rightarrow> CFE_Status_t \<times> uint16 option" where
  "CFE_MSG_GetSequenceCount (Some m) (Some _) =
     (CFE_SUCCESS, Some (CFE_MSG_GetHeaderField m Pri_Sequence CFE_MSG_SEQCNT_MASK))"
| "CFE_MSG_GetSequenceCount _ SeqCnt = (CFE_MSG_BAD_ARGUMENT, SeqCnt)"

fun CFE_MSG_SetSequenceCount ::
    "CFE_MSG_Message_t option \<Rightarrow> uint16 \<Rightarrow> CFE_Status_t \<times> CFE_MSG_Message_t option" where
  "CFE_MSG_SetSequenceCount None SeqCnt = (CFE_MSG_BAD_ARGUMENT, None)"
| "CFE_MSG_SetSequenceCount (Some m) SeqCnt =
     (if SeqCnt AND NOT CFE_MSG_SEQCNT_MASK \<noteq> 0 then (CFE_MSG_BAD_ARGUMENT, Some m)
      else (CFE_SUCCESS, Some (CFE_MSG_SetHeaderField m Pri_Sequence SeqCnt CFE_MSG_SEQCNT_MASK)))"

definition CFE_MSG_GetNextSequenceCount :: "uint16 \<Rightarrow> uint16" where
  "CFE_MSG_GetNextSequenceCount SeqCnt =
     (let SeqCnt = SeqCnt + 1 in if SeqCnt > CFE_MSG_SEQCNT_MASK then 0 else SeqCnt)"

fun CFE_MSG_GetSize ::
    "CFE_MSG_Message_t option \<Rightarrow> size_t option \<Rightarrow> CFE_Status_t \<times> size_t option" where
  "CFE_MSG_GetSize (Some m) (Some _) =
     (CFE_SUCCESS,
      Some (push_bit 8 (ucast (m Pri_Length)) + ucast (m (Pri_Length + 1)) + CFE_MSG_SIZE_OFFSET))"
| "CFE_MSG_GetSize _ Size = (CFE_MSG_BAD_ARGUMENT, Size)"

fun CFE_MSG_SetSize ::
    "CFE_MSG_Message_t option \<Rightarrow> size_t \<Rightarrow> CFE_Status_t \<times> CFE_MSG_Message_t option" where
  "CFE_MSG_SetSize None Size = (CFE_MSG_BAD_ARGUMENT, None)"
| "CFE_MSG_SetSize (Some m) Size =
     (if Size < CFE_MSG_SIZE_OFFSET \<or> Size > 0xFFFF + CFE_MSG_SIZE_OFFSET
      then (CFE_MSG_BAD_ARGUMENT, Some m)
      else let Size = Size - CFE_MSG_SIZE_OFFSET in
           (CFE_SUCCESS,
            Some (m(Pri_Length := ucast (drop_bit 8 Size AND 0xFF),
                    Pri_Length + 1 := ucast (Size AND 0xFF)))))"

text \<open>\<^verbatim>\<open>CFE_MSG_SetDefaultCCSDSPri\<close> ignores the status of each setter.  The platform's
  \<^verbatim>\<open>CFE_MISSION_CCSDSVER\<close> and \<^verbatim>\<open>CFE_PLATFORM_DEFAULT_APID\<close> are the defaults of
  \<^verbatim>\<open>cfe_msg_defaults.h\<close>.\<close>

abbreviation (input) CFE_MISSION_CCSDSVER :: uint16 where "CFE_MISSION_CCSDSVER \<equiv> 0"
abbreviation (input) CFE_PLATFORM_DEFAULT_APID :: uint16 where "CFE_PLATFORM_DEFAULT_APID \<equiv> 0"

definition CFE_MSG_SetDefaultCCSDSPri :: "CFE_MSG_Message_t option \<Rightarrow> CFE_MSG_Message_t option" where
  "CFE_MSG_SetDefaultCCSDSPri MsgPtr =
     (let MsgPtr = snd (CFE_MSG_SetHasSecondaryHeader MsgPtr True);
          MsgPtr = snd (CFE_MSG_SetHeaderVersion MsgPtr CFE_MISSION_CCSDSVER);
          MsgPtr = snd (CFE_MSG_SetApId MsgPtr CFE_PLATFORM_DEFAULT_APID)
      in snd (CFE_MSG_SetSegmentationFlag MsgPtr CFE_MSG_SegFlag_Unsegmented))"

section \<open>Extended header\<close>

fun CFE_MSG_GetEDSVersion ::
    "CFE_MSG_Message_t option \<Rightarrow> uint16 option \<Rightarrow> CFE_Status_t \<times> uint16 option" where
  "CFE_MSG_GetEDSVersion (Some m) (Some _) =
     (CFE_SUCCESS,
      Some (drop_bit CFE_MSG_EDSVER_SHIFT (CFE_MSG_GetHeaderField m Ext_Subsystem CFE_MSG_EDSVER_MASK)))"
| "CFE_MSG_GetEDSVersion _ Version = (CFE_MSG_BAD_ARGUMENT, Version)"

fun CFE_MSG_SetEDSVersion ::
    "CFE_MSG_Message_t option \<Rightarrow> uint16 \<Rightarrow> CFE_Status_t \<times> CFE_MSG_Message_t option" where
  "CFE_MSG_SetEDSVersion None Version = (CFE_MSG_BAD_ARGUMENT, None)"
| "CFE_MSG_SetEDSVersion (Some m) Version =
     (if Version > drop_bit CFE_MSG_EDSVER_SHIFT CFE_MSG_EDSVER_MASK
      then (CFE_MSG_BAD_ARGUMENT, Some m)
      else (CFE_SUCCESS,
            Some (CFE_MSG_SetHeaderField m Ext_Subsystem
                    (push_bit CFE_MSG_EDSVER_SHIFT Version) CFE_MSG_EDSVER_MASK)))"

fun CFE_MSG_GetEndian ::
    "CFE_MSG_Message_t option \<Rightarrow> CFE_MSG_Endian_t option \<Rightarrow> CFE_Status_t \<times> CFE_MSG_Endian_t option" where
  "CFE_MSG_GetEndian (Some m) (Some _) =
     (CFE_SUCCESS,
      Some (if m Ext_Subsystem AND ucast (drop_bit 8 CFE_MSG_ENDIAN_MASK) \<noteq> 0
            then CFE_MSG_Endian_Little else CFE_MSG_Endian_Big))"
| "CFE_MSG_GetEndian _ Endian = (CFE_MSG_BAD_ARGUMENT, Endian)"

fun CFE_MSG_SetEndian ::
    "CFE_MSG_Message_t option \<Rightarrow> CFE_MSG_Endian_t \<Rightarrow> CFE_Status_t \<times> CFE_MSG_Message_t option" where
  "CFE_MSG_SetEndian None Endian = (CFE_MSG_BAD_ARGUMENT, None)"
| "CFE_MSG_SetEndian (Some m) CFE_MSG_Endian_Little =
     (CFE_SUCCESS, Some (m(Ext_Subsystem := m Ext_Subsystem OR ucast (drop_bit 8 CFE_MSG_ENDIAN_MASK))))"
| "CFE_MSG_SetEndian (Some m) CFE_MSG_Endian_Big =
     (CFE_SUCCESS,
      Some (m(Ext_Subsystem := m Ext_Subsystem AND NOT (ucast (drop_bit 8 CFE_MSG_ENDIAN_MASK)))))"
| "CFE_MSG_SetEndian (Some m) CFE_MSG_Endian_Invalid = (CFE_MSG_BAD_ARGUMENT, Some m)"

fun CFE_MSG_GetPlaybackFlag ::
    "CFE_MSG_Message_t option \<Rightarrow> CFE_MSG_PlaybackFlag_t option
       \<Rightarrow> CFE_Status_t \<times> CFE_MSG_PlaybackFlag_t option" where
  "CFE_MSG_GetPlaybackFlag (Some m) (Some _) =
     (CFE_SUCCESS,
      Some (if m Ext_Subsystem AND ucast (drop_bit 8 CFE_MSG_PLAYBACK_MASK) \<noteq> 0
            then CFE_MSG_PlayFlag_Playback else CFE_MSG_PlayFlag_Original))"
| "CFE_MSG_GetPlaybackFlag _ PlayFlag = (CFE_MSG_BAD_ARGUMENT, PlayFlag)"

fun CFE_MSG_SetPlaybackFlag ::
    "CFE_MSG_Message_t option \<Rightarrow> CFE_MSG_PlaybackFlag_t \<Rightarrow> CFE_Status_t \<times> CFE_MSG_Message_t option" where
  "CFE_MSG_SetPlaybackFlag None PlayFlag = (CFE_MSG_BAD_ARGUMENT, None)"
| "CFE_MSG_SetPlaybackFlag (Some m) CFE_MSG_PlayFlag_Playback =
     (CFE_SUCCESS, Some (m(Ext_Subsystem := m Ext_Subsystem OR ucast (drop_bit 8 CFE_MSG_PLAYBACK_MASK))))"
| "CFE_MSG_SetPlaybackFlag (Some m) CFE_MSG_PlayFlag_Original =
     (CFE_SUCCESS,
      Some (m(Ext_Subsystem := m Ext_Subsystem AND NOT (ucast (drop_bit 8 CFE_MSG_PLAYBACK_MASK)))))"
| "CFE_MSG_SetPlaybackFlag (Some m) CFE_MSG_PlayFlag_Invalid = (CFE_MSG_BAD_ARGUMENT, Some m)"

fun CFE_MSG_GetSubsystem ::
    "CFE_MSG_Message_t option \<Rightarrow> uint16 option \<Rightarrow> CFE_Status_t \<times> uint16 option" where
  "CFE_MSG_GetSubsystem (Some m) (Some _) =
     (CFE_SUCCESS, Some (CFE_MSG_GetHeaderField m Ext_Subsystem CFE_MSG_SUBSYS_MASK))"
| "CFE_MSG_GetSubsystem _ Subsystem = (CFE_MSG_BAD_ARGUMENT, Subsystem)"

fun CFE_MSG_SetSubsystem ::
    "CFE_MSG_Message_t option \<Rightarrow> uint16 \<Rightarrow> CFE_Status_t \<times> CFE_MSG_Message_t option" where
  "CFE_MSG_SetSubsystem None Subsystem = (CFE_MSG_BAD_ARGUMENT, None)"
| "CFE_MSG_SetSubsystem (Some m) Subsystem =
     (if Subsystem AND NOT CFE_MSG_SUBSYS_MASK \<noteq> 0 then (CFE_MSG_BAD_ARGUMENT, Some m)
      else (CFE_SUCCESS, Some (CFE_MSG_SetHeaderField m Ext_Subsystem Subsystem CFE_MSG_SUBSYS_MASK)))"

fun CFE_MSG_GetSystem ::
    "CFE_MSG_Message_t option \<Rightarrow> uint16 option \<Rightarrow> CFE_Status_t \<times> uint16 option" where
  "CFE_MSG_GetSystem (Some m) (Some _) =
     (CFE_SUCCESS, Some (push_bit 8 (ucast (m Ext_SystemId)) + ucast (m (Ext_SystemId + 1))))"
| "CFE_MSG_GetSystem _ System = (CFE_MSG_BAD_ARGUMENT, System)"

fun CFE_MSG_SetSystem ::
    "CFE_MSG_Message_t option \<Rightarrow> uint16 \<Rightarrow> CFE_Status_t \<times> CFE_MSG_Message_t option" where
  "CFE_MSG_SetSystem None System = (CFE_MSG_BAD_ARGUMENT, None)"
| "CFE_MSG_SetSystem (Some m) System =
     (CFE_SUCCESS,
      Some (m(Ext_SystemId := ucast (drop_bit 8 System AND 0xFF),
              Ext_SystemId + 1 := ucast (System AND 0xFF))))"

abbreviation (input) CFE_PLATFORM_EDSVER :: uint16 where "CFE_PLATFORM_EDSVER \<equiv> 1"
abbreviation (input) CFE_PLATFORM_DEFAULT_SUBSYS :: uint16 where "CFE_PLATFORM_DEFAULT_SUBSYS \<equiv> 0"

text \<open>\<open>little\<close> is the platform's \<^verbatim>\<open>CFE_PLATFORM_ENDIAN\<close> and \<open>scid\<close> the value of
  \<^verbatim>\<open>CFE_PSP_GetSpacecraftId\<close>, cast to 16 bits as the code does.\<close>

definition CFE_MSG_SetDefaultCCSDSExt ::
    "bool \<Rightarrow> uint32 \<Rightarrow> CFE_MSG_Message_t option \<Rightarrow> CFE_MSG_Message_t option" where
  "CFE_MSG_SetDefaultCCSDSExt little scid MsgPtr =
     (let MsgPtr = snd (CFE_MSG_SetEDSVersion MsgPtr CFE_PLATFORM_EDSVER);
          MsgPtr = snd (CFE_MSG_SetEndian MsgPtr
                          (if little then CFE_MSG_Endian_Little else CFE_MSG_Endian_Big));
          MsgPtr = snd (CFE_MSG_SetSubsystem MsgPtr CFE_PLATFORM_DEFAULT_SUBSYS)
      in snd (CFE_MSG_SetSystem MsgPtr (ucast scid)))"

section \<open>Bytes and 16-bit header words\<close>

definition word16 :: "CFE_MSG_Message_t \<Rightarrow> nat \<Rightarrow> uint16" where
  "word16 m off = push_bit 8 (ucast (m off)) OR ucast (m (off + 1))"

lemma bit_word16:
  "bit (word16 m off) n \<longleftrightarrow> n < 16 \<and> (if n < 8 then bit (m (off + 1)) n else bit (m off) (n - 8))"
  by (auto simp: word16_def bit_simps not_less dest: bit_imp_le_length)

lemma GetHeaderField_word16: "CFE_MSG_GetHeaderField m off a = word16 m off AND a"
  by (simp add: CFE_MSG_GetHeaderField_def word16_def)

lemma word16_SetHeaderField:
  "word16 (CFE_MSG_SetHeaderField m off v a) off = (word16 m off AND NOT a) OR (v AND a)"
  by (rule bit_word_eqI) (auto simp: bit_word16 CFE_MSG_SetHeaderField_def bit_simps)

lemma SetHeaderField_other:
  "i \<noteq> off \<Longrightarrow> i \<noteq> off + 1 \<Longrightarrow> CFE_MSG_SetHeaderField m off v a i = m i"
  by (simp add: CFE_MSG_SetHeaderField_def)

lemma and_0xFF_low:
  assumes "a AND 0xFF = (0 :: uint16)" and "n < 8"
  shows "\<not> bit a n"
  using assms by (auto simp: bit_simps bit_eq_iff dest!: spec [of _ n])

lemma high_byte_and:
  assumes "a AND 0xFF = 0"
  shows "m off AND ucast (drop_bit 8 a) = 0 \<longleftrightarrow> word16 m off AND a = 0"
proof -
  let ?h = "m off AND ucast (drop_bit 8 a)"
  have "word16 m off AND a = push_bit 8 (ucast ?h)"
    using and_0xFF_low [OF assms]
    by (intro bit_word_eqI) (auto simp: bit_word16 bit_simps not_le not_less)
  moreover have "?h = ucast (drop_bit 8 (word16 m off AND a))"
    by (rule bit_word_eqI) (auto simp: bit_word16 bit_simps add.commute)
  ultimately show ?thesis by (metis drop_bit_of_0 push_bit_of_0 unsigned_0)
qed

lemma word16_SetHeaderField_other:
  "off' \<noteq> off \<Longrightarrow> off' + 1 \<noteq> off \<Longrightarrow> off' \<noteq> off + 1 \<Longrightarrow>
     word16 (CFE_MSG_SetHeaderField m off v a) off' = word16 m off'"
  by (simp add: word16_def SetHeaderField_other)

lemma word16_upd_other: "i \<noteq> off \<Longrightarrow> i \<noteq> off + 1 \<Longrightarrow> word16 (m(i := b)) off = word16 m off"
  by (simp add: word16_def)

lemmas word16_simps = GetHeaderField_word16 word16_SetHeaderField word16_SetHeaderField_other
  word16_upd_other

lemma word16_bytes:
  "word16 (m(off := ucast (drop_bit 8 v AND 0xFF), Suc off := ucast (v AND 0xFF))) off = ucast (v :: size_t)"
  "word16 (m(off := ucast (drop_bit 8 w AND 0xFF), Suc off := ucast (w AND 0xFF))) off = (w :: uint16)"
  by (rule bit_word_eqI; auto simp: bit_word16 bit_simps)+

lemma ucast_word16:
  "(ucast (word16 m off) :: size_t) = push_bit 8 (ucast (m off)) OR ucast (m (Suc off))"
  by (rule bit_word_eqI) (auto simp: bit_word16 bit_simps dest: bit_imp_le_length split: if_splits)

text \<open>The message with the bytes from \<open>a\<close> up to \<open>b\<close> blanked: what an operation on those bytes must
  leave alone.\<close>

definition outside :: "nat \<Rightarrow> nat \<Rightarrow> CFE_MSG_Message_t \<Rightarrow> CFE_MSG_Message_t" where
  "outside a b m = (\<lambda>i. if a \<le> i \<and> i < b then 0 else m i)"

lemma outside_simps [simp]:
  "a \<le> off \<Longrightarrow> off + 1 < b \<Longrightarrow> outside a b (CFE_MSG_SetHeaderField m off v w) = outside a b m"
  "a \<le> i \<Longrightarrow> i < b \<Longrightarrow> outside a b (m(i := c)) = outside a b m"
  by (auto simp: outside_def CFE_MSG_SetHeaderField_def fun_eq_iff)

section \<open>Abstract primary header\<close>

text \<open>The fields of the CCSDS space packet primary header at their bit positions.\<close>

record ccsds_hdr =
  h_version :: uint16
  h_type :: CFE_MSG_Type_t
  h_shdr :: bool
  h_apid :: uint16
  h_seg :: CFE_MSG_SegmentationFlag_t
  h_seq :: uint16
  h_size :: size_t

definition seg_of :: "uint16 \<Rightarrow> CFE_MSG_SegmentationFlag_t" where
  "seg_of n =
     (if n = 0 then CFE_MSG_SegFlag_Continue else if n = 1 then CFE_MSG_SegFlag_First
      else if n = 2 then CFE_MSG_SegFlag_Last else CFE_MSG_SegFlag_Unsegmented)"

definition pri_abs :: "CFE_MSG_Message_t \<Rightarrow> ccsds_hdr" where
  "pri_abs m =
     \<lparr>h_version = drop_bit 13 (word16 m Pri_StreamId),
      h_type = (if bit (word16 m Pri_StreamId) 12 then CFE_MSG_Type_Cmd else CFE_MSG_Type_Tlm),
      h_shdr = bit (word16 m Pri_StreamId) 11,
      h_apid = take_bit 11 (word16 m Pri_StreamId),
      h_seg = seg_of (drop_bit 14 (word16 m Pri_Sequence)),
      h_seq = take_bit 14 (word16 m Pri_Sequence),
      h_size = ucast (word16 m Pri_Length) + 7\<rparr>"

datatype pri_update =
    Set_Version uint16
  | Set_Type CFE_MSG_Type_t
  | Set_Shdr bool
  | Set_ApId uint16
  | Set_Seg CFE_MSG_SegmentationFlag_t
  | Set_Seq uint16
  | Set_Size size_t

fun pri_code :: "pri_update \<Rightarrow> CFE_MSG_Message_t option \<Rightarrow> CFE_Status_t \<times> CFE_MSG_Message_t option" where
  "pri_code (Set_Version v) = (\<lambda>p. CFE_MSG_SetHeaderVersion p v)"
| "pri_code (Set_Type t) = (\<lambda>p. CFE_MSG_SetType p t)"
| "pri_code (Set_Shdr b) = (\<lambda>p. CFE_MSG_SetHasSecondaryHeader p b)"
| "pri_code (Set_ApId v) = (\<lambda>p. CFE_MSG_SetApId p v)"
| "pri_code (Set_Seg s) = (\<lambda>p. CFE_MSG_SetSegmentationFlag p s)"
| "pri_code (Set_Seq v) = (\<lambda>p. CFE_MSG_SetSequenceCount p v)"
| "pri_code (Set_Size n) = (\<lambda>p. CFE_MSG_SetSize p n)"

fun pri_spec :: "pri_update \<Rightarrow> ccsds_hdr \<Rightarrow> ccsds_hdr option" where
  "pri_spec (Set_Version v) h = (if unat v < 2 ^ 3 then Some (h\<lparr>h_version := v\<rparr>) else None)"
| "pri_spec (Set_Type t) h = (if t = CFE_MSG_Type_Invalid then None else Some (h\<lparr>h_type := t\<rparr>))"
| "pri_spec (Set_Shdr b) h = Some (h\<lparr>h_shdr := b\<rparr>)"
| "pri_spec (Set_ApId v) h = (if unat v < 2 ^ 11 then Some (h\<lparr>h_apid := v\<rparr>) else None)"
| "pri_spec (Set_Seg s) h = (if s = CFE_MSG_SegFlag_Invalid then None else Some (h\<lparr>h_seg := s\<rparr>))"
| "pri_spec (Set_Seq v) h = (if unat v < 2 ^ 14 then Some (h\<lparr>h_seq := v\<rparr>) else None)"
| "pri_spec (Set_Size n) h =
     (if 7 \<le> unat n \<and> unat n < 2 ^ 16 + 7 then Some (h\<lparr>h_size := n\<rparr>) else None)"

lemma pri_version: "unat v < 2 ^ 3 \<Longrightarrow>
  pri_abs (CFE_MSG_SetHeaderField m 0 (push_bit 13 v) 0xE000) = pri_abs m\<lparr>h_version := v\<rparr>"
  unfolding less_exp_take_bit
  by (simp add: pri_abs_def word16_simps) (simp add: uint16_bits bit_simps)

lemma pri_apid: "unat v < 2 ^ 11 \<Longrightarrow>
  pri_abs (CFE_MSG_SetHeaderField m 0 v 0x7FF) = pri_abs m\<lparr>h_apid := v\<rparr>"
  unfolding less_exp_take_bit
  by (simp add: pri_abs_def word16_simps) (simp add: uint16_bits bit_simps)

lemma pri_seq: "unat v < 2 ^ 14 \<Longrightarrow>
  pri_abs (CFE_MSG_SetHeaderField m 2 v 0x3FFF) = pri_abs m\<lparr>h_seq := v\<rparr>"
  unfolding less_exp_take_bit
  by (simp add: pri_abs_def word16_simps seg_of_def) (simp add: uint16_bits bit_simps)

lemma pri_seg: "segflag_rawval s = Some v \<Longrightarrow>
  pri_abs (CFE_MSG_SetHeaderField m 2 v 0xC000) = pri_abs m\<lparr>h_seg := s\<rparr>"
  by (cases s; simp add: pri_abs_def word16_simps seg_of_def; simp add: uint16_bits bit_simps)

lemma pri_type:
  "pri_abs (m(0 := m 0 OR ucast (drop_bit 8 (0x1000 :: uint16)))) = pri_abs m\<lparr>h_type := CFE_MSG_Type_Cmd\<rparr>"
  "pri_abs (m(0 := m 0 AND NOT (ucast (drop_bit 8 (0x1000 :: uint16))))) =
     pri_abs m\<lparr>h_type := CFE_MSG_Type_Tlm\<rparr>"
  by (simp_all add: pri_abs_def word16_simps uint16_bits bit_simps bit_word16)

lemma pri_shdr:
  "pri_abs (m(0 := m 0 OR ucast (drop_bit 8 (0x0800 :: uint16)))) = pri_abs m\<lparr>h_shdr := True\<rparr>"
  "pri_abs (m(0 := m 0 AND NOT (ucast (drop_bit 8 (0x0800 :: uint16))))) =
     pri_abs m\<lparr>h_shdr := False\<rparr>"
  by (simp_all add: pri_abs_def word16_simps uint16_bits bit_simps bit_word16)

lemma pri_size:
  assumes "7 \<le> unat n" "unat n < 2 ^ 16 + 7"
  shows "pri_abs (m(4 := ucast (drop_bit 8 (n - 7) AND 0xFF), 5 := ucast ((n - 7) AND 0xFF))) =
    pri_abs m\<lparr>h_size := n\<rparr>"
proof -
  have "unat (n - 7) < 2 ^ 16" using assms by (simp add: unat_sub word_le_nat_alt)
  then have "ucast (ucast (n - 7) :: uint16) = n - 7"
    using less_exp_take_bit [of "n - 7" 16] by (simp add: unsigned_ucast_eq)
  then show ?thesis using word16_bytes(1) [of m 4 "n - 7"]
    by (simp add: pri_abs_def word16_simps)
qed

lemma pri_getters:
  "CFE_MSG_GetHeaderVersion (Some m) (Some v) = (CFE_SUCCESS, Some (h_version (pri_abs m)))"
  "CFE_MSG_GetType (Some m) (Some t) = (CFE_SUCCESS, Some (h_type (pri_abs m)))"
  "CFE_MSG_GetHasSecondaryHeader (Some m) (Some b) = (CFE_SUCCESS, Some (h_shdr (pri_abs m)))"
  "CFE_MSG_GetApId (Some m) (Some v) = (CFE_SUCCESS, Some (h_apid (pri_abs m)))"
  "CFE_MSG_GetSegmentationFlag (Some m) (Some s) = (CFE_SUCCESS, Some (h_seg (pri_abs m)))"
  "CFE_MSG_GetSequenceCount (Some m) (Some v) = (CFE_SUCCESS, Some (h_seq (pri_abs m)))"
  "CFE_MSG_GetSize (Some m) (Some n) = (CFE_SUCCESS, Some (h_size (pri_abs m)))"
proof -
  show "CFE_MSG_GetHeaderVersion (Some m) (Some v) = (CFE_SUCCESS, Some (h_version (pri_abs m)))"
    by (simp add: pri_abs_def word16_simps) (simp add: uint16_bits bit_simps)
  show "CFE_MSG_GetType (Some m) (Some t) = (CFE_SUCCESS, Some (h_type (pri_abs m)))"
    using high_byte_and [of "0x1000" m 0]
    by (simp add: pri_abs_def) (simp add: uint16_bits bit_simps)
  show "CFE_MSG_GetHasSecondaryHeader (Some m) (Some b) = (CFE_SUCCESS, Some (h_shdr (pri_abs m)))"
    using high_byte_and [of "0x0800" m 0]
    by (simp add: pri_abs_def) (simp add: uint16_bits bit_simps)
  show "CFE_MSG_GetApId (Some m) (Some v) = (CFE_SUCCESS, Some (h_apid (pri_abs m)))"
    by (simp add: pri_abs_def word16_simps) (simp add: uint16_bits bit_simps)
  show "CFE_MSG_GetSegmentationFlag (Some m) (Some s) = (CFE_SUCCESS, Some (h_seg (pri_abs m)))"
    by (simp add: pri_abs_def word16_simps seg_of_def) (simp add: uint16_bits bit_simps)
  show "CFE_MSG_GetSequenceCount (Some m) (Some v) = (CFE_SUCCESS, Some (h_seq (pri_abs m)))"
    by (simp add: pri_abs_def word16_simps) (simp add: uint16_bits bit_simps)
  show "CFE_MSG_GetSize (Some m) (Some n) = (CFE_SUCCESS, Some (h_size (pri_abs m)))"
    by (simp add: pri_abs_def ucast_word16 bytes_add)
qed

lemma pri_code_spec:
  "(case pri_spec u (pri_abs m) of
       None \<Rightarrow> pri_code u (Some m) = (CFE_MSG_BAD_ARGUMENT, Some m)
     | Some h \<Rightarrow> (\<exists>m'. pri_code u (Some m) = (CFE_SUCCESS, Some m') \<and> pri_abs m' = h \<and> outside 0 6 m' = outside 0 6 m))
   \<and> pri_code u None = (CFE_MSG_BAD_ARGUMENT, None)"
proof (cases u)
  case (Set_Version v)
  then show ?thesis using pri_version [of v m] by (auto simp: word_less_nat_alt)
next
  case (Set_Type t)
  then show ?thesis using pri_type [of m] by (cases t) auto
next
  case (Set_Shdr b)
  then show ?thesis using pri_shdr [of m] by (cases b) auto
next
  case (Set_ApId v)
  then show ?thesis using pri_apid [of v m] by auto
next
  case (Set_Seg s)
  then show ?thesis using pri_seg [of s _ m] by (cases s) auto
next
  case (Set_Seq v)
  then show ?thesis using pri_seq [of v m] by auto
next
  case (Set_Size n)
  then show ?thesis using pri_size [of n m]
    by (auto simp: word_less_nat_alt Let_def)
qed

text \<open>C16. Every setter of the primary header implements its update of the abstract header: for a value
  the field can hold it succeeds, the abstract header changes in that field only and no byte outside
  the six header bytes changes; for any other value it returns \<^verbatim>\<open>CFE_MSG_BAD_ARGUMENT\<close> and
  leaves the message alone; a NULL message is rejected.\<close>

theorem pri_setters_refine:
  "(case pri_spec u (pri_abs m) of
       None \<Rightarrow> pri_code u (Some m) = (CFE_MSG_BAD_ARGUMENT, Some m)
     | Some h \<Rightarrow> (\<exists>m'. pri_code u (Some m) = (CFE_SUCCESS, Some m') \<and> pri_abs m' = h \<and> outside 0 6 m' = outside 0 6 m))
   \<and> pri_code u None = (CFE_MSG_BAD_ARGUMENT, None)"
  by (rule pri_code_spec)

text \<open>The defaults, on the abstract header.\<close>

lemma pri_code_step:
  assumes "pri_spec u (pri_abs m) = Some h"
  obtains m' where "pri_code u (Some m) = (CFE_SUCCESS, Some m')" "pri_abs m' = h"
    "outside 0 6 m' = outside 0 6 m"
  using pri_code_spec [of u m] assms by auto

lemma SetDefaultCCSDSPri_abs:
  "\<exists>m'. CFE_MSG_SetDefaultCCSDSPri (Some m) = Some m' \<and> outside 0 6 m' = outside 0 6 m \<and>
     pri_abs m' = (pri_abs m)\<lparr>h_version := 0, h_shdr := True, h_apid := 0,
                             h_seg := CFE_MSG_SegFlag_Unsegmented\<rparr>"
proof -
  obtain m1 where 1: "CFE_MSG_SetHasSecondaryHeader (Some m) True = (CFE_SUCCESS, Some m1)"
    "pri_abs m1 = (pri_abs m)\<lparr>h_shdr := True\<rparr>" "outside 0 6 m1 = outside 0 6 m"
    using pri_code_step [of "Set_Shdr True" m] by (simp del: CFE_MSG_SetHasSecondaryHeader.simps) blast
  obtain m2 where 2: "CFE_MSG_SetHeaderVersion (Some m1) 0 = (CFE_SUCCESS, Some m2)"
    "pri_abs m2 = (pri_abs m1)\<lparr>h_version := 0\<rparr>" "outside 0 6 m2 = outside 0 6 m1"
    using pri_code_step [of "Set_Version 0" m1] by (simp del: CFE_MSG_SetHeaderVersion.simps) blast
  obtain m3 where 3: "CFE_MSG_SetApId (Some m2) 0 = (CFE_SUCCESS, Some m3)"
    "pri_abs m3 = (pri_abs m2)\<lparr>h_apid := 0\<rparr>" "outside 0 6 m3 = outside 0 6 m2"
    using pri_code_step [of "Set_ApId 0" m2] by (simp del: CFE_MSG_SetApId.simps) blast
  obtain m4 where 4: "CFE_MSG_SetSegmentationFlag (Some m3) CFE_MSG_SegFlag_Unsegmented = (CFE_SUCCESS, Some m4)"
    "pri_abs m4 = (pri_abs m3)\<lparr>h_seg := CFE_MSG_SegFlag_Unsegmented\<rparr>" "outside 0 6 m4 = outside 0 6 m3"
    using pri_code_step [of "Set_Seg CFE_MSG_SegFlag_Unsegmented" m3]
    by (simp del: CFE_MSG_SetSegmentationFlag.simps) blast
  show ?thesis
    using 1 2 3 4 unfolding CFE_MSG_SetDefaultCCSDSPri_def Let_def by simp
qed

lemma unat_GetNextSequenceCount:
  assumes "unat s < 2 ^ 14"
  shows "unat (CFE_MSG_GetNextSequenceCount s) = (unat s + 1) mod 2 ^ 14"
proof (cases "unat s = 2 ^ 14 - 1")
  case True
  then have "s = 0x3FFF" by (simp add: word_unat_eq_iff)
  then show ?thesis by (simp add: CFE_MSG_GetNextSequenceCount_def)
next
  case False
  then show ?thesis using assms
    by (auto simp: CFE_MSG_GetNextSequenceCount_def Let_def word_less_nat_alt unat_word_ariths)
qed

lemma GetNextSequenceCount_lt: "unat (CFE_MSG_GetNextSequenceCount s) < 2 ^ 14"
  by (auto simp: CFE_MSG_GetNextSequenceCount_def Let_def word_less_nat_alt)

text \<open>C18. The sequence counter: counting \<open>n\<close> messages from 0 yields \<open>n\<close> modulo \<open>2^14\<close>, and whatever
  16-bit value was stored, the next count is one that \<^verbatim>\<open>CFE_MSG_SetSequenceCount\<close> accepts and
  \<^verbatim>\<open>CFE_MSG_GetSequenceCount\<close> reads back.\<close>

theorem sequence_count_cycle:
  "unat ((CFE_MSG_GetNextSequenceCount ^^ n) 0) = n mod 2 ^ 14 \<and>
   fst (CFE_MSG_SetSequenceCount (Some m) (CFE_MSG_GetNextSequenceCount s)) = CFE_SUCCESS \<and>
   CFE_MSG_GetSequenceCount (snd (CFE_MSG_SetSequenceCount (Some m) (CFE_MSG_GetNextSequenceCount s)))
       (Some v) = (CFE_SUCCESS, Some (CFE_MSG_GetNextSequenceCount s))"
proof (intro conjI)
  show "unat ((CFE_MSG_GetNextSequenceCount ^^ n) 0) = n mod 2 ^ 14"
    by (induction n) (simp_all add: unat_GetNextSequenceCount mod_Suc_eq)
  let ?s = "CFE_MSG_GetNextSequenceCount s"
  have *: "pri_spec (Set_Seq ?s) (pri_abs m) = Some ((pri_abs m)\<lparr>h_seq := ?s\<rparr>)"
    using GetNextSequenceCount_lt [of s] by simp
  obtain m' where "CFE_MSG_SetSequenceCount (Some m) ?s = (CFE_SUCCESS, Some m')"
    "pri_abs m' = (pri_abs m)\<lparr>h_seq := ?s\<rparr>"
    using pri_code_step [OF *] by (simp only: pri_code.simps) blast
  then show "fst (CFE_MSG_SetSequenceCount (Some m) (CFE_MSG_GetNextSequenceCount s)) = CFE_SUCCESS"
    "CFE_MSG_GetSequenceCount (snd (CFE_MSG_SetSequenceCount (Some m) (CFE_MSG_GetNextSequenceCount s)))
       (Some v) = (CFE_SUCCESS, Some (CFE_MSG_GetNextSequenceCount s))"
    by (simp_all del: CFE_MSG_SetSequenceCount.simps CFE_MSG_GetSequenceCount.simps add: pri_getters)
qed

section \<open>Abstract extended header\<close>

record ccsds_ext =
  x_edsver :: uint16
  x_endian :: CFE_MSG_Endian_t
  x_playback :: CFE_MSG_PlaybackFlag_t
  x_subsys :: uint16
  x_system :: uint16

definition ext_abs :: "CFE_MSG_Message_t \<Rightarrow> ccsds_ext" where
  "ext_abs m =
     \<lparr>x_edsver = drop_bit 11 (word16 m Ext_Subsystem),
      x_endian = (if bit (word16 m Ext_Subsystem) 10 then CFE_MSG_Endian_Little else CFE_MSG_Endian_Big),
      x_playback = (if bit (word16 m Ext_Subsystem) 9
                    then CFE_MSG_PlayFlag_Playback else CFE_MSG_PlayFlag_Original),
      x_subsys = take_bit 9 (word16 m Ext_Subsystem),
      x_system = word16 m Ext_SystemId\<rparr>"

datatype ext_update =
    Set_EDSVersion uint16
  | Set_Endian CFE_MSG_Endian_t
  | Set_Playback CFE_MSG_PlaybackFlag_t
  | Set_Subsystem uint16
  | Set_System uint16

fun ext_code :: "ext_update \<Rightarrow> CFE_MSG_Message_t option \<Rightarrow> CFE_Status_t \<times> CFE_MSG_Message_t option" where
  "ext_code (Set_EDSVersion v) = (\<lambda>p. CFE_MSG_SetEDSVersion p v)"
| "ext_code (Set_Endian e) = (\<lambda>p. CFE_MSG_SetEndian p e)"
| "ext_code (Set_Playback f) = (\<lambda>p. CFE_MSG_SetPlaybackFlag p f)"
| "ext_code (Set_Subsystem v) = (\<lambda>p. CFE_MSG_SetSubsystem p v)"
| "ext_code (Set_System v) = (\<lambda>p. CFE_MSG_SetSystem p v)"

fun ext_spec :: "ext_update \<Rightarrow> ccsds_ext \<Rightarrow> ccsds_ext option" where
  "ext_spec (Set_EDSVersion v) h = (if unat v < 2 ^ 5 then Some (h\<lparr>x_edsver := v\<rparr>) else None)"
| "ext_spec (Set_Endian e) h = (if e = CFE_MSG_Endian_Invalid then None else Some (h\<lparr>x_endian := e\<rparr>))"
| "ext_spec (Set_Playback f) h = (if f = CFE_MSG_PlayFlag_Invalid then None else Some (h\<lparr>x_playback := f\<rparr>))"
| "ext_spec (Set_Subsystem v) h = (if unat v < 2 ^ 9 then Some (h\<lparr>x_subsys := v\<rparr>) else None)"
| "ext_spec (Set_System v) h = Some (h\<lparr>x_system := v\<rparr>)"

lemma ext_edsver: "unat v < 2 ^ 5 \<Longrightarrow>
  ext_abs (CFE_MSG_SetHeaderField m 6 (push_bit 11 v) 0xF800) = ext_abs m\<lparr>x_edsver := v\<rparr>"
  unfolding less_exp_take_bit
  by (simp add: ext_abs_def word16_simps) (simp add: uint16_bits bit_simps)

lemma ext_subsys: "unat v < 2 ^ 9 \<Longrightarrow>
  ext_abs (CFE_MSG_SetHeaderField m 6 v 0x1FF) = ext_abs m\<lparr>x_subsys := v\<rparr>"
  unfolding less_exp_take_bit
  by (simp add: ext_abs_def word16_simps) (simp add: uint16_bits bit_simps)

lemma ext_endian:
  "ext_abs (m(6 := m 6 OR ucast (drop_bit 8 (0x0400 :: uint16)))) = ext_abs m\<lparr>x_endian := CFE_MSG_Endian_Little\<rparr>"
  "ext_abs (m(6 := m 6 AND NOT (ucast (drop_bit 8 (0x0400 :: uint16))))) =
     ext_abs m\<lparr>x_endian := CFE_MSG_Endian_Big\<rparr>"
  by (simp_all add: ext_abs_def word16_simps uint16_bits bit_simps bit_word16)

lemma ext_playback:
  "ext_abs (m(6 := m 6 OR ucast (drop_bit 8 (0x0200 :: uint16)))) =
     ext_abs m\<lparr>x_playback := CFE_MSG_PlayFlag_Playback\<rparr>"
  "ext_abs (m(6 := m 6 AND NOT (ucast (drop_bit 8 (0x0200 :: uint16))))) =
     ext_abs m\<lparr>x_playback := CFE_MSG_PlayFlag_Original\<rparr>"
  by (simp_all add: ext_abs_def word16_simps uint16_bits bit_simps bit_word16)

lemma ext_system:
  "ext_abs (m(8 := ucast (drop_bit 8 v AND 0xFF), 9 := ucast (v AND 0xFF))) = ext_abs m\<lparr>x_system := v\<rparr>"
  using word16_bytes(2) [of m 8 v] by (simp add: ext_abs_def word16_simps)

lemma ext_code_spec:
  "(case ext_spec u (ext_abs m) of
       None \<Rightarrow> ext_code u (Some m) = (CFE_MSG_BAD_ARGUMENT, Some m)
     | Some h \<Rightarrow> (\<exists>m'. ext_code u (Some m) = (CFE_SUCCESS, Some m') \<and> ext_abs m' = h \<and>
                       outside 6 10 m' = outside 6 10 m))
   \<and> ext_code u None = (CFE_MSG_BAD_ARGUMENT, None)"
proof (cases u)
  case (Set_EDSVersion v)
  then show ?thesis using ext_edsver [of v m] by (auto simp: word_less_nat_alt)
next
  case (Set_Endian e)
  then show ?thesis using ext_endian [of m] by (cases e) auto
next
  case (Set_Playback f)
  then show ?thesis using ext_playback [of m] by (cases f) auto
next
  case (Set_Subsystem v)
  then show ?thesis using ext_subsys [of v m] by auto
next
  case (Set_System v)
  then show ?thesis using ext_system [of m v] by auto
qed

lemma ext_getters:
  "CFE_MSG_GetEDSVersion (Some m) (Some v) = (CFE_SUCCESS, Some (x_edsver (ext_abs m)))"
  "CFE_MSG_GetEndian (Some m) (Some e) = (CFE_SUCCESS, Some (x_endian (ext_abs m)))"
  "CFE_MSG_GetPlaybackFlag (Some m) (Some f) = (CFE_SUCCESS, Some (x_playback (ext_abs m)))"
  "CFE_MSG_GetSubsystem (Some m) (Some v) = (CFE_SUCCESS, Some (x_subsys (ext_abs m)))"
  "CFE_MSG_GetSystem (Some m) (Some v) = (CFE_SUCCESS, Some (x_system (ext_abs m)))"
proof -
  show "CFE_MSG_GetEDSVersion (Some m) (Some v) = (CFE_SUCCESS, Some (x_edsver (ext_abs m)))"
    by (simp add: ext_abs_def word16_simps) (simp add: uint16_bits bit_simps)
  show "CFE_MSG_GetEndian (Some m) (Some e) = (CFE_SUCCESS, Some (x_endian (ext_abs m)))"
    using high_byte_and [of "0x0400" m 6]
    by (simp add: ext_abs_def) (simp add: uint16_bits bit_simps)
  show "CFE_MSG_GetPlaybackFlag (Some m) (Some f) = (CFE_SUCCESS, Some (x_playback (ext_abs m)))"
    using high_byte_and [of "0x0200" m 6]
    by (simp add: ext_abs_def) (simp add: uint16_bits bit_simps)
  show "CFE_MSG_GetSubsystem (Some m) (Some v) = (CFE_SUCCESS, Some (x_subsys (ext_abs m)))"
    by (simp add: ext_abs_def word16_simps) (simp add: uint16_bits bit_simps)
  show "CFE_MSG_GetSystem (Some m) (Some v) = (CFE_SUCCESS, Some (x_system (ext_abs m)))"
    by (simp add: ext_abs_def word16_def bytes_add)
qed

lemma ext_code_step:
  assumes "ext_spec u (ext_abs m) = Some h"
  obtains m' where "ext_code u (Some m) = (CFE_SUCCESS, Some m')" "ext_abs m' = h"
    "outside 6 10 m' = outside 6 10 m"
  using ext_code_spec [of u m] assms by auto

lemma SetDefaultCCSDSExt_abs:
  "\<exists>m'. CFE_MSG_SetDefaultCCSDSExt little scid (Some m) = Some m' \<and> outside 6 10 m' = outside 6 10 m \<and>
     ext_abs m' = (ext_abs m)\<lparr>x_edsver := 1, x_subsys := 0, x_system := ucast scid,
       x_endian := (if little then CFE_MSG_Endian_Little else CFE_MSG_Endian_Big)\<rparr>"
proof -
  let ?e = "if little then CFE_MSG_Endian_Little else CFE_MSG_Endian_Big"
  obtain m1 where 1: "CFE_MSG_SetEDSVersion (Some m) 1 = (CFE_SUCCESS, Some m1)"
    "ext_abs m1 = (ext_abs m)\<lparr>x_edsver := 1\<rparr>" "outside 6 10 m1 = outside 6 10 m"
    using ext_code_step [of "Set_EDSVersion 1" m] by (simp del: CFE_MSG_SetEDSVersion.simps) blast
  have e: "ext_spec (Set_Endian ?e) (ext_abs m1) = Some ((ext_abs m1)\<lparr>x_endian := ?e\<rparr>)"
    by (cases little) simp_all
  obtain m2 where 2: "CFE_MSG_SetEndian (Some m1) ?e = (CFE_SUCCESS, Some m2)"
    "ext_abs m2 = (ext_abs m1)\<lparr>x_endian := ?e\<rparr>" "outside 6 10 m2 = outside 6 10 m1"
    using ext_code_step [OF e] by (simp only: ext_code.simps) blast
  obtain m3 where 3: "CFE_MSG_SetSubsystem (Some m2) 0 = (CFE_SUCCESS, Some m3)"
    "ext_abs m3 = (ext_abs m2)\<lparr>x_subsys := 0\<rparr>" "outside 6 10 m3 = outside 6 10 m2"
    using ext_code_step [of "Set_Subsystem 0" m2] by (simp del: CFE_MSG_SetSubsystem.simps) blast
  obtain m4 where 4: "CFE_MSG_SetSystem (Some m3) (ucast scid) = (CFE_SUCCESS, Some m4)"
    "ext_abs m4 = (ext_abs m3)\<lparr>x_system := ucast scid\<rparr>" "outside 6 10 m4 = outside 6 10 m3"
    using ext_code_step [of "Set_System (ucast scid)" m3] by (simp del: CFE_MSG_SetSystem.simps) blast
  show ?thesis
    using 1 2 3 4 unfolding CFE_MSG_SetDefaultCCSDSExt_def Let_def by simp
qed

text \<open>C17. Every setter of the extended header implements its update of the abstract extended header,
  rejects exactly the values the field cannot hold, and changes no byte outside the four bytes of the
  extended header; a NULL message is rejected.\<close>

theorem ext_setters_refine:
  "(case ext_spec u (ext_abs m) of
       None \<Rightarrow> ext_code u (Some m) = (CFE_MSG_BAD_ARGUMENT, Some m)
     | Some h \<Rightarrow> (\<exists>m'. ext_code u (Some m) = (CFE_SUCCESS, Some m') \<and> ext_abs m' = h \<and>
                       outside 6 10 m' = outside 6 10 m))
   \<and> ext_code u None = (CFE_MSG_BAD_ARGUMENT, None)"
  by (rule ext_code_spec)

text \<open>Every getter of the primary and of the extended header returns its field of the abstract
  header.\<close>

theorem header_getters_select:
  "CFE_MSG_GetHeaderVersion (Some m) (Some v) = (CFE_SUCCESS, Some (h_version (pri_abs m))) \<and>
   CFE_MSG_GetType (Some m) (Some t) = (CFE_SUCCESS, Some (h_type (pri_abs m))) \<and>
   CFE_MSG_GetHasSecondaryHeader (Some m) (Some b) = (CFE_SUCCESS, Some (h_shdr (pri_abs m))) \<and>
   CFE_MSG_GetApId (Some m) (Some v) = (CFE_SUCCESS, Some (h_apid (pri_abs m))) \<and>
   CFE_MSG_GetSegmentationFlag (Some m) (Some s) = (CFE_SUCCESS, Some (h_seg (pri_abs m))) \<and>
   CFE_MSG_GetSequenceCount (Some m) (Some v) = (CFE_SUCCESS, Some (h_seq (pri_abs m))) \<and>
   CFE_MSG_GetSize (Some m) (Some n) = (CFE_SUCCESS, Some (h_size (pri_abs m))) \<and>
   CFE_MSG_GetEDSVersion (Some m) (Some v) = (CFE_SUCCESS, Some (x_edsver (ext_abs m))) \<and>
   CFE_MSG_GetEndian (Some m) (Some e) = (CFE_SUCCESS, Some (x_endian (ext_abs m))) \<and>
   CFE_MSG_GetPlaybackFlag (Some m) (Some f) = (CFE_SUCCESS, Some (x_playback (ext_abs m))) \<and>
   CFE_MSG_GetSubsystem (Some m) (Some v) = (CFE_SUCCESS, Some (x_subsys (ext_abs m))) \<and>
   CFE_MSG_GetSystem (Some m) (Some v) = (CFE_SUCCESS, Some (x_system (ext_abs m)))"
  by (simp only: pri_getters ext_getters simp_thms)

end
