(* ===== verification/CFS_Msg.thy ===== *)
theory CFS_Msg
  imports CFS_MsgHeader
begin

text \<open>
  The rest of the message module: message IDs (\<^verbatim>\<open>cfe_msg_msgid_v1.c\<close>, \<^verbatim>\<open>cfe_msg_msgid_v2.c\<close>,
  \<^verbatim>\<open>cfe_msg_msgid_shared.c\<close>, \<^verbatim>\<open>cfe_sb_msg_id_util.c\<close>), the secondary headers
  (\<^verbatim>\<open>cfe_msg_sechdr_*.c\<close>), initialisation (\<^verbatim>\<open>cfe_msg_init.c\<close>), the integrity hooks
  (\<^verbatim>\<open>cfe_msg_integrity.c\<close>) and the user data helpers of \<^verbatim>\<open>cfe_sb_util.c\<close>.

  The build chooses one of two headers and one of two message ID implementations.  The choice is the
  record \<open>msg_build\<close>; the contract both message ID implementations keep is the locale
  \<open>msgid_impl\<close>, interpreted on the two of them.
\<close>

section \<open>Build configuration\<close>

record msg_build =
  hdr_ext :: bool          \<comment> \<open>\<^verbatim>\<open>default_cfe_msg_hdr_priext.h\<close> rather than \<^verbatim>\<open>default_cfe_msg_hdr_pri.h\<close>\<close>
  msgid_v2 :: bool         \<comment> \<open>\<^verbatim>\<open>cfe_msg_msgid_v2.c\<close> rather than \<^verbatim>\<open>cfe_msg_msgid_v1.c\<close>\<close>
  little_endian :: bool    \<comment> \<open>\<^verbatim>\<open>CFE_PLATFORM_ENDIAN\<close>\<close>
  spacecraft_id :: uint32  \<comment> \<open>\<^verbatim>\<open>CFE_PSP_GetSpacecraftId()\<close>\<close>

text \<open>The version 2 message ID lives in the extended header, so it compiles only with that header.\<close>

definition build_ok :: "msg_build \<Rightarrow> bool" where
  "build_ok b \<longleftrightarrow> (msgid_v2 b \<longrightarrow> hdr_ext b)"

definition sizeof_CFE_MSG_Message_t :: "msg_build \<Rightarrow> nat" where
  "sizeof_CFE_MSG_Message_t b = (if hdr_ext b then 10 else 6)"

definition sizeof_CFE_MSG_CommandHeader_t :: "msg_build \<Rightarrow> nat" where
  "sizeof_CFE_MSG_CommandHeader_t b = (if hdr_ext b then 16 else 8)"

definition sizeof_CFE_MSG_TelemetryHeader_t :: "msg_build \<Rightarrow> nat" where
  "sizeof_CFE_MSG_TelemetryHeader_t b = 16"

text \<open>Offsets of the members of the secondary headers, which follow \<^verbatim>\<open>CFE_MSG_Message_t\<close>.\<close>

abbreviation (input) Sec_FunctionCode :: "msg_build \<Rightarrow> nat" where
  "Sec_FunctionCode b \<equiv> sizeof_CFE_MSG_Message_t b"
abbreviation (input) Sec_Checksum :: "msg_build \<Rightarrow> nat" where
  "Sec_Checksum b \<equiv> sizeof_CFE_MSG_Message_t b + 1"
abbreviation (input) Sec_Time :: "msg_build \<Rightarrow> nat" where
  "Sec_Time b \<equiv> sizeof_CFE_MSG_Message_t b"

section \<open>Message IDs\<close>

text \<open>\<^verbatim>\<open>CFE_SB_MsgId_t\<close> wraps its 32-bit value in a structure.\<close>

datatype CFE_SB_MsgId_t = CFE_SB_ValueToMsgId (CFE_SB_MsgIdToValue: uint32)

abbreviation (input) CFE_SB_INVALID_MSG_ID :: CFE_SB_MsgId_t where
  "CFE_SB_INVALID_MSG_ID \<equiv> CFE_SB_ValueToMsgId 0"
abbreviation (input) CFE_PLATFORM_SB_HIGHEST_VALID_MSGID :: uint32 where
  "CFE_PLATFORM_SB_HIGHEST_VALID_MSGID \<equiv> 0x1FFF"

definition CFE_SB_IsValidMsgId :: "CFE_SB_MsgId_t \<Rightarrow> bool" where
  "CFE_SB_IsValidMsgId MsgId \<longleftrightarrow>
     MsgId \<noteq> CFE_SB_INVALID_MSG_ID \<and> CFE_SB_MsgIdToValue MsgId \<le> CFE_PLATFORM_SB_HIGHEST_VALID_MSGID"

fun CFE_MSG_GetMsgId_v1 ::
    "CFE_MSG_Message_t option \<Rightarrow> CFE_SB_MsgId_t option \<Rightarrow> CFE_Status_t \<times> CFE_SB_MsgId_t option" where
  "CFE_MSG_GetMsgId_v1 (Some m) (Some _) =
     (let msgidval = push_bit 8 (ucast (m Pri_StreamId)) + ucast (m (Pri_StreamId + 1))
      in (CFE_SUCCESS, Some (CFE_SB_ValueToMsgId msgidval)))"
| "CFE_MSG_GetMsgId_v1 _ MsgId = (CFE_MSG_BAD_ARGUMENT, MsgId)"

fun CFE_MSG_SetMsgId_v1 ::
    "CFE_MSG_Message_t option \<Rightarrow> CFE_SB_MsgId_t \<Rightarrow> CFE_Status_t \<times> CFE_MSG_Message_t option" where
  "CFE_MSG_SetMsgId_v1 None MsgId = (CFE_MSG_BAD_ARGUMENT, None)"
| "CFE_MSG_SetMsgId_v1 (Some m) MsgId =
     (let msgidval = CFE_SB_MsgIdToValue MsgId in
      if \<not> CFE_SB_IsValidMsgId MsgId then (CFE_MSG_BAD_ARGUMENT, Some m)
      else (CFE_SUCCESS,
            Some (m(Pri_StreamId := ucast (drop_bit 8 msgidval AND 0xFF),
                    Pri_StreamId + 1 := ucast (msgidval AND 0xFF)))))"

abbreviation (input) CFE_MSG_MSGID_APID_MASK :: uint32 where "CFE_MSG_MSGID_APID_MASK \<equiv> 0x007F"
abbreviation (input) CFE_MSG_MSGID_TYPE_MASK :: uint32 where "CFE_MSG_MSGID_TYPE_MASK \<equiv> 0x0080"
abbreviation (input) CFE_MSG_MSGID_SUBSYS_MASK :: uint32 where "CFE_MSG_MSGID_SUBSYS_MASK \<equiv> 0xFF00"

fun CFE_MSG_GetMsgId_v2 ::
    "CFE_MSG_Message_t option \<Rightarrow> CFE_SB_MsgId_t option \<Rightarrow> CFE_Status_t \<times> CFE_SB_MsgId_t option" where
  "CFE_MSG_GetMsgId_v2 (Some m) (Some _) =
     (let type = snd (CFE_MSG_GetType (Some m) (Some CFE_MSG_Type_Invalid));
          msgidval = ucast (m (Pri_StreamId + 1)) AND CFE_MSG_MSGID_APID_MASK;
          msgidval = (if type = Some CFE_MSG_Type_Cmd then msgidval OR CFE_MSG_MSGID_TYPE_MASK
                      else msgidval);
          msgidval = msgidval OR (push_bit 8 (ucast (m (Ext_Subsystem + 1))) AND CFE_MSG_MSGID_SUBSYS_MASK)
      in (CFE_SUCCESS, Some (CFE_SB_ValueToMsgId msgidval)))"
| "CFE_MSG_GetMsgId_v2 _ MsgId = (CFE_MSG_BAD_ARGUMENT, MsgId)"

fun CFE_MSG_SetMsgId_v2 ::
    "CFE_MSG_Message_t option \<Rightarrow> CFE_SB_MsgId_t \<Rightarrow> CFE_Status_t \<times> CFE_MSG_Message_t option" where
  "CFE_MSG_SetMsgId_v2 None MsgId = (CFE_MSG_BAD_ARGUMENT, None)"
| "CFE_MSG_SetMsgId_v2 (Some m) MsgId =
     (let msgidval = CFE_SB_MsgIdToValue MsgId in
      if \<not> CFE_SB_IsValidMsgId MsgId then (CFE_MSG_BAD_ARGUMENT, Some m)
      else
        let m = m(Pri_StreamId + 1 := ucast ((ucast (m (Pri_StreamId + 1)) AND NOT CFE_MSG_MSGID_APID_MASK)
                                              OR (msgidval AND CFE_MSG_MSGID_APID_MASK)));
            m = m(Ext_Subsystem + 1 := ucast (drop_bit 8 (msgidval AND CFE_MSG_MSGID_SUBSYS_MASK)))
        in (CFE_SUCCESS,
            snd (if msgidval AND CFE_MSG_MSGID_TYPE_MASK \<noteq> 0
                 then CFE_MSG_SetType (Some m) CFE_MSG_Type_Cmd
                 else CFE_MSG_SetType (Some m) CFE_MSG_Type_Tlm)))"

definition CFE_MSG_GetMsgId ::
    "msg_build \<Rightarrow> CFE_MSG_Message_t option \<Rightarrow> CFE_SB_MsgId_t option
       \<Rightarrow> CFE_Status_t \<times> CFE_SB_MsgId_t option" where
  "CFE_MSG_GetMsgId b = (if msgid_v2 b then CFE_MSG_GetMsgId_v2 else CFE_MSG_GetMsgId_v1)"

definition CFE_MSG_SetMsgId ::
    "msg_build \<Rightarrow> CFE_MSG_Message_t option \<Rightarrow> CFE_SB_MsgId_t \<Rightarrow> CFE_Status_t \<times> CFE_MSG_Message_t option" where
  "CFE_MSG_SetMsgId b = (if msgid_v2 b then CFE_MSG_SetMsgId_v2 else CFE_MSG_SetMsgId_v1)"

text \<open>The local message of \<^verbatim>\<open>CFE_MSG_GetTypeFromMsgId\<close> is zeroed before use.\<close>

fun CFE_MSG_GetTypeFromMsgId ::
    "msg_build \<Rightarrow> CFE_SB_MsgId_t \<Rightarrow> CFE_MSG_Type_t option \<Rightarrow> CFE_Status_t \<times> CFE_MSG_Type_t option" where
  "CFE_MSG_GetTypeFromMsgId b MsgId None = (CFE_MSG_BAD_ARGUMENT, None)"
| "CFE_MSG_GetTypeFromMsgId b MsgId (Some Type) =
     (let (Status, msg) = CFE_MSG_SetMsgId b (Some (\<lambda>_. 0)) MsgId in
      if Status = CFE_SUCCESS then CFE_MSG_GetType msg (Some Type) else (Status, Some Type))"

subsection \<open>Topic IDs\<close>

abbreviation (input) CFE_CPU1_CMD_MID_BASE :: uint32 where "CFE_CPU1_CMD_MID_BASE \<equiv> 0x1800"
abbreviation (input) CFE_CPU1_TLM_MID_BASE :: uint32 where "CFE_CPU1_TLM_MID_BASE \<equiv> 0x0800"
abbreviation (input) CFE_GLOBAL_CMD_MID_BASE :: uint32 where "CFE_GLOBAL_CMD_MID_BASE \<equiv> 0x1860"
abbreviation (input) CFE_GLOBAL_TLM_MID_BASE :: uint32 where "CFE_GLOBAL_TLM_MID_BASE \<equiv> 0x0860"

definition CFE_SB_GlobalCmdTopicIdToMsgId :: "uint16 \<Rightarrow> uint32" where
  "CFE_SB_GlobalCmdTopicIdToMsgId TopicId = CFE_GLOBAL_CMD_MID_BASE OR ucast TopicId"

definition CFE_SB_GlobalTlmTopicIdToMsgId :: "uint16 \<Rightarrow> uint32" where
  "CFE_SB_GlobalTlmTopicIdToMsgId TopicId = CFE_GLOBAL_TLM_MID_BASE OR ucast TopicId"

definition CFE_SB_CmdTopicIdToMsgId :: "uint16 \<Rightarrow> uint16 \<Rightarrow> uint32" where
  "CFE_SB_CmdTopicIdToMsgId TopicId InstanceNum =
     (if InstanceNum = 0 then CFE_SB_GlobalTlmTopicIdToMsgId TopicId
      else CFE_CPU1_CMD_MID_BASE OR ucast TopicId)"

definition CFE_SB_TlmTopicIdToMsgId :: "uint16 \<Rightarrow> uint16 \<Rightarrow> uint32" where
  "CFE_SB_TlmTopicIdToMsgId TopicId InstanceNum =
     (if InstanceNum = 0 then CFE_SB_GlobalTlmTopicIdToMsgId TopicId
      else CFE_CPU1_TLM_MID_BASE OR ucast TopicId)"

text \<open>The argument \<open>ProcessorId\<close> is the value of \<^verbatim>\<open>CFE_PSP_GetProcessorId()\<close>.\<close>

definition CFE_SB_LocalCmdTopicIdToMsgId :: "uint32 \<Rightarrow> uint16 \<Rightarrow> uint32" where
  "CFE_SB_LocalCmdTopicIdToMsgId ProcessorId TopicId = CFE_SB_CmdTopicIdToMsgId TopicId (ucast ProcessorId)"

definition CFE_SB_LocalTlmTopicIdToMsgId :: "uint32 \<Rightarrow> uint16 \<Rightarrow> uint32" where
  "CFE_SB_LocalTlmTopicIdToMsgId ProcessorId TopicId = CFE_SB_TlmTopicIdToMsgId TopicId (ucast ProcessorId)"

section \<open>Command secondary header\<close>

text \<open>The guard shared by the secondary header functions.\<close>

definition is_type_with_sechdr :: "CFE_MSG_Type_t \<Rightarrow> CFE_MSG_Message_t \<Rightarrow> bool" where
  "is_type_with_sechdr t m \<longleftrightarrow>
     CFE_MSG_GetType (Some m) (Some CFE_MSG_Type_Invalid) = (CFE_SUCCESS, Some t) \<and>
     CFE_MSG_GetHasSecondaryHeader (Some m) (Some False) = (CFE_SUCCESS, Some True)"

primrec xor_bytes :: "CFE_MSG_Message_t \<Rightarrow> nat \<Rightarrow> nat \<Rightarrow> uint32 \<Rightarrow> uint32" where
  "xor_bytes m i 0 chksum = chksum"
| "xor_bytes m i (Suc PktLen) chksum = xor_bytes m (Suc i) PktLen (chksum XOR ucast (m i))"

definition CFE_MSG_ComputeCheckSum :: "CFE_MSG_Message_t \<Rightarrow> uint32" where
  "CFE_MSG_ComputeCheckSum m =
     (case CFE_MSG_GetSize (Some m) (Some 0) of
        (_, Some PktLen) \<Rightarrow> xor_bytes m 0 (unat PktLen) 0xFF
      | (_, None) \<Rightarrow> 0xFF)"

fun CFE_MSG_GenerateChecksum ::
    "msg_build \<Rightarrow> CFE_MSG_Message_t option \<Rightarrow> CFE_Status_t \<times> CFE_MSG_Message_t option" where
  "CFE_MSG_GenerateChecksum b None = (CFE_MSG_BAD_ARGUMENT, None)"
| "CFE_MSG_GenerateChecksum b (Some m) =
     (if \<not> is_type_with_sechdr CFE_MSG_Type_Cmd m then (CFE_MSG_WRONG_MSG_TYPE, Some m)
      else let m = m(Sec_Checksum b := 0)
           in (CFE_SUCCESS, Some (m(Sec_Checksum b := ucast (CFE_MSG_ComputeCheckSum m)))))"

fun CFE_MSG_ValidateChecksum ::
    "CFE_MSG_Message_t option \<Rightarrow> bool option \<Rightarrow> CFE_Status_t \<times> bool option" where
  "CFE_MSG_ValidateChecksum (Some m) (Some v) =
     (if \<not> is_type_with_sechdr CFE_MSG_Type_Cmd m then (CFE_MSG_WRONG_MSG_TYPE, Some v)
      else (CFE_SUCCESS, Some (CFE_MSG_ComputeCheckSum m = 0)))"
| "CFE_MSG_ValidateChecksum _ IsValid = (CFE_MSG_BAD_ARGUMENT, IsValid)"

abbreviation (input) CFE_MSG_FC_MASK :: uint16 where "CFE_MSG_FC_MASK \<equiv> 0x7F"

fun CFE_MSG_GetFcnCode ::
    "msg_build \<Rightarrow> CFE_MSG_Message_t option \<Rightarrow> uint16 option \<Rightarrow> CFE_Status_t \<times> uint16 option" where
  "CFE_MSG_GetFcnCode b (Some m) (Some _) =
     (if \<not> is_type_with_sechdr CFE_MSG_Type_Cmd m then (CFE_MSG_WRONG_MSG_TYPE, Some 0)
      else (CFE_SUCCESS, Some (ucast (m (Sec_FunctionCode b)) AND CFE_MSG_FC_MASK)))"
| "CFE_MSG_GetFcnCode b _ FcnCode = (CFE_MSG_BAD_ARGUMENT, FcnCode)"

fun CFE_MSG_SetFcnCode ::
    "msg_build \<Rightarrow> CFE_MSG_Message_t option \<Rightarrow> uint16 \<Rightarrow> CFE_Status_t \<times> CFE_MSG_Message_t option" where
  "CFE_MSG_SetFcnCode b None FcnCode = (CFE_MSG_BAD_ARGUMENT, None)"
| "CFE_MSG_SetFcnCode b (Some m) FcnCode =
     (if FcnCode > CFE_MSG_FC_MASK then (CFE_MSG_BAD_ARGUMENT, Some m)
      else if \<not> is_type_with_sechdr CFE_MSG_Type_Cmd m then (CFE_MSG_WRONG_MSG_TYPE, Some m)
      else (CFE_SUCCESS, Some (m(Sec_FunctionCode b := ucast FcnCode))))"

section \<open>Telemetry secondary header\<close>

fun CFE_MSG_SetMsgTime ::
    "msg_build \<Rightarrow> CFE_MSG_Message_t option \<Rightarrow> CFE_TIME_SysTime_t \<Rightarrow> CFE_Status_t \<times> CFE_MSG_Message_t option" where
  "CFE_MSG_SetMsgTime b None NewTime = (CFE_MSG_BAD_ARGUMENT, None)"
| "CFE_MSG_SetMsgTime b (Some m) NewTime =
     (if \<not> is_type_with_sechdr CFE_MSG_Type_Tlm m then (CFE_MSG_WRONG_MSG_TYPE, Some m)
      else (CFE_SUCCESS,
            Some (m(Sec_Time b     := ucast (drop_bit 24 (Seconds NewTime) AND 0xFF),
                    Sec_Time b + 1 := ucast (drop_bit 16 (Seconds NewTime) AND 0xFF),
                    Sec_Time b + 2 := ucast (drop_bit 8 (Seconds NewTime) AND 0xFF),
                    Sec_Time b + 3 := ucast (Seconds NewTime AND 0xFF),
                    Sec_Time b + 4 := ucast (drop_bit 24 (Subseconds NewTime) AND 0xFF),
                    Sec_Time b + 5 := ucast (drop_bit 16 (Subseconds NewTime) AND 0xFF)))))"

fun CFE_MSG_GetMsgTime ::
    "msg_build \<Rightarrow> CFE_MSG_Message_t option \<Rightarrow> CFE_TIME_SysTime_t option
       \<Rightarrow> CFE_Status_t \<times> CFE_TIME_SysTime_t option" where
  "CFE_MSG_GetMsgTime b (Some m) (Some _) =
     (if \<not> is_type_with_sechdr CFE_MSG_Type_Tlm m
      then (CFE_MSG_WRONG_MSG_TYPE, Some \<lparr>Seconds = 0, Subseconds = 0\<rparr>)
      else (CFE_SUCCESS,
            Some \<lparr>Seconds = push_bit 24 (ucast (m (Sec_Time b))) + push_bit 16 (ucast (m (Sec_Time b + 1)))
                            + push_bit 8 (ucast (m (Sec_Time b + 2))) + ucast (m (Sec_Time b + 3)),
                  Subseconds = push_bit 24 (ucast (m (Sec_Time b + 4)))
                               + push_bit 16 (ucast (m (Sec_Time b + 5)))\<rparr>))"
| "CFE_MSG_GetMsgTime b _ Time = (CFE_MSG_BAD_ARGUMENT, Time)"

section \<open>Initialisation and integrity\<close>

definition CFE_MSG_InitDefaultHdr :: "msg_build \<Rightarrow> CFE_MSG_Message_t option \<Rightarrow> CFE_MSG_Message_t option" where
  "CFE_MSG_InitDefaultHdr b MsgPtr =
     (let MsgPtr = CFE_MSG_SetDefaultCCSDSPri MsgPtr
      in if hdr_ext b then CFE_MSG_SetDefaultCCSDSExt (little_endian b) (spacecraft_id b) MsgPtr
         else MsgPtr)"

definition memset_zero :: "CFE_MSG_Message_t \<Rightarrow> nat \<Rightarrow> CFE_MSG_Message_t" where
  "memset_zero m n = (\<lambda>i. if i < n then 0 else m i)"

fun CFE_MSG_Init ::
    "msg_build \<Rightarrow> CFE_MSG_Message_t option \<Rightarrow> CFE_SB_MsgId_t \<Rightarrow> size_t
       \<Rightarrow> CFE_Status_t \<times> CFE_MSG_Message_t option" where
  "CFE_MSG_Init b None MsgId Size = (CFE_MSG_BAD_ARGUMENT, None)"
| "CFE_MSG_Init b (Some m) MsgId Size =
     (let MsgPtr = CFE_MSG_InitDefaultHdr b (Some (memset_zero m (unat Size)));
          (status, MsgPtr) = CFE_MSG_SetMsgId b MsgPtr MsgId
      in if status = CFE_SUCCESS then CFE_MSG_SetSize MsgPtr Size else (status, MsgPtr))"

text \<open>The argument \<open>now\<close> is the value of \<^verbatim>\<open>CFE_TIME_GetTime()\<close>.\<close>

fun CFE_MSG_OriginationAction ::
    "msg_build \<Rightarrow> CFE_TIME_SysTime_t \<Rightarrow> CFE_MSG_Message_t option \<Rightarrow> size_t \<Rightarrow> bool option
       \<Rightarrow> CFE_Status_t \<times> CFE_MSG_Message_t option \<times> bool option" where
  "CFE_MSG_OriginationAction b now (Some m) BufferSize (Some _) =
     (let MsgPtr = snd (CFE_MSG_SetMsgTime b (Some m) now);
          MsgPtr = snd (CFE_MSG_GenerateChecksum b MsgPtr)
      in (CFE_SUCCESS, MsgPtr, Some True))"
| "CFE_MSG_OriginationAction b now MsgPtr BufferSize IsAcceptable =
     (CFE_MSG_BAD_ARGUMENT, MsgPtr, IsAcceptable)"

fun CFE_MSG_VerificationAction ::
    "CFE_MSG_Message_t option \<Rightarrow> size_t \<Rightarrow> bool option \<Rightarrow> CFE_Status_t \<times> bool option" where
  "CFE_MSG_VerificationAction (Some m) BufferSize (Some _) = (CFE_SUCCESS, Some True)"
| "CFE_MSG_VerificationAction _ BufferSize IsAcceptable = (CFE_MSG_BAD_ARGUMENT, IsAcceptable)"

section \<open>User data\<close>

fun CFE_SB_MsgHdrSize :: "msg_build \<Rightarrow> CFE_MSG_Message_t option \<Rightarrow> size_t" where
  "CFE_SB_MsgHdrSize b None = 0"
| "CFE_SB_MsgHdrSize b (Some m) =
     (let hassechdr = snd (CFE_MSG_GetHasSecondaryHeader (Some m) (Some False));
          type = snd (CFE_MSG_GetType (Some m) (Some CFE_MSG_Type_Invalid))
      in if hassechdr \<noteq> Some True then of_nat (sizeof_CFE_MSG_Message_t b)
         else if type = Some CFE_MSG_Type_Cmd then of_nat (sizeof_CFE_MSG_CommandHeader_t b)
         else if type = Some CFE_MSG_Type_Tlm then of_nat (sizeof_CFE_MSG_TelemetryHeader_t b)
         else 0)"

fun CFE_SB_GetUserDataLength :: "msg_build \<Rightarrow> CFE_MSG_Message_t option \<Rightarrow> size_t" where
  "CFE_SB_GetUserDataLength b None = 0"
| "CFE_SB_GetUserDataLength b (Some m) =
     (let TotalMsgSize = the (snd (CFE_MSG_GetSize (Some m) (Some 0)));
          HdrSize = CFE_SB_MsgHdrSize b (Some m)
      in TotalMsgSize - HdrSize)"

abbreviation (input) CFE_MISSION_SB_MAX_SB_MSG_SIZE :: size_t where
  "CFE_MISSION_SB_MAX_SB_MSG_SIZE \<equiv> 32768"

fun CFE_SB_SetUserDataLength :: "msg_build \<Rightarrow> CFE_MSG_Message_t option \<Rightarrow> size_t \<Rightarrow> CFE_MSG_Message_t option" where
  "CFE_SB_SetUserDataLength b None DataLength = None"
| "CFE_SB_SetUserDataLength b (Some m) DataLength =
     (let HdrSize = CFE_SB_MsgHdrSize b (Some m);
          TotalMsgSize = HdrSize + DataLength
      in if TotalMsgSize \<le> CFE_MISSION_SB_MAX_SB_MSG_SIZE
         then snd (CFE_MSG_SetSize (Some m) TotalMsgSize) else Some m)"

section \<open>Strings in messages\<close>

text \<open>A string pointer is the memory it points at, starting at index 0; source and destination are
  different objects.  Sizes are \<^verbatim>\<open>size_t\<close> and the result is an \<^verbatim>\<open>int32\<close>, as a word.  The copy loop of both
  functions, from the index \<open>i\<close> on, returns the destination, the index reached, the room left there and the count.\<close>

function copy_chars ::
    "(nat \<Rightarrow> uint8) \<Rightarrow> (nat \<Rightarrow> uint8) \<Rightarrow> nat \<Rightarrow> size_t \<Rightarrow> size_t \<Rightarrow> 32 word
       \<Rightarrow> (nat \<Rightarrow> uint8) \<times> nat \<times> size_t \<times> 32 word" where
  "copy_chars Dest Source i SourceMaxSize DestMaxSize Result =
     (if SourceMaxSize > 0 \<and> Source i \<noteq> 0 \<and> DestMaxSize > 0
      then copy_chars (Dest(i := Source i)) Source (i + 1) (SourceMaxSize - 1) (DestMaxSize - 1) (Result + 1)
      else (Dest, i, DestMaxSize, Result))"
  by pat_completeness auto
termination
  by (relation "measure (\<lambda>(Dest, Source, i, SourceMaxSize, DestMaxSize, Result). unat DestMaxSize)")
    (auto simp: unat_minus_one word_gt_0 word_less_nat_alt intro: measure_unat)

declare copy_chars.simps [simp del]

fun CFE_SB_MessageStringGet ::
    "(nat \<Rightarrow> uint8) option \<Rightarrow> (nat \<Rightarrow> uint8) \<Rightarrow> (nat \<Rightarrow> uint8) option \<Rightarrow> size_t \<Rightarrow> size_t
       \<Rightarrow> (CFE_Status_t + 32 word) \<times> (nat \<Rightarrow> uint8) option" where
  "CFE_SB_MessageStringGet None Source Default DestMaxSize SourceMaxSize = (Inl CFE_SB_BAD_ARGUMENT, None)"
| "CFE_SB_MessageStringGet (Some Dest) Source Default DestMaxSize SourceMaxSize =
     (if DestMaxSize = 0 then (Inl CFE_SB_BAD_ARGUMENT, Some Dest)
      else let (Source, SourceMaxSize) =
                 (case Default of
                    Some D \<Rightarrow> if SourceMaxSize = 0 \<or> Source 0 = 0 then (D, DestMaxSize)
                              else (Source, SourceMaxSize)
                  | None \<Rightarrow> (Source, SourceMaxSize));
               (Dest, i, _, Result) = copy_chars Dest Source 0 SourceMaxSize (DestMaxSize - 1) 0
           in (Inr Result, Some (Dest(i := 0))))"

fun CFE_SB_MessageStringSet ::
    "(nat \<Rightarrow> uint8) option \<Rightarrow> (nat \<Rightarrow> uint8) option \<Rightarrow> size_t \<Rightarrow> size_t
       \<Rightarrow> (CFE_Status_t + 32 word) \<times> (nat \<Rightarrow> uint8) option" where
  "CFE_SB_MessageStringSet (Some Dest) (Some Source) DestMaxSize SourceMaxSize =
     (let (Dest, i, DestMaxSize, Result) = copy_chars Dest Source 0 SourceMaxSize DestMaxSize 0
      in (Inr Result, Some (\<lambda>k. if i \<le> k \<and> k < i + unat DestMaxSize then 0 else Dest k)))"
| "CFE_SB_MessageStringSet Dest Source DestMaxSize SourceMaxSize = (Inl CFE_SB_BAD_ARGUMENT, Dest)"

section \<open>Message ID laws\<close>

lemma IsValidMsgId_bits: "CFE_SB_IsValidMsgId (CFE_SB_ValueToMsgId v) \<longleftrightarrow> v \<noteq> 0 \<and> take_bit 13 v = v"
  using less_exp_take_bit [of v 13] by (auto simp: CFE_SB_IsValidMsgId_def word_le_nat_alt)

lemma outsideD: "outside a b m' = outside a b m \<Longrightarrow> i < a \<or> b \<le> i \<Longrightarrow> m' i = m i"
  by (auto simp: outside_def fun_eq_iff dest: spec [of _ i])

text \<open>The contract of a message ID implementation: setting a valid ID succeeds and reads back, an
  invalid one is rejected, the type of the packet becomes a function of the ID, and only header bytes
  other than the sequence, length and system fields change.  \<open>hdr\<close> is the length of the header it
  uses.\<close>

locale msgid_impl =
  fixes getid :: "CFE_MSG_Message_t option \<Rightarrow> CFE_SB_MsgId_t option \<Rightarrow> CFE_Status_t \<times> CFE_SB_MsgId_t option"
    and setid :: "CFE_MSG_Message_t option \<Rightarrow> CFE_SB_MsgId_t \<Rightarrow> CFE_Status_t \<times> CFE_MSG_Message_t option"
    and hdr :: nat
  assumes hdr_le: "6 \<le> hdr" "hdr \<le> 10"
    and set_null: "setid None mid = (CFE_MSG_BAD_ARGUMENT, None)"
    and set_invalid: "\<not> CFE_SB_IsValidMsgId mid \<Longrightarrow> setid (Some m) mid = (CFE_MSG_BAD_ARGUMENT, Some m)"
    and set_valid: "CFE_SB_IsValidMsgId mid \<Longrightarrow> \<exists>m'. setid (Some m) mid = (CFE_SUCCESS, Some m')"
    and get_set: "setid (Some m) mid = (CFE_SUCCESS, Some m') \<Longrightarrow> getid (Some m') (Some x) = (CFE_SUCCESS, Some mid)"
    and set_type: "setid (Some m) mid = (CFE_SUCCESS, Some m') \<Longrightarrow> setid (Some k) mid = (CFE_SUCCESS, Some k')
          \<Longrightarrow> h_type (pri_abs m') = h_type (pri_abs k')"
    and set_frame: "setid (Some m) mid = (CFE_SUCCESS, Some m') \<Longrightarrow> 
          outside 0 hdr m' = outside 0 hdr m \<and> word16 m' 2 = word16 m 2 \<and> word16 m' 4 = word16 m 4 \<and>
          m' 6 = m 6 \<and> word16 m' 8 = word16 m 8"
    and get_reads: "outside 2 6 m' = outside 2 6 m \<Longrightarrow> getid (Some m') (Some x) = getid (Some m) (Some x)"
begin

lemma outside_mono: "outside 0 6 m' = outside 0 6 m \<Longrightarrow> outside 0 hdr m' = outside 0 hdr m"
  using hdr_le by (auto simp: outside_def fun_eq_iff) (metis le_less_trans not_less)

text \<open>The tail of \<^verbatim>\<open>CFE_MSG_Init\<close>: set the message ID, then the size.\<close>

lemma set_then_size:
  assumes "CFE_SB_IsValidMsgId mid" "7 \<le> unat n" "unat n < 2 ^ 16 + 7"
  obtains m' where
    "(case setid (Some m) mid of (st, p) \<Rightarrow> if st = CFE_SUCCESS then CFE_MSG_SetSize p n else (st, p))
       = (CFE_SUCCESS, Some m')"
    "getid (Some m') (Some x) = (CFE_SUCCESS, Some mid)"
    "h_size (pri_abs m') = n" "h_seq (pri_abs m') = h_seq (pri_abs m)" "h_seg (pri_abs m') = h_seg (pri_abs m)"
    "outside 0 hdr m' = outside 0 hdr m" "m' 6 = m 6" "word16 m' 8 = word16 m 8"
proof -
  obtain m1 where 1: "setid (Some m) mid = (CFE_SUCCESS, Some m1)" using set_valid assms by blast
  have *: "pri_spec (Set_Size n) (pri_abs m1) = Some ((pri_abs m1)\<lparr>h_size := n\<rparr>)" using assms by simp
  define m2 where "m2 = m1(4 := ucast (drop_bit 8 (n - 7) AND 0xFF), 5 := ucast ((n - 7) AND 0xFF))"
  have 2: "CFE_MSG_SetSize (Some m1) n = (CFE_SUCCESS, Some m2)"
    using assms by (auto simp: m2_def word_less_nat_alt Let_def)
  have 3: "pri_abs m2 = (pri_abs m1)\<lparr>h_size := n\<rparr>" using pri_size assms m2_def by blast
  have 4: "outside 2 6 m2 = outside 2 6 m1" "outside 0 6 m2 = outside 0 6 m1" by (simp_all add: m2_def)
  show thesis
  proof (rule that)
    show "(case setid (Some m) mid of (st, p) \<Rightarrow> if st = CFE_SUCCESS then CFE_MSG_SetSize p n else (st, p))
       = (CFE_SUCCESS, Some m2)" using 1 2 by (simp del: CFE_MSG_SetSize.simps)
    show "getid (Some m2) (Some x) = (CFE_SUCCESS, Some mid)"
      using get_reads [OF 4(1)] get_set [OF 1] by simp
    show "h_size (pri_abs m2) = n" "h_seq (pri_abs m2) = h_seq (pri_abs m)" "h_seg (pri_abs m2) = h_seg (pri_abs m)"
      using 3 set_frame [OF 1] by (simp_all add: pri_abs_def)
    show "outside 0 hdr m2 = outside 0 hdr m"
      using outside_mono [OF 4(2)] set_frame [OF 1] by simp
    show "m2 6 = m 6" "word16 m2 8 = word16 m 8"
      using set_frame [OF 1] by (simp_all add: m2_def word16_simps)
  qed
qed

end

abbreviation (input) v1_set :: "uint32 \<Rightarrow> CFE_MSG_Message_t \<Rightarrow> CFE_MSG_Message_t" where
  "v1_set v m \<equiv> m(0 := ucast (drop_bit 8 v AND 0xFF), 1 := ucast (v AND 0xFF))"

lemma SetMsgId_v1_ok:
  assumes "CFE_MSG_SetMsgId_v1 (Some m) (CFE_SB_ValueToMsgId v) = (CFE_SUCCESS, Some m')"
  shows "m' = v1_set v m" "take_bit 13 v = v"
  using assms by (auto simp: Let_def IsValidMsgId_bits split: if_splits)

interpretation msgid1: msgid_impl CFE_MSG_GetMsgId_v1 CFE_MSG_SetMsgId_v1 6
proof (unfold_locales, goal_cases)
  case (6 m mid m' x)
  obtain v where mid: "mid = CFE_SB_ValueToMsgId v" by (cases mid)
  note 6 [unfolded mid, THEN SetMsgId_v1_ok(1)] 6 [unfolded mid, THEN SetMsgId_v1_ok(2)]
  then show ?case
    by (auto simp: mid Let_def bytes_add) (simp add: uint32_bits bit_simps)
next
  case (7 m mid m' k k')
  obtain v where "mid = CFE_SB_ValueToMsgId v" by (cases mid)
  with 7 have "m' = v1_set v m" "k' = v1_set v k" using SetMsgId_v1_ok(1) by blast+
  then show ?case by (simp add: pri_abs_def bit_word16 bit_simps)
next
  case (8 m mid m')
  obtain v where "mid = CFE_SB_ValueToMsgId v" by (cases mid)
  with 8 have "m' = v1_set v m" using SetMsgId_v1_ok(1) by blast
  then show ?case by (simp add: word16_simps)
next
  case (9 m' m x)
  then show ?case by (simp add: Let_def outsideD)
qed (auto simp: Let_def)

abbreviation (input) v2_set :: "uint32 \<Rightarrow> CFE_MSG_Message_t \<Rightarrow> CFE_MSG_Message_t" where
  "v2_set v m \<equiv> m(0 := (if v AND 0x80 \<noteq> 0 then m 0 OR 0x10 else m 0 AND NOT 0x10),
     1 := ucast ((ucast (m 1) AND NOT 0x7F) OR (v AND 0x7F)), 7 := ucast (drop_bit 8 (v AND 0xFF00)))"

lemma SetMsgId_v2_ok:
  assumes "CFE_MSG_SetMsgId_v2 (Some m) (CFE_SB_ValueToMsgId v) = (CFE_SUCCESS, Some m')"
  shows "m' = v2_set v m" 
   "take_bit 13 v = v"
  using assms by (auto simp: Let_def IsValidMsgId_bits split: if_splits)

interpretation msgid2: msgid_impl CFE_MSG_GetMsgId_v2 CFE_MSG_SetMsgId_v2 10
proof (unfold_locales, goal_cases)
  case (6 m mid m' x)
  obtain v where mid: "mid = CFE_SB_ValueToMsgId v" by (cases mid)
  note * = 6 [unfolded mid, THEN SetMsgId_v2_ok(1)] 6 [unfolded mid, THEN SetMsgId_v2_ok(2)]
  have "v AND 0x80 \<noteq> 0 \<longleftrightarrow> bit v 7" by (simp add: uint32_bits bit_simps)
  moreover have "(m 0 AND NOT 0x10) AND 0x10 = 0" by (simp add: and.assoc)
  ultimately show ?case using *
    by (auto simp: mid Let_def bytes_add) (auto simp: uint32_bits bit_simps)
next
  case (7 m mid m' k k')
  obtain v where "mid = CFE_SB_ValueToMsgId v" by (cases mid)
  with 7 have "m' = v2_set v m" "k' = v2_set v k" using SetMsgId_v2_ok(1) by blast+
  then show ?case by (simp add: pri_abs_def bit_word16 bit_simps)
next
  case (8 m mid m')
  obtain v where "mid = CFE_SB_ValueToMsgId v" by (cases mid)
  with 8 have "m' = v2_set v m" using SetMsgId_v2_ok(1) by blast
  then show ?case by (simp add: word16_simps)
next
  case (9 m' m x)
  then show ?case by (simp add: Let_def outsideD)
qed (auto simp: Let_def)

definition msgid_hdr :: "msg_build \<Rightarrow> nat" where
  "msgid_hdr b = (if msgid_v2 b then 10 else 6)"

interpretation msgid: msgid_impl "CFE_MSG_GetMsgId b" "CFE_MSG_SetMsgId b" "msgid_hdr b" for b
  using msgid1.msgid_impl_axioms msgid2.msgid_impl_axioms
  by (simp add: CFE_MSG_GetMsgId_def CFE_MSG_SetMsgId_def msgid_hdr_def)

lemma outside_weaken:
  "outside a b m' = outside a b m \<Longrightarrow> a' \<le> a \<Longrightarrow> b \<le> b' \<Longrightarrow> outside a' b' m' = outside a' b' m"
  unfolding outside_def fun_eq_iff by (smt (verit) le_trans less_le_trans)

lemma InitDefaultHdr_abs:
  obtains m' where "CFE_MSG_InitDefaultHdr b (Some m) = Some m'"
    "outside 0 (sizeof_CFE_MSG_Message_t b) m' = outside 0 (sizeof_CFE_MSG_Message_t b) m"
    "pri_abs m' = (pri_abs m)\<lparr>h_version := 0, h_shdr := True, h_apid := 0,
                             h_seg := CFE_MSG_SegFlag_Unsegmented\<rparr>"
    "hdr_ext b \<longrightarrow> ext_abs m' = (ext_abs m)\<lparr>x_edsver := 1, x_subsys := 0,
         x_system := ucast (spacecraft_id b),
         x_endian := (if little_endian b then CFE_MSG_Endian_Little else CFE_MSG_Endian_Big)\<rparr>"
proof -
  obtain m1 where 1: "CFE_MSG_SetDefaultCCSDSPri (Some m) = Some m1" "outside 0 6 m1 = outside 0 6 m"
    "pri_abs m1 = (pri_abs m)\<lparr>h_version := 0, h_shdr := True, h_apid := 0,
                             h_seg := CFE_MSG_SegFlag_Unsegmented\<rparr>"
    using SetDefaultCCSDSPri_abs [of m] by blast
  obtain m2 where 2: "CFE_MSG_SetDefaultCCSDSExt (little_endian b) (spacecraft_id b) (Some m1) = Some m2"
    "outside 6 10 m2 = outside 6 10 m1"
    "ext_abs m2 = (ext_abs m1)\<lparr>x_edsver := 1, x_subsys := 0, x_system := ucast (spacecraft_id b),
       x_endian := (if little_endian b then CFE_MSG_Endian_Little else CFE_MSG_Endian_Big)\<rparr>"
    using SetDefaultCCSDSExt_abs [of "little_endian b" "spacecraft_id b" m1] by blast
  have 3: "pri_abs m2 = pri_abs m1"
    using outsideD [OF 2(2)] by (simp add: pri_abs_def word16_def)
  have 4: "ext_abs m1 = ext_abs m"
    using outsideD [OF 1(2)] by (simp add: ext_abs_def word16_def)
  show thesis
  proof (cases "hdr_ext b")
    case True
    then show ?thesis
      using 1 2 3 4 outside_weaken [OF 1(2), of 0 10] outside_weaken [OF 2(2), of 0 10]
      by (intro that [of m2]) (simp_all add: CFE_MSG_InitDefaultHdr_def sizeof_CFE_MSG_Message_t_def)
  next
    case False
    then show ?thesis
      using 1 by (intro that [of m1]) (simp_all add: CFE_MSG_InitDefaultHdr_def sizeof_CFE_MSG_Message_t_def)
  qed
qed

lemma pri_abs_eqs:
  "h_seq (pri_abs m) = take_bit 14 (word16 m 2)" "h_seg (pri_abs m) = seg_of (drop_bit 14 (word16 m 2))"
  "h_size (pri_abs m) = ucast (word16 m 4) + 7"
  by (simp_all add: pri_abs_def)

lemma edsver_endian_high:
  "drop_bit 11 (word16 m 6) = ucast (drop_bit 3 (m 6))" "bit (word16 m 6) 10 = bit (m 6) 2"
  by (rule bit_word_eqI) (auto simp: bit_word16 bit_simps add.commute dest: bit_imp_le_length)

text \<open>C19. \<^verbatim>\<open>CFE_MSG_Init\<close> with a valid message ID and a size the length field can hold succeeds in
  every build: the message then has that ID and size, sequence count 0 and unsegmented flag, an
  extended header carries the EDS version, the platform's byte order and spacecraft ID, the bytes
  behind the header up to the size are zero and no byte beyond both header and size changes.\<close>

theorem Init_ok:
  assumes "build_ok b" "CFE_SB_IsValidMsgId mid" "7 \<le> unat n" "unat n < 2 ^ 16 + 7"
  shows "\<exists>m'. CFE_MSG_Init b (Some m) mid n = (CFE_SUCCESS, Some m') \<and>
     CFE_MSG_GetMsgId b (Some m') (Some x) = (CFE_SUCCESS, Some mid) \<and>
     h_size (pri_abs m') = n \<and> h_seq (pri_abs m') = 0 \<and>
     h_seg (pri_abs m') = CFE_MSG_SegFlag_Unsegmented \<and>
     (hdr_ext b \<longrightarrow> x_edsver (ext_abs m') = 1 \<and> x_system (ext_abs m') = ucast (spacecraft_id b) \<and>
        x_endian (ext_abs m') = (if little_endian b then CFE_MSG_Endian_Little else CFE_MSG_Endian_Big)) \<and>
     outside 0 (sizeof_CFE_MSG_Message_t b) m' =
       outside 0 (sizeof_CFE_MSG_Message_t b) (memset_zero m (unat n))"
proof -
  let ?z = "memset_zero m (unat n)" and ?h = "sizeof_CFE_MSG_Message_t b"
  obtain m1 where 1: "CFE_MSG_InitDefaultHdr b (Some ?z) = Some m1" "outside 0 ?h m1 = outside 0 ?h ?z"
    "pri_abs m1 = (pri_abs ?z)\<lparr>h_version := 0, h_shdr := True, h_apid := 0,
                             h_seg := CFE_MSG_SegFlag_Unsegmented\<rparr>"
    "hdr_ext b \<longrightarrow> ext_abs m1 = (ext_abs ?z)\<lparr>x_edsver := 1, x_subsys := 0,
         x_system := ucast (spacecraft_id b),
         x_endian := (if little_endian b then CFE_MSG_Endian_Little else CFE_MSG_Endian_Big)\<rparr>"
    by (rule InitDefaultHdr_abs)
  obtain m2 where 2:
    "(case CFE_MSG_SetMsgId b (Some m1) mid of (st, p) \<Rightarrow> if st = CFE_SUCCESS then CFE_MSG_SetSize p n else (st, p))
       = (CFE_SUCCESS, Some m2)"
    "CFE_MSG_GetMsgId b (Some m2) (Some x) = (CFE_SUCCESS, Some mid)"
    "h_size (pri_abs m2) = n" "h_seq (pri_abs m2) = h_seq (pri_abs m1)" "h_seg (pri_abs m2) = h_seg (pri_abs m1)"
    "outside 0 (msgid_hdr b) m2 = outside 0 (msgid_hdr b) m1" "m2 6 = m1 6" "word16 m2 8 = word16 m1 8"
    by (rule msgid.set_then_size [OF assms(2-4), of b m1 x])
  have "h_seq (pri_abs ?z) = 0" using assms(3) by (simp add: pri_abs_def word16_def memset_zero_def)
  moreover have "msgid_hdr b \<le> ?h"
    using assms(1) by (auto simp: build_ok_def msgid_hdr_def sizeof_CFE_MSG_Message_t_def)
  moreover have "x_edsver (ext_abs m2) = x_edsver (ext_abs m1)" "x_endian (ext_abs m2) = x_endian (ext_abs m1)"
    "x_system (ext_abs m2) = x_system (ext_abs m1)"
    using 2(7,8) by (simp_all add: ext_abs_def edsver_endian_high)
  ultimately show ?thesis
    using 1 2 outside_weaken [OF 2(6), of 0 ?h] by (intro exI [of _ m2]) (simp add: Let_def)
qed

lemma Init_ok_witness:
  "\<exists>m'. CFE_MSG_Init \<lparr>hdr_ext = True, msgid_v2 = True, little_endian = False, spacecraft_id = 0x42\<rparr>
            (Some (\<lambda>_. 7)) (CFE_SB_ValueToMsgId 0x1801) 24 = (CFE_SUCCESS, Some m') \<and>
        h_size (pri_abs m') = 24 \<and> x_system (ext_abs m') = 0x42"
  using Init_ok [of "\<lparr>hdr_ext = True, msgid_v2 = True, little_endian = False, spacecraft_id = 0x42\<rparr>"
    "CFE_SB_ValueToMsgId 0x1801" 24 "\<lambda>_. 7" "CFE_SB_ValueToMsgId 0"]
  by (simp add: build_ok_def IsValidMsgId_bits del: CFE_MSG_Init.simps) blast

section \<open>Secondary header laws\<close>

lemma is_type_cong: "m' 0 = m 0 \<Longrightarrow> is_type_with_sechdr t m' = is_type_with_sechdr t m"
  by (simp add: is_type_with_sechdr_def)

lemma hdr_ge6: "6 \<le> sizeof_CFE_MSG_Message_t b"
  by (simp add: sizeof_CFE_MSG_Message_t_def)

lemma time_bytes:
  "push_bit 24 (ucast (ucast (drop_bit 24 v AND 0xFF) :: uint8)) + push_bit 16 (ucast (ucast (drop_bit 16 v AND 0xFF) :: uint8))
    = (v AND 0xFFFF0000 :: uint32)" (is "?a + ?b = _")
  "(v AND 0xFFFF0000) + push_bit 8 (ucast (ucast (drop_bit 8 v AND 0xFF) :: uint8)) + ucast (ucast (v AND 0xFF) :: uint8)
    = (v :: uint32)" (is "?h + ?c + ?d = _")
proof -
  have "?a AND ?b = 0" "?h AND ?c = 0" "(?h OR ?c) AND ?d = 0"
    by (simp_all add: uint32_bits bit_simps)
  then have "?a + ?b = ?a OR ?b" "?h + ?c + ?d = ?h OR ?c OR ?d"
    by (simp_all add: disjunctive_add_eq_or or.assoc)
  then show "?a + ?b = ?h" "?h + ?c + ?d = v" by (simp_all only:) (simp_all add: uint32_bits bit_simps)
qed

text \<open>The time of a telemetry packet is read back as it was set, except that the lower 16 bits of
  the subseconds are dropped; for any other packet both functions return
  \<^verbatim>\<open>CFE_MSG_WRONG_MSG_TYPE\<close> and the reader gets a zero time.\<close>

theorem MsgTime_roundtrip:
  "(let (st, p) = CFE_MSG_SetMsgTime b (Some m) t in
    st = (if is_type_with_sechdr CFE_MSG_Type_Tlm m then CFE_SUCCESS else CFE_MSG_WRONG_MSG_TYPE) \<and>
    CFE_MSG_GetMsgTime b p (Some x) =
     (st, Some (if st = CFE_SUCCESS then t\<lparr>Subseconds := Subseconds t AND 0xFFFF0000\<rparr>
                else \<lparr>Seconds = 0, Subseconds = 0\<rparr>)))"
proof (cases "is_type_with_sechdr CFE_MSG_Type_Tlm m")
  case True
  let ?m = "the (snd (CFE_MSG_SetMsgTime b (Some m) t))"
  have "is_type_with_sechdr CFE_MSG_Type_Tlm ?m"
    using True hdr_ge6 [of b] by (subst is_type_cong [of _ m]) auto
  then show ?thesis using True by (cases t) (simp add: Let_def time_bytes)
next
  case False
  then show ?thesis by simp
qed

text \<open>The function code is 7 bits wide: a larger one is rejected before the packet type is looked
  at, a packet that is not a command with a secondary header is rejected unchanged, and otherwise the
  code is stored in its byte and read back.\<close>

theorem FcnCode_roundtrip:
  "CFE_MSG_SetFcnCode b (Some m) fc =
     (if unat fc < 2 ^ 7 \<and> is_type_with_sechdr CFE_MSG_Type_Cmd m
      then (CFE_SUCCESS, Some (m(sizeof_CFE_MSG_Message_t b := ucast fc)))
      else (if unat fc < 2 ^ 7 then CFE_MSG_WRONG_MSG_TYPE else CFE_MSG_BAD_ARGUMENT, Some m)) \<and>
   (let (st, p) = CFE_MSG_SetFcnCode b (Some m) fc in
    CFE_MSG_GetFcnCode b p (Some x) =
     (if st = CFE_SUCCESS then (CFE_SUCCESS, Some fc) else CFE_MSG_GetFcnCode b (Some m) (Some x)))"
proof -
  have "is_type_with_sechdr CFE_MSG_Type_Cmd (m(sizeof_CFE_MSG_Message_t b := c)) = is_type_with_sechdr CFE_MSG_Type_Cmd m" for c
    using hdr_ge6 [of b] by (intro is_type_cong) auto
  moreover have "ucast (ucast fc :: uint8) AND 0x7F = fc" if "unat fc < 128"
    using less_exp_take_bit [of fc 7] that by (simp add: uint16_bits bit_simps)
  ultimately show ?thesis by (auto simp: word_less_nat_alt Let_def)
qed

lemma xor_bytes_fold: "xor_bytes m i n c = c XOR xor_bytes m i n 0"
proof (induction n arbitrary: i c)
  case (Suc n)
  show ?case using Suc.IH [of "Suc i" "c XOR ucast (m i)"] Suc.IH [of "Suc i" "ucast (m i)"]
    by (simp add: xor.assoc)
qed simp

lemma xor_bytes_less: "8 \<le> k \<Longrightarrow> \<not> bit (xor_bytes m i n 0) k"
proof (induction n arbitrary: i)
  case (Suc n)
  then show ?case using xor_bytes_fold [of m "Suc i" n "ucast (m i)"]
    by (auto simp: bit_simps dest: bit_imp_le_length)
qed simp

lemma xor_bytes_cong: "(\<And>k. i \<le> k \<Longrightarrow> k < i + n \<Longrightarrow> m' k = m k) \<Longrightarrow> xor_bytes m' i n a = xor_bytes m i n a"
  by (induction n arbitrary: i a) auto

lemma xor_bytes_upd:
  "i \<le> j \<Longrightarrow> j < i + n \<Longrightarrow>
     xor_bytes (m(j := c)) i n a = xor_bytes m i n a XOR (ucast (m j) XOR ucast c)"
proof (induction n arbitrary: i a)
  case (Suc n)
  show ?case
  proof (cases "i = j")
    case True
    have "xor_bytes (m(j := c)) (Suc i) n a' = xor_bytes m (Suc i) n a'" for a'
      using True by (intro xor_bytes_cong) auto
    then show ?thesis
      using True xor_bytes_fold [of m "Suc i" n "a XOR ucast (m i)"] xor_bytes_fold [of m "Suc i" n "a XOR ucast c"]
      by (simp del: fun_upd_apply add: ac_simps) (simp add: ac_simps)
  next
    case False
    then show ?thesis using Suc by simp
  qed
qed simp

lemma ComputeCheckSum_eq:
  "CFE_MSG_ComputeCheckSum m = xor_bytes m 0 (unat (h_size (pri_abs m))) 0xFF"
  by (simp add: CFE_MSG_ComputeCheckSum_def pri_getters del: CFE_MSG_GetSize.simps)

lemma pri_abs_cong: "(\<And>i. i < 6 \<Longrightarrow> m' i = m i) \<Longrightarrow> pri_abs m' = pri_abs m"
  by (simp add: pri_abs_def word16_def)

lemma ComputeCheckSum_upd:
  assumes "6 \<le> j" "j < unat (h_size (pri_abs m))"
  shows "CFE_MSG_ComputeCheckSum (m(j := c)) = CFE_MSG_ComputeCheckSum m XOR (ucast (m j) XOR ucast c)"
proof -
  have "pri_abs (m(j := c)) = pri_abs m" using assms by (intro pri_abs_cong) auto
  then show ?thesis using assms by (simp add: ComputeCheckSum_eq xor_bytes_upd)
qed

lemma ComputeCheckSum_byte: "ucast (ucast (CFE_MSG_ComputeCheckSum m) :: uint8) = CFE_MSG_ComputeCheckSum m"
proof (rule bit_word_eqI)
  fix n assume "n < LENGTH(32)"
  have "bit (CFE_MSG_ComputeCheckSum m) n \<Longrightarrow> n < 8"
    using xor_bytes_less [of n m 0 "unat (h_size (pri_abs m))"]
      xor_bytes_fold [of m 0 "unat (h_size (pri_abs m))" "0xFF"]
    by (fastforce simp: ComputeCheckSum_eq bit_simps)
  then show "bit (ucast (ucast (CFE_MSG_ComputeCheckSum m) :: uint8) :: uint32) n = bit (CFE_MSG_ComputeCheckSum m) n"
    using \<open>n < LENGTH(32)\<close> by (auto simp: bit_simps)
qed

lemma byte_xor_zero: "(ucast (a :: uint8) XOR ucast c :: uint32) = 0 \<longleftrightarrow> c = a"
proof
  assume *: "(ucast a XOR ucast c :: uint32) = 0"
  have "bit c n = bit a n" if "n < 8" for n
    using arg_cong [OF *, of "\<lambda>w. bit w n"] that by (auto simp: bit_simps)
  then show "c = a" by (intro bit_word_eqI) simp
qed simp

text \<open>C20. The checksum \<^verbatim>\<open>CFE_MSG_GenerateChecksum\<close> writes makes \<^verbatim>\<open>CFE_MSG_ValidateChecksum\<close> answer
  true, and it detects the corruption of any single byte behind the primary header.\<close>

theorem checksum_detects:
  assumes "is_type_with_sechdr CFE_MSG_Type_Cmd m"
    and "sizeof_CFE_MSG_Message_t b + 1 < unat (h_size (pri_abs m))"
    and "6 \<le> i" and "i < unat (h_size (pri_abs m))"
  shows "\<exists>m'. CFE_MSG_GenerateChecksum b (Some m) = (CFE_SUCCESS, Some m') \<and>
     CFE_MSG_ValidateChecksum (Some m') (Some v) = (CFE_SUCCESS, Some True) \<and>
     CFE_MSG_ValidateChecksum (Some (m'(i := c))) (Some v) = (CFE_SUCCESS, Some (c = m' i))"
proof -
  let ?k = "sizeof_CFE_MSG_Message_t b + 1"
  let ?z = "m(?k := 0)"
  let ?m = "?z(?k := ucast (CFE_MSG_ComputeCheckSum ?z))"
  have abs: "pri_abs ?z = pri_abs m" "pri_abs ?m = pri_abs m"
    using hdr_ge6 [of b] by (intro pri_abs_cong; auto)+
  have type: "is_type_with_sechdr CFE_MSG_Type_Cmd ?m"
    using assms(1) hdr_ge6 [of b] by (subst is_type_cong [of _ m]) auto
  have type': "is_type_with_sechdr CFE_MSG_Type_Cmd (?m(i := c))"
    using type assms(3) by (subst is_type_cong [of _ ?m]) auto
  have zero: "CFE_MSG_ComputeCheckSum ?m = 0"
    using assms(2) hdr_ge6 [of b] abs by (subst ComputeCheckSum_upd) (simp_all add: ComputeCheckSum_byte)
  have "CFE_MSG_ComputeCheckSum (?m(i := c)) = ucast (?m i) XOR ucast c"
    using assms(3,4) abs zero by (subst ComputeCheckSum_upd) simp_all
  then have "CFE_MSG_ComputeCheckSum (?m(i := c)) = 0 \<longleftrightarrow> c = ?m i"
    by (simp only:) (auto simp: byte_xor_zero)
  then show ?thesis
    using assms(1) type type' zero by (intro exI [of _ ?m]) (simp add: Let_def)
qed

lemma checksum_detects_witness:
  "\<exists>m'. CFE_MSG_GenerateChecksum \<lparr>hdr_ext = False, msgid_v2 = False, little_endian = True, spacecraft_id = 0\<rparr>
           (Some ((\<lambda>_. 0)(0 := 0x18, 1 := 0x06, 5 := 9))) = (CFE_SUCCESS, Some m') \<and>
     CFE_MSG_ValidateChecksum (Some m') (Some False) = (CFE_SUCCESS, Some True) \<and>
     CFE_MSG_ValidateChecksum (Some (m'(12 := 1))) (Some False) = (CFE_SUCCESS, Some (1 = m' 12))"
  by (rule checksum_detects)
     (simp_all add: is_type_with_sechdr_def sizeof_CFE_MSG_Message_t_def pri_abs_def word16_def)

section \<open>User data laws\<close>

lemma MsgHdrSize_cong: "m' 0 = m 0 \<Longrightarrow> CFE_SB_MsgHdrSize b (Some m') = CFE_SB_MsgHdrSize b (Some m)"
  by simp

text \<open>A user data length that makes a message of 7 to 32768 bytes is stored in the length field
  only and read back by \<^verbatim>\<open>CFE_SB_GetUserDataLength\<close>.\<close>

theorem UserDataLength_roundtrip:
  assumes "unat (CFE_SB_MsgHdrSize b (Some m)) + unat d \<le> 32768"
    and "7 \<le> unat (CFE_SB_MsgHdrSize b (Some m)) + unat d"
  shows "\<exists>m'. CFE_SB_SetUserDataLength b (Some m) d = Some m' \<and>
    CFE_SB_GetUserDataLength b (Some m') = d \<and>
    CFE_SB_MsgHdrSize b (Some m') = CFE_SB_MsgHdrSize b (Some m) \<and> outside 4 6 m' = outside 4 6 m"
proof -
  let ?n = "CFE_SB_MsgHdrSize b (Some m) + d"
  have n: "unat ?n = unat (CFE_SB_MsgHdrSize b (Some m)) + unat d"
    using assms(1) by (intro unat_add_lem [THEN iffD1]) simp
  define m' where "m' = m(4 := ucast (drop_bit 8 (?n - 7) AND 0xFF), 5 := ucast ((?n - 7) AND 0xFF))"
  have 1: "CFE_SB_SetUserDataLength b (Some m) d = Some m'"
    using assms n by (auto simp: m'_def word_less_nat_alt word_le_nat_alt Let_def simp del: CFE_SB_MsgHdrSize.simps)
  have 2: "pri_abs m' = (pri_abs m)\<lparr>h_size := ?n\<rparr>"
    unfolding m'_def using assms n by (intro pri_size) simp_all
  have 3: "CFE_SB_MsgHdrSize b (Some m') = CFE_SB_MsgHdrSize b (Some m)"
    by (rule MsgHdrSize_cong) (simp add: m'_def)
  show ?thesis
    using 1 2 3 by (intro exI [of _ m'])
      (simp add: pri_getters m'_def [symmetric] del: CFE_SB_MsgHdrSize.simps CFE_MSG_GetSize.simps CFE_SB_SetUserDataLength.simps,
       simp add: m'_def)
qed

lemma UserDataLength_roundtrip_witness:
  "\<exists>m'. CFE_SB_SetUserDataLength \<lparr>hdr_ext = False, msgid_v2 = False, little_endian = True, spacecraft_id = 0\<rparr>
           (Some ((\<lambda>_. 0)(0 := 0x18))) 100 = Some m' \<and>
     CFE_SB_GetUserDataLength \<lparr>hdr_ext = False, msgid_v2 = False, little_endian = True, spacecraft_id = 0\<rparr>
           (Some m') = 100"
  using UserDataLength_roundtrip [of "\<lparr>hdr_ext = False, msgid_v2 = False, little_endian = True, spacecraft_id = 0\<rparr>"
    "(\<lambda>_. 0)(0 := 0x18)" 100]
  by (simp add: sizeof_CFE_MSG_CommandHeader_t_def del: CFE_SB_SetUserDataLength.simps CFE_SB_GetUserDataLength.simps)
     blast

section \<open>String laws\<close>

text \<open>The length of a C string in a field of \<open>n\<close> characters, which need not be terminated.\<close>

primrec strnlen :: "(nat \<Rightarrow> uint8) \<Rightarrow> nat \<Rightarrow> nat" where
  "strnlen s 0 = 0"
| "strnlen s (Suc n) = (if s 0 = 0 then 0 else Suc (strnlen (\<lambda>k. s (Suc k)) n))"

lemma strnlen_le: "strnlen s n \<le> n"
  by (induction n arbitrary: s) auto

lemma copy_chars_eq:
  "copy_chars d s i sm dm n =
     (let r = strnlen (\<lambda>k. s (i + k)) (min (unat sm) (unat dm))
      in (\<lambda>k. if i \<le> k \<and> k < i + r then s k else d k, i + r, dm - of_nat r, n + of_nat r))"
proof (induction d s i sm dm n rule: copy_chars.induct)
  case (1 d s i sm dm n)
  show ?case
  proof (cases "sm > 0 \<and> s i \<noteq> 0 \<and> dm > 0")
    case True
    then have "min (unat sm) (unat dm) = Suc (min (unat (sm - 1)) (unat (dm - 1)))"
      using unat_gt_0 [of sm] unat_gt_0 [of dm] by (simp add: unat_minus_one word_gt_0)
    moreover have "copy_chars d s i sm dm n = copy_chars (d(i := s i)) s (i + 1) (sm - 1) (dm - 1) (n + 1)"
      using True by (subst copy_chars.simps) simp
    ultimately show ?thesis
      using True 1 [OF True] by (simp only:) (auto simp: Let_def fun_eq_iff)
  next
    case False
    then have "strnlen (\<lambda>k. s (i + k)) (min (unat sm) (unat dm)) = 0"
      by (cases "min (unat sm) (unat dm)") (auto simp: min_def word_gt_0 split: if_splits)
    then show ?thesis using False by (subst copy_chars.simps) (auto simp: Let_def fun_eq_iff)
  qed
qed

lemma MessageString_functional:
  "CFE_SB_MessageStringSet (Some d) (Some s) dm sm =
     (let r = strnlen s (min (unat sm) (unat dm)) in
      (Inr (of_nat r), Some (\<lambda>k. if k < r then s k else if k < unat dm then 0 else d k))) \<and>
   CFE_SB_MessageStringGet (Some d) s None dm sm =
     (if dm = 0 then (Inl CFE_SB_BAD_ARGUMENT, Some d)
      else let r = strnlen s (min (unat sm) (unat dm - 1)) in
           (Inr (of_nat r), Some (\<lambda>k. if k < r then s k else if k = r then 0 else d k))) \<and>
   CFE_SB_MessageStringGet (Some d) s (Some df) dm sm =
     (if sm = 0 \<or> s 0 = 0 then CFE_SB_MessageStringGet (Some d) df None dm dm
      else CFE_SB_MessageStringGet (Some d) s None dm sm)"
proof -
  have u: "unat (dm - of_nat r) = unat dm - r" if "r \<le> unat dm" for r
  proof -
    have "unat (of_nat r :: size_t) = r" using that unsigned_less [of dm, where ?'a = nat] by (simp add: unat_of_nat)
    then show ?thesis using that by (simp add: unat_sub word_le_nat_alt)
  qed
  have "strnlen s (min (unat sm) (unat dm)) \<le> unat dm" by (rule order_trans [OF strnlen_le]) simp
  note u [OF this]
  moreover have "dm \<noteq> 0 \<Longrightarrow> unat (dm - 1) = unat dm - 1" by (rule unat_minus_one)
  ultimately show ?thesis by (auto simp: copy_chars_eq Let_def fun_eq_iff)
qed

lemma strnlen_unique:
  "r \<le> n \<Longrightarrow> (\<And>i. i < r \<Longrightarrow> s i \<noteq> 0) \<Longrightarrow> (r < n \<Longrightarrow> s r = 0) \<Longrightarrow> strnlen s n = r"
proof (induction n arbitrary: r s)
  case (Suc n)
  show ?case
  proof (cases r)
    case (Suc r')
    with Suc.prems Suc.IH [of r' "\<lambda>k. s (Suc k)"] show ?thesis by fastforce
  qed (use Suc.prems in auto)
qed simp

lemma strnlen_nonzero: "i < strnlen s n \<Longrightarrow> s i \<noteq> 0"
proof (induction n arbitrary: s i)
  case (Suc n)
  then show ?case by (cases i) (auto split: if_splits)
qed simp

text \<open>A string written into a message field of \<open>fsize\<close> bytes, below \<open>2 ^ 31\<close>, and read back into a larger buffer
  arrives up to its terminator or the field size, is terminated in the buffer, and both functions
  return its length; the buffer behind the terminator is untouched.\<close>

lemma MessageString_roundtrip:
  assumes "fsize < bsize" "fsize < 2 ^ 31"
  shows "\<exists>w f'. CFE_SB_MessageStringSet (Some f) (Some s) fsize n = (Inr w, Some f') \<and>
     sint w = int (strnlen s (min (unat n) (unat fsize))) \<and>
     CFE_SB_MessageStringGet (Some d) f' None bsize fsize =
       (Inr w, Some (\<lambda>k. if k < nat (sint w) then s k else if k = nat (sint w) then 0 else d k))"
proof -
  let ?r = "strnlen s (min (unat n) (unat fsize))"
  let ?f = "\<lambda>k. if k < ?r then s k else if k < unat fsize then 0 else f k"
  have le: "?r \<le> unat fsize" using strnlen_le [of s "min (unat n) (unat fsize)"] by simp
  have len: "strnlen ?f (unat fsize) = ?r"
    using le by (intro strnlen_unique) (auto dest: strnlen_nonzero)
  have m: "min (unat fsize) (unat bsize - 1) = unat fsize" "bsize \<noteq> 0" using assms(1) by (auto simp: word_less_nat_alt)
  have small: "?r < 2 ^ 31" using le assms(2) by (simp add: word_less_nat_alt)
  have w: "sint (of_nat ?r :: 32 word) = int ?r"
    using small by (simp add: signed_of_nat signed_take_bit_int_eq_self)
  show ?thesis
    using MessageString_functional [of f s fsize n] MessageString_functional [of d ?f bsize fsize] m len w
    by (intro exI [of _ "of_nat ?r"] exI [of _ ?f])
      (simp add: Let_def fun_eq_iff del: CFE_SB_MessageStringGet.simps CFE_SB_MessageStringSet.simps)
qed

lemma MessageString_roundtrip_example:
  "\<exists>f'. CFE_SB_MessageStringSet (Some (\<lambda>_. 1)) (Some ((\<lambda>_. 0)(0 := 72, 1 := 105))) 4 8 = (Inr 2, Some f') \<and>
     fst (CFE_SB_MessageStringGet (Some (\<lambda>_. 9)) f' None 5 4) = Inr 2"
proof -
  have "strnlen ((\<lambda>_. 0)(0 := 72, 1 := 105)) (min 8 4) = 2"
    by (rule strnlen_unique) auto
  then show ?thesis
    using MessageString_roundtrip [of 4 5 "\<lambda>_. 1" "(\<lambda>_. 0)(0 := 72, 1 := 105)" 8 "\<lambda>_. 9"]
      MessageString_functional [of "\<lambda>_. 1" "(\<lambda>_. 0)(0 := 72, 1 := 105)" 4 8]
    by (auto simp: Let_def simp del: CFE_SB_MessageStringGet.simps CFE_SB_MessageStringSet.simps)
qed

section \<open>Types of message and topic IDs\<close>

text \<open>\<^verbatim>\<open>CFE_MSG_GetTypeFromMsgId\<close> predicts the packet type: setting a valid message ID on any
  message gives the message the type the function returns, in every build.\<close>

theorem GetTypeFromMsgId_predicts:
  "CFE_MSG_GetTypeFromMsgId b mid (Some t) =
     (if CFE_SB_IsValidMsgId mid
      then CFE_MSG_GetType (snd (CFE_MSG_SetMsgId b (Some m) mid)) (Some t)
      else (CFE_MSG_BAD_ARGUMENT, Some t))"
proof (cases "CFE_SB_IsValidMsgId mid")
  case True
  then obtain m1 m2 where "CFE_MSG_SetMsgId b (Some m) mid = (CFE_SUCCESS, Some m1)"
    "CFE_MSG_SetMsgId b (Some (\<lambda>_. 0)) mid = (CFE_SUCCESS, Some m2)"
    using msgid.set_valid by metis
  moreover from this have "h_type (pri_abs m1) = h_type (pri_abs m2)" by (rule msgid.set_type)
  ultimately show ?thesis using True by (simp add: pri_getters del: CFE_MSG_GetType.simps)
next
  case False
  then show ?thesis by (simp add: msgid.set_invalid)
qed

lemma v1_type:
  "CFE_SB_IsValidMsgId (CFE_SB_ValueToMsgId v) \<Longrightarrow> \<not> msgid_v2 b \<Longrightarrow>
     CFE_MSG_GetTypeFromMsgId b (CFE_SB_ValueToMsgId v) (Some t) =
       (CFE_SUCCESS, Some (if bit v 12 then CFE_MSG_Type_Cmd else CFE_MSG_Type_Tlm))"
  by (simp add: CFE_MSG_SetMsgId_def pri_getters pri_abs_def bit_word16 bit_simps Let_def
      del: CFE_MSG_GetType.simps)

text \<open>Topic IDs below \<open>2^11\<close>, under version 1 message IDs: the local and global conversions yield
  valid IDs of the direction their name says, except that \<^verbatim>\<open>CFE_SB_CmdTopicIdToMsgId\<close> for the
  global instance 0 yields the ID of the telemetry topic.\<close>

theorem topic_ids:
  assumes "unat topic < 2 ^ 11" and "\<not> msgid_v2 b"
  shows
  "CFE_MSG_GetTypeFromMsgId b (CFE_SB_ValueToMsgId (CFE_SB_GlobalCmdTopicIdToMsgId topic)) (Some t) =
     (CFE_SUCCESS, Some CFE_MSG_Type_Cmd) \<and>
   CFE_MSG_GetTypeFromMsgId b (CFE_SB_ValueToMsgId (CFE_SB_GlobalTlmTopicIdToMsgId topic)) (Some t) =
     (CFE_SUCCESS, Some CFE_MSG_Type_Tlm) \<and>
   CFE_MSG_GetTypeFromMsgId b (CFE_SB_ValueToMsgId (CFE_SB_TlmTopicIdToMsgId topic inst)) (Some t) =
     (CFE_SUCCESS, Some CFE_MSG_Type_Tlm) \<and>
   CFE_MSG_GetTypeFromMsgId b (CFE_SB_ValueToMsgId (CFE_SB_CmdTopicIdToMsgId topic inst)) (Some t) =
     (CFE_SUCCESS, Some (if inst = 0 then CFE_MSG_Type_Tlm else CFE_MSG_Type_Cmd))"
proof -
  have bits: "take_bit 11 topic = topic" using assms(1) by (simp only: less_exp_take_bit)
  have valid: "CFE_SB_IsValidMsgId (CFE_SB_ValueToMsgId (k OR ucast topic))"
    if "take_bit 13 k = k" "bit k 11" for k :: uint32
    using that bits unfolding IsValidMsgId_bits
    by (simp add: uint32_bits uint16_bits bit_simps)
  have nobit: "\<not> bit topic 12" using bits by (simp add: uint16_bits bit_simps)
  have k: "take_bit 13 (0x1860 :: uint32) = 0x1860" "take_bit 13 (0x0860 :: uint32) = 0x0860"
    "take_bit 13 (0x1800 :: uint32) = 0x1800" "take_bit 13 (0x0800 :: uint32) = 0x0800"
    "bit (0x1860 :: uint32) 11" "bit (0x0860 :: uint32) 11" "bit (0x1800 :: uint32) 11"
    "bit (0x0800 :: uint32) 11" "bit (0x1860 :: uint32) 12" "\<not> bit (0x0860 :: uint32) 12"
    "bit (0x1800 :: uint32) 12" "\<not> bit (0x0800 :: uint32) 12"
    by simp_all
  have type: "CFE_MSG_GetTypeFromMsgId b (CFE_SB_ValueToMsgId (k OR ucast topic)) (Some t) =
      (CFE_SUCCESS, Some (if bit k 12 then CFE_MSG_Type_Cmd else CFE_MSG_Type_Tlm))"
    if "take_bit 13 k = k" "bit k 11" for k :: uint32
    using v1_type [OF valid [OF that] assms(2)] nobit by (simp add: bit_simps del: CFE_MSG_GetTypeFromMsgId.simps)
  show ?thesis
    by (simp add: CFE_SB_GlobalCmdTopicIdToMsgId_def CFE_SB_GlobalTlmTopicIdToMsgId_def
        CFE_SB_TlmTopicIdToMsgId_def CFE_SB_CmdTopicIdToMsgId_def type k
        del: CFE_MSG_GetTypeFromMsgId.simps)
qed

lemma topic_ids_witness:
  "CFE_MSG_GetTypeFromMsgId \<lparr>hdr_ext = False, msgid_v2 = False, little_endian = True, spacecraft_id = 0\<rparr>
     (CFE_SB_ValueToMsgId (CFE_SB_CmdTopicIdToMsgId 5 0)) (Some CFE_MSG_Type_Invalid) =
       (CFE_SUCCESS, Some CFE_MSG_Type_Tlm)"
  using topic_ids [of 5 "\<lparr>hdr_ext = False, msgid_v2 = False, little_endian = True, spacecraft_id = 0\<rparr>"
    CFE_MSG_Type_Invalid 0]
  by simp

end
