(* ===== verification/CFS_ResourceId.thy ===== *)
theory CFS_ResourceId
  imports CFS_Prelude
begin

text \<open>
  Resource identifiers, \<^verbatim>\<open>cfe_resourceid_api.c\<close>: a 32-bit value made of a resource type (base)
  and a serial number.  The callback \<open>CheckFunc\<close> that tells whether the table slot of an ID is
  taken is a parameter; \<open>None\<close> is a NULL callback.
\<close>

datatype CFE_ResourceId_t = CFE_ResourceId_FromInteger (CFE_ResourceId_ToInteger: uint32)

abbreviation (input) CFE_RESOURCEID_UNDEFINED :: CFE_ResourceId_t where
  "CFE_RESOURCEID_UNDEFINED \<equiv> CFE_ResourceId_FromInteger 0"
abbreviation (input) CFE_RESOURCEID_MAX :: uint32 where "CFE_RESOURCEID_MAX \<equiv> 0xFFFF"

definition CFE_ResourceId_GetBase :: "CFE_ResourceId_t \<Rightarrow> uint32" where
  "CFE_ResourceId_GetBase ResourceId = CFE_ResourceId_ToInteger ResourceId AND NOT CFE_RESOURCEID_MAX"

definition CFE_ResourceId_GetSerial :: "CFE_ResourceId_t \<Rightarrow> uint32" where
  "CFE_ResourceId_GetSerial ResourceId = CFE_ResourceId_ToInteger ResourceId AND CFE_RESOURCEID_MAX"

fun CFE_ResourceId_ToIndex ::
    "CFE_ResourceId_t \<Rightarrow> uint32 \<Rightarrow> uint32 \<Rightarrow> uint32 option \<Rightarrow> CFE_Status_t \<times> uint32 option" where
  "CFE_ResourceId_ToIndex ResourceId BaseValue TableSize None = (CFE_ES_BAD_ARGUMENT, None)"
| "CFE_ResourceId_ToIndex ResourceId BaseValue TableSize (Some Idx) =
     (let Serial = CFE_ResourceId_ToInteger ResourceId - BaseValue in
      if Serial > CFE_RESOURCEID_MAX \<or> TableSize = 0
      then (CFE_ES_ERR_RESOURCEID_NOT_VALID, Some Idx)
      else (CFE_SUCCESS, Some (Serial mod TableSize)))"

text \<open>The loop of \<^verbatim>\<open>CFE_ResourceId_FindNext\<close>, on the remaining \<open>Count\<close>.\<close>

fun FindNext_loop ::
    "(CFE_ResourceId_t \<Rightarrow> bool) \<Rightarrow> uint32 \<Rightarrow> uint32 \<Rightarrow> nat \<Rightarrow> uint32 \<Rightarrow> CFE_ResourceId_t" where
  "FindNext_loop CheckFunc ResourceType TableSize 0 Serial = CFE_RESOURCEID_UNDEFINED"
| "FindNext_loop CheckFunc ResourceType TableSize (Suc Count) Serial =
     (let Serial = Serial + 1;
          Serial = (if Serial \<ge> CFE_RESOURCEID_MAX then Serial mod TableSize else Serial);
          CheckId = CFE_ResourceId_FromInteger (ResourceType + Serial)
      in if CheckFunc CheckId then FindNext_loop CheckFunc ResourceType TableSize Count Serial
         else CheckId)"

definition CFE_ResourceId_FindNext ::
    "CFE_ResourceId_t \<Rightarrow> uint32 \<Rightarrow> (CFE_ResourceId_t \<Rightarrow> bool) option \<Rightarrow> CFE_ResourceId_t" where
  "CFE_ResourceId_FindNext StartId TableSize CheckFunc =
     (case CheckFunc of
        None \<Rightarrow> CFE_RESOURCEID_UNDEFINED
      | Some check \<Rightarrow>
          FindNext_loop check (CFE_ResourceId_GetBase StartId) TableSize (unat TableSize)
            (CFE_ResourceId_GetSerial StartId))"

section \<open>Laws\<close>

lemma GetBase_low: "CFE_ResourceId_GetBase i AND 0xFFFF = 0"
  by (simp add: CFE_ResourceId_GetBase_def uint32_bits bit_simps)

lemma GetSerial_less: "unat (CFE_ResourceId_GetSerial i) < 2 ^ 16"
proof -
  have "take_bit 16 (CFE_ResourceId_GetSerial i) = CFE_ResourceId_GetSerial i"
    by (simp add: CFE_ResourceId_GetSerial_def uint32_bits bit_simps)
  then show ?thesis by (simp only: less_exp_take_bit)
qed

lemma base_plus_serial:
  fixes B v :: uint32
  assumes "B AND 0xFFFF = 0" "unat v < 2 ^ 16"
  shows "B + v = B OR v"
proof -
  have "take_bit 16 v = v" using assms(2) by (simp only: less_exp_take_bit)
  with assms(1) have "B AND v = 0" by (simp add: uint32_bits bit_simps) 
  then show ?thesis by (rule disjunctive_add_eq_or)
qed

lemma base_plus_serial_parts:
  assumes "B AND 0xFFFF = 0" "unat v < 2 ^ 16"
  shows "CFE_ResourceId_GetBase (CFE_ResourceId_FromInteger (B + v)) = B"
    "CFE_ResourceId_GetSerial (CFE_ResourceId_FromInteger (B + v)) = v"
proof -
  have "take_bit 16 v = v" using assms(2) by (simp only: less_exp_take_bit)
  then show "CFE_ResourceId_GetBase (CFE_ResourceId_FromInteger (B + v)) = B"
    "CFE_ResourceId_GetSerial (CFE_ResourceId_FromInteger (B + v)) = v"
    using assms(1) unfolding CFE_ResourceId_GetBase_def CFE_ResourceId_GetSerial_def
    by (simp_all add: base_plus_serial [OF assms] uint32_bits bit_simps)
qed

text \<open>One round of the loop: the next serial, and the table slot it stands for.\<close>

definition next_serial :: "uint32 \<Rightarrow> uint32 \<Rightarrow> uint32" where
  "next_serial T s = (if s + 1 \<ge> 0xFFFF then (s + 1) mod T else s + 1)"

lemma FindNext_loop_Suc:
  "FindNext_loop chk B T (Suc n) s =
     (if chk (CFE_ResourceId_FromInteger (B + next_serial T s))
      then FindNext_loop chk B T n (next_serial T s)
      else CFE_ResourceId_FromInteger (B + next_serial T s))"
  by (simp add: next_serial_def Let_def)

lemma next_serial_slot:
  assumes "0 < unat T" "unat T < 2 ^ 16" "unat s < 2 ^ 16"
  shows "unat (next_serial T s) mod unat T = (unat s + 1) mod unat T"
    "unat (next_serial T s) < 0xFFFF"
proof -
  have s1: "unat (s + 1) = unat s + 1" using assms by (simp add: unat_word_ariths)
  then show "unat (next_serial T s) mod unat T = (unat s + 1) mod unat T"
    by (simp add: next_serial_def unat_mod)
  have "unat ((s + 1) mod T) < unat T" using assms by (simp add: unat_mod)
  then show "unat (next_serial T s) < 0xFFFF"
    using assms s1 by (auto simp: next_serial_def word_le_nat_alt)
qed

lemma mod_shift: "((a mod T) + k) mod T = (a + k) mod (T :: nat)"
  by (simp add: mod_add_left_eq)

lemma FindNext_loop_none:
  assumes "0 < unat T" "unat T < 2 ^ 16" "unat s < 2 ^ 16"
    and chk: "\<And>v. unat v < 2 ^ 16 \<Longrightarrow> chk (CFE_ResourceId_FromInteger (B + v)) = taken (unat v mod unat T)"
    and "\<And>k. k < n \<Longrightarrow> taken ((unat s + k + 1) mod unat T)"
  shows "FindNext_loop chk B T n s = CFE_RESOURCEID_UNDEFINED"
  using assms(3,5)
proof (induction n arbitrary: s)
  case (Suc n)
  note nx = next_serial_slot [OF assms(1,2) Suc.prems(1)]
  have "taken ((unat (next_serial T s) + k + 1) mod unat T)" if "k < n" for k
    using Suc.prems(2) [of "Suc k"] that nx(1) mod_shift [of "unat (next_serial T s)" "unat T" "k + 1"]
      mod_shift [of "unat s + 1" "unat T" "k + 1"] by (simp add: add.commute add.left_commute)
  moreover have "chk (CFE_ResourceId_FromInteger (B + next_serial T s))"
    using Suc.prems(2) [of 0] nx chk [of "next_serial T s"] by simp
  ultimately show ?case using Suc.IH [of "next_serial T s"] nx(2) by (simp add: FindNext_loop_Suc del: FindNext_loop.simps(2))
qed simp

lemma FindNext_loop_first:
  assumes "0 < unat T" "unat T < 2 ^ 16" "unat s < 2 ^ 16"
    and chk: "\<And>v. unat v < 2 ^ 16 \<Longrightarrow> chk (CFE_ResourceId_FromInteger (B + v)) = taken (unat v mod unat T)"
    and "\<And>j. j < k \<Longrightarrow> taken ((unat s + j + 1) mod unat T)" "\<not> taken ((unat s + k + 1) mod unat T)" "k < n"
  shows "\<exists>v. FindNext_loop chk B T n s = CFE_ResourceId_FromInteger (B + v) \<and> unat v < 0xFFFF \<and>
    unat v mod unat T = (unat s + k + 1) mod unat T"
  using assms(3,5-7)
proof (induction k arbitrary: s n)
  case 0
  note nx = next_serial_slot [OF assms(1,2) 0(1)]
  from 0 obtain n' where "n = Suc n'" by (cases n) auto
  then show ?case using 0 nx chk [of "next_serial T s"] by (auto simp: FindNext_loop_Suc simp del: FindNext_loop.simps(2))
next
  case (Suc k)
  note nx = next_serial_slot [OF assms(1,2) Suc.prems(1)]
  have sh: "(unat (next_serial T s) + j + 1) mod unat T = (unat s + Suc j + 1) mod unat T" for j
    using nx(1) mod_shift [of "unat (next_serial T s)" "unat T" "j + 1"]
      mod_shift [of "unat s + 1" "unat T" "j + 1"] by (simp add: add.commute add.left_commute)
  from Suc.prems obtain n' where n: "n = Suc n'" "k < n'" by (cases n) auto
  have "chk (CFE_ResourceId_FromInteger (B + next_serial T s))"
    using Suc.prems(2) [of 0] nx chk [of "next_serial T s"] by simp
  moreover have "\<exists>v. FindNext_loop chk B T n' (next_serial T s) = CFE_ResourceId_FromInteger (B + v) \<and> unat v < 0xFFFF \<and>
    unat v mod unat T = (unat (next_serial T s) + k + 1) mod unat T"
  proof (rule Suc.IH)
    show "taken ((unat (next_serial T s) + j + 1) mod unat T)" if "j < k" for j
      using Suc.prems(2) [of "Suc j"] sh that by simp
  qed (use Suc.prems nx n sh in auto)
  ultimately show ?case using n sh by (simp add: FindNext_loop_Suc del: FindNext_loop.simps(2))
qed

lemma slots_covered:
  fixes T :: nat
  assumes "p < T"
  shows "\<exists>k<T. (s + k + 1) mod T = p"
proof -
  let ?r = "(s + 1) mod T"
  let ?k = "(p + (T - ?r)) mod T"
  have "?r < T" using assms by simp
  have "(s + ?k + 1) mod T = ((s + 1) + (p + (T - ?r))) mod T"
    using mod_add_right_eq [of "s + 1" "p + (T - ?r)" T] by (simp add: ac_simps)
  also have "\<dots> = (?r + (p + (T - ?r))) mod T" by (rule mod_add_left_eq [symmetric])
  also have "?r + (p + (T - ?r)) = p + T" using \<open>?r < T\<close> by simp
  finally show ?thesis using assms by (intro exI [of _ ?k]) simp
qed

text \<open>C21. Over a table of at most \<open>2^16 - 1\<close> slots whose check function depends on the slot only,
  \<^verbatim>\<open>CFE_ResourceId_FindNext\<close> returns an ID of the requested type whose table index is the first free
  slot after the start in cyclic order, and the undefined ID exactly when every slot is taken.\<close>

theorem FindNext_correct:
  assumes "0 < unat T" "unat T < 2 ^ 16"
    and "\<And>i. CFE_ResourceId_GetBase i = CFE_ResourceId_GetBase start \<Longrightarrow>
           chk i = taken (unat (CFE_ResourceId_GetSerial i) mod unat T)"
  shows "if \<forall>p < unat T. taken p
    then CFE_ResourceId_FindNext start T (Some chk) = CFE_RESOURCEID_UNDEFINED
    else (\<exists>r k. CFE_ResourceId_FindNext start T (Some chk) = r \<and>
      CFE_ResourceId_GetBase r = CFE_ResourceId_GetBase start \<and>
      CFE_ResourceId_ToIndex r (CFE_ResourceId_GetBase start) T (Some x) =
        (CFE_SUCCESS, Some (of_nat ((unat (CFE_ResourceId_GetSerial start) + k + 1) mod unat T))) \<and>
      \<not> taken ((unat (CFE_ResourceId_GetSerial start) + k + 1) mod unat T) \<and>
      (\<forall>j < k. taken ((unat (CFE_ResourceId_GetSerial start) + j + 1) mod unat T)))"
proof -
  let ?B = "CFE_ResourceId_GetBase start" and ?s = "CFE_ResourceId_GetSerial start"
  let ?slot = "\<lambda>k. (unat ?s + k + 1) mod unat T"
  have chk: "chk (CFE_ResourceId_FromInteger (?B + v)) = taken (unat v mod unat T)" if "unat v < 2 ^ 16" for v
    using assms(3) [of "CFE_ResourceId_FromInteger (?B + v)"] base_plus_serial_parts [OF GetBase_low that] by simp
  show ?thesis
  proof (cases "\<forall>p < unat T. taken p")
    case True
    then have "FindNext_loop chk ?B T (unat T) ?s = CFE_RESOURCEID_UNDEFINED"
      using assms(1) by (intro FindNext_loop_none [where taken = taken, OF assms(1,2) GetSerial_less chk]) simp_all
    then show ?thesis using True by (simp add: CFE_ResourceId_FindNext_def)
  next
    case False
    then obtain k0 where "k0 < unat T" "\<not> taken (?slot k0)" using slots_covered by metis
    define k where "k = (LEAST k. \<not> taken (?slot k))"
    have k: "\<not> taken (?slot k)" "\<And>j. j < k \<Longrightarrow> taken (?slot j)" "k < unat T"
      using \<open>\<not> taken (?slot k0)\<close> \<open>k0 < unat T\<close> unfolding k_def
      by (metis (mono_tags, lifting) LeastI, metis (mono_tags, lifting) not_less_Least,
          metis (mono_tags, lifting) Least_le le_less_trans)
    then obtain v where v: "FindNext_loop chk ?B T (unat T) ?s = CFE_ResourceId_FromInteger (?B + v)"
      "unat v < 0xFFFF" "unat v mod unat T = ?slot k"
      using FindNext_loop_first [where taken = taken, OF assms(1,2) GetSerial_less chk k(2,1,3)] by blast
    have "v mod T = of_nat (unat (v mod T))" by simp
    also have "\<dots> = of_nat (?slot k)" using v(3) by (simp only: unat_mod)
    finally have "v mod T = of_nat (?slot k)" .
    moreover have "v \<le> 0xFFFF" using v(2) by (simp add: word_le_nat_alt)
    ultimately show ?thesis
      using False v k assms(1) base_plus_serial_parts [OF GetBase_low, of v start]
      by (auto simp: CFE_ResourceId_FindNext_def not_less unat_eq_0 intro!: exI [of _ k])
  qed
qed

lemma FindNext_correct_witness:
  "CFE_ResourceId_FindNext (CFE_ResourceId_FromInteger 0x30003) 4
     (Some (\<lambda>i. unat (CFE_ResourceId_GetSerial i) mod 4 \<noteq> 2)) \<noteq> CFE_RESOURCEID_UNDEFINED"
proof -
  have "\<not> (\<forall>p < unat (4 :: uint32). p \<noteq> 2)" by auto
  then have "CFE_ResourceId_GetBase (CFE_ResourceId_FindNext (CFE_ResourceId_FromInteger 0x30003) 4
     (Some (\<lambda>i. unat (CFE_ResourceId_GetSerial i) mod 4 \<noteq> 2))) = 0x30000"
  proof -
    have "0 < unat (4 :: uint32)" "unat (4 :: uint32) < 2 ^ 16" by simp_all
    note FindNext_correct [OF this, of "CFE_ResourceId_FromInteger 0x30003"
      "\<lambda>i. unat (CFE_ResourceId_GetSerial i) mod 4 \<noteq> 2" "\<lambda>p. p \<noteq> 2" 0,
      unfolded if_not_P [OF \<open>\<not> (\<forall>p < unat (4 :: uint32). p \<noteq> 2)\<close>]]
    then show ?thesis by (elim exE conjE meta_mp [elim_format]) (simp_all add: CFE_ResourceId_GetBase_def)
  qed
  then show ?thesis by (auto simp: CFE_ResourceId_GetBase_def)
qed

end
