(* ===== verification/CFS_Sbr.thy ===== *)
theory CFS_Sbr
  imports CFS_Msg
begin

text \<open>
  Software bus routing: the routing table of \<^verbatim>\<open>cfe_sbr_route_unsorted.c\<close>, the inline helpers of
  \<^verbatim>\<open>cfe_sbr.h\<close>, and the two maps from message ID to route, \<^verbatim>\<open>cfe_sbr_map_hash.c\<close> (open
  addressing) and \<^verbatim>\<open>cfe_sbr_map_direct.c\<close> (one entry per message ID), of which the build links
  one.  \<open>hash\<close> says which.  What the routing table needs from the map is the locale \<open>route_map\<close>,
  interpreted on both maps.

  The probing loops may not end on a full map: they are \<open>partial_function (option)\<close>, and that they
  return on every reachable state is a theorem.
\<close>

section \<open>State\<close>

abbreviation (input) CFE_PLATFORM_SB_MAX_MSG_IDS :: nat where "CFE_PLATFORM_SB_MAX_MSG_IDS \<equiv> 256"

text \<open>A route ID holds the table index plus one; 0 is invalid.\<close>

datatype CFE_SBR_RouteId_t = CFE_SBR_RouteId (RouteId: uint16)

abbreviation (input) CFE_SBR_INVALID_ROUTE_ID :: CFE_SBR_RouteId_t where
  "CFE_SBR_INVALID_ROUTE_ID \<equiv> CFE_SBR_RouteId 0"

definition CFE_SBR_IsValidRouteId :: "CFE_SBR_RouteId_t \<Rightarrow> bool" where
  "CFE_SBR_IsValidRouteId r \<longleftrightarrow> RouteId r \<noteq> 0 \<and> RouteId r \<le> of_nat CFE_PLATFORM_SB_MAX_MSG_IDS"

definition CFE_SBR_ValueToRouteId :: "uint16 \<Rightarrow> CFE_SBR_RouteId_t" where
  "CFE_SBR_ValueToRouteId v = CFE_SBR_RouteId (1 + v)"

definition CFE_SBR_RouteIdToValue :: "CFE_SBR_RouteId_t \<Rightarrow> uint16" where
  "CFE_SBR_RouteIdToValue r = RouteId r - 1"

text \<open>A destination list is a pointer, 0 for NULL.\<close>

record CFE_SBR_RouteEntry_t =
  ListHeadPtr :: uint64
  MsgId :: CFE_SB_MsgId_t
  SeqCnt :: uint16

record sbr_state =
  MSGMAP :: "nat \<Rightarrow> CFE_SBR_RouteId_t"
  RoutingTbl :: "nat \<Rightarrow> CFE_SBR_RouteEntry_t"
  RouteIdxTop :: uint16

section \<open>Routing table access\<close>

definition CFE_SBR_GetMsgId :: "sbr_state \<Rightarrow> CFE_SBR_RouteId_t \<Rightarrow> CFE_SB_MsgId_t" where
  "CFE_SBR_GetMsgId s r =
     (if CFE_SBR_IsValidRouteId r then MsgId (RoutingTbl s (unat (CFE_SBR_RouteIdToValue r)))
      else CFE_SB_INVALID_MSG_ID)"

definition CFE_SBR_GetDestListHeadPtr :: "sbr_state \<Rightarrow> CFE_SBR_RouteId_t \<Rightarrow> uint64" where
  "CFE_SBR_GetDestListHeadPtr s r =
     (if CFE_SBR_IsValidRouteId r then ListHeadPtr (RoutingTbl s (unat (CFE_SBR_RouteIdToValue r))) else 0)"

definition update_entry ::
    "(CFE_SBR_RouteEntry_t \<Rightarrow> CFE_SBR_RouteEntry_t) \<Rightarrow> nat \<Rightarrow> sbr_state \<Rightarrow> sbr_state" where
  "update_entry f i s = s\<lparr>RoutingTbl := (RoutingTbl s)(i := f (RoutingTbl s i))\<rparr>"

definition CFE_SBR_SetDestListHeadPtr :: "sbr_state \<Rightarrow> CFE_SBR_RouteId_t \<Rightarrow> uint64 \<Rightarrow> sbr_state" where
  "CFE_SBR_SetDestListHeadPtr s r DestPtr =
     (if CFE_SBR_IsValidRouteId r
      then update_entry (\<lambda>e. e\<lparr>ListHeadPtr := DestPtr\<rparr>) (unat (CFE_SBR_RouteIdToValue r)) s else s)"

definition CFE_SBR_IncrementSequenceCounter :: "sbr_state \<Rightarrow> CFE_SBR_RouteId_t \<Rightarrow> sbr_state" where
  "CFE_SBR_IncrementSequenceCounter s r =
     (if CFE_SBR_IsValidRouteId r
      then update_entry (\<lambda>e. e\<lparr>SeqCnt := CFE_MSG_GetNextSequenceCount (SeqCnt e)\<rparr>)
             (unat (CFE_SBR_RouteIdToValue r)) s
      else s)"

definition CFE_SBR_GetSequenceCounter :: "sbr_state \<Rightarrow> CFE_SBR_RouteId_t \<Rightarrow> uint16" where
  "CFE_SBR_GetSequenceCounter s r =
     (if CFE_SBR_IsValidRouteId r then SeqCnt (RoutingTbl s (unat (CFE_SBR_RouteIdToValue r))) else 0)"

section \<open>Hash map\<close>

abbreviation (input) HASH_MAP_MASK :: uint32 where "HASH_MAP_MASK \<equiv> 4 * 256 - 1"
abbreviation (input) CFE_SBR_HASH_MAGIC :: uint32 where "CFE_SBR_HASH_MAGIC \<equiv> 0x45d9f3b"

definition CFE_SBR_MsgIdHash :: "CFE_SB_MsgId_t \<Rightarrow> uint32" where
  "CFE_SBR_MsgIdHash mid =
     (let hash = CFE_SB_MsgIdToValue mid;
          hash = (drop_bit 16 hash XOR hash) * CFE_SBR_HASH_MAGIC;
          hash = (drop_bit 16 hash XOR hash) * CFE_SBR_HASH_MAGIC;
          hash = drop_bit 16 hash XOR hash
      in hash AND HASH_MAP_MASK)"

text \<open>The loop of \<^verbatim>\<open>CFE_SBR_SetRouteId\<close>: the first slot without a valid route, and the collisions.\<close>

partial_function (option) find_open_slot ::
    "(nat \<Rightarrow> CFE_SBR_RouteId_t) \<Rightarrow> uint32 \<Rightarrow> uint32 \<Rightarrow> (uint32 \<times> uint32) option" where
  "find_open_slot tbl hash collisions =
     (if CFE_SBR_IsValidRouteId (tbl (unat hash))
      then find_open_slot tbl ((hash + 1) AND HASH_MAP_MASK) (collisions + 1)
      else Some (hash, collisions))"

definition CFE_SBR_SetRouteId_hash ::
    "sbr_state \<Rightarrow> CFE_SB_MsgId_t \<Rightarrow> CFE_SBR_RouteId_t \<Rightarrow> (sbr_state \<times> uint32) option" where
  "CFE_SBR_SetRouteId_hash s mid r =
     (if CFE_SB_IsValidMsgId mid
      then (case find_open_slot (MSGMAP s) (CFE_SBR_MsgIdHash mid) 0 of
              None \<Rightarrow> None
            | Some (hash, collisions) \<Rightarrow> Some (s\<lparr>MSGMAP := (MSGMAP s)(unat hash := r)\<rparr>, collisions))
      else Some (s, 0))"

text \<open>The loop of \<^verbatim>\<open>CFE_SBR_GetRouteId\<close>.\<close>

partial_function (option) find_route ::
    "sbr_state \<Rightarrow> CFE_SB_MsgId_t \<Rightarrow> uint32 \<Rightarrow> CFE_SBR_RouteId_t \<Rightarrow> CFE_SBR_RouteId_t option" where
  "find_route s mid hash r =
     (if CFE_SBR_IsValidRouteId r \<and> CFE_SBR_GetMsgId s r \<noteq> mid
      then find_route s mid ((hash + 1) AND HASH_MAP_MASK) (MSGMAP s (unat ((hash + 1) AND HASH_MAP_MASK)))
      else Some r)"

definition CFE_SBR_GetRouteId_hash :: "sbr_state \<Rightarrow> CFE_SB_MsgId_t \<Rightarrow> CFE_SBR_RouteId_t option" where
  "CFE_SBR_GetRouteId_hash s mid =
     (if CFE_SB_IsValidMsgId mid
      then find_route s mid (CFE_SBR_MsgIdHash mid) (MSGMAP s (unat (CFE_SBR_MsgIdHash mid)))
      else Some CFE_SBR_INVALID_ROUTE_ID)"

section \<open>Direct map\<close>

definition CFE_SBR_SetRouteId_direct ::
    "sbr_state \<Rightarrow> CFE_SB_MsgId_t \<Rightarrow> CFE_SBR_RouteId_t \<Rightarrow> (sbr_state \<times> uint32) option" where
  "CFE_SBR_SetRouteId_direct s mid r =
     Some (if CFE_SB_IsValidMsgId mid
           then s\<lparr>MSGMAP := (MSGMAP s)(unat (CFE_SB_MsgIdToValue mid) := r)\<rparr> else s, 0)"

definition CFE_SBR_GetRouteId_direct :: "sbr_state \<Rightarrow> CFE_SB_MsgId_t \<Rightarrow> CFE_SBR_RouteId_t option" where
  "CFE_SBR_GetRouteId_direct s mid =
     Some (if CFE_SB_IsValidMsgId mid then MSGMAP s (unat (CFE_SB_MsgIdToValue mid))
           else CFE_SBR_INVALID_ROUTE_ID)"

section \<open>Routes\<close>

definition CFE_SBR_SetRouteId ::
    "bool \<Rightarrow> sbr_state \<Rightarrow> CFE_SB_MsgId_t \<Rightarrow> CFE_SBR_RouteId_t \<Rightarrow> (sbr_state \<times> uint32) option" where
  "CFE_SBR_SetRouteId hash = (if hash then CFE_SBR_SetRouteId_hash else CFE_SBR_SetRouteId_direct)"

definition CFE_SBR_GetRouteId :: "bool \<Rightarrow> sbr_state \<Rightarrow> CFE_SB_MsgId_t \<Rightarrow> CFE_SBR_RouteId_t option" where
  "CFE_SBR_GetRouteId hash = (if hash then CFE_SBR_GetRouteId_hash else CFE_SBR_GetRouteId_direct)"

definition CFE_SBR_Init_Map :: "sbr_state \<Rightarrow> sbr_state" where
  "CFE_SBR_Init_Map s = s\<lparr>MSGMAP := \<lambda>_. CFE_SBR_INVALID_ROUTE_ID\<rparr>"

definition CFE_SBR_Init :: sbr_state where
  "CFE_SBR_Init =
     CFE_SBR_Init_Map
       \<lparr>MSGMAP = \<lambda>_. CFE_SBR_INVALID_ROUTE_ID,
        RoutingTbl = \<lambda>_. \<lparr>ListHeadPtr = 0, MsgId = CFE_SB_INVALID_MSG_ID, SeqCnt = 0\<rparr>,
        RouteIdxTop = 0\<rparr>"

text \<open>The result is \<open>None\<close> when the map's probing loop does not return; otherwise the new state, the
  route and the collisions that are stored through a non-NULL \<open>CollisionsPtr\<close>.\<close>

definition CFE_SBR_AddRoute ::
    "bool \<Rightarrow> sbr_state \<Rightarrow> CFE_SB_MsgId_t \<Rightarrow> (sbr_state \<times> CFE_SBR_RouteId_t \<times> uint32) option" where
  "CFE_SBR_AddRoute hash s mid =
     (if CFE_SB_IsValidMsgId mid \<and> RouteIdxTop s < of_nat CFE_PLATFORM_SB_MAX_MSG_IDS
      then let r = CFE_SBR_ValueToRouteId (RouteIdxTop s) in
           case CFE_SBR_SetRouteId hash s mid r of
             None \<Rightarrow> None
           | Some (s, collisions) \<Rightarrow>
               let s = update_entry (\<lambda>e. e\<lparr>MsgId := mid\<rparr>) (unat (RouteIdxTop s)) s;
                   s = s\<lparr>RouteIdxTop := RouteIdxTop s + 1\<rparr>
               in Some (s, r, collisions)
      else Some (s, CFE_SBR_INVALID_ROUTE_ID, 0))"

record CFE_SBR_Throttle_t =
  StartIndex :: uint32
  MaxLoop :: uint32
  NextIndex :: uint32

text \<open>The callback is a function on the caller's state \<open>arg\<close>.  The start index is truncated to the
  16-bit index type, the sum is a 32-bit one.\<close>

definition CFE_SBR_ForEachRouteId ::
    "sbr_state \<Rightarrow> (CFE_SBR_RouteId_t \<Rightarrow> 'a \<Rightarrow> 'a) \<Rightarrow> 'a \<Rightarrow> CFE_SBR_Throttle_t option
       \<Rightarrow> 'a \<times> CFE_SBR_Throttle_t option" where
  "CFE_SBR_ForEachRouteId s callback arg ThrottlePtr =
     (let (startidx, endidx, ThrottlePtr) =
        (case ThrottlePtr of
           None \<Rightarrow> (0, RouteIdxTop s, None)
         | Some t \<Rightarrow>
             let startidx = (ucast (StartIndex t) :: uint16);
                 limit = ucast startidx + MaxLoop t
             in if limit < ucast (RouteIdxTop s)
                then (startidx, ucast limit, Some (t\<lparr>NextIndex := ucast (ucast limit :: uint16)\<rparr>))
                else (startidx, RouteIdxTop s, Some (t\<lparr>NextIndex := 0\<rparr>)))
      in (fold (\<lambda>i. callback (CFE_SBR_ValueToRouteId (of_nat i))) [unat startidx..<unat endidx] arg,
          ThrottlePtr))"

section \<open>What the table promises\<close>

text \<open>The route ID of table index \<open>i\<close>.\<close>

definition rid :: "nat \<Rightarrow> CFE_SBR_RouteId_t" where
  "rid i = CFE_SBR_RouteId (of_nat (Suc i))"

lemma unat_Suc_small: "i < 256 \<Longrightarrow> unat (of_nat (Suc i) :: uint16) = Suc i"
  by (simp add: unat_of_nat take_bit_nat_eq_self del: of_nat_Suc)

lemma rid_valid [simp]:
  assumes "i < 256"
  shows "CFE_SBR_IsValidRouteId (rid i)" "unat (CFE_SBR_RouteIdToValue (rid i)) = i"
proof -
  have u: "unat (of_nat (Suc i) :: uint16) = Suc i" using assms by (rule unat_Suc_small)
  then have "(of_nat (Suc i) :: uint16) \<noteq> 0" by auto
  with u show "CFE_SBR_IsValidRouteId (rid i)"
    using assms by (simp add: rid_def CFE_SBR_IsValidRouteId_def word_le_nat_alt del: of_nat_Suc)
  show "unat (CFE_SBR_RouteIdToValue (rid i)) = i"
    using assms by (simp add: rid_def CFE_SBR_RouteIdToValue_def unat_of_nat)
qed

lemma rid_inj: "i < 256 \<Longrightarrow> j < 256 \<Longrightarrow> rid i = rid j \<longleftrightarrow> i = j"
  by (metis rid_valid(2))

lemma rid_not_invalid [simp]: "i < 256 \<Longrightarrow> rid i \<noteq> CFE_SBR_INVALID_ROUTE_ID"
  using rid_valid(1) [of i] by (auto simp: CFE_SBR_IsValidRouteId_def)

lemma not_valid_0 [simp]: "\<not> CFE_SBR_IsValidRouteId CFE_SBR_INVALID_ROUTE_ID"
  by (simp add: CFE_SBR_IsValidRouteId_def)

lemma ValueToRouteId_rid: "CFE_SBR_ValueToRouteId v = rid (unat v)"
  by (simp add: CFE_SBR_ValueToRouteId_def rid_def)

definition msgid_at :: "sbr_state \<Rightarrow> nat \<Rightarrow> CFE_SB_MsgId_t" where
  "msgid_at s i = MsgId (RoutingTbl s i)"

abbreviation top_idx :: "sbr_state \<Rightarrow> nat" where "top_idx s \<equiv> unat (RouteIdxTop s)"

definition routes_ok :: "sbr_state \<Rightarrow> bool" where
  "routes_ok s \<longleftrightarrow> top_idx s \<le> 256 \<and> inj_on (msgid_at s) {..<top_idx s} \<and>
     (\<forall>i < top_idx s. CFE_SB_IsValidMsgId (msgid_at s i))"

text \<open>The specification of the lookup: the first table entry with the message ID.\<close>

definition route_of :: "sbr_state \<Rightarrow> CFE_SB_MsgId_t \<Rightarrow> CFE_SBR_RouteId_t" where
  "route_of s mid =
     (case find (\<lambda>i. msgid_at s i = mid) [0..<top_idx s] of
        Some i \<Rightarrow> rid i | None \<Rightarrow> CFE_SBR_INVALID_ROUTE_ID)"

lemma route_of_at: "routes_ok s \<Longrightarrow> i < top_idx s \<Longrightarrow> route_of s (msgid_at s i) = rid i"
proof -
  assume r: "routes_ok s" and i: "i < top_idx s"
  obtain j where "find (\<lambda>j. msgid_at s j = msgid_at s i) [0..<top_idx s] = Some j"
    "j < top_idx s" "msgid_at s j = msgid_at s i"
    using i by (cases "find (\<lambda>j. msgid_at s j = msgid_at s i) [0..<top_idx s]")
      (auto simp: find_None_iff find_Some_iff)
  moreover from this have "j = i" using r i by (auto simp: routes_ok_def inj_on_def)
  ultimately show ?thesis by (simp add: route_of_def)
qed

lemma route_of_none: "(\<And>i. i < top_idx s \<Longrightarrow> msgid_at s i \<noteq> mid) \<Longrightarrow> route_of s mid = CFE_SBR_INVALID_ROUTE_ID"
proof -
  assume "\<And>i. i < top_idx s \<Longrightarrow> msgid_at s i \<noteq> mid"
  then have "find (\<lambda>i. msgid_at s i = mid) [0..<top_idx s] = None" by (auto simp: find_None_iff)
  then show ?thesis by (simp add: route_of_def)
qed

lemma route_of_invalidD:
  "routes_ok s \<Longrightarrow> route_of s mid = CFE_SBR_INVALID_ROUTE_ID \<Longrightarrow> i < top_idx s \<Longrightarrow> msgid_at s i \<noteq> mid"
  using route_of_at [of s i] rid_not_invalid [of i] by (auto simp: routes_ok_def)

lemma route_of_cases:
  assumes "routes_ok s"
  obtains i where "i < top_idx s" "mid = msgid_at s i" "route_of s mid = rid i"
  | "\<And>i. i < top_idx s \<Longrightarrow> msgid_at s i \<noteq> mid" "route_of s mid = CFE_SBR_INVALID_ROUTE_ID"
  using route_of_at [OF assms] route_of_none by metis

definition new_entry :: "CFE_SB_MsgId_t \<Rightarrow> sbr_state \<Rightarrow> sbr_state" where
  "new_entry mid s =
     (let s = update_entry (\<lambda>e. e\<lparr>MsgId := mid\<rparr>) (top_idx s) s
      in s\<lparr>RouteIdxTop := RouteIdxTop s + 1\<rparr>)"

lemma new_entry_simps [simp]:
  "MSGMAP (new_entry mid s) = MSGMAP s" "msgid_at (new_entry mid s) = (msgid_at s)(top_idx s := mid)"
  by (auto simp: new_entry_def update_entry_def msgid_at_def Let_def)

lemma new_entry_top: "top_idx s < 256 \<Longrightarrow> top_idx (new_entry mid s) = Suc (top_idx s)"
  by (simp add: new_entry_def update_entry_def Let_def unat_word_ariths)

lemma new_entry_ok:
  "routes_ok s \<Longrightarrow> CFE_SB_IsValidMsgId mid \<Longrightarrow> route_of s mid = CFE_SBR_INVALID_ROUTE_ID \<Longrightarrow>
     top_idx s < 256 \<Longrightarrow> routes_ok (new_entry mid s)"
  using route_of_invalidD [of s mid] new_entry_top [of s mid]
  by (auto simp: routes_ok_def lessThan_Suc inj_on_def less_Suc_eq)

text \<open>What the routing table needs from a map: a lookup returns what the table says, and storing the
  route of a new table entry keeps the map's own invariant.  \<open>new_entry mid s\<close> is the state once the
  table entry follows.\<close>

locale route_map =
  fixes set_route :: "sbr_state \<Rightarrow> CFE_SB_MsgId_t \<Rightarrow> CFE_SBR_RouteId_t \<Rightarrow> (sbr_state \<times> uint32) option"
    and get_route :: "sbr_state \<Rightarrow> CFE_SB_MsgId_t \<Rightarrow> CFE_SBR_RouteId_t option"
    and map_inv :: "sbr_state \<Rightarrow> bool"
  assumes init: "map_inv CFE_SBR_Init"
    and get: "routes_ok s \<Longrightarrow> map_inv s \<Longrightarrow> CFE_SB_IsValidMsgId mid \<Longrightarrow> get_route s mid = Some (route_of s mid)"
    and get_invalid: "\<not> CFE_SB_IsValidMsgId mid \<Longrightarrow> get_route s mid = Some CFE_SBR_INVALID_ROUTE_ID"
    and set: "routes_ok s \<Longrightarrow> map_inv s \<Longrightarrow> CFE_SB_IsValidMsgId mid \<Longrightarrow>
       route_of s mid = CFE_SBR_INVALID_ROUTE_ID \<Longrightarrow> top_idx s < 256 \<Longrightarrow>
       \<exists>M c. set_route s mid (rid (top_idx s)) = Some (s\<lparr>MSGMAP := M\<rparr>, c) \<and>
             map_inv (new_entry mid (s\<lparr>MSGMAP := M\<rparr>))"
    and inv_cong: "MSGMAP s' = MSGMAP s \<Longrightarrow> RouteIdxTop s' = RouteIdxTop s \<Longrightarrow> msgid_at s' = msgid_at s \<Longrightarrow>
       map_inv s' = map_inv s"

section \<open>The direct map\<close>

text \<open>Each valid message ID's entry is its route.\<close>

definition direct_inv :: "sbr_state \<Rightarrow> bool" where
  "direct_inv s \<longleftrightarrow> (\<forall>mid. CFE_SB_IsValidMsgId mid \<longrightarrow> MSGMAP s (unat (CFE_SB_MsgIdToValue mid)) = route_of s mid)"

lemma MsgId_value_inj: "unat (CFE_SB_MsgIdToValue a) = unat (CFE_SB_MsgIdToValue b) \<longleftrightarrow> a = b"
  by (metis CFE_SB_MsgId_t.expand word_unat_eq_iff)

lemma route_of_new_entry:
  assumes "routes_ok s" "CFE_SB_IsValidMsgId mid" "route_of s mid = CFE_SBR_INVALID_ROUTE_ID" "top_idx s < 256"
  shows "route_of (new_entry mid s) m = (if m = mid then rid (top_idx s) else route_of s m)"
proof -
  note ok = new_entry_ok [OF assms] and top = new_entry_top [OF assms(4), of mid]
  show ?thesis
  proof (rule route_of_cases [OF assms(1), of m])
    fix i assume "i < top_idx s" "m = msgid_at s i" "route_of s m = rid i"
    then show ?thesis
      using route_of_at [OF ok, of i] route_of_invalidD [OF assms(1,3), of i] by (auto simp: top)
  next
    assume *: "\<And>i. i < top_idx s \<Longrightarrow> msgid_at s i \<noteq> m" "route_of s m = CFE_SBR_INVALID_ROUTE_ID"
    show ?thesis
    proof (cases "m = mid")
      case True
      then show ?thesis using route_of_at [OF ok, of "top_idx s"] by (simp add: top)
    next
      case False
      then have "route_of (new_entry mid s) m = CFE_SBR_INVALID_ROUTE_ID"
        using *(1) by (intro route_of_none) (auto simp: top less_Suc_eq)
      then show ?thesis using False *(2) by simp
    qed
  qed
qed

lemma route_of_cong: "RouteIdxTop s' = RouteIdxTop s \<Longrightarrow> msgid_at s' = msgid_at s \<Longrightarrow> route_of s' m = route_of s m"
  by (simp add: route_of_def)

lemma routes_ok_cong: "RouteIdxTop s' = RouteIdxTop s \<Longrightarrow> msgid_at s' = msgid_at s \<Longrightarrow> routes_ok s' = routes_ok s"
  by (simp add: routes_ok_def)

lemma with_map [simp]: "msgid_at (s\<lparr>MSGMAP := M\<rparr>) = msgid_at s"
  by (auto simp: msgid_at_def)

lemma Init_simps [simp]: "RouteIdxTop CFE_SBR_Init = 0" "MSGMAP CFE_SBR_Init = (\<lambda>_. CFE_SBR_INVALID_ROUTE_ID)"
  by (simp_all add: CFE_SBR_Init_def CFE_SBR_Init_Map_def)

interpretation direct_map: route_map CFE_SBR_SetRouteId_direct CFE_SBR_GetRouteId_direct direct_inv
proof (unfold_locales, goal_cases)
  case 1
  then show ?case using route_of_none [of CFE_SBR_Init] by (simp add: direct_inv_def)
next
  case (4 s mid)
  let ?M = "(MSGMAP s)(unat (CFE_SB_MsgIdToValue mid) := rid (top_idx s))"
  have *: "routes_ok (s\<lparr>MSGMAP := ?M\<rparr>)" "route_of (s\<lparr>MSGMAP := ?M\<rparr>) mid = CFE_SBR_INVALID_ROUTE_ID"
    using 4 routes_ok_cong [of "s\<lparr>MSGMAP := ?M\<rparr>" s] route_of_cong [of "s\<lparr>MSGMAP := ?M\<rparr>" s] by simp_all
  have "direct_inv (new_entry mid (s\<lparr>MSGMAP := ?M\<rparr>))"
    using 4 route_of_new_entry [OF *(1) 4(3) *(2)] route_of_cong [of "s\<lparr>MSGMAP := ?M\<rparr>" s]
    by (auto simp: direct_inv_def MsgId_value_inj)
  then show ?case using 4 by (auto simp: CFE_SBR_SetRouteId_direct_def)
next
  case (5 s' s)
  then show ?case using route_of_cong [of s' s] by (simp add: direct_inv_def)
qed (auto simp: CFE_SBR_GetRouteId_direct_def direct_inv_def)

section \<open>The hash map\<close>

lemma hash_mask: "unat (w AND 1023 :: uint32) = unat w mod 1024"
proof -
  have "(1023 :: uint32) = mask 10" by (simp add: mask_eq_exp_minus_1)
  then show ?thesis by (simp only: take_bit_eq_mask [symmetric] unsigned_take_bit_eq) (simp add: take_bit_eq_mod)
qed

definition slot :: "nat \<Rightarrow> nat \<Rightarrow> nat" where "slot h k = (h + k) mod 1024"

lemma slot_next: "slot (unat ((w + 1) AND 1023 :: uint32)) k = slot (unat w) (Suc k)"
proof -
  have "unat (w + 1) mod 1024 = Suc (unat w) mod 1024"
    by (simp add: unat_word_ariths mod_mod_cancel)
  then show ?thesis
    unfolding slot_def hash_mask
    by (metis Suc_eq_plus1 add.commute add.left_commute mod_add_left_eq plus_1_eq_Suc add_Suc_shift)
qed

lemma hash_less: "unat (CFE_SBR_MsgIdHash mid) < 1024"
  by (simp add: CFE_SBR_MsgIdHash_def Let_def hash_mask)

lemma slot_0: "h < 1024 \<Longrightarrow> slot h 0 = h"
  by (simp add: slot_def)

lemma next_less: "unat ((w + 1) AND 1023 :: uint32) < 1024"
  by (simp add: hash_mask)

lemma find_open_slot_at:
  "unat h < 1024 \<Longrightarrow> (\<And>j. j < k \<Longrightarrow> CFE_SBR_IsValidRouteId (tbl (slot (unat h) j))) \<Longrightarrow>
   \<not> CFE_SBR_IsValidRouteId (tbl (slot (unat h) k)) \<Longrightarrow>
   \<exists>h' c'. find_open_slot tbl h c = Some (h', c') \<and> unat h' = slot (unat h) k"
proof (induction k arbitrary: h c)
  case 0
  then show ?case by (subst find_open_slot.simps) (simp add: slot_0)
next
  case (Suc k)
  have "CFE_SBR_IsValidRouteId (tbl (unat h))" using Suc.prems(1) Suc.prems(2) [of 0] by (simp add: slot_0)
  moreover have "\<exists>h' c'. find_open_slot tbl ((h + 1) AND 1023) (c + 1) = Some (h', c') \<and>
      unat h' = slot (unat ((h + 1) AND 1023)) k"
    by (rule Suc.IH) (use Suc.prems(2) [of "Suc _"] Suc.prems(3) in \<open>auto simp: slot_next next_less\<close>)
  ultimately show ?case by (subst find_open_slot.simps) (simp add: slot_next)
qed

lemma find_route_at:
  "unat h < 1024 \<Longrightarrow>
   (\<And>j. j < k \<Longrightarrow> CFE_SBR_IsValidRouteId (MSGMAP s (slot (unat h) j)) \<and>
                  CFE_SBR_GetMsgId s (MSGMAP s (slot (unat h) j)) \<noteq> mid) \<Longrightarrow>
   \<not> (CFE_SBR_IsValidRouteId (MSGMAP s (slot (unat h) k)) \<and>
      CFE_SBR_GetMsgId s (MSGMAP s (slot (unat h) k)) \<noteq> mid) \<Longrightarrow>
   find_route s mid h (MSGMAP s (unat h)) = Some (MSGMAP s (slot (unat h) k))"
proof (induction k arbitrary: h)
  case 0
  then show ?case by (subst find_route.simps) (auto simp: slot_0)
next
  case (Suc k)
  have "CFE_SBR_IsValidRouteId (MSGMAP s (unat h)) \<and> CFE_SBR_GetMsgId s (MSGMAP s (unat h)) \<noteq> mid"
    using Suc.prems(1) Suc.prems(2) [of 0] by (simp add: slot_0)
  moreover have "find_route s mid ((h + 1) AND 1023) (MSGMAP s (unat ((h + 1) AND 1023))) =
      Some (MSGMAP s (slot (unat ((h + 1) AND 1023)) k))"
    by (rule Suc.IH) (use Suc.prems(2) [of "Suc _"] Suc.prems(3) in \<open>auto simp: slot_next next_less\<close>)
  ultimately show ?case by (subst find_route.simps) (simp add: slot_next)
qed

abbreviation (input) hslot :: "CFE_SB_MsgId_t \<Rightarrow> nat \<Rightarrow> nat" where
  "hslot mid \<equiv> slot (unat (CFE_SBR_MsgIdHash mid))"

text \<open>The invariant of the open addressing: every used slot holds the route of a table entry, the route
  of every entry is found by probing from the hash of its message ID over used slots, and no route is
  stored twice.\<close>

definition hash_inv :: "sbr_state \<Rightarrow> bool" where
  "hash_inv s \<longleftrightarrow>
     (\<forall>j. MSGMAP s j = CFE_SBR_INVALID_ROUTE_ID \<or> (\<exists>i < top_idx s. MSGMAP s j = rid i)) \<and>
     (\<forall>i < top_idx s. \<exists>k. MSGMAP s (hslot (msgid_at s i) k) = rid i \<and>
         (\<forall>j < k. MSGMAP s (hslot (msgid_at s i) j) \<noteq> CFE_SBR_INVALID_ROUTE_ID)) \<and>
     inj_on (MSGMAP s) {j. j < 1024 \<and> MSGMAP s j \<noteq> CFE_SBR_INVALID_ROUTE_ID}"

lemma hash_valid_iff:
  "hash_inv s \<Longrightarrow> routes_ok s \<Longrightarrow> CFE_SBR_IsValidRouteId (MSGMAP s j) \<longleftrightarrow> MSGMAP s j \<noteq> CFE_SBR_INVALID_ROUTE_ID"
  unfolding hash_inv_def routes_ok_def by (metis not_valid_0 order_less_le_trans rid_valid(1))

text \<open>There is an open slot: the taken ones hold different routes, of which there are at most 256.\<close>

lemma hash_open_slot:
  assumes "hash_inv s" "routes_ok s"
  obtains k where "MSGMAP s (slot h k) = CFE_SBR_INVALID_ROUTE_ID"
    "\<And>j. j < k \<Longrightarrow> MSGMAP s (slot h j) \<noteq> CFE_SBR_INVALID_ROUTE_ID"
proof -
  let ?A = "{j. j < 1024 \<and> MSGMAP s j \<noteq> CFE_SBR_INVALID_ROUTE_ID}"
  have "MSGMAP s ` ?A \<subseteq> rid ` {..<top_idx s}" using assms(1) unfolding hash_inv_def by blast
  then have "card (MSGMAP s ` ?A) \<le> card (rid ` {..<top_idx s})" by (intro card_mono) auto
  also have "\<dots> \<le> top_idx s" using card_image_le [of "{..<top_idx s}" rid] by simp
  finally have "card ?A \<le> 256" using assms card_image [of "MSGMAP s" ?A] by (simp add: hash_inv_def routes_ok_def)
  then have "?A \<noteq> {..<1024}" using card_lessThan [of 1024] by (intro notI) simp
  then obtain p where p: "p < 1024" "MSGMAP s p = CFE_SBR_INVALID_ROUTE_ID" by auto
  have "slot h ((p + (1024 - h mod 1024))) = p"
  proof -
    have "(h + (p + (1024 - h mod 1024))) mod 1024 = (h mod 1024 + (p + (1024 - h mod 1024))) mod 1024"
      by (rule mod_add_left_eq [symmetric])
    also have "h mod 1024 + (p + (1024 - h mod 1024)) = p + 1024"
      using mod_less_divisor [of 1024 h] by simp
    finally show ?thesis using p by (simp add: slot_def)
  qed
  with p have *: "MSGMAP s (slot h (p + (1024 - h mod 1024))) = CFE_SBR_INVALID_ROUTE_ID" by simp
  show thesis
    by (rule that [of "LEAST k. MSGMAP s (slot h k) = CFE_SBR_INVALID_ROUTE_ID"])
      (rule LeastI [where P = "\<lambda>k. MSGMAP s (slot h k) = CFE_SBR_INVALID_ROUTE_ID", OF *],
       rule not_less_Least)
qed

lemma GetMsgId_rid: "i < 256 \<Longrightarrow> CFE_SBR_GetMsgId s (rid i) = msgid_at s i"
  by (simp add: CFE_SBR_GetMsgId_def msgid_at_def)

lemma hash_get:
  assumes ok: "routes_ok s" and inv: "hash_inv s" and "CFE_SB_IsValidMsgId mid"
  shows "CFE_SBR_GetRouteId_hash s mid = Some (route_of s mid)"
proof -
  let ?h = "CFE_SBR_MsgIdHash mid"
  have at: "find_route s mid ?h (MSGMAP s (unat ?h)) = Some (MSGMAP s (hslot mid k))"
    if "\<And>j. j < k \<Longrightarrow> MSGMAP s (hslot mid j) \<noteq> CFE_SBR_INVALID_ROUTE_ID \<and> CFE_SBR_GetMsgId s (MSGMAP s (hslot mid j)) \<noteq> mid"
      "MSGMAP s (hslot mid k) = CFE_SBR_INVALID_ROUTE_ID \<or> CFE_SBR_GetMsgId s (MSGMAP s (hslot mid k)) = mid" for k
    using that by (intro find_route_at [OF hash_less]) (auto simp: hash_valid_iff [OF inv ok])
  have other: "CFE_SBR_GetMsgId s (MSGMAP s j) \<noteq> mid"
    if used: "MSGMAP s j \<noteq> CFE_SBR_INVALID_ROUTE_ID" and ne: "MSGMAP s j \<noteq> route_of s mid" for j
  proof -
    obtain i where "i < top_idx s" "MSGMAP s j = rid i"
      using inv [unfolded hash_inv_def, THEN conjunct1, THEN spec, of j] used by auto
    then show ?thesis
      using ok ne route_of_at [OF ok] GetMsgId_rid [of i s] by (auto simp: routes_ok_def)
  qed
  have "find_route s mid ?h (MSGMAP s (unat ?h)) = Some (route_of s mid)"
  proof (rule route_of_cases [OF ok, of mid])
    fix i assume i: "i < top_idx s" "mid = msgid_at s i" "route_of s mid = rid i"
    then have i': "i < 256" using ok by (simp add: routes_ok_def)
    define k where "k = (LEAST k. MSGMAP s (hslot mid k) = rid i)"
    obtain k0 where k0: "MSGMAP s (hslot mid k0) = rid i"
      "\<And>j. j < k0 \<Longrightarrow> MSGMAP s (hslot mid j) \<noteq> CFE_SBR_INVALID_ROUTE_ID"
      using inv i unfolding hash_inv_def by blast
    have k: "MSGMAP s (hslot mid k) = rid i" "k \<le> k0" "\<And>j. j < k \<Longrightarrow> MSGMAP s (hslot mid j) \<noteq> rid i"
      unfolding k_def using k0(1) by (auto intro: LeastI Least_le dest: not_less_Least)
    then show ?thesis using at [of k] k0(2) other i i' GetMsgId_rid [OF i', of s] by simp
  next
    assume n: "\<And>i. i < top_idx s \<Longrightarrow> msgid_at s i \<noteq> mid" "route_of s mid = CFE_SBR_INVALID_ROUTE_ID"
    obtain k where "MSGMAP s (hslot mid k) = CFE_SBR_INVALID_ROUTE_ID"
      "\<And>j. j < k \<Longrightarrow> MSGMAP s (hslot mid j) \<noteq> CFE_SBR_INVALID_ROUTE_ID"
      using hash_open_slot [OF inv ok] by blast
    then show ?thesis using at [of k] other n(2) by simp
  qed
  then show ?thesis using assms(3) by (simp add: CFE_SBR_GetRouteId_hash_def)
qed

lemma hash_set:
  assumes ok: "routes_ok s" and inv: "hash_inv s" and mid: "CFE_SB_IsValidMsgId mid"
    and new: "route_of s mid = CFE_SBR_INVALID_ROUTE_ID" and top: "top_idx s < 256"
  shows "\<exists>M c. CFE_SBR_SetRouteId_hash s mid (rid (top_idx s)) = Some (s\<lparr>MSGMAP := M\<rparr>, c) \<and>
             hash_inv (new_entry mid (s\<lparr>MSGMAP := M\<rparr>))"
proof -
  let ?h = "CFE_SBR_MsgIdHash mid"
  obtain k where k: "MSGMAP s (hslot mid k) = CFE_SBR_INVALID_ROUTE_ID"
      "\<And>j. j < k \<Longrightarrow> MSGMAP s (hslot mid j) \<noteq> CFE_SBR_INVALID_ROUTE_ID"
    using hash_open_slot [OF inv ok] by blast
  obtain h' c where "find_open_slot (MSGMAP s) ?h 0 = Some (h', c)" "unat h' = hslot mid k"
    using find_open_slot_at [OF hash_less, of k "MSGMAP s" mid 0] k by (auto simp: hash_valid_iff [OF inv ok])
  moreover define M where "M = (MSGMAP s)(hslot mid k := rid (top_idx s))"
  ultimately have set: "CFE_SBR_SetRouteId_hash s mid (rid (top_idx s)) = Some (s\<lparr>MSGMAP := M\<rparr>, c)"
    using mid by (simp add: CFE_SBR_SetRouteId_hash_def)
  let ?s = "new_entry mid (s\<lparr>MSGMAP := M\<rparr>)"
  have t: "top_idx ?s = Suc (top_idx s)" using new_entry_top [of "s\<lparr>MSGMAP := M\<rparr>"] top by simp
  have keep: "MSGMAP s j \<noteq> CFE_SBR_INVALID_ROUTE_ID \<Longrightarrow> M j = MSGMAP s j" for j
    using k(1) by (auto simp: M_def)
  have fresh: "MSGMAP s j \<noteq> rid (top_idx s)" for j
    using inv [unfolded hash_inv_def, THEN conjunct1, THEN spec, of j] top rid_inj [of _ "top_idx s"]
      rid_not_invalid [OF top, symmetric] by auto
  have "hash_inv ?s"
    unfolding hash_inv_def t new_entry_simps
  proof (intro conjI allI impI)
    fix j
    show "MSGMAP (s\<lparr>MSGMAP := M\<rparr>) j = CFE_SBR_INVALID_ROUTE_ID \<or>
          (\<exists>i<Suc (top_idx s). MSGMAP (s\<lparr>MSGMAP := M\<rparr>) j = rid i)"
      using inv by (auto simp: M_def hash_inv_def less_Suc_eq)
  next
    fix i assume "i < Suc (top_idx s)"
    show "\<exists>k. MSGMAP (s\<lparr>MSGMAP := M\<rparr>) (hslot (((msgid_at (s\<lparr>MSGMAP := M\<rparr>))(top_idx (s\<lparr>MSGMAP := M\<rparr>) := mid)) i) k) = rid i \<and>
         (\<forall>j < k. MSGMAP (s\<lparr>MSGMAP := M\<rparr>) (hslot (((msgid_at (s\<lparr>MSGMAP := M\<rparr>))(top_idx (s\<lparr>MSGMAP := M\<rparr>) := mid)) i) j) \<noteq> CFE_SBR_INVALID_ROUTE_ID)"
    proof (cases "i = top_idx s")
      case True
      then show ?thesis using k keep by (intro exI [of _ k]) (auto simp: M_def)
    next
      case False
      then have "i < top_idx s" using \<open>i < Suc (top_idx s)\<close> by simp
      then obtain k' where "MSGMAP s (hslot (msgid_at s i) k') = rid i"
        "\<forall>j < k'. MSGMAP s (hslot (msgid_at s i) j) \<noteq> CFE_SBR_INVALID_ROUTE_ID"
        using inv unfolding hash_inv_def by blast
      then show ?thesis
        using False keep rid_not_invalid [of i] \<open>i < top_idx s\<close> top by (intro exI [of _ k']) simp
    qed
  next
    show "inj_on (MSGMAP (s\<lparr>MSGMAP := M\<rparr>)) {j. j < 1024 \<and> MSGMAP (s\<lparr>MSGMAP := M\<rparr>) j \<noteq> CFE_SBR_INVALID_ROUTE_ID}"
      using inv fresh rid_not_invalid [OF top] by (auto simp: M_def hash_inv_def inj_on_def split: if_splits)
  qed
  with set show ?thesis by blast
qed

interpretation hash_map: route_map CFE_SBR_SetRouteId_hash CFE_SBR_GetRouteId_hash hash_inv
proof (unfold_locales, goal_cases)
  case 1
  show ?case by (simp add: hash_inv_def)
next
  case (2 s mid)
  then show ?case by (rule hash_get)
next
  case (3 mid s)
  then show ?case by (simp add: CFE_SBR_GetRouteId_hash_def)
next
  case (4 s mid)
  then show ?case by (rule hash_set)
next
  case (5 s' s)
  then show ?case by (simp add: hash_inv_def)
qed

section \<open>Routing\<close>

text \<open>The map of the build.\<close>

definition map_inv :: "bool \<Rightarrow> sbr_state \<Rightarrow> bool" where
  "map_inv hash = (if hash then hash_inv else direct_inv)"

interpretation routes: route_map "CFE_SBR_SetRouteId hash" "CFE_SBR_GetRouteId hash" "map_inv hash" for hash
  using hash_map.route_map_axioms direct_map.route_map_axioms
  by (simp add: CFE_SBR_SetRouteId_def CFE_SBR_GetRouteId_def map_inv_def)

definition sbr_inv :: "bool \<Rightarrow> sbr_state \<Rightarrow> bool" where
  "sbr_inv hash s \<longleftrightarrow> routes_ok s \<and> map_inv hash s"

lemma sbr_inv_Init: "sbr_inv hash CFE_SBR_Init"
  using routes.init by (simp add: sbr_inv_def routes_ok_def)

lemma GetRouteId_spec:
  "sbr_inv hash s \<Longrightarrow> CFE_SBR_GetRouteId hash s mid = Some (route_of s mid)"
proof (cases "CFE_SB_IsValidMsgId mid")
  case False
  moreover assume "sbr_inv hash s"
  ultimately have "route_of s mid = CFE_SBR_INVALID_ROUTE_ID"
    by (intro route_of_none) (auto simp: sbr_inv_def routes_ok_def)
  then show ?thesis using routes.get_invalid [OF False] by simp
qed (simp add: sbr_inv_def routes.get)

lemma AddRoute_ok:
  assumes inv: "sbr_inv hash s" and "CFE_SB_IsValidMsgId mid"
    and "route_of s mid = CFE_SBR_INVALID_ROUTE_ID" "top_idx s < 256"
  obtains M c where "CFE_SBR_AddRoute hash s mid = Some (new_entry mid (s\<lparr>MSGMAP := M\<rparr>), rid (top_idx s), c)"
    "sbr_inv hash (new_entry mid (s\<lparr>MSGMAP := M\<rparr>))"
proof -
  obtain M c where "CFE_SBR_SetRouteId hash s mid (rid (top_idx s)) = Some (s\<lparr>MSGMAP := M\<rparr>, c)"
    and m: "map_inv hash (new_entry mid (s\<lparr>MSGMAP := M\<rparr>))"
    using routes.set assms unfolding sbr_inv_def by blast
  then have "CFE_SBR_AddRoute hash s mid = Some (new_entry mid (s\<lparr>MSGMAP := M\<rparr>), rid (top_idx s), c)"
    using assms(2,4) by (simp add: CFE_SBR_AddRoute_def ValueToRouteId_rid new_entry_def word_less_nat_alt Let_def)
  moreover have "routes_ok (new_entry mid (s\<lparr>MSGMAP := M\<rparr>))"
    using assms routes_ok_cong [of "s\<lparr>MSGMAP := M\<rparr>" s] route_of_cong [of "s\<lparr>MSGMAP := M\<rparr>" s]
    by (intro new_entry_ok) (simp_all add: sbr_inv_def)
  ultimately show thesis using that m by (simp add: sbr_inv_def)
qed

lemma AddRoute_rejects:
  "\<not> CFE_SB_IsValidMsgId mid \<or> \<not> top_idx s < 256 \<Longrightarrow>
     CFE_SBR_AddRoute hash s mid = Some (s, CFE_SBR_INVALID_ROUTE_ID, 0)"
  by (auto simp: CFE_SBR_AddRoute_def word_less_nat_alt)

lemma update_entry_inv:
  "(\<And>e. MsgId (f e) = MsgId e) \<Longrightarrow> sbr_inv hash (update_entry f i s) = sbr_inv hash s"
proof -
  assume "\<And>e. MsgId (f e) = MsgId e"
  then have m: "msgid_at (update_entry f i s) = msgid_at s" by (auto simp: update_entry_def msgid_at_def)
  have t: "MSGMAP (update_entry f i s) = MSGMAP s" "RouteIdxTop (update_entry f i s) = RouteIdxTop s"
    by (simp_all add: update_entry_def)
  have "map_inv hash (update_entry f i s) = map_inv hash s" using t m by (rule routes.inv_cong)
  moreover have "routes_ok (update_entry f i s) = routes_ok s" using t(2) m by (rule routes_ok_cong)
  ultimately show ?thesis by (simp add: sbr_inv_def)
qed

text \<open>What the software bus does with the routes: find or add the route of a subscription
  (\<^verbatim>\<open>CFE_SB_SubscribeFull\<close>), change a destination list, count a sent message.\<close>

datatype sbr_op =
    FindOrAdd CFE_SB_MsgId_t
  | SetDest CFE_SBR_RouteId_t uint64
  | CountMsg CFE_SBR_RouteId_t

fun sbr_step :: "bool \<Rightarrow> sbr_op \<Rightarrow> sbr_state \<Rightarrow> sbr_state option" where
  "sbr_step hash (FindOrAdd mid) s =
     (case CFE_SBR_GetRouteId hash s mid of
        None \<Rightarrow> None
      | Some r \<Rightarrow> if CFE_SBR_IsValidRouteId r then Some s
                  else map_option fst (CFE_SBR_AddRoute hash s mid))"
| "sbr_step hash (SetDest r p) s = Some (CFE_SBR_SetDestListHeadPtr s r p)"
| "sbr_step hash (CountMsg r) s = Some (CFE_SBR_IncrementSequenceCounter s r)"

fun sbr_run :: "bool \<Rightarrow> sbr_op list \<Rightarrow> sbr_state \<Rightarrow> sbr_state option" where
  "sbr_run hash [] s = Some s"
| "sbr_run hash (op # ops) s = (case sbr_step hash op s of None \<Rightarrow> None | Some s \<Rightarrow> sbr_run hash ops s)"

text \<open>The routing table without the map: what the rest of the software bus sees.\<close>

definition same_routes :: "sbr_state \<Rightarrow> sbr_state \<Rightarrow> bool" where
  "same_routes s t \<longleftrightarrow> RoutingTbl s = RoutingTbl t \<and> RouteIdxTop s = RouteIdxTop t"

lemma same_routes_route_of: "same_routes s t \<Longrightarrow> route_of s mid = route_of t mid"
  by (simp add: same_routes_def route_of_def msgid_at_def)

lemma sbr_step_ok:
  assumes "sbr_inv hash s"
  obtains s' where "sbr_step hash op s = Some s'" "sbr_inv hash s'"
    "\<And>hash' t. sbr_inv hash' t \<Longrightarrow> same_routes s t \<Longrightarrow> 
        \<exists>t'. sbr_step hash' op t = Some t' \<and> sbr_inv hash' t' \<and> same_routes s' t'"
proof (cases op)
  case (FindOrAdd mid)
  show thesis
  proof (cases "CFE_SBR_IsValidRouteId (route_of s mid)")
    case True
    then have "sbr_step h op t = Some t" if "sbr_inv h t" "same_routes s t" for h t
      using FindOrAdd GetRouteId_spec [OF that(1), of mid] same_routes_route_of [OF that(2), of mid] by simp
    then show ?thesis using assms by (intro that [of s]) (auto simp: same_routes_def)
  next
    case False
    then have r: "route_of s mid = CFE_SBR_INVALID_ROUTE_ID"
      using assms by (rule_tac route_of_cases [of s mid]) (auto simp: sbr_inv_def routes_ok_def)
    show ?thesis
    proof (cases "CFE_SB_IsValidMsgId mid \<and> top_idx s < 256")
      case True
      then obtain M c where add: "CFE_SBR_AddRoute hash s mid = Some (new_entry mid (s\<lparr>MSGMAP := M\<rparr>), rid (top_idx s), c)"
        "sbr_inv hash (new_entry mid (s\<lparr>MSGMAP := M\<rparr>))"
        using AddRoute_ok [OF assms _ r] by blast
      show ?thesis
      proof (rule that [of "new_entry mid (s\<lparr>MSGMAP := M\<rparr>)"])
        fix hash' t assume t: "sbr_inv hash' t" "same_routes s t"
        then have rt: "route_of t mid = CFE_SBR_INVALID_ROUTE_ID" "top_idx t < 256"
          using r True same_routes_route_of [OF t(2)] by (simp_all add: same_routes_def)
        obtain N d where "CFE_SBR_AddRoute hash' t mid = Some (new_entry mid (t\<lparr>MSGMAP := N\<rparr>), rid (top_idx t), d)"
          "sbr_inv hash' (new_entry mid (t\<lparr>MSGMAP := N\<rparr>))"
          using AddRoute_ok [OF t(1) _ rt] True by blast
        then show "\<exists>t'. sbr_step hash' op t = Some t' \<and> sbr_inv hash' t' \<and>
            same_routes (new_entry mid (s\<lparr>MSGMAP := M\<rparr>)) t'"
          using FindOrAdd GetRouteId_spec [OF t(1)] rt t(2)
          by (simp add: same_routes_def new_entry_def update_entry_def)
      qed (use add FindOrAdd GetRouteId_spec [OF assms] False r in simp_all)
    next
      case no: False
      have "sbr_step h op t = Some t" if "sbr_inv h t" "same_routes s t" for h t
        using FindOrAdd GetRouteId_spec [OF that(1), of mid] same_routes_route_of [OF that(2), of mid]
          False AddRoute_rejects [of mid t h] no that(2) by (auto simp: same_routes_def)
      then show ?thesis using assms by (intro that [of s]) (auto simp: same_routes_def)
    qed
  qed
next
  case (SetDest r p)
  then show thesis
    using assms by (intro that [of "CFE_SBR_SetDestListHeadPtr s r p"])
      (auto simp: CFE_SBR_SetDestListHeadPtr_def update_entry_inv same_routes_def, simp_all add: update_entry_def)
next
  case (CountMsg r)
  then show thesis
    using assms by (intro that [of "CFE_SBR_IncrementSequenceCounter s r"])
      (auto simp: CFE_SBR_IncrementSequenceCounter_def update_entry_inv same_routes_def, simp_all add: update_entry_def)
qed

lemma sbr_run_ok:
  "sbr_inv hash s \<Longrightarrow> sbr_inv hash' t \<Longrightarrow> same_routes s t \<Longrightarrow>
     \<exists>s' t'. sbr_run hash ops s = Some s' \<and> sbr_run hash' ops t = Some t' \<and> sbr_inv hash s' \<and>
       sbr_inv hash' t' \<and> same_routes s' t'"
proof (induction ops arbitrary: s t)
  case (Cons op ops)
  obtain s1 where s1: "sbr_step hash op s = Some s1" "sbr_inv hash s1"
    "\<And>hash' t. sbr_inv hash' t \<Longrightarrow> same_routes s t \<Longrightarrow>
        \<exists>t'. sbr_step hash' op t = Some t' \<and> sbr_inv hash' t' \<and> same_routes s1 t'"
    using sbr_step_ok [OF Cons.prems(1)] by blast
  obtain t1 where "sbr_step hash' op t = Some t1" "sbr_inv hash' t1" "same_routes s1 t1"
    using s1(3) Cons.prems by blast
  then show ?case using Cons.IH [OF s1(2)] s1(1) by simp
qed simp

text \<open>C22. Whatever sequence of operations the software bus applies from initialisation, on either map no
  probing loop runs forever, the table stays well formed, and the lookup of any message ID returns the
  route of its table entry, or the invalid route when it has none.\<close>

theorem routing_total_correct:
  "\<exists>s. sbr_run hash ops CFE_SBR_Init = Some s \<and> routes_ok s \<and>
     CFE_SBR_GetRouteId hash s mid = Some (route_of s mid)"
proof -
  have "same_routes CFE_SBR_Init CFE_SBR_Init" by (simp add: same_routes_def)
  from sbr_run_ok [OF sbr_inv_Init sbr_inv_Init this] obtain s where
    "sbr_run hash ops CFE_SBR_Init = Some s" "sbr_inv hash s" by blast
  then show ?thesis using GetRouteId_spec [of hash s mid] by (simp add: sbr_inv_def)
qed

text \<open>C23. The two maps are interchangeable: after the same operations both builds hold the same routing
  table and answer every lookup alike.\<close>

theorem hash_direct_equivalent:
  "\<exists>s t. sbr_run True ops CFE_SBR_Init = Some s \<and> sbr_run False ops CFE_SBR_Init = Some t \<and>
     RoutingTbl s = RoutingTbl t \<and> RouteIdxTop s = RouteIdxTop t \<and>
     CFE_SBR_GetRouteId True s mid = CFE_SBR_GetRouteId False t mid"
proof -
  have "same_routes CFE_SBR_Init CFE_SBR_Init" by (simp add: same_routes_def)
  from sbr_run_ok [OF sbr_inv_Init sbr_inv_Init this] obtain s t where
    "sbr_run True ops CFE_SBR_Init = Some s" "sbr_run False ops CFE_SBR_Init = Some t"
    "sbr_inv True s" "sbr_inv False t" "same_routes s t" by blast
  then show ?thesis
    using GetRouteId_spec same_routes_route_of [of s t mid] by (auto simp: same_routes_def)
qed

lemma sbr_run_inv: "sbr_run hash ops CFE_SBR_Init = Some s \<Longrightarrow> sbr_inv hash s"
  using sbr_run_ok [where hash = hash and hash' = hash and ops = ops, OF sbr_inv_Init sbr_inv_Init] by (auto simp: same_routes_def)

text \<open>In every state the software bus reaches, adding the route of a valid message ID that has none
  succeeds while the table has room: the new route is valid, names that message ID, is what the lookup
  returns for it from then on, and leaves the lookup of every other message ID as it was; an invalid
  ID or a full table changes nothing and returns the invalid route.\<close>

theorem AddRoute_functional:
  assumes "sbr_run hash ops CFE_SBR_Init = Some s"
    and "CFE_SBR_GetRouteId hash s mid = Some CFE_SBR_INVALID_ROUTE_ID"
  shows "if CFE_SB_IsValidMsgId mid \<and> unat (RouteIdxTop s) < 256
    then \<exists>s' r c. CFE_SBR_AddRoute hash s mid = Some (s', r, c) \<and> CFE_SBR_IsValidRouteId r \<and>
       CFE_SBR_GetMsgId s' r = mid \<and>
       CFE_SBR_GetRouteId hash s' = (CFE_SBR_GetRouteId hash s)(mid := Some r)
    else CFE_SBR_AddRoute hash s mid = Some (s, CFE_SBR_INVALID_ROUTE_ID, 0)"
proof (cases "CFE_SB_IsValidMsgId mid \<and> top_idx s < 256")
  case True
  have inv: "sbr_inv hash s" using assms(1) by (rule sbr_run_inv)
  have new: "route_of s mid = CFE_SBR_INVALID_ROUTE_ID"
    using assms(2) GetRouteId_spec [OF inv, of mid] by simp
  obtain M c where add: "CFE_SBR_AddRoute hash s mid = Some (new_entry mid (s\<lparr>MSGMAP := M\<rparr>), rid (top_idx s), c)"
    "sbr_inv hash (new_entry mid (s\<lparr>MSGMAP := M\<rparr>))"
    using AddRoute_ok [OF inv _ new] True by blast
  have r: "routes_ok (s\<lparr>MSGMAP := M\<rparr>)" "route_of (s\<lparr>MSGMAP := M\<rparr>) m = route_of s m" for m
    using inv routes_ok_cong [of "s\<lparr>MSGMAP := M\<rparr>" s] route_of_cong [of "s\<lparr>MSGMAP := M\<rparr>" s]
    by (simp_all add: sbr_inv_def)
  have "CFE_SBR_GetRouteId hash (new_entry mid (s\<lparr>MSGMAP := M\<rparr>)) = (CFE_SBR_GetRouteId hash s)(mid := Some (rid (top_idx s)))"
    using route_of_new_entry [OF r(1), of mid] r(2) new True GetRouteId_spec [OF inv] GetRouteId_spec [OF add(2)]
    by (auto simp: fun_eq_iff)
  then show ?thesis using True add GetMsgId_rid [of "top_idx s"] by simp
next
  case False
  then show ?thesis using AddRoute_rejects [of mid s hash] by auto
qed

lemma AddRoute_functional_witness:
  "\<exists>s' r c. CFE_SBR_AddRoute True CFE_SBR_Init (CFE_SB_ValueToMsgId 0x1801) = Some (s', r, c) \<and>
     CFE_SBR_GetMsgId s' r = CFE_SB_ValueToMsgId 0x1801 \<and> CFE_SBR_IsValidRouteId r"
proof -
  have "CFE_SBR_GetRouteId True CFE_SBR_Init (CFE_SB_ValueToMsgId 0x1801) = Some CFE_SBR_INVALID_ROUTE_ID"
    using GetRouteId_spec [OF sbr_inv_Init] route_of_none [of CFE_SBR_Init] by simp
  moreover have "CFE_SB_IsValidMsgId (CFE_SB_ValueToMsgId 0x1801) \<and> unat (RouteIdxTop CFE_SBR_Init) < 256"
    by (simp add: IsValidMsgId_bits)
  ultimately show ?thesis
    using AddRoute_functional [of True "[]" CFE_SBR_Init "CFE_SB_ValueToMsgId 0x1801"] by (simp only: if_True simp_thms sbr_run.simps) blast
qed

text \<open>Iterating over the routes: without a throttle the callback sees every route once, in table
  order; with one it sees the routes from the start index on, at most \<open>MaxLoop\<close> of them, and
  \<open>NextIndex\<close> is where to go on, or 0 when the table is done.\<close>

theorem ForEachRouteId_range:
  assumes "unat (StartIndex t) < 2 ^ 16" "unat (StartIndex t) + unat (MaxLoop t) < 2 ^ 32"
  shows
    "CFE_SBR_ForEachRouteId s (\<lambda>r rs. rs @ [r]) [] None =
       (map CFE_SBR_ValueToRouteId (map of_nat [0..<unat (RouteIdxTop s)]), None) \<and>
     CFE_SBR_ForEachRouteId s (\<lambda>r rs. rs @ [r]) [] (Some t) =
       (map CFE_SBR_ValueToRouteId
          (map of_nat [unat (StartIndex t)..<min (unat (StartIndex t) + unat (MaxLoop t)) (unat (RouteIdxTop s))]),
        Some (t\<lparr>NextIndex := if unat (StartIndex t) + unat (MaxLoop t) < unat (RouteIdxTop s)
                            then StartIndex t + MaxLoop t else 0\<rparr>))"
proof -
  have snoc: "fold (\<lambda>i rs. rs @ [g i]) xs acc = acc @ map g xs" for g :: "nat \<Rightarrow> CFE_SBR_RouteId_t" and xs acc
    by (induction xs arbitrary: acc) simp_all
  have start: "unat (ucast (StartIndex t) :: uint16) = unat (StartIndex t)"
    "ucast (ucast (StartIndex t) :: uint16) = StartIndex t"
    using assms(1) less_exp_take_bit [of "StartIndex t" 16]
    by (simp_all add: unsigned_ucast_eq unsigned_take_bit_eq [symmetric])
  let ?l = "StartIndex t + MaxLoop t"
  have limit: "unat ?l = unat (StartIndex t) + unat (MaxLoop t)"
    using assms(2) by (intro unat_add_lem [THEN iffD1]) simp
  have small: "unat (ucast ?l :: uint16) = unat ?l" "ucast (ucast ?l :: uint16) = ?l"
    if "unat ?l < unat (RouteIdxTop s)"
  proof -
    have "unat ?l < 2 ^ 16" using that unsigned_less [of "RouteIdxTop s", where ?'a = nat] by simp
    then show "unat (ucast ?l :: uint16) = unat ?l" "ucast (ucast ?l :: uint16) = ?l"
      using less_exp_take_bit [of ?l 16] by (simp_all add: unsigned_ucast_eq unsigned_take_bit_eq [symmetric])
  qed
  have less: "?l < ucast (RouteIdxTop s) \<longleftrightarrow> unat ?l < unat (RouteIdxTop s)"
  proof -
    have "take_bit 32 (unat (RouteIdxTop s)) = unat (RouteIdxTop s)"
      using unsigned_less [of "RouteIdxTop s", where ?'a = nat] by (intro take_bit_nat_eq_self) simp
    then show ?thesis by (simp add: word_less_nat_alt unsigned_ucast_eq)
  qed
  show ?thesis
    using start small less limit
    by (auto simp: CFE_SBR_ForEachRouteId_def Let_def snoc min_def comp_def)
qed

lemma ForEachRouteId_range_witness:
  "CFE_SBR_ForEachRouteId (CFE_SBR_Init\<lparr>RouteIdxTop := 5\<rparr>) (\<lambda>r rs. rs @ [r]) []
     (Some \<lparr>StartIndex = 1, MaxLoop = 2, NextIndex = 9\<rparr>) =
   ([CFE_SBR_RouteId 2, CFE_SBR_RouteId 3], Some \<lparr>StartIndex = 1, MaxLoop = 2, NextIndex = 3\<rparr>)"
  using ForEachRouteId_range [of "\<lparr>StartIndex = 1, MaxLoop = 2, NextIndex = 9\<rparr>" "CFE_SBR_Init\<lparr>RouteIdxTop := 5\<rparr>"]
  by (simp add: CFE_SBR_ValueToRouteId_def upt_rec)

end
