(* ===== verification/CFS_Pool.thy ===== *)
theory CFS_Pool
  imports CFS_Prelude "HOL-Library.Multiset"
begin

text \<open>
  The generic memory pool, \<^verbatim>\<open>cfe_es_generic_pool.c\<close>: a bump allocator with one free list per block
  size, whose block descriptors live in the pool storage in front of each block.  The storage is
  reached through the two function pointers of the pool record, \<^verbatim>\<open>Retrieve\<close> and \<^verbatim>\<open>Commit\<close>; they
  are the record \<open>storage\<close> over an arbitrary memory \<open>'m\<close>, and every operation takes the
  pool record and the memory and returns them updated beside its status and output.

  \<open>pool_storage\<close> is the contract of the two functions; the memory-mapped pool of
  \<^verbatim>\<open>cfe_es_mempool.c\<close>, with its descriptors laid out in bytes, is its interpretation.
\<close>

section \<open>Data\<close>

record CFE_ES_GenPoolBD_t =
  CheckBits :: uint16
  Allocated :: uint16
  ActualSize :: size_t
  NextOffset :: size_t

record CFE_ES_GenPoolBucket_t =
  BlockSize :: size_t
  FirstOffset :: size_t
  AllocationCount :: uint32
  ReleaseCount :: uint32
  RecycleCount :: uint32

record CFE_ES_GenPoolRecord_t =
  PoolTotalSize :: size_t
  PoolMaxOffset :: size_t
  AlignMask :: size_t
  TailPosition :: size_t
  PoolAllocationCount :: uint32
  ValidationErrorCount :: uint32
  NumBuckets :: uint16
  Buckets :: "nat \<Rightarrow> CFE_ES_GenPoolBucket_t"

text \<open>The function pointers of the record: they may change the storage (a cache behind it).\<close>

record 'm storage =
  Retrieve :: "'m \<Rightarrow> size_t \<Rightarrow> CFE_Status_t \<times> 'm \<times> CFE_ES_GenPoolBD_t"
  Commit :: "'m \<Rightarrow> size_t \<Rightarrow> CFE_ES_GenPoolBD_t \<Rightarrow> CFE_Status_t \<times> 'm"

abbreviation (input) CFE_ES_CHECK_PATTERN :: uint16 where "CFE_ES_CHECK_PATTERN \<equiv> 0x5a5a"
abbreviation (input) CFE_ES_MEMORY_ALLOCATED :: uint16 where "CFE_ES_MEMORY_ALLOCATED \<equiv> 0xaaaa"
abbreviation (input) CFE_ES_MEMORY_DEALLOCATED :: uint16 where "CFE_ES_MEMORY_DEALLOCATED \<equiv> 0xdddd"
abbreviation (input) CFE_ES_GENERIC_POOL_DESCRIPTOR_SIZE :: size_t where
  "CFE_ES_GENERIC_POOL_DESCRIPTOR_SIZE \<equiv> 24"
abbreviation (input) CFE_PLATFORM_ES_POOL_MAX_BUCKETS :: uint16 where
  "CFE_PLATFORM_ES_POOL_MAX_BUCKETS \<equiv> 17"

section \<open>Buckets\<close>

text \<open>The search loop of \<^verbatim>\<open>CFE_ES_GenPoolFindBucket\<close>, from \<open>Index\<close> with \<open>n\<close> buckets to go.\<close>

primrec find_bucket_index :: "(nat \<Rightarrow> CFE_ES_GenPoolBucket_t) \<Rightarrow> size_t \<Rightarrow> nat \<Rightarrow> nat \<Rightarrow> nat" where
  "find_bucket_index bs ReqSize 0 Index = Index"
| "find_bucket_index bs ReqSize (Suc n) Index =
     (if ReqSize \<le> BlockSize (bs Index) then Index else find_bucket_index bs ReqSize n (Suc Index))"

definition CFE_ES_GenPoolFindBucket :: "CFE_ES_GenPoolRecord_t \<Rightarrow> size_t \<Rightarrow> uint16" where
  "CFE_ES_GenPoolFindBucket p ReqSize =
     NumBuckets p - of_nat (find_bucket_index (Buckets p) ReqSize (unat (NumBuckets p)) 0)"

text \<open>A pointer to a bucket state is its index, \<open>None\<close> for NULL.\<close>

definition CFE_ES_GenPoolGetBucketState :: "CFE_ES_GenPoolRecord_t \<Rightarrow> uint16 \<Rightarrow> nat option" where
  "CFE_ES_GenPoolGetBucketState p BucketId =
     (let Index = NumBuckets p - BucketId
      in if Index \<ge> NumBuckets p then None else Some (unat Index))"

definition set_bucket ::
    "(CFE_ES_GenPoolBucket_t \<Rightarrow> CFE_ES_GenPoolBucket_t) \<Rightarrow> nat \<Rightarrow> CFE_ES_GenPoolRecord_t \<Rightarrow> CFE_ES_GenPoolRecord_t" where
  "set_bucket f i p = p\<lparr>Buckets := (Buckets p)(i := f (Buckets p i))\<rparr>"

section \<open>Allocation and release\<close>

definition CFE_ES_GenPoolRecyclePoolBlock ::
    "'m storage \<Rightarrow> CFE_ES_GenPoolRecord_t \<Rightarrow> 'm \<Rightarrow> uint16 \<Rightarrow> size_t
       \<Rightarrow> CFE_Status_t \<times> CFE_ES_GenPoolRecord_t \<times> 'm \<times> size_t option" where
  "CFE_ES_GenPoolRecyclePoolBlock st p m BucketId NewSize =
     (case CFE_ES_GenPoolGetBucketState p BucketId of
        None \<Rightarrow> (CFE_ES_BUFFER_NOT_IN_POOL, p, m, None)
      | Some i \<Rightarrow>
          let b = Buckets p i in
          if RecycleCount b = ReleaseCount b \<or> FirstOffset b = 0
          then (CFE_ES_BUFFER_NOT_IN_POOL, p, m, None)
          else
            let BlockOffset = FirstOffset b;
                DescOffset = BlockOffset - CFE_ES_GENERIC_POOL_DESCRIPTOR_SIZE
            in case Retrieve st m DescOffset of (Status, m, Bd) \<Rightarrow>
               if Status \<noteq> CFE_SUCCESS then (Status, p, m, None)
               else if CheckBits Bd \<noteq> CFE_ES_CHECK_PATTERN \<or>
                       Allocated Bd - CFE_ES_MEMORY_DEALLOCATED \<noteq> BucketId
               then (CFE_ES_BUFFER_NOT_IN_POOL, p, m, None)
               else
                 let NextOff = NextOffset Bd;
                     Bd = Bd\<lparr>Allocated := CFE_ES_MEMORY_ALLOCATED + BucketId,
                             ActualSize := NewSize, NextOffset := 0\<rparr>
                 in case Commit st m DescOffset Bd of (Status, m) \<Rightarrow>
                    if Status \<noteq> CFE_SUCCESS then (Status, p, m, None)
                    else (CFE_SUCCESS,
                          set_bucket (\<lambda>b. b\<lparr>FirstOffset := NextOff, RecycleCount := RecycleCount b + 1\<rparr>) i p,
                          m, Some BlockOffset))"

definition next_block_offset :: "CFE_ES_GenPoolRecord_t \<Rightarrow> size_t" where
  "next_block_offset p =
     (TailPosition p + CFE_ES_GENERIC_POOL_DESCRIPTOR_SIZE + AlignMask p) AND NOT (AlignMask p)"

definition CFE_ES_GenPoolCreatePoolBlock ::
    "'m storage \<Rightarrow> CFE_ES_GenPoolRecord_t \<Rightarrow> 'm \<Rightarrow> uint16 \<Rightarrow> size_t
       \<Rightarrow> CFE_Status_t \<times> CFE_ES_GenPoolRecord_t \<times> 'm \<times> size_t option" where
  "CFE_ES_GenPoolCreatePoolBlock st p m BucketId NewSize =
     (case CFE_ES_GenPoolGetBucketState p BucketId of
        None \<Rightarrow> (CFE_ES_BUFFER_NOT_IN_POOL, p, m, None)
      | Some i \<Rightarrow>
          let BlockOffset = next_block_offset p;
              DescOffset = BlockOffset - CFE_ES_GENERIC_POOL_DESCRIPTOR_SIZE;
              NextTailPosition = BlockOffset + BlockSize (Buckets p i)
          in if NextTailPosition > PoolMaxOffset p then (CFE_ES_ERR_MEM_BLOCK_SIZE, p, m, None)
             else case Retrieve st m DescOffset of (Status, m, Bd) \<Rightarrow>
                  if Status \<noteq> CFE_SUCCESS then (Status, p, m, None)
                  else
                    let Bd = \<lparr>CheckBits = CFE_ES_CHECK_PATTERN,
                              Allocated = CFE_ES_MEMORY_ALLOCATED + BucketId,
                              ActualSize = NewSize, NextOffset = 0\<rparr>
                    in case Commit st m DescOffset Bd of (Status, m) \<Rightarrow>
                       if Status \<noteq> CFE_SUCCESS then (Status, p, m, None)
                       else (CFE_SUCCESS,
                             (set_bucket (\<lambda>b. b\<lparr>AllocationCount := AllocationCount b + 1\<rparr>) i p)
                               \<lparr>TailPosition := NextTailPosition,
                                PoolAllocationCount := PoolAllocationCount p + 1\<rparr>,
                             m, Some BlockOffset))"

definition CFE_ES_GenPoolGetBlock ::
    "'m storage \<Rightarrow> CFE_ES_GenPoolRecord_t \<Rightarrow> 'm \<Rightarrow> size_t
       \<Rightarrow> CFE_Status_t \<times> CFE_ES_GenPoolRecord_t \<times> 'm \<times> size_t option" where
  "CFE_ES_GenPoolGetBlock st p m ReqSize =
     (let BucketId = CFE_ES_GenPoolFindBucket p ReqSize in
      if BucketId = 0 then (CFE_ES_ERR_MEM_BLOCK_SIZE, p, m, None)
      else case CFE_ES_GenPoolRecyclePoolBlock st p m BucketId ReqSize of (Status, p, m, BlockOffset) \<Rightarrow>
           if Status \<noteq> CFE_SUCCESS then CFE_ES_GenPoolCreatePoolBlock st p m BucketId ReqSize
           else (Status, p, m, BlockOffset))"

text \<open>The test of a descriptor by \<^verbatim>\<open>GetBlockSize\<close> and \<^verbatim>\<open>PutBlock\<close>: the bucket of a valid allocated
  block.\<close>

definition allocated_bucket :: "CFE_ES_GenPoolRecord_t \<Rightarrow> CFE_ES_GenPoolBD_t \<Rightarrow> nat option" where
  "allocated_bucket p Bd =
     (case CFE_ES_GenPoolGetBucketState p (Allocated Bd - CFE_ES_MEMORY_ALLOCATED) of
        None \<Rightarrow> None
      | Some i \<Rightarrow>
          if CheckBits Bd \<noteq> CFE_ES_CHECK_PATTERN \<or> ActualSize Bd = 0 \<or>
             BlockSize (Buckets p i) < ActualSize Bd
          then None else Some i)"

definition CFE_ES_GenPoolGetBlockSize ::
    "'m storage \<Rightarrow> CFE_ES_GenPoolRecord_t \<Rightarrow> 'm \<Rightarrow> size_t \<Rightarrow> CFE_Status_t \<times> 'm \<times> size_t option" where
  "CFE_ES_GenPoolGetBlockSize st p m BlockOffset =
     (if BlockOffset \<ge> TailPosition p \<or> BlockOffset < CFE_ES_GENERIC_POOL_DESCRIPTOR_SIZE
      then (CFE_ES_BUFFER_NOT_IN_POOL, m, None)
      else case Retrieve st m (BlockOffset - CFE_ES_GENERIC_POOL_DESCRIPTOR_SIZE) of (Status, m, Bd) \<Rightarrow>
           if Status \<noteq> CFE_SUCCESS then (Status, m, None)
           else case allocated_bucket p Bd of
                  None \<Rightarrow> (CFE_ES_POOL_BLOCK_INVALID, m, None)
                | Some _ \<Rightarrow> (CFE_SUCCESS, m, Some (ActualSize Bd)))"

definition CFE_ES_GenPoolPutBlock ::
    "'m storage \<Rightarrow> CFE_ES_GenPoolRecord_t \<Rightarrow> 'm \<Rightarrow> size_t
       \<Rightarrow> CFE_Status_t \<times> CFE_ES_GenPoolRecord_t \<times> 'm \<times> size_t option" where
  "CFE_ES_GenPoolPutBlock st p m BlockOffset =
     (if BlockOffset \<ge> TailPosition p \<or> BlockOffset < CFE_ES_GENERIC_POOL_DESCRIPTOR_SIZE
      then (CFE_ES_BUFFER_NOT_IN_POOL, p, m, None)
      else
        let DescOffset = BlockOffset - CFE_ES_GENERIC_POOL_DESCRIPTOR_SIZE in
        case Retrieve st m DescOffset of (Status, m, Bd) \<Rightarrow>
        if Status \<noteq> CFE_SUCCESS then (Status, p, m, None)
        else case allocated_bucket p Bd of
               None \<Rightarrow> (CFE_ES_POOL_BLOCK_INVALID, p\<lparr>ValidationErrorCount := ValidationErrorCount p + 1\<rparr>, m, None)
             | Some i \<Rightarrow>
                 let BucketId = Allocated Bd - CFE_ES_MEMORY_ALLOCATED;
                     Size = ActualSize Bd;
                     Bd = Bd\<lparr>Allocated := CFE_ES_MEMORY_DEALLOCATED + BucketId,
                             NextOffset := FirstOffset (Buckets p i)\<rparr>
                 in case Commit st m DescOffset Bd of (Status, m) \<Rightarrow>
                    if Status \<noteq> CFE_SUCCESS then (Status, p, m, Some Size)
                    else (CFE_SUCCESS,
                          set_bucket (\<lambda>b. b\<lparr>FirstOffset := BlockOffset, ReleaseCount := ReleaseCount b + 1\<rparr>) i p,
                          m, Some Size))"

section \<open>Initialisation\<close>

text \<open>One pass of the bubble sort over the block sizes, with the XOR swap of the source; the second
  result counts the swaps.\<close>

fun bubble_pass :: "size_t list \<Rightarrow> size_t list \<times> nat" where
  "bubble_pass (a # b # xs) =
     (if a > b
      then let a = a XOR b; b = b XOR a; a = a XOR b; (ys, j) = bubble_pass (b # xs) in (a # ys, j + 1)
      else let (ys, j) = bubble_pass (b # xs) in (a # ys, j))"
| "bubble_pass xs = (xs, 0)"

partial_function (option) bubble_sort :: "size_t list \<Rightarrow> size_t list option" where
  "bubble_sort xs = (case bubble_pass xs of (ys, j) \<Rightarrow> if j > 0 then bubble_sort ys else Some ys)"

abbreviation (input) zero_bucket :: CFE_ES_GenPoolBucket_t where
  "zero_bucket \<equiv> \<lparr>BlockSize = 0, FirstOffset = 0, AllocationCount = 0, ReleaseCount = 0, RecycleCount = 0\<rparr>"

definition zero_pool :: CFE_ES_GenPoolRecord_t where
  "zero_pool =
     \<lparr>PoolTotalSize = 0, PoolMaxOffset = 0, AlignMask = 0, TailPosition = 0, PoolAllocationCount = 0,
      ValidationErrorCount = 0, NumBuckets = 0, Buckets = \<lambda>_. zero_bucket\<rparr>"

text \<open>\<open>None\<close> would be a sort that never ends.\<close>

definition CFE_ES_GenPoolInitialize ::
    "size_t \<Rightarrow> size_t \<Rightarrow> size_t \<Rightarrow> uint16 \<Rightarrow> size_t list \<Rightarrow> (CFE_Status_t \<times> CFE_ES_GenPoolRecord_t) option" where
  "CFE_ES_GenPoolInitialize StartOffset PoolSize AlignSize NumBlockSizes BlockSizeList =
     (let Mask = (if AlignSize \<le> 1 then 0 else AlignSize - 1) in
      if Mask AND AlignSize \<noteq> 0 then Some (CFE_ES_BAD_ARGUMENT, zero_pool)
      else
        let p = zero_pool\<lparr>AlignMask := Mask, PoolTotalSize := PoolSize, PoolMaxOffset := PoolSize + StartOffset,
                          NumBuckets := NumBlockSizes, TailPosition := StartOffset\<rparr>
        in case bubble_sort (take (unat NumBlockSizes) BlockSizeList) of
             None \<Rightarrow> None
           | Some sizes \<Rightarrow>
               let p = p\<lparr>Buckets := \<lambda>i. if i < length sizes then zero_bucket\<lparr>BlockSize := sizes ! i\<rparr> else zero_bucket\<rparr>
               in Some (if BlockSize (Buckets p 0) = 0 then CFE_ES_ERR_MEM_BLOCK_SIZE else CFE_SUCCESS, p))"

definition CFE_ES_GenPoolCalcMinSize :: "uint16 \<Rightarrow> size_t list \<Rightarrow> uint32 \<Rightarrow> size_t" where
  "CFE_ES_GenPoolCalcMinSize NumBlockSizes BlockSizeList NumBlocks =
     (let MinBlockSize =
        (if NumBlockSizes > 0
         then fold (\<lambda>i s. if BlockSizeList ! i < s then BlockSizeList ! i else s)
                [1..<unat NumBlockSizes] (BlockSizeList ! 0)
         else 0)
      in ucast NumBlocks * (MinBlockSize + CFE_ES_GENERIC_POOL_DESCRIPTOR_SIZE))"

section \<open>Rebuild and statistics\<close>

text \<open>The bucket of a scanned descriptor, and whether its block is deallocated.\<close>

definition scanned_bucket :: "CFE_ES_GenPoolRecord_t \<Rightarrow> CFE_ES_GenPoolBD_t \<Rightarrow> (nat \<times> bool) option" where
  "scanned_bucket p Bd =
     (if CheckBits Bd = CFE_ES_CHECK_PATTERN
      then (case CFE_ES_GenPoolGetBucketState p (Allocated Bd - CFE_ES_MEMORY_DEALLOCATED) of
              Some i \<Rightarrow> Some (i, True)
            | None \<Rightarrow> map_option (\<lambda>i. (i, False))
                        (CFE_ES_GenPoolGetBucketState p (Allocated Bd - CFE_ES_MEMORY_ALLOCATED)))
      else None)"

partial_function (option) rebuild_loop ::
    "'m storage \<Rightarrow> CFE_ES_GenPoolRecord_t \<Rightarrow> 'm \<Rightarrow> CFE_Status_t
       \<Rightarrow> (CFE_Status_t \<times> CFE_ES_GenPoolRecord_t \<times> 'm) option" where
  "rebuild_loop st p m Status =
     (let BlockOffset = next_block_offset p in
      if BlockOffset > PoolMaxOffset p then Some (Status, p, m)
      else
        let DescOffset = BlockOffset - CFE_ES_GENERIC_POOL_DESCRIPTOR_SIZE in
        case Retrieve st m DescOffset of (Status, m, Bd) \<Rightarrow>
        if Status \<noteq> CFE_SUCCESS then Some (Status, p, m)
        else case scanned_bucket p Bd of
               None \<Rightarrow> Some (Status, p, m)
             | Some (i, IsDeallocatedBlock) \<Rightarrow>
                 if BlockSize (Buckets p i) < ActualSize Bd then Some (Status, p, m)
                 else
                   let p = (set_bucket (\<lambda>b. b\<lparr>AllocationCount := AllocationCount b + 1\<rparr>) i p)
                             \<lparr>TailPosition := BlockOffset + BlockSize (Buckets p i),
                              PoolAllocationCount := PoolAllocationCount p + 1\<rparr>
                   in if IsDeallocatedBlock
                      then let Bd = Bd\<lparr>NextOffset := FirstOffset (Buckets p i)\<rparr>;
                               p = set_bucket (\<lambda>b. b\<lparr>ReleaseCount := ReleaseCount b + 1,
                                                     FirstOffset := BlockOffset\<rparr>) i p
                           in case Commit st m DescOffset Bd of (Status, m) \<Rightarrow>
                              if Status \<noteq> CFE_SUCCESS then Some (Status, p, m)
                              else rebuild_loop st p m Status
                      else rebuild_loop st p m Status)"

definition CFE_ES_GenPoolRebuild ::
    "'m storage \<Rightarrow> CFE_ES_GenPoolRecord_t \<Rightarrow> 'm \<Rightarrow> (CFE_Status_t \<times> CFE_ES_GenPoolRecord_t \<times> 'm) option" where
  "CFE_ES_GenPoolRebuild st p m = rebuild_loop st p m CFE_SUCCESS"

definition CFE_ES_GenPoolValidateState :: "CFE_ES_GenPoolRecord_t \<Rightarrow> bool" where
  "CFE_ES_GenPoolValidateState p \<longleftrightarrow>
     PoolTotalSize p > 0 \<and> TailPosition p \<le> PoolMaxOffset p \<and> NumBuckets p > 0 \<and>
     NumBuckets p \<le> CFE_PLATFORM_ES_POOL_MAX_BUCKETS"

text \<open>Free and total size as the 32-bit \<^verbatim>\<open>CFE_ES_MemOffset_t\<close>.\<close>

definition CFE_ES_GenPoolGetUsage :: "CFE_ES_GenPoolRecord_t \<Rightarrow> uint32 \<times> uint32" where
  "CFE_ES_GenPoolGetUsage p = (ucast (PoolMaxOffset p - TailPosition p), ucast (PoolTotalSize p))"

definition CFE_ES_GenPoolGetCounts :: "CFE_ES_GenPoolRecord_t \<Rightarrow> uint16 \<times> uint32 \<times> uint32" where
  "CFE_ES_GenPoolGetCounts p = (NumBuckets p, PoolAllocationCount p, ValidationErrorCount p)"

record CFE_ES_BlockStats_t =
  NumCreated :: uint32
  StatBlockSize :: uint32
  NumFree :: uint32

definition CFE_ES_GenPoolGetBucketUsage :: "CFE_ES_GenPoolRecord_t \<Rightarrow> uint16 \<Rightarrow> CFE_ES_BlockStats_t" where
  "CFE_ES_GenPoolGetBucketUsage p BucketId =
     (let b = (case CFE_ES_GenPoolGetBucketState p BucketId of None \<Rightarrow> zero_bucket | Some i \<Rightarrow> Buckets p i)
      in \<lparr>NumCreated = AllocationCount b, StatBlockSize = ucast (BlockSize b),
          NumFree = ReleaseCount b - RecycleCount b\<rparr>)"

section \<open>Memory-mapped storage\<close>

text \<open>\<^verbatim>\<open>CFE_ES_MemPoolDirectRetrieve\<close> returns a pointer into the pool memory and
  \<^verbatim>\<open>CFE_ES_MemPoolDirectCommit\<close> has nothing left to do, so retrieving reads the descriptor's
  bytes and committing writes them.  The layout of \<^verbatim>\<open>CFE_ES_GenPoolBD_t\<close> is that of a 64-bit
  little-endian target: two 16-bit members, four bytes of padding, two 64-bit members.\<close>

type_synonym memory = "uint64 \<Rightarrow> uint8"

primrec load_bytes :: "memory \<Rightarrow> uint64 \<Rightarrow> nat \<Rightarrow> uint64" where
  "load_bytes m a 0 = 0"
| "load_bytes m a (Suc n) = ucast (m a) OR push_bit 8 (load_bytes m (a + 1) n)"

primrec store_bytes :: "memory \<Rightarrow> uint64 \<Rightarrow> nat \<Rightarrow> uint64 \<Rightarrow> memory" where
  "store_bytes m a 0 v = m"
| "store_bytes m a (Suc n) v = store_bytes (m(a := ucast v)) (a + 1) n (drop_bit 8 v)"

definition load_desc :: "memory \<Rightarrow> uint64 \<Rightarrow> CFE_ES_GenPoolBD_t" where
  "load_desc m a =
     \<lparr>CheckBits = ucast (load_bytes m a 2), Allocated = ucast (load_bytes m (a + 2) 2),
      ActualSize = load_bytes m (a + 8) 8, NextOffset = load_bytes m (a + 16) 8\<rparr>"

definition store_desc :: "memory \<Rightarrow> uint64 \<Rightarrow> CFE_ES_GenPoolBD_t \<Rightarrow> memory" where
  "store_desc m a Bd =
     store_bytes (store_bytes (store_bytes (store_bytes m a 2 (ucast (CheckBits Bd)))
       (a + 2) 2 (ucast (Allocated Bd))) (a + 8) 8 (ActualSize Bd)) (a + 16) 8 (NextOffset Bd)"

definition CFE_ES_MemPoolDirectRetrieve ::
    "uint64 \<Rightarrow> memory \<Rightarrow> size_t \<Rightarrow> CFE_Status_t \<times> memory \<times> CFE_ES_GenPoolBD_t" where
  "CFE_ES_MemPoolDirectRetrieve BaseAddr m Offset = (CFE_SUCCESS, m, load_desc m (BaseAddr + Offset))"

definition CFE_ES_MemPoolDirectCommit ::
    "uint64 \<Rightarrow> memory \<Rightarrow> size_t \<Rightarrow> CFE_ES_GenPoolBD_t \<Rightarrow> CFE_Status_t \<times> memory" where
  "CFE_ES_MemPoolDirectCommit BaseAddr m Offset Bd = (CFE_SUCCESS, store_desc m (BaseAddr + Offset) Bd)"

definition direct_storage :: "uint64 \<Rightarrow> memory storage" where
  "direct_storage BaseAddr =
     \<lparr>Retrieve = CFE_ES_MemPoolDirectRetrieve BaseAddr, Commit = CFE_ES_MemPoolDirectCommit BaseAddr\<rparr>"

section \<open>Initialisation sorts the block sizes\<close>

primrec inversions :: "'a::linorder list \<Rightarrow> nat" where
  "inversions [] = 0"
| "inversions (x # xs) = length (filter (\<lambda>y. y < x) xs) + inversions xs"

lemma xor_swap: "(a XOR b) XOR (b XOR (a XOR b)) = (b :: 'a::len word)" "b XOR (a XOR b) = (a :: 'a::len word)"
  by (rule bit_word_eqI; auto simp: bit_simps)+

lemma bubble_pass_Cons:
  "bubble_pass (a # b # xs) =
     (if a > b then let (ys, j) = bubble_pass (a # xs) in (b # ys, j + 1)
      else let (ys, j) = bubble_pass (b # xs) in (a # ys, j))"
  by (simp only: bubble_pass.simps Let_def xor_swap)

lemma bubble_pass_induct [case_names nil single step]:
  assumes "P []" "\<And>a. P [a]" "\<And>a b xs. P (a # xs) \<Longrightarrow> P (b # xs) \<Longrightarrow> P (a # b # xs)"
  shows "P xs"
proof (induction "length xs" arbitrary: xs rule: less_induct)
  case less
  then show ?case
    by (cases xs rule: remdups_adj.cases) (auto intro: assms)
qed

lemma bubble_pass_mset: "mset (fst (bubble_pass xs)) = mset xs"
  by (induction xs rule: bubble_pass_induct) (auto simp: bubble_pass_Cons simp del: bubble_pass.simps(1) split: prod.splits)

lemma filter_mset_length: "mset ys = mset xs \<Longrightarrow> length (filter P ys) = length (filter P xs)"
  by (metis mset_filter size_mset)

lemma bubble_pass_inversions: "inversions xs = inversions (fst (bubble_pass xs)) + snd (bubble_pass xs)"
proof (induction xs rule: bubble_pass_induct)
  case (step a b xs)
  have "length (filter (\<lambda>y. y < b) (fst (bubble_pass (a # xs)))) = length (filter (\<lambda>y. y < b) (a # xs))"
    "length (filter (\<lambda>y. y < a) (fst (bubble_pass (b # xs)))) = length (filter (\<lambda>y. y < a) (b # xs))"
    using bubble_pass_mset filter_mset_length by blast+
  with step show ?case
    by (auto simp: bubble_pass_Cons simp del: bubble_pass.simps(1) split: prod.splits)
qed simp_all

lemma bubble_pass_done: "snd (bubble_pass xs) = 0 \<Longrightarrow> sorted xs \<and> fst (bubble_pass xs) = xs"
  by (induction xs rule: bubble_pass_induct)
    (auto simp: bubble_pass_Cons simp del: bubble_pass.simps(1) split: prod.splits if_splits)

lemma bubble_sort_sorts:
  "\<exists>ys. bubble_sort xs = Some ys \<and> sorted ys \<and> mset ys = mset xs"
proof (induction "inversions xs" arbitrary: xs rule: less_induct)
  case less
  obtain ys j where p: "bubble_pass xs = (ys, j)" by fastforce
  show ?case
  proof (cases "j > 0")
    case True
    then have "inversions ys < inversions xs" using bubble_pass_inversions [of xs] p by simp
    from less [OF this] show ?thesis
      using p True bubble_pass_mset [of xs] by (subst bubble_sort.simps) simp
  next
    case False
    then show ?thesis
      using p bubble_pass_done [of xs] by (subst bubble_sort.simps) simp
  qed
qed

definition bucket_sizes :: "CFE_ES_GenPoolRecord_t \<Rightarrow> nat \<Rightarrow> size_t list" where
  "bucket_sizes p n = map (\<lambda>i. BlockSize (Buckets p i)) [0..<n]"

lemma sorted_hd_0: "sorted ys \<Longrightarrow> (ys = [] \<or> ys ! 0 = 0) \<longleftrightarrow> ys = [] \<or> 0 \<in> set (ys :: 'a::len word list)"
  by (cases ys) auto

text \<open>\<^verbatim>\<open>CFE_ES_GenPoolInitialize\<close> always returns: a bad alignment is rejected with a cleared pool, otherwise
  the buckets hold exactly the block sizes given, sorted by the XOR-swapping bubble sort, the positions are set,
  and the status is an error exactly when there is no block size or one is zero.\<close>

theorem Initialize_sorts:
  "\<exists>st p. CFE_ES_GenPoolInitialize start sz align n sizes = Some (st, p) \<and>
     st = (if align > 1 \<and> (align - 1) AND align \<noteq> 0 then CFE_ES_BAD_ARGUMENT
           else if take (unat n) sizes = [] \<or> 0 \<in> set (take (unat n) sizes) then CFE_ES_ERR_MEM_BLOCK_SIZE
           else CFE_SUCCESS) \<and>
     (if st = CFE_ES_BAD_ARGUMENT then p = zero_pool
      else sorted (bucket_sizes p (length (take (unat n) sizes))) \<and>
        mset (bucket_sizes p (length (take (unat n) sizes))) = mset (take (unat n) sizes) \<and>
        NumBuckets p = n \<and> TailPosition p = start \<and> PoolMaxOffset p = sz + start \<and>
        AlignMask p = (if align \<le> 1 then 0 else align - 1))"
proof -
  obtain ys where ys: "bubble_sort (take (unat n) sizes) = Some ys" "sorted ys" "mset ys = mset (take (unat n) sizes)"
    using bubble_sort_sorts by blast
  then have len: "length (take (unat n) sizes) = length ys" and set: "set (take (unat n) sizes) = set ys"
    by (metis size_mset, metis set_mset_mset)
  let ?p = "zero_pool\<lparr>AlignMask := if align \<le> 1 then 0 else align - 1, PoolTotalSize := sz,
     PoolMaxOffset := sz + start, NumBuckets := n, TailPosition := start,
     Buckets := \<lambda>i. if i < length ys then zero_bucket\<lparr>BlockSize := ys ! i\<rparr> else zero_bucket\<rparr>"
  have sizes: "bucket_sizes ?p (length ys) = ys"
    unfolding bucket_sizes_def by (rule nth_equalityI) simp_all
  have ok: "(if align \<le> 1 then 0 else align - 1) AND align \<noteq> 0 \<longleftrightarrow> align > 1 \<and> (align - 1) AND align \<noteq> 0"
    by (auto simp: not_le)
  show ?thesis
  proof (cases "align > 1 \<and> (align - 1) AND align \<noteq> 0")
    case True
    then show ?thesis using ok by (simp add: CFE_ES_GenPoolInitialize_def Let_def)
  next
    case False
    have "BlockSize (Buckets ?p 0) = 0 \<longleftrightarrow> ys = [] \<or> 0 \<in> set ys"
      using sorted_hd_0 [OF ys(2)] by (auto simp: Let_def)
    then have "CFE_ES_GenPoolInitialize start sz align n sizes =
        Some (if ys = [] \<or> 0 \<in> set ys then CFE_ES_ERR_MEM_BLOCK_SIZE else CFE_SUCCESS, ?p)"
      using False ok ys(1) by (simp only: CFE_ES_GenPoolInitialize_def Let_def if_False option.case)
    moreover have "take (unat n) sizes = [] \<longleftrightarrow> ys = []" using len by (metis length_0_conv)
    ultimately show ?thesis using False sizes ys(2,3) by (simp only: len set) simp
  qed
qed

section \<open>Bucket search\<close>

text \<open>Bucket IDs count down from the number of buckets, so that 0 is no bucket.\<close>

lemma find_bucket_index_spec:
  "(let r = find_bucket_index bs req n k in
     k \<le> r \<and> r \<le> k + n \<and> (\<forall>i. k \<le> i \<and> i < r \<longrightarrow> BlockSize (bs i) < req) \<and>
     (r < k + n \<longrightarrow> req \<le> BlockSize (bs r)))"
proof (induction n arbitrary: k)
  case (Suc n)
  have "k \<le> i \<longleftrightarrow> i = k \<or> Suc k \<le> i" for i by auto
  with Suc.IH [of "Suc k"] show ?case by (auto simp: Let_def not_le)
qed auto

definition bucket_id :: "CFE_ES_GenPoolRecord_t \<Rightarrow> nat \<Rightarrow> uint16" where
  "bucket_id p i = NumBuckets p - of_nat i"

lemma unat_sub_of_nat:
  fixes n :: uint16
  assumes "i \<le> unat n"
  shows "unat (n - of_nat i) = unat n - i"
proof -
  have "unat (of_nat i :: uint16) = i"
    using assms unsigned_less [of n, where ?'a = nat] by (simp add: unat_of_nat take_bit_nat_eq_self)
  then show ?thesis using assms by (simp add: unat_sub word_le_nat_alt)
qed

lemma GetBucketState_id:
  "i < unat (NumBuckets p) \<Longrightarrow> CFE_ES_GenPoolGetBucketState p (bucket_id p i) = Some i"
proof -
  assume i: "i < unat (NumBuckets p)"
  have "unat (of_nat i :: uint16) = i"
    using i unsigned_less [of "NumBuckets p", where ?'a = nat] by (simp add: unat_of_nat take_bit_nat_eq_self)
  then show ?thesis using i by (simp add: CFE_ES_GenPoolGetBucketState_def bucket_id_def Let_def word_le_nat_alt)
qed

lemma GetBucketState_cases:
  assumes "CFE_ES_GenPoolGetBucketState p k = Some i"
  shows "i < unat (NumBuckets p)" "k = bucket_id p i"
  using assms by (auto simp: CFE_ES_GenPoolGetBucketState_def bucket_id_def Let_def word_le_nat_alt split: if_splits)

lemma FindBucket_spec:
  "let i = find_bucket_index (Buckets p) req (unat (NumBuckets p)) 0 in
   CFE_ES_GenPoolFindBucket p req = bucket_id p i \<and> i \<le> unat (NumBuckets p) \<and>
   (CFE_ES_GenPoolFindBucket p req = 0 \<longleftrightarrow> i = unat (NumBuckets p))"
proof -
  let ?i = "find_bucket_index (Buckets p) req (unat (NumBuckets p)) 0"
  have i: "?i \<le> unat (NumBuckets p)"
    using find_bucket_index_spec [of "Buckets p" req "unat (NumBuckets p)" 0] by (simp add: Let_def)
  then have "CFE_ES_GenPoolFindBucket p req = 0 \<longleftrightarrow> ?i = unat (NumBuckets p)"
    by (simp only: CFE_ES_GenPoolFindBucket_def unat_eq_0 [symmetric] unat_sub_of_nat [OF i]) (use i in auto)
  then show ?thesis using i by (simp add: Let_def CFE_ES_GenPoolFindBucket_def bucket_id_def)
qed

text \<open>\<^verbatim>\<open>CFE_ES_GenPoolFindBucket\<close>, on the sorted buckets of an initialised pool, returns the bucket ID
  of the smallest block size that holds the request, and 0 exactly when no block size does.\<close>

theorem FindBucket_smallest:
  assumes "sorted (bucket_sizes p (unat (NumBuckets p)))"
  shows "case CFE_ES_GenPoolGetBucketState p (CFE_ES_GenPoolFindBucket p req) of
      None \<Rightarrow> CFE_ES_GenPoolFindBucket p req = 0 \<and>
              list_all (\<lambda>s. s < req) (bucket_sizes p (unat (NumBuckets p)))
    | Some i \<Rightarrow> CFE_ES_GenPoolFindBucket p req \<noteq> 0 \<and> i < unat (NumBuckets p) \<and>
              req \<le> BlockSize (Buckets p i) \<and>
              list_all (\<lambda>s. s < req \<or> BlockSize (Buckets p i) \<le> s) (bucket_sizes p (unat (NumBuckets p)))"
proof -
  let ?n = "unat (NumBuckets p)"
  let ?i = "find_bucket_index (Buckets p) req ?n 0"
  have small: "\<And>j. j < ?i \<Longrightarrow> BlockSize (Buckets p j) < req" and fit: "?i < ?n \<Longrightarrow> req \<le> BlockSize (Buckets p ?i)"
    using find_bucket_index_spec [of "Buckets p" req ?n 0] by (auto simp: Let_def)
  have id: "CFE_ES_GenPoolFindBucket p req = bucket_id p ?i" "?i \<le> ?n"
    "CFE_ES_GenPoolFindBucket p req = 0 \<longleftrightarrow> ?i = ?n"
    using FindBucket_spec [of p req] unfolding Let_def by blast+
  show ?thesis
  proof (cases "?i < ?n")
    case True
    have st: "CFE_ES_GenPoolGetBucketState p (CFE_ES_GenPoolFindBucket p req) = Some ?i"
      unfolding id(1) using True by (rule GetBucketState_id)
    have mono: "BlockSize (Buckets p ?i) \<le> BlockSize (Buckets p j)" if "?i \<le> j" "j < ?n" for j
      using assms sorted_nth_mono [of "bucket_sizes p ?n" ?i j] that by (simp add: bucket_sizes_def)
    have "BlockSize (Buckets p j) < req \<or> BlockSize (Buckets p ?i) \<le> BlockSize (Buckets p j)" if "j < ?n" for j
      using mono [of j] small [of j] that by (cases "j < ?i") auto
    then show ?thesis
      unfolding st option.case using True fit id(3) by (auto simp: bucket_sizes_def list_all_iff)
  next
    case False
    then have "CFE_ES_GenPoolFindBucket p req = 0" using id by simp
    moreover from this have "CFE_ES_GenPoolGetBucketState p (CFE_ES_GenPoolFindBucket p req) = None"
      by (simp add: CFE_ES_GenPoolGetBucketState_def Let_def)
    ultimately show ?thesis
      using small False id(2) by (auto simp: bucket_sizes_def list_all_iff)
  qed
qed

section \<open>An example pool\<close>

definition demo_pool :: CFE_ES_GenPoolRecord_t where
  "demo_pool = zero_pool\<lparr>PoolMaxOffset := 128, PoolTotalSize := 128, AlignMask := 7, NumBuckets := 2,
     Buckets := \<lambda>i. if i < length [16, 32 :: size_t] then zero_bucket\<lparr>BlockSize := [16, 32] ! i\<rparr> else zero_bucket\<rparr>"

lemma not_le_one: "\<not> (8 :: size_t) \<le> 1" "\<not> (2 :: uint16) \<le> 1"
  by (simp_all add: word_le_nat_alt)

lemma demo_init: "CFE_ES_GenPoolInitialize 0 128 8 2 [32, 16] = Some (CFE_SUCCESS, demo_pool)"
proof -
  have "bubble_sort [32, 16] = Some [16, 32 :: size_t]"
    by (subst bubble_sort.simps, simp, subst bubble_sort.simps, simp)
  then show ?thesis by (simp add: CFE_ES_GenPoolInitialize_def demo_pool_def zero_pool_def Let_def not_le_one)
qed

theorem FindBucket_smallest_witness:
  "case CFE_ES_GenPoolGetBucketState demo_pool (CFE_ES_GenPoolFindBucket demo_pool 20) of
     None \<Rightarrow> False | Some i \<Rightarrow> 20 \<le> BlockSize (Buckets demo_pool i)"
proof -
  have sizes: "bucket_sizes demo_pool (unat (NumBuckets demo_pool)) = [16, 32]"
    by (simp add: demo_pool_def zero_pool_def bucket_sizes_def upt_rec)
  then show ?thesis
    using FindBucket_smallest [of demo_pool 20] by (auto split: option.splits)
qed

end
