(* ===== verification/CFS_PoolAlloc.thy ===== *)
theory CFS_PoolAlloc
  imports CFS_Pool
begin

text \<open>
  The allocator of \<^verbatim>\<open>cfe_es_generic_pool.c\<close> under its clients.  \<open>pool_storage\<close> is the contract of the
  retrieve and commit functions; the invariant \<open>pool_inv\<close> ties the pool record, the descriptors in the storage and
  the list of blocks created so far, and every operation keeps it, for any storage that meets the
  contract.  \<open>pool_reach\<close> are the states of the memory-mapped pool of \<^verbatim>\<open>cfe_es_mempool.c\<close> with clients that
  allocate, release and write; the properties read the invariant there.
\<close>

section \<open>Storage\<close>

definition apart :: "size_t \<Rightarrow> size_t \<Rightarrow> bool" where
  "apart a b \<longleftrightarrow> unat a + 24 \<le> unat b \<or> unat b + 24 \<le> unat a"

locale pool_storage =
  fixes st :: "'m storage" and desc :: "'m \<Rightarrow> size_t \<Rightarrow> CFE_ES_GenPoolBD_t"
    and poke :: "'m \<Rightarrow> size_t \<Rightarrow> uint8 \<Rightarrow> 'm"
  assumes retrieve: "\<exists>m'. Retrieve st m off = (CFE_SUCCESS, m', desc m off) \<and> desc m' = desc m"
    and commit: "unat off + 24 \<le> 2 ^ 64 \<Longrightarrow>
       \<exists>m'. Commit st m off bd = (CFE_SUCCESS, m') \<and> desc m' off = bd \<and>
         (\<forall>o'. unat o' + 24 \<le> 2 ^ 64 \<longrightarrow> apart off o' \<longrightarrow> desc m' o' = desc m o')"
    and poke: "unat off + 24 \<le> 2 ^ 64 \<Longrightarrow> unat a < unat off \<or> unat off + 24 \<le> unat a \<Longrightarrow>
       desc (poke m a v) off = desc m off"

lemma load_store_other:
  "(\<And>k. k < n \<Longrightarrow> b \<noteq> a + of_nat k) \<Longrightarrow> (store_bytes m a n v) b = m b"
proof (induction n arbitrary: m a v)
  case (Suc n)
  have "b \<noteq> a" using Suc.prems [of 0] by simp
  moreover have "b \<noteq> (a + 1) + of_nat k" if "k < n" for k
    using Suc.prems [of "Suc k"] that by (simp add: ac_simps)
  ultimately show ?case using Suc.IH [of "a + 1" "m(a := ucast v)" "drop_bit 8 v"] by (simp del: fun_upd_apply add: fun_upd_other)
qed simp

lemma load_bytes_cong: "(\<And>k. k < n \<Longrightarrow> m' (a + of_nat k) = m (a + of_nat k)) \<Longrightarrow> load_bytes m' a n = load_bytes m a n"
proof (induction n arbitrary: a)
  case (Suc n)
  have "m' a = m a" using Suc.prems [of 0] by simp
  moreover have "load_bytes m' (a + 1) n = load_bytes m (a + 1) n"
    using Suc.prems [of "Suc _"] by (intro Suc.IH) (simp add: ac_simps)
  ultimately show ?case by simp
qed simp

lemma load_store_same: "n \<le> 8 \<Longrightarrow> load_bytes (store_bytes m a n v) a n = take_bit (8 * n) v"
proof (induction n arbitrary: m a v)
  case (Suc n)
  have "a \<noteq> (a + 1) + of_nat k" if "k < n" for k
  proof -
    have "unat (of_nat (Suc k) :: uint64) = Suc k" using that Suc.prems by (simp add: unat_of_nat take_bit_nat_eq_self del: of_nat_Suc)
    then have "(of_nat (Suc k) :: uint64) \<noteq> 0" by (intro notI) simp
    then show ?thesis by (simp add: add.assoc)
  qed
  then have "store_bytes (m(a := ucast v)) (a + 1) n (drop_bit 8 v) a = ucast v"
    by (subst load_store_other) simp_all
  then have "load_bytes (store_bytes m a (Suc n) v) a (Suc n) = ucast (ucast v :: uint8) OR push_bit 8 (take_bit (8 * n) (drop_bit 8 v))"
    using Suc by simp
  also have "\<dots> = take_bit (8 * Suc n) v"
    by (rule bit_word_eqI) (auto simp: bit_simps not_less)
  finally show ?case .
qed simp

lemma load_store_apart:
  "(\<And>j k. j < n \<Longrightarrow> k < l \<Longrightarrow> b + of_nat j \<noteq> a + of_nat k) \<Longrightarrow> load_bytes (store_bytes m a l v) b n = load_bytes m b n"
  by (intro load_bytes_cong load_store_other) auto

text \<open>Addresses inside one 64-bit object differ when their indices do.\<close>

lemma addr_neq:
  fixes a :: uint64
  assumes "j < 2 ^ 64" "k < 2 ^ 64" "j \<noteq> k"
  shows "a + of_nat j \<noteq> a + of_nat k"
proof -
  have "unat (of_nat j :: uint64) \<noteq> unat (of_nat k :: uint64)"
    using assms by (simp add: unat_of_nat take_bit_nat_eq_self)
  then show ?thesis by (metis add_left_cancel)
qed

lemma store_bytes_desc:
  assumes "i + l \<le> 24" "j + n \<le> 24" "i + l \<le> j \<or> j + n \<le> i"
  shows "load_bytes (store_bytes m (a + of_nat i) l v) (a + of_nat j) n = load_bytes m (a + of_nat j) n"
proof (rule load_store_apart)
  fix j' k assume "j' < n" "k < l"
  then have "a + of_nat (j + j') \<noteq> a + of_nat (i + k)" using assms by (intro addr_neq) auto
  then show "a + of_nat j + of_nat j' \<noteq> a + of_nat i + of_nat k" by (simp add: add.assoc)
qed

lemma ucast_bytes16: "ucast (take_bit 16 (ucast (v :: uint16) :: uint64)) = v"
  by (rule bit_word_eqI) (auto simp: bit_simps)

lemma load_store_desc: "load_desc (store_desc m a bd) a = bd"
proof -
  note o = store_bytes_desc [of 2 2 0 2 _ a] store_bytes_desc [of 8 8 0 2 _ a] store_bytes_desc [of 16 8 0 2 _ a]
    store_bytes_desc [of 8 8 2 2 _ a] store_bytes_desc [of 16 8 2 2 _ a] store_bytes_desc [of 16 8 8 8 _ a]
  have "take_bit 64 v = v" for v :: uint64 by (simp add: take_bit_word_eq_self)
  then show ?thesis
    using o by (simp add: load_desc_def store_desc_def load_store_same ucast_bytes16)
qed

lemma store_desc_other:
  assumes "\<And>k. k < 24 \<Longrightarrow> b \<noteq> a + of_nat k"
  shows "store_desc m a bd b = m b"
proof -
  have "b \<noteq> a + of_nat i + of_nat k" if "i + n \<le> 24" "k < n" for i k n
    using assms [of "i + k"] that by (simp add: add.assoc)
  from this [of 0 2] this [of 2 2] this [of 8 8] this [of 16 8]
  show ?thesis unfolding store_desc_def by (simp add: load_store_other)
qed

lemma load_desc_cong:
  assumes "\<And>k. k < 24 \<Longrightarrow> m' (a + of_nat k) = m (a + of_nat k)"
  shows "load_desc m' a = load_desc m a"
proof -
  have "m' (a + of_nat i + of_nat k) = m (a + of_nat i + of_nat k)" if "i + n \<le> 24" "k < n" for i k n
    using assms [of "i + k"] that by (simp add: add.assoc)
  from this [of 0 2] this [of 2 2] this [of 8 8] this [of 16 8]
  show ?thesis unfolding load_desc_def
    by (simp add: load_bytes_cong [of 2 m' a m] load_bytes_cong [of 2 m' "a + 2" m]
        load_bytes_cong [of 8 m' "a + 8" m] load_bytes_cong [of 8 m' "a + 16" m])
qed

definition poke_memory :: "uint64 \<Rightarrow> memory \<Rightarrow> size_t \<Rightarrow> uint8 \<Rightarrow> memory" where
  "poke_memory BaseAddr m Offset v = m(BaseAddr + Offset := v)"

lemma offset_neq:
  fixes off o' :: size_t
  assumes "unat off + 24 \<le> 2 ^ 64" "k < 24" "unat o' < unat off \<or> unat off + 24 \<le> unat o'"
  shows "base + o' \<noteq> base + off + of_nat k"
proof -
  have "of_nat k = (of_nat k :: uint64)" ..
  have "unat (of_nat k :: uint64) = k" using assms(2) by (simp add: unat_of_nat take_bit_nat_eq_self)
  then have "unat (off + of_nat k) = unat off + k"
    using assms(1,2) by (subst unat_add_lem [THEN iffD1]) auto
  then have "o' \<noteq> off + of_nat k" using assms by auto
  then show ?thesis by (simp add: add.assoc)
qed

interpretation direct: pool_storage "direct_storage base" "\<lambda>m off. load_desc m (base + off)" "poke_memory base" for base
proof (unfold_locales, goal_cases)
  case (1 m off)
  show ?case by (simp add: direct_storage_def CFE_ES_MemPoolDirectRetrieve_def)
next
  case (2 off m bd)
  have "load_desc (store_desc m (base + off) bd) (base + o') = load_desc m (base + o')"
    if "unat o' + 24 \<le> 2 ^ 64" "apart off o'" for o'
  proof (intro load_desc_cong store_desc_other)
    fix j k :: nat assume "j < 24" "k < 24"
    have "unat (of_nat j :: uint64) = j" using \<open>j < 24\<close> by (simp add: unat_of_nat take_bit_nat_eq_self)
    then have "unat (o' + of_nat j) = unat o' + j"
      using that(1) \<open>j < 24\<close> by (subst unat_add_lem [THEN iffD1]) auto
    then show "base + o' + of_nat j \<noteq> base + off + of_nat k"
      using offset_neq [OF 2 \<open>k < 24\<close>, of "o' + of_nat j" base] that(2) \<open>j < 24\<close>
      by (auto simp: apart_def add.assoc)
  qed
  then show ?case by (simp add: direct_storage_def CFE_ES_MemPoolDirectCommit_def load_store_desc)
next
  case (3 off a m v)
  have "base + a \<noteq> base + off + of_nat k" if "k < 24" for k using offset_neq [OF 3(1) that 3(2)] .
  then show ?case unfolding poke_memory_def by (intro load_desc_cong) (metis fun_upd_other)
qed

section \<open>The allocator invariant\<close>

definition bsize :: "CFE_ES_GenPoolRecord_t \<Rightarrow> nat \<Rightarrow> nat" where
  "bsize p i = unat (BlockSize (Buckets p i))"

definition dsc :: "('m \<Rightarrow> size_t \<Rightarrow> CFE_ES_GenPoolBD_t) \<Rightarrow> 'm \<Rightarrow> nat \<Rightarrow> CFE_ES_GenPoolBD_t" where
  "dsc desc m x = desc m (of_nat x - 24)"

definition is_free :: "('m \<Rightarrow> size_t \<Rightarrow> CFE_ES_GenPoolBD_t) \<Rightarrow> CFE_ES_GenPoolRecord_t \<Rightarrow> 'm \<Rightarrow> nat \<Rightarrow> nat \<Rightarrow> bool" where
  "is_free desc p m x i \<longleftrightarrow> Allocated (dsc desc m x) = CFE_ES_MEMORY_DEALLOCATED + bucket_id p i"

text \<open>The parts that no operation changes, with the bounds that keep the offset arithmetic of a pool
  in memory away from wrap-around.\<close>

definition pool_static :: "CFE_ES_GenPoolRecord_t \<Rightarrow> bool" where
  "pool_static p \<longleftrightarrow> unat (NumBuckets p) \<le> 17 \<and> unat (PoolMaxOffset p) < 2 ^ 62 \<and> unat (AlignMask p) < 2 ^ 32 \<and>
     TailPosition p \<le> PoolMaxOffset p \<and>
     (\<forall>i < unat (NumBuckets p). 0 < bsize p i \<and> bsize p i < 2 ^ 62)"

text \<open>\<open>bs\<close> lists the blocks created so far, newest first, as offset and bucket index.\<close>

definition layout_ok :: "nat \<Rightarrow> CFE_ES_GenPoolRecord_t \<Rightarrow> (nat \<times> nat) list \<Rightarrow> bool" where
  "layout_ok start p bs \<longleftrightarrow>
     sorted_wrt (\<lambda>(x, i) (y, j). y + bsize p j + 24 \<le> x) bs \<and>
     (\<forall>(x, i) \<in> set bs. start + 24 \<le> x \<and> x + bsize p i \<le> unat (TailPosition p) \<and> i < unat (NumBuckets p) \<and>
        of_nat x AND AlignMask p = 0)"

definition desc_ok :: "('m \<Rightarrow> size_t \<Rightarrow> CFE_ES_GenPoolBD_t) \<Rightarrow> CFE_ES_GenPoolRecord_t \<Rightarrow> 'm \<Rightarrow> nat \<Rightarrow> nat \<Rightarrow> bool" where
  "desc_ok desc p m x i \<longleftrightarrow> CheckBits (dsc desc m x) = CFE_ES_CHECK_PATTERN \<and>
     (Allocated (dsc desc m x) = CFE_ES_MEMORY_ALLOCATED + bucket_id p i \<or> is_free desc p m x i) \<and>
     unat (ActualSize (dsc desc m x)) \<le> bsize p i"

primrec chain :: "('m \<Rightarrow> size_t \<Rightarrow> CFE_ES_GenPoolBD_t) \<Rightarrow> 'm \<Rightarrow> size_t \<Rightarrow> nat list \<Rightarrow> bool" where
  "chain desc m f [] \<longleftrightarrow> f = 0"
| "chain desc m f (x # xs) \<longleftrightarrow> f = of_nat x \<and> f \<noteq> 0 \<and> chain desc m (NextOffset (dsc desc m x)) xs"

text \<open>\<open>fl i\<close> is the free list of bucket \<open>i\<close>.\<close>

definition free_ok ::
    "('m \<Rightarrow> size_t \<Rightarrow> CFE_ES_GenPoolBD_t) \<Rightarrow> CFE_ES_GenPoolRecord_t \<Rightarrow> 'm \<Rightarrow> (nat \<times> nat) list \<Rightarrow> (nat \<Rightarrow> nat list) \<Rightarrow> bool" where
  "free_ok desc p m bs fl \<longleftrightarrow> (\<forall>i < unat (NumBuckets p).
     chain desc m (FirstOffset (Buckets p i)) (fl i) \<and> distinct (fl i) \<and>
     set (fl i) = {x. (x, i) \<in> set bs \<and> is_free desc p m x i} \<and>
     ReleaseCount (Buckets p i) - RecycleCount (Buckets p i) = of_nat (length (fl i)) \<and>
     AllocationCount (Buckets p i) = of_nat (length (filter (\<lambda>b. snd b = i) bs)))"

definition pool_inv ::
    "('m \<Rightarrow> size_t \<Rightarrow> CFE_ES_GenPoolBD_t) \<Rightarrow> nat \<Rightarrow> CFE_ES_GenPoolRecord_t \<Rightarrow> 'm \<Rightarrow> (nat \<times> nat) list \<Rightarrow> (nat \<Rightarrow> nat list) \<Rightarrow> bool" where
  "pool_inv desc start p m bs fl \<longleftrightarrow> pool_static p \<and> start \<le> unat (TailPosition p) \<and> layout_ok start p bs \<and>
     (\<forall>(x, i) \<in> set bs. desc_ok desc p m x i) \<and> free_ok desc p m bs fl"

lemma layoutD:
  assumes "layout_ok start p bs" "(x, i) \<in> set bs"
  shows "start + 24 \<le> x" "x + bsize p i \<le> unat (TailPosition p)" "i < unat (NumBuckets p)"
    "of_nat x AND AlignMask p = 0"
  using assms by (auto simp: layout_ok_def)

lemma layout_apart:
  assumes "layout_ok start p bs" "(x, i) \<in> set bs" "(y, j) \<in> set bs" "(x, i) \<noteq> (y, j)"
  shows "y + bsize p j + 24 \<le> x \<or> x + bsize p i + 24 \<le> y"
  using assms unfolding layout_ok_def
proof (induction bs)
  case (Cons b bs)
  then show ?case by (auto simp: case_prod_beta)
qed simp

lemma layout_same: "layout_ok start p bs \<Longrightarrow> (x, i) \<in> set bs \<Longrightarrow> (x, j) \<in> set bs \<Longrightarrow> i = j"
  using layout_apart [of start p bs x i x j] by auto

lemma unat_offset:
  assumes "24 \<le> x" "x < 2 ^ 63"
  shows "unat (of_nat x :: size_t) = x" "unat (of_nat x - 24 :: size_t) = x - 24" "of_nat x \<noteq> (0 :: size_t)"
proof -
  show u: "unat (of_nat x :: size_t) = x" using assms by (simp add: unat_of_nat take_bit_nat_eq_self)
  show "unat (of_nat x - 24 :: size_t) = x - 24" using assms u by (simp add: unat_sub word_le_nat_alt)
  show "of_nat x \<noteq> (0 :: size_t)" using assms u by (intro notI) simp
qed

lemma apart_blocks:
  assumes "24 \<le> x" "24 \<le> y" "x < 2 ^ 63" "y < 2 ^ 63" "x + 24 \<le> y \<or> y + 24 \<le> x"
  shows "apart (of_nat x - 24) (of_nat y - 24)"
  using assms by (auto simp: apart_def unat_offset)

lemma chain_cong:
  "(\<And>x. x \<in> set xs \<Longrightarrow> dsc desc m' x = dsc desc m x) \<Longrightarrow> chain desc m' f xs = chain desc m f xs"
  by (induction xs arbitrary: f) auto

lemma and_not_bounds:
  fixes w a :: "'a::len word"
  shows "unat (w AND NOT a) \<le> unat w" "unat w \<le> unat (w AND NOT a) + unat a" "(w AND NOT a) AND a = 0"
proof -
  have split: "(w AND NOT a) + (w AND a) = w"
  proof -
    have "(w AND NOT a) AND (w AND a) = 0" by (rule bit_word_eqI) (auto simp: bit_simps)
    then have "(w AND NOT a) + (w AND a) = (w AND NOT a) OR (w AND a)" by (rule disjunctive_add_eq_or)
    also have "\<dots> = w" by (rule bit_word_eqI) (auto simp: bit_simps)
    finally show ?thesis .
  qed
  have le: "unat (v AND u) \<le> unat u" for u v :: "'a word"
    using word_and_le1 [of v u] by (simp add: word_le_nat_alt)
  show "unat (w AND NOT a) \<le> unat w" using le [of "NOT a" w] by (simp add: and.commute)
  show "(w AND NOT a) AND a = 0" by (rule bit_word_eqI) (auto simp: bit_simps)
  have "unat w \<le> unat (w AND NOT a) + unat (w AND a)" using split
    by (metis mod_less_eq_dividend unat_word_ariths(1))
  then show "unat w \<le> unat (w AND NOT a) + unat a" using le [of w a] by simp
qed

lemma next_block_offset_bounds:
  assumes "pool_static p"
  shows "unat (TailPosition p) + 24 \<le> unat (next_block_offset p)"
    "unat (next_block_offset p) < 2 ^ 62 + 2 ^ 33" "next_block_offset p AND AlignMask p = 0"
proof -
  let ?w = "TailPosition p + 24 + AlignMask p"
  have "unat (TailPosition p) < 2 ^ 62" "unat (AlignMask p) < 2 ^ 32"
    using assms by (auto simp: pool_static_def word_le_nat_alt)
  moreover from this have "unat (TailPosition p + 24) = unat (TailPosition p) + 24"
    by (subst unat_add_lem [THEN iffD1]) auto
  ultimately have w: "unat ?w = unat (TailPosition p) + 24 + unat (AlignMask p)"
    by (subst unat_add_lem [THEN iffD1]) auto
  show "unat (TailPosition p) + 24 \<le> unat (next_block_offset p)"
    using and_not_bounds(2) [of ?w "AlignMask p"] w by (simp add: next_block_offset_def)
  show "unat (next_block_offset p) < 2 ^ 62 + 2 ^ 33"
    using and_not_bounds(1) [of ?w "AlignMask p"] w \<open>unat (TailPosition p) < 2 ^ 62\<close> \<open>unat (AlignMask p) < 2 ^ 32\<close>
    by (simp add: next_block_offset_def)
  show "next_block_offset p AND AlignMask p = 0"
    by (simp add: next_block_offset_def and_not_bounds)
qed

text \<open>Bucket IDs and the two allocation patterns cannot be confused.\<close>

lemma bucket_id_inj:
  "i < unat (NumBuckets p) \<Longrightarrow> j < unat (NumBuckets p) \<Longrightarrow> bucket_id p i = bucket_id p j \<longleftrightarrow> i = j"
  using GetBucketState_id [of i p] GetBucketState_id [of j p] by (metis option.inject)

lemma unat_bucket_id: "i < unat (NumBuckets p) \<Longrightarrow> unat (bucket_id p i) = unat (NumBuckets p) - i"
  unfolding bucket_id_def by (rule unat_sub_of_nat) simp

lemma patterns_apart:
  assumes "unat (NumBuckets p) \<le> 17" "i < unat (NumBuckets p)"
  shows "CFE_ES_MEMORY_DEALLOCATED + bucket_id p i \<noteq> CFE_ES_MEMORY_ALLOCATED + bucket_id p j \<or> \<not> j < unat (NumBuckets p)"
    "CFE_ES_GenPoolGetBucketState p (CFE_ES_MEMORY_DEALLOCATED + bucket_id p i - CFE_ES_MEMORY_ALLOCATED) = None"
proof -
  have n: "CFE_ES_MEMORY_DEALLOCATED + bucket_id p i - CFE_ES_MEMORY_ALLOCATED = 0x3333 + bucket_id p i"
    by simp
  have u: "unat (0x3333 + bucket_id p i) = 0x3333 + unat (bucket_id p i)"
    using assms unat_bucket_id [OF assms(2)] by (subst unat_add_lem [THEN iffD1]) auto
  show none: "CFE_ES_GenPoolGetBucketState p (CFE_ES_MEMORY_DEALLOCATED + bucket_id p i - CFE_ES_MEMORY_ALLOCATED) = None"
  proof (rule ccontr)
    assume "CFE_ES_GenPoolGetBucketState p (CFE_ES_MEMORY_DEALLOCATED + bucket_id p i - CFE_ES_MEMORY_ALLOCATED) \<noteq> None"
    then obtain j where "CFE_ES_GenPoolGetBucketState p (0x3333 + bucket_id p i) = Some j" unfolding n by auto
    from GetBucketState_cases [OF this] show False using u unat_bucket_id [of j p] assms(1) by simp
  qed
  show "CFE_ES_MEMORY_DEALLOCATED + bucket_id p i \<noteq> CFE_ES_MEMORY_ALLOCATED + bucket_id p j \<or> \<not> j < unat (NumBuckets p)"
    using none GetBucketState_id [of j p] by (metis add_diff_cancel_left' option.distinct(1))
qed

lemma bucket_frame [simp]:
  "bsize (set_bucket f i p) j = (if j = i then unat (BlockSize (f (Buckets p i))) else bsize p j)"
  "NumBuckets (set_bucket f i p) = NumBuckets p" "TailPosition (set_bucket f i p) = TailPosition p"
  "PoolMaxOffset (set_bucket f i p) = PoolMaxOffset p" "AlignMask (set_bucket f i p) = AlignMask p"
  "bucket_id (set_bucket f i p) = bucket_id p"
  "Buckets (set_bucket f i p) = (Buckets p)(i := f (Buckets p i))"
  by (auto simp: set_bucket_def bsize_def bucket_id_def fun_eq_iff)

lemma inv_blockD:
  assumes "pool_inv desc start p m bs fl" "(x, i) \<in> set bs"
  shows "24 \<le> x" "x < 2 ^ 62" "i < unat (NumBuckets p)" "x < unat (TailPosition p)" "desc_ok desc p m x i"
    "0 < bsize p i" "x + bsize p i \<le> unat (TailPosition p)"
proof -
  note inv = assms(1) [unfolded pool_inv_def]
  have l: "start + 24 \<le> x" "x + bsize p i \<le> unat (TailPosition p)" "i < unat (NumBuckets p)"
    using layoutD [OF _ assms(2)] inv by blast+
  have s: "unat (TailPosition p) \<le> unat (PoolMaxOffset p)" "unat (PoolMaxOffset p) < 2 ^ 62"
    "0 < bsize p i"
    using inv l(3) by (auto simp: pool_static_def word_le_nat_alt)
  show "24 \<le> x" "x < 2 ^ 62" "i < unat (NumBuckets p)" "x < unat (TailPosition p)" "0 < bsize p i"
    "x + bsize p i \<le> unat (TailPosition p)"
    using l s by auto
  show "desc_ok desc p m x i" using inv assms(2) by auto
qed

text \<open>The descriptors a change at \<open>x\<close> leaves alone.\<close>

lemma inv_other_apart:
  assumes "pool_inv desc start p m bs fl" "(x, i) \<in> set bs" "(y, j) \<in> set bs" "y \<noteq> x"
  shows "apart (of_nat x - 24) (of_nat y - 24)"
proof -
  have "y + bsize p j + 24 \<le> x \<or> x + bsize p i + 24 \<le> y"
    using layout_apart [of start p bs x i y j] assms by (auto simp: pool_inv_def)
  then show ?thesis
    using inv_blockD [OF assms(1,2)] inv_blockD [OF assms(1,3)] by (intro apart_blocks) auto
qed

lemma free_okD:
  assumes "free_ok desc p m bs fl" "i < unat (NumBuckets p)"
  shows "chain desc m (FirstOffset (Buckets p i)) (fl i)" "distinct (fl i)"
    "set (fl i) = {x. (x, i) \<in> set bs \<and> is_free desc p m x i}"
    "ReleaseCount (Buckets p i) - RecycleCount (Buckets p i) = of_nat (length (fl i))"
    "AllocationCount (Buckets p i) = of_nat (length (filter (\<lambda>b. snd b = i) bs))"
  using assms by (auto simp: free_ok_def)

lemma of_nat_block_inj:
  "pool_inv desc start p m bs fl \<Longrightarrow> (x, i) \<in> set bs \<Longrightarrow> (y, j) \<in> set bs \<Longrightarrow>
     (of_nat x :: size_t) = of_nat y \<longleftrightarrow> x = y"
proof -
  assume inv: "pool_inv desc start p m bs fl" and x: "(x, i) \<in> set bs" and y: "(y, j) \<in> set bs"
  have "unat (of_nat x :: size_t) = x" "unat (of_nat y :: size_t) = y"
    using inv_blockD(1,2) [OF inv x] inv_blockD(1,2) [OF inv y] by (simp_all add: unat_offset)
  then show ?thesis by metis
qed

text \<open>What the client holds: offset and size of every block that is not free.\<close>

definition live :: "('m \<Rightarrow> size_t \<Rightarrow> CFE_ES_GenPoolBD_t) \<Rightarrow> CFE_ES_GenPoolRecord_t \<Rightarrow> 'm \<Rightarrow> (nat \<times> nat) list \<Rightarrow> (nat \<times> nat) set" where
  "live desc p m bs = {(x, unat (ActualSize (dsc desc m x))) | x i. (x, i) \<in> set bs \<and> \<not> is_free desc p m x i}"

context pool_storage
begin

lemma retrieve_dsc:
  obtains m1 where "Retrieve st m (of_nat x - 24) = (CFE_SUCCESS, m1, dsc desc m x)" "desc m1 = desc m"
  using retrieve [of m "of_nat x - 24"] by (auto simp: dsc_def)

lemma commit_dsc:
  assumes inv: "pool_inv desc start p m bs fl" and b: "(x, i) \<in> set bs"
  obtains m' where "Commit st m (of_nat x - 24) bd = (CFE_SUCCESS, m')" "dsc desc m' x = bd"
    "\<And>y j. (y, j) \<in> set bs \<Longrightarrow> y \<noteq> x \<Longrightarrow> dsc desc m' y = dsc desc m y"
proof -
  have lt: "unat (of_nat y - 24 :: size_t) + 24 \<le> 2 ^ 64" if "(y, j) \<in> set bs" for y j
    using inv_blockD(1,2) [OF inv that] by (simp add: unat_offset)
  from commit [OF lt [OF b], of m bd] obtain m' where
    m': "Commit st m (of_nat x - 24) bd = (CFE_SUCCESS, m')" "desc m' (of_nat x - 24) = bd"
    "\<forall>o'. unat o' + 24 \<le> 2 ^ 64 \<longrightarrow> apart (of_nat x - 24) o' \<longrightarrow> desc m' o' = desc m o'" by blast
  show thesis
    using that [OF m'(1)] m'(2,3) lt inv_other_apart [OF inv b] unfolding dsc_def by blast
qed

lemma inv_same_desc: "desc m' = desc m \<Longrightarrow> pool_inv desc start p m' bs fl = pool_inv desc start p m bs fl"
proof -
  assume e: "desc m' = desc m"
  have "chain desc m' f xs = chain desc m f xs" for f xs by (induction xs arbitrary: f) (simp_all add: dsc_def e)
  then show ?thesis
    by (simp add: pool_inv_def free_ok_def desc_ok_def is_free_def dsc_def e)
qed

lemma live_same_desc: "desc m' = desc m \<Longrightarrow> live desc p m' bs = live desc p m bs"
  by (simp add: live_def is_free_def dsc_def)

text \<open>Changing the descriptor of one block between allocated and free, with its free list.\<close>

lemma inv_update:
  assumes inv: "pool_inv desc start p m bs fl" and b: "(x, i) \<in> set bs"
    and upd: "dsc desc m' x = bd" "\<And>y j. (y, j) \<in> set bs \<Longrightarrow> y \<noteq> x \<Longrightarrow> dsc desc m' y = dsc desc m y"
    and bd: "CheckBits bd = CFE_ES_CHECK_PATTERN" "unat (ActualSize bd) \<le> bsize p i"
      "Allocated bd = CFE_ES_MEMORY_ALLOCATED + bucket_id p i \<or> Allocated bd = CFE_ES_MEMORY_DEALLOCATED + bucket_id p i"
    and f: "\<And>c. BlockSize (f c) = BlockSize c" "\<And>c. AllocationCount (f c) = AllocationCount c"
    and fr: "chain desc m' (FirstOffset (f (Buckets p i))) xs" "distinct xs"
      "set xs = {y. (y, i) \<in> set bs \<and> is_free desc p m' y i}"
      "ReleaseCount (f (Buckets p i)) - RecycleCount (f (Buckets p i)) = of_nat (length xs)"
  shows "pool_inv desc start (set_bucket f i p) m' bs (fl(i := xs))"
proof -
  let ?p = "set_bucket f i p"
  have i: "i < unat (NumBuckets p)" using inv_blockD [OF inv b] by simp
  have bs: "bsize ?p j = bsize p j" for j using f(1) by (simp add: bsize_def)
  have inv': "pool_static p" "start \<le> unat (TailPosition p)" "layout_ok start p bs" "free_ok desc p m bs fl"
    using inv by (simp_all add: pool_inv_def)
  have st: "pool_static ?p" using inv'(1) bs by (simp add: pool_static_def)
  have lay: "layout_ok start ?p bs" using inv'(3) bs by (simp add: layout_ok_def)
  have fr_eq: "is_free desc ?p m' y j = is_free desc p m' y j" for y j by (simp add: is_free_def)
  have dok: "desc_ok desc ?p m' y j" if "(y, j) \<in> set bs" for y j
  proof (cases "y = x")
    case True
    then have "j = i" using layout_same [OF inv'(3)] b that by blast
    then show ?thesis using True upd(1) bd by (auto simp: desc_ok_def is_free_def bsize_def f(1))
  next
    case False
    then show ?thesis
      using inv_blockD(5) [OF inv that] upd(2) [OF that False] bs by (simp add: desc_ok_def is_free_def)
  qed
  have "free_ok desc ?p m' bs (fl(i := xs))"
    unfolding free_ok_def
  proof (intro allI impI)
    fix j assume j: "j < unat (NumBuckets ?p)"
    show "chain desc m' (FirstOffset (Buckets ?p j)) ((fl(i := xs)) j) \<and> distinct ((fl(i := xs)) j) \<and>
      set ((fl(i := xs)) j) = {y. (y, j) \<in> set bs \<and> is_free desc ?p m' y j} \<and>
      ReleaseCount (Buckets ?p j) - RecycleCount (Buckets ?p j) = of_nat (length ((fl(i := xs)) j)) \<and>
      AllocationCount (Buckets ?p j) = of_nat (length (filter (\<lambda>b. snd b = j) bs))"
    proof (cases "j = i")
      case True
      then show ?thesis using fr f(2) free_okD(5) [OF inv'(4) i] by (simp add: fr_eq)
    next
      case False
      note fj = free_okD [OF inv'(4), of j]
      have same: "dsc desc m' y = dsc desc m y" if "(y, j) \<in> set bs" for y
        using upd(2) [OF that] layout_same [OF inv'(3), of y j i] b that False by blast
      have "chain desc m' (FirstOffset (Buckets p j)) (fl j)"
        using fj j same chain_cong [of "fl j" desc m' m] by auto
      then show ?thesis using fj j False same by (auto simp: fr_eq is_free_def)
    qed
  qed
  then show ?thesis using st lay dok inv'(2) by (auto simp: pool_inv_def)
qed

lemma PutBlock_live:
  assumes inv: "pool_inv desc start p m bs fl" and b: "(x, i) \<in> set bs"
    and used: "\<not> is_free desc p m x i" "ActualSize (dsc desc m x) \<noteq> 0"
  obtains p' m' where
    "CFE_ES_GenPoolPutBlock st p m (of_nat x) = (CFE_SUCCESS, p', m', Some (ActualSize (dsc desc m x)))"
    "pool_inv desc start p' m' bs (fl(i := x # fl i))" "live desc p' m' bs = live desc p m bs - {(x, unat (ActualSize (dsc desc m x)))}"
    "FirstOffset (Buckets p' i) = of_nat x"
proof -
  note B = inv_blockD [OF inv b]
  note u = unat_offset [of x]
  let ?d = "dsc desc m x"
  have d: "CheckBits ?d = CFE_ES_CHECK_PATTERN" "Allocated ?d = CFE_ES_MEMORY_ALLOCATED + bucket_id p i"
    "unat (ActualSize ?d) \<le> bsize p i"
    using B(5) used(1) by (auto simp: desc_ok_def)
  have bucket: "CFE_ES_GenPoolGetBucketState p (Allocated ?d - CFE_ES_MEMORY_ALLOCATED) = Some i"
    using GetBucketState_id [OF B(3)] d(2) by (simp add: add_diff_cancel_left')
  have alloc: "allocated_bucket p ?d = Some i"
    using bucket d used(2) by (simp add: allocated_bucket_def bsize_def word_less_nat_alt)
  have range: "\<not> (of_nat x \<ge> TailPosition p \<or> of_nat x < (24 :: size_t))"
    using B(1,2,4) u by (simp add: word_le_nat_alt word_less_nat_alt)
  let ?bd = "?d\<lparr>Allocated := CFE_ES_MEMORY_DEALLOCATED + bucket_id p i, NextOffset := FirstOffset (Buckets p i)\<rparr>"
  obtain m1 where m1: "Retrieve st m (of_nat x - 24) = (CFE_SUCCESS, m1, ?d)" "desc m1 = desc m"
    by (rule retrieve_dsc)
  have inv1: "pool_inv desc start p m1 bs fl" using inv inv_same_desc [OF m1(2)] by simp
  have dsc1: "dsc desc m1 = dsc desc m" using m1(2) by (simp add: dsc_def fun_eq_iff)
  obtain m2 where m2: "Commit st m1 (of_nat x - 24) ?bd = (CFE_SUCCESS, m2)" "dsc desc m2 x = ?bd"
    "\<And>y j. (y, j) \<in> set bs \<Longrightarrow> y \<noteq> x \<Longrightarrow> dsc desc m2 y = dsc desc m1 y"
    using commit_dsc [OF inv1 b] by blast
  let ?f = "\<lambda>c. c\<lparr>FirstOffset := of_nat x, ReleaseCount := ReleaseCount c + 1\<rparr>"
  have put: "CFE_ES_GenPoolPutBlock st p m (of_nat x) = (CFE_SUCCESS, set_bucket ?f i p, m2, Some (ActualSize ?d))"
    using range m1(1) alloc m2(1) d(2)
    by (simp add: CFE_ES_GenPoolPutBlock_def Let_def add_diff_cancel_left' del: diff_add_cancel)
  have lay: "layout_ok start p bs" and fr: "free_ok desc p m1 bs fl" using inv1 by (simp_all add: pool_inv_def)
  note F = free_okD [OF fr B(3)]
  have notin: "x \<notin> set (fl i)" using F(3) used(1) by (simp add: is_free_def dsc1)
  have "chain desc m2 (FirstOffset (Buckets p i)) (fl i)"
    using F(1) chain_cong [of "fl i" desc m2 m1] m2(3) F(3) notin by (metis (mono_tags, lifting) mem_Collect_eq)
  moreover have "is_free desc p m2 y i \<longleftrightarrow> y = x \<or> is_free desc p m1 y i" if "(y, i) \<in> set bs" for y
    using m2(2) m2(3) [OF that] by (cases "y = x") (auto simp: is_free_def)
  ultimately have inv2: "pool_inv desc start (set_bucket ?f i p) m2 bs (fl(i := x # fl i))"
    using B(3) u(3) B(1,2) F notin d b m2(2)
    by (intro inv_update [OF inv1 b m2(2,3)]) (auto simp: algebra_simps)
  have "live desc (set_bucket ?f i p) m2 bs = live desc p m bs - {(x, unat (ActualSize ?d))}"
  proof -
    have x: "is_free desc (set_bucket ?f i p) m2 x i" using m2(2) by (simp add: is_free_def)
    have y: "dsc desc m2 y = dsc desc m y" if "(y, j) \<in> set bs" "y \<noteq> x" for y j using m2(3) [OF that] dsc1 by simp
    have same: "j = i" if "(x, j) \<in> set bs" for j using layout_same [OF lay b that] by simp
    show ?thesis
      using x y same by (fastforce simp: live_def is_free_def)
  qed
  then show thesis using that [OF put inv2] by simp
qed

end

context pool_storage
begin

lemma PutBlock_rejected:
  assumes inv: "pool_inv desc start p m bs fl" and b: "(x, i) \<in> set bs"
    and bad: "is_free desc p m x i \<or> ActualSize (dsc desc m x) = 0"
  obtains m' where "CFE_ES_GenPoolPutBlock st p m (of_nat x) =
      (CFE_ES_POOL_BLOCK_INVALID, p\<lparr>ValidationErrorCount := ValidationErrorCount p + 1\<rparr>, m', None)"
    "desc m' = desc m"
proof -
  note B = inv_blockD [OF inv b]
  let ?d = "dsc desc m x"
  have n: "unat (NumBuckets p) \<le> 17" using inv by (simp add: pool_inv_def pool_static_def)
  have range: "\<not> (of_nat x \<ge> TailPosition p \<or> of_nat x < (24 :: size_t))"
    using B(1,2,4) unat_offset [of x] by (simp add: word_le_nat_alt word_less_nat_alt)
  have "allocated_bucket p ?d = None"
  proof (cases "is_free desc p m x i")
    case True
    then show ?thesis using patterns_apart(2) [OF n B(3)] by (simp add: allocated_bucket_def is_free_def)
  next
    case False
    then show ?thesis using bad by (simp add: allocated_bucket_def split: option.split)
  qed
  moreover obtain m1 where "Retrieve st m (of_nat x - 24) = (CFE_SUCCESS, m1, ?d)" "desc m1 = desc m"
    by (rule retrieve_dsc)
  ultimately show thesis using that [of m1] range by (simp add: CFE_ES_GenPoolPutBlock_def Let_def)
qed

lemma inv_error_count: "pool_inv desc start (p\<lparr>ValidationErrorCount := k\<rparr>) m bs fl = pool_inv desc start p m bs fl"
  "live desc (p\<lparr>ValidationErrorCount := k\<rparr>) m bs = live desc p m bs"
  by (simp_all add: pool_inv_def pool_static_def layout_ok_def desc_ok_def free_ok_def is_free_def bsize_def
      bucket_id_def live_def)

lemma live_iff:
  "(y, s) \<in> live desc p m bs \<longleftrightarrow> (\<exists>j. (y, j) \<in> set bs \<and> \<not> is_free desc p m y j \<and> s = unat (ActualSize (dsc desc m y)))"
  by (auto simp: live_def)

lemma live_update:
  assumes lay: "layout_ok start p bs" and b: "(x, i) \<in> set bs"
    and y: "\<And>y j. (y, j) \<in> set bs \<Longrightarrow> y \<noteq> x \<Longrightarrow> dsc desc m' y = dsc desc m y"
    and used: "\<not> is_free desc p m' x i" and free: "is_free desc p m x i"
  shows "live desc (set_bucket f i p) m' bs = insert (x, unat (ActualSize (dsc desc m' x))) (live desc p m bs)"
proof -
  have same: "j = i" if "(x, j) \<in> set bs" for j using layout_same [OF lay b that] by simp
  have fr: "is_free desc (set_bucket f i p) m' y j = is_free desc p m' y j" for y j by (simp add: is_free_def)
  have "(y, s) \<in> live desc (set_bucket f i p) m' bs \<longleftrightarrow>
      (y, s) \<in> insert (x, unat (ActualSize (dsc desc m' x))) (live desc p m bs)" for y s
  proof (cases "y = x")
    case True
    then show ?thesis using b used free by (auto simp: live_iff fr dest: same)
  next
    case False
    show ?thesis
    proof (cases "\<exists>j. (y, j) \<in> set bs")
      case True
      then have "dsc desc m' y = dsc desc m y" using y False by blast
      then show ?thesis using False by (simp add: live_iff is_free_def)
    next
      case no: False
      then show ?thesis using False by (simp add: live_iff)
    qed
  qed
  then show ?thesis by auto
qed

text \<open>Recycling takes the head of the free list.\<close>

lemma Recycle_some:
  assumes inv: "pool_inv desc start p m bs fl" and i: "i < unat (NumBuckets p)"
    and fl: "fl i = x # xs" "ReleaseCount (Buckets p i) \<noteq> RecycleCount (Buckets p i)"
    and req: "unat req \<le> bsize p i"
  obtains p' m' where
    "CFE_ES_GenPoolRecyclePoolBlock st p m (bucket_id p i) req = (CFE_SUCCESS, p', m', Some (of_nat x))"
    "pool_inv desc start p' m' bs (fl(i := xs))" "(x, i) \<in> set bs" "is_free desc p m x i"
    "live desc p' m' bs = insert (x, unat req) (live desc p m bs)"
proof -
  have lay: "layout_ok start p bs" and fr: "free_ok desc p m bs fl" using inv by (simp_all add: pool_inv_def)
  note F = free_okD [OF fr i]
  have b: "(x, i) \<in> set bs" and free: "is_free desc p m x i" using F(3) fl(1) by auto
  note B = inv_blockD [OF inv b]
  let ?d = "dsc desc m x"
  have d: "CheckBits ?d = CFE_ES_CHECK_PATTERN" "Allocated ?d - CFE_ES_MEMORY_DEALLOCATED = bucket_id p i"
    using B(5) free by (auto simp: desc_ok_def is_free_def)
  have first: "FirstOffset (Buckets p i) = of_nat x" "of_nat x \<noteq> (0 :: size_t)"
    "chain desc m (NextOffset ?d) xs"
    using F(1) fl(1) by auto
  let ?bd = "?d\<lparr>Allocated := CFE_ES_MEMORY_ALLOCATED + bucket_id p i, ActualSize := req, NextOffset := 0\<rparr>"
  obtain m1 where m1: "Retrieve st m (of_nat x - 24) = (CFE_SUCCESS, m1, ?d)" "desc m1 = desc m"
    by (rule retrieve_dsc)
  have inv1: "pool_inv desc start p m1 bs fl" using inv inv_same_desc [OF m1(2)] by simp
  have dsc1: "dsc desc m1 = dsc desc m" using m1(2) by (simp add: dsc_def fun_eq_iff)
  obtain m2 where m2: "Commit st m1 (of_nat x - 24) ?bd = (CFE_SUCCESS, m2)" "dsc desc m2 x = ?bd"
    "\<And>y j. (y, j) \<in> set bs \<Longrightarrow> y \<noteq> x \<Longrightarrow> dsc desc m2 y = dsc desc m1 y"
    using commit_dsc [OF inv1 b] by blast
  let ?f = "\<lambda>c. c\<lparr>FirstOffset := NextOffset ?d, RecycleCount := RecycleCount c + 1\<rparr>"
  have rec: "CFE_ES_GenPoolRecyclePoolBlock st p m (bucket_id p i) req =
      (CFE_SUCCESS, set_bucket ?f i p, m2, Some (of_nat x))"
    using GetBucketState_id [OF i] fl(2) first m1(1) d m2(1)
    by (simp add: CFE_ES_GenPoolRecyclePoolBlock_def Let_def eq_commute [of "RecycleCount _"])
  have ne: "CFE_ES_MEMORY_ALLOCATED + bucket_id p i \<noteq> CFE_ES_MEMORY_DEALLOCATED + bucket_id p i" by simp
  have xs: "distinct xs" "x \<notin> set xs" "set xs \<subseteq> {y. (y, i) \<in> set bs}" using F(2,3) fl(1) by auto
  have "chain desc m2 (NextOffset ?d) xs"
    using first(3) chain_cong [of xs desc m2 m] m2(3) dsc1 xs by (metis (mono_tags, lifting) mem_Collect_eq subsetD)
  moreover have "is_free desc p m2 y i \<longleftrightarrow> y \<noteq> x \<and> is_free desc p m y i" if "(y, i) \<in> set bs" for y
    using m2(2) m2(3) [OF that] dsc1 ne by (cases "y = x") (auto simp: is_free_def)
  ultimately have inv2: "pool_inv desc start (set_bucket ?f i p) m2 bs (fl(i := xs))"
    using F fl(1) xs d(1) req m2(2)
    by (intro inv_update [OF inv1 b m2(2,3)]) (auto simp: algebra_simps)
  have "\<not> is_free desc p m2 x i" using m2(2) ne by (simp add: is_free_def)
  from live_update [OF lay b _ this free, of ?f] m2(2,3) dsc1
  have "live desc (set_bucket ?f i p) m2 bs = insert (x, unat req) (live desc p m bs)" by simp
  then show thesis using that [OF rec inv2 b free] by simp
qed

end

context pool_storage
begin

lemma commit_fresh:
  assumes inv: "pool_inv desc start p m bs fl" and x: "unat (TailPosition p) + 24 \<le> x" "x < 2 ^ 63"
  obtains m' where "Commit st m (of_nat x - 24) bd = (CFE_SUCCESS, m')" "dsc desc m' x = bd"
    "\<And>y j. (y, j) \<in> set bs \<Longrightarrow> dsc desc m' y = dsc desc m y"
proof -
  have "unat (of_nat x - 24 :: size_t) + 24 \<le> 2 ^ 64" using x by (simp add: unat_offset)
  from commit [OF this, of m bd] obtain m' where
    m': "Commit st m (of_nat x - 24) bd = (CFE_SUCCESS, m')" "desc m' (of_nat x - 24) = bd"
    "\<forall>o'. unat o' + 24 \<le> 2 ^ 64 \<longrightarrow> apart (of_nat x - 24) o' \<longrightarrow> desc m' o' = desc m o'" by blast
  have "dsc desc m' y = dsc desc m y" if "(y, j) \<in> set bs" for y j
  proof -
    note B = inv_blockD [OF inv that]
    have "apart (of_nat x - 24) (of_nat y - 24)" using B x by (intro apart_blocks) auto
    moreover have "unat (of_nat y - 24 :: size_t) + 24 \<le> 2 ^ 64" using B by (simp add: unat_offset)
    ultimately show ?thesis using m'(3) unfolding dsc_def by blast
  qed
  then show thesis using that [OF m'(1)] m'(2) by (simp add: dsc_def)
qed

lemma Create_some:
  assumes inv: "pool_inv desc start p m bs fl" and i: "i < unat (NumBuckets p)"
    and req: "unat req \<le> bsize p i"
    and fits: "\<not> next_block_offset p + BlockSize (Buckets p i) > PoolMaxOffset p"
  obtains p' m' x where
    "CFE_ES_GenPoolCreatePoolBlock st p m (bucket_id p i) req = (CFE_SUCCESS, p', m', Some (of_nat x))"
    "pool_inv desc start p' m' ((x, i) # bs) fl" "x = unat (next_block_offset p)"
    "live desc p' m' ((x, i) # bs) = insert (x, unat req) (live desc p m bs)" "bsize p' = bsize p"
proof -
  have st: "pool_static p" and lay: "layout_ok start p bs" and fr: "free_ok desc p m bs fl"
    and start: "start \<le> unat (TailPosition p)"
    using inv by (simp_all add: pool_inv_def)
  define x where "x = unat (next_block_offset p)"
  note N = next_block_offset_bounds [OF st, folded x_def]
  have W: "of_nat x = next_block_offset p" by (simp add: x_def)
  have bi: "0 < bsize p i" "bsize p i < 2 ^ 62" using st i by (auto simp: pool_static_def)
  have sum: "unat (next_block_offset p + BlockSize (Buckets p i)) = x + bsize p i"
    using N(2) bi(2) unfolding x_def bsize_def by (subst unat_add_lem [THEN iffD1]) auto
  have le: "x + bsize p i \<le> unat (PoolMaxOffset p)" using fits sum by (simp add: not_less word_le_nat_alt)
  have x63: "x < 2 ^ 63" using N(2) by simp
  have fresh: "x \<noteq> y" if "(y, j) \<in> set bs" for y j using inv_blockD(4) [OF inv that] N(1) by simp
  let ?bd = "\<lparr>CheckBits = CFE_ES_CHECK_PATTERN, Allocated = CFE_ES_MEMORY_ALLOCATED + bucket_id p i,
              ActualSize = req, NextOffset = 0\<rparr>"
  obtain m1 bd0 where m1: "Retrieve st m (of_nat x - 24) = (CFE_SUCCESS, m1, bd0)" "desc m1 = desc m"
    by (rule retrieve_dsc)
  have inv1: "pool_inv desc start p m1 bs fl" using inv inv_same_desc [OF m1(2)] by simp
  have dsc1: "dsc desc m1 = dsc desc m" using m1(2) by (simp add: dsc_def fun_eq_iff)
  obtain m2 where m2: "Commit st m1 (of_nat x - 24) ?bd = (CFE_SUCCESS, m2)" "dsc desc m2 x = ?bd"
    "\<And>y j. (y, j) \<in> set bs \<Longrightarrow> dsc desc m2 y = dsc desc m1 y"
    using commit_fresh [OF inv1 N(1) x63] by blast
  let ?p = "(set_bucket (\<lambda>b. b\<lparr>AllocationCount := AllocationCount b + 1\<rparr>) i p)
              \<lparr>TailPosition := next_block_offset p + BlockSize (Buckets p i),
               PoolAllocationCount := PoolAllocationCount p + 1\<rparr>"
  have create: "CFE_ES_GenPoolCreatePoolBlock st p m (bucket_id p i) req = (CFE_SUCCESS, ?p, m2, Some (of_nat x))"
    using GetBucketState_id [OF i] fits m1(1) m2(1)
    by (simp add: CFE_ES_GenPoolCreatePoolBlock_def Let_def W)
  have bs: "bsize ?p = bsize p" by (auto simp: bsize_def fun_eq_iff)
  have same: "NumBuckets ?p = NumBuckets p" "AlignMask ?p = AlignMask p" "PoolMaxOffset ?p = PoolMaxOffset p"
    "unat (TailPosition ?p) = x + bsize p i" "bucket_id ?p = bucket_id p"
    by (simp_all add: sum bucket_id_def fun_eq_iff)
  have free_new: "\<not> is_free desc ?p m2 x i" by (simp add: is_free_def m2(2) same(5))
  have free_old: "is_free desc ?p m2 y j = is_free desc p m y j" if "(y, j) \<in> set bs" for y j
    using m2(3) [OF that] dsc1 by (simp add: is_free_def same(5))
  have "pool_static ?p" using st le by (simp add: pool_static_def bs same word_le_nat_alt sum del: bucket_frame(1))
  moreover have "start \<le> unat (TailPosition ?p)" using start N(1) same(4) by simp
  moreover have "layout_ok start ?p ((x, i) # bs)"
    using lay start N(1,3) i W unfolding layout_ok_def same bs
    by (fastforce dest: inv_blockD(7) [OF inv])
  moreover have "desc_ok desc ?p m2 y j" if "(y, j) \<in> set ((x, i) # bs)" for y j
  proof (cases "(y, j) \<in> set bs")
    case True
    then show ?thesis
      using inv_blockD(5) [OF inv True] m2(3) [OF True] dsc1 free_old [OF True] by (simp add: desc_ok_def bs same)
  next
    case False
    then show ?thesis using that m2(2) req by (simp add: desc_ok_def bs same)
  qed
  moreover have "free_ok desc ?p m2 ((x, i) # bs) fl"
    unfolding free_ok_def
  proof (intro allI impI)
    fix j assume "j < unat (NumBuckets ?p)"
    then have j: "j < unat (NumBuckets p)" by simp
    note F = free_okD [OF fr j]
    have "chain desc m2 (FirstOffset (Buckets p j)) (fl j)"
      using F(1,3) chain_cong [of "fl j" desc m2 m] m2(3) dsc1 by auto
    moreover have "{y. (y, j) \<in> set ((x, i) # bs) \<and> is_free desc ?p m2 y j} = {y. (y, j) \<in> set bs \<and> is_free desc p m y j}"
      using free_new free_old by auto
    ultimately show "chain desc m2 (FirstOffset (Buckets ?p j)) (fl j) \<and> distinct (fl j) \<and>
      set (fl j) = {y. (y, j) \<in> set ((x, i) # bs) \<and> is_free desc ?p m2 y j} \<and>
      ReleaseCount (Buckets ?p j) - RecycleCount (Buckets ?p j) = of_nat (length (fl j)) \<and>
      AllocationCount (Buckets ?p j) = of_nat (length (filter (\<lambda>b. snd b = j) ((x, i) # bs)))"
      using F by auto
  qed
  ultimately have inv2: "pool_inv desc start ?p m2 ((x, i) # bs) fl" by (auto simp: pool_inv_def)
  have "live desc ?p m2 ((x, i) # bs) = insert (x, unat req) (live desc p m bs)"
  proof -
    have old: "(\<exists>j. (y, j) \<in> set bs \<and> \<not> is_free desc ?p m2 y j \<and> s = unat (ActualSize (dsc desc m2 y))) \<longleftrightarrow>
        (\<exists>j. (y, j) \<in> set bs \<and> \<not> is_free desc p m y j \<and> s = unat (ActualSize (dsc desc m y)))" for y s
      using free_old m2(3) dsc1 by (intro iff_exI conj_cong refl) auto
    have "(y, s) \<in> live desc ?p m2 ((x, i) # bs) \<longleftrightarrow> (y, s) \<in> insert (x, unat req) (live desc p m bs)" for y s
      unfolding live_iff insert_iff old [symmetric] using free_new m2(2) by auto
    then show ?thesis by auto
  qed
  then show thesis using that [OF create inv2 x_def _ bs] by simp
qed

lemma GetBlock_spec:
  assumes inv: "pool_inv desc start p m bs fl"
  obtains
    (ok) p' m' x bs' fl' where
      "CFE_ES_GenPoolGetBlock st p m req = (CFE_SUCCESS, p', m', Some (of_nat x))"
      "pool_inv desc start p' m' bs' fl'" "x \<in> fst ` set bs'" "set bs \<subseteq> set bs'" "fst ` set bs' = insert x (fst ` set bs)"
      "live desc p' m' bs' = insert (x, unat req) (live desc p m bs)" "x \<notin> fst ` live desc p m bs"
  | (err) "CFE_ES_GenPoolGetBlock st p m req = (CFE_ES_ERR_MEM_BLOCK_SIZE, p, m, None)"
      "CFE_ES_GenPoolFindBucket p req = 0 \<or>
       (\<exists>i. CFE_ES_GenPoolGetBucketState p (CFE_ES_GenPoolFindBucket p req) = Some i \<and>
            next_block_offset p + BlockSize (Buckets p i) > PoolMaxOffset p)"
proof -
  define i where "i = find_bucket_index (Buckets p) req (unat (NumBuckets p)) 0"
  have fb: "CFE_ES_GenPoolFindBucket p req = bucket_id p i" "i \<le> unat (NumBuckets p)"
    "CFE_ES_GenPoolFindBucket p req = 0 \<longleftrightarrow> i = unat (NumBuckets p)"
    using FindBucket_spec [of p req] unfolding Let_def i_def by blast+
  have st: "pool_static p" and lay: "layout_ok start p bs" and fr: "free_ok desc p m bs fl"
    using inv by (simp_all add: pool_inv_def)
  show thesis
  proof (cases "i = unat (NumBuckets p)")
    case True
    then show thesis using fb by (intro err) (simp_all add: CFE_ES_GenPoolGetBlock_def Let_def)
  next
    case False
    then have i: "i < unat (NumBuckets p)" using fb(2) by simp
    have req: "unat req \<le> bsize p i"
      using i find_bucket_index_spec [of "Buckets p" req "unat (NumBuckets p)" 0]
      by (simp add: i_def Let_def bsize_def word_le_nat_alt)
    have nz: "bucket_id p i \<noteq> 0" using fb False by auto
    note F = free_okD [OF fr i]
    show thesis
    proof (cases "fl i = [] \<or> ReleaseCount (Buckets p i) = RecycleCount (Buckets p i)")
      case True
      then have "CFE_ES_GenPoolRecyclePoolBlock st p m (bucket_id p i) req = (CFE_ES_BUFFER_NOT_IN_POOL, p, m, None)"
        using F(1) by (auto simp: CFE_ES_GenPoolRecyclePoolBlock_def GetBucketState_id [OF i] Let_def)
      then have get: "CFE_ES_GenPoolGetBlock st p m req = CFE_ES_GenPoolCreatePoolBlock st p m (bucket_id p i) req"
        using fb(1) nz by (simp add: CFE_ES_GenPoolGetBlock_def Let_def)
      show thesis
      proof (cases "next_block_offset p + BlockSize (Buckets p i) > PoolMaxOffset p")
        case True
        then show thesis
          using get GetBucketState_id [OF i] fb(1)
          by (intro err) (simp_all add: CFE_ES_GenPoolCreatePoolBlock_def Let_def)
      next
        case fits: False
        obtain p' m' x where c:
          "CFE_ES_GenPoolCreatePoolBlock st p m (bucket_id p i) req = (CFE_SUCCESS, p', m', Some (of_nat x))"
          "pool_inv desc start p' m' ((x, i) # bs) fl" "x = unat (next_block_offset p)"
          "live desc p' m' ((x, i) # bs) = insert (x, unat req) (live desc p m bs)"
          by (rule Create_some [OF inv i req fits])
        have "x \<notin> fst ` live desc p m bs"
          using inv_blockD(4) [OF inv] next_block_offset_bounds(1) [OF st] c(3) by (fastforce simp: live_def)
        then show thesis using get c by (intro ok [of p' m' x "(x, i) # bs" fl]) auto
      qed
    next
      case False
      then obtain x xs where "fl i = x # xs" "ReleaseCount (Buckets p i) \<noteq> RecycleCount (Buckets p i)"
        by (cases "fl i") auto
      then obtain p' m' where r:
        "CFE_ES_GenPoolRecyclePoolBlock st p m (bucket_id p i) req = (CFE_SUCCESS, p', m', Some (of_nat x))"
        "pool_inv desc start p' m' bs (fl(i := xs))" "(x, i) \<in> set bs" "is_free desc p m x i"
        "live desc p' m' bs = insert (x, unat req) (live desc p m bs)"
        using Recycle_some [OF inv i _ _ req] by blast
      have "x \<notin> fst ` live desc p m bs"
        using r(3,4) layout_same [OF lay] by (fastforce simp: live_def)
      moreover have "CFE_ES_GenPoolGetBlock st p m req = (CFE_SUCCESS, p', m', Some (of_nat x))"
        using fb(1) nz r(1) by (simp add: CFE_ES_GenPoolGetBlock_def Let_def)
      moreover have "x \<in> fst ` set bs" using r(3) by force
      ultimately show thesis using r by (intro ok [of p' m' x bs "fl(i := xs)"]) auto
    qed
  qed
qed

text \<open>A write of the client into one of its blocks.\<close>

lemma poke_ok:
  assumes inv: "pool_inv desc start p m bs fl" and b: "(x, i) \<in> set bs"
    and a: "x \<le> unat a" "unat a < x + bsize p i"
  shows "pool_inv desc start p (poke m a v) bs fl" "live desc p (poke m a v) bs = live desc p m bs"
proof -
  have lay: "layout_ok start p bs" using inv by (simp add: pool_inv_def)
  have same: "dsc desc (poke m a v) y = dsc desc m y" if "(y, j) \<in> set bs" for y j
  proof -
    note Y = inv_blockD [OF inv that] and X = inv_blockD [OF inv b]
    have o: "unat (of_nat y - 24 :: size_t) = y - 24" using Y by (intro unat_offset) auto
    have "unat a < y - 24 \<or> y \<le> unat a"
    proof (cases "y = x")
      case False
      then show ?thesis using layout_apart [OF lay b that] a Y(1) by auto
    qed (use a in simp)
    then have "unat a < unat (of_nat y - 24 :: size_t) \<or> unat (of_nat y - 24 :: size_t) + 24 \<le> unat a"
      using o Y(1) by auto
    moreover have "unat (of_nat y - 24 :: size_t) + 24 \<le> 2 ^ 64" using o Y by simp
    ultimately show ?thesis unfolding dsc_def by (intro poke)
  qed
  have "chain desc (poke m a v) f xs = chain desc m f xs" if "\<And>y. y \<in> set xs \<Longrightarrow> \<exists>j. (y, j) \<in> set bs" for f xs
    using that same by (intro chain_cong) blast
  moreover have "is_free desc p (poke m a v) y j = is_free desc p m y j" if "(y, j) \<in> set bs" for y j
    using same [OF that] by (simp add: is_free_def)
  ultimately have "free_ok desc p (poke m a v) bs fl"
    using inv unfolding pool_inv_def free_ok_def by (simp cong: conj_cong) blast
  moreover have "desc_ok desc p (poke m a v) y j" if "(y, j) \<in> set bs" for y j
    using inv_blockD(5) [OF inv that] same [OF that] by (simp add: desc_ok_def is_free_def)
  ultimately show "pool_inv desc start p (poke m a v) bs fl" using inv by (auto simp: pool_inv_def)
  show "live desc p (poke m a v) bs = live desc p m bs"
    using same by (auto simp: live_def is_free_def)
qed

end

section \<open>The pool and its clients\<close>

abbreviation mdesc :: "uint64 \<Rightarrow> memory \<Rightarrow> size_t \<Rightarrow> CFE_ES_GenPoolBD_t" where
  "mdesc base \<equiv> \<lambda>m off. load_desc m (base + off)"

text \<open>The states a memory-mapped pool reaches under a client that writes only into blocks it holds and
  returns only blocks it was once given, possibly again and again.  The client holds the blocks \<open>H\<close>,
  offset and requested size, out of the blocks \<open>G\<close> it was ever given.\<close>

inductive pool_reach ::
    "uint64 \<Rightarrow> nat \<Rightarrow> CFE_ES_GenPoolRecord_t \<Rightarrow> memory \<Rightarrow> (nat \<times> nat) set \<Rightarrow> nat set \<Rightarrow> bool" for base start where
  reach_init:
    "CFE_ES_GenPoolInitialize (of_nat start) psize align n sizes = Some (CFE_SUCCESS, p) \<Longrightarrow>
     unat n \<le> 17 \<Longrightarrow> unat n \<le> length sizes \<Longrightarrow> start + unat psize < 2 ^ 62 \<Longrightarrow> unat align < 2 ^ 32 \<Longrightarrow>
     list_all (\<lambda>s. unat s < 2 ^ 62) sizes \<Longrightarrow> pool_reach base start p m {} {}"
| reach_get:
    "pool_reach base start p m H G \<Longrightarrow>
     CFE_ES_GenPoolGetBlock (direct_storage base) p m req = (CFE_SUCCESS, p', m', Some x) \<Longrightarrow>
     pool_reach base start p' m' (insert (unat x, unat req) H) (insert (unat x) G)"
| reach_get_failed:
    "pool_reach base start p m H G \<Longrightarrow>
     CFE_ES_GenPoolGetBlock (direct_storage base) p m req = (status, p', m', r) \<Longrightarrow> status \<noteq> CFE_SUCCESS \<Longrightarrow>
     pool_reach base start p' m' H G"
| reach_put:
    "pool_reach base start p m H G \<Longrightarrow> unat x \<in> G \<Longrightarrow>
     CFE_ES_GenPoolPutBlock (direct_storage base) p m x = (status, p', m', r) \<Longrightarrow>
     pool_reach base start p' m' (if status = CFE_SUCCESS then {h \<in> H. fst h \<noteq> unat x} else H) G"
| reach_write:
    "pool_reach base start p m H G \<Longrightarrow> (x, s) \<in> H \<Longrightarrow> x \<le> unat a \<Longrightarrow> unat a < x + s \<Longrightarrow>
     pool_reach base start p (poke_memory base m a v) H G"

lemma Initialize_inv:
  assumes init: "CFE_ES_GenPoolInitialize (of_nat start) psize align n sizes = Some (CFE_SUCCESS, p)"
    and b: "unat n \<le> 17" "unat n \<le> length sizes" "start + unat psize < 2 ^ 62" "unat align < 2 ^ 32"
      "list_all (\<lambda>s. unat s < 2 ^ 62) sizes"
  shows "pool_inv desc start p m [] (\<lambda>_. [])"
proof -
  have I: "0 \<notin> set (take (unat n) sizes)" "mset (bucket_sizes p (unat n)) = mset (take (unat n) sizes)"
    "NumBuckets p = n" "TailPosition p = of_nat start" "PoolMaxOffset p = psize + of_nat start"
    "AlignMask p = (if align \<le> 1 then 0 else align - 1)"
    using Initialize_sorts [of "of_nat start" psize align n sizes] init b(2)
    by (auto simp: min_absorb2 split: if_splits)
  have s: "unat (of_nat start :: size_t) = start" using b(3) by (simp add: unat_of_nat take_bit_nat_eq_self)
  then have max: "unat (PoolMaxOffset p) = start + unat psize"
    using b(3) I(5) by (simp add: add.commute) (subst unat_add_lem [THEN iffD1]; simp)
  have "set (bucket_sizes p (unat n)) = set (take (unat n) sizes)" using I(2) by (metis set_mset_mset)
  then have sz: "BlockSize (Buckets p i) \<in> set (take (unat n) sizes)" if "i < unat n" for i
    using that by (auto simp: bucket_sizes_def)
  have "0 < bsize p i \<and> bsize p i < 2 ^ 62" if "i < unat n" for i
  proof -
    have "BlockSize (Buckets p i) \<in> set sizes" using sz [OF that] by (rule in_set_takeD)
    then have "unat (BlockSize (Buckets p i)) < 2 ^ 62" using b(5) by (simp add: list_all_iff)
    moreover have "BlockSize (Buckets p i) \<noteq> 0" using sz [OF that] I(1) by metis
    ultimately show ?thesis by (simp add: bsize_def unat_gt_0)
  qed
  moreover have "unat (AlignMask p) < 2 ^ 32"
  proof (cases "align \<le> 1")
    case False
    then have "unat (align - 1) = unat align - 1" by (simp add: unat_sub word_le_nat_alt)
    then show ?thesis using I(6) b(4) False by simp
  qed (use I(6) in simp)
  ultimately have "pool_static p"
    using b(1,3) I(3,4) max s by (simp add: pool_static_def word_le_nat_alt)
  moreover have "FirstOffset (Buckets p i) = 0 \<and> ReleaseCount (Buckets p i) = 0 \<and>
      RecycleCount (Buckets p i) = 0 \<and> AllocationCount (Buckets p i) = 0" for i
    using init by (auto simp: CFE_ES_GenPoolInitialize_def Let_def split: if_splits option.splits)
  ultimately show ?thesis using I(4) s by (simp add: pool_inv_def layout_ok_def free_ok_def)
qed

lemma pool_reach_inv:
  assumes "pool_reach base start p m H G"
  shows "\<exists>bs fl. pool_inv (mdesc base) start p m bs fl \<and> live (mdesc base) p m bs = H \<and> fst ` set bs = G"
  using assms
proof induction
  case (reach_init psize align n sizes p m)
  then show ?case
    using Initialize_inv [where desc = "mdesc base" and m = m] by (intro exI [of _ "[]"] exI [of _ "\<lambda>_. []"]) (simp add: live_def)
next
  case (reach_get p m H G req p' m' x)
  then obtain bs fl where inv: "pool_inv (mdesc base) start p m bs fl" "live (mdesc base) p m bs = H" "fst ` set bs = G"
    by blast
  show ?case
  proof (rule direct.GetBlock_spec [OF inv(1), of req])
    fix p2 m2 y bs' fl'
    assume get: "CFE_ES_GenPoolGetBlock (direct_storage base) p m req = (CFE_SUCCESS, p2, m2, Some (of_nat y))"
      and inv': "pool_inv (mdesc base) start p2 m2 bs' fl'" "y \<in> fst ` set bs'" "fst ` set bs' = insert y (fst ` set bs)"
      "live (mdesc base) p2 m2 bs' = insert (y, unat req) (live (mdesc base) p m bs)"
    obtain i where "(y, i) \<in> set bs'" using inv'(2) by force
    then have "unat (of_nat y :: size_t) = y" using inv_blockD(1,2) [OF inv'(1)] by (intro unat_offset(1)) fastforce+
    then show ?thesis using get inv' inv reach_get(2) by auto
  next
    assume "CFE_ES_GenPoolGetBlock (direct_storage base) p m req = (CFE_ES_ERR_MEM_BLOCK_SIZE, p, m, None)"
    then show ?thesis using reach_get(2) by simp
  qed
next
  case (reach_get_failed p m H G req status p' m' r)
  then obtain bs fl where inv: "pool_inv (mdesc base) start p m bs fl" "live (mdesc base) p m bs = H" "fst ` set bs = G"
    by blast
  then show ?case
    using direct.GetBlock_spec [OF inv(1), of req] reach_get_failed(2,3) by (metis Pair_inject)
next
  case (reach_put p m H G x status p' m' r)
  then obtain bs fl where inv: "pool_inv (mdesc base) start p m bs fl" "live (mdesc base) p m bs = H" "fst ` set bs = G"
    by blast
  obtain i where b: "(unat x, i) \<in> set bs" using inv(3) reach_put(2) by force
  have lay: "layout_ok start p bs" using inv(1) by (simp add: pool_inv_def)
  have x: "of_nat (unat x) = x" by simp
  show ?case
  proof (cases "is_free (mdesc base) p m (unat x) i \<or> ActualSize (dsc (mdesc base) m (unat x)) = 0")
    case True
    obtain m2 where "CFE_ES_GenPoolPutBlock (direct_storage base) p m x =
        (CFE_ES_POOL_BLOCK_INVALID, p\<lparr>ValidationErrorCount := ValidationErrorCount p + 1\<rparr>, m2, None)"
      "mdesc base m2 = mdesc base m"
      using direct.PutBlock_rejected [OF inv(1) b True] x by metis
    then show ?thesis
      using reach_put(3) inv direct.inv_same_desc [where m' = m2 and m = m and base = base]
        direct.live_same_desc [where m' = m2 and m = m and base = base]
        direct.inv_error_count [where base = base] by auto
  next
    case False
    then obtain p2 m2 where "CFE_ES_GenPoolPutBlock (direct_storage base) p m x =
        (CFE_SUCCESS, p2, m2, Some (ActualSize (dsc (mdesc base) m (unat x))))"
      "pool_inv (mdesc base) start p2 m2 bs (fl(i := unat x # fl i))"
      "live (mdesc base) p2 m2 bs = live (mdesc base) p m bs - {(unat x, unat (ActualSize (dsc (mdesc base) m (unat x))))}"
      using direct.PutBlock_live [OF inv(1) b] x by metis
    moreover have "live (mdesc base) p m bs - {(unat x, unat (ActualSize (dsc (mdesc base) m (unat x))))} =
        {h \<in> live (mdesc base) p m bs. fst h \<noteq> unat x}"
      by (auto simp: live_def)
    ultimately show ?thesis using reach_put(3) inv by auto
  qed
next
  case (reach_write p m H G x s a v)
  then obtain bs fl where inv: "pool_inv (mdesc base) start p m bs fl" "live (mdesc base) p m bs = H" "fst ` set bs = G"
    by blast
  obtain i where b: "(x, i) \<in> set bs" "s = unat (ActualSize (dsc (mdesc base) m x))"
    using inv(2) reach_write(2) by (auto simp: live_def)
  have "s \<le> bsize p i" using inv_blockD(5) [OF inv(1) b(1)] b(2) by (simp add: desc_ok_def)
  then have a: "unat a < x + bsize p i" using reach_write(4) by simp
  have "pool_inv (mdesc base) start p (poke_memory base m a v) bs fl"
    "live (mdesc base) p (poke_memory base m a v) bs = H"
    using direct.poke_ok [OF inv(1) b(1) reach_write(3) a] inv(2) by simp_all
  then show ?case using inv(3) by blast
qed

section \<open>What the clients of a pool rely on\<close>

lemma live_block:
  assumes "layout_ok start p bs" "(x, i) \<in> set bs"
  shows "(x, n) \<in> live desc p m bs \<longleftrightarrow> \<not> is_free desc p m x i \<and> n = unat (ActualSize (dsc desc m x))"
proof -
  have "(x, j) \<in> set bs \<longleftrightarrow> j = i" for j using layout_same [OF assms] assms(2) by metis
  then show ?thesis by (auto simp: live_def)
qed

text \<open>C24. In every reachable state of a memory-mapped pool, every block a client holds starts at an aligned offset and
  lies inside the pool, behind its 24-byte descriptor, and the blocks and descriptors of any two held blocks do not
  overlap: no byte is given out twice, and no client write inside its block reaches a descriptor.  The pools are those
  whose end and block sizes are below \<open>2 ^ 62\<close>.\<close>

theorem held_blocks_disjoint:
  assumes "pool_reach base start p m H G" "(x, s) \<in> H" "(y, t) \<in> H"
  shows "start + 24 \<le> x \<and> x + s \<le> unat (PoolMaxOffset p) \<and> of_nat x AND AlignMask p = 0 \<and>
    ((x, s) = (y, t) \<or> y + t + 24 \<le> x \<or> x + s + 24 \<le> y)"
proof -
  obtain bs fl where inv: "pool_inv (mdesc base) start p m bs fl" "live (mdesc base) p m bs = H"
    using pool_reach_inv [OF assms(1)] by blast
  obtain i where x: "(x, i) \<in> set bs" "s = unat (ActualSize (dsc (mdesc base) m x))"
    using inv(2) assms(2) by (auto simp: live_def)
  obtain j where y: "(y, j) \<in> set bs" "t = unat (ActualSize (dsc (mdesc base) m y))"
    using inv(2) assms(3) by (auto simp: live_def)
  have lay: "layout_ok start p bs" and st: "pool_static p" using inv(1) by (simp_all add: pool_inv_def)
  have "s \<le> bsize p i" "t \<le> bsize p j"
    using inv_blockD(5) [OF inv(1) x(1)] inv_blockD(5) [OF inv(1) y(1)] x(2) y(2) by (simp_all add: desc_ok_def)
  moreover note layoutD [OF lay x(1)]
  moreover have "(x, s) = (y, t) \<or> y + bsize p j + 24 \<le> x \<or> x + bsize p i + 24 \<le> y"
    using layout_apart [OF lay x(1) y(1)] x(2) y(2) by auto
  moreover have "unat (TailPosition p) \<le> unat (PoolMaxOffset p)" using st by (simp add: pool_static_def word_le_nat_alt)
  ultimately show ?thesis by (intro conjI; linarith)
qed

text \<open>C25. In every reachable state of a pool whose end and block sizes are below \<open>2 ^ 62\<close>,
  \<^verbatim>\<open>CFE_ES_GenPoolGetBlock\<close> either gives a block that nobody holds, or
  returns \<^verbatim>\<open>CFE_ES_ERR_MEM_BLOCK_SIZE\<close> with the pool and its memory unchanged, and then no bucket fits the
  request or the space behind the tail is too small for a block of that bucket.\<close>

theorem GetBlock_fresh:
  assumes "pool_reach base start p m H G"
  shows "case CFE_ES_GenPoolGetBlock (direct_storage base) p m req of (st, p', m', r) \<Rightarrow>
    (st = CFE_SUCCESS \<and> (\<exists>x. r = Some x \<and> unat x \<notin> fst ` H)) \<or>
    (st = CFE_ES_ERR_MEM_BLOCK_SIZE \<and> p' = p \<and> m' = m \<and> r = None \<and>
     (case CFE_ES_GenPoolGetBucketState p (CFE_ES_GenPoolFindBucket p req) of
        None \<Rightarrow> CFE_ES_GenPoolFindBucket p req = 0
      | Some i \<Rightarrow> next_block_offset p + BlockSize (Buckets p i) > PoolMaxOffset p))"
proof -
  obtain bs fl where inv: "pool_inv (mdesc base) start p m bs fl" "live (mdesc base) p m bs = H"
    using pool_reach_inv [OF assms(1)] by blast
  show ?thesis
  proof (rule direct.GetBlock_spec [OF inv(1), of req])
    fix p2 m2 y bs' fl'
    assume get: "CFE_ES_GenPoolGetBlock (direct_storage base) p m req = (CFE_SUCCESS, p2, m2, Some (of_nat y))"
      and inv': "pool_inv (mdesc base) start p2 m2 bs' fl'" "y \<in> fst ` set bs'" "y \<notin> fst ` live (mdesc base) p m bs"
    obtain i where "(y, i) \<in> set bs'" using inv'(2) by force
    then have "unat (of_nat y :: size_t) = y" using inv_blockD(1,2) [OF inv'(1)] by (intro unat_offset(1)) fastforce+
    then show ?thesis using get inv'(3) inv(2) by simp
  next
    assume "CFE_ES_GenPoolGetBlock (direct_storage base) p m req = (CFE_ES_ERR_MEM_BLOCK_SIZE, p, m, None)"
      "CFE_ES_GenPoolFindBucket p req = 0 \<or>
       (\<exists>i. CFE_ES_GenPoolGetBucketState p (CFE_ES_GenPoolFindBucket p req) = Some i \<and>
            next_block_offset p + BlockSize (Buckets p i) > PoolMaxOffset p)"
    then show ?thesis by (auto simp: CFE_ES_GenPoolGetBucketState_def Let_def)
  qed
qed

text \<open>C26. For a block that a pool with end and block sizes below \<open>2 ^ 62\<close> once gave out, \<^verbatim>\<open>CFE_ES_GenPoolPutBlock\<close> succeeds with the size requested for it
  exactly when it is held with a nonzero size; a block returned twice, or one obtained with a request of
  size 0, is rejected as invalid, and only the error counter changes.\<close>

theorem PutBlock_given:
  assumes "pool_reach base start p m H G" "unat x \<in> G"
  shows "case CFE_ES_GenPoolPutBlock (direct_storage base) p m x of (st, p', m', r) \<Rightarrow>
    (st = CFE_SUCCESS \<and> (\<exists>n. r = Some n \<and> 0 < n \<and> (unat x, unat n) \<in> H)) \<or>
    (st = CFE_ES_POOL_BLOCK_INVALID \<and> r = None \<and> p' = p\<lparr>ValidationErrorCount := ValidationErrorCount p + 1\<rparr> \<and>
     (\<forall>n. (unat x, n) \<in> H \<longrightarrow> n = 0))"
proof -
  obtain bs fl where inv: "pool_inv (mdesc base) start p m bs fl" "live (mdesc base) p m bs = H" "fst ` set bs = G"
    using pool_reach_inv [OF assms(1)] by blast
  obtain i where b: "(unat x, i) \<in> set bs" using inv(3) assms(2) by force
  have lay: "layout_ok start p bs" using inv(1) by (simp add: pool_inv_def)
  have x: "of_nat (unat x) = x" by simp
  let ?a = "ActualSize (dsc (mdesc base) m (unat x))"
  have H: "(unat x, n) \<in> H \<longleftrightarrow> \<not> is_free (mdesc base) p m (unat x) i \<and> n = unat ?a" for n
    using live_block [OF lay b] inv(2) by metis
  show ?thesis
  proof (cases "is_free (mdesc base) p m (unat x) i \<or> ?a = 0")
    case True
    obtain m2 where "CFE_ES_GenPoolPutBlock (direct_storage base) p m x =
        (CFE_ES_POOL_BLOCK_INVALID, p\<lparr>ValidationErrorCount := ValidationErrorCount p + 1\<rparr>, m2, None)"
      using direct.PutBlock_rejected [OF inv(1) b True] unfolding x by blast
    then show ?thesis using H True by (auto simp del: fun_upd_apply)
  next
    case False
    have used: "\<not> is_free (mdesc base) p m (unat x) i" "?a \<noteq> 0" using False by simp_all
    obtain p2 m2 where "CFE_ES_GenPoolPutBlock (direct_storage base) p m x = (CFE_SUCCESS, p2, m2, Some ?a)"
      using direct.PutBlock_live [OF inv(1) b used] unfolding x by blast
    then show ?thesis using H used by (simp add: word_gt_0)
  qed
qed

section \<open>The rebuild ends\<close>

lemma scanned_bucket_bound: "scanned_bucket p Bd = Some (i, d) \<Longrightarrow> i < unat (NumBuckets p)"
  by (auto simp: scanned_bucket_def dest: GetBucketState_cases(1) split: if_splits option.splits)

lemma rebuild_loop_ends:
  assumes "unat (PoolMaxOffset p) < 2 ^ 62" "unat (AlignMask p) < 2 ^ 32"
    "\<And>i. i < unat (NumBuckets p) \<Longrightarrow> unat (BlockSize (Buckets p i)) < 2 ^ 62" "unat (TailPosition p) < 2 ^ 63"
  shows "\<exists>status p' m'. rebuild_loop st p m s = Some (status, p', m')"
  using assms
proof (induction "unat (PoolMaxOffset p) - unat (TailPosition p)" arbitrary: p m s rule: less_induct)
  case less
  have t: "unat (TailPosition p) + 24 \<le> unat (next_block_offset p)"
  proof -
    have "unat (TailPosition p + 24) = unat (TailPosition p) + 24"
      using less.prems(4) by (subst unat_add_lem [THEN iffD1]) auto
    moreover from this have "unat (TailPosition p + 24 + AlignMask p) = unat (TailPosition p) + 24 + unat (AlignMask p)"
      using less.prems(2,4) by (subst unat_add_lem [THEN iffD1]) auto
    ultimately show ?thesis
      using and_not_bounds(2) [of "TailPosition p + 24 + AlignMask p" "AlignMask p"] by (simp add: next_block_offset_def)
  qed
  have step: "\<exists>status q m''. rebuild_loop st p' m' s' = Some (status, q, m'')"
    if "next_block_offset p \<le> PoolMaxOffset p" "TailPosition p' = next_block_offset p + BlockSize (Buckets p i)"
      "PoolMaxOffset p' = PoolMaxOffset p" "AlignMask p' = AlignMask p" "NumBuckets p' = NumBuckets p"
      "i < unat (NumBuckets p)"
      "\<And>j. BlockSize (Buckets p' j) = BlockSize (Buckets p j)" for p' m' s' i
  proof (rule less.hyps)
    have n: "unat (next_block_offset p) \<le> unat (PoolMaxOffset p)" using that(1) by (simp add: word_le_nat_alt)
    then have u: "unat (TailPosition p') = unat (next_block_offset p) + unat (BlockSize (Buckets p i))"
      using less.prems(1) less.prems(3) [OF that(6)] by (simp add: that(2)) (subst unat_add_lem [THEN iffD1]; simp)
    then show "unat (PoolMaxOffset p') - unat (TailPosition p') < unat (PoolMaxOffset p) - unat (TailPosition p)"
      "unat (TailPosition p') < 2 ^ 63"
      using n t less.prems(1) less.prems(3) [OF that(6)] that(3) by simp_all
  qed (use that less.prems in simp_all)
  have b: "BlockSize (Buckets (set_bucket f k q) j) = BlockSize (Buckets q j)"
    if "\<And>c. BlockSize (f c) = BlockSize c" for f k q j
    using that by (simp add: set_bucket_def)
  show ?case
    by (subst rebuild_loop.simps)
      (auto simp: Let_def not_less b split: prod.splits option.splits intro!: step dest: scanned_bucket_bound)
qed

text \<open>C27. \<^verbatim>\<open>CFE_ES_GenPoolRebuild\<close> of a pool just initialised returns for every storage, whatever its retrieve and
  commit functions answer and whatever the memory holds, if the end of the pool and the block sizes are below \<open>2 ^ 62\<close>
  and the alignment below \<open>2 ^ 32\<close>.  \<^verbatim>\<open>CFE_ES_GenPoolInitialize\<close> does not check the sizes, and a size that makes
  offsets wrap can keep the rebuild from returning (lemma \<open>Rebuild_diverges\<close>).\<close>

theorem Rebuild_terminates:
  assumes "CFE_ES_GenPoolInitialize (of_nat start) psize align n sizes = Some (CFE_SUCCESS, p)"
    "unat n \<le> 17" "unat n \<le> length sizes" "start + unat psize < 2 ^ 62" "unat align < 2 ^ 32"
    "list_all (\<lambda>s. unat s < 2 ^ 62) sizes"
  shows "\<exists>status p' m'. CFE_ES_GenPoolRebuild st p m = Some (status, p', m')"
proof -
  have "pool_static p"
    using Initialize_inv [OF assms, where desc = "\<lambda>(m :: unit) _. load_desc (\<lambda>_. 0) 0"] by (simp add: pool_inv_def)
  then show ?thesis unfolding CFE_ES_GenPoolRebuild_def
    by (intro rebuild_loop_ends) (auto simp: pool_static_def bsize_def word_le_nat_alt)
qed

theorem Rebuild_terminates_witness:
  "\<exists>status p' m'. CFE_ES_GenPoolRebuild (direct_storage 0) demo_pool (\<lambda>_. 0) = Some (status, p', m')"
  using Rebuild_terminates [of 0 128 8 2 "[32, 16]" demo_pool "direct_storage 0" "\<lambda>_. 0"] demo_init by simp

text \<open>A bucket that takes the tail back to where it was: the scan meets the same descriptor again and again.\<close>

definition wrapping_pool :: "CFE_ES_GenPoolRecord_t \<Rightarrow> bool" where
  "wrapping_pool p \<longleftrightarrow> TailPosition p = 0 \<and> AlignMask p = 0 \<and> 24 \<le> PoolMaxOffset p \<and> NumBuckets p = 1
     \<and> BlockSize (Buckets p 0) = - 24"

definition allocated_memory :: memory where
  "allocated_memory = (\<lambda>_. 0)(0 := 0x5a, 1 := 0x5a, 2 := 0xab, 3 := 0xaa)"

lemma allocated_descriptor:
  "load_desc allocated_memory 0 = \<lparr>CheckBits = 0x5a5a, Allocated = 0xaaab, ActualSize = 0, NextOffset = 0\<rparr>"
  by code_simp

lemma rebuild_never_ends:
  assumes "rebuild_loop (direct_storage 0) p allocated_memory s = Some r" "wrapping_pool p"
  shows False
proof -
  have "st = direct_storage 0 \<longrightarrow> m = allocated_memory \<longrightarrow> \<not> wrapping_pool p" if "rebuild_loop st p m s = Some r" for st p m s r
  proof (rule rebuild_loop.raw_induct [OF _ that])
    fix rec :: "memory storage \<Rightarrow> CFE_ES_GenPoolRecord_t \<Rightarrow> memory \<Rightarrow> CFE_Status_t
        \<Rightarrow> (CFE_Status_t \<times> CFE_ES_GenPoolRecord_t \<times> memory) option" and st p m s r
    assume IH: "\<And>st p m s r. rec st p m s = Some r \<Longrightarrow> st = direct_storage 0 \<longrightarrow> m = allocated_memory \<longrightarrow> \<not> wrapping_pool p"
    assume body: "(let BlockOffset = next_block_offset p in
      if BlockOffset > PoolMaxOffset p then Some (s, p, m)
      else
        let DescOffset = BlockOffset - CFE_ES_GENERIC_POOL_DESCRIPTOR_SIZE in
        case Retrieve st m DescOffset of (Status, m, Bd) \<Rightarrow>
        if Status \<noteq> CFE_SUCCESS then Some (Status, p, m)
        else case scanned_bucket p Bd of
               None \<Rightarrow> Some (Status, p, m)
             | Some (i, IsDeallocatedBlock) \<Rightarrow>
                 if BlockSize (Buckets p i) < ActualSize Bd then Some (Status, p, m)
                 else
                   let p = (set_bucket (\<lambda>b. b\<lparr>AllocationCount := AllocationCount b + 1\<rparr>) i p)
                             \<lparr>TailPosition := BlockOffset + BlockSize (Buckets p i),
                              PoolAllocationCount := PoolAllocationCount p + 1\<rparr>
                   in if IsDeallocatedBlock
                      then let Bd = Bd\<lparr>NextOffset := FirstOffset (Buckets p i)\<rparr>;
                               p = set_bucket (\<lambda>b. b\<lparr>ReleaseCount := ReleaseCount b + 1,
                                                     FirstOffset := BlockOffset\<rparr>) i p
                           in case Commit st m DescOffset Bd of (Status, m) \<Rightarrow>
                              if Status \<noteq> CFE_SUCCESS then Some (Status, p, m)
                              else rec st p m Status
                      else rec st p m Status) = Some r"
    show "st = direct_storage 0 \<longrightarrow> m = allocated_memory \<longrightarrow> \<not> wrapping_pool p"
    proof (intro impI notI)
      assume st: "st = direct_storage 0" "m = allocated_memory" and w: "wrapping_pool p"
      have n: "next_block_offset p = 24" using w by (simp add: wrapping_pool_def next_block_offset_def)
      have b: "scanned_bucket p (load_desc allocated_memory 0) = Some (0, False)"
        using w by (simp add: allocated_descriptor scanned_bucket_def CFE_ES_GenPoolGetBucketState_def wrapping_pool_def Let_def)
      let ?p = "(set_bucket (\<lambda>b. b\<lparr>AllocationCount := AllocationCount b + 1\<rparr>) 0 p)
                             \<lparr>TailPosition := 0, PoolAllocationCount := PoolAllocationCount p + 1\<rparr>"
      have "rec (direct_storage 0) ?p allocated_memory CFE_SUCCESS = Some r"
        using body w n b unfolding st
        by (simp add: direct_storage_def CFE_ES_MemPoolDirectRetrieve_def wrapping_pool_def Let_def allocated_descriptor not_less [symmetric])
      moreover have "wrapping_pool ?p" using w by (simp add: wrapping_pool_def set_bucket_def)
      ultimately show False using IH by blast
    qed
  qed
  then show ?thesis using assms by blast
qed

text \<open>\<^verbatim>\<open>CFE_ES_GenPoolInitialize\<close> accepts such a block size, and the rebuild of that pool does not return.\<close>

lemma Rebuild_diverges:
  "\<exists>p. CFE_ES_GenPoolInitialize 0 64 1 1 [- 24] = Some (CFE_SUCCESS, p)
     \<and> CFE_ES_GenPoolRebuild (direct_storage 0) p allocated_memory = None"
proof -
  let ?p = "zero_pool\<lparr>PoolTotalSize := 64, PoolMaxOffset := 64, NumBuckets := 1, Buckets := \<lambda>i. if i < 1 then zero_bucket\<lparr>BlockSize := - 24\<rparr> else zero_bucket\<rparr>"
  have i: "CFE_ES_GenPoolInitialize 0 64 1 1 [- 24] = Some (CFE_SUCCESS, ?p)"
    by (simp add: CFE_ES_GenPoolInitialize_def bubble_sort.simps zero_pool_def Let_def fun_eq_iff)
  have "wrapping_pool ?p" by (simp add: wrapping_pool_def zero_pool_def)
  then have "CFE_ES_GenPoolRebuild (direct_storage 0) ?p allocated_memory = None"
    using rebuild_never_ends [of ?p] by (cases "CFE_ES_GenPoolRebuild (direct_storage 0) ?p allocated_memory") (auto simp: CFE_ES_GenPoolRebuild_def)
  then show ?thesis using i by blast
qed

section \<open>A pool in use\<close>

lemma find_two:
  "find_bucket_index bs r 2 0 = (if r \<le> BlockSize (bs 0) then 0 else if r \<le> BlockSize (bs 1) then 1 else 2)"
  by (simp add: numeral_2_eq_2)

lemmas demo_eval = CFE_ES_GenPoolGetBlock_def CFE_ES_GenPoolFindBucket_def CFE_ES_GenPoolRecyclePoolBlock_def
  CFE_ES_GenPoolCreatePoolBlock_def CFE_ES_GenPoolGetBucketState_def demo_pool_def zero_pool_def set_bucket_def
  next_block_offset_def direct_storage_def CFE_ES_MemPoolDirectRetrieve_def CFE_ES_MemPoolDirectCommit_def Let_def
  find_two not_le_one

lemma demo_get:
  obtains p m where "pool_reach 0 0 p m {(80, 10), (24, 20)} {80, 24}"
proof -
  have r0: "pool_reach 0 0 demo_pool (\<lambda>_. 0) {} {}"
    by (rule reach_init [where psize = 128 and align = 8 and n = 2 and sizes = "[32, 16]"]) (simp_all add: demo_init)
  let ?p1 = "(set_bucket (\<lambda>b. b\<lparr>AllocationCount := 1\<rparr>) 1 demo_pool)\<lparr>TailPosition := 56, PoolAllocationCount := 1\<rparr>"
  have "\<exists>m. CFE_ES_GenPoolGetBlock (direct_storage 0) demo_pool (\<lambda>_. 0) 20 = (CFE_SUCCESS, ?p1, m, Some 24)"
    by (simp add: demo_eval)
  then obtain m1 where g1: "CFE_ES_GenPoolGetBlock (direct_storage 0) demo_pool (\<lambda>_. 0) 20 = (CFE_SUCCESS, ?p1, m1, Some 24)"
    by blast
  have r1: "pool_reach 0 0 ?p1 m1 {(24, 20)} {24}" using reach_get [OF r0 g1] by simp
  have "\<exists>p m. CFE_ES_GenPoolGetBlock (direct_storage 0) ?p1 m1 10 = (CFE_SUCCESS, p, m, Some 80)"
    by (simp add: demo_eval)
  then obtain p2 m2 where g2: "CFE_ES_GenPoolGetBlock (direct_storage 0) ?p1 m1 10 = (CFE_SUCCESS, p2, m2, Some 80)"
    by blast
  show thesis using that reach_get [OF r1 g2] by simp
qed

theorem held_blocks_disjoint_witness:
  "\<exists>p m. pool_reach 0 0 p m {(80, 10), (24, 20)} {80, 24} \<and> 80 + 10 \<le> unat (PoolMaxOffset p) \<and>
     (24 + 20 + 24 \<le> (80 :: nat) \<or> 80 + 10 + 24 \<le> (24 :: nat))"
proof -
  obtain p m where r: "pool_reach 0 0 p m {(80, 10), (24, 20)} {80, 24}" by (rule demo_get)
  show ?thesis
    using r held_blocks_disjoint [OF r, of 80 10 24 20] by force
qed

theorem GetBlock_fresh_witness:
  "\<exists>p m. pool_reach 0 0 p m {(80, 10), (24, 20)} {80, 24} \<and>
     (case CFE_ES_GenPoolGetBlock (direct_storage 0) p m 4 of (st, p', m', r) \<Rightarrow>
        \<forall>x. st = CFE_SUCCESS \<and> r = Some x \<longrightarrow> unat x \<notin> {80, 24})"
proof -
  obtain p m where r: "pool_reach 0 0 p m {(80, 10), (24, 20)} {80, 24}" by (rule demo_get)
  show ?thesis
    using r GetBlock_fresh [OF r, of 4] by (intro exI [of _ p] exI [of _ m]) (auto split: prod.splits)
qed

theorem PutBlock_given_witness:
  "\<exists>p m. pool_reach 0 0 p m {(80, 10), (24, 20)} {80, 24} \<and>
     (case CFE_ES_GenPoolPutBlock (direct_storage 0) p m 80 of (st, p', m', r) \<Rightarrow> st = CFE_SUCCESS \<and> r = Some 10)"
proof -
  obtain p m where r: "pool_reach 0 0 p m {(80, 10), (24, 20)} {80, 24}" by (rule demo_get)
  show ?thesis
    using r PutBlock_given [OF r, of 80] by (intro exI [of _ p] exI [of _ m]) (auto simp: word_unat_eq_iff split: prod.splits)
qed

end
