(* ===== verification/CFS_TimeMath.thy ===== *)
theory CFS_TimeMath
  imports CFS_Prelude
begin

text \<open>
  Time arithmetic: \<^verbatim>\<open>CFE_TIME_Add\<close>, \<^verbatim>\<open>CFE_TIME_Subtract\<close>, \<^verbatim>\<open>CFE_TIME_Compare\<close>, the subsecond
  conversions and \<^verbatim>\<open>CFE_TIME_Print\<close> of \<^verbatim>\<open>cfe_time_api.c\<close>, over the clock conversions of
  \<^verbatim>\<open>osapi-clock.h\<close>.  \<open>ticks64\<close> reads a system time as the 64-bit count of \<open>2\<^sup>-\<^sup>3\<^sup>2\<close>-second units that its
  two words are; the operations are related to the arithmetic of that count.
\<close>

section \<open>System times\<close>

datatype CFE_TIME_Compare_t = CFE_TIME_A_LT_B | CFE_TIME_EQUAL | CFE_TIME_A_GT_B

abbreviation (input) CFE_TIME_NEGATIVE :: uint32 where "CFE_TIME_NEGATIVE \<equiv> 0x80000000"

definition CFE_TIME_Add :: "CFE_TIME_SysTime_t \<Rightarrow> CFE_TIME_SysTime_t \<Rightarrow> CFE_TIME_SysTime_t" where
  "CFE_TIME_Add Time1 Time2 =
     (let subs = Subseconds Time1 + Subseconds Time2
      in \<lparr>Seconds = (if subs < Subseconds Time1 then (Seconds Time1 + Seconds Time2) + 1
                     else Seconds Time1 + Seconds Time2),
          Subseconds = subs\<rparr>)"

definition CFE_TIME_Subtract :: "CFE_TIME_SysTime_t \<Rightarrow> CFE_TIME_SysTime_t \<Rightarrow> CFE_TIME_SysTime_t" where
  "CFE_TIME_Subtract Time1 Time2 =
     (let subs = Subseconds Time1 - Subseconds Time2
      in \<lparr>Seconds = (if subs > Subseconds Time1 then (Seconds Time1 - Seconds Time2) - 1
                     else Seconds Time1 - Seconds Time2),
          Subseconds = subs\<rparr>)"

definition CFE_TIME_Compare :: "CFE_TIME_SysTime_t \<Rightarrow> CFE_TIME_SysTime_t \<Rightarrow> CFE_TIME_Compare_t" where
  "CFE_TIME_Compare TimeA TimeB =
     (if Seconds TimeA > Seconds TimeB
      then if Seconds TimeA - Seconds TimeB > CFE_TIME_NEGATIVE then CFE_TIME_A_LT_B else CFE_TIME_A_GT_B
      else if Seconds TimeA < Seconds TimeB
      then if Seconds TimeB - Seconds TimeA > CFE_TIME_NEGATIVE then CFE_TIME_A_GT_B else CFE_TIME_A_LT_B
      else if Subseconds TimeA > Subseconds TimeB then CFE_TIME_A_GT_B
      else if Subseconds TimeA < Subseconds TimeB then CFE_TIME_A_LT_B
      else CFE_TIME_EQUAL)"

section \<open>Local clock times\<close>

text \<open>\<^verbatim>\<open>OS_time_t\<close> is a signed 64-bit count of 100 ns ticks.  It is an \<open>int\<close> here, with the truncating
  division of C: none of the conversions below leaves the 64-bit range on its arguments.\<close>

type_synonym OS_time_t = int

abbreviation (input) OS_TIME_TICKS_PER_SECOND :: int where "OS_TIME_TICKS_PER_SECOND \<equiv> 10000000"
abbreviation (input) OS_TIME_TICK_RESOLUTION_NS :: uint32 where "OS_TIME_TICK_RESOLUTION_NS \<equiv> 100"
abbreviation (input) OS_TIME_TICKS_PER_USEC :: uint32 where "OS_TIME_TICKS_PER_USEC \<equiv> 10"

definition OS_TimeGetTotalSeconds :: "OS_time_t \<Rightarrow> int" where
  "OS_TimeGetTotalSeconds tm = tm sdiv OS_TIME_TICKS_PER_SECOND"

definition OS_TimeGetFractionalPart :: "OS_time_t \<Rightarrow> int" where
  "OS_TimeGetFractionalPart tm = tm smod OS_TIME_TICKS_PER_SECOND"

definition OS_TimeGetSubsecondsPart :: "OS_time_t \<Rightarrow> uint32" where
  "OS_TimeGetSubsecondsPart tm =
     (let frac = push_bit 30 (OS_TimeGetFractionalPart tm) + drop_bit 2 OS_TIME_TICKS_PER_SECOND
      in word_of_int ((frac - 1) sdiv drop_bit 2 OS_TIME_TICKS_PER_SECOND))"

definition OS_TimeGetMicrosecondsPart :: "OS_time_t \<Rightarrow> uint32" where
  "OS_TimeGetMicrosecondsPart tm = word_of_int (OS_TimeGetFractionalPart tm) div OS_TIME_TICKS_PER_USEC"

definition OS_TimeAssembleFromNanoseconds :: "int \<Rightarrow> uint32 \<Rightarrow> OS_time_t" where
  "OS_TimeAssembleFromNanoseconds seconds nanoseconds =
     seconds * OS_TIME_TICKS_PER_SECOND + uint (nanoseconds div OS_TIME_TICK_RESOLUTION_NS)"

definition OS_TimeAssembleFromSubseconds :: "int \<Rightarrow> uint32 \<Rightarrow> OS_time_t" where
  "OS_TimeAssembleFromSubseconds seconds subseconds =
     seconds * OS_TIME_TICKS_PER_SECOND + drop_bit 30 (uint subseconds * drop_bit 2 OS_TIME_TICKS_PER_SECOND)"

definition CFE_TIME_Sub2MicroSecs :: "uint32 \<Rightarrow> uint32" where
  "CFE_TIME_Sub2MicroSecs SubSeconds = OS_TimeGetMicrosecondsPart (OS_TimeAssembleFromSubseconds 0 SubSeconds)"

definition CFE_TIME_Micro2SubSecs :: "uint32 \<Rightarrow> uint32" where
  "CFE_TIME_Micro2SubSecs MicroSeconds =
     (if MicroSeconds > 999999 then 0xFFFFFFFF
      else OS_TimeGetSubsecondsPart (OS_TimeAssembleFromNanoseconds 0 (MicroSeconds * 1000)))"

section \<open>Printing\<close>

record time_epoch =
  EPOCH_YEAR :: uint32
  EPOCH_DAY :: uint32
  EPOCH_HOUR :: uint32
  EPOCH_MINUTE :: uint32
  EPOCH_SECOND :: uint32
  EPOCH_MICROS :: uint32

text \<open>The epoch of the default mission configuration.\<close>

definition default_epoch :: time_epoch where
  "default_epoch = \<lparr>EPOCH_YEAR = 1980, EPOCH_DAY = 1, EPOCH_HOUR = 0, EPOCH_MINUTE = 0,
                    EPOCH_SECOND = 0, EPOCH_MICROS = 0\<rparr>"

text \<open>The two loops of \<^verbatim>\<open>CFE_TIME_Print\<close>; \<open>None\<close> would be a loop that does not end.\<close>

partial_function (option) carry_minutes :: "uint32 \<Rightarrow> uint32 \<Rightarrow> (uint32 \<times> uint32) option" where
  "carry_minutes NumberOfMinutes NumberOfSeconds =
     (if NumberOfSeconds \<ge> 60 then carry_minutes (NumberOfMinutes + 1) (NumberOfSeconds - 60)
      else Some (NumberOfMinutes, NumberOfSeconds))"

definition days_in_year :: "uint32 \<Rightarrow> uint32" where
  "days_in_year NumberOfYears =
     (if NumberOfYears mod 4 = 0
      then if NumberOfYears mod 100 \<noteq> 0 then 366 else if NumberOfYears mod 400 = 0 then 366 else 365
      else 365)"

partial_function (option) count_years :: "uint32 \<Rightarrow> uint32 \<Rightarrow> (uint32 \<times> uint32) option" where
  "count_years NumberOfYears NumberOfDays =
     (let DaysInThisYear = days_in_year NumberOfYears
      in if NumberOfDays < DaysInThisYear then Some (NumberOfYears, NumberOfDays)
         else count_years (NumberOfYears + 1) (NumberOfDays - DaysInThisYear))"

definition digit :: "uint32 \<Rightarrow> char" where
  "digit n = char_of (48 + unat (ucast n :: uint8))"

definition format_time :: "uint32 \<Rightarrow> uint32 \<Rightarrow> uint32 \<Rightarrow> uint32 \<Rightarrow> uint32 \<Rightarrow> uint32 \<Rightarrow> string" where
  "format_time NumberOfYears NumberOfDays NumberOfHours NumberOfMinutes NumberOfSeconds NumberOfMicros =
     (let y = NumberOfYears mod 1000; d = NumberOfDays mod 100;
          u = NumberOfMicros mod 10000; v = u mod 1000; w = v mod 100
      in [digit (NumberOfYears div 1000), digit (y div 100), digit (y mod 100 div 10), digit (y mod 100 mod 10), CHR ''-'',
          digit (NumberOfDays div 100), digit (d div 10), digit (d mod 10), CHR ''-'',
          digit (NumberOfHours div 10), digit (NumberOfHours mod 10), CHR '':'',
          digit (NumberOfMinutes div 10), digit (NumberOfMinutes mod 10), CHR '':'',
          digit (NumberOfSeconds div 10), digit (NumberOfSeconds mod 10), CHR ''.'',
          digit (NumberOfMicros div 10000), digit (u div 1000), digit (v div 100), digit (w div 10), digit (w mod 10)])"

definition time_text :: "time_epoch \<Rightarrow> CFE_TIME_SysTime_t \<Rightarrow> string option" where
  "time_text ep TimeToPrint =
     (let NumberOfMicros = CFE_TIME_Sub2MicroSecs (Subseconds TimeToPrint) + EPOCH_MICROS ep;
          NumberOfMinutes = NumberOfMicros div 60000000 + Seconds TimeToPrint div 60 + EPOCH_MINUTE ep;
          NumberOfMicros = NumberOfMicros mod 60000000;
          NumberOfSeconds = NumberOfMicros div 1000000 + Seconds TimeToPrint mod 60 + EPOCH_SECOND ep;
          NumberOfMicros = NumberOfMicros mod 1000000
      in case carry_minutes NumberOfMinutes NumberOfSeconds of
           None \<Rightarrow> None
         | Some (NumberOfMinutes, NumberOfSeconds) \<Rightarrow>
             let NumberOfHours = NumberOfMinutes div 60 + EPOCH_HOUR ep;
                 NumberOfMinutes = NumberOfMinutes mod 60;
                 NumberOfDays = NumberOfHours div 24 + (EPOCH_DAY ep - 1);
                 NumberOfHours = NumberOfHours mod 24
             in case count_years (EPOCH_YEAR ep) NumberOfDays of
                  None \<Rightarrow> None
                | Some (NumberOfYears, NumberOfDays) \<Rightarrow>
                    Some (format_time NumberOfYears (NumberOfDays + 1) NumberOfHours NumberOfMinutes
                            NumberOfSeconds (NumberOfMicros div 10)))"

text \<open>The buffer is \<open>None\<close> for NULL; a buffer is overwritten by the text and its terminating null.\<close>

definition CFE_TIME_Print ::
    "time_epoch \<Rightarrow> string option \<Rightarrow> CFE_TIME_SysTime_t \<Rightarrow> string option option" where
  "CFE_TIME_Print ep PrintBuffer TimeToPrint =
     (case PrintBuffer of
        None \<Rightarrow> Some None
      | Some buf \<Rightarrow> map_option (\<lambda>t. Some (t @ CHR 0x00 # drop (length t + 1) buf)) (time_text ep TimeToPrint))"

section \<open>The 64-bit count of a system time\<close>

definition ticks64 :: "CFE_TIME_SysTime_t \<Rightarrow> 64 word" where
  "ticks64 t = word_of_int (uint (Seconds t) * 2 ^ 32 + uint (Subseconds t))"

lemma uint_ticks64: "uint (ticks64 t) = uint (Seconds t) * 2 ^ 32 + uint (Subseconds t)"
proof -
  have "uint (Seconds t) < 2 ^ 32" "uint (Subseconds t) < 2 ^ 32"
    using unsigned_less [of "Seconds t", where ?'a = int] unsigned_less [of "Subseconds t", where ?'a = int] by simp_all
  then show ?thesis
    unfolding ticks64_def uint_word_of_int by (intro mod_pos_pos_trivial) auto
qed

lemma uint32_bounds: "0 \<le> uint w" "uint w < 2 ^ 32" for w :: uint32
  using unsigned_less [of w, where ?'a = int] by simp_all

lemma ticks64_parts:
  "uint (ticks64 t) div 2 ^ 32 = uint (Seconds t)" "uint (ticks64 t) mod 2 ^ 32 = uint (Subseconds t)"
  using uint32_bounds [of "Subseconds t"] by (simp_all add: uint_ticks64)

lemma ticks64_inject: "ticks64 a = ticks64 b \<longleftrightarrow> a = b"
proof
  assume eq: "ticks64 a = ticks64 b"
  have "uint (Seconds a) = uint (Seconds b)" "uint (Subseconds a) = uint (Subseconds b)"
    using ticks64_parts [of a] ticks64_parts [of b] eq by simp_all
  then show "a = b" by (simp add: word_uint_eq_iff)
qed simp

lemma shift32_mod: "x mod 2 ^ 32 * 2 ^ 32 mod 2 ^ 64 = x * 2 ^ 32 mod (2 ^ 64 :: int)"
  using mult_mod_left [of x "2 ^ 32 :: int" "2 ^ 32"] by simp

text \<open>A time built from integers that may leave the 32-bit range.\<close>

lemma ticks64_of_int:
  "ticks64 \<lparr>Seconds = word_of_int x, Subseconds = word_of_int y\<rparr> = word_of_int (x * 2 ^ 32 + y mod 2 ^ 32)"
proof -
  have "(x mod 2 ^ 32 * 2 ^ 32 + y mod 2 ^ 32) mod 2 ^ 64 = (x * 2 ^ 32 + y mod 2 ^ 32) mod (2 ^ 64 :: int)"
    using shift32_mod [of x] by (metis mod_add_left_eq)
  then have "uint (ticks64 \<lparr>Seconds = word_of_int x, Subseconds = word_of_int y\<rparr>) = (x * 2 ^ 32 + y mod 2 ^ 32) mod 2 ^ 64"
    unfolding uint_ticks64 by (simp add: uint_word_of_int)
  then show ?thesis by (simp only: word_uint_eq_iff uint_word_of_int) simp
qed

lemma ticks64_add: "ticks64 (CFE_TIME_Add a b) = ticks64 a + ticks64 b"
proof -
  let ?s = "uint (Subseconds a) + uint (Subseconds b)" and ?S = "uint (Seconds a) + uint (Seconds b)"
  note bounds = uint32_bounds [of "Subseconds a"] uint32_bounds [of "Subseconds b"]
  have u: "uint (Subseconds a + Subseconds b) = (if ?s < 2 ^ 32 then ?s else ?s - 2 ^ 32)"
    by (simp add: uint_plus_if_size word_size)
  have c: "Subseconds a + Subseconds b < Subseconds a \<longleftrightarrow> \<not> ?s < 2 ^ 32"
    unfolding word_less_def u using bounds by auto
  have m: "?s mod 2 ^ 32 = ?s - (if ?s < 2 ^ 32 then 0 else 2 ^ 32)"
    using u by (simp add: uint_word_ariths)
  have "CFE_TIME_Add a b = \<lparr>Seconds = word_of_int (?S + (if ?s < 2 ^ 32 then 0 else 1)), Subseconds = word_of_int ?s\<rparr>"
    unfolding CFE_TIME_Add_def Let_def c by simp
  then have "ticks64 (CFE_TIME_Add a b) = word_of_int ((?S + (if ?s < 2 ^ 32 then 0 else 1)) * 2 ^ 32 + ?s mod 2 ^ 32)"
    by (simp only: ticks64_of_int)
  also have "(?S + (if ?s < 2 ^ 32 then 0 else 1)) * 2 ^ 32 + ?s mod 2 ^ 32 = ?S * 2 ^ 32 + ?s"
    unfolding m by simp
  also have "word_of_int \<dots> = ticks64 a + ticks64 b"
    unfolding ticks64_def wi_hom_add by (simp only: algebra_simps)
  finally show ?thesis .
qed

lemma ticks64_subtract: "ticks64 (CFE_TIME_Subtract a b) = ticks64 a - ticks64 b"
proof -
  let ?s = "uint (Subseconds a) - uint (Subseconds b)" and ?S = "uint (Seconds a) - uint (Seconds b)"
  note bounds = uint32_bounds [of "Subseconds a"] uint32_bounds [of "Subseconds b"]
  have u: "uint (Subseconds a - Subseconds b) = (if 0 \<le> ?s then ?s else ?s + 2 ^ 32)"
    by (simp add: uint_sub_if_size word_size)
  have c: "Subseconds a - Subseconds b > Subseconds a \<longleftrightarrow> \<not> 0 \<le> ?s"
    unfolding word_less_def u using bounds by auto
  have m: "?s mod 2 ^ 32 = ?s + (if 0 \<le> ?s then 0 else 2 ^ 32)"
    using u by (simp add: uint_word_ariths)
  have "CFE_TIME_Subtract a b = \<lparr>Seconds = word_of_int (?S - (if 0 \<le> ?s then 0 else 1)), Subseconds = word_of_int ?s\<rparr>"
    unfolding CFE_TIME_Subtract_def Let_def c by simp
  then have "ticks64 (CFE_TIME_Subtract a b) = word_of_int ((?S - (if 0 \<le> ?s then 0 else 1)) * 2 ^ 32 + ?s mod 2 ^ 32)"
    by (simp only: ticks64_of_int)
  also have "(?S - (if 0 \<le> ?s then 0 else 1)) * 2 ^ 32 + ?s mod 2 ^ 32 = ?S * 2 ^ 32 + ?s"
    unfolding m by simp
  also have "word_of_int \<dots> = ticks64 a - ticks64 b"
    unfolding ticks64_def wi_hom_sub by (simp only: algebra_simps)
  finally show ?thesis .
qed

text \<open>C28. \<^verbatim>\<open>CFE_TIME_Add\<close> and \<^verbatim>\<open>CFE_TIME_Subtract\<close> with their carry and borrow are addition and subtraction of
  the 64-bit subsecond counts, wrapping around at \<open>2 ^ 64\<close>, and they undo each other.\<close>

theorem time_arithmetic:
  "ticks64 (CFE_TIME_Add a b) = ticks64 a + ticks64 b \<and>
   ticks64 (CFE_TIME_Subtract a b) = ticks64 a - ticks64 b \<and>
   CFE_TIME_Subtract (CFE_TIME_Add a b) b = a \<and> CFE_TIME_Add (CFE_TIME_Subtract a b) b = a"
  by (simp add: ticks64_add ticks64_subtract ticks64_inject [symmetric])

section \<open>Comparison across roll-over\<close>

lemma sint64:
  "- (2 ^ 63) \<le> k \<Longrightarrow> k < 2 ^ 63 \<Longrightarrow> sint (word_of_int k :: 64 word) = k"
  "2 ^ 63 \<le> k \<Longrightarrow> k < 2 ^ 64 + 2 ^ 63 \<Longrightarrow> sint (word_of_int k :: 64 word) = k - 2 ^ 64"
  "k < - (2 ^ 63) \<Longrightarrow> - (2 ^ 64) - 2 ^ 63 \<le> k \<Longrightarrow> sint (word_of_int k :: 64 word) = k + 2 ^ 64"
proof -
  have *: "sint (word_of_int k :: 64 word) = (k + 2 ^ 63) mod 2 ^ 64 - 2 ^ 63"
    by (simp add: sint_sbintrunc' signed_take_bit_eq_take_bit_shift take_bit_eq_mod)
  show "- (2 ^ 63) \<le> k \<Longrightarrow> k < 2 ^ 63 \<Longrightarrow> sint (word_of_int k :: 64 word) = k"
    unfolding * by (subst mod_pos_pos_trivial) auto
  show "2 ^ 63 \<le> k \<Longrightarrow> k < 2 ^ 64 + 2 ^ 63 \<Longrightarrow> sint (word_of_int k :: 64 word) = k - 2 ^ 64"
    unfolding * by (subst minus_mod_self2 [symmetric], subst mod_pos_pos_trivial) auto
  show "k < - (2 ^ 63) \<Longrightarrow> - (2 ^ 64) - 2 ^ 63 \<le> k \<Longrightarrow> sint (word_of_int k :: 64 word) = k + 2 ^ 64"
    unfolding * by (subst mod_add_self2 [symmetric], subst mod_pos_pos_trivial) auto
qed

lemma uint32_diff:
  "uint (v - w) = (if uint w \<le> uint v then uint v - uint w else uint v - uint w + 2 ^ 32)" for v w :: uint32
  by (simp add: uint_sub_if_size word_size)

lemma uint32_eq_half: "v - w = 0x80000000 \<longleftrightarrow> uint v - uint w = 2 ^ 31 \<or> uint w - uint v = 2 ^ 31" for v w :: uint32
  using uint32_bounds [of v] uint32_bounds [of w] by (auto simp: word_uint_eq_iff uint32_diff)

text \<open>\<^verbatim>\<open>CFE_TIME_Compare\<close> orders times by the sign of their 64-bit difference, so that a time shortly after the
  roll-over is later than one shortly before it; only when the seconds are exactly \<open>2 ^ 31\<close> apart does the larger
  raw value win.  Swapping the arguments swaps the answer.\<close>

theorem Compare_signed:
  "CFE_TIME_Compare a b =
     (if Seconds a - Seconds b = 0x80000000
      then if Seconds a > Seconds b then CFE_TIME_A_GT_B else CFE_TIME_A_LT_B
      else if a = b then CFE_TIME_EQUAL
      else if sint (ticks64 a - ticks64 b) < 0 then CFE_TIME_A_LT_B else CFE_TIME_A_GT_B) \<and>
   (CFE_TIME_Compare a b = CFE_TIME_A_LT_B) = (CFE_TIME_Compare b a = CFE_TIME_A_GT_B)"
proof -
  define A where "A = uint (Seconds a)"
  define B where "B = uint (Seconds b)"
  define x where "x = uint (Subseconds a)"
  define y where "y = uint (Subseconds b)"
  have bounds: "0 \<le> A" "A < 2 ^ 32" "0 \<le> B" "B < 2 ^ 32" "0 \<le> x" "x < 2 ^ 32" "0 \<le> y" "y < 2 ^ 32"
    by (simp_all only: A_def B_def x_def y_def uint32_bounds)
  have d: "ticks64 a - ticks64 b = word_of_int ((A - B) * 2 ^ 32 + (x - y))"
    unfolding ticks64_def wi_hom_sub by (simp add: A_def B_def x_def y_def algebra_simps)
  have eq: "a = b \<longleftrightarrow> A = B \<and> x = y"
    by (cases a; cases b) (simp add: A_def B_def x_def y_def word_uint_eq_iff)
  have cmp: "CFE_TIME_Compare a b =
     (if B < A then if A - B > 2 ^ 31 then CFE_TIME_A_LT_B else CFE_TIME_A_GT_B
      else if A < B then if B - A > 2 ^ 31 then CFE_TIME_A_GT_B else CFE_TIME_A_LT_B
      else if y < x then CFE_TIME_A_GT_B else if x < y then CFE_TIME_A_LT_B else CFE_TIME_EQUAL)"
    "CFE_TIME_Compare b a =
     (if A < B then if B - A > 2 ^ 31 then CFE_TIME_A_LT_B else CFE_TIME_A_GT_B
      else if B < A then if A - B > 2 ^ 31 then CFE_TIME_A_GT_B else CFE_TIME_A_LT_B
      else if x < y then CFE_TIME_A_GT_B else if y < x then CFE_TIME_A_LT_B else CFE_TIME_EQUAL)"
    unfolding CFE_TIME_Compare_def by (simp_all add: word_less_def uint32_diff A_def B_def x_def y_def)
  have half: "Seconds a - Seconds b = 0x80000000 \<longleftrightarrow> A - B = 2 ^ 31 \<or> B - A = 2 ^ 31"
    unfolding uint32_eq_half by (simp add: A_def B_def)
  have gt: "Seconds a > Seconds b \<longleftrightarrow> B < A" by (simp add: word_less_def A_def B_def)
  show ?thesis
  proof (cases "A - B = 2 ^ 31 \<or> B - A = 2 ^ 31")
    case True
    then show ?thesis unfolding cmp half gt by auto
  next
    case False
    have "A - B > 2 ^ 31 \<Longrightarrow> sint (ticks64 a - ticks64 b) = (A - B) * 2 ^ 32 + (x - y) - 2 ^ 64"
      "B - A > 2 ^ 31 \<Longrightarrow> sint (ticks64 a - ticks64 b) = (A - B) * 2 ^ 32 + (x - y) + 2 ^ 64"
      "\<bar>A - B\<bar> < 2 ^ 31 \<Longrightarrow> sint (ticks64 a - ticks64 b) = (A - B) * 2 ^ 32 + (x - y)"
      unfolding d using bounds by (intro sint64; simp)+
    then show ?thesis
      unfolding cmp half gt eq using False bounds by (auto split: if_splits)
  qed
qed

section \<open>Subsecond conversions\<close>

lemma sdiv_pos: "0 \<le> k \<Longrightarrow> 0 < l \<Longrightarrow> k sdiv l = k div (l :: int)"
  by (cases "k = 0") (simp_all add: signed_divide_int_def)

lemma smod_pos: "0 \<le> k \<Longrightarrow> 0 < l \<Longrightarrow> k smod l = k mod (l :: int)"
  by (cases "k = 0") (simp_all add: signed_modulo_int_def)

lemma int_div_less: "k < c * l \<Longrightarrow> 0 < l \<Longrightarrow> k div l < (c :: int)"
  by (smt (verit) pos_imp_zdiv_neg_iff mult.commute mult_less_cancel_left_pos minus_mod_eq_mult_div pos_mod_sign)

lemma uint_Sub2MicroSecs: "uint (CFE_TIME_Sub2MicroSecs s) = uint s * 10 ^ 6 div 2 ^ 32"
proof -
  let ?t = "uint s * 2500000 div 2 ^ 30"
  have "?t = uint s * 10000000 div 2 ^ 32"
    using div_mult_mult2 [of 4 "uint s * 2500000" "2 ^ 30"] by simp
  moreover have "0 \<le> ?t" using uint32_bounds [of s] by (simp add: pos_imp_zdiv_nonneg_iff)
  moreover have "?t < 10000000" using uint32_bounds [of s] by (intro int_div_less) auto
  moreover have "uint s * 10000000 div 2 ^ 32 div 10 = uint s * 1000000 div 2 ^ 32"
    using div_mult_mult2 [of 10 "uint s * 1000000" "2 ^ 32"] by (simp add: zdiv_zmult2_eq [symmetric] mult.commute)
  ultimately show ?thesis
    by (simp add: CFE_TIME_Sub2MicroSecs_def OS_TimeGetMicrosecondsPart_def OS_TimeAssembleFromSubseconds_def
        OS_TimeGetFractionalPart_def drop_bit_eq_div smod_pos uint_div_distrib uint_word_of_int)
qed

lemma ceil_div: "0 < c \<Longrightarrow> 0 < l \<Longrightarrow> (c * k + (c * l - 1)) div (c * l) = (k + (l - 1)) div (l :: int)"
proof -
  assume c: "0 < c" "0 < l"
  have ceil: "(k + (l - 1)) div l = - (- k div l)" if "0 < l" for k l :: int
  proof (rule int_div_pos_eq [where r = "l - 1 - (- k) mod l"])
    show "k + (l - 1) = l * - (- k div l) + (l - 1 - - k mod l)"
      using mult_div_mod_eq [of l "- k"] by linarith
  qed (use that pos_mod_bound [of l "- k"] pos_mod_sign [of l "- k"] in linarith)+
  show ?thesis using c ceil [of l k] ceil [of "c * l" "c * k"] by (metis div_mult_mult1 less_irrefl mult_minus_right mult_pos_pos)
qed

lemma uint_Micro2SubSecs:
  assumes "uint m < 10 ^ 6"
  shows "uint (CFE_TIME_Micro2SubSecs m) = (uint m * 2 ^ 32 + (10 ^ 6 - 1)) div 10 ^ 6"
proof -
  have "uint (m * 1000) = uint m * 1000" using assms by (simp add: uint_word_ariths)
  then have t: "uint (m * 1000 div 100) = 10 * uint m" by (simp add: uint_div_distrib)
  have small: "\<not> m > 999999" using assms by (simp add: word_less_def)
  have "push_bit 30 (10 * uint m) + 2500000 - 1 = 10 * (uint m * 2 ^ 30) + (10 * 250000 - 1)"
    by (simp add: push_bit_eq_mult)
  then have q: "(push_bit 30 (10 * uint m) + 2500000 - 1) div 2500000 = (uint m * 2 ^ 30 + (250000 - 1)) div 250000"
    using ceil_div [of 10 250000 "uint m * 2 ^ 30"] by simp
  moreover have "(uint m * 2 ^ 32 + (10 ^ 6 - 1)) div 10 ^ 6 = (uint m * 2 ^ 30 + (250000 - 1)) div 250000"
    using ceil_div [of 4 250000 "uint m * 2 ^ 30"] by simp
  moreover have "(uint m * 2 ^ 30 + (250000 - 1)) div 250000 < 2 ^ 32"
    using assms by (intro int_div_less) auto
  moreover have "0 \<le> (uint m * 2 ^ 30 + (250000 - 1)) div 250000"
    using uint32_bounds [of m] by (simp add: pos_imp_zdiv_nonneg_iff)
  ultimately show ?thesis
    using small t assms
    by (simp add: CFE_TIME_Micro2SubSecs_def OS_TimeGetSubsecondsPart_def OS_TimeAssembleFromNanoseconds_def
        OS_TimeGetFractionalPart_def smod_pos sdiv_pos push_bit_eq_mult uint_word_of_int)
qed

text \<open>Subseconds to microseconds rounds down and microseconds to subseconds rounds up, exactly; every
  microsecond count below one million survives the round trip, and larger ones saturate.\<close>

theorem microseconds_roundtrip:
  "uint (CFE_TIME_Sub2MicroSecs s) = uint s * 10 ^ 6 div 2 ^ 32 \<and>
   (if m < 1000000
    then uint (CFE_TIME_Micro2SubSecs m) = (uint m * 2 ^ 32 + (10 ^ 6 - 1)) div 10 ^ 6 \<and>
         CFE_TIME_Sub2MicroSecs (CFE_TIME_Micro2SubSecs m) = m
    else CFE_TIME_Micro2SubSecs m = 0xFFFFFFFF)"
proof (cases "m < 1000000")
  case True
  then have m: "uint m < 10 ^ 6" by (simp add: word_less_def)
  have "(uint m * 2 ^ 32 + (10 ^ 6 - 1)) div 10 ^ 6 * 10 ^ 6 div 2 ^ 32 = uint m"
  proof (rule int_div_pos_eq)
    let ?n = "uint m * 2 ^ 32 + (10 ^ 6 - 1)"
    show "?n div 10 ^ 6 * 10 ^ 6 = 2 ^ 32 * uint m + (10 ^ 6 - 1 - ?n mod 10 ^ 6)"
      by (simp only: minus_mod_eq_div_mult [symmetric]) simp
    have "0 \<le> ?n mod 10 ^ 6 \<and> ?n mod 10 ^ 6 < 10 ^ 6" by (simp add: pos_mod_bound pos_mod_sign)
    then show "0 \<le> 10 ^ 6 - 1 - ?n mod 10 ^ 6" "10 ^ 6 - 1 - ?n mod 10 ^ 6 < 2 ^ 32" by auto
  qed
  then show ?thesis using True uint_Micro2SubSecs [OF m] by (simp add: uint_Sub2MicroSecs word_uint_eq_iff)
next
  case False
  then have "m > 999999" by (simp add: word_less_def not_less)
  then show ?thesis using False by (simp add: uint_Sub2MicroSecs CFE_TIME_Micro2SubSecs_def)
qed

section \<open>Printing terminates\<close>

lemma uint32_sub_less: "w \<le> v \<Longrightarrow> 0 < w \<Longrightarrow> unat (v - w) < unat (v :: uint32)"
  by (simp add: unat_sub word_le_nat_alt word_less_nat_alt)

lemma carry_minutes_ends: "\<exists>m s. carry_minutes NumberOfMinutes NumberOfSeconds = Some (m, s)"
proof (induction "unat NumberOfSeconds" arbitrary: NumberOfMinutes NumberOfSeconds rule: less_induct)
  case less
  then show ?case
    using uint32_sub_less [of 60 NumberOfSeconds] by (subst carry_minutes.simps) (auto simp: word_less_nat_alt)
qed

lemma days_in_year_pos: "0 < days_in_year y"
  by (auto simp: days_in_year_def)

lemma count_years_ends: "\<exists>y d. count_years NumberOfYears NumberOfDays = Some (y, d)"
proof (induction "unat NumberOfDays" arbitrary: NumberOfYears NumberOfDays rule: less_induct)
  case less
  then show ?case
    using uint32_sub_less [OF _ days_in_year_pos]
    by (subst count_years.simps) (auto simp: Let_def not_less)
qed

lemma Print_returns: "\<exists>r. CFE_TIME_Print ep PrintBuffer t = Some r \<and> (r = None \<longleftrightarrow> PrintBuffer = None)"
proof -
  have "time_text ep t \<noteq> None"
  proof -
    have "carry_minutes m s \<noteq> None" "count_years m s \<noteq> None" for m s
      using carry_minutes_ends [of m s] count_years_ends [of m s] by auto
    then show ?thesis
      unfolding time_text_def Let_def by (simp del: not_None_eq split: option.split prod.split)
  qed
  then show ?thesis by (auto simp: CFE_TIME_Print_def split: option.splits)
qed

section \<open>The printed date\<close>

text \<open>The calendar: leap years, and the days from the start of 1980 to the start of a year.\<close>

definition leap_year :: "nat \<Rightarrow> bool" where
  "leap_year y \<longleftrightarrow> 4 dvd y \<and> (\<not> 100 dvd y \<or> 400 dvd y)"

definition year_length :: "nat \<Rightarrow> nat" where
  "year_length y = (if leap_year y then 366 else 365)"

definition days_before :: "nat \<Rightarrow> nat" where
  "days_before y = (\<Sum>k \<in> {1980..<y}. year_length k)"

lemma unat_days_in_year: "unat (days_in_year y) = year_length (unat y)"
proof -
  have "y mod 4 = 0 \<longleftrightarrow> 4 dvd unat y" "y mod 100 = 0 \<longleftrightarrow> 100 dvd unat y" "y mod 400 = 0 \<longleftrightarrow> 400 dvd unat y"
    by (simp_all add: word_unat_eq_iff unat_mod_distrib dvd_eq_mod_eq_0)
  then show ?thesis by (auto simp: days_in_year_def year_length_def leap_year_def)
qed

lemma count_years_spec:
  assumes "1980 \<le> unat y" "unat y + unat d < 2 ^ 32"
  shows "\<exists>y' d'. count_years y d = Some (y', d') \<and> 1980 \<le> unat y' \<and> unat d' < year_length (unat y') \<and>
    days_before (unat y) + unat d = days_before (unat y') + unat d' \<and> unat y' \<le> unat y + unat d div 365"
  using assms
proof (induction "unat d" arbitrary: y d rule: less_induct)
  case less
  show ?case
  proof (cases "d < days_in_year y")
    case True
    then show ?thesis
      using less.prems by (subst count_years.simps) (auto simp: Let_def word_less_nat_alt unat_days_in_year)
  next
    case False
    then have le: "year_length (unat y) \<le> unat d" by (simp add: word_le_nat_alt unat_days_in_year not_less)
    have pos: "365 \<le> year_length (unat y)" by (simp add: year_length_def)
    have d: "unat (d - days_in_year y) = unat d - year_length (unat y)"
      using le by (simp add: unat_sub word_le_nat_alt unat_days_in_year)
    have y: "unat (y + 1) = unat y + 1"
      using less.prems le pos by (subst unat_add_lem [THEN iffD1]) auto
    have "days_before (unat y + 1) = days_before (unat y) + year_length (unat y)"
      using less.prems(1) by (simp add: days_before_def)
    moreover have "count_years y d = count_years (y + 1) (d - days_in_year y)"
      using False by (subst count_years.simps) (simp add: Let_def)
    moreover have "(unat d - year_length (unat y)) div 365 + 1 \<le> unat d div 365"
    proof -
      have "(unat d - year_length (unat y)) div 365 \<le> (unat d - 365) div 365" using pos by (intro div_le_mono) simp
      then show ?thesis using le pos by (simp add: le_div_geq)
    qed
    ultimately show ?thesis
      using less.hyps [of "d - days_in_year y" "y + 1"] less.prems le pos d y by fastforce
  qed
qed

text \<open>The last \<open>k\<close> decimal digits of a number.\<close>

primrec decimal :: "nat \<Rightarrow> nat \<Rightarrow> string" where
  "decimal 0 n = []"
| "decimal (Suc k) n = char_of (48 + n div 10 ^ k mod 10) # decimal k n"

lemma digit_small: "unat n < 10 \<Longrightarrow> digit n = char_of (48 + unat n)"
  by (simp add: digit_def unsigned_ucast_eq take_bit_nat_eq_self)

lemma mod_div_digit: "n mod (a * b) div a = n div a mod (b :: nat)"
  by (cases "a = 0") (simp_all add: mod_mult2_eq)

lemma decimal_digit_2: "n mod 1000 div 100 = n div 100 mod (10 :: nat)"
  using mod_div_digit [of n 100 10] by simp

lemma decimal_digit_1: "n mod 100 div 10 = n div 10 mod (10 :: nat)"
  using mod_div_digit [of n 10 10] by simp

lemma decimal_digit_3: "n mod 10000 div 1000 = n div 1000 mod (10 :: nat)"
  using mod_div_digit [of n 1000 10] by simp

lemma decimal_mods:
  "n mod 1000 mod 100 = n mod (100 :: nat)" "n mod 100 mod 10 = n mod (10 :: nat)"
  "n mod 10000 mod 1000 = n mod (1000 :: nat)"
  by (rule mod_mod_cancel, simp)+

lemma digit_mod: "unat w = k mod 10 \<Longrightarrow> digit w = char_of (48 + k mod 10)"
  by (simp add: digit_small)

lemma unat_tens: "unat (10 :: uint32) = 10" "unat (100 :: uint32) = 100" "unat (1000 :: uint32) = 1000"
  "unat (10000 :: uint32) = 10000"
  by simp_all

lemma unat_digits:
  fixes w :: uint32
  shows "unat (w mod 1000 div 100) = unat w div 100 mod 10" "unat (w mod 100 div 10) = unat w div 10 mod 10"
    "unat (w mod 10000 div 1000) = unat w div 1000 mod 10" "unat (w mod 100 mod 10) = unat w mod 10"
    "unat (w mod 1000 mod 100 div 10) = unat w div 10 mod 10" "unat (w mod 1000 mod 100 mod 10) = unat w mod 10"
    "unat (w mod 10000 mod 1000 div 100) = unat w div 100 mod 10"
    "unat (w mod 10000 mod 1000 mod 100 div 10) = unat w div 10 mod 10"
    "unat (w mod 10000 mod 1000 mod 100 mod 10) = unat w mod 10"
  by (simp_all only: unat_div_distrib unat_mod_distrib unat_tens decimal_mods decimal_digit_1 decimal_digit_2 decimal_digit_3)

lemma format_time_decimal:
  assumes "unat y < 10000" "unat d < 1000" "unat h < 100" "unat n < 100" "unat s < 100" "unat u < 100000"
  shows "format_time y d h n s u =
    decimal 4 (unat y) @ ''-'' @ decimal 3 (unat d) @ ''-'' @ decimal 2 (unat h) @ '':'' @
    decimal 2 (unat n) @ '':'' @ decimal 2 (unat s) @ ''.'' @ decimal 5 (unat u)"
proof -
  have two: "decimal 2 k = [char_of (48 + k div 10 mod 10), char_of (48 + k mod 10)]" for k
    by (simp add: numeral_2_eq_2)
  have exp: "decimal 5 k = map (\<lambda>j. char_of (48 + k div j mod 10)) [10000, 1000, 100, 10, 1]"
    "decimal 4 k = map (\<lambda>j. char_of (48 + k div j mod 10)) [1000, 100, 10, 1]"
    "decimal 3 k = map (\<lambda>j. char_of (48 + k div j mod 10)) [100, 10, 1]"
    "decimal 2 k = map (\<lambda>j. char_of (48 + k div j mod 10)) [10, 1]" for k
    using decimal.simps(2) [of 4 k] decimal.simps(2) [of 3 k] decimal.simps(2) [of 2 k] two by simp_all
  have lead: "digit (y div 1000) = char_of (48 + unat y div 1000 mod 10)"
    "digit (d div 100) = char_of (48 + unat d div 100 mod 10)"
    "digit (u div 10000) = char_of (48 + unat u div 10000 mod 10)"
    using assms by (intro digit_mod; simp add: unat_div_distrib)+
  have pair: "digit (w div 10) = char_of (48 + unat w div 10 mod 10)" "digit (w mod 10) = char_of (48 + unat w mod 10)"
    if "unat w < 100" for w
    using that by (intro digit_mod; simp add: unat_div_distrib unat_mod_distrib)+
  show ?thesis
    unfolding exp format_time_def Let_def
      digit_mod [OF unat_digits(9)] digit_mod [OF unat_digits(8)] digit_mod [OF unat_digits(7)]
    unfolding digit_mod [OF unat_digits(6)] digit_mod [OF unat_digits(5)]
    unfolding lead pair [OF assms(3)] pair [OF assms(4)] pair [OF assms(5)]
      digit_mod [OF unat_digits(4)]
      digit_mod [OF unat_digits(3)] digit_mod [OF unat_digits(2)] digit_mod [OF unat_digits(1)]
    by (simp only: list.map append.simps div_by_1)
qed

lemma unat_Sub2MicroSecs: "unat (CFE_TIME_Sub2MicroSecs s) = unat s * 10 ^ 6 div 2 ^ 32"
proof -
  have "int (unat (CFE_TIME_Sub2MicroSecs s)) = int (unat s * 10 ^ 6 div 2 ^ 32)"
    using uint_Sub2MicroSecs [of s] unfolding zdiv_int of_nat_mult of_nat_power of_nat_numeral uint_nat .
  then show ?thesis by (simp only: of_nat_eq_iff)
qed

lemma Sub2MicroSecs_small: "unat (CFE_TIME_Sub2MicroSecs s) < 10 ^ 6"
proof -
  have "unat s < 2 ^ 32" using unsigned_less [of s, where ?'a = nat] by simp
  then have "unat s * 10 ^ 6 < 10 ^ 6 * 2 ^ 32" by simp
  then show ?thesis unfolding unat_Sub2MicroSecs by (rule less_mult_imp_div_less)
qed

lemma time_text_default:
  "time_text default_epoch t =
     (case count_years 1980 (Seconds t div 60 div 60 div 24) of
        None \<Rightarrow> None
      | Some (y, d) \<Rightarrow> Some (format_time y (d + 1) (Seconds t div 60 div 60 mod 24) (Seconds t div 60 mod 60)
                          (Seconds t mod 60) (CFE_TIME_Sub2MicroSecs (Subseconds t) div 10)))"
proof -
  have m: "CFE_TIME_Sub2MicroSecs s div 60000000 = 0" "CFE_TIME_Sub2MicroSecs s mod 60000000 = CFE_TIME_Sub2MicroSecs s"
    "CFE_TIME_Sub2MicroSecs s div 1000000 = 0" "CFE_TIME_Sub2MicroSecs s mod 1000000 = CFE_TIME_Sub2MicroSecs s" for s
    using Sub2MicroSecs_small [of s] by (simp_all add: word_unat_eq_iff unat_div_distrib unat_mod_distrib)
  have "carry_minutes k (Seconds t mod 60) = Some (k, Seconds t mod 60)" for k
  proof -
    have "unat (Seconds t mod 60) < 60" by (simp add: unat_mod_distrib)
    then show ?thesis by (subst carry_minutes.simps) (simp add: word_le_nat_alt)
  qed
  then show ?thesis
    unfolding time_text_def default_epoch_def by (simp add: m split: option.split prod.split)
qed

text \<open>C29. \<^verbatim>\<open>CFE_TIME_Print\<close> with the default epoch writes, for every time, the terminated text
  \<^verbatim>\<open>yyyy-ddd-hh:mm:ss.xxxxx\<close> of the Gregorian calendar date that many seconds after 1980-001, with the subseconds
  rounded down to five decimals, and leaves the rest of the buffer alone.\<close>

theorem Print_calendar:
  "\<exists>y d h n s u. CFE_TIME_Print default_epoch (Some buf) t =
       Some (Some (decimal 4 y @ ''-'' @ decimal 3 d @ ''-'' @ decimal 2 h @ '':'' @ decimal 2 n @ '':'' @
                   decimal 2 s @ ''.'' @ decimal 5 u @ CHR 0x00 # drop 24 buf)) \<and>
     1980 \<le> y \<and> 1 \<le> d \<and> d \<le> year_length y \<and> h < 24 \<and> n < 60 \<and> s < 60 \<and>
     unat (Seconds t) = (((days_before y + (d - 1)) * 24 + h) * 60 + n) * 60 + s \<and>
     u = unat (Subseconds t) * 10 ^ 5 div 2 ^ 32"
proof -
  let ?S = "Seconds t" and ?D = "Seconds t div 60 div 60 div 24"
  have D: "unat ?D = unat ?S div 60 div 60 div 24" by (simp add: unat_div_distrib)
  have "unat ?D < 50000" unfolding D using unsigned_less [of ?S, where ?'a = nat] by simp
  then obtain y d where c: "count_years 1980 ?D = Some (y, d)" "1980 \<le> unat y" "unat d < year_length (unat y)"
    "days_before 1980 + unat ?D = days_before (unat y) + unat d" "unat y < 10000"
    using count_years_spec [of 1980 ?D] by fastforce
  have d: "unat (d + 1) = unat d + 1" "unat d < 366"
    using c(3) by (simp_all add: year_length_def split: if_splits)
       (subst unat_add_lem [THEN iffD1]; simp)+
  have u: "unat (CFE_TIME_Sub2MicroSecs (Subseconds t) div 10) = unat (Subseconds t) * 10 ^ 5 div 2 ^ 32"
  proof -
    have "unat (Subseconds t) * 10 ^ 6 div 2 ^ 32 div 10 = unat (Subseconds t) * 10 ^ 6 div 10 div 2 ^ 32"
      by (metis div_mult2_eq mult.commute)
    then show ?thesis by (simp add: unat_div_distrib unat_Sub2MicroSecs)
  qed
  have secs: "unat ?S = (((unat ?D) * 24 + unat (?S div 60 div 60 mod 24)) * 60 + unat (?S div 60 mod 60)) * 60 + unat (?S mod 60)"
  proof -
    have "k = ((k div 60 div 60 div 24 * 24 + k div 60 div 60 mod 24) * 60 + k div 60 mod 60) * 60 + k mod 60" for k :: nat
      by (simp only: div_mult_mod_eq)
    then show ?thesis by (simp only: unat_div_distrib unat_mod_distrib) simp
  qed
  have bounds: "unat (?S div 60 div 60 mod 24) < 24" "unat (?S div 60 mod 60) < 60" "unat (?S mod 60) < 60"
    by (simp_all add: unat_mod_distrib)
  have "unat (Subseconds t) * 10 ^ 5 div 2 ^ 32 < 10 ^ 5"
    using Sub2MicroSecs_small [of "Subseconds t"] u by (simp add: unat_div_distrib)
  then have fmt: "format_time y (d + 1) (?S div 60 div 60 mod 24) (?S div 60 mod 60) (?S mod 60) (CFE_TIME_Sub2MicroSecs (Subseconds t) div 10) =
    decimal 4 (unat y) @ ''-'' @ decimal 3 (unat d + 1) @ ''-'' @ decimal 2 (unat (?S div 60 div 60 mod 24)) @ '':'' @
    decimal 2 (unat (?S div 60 mod 60)) @ '':'' @ decimal 2 (unat (?S mod 60)) @ ''.'' @
    decimal 5 (unat (Subseconds t) * 10 ^ 5 div 2 ^ 32)"
    using format_time_decimal [of y "d + 1" "?S div 60 div 60 mod 24" "?S div 60 mod 60" "?S mod 60"
        "CFE_TIME_Sub2MicroSecs (Subseconds t) div 10"] c(5) d bounds u by simp
  have len: "length (decimal k n) = k" for k n by (induction k) simp_all
  have print: "CFE_TIME_Print default_epoch (Some buf) t =
      Some (Some (decimal 4 (unat y) @ ''-'' @ decimal 3 (unat d + 1) @ ''-'' @ decimal 2 (unat (?S div 60 div 60 mod 24)) @ '':'' @
        decimal 2 (unat (?S div 60 mod 60)) @ '':'' @ decimal 2 (unat (?S mod 60)) @ ''.'' @
        decimal 5 (unat (Subseconds t) * 10 ^ 5 div 2 ^ 32) @ CHR 0x00 # drop 24 buf))"
    unfolding CFE_TIME_Print_def time_text_default c(1) option.case prod.case fmt by (simp add: len)
  have "unat ?D = days_before (unat y) + (unat d + 1 - 1)" using c(4) by (simp add: days_before_def)
  note count = secs [unfolded this]
  have range: "1 \<le> unat d + 1" "unat d + 1 \<le> year_length (unat y)" using c(3) by simp_all
  show ?thesis by (intro exI conjI) (rule print c(2) range bounds count refl)+
qed

end
