(* ===== verification/CFS_TimeState.thy ===== *)
theory CFS_TimeState
  imports CFS_TimeMath
begin

text \<open>
  The state of the time service, \<^verbatim>\<open>CFE_TIME_Global\<close>, and the operations of \<^verbatim>\<open>cfe_time_utils.c\<close> and
  \<^verbatim>\<open>cfe_time_api.c\<close> on it.  The build configuration is the record \<open>time_cfg\<close>, so both sides of every
  conditional compilation are modelled.

  The state record also holds what the service sees of the outside: the successive readings of the local clock
  (\<^verbatim>\<open>CFE_PSP_GetTime\<close>) and of the mission's hardware MET register (\<^verbatim>\<open>OS_GetLocalMET\<close>), the time part of the reset area, and the list of
  messages, events, semaphore gives and callbacks that the service has issued.  Event texts are not modelled.
\<close>

section \<open>Data\<close>

type_synonym int16 = "16 word"

abbreviation (input) CFE_TIME_ClockState_INVALID :: int16 where "CFE_TIME_ClockState_INVALID \<equiv> 0xFFFF"
abbreviation (input) CFE_TIME_ClockState_VALID :: int16 where "CFE_TIME_ClockState_VALID \<equiv> 0"
abbreviation (input) CFE_TIME_ClockState_FLYWHEEL :: int16 where "CFE_TIME_ClockState_FLYWHEEL \<equiv> 1"
abbreviation (input) CFE_TIME_SetState_NOT_SET :: int16 where "CFE_TIME_SetState_NOT_SET \<equiv> 0"
abbreviation (input) CFE_TIME_SetState_WAS_SET :: int16 where "CFE_TIME_SetState_WAS_SET \<equiv> 1"
abbreviation (input) CFE_TIME_FlywheelState_NO_FLY :: int16 where "CFE_TIME_FlywheelState_NO_FLY \<equiv> 0"
abbreviation (input) CFE_TIME_FlywheelState_IS_FLY :: int16 where "CFE_TIME_FlywheelState_IS_FLY \<equiv> 1"
abbreviation (input) CFE_TIME_SourceSelect_INTERNAL :: int16 where "CFE_TIME_SourceSelect_INTERNAL \<equiv> 1"
abbreviation (input) CFE_TIME_SourceSelect_EXTERNAL :: int16 where "CFE_TIME_SourceSelect_EXTERNAL \<equiv> 2"
abbreviation (input) CFE_TIME_ToneSignalSelect_PRIMARY :: int16 where "CFE_TIME_ToneSignalSelect_PRIMARY \<equiv> 1"
abbreviation (input) CFE_TIME_ToneSignalSelect_REDUNDANT :: int16 where "CFE_TIME_ToneSignalSelect_REDUNDANT \<equiv> 2"
abbreviation (input) CFE_TIME_AdjustDirection_ADD :: int16 where "CFE_TIME_AdjustDirection_ADD \<equiv> 1"
abbreviation (input) CFE_TIME_AdjustDirection_SUBTRACT :: int16 where "CFE_TIME_AdjustDirection_SUBTRACT \<equiv> 2"
abbreviation (input) CFE_TIME_RESET_AREA_ERROR :: uint32 where "CFE_TIME_RESET_AREA_ERROR \<equiv> 1"
abbreviation (input) CFE_TIME_RESET_AREA_BAD :: uint32 where "CFE_TIME_RESET_AREA_BAD \<equiv> 2"
abbreviation (input) CFE_TIME_RESET_AREA_NEW :: uint32 where "CFE_TIME_RESET_AREA_NEW \<equiv> 3"
abbreviation (input) CFE_TIME_RESET_AREA_EXISTING :: uint32 where "CFE_TIME_RESET_AREA_EXISTING \<equiv> 4"
abbreviation (input) CFE_TIME_RESET_SIGNATURE :: uint32 where "CFE_TIME_RESET_SIGNATURE \<equiv> 0xA5A55A5A"
abbreviation (input) CFE_TIME_REFERENCE_BUF_MASK :: uint32 where "CFE_TIME_REFERENCE_BUF_MASK \<equiv> 3"
abbreviation (input) CFE_PLATFORM_ES_MAX_APPLICATIONS :: nat where "CFE_PLATFORM_ES_MAX_APPLICATIONS \<equiv> 32"

datatype time_source = SRC_NONE | SRC_MET | SRC_GPS | SRC_TIME

text \<open>The configuration macros; a build is a server exactly when it is not a client
  (\<^verbatim>\<open>cfe_time_verify.h\<close>), and the default time is UTC exactly when it is not TAI.\<close>

record time_cfg =
  CFG_SERVER :: bool
  CFG_VIRTUAL :: bool
  CFG_SOURCE :: bool
  CFG_SIGNAL :: bool
  CFG_SRC :: time_source
  DEFAULT_TAI :: bool
  AT_TONE_WILL_BE :: bool
  FAKE_TONE :: bool
  CFG_BIGENDIAN :: bool
  START_FLY :: uint32
  LATCH_FLY :: uint32
  MIN_ELAPSED :: uint32
  MAX_ELAPSED :: uint32
  TONE_LIMIT :: uint32
  MAX_DELTA_SECS :: uint32
  MAX_DELTA_SUBS :: uint32
  MAX_LOCAL_SECS :: uint32
  MAX_LOCAL_SUBS :: uint32
  DEF_MET_SECS :: uint32
  DEF_MET_SUBS :: uint32
  DEF_STCF_SECS :: uint32
  DEF_STCF_SUBS :: uint32
  DEF_LEAPS :: int16

text \<open>The values at the tone are common to \<^verbatim>\<open>CFE_TIME_Reference_t\<close> and \<^verbatim>\<open>CFE_TIME_ReferenceState_t\<close>.\<close>

record time_at_tone =
  AtToneMET :: CFE_TIME_SysTime_t
  AtToneSTCF :: CFE_TIME_SysTime_t
  AtToneLeapSeconds :: int16
  ClockSetState :: int16
  ClockFlyState :: int16
  DelayDirection :: int16
  AtToneDelay :: CFE_TIME_SysTime_t
  AtToneLatch :: CFE_TIME_SysTime_t

record CFE_TIME_Reference_t = time_at_tone +
  CurrentLatch :: CFE_TIME_SysTime_t
  TimeSinceTone :: CFE_TIME_SysTime_t
  CurrentMET :: CFE_TIME_SysTime_t

record CFE_TIME_ReferenceState_t = time_at_tone +
  StateVersion :: uint32

record CFE_TIME_ToneDataCmd_Payload_t =
  CmdAtToneMET :: CFE_TIME_SysTime_t
  CmdAtToneSTCF :: CFE_TIME_SysTime_t
  CmdAtToneLeapSeconds :: int16
  CmdAtToneState :: int16

record CFE_TIME_ResetVars_t =
  Signature :: uint32
  ResetLeapSeconds :: int16
  ResetClockSignal :: int16
  ResetCurrentMET :: CFE_TIME_SysTime_t
  ResetCurrentSTCF :: CFE_TIME_SysTime_t
  ResetCurrentDelay :: CFE_TIME_SysTime_t

record CFE_TIME_HousekeepingTlm_Payload_t =
  HkCommandCounter :: uint8
  HkCommandErrorCounter :: uint8
  HkClockStateFlags :: uint16
  HkClockStateAPI :: int16
  HkLeapSeconds :: int16
  SecondsMET :: uint32
  SubsecsMET :: uint32
  SecondsSTCF :: uint32
  SubsecsSTCF :: uint32
  Seconds1HzAdj :: uint32
  Subsecs1HzAdj :: uint32
  SecondsDelay :: uint32
  SubsecsDelay :: uint32

record CFE_TIME_DiagnosticTlm_Payload_t =
  DiagAtToneMET :: CFE_TIME_SysTime_t
  DiagAtToneSTCF :: CFE_TIME_SysTime_t
  DiagAtToneDelay :: CFE_TIME_SysTime_t
  DiagAtToneLatch :: CFE_TIME_SysTime_t
  DiagAtToneLeapSeconds :: int16
  DiagClockStateAPI :: int16
  DiagTimeSinceTone :: CFE_TIME_SysTime_t
  DiagCurrentLatch :: CFE_TIME_SysTime_t
  DiagCurrentMET :: CFE_TIME_SysTime_t
  DiagCurrentTAI :: CFE_TIME_SysTime_t
  DiagCurrentUTC :: CFE_TIME_SysTime_t
  DiagClockSetState :: int16
  DiagClockFlyState :: int16
  DiagClockSource :: int16
  DiagClockSignal :: int16
  DiagServerFlyState :: int16
  DiagForced2Fly :: int16
  DiagClockStateFlags :: uint16
  DiagOneTimeDirection :: int16
  DiagOneHzDirection :: int16
  DiagDelayDirection :: int16
  DiagOneTimeAdjust :: CFE_TIME_SysTime_t
  DiagOneHzAdjust :: CFE_TIME_SysTime_t
  DiagToneSignalLatch :: CFE_TIME_SysTime_t
  DiagToneDataLatch :: CFE_TIME_SysTime_t
  DiagToneMatchCounter :: uint32
  DiagToneMatchErrorCounter :: uint32
  DiagToneSignalCounter :: uint32
  DiagToneDataCounter :: uint32
  DiagToneIntCounter :: uint32
  DiagToneIntErrorCounter :: uint32
  DiagToneTaskCounter :: uint32
  DiagVersionCounter :: uint32
  DiagLocalIntCounter :: uint32
  DiagLocalTaskCounter :: uint32
  DiagVirtualMET :: uint32
  DiagMinElapsed :: uint32
  DiagMaxElapsed :: uint32
  DiagMaxLocalClock :: CFE_TIME_SysTime_t
  DiagToneOverLimit :: uint32
  DiagToneUnderLimit :: uint32
  DiagDataStoreStatus :: uint32

datatype time_output =
    ToneDataCmd_sent CFE_TIME_ToneDataCmd_Payload_t
  | ToneSignalCmd_sent
  | ToneSendCmd_sent
  | LocalOneHzCmd_sent
  | HkPacket_sent CFE_TIME_HousekeepingTlm_Payload_t
  | DiagPacket_sent CFE_TIME_DiagnosticTlm_Payload_t
  | ToneSemaphore_given
  | LocalSemaphore_given
  | LocalMET_set uint32
  | Callback_called nat
  | Event_sent string

record time_state =
  CommandCounter :: uint8
  CommandErrorCounter :: uint8
  ClockSource :: int16
  ClockSignal :: int16
  ServerFlyState :: int16
  PendingMET :: CFE_TIME_SysTime_t
  PendingSTCF :: CFE_TIME_SysTime_t
  PendingLeaps :: int16
  PendingState :: int16
  OneTimeAdjust :: CFE_TIME_SysTime_t
  OneHzAdjust :: CFE_TIME_SysTime_t
  OneTimeDirection :: int16
  OneHzDirection :: int16
  ToneSignalLatch :: CFE_TIME_SysTime_t
  ToneDataLatch :: CFE_TIME_SysTime_t
  ToneMatchCounter :: uint32
  ToneMatchErrorCounter :: uint32
  ToneSignalCounter :: uint32
  ToneDataCounter :: uint32
  ToneIntCounter :: uint32
  ToneIntErrorCounter :: uint32
  ToneTaskCounter :: uint32
  VirtualMET :: uint32
  LocalIntCounter :: uint32
  LocalTaskCounter :: uint32
  InternalCount :: uint32
  ExternalCount :: uint32
  ReferenceState :: "nat \<Rightarrow> CFE_TIME_ReferenceState_t"
  LastVersionCounter :: uint32
  ResetVersionCounter :: uint32
  MinElapsed :: uint32
  MaxElapsed :: uint32
  MaxLocalClock :: CFE_TIME_SysTime_t
  Forced2Fly :: bool
  AutoStartFly :: bool
  IsToneGood :: bool
  GetReferenceFail :: bool
  ToneDataCmd :: CFE_TIME_ToneDataCmd_Payload_t
  MaxDelta :: CFE_TIME_SysTime_t
  ToneOverLimit :: uint32
  ToneUnderLimit :: uint32
  DataStoreStatus :: uint32
  SynchCallback :: "nat \<Rightarrow> nat option"
  HkPacket :: CFE_TIME_HousekeepingTlm_Payload_t
  PrevTime1 :: CFE_TIME_SysTime_t
  PrevTime2 :: CFE_TIME_SysTime_t
  ClockReadings :: "nat \<Rightarrow> OS_time_t"
  ClockReads :: nat
  LocalMETReadings :: "nat \<Rightarrow> uint32"
  LocalMETReads :: nat
  ResetArea :: "CFE_TIME_ResetVars_t option"
  Outputs :: "time_output list"

abbreviation (input) zero_time :: CFE_TIME_SysTime_t where "zero_time \<equiv> \<lparr>Seconds = 0, Subseconds = 0\<rparr>"

abbreviation (input) issue :: "time_output \<Rightarrow> time_state \<Rightarrow> time_state" where
  "issue e s \<equiv> s\<lparr>Outputs := Outputs s @ [e]\<rparr>"

section \<open>Reference state\<close>

abbreviation (input) ref_slot :: "uint32 \<Rightarrow> nat" where
  "ref_slot Version \<equiv> unat (Version AND CFE_TIME_REFERENCE_BUF_MASK)"

text \<open>A pointer to a reference state is its index in the buffer.\<close>

definition CFE_TIME_StartReferenceUpdate :: "time_state \<Rightarrow> nat \<times> time_state" where
  "CFE_TIME_StartReferenceUpdate s =
     (let Version = LastVersionCounter s;
          CurrState = ReferenceState s (ref_slot Version);
          Version = Version + 1;
          NextState = (ReferenceState s (ref_slot Version))
            \<lparr>StateVersion := Version,
             AtToneLeapSeconds := AtToneLeapSeconds CurrState, ClockSetState := ClockSetState CurrState,
             ClockFlyState := ClockFlyState CurrState, DelayDirection := DelayDirection CurrState,
             AtToneMET := AtToneMET CurrState, AtToneSTCF := AtToneSTCF CurrState,
             AtToneDelay := AtToneDelay CurrState, AtToneLatch := AtToneLatch CurrState\<rparr>
      in (ref_slot Version, s\<lparr>ReferenceState := (ReferenceState s)(ref_slot Version := NextState)\<rparr>))"

definition CFE_TIME_FinishReferenceUpdate :: "nat \<Rightarrow> time_state \<Rightarrow> time_state" where
  "CFE_TIME_FinishReferenceUpdate NextState s =
     s\<lparr>LastVersionCounter := StateVersion (ReferenceState s NextState)\<rparr>"

definition set_ref ::
    "nat \<Rightarrow> (CFE_TIME_ReferenceState_t \<Rightarrow> CFE_TIME_ReferenceState_t) \<Rightarrow> time_state \<Rightarrow> time_state" where
  "set_ref i f s = s\<lparr>ReferenceState := (ReferenceState s)(i := f (ReferenceState s i))\<rparr>"

definition CFE_TIME_GetReferenceState :: "time_state \<Rightarrow> CFE_TIME_ReferenceState_t" where
  "CFE_TIME_GetReferenceState s = ReferenceState s (ref_slot (LastVersionCounter s))"

text \<open>Most updates start an update, assign to the new state and finish.\<close>

definition reference_update ::
    "(CFE_TIME_ReferenceState_t \<Rightarrow> CFE_TIME_ReferenceState_t) \<Rightarrow> time_state \<Rightarrow> time_state" where
  "reference_update f s =
     (case CFE_TIME_StartReferenceUpdate s of (RefState, s) \<Rightarrow>
        CFE_TIME_FinishReferenceUpdate RefState (set_ref RefState f s))"

definition CFE_TIME_LatchClock :: "time_state \<Rightarrow> CFE_TIME_SysTime_t \<times> time_state" where
  "CFE_TIME_LatchClock s =
     (let LocalTime = ClockReadings s (ClockReads s)
      in (\<lparr>Seconds = word_of_int (OS_TimeGetTotalSeconds LocalTime),
           Subseconds = OS_TimeGetSubsecondsPart LocalTime\<rparr>,
          s\<lparr>ClockReads := Suc (ClockReads s)\<rparr>))"

definition zero_reference :: CFE_TIME_Reference_t where
  "zero_reference =
     \<lparr>AtToneMET = zero_time, AtToneSTCF = zero_time, AtToneLeapSeconds = 0, ClockSetState = 0, ClockFlyState = 0,
      DelayDirection = 0, AtToneDelay = zero_time, AtToneLatch = zero_time,
      CurrentLatch = zero_time, TimeSinceTone = zero_time, CurrentMET = zero_time\<rparr>"

text \<open>The retry loop of \<^verbatim>\<open>CFE_TIME_GetReference\<close>: the reference read, and the retries left.\<close>

primrec read_reference_loop ::
    "nat \<Rightarrow> CFE_TIME_Reference_t \<Rightarrow> time_state \<Rightarrow> CFE_TIME_Reference_t \<times> nat \<times> time_state" where
  "read_reference_loop 0 r s =
     (let RefState = ReferenceState s (ref_slot (LastVersionCounter s)) in
      case CFE_TIME_LatchClock s of (Latch, s) \<Rightarrow>
        (r\<lparr>CurrentLatch := Latch, AtToneMET := AtToneMET RefState, AtToneSTCF := AtToneSTCF RefState,
           AtToneLeapSeconds := AtToneLeapSeconds RefState, AtToneDelay := AtToneDelay RefState,
           AtToneLatch := AtToneLatch RefState, ClockSetState := ClockSetState RefState,
           ClockFlyState := ClockFlyState RefState, DelayDirection := DelayDirection RefState\<rparr>, 0, s))"
| "read_reference_loop (Suc RetryCount) r s =
     (let VersionCounter = LastVersionCounter s;
          RefState = ReferenceState s (ref_slot VersionCounter) in
      case CFE_TIME_LatchClock s of (Latch, s) \<Rightarrow>
        let r = r\<lparr>CurrentLatch := Latch, AtToneMET := AtToneMET RefState, AtToneSTCF := AtToneSTCF RefState,
           AtToneLeapSeconds := AtToneLeapSeconds RefState, AtToneDelay := AtToneDelay RefState,
           AtToneLatch := AtToneLatch RefState, ClockSetState := ClockSetState RefState,
           ClockFlyState := ClockFlyState RefState, DelayDirection := DelayDirection RefState\<rparr>
        in if VersionCounter = StateVersion RefState then (r, Suc RetryCount, s)
           else read_reference_loop RetryCount r s)"

definition CFE_TIME_GetReference ::
    "time_cfg \<Rightarrow> CFE_TIME_Reference_t \<Rightarrow> time_state \<Rightarrow> CFE_TIME_Reference_t \<times> time_state" where
  "CFE_TIME_GetReference cfg Reference s =
     (case read_reference_loop 4 Reference s of (r, RetryCount, s) \<Rightarrow>
        if RetryCount = 0 then (zero_reference, s\<lparr>GetReferenceFail := True\<rparr>)
        else
          let SinceTone =
                (if CFE_TIME_Compare (CurrentLatch r) (AtToneLatch r) = CFE_TIME_A_LT_B
                 then CFE_TIME_Add (CFE_TIME_Subtract (MaxLocalClock s) (AtToneLatch r)) (CurrentLatch r)
                 else CFE_TIME_Subtract (CurrentLatch r) (AtToneLatch r));
              MET = CFE_TIME_Add SinceTone (AtToneMET r);
              MET = (if CFG_SERVER cfg then MET
                     else if DelayDirection r = CFE_TIME_AdjustDirection_ADD then CFE_TIME_Add MET (AtToneDelay r)
                     else CFE_TIME_Subtract MET (AtToneDelay r))
          in (r\<lparr>TimeSinceTone := SinceTone, CurrentMET := MET\<rparr>, s))"

definition CFE_TIME_CalculateTAI :: "CFE_TIME_Reference_t \<Rightarrow> CFE_TIME_SysTime_t" where
  "CFE_TIME_CalculateTAI r = CFE_TIME_Add (CurrentMET r) (AtToneSTCF r)"

definition CFE_TIME_CalculateUTC :: "CFE_TIME_Reference_t \<Rightarrow> CFE_TIME_SysTime_t" where
  "CFE_TIME_CalculateUTC r =
     (let t = CFE_TIME_Add (CurrentMET r) (AtToneSTCF r) in t\<lparr>Seconds := Seconds t - scast (AtToneLeapSeconds r)\<rparr>)"

definition CFE_TIME_CalculateState :: "time_cfg \<Rightarrow> CFE_TIME_Reference_t \<Rightarrow> time_state \<Rightarrow> int16" where
  "CFE_TIME_CalculateState cfg r s =
     (if ClockSetState r = CFE_TIME_SetState_WAS_SET
      then if ClockFlyState r = CFE_TIME_FlywheelState_NO_FLY
           then if \<not> CFG_SERVER cfg \<and> ServerFlyState s = CFE_TIME_FlywheelState_IS_FLY
                then CFE_TIME_ClockState_FLYWHEEL else CFE_TIME_ClockState_VALID
           else CFE_TIME_ClockState_FLYWHEEL
      else CFE_TIME_ClockState_INVALID)"

section \<open>Settings\<close>

definition CFE_TIME_SetState :: "time_cfg \<Rightarrow> int16 \<Rightarrow> time_state \<Rightarrow> time_state" where
  "CFE_TIME_SetState cfg NewState s =
     (case CFE_TIME_StartReferenceUpdate s of (RefState, s) \<Rightarrow>
        let s = (if NewState = CFE_TIME_ClockState_FLYWHEEL
                 then let s = set_ref RefState (\<lambda>r. r\<lparr>ClockFlyState := CFE_TIME_FlywheelState_IS_FLY\<rparr>) (s\<lparr>Forced2Fly := True\<rparr>)
                      in if CFG_SERVER cfg then s\<lparr>ServerFlyState := CFE_TIME_FlywheelState_IS_FLY\<rparr> else s
                 else if NewState = CFE_TIME_ClockState_VALID
                 then set_ref RefState (\<lambda>r. r\<lparr>ClockSetState := CFE_TIME_SetState_WAS_SET\<rparr>) (s\<lparr>Forced2Fly := False\<rparr>)
                 else set_ref RefState (\<lambda>r. r\<lparr>ClockSetState := CFE_TIME_SetState_NOT_SET\<rparr>) (s\<lparr>Forced2Fly := False\<rparr>))
        in CFE_TIME_FinishReferenceUpdate RefState s)"

definition CFE_TIME_SetSource :: "int16 \<Rightarrow> time_state \<Rightarrow> time_state" where
  "CFE_TIME_SetSource NewSource s = s\<lparr>ClockSource := NewSource\<rparr>"

definition CFE_TIME_SetSignal :: "int16 \<Rightarrow> time_state \<Rightarrow> time_state" where
  "CFE_TIME_SetSignal NewSignal s = s\<lparr>ClockSignal := NewSignal\<rparr>"

definition CFE_TIME_SetDelay :: "CFE_TIME_SysTime_t \<Rightarrow> int16 \<Rightarrow> time_state \<Rightarrow> time_state" where
  "CFE_TIME_SetDelay NewDelay Direction =
     reference_update (\<lambda>r. r\<lparr>AtToneDelay := NewDelay, DelayDirection := Direction\<rparr>)"

definition CFE_TIME_SetTime :: "time_cfg \<Rightarrow> CFE_TIME_SysTime_t \<Rightarrow> time_state \<Rightarrow> time_state" where
  "CFE_TIME_SetTime cfg NewTime s =
     (case CFE_TIME_GetReference cfg zero_reference s of (Reference, s) \<Rightarrow>
        let NewSTCF = CFE_TIME_Subtract NewTime (CurrentMET Reference);
            NewSTCF = (if DEFAULT_TAI cfg then NewSTCF
                       else NewSTCF\<lparr>Seconds := Seconds NewSTCF + scast (AtToneLeapSeconds Reference)\<rparr>)
        in reference_update (\<lambda>r. r\<lparr>AtToneSTCF := NewSTCF\<rparr>) s)"

definition CFE_TIME_SetMET :: "time_cfg \<Rightarrow> CFE_TIME_SysTime_t \<Rightarrow> time_state \<Rightarrow> time_state" where
  "CFE_TIME_SetMET cfg NewMET s =
     (case CFE_TIME_StartReferenceUpdate s of (RefState, s) \<Rightarrow>
        let s = (set_ref RefState (\<lambda>r. r\<lparr>AtToneMET := NewMET\<rparr>) s)\<lparr>VirtualMET := Seconds NewMET\<rparr>
        in case CFE_TIME_LatchClock s of (Latch, s) \<Rightarrow>
           let s = set_ref RefState (\<lambda>r. r\<lparr>AtToneLatch := Latch\<rparr>) s;
               s = (if CFG_VIRTUAL cfg then s else issue (LocalMET_set (Seconds NewMET)) s)
           in CFE_TIME_FinishReferenceUpdate RefState s)"

definition CFE_TIME_SetSTCF :: "CFE_TIME_SysTime_t \<Rightarrow> time_state \<Rightarrow> time_state" where
  "CFE_TIME_SetSTCF NewSTCF = reference_update (\<lambda>r. r\<lparr>AtToneSTCF := NewSTCF\<rparr>)"

definition CFE_TIME_SetLeapSeconds :: "int16 \<Rightarrow> time_state \<Rightarrow> time_state" where
  "CFE_TIME_SetLeapSeconds NewLeaps = reference_update (\<lambda>r. r\<lparr>AtToneLeapSeconds := NewLeaps\<rparr>)"

definition CFE_TIME_SetAdjust :: "CFE_TIME_SysTime_t \<Rightarrow> int16 \<Rightarrow> time_state \<Rightarrow> time_state" where
  "CFE_TIME_SetAdjust NewAdjust Direction s =
     reference_update (\<lambda>r. r\<lparr>AtToneSTCF := if Direction = CFE_TIME_AdjustDirection_ADD
                                             then CFE_TIME_Add (AtToneSTCF r) NewAdjust
                                             else CFE_TIME_Subtract (AtToneSTCF r) NewAdjust\<rparr>)
       (s\<lparr>OneTimeAdjust := NewAdjust, OneTimeDirection := Direction\<rparr>)"

definition CFE_TIME_Set1HzAdj :: "CFE_TIME_SysTime_t \<Rightarrow> int16 \<Rightarrow> time_state \<Rightarrow> time_state" where
  "CFE_TIME_Set1HzAdj NewAdjust Direction s = s\<lparr>OneHzAdjust := NewAdjust, OneHzDirection := Direction\<rparr>"

section \<open>Application interface\<close>

text \<open>The getters fetch the reference and select or compute from it.\<close>

definition CFE_TIME_GetTAI :: "time_cfg \<Rightarrow> time_state \<Rightarrow> CFE_TIME_SysTime_t \<times> time_state" where
  "CFE_TIME_GetTAI cfg s = map_prod CFE_TIME_CalculateTAI id (CFE_TIME_GetReference cfg zero_reference s)"

definition CFE_TIME_GetUTC :: "time_cfg \<Rightarrow> time_state \<Rightarrow> CFE_TIME_SysTime_t \<times> time_state" where
  "CFE_TIME_GetUTC cfg s = map_prod CFE_TIME_CalculateUTC id (CFE_TIME_GetReference cfg zero_reference s)"

definition CFE_TIME_GetTime :: "time_cfg \<Rightarrow> time_state \<Rightarrow> CFE_TIME_SysTime_t \<times> time_state" where
  "CFE_TIME_GetTime cfg s = (if DEFAULT_TAI cfg then CFE_TIME_GetTAI cfg s else CFE_TIME_GetUTC cfg s)"

definition CFE_TIME_GetSTCF :: "time_cfg \<Rightarrow> time_state \<Rightarrow> CFE_TIME_SysTime_t \<times> time_state" where
  "CFE_TIME_GetSTCF cfg s = map_prod AtToneSTCF id (CFE_TIME_GetReference cfg zero_reference s)"

definition CFE_TIME_GetMET :: "time_cfg \<Rightarrow> time_state \<Rightarrow> CFE_TIME_SysTime_t \<times> time_state" where
  "CFE_TIME_GetMET cfg s = map_prod CurrentMET id (CFE_TIME_GetReference cfg zero_reference s)"

definition CFE_TIME_GetMETseconds :: "time_cfg \<Rightarrow> time_state \<Rightarrow> uint32 \<times> time_state" where
  "CFE_TIME_GetMETseconds cfg s =
     map_prod (\<lambda>r. Seconds (CurrentMET r)) id (CFE_TIME_GetReference cfg zero_reference s)"

definition CFE_TIME_GetMETsubsecs :: "time_cfg \<Rightarrow> time_state \<Rightarrow> uint32 \<times> time_state" where
  "CFE_TIME_GetMETsubsecs cfg s =
     map_prod (\<lambda>r. Subseconds (CurrentMET r)) id (CFE_TIME_GetReference cfg zero_reference s)"

definition CFE_TIME_GetLeapSeconds :: "time_cfg \<Rightarrow> time_state \<Rightarrow> int16 \<times> time_state" where
  "CFE_TIME_GetLeapSeconds cfg s = map_prod AtToneLeapSeconds id (CFE_TIME_GetReference cfg zero_reference s)"

definition CFE_TIME_GetClockState :: "time_cfg \<Rightarrow> time_state \<Rightarrow> int16 \<times> time_state" where
  "CFE_TIME_GetClockState cfg s =
     (case CFE_TIME_GetReference cfg zero_reference s of (Reference, s) \<Rightarrow> (CFE_TIME_CalculateState cfg Reference s, s))"

definition CFE_TIME_MET2SCTime :: "time_cfg \<Rightarrow> CFE_TIME_SysTime_t \<Rightarrow> time_state \<Rightarrow> CFE_TIME_SysTime_t \<times> time_state" where
  "CFE_TIME_MET2SCTime cfg METTime s =
     (case CFE_TIME_GetSTCF cfg s of (STCF, s) \<Rightarrow>
        let TIATime = CFE_TIME_Add METTime STCF
        in if DEFAULT_TAI cfg then (TIATime, s)
           else case CFE_TIME_GetLeapSeconds cfg s of (Leaps, s) \<Rightarrow>
             (CFE_TIME_Subtract TIATime \<lparr>Seconds = scast Leaps, Subseconds = 0\<rparr>, s))"

abbreviation (input) flag :: "bool \<Rightarrow> uint16 \<Rightarrow> uint16" where
  "flag b m \<equiv> (if b then m else 0)"

definition CFE_TIME_GetClockInfo :: "time_cfg \<Rightarrow> time_state \<Rightarrow> uint16" where
  "CFE_TIME_GetClockInfo cfg s =
     (let RefState = CFE_TIME_GetReferenceState s
      in flag (ClockSetState RefState = CFE_TIME_SetState_WAS_SET) 0x8000 OR
         flag (ClockFlyState RefState = CFE_TIME_FlywheelState_IS_FLY) 0x4000 OR
         flag (ClockSource s = CFE_TIME_SourceSelect_INTERNAL) 0x2000 OR
         flag (ClockSignal s = CFE_TIME_ToneSignalSelect_PRIMARY) 0x1000 OR
         flag (ServerFlyState s = CFE_TIME_FlywheelState_IS_FLY) 0x0800 OR
         flag (Forced2Fly s) 0x0400 OR
         flag (OneTimeDirection s = CFE_TIME_AdjustDirection_ADD) 0x0200 OR
         flag (OneHzDirection s = CFE_TIME_AdjustDirection_ADD) 0x0100 OR
         flag (DelayDirection RefState = CFE_TIME_AdjustDirection_ADD) 0x0080 OR
         flag (CFG_SERVER cfg) 0x0040 OR
         flag (IsToneGood s) 0x0020 OR
         flag (GetReferenceFail s) 0x0010)"

section \<open>Synchronisation callbacks\<close>

text \<open>The calling application comes from \<^verbatim>\<open>CFE_ES_GetAppID\<close> and \<^verbatim>\<open>CFE_ES_AppID_ToIndex\<close>; their results are
  parameters.  A callback pointer is \<open>None\<close> for NULL.\<close>

definition CFE_TIME_RegisterSynchCallback ::
    "CFE_Status_t \<times> uint32 \<Rightarrow> (uint32 \<Rightarrow> CFE_Status_t \<times> uint32) \<Rightarrow> nat option \<Rightarrow> time_state \<Rightarrow> CFE_Status_t \<times> time_state" where
  "CFE_TIME_RegisterSynchCallback GetAppID ToIndex CallbackFuncPtr s =
     (if CallbackFuncPtr = None then (CFE_TIME_BAD_ARGUMENT, s)
      else case GetAppID of (Status, AppId) \<Rightarrow>
        if Status \<noteq> CFE_SUCCESS then (Status, s)
        else case ToIndex AppId of (Status, AppIndex) \<Rightarrow>
          if Status \<noteq> CFE_SUCCESS then (Status, s)
          else if unat AppIndex \<ge> CFE_PLATFORM_ES_MAX_APPLICATIONS \<or> SynchCallback s (unat AppIndex) \<noteq> None
          then (CFE_TIME_TOO_MANY_SYNCH_CALLBACKS, s)
          else (CFE_SUCCESS, s\<lparr>SynchCallback := (SynchCallback s)(unat AppIndex := CallbackFuncPtr)\<rparr>))"

definition CFE_TIME_UnregisterSynchCallback ::
    "CFE_Status_t \<times> uint32 \<Rightarrow> (uint32 \<Rightarrow> CFE_Status_t \<times> uint32) \<Rightarrow> nat option \<Rightarrow> time_state \<Rightarrow> CFE_Status_t \<times> time_state" where
  "CFE_TIME_UnregisterSynchCallback GetAppID ToIndex CallbackFuncPtr s =
     (if CallbackFuncPtr = None then (CFE_TIME_BAD_ARGUMENT, s)
      else case GetAppID of (Status, AppId) \<Rightarrow>
        if Status \<noteq> CFE_SUCCESS then (Status, s)
        else case ToIndex AppId of (Status, AppIndex) \<Rightarrow>
          if Status \<noteq> CFE_SUCCESS then (Status, s)
          else if unat AppIndex \<ge> CFE_PLATFORM_ES_MAX_APPLICATIONS \<or> SynchCallback s (unat AppIndex) \<noteq> CallbackFuncPtr
          then (CFE_TIME_CALLBACK_NOT_REGISTERED, s)
          else (CFE_SUCCESS, s\<lparr>SynchCallback := (SynchCallback s)(unat AppIndex := None)\<rparr>))"

definition CFE_TIME_CleanUpApp ::
    "(uint32 \<Rightarrow> CFE_Status_t \<times> uint32) \<Rightarrow> uint32 \<Rightarrow> time_state \<Rightarrow> CFE_Status_t \<times> time_state" where
  "CFE_TIME_CleanUpApp ToIndex AppId s =
     (case ToIndex AppId of (Status, AppIndex) \<Rightarrow>
        if Status \<noteq> CFE_SUCCESS then (Status, s)
        else if unat AppIndex < CFE_PLATFORM_ES_MAX_APPLICATIONS
        then (Status, s\<lparr>SynchCallback := (SynchCallback s)(unat AppIndex := None)\<rparr>)
        else (CFE_TIME_CALLBACK_NOT_REGISTERED, s))"

definition CFE_TIME_NotifyTimeSynchApps :: "time_state \<Rightarrow> time_state" where
  "CFE_TIME_NotifyTimeSynchApps s =
     (if IsToneGood s
      then fold (\<lambda>i s. case SynchCallback s i of None \<Rightarrow> s | Some Fn \<Rightarrow> issue (Callback_called Fn) s)
             [0..<CFE_PLATFORM_ES_MAX_APPLICATIONS] s
      else s)"

section \<open>Reset area, initialisation and telemetry\<close>

definition CFE_TIME_QueryResetVars :: "time_cfg \<Rightarrow> time_state \<Rightarrow> time_state" where
  "CFE_TIME_QueryResetVars cfg s =
     (case CFE_TIME_StartReferenceUpdate s of (RefState, s) \<Rightarrow>
        let s = (case ResetArea s of
                   None \<Rightarrow> s\<lparr>DataStoreStatus := CFE_TIME_RESET_AREA_BAD\<rparr>
                 | Some vars \<Rightarrow>
                     if Signature vars = CFE_TIME_RESET_SIGNATURE \<and>
                        (ResetClockSignal vars = CFE_TIME_ToneSignalSelect_PRIMARY \<or>
                         ResetClockSignal vars = CFE_TIME_ToneSignalSelect_REDUNDANT)
                     then (set_ref RefState (\<lambda>r. r\<lparr>AtToneMET := ResetCurrentMET vars, AtToneSTCF := ResetCurrentSTCF vars,
                             AtToneDelay := ResetCurrentDelay vars, AtToneLeapSeconds := ResetLeapSeconds vars\<rparr>) s)
                            \<lparr>ClockSignal := ResetClockSignal vars, DataStoreStatus := CFE_TIME_RESET_AREA_EXISTING\<rparr>
                     else s\<lparr>DataStoreStatus := CFE_TIME_RESET_AREA_NEW\<rparr>);
            s = (if DataStoreStatus s \<noteq> CFE_TIME_RESET_AREA_EXISTING
                 then (set_ref RefState (\<lambda>r. r\<lparr>
                         AtToneMET := \<lparr>Seconds = DEF_MET_SECS cfg, Subseconds = CFE_TIME_Micro2SubSecs (DEF_MET_SUBS cfg)\<rparr>,
                         AtToneSTCF := \<lparr>Seconds = DEF_STCF_SECS cfg, Subseconds = CFE_TIME_Micro2SubSecs (DEF_STCF_SUBS cfg)\<rparr>,
                         AtToneLeapSeconds := DEF_LEAPS cfg, AtToneDelay := zero_time\<rparr>) s)
                        \<lparr>ClockSignal := CFE_TIME_ToneSignalSelect_PRIMARY\<rparr>
                 else s)
        in CFE_TIME_FinishReferenceUpdate RefState s)"

definition CFE_TIME_UpdateResetVars :: "CFE_TIME_Reference_t \<Rightarrow> time_state \<Rightarrow> time_state" where
  "CFE_TIME_UpdateResetVars Reference s =
     (if DataStoreStatus s \<noteq> CFE_TIME_RESET_AREA_ERROR \<and> ResetArea s \<noteq> None
      then s\<lparr>ResetArea := Some \<lparr>Signature = CFE_TIME_RESET_SIGNATURE, ResetLeapSeconds = AtToneLeapSeconds Reference,
               ResetClockSignal = ClockSignal s, ResetCurrentMET = CurrentMET Reference,
               ResetCurrentSTCF = AtToneSTCF Reference, ResetCurrentDelay = AtToneDelay Reference\<rparr>\<rparr>
      else s)"

definition zero_ref_state :: CFE_TIME_ReferenceState_t where
  "zero_ref_state =
     \<lparr>AtToneMET = zero_time, AtToneSTCF = zero_time, AtToneLeapSeconds = 0, ClockSetState = 0, ClockFlyState = 0,
      DelayDirection = 0, AtToneDelay = zero_time, AtToneLatch = zero_time, StateVersion = 0\<rparr>"

definition clear_global :: "time_state \<Rightarrow> time_state" where
  "clear_global s =
     \<lparr>CommandCounter = 0, CommandErrorCounter = 0, ClockSource = 0, ClockSignal = 0, ServerFlyState = 0,
      PendingMET = zero_time, PendingSTCF = zero_time, PendingLeaps = 0, PendingState = 0,
      OneTimeAdjust = zero_time, OneHzAdjust = zero_time, OneTimeDirection = 0, OneHzDirection = 0,
      ToneSignalLatch = zero_time, ToneDataLatch = zero_time, ToneMatchCounter = 0, ToneMatchErrorCounter = 0,
      ToneSignalCounter = 0, ToneDataCounter = 0, ToneIntCounter = 0, ToneIntErrorCounter = 0, ToneTaskCounter = 0,
      VirtualMET = 0, LocalIntCounter = 0, LocalTaskCounter = 0, InternalCount = 0, ExternalCount = 0,
      ReferenceState = \<lambda>_. zero_ref_state, LastVersionCounter = 0, ResetVersionCounter = 0,
      MinElapsed = 0, MaxElapsed = 0, MaxLocalClock = zero_time, Forced2Fly = False, AutoStartFly = False,
      IsToneGood = False, GetReferenceFail = False,
      ToneDataCmd = \<lparr>CmdAtToneMET = zero_time, CmdAtToneSTCF = zero_time, CmdAtToneLeapSeconds = 0, CmdAtToneState = 0\<rparr>,
      MaxDelta = zero_time, ToneOverLimit = 0, ToneUnderLimit = 0, DataStoreStatus = 0, SynchCallback = \<lambda>_. None,
      HkPacket = \<lparr>HkCommandCounter = 0, HkCommandErrorCounter = 0, HkClockStateFlags = 0, HkClockStateAPI = 0,
        HkLeapSeconds = 0, SecondsMET = 0, SubsecsMET = 0, SecondsSTCF = 0, SubsecsSTCF = 0, Seconds1HzAdj = 0,
        Subsecs1HzAdj = 0, SecondsDelay = 0, SubsecsDelay = 0\<rparr>,
      PrevTime1 = PrevTime1 s, PrevTime2 = PrevTime2 s, ClockReadings = ClockReadings s, ClockReads = ClockReads s,
      LocalMETReadings = LocalMETReadings s, LocalMETReads = LocalMETReads s, ResetArea = ResetArea s, Outputs = Outputs s\<rparr>"

text \<open>The message headers that the initialisation sets up with \<^verbatim>\<open>CFE_MSG_Init\<close> are not part of the state.\<close>

definition CFE_TIME_InitData :: "time_cfg \<Rightarrow> time_state \<Rightarrow> time_state" where
  "CFE_TIME_InitData cfg s =
     (let s = clear_global s;
          s = s\<lparr>ReferenceState := \<lambda>i. if i < 4 then (ReferenceState s i)\<lparr>StateVersion := 0xFFFFFFFF\<rparr> else ReferenceState s i\<rparr>;
          s = CFE_TIME_QueryResetVars cfg s
      in case CFE_TIME_StartReferenceUpdate s of (RefState, s) \<Rightarrow>
         case CFE_TIME_LatchClock s of (Latch, s) \<Rightarrow>
         let s = set_ref RefState (\<lambda>r. r\<lparr>AtToneLatch := Latch, ClockSetState := CFE_TIME_SetState_NOT_SET,
                                      ClockFlyState := CFE_TIME_FlywheelState_IS_FLY\<rparr>) s;
             s = s\<lparr>ClockSource := if CFG_SOURCE cfg then CFE_TIME_SourceSelect_EXTERNAL else CFE_TIME_SourceSelect_INTERNAL,
                   ServerFlyState := CFE_TIME_FlywheelState_IS_FLY, PendingState := CFE_TIME_ClockState_INVALID,
                   OneTimeDirection := CFE_TIME_AdjustDirection_ADD, OneHzDirection := CFE_TIME_AdjustDirection_ADD\<rparr>;
             s = set_ref RefState (\<lambda>r. r\<lparr>DelayDirection := CFE_TIME_AdjustDirection_ADD\<rparr>) s;
             s = s\<lparr>VirtualMET := Seconds (AtToneMET (ReferenceState s RefState)),
                   MinElapsed := CFE_TIME_Micro2SubSecs (MIN_ELAPSED cfg),
                   MaxElapsed := CFE_TIME_Micro2SubSecs (MAX_ELAPSED cfg)\<rparr>;
             s = (if CFG_SOURCE cfg
                  then s\<lparr>MaxDelta := \<lparr>Seconds = MAX_DELTA_SECS cfg, Subseconds = CFE_TIME_Micro2SubSecs (MAX_DELTA_SUBS cfg)\<rparr>\<rparr>
                  else s);
             s = s\<lparr>MaxLocalClock := \<lparr>Seconds = MAX_LOCAL_SECS cfg, Subseconds = MAX_LOCAL_SUBS cfg\<rparr>,
                   ToneOverLimit := CFE_TIME_Micro2SubSecs (TONE_LIMIT cfg),
                   ToneUnderLimit := CFE_TIME_Micro2SubSecs (1000000 - TONE_LIMIT cfg)\<rparr>
         in CFE_TIME_FinishReferenceUpdate RefState s)"

definition CFE_TIME_GetHkData :: "time_cfg \<Rightarrow> CFE_TIME_Reference_t \<Rightarrow> time_state \<Rightarrow> time_state" where
  "CFE_TIME_GetHkData cfg Reference s =
     (let hk = (HkPacket s)\<lparr>HkCommandCounter := CommandCounter s, HkCommandErrorCounter := CommandErrorCounter s,
            HkClockStateAPI := CFE_TIME_CalculateState cfg Reference s, HkClockStateFlags := CFE_TIME_GetClockInfo cfg s,
            HkLeapSeconds := AtToneLeapSeconds Reference,
            SecondsMET := Seconds (CurrentMET Reference), SubsecsMET := Subseconds (CurrentMET Reference),
            SecondsSTCF := Seconds (AtToneSTCF Reference), SubsecsSTCF := Subseconds (AtToneSTCF Reference)\<rparr>;
          hk = (if CFG_SERVER cfg
                then hk\<lparr>Seconds1HzAdj := Seconds (OneHzAdjust s), Subsecs1HzAdj := Subseconds (OneHzAdjust s)\<rparr>
                else hk\<lparr>SecondsDelay := Seconds (AtToneDelay Reference), SubsecsDelay := Subseconds (AtToneDelay Reference)\<rparr>)
      in s\<lparr>HkPacket := hk\<rparr>)"

text \<open>The diagnostics packet, whose every member the function assigns.\<close>

definition CFE_TIME_GetDiagData :: "time_cfg \<Rightarrow> time_state \<Rightarrow> CFE_TIME_DiagnosticTlm_Payload_t \<times> time_state" where
  "CFE_TIME_GetDiagData cfg s =
     (case CFE_TIME_GetReference cfg zero_reference s of (Reference, s) \<Rightarrow> (
         \<lparr>DiagAtToneMET = AtToneMET Reference, DiagAtToneSTCF = AtToneSTCF Reference,
          DiagAtToneDelay = AtToneDelay Reference, DiagAtToneLatch = AtToneLatch Reference,
          DiagAtToneLeapSeconds = AtToneLeapSeconds Reference, DiagClockStateAPI =
          CFE_TIME_CalculateState cfg Reference s, DiagTimeSinceTone = TimeSinceTone Reference,
          DiagCurrentLatch = CurrentLatch Reference, DiagCurrentMET = CurrentMET Reference,
          DiagCurrentTAI = CFE_TIME_CalculateTAI Reference, DiagCurrentUTC = CFE_TIME_CalculateUTC
          Reference, DiagClockSetState = ClockSetState Reference, DiagClockFlyState = ClockFlyState
          Reference, DiagClockSource = ClockSource s, DiagClockSignal = ClockSignal s,
          DiagServerFlyState = ServerFlyState s, DiagForced2Fly = if Forced2Fly s then 1 else 0,
          DiagClockStateFlags = CFE_TIME_GetClockInfo cfg s, DiagOneTimeDirection = OneTimeDirection
          s, DiagOneHzDirection = OneHzDirection s, DiagDelayDirection = DelayDirection Reference,
          DiagOneTimeAdjust = OneTimeAdjust s, DiagOneHzAdjust = OneHzAdjust s, DiagToneSignalLatch
          = ToneSignalLatch s, DiagToneDataLatch = ToneDataLatch s, DiagToneMatchCounter =
          ToneMatchCounter s, DiagToneMatchErrorCounter = ToneMatchErrorCounter s,
          DiagToneSignalCounter = ToneSignalCounter s, DiagToneDataCounter = ToneDataCounter s,
          DiagToneIntCounter = ToneIntCounter s, DiagToneIntErrorCounter = ToneIntErrorCounter s,
          DiagToneTaskCounter = ToneTaskCounter s, DiagVersionCounter = LastVersionCounter s -
           ResetVersionCounter s, DiagLocalIntCounter = LocalIntCounter s,
          DiagLocalTaskCounter = LocalTaskCounter s, DiagVirtualMET = VirtualMET s, DiagMinElapsed =
          MinElapsed s, DiagMaxElapsed = MaxElapsed s, DiagMaxLocalClock = MaxLocalClock s,
          DiagToneOverLimit = ToneOverLimit s, DiagToneUnderLimit = ToneUnderLimit s,
          DiagDataStoreStatus = DataStoreStatus s\<rparr>, s))"

end
