(* ===== verification/CFS_TimeTone.thy ===== *)
theory CFS_TimeTone
  imports CFS_TimeState
begin

text \<open>
  Time at the tone, \<^verbatim>\<open>cfe_time_tone.c\<close>: sending and receiving the tone data, matching tone and data, the tone
  interrupt, and the 1 Hz state machine that starts the flywheel and re-latches the reference.
  Performance log calls are not modelled.
\<close>

section \<open>Tone data\<close>

text \<open>The byte order macros of \<^verbatim>\<open>cfe_endian.h\<close> on a little-endian target; on a big-endian one they do nothing, as in
  a build without \<^verbatim>\<open>CFE_PLATFORM_TIME_CFG_BIGENDIAN\<close>.\<close>

definition CFE_MAKE_BIG16 :: "uint16 \<Rightarrow> uint16" where
  "CFE_MAKE_BIG16 n = push_bit 8 (n AND 0x00FF) OR drop_bit 8 (n AND 0xFF00)"

definition CFE_MAKE_BIG32 :: "uint32 \<Rightarrow> uint32" where
  "CFE_MAKE_BIG32 n =
     push_bit 24 (n AND 0x000000FF) OR push_bit 8 (n AND 0x0000FF00) OR
     drop_bit 8 (n AND 0x00FF0000) OR drop_bit 24 (n AND 0xFF000000)"

definition payload_time :: "time_cfg \<Rightarrow> CFE_TIME_SysTime_t \<Rightarrow> CFE_TIME_SysTime_t" where
  "payload_time cfg t =
     (if CFG_BIGENDIAN cfg then \<lparr>Seconds = CFE_MAKE_BIG32 (Seconds t), Subseconds = CFE_MAKE_BIG32 (Subseconds t)\<rparr> else t)"

definition payload16 :: "time_cfg \<Rightarrow> int16 \<Rightarrow> int16" where
  "payload16 cfg w = (if CFG_BIGENDIAN cfg then CFE_MAKE_BIG16 w else w)"

text \<open>Filling the payload of the tone data command and transmitting it.\<close>

definition send_tone_data ::
    "time_cfg \<Rightarrow> CFE_TIME_SysTime_t \<Rightarrow> CFE_TIME_SysTime_t \<Rightarrow> int16 \<Rightarrow> int16 \<Rightarrow> time_state \<Rightarrow> time_state" where
  "send_tone_data cfg NewMET STCF Leaps State s =
     (let p = \<lparr>CmdAtToneMET = payload_time cfg NewMET, CmdAtToneSTCF = payload_time cfg STCF,
               CmdAtToneLeapSeconds = payload16 cfg Leaps, CmdAtToneState = payload16 cfg State\<rparr>
      in issue (ToneDataCmd_sent p) (s\<lparr>ToneDataCmd := p\<rparr>))"

definition OS_GetLocalMET :: "time_state \<Rightarrow> uint32 \<times> time_state" where
  "OS_GetLocalMET s = (LocalMETReadings s (LocalMETReads s), s\<lparr>LocalMETReads := Suc (LocalMETReads s)\<rparr>)"

definition CFE_TIME_ToneSend :: "time_cfg \<Rightarrow> time_state \<Rightarrow> time_state" where
  "CFE_TIME_ToneSend cfg s =
     (case CFE_TIME_GetReference cfg zero_reference s of (Reference, s) \<Rightarrow>
      case (if ClockFlyState Reference = CFE_TIME_FlywheelState_IS_FLY then (Seconds (CurrentMET Reference), s)
            else if CFG_VIRTUAL cfg then (VirtualMET s, s)
            else OS_GetLocalMET s) of (NewSeconds, s) \<Rightarrow>
        let NewSeconds = (if AT_TONE_WILL_BE cfg then NewSeconds + 1 else NewSeconds);
            s = send_tone_data cfg \<lparr>Seconds = NewSeconds, Subseconds = 0\<rparr> (AtToneSTCF Reference)
                  (AtToneLeapSeconds Reference) (CFE_TIME_CalculateState cfg Reference s) s
        in s\<lparr>InternalCount := InternalCount s + 1\<rparr>)"

text \<open>The range check of external time data.\<close>

definition out_of_range ::
    "CFE_TIME_Reference_t \<Rightarrow> CFE_TIME_SysTime_t \<Rightarrow> CFE_TIME_SysTime_t \<Rightarrow> time_state \<Rightarrow> bool" where
  "out_of_range Reference New Expected s \<longleftrightarrow>
     ClockSetState Reference = CFE_TIME_SetState_WAS_SET \<and>
     (CFE_TIME_Compare New (CFE_TIME_Subtract Expected (MaxDelta s)) = CFE_TIME_A_LT_B \<or>
      CFE_TIME_Compare New (CFE_TIME_Add Expected (MaxDelta s)) = CFE_TIME_A_GT_B)"

definition CFE_TIME_ToneSendMET :: "time_cfg \<Rightarrow> CFE_TIME_SysTime_t \<Rightarrow> time_state \<Rightarrow> CFE_Status_t \<times> time_state" where
  "CFE_TIME_ToneSendMET cfg NewMET s =
     (if ClockSource s = CFE_TIME_SourceSelect_INTERNAL then (CFE_TIME_INTERNAL_ONLY, CFE_TIME_ToneSend cfg s)
      else case CFE_TIME_GetReference cfg zero_reference s of (Reference, s) \<Rightarrow>
        let Expected = \<lparr>Seconds = Seconds (CurrentMET Reference), Subseconds = 0\<rparr>;
            Expected = (if AT_TONE_WILL_BE cfg then Expected\<lparr>Seconds := Seconds Expected + 1\<rparr> else Expected)
        in if out_of_range Reference NewMET Expected s
           then (CFE_TIME_OUT_OF_RANGE, CFE_TIME_ToneSend cfg s)
           else let s = send_tone_data cfg NewMET (AtToneSTCF Reference) (AtToneLeapSeconds Reference)
                          (CFE_TIME_CalculateState cfg Reference s) s
                in (CFE_SUCCESS, s\<lparr>ExternalCount := ExternalCount s + 1\<rparr>))"

definition CFE_TIME_ToneSendGPS ::
    "time_cfg \<Rightarrow> CFE_TIME_SysTime_t \<Rightarrow> int16 \<Rightarrow> time_state \<Rightarrow> CFE_Status_t \<times> time_state" where
  "CFE_TIME_ToneSendGPS cfg NewTime NewLeaps s =
     (if ClockSource s = CFE_TIME_SourceSelect_INTERNAL then (CFE_TIME_INTERNAL_ONLY, CFE_TIME_ToneSend cfg s)
      else case CFE_TIME_GetReference cfg zero_reference s of (Reference, s) \<Rightarrow>
        let NewMET = \<lparr>Seconds = Seconds (CurrentMET Reference), Subseconds = 0\<rparr>;
            NewMET = (if AT_TONE_WILL_BE cfg then NewMET\<lparr>Seconds := Seconds NewMET + 1\<rparr> else NewMET);
            NewSTCF = CFE_TIME_Subtract NewTime NewMET;
            NewSTCF = (if DEFAULT_TAI cfg then NewSTCF else NewSTCF\<lparr>Seconds := Seconds NewSTCF + scast NewLeaps\<rparr>)
        in if out_of_range Reference NewSTCF (AtToneSTCF Reference) s
           then (CFE_TIME_OUT_OF_RANGE, CFE_TIME_ToneSend cfg s)
           else let s = send_tone_data cfg NewMET NewSTCF NewLeaps (CFE_TIME_CalculateState cfg Reference s) s
                in (CFE_SUCCESS, s\<lparr>ExternalCount := ExternalCount s + 1\<rparr>))"

definition CFE_TIME_ToneSendTime :: "time_cfg \<Rightarrow> CFE_TIME_SysTime_t \<Rightarrow> time_state \<Rightarrow> CFE_Status_t \<times> time_state" where
  "CFE_TIME_ToneSendTime cfg NewTime s =
     (if ClockSource s = CFE_TIME_SourceSelect_INTERNAL then (CFE_TIME_INTERNAL_ONLY, CFE_TIME_ToneSend cfg s)
      else case CFE_TIME_GetReference cfg zero_reference s of (Reference, s) \<Rightarrow>
        let NewMET = \<lparr>Seconds = Seconds (CurrentMET Reference), Subseconds = 0\<rparr>;
            NewMET = (if AT_TONE_WILL_BE cfg then NewMET\<lparr>Seconds := Seconds NewMET + 1\<rparr> else NewMET);
            NewSTCF = CFE_TIME_Subtract NewTime NewMET;
            NewSTCF = (if DEFAULT_TAI cfg then NewSTCF
                       else NewSTCF\<lparr>Seconds := Seconds NewSTCF + scast (AtToneLeapSeconds Reference)\<rparr>)
        in if out_of_range Reference NewSTCF (AtToneSTCF Reference) s
           then (CFE_TIME_OUT_OF_RANGE, CFE_TIME_ToneSend cfg s)
           else let s = send_tone_data cfg NewMET NewSTCF (AtToneLeapSeconds Reference)
                          (CFE_TIME_CalculateState cfg Reference s) s
                in (CFE_SUCCESS, s\<lparr>ExternalCount := ExternalCount s + 1\<rparr>))"

section \<open>Matching tone and data\<close>

definition server_tone_update :: "time_cfg \<Rightarrow> CFE_TIME_Reference_t \<Rightarrow> nat \<Rightarrow> time_state \<Rightarrow> bool \<times> time_state" where
  "server_tone_update cfg Reference NextState s =
     (let set = \<lambda>f. set_ref NextState f;
          s = set (\<lambda>r. r\<lparr>AtToneLatch := ToneSignalLatch s\<rparr>) s;
          s = (if ClockSource s = CFE_TIME_SourceSelect_INTERNAL
               then let s = (if ClockFlyState (ReferenceState s NextState) = CFE_TIME_FlywheelState_IS_FLY
                             then s\<lparr>VirtualMET := Seconds (CurrentMET Reference)\<rparr> else s)
                    in set (\<lambda>r. r\<lparr>AtToneMET := \<lparr>Seconds = VirtualMET s, Subseconds = 0\<rparr>\<rparr>) s
               else case CFG_SRC cfg of
                      SRC_NONE \<Rightarrow> s
                    | SRC_MET \<Rightarrow> (set (\<lambda>r. r\<lparr>AtToneMET := PendingMET s\<rparr>) s)\<lparr>VirtualMET := Seconds (PendingMET s)\<rparr>
                    | SRC_GPS \<Rightarrow> set (\<lambda>r. r\<lparr>AtToneMET := \<lparr>Seconds = VirtualMET s, Subseconds = 0\<rparr>,
                                             AtToneSTCF := PendingSTCF s, AtToneLeapSeconds := PendingLeaps s\<rparr>) s
                    | SRC_TIME \<Rightarrow> set (\<lambda>r. r\<lparr>AtToneMET := \<lparr>Seconds = VirtualMET s, Subseconds = 0\<rparr>,
                                              AtToneSTCF := PendingSTCF s\<rparr>) s)
      in if ClockFlyState (ReferenceState s NextState) = CFE_TIME_FlywheelState_IS_FLY
         then (True, (set (\<lambda>r. r\<lparr>ClockFlyState := CFE_TIME_FlywheelState_NO_FLY\<rparr>) s)
                       \<lparr>ServerFlyState := CFE_TIME_FlywheelState_NO_FLY\<rparr>)
         else (False, s))"

definition client_tone_update :: "nat \<Rightarrow> time_state \<Rightarrow> bool \<times> time_state" where
  "client_tone_update NextState s =
     (let set = \<lambda>f. set_ref NextState f;
          s = set (\<lambda>r. r\<lparr>AtToneLatch := ToneSignalLatch s, AtToneMET := PendingMET s,
                          AtToneSTCF := PendingSTCF s, AtToneLeapSeconds := PendingLeaps s\<rparr>) s;
          s = (if PendingState s = CFE_TIME_ClockState_INVALID
               then (set (\<lambda>r. r\<lparr>ClockSetState := CFE_TIME_SetState_NOT_SET\<rparr>) s)
                      \<lparr>ServerFlyState := CFE_TIME_FlywheelState_NO_FLY\<rparr>
               else (set (\<lambda>r. r\<lparr>ClockSetState := CFE_TIME_SetState_WAS_SET\<rparr>) s)
                      \<lparr>ServerFlyState := if PendingState s = CFE_TIME_ClockState_FLYWHEEL
                                         then CFE_TIME_FlywheelState_IS_FLY else CFE_TIME_FlywheelState_NO_FLY\<rparr>)
      in if ClockFlyState (ReferenceState s NextState) = CFE_TIME_FlywheelState_IS_FLY
         then (True, set (\<lambda>r. r\<lparr>ClockFlyState := CFE_TIME_FlywheelState_NO_FLY\<rparr>) s)
         else (False, s))"

text \<open>The function-local \<^verbatim>\<open>Reference\<close> of \<^verbatim>\<open>CFE_TIME_ToneUpdate\<close> is not cleared first; a read of the reference
  assigns every field it uses.\<close>

definition CFE_TIME_ToneUpdate :: "time_cfg \<Rightarrow> time_state \<Rightarrow> time_state" where
  "CFE_TIME_ToneUpdate cfg s =
     (case CFE_TIME_GetReference cfg zero_reference s of (Reference, s) \<Rightarrow>
      case CFE_TIME_StartReferenceUpdate s of (NextState, s) \<Rightarrow>
      case (if CFG_SERVER cfg then server_tone_update cfg Reference NextState s
            else client_tone_update NextState s) of (NewFlywheelStatus, s) \<Rightarrow>
        let s = CFE_TIME_FinishReferenceUpdate NextState s
        in if NewFlywheelStatus then issue (Event_sent ''CFE_TIME_FLY_OFF_EID'') s else s)"

definition elapsed_time :: "CFE_TIME_SysTime_t \<Rightarrow> CFE_TIME_SysTime_t \<Rightarrow> time_state \<Rightarrow> CFE_TIME_SysTime_t" where
  "elapsed_time Time1 Time2 s =
     (if CFE_TIME_Compare Time1 Time2 = CFE_TIME_A_GT_B
      then CFE_TIME_Add (CFE_TIME_Subtract (MaxLocalClock s) Time1) Time2
      else CFE_TIME_Subtract Time2 Time1)"

definition CFE_TIME_ToneVerify :: "time_cfg \<Rightarrow> CFE_TIME_SysTime_t \<Rightarrow> CFE_TIME_SysTime_t \<Rightarrow> time_state \<Rightarrow> time_state" where
  "CFE_TIME_ToneVerify cfg Time1 Time2 s =
     (let mismatch = (\<lambda>s. s\<lparr>ToneMatchErrorCounter := ToneMatchErrorCounter s + 1\<rparr>);
          s = (if CFE_TIME_Compare (PrevTime1 s) Time1 = CFE_TIME_EQUAL then mismatch s
               else if CFE_TIME_Compare (PrevTime2 s) Time2 = CFE_TIME_EQUAL then mismatch s
               else
                 let elapsed = elapsed_time Time1 Time2 s
                 in if Seconds elapsed \<noteq> 0 \<or> Subseconds elapsed < MinElapsed s \<or> Subseconds elapsed > MaxElapsed s
                    then mismatch s
                    else let s = s\<lparr>ToneMatchCounter := ToneMatchCounter s + 1\<rparr>
                         in if \<not> Forced2Fly s then CFE_TIME_ToneUpdate cfg s else s)
      in s\<lparr>PrevTime1 := Time1, PrevTime2 := Time2\<rparr>)"

definition CFE_TIME_ToneData :: "time_cfg \<Rightarrow> CFE_TIME_ToneDataCmd_Payload_t \<Rightarrow> time_state \<Rightarrow> time_state" where
  "CFE_TIME_ToneData cfg Cmd s =
     (case CFE_TIME_LatchClock s of (Latch, s) \<Rightarrow>
        let s = s\<lparr>ToneDataLatch := Latch,
                  PendingMET := payload_time cfg (CmdAtToneMET Cmd), PendingSTCF := payload_time cfg (CmdAtToneSTCF Cmd),
                  PendingLeaps := payload16 cfg (CmdAtToneLeapSeconds Cmd), PendingState := payload16 cfg (CmdAtToneState Cmd)\<rparr>;
            s = (if AT_TONE_WILL_BE cfg then s else CFE_TIME_ToneVerify cfg (ToneSignalLatch s) (ToneDataLatch s) s)
        in s\<lparr>ToneDataCounter := ToneDataCounter s + 1\<rparr>)"

definition CFE_TIME_ToneSignal :: "time_cfg \<Rightarrow> time_state \<Rightarrow> time_state" where
  "CFE_TIME_ToneSignal cfg s =
     (let s = (if AT_TONE_WILL_BE cfg then CFE_TIME_ToneVerify cfg (ToneDataLatch s) (ToneSignalLatch s) s else s)
      in s\<lparr>ToneSignalCounter := ToneSignalCounter s + 1\<rparr>)"

section \<open>Interrupts and tasks\<close>

definition CFE_TIME_Tone1HzISR :: "time_cfg \<Rightarrow> time_state \<Rightarrow> time_state" where
  "CFE_TIME_Tone1HzISR cfg s =
     (case CFE_TIME_LatchClock s of (Latch, s) \<Rightarrow>
        let Elapsed = (if CFE_TIME_Compare Latch (ToneSignalLatch s) = CFE_TIME_A_LT_B
                       then CFE_TIME_Add (CFE_TIME_Subtract (MaxLocalClock s) (ToneSignalLatch s)) Latch
                       else CFE_TIME_Subtract Latch (ToneSignalLatch s));
            s = (if Seconds Elapsed = 1 \<and> Subseconds Elapsed < ToneOverLimit s \<or>
                    Seconds Elapsed = 0 \<and> Subseconds Elapsed > ToneUnderLimit s
                 then let s = s\<lparr>ToneIntCounter := ToneIntCounter s + 1, IsToneGood := True\<rparr>;
                          s = (if CFG_VIRTUAL cfg then s\<lparr>VirtualMET := VirtualMET s + 1\<rparr>
                               else case OS_GetLocalMET s of (w, s) \<Rightarrow> s\<lparr>VirtualMET := w\<rparr>)
                      in issue ToneSemaphore_given s
                 else s\<lparr>ToneIntErrorCounter := ToneIntErrorCounter s + 1, IsToneGood := False\<rparr>)
        in CFE_TIME_NotifyTimeSynchApps (s\<lparr>ToneSignalLatch := Latch\<rparr>))"

definition CFE_TIME_ExternalTone :: "time_cfg \<Rightarrow> time_state \<Rightarrow> time_state" where
  "CFE_TIME_ExternalTone cfg s = CFE_TIME_Tone1HzISR cfg s"

definition CFE_TIME_ExternalMET :: "time_cfg \<Rightarrow> CFE_TIME_SysTime_t \<Rightarrow> time_state \<Rightarrow> time_state" where
  "CFE_TIME_ExternalMET cfg NewMET s = snd (CFE_TIME_ToneSendMET cfg NewMET s)"

definition CFE_TIME_ExternalGPS :: "time_cfg \<Rightarrow> CFE_TIME_SysTime_t \<Rightarrow> int16 \<Rightarrow> time_state \<Rightarrow> time_state" where
  "CFE_TIME_ExternalGPS cfg NewTime NewLeaps s = snd (CFE_TIME_ToneSendGPS cfg NewTime NewLeaps s)"

definition CFE_TIME_ExternalTime :: "time_cfg \<Rightarrow> CFE_TIME_SysTime_t \<Rightarrow> time_state \<Rightarrow> time_state" where
  "CFE_TIME_ExternalTime cfg NewTime s = snd (CFE_TIME_ToneSendTime cfg NewTime s)"

text \<open>The body of the tone task, run each time its semaphore is taken; the task ends when that fails.\<close>

definition CFE_TIME_Tone1HzTask :: "time_cfg \<Rightarrow> time_state \<Rightarrow> time_state" where
  "CFE_TIME_Tone1HzTask cfg s =
     (let s = issue ToneSignalCmd_sent s;
          s = (if FAKE_TONE cfg then issue ToneSendCmd_sent s else s)
      in s\<lparr>ToneTaskCounter := ToneTaskCounter s + 1\<rparr>)"

definition CFE_TIME_Local1HzStateMachine :: "time_cfg \<Rightarrow> time_state \<Rightarrow> time_state" where
  "CFE_TIME_Local1HzStateMachine cfg s =
     (let s = (if CFG_SERVER cfg \<and> (Seconds (OneHzAdjust s) \<noteq> 0 \<or> Subseconds (OneHzAdjust s) \<noteq> 0)
               then reference_update (\<lambda>r. r\<lparr>AtToneSTCF :=
                      if OneHzDirection s = CFE_TIME_AdjustDirection_ADD
                      then CFE_TIME_Add (AtToneSTCF r) (OneHzAdjust s)
                      else CFE_TIME_Subtract (AtToneSTCF r) (OneHzAdjust s)\<rparr>) s
               else s)
      in case CFE_TIME_GetReference cfg zero_reference s of (Reference, s) \<Rightarrow>
         let s = (if ClockFlyState Reference = CFE_TIME_FlywheelState_NO_FLY \<and>
                     Seconds (TimeSinceTone Reference) \<ge> START_FLY cfg
                  then case CFE_TIME_StartReferenceUpdate s of (NextState, s) \<Rightarrow>
                       let s = set_ref NextState (\<lambda>r. r\<lparr>ClockFlyState := CFE_TIME_FlywheelState_IS_FLY\<rparr>) s;
                           s = (if CFG_SERVER cfg then s\<lparr>ServerFlyState := CFE_TIME_FlywheelState_IS_FLY\<rparr> else s)
                       in CFE_TIME_FinishReferenceUpdate NextState (s\<lparr>AutoStartFly := True\<rparr>)
                  else s)
         in if ClockFlyState Reference = CFE_TIME_FlywheelState_IS_FLY \<and>
               Seconds (TimeSinceTone Reference) \<ge> LATCH_FLY cfg
            then reference_update (\<lambda>r. r\<lparr>AtToneMET := CurrentMET Reference, AtToneLatch := CurrentLatch Reference\<rparr>) s
            else s)"

definition CFE_TIME_Local1HzISR :: "time_state \<Rightarrow> time_state" where
  "CFE_TIME_Local1HzISR s = issue LocalSemaphore_given (s\<lparr>LocalIntCounter := LocalIntCounter s + 1\<rparr>)"

definition CFE_TIME_Local1HzTask :: "time_state \<Rightarrow> time_state" where
  "CFE_TIME_Local1HzTask s =
     (let s = (if AutoStartFly s then issue (Event_sent ''CFE_TIME_FLY_ON_EID'') (s\<lparr>AutoStartFly := False\<rparr>) else s);
          s = issue LocalOneHzCmd_sent s
      in s\<lparr>LocalTaskCounter := LocalTaskCounter s + 1\<rparr>)"

end
