(* ===== verification/CFS_TimeTask.thy ===== *)
theory CFS_TimeTask
  imports CFS_TimeTone
begin

text \<open>
  The command handlers of the time task, \<^verbatim>\<open>cfe_time_task.c\<close>, and the dispatch of a received message to them,
  \<^verbatim>\<open>cfe_time_dispatch.c\<close>.  A message is the record of what the dispatcher reads from it: message ID, function
  code, size, and the payload members of the command types.  Events are named by their event ID.
\<close>

section \<open>Messages\<close>

record time_msg =
  MsgId :: uint32
  FcnCode :: uint16
  MsgSize :: uint64
  PayloadClockState :: int16
  PayloadTimeSource :: int16
  PayloadToneSource :: int16
  PayloadSeconds :: uint32
  PayloadMicroSeconds :: uint32
  PayloadSubseconds :: uint32
  PayloadLeapSeconds :: int16
  PayloadToneData :: CFE_TIME_ToneDataCmd_Payload_t

text \<open>Message IDs and the sizes of the command types, which the build fixes.\<close>

record time_msg_cfg =
  SEND_HK_MID :: uint32
  TONE_CMD_MID :: uint32
  DATA_CMD_MID :: uint32
  ONEHZ_CMD_MID :: uint32
  SEND_CMD_MID :: uint32
  CMD_MID :: uint32
  cmd_length :: "uint16 \<Rightarrow> uint64"

section \<open>Command handlers\<close>

abbreviation (input) accept_command :: "string \<Rightarrow> time_state \<Rightarrow> time_state" where
  "accept_command EventID s \<equiv> issue (Event_sent EventID) (s\<lparr>CommandCounter := CommandCounter s + 1\<rparr>)"

abbreviation (input) reject_command :: "string \<Rightarrow> time_state \<Rightarrow> time_state" where
  "reject_command EventID s \<equiv> issue (Event_sent EventID) (s\<lparr>CommandErrorCounter := CommandErrorCounter s + 1\<rparr>)"

text \<open>\<^verbatim>\<open>CFE_SB_TimeStampMsg\<close> reads the time for the header of a packet; the header is not part of the model.\<close>

definition time_stamp :: "time_cfg \<Rightarrow> time_state \<Rightarrow> time_state" where
  "time_stamp cfg s = snd (CFE_TIME_GetTime cfg s)"

definition CFE_TIME_SendHkCmd :: "time_cfg \<Rightarrow> time_state \<Rightarrow> time_state" where
  "CFE_TIME_SendHkCmd cfg s =
     (case CFE_TIME_GetReference cfg zero_reference s of (Reference, s) \<Rightarrow>
        let s = CFE_TIME_GetHkData cfg Reference (CFE_TIME_UpdateResetVars Reference s)
        in issue (HkPacket_sent (HkPacket s)) (time_stamp cfg s))"

definition CFE_TIME_ToneSignalCmd :: "time_cfg \<Rightarrow> time_state \<Rightarrow> time_state" where
  "CFE_TIME_ToneSignalCmd cfg s = CFE_TIME_ToneSignal cfg s"

definition CFE_TIME_ToneDataCmd :: "time_cfg \<Rightarrow> time_msg \<Rightarrow> time_state \<Rightarrow> time_state" where
  "CFE_TIME_ToneDataCmd cfg data s = CFE_TIME_ToneData cfg (PayloadToneData data) s"

definition CFE_TIME_OneHzCmd :: "time_cfg \<Rightarrow> time_state \<Rightarrow> time_state" where
  "CFE_TIME_OneHzCmd cfg s =
     (let s = CFE_TIME_Local1HzStateMachine cfg s
      in if FAKE_TONE cfg then CFE_TIME_Tone1HzISR cfg s else s)"

definition CFE_TIME_ToneSendCmd :: "time_cfg \<Rightarrow> time_state \<Rightarrow> time_state" where
  "CFE_TIME_ToneSendCmd cfg s = CFE_TIME_ToneSend cfg s"

definition CFE_TIME_NoopCmd :: "time_state \<Rightarrow> time_state" where
  "CFE_TIME_NoopCmd s = accept_command ''CFE_TIME_NOOP_EID'' s"

definition CFE_TIME_ResetCountersCmd :: "time_state \<Rightarrow> time_state" where
  "CFE_TIME_ResetCountersCmd s =
     issue (Event_sent ''CFE_TIME_RESET_EID'')
       (s\<lparr>CommandCounter := 0, CommandErrorCounter := 0, ToneMatchCounter := 0, ToneMatchErrorCounter := 0,
          ToneSignalCounter := 0, ToneDataCounter := 0, ToneIntCounter := 0, ToneIntErrorCounter := 0,
          ToneTaskCounter := 0, ResetVersionCounter := LastVersionCounter s, LocalIntCounter := 0,
          LocalTaskCounter := 0, InternalCount := 0, ExternalCount := 0\<rparr>)"

definition CFE_TIME_SendDiagnosticTlm :: "time_cfg \<Rightarrow> time_state \<Rightarrow> time_state" where
  "CFE_TIME_SendDiagnosticTlm cfg s =
     (let s = s\<lparr>CommandCounter := CommandCounter s + 1\<rparr> in
      case CFE_TIME_GetDiagData cfg s of (DiagPacket, s) \<Rightarrow>
        issue (Event_sent ''CFE_TIME_DIAG_EID'') (issue (DiagPacket_sent DiagPacket) (time_stamp cfg s)))"

definition CFE_TIME_SetStateCmd :: "time_cfg \<Rightarrow> time_msg \<Rightarrow> time_state \<Rightarrow> time_state" where
  "CFE_TIME_SetStateCmd cfg data s =
     (if PayloadClockState data = CFE_TIME_ClockState_INVALID \<or> PayloadClockState data = CFE_TIME_ClockState_VALID \<or>
         PayloadClockState data = CFE_TIME_ClockState_FLYWHEEL
      then accept_command ''CFE_TIME_STATE_EID'' (CFE_TIME_SetState cfg (PayloadClockState data) s)
      else reject_command ''CFE_TIME_STATE_ERR_EID'' s)"

definition CFE_TIME_SetSourceCmd :: "time_cfg \<Rightarrow> time_msg \<Rightarrow> time_state \<Rightarrow> time_state" where
  "CFE_TIME_SetSourceCmd cfg data s =
     (if PayloadTimeSource data = CFE_TIME_SourceSelect_INTERNAL \<or> PayloadTimeSource data = CFE_TIME_SourceSelect_EXTERNAL
      then if CFG_SOURCE cfg
           then issue (Event_sent ''CFE_TIME_SOURCE_EID'')
                  (CFE_TIME_SetSource (PayloadTimeSource data) (s\<lparr>CommandCounter := CommandCounter s + 1\<rparr>))
           else reject_command ''CFE_TIME_SOURCE_CFG_EID'' s
      else reject_command ''CFE_TIME_SOURCE_ERR_EID'' s)"

definition CFE_TIME_SetSignalCmd :: "time_cfg \<Rightarrow> time_msg \<Rightarrow> time_state \<Rightarrow> time_state" where
  "CFE_TIME_SetSignalCmd cfg data s =
     (if PayloadToneSource data = CFE_TIME_ToneSignalSelect_PRIMARY \<or> PayloadToneSource data = CFE_TIME_ToneSignalSelect_REDUNDANT
      then if CFG_SIGNAL cfg
           then issue (Event_sent ''CFE_TIME_SIGNAL_EID'')
                  (CFE_TIME_SetSignal (PayloadToneSource data) (s\<lparr>CommandCounter := CommandCounter s + 1\<rparr>))
           else reject_command ''CFE_TIME_SIGNAL_CFG_EID'' s
      else reject_command ''CFE_TIME_SIGNAL_ERR_EID'' s)"

abbreviation (input) payload_systime :: "time_msg \<Rightarrow> CFE_TIME_SysTime_t" where
  "payload_systime data \<equiv>
     \<lparr>Seconds = PayloadSeconds data, Subseconds = CFE_TIME_Micro2SubSecs (PayloadMicroSeconds data)\<rparr>"

definition CFE_TIME_SetDelayImpl :: "time_cfg \<Rightarrow> time_msg \<Rightarrow> int16 \<Rightarrow> time_state \<Rightarrow> time_state" where
  "CFE_TIME_SetDelayImpl cfg data Direction s =
     (if PayloadMicroSeconds data < 1000000
      then if \<not> CFG_SERVER cfg
           then accept_command ''CFE_TIME_DELAY_EID'' (CFE_TIME_SetDelay (payload_systime data) Direction s)
           else reject_command ''CFE_TIME_DELAY_CFG_EID'' s
      else reject_command ''CFE_TIME_DELAY_ERR_EID'' s)"

definition CFE_TIME_AddDelayCmd :: "time_cfg \<Rightarrow> time_msg \<Rightarrow> time_state \<Rightarrow> time_state" where
  "CFE_TIME_AddDelayCmd cfg data s = CFE_TIME_SetDelayImpl cfg data CFE_TIME_AdjustDirection_ADD s"

definition CFE_TIME_SubDelayCmd :: "time_cfg \<Rightarrow> time_msg \<Rightarrow> time_state \<Rightarrow> time_state" where
  "CFE_TIME_SubDelayCmd cfg data s = CFE_TIME_SetDelayImpl cfg data CFE_TIME_AdjustDirection_SUBTRACT s"

definition CFE_TIME_SetTimeCmd :: "time_cfg \<Rightarrow> time_msg \<Rightarrow> time_state \<Rightarrow> time_state" where
  "CFE_TIME_SetTimeCmd cfg data s =
     (if PayloadMicroSeconds data < 1000000
      then if CFG_SERVER cfg
           then accept_command ''CFE_TIME_TIME_EID'' (CFE_TIME_SetTime cfg (payload_systime data) s)
           else reject_command ''CFE_TIME_TIME_CFG_EID'' s
      else reject_command ''CFE_TIME_TIME_ERR_EID'' s)"

definition CFE_TIME_SetMETCmd :: "time_cfg \<Rightarrow> time_msg \<Rightarrow> time_state \<Rightarrow> time_state" where
  "CFE_TIME_SetMETCmd cfg data s =
     (if PayloadMicroSeconds data < 1000000
      then if CFG_SERVER cfg
           then accept_command ''CFE_TIME_MET_EID'' (CFE_TIME_SetMET cfg (payload_systime data) s)
           else reject_command ''CFE_TIME_MET_CFG_EID'' s
      else reject_command ''CFE_TIME_MET_ERR_EID'' s)"

definition CFE_TIME_SetSTCFCmd :: "time_cfg \<Rightarrow> time_msg \<Rightarrow> time_state \<Rightarrow> time_state" where
  "CFE_TIME_SetSTCFCmd cfg data s =
     (if PayloadMicroSeconds data < 1000000
      then if CFG_SERVER cfg
           then accept_command ''CFE_TIME_STCF_EID'' (CFE_TIME_SetSTCF (payload_systime data) s)
           else reject_command ''CFE_TIME_STCF_CFG_EID'' s
      else reject_command ''CFE_TIME_STCF_ERR_EID'' s)"

definition CFE_TIME_SetLeapSecondsCmd :: "time_cfg \<Rightarrow> time_msg \<Rightarrow> time_state \<Rightarrow> time_state" where
  "CFE_TIME_SetLeapSecondsCmd cfg data s =
     (if CFG_SERVER cfg
      then accept_command ''CFE_TIME_LEAPS_EID'' (CFE_TIME_SetLeapSeconds (PayloadLeapSeconds data) s)
      else reject_command ''CFE_TIME_LEAPS_CFG_EID'' s)"

definition CFE_TIME_AdjustImpl :: "time_cfg \<Rightarrow> time_msg \<Rightarrow> int16 \<Rightarrow> time_state \<Rightarrow> time_state" where
  "CFE_TIME_AdjustImpl cfg data Direction s =
     (if PayloadMicroSeconds data < 1000000
      then if CFG_SERVER cfg
           then accept_command ''CFE_TIME_DELTA_EID'' (CFE_TIME_SetAdjust (payload_systime data) Direction s)
           else reject_command ''CFE_TIME_DELTA_CFG_EID'' s
      else reject_command ''CFE_TIME_DELTA_ERR_EID'' s)"

definition CFE_TIME_AddAdjustCmd :: "time_cfg \<Rightarrow> time_msg \<Rightarrow> time_state \<Rightarrow> time_state" where
  "CFE_TIME_AddAdjustCmd cfg data s = CFE_TIME_AdjustImpl cfg data CFE_TIME_AdjustDirection_ADD s"

definition CFE_TIME_SubAdjustCmd :: "time_cfg \<Rightarrow> time_msg \<Rightarrow> time_state \<Rightarrow> time_state" where
  "CFE_TIME_SubAdjustCmd cfg data s = CFE_TIME_AdjustImpl cfg data CFE_TIME_AdjustDirection_SUBTRACT s"

definition CFE_TIME_1HzAdjImpl :: "time_cfg \<Rightarrow> time_msg \<Rightarrow> int16 \<Rightarrow> time_state \<Rightarrow> time_state" where
  "CFE_TIME_1HzAdjImpl cfg data Direction s =
     (if CFG_SERVER cfg
      then accept_command ''CFE_TIME_ONEHZ_EID''
             (CFE_TIME_Set1HzAdj \<lparr>Seconds = PayloadSeconds data, Subseconds = PayloadSubseconds data\<rparr> Direction s)
      else reject_command ''CFE_TIME_ONEHZ_CFG_EID'' s)"

definition CFE_TIME_AddOneHzAdjustmentCmd :: "time_cfg \<Rightarrow> time_msg \<Rightarrow> time_state \<Rightarrow> time_state" where
  "CFE_TIME_AddOneHzAdjustmentCmd cfg data s = CFE_TIME_1HzAdjImpl cfg data CFE_TIME_AdjustDirection_ADD s"

definition CFE_TIME_SubOneHzAdjustmentCmd :: "time_cfg \<Rightarrow> time_msg \<Rightarrow> time_state \<Rightarrow> time_state" where
  "CFE_TIME_SubOneHzAdjustmentCmd cfg data s = CFE_TIME_1HzAdjImpl cfg data CFE_TIME_AdjustDirection_SUBTRACT s"

section \<open>Dispatch\<close>

definition CFE_TIME_VerifyCmdLength :: "time_msg \<Rightarrow> uint64 \<Rightarrow> time_state \<Rightarrow> bool \<times> time_state" where
  "CFE_TIME_VerifyCmdLength data ExpectedLength s =
     (if ExpectedLength \<noteq> MsgSize data then (False, reject_command ''CFE_TIME_LEN_ERR_EID'' s) else (True, s))"

text \<open>The handler of each function code.\<close>

definition cmd_handler :: "time_cfg \<Rightarrow> time_msg \<Rightarrow> uint16 \<Rightarrow> (time_state \<Rightarrow> time_state) option" where
  "cmd_handler cfg data cc =
     (if cc = 0 then Some CFE_TIME_NoopCmd
      else if cc = 1 then Some CFE_TIME_ResetCountersCmd
      else if cc = 2 then Some (CFE_TIME_SendDiagnosticTlm cfg)
      else if cc = 3 then Some (CFE_TIME_SetSourceCmd cfg data)
      else if cc = 4 then Some (CFE_TIME_SetStateCmd cfg data)
      else if cc = 5 then Some (CFE_TIME_AddDelayCmd cfg data)
      else if cc = 6 then Some (CFE_TIME_SubDelayCmd cfg data)
      else if cc = 7 then Some (CFE_TIME_SetTimeCmd cfg data)
      else if cc = 8 then Some (CFE_TIME_SetMETCmd cfg data)
      else if cc = 9 then Some (CFE_TIME_SetSTCFCmd cfg data)
      else if cc = 10 then Some (CFE_TIME_SetLeapSecondsCmd cfg data)
      else if cc = 11 then Some (CFE_TIME_AddAdjustCmd cfg data)
      else if cc = 12 then Some (CFE_TIME_SubAdjustCmd cfg data)
      else if cc = 13 then Some (CFE_TIME_AddOneHzAdjustmentCmd cfg data)
      else if cc = 14 then Some (CFE_TIME_SubOneHzAdjustmentCmd cfg data)
      else if cc = 15 then Some (CFE_TIME_SetSignalCmd cfg data)
      else None)"

definition CFE_TIME_TaskPipe :: "time_cfg \<Rightarrow> time_msg_cfg \<Rightarrow> time_msg \<Rightarrow> time_state \<Rightarrow> time_state" where
  "CFE_TIME_TaskPipe cfg m data s =
     (if MsgId data = SEND_HK_MID m then CFE_TIME_SendHkCmd cfg s
      else if MsgId data = TONE_CMD_MID m then CFE_TIME_ToneSignalCmd cfg s
      else if MsgId data = DATA_CMD_MID m then CFE_TIME_ToneDataCmd cfg data s
      else if MsgId data = ONEHZ_CMD_MID m then CFE_TIME_OneHzCmd cfg s
      else if CFG_SERVER cfg \<and> MsgId data = SEND_CMD_MID m then CFE_TIME_ToneSendCmd cfg s
      else if MsgId data = CMD_MID m
      then case cmd_handler cfg data (FcnCode data) of
             None \<Rightarrow> reject_command ''CFE_TIME_CC_ERR_EID'' s
           | Some handler \<Rightarrow>
               (case CFE_TIME_VerifyCmdLength data (cmd_length m (FcnCode data)) s of
                  (ok, s) \<Rightarrow> if ok then handler s else s)
      else issue (Event_sent ''CFE_TIME_ID_ERR_EID'') s)"

text \<open>The bodies of the ground command handlers.\<close>

lemmas time_cmd_bodies = CFE_TIME_NoopCmd_def CFE_TIME_SetSourceCmd_def
  CFE_TIME_SetStateCmd_def CFE_TIME_AddDelayCmd_def CFE_TIME_SubDelayCmd_def CFE_TIME_SetDelayImpl_def
  CFE_TIME_SetTimeCmd_def CFE_TIME_SetMETCmd_def CFE_TIME_SetSTCFCmd_def CFE_TIME_SetLeapSecondsCmd_def
  CFE_TIME_AddAdjustCmd_def CFE_TIME_SubAdjustCmd_def CFE_TIME_AdjustImpl_def CFE_TIME_AddOneHzAdjustmentCmd_def
  CFE_TIME_SubOneHzAdjustmentCmd_def CFE_TIME_1HzAdjImpl_def CFE_TIME_SetSignalCmd_def

end
