(* ===== verification/CFS_TimeRef.thy ===== *)
theory CFS_TimeRef
  imports CFS_TimeTask
begin

text \<open>
  The reference of the time service as one value \<open>at_tone\<close>: the versioned buffer of reference states refines it, every
  setting is one update of it, reading the reference computes the elapsed time from it, and setting the time and the
  flywheel are exact in 64-bit subseconds.
\<close>

section \<open>The reference as one value\<close>

text \<open>The refinement target: a service that holds one value of the reference and updates it at once.\<close>

definition at_tone :: "time_state \<Rightarrow> time_at_tone" where
  "at_tone s = time_at_tone.truncate (CFE_TIME_GetReferenceState s)"

text \<open>No read of the reference has failed, and the current state carries the version that readers look for.\<close>

definition time_inv :: "time_state \<Rightarrow> bool" where
  "time_inv s \<longleftrightarrow> StateVersion (CFE_TIME_GetReferenceState s) = LastVersionCounter s \<and> \<not> GetReferenceFail s"

named_theorems time_frame \<open>what the operations leave of the state\<close>

lemma next_slot: "ref_slot (v + 1) \<noteq> ref_slot v"
proof
  assume "ref_slot (v + 1) = ref_slot v"
  then have "(v + 1) AND 3 = v AND 3" by (simp only: word_unat_eq_iff)
  then have "even ((v + 1) AND 3) = even (v AND 3)" by simp
  then show False by (simp add: even_and_iff)
qed

lemma set_ref_simps [simp, time_frame]:
  "ReferenceState (set_ref i f s) = (ReferenceState s)(i := f (ReferenceState s i))"
  "LastVersionCounter (set_ref i f s) = LastVersionCounter s" "GetReferenceFail (set_ref i f s) = GetReferenceFail s"
  "ClockReadings (set_ref i f s) = ClockReadings s" "ClockReads (set_ref i f s) = ClockReads s"
  "MaxLocalClock (set_ref i f s) = MaxLocalClock s" "Outputs (set_ref i f s) = Outputs s"
  by (simp_all add: set_ref_def)

lemma StartReferenceUpdate_simps:
  assumes "CFE_TIME_StartReferenceUpdate s = (i, s')"
  shows "i = ref_slot (LastVersionCounter s + 1)" "LastVersionCounter s' = LastVersionCounter s"
    "GetReferenceFail s' = GetReferenceFail s"
    "time_at_tone.truncate (ReferenceState s' i) = at_tone s" "StateVersion (ReferenceState s' i) = LastVersionCounter s + 1"
    "s' = s\<lparr>ReferenceState := (ReferenceState s)(i := ReferenceState s' i)\<rparr>"
  using assms
  by (auto simp: CFE_TIME_StartReferenceUpdate_def Let_def at_tone_def CFE_TIME_GetReferenceState_def time_at_tone.defs)

text \<open>Publishing a started update: the new value becomes the reference and the invariant holds again.\<close>

lemma finish_started:
  assumes "CFE_TIME_StartReferenceUpdate s = (i, s1)" "StateVersion (ReferenceState s2 i) = StateVersion (ReferenceState s1 i)"
  shows "CFE_TIME_GetReferenceState (CFE_TIME_FinishReferenceUpdate i s2) = ReferenceState s2 i"
    "StateVersion (CFE_TIME_GetReferenceState (CFE_TIME_FinishReferenceUpdate i s2)) =
       LastVersionCounter (CFE_TIME_FinishReferenceUpdate i s2)"
    "GetReferenceFail (CFE_TIME_FinishReferenceUpdate i s2) = GetReferenceFail s2"
  using assms StartReferenceUpdate_simps [OF assms(1)]
  by (simp_all add: CFE_TIME_FinishReferenceUpdate_def CFE_TIME_GetReferenceState_def)

lemma at_tone_finish:
  assumes "CFE_TIME_StartReferenceUpdate s = (i, s1)" "StateVersion (ReferenceState s2 i) = StateVersion (ReferenceState s1 i)"
  shows "at_tone (CFE_TIME_FinishReferenceUpdate i s2) = time_at_tone.truncate (ReferenceState s2 i)"
    "time_inv (CFE_TIME_FinishReferenceUpdate i s2) \<longleftrightarrow> \<not> GetReferenceFail s2"
  using finish_started [OF assms] by (simp_all add: at_tone_def time_inv_def)

lemma truncate_eqD:
  assumes "time_at_tone.truncate r = t"
  shows "AtToneMET r = AtToneMET t" "AtToneSTCF r = AtToneSTCF t" "AtToneLeapSeconds r = AtToneLeapSeconds t"
    "ClockSetState r = ClockSetState t" "ClockFlyState r = ClockFlyState t" "DelayDirection r = DelayDirection t"
    "AtToneDelay r = AtToneDelay t" "AtToneLatch r = AtToneLatch t"
  using assms by (auto simp: time_at_tone.defs)

lemma reference_update_spec:
  assumes "\<And>r. StateVersion (f r) = StateVersion r" "\<And>r. time_at_tone.truncate (f r) = g (time_at_tone.truncate r)"
  shows "at_tone (reference_update f s) = g (at_tone s)"
    "time_inv (reference_update f s) \<longleftrightarrow> \<not> GetReferenceFail s"
proof -
  obtain i s1 where st: "CFE_TIME_StartReferenceUpdate s = (i, s1)" by fastforce
  note S = StartReferenceUpdate_simps [OF st]
  have v: "StateVersion (ReferenceState (set_ref i f s1) i) = StateVersion (ReferenceState s1 i)" using assms(1) by simp
  show "at_tone (reference_update f s) = g (at_tone s)"
    unfolding reference_update_def st prod.case at_tone_finish(1) [OF st v] using S(4) assms(2) by simp
  show "time_inv (reference_update f s) \<longleftrightarrow> \<not> GetReferenceFail s"
    unfolding reference_update_def st prod.case at_tone_finish(2) [OF st v] using S(3) by simp
qed

section \<open>Reading the reference\<close>

definition read_clock :: "time_state \<Rightarrow> nat \<Rightarrow> CFE_TIME_SysTime_t" where
  "read_clock s k = \<lparr>Seconds = word_of_int (OS_TimeGetTotalSeconds (ClockReadings s k)),
                     Subseconds = OS_TimeGetSubsecondsPart (ClockReadings s k)\<rparr>"

lemma LatchClock_eq: "CFE_TIME_LatchClock s = (read_clock s (ClockReads s), s\<lparr>ClockReads := Suc (ClockReads s)\<rparr>)"
  by (simp add: CFE_TIME_LatchClock_def read_clock_def Let_def)

text \<open>The time since the tone and the elapsed time at a latch, from the values at the tone.\<close>

definition since_tone :: "time_state \<Rightarrow> time_at_tone \<Rightarrow> CFE_TIME_SysTime_t \<Rightarrow> CFE_TIME_SysTime_t" where
  "since_tone s t latch =
     (if CFE_TIME_Compare latch (AtToneLatch t) = CFE_TIME_A_LT_B
      then CFE_TIME_Add (CFE_TIME_Subtract (MaxLocalClock s) (AtToneLatch t)) latch
      else CFE_TIME_Subtract latch (AtToneLatch t))"

definition met_at :: "time_cfg \<Rightarrow> time_state \<Rightarrow> time_at_tone \<Rightarrow> CFE_TIME_SysTime_t \<Rightarrow> CFE_TIME_SysTime_t" where
  "met_at cfg s t latch =
     (let met = CFE_TIME_Add (since_tone s t latch) (AtToneMET t)
      in if CFG_SERVER cfg then met
         else if DelayDirection t = CFE_TIME_AdjustDirection_ADD then CFE_TIME_Add met (AtToneDelay t)
         else CFE_TIME_Subtract met (AtToneDelay t))"

lemma read_reference_at_once:
  assumes "time_inv s"
  shows "\<exists>r. read_reference_loop (Suc k) r0 s = (r, Suc k, s\<lparr>ClockReads := Suc (ClockReads s)\<rparr>) \<and>
    time_at_tone.truncate r = at_tone s \<and> CurrentLatch r = read_clock s (ClockReads s)"
proof -
  have "LastVersionCounter s = StateVersion (ReferenceState s (ref_slot (LastVersionCounter s)))"
    using assms by (simp add: time_inv_def CFE_TIME_GetReferenceState_def)
  then show ?thesis
    by (simp add: LatchClock_eq Let_def at_tone_def CFE_TIME_GetReferenceState_def time_at_tone.defs)
qed

lemma GetReference_spec:
  assumes "time_inv s"
  obtains r where "CFE_TIME_GetReference cfg r0 s = (r, s\<lparr>ClockReads := Suc (ClockReads s)\<rparr>)"
    "time_at_tone.truncate r = at_tone s" "CurrentLatch r = read_clock s (ClockReads s)"
    "TimeSinceTone r = since_tone s (at_tone s) (read_clock s (ClockReads s))"
    "CurrentMET r = met_at cfg s (at_tone s) (read_clock s (ClockReads s))"
proof -
  obtain q where q: "read_reference_loop (Suc 3) r0 s = (q, Suc 3, s\<lparr>ClockReads := Suc (ClockReads s)\<rparr>)"
    "time_at_tone.truncate q = at_tone s" "CurrentLatch q = read_clock s (ClockReads s)"
    using read_reference_at_once [OF assms, of 3 r0] by blast
  have four: "(4 :: nat) = Suc 3" by simp
  note t = truncate_eqD [OF q(2)]
  let ?r = "q\<lparr>TimeSinceTone := since_tone s (at_tone s) (read_clock s (ClockReads s)),
              CurrentMET := met_at cfg s (at_tone s) (read_clock s (ClockReads s))\<rparr>"
  have "CFE_TIME_GetReference cfg r0 s = (?r, s\<lparr>ClockReads := Suc (ClockReads s)\<rparr>)"
    unfolding CFE_TIME_GetReference_def four q(1) prod.case Let_def by (simp add: q(3) t since_tone_def met_at_def Let_def)
  then show thesis by (rule that) (use q(2,3) in \<open>simp_all add: time_at_tone.defs\<close>)
qed

section \<open>Settings are single updates of the reference\<close>

lemma truncate_updates [simp]:
  "time_at_tone.truncate (r\<lparr>AtToneMET := a\<rparr>) = (time_at_tone.truncate r)\<lparr>AtToneMET := a\<rparr>"
  "time_at_tone.truncate (r\<lparr>AtToneSTCF := a\<rparr>) = (time_at_tone.truncate r)\<lparr>AtToneSTCF := a\<rparr>"
  "time_at_tone.truncate (r\<lparr>AtToneDelay := a\<rparr>) = (time_at_tone.truncate r)\<lparr>AtToneDelay := a\<rparr>"
  "time_at_tone.truncate (r\<lparr>AtToneLatch := a\<rparr>) = (time_at_tone.truncate r)\<lparr>AtToneLatch := a\<rparr>"
  "time_at_tone.truncate (r\<lparr>AtToneLeapSeconds := b\<rparr>) = (time_at_tone.truncate r)\<lparr>AtToneLeapSeconds := b\<rparr>"
  "time_at_tone.truncate (r\<lparr>ClockSetState := b\<rparr>) = (time_at_tone.truncate r)\<lparr>ClockSetState := b\<rparr>"
  "time_at_tone.truncate (r\<lparr>ClockFlyState := b\<rparr>) = (time_at_tone.truncate r)\<lparr>ClockFlyState := b\<rparr>"
  "time_at_tone.truncate (r\<lparr>DelayDirection := b\<rparr>) = (time_at_tone.truncate r)\<lparr>DelayDirection := b\<rparr>"
  by (simp_all add: time_at_tone.defs)

lemma truncate_fields [simp]:
  "AtToneMET (time_at_tone.truncate r) = AtToneMET r" "AtToneSTCF (time_at_tone.truncate r) = AtToneSTCF r"
  "AtToneDelay (time_at_tone.truncate r) = AtToneDelay r" "AtToneLatch (time_at_tone.truncate r) = AtToneLatch r"
  "AtToneLeapSeconds (time_at_tone.truncate r) = AtToneLeapSeconds r"
  "ClockSetState (time_at_tone.truncate r) = ClockSetState r" "ClockFlyState (time_at_tone.truncate r) = ClockFlyState r"
  "DelayDirection (time_at_tone.truncate r) = DelayDirection r"
  by (simp_all add: time_at_tone.defs)

text \<open>What an update does, whatever happens between its start and its end.\<close>

lemma update_between:
  assumes "CFE_TIME_StartReferenceUpdate s = (i, s1)" "t = CFE_TIME_FinishReferenceUpdate i s2"
    "StateVersion (ReferenceState s2 i) = LastVersionCounter s + 1"
  shows "at_tone t = time_at_tone.truncate (ReferenceState s2 i)" "time_inv t \<longleftrightarrow> \<not> GetReferenceFail s2"
  using at_tone_finish [OF assms(1), of s2] StartReferenceUpdate_simps(5) [OF assms(1)] assms(2,3) by simp_all

lemma start_obtain:
  obtains i s1 where "CFE_TIME_StartReferenceUpdate s = (i, s1)" by fastforce

lemma SetState_spec:
  "at_tone (CFE_TIME_SetState cfg n s) =
     (if n = CFE_TIME_ClockState_FLYWHEEL then (at_tone s)\<lparr>ClockFlyState := CFE_TIME_FlywheelState_IS_FLY\<rparr>
      else if n = CFE_TIME_ClockState_VALID then (at_tone s)\<lparr>ClockSetState := CFE_TIME_SetState_WAS_SET\<rparr>
      else (at_tone s)\<lparr>ClockSetState := CFE_TIME_SetState_NOT_SET\<rparr>)"
  "time_inv (CFE_TIME_SetState cfg n s) \<longleftrightarrow> \<not> GetReferenceFail s"
proof -
  obtain i s1 where st: "CFE_TIME_StartReferenceUpdate s = (i, s1)" by (rule start_obtain)
  note S = StartReferenceUpdate_simps [OF st]
  note U = update_between [OF st refl]
  show "at_tone (CFE_TIME_SetState cfg n s) =
     (if n = CFE_TIME_ClockState_FLYWHEEL then (at_tone s)\<lparr>ClockFlyState := CFE_TIME_FlywheelState_IS_FLY\<rparr>
      else if n = CFE_TIME_ClockState_VALID then (at_tone s)\<lparr>ClockSetState := CFE_TIME_SetState_WAS_SET\<rparr>
      else (at_tone s)\<lparr>ClockSetState := CFE_TIME_SetState_NOT_SET\<rparr>)"
    unfolding CFE_TIME_SetState_def st prod.case Let_def
    by (subst U) (use S(4,5) in \<open>simp_all\<close>)
  show "time_inv (CFE_TIME_SetState cfg n s) \<longleftrightarrow> \<not> GetReferenceFail s"
    unfolding CFE_TIME_SetState_def st prod.case Let_def
    by (subst U) (use S(3,5) in \<open>simp_all\<close>)
qed

lemma SetMET_spec:
  "at_tone (CFE_TIME_SetMET cfg x s) = (at_tone s)\<lparr>AtToneMET := x, AtToneLatch := read_clock s (ClockReads s)\<rparr>"
  "time_inv (CFE_TIME_SetMET cfg x s) \<longleftrightarrow> \<not> GetReferenceFail s"
proof -
  obtain i s1 where st: "CFE_TIME_StartReferenceUpdate s = (i, s1)" by (rule start_obtain)
  note S = StartReferenceUpdate_simps [OF st]
  note U = update_between [OF st refl]
  have c: "read_clock s1 (ClockReads s1) = read_clock s (ClockReads s)" by (subst S(6), subst (2) S(6)) (simp add: read_clock_def)
  show "at_tone (CFE_TIME_SetMET cfg x s) = (at_tone s)\<lparr>AtToneMET := x, AtToneLatch := read_clock s (ClockReads s)\<rparr>"
    unfolding CFE_TIME_SetMET_def st prod.case Let_def LatchClock_eq
    by (subst U) (use S(4,5) c in \<open>simp_all add: read_clock_def\<close>)
  show "time_inv (CFE_TIME_SetMET cfg x s) \<longleftrightarrow> \<not> GetReferenceFail s"
    unfolding CFE_TIME_SetMET_def st prod.case Let_def LatchClock_eq
    by (subst U) (use S(3,5) in \<open>simp_all\<close>)
qed

lemma at_tone_frame [simp]:
  "at_tone (s\<lparr>OneTimeAdjust := x, OneTimeDirection := d\<rparr>) = at_tone s"
  "at_tone (s\<lparr>ClockReads := k\<rparr>) = at_tone s"
  by (simp_all add: at_tone_def CFE_TIME_GetReferenceState_def)

lemma SetSTCF_spec:
  "at_tone (CFE_TIME_SetSTCF x s) = (at_tone s)\<lparr>AtToneSTCF := x\<rparr>"
  "time_inv (CFE_TIME_SetSTCF x s) \<longleftrightarrow> \<not> GetReferenceFail s"
  unfolding CFE_TIME_SetSTCF_def
  by (subst reference_update_spec [where g = "\<lambda>t. t\<lparr>AtToneSTCF := x\<rparr>"]; simp)+

lemma SetLeapSeconds_spec:
  "at_tone (CFE_TIME_SetLeapSeconds n s) = (at_tone s)\<lparr>AtToneLeapSeconds := n\<rparr>"
  "time_inv (CFE_TIME_SetLeapSeconds n s) \<longleftrightarrow> \<not> GetReferenceFail s"
  unfolding CFE_TIME_SetLeapSeconds_def
  by (subst reference_update_spec [where g = "\<lambda>t. t\<lparr>AtToneLeapSeconds := n\<rparr>"]; simp)+

lemma SetDelay_spec:
  "at_tone (CFE_TIME_SetDelay x d s) = (at_tone s)\<lparr>AtToneDelay := x, DelayDirection := d\<rparr>"
  "time_inv (CFE_TIME_SetDelay x d s) \<longleftrightarrow> \<not> GetReferenceFail s"
  unfolding CFE_TIME_SetDelay_def
  by (subst reference_update_spec [where g = "\<lambda>t. t\<lparr>AtToneDelay := x, DelayDirection := d\<rparr>"]; simp)+

definition adjusted :: "int16 \<Rightarrow> CFE_TIME_SysTime_t \<Rightarrow> CFE_TIME_SysTime_t \<Rightarrow> CFE_TIME_SysTime_t" where
  "adjusted d t x = (if d = CFE_TIME_AdjustDirection_ADD then CFE_TIME_Add t x else CFE_TIME_Subtract t x)"

lemma SetAdjust_spec:
  "at_tone (CFE_TIME_SetAdjust x d s) = (at_tone s)\<lparr>AtToneSTCF := adjusted d (AtToneSTCF (at_tone s)) x\<rparr>"
  "time_inv (CFE_TIME_SetAdjust x d s) \<longleftrightarrow> \<not> GetReferenceFail s"
  unfolding CFE_TIME_SetAdjust_def
  by (subst reference_update_spec [where g = "\<lambda>t. t\<lparr>AtToneSTCF := adjusted d (AtToneSTCF t) x\<rparr>"]; simp add: adjusted_def)+

text \<open>Every setting is one update of one value of the reference, whatever buffer slot it is written to: the
  clock state, MET (which also latches the local clock), STCF, leap seconds, tone delay, and the one-time adjustment
  of the STCF.\<close>

theorem settings_refine:
  "at_tone (CFE_TIME_SetState cfg n s) =
     (if n = CFE_TIME_ClockState_FLYWHEEL then (at_tone s)\<lparr>ClockFlyState := CFE_TIME_FlywheelState_IS_FLY\<rparr>
      else if n = CFE_TIME_ClockState_VALID then (at_tone s)\<lparr>ClockSetState := CFE_TIME_SetState_WAS_SET\<rparr>
      else (at_tone s)\<lparr>ClockSetState := CFE_TIME_SetState_NOT_SET\<rparr>) \<and>
   at_tone (CFE_TIME_SetMET cfg x s) = (at_tone s)\<lparr>AtToneMET := x, AtToneLatch := read_clock s (ClockReads s)\<rparr> \<and>
   at_tone (CFE_TIME_SetSTCF x s) = (at_tone s)\<lparr>AtToneSTCF := x\<rparr> \<and>
   at_tone (CFE_TIME_SetLeapSeconds n s) = (at_tone s)\<lparr>AtToneLeapSeconds := n\<rparr> \<and>
   at_tone (CFE_TIME_SetDelay x d s) = (at_tone s)\<lparr>AtToneDelay := x, DelayDirection := d\<rparr> \<and>
   at_tone (CFE_TIME_SetAdjust x d s) =
     (at_tone s)\<lparr>AtToneSTCF := if d = CFE_TIME_AdjustDirection_ADD then CFE_TIME_Add (AtToneSTCF (at_tone s)) x
                               else CFE_TIME_Subtract (AtToneSTCF (at_tone s)) x\<rparr>"
  unfolding SetState_spec SetMET_spec SetSTCF_spec SetLeapSeconds_spec SetDelay_spec SetAdjust_spec adjusted_def
  by (intro conjI refl)

section \<open>Setting and reading the time\<close>

lemma ticks64_seconds:
  "ticks64 (t\<lparr>Seconds := Seconds t + w\<rparr>) = ticks64 t + ticks64 \<lparr>Seconds = w, Subseconds = 0\<rparr>"
  "ticks64 (t\<lparr>Seconds := Seconds t - w\<rparr>) = ticks64 t - ticks64 \<lparr>Seconds = w, Subseconds = 0\<rparr>"
proof -
  have "CFE_TIME_Add t \<lparr>Seconds = w, Subseconds = 0\<rparr> = t\<lparr>Seconds := Seconds t + w\<rparr>"
    "CFE_TIME_Subtract t \<lparr>Seconds = w, Subseconds = 0\<rparr> = t\<lparr>Seconds := Seconds t - w\<rparr>"
    by (simp_all add: CFE_TIME_Add_def CFE_TIME_Subtract_def)
  then show "ticks64 (t\<lparr>Seconds := Seconds t + w\<rparr>) = ticks64 t + ticks64 \<lparr>Seconds = w, Subseconds = 0\<rparr>"
    "ticks64 (t\<lparr>Seconds := Seconds t - w\<rparr>) = ticks64 t - ticks64 \<lparr>Seconds = w, Subseconds = 0\<rparr>"
    using ticks64_add [of t] ticks64_subtract [of t] by metis+
qed

definition delay_ticks :: "time_cfg \<Rightarrow> time_at_tone \<Rightarrow> 64 word" where
  "delay_ticks cfg t = (if CFG_SERVER cfg then 0
     else if DelayDirection t = CFE_TIME_AdjustDirection_ADD then ticks64 (AtToneDelay t) else - ticks64 (AtToneDelay t))"

lemma ticks64_met_at:
  "ticks64 (met_at cfg s t latch) = ticks64 (since_tone s t latch) + ticks64 (AtToneMET t) + delay_ticks cfg t"
  by (simp add: met_at_def Let_def ticks64_add ticks64_subtract delay_ticks_def)

lemma ticks64_since_tone:
  "ticks64 (since_tone s t latch) = ticks64 latch - ticks64 (AtToneLatch t) +
     (if CFE_TIME_Compare latch (AtToneLatch t) = CFE_TIME_A_LT_B then ticks64 (MaxLocalClock s) else 0)"
  by (simp add: since_tone_def ticks64_add ticks64_subtract)

text \<open>The time in the default format at a latch.\<close>

lemma GetTime_ticks:
  assumes "time_inv s"
  shows "ticks64 (fst (CFE_TIME_GetTime cfg s)) =
     ticks64 (met_at cfg s (at_tone s) (read_clock s (ClockReads s))) + ticks64 (AtToneSTCF (at_tone s)) -
     (if DEFAULT_TAI cfg then 0 else ticks64 \<lparr>Seconds = scast (AtToneLeapSeconds (at_tone s)), Subseconds = 0\<rparr>)"
proof -
  obtain r where r: "CFE_TIME_GetReference cfg zero_reference s = (r, s\<lparr>ClockReads := Suc (ClockReads s)\<rparr>)"
    "time_at_tone.truncate r = at_tone s" "CurrentMET r = met_at cfg s (at_tone s) (read_clock s (ClockReads s))"
    using GetReference_spec [OF assms] by metis
  show ?thesis
    using r(3) truncate_eqD [OF r(2)]
    by (simp add: CFE_TIME_GetTime_def CFE_TIME_GetTAI_def CFE_TIME_GetUTC_def r(1) CFE_TIME_CalculateTAI_def
        CFE_TIME_CalculateUTC_def Let_def ticks64_seconds ticks64_add)
qed

lemma reference_update_frame [simp]:
  "ClockReadings (reference_update f s) = ClockReadings s" "ClockReads (reference_update f s) = ClockReads s"
  "MaxLocalClock (reference_update f s) = MaxLocalClock s" "GetReferenceFail (reference_update f s) = GetReferenceFail s"
  "OneHzAdjust (reference_update f s) = OneHzAdjust s"
  by (simp_all add: reference_update_def CFE_TIME_StartReferenceUpdate_def CFE_TIME_FinishReferenceUpdate_def set_ref_def Let_def)

lemma SetTime_spec:
  assumes "time_inv s"
  obtains x where "CFE_TIME_SetTime cfg new s = reference_update (\<lambda>r. r\<lparr>AtToneSTCF := x\<rparr>) (s\<lparr>ClockReads := Suc (ClockReads s)\<rparr>)"
    "ticks64 x = ticks64 new - ticks64 (met_at cfg s (at_tone s) (read_clock s (ClockReads s))) +
      (if DEFAULT_TAI cfg then 0 else ticks64 \<lparr>Seconds = scast (AtToneLeapSeconds (at_tone s)), Subseconds = 0\<rparr>)"
proof -
  obtain r where r: "CFE_TIME_GetReference cfg zero_reference s = (r, s\<lparr>ClockReads := Suc (ClockReads s)\<rparr>)"
    "time_at_tone.truncate r = at_tone s" "CurrentMET r = met_at cfg s (at_tone s) (read_clock s (ClockReads s))"
    using GetReference_spec [OF assms] by metis
  show thesis
    by (rule that, subst CFE_TIME_SetTime_def, subst r(1), simp only: prod.case Let_def)
      (use r(3) truncate_eqD [OF r(2)] in \<open>simp add: ticks64_seconds ticks64_subtract\<close>)
qed

text \<open>C32. Setting the time sets it: a read of the time after \<^verbatim>\<open>CFE_TIME_SetTime\<close> gives the new time plus exactly
  the local clock time between the two readings, in TAI and UTC builds, on servers and clients, with 64-bit wrap-around.\<close>

theorem SetTime_sets:
  assumes "time_inv s"
  shows "ticks64 (fst (CFE_TIME_GetTime cfg (CFE_TIME_SetTime cfg new s))) =
    ticks64 new + (ticks64 (since_tone s (at_tone s) (read_clock s (Suc (ClockReads s)))) -
                   ticks64 (since_tone s (at_tone s) (read_clock s (ClockReads s))))"
proof -
  let ?s = "CFE_TIME_SetTime cfg new s" and ?t = "at_tone s"
  obtain x where x: "?s = reference_update (\<lambda>r. r\<lparr>AtToneSTCF := x\<rparr>) (s\<lparr>ClockReads := Suc (ClockReads s)\<rparr>)"
    "ticks64 x = ticks64 new - ticks64 (met_at cfg s ?t (read_clock s (ClockReads s))) +
      (if DEFAULT_TAI cfg then 0 else ticks64 \<lparr>Seconds = scast (AtToneLeapSeconds ?t), Subseconds = 0\<rparr>)"
    by (rule SetTime_spec [OF assms])
  have t: "at_tone ?s = ?t\<lparr>AtToneSTCF := x\<rparr>" and inv: "time_inv ?s"
    unfolding x(1) using assms
    by (subst reference_update_spec [where g = "\<lambda>t. t\<lparr>AtToneSTCF := x\<rparr>"]; simp add: time_inv_def)+
  have k: "ClockReads ?s = Suc (ClockReads s)" "read_clock ?s j = read_clock s j" "MaxLocalClock ?s = MaxLocalClock s" for j
    unfolding x(1) by (simp_all add: read_clock_def)
  have "since_tone ?s (?t\<lparr>AtToneSTCF := x\<rparr>) l = since_tone s ?t l" for l
    by (simp add: since_tone_def k)
  then show ?thesis
    unfolding GetTime_ticks [OF inv] t k by (simp add: ticks64_met_at x(2) delay_ticks_def)
qed

section \<open>The flywheel\<close>

text \<open>The reference with the adjustment that a server makes at every 1 Hz step.\<close>

definition one_hz_adjusted :: "time_cfg \<Rightarrow> time_state \<Rightarrow> time_at_tone" where
  "one_hz_adjusted cfg s =
     (if CFG_SERVER cfg \<and> OneHzAdjust s \<noteq> zero_time
      then (at_tone s)\<lparr>AtToneSTCF := adjusted (OneHzDirection s) (AtToneSTCF (at_tone s)) (OneHzAdjust s)\<rparr> else at_tone s)"

text \<open>The 1 Hz state machine: what it does to the reference.\<close>

lemma Local1Hz_spec:
  fixes cfg :: time_cfg
  assumes "time_inv s"
  defines "L \<equiv> read_clock s (ClockReads s)" and "t \<equiv> one_hz_adjusted cfg s"
  shows "at_tone (CFE_TIME_Local1HzStateMachine cfg s) =
      (if ClockFlyState t = CFE_TIME_FlywheelState_NO_FLY \<and> Seconds (since_tone s t L) \<ge> START_FLY cfg
       then t\<lparr>ClockFlyState := CFE_TIME_FlywheelState_IS_FLY\<rparr>
       else if ClockFlyState t = CFE_TIME_FlywheelState_IS_FLY \<and> Seconds (since_tone s t L) \<ge> LATCH_FLY cfg
       then t\<lparr>AtToneMET := met_at cfg s t L, AtToneLatch := L\<rparr> else t)"
    "MaxLocalClock (CFE_TIME_Local1HzStateMachine cfg s) = MaxLocalClock s"
proof -
  define u where "u = (if CFG_SERVER cfg \<and> (Seconds (OneHzAdjust s) \<noteq> 0 \<or> Subseconds (OneHzAdjust s) \<noteq> 0)
     then reference_update (\<lambda>r. r\<lparr>AtToneSTCF := adjusted (OneHzDirection s) (AtToneSTCF r) (OneHzAdjust s)\<rparr>) s else s)"
  have ok: "\<not> GetReferenceFail s" using assms(1) by (simp add: time_inv_def)
  have nz: "OneHzAdjust s \<noteq> zero_time \<longleftrightarrow> Seconds (OneHzAdjust s) \<noteq> 0 \<or> Subseconds (OneHzAdjust s) \<noteq> 0"
    by (cases "OneHzAdjust s") simp
  note up = reference_update_spec [where f = "\<lambda>r. r\<lparr>AtToneSTCF := adjusted (OneHzDirection s) (AtToneSTCF r) (OneHzAdjust s)\<rparr>"
        and g = "\<lambda>t. t\<lparr>AtToneSTCF := adjusted (OneHzDirection s) (AtToneSTCF t) (OneHzAdjust s)\<rparr>"]
  have u: "time_inv u" "at_tone u = t" "ClockReads u = ClockReads s" "MaxLocalClock u = MaxLocalClock s"
    "ClockReadings u = ClockReadings s" "\<not> GetReferenceFail u"
    using assms(1) ok unfolding u_def t_def one_hz_adjusted_def nz by (auto simp: up)
  have clock: "read_clock u (ClockReads u) = L" "since_tone u t L = since_tone s t L" "met_at cfg u t L = met_at cfg s t L"
    by (simp_all add: L_def read_clock_def u met_at_def since_tone_def)
  let ?s = "u\<lparr>ClockReads := Suc (ClockReads u)\<rparr>"
  obtain r where r: "CFE_TIME_GetReference cfg zero_reference u = (r, ?s)"
    "time_at_tone.truncate r = t" "CurrentLatch r = L" "TimeSinceTone r = since_tone s t L" "CurrentMET r = met_at cfg s t L"
    using GetReference_spec [OF u(1), of cfg zero_reference, unfolded u(2) clock] by metis
  have fly: "ClockFlyState r = ClockFlyState t" using truncate_eqD [OF r(2)] by simp
  have at: "at_tone ?s = t" using u(2) by (simp add: at_tone_def CFE_TIME_GetReferenceState_def)
  obtain i s1 where st: "CFE_TIME_StartReferenceUpdate ?s = (i, s1)" by (rule start_obtain)
  note S = StartReferenceUpdate_simps [OF st]
  define q where "q = (if CFG_SERVER cfg then (set_ref i (\<lambda>r. r\<lparr>ClockFlyState := 1\<rparr>) s1)\<lparr>ServerFlyState := 1\<rparr>
       else set_ref i (\<lambda>r. r\<lparr>ClockFlyState := 1\<rparr>) s1)\<lparr>AutoStartFly := True\<rparr>"
  let ?start = "CFE_TIME_FinishReferenceUpdate i q"
  have "MaxLocalClock s1 = MaxLocalClock s" using arg_cong [OF S(6), of MaxLocalClock] u(4) by simp
  then have q: "ReferenceState q i = (ReferenceState s1 i)\<lparr>ClockFlyState := 1\<rparr>" "MaxLocalClock q = MaxLocalClock s"
    by (simp_all add: q_def)
  have start: "at_tone ?start = t\<lparr>ClockFlyState := 1\<rparr>" "MaxLocalClock ?start = MaxLocalClock s"
    using update_between(1) [OF st refl, of q] q S(4,5) at by (simp_all add: CFE_TIME_FinishReferenceUpdate_def)
  let ?up = "reference_update (\<lambda>q. q\<lparr>AtToneMET := CurrentMET r, AtToneLatch := CurrentLatch r\<rparr>) ?s"
  have up: "at_tone ?up = t\<lparr>AtToneMET := CurrentMET r, AtToneLatch := CurrentLatch r\<rparr>"
    by (subst reference_update_spec [where g = "\<lambda>t. t\<lparr>AtToneMET := CurrentMET r, AtToneLatch := CurrentLatch r\<rparr>"])
      (simp_all add: u(2))
  have eq: "CFE_TIME_Local1HzStateMachine cfg s =
      (if ClockFlyState t = 0 \<and> Seconds (since_tone s t L) \<ge> START_FLY cfg then ?start
       else if ClockFlyState t = 1 \<and> Seconds (since_tone s t L) \<ge> LATCH_FLY cfg then ?up else ?s)"
    unfolding CFE_TIME_Local1HzStateMachine_def Let_def adjusted_def [symmetric] u_def [symmetric] r(1) prod.case
    unfolding st prod.case fly r(4) by (simp add: q_def)
  show "at_tone (CFE_TIME_Local1HzStateMachine cfg s) =
      (if ClockFlyState t = CFE_TIME_FlywheelState_NO_FLY \<and> Seconds (since_tone s t L) \<ge> START_FLY cfg
       then t\<lparr>ClockFlyState := CFE_TIME_FlywheelState_IS_FLY\<rparr>
       else if ClockFlyState t = CFE_TIME_FlywheelState_IS_FLY \<and> Seconds (since_tone s t L) \<ge> LATCH_FLY cfg
       then t\<lparr>AtToneMET := met_at cfg s t L, AtToneLatch := L\<rparr> else t)"
    unfolding eq using start(1) up r(3,5) at by simp
  show "MaxLocalClock (CFE_TIME_Local1HzStateMachine cfg s) = MaxLocalClock s" unfolding eq using start(2) u(4) by simp
qed

text \<open>C34. The 1 Hz step of the flywheel keeps the time: whether it starts the flywheel or re-latches the reference, any later
  clock reading \<open>L'\<close> gives the same MET, except that every re-latch adds the tone delay of a client once more; the STCF changes
  by the 1 Hz adjustment of a server and by nothing else, and leap seconds, delay and clock state stay.  The clock may have
  rolled over since the tone or roll over before \<open>L'\<close>; the three readings lie within one turn of it.\<close>

theorem flywheel_continuity:
  fixes cfg :: time_cfg
  defines "lt \<equiv> \<lambda>a b. CFE_TIME_Compare a b = CFE_TIME_A_LT_B"
  assumes "time_inv s" "L = read_clock s (ClockReads s)" "T = AtToneLatch (at_tone s)"
    and "\<not> lt L T \<and> \<not> lt L' T \<and> \<not> lt L' L \<or> lt L T \<and> lt L' T \<and> \<not> lt L' L \<or> \<not> lt L T \<and> lt L' T \<and> lt L' L"
  shows "let s' = CFE_TIME_Local1HzStateMachine cfg s; t = at_tone s; t' = at_tone s'; since = Seconds (since_tone s t L) in
    ticks64 (met_at cfg s' t' L') = ticks64 (met_at cfg s t L') +
      (if ClockFlyState t = CFE_TIME_FlywheelState_IS_FLY \<and> since \<ge> LATCH_FLY cfg then delay_ticks cfg t else 0) \<and>
    AtToneSTCF t' = (if CFG_SERVER cfg \<and> OneHzAdjust s \<noteq> zero_time
      then adjusted (OneHzDirection s) (AtToneSTCF t) (OneHzAdjust s) else AtToneSTCF t) \<and>
    (AtToneLeapSeconds t', AtToneDelay t', DelayDirection t', ClockSetState t') =
      (AtToneLeapSeconds t, AtToneDelay t, DelayDirection t, ClockSetState t) \<and>
    ClockFlyState t' = (if ClockFlyState t = CFE_TIME_FlywheelState_NO_FLY \<and> since \<ge> START_FLY cfg
      then CFE_TIME_FlywheelState_IS_FLY else ClockFlyState t)"
proof -
  let ?s' = "CFE_TIME_Local1HzStateMachine cfg s" and ?u = "one_hz_adjusted cfg s" and ?t = "at_tone s"
  have u: "AtToneMET ?u = AtToneMET ?t" "AtToneLatch ?u = AtToneLatch ?t" "AtToneDelay ?u = AtToneDelay ?t"
    "DelayDirection ?u = DelayDirection ?t" "ClockFlyState ?u = ClockFlyState ?t" "ClockSetState ?u = ClockSetState ?t"
    "AtToneLeapSeconds ?u = AtToneLeapSeconds ?t"
    "AtToneSTCF ?u = (if CFG_SERVER cfg \<and> OneHzAdjust s \<noteq> zero_time
      then adjusted (OneHzDirection s) (AtToneSTCF ?t) (OneHzAdjust s) else AtToneSTCF ?t)"
    by (simp_all add: one_hz_adjusted_def)
  have since: "since_tone s ?u l = since_tone s ?t l" for l by (simp add: since_tone_def u)
  note spec = Local1Hz_spec [OF assms(2), of cfg, folded assms(3), unfolded since u(5)]
  have met: "ticks64 (met_at cfg ?s' (at_tone ?s') L') = ticks64 (met_at cfg s ?t L') +
      (if ClockFlyState ?t = CFE_TIME_FlywheelState_IS_FLY \<and> Seconds (since_tone s ?t L) \<ge> LATCH_FLY cfg then delay_ticks cfg ?t else 0)"
    using assms(5) unfolding spec(1) lt_def assms(4)
    by (auto simp: ticks64_met_at ticks64_since_tone delay_ticks_def spec(2) u)
  show ?thesis unfolding Let_def by (intro conjI met) (simp_all add: spec(1) u)
qed

end
