(* ===== verification/CFS_TimeSync.thy ===== *)
theory CFS_TimeSync
  imports CFS_TimeRef
begin

text \<open>
  Tone synchronisation: which operations keep the invariant of the reference, what a matched tone makes of the values
  at the tone, and that a client that matches a server's tone data takes over the server's time.
\<close>

section \<open>No read of the reference ever fails\<close>

lemma time_inv_cong:
  "ReferenceState s' = ReferenceState s \<Longrightarrow> LastVersionCounter s' = LastVersionCounter s \<Longrightarrow>
   GetReferenceFail s' = GetReferenceFail s \<Longrightarrow> time_inv s' = time_inv s"
  by (simp add: time_inv_def CFE_TIME_GetReferenceState_def)

lemma GetReference_keeps: "time_inv s \<Longrightarrow> CFE_TIME_GetReference cfg r0 s = (r, s') \<Longrightarrow> s' = s\<lparr>ClockReads := Suc (ClockReads s)\<rparr> \<and> time_inv s'"
  using GetReference_spec [of s cfg r0] using time_inv_cong [of "s\<lparr>ClockReads := Suc (ClockReads s)\<rparr>" s] by fastforce

lemma read_keeps: "time_inv s \<Longrightarrow> time_inv (snd (CFE_TIME_GetReference cfg r0 s))"
  using GetReference_keeps [of s cfg r0] by (metis prod.collapse)

lemma send_tone_data_keeps [simp]: "time_inv (send_tone_data cfg a b l st s) = time_inv s"
  by (rule time_inv_cong) (simp_all add: send_tone_data_def Let_def)

lemma GetLocalMET_keeps [simp]: "time_inv (snd (OS_GetLocalMET s)) = time_inv s"
  by (rule time_inv_cong) (simp_all add: OS_GetLocalMET_def)

lemma ToneSend_keeps: "time_inv s \<Longrightarrow> time_inv (CFE_TIME_ToneSend cfg s)"
proof -
  assume inv: "time_inv s"
  obtain r where r: "CFE_TIME_GetReference cfg zero_reference s = (r, s\<lparr>ClockReads := Suc (ClockReads s)\<rparr>)"
    using GetReference_spec [OF inv] by metis
  have c: "time_inv (t\<lparr>InternalCount := k\<rparr>) = time_inv t" "time_inv (t\<lparr>ClockReads := n\<rparr>) = time_inv t" for t k n
    by (rule time_inv_cong; simp)+
  obtain w t where "OS_GetLocalMET (s\<lparr>ClockReads := Suc (ClockReads s)\<rparr>) = (w, t)" "time_inv t"
    using GetLocalMET_keeps [of "s\<lparr>ClockReads := Suc (ClockReads s)\<rparr>"] inv c by (metis prod.collapse)
  then show ?thesis
    using inv unfolding CFE_TIME_ToneSend_def r prod.case by (simp add: Let_def c)
qed

lemma ToneSend_external_keeps:
  assumes "time_inv s"
  shows "time_inv (snd (CFE_TIME_ToneSendMET cfg t s))" "time_inv (snd (CFE_TIME_ToneSendGPS cfg t l s))"
    "time_inv (snd (CFE_TIME_ToneSendTime cfg t s))"
proof -
  let ?s = "s\<lparr>ClockReads := Suc (ClockReads s)\<rparr>"
  obtain r where r: "CFE_TIME_GetReference cfg zero_reference s = (r, ?s)"
    using GetReference_spec [OF assms] by metis
  have c: "time_inv (u\<lparr>ExternalCount := k\<rparr>) = time_inv u" "time_inv ?s = time_inv s" for u k
    by (rule time_inv_cong; simp)+
  have sent: "time_inv (CFE_TIME_ToneSend cfg s)" "time_inv (CFE_TIME_ToneSend cfg ?s)"
    using ToneSend_keeps [of s cfg] ToneSend_keeps [of ?s cfg] assms c by simp_all
  show "time_inv (snd (CFE_TIME_ToneSendMET cfg t s))"
    unfolding CFE_TIME_ToneSendMET_def r prod.case Let_def using sent assms c by simp
  show "time_inv (snd (CFE_TIME_ToneSendGPS cfg t l s))"
    unfolding CFE_TIME_ToneSendGPS_def r prod.case Let_def using sent assms c by simp
  show "time_inv (snd (CFE_TIME_ToneSendTime cfg t s))"
    unfolding CFE_TIME_ToneSendTime_def r prod.case Let_def using sent assms c by simp
qed

lemma server_update_keeps:
  assumes "server_tone_update cfg r i s = (b, s')"
  shows "StateVersion (ReferenceState s' i) = StateVersion (ReferenceState s i)" "GetReferenceFail s' = GetReferenceFail s"
  using assms unfolding server_tone_update_def Let_def
  by (auto split: if_splits time_source.splits)

lemma client_update_keeps:
  assumes "client_tone_update i s = (b, s')"
  shows "StateVersion (ReferenceState s' i) = StateVersion (ReferenceState s i)" "GetReferenceFail s' = GetReferenceFail s"
  using assms unfolding client_tone_update_def Let_def
  by (auto split: if_splits)

lemma ToneUpdate_keeps: "time_inv s \<Longrightarrow> time_inv (CFE_TIME_ToneUpdate cfg s)"
proof -
  assume inv: "time_inv s"
  let ?s = "s\<lparr>ClockReads := Suc (ClockReads s)\<rparr>"
  obtain r where r: "CFE_TIME_GetReference cfg zero_reference s = (r, ?s)"
    using GetReference_spec [OF inv] by metis
  obtain i s1 where st: "CFE_TIME_StartReferenceUpdate ?s = (i, s1)" by (rule start_obtain)
  obtain b s2 where u: "(if CFG_SERVER cfg then server_tone_update cfg r i s1 else client_tone_update i s1) = (b, s2)"
    by fastforce
  have "StateVersion (ReferenceState s2 i) = StateVersion (ReferenceState s1 i)" "GetReferenceFail s2 = GetReferenceFail s1"
    using u server_update_keeps [of cfg r i s1 b s2] client_update_keeps [of i s1 b s2] by (auto split: if_splits)
  then have "time_inv (CFE_TIME_FinishReferenceUpdate i s2)"
    using update_between(2) [OF st refl, of s2] StartReferenceUpdate_simps(3,5) [OF st] inv by (simp add: time_inv_def)
  moreover have "time_inv (issue e t) = time_inv t" for e t by (rule time_inv_cong) simp_all
  ultimately show ?thesis unfolding CFE_TIME_ToneUpdate_def r prod.case st u by (simp add: Let_def)
qed

lemma ToneVerify_keeps: "time_inv s \<Longrightarrow> time_inv (CFE_TIME_ToneVerify cfg a b s)"
proof -
  assume inv: "time_inv s"
  have c: "time_inv (t\<lparr>PrevTime1 := a, PrevTime2 := b\<rparr>) = time_inv t" "time_inv (t\<lparr>ToneMatchErrorCounter := k\<rparr>) = time_inv t"
    "time_inv (t\<lparr>ToneMatchCounter := k\<rparr>) = time_inv t" for t k
    by (rule time_inv_cong; simp)+
  show ?thesis
    using inv ToneUpdate_keeps [of "s\<lparr>ToneMatchCounter := ToneMatchCounter s + 1\<rparr>" cfg]
    unfolding CFE_TIME_ToneVerify_def Let_def by (simp add: c)
qed

section \<open>Tone data and tone matching\<close>

lemma byte_masks:
  "(0x000000FF :: uint32) = mask 8" "(0x0000FF00 :: uint32) = push_bit 8 (mask 8)"
  "(0x00FF0000 :: uint32) = push_bit 16 (mask 8)" "(0xFF000000 :: uint32) = push_bit 24 (mask 8)"
  "(0x00FF :: uint16) = mask 8" "(0xFF00 :: uint16) = push_bit 8 (mask 8)"
  by (simp_all add: mask_eq_exp_minus_1 push_bit_eq_mult)

lemma BIG32_bit:
  "bit (CFE_MAKE_BIG32 w) n \<longleftrightarrow> n < 32 \<and>
     (if n < 8 then bit w (n + 24) else if n < 16 then bit w (n + 8) else if n < 24 then bit w (n - 8) else bit w (n - 24))"
  unfolding CFE_MAKE_BIG32_def byte_masks
  by (auto simp: bit_simps not_less add.commute dest: bit_imp_le_length)

lemma BIG16_bit:
  "bit (CFE_MAKE_BIG16 w) n \<longleftrightarrow> n < 16 \<and> (if n < 8 then bit w (n + 8) else bit w (n - 8))"
  unfolding CFE_MAKE_BIG16_def byte_masks
  by (auto simp: bit_simps not_less add.commute dest: bit_imp_le_length)

lemma BIG_involution [simp]:
  "CFE_MAKE_BIG32 (CFE_MAKE_BIG32 w) = w" "CFE_MAKE_BIG16 (CFE_MAKE_BIG16 v) = v"
  by (rule bit_word_eqI; auto simp: BIG32_bit BIG16_bit)+

lemma payload_involution [simp]: "payload_time cfg (payload_time cfg t) = t" "payload16 cfg (payload16 cfg w) = w"
  by (simp_all add: payload_time_def payload16_def)


text \<open>What an accepted tone does to the values at the tone.\<close>

definition tone_values :: "time_cfg \<Rightarrow> time_state \<Rightarrow> time_at_tone" where
  "tone_values cfg s =
     (let old = at_tone s;
          virtual = \<lparr>Seconds = VirtualMET s, Subseconds = 0\<rparr>;
          new = old\<lparr>AtToneLatch := ToneSignalLatch s,
                    ClockFlyState := if ClockFlyState old = CFE_TIME_FlywheelState_IS_FLY
                                     then CFE_TIME_FlywheelState_NO_FLY else ClockFlyState old\<rparr>
      in if \<not> CFG_SERVER cfg
         then new\<lparr>AtToneMET := PendingMET s, AtToneSTCF := PendingSTCF s, AtToneLeapSeconds := PendingLeaps s,
                  ClockSetState := if PendingState s = CFE_TIME_ClockState_INVALID
                                   then CFE_TIME_SetState_NOT_SET else CFE_TIME_SetState_WAS_SET\<rparr>
         else if ClockSource s = CFE_TIME_SourceSelect_INTERNAL
         then new\<lparr>AtToneMET := if ClockFlyState old = CFE_TIME_FlywheelState_IS_FLY
                              then \<lparr>Seconds = Seconds (met_at cfg s old (read_clock s (ClockReads s))), Subseconds = 0\<rparr>
                              else virtual\<rparr>
         else case CFG_SRC cfg of
                SRC_NONE \<Rightarrow> new
              | SRC_MET \<Rightarrow> new\<lparr>AtToneMET := PendingMET s\<rparr>
              | SRC_GPS \<Rightarrow> new\<lparr>AtToneMET := virtual, AtToneSTCF := PendingSTCF s, AtToneLeapSeconds := PendingLeaps s\<rparr>
              | SRC_TIME \<Rightarrow> new\<lparr>AtToneMET := virtual, AtToneSTCF := PendingSTCF s\<rparr>)"

lemma at_tone_output [simp]: "at_tone (s\<lparr>Outputs := out\<rparr>) = at_tone s"
  by (simp add: at_tone_def CFE_TIME_GetReferenceState_def)

lemma server_update_value:
  assumes "server_tone_update cfg r i s = (b, s')" "time_at_tone.truncate (ReferenceState s i) = at_tone t"
    "ToneSignalLatch s = ToneSignalLatch t" "ClockSource s = ClockSource t" "VirtualMET s = VirtualMET t"
    "PendingMET s = PendingMET t" "PendingSTCF s = PendingSTCF t" "PendingLeaps s = PendingLeaps t" "CFG_SERVER cfg"
    "CurrentMET r = met_at cfg t (at_tone t) (read_clock t (ClockReads t))"
  shows "time_at_tone.truncate (ReferenceState s' i) = tone_values cfg t"
  using assms(1,3-) assms(2) [symmetric]
  unfolding server_tone_update_def Let_def tone_values_def
  by (auto split: if_splits time_source.splits simp: set_ref_def)

lemma client_update_value:
  assumes "client_tone_update i s = (b, s')" "time_at_tone.truncate (ReferenceState s i) = at_tone t"
    "ToneSignalLatch s = ToneSignalLatch t" "PendingState s = PendingState t"
    "PendingMET s = PendingMET t" "PendingSTCF s = PendingSTCF t" "PendingLeaps s = PendingLeaps t" "\<not> CFG_SERVER cfg"
  shows "time_at_tone.truncate (ReferenceState s' i) = tone_values cfg t"
  using assms(1,3-) assms(2) [symmetric]
  unfolding client_tone_update_def Let_def tone_values_def
  by (auto split: if_splits simp: set_ref_def)

lemma ToneUpdate_value:
  assumes inv: "time_inv s"
  shows "at_tone (CFE_TIME_ToneUpdate cfg s) = tone_values cfg s"
proof -
  let ?s = "s\<lparr>ClockReads := Suc (ClockReads s)\<rparr>"
  obtain r where r: "CFE_TIME_GetReference cfg zero_reference s = (r, ?s)"
    "CurrentMET r = met_at cfg s (at_tone s) (read_clock s (ClockReads s))"
    using GetReference_spec [OF inv] by metis
  obtain i s1 where st: "CFE_TIME_StartReferenceUpdate ?s = (i, s1)" by (rule start_obtain)
  note S = StartReferenceUpdate_simps [OF st]
  obtain b s2 where u: "(if CFG_SERVER cfg then server_tone_update cfg r i s1 else client_tone_update i s1) = (b, s2)"
    by fastforce
  have v: "StateVersion (ReferenceState s2 i) = StateVersion (ReferenceState s1 i)"
    using u server_update_keeps [of cfg r i s1 b s2] client_update_keeps [of i s1 b s2] by (auto split: if_splits)
  have f: "ToneSignalLatch s1 = ToneSignalLatch s" "ClockSource s1 = ClockSource s" "VirtualMET s1 = VirtualMET s"
    "PendingMET s1 = PendingMET s" "PendingSTCF s1 = PendingSTCF s" "PendingLeaps s1 = PendingLeaps s"
    "PendingState s1 = PendingState s"
    by (subst S(6), simp)+
  have t: "time_at_tone.truncate (ReferenceState s1 i) = at_tone s" using S(4) by simp
  have "time_at_tone.truncate (ReferenceState s2 i) = tone_values cfg s"
  proof (cases "CFG_SERVER cfg")
    case True
    then show ?thesis using server_update_value [OF _ t f(1,2,3,4,5,6) True r(2)] u by simp
  next
    case False
    then show ?thesis using client_update_value [OF _ t f(1,7,4,5,6) False] u by simp
  qed
  moreover have "at_tone (CFE_TIME_FinishReferenceUpdate i s2) = time_at_tone.truncate (ReferenceState s2 i)"
    by (rule at_tone_finish(1) [OF st v])
  ultimately show ?thesis unfolding CFE_TIME_ToneUpdate_def r(1) prod.case st u by (simp add: Let_def)
qed

lemma ToneUpdate_frame:
  "ToneMatchCounter (CFE_TIME_ToneUpdate cfg s) = ToneMatchCounter s"
  "ToneMatchErrorCounter (CFE_TIME_ToneUpdate cfg s) = ToneMatchErrorCounter s"
  "MaxLocalClock (CFE_TIME_ToneUpdate cfg s) = MaxLocalClock s"
  "ToneDataCmd (CFE_TIME_ToneUpdate cfg s) = ToneDataCmd s"
proof -
  obtain r s0 where r: "CFE_TIME_GetReference cfg zero_reference s = (r, s0)" by fastforce
  have "ToneMatchCounter t = ToneMatchCounter s" "ToneMatchErrorCounter t = ToneMatchErrorCounter s"
    "MaxLocalClock t = MaxLocalClock s" "ToneDataCmd t = ToneDataCmd s"
    if "read_reference_loop n r1 s = (q, k, t)" for n r1 q k t
    using that by (induction n arbitrary: r1 s q k t) (auto simp: Let_def LatchClock_eq split: if_splits; fastforce)+
  then have f0: "ToneMatchCounter s0 = ToneMatchCounter s" "ToneMatchErrorCounter s0 = ToneMatchErrorCounter s"
    "MaxLocalClock s0 = MaxLocalClock s" "ToneDataCmd s0 = ToneDataCmd s"
    using r by (auto simp: CFE_TIME_GetReference_def Let_def split: prod.splits if_splits)
  obtain i s1 where st: "CFE_TIME_StartReferenceUpdate s0 = (i, s1)" by (rule start_obtain)
  have f1: "ToneMatchCounter s1 = ToneMatchCounter s0" "ToneMatchErrorCounter s1 = ToneMatchErrorCounter s0"
    "MaxLocalClock s1 = MaxLocalClock s0" "ToneDataCmd s1 = ToneDataCmd s0"
    by (subst StartReferenceUpdate_simps(6) [OF st], simp)+
  obtain b s2 where u: "(if CFG_SERVER cfg then server_tone_update cfg r i s1 else client_tone_update i s1) = (b, s2)"
    by fastforce
  have f2: "ToneMatchCounter s2 = ToneMatchCounter s1" "ToneMatchErrorCounter s2 = ToneMatchErrorCounter s1"
    "MaxLocalClock s2 = MaxLocalClock s1" "ToneDataCmd s2 = ToneDataCmd s1"
    using u unfolding server_tone_update_def client_tone_update_def Let_def
    by (auto simp: set_ref_def split: if_splits time_source.splits)
  show "ToneMatchCounter (CFE_TIME_ToneUpdate cfg s) = ToneMatchCounter s"
    "ToneMatchErrorCounter (CFE_TIME_ToneUpdate cfg s) = ToneMatchErrorCounter s"
    "MaxLocalClock (CFE_TIME_ToneUpdate cfg s) = MaxLocalClock s"
    "ToneDataCmd (CFE_TIME_ToneUpdate cfg s) = ToneDataCmd s"
    unfolding CFE_TIME_ToneUpdate_def r prod.case st u Let_def
    by (simp_all add: CFE_TIME_FinishReferenceUpdate_def f0 f1 f2)
qed

lemma Compare_equal: "CFE_TIME_Compare a b = CFE_TIME_EQUAL \<longleftrightarrow> a = b"
  by (cases a; cases b) (auto simp: CFE_TIME_Compare_def split: if_splits)

text \<open>Tone and data match when both are new and the second follows the first within the window.\<close>

definition tone_matches :: "CFE_TIME_SysTime_t \<Rightarrow> CFE_TIME_SysTime_t \<Rightarrow> time_state \<Rightarrow> bool" where
  "tone_matches Time1 Time2 s \<longleftrightarrow>
     PrevTime1 s \<noteq> Time1 \<and> PrevTime2 s \<noteq> Time2 \<and> Seconds (elapsed_time Time1 Time2 s) = 0 \<and>
     Subseconds (elapsed_time Time1 Time2 s) \<in> {MinElapsed s..MaxElapsed s}"

lemma at_tone_verify_frame [simp]:
  "at_tone (s\<lparr>PrevTime1 := a, PrevTime2 := b\<rparr>) = at_tone s" "at_tone (s\<lparr>ToneMatchCounter := n\<rparr>) = at_tone s"
  "at_tone (s\<lparr>ToneMatchErrorCounter := n\<rparr>) = at_tone s"
  by (simp_all add: at_tone_def CFE_TIME_GetReferenceState_def)

lemma tone_values_match_counter [simp]:
  "tone_values cfg (s\<lparr>ToneMatchCounter := n\<rparr>) = tone_values cfg s"
  by (simp add: tone_values_def Let_def met_at_def since_tone_def read_clock_def split: time_source.split)

text \<open>C31. Every pair of tone and data is counted exactly once, as a match or as an error, and remembered; the
  reference changes exactly when the pair is new, inside the time window, and the flywheel is not forced, and then to
  the values of the tone.\<close>

theorem tone_match:
  assumes "time_inv s"
  shows "let s' = CFE_TIME_ToneVerify cfg Time1 Time2 s; ok = tone_matches Time1 Time2 s in
    ToneMatchCounter s' = ToneMatchCounter s + (if ok then 1 else 0) \<and>
    ToneMatchErrorCounter s' = ToneMatchErrorCounter s + (if ok then 0 else 1) \<and>
    PrevTime1 s' = Time1 \<and> PrevTime2 s' = Time2 \<and>
    at_tone s' = (if ok \<and> \<not> Forced2Fly s then tone_values cfg s else at_tone s)"
proof -
  have inv: "time_inv (s\<lparr>ToneMatchCounter := n\<rparr>)" for n
    using assms by (subst time_inv_cong) simp_all
  show ?thesis
    by (auto simp: CFE_TIME_ToneVerify_def tone_matches_def Let_def Compare_equal ToneUpdate_frame
        ToneUpdate_value [OF inv] not_less)
qed

text \<open>C30. A client follows the server: when the tone data that a server sent matches the tone, the client's
  reference holds the server's MET, STCF, leap seconds and state at the client's tone latch, whatever the byte order
  of the payload, and the client's MET at a later clock reading is the server's MET at the tone plus the elapsed time
  and the tone delay.\<close>

theorem client_follows_server:
  fixes Time :: CFE_TIME_SysTime_t
  assumes "time_inv c" "CFG_BIGENDIAN cfg_s = CFG_BIGENDIAN cfg" "\<not> CFG_SERVER cfg" "\<not> AT_TONE_WILL_BE cfg"
    "\<not> Forced2Fly c" "tone_matches (ToneSignalLatch c) (read_clock c (ClockReads c)) c"
    "CFE_TIME_Compare L (ToneSignalLatch c) \<noteq> CFE_TIME_A_LT_B"
    "c' = CFE_TIME_ToneData cfg (ToneDataCmd (send_tone_data cfg_s MET STCF Leaps State s)) c"
  shows "at_tone c' = (at_tone c)
      \<lparr>AtToneLatch := ToneSignalLatch c,
       ClockFlyState := if ClockFlyState (at_tone c) = CFE_TIME_FlywheelState_IS_FLY
                        then CFE_TIME_FlywheelState_NO_FLY else ClockFlyState (at_tone c),
       AtToneMET := MET, AtToneSTCF := STCF, AtToneLeapSeconds := Leaps,
       ClockSetState := if State = CFE_TIME_ClockState_INVALID then CFE_TIME_SetState_NOT_SET else CFE_TIME_SetState_WAS_SET\<rparr> \<and>
    ticks64 (met_at cfg c' (at_tone c') L) =
      ticks64 MET + (ticks64 L - ticks64 (ToneSignalLatch c)) + delay_ticks cfg (at_tone c)"
proof -
  let ?D = "read_clock c (ClockReads c)"
  let ?c = "c\<lparr>ClockReads := Suc (ClockReads c), ToneDataLatch := ?D, PendingMET := MET, PendingSTCF := STCF,
              PendingLeaps := Leaps, PendingState := State\<rparr>"
  have same: "payload_time cfg_s t = payload_time cfg t" "payload16 cfg_s w = payload16 cfg w" for t w
    using assms(2) by (simp_all add: payload_time_def payload16_def)
  let ?v = "CFE_TIME_ToneVerify cfg (ToneSignalLatch c) ?D ?c"
  have c': "c' = ?v\<lparr>ToneDataCounter := ToneDataCounter ?v + 1\<rparr>"
    unfolding assms(8) CFE_TIME_ToneData_def LatchClock_eq
    using assms(4) by (simp add: Let_def send_tone_data_def same)
  have inv: "time_inv ?c" using assms(1) by (subst time_inv_cong [of _ c]) simp_all
  have "tone_matches (ToneSignalLatch c) ?D ?c = tone_matches (ToneSignalLatch c) ?D c"
    by (simp add: tone_matches_def elapsed_time_def)
  then have "at_tone ?v = tone_values cfg ?c"
    using tone_match [OF inv, of cfg "ToneSignalLatch c" ?D] assms(5,6) by (simp add: Let_def)
  moreover have "at_tone ?c = at_tone c" by (simp add: at_tone_def CFE_TIME_GetReferenceState_def)
  moreover have "at_tone c' = at_tone ?v" unfolding c' by (simp add: at_tone_def CFE_TIME_GetReferenceState_def)
  ultimately have t: "at_tone c' = (at_tone c)
      \<lparr>AtToneLatch := ToneSignalLatch c,
       ClockFlyState := if ClockFlyState (at_tone c) = 1 then 0 else ClockFlyState (at_tone c),
       AtToneMET := MET, AtToneSTCF := STCF, AtToneLeapSeconds := Leaps,
       ClockSetState := if State = 0xFFFF then 0 else 1\<rparr>"
    using assms(3) by (simp add: tone_values_def Let_def)
  have "delay_ticks cfg (at_tone c') = delay_ticks cfg (at_tone c)" unfolding t by (simp add: delay_ticks_def)
  then have "ticks64 (met_at cfg c' (at_tone c') L) =
      ticks64 MET + (ticks64 L - ticks64 (ToneSignalLatch c)) + delay_ticks cfg (at_tone c)"
    using assms(7) unfolding ticks64_met_at ticks64_since_tone t by simp
  with t show ?thesis by blast
qed

end
