(* ===== verification/CFS_TimeRun.thy ===== *)
theory CFS_TimeRun
  imports CFS_TimeSync
begin

text \<open>
  The time service as a whole: every step keeps the invariant that the published reference carries its version; the
  accounting of ground commands; callbacks; and an example run at which the properties of the time theories are instantiated.
\<close>

lemma time_inv_frame [simp]:
  "time_inv (s\<lparr>CommandCounter := a\<rparr>) = time_inv s" "time_inv (s\<lparr>CommandErrorCounter := a\<rparr>) = time_inv s"
  "time_inv (s\<lparr>Outputs := out\<rparr>) = time_inv s" "time_inv (s\<lparr>ToneSignalCounter := n\<rparr>) = time_inv s"
  "time_inv (s\<lparr>ToneDataCounter := n\<rparr>) = time_inv s" "time_inv (s\<lparr>ToneTaskCounter := n\<rparr>) = time_inv s"
  "time_inv (s\<lparr>LocalTaskCounter := n\<rparr>) = time_inv s" "time_inv (s\<lparr>LocalIntCounter := n\<rparr>) = time_inv s"
  "time_inv (s\<lparr>AutoStartFly := b\<rparr>) = time_inv s" "time_inv (s\<lparr>ToneSignalLatch := t\<rparr>) = time_inv s"
  "time_inv (s\<lparr>ClockReads := k\<rparr>) = time_inv s" "time_inv (s\<lparr>VirtualMET := n\<rparr>) = time_inv s"
  "time_inv (s\<lparr>ToneIntErrorCounter := n, IsToneGood := b\<rparr>) = time_inv s"
  "time_inv (s\<lparr>ToneIntCounter := n, IsToneGood := b\<rparr>) = time_inv s"
  "time_inv (s\<lparr>ToneDataLatch := t, PendingMET := p, PendingSTCF := q, PendingLeaps := l, PendingState := st\<rparr>) = time_inv s"
  "time_inv (CFE_TIME_SetSource src s) = time_inv s" "time_inv (CFE_TIME_SetSignal src s) = time_inv s"
  "time_inv (CFE_TIME_Set1HzAdj t dir s) = time_inv s" "time_inv (CFE_TIME_UpdateResetVars r s) = time_inv s"
  "time_inv (CFE_TIME_GetHkData cfg r s) = time_inv s"
  by (rule time_inv_cong; simp add: CFE_TIME_SetSource_def CFE_TIME_SetSignal_def CFE_TIME_Set1HzAdj_def
      CFE_TIME_UpdateResetVars_def CFE_TIME_GetHkData_def Let_def)+

lemma time_inv_no_fail: "time_inv s \<Longrightarrow> \<not> GetReferenceFail s"
  by (simp add: time_inv_def)

lemma setting_keeps [intro]:
  assumes "time_inv s"
  shows "time_inv (CFE_TIME_SetState cfg n s)" "time_inv (CFE_TIME_SetMET cfg x s)" "time_inv (CFE_TIME_SetSTCF x s)"
    "time_inv (CFE_TIME_SetLeapSeconds n s)" "time_inv (CFE_TIME_SetDelay x d s)" "time_inv (CFE_TIME_SetAdjust x d s)"
    "time_inv (CFE_TIME_SetTime cfg x s)"
proof -
  note ok = time_inv_no_fail [OF assms]
  show "time_inv (CFE_TIME_SetState cfg n s)" "time_inv (CFE_TIME_SetMET cfg x s)" "time_inv (CFE_TIME_SetSTCF x s)"
    "time_inv (CFE_TIME_SetLeapSeconds n s)" "time_inv (CFE_TIME_SetDelay x d s)" "time_inv (CFE_TIME_SetAdjust x d s)"
    using ok by (simp_all add: SetState_spec SetMET_spec SetSTCF_spec SetLeapSeconds_spec SetDelay_spec SetAdjust_spec)
  obtain y where y: "CFE_TIME_SetTime cfg x s = reference_update (\<lambda>r. r\<lparr>AtToneSTCF := y\<rparr>) (s\<lparr>ClockReads := Suc (ClockReads s)\<rparr>)"
    by (rule SetTime_spec [OF assms])
  show "time_inv (CFE_TIME_SetTime cfg x s)"
    unfolding y by (subst reference_update_spec [where g = "\<lambda>t. t\<lparr>AtToneSTCF := y\<rparr>"]; simp add: ok)
qed

lemma InitData_inv: "time_inv (CFE_TIME_InitData cfg s)"
proof -
  let ?t = "CFE_TIME_QueryResetVars cfg ((clear_global s)\<lparr>ReferenceState :=
     \<lambda>i. if i < 4 then (ReferenceState (clear_global s) i)\<lparr>StateVersion := 0xFFFFFFFF\<rparr> else ReferenceState (clear_global s) i\<rparr>)"
  have ok: "\<not> GetReferenceFail ?t"
    unfolding CFE_TIME_QueryResetVars_def
    by (simp add: Let_def clear_global_def CFE_TIME_StartReferenceUpdate_def CFE_TIME_FinishReferenceUpdate_def split: option.splits)
  obtain i s1 where st: "CFE_TIME_StartReferenceUpdate ?t = (i, s1)" by (rule start_obtain)
  note S = StartReferenceUpdate_simps [OF st]
  show ?thesis
    unfolding CFE_TIME_InitData_def Let_def st prod.case LatchClock_eq
    by (subst update_between(2) [OF st refl]) (use S(3,5) ok in \<open>simp_all\<close>)
qed

lemma Notify_keeps [simp]: "time_inv (CFE_TIME_NotifyTimeSynchApps s) = time_inv s"
proof -
  have "time_inv (fold (\<lambda>i s. case SynchCallback s i of None \<Rightarrow> s | Some Fn \<Rightarrow> issue (Callback_called Fn) s) is s) = time_inv s" for "is"
    by (induction "is" arbitrary: s) (auto split: option.split)
  then show ?thesis by (simp add: CFE_TIME_NotifyTimeSynchApps_def)
qed

lemma Tone1HzISR_keeps: "time_inv s \<Longrightarrow> time_inv (CFE_TIME_Tone1HzISR cfg s)"
proof -
  assume inv: "time_inv s"
  have "time_inv (case OS_GetLocalMET t of (w, u) \<Rightarrow> u\<lparr>VirtualMET := w\<rparr>) = time_inv t" for t
    using GetLocalMET_keeps [of t] by (cases "OS_GetLocalMET t") simp
  then show ?thesis using inv by (simp add: CFE_TIME_Tone1HzISR_def LatchClock_eq Let_def)
qed

lemma OneHz_keeps: "time_inv s \<Longrightarrow> time_inv (CFE_TIME_Local1HzStateMachine cfg s)"
proof -
  assume inv: "time_inv s"
  note ok = time_inv_no_fail [OF inv]
  define u where "u = (if CFG_SERVER cfg \<and> (Seconds (OneHzAdjust s) \<noteq> 0 \<or> Subseconds (OneHzAdjust s) \<noteq> 0)
     then reference_update (\<lambda>r. r\<lparr>AtToneSTCF := adjusted (OneHzDirection s) (AtToneSTCF r) (OneHzAdjust s)\<rparr>) s else s)"
  have u: "time_inv u"
    using inv ok unfolding u_def
    by (auto simp: reference_update_spec [where f = "\<lambda>r. r\<lparr>AtToneSTCF := adjusted (OneHzDirection s) (AtToneSTCF r) (OneHzAdjust s)\<rparr>"
        and g = "\<lambda>t. t\<lparr>AtToneSTCF := adjusted (OneHzDirection s) (AtToneSTCF t) (OneHzAdjust s)\<rparr>"])
  let ?u = "u\<lparr>ClockReads := Suc (ClockReads u)\<rparr>"
  obtain r where r: "CFE_TIME_GetReference cfg zero_reference u = (r, ?u)"
    using GetReference_spec [OF u] by metis
  obtain i s1 where st: "CFE_TIME_StartReferenceUpdate ?u = (i, s1)" by (rule start_obtain)
  note S = StartReferenceUpdate_simps [OF st]
  define q where "q = (if ClockFlyState r = 0 \<and> START_FLY cfg \<le> Seconds (TimeSinceTone r)
     then CFE_TIME_FinishReferenceUpdate i ((if CFG_SERVER cfg then (set_ref i (\<lambda>r. r\<lparr>ClockFlyState := 1\<rparr>) s1)\<lparr>ServerFlyState := 1\<rparr>
       else set_ref i (\<lambda>r. r\<lparr>ClockFlyState := 1\<rparr>) s1)\<lparr>AutoStartFly := True\<rparr>) else ?u)"
  have "time_inv q"
    unfolding q_def using u time_inv_no_fail [OF u] S(3,5)
    by (auto simp: update_between(2) [OF st refl])
  then have "time_inv (reference_update (\<lambda>q. q\<lparr>AtToneMET := CurrentMET r, AtToneLatch := CurrentLatch r\<rparr>) q)"
    by (subst reference_update_spec [where g = "\<lambda>t. t\<lparr>AtToneMET := CurrentMET r, AtToneLatch := CurrentLatch r\<rparr>"])
      (simp_all add: time_inv_no_fail)
  moreover have "CFE_TIME_Local1HzStateMachine cfg s =
      (if ClockFlyState r = 1 \<and> LATCH_FLY cfg \<le> Seconds (TimeSinceTone r)
       then reference_update (\<lambda>q. q\<lparr>AtToneMET := CurrentMET r, AtToneLatch := CurrentLatch r\<rparr>) q else q)"
    unfolding CFE_TIME_Local1HzStateMachine_def Let_def adjusted_def [symmetric] u_def [symmetric] r prod.case
    unfolding st prod.case q_def [symmetric] by (simp add: q_def)
  ultimately show ?thesis using \<open>time_inv q\<close> by simp
qed

lemma time_stamp_keeps: "time_inv s \<Longrightarrow> time_inv (time_stamp cfg s)"
  using read_keeps [of s cfg zero_reference]
  by (simp add: time_stamp_def CFE_TIME_GetTime_def CFE_TIME_GetTAI_def CFE_TIME_GetUTC_def)

lemma TaskPipe_keeps:
  assumes "time_inv s"
  shows "time_inv (CFE_TIME_TaskPipe cfg m data s)"
proof -
  have hk: "time_inv (CFE_TIME_SendHkCmd cfg s)"
    using read_keeps [OF assms, of cfg zero_reference]
    by (auto simp: CFE_TIME_SendHkCmd_def Let_def case_prod_beta intro!: time_stamp_keeps)
  have verify: "time_inv (CFE_TIME_ToneVerify cfg a b t)" if "time_inv t" for a b t
    using that by (rule ToneVerify_keeps)
  have diag: "time_inv (CFE_TIME_SendDiagnosticTlm cfg s)"
    using read_keeps [of "s\<lparr>CommandCounter := CommandCounter s + 1\<rparr>" cfg zero_reference] assms
    by (auto simp: CFE_TIME_SendDiagnosticTlm_def CFE_TIME_GetDiagData_def Let_def case_prod_beta intro!: time_stamp_keeps)
  have reset: "time_inv (CFE_TIME_ResetCountersCmd s)"
    using assms by (subst time_inv_cong) (simp_all add: CFE_TIME_ResetCountersCmd_def)
  have handler: "time_inv (h s)" if "cmd_handler cfg data cc = Some h" for cc h
    using that assms setting_keeps [OF assms] reset diag
    by (auto simp: cmd_handler_def time_cmd_bodies Let_def split: if_splits)
  have dispatch: "time_inv (case CFE_TIME_VerifyCmdLength data n s of (ok, s) \<Rightarrow> if ok then h s else s)"
    if "cmd_handler cfg data cc = Some h" for n h cc
    using handler [OF that] assms by (simp add: CFE_TIME_VerifyCmdLength_def)
  show ?thesis
    using assms hk ToneSend_keeps [OF assms, of cfg] OneHz_keeps [OF assms, of cfg] dispatch
    by (auto simp: CFE_TIME_TaskPipe_def CFE_TIME_ToneSignalCmd_def CFE_TIME_ToneSignal_def CFE_TIME_ToneDataCmd_def
        CFE_TIME_ToneData_def CFE_TIME_OneHzCmd_def CFE_TIME_ToneSendCmd_def LatchClock_eq Let_def
        intro!: verify Tone1HzISR_keeps split: option.split)
qed

section \<open>Histories of the service\<close>

datatype time_event =
    Message time_msg
  | Tone_interrupt
  | Local_interrupt
  | Tone_task
  | Local_task
  | Time_read
  | External_MET CFE_TIME_SysTime_t
  | External_GPS CFE_TIME_SysTime_t int16
  | External_Time CFE_TIME_SysTime_t
  | Register uint32 "nat option"
  | Unregister uint32 "nat option"

fun time_step :: "time_cfg \<Rightarrow> time_msg_cfg \<Rightarrow> time_event \<Rightarrow> time_state \<Rightarrow> time_state" where
  "time_step cfg m (Message data) s = CFE_TIME_TaskPipe cfg m data s"
| "time_step cfg m Tone_interrupt s = CFE_TIME_Tone1HzISR cfg s"
| "time_step cfg m Local_interrupt s = CFE_TIME_Local1HzISR s"
| "time_step cfg m Tone_task s = CFE_TIME_Tone1HzTask cfg s"
| "time_step cfg m Local_task s = CFE_TIME_Local1HzTask s"
| "time_step cfg m Time_read s = snd (CFE_TIME_GetTime cfg s)"
| "time_step cfg m (External_MET t) s = CFE_TIME_ExternalMET cfg t s"
| "time_step cfg m (External_GPS t l) s = CFE_TIME_ExternalGPS cfg t l s"
| "time_step cfg m (External_Time t) s = CFE_TIME_ExternalTime cfg t s"
| "time_step cfg m (Register i f) s = snd (CFE_TIME_RegisterSynchCallback (CFE_SUCCESS, i) (Pair CFE_SUCCESS) f s)"
| "time_step cfg m (Unregister i f) s = snd (CFE_TIME_UnregisterSynchCallback (CFE_SUCCESS, i) (Pair CFE_SUCCESS) f s)"

lemma time_step_inv: "time_inv s \<Longrightarrow> time_inv (time_step cfg m e s)"
proof (cases e)
  case Time_read
  assume "time_inv s"
  then show ?thesis
    using Time_read time_stamp_keeps [of s cfg] by (simp add: time_stamp_def)
next
  have cb: "time_inv (s\<lparr>SynchCallback := f\<rparr>) = time_inv s" for f by (rule time_inv_cong) simp_all
  assume "time_inv s"
  then show "e = Register i f \<Longrightarrow> ?thesis" "e = Unregister i f \<Longrightarrow> ?thesis" for i f
    by (simp_all add: CFE_TIME_RegisterSynchCallback_def CFE_TIME_UnregisterSynchCallback_def cb)
qed (auto intro: TaskPipe_keeps Tone1HzISR_keeps simp: CFE_TIME_ExternalMET_def CFE_TIME_ExternalGPS_def
    CFE_TIME_ExternalTime_def CFE_TIME_Local1HzISR_def CFE_TIME_Tone1HzTask_def
    CFE_TIME_Local1HzTask_def Let_def ToneSend_external_keeps)

text \<open>Every state that the service reaches publishes a reference that carries its version, and no uninterrupted read of the
  reference fails; \<open>CFS_TimeRace\<close> treats the reads that are interrupted.\<close>

lemma time_reachable_inv: "time_inv (fold (time_step cfg m) es (CFE_TIME_InitData cfg s))"
proof -
  have "time_inv (fold (time_step cfg m) es t)" if "time_inv t" for t
    using that by (induction es arbitrary: t) (auto intro: time_step_inv)
  then show ?thesis using InitData_inv by blast
qed

section \<open>Command accounting\<close>

text \<open>The commands that the service carries out.\<close>

definition command_valid :: "time_cfg \<Rightarrow> time_msg_cfg \<Rightarrow> time_msg \<Rightarrow> bool" where
  "command_valid cfg m data \<longleftrightarrow>
     FcnCode data < 16 \<and> MsgSize data = cmd_length m (FcnCode data) \<and>
     (FcnCode data = 3 \<longrightarrow> CFG_SOURCE cfg \<and> PayloadTimeSource data \<in> {1, 2}) \<and>
     (FcnCode data = 4 \<longrightarrow> PayloadClockState data \<in> {0xFFFF, 0, 1}) \<and>
     (FcnCode data \<in> {5, 6} \<longrightarrow> \<not> CFG_SERVER cfg) \<and>
     (FcnCode data \<in> {7, 8, 9, 10, 11, 12, 13, 14} \<longrightarrow> CFG_SERVER cfg) \<and>
     (FcnCode data \<in> {5, 6, 7, 8, 9, 11, 12} \<longrightarrow> PayloadMicroSeconds data < 1000000) \<and>
     (FcnCode data = 15 \<longrightarrow> CFG_SIGNAL cfg \<and> PayloadToneSource data \<in> {1, 2})"

definition counts :: "time_state \<Rightarrow> uint8 \<times> uint8" where
  "counts s = (CommandCounter s, CommandErrorCounter s)"

lemma counts_frame [simp]:
  "counts (set_ref i f s) = counts s" "counts (snd (CFE_TIME_StartReferenceUpdate s)) = counts s"
  "counts (CFE_TIME_FinishReferenceUpdate i s) = counts s" "counts (CFE_TIME_SetSource src s) = counts s"
  "counts (CFE_TIME_SetSignal src s) = counts s" "counts (CFE_TIME_Set1HzAdj t d s) = counts s"
  by (simp_all add: counts_def set_ref_def CFE_TIME_StartReferenceUpdate_def CFE_TIME_FinishReferenceUpdate_def Let_def
      CFE_TIME_SetSource_def CFE_TIME_SetSignal_def CFE_TIME_Set1HzAdj_def)

lemma counts_updates [simp]:
  "counts (s\<lparr>Outputs := out\<rparr>) = counts s" "counts (s\<lparr>ServerFlyState := w\<rparr>) = counts s" "counts (s\<lparr>Forced2Fly := b\<rparr>) = counts s"
  "counts (s\<lparr>VirtualMET := v\<rparr>) = counts s" "counts (s\<lparr>ClockReads := k\<rparr>) = counts s" "counts (s\<lparr>GetReferenceFail := b\<rparr>) = counts s"
  "counts (s\<lparr>OneTimeAdjust := t, OneTimeDirection := w\<rparr>) = counts s"
  by (simp_all add: counts_def)

lemma counts_read_loop: "counts (snd (snd (read_reference_loop n r s))) = counts s"
  by (induction n arbitrary: r s) (simp_all add: Let_def LatchClock_eq)

lemma counts_GetReference [simp]: "counts (snd (CFE_TIME_GetReference cfg r s)) = counts s"
  using counts_read_loop [of 4 r s]
  by (auto simp: CFE_TIME_GetReference_def Let_def split: prod.split)

lemma counts_settings [simp]:
  "counts (CFE_TIME_SetState cfg n s) = counts s" "counts (CFE_TIME_SetDelay x d s) = counts s"
  "counts (CFE_TIME_SetTime cfg x s) = counts s" "counts (CFE_TIME_SetMET cfg x s) = counts s"
  "counts (CFE_TIME_SetSTCF x s) = counts s" "counts (CFE_TIME_SetLeapSeconds n s) = counts s"
  "counts (CFE_TIME_SetAdjust x d s) = counts s"
proof -
  obtain i s1 where st: "CFE_TIME_StartReferenceUpdate s = (i, s1)" by (rule start_obtain)
  have s1: "counts s1 = counts s" using counts_frame(2) [of s] st by simp
  have up: "counts (reference_update f t) = counts t" for f t
    using counts_frame(2) [of t] by (simp add: reference_update_def split_beta)
  obtain r s0 where r: "CFE_TIME_GetReference cfg zero_reference s = (r, s0)" by fastforce
  have s0: "counts s0 = counts s" using counts_GetReference [of cfg zero_reference s] r by simp
  show "counts (CFE_TIME_SetState cfg n s) = counts s" unfolding CFE_TIME_SetState_def st by (simp add: Let_def s1)
  show "counts (CFE_TIME_SetDelay x d s) = counts s" unfolding CFE_TIME_SetDelay_def by (rule up)
  show "counts (CFE_TIME_SetTime cfg x s) = counts s" unfolding CFE_TIME_SetTime_def r by (simp add: Let_def up s0)
  show "counts (CFE_TIME_SetMET cfg x s) = counts s" unfolding CFE_TIME_SetMET_def st by (simp add: Let_def LatchClock_eq s1)
  show "counts (CFE_TIME_SetSTCF x s) = counts s" unfolding CFE_TIME_SetSTCF_def by (rule up)
  show "counts (CFE_TIME_SetLeapSeconds n s) = counts s" unfolding CFE_TIME_SetLeapSeconds_def by (rule up)
  show "counts (CFE_TIME_SetAdjust x d s) = counts s" unfolding CFE_TIME_SetAdjust_def by (simp add: up)
qed

lemma counts_stamp [simp]: "counts (time_stamp cfg s) = counts s"
  by (simp add: time_stamp_def CFE_TIME_GetTime_def CFE_TIME_GetTAI_def CFE_TIME_GetUTC_def)

lemma counts_diag: "counts (CFE_TIME_SendDiagnosticTlm cfg s) = (fst (counts s) + 1, snd (counts s))"
proof -
  obtain r t where r: "CFE_TIME_GetReference cfg zero_reference (s\<lparr>CommandCounter := CommandCounter s + 1\<rparr>) = (r, t)" by fastforce
  have "counts t = counts (s\<lparr>CommandCounter := CommandCounter s + 1\<rparr>)" using r counts_GetReference [of cfg zero_reference] by (metis snd_conv)
  then show ?thesis by (simp add: CFE_TIME_SendDiagnosticTlm_def CFE_TIME_GetDiagData_def r Let_def) (simp add: counts_def)
qed

lemma word16_cases:
  assumes "(w :: uint16) < 16"
  shows "w \<in> {0, 1, 2, 3, 4, 5, 6, 7, 8, 9, 10, 11, 12, 13, 14, 15}"
proof -
  have "unat w < 16" using assms by (simp add: word_less_nat_alt)
  then have "unat w \<in> set [0..<16]" by simp
  then have "word_of_nat (unat w) \<in> (word_of_nat ` set [0..<16] :: uint16 set)" by blast
  then show ?thesis by (simp add: upt_rec)
qed

lemma handler_None: "cmd_handler cfg data cc = None \<longleftrightarrow> \<not> cc < 16"
  using word16_cases [of cc] by (auto simp: cmd_handler_def split: if_splits)

lemma handler_table:
  "cmd_handler cfg data 0 = Some CFE_TIME_NoopCmd" "cmd_handler cfg data 1 = Some CFE_TIME_ResetCountersCmd"
  "cmd_handler cfg data 2 = Some (CFE_TIME_SendDiagnosticTlm cfg)" "cmd_handler cfg data 3 = Some (CFE_TIME_SetSourceCmd cfg data)"
  "cmd_handler cfg data 4 = Some (CFE_TIME_SetStateCmd cfg data)" "cmd_handler cfg data 5 = Some (CFE_TIME_AddDelayCmd cfg data)"
  "cmd_handler cfg data 6 = Some (CFE_TIME_SubDelayCmd cfg data)" "cmd_handler cfg data 7 = Some (CFE_TIME_SetTimeCmd cfg data)"
  "cmd_handler cfg data 8 = Some (CFE_TIME_SetMETCmd cfg data)" "cmd_handler cfg data 9 = Some (CFE_TIME_SetSTCFCmd cfg data)"
  "cmd_handler cfg data 10 = Some (CFE_TIME_SetLeapSecondsCmd cfg data)" "cmd_handler cfg data 11 = Some (CFE_TIME_AddAdjustCmd cfg data)"
  "cmd_handler cfg data 12 = Some (CFE_TIME_SubAdjustCmd cfg data)"
  "cmd_handler cfg data 13 = Some (CFE_TIME_AddOneHzAdjustmentCmd cfg data)"
  "cmd_handler cfg data 14 = Some (CFE_TIME_SubOneHzAdjustmentCmd cfg data)" "cmd_handler cfg data 15 = Some (CFE_TIME_SetSignalCmd cfg data)"
  by (simp_all add: cmd_handler_def)

lemma handler_accepts:
  assumes "command_valid cfg m data" "cmd_handler cfg data (FcnCode data) = Some h"
  shows "counts (h s) = (if FcnCode data = 1 then (0, 0) else (fst (counts s) + 1, snd (counts s)))"
proof -
  have c: "counts (CFE_TIME_ResetCountersCmd s) = (0, 0)" by (simp add: CFE_TIME_ResetCountersCmd_def counts_def)
  have up: "counts (t\<lparr>CommandCounter := CommandCounter u + 1\<rparr>) = (fst (counts u) + 1, snd (counts t))" for t u
    by (simp add: counts_def)
  have "FcnCode data < 16" using assms(1) by (simp add: command_valid_def)
  from word16_cases [OF this] show ?thesis
    using assms
    by (elim insertE emptyE; simp only: handler_table option.inject; hypsubst;
        simp add: command_valid_def time_cmd_bodies Let_def up c counts_diag)
qed

text \<open>A rejected command only counts an error and sends an event.\<close>

definition rejected :: "time_state \<Rightarrow> time_state \<Rightarrow> bool" where
  "rejected s s' \<longleftrightarrow>
     (\<exists>e. s' = s\<lparr>CommandErrorCounter := CommandErrorCounter s + 1, Outputs := Outputs s @ [Event_sent e]\<rparr>)"

lemma rejectedI [simp]:
  "rejected s (s\<lparr>CommandErrorCounter := CommandErrorCounter s + 1, Outputs := Outputs s @ [Event_sent e]\<rparr>)"
  unfolding rejected_def by blast

lemma handler_rejects:
  assumes "\<not> command_valid cfg m data" "MsgSize data = cmd_length m (FcnCode data)" "cmd_handler cfg data (FcnCode data) = Some h"
  shows "rejected s (h s)"
proof -
  have "FcnCode data < 16" using assms(3) handler_None [of cfg data "FcnCode data"] by auto
  from word16_cases [OF this] show ?thesis
    using assms
    by (elim insertE emptyE; simp only: handler_table option.inject; hypsubst;
        (simp add: command_valid_def time_cmd_bodies Let_def split: if_splits)?; (elim disjE; simp)?)
qed

text \<open>C35. Every ground command is counted exactly once: a valid one in the command counter (the reset command
  clears both counters), any other one in the error counter, and then nothing else changes but for one event.\<close>

theorem command_accounting:
  assumes "MsgId data = CMD_MID m"
    and "CMD_MID m \<notin> {SEND_HK_MID m, TONE_CMD_MID m, DATA_CMD_MID m, ONEHZ_CMD_MID m, SEND_CMD_MID m}"
  shows "let s' = CFE_TIME_TaskPipe cfg m data s in
    if command_valid cfg m data
    then (CommandCounter s', CommandErrorCounter s') =
           (if FcnCode data = 1 then (0, 0) else (CommandCounter s + 1, CommandErrorCounter s))
    else rejected s s'"
proof -
  have pipe: "CFE_TIME_TaskPipe cfg m data s =
      (case cmd_handler cfg data (FcnCode data) of
         None \<Rightarrow> reject_command ''CFE_TIME_CC_ERR_EID'' s
       | Some h \<Rightarrow> if cmd_length m (FcnCode data) = MsgSize data then h s else reject_command ''CFE_TIME_LEN_ERR_EID'' s)"
    using assms by (simp add: CFE_TIME_TaskPipe_def CFE_TIME_VerifyCmdLength_def split: option.split)
  show ?thesis
  proof (cases "cmd_handler cfg data (FcnCode data)")
    case None
    then have "\<not> command_valid cfg m data" using handler_None by (auto simp: command_valid_def)
    then show ?thesis unfolding pipe None by (simp add: Let_def)
  next
    case (Some h)
    show ?thesis
    proof (cases "command_valid cfg m data")
      case True
      then have "MsgSize data = cmd_length m (FcnCode data)" by (simp add: command_valid_def)
      then show ?thesis unfolding pipe Some using handler_accepts [OF True Some, of s] True by (simp add: counts_def Let_def)
    next
      case False
      then show ?thesis unfolding pipe Some using handler_rejects [OF False _ Some, of s] False by (simp add: Let_def)
    qed
  qed
qed

section \<open>Callbacks\<close>

lemma notify_outputs:
  "Outputs (fold (\<lambda>i s. case SynchCallback s i of None \<Rightarrow> s | Some Fn \<Rightarrow> issue (Callback_called Fn) s) is s) =
     Outputs s @ map Callback_called (List.map_filter (SynchCallback s) is)"
  by (induction "is" arbitrary: s) (auto simp: List.map_filter_simps split: option.split)

text \<open>An application registers one callback: a registration is called at its place by every notification of a
  good tone, a second one is refused, only the registered pointer can be taken out, and taking it out or cleaning up
  the application restores the state.\<close>

theorem callbacks_once:
  assumes "ToIndex app = (CFE_SUCCESS, i)" "unat i < 32" "SynchCallback s (unat i) = None"
    and "s1 = snd (CFE_TIME_RegisterSynchCallback (CFE_SUCCESS, app) ToIndex (Some f) s)"
  shows "fst (CFE_TIME_RegisterSynchCallback (CFE_SUCCESS, app) ToIndex (Some f) s) = CFE_SUCCESS \<and>
    CFE_TIME_RegisterSynchCallback (CFE_SUCCESS, app) ToIndex (Some g) s1 = (CFE_TIME_TOO_MANY_SYNCH_CALLBACKS, s1) \<and>
    CFE_TIME_UnregisterSynchCallback (CFE_SUCCESS, app) ToIndex (Some g) s1 =
      (if g = f then (CFE_SUCCESS, s) else (CFE_TIME_CALLBACK_NOT_REGISTERED, s1)) \<and>
    CFE_TIME_CleanUpApp ToIndex app s1 = (CFE_SUCCESS, s) \<and>
    Outputs (CFE_TIME_NotifyTimeSynchApps s1) = Outputs s @
      (if IsToneGood s
       then map Callback_called (List.map_filter (SynchCallback s) [0..<unat i] @ f #
              List.map_filter (SynchCallback s) [Suc (unat i)..<32])
       else [])"
proof -
  let ?i = "unat i"
  have s1: "s1 = s\<lparr>SynchCallback := (SynchCallback s)(?i := Some f)\<rparr>"
    unfolding assms(4) CFE_TIME_RegisterSynchCallback_def using assms(1-3) by simp
  have mf: "List.map_filter h (xs @ ys) = List.map_filter h xs @ List.map_filter h ys" for h :: "nat \<Rightarrow> nat option" and xs ys
    by (simp add: List.map_filter_def)
  have other: "List.map_filter ((SynchCallback s)(?i := Some f)) xs = List.map_filter (SynchCallback s) xs" if "?i \<notin> set xs" for xs
    using that by (induction xs) (auto simp: List.map_filter_simps split: option.split)
  have "[0..<32] = [0..<?i] @ ?i # [Suc ?i..<32]"
    using assms(2) upt_add_eq_append [of 0 ?i "32 - ?i"] by (simp add: upt_conv_Cons del: upt_rec_numeral)
  then have "List.map_filter ((SynchCallback s)(?i := Some f)) [0..<32] =
      List.map_filter (SynchCallback s) [0..<?i] @ f # List.map_filter (SynchCallback s) [Suc ?i..<32]"
    by (simp only: mf List.map_filter_simps other) (simp add: other)
  then have "Outputs (CFE_TIME_NotifyTimeSynchApps s1) = Outputs s @
      (if IsToneGood s
       then map Callback_called (List.map_filter (SynchCallback s) [0..<?i] @ f #
              List.map_filter (SynchCallback s) [Suc ?i..<32])
       else [])"
    unfolding CFE_TIME_NotifyTimeSynchApps_def s1 by (simp add: notify_outputs del: upt_rec_numeral)
  moreover have "s\<lparr>SynchCallback := (SynchCallback s)(?i := None)\<rparr> = s"
    using assms(3) by (simp add: fun_upd_idem)
  ultimately show ?thesis
    using assms(1-3) unfolding s1
    by (simp add: CFE_TIME_RegisterSynchCallback_def CFE_TIME_UnregisterSynchCallback_def CFE_TIME_CleanUpApp_def)
qed

section \<open>An example run\<close>

text \<open>The configuration of the default build, as a server or a client, and a state whose clock reads 0 s, 1 s, 1.1 s
  and so on.\<close>

definition example_cfg :: "bool \<Rightarrow> time_cfg" where
  "example_cfg server =
     \<lparr>CFG_SERVER = server, CFG_VIRTUAL = True, CFG_SOURCE = False, CFG_SIGNAL = False, CFG_SRC = SRC_NONE,
      DEFAULT_TAI = True, AT_TONE_WILL_BE = False, FAKE_TONE = True, CFG_BIGENDIAN = False, START_FLY = 2, LATCH_FLY = 8,
      MIN_ELAPSED = 0, MAX_ELAPSED = 200000, TONE_LIMIT = 20000, MAX_DELTA_SECS = 0, MAX_DELTA_SUBS = 500000,
      MAX_LOCAL_SECS = 27, MAX_LOCAL_SUBS = 0, DEF_MET_SECS = 1000, DEF_MET_SUBS = 0, DEF_STCF_SECS = 1000000,
      DEF_STCF_SUBS = 0, DEF_LEAPS = 37\<rparr>"

definition example_clock :: "nat \<Rightarrow> OS_time_t" where
  "example_clock k = (if k = 0 then 0 else 9000000 + 1000000 * int k)"

definition example_boot :: time_state where
  "example_boot = 
     \<lparr>CommandCounter = 0, CommandErrorCounter = 0, ClockSource = 0, ClockSignal = 0, ServerFlyState = 0,
      PendingMET = zero_time, PendingSTCF = zero_time, PendingLeaps = 0, PendingState = 0,
      OneTimeAdjust = zero_time, OneHzAdjust = zero_time, OneTimeDirection = 0, OneHzDirection = 0,
      ToneSignalLatch = zero_time, ToneDataLatch = zero_time, ToneMatchCounter = 0, ToneMatchErrorCounter = 0,
      ToneSignalCounter = 0, ToneDataCounter = 0, ToneIntCounter = 0, ToneIntErrorCounter = 0, ToneTaskCounter = 0,
      VirtualMET = 0, LocalIntCounter = 0, LocalTaskCounter = 0, InternalCount = 0, ExternalCount = 0,
      ReferenceState = \<lambda>_. zero_ref_state, LastVersionCounter = 0, ResetVersionCounter = 0,
      MinElapsed = 0, MaxElapsed = 0, MaxLocalClock = zero_time, Forced2Fly = False, AutoStartFly = False,
      IsToneGood = False, GetReferenceFail = False,
      ToneDataCmd = \<lparr>CmdAtToneMET = zero_time, CmdAtToneSTCF = zero_time, CmdAtToneLeapSeconds = 0, CmdAtToneState = 0\<rparr>,
      MaxDelta = zero_time, ToneOverLimit = 0, ToneUnderLimit = 0, DataStoreStatus = 0, SynchCallback = \<lambda>_. None,
      HkPacket = \<lparr>HkCommandCounter = 0, HkCommandErrorCounter = 0, HkClockStateFlags = 0, HkClockStateAPI = 0,
        HkLeapSeconds = 0, SecondsMET = 0, SubsecsMET = 0, SecondsSTCF = 0, SubsecsSTCF = 0, Seconds1HzAdj = 0,
        Subsecs1HzAdj = 0, SecondsDelay = 0, SubsecsDelay = 0\<rparr>,
      PrevTime1 = zero_time, PrevTime2 = zero_time, ClockReadings = example_clock, ClockReads = 0,
      LocalMETReadings = \<lambda>_. 0, LocalMETReads = 0, ResetArea = None, Outputs = []\<rparr>"

abbreviation (input) example_start :: "bool \<Rightarrow> time_state" where
  "example_start server \<equiv> CFE_TIME_InitData (example_cfg server) example_boot"

abbreviation (input) example_toned :: time_state where
  "example_toned \<equiv> (example_start False)\<lparr>ToneSignalLatch := \<lparr>Seconds = 1, Subseconds = 0\<rparr>, ClockReads := 2\<rparr>"

lemma QueryResetVars_frame:
  "PrevTime1 (CFE_TIME_QueryResetVars cfg s) = PrevTime1 s" "PrevTime2 (CFE_TIME_QueryResetVars cfg s) = PrevTime2 s"
  "Forced2Fly (CFE_TIME_QueryResetVars cfg s) = Forced2Fly s" "ClockReadings (CFE_TIME_QueryResetVars cfg s) = ClockReadings s"
  by (simp_all add: CFE_TIME_QueryResetVars_def CFE_TIME_StartReferenceUpdate_def CFE_TIME_FinishReferenceUpdate_def
      set_ref_def Let_def split: option.split)

lemma InitData_fields:
  "PrevTime1 (CFE_TIME_InitData cfg s) = PrevTime1 s" "PrevTime2 (CFE_TIME_InitData cfg s) = PrevTime2 s"
  "\<not> Forced2Fly (CFE_TIME_InitData cfg s)" "ClockReadings (CFE_TIME_InitData cfg s) = ClockReadings s"
  "MinElapsed (CFE_TIME_InitData cfg s) = CFE_TIME_Micro2SubSecs (MIN_ELAPSED cfg)"
  "MaxElapsed (CFE_TIME_InitData cfg s) = CFE_TIME_Micro2SubSecs (MAX_ELAPSED cfg)"
  by (simp_all add: CFE_TIME_InitData_def LatchClock_eq CFE_TIME_StartReferenceUpdate_def CFE_TIME_FinishReferenceUpdate_def
      set_ref_def Let_def QueryResetVars_frame) (simp_all add: clear_global_def)

lemma example_values:
  "CFE_TIME_Micro2SubSecs 200000 = 858993460" "CFE_TIME_Micro2SubSecs 0 = 0"
  "OS_TimeGetTotalSeconds (example_clock 2) = 1" "OS_TimeGetSubsecondsPart (example_clock 2) = 429496730"
  "PrevTime1 example_boot = zero_time" "PrevTime2 example_boot = zero_time" "ClockReadings example_boot = example_clock"
  "MIN_ELAPSED (example_cfg b) = 0" "MAX_ELAPSED (example_cfg b) = 200000"
  by (code_simp, code_simp, code_simp, code_simp) (simp_all add: example_boot_def example_cfg_def)

lemma example_tone:
  "\<not> Forced2Fly example_toned \<and> tone_matches (ToneSignalLatch example_toned) (read_clock example_toned (ClockReads example_toned)) example_toned"
  by (simp add: tone_matches_def elapsed_time_def read_clock_def InitData_fields example_values CFE_TIME_Compare_def CFE_TIME_Subtract_def Let_def)

abbreviation (input) example_delayed :: time_state where
  "example_delayed \<equiv> CFE_TIME_SetDelay \<lparr>Seconds = 1, Subseconds = 0\<rparr> 1 ((example_start False)\<lparr>ClockReads := 71\<rparr>)"

lemma example_fly:
  "OneHzAdjust example_delayed = zero_time \<and>
   read_clock example_delayed (ClockReads example_delayed) = \<lparr>Seconds = 8, Subseconds = 0\<rparr> \<and>
   AtToneLatch (at_tone example_delayed) = zero_time \<and> ClockFlyState (at_tone example_delayed) = 1 \<and>
   delay_ticks (example_cfg False) (at_tone example_delayed) = 4294967296"
  by code_simp

lemma example_delayed_inv: "time_inv example_delayed"
  by (rule setting_keeps) (simp add: InitData_inv)

lemma example_toned_inv: "time_inv example_toned"
  by (subst time_inv_cong [of _ "example_start False"]) (simp_all add: InitData_inv)

theorem SetTime_sets_witness:
  "ticks64 (fst (CFE_TIME_GetTime (example_cfg True)
     (CFE_TIME_SetTime (example_cfg True) \<lparr>Seconds = 5, Subseconds = 0\<rparr> (example_start True)))) =
   ticks64 \<lparr>Seconds = 5, Subseconds = 0\<rparr> +
     (ticks64 (since_tone (example_start True) (at_tone (example_start True))
                 (read_clock (example_start True) (Suc (ClockReads (example_start True))))) -
      ticks64 (since_tone (example_start True) (at_tone (example_start True))
                 (read_clock (example_start True) (ClockReads (example_start True)))))"
  by (rule SetTime_sets [OF InitData_inv])

theorem flywheel_continuity_witness:
  "let s = example_delayed; s' = CFE_TIME_Local1HzStateMachine (example_cfg False) s; L' = \<lparr>Seconds = 9, Subseconds = 0\<rparr> in
   ticks64 (met_at (example_cfg False) s' (at_tone s') L') = ticks64 (met_at (example_cfg False) s (at_tone s) L') + 4294967296 \<and>
   AtToneSTCF (at_tone s') = AtToneSTCF (at_tone s)"
proof -
  have latch: "LATCH_FLY (example_cfg False) = 8" "\<not> CFG_SERVER (example_cfg False)" by (simp_all add: example_cfg_def)
  have *: "CFE_TIME_Compare \<lparr>Seconds = 8, Subseconds = 0\<rparr> zero_time \<noteq> CFE_TIME_A_LT_B"
    "CFE_TIME_Compare \<lparr>Seconds = 9, Subseconds = 0\<rparr> zero_time \<noteq> CFE_TIME_A_LT_B"
    "CFE_TIME_Compare \<lparr>Seconds = 9, Subseconds = 0\<rparr> \<lparr>Seconds = 8, Subseconds = 0\<rparr> \<noteq> CFE_TIME_A_LT_B"
    "Seconds (CFE_TIME_Subtract \<lparr>Seconds = 8, Subseconds = 0\<rparr> zero_time) = 8"
    by (simp_all add: CFE_TIME_Compare_def CFE_TIME_Subtract_def)
  have "Seconds (since_tone example_delayed (at_tone example_delayed) \<lparr>Seconds = 8, Subseconds = 0\<rparr>) = 8"
    using * example_fly by (simp add: since_tone_def)
  then show ?thesis
    using flywheel_continuity [OF example_delayed_inv, of "\<lparr>Seconds = 8, Subseconds = 0\<rparr>" zero_time "\<lparr>Seconds = 9, Subseconds = 0\<rparr>" "example_cfg False"]
      example_fly * latch
    by (auto simp: Let_def)
qed

theorem tone_match_witness:
  "let s = example_toned; T = \<lparr>Seconds = 1, Subseconds = 0\<rparr>; s' = CFE_TIME_ToneVerify (example_cfg False) T T s in
   ToneMatchCounter s' = ToneMatchCounter s + (if tone_matches T T s then 1 else 0)"
  using tone_match [OF example_toned_inv, of "example_cfg False"] unfolding Let_def by blast

theorem client_follows_server_witness:
  "let c' = CFE_TIME_ToneData (example_cfg False)
         (ToneDataCmd (send_tone_data (example_cfg True) \<lparr>Seconds = 7, Subseconds = 0\<rparr> zero_time 37 0 (example_start True)))
         example_toned in
   AtToneMET (at_tone c') = \<lparr>Seconds = 7, Subseconds = 0\<rparr> \<and> AtToneLeapSeconds (at_tone c') = 37"
proof -
  have c: "CFG_BIGENDIAN (example_cfg True) = CFG_BIGENDIAN (example_cfg False)" "\<not> CFG_SERVER (example_cfg False)"
    "\<not> AT_TONE_WILL_BE (example_cfg False)"
    by (simp_all add: example_cfg_def)
  have later: "CFE_TIME_Compare \<lparr>Seconds = 2, Subseconds = 0\<rparr> (ToneSignalLatch example_toned) \<noteq> CFE_TIME_A_LT_B"
    by (simp add: CFE_TIME_Compare_def)
  show ?thesis
    using client_follows_server [OF example_toned_inv c conjunct1 [OF example_tone] conjunct2 [OF example_tone] later refl,
        of "\<lparr>Seconds = 7, Subseconds = 0\<rparr>" zero_time 37 0 "example_start True"]
    by (simp add: Let_def)
qed

definition example_msg :: time_msg where
  "example_msg = \<lparr>MsgId = 5, FcnCode = 10, MsgSize = 12, PayloadClockState = 0, PayloadTimeSource = 0, PayloadToneSource = 0,
     PayloadSeconds = 0, PayloadMicroSeconds = 0, PayloadSubseconds = 0, PayloadLeapSeconds = 38,
     PayloadToneData = ToneDataCmd example_boot\<rparr>"

definition example_mids :: time_msg_cfg where
  "example_mids = \<lparr>SEND_HK_MID = 0, TONE_CMD_MID = 1, DATA_CMD_MID = 2, ONEHZ_CMD_MID = 3, SEND_CMD_MID = 4, CMD_MID = 5,
     cmd_length = \<lambda>cc. if cc = 10 then 12 else 8\<rparr>"

theorem command_accounting_witness:
  "let s' = CFE_TIME_TaskPipe (example_cfg True) example_mids example_msg example_boot in
   CommandCounter s' = 1 \<and> CommandErrorCounter s' = 0 \<and>
   rejected example_boot (CFE_TIME_TaskPipe (example_cfg False) example_mids example_msg example_boot)"
  using command_accounting [of example_msg example_mids "example_cfg True" example_boot]
    command_accounting [of example_msg example_mids "example_cfg False" example_boot]
  by (simp add: Let_def example_msg_def example_mids_def command_valid_def example_cfg_def example_boot_def)

theorem callbacks_once_witness:
  "fst (CFE_TIME_RegisterSynchCallback (CFE_SUCCESS, 9) (\<lambda>_. (CFE_SUCCESS, 3)) (Some 7) example_boot) = CFE_SUCCESS"
  using callbacks_once [of "\<lambda>_. (CFE_SUCCESS, 3)" 9 3 example_boot _ 7] by (simp add: example_boot_def)

end
