(* ===== verification/CFS_TimeRace.thy ===== *)
theory CFS_TimeRace
  imports CFS_TimeRun
begin

text \<open>
  Reads of the time reference that are interrupted.  The other theories of the time service run every function without
  interruption.  The one structure that is read without a lock is the buffer of reference states, so here its updates
  and the read are split into their accesses to memory, in the order of \<^verbatim>\<open>cfe_time_utils.c\<close>, and the accesses are
  interleaved in any order.  As the variables are volatile, the accesses happen in the order of the program.  One update
  is under way at a time.
\<close>

section \<open>Accesses to the reference states\<close>

datatype ref_field =
    Field_LeapSeconds | Field_SetState | Field_FlyState | Field_Direction | Field_MET | Field_STCF | Field_Delay | Field_Latch


fun copy_field :: "ref_field \<Rightarrow> 'a time_at_tone_scheme \<Rightarrow> 'b time_at_tone_scheme \<Rightarrow> 'b time_at_tone_scheme" where
  "copy_field Field_LeapSeconds q r = r\<lparr>AtToneLeapSeconds := AtToneLeapSeconds q\<rparr>"
| "copy_field Field_SetState q r = r\<lparr>ClockSetState := ClockSetState q\<rparr>"
| "copy_field Field_FlyState q r = r\<lparr>ClockFlyState := ClockFlyState q\<rparr>"
| "copy_field Field_Direction q r = r\<lparr>DelayDirection := DelayDirection q\<rparr>"
| "copy_field Field_MET q r = r\<lparr>AtToneMET := AtToneMET q\<rparr>"
| "copy_field Field_STCF q r = r\<lparr>AtToneSTCF := AtToneSTCF q\<rparr>"
| "copy_field Field_Delay q r = r\<lparr>AtToneDelay := AtToneDelay q\<rparr>"
| "copy_field Field_Latch q r = r\<lparr>AtToneLatch := AtToneLatch q\<rparr>"

text \<open>The accesses of an update: the version of the new state, the copies from the current state and the assignments of the
  updating function to the new state, in any number and order, and the publication.\<close>

datatype update_access = Update_start | Update_copy ref_field | Update_assign ref_field time_at_tone | Update_finish

fun access_reference :: "update_access \<Rightarrow> time_state \<Rightarrow> time_state" where
  "access_reference Update_start s =
     set_ref (ref_slot (LastVersionCounter s + 1)) (\<lambda>r. r\<lparr>StateVersion := LastVersionCounter s + 1\<rparr>) s"
| "access_reference (Update_copy f) s =
     set_ref (ref_slot (LastVersionCounter s + 1)) (copy_field f (ReferenceState s (ref_slot (LastVersionCounter s)))) s"
| "access_reference (Update_assign f v) s = set_ref (ref_slot (LastVersionCounter s + 1)) (copy_field f v) s"
| "access_reference Update_finish s = CFE_TIME_FinishReferenceUpdate (ref_slot (LastVersionCounter s + 1)) s"

text \<open>Where the loop of \<^verbatim>\<open>CFE_TIME_GetReference\<close> stands, with the fields that it has still to copy.\<close>

datatype read_point = Read_begin | Read_clock | Read_fields "ref_field list" | Read_done

record reference_race =
  RaceState :: time_state
  Updating :: bool
  ReadPoint :: read_point
  ReadVersion :: uint32
  Retries :: nat
  ReadReference :: CFE_TIME_Reference_t

definition start_read :: "CFE_TIME_Reference_t \<Rightarrow> time_state \<Rightarrow> reference_race" where
  "start_read Reference s =
     \<lparr>RaceState = s, Updating = False, ReadPoint = Read_begin, ReadVersion = 0, Retries = 4, ReadReference = Reference\<rparr>"

fun read_access :: "reference_race \<Rightarrow> reference_race" where
  "read_access w =
     (let s = RaceState w; RefState = ReferenceState s (ref_slot (ReadVersion w)) in
      case ReadPoint w of
        Read_begin \<Rightarrow> w\<lparr>ReadVersion := LastVersionCounter s, ReadPoint := Read_clock\<rparr>
      | Read_clock \<Rightarrow>
          (case CFE_TIME_LatchClock s of
             (Latch, s) \<Rightarrow> w\<lparr>RaceState := s, ReadReference := (ReadReference w)\<lparr>CurrentLatch := Latch\<rparr>,
                             ReadPoint := Read_fields [Field_MET, Field_STCF, Field_LeapSeconds, Field_Delay, Field_Latch,
                                                       Field_SetState, Field_FlyState, Field_Direction]\<rparr>)
      | Read_fields (f # fs) \<Rightarrow>
          w\<lparr>ReadReference := copy_field f RefState (ReadReference w), ReadPoint := Read_fields fs\<rparr>
      | Read_fields [] \<Rightarrow>
          if ReadVersion w = StateVersion RefState then w\<lparr>ReadPoint := Read_done\<rparr>
          else if Retries w = 0 then w\<lparr>ReadPoint := Read_done\<rparr>
          else w\<lparr>Retries := Retries w - 1, ReadPoint := Read_begin\<rparr>
      | Read_done \<Rightarrow> w)"

text \<open>A schedule is the list of whose access comes next.  An update that starts while another is under way waits.\<close>

datatype turn = Reader_turn | Update_turn update_access

fun race_step :: "turn \<Rightarrow> reference_race \<Rightarrow> reference_race" where
  "race_step Reader_turn w = read_access w"
| "race_step (Update_turn a) w =
     (if Updating w = (a = Update_start) then w
      else w\<lparr>RaceState := access_reference a (RaceState w), Updating := (a \<noteq> Update_finish)\<rparr>)"

abbreviation (input) reads :: "turn list \<Rightarrow> nat" where
  "reads ts \<equiv> length (filter (\<lambda>t. t = Reader_turn) ts)"
abbreviation (input) finishes :: "turn list \<Rightarrow> nat" where
  "finishes ts \<equiv> length (filter (\<lambda>t. t = Update_turn Update_finish) ts)"

section \<open>Without interleaving\<close>

text \<open>The accesses of an update in the order of the program make up the functions that start and end it, and the accesses of
  the read the loop.\<close>

lemma start_accesses:
  "fold access_reference (Update_start # map Update_copy [Field_LeapSeconds, Field_SetState, Field_FlyState, Field_Direction,
     Field_MET, Field_STCF, Field_Delay, Field_Latch]) s = snd (CFE_TIME_StartReferenceUpdate s)"
proof -
  have n: "ref_slot v \<noteq> ref_slot (v + 1)" for v using next_slot [of v] by simp
  show ?thesis by (simp add: CFE_TIME_StartReferenceUpdate_def set_ref_def Let_def n)
qed

definition reference_copy :: "CFE_TIME_Reference_t \<Rightarrow> time_state \<Rightarrow> CFE_TIME_Reference_t" where
  "reference_copy r s =
     (let q = ReferenceState s (ref_slot (LastVersionCounter s))
      in r\<lparr>CurrentLatch := read_clock s (ClockReads s), AtToneMET := AtToneMET q, AtToneSTCF := AtToneSTCF q,
           AtToneLeapSeconds := AtToneLeapSeconds q, AtToneDelay := AtToneDelay q, AtToneLatch := AtToneLatch q,
           ClockSetState := ClockSetState q, ClockFlyState := ClockFlyState q, DelayDirection := DelayDirection q\<rparr>)"

lemma read_loop_copy:
  "read_reference_loop 0 r s = (reference_copy r s, 0, s\<lparr>ClockReads := Suc (ClockReads s)\<rparr>)"
  "read_reference_loop (Suc n) r s =
     (if LastVersionCounter s = StateVersion (ReferenceState s (ref_slot (LastVersionCounter s)))
      then (reference_copy r s, Suc n, s\<lparr>ClockReads := Suc (ClockReads s)\<rparr>)
      else read_reference_loop n (reference_copy r s) (s\<lparr>ClockReads := Suc (ClockReads s)\<rparr>))"
  by (simp_all add: LatchClock_eq reference_copy_def Let_def)

lemma read_round:
  assumes "ReadPoint w = Read_begin"
  shows "fold race_step (replicate 11 Reader_turn) w =
     (let s = RaceState w; V = LastVersionCounter s;
          w' = w\<lparr>RaceState := s\<lparr>ClockReads := Suc (ClockReads s)\<rparr>, ReadVersion := V, ReadReference := reference_copy (ReadReference w) s\<rparr>
      in if V = StateVersion (ReferenceState s (ref_slot V)) \<or> Retries w = 0 then w'\<lparr>ReadPoint := Read_done\<rparr>
         else w'\<lparr>Retries := Retries w - 1, ReadPoint := Read_begin\<rparr>)"
  using assms by (simp add: numeral_eq_Suc LatchClock_eq Let_def reference_copy_def)

lemma done_stays: "ReadPoint w = Read_done \<Longrightarrow> (race_step Reader_turn ^^ n) w = w"
  by (induction n) simp_all

declare read_reference_loop.simps [simp del]

lemma read_accesses:
  assumes "ReadPoint w = Read_begin"
  shows "\<exists>v. fold race_step (replicate (11 * Suc (Retries w)) Reader_turn) w =
    (case read_reference_loop (Retries w) (ReadReference w) (RaceState w) of
       (r, n, s) \<Rightarrow> w\<lparr>RaceState := s, ReadReference := r, Retries := n, ReadVersion := v, ReadPoint := Read_done\<rparr>)"
  using assms
proof (induction "Retries w" arbitrary: w)
  case 0
  show ?case
    using read_round [OF 0(2)] 0(1) [symmetric]
    by (intro exI [of _ "LastVersionCounter (RaceState w)"]) (simp add: read_loop_copy Let_def)
next
  case (Suc n)
  have split: "replicate (11 * Suc (Retries w)) Reader_turn = replicate 11 Reader_turn @ replicate (11 * Suc n) Reader_turn"
    unfolding replicate_add [symmetric] using Suc.hyps(2) by simp
  let ?w = "fold race_step (replicate 11 Reader_turn) w" and ?s = "RaceState w"
  let ?ok = "LastVersionCounter ?s = StateVersion (ReferenceState ?s (ref_slot (LastVersionCounter ?s)))"
  have w: "?w = (if ?ok then w\<lparr>RaceState := ?s\<lparr>ClockReads := Suc (ClockReads ?s)\<rparr>, ReadVersion := LastVersionCounter ?s,
        ReadReference := reference_copy (ReadReference w) ?s, ReadPoint := Read_done\<rparr>
      else w\<lparr>RaceState := ?s\<lparr>ClockReads := Suc (ClockReads ?s)\<rparr>, ReadVersion := LastVersionCounter ?s,
        ReadReference := reference_copy (ReadReference w) ?s, Retries := n, ReadPoint := Read_begin\<rparr>)"
    unfolding read_round [OF Suc.prems] using Suc.hyps(2) [symmetric] by (auto simp: Let_def)
  show ?case
  proof (cases ?ok)
    case True
    then show ?thesis
      unfolding split fold_append comp_apply using w Suc.hyps(2) [symmetric]
      by (intro exI [of _ "LastVersionCounter ?s"], cases w) (simp add: done_stays read_loop_copy)
  next
    case False
    then have "n = Retries ?w" "ReadPoint ?w = Read_begin" unfolding w by simp_all
    from Suc.hyps(1) [OF this] show ?thesis
      unfolding split fold_append comp_apply using w False Suc.hyps(2) [symmetric] by (simp add: read_loop_copy)
  qed
qed

section \<open>With any interleaving\<close>

text \<open>\<open>W\<close> are the states seen so far, \<open>F\<close> bounds the number of finished updates.  In the middle of a round, the version
  read is that of a state \<open>sk\<close> seen, \<open>d\<close> updates ago.  Either its reference state is untouched and what has been copied is
  from it, or its version has been overwritten.\<close>

definition untouched :: "reference_race \<Rightarrow> time_at_tone \<Rightarrow> bool" where
  "untouched w A \<longleftrightarrow> (let q = ReferenceState (RaceState w) (ref_slot (ReadVersion w)) in
     StateVersion q = ReadVersion w \<and> time_at_tone.truncate q = A \<and>
     (\<forall>f. (case ReadPoint w of Read_fields fs \<Rightarrow> f \<notin> set fs | _ \<Rightarrow> False) \<longrightarrow> copy_field f A (ReadReference w) = ReadReference w))"

definition overwritten :: "reference_race \<Rightarrow> nat \<Rightarrow> bool" where
  "overwritten w d \<longleftrightarrow> (\<exists>e. 4 \<le> e \<and> e \<le> d + (if Updating w then 1 else 0) \<and>
     StateVersion (ReferenceState (RaceState w) (ref_slot (ReadVersion w))) = ReadVersion w + of_nat e)"

lemma overwritten_version:
  "overwritten w d \<Longrightarrow> \<exists>e\<ge>4. e \<le> Suc d \<and> StateVersion (ReferenceState (RaceState w) (ref_slot (ReadVersion w))) = ReadVersion w + of_nat e"
  unfolding overwritten_def by (metis Suc_eq_plus1 add.right_neutral le_SucI)

definition latched :: "reference_race \<Rightarrow> time_state \<Rightarrow> bool" where
  "latched w sk \<longleftrightarrow> (if ReadPoint w = Read_clock
     then ClockReads (RaceState w) = ClockReads sk \<and> ClockReadings (RaceState w) = ClockReadings sk
     else CurrentLatch (ReadReference w) = fst (CFE_TIME_LatchClock sk))"

definition in_round :: "time_state set \<Rightarrow> nat \<Rightarrow> reference_race \<Rightarrow> bool" where
  "in_round W F w \<longleftrightarrow> (\<exists>sk\<in>W. \<exists>d. LastVersionCounter (RaceState w) = ReadVersion w + of_nat d \<and>
     3 * (4 - Retries w) + d \<le> F \<and> latched w sk \<and> (untouched w (at_tone sk) \<or> overwritten w d))"

definition race_inv :: "time_state set \<Rightarrow> nat \<Rightarrow> reference_race \<Rightarrow> bool" where
  "race_inv W F w \<longleftrightarrow> RaceState w \<in> W \<and> Retries w \<le> 4 \<and>
     StateVersion (CFE_TIME_GetReferenceState (RaceState w)) = LastVersionCounter (RaceState w) \<and>
     (Updating w \<longrightarrow> StateVersion (ReferenceState (RaceState w) (ref_slot (LastVersionCounter (RaceState w) + 1)))
        = LastVersionCounter (RaceState w) + 1) \<and>
     (case ReadPoint w of
        Read_begin \<Rightarrow> 3 * (4 - Retries w) \<le> F
      | Read_done \<Rightarrow> (Retries w = 0 \<longrightarrow> 12 \<le> F) \<and>
          (Retries w \<noteq> 0 \<longrightarrow> (\<exists>sk\<in>W. time_at_tone.truncate (ReadReference w) = at_tone sk \<and>
             CurrentLatch (ReadReference w) = fst (CFE_TIME_LatchClock sk)))
      | _ \<Rightarrow> in_round W F w)"

lemma slot_again:
  assumes "ref_slot (v + of_nat n) = ref_slot v"
  shows "4 dvd n"
proof -
  have m: "unat (x AND 3) = unat x mod 4" for x :: uint32
  proof -
    have "x AND 3 = take_bit 2 x" by (simp add: take_bit_eq_mask mask_eq_exp_minus_1)
    then show ?thesis by (simp add: unsigned_take_bit_eq) (simp add: take_bit_eq_mod)
  qed
  have "unat (v + of_nat n) mod 4 = (unat v + n) mod 4"
    by (simp add: unat_word_ariths unat_of_nat mod_mod_cancel mod_simps)
  then have "(unat v + n) mod 4 = (unat v + 0) mod 4" using assms by (simp add: m)
  then show ?thesis by presburger
qed

lemma version_differs: "0 < n \<Longrightarrow> n < 2 ^ 32 \<Longrightarrow> (v :: uint32) + of_nat n \<noteq> v"
  by (auto simp: word_of_nat_eq_0_iff dest: dvd_imp_le)

lemma copy_field_truncate [simp]: "copy_field f (time_at_tone.truncate q) r = copy_field f q r"
  by (cases f) (simp_all add: time_at_tone.defs)

lemma copy_field_twice: "copy_field f A (copy_field f A r) = copy_field f A r"
  by (cases f) simp_all

lemma copy_field_commute: "copy_field g A (copy_field f A r) = copy_field f A (copy_field g A r)"
  by (cases g; cases f) simp_all

lemma copy_field_frame [simp]:
  "StateVersion (copy_field f q st) = StateVersion st" "CurrentLatch (copy_field f q c) = CurrentLatch c"
  by (cases f; simp)+

lemma all_fields:
  assumes "\<And>f. copy_field f A r = r"
  shows "time_at_tone.truncate r = A"
  using assms [of Field_LeapSeconds] assms [of Field_SetState] assms [of Field_FlyState] assms [of Field_Direction]
    assms [of Field_MET] assms [of Field_STCF] assms [of Field_Delay] assms [of Field_Latch]
  by (cases r) (simp add: time_at_tone.defs)

lemma access_frame:
  assumes "a \<noteq> Update_finish"
  shows "LastVersionCounter (access_reference a s) = LastVersionCounter s"
    "j \<noteq> ref_slot (LastVersionCounter s + 1) \<Longrightarrow> ReferenceState (access_reference a s) j = ReferenceState s j"
    "StateVersion (ReferenceState (access_reference a s) (ref_slot (LastVersionCounter s + 1))) =
       (if a = Update_start then LastVersionCounter s + 1 else StateVersion (ReferenceState s (ref_slot (LastVersionCounter s + 1))))"
  using assms by (cases a; simp)+

lemma access_clock:
  "ClockReads (access_reference a s) = ClockReads s" "ClockReadings (access_reference a s) = ClockReadings s"
  by (cases a; simp add: CFE_TIME_FinishReferenceUpdate_def)+

declare race_step.simps [simp del] read_access.simps [simp del]

lemma in_round_update:
  assumes round: "in_round W F w" and moves: "Updating w \<noteq> (a = Update_start)" and small: "Suc F < 2 ^ 32"
    and version: "Updating w \<Longrightarrow> StateVersion (ReferenceState (RaceState w) (ref_slot (LastVersionCounter (RaceState w) + 1)))
        = LastVersionCounter (RaceState w) + 1"
  shows "in_round W (if a = Update_finish then Suc F else F) (race_step (Update_turn a) w)"
proof -
  let ?s = "RaceState w" and ?V = "ReadVersion w"
  define w' where "w' = race_step (Update_turn a) w"
  let ?next = "ref_slot (LastVersionCounter ?s + 1)"
  obtain sk d where sk: "sk \<in> W" "LastVersionCounter ?s = ?V + of_nat d" "3 * (4 - Retries w) + d \<le> F" "latched w sk"
    and u: "untouched w (at_tone sk) \<or> overwritten w d"
    using round by (auto simp: in_round_def)
  have w: "RaceState w' = access_reference a ?s" "Updating w' = (a \<noteq> Update_finish)" "ReadPoint w' = ReadPoint w"
    "ReadVersion w' = ?V" "Retries w' = Retries w" "ReadReference w' = ReadReference w"
    using moves by (auto simp: w'_def race_step.simps)
  have l: "latched w' sk" using sk(4) by (simp add: latched_def w access_clock)
  have nxt: "LastVersionCounter ?s + 1 = ?V + of_nat (Suc d)" using sk(2) by simp
  have "in_round W (if a = Update_finish then Suc F else F) w'"
  proof (cases "a = Update_finish")
    case True
    then have up: "Updating w" using moves by simp
    have r: "ReferenceState (access_reference a ?s) = ReferenceState ?s" "LastVersionCounter (access_reference a ?s) = ?V + of_nat (Suc d)"
      using version [OF up, folded nxt] version [OF up] by (simp_all add: w(1) True CFE_TIME_FinishReferenceUpdate_def sk(2) up)
    have "untouched w' (at_tone sk) \<or> overwritten w' (Suc d)"
      using u up using r(1) by (auto simp: untouched_def overwritten_def w(2-6) w(1) True Let_def)
    then show ?thesis
      using sk(1,3) l r(2) True by (auto simp: in_round_def w(1,4,5) intro!: bexI [of _ sk] exI [of _ "Suc d"])
  next
    case False
    note f = access_frame [OF False, where s = ?s]
    have "untouched w' (at_tone sk) \<or> overwritten w' d"
    proof (cases "?next = ref_slot ?V")
      case same: True
      then have four: "4 \<le> Suc d" using slot_again [of ?V "Suc d"] nxt by (auto dest: dvd_imp_le)
      show ?thesis
      proof (cases "a = Update_start")
        case True
        then have "StateVersion (ReferenceState (RaceState w') (ref_slot ?V)) = ?V + of_nat (Suc d)"
          by (metis f(3) same nxt w(1))
        then show ?thesis using four False by (auto simp: overwritten_def w(2,4) intro!: exI [of _ "Suc d"])
      next
        case keep: False
        then have up: "Updating w" using moves by simp
        have v: "StateVersion (ReferenceState ?s (ref_slot ?V)) = ?V + of_nat (Suc d)"
          by (metis version [OF up] same nxt)
        have "\<not> untouched w (at_tone sk)"
          using v version_differs [of "Suc d" ?V] sk(3) small by (auto simp: untouched_def Let_def)
        then show ?thesis
          using u up False keep f(3) same by (auto simp: overwritten_def w)
      qed
    next
      case other: False
      then have "ReferenceState (RaceState w') (ref_slot ?V) = ReferenceState ?s (ref_slot ?V)"
        using f(2) [of "ref_slot ?V"] by (simp add: w(1))
      then have "untouched w' (at_tone sk) = untouched w (at_tone sk)" "overwritten w d \<Longrightarrow> overwritten w' d"
        using False overwritten_version [of w d] by (auto simp: untouched_def overwritten_def [of w'] w(2-4,6) Let_def)
      then show ?thesis using u by blast
    qed
    then show ?thesis
      using sk(1-3) l f(1) False by (auto simp: in_round_def w(1,4,5) intro!: bexI [of _ sk] exI [of _ d])
  qed
  then show ?thesis by (simp add: w'_def)
qed

lemma in_round_mono: "in_round W F w \<Longrightarrow> W \<subseteq> W' \<Longrightarrow> F \<le> F' \<Longrightarrow> in_round W' F' w"
  unfolding in_round_def by (meson le_trans subsetD)

lemma race_inv_mono:
  assumes "race_inv W F w" "W \<subseteq> W'" "F \<le> F'"
  shows "race_inv W' F' w"
  using assms in_round_mono [OF _ assms(2,3), of w] unfolding race_inv_def
  by (auto split: read_point.splits)

lemma update_step_inv:
  assumes "race_inv W F w" "Suc F < 2 ^ 32"
  shows "race_inv (insert (RaceState (race_step (Update_turn a) w)) W) (if a = Update_finish then Suc F else F)
    (race_step (Update_turn a) w)"
proof (cases "Updating w = (a = Update_start)")
  case True
  then have "race_step (Update_turn a) w = w" by (simp add: race_step.simps)
  then show ?thesis using race_inv_mono [OF assms(1)] by (metis subset_insertI le_SucI order_refl)
next
  case moves: False
  let ?s = "RaceState w"
  define w' where "w' = race_step (Update_turn a) w"
  let ?next = "ref_slot (LastVersionCounter ?s + 1)"
  have v: "StateVersion (ReferenceState ?s (ref_slot (LastVersionCounter ?s))) = LastVersionCounter ?s"
    "Updating w \<Longrightarrow> StateVersion (ReferenceState ?s ?next) = LastVersionCounter ?s + 1"
    using assms(1) by (simp_all add: race_inv_def CFE_TIME_GetReferenceState_def)
  have w: "RaceState w' = access_reference a ?s" "Updating w' = (a \<noteq> Update_finish)" "ReadPoint w' = ReadPoint w"
    "Retries w' = Retries w" "ReadReference w' = ReadReference w"
    using moves by (auto simp: w'_def race_step.simps)
  have versions: "StateVersion (CFE_TIME_GetReferenceState (RaceState w')) = LastVersionCounter (RaceState w') \<and>
     (Updating w' \<longrightarrow> StateVersion (ReferenceState (RaceState w') (ref_slot (LastVersionCounter (RaceState w') + 1)))
        = LastVersionCounter (RaceState w') + 1)"
  proof (cases "a = Update_finish")
    case True
    then show ?thesis using v(2) moves unfolding w(1,2) by (simp add: CFE_TIME_FinishReferenceUpdate_def CFE_TIME_GetReferenceState_def)
  next
    case False
    have "ref_slot (LastVersionCounter ?s) \<noteq> ?next" using next_slot [of "LastVersionCounter ?s"] by simp
    then show ?thesis
      using access_frame [OF False, where s = ?s] v moves unfolding w(1) by (auto simp: CFE_TIME_GetReferenceState_def)
  qed
  have round: "in_round (insert (RaceState w') W) (if a = Update_finish then Suc F else F) w'" if "in_round W F w"
    using in_round_update [OF that moves assms(2) v(2), folded w'_def] by (auto simp: in_round_def)
  show ?thesis
    unfolding w'_def [symmetric] using assms(1) versions round unfolding race_inv_def w
    by (auto split: read_point.splits)
qed

lemma read_step_inv:
  assumes inv: "race_inv W F w" and small: "Suc F < 2 ^ 32"
  shows "race_inv (insert (RaceState (read_access w)) W) F (read_access w)"
proof -
  let ?s = "RaceState w" and ?q = "ReferenceState (RaceState w) (ref_slot (ReadVersion w))"
  note i = inv [unfolded race_inv_def]
  show ?thesis
  proof (cases "ReadPoint w")
    case Read_begin
    have w: "read_access w = w\<lparr>ReadVersion := LastVersionCounter ?s, ReadPoint := Read_clock\<rparr>"
      using Read_begin by (simp add: read_access.simps)
    have "in_round W F (read_access w)"
      using i Read_begin unfolding w
      by (auto simp: in_round_def latched_def untouched_def at_tone_def CFE_TIME_GetReferenceState_def Let_def
          intro!: bexI [of _ ?s] exI [of _ 0])
    then show ?thesis using i Read_begin unfolding race_inv_def w by (simp add: insert_absorb)
  next
    case Read_clock
    then obtain sk d where sk: "sk \<in> W" "LastVersionCounter ?s = ReadVersion w + of_nat d" "3 * (4 - Retries w) + d \<le> F"
      "latched w sk" "untouched w (at_tone sk) \<or> overwritten w d"
      using i by (auto simp: in_round_def)
    have w: "read_access w = w\<lparr>RaceState := ?s\<lparr>ClockReads := Suc (ClockReads ?s)\<rparr>,
        ReadReference := (ReadReference w)\<lparr>CurrentLatch := read_clock ?s (ClockReads ?s)\<rparr>,
        ReadPoint := Read_fields [Field_MET, Field_STCF, Field_LeapSeconds, Field_Delay, Field_Latch,
                                  Field_SetState, Field_FlyState, Field_Direction]\<rparr>"
      using Read_clock by (simp add: read_access.simps LatchClock_eq Let_def)
    have all: "f \<in> {Field_MET, Field_STCF, Field_LeapSeconds, Field_Delay, Field_Latch, Field_SetState, Field_FlyState, Field_Direction}" for f
      by (cases f) auto
    have "untouched w A \<Longrightarrow> untouched (read_access w) A" "overwritten w n \<Longrightarrow> overwritten (read_access w) n" for A n
      using all unfolding w by (auto simp: untouched_def overwritten_def Let_def)
    moreover have "latched (read_access w) sk"
      using Read_clock sk(4) unfolding w by (simp add: latched_def LatchClock_eq read_clock_def)
    moreover have "LastVersionCounter (RaceState (read_access w)) = LastVersionCounter ?s" "Retries (read_access w) = Retries w"
      "ReadVersion (read_access w) = ReadVersion w"
      unfolding w by simp_all
    ultimately have "in_round W F (read_access w)" unfolding in_round_def using sk by metis
    then have "in_round (insert (RaceState (read_access w)) W) F (read_access w)" by (rule in_round_mono) auto
    then show ?thesis using i unfolding race_inv_def w by (simp add: CFE_TIME_GetReferenceState_def)
  next
    case (Read_fields fs)
    then obtain sk d where sk: "sk \<in> W" "LastVersionCounter ?s = ReadVersion w + of_nat d" "3 * (4 - Retries w) + d \<le> F"
      "latched w sk" "untouched w (at_tone sk) \<or> overwritten w d"
      using i by (auto simp: in_round_def)
    show ?thesis
    proof (cases fs)
      case (Cons f gs)
      have w: "read_access w = w\<lparr>ReadReference := copy_field f ?q (ReadReference w), ReadPoint := Read_fields gs\<rparr>"
        using Read_fields Cons by (simp add: read_access.simps Let_def)
      have "untouched (read_access w) (at_tone sk)" if "untouched w (at_tone sk)"
      proof -
        have q: "copy_field f ?q r = copy_field f (at_tone sk) r" for r :: CFE_TIME_Reference_t
          using that copy_field_truncate [of f ?q r] by (simp add: untouched_def Let_def)
        have "copy_field g (at_tone sk) (copy_field f (at_tone sk) (ReadReference w)) = copy_field f (at_tone sk) (ReadReference w)"
          if "g \<notin> set gs" for g
          using \<open>untouched w (at_tone sk)\<close> that Read_fields Cons
          by (cases "g = f") (simp_all add: copy_field_twice copy_field_commute [of g _ f] untouched_def Let_def)
        then show ?thesis using that unfolding w by (simp add: untouched_def Let_def q)
      qed
      moreover have "overwritten (read_access w) d = overwritten w d" unfolding w by (simp add: overwritten_def)
      moreover have "latched (read_access w) sk" using sk(4) Read_fields unfolding w by (simp add: latched_def)
      ultimately have "in_round W F (read_access w)"
        using sk(1-3,5) unfolding in_round_def by (intro bexI [of _ sk] exI [of _ d]) (auto simp: w)
      then show ?thesis using i unfolding race_inv_def w by (auto simp: insert_absorb)
    next
      case Nil
      have copied: "time_at_tone.truncate (ReadReference w) = at_tone sk" if "untouched w (at_tone sk)"
        using that Read_fields Nil by (intro all_fields) (simp add: untouched_def Let_def)
      have latch: "CurrentLatch (ReadReference w) = fst (CFE_TIME_LatchClock sk)"
        using sk(4) Read_fields by (simp add: latched_def)
      have over: "3 \<le> d \<and> StateVersion ?q \<noteq> ReadVersion w" if "overwritten w d"
      proof -
        from overwritten_version [OF that] obtain e where e: "4 \<le> e" "e \<le> Suc d" "StateVersion ?q = ReadVersion w + of_nat e"
          by blast
        then show ?thesis using version_differs [of e "ReadVersion w"] sk(3) small by auto
      qed
      show ?thesis
      proof (cases "ReadVersion w = StateVersion ?q")
        case True
        then have "untouched w (at_tone sk)" using over sk(5) by auto
        then show ?thesis
          using i True Read_fields Nil copied latch sk(1,3)
          by (auto simp: race_inv_def read_access.simps insert_absorb Let_def intro!: bexI [of _ sk])
      next
        case False
        then have "3 \<le> d" using over sk(5) by (auto simp: untouched_def Let_def)
        then show ?thesis
          using i False Read_fields Nil sk(1,3) by (auto simp: race_inv_def read_access.simps insert_absorb Let_def)
      qed
    qed
  next
    case Read_done
    then show ?thesis using inv i by (simp add: read_access.simps insert_absorb)
  qed
qed

definition states_seen :: "reference_race \<Rightarrow> turn list \<Rightarrow> time_state set" where
  "states_seen w ts = (\<lambda>k. RaceState (fold race_step (take k ts) w)) ` {..length ts}"

lemma states_seen_snoc: "states_seen w (ts @ [t]) = insert (RaceState (fold race_step (ts @ [t]) w)) (states_seen w ts)"
  by (auto simp: states_seen_def atMost_Suc)

lemma run_inv:
  assumes "race_inv {RaceState w} 0 w" "finishes ts + 1 < 2 ^ 32"
  shows "race_inv (states_seen w ts) (finishes ts) (fold race_step ts w)"
  using assms(2)
proof (induction ts rule: rev_induct)
  case Nil
  show ?case using assms(1) by (simp add: states_seen_def)
next
  case (snoc t ts)
  let ?w = "fold race_step ts w"
  have inv: "race_inv (states_seen w ts) (finishes ts) ?w" and small: "Suc (finishes ts) < 2 ^ 32"
    using snoc by auto
  show ?case
  proof (cases t)
    case Reader_turn
    then show ?thesis using read_step_inv [OF inv small] by (simp add: states_seen_snoc race_step.simps(1))
  next
    case (Update_turn a)
    then show ?thesis using update_step_inv [OF inv small, of a] by (cases "a = Update_finish") (simp_all add: states_seen_snoc)
  qed
qed

text \<open>How many turns the reader needs at most.\<close>

fun remaining :: "nat \<Rightarrow> read_point \<Rightarrow> nat" where
  "remaining n Read_begin = 11 * n + 11"
| "remaining n Read_clock = 11 * n + 10"
| "remaining n (Read_fields fs) = 11 * n + 1 + length fs"
| "remaining n Read_done = 0"

lemma remaining_step:
  "remaining (Retries (race_step t w)) (ReadPoint (race_step t w)) \<le>
     (if t = Reader_turn then remaining (Retries w) (ReadPoint w) - 1 else remaining (Retries w) (ReadPoint w))"
  by (cases t; cases "ReadPoint w"; cases "Retries w")
    (auto simp: race_step.simps read_access.simps LatchClock_eq Let_def split: list.split)

lemma remaining_run:
  "remaining (Retries (fold race_step ts w)) (ReadPoint (fold race_step ts w)) \<le> remaining (Retries w) (ReadPoint w) - reads ts"
proof (induction ts arbitrary: w)
  case (Cons t ts)
  show ?case using Cons.IH [of "race_step t w"] remaining_step [of t w] by auto
qed simp

lemma remaining_done: "remaining n p = 0 \<longleftrightarrow> p = Read_done"
  by (cases p) auto

text \<open>C33. A read of the reference that updates interrupt at any of its accesses ends within 55 accesses of its own.  If it
  does not fail, all that it has copied is the reference that was published at one moment of the read, with the clock reading
  that goes with it, never a mixture of two references.  It fails only if at least twelve updates have finished during
  the read.  The service may have reached the state at which the read begins in any way; fewer than 2^32 updates finish
  during the read, so versions are not reused, and updates do not interrupt each other.\<close>

theorem reference_read_consistent:
  assumes "55 \<le> reads ts" "finishes ts + 1 < 2 ^ 32"
  shows "let s = fold (time_step cfg m) es (CFE_TIME_InitData cfg boot);
             run = (\<lambda>k. fold race_step (take k ts) (start_read r s)); w = run (length ts)
         in ReadPoint w = Read_done \<and>
            (if Retries w = 0 then 12 \<le> finishes ts
             else \<exists>k\<le>length ts. time_at_tone.truncate (ReadReference w) = at_tone (RaceState (run k)) \<and>
                    CurrentLatch (ReadReference w) = fst (CFE_TIME_LatchClock (RaceState (run k))))"
proof -
  let ?s = "fold (time_step cfg m) es (CFE_TIME_InitData cfg boot)"
  let ?w = "fold race_step ts (start_read r ?s)"
  have "race_inv {RaceState (start_read r ?s)} 0 (start_read r ?s)"
    using time_reachable_inv [of cfg m es boot] by (simp add: race_inv_def start_read_def time_inv_def)
  from run_inv [OF this assms(2)] have "race_inv (states_seen (start_read r ?s) ts) (finishes ts) ?w" .
  moreover have "ReadPoint ?w = Read_done"
    using remaining_run [of ts "start_read r ?s"] assms(1) remaining_done [of "Retries ?w" "ReadPoint ?w"]
    by (simp add: start_read_def)
  ultimately show ?thesis by (auto simp: race_inv_def states_seen_def Let_def)
qed

text \<open>Four updates in the middle of the first round: the reader retries once or not at all, and ends with one reference.\<close>

abbreviation (input) example_update :: "turn list" where
  "example_update \<equiv> map Update_turn [Update_start, Update_assign Field_STCF (at_tone (example_start True)), Update_finish]"

theorem reference_read_consistent_witness:
  "\<exists>k w. w = fold race_step (replicate 3 Reader_turn @ concat (replicate 4 example_update) @ replicate 60 Reader_turn)
       (start_read zero_reference (example_start True)) \<and> ReadPoint w = Read_done \<and> Retries w \<noteq> 0 \<and>
     time_at_tone.truncate (ReadReference w) =
       at_tone (RaceState (fold race_step (take k (replicate 3 Reader_turn @ concat (replicate 4 example_update) @ replicate 60 Reader_turn))
         (start_read zero_reference (example_start True))))"
proof -
  let ?ts = "replicate 3 Reader_turn @ concat (replicate 4 example_update) @ replicate 60 Reader_turn"
  have "55 \<le> reads ?ts" "finishes ?ts = 4" by (simp_all add: numeral_eq_Suc)
  then show ?thesis
    using reference_read_consistent [of ?ts "example_cfg True" m "[]" example_boot zero_reference]
    by (auto simp: Let_def split: if_splits simp del: fold_append replicate.simps)
qed

end
