(* ===== verification/CFS_MemPool.thy ===== *)
theory CFS_MemPool
  imports CFS_PoolAlloc CFS_ResourceId
begin

text \<open>
  The memory pool API of executive services, \<^verbatim>\<open>cfe_es_mempool.c\<close>: a table of pools, each the generic pool over
  directly mapped memory, named by handles.

  A NULL output pointer is a flag.  The mutex of a pool makes the calls on it atomic and has no other effect; the results
  of \<^verbatim>\<open>OS_MutSemCreate\<close> and \<^verbatim>\<open>CFE_ES_GetAppID\<close> are arguments.  The locale \<open>buffer_pool\<close> is what a client of one
  handle relies on; the pool of a valid handle is its interpretation.
\<close>

section \<open>State\<close>

abbreviation (input) CFE_PLATFORM_ES_MAX_MEMORY_POOLS :: nat where "CFE_PLATFORM_ES_MAX_MEMORY_POOLS \<equiv> 10"
abbreviation (input) CFE_PLATFORM_ES_MEMPOOL_ALIGN_SIZE_MIN :: size_t where "CFE_PLATFORM_ES_MEMPOOL_ALIGN_SIZE_MIN \<equiv> 4"
abbreviation (input) CFE_MISSION_ES_POOL_MAX_BUCKETS :: nat where "CFE_MISSION_ES_POOL_MAX_BUCKETS \<equiv> 17"
abbreviation (input) RESERVED_ID :: CFE_ResourceId_t where "RESERVED_ID \<equiv> CFE_ResourceId_FromInteger 0xFFFFFFFF"

record CFE_ES_MemPoolRecord_t =
  GenPool :: CFE_ES_GenPoolRecord_t
  PoolID :: CFE_ResourceId_t
  BaseAddr :: uint64
  PoolOwner :: CFE_ResourceId_t
  MutexId :: uint32

record es_mempools =
  MemPoolTable :: "nat \<Rightarrow> CFE_ES_MemPoolRecord_t"
  LastMemPoolId :: CFE_ResourceId_t
  PoolMemory :: memory

text \<open>The layout of IDs and \<^verbatim>\<open>ALIGN_OF(CFE_ES_PoolAlign_t)\<close> are fixed by the build.\<close>

record mempool_cfg =
  strict_pool_ids :: bool
  align_of_pool :: size_t

definition CFE_ES_POOLID_BASE :: "mempool_cfg \<Rightarrow> uint32" where
  "CFE_ES_POOLID_BASE k = (if strict_pool_ids k then 0x02140000 else 0x00140000)"

definition CFE_ES_MemPoolDefSize :: "size_t list" where
  "CFE_ES_MemPoolDefSize = [80000, 32768, 16384, 8192, 4096, 2048, 1024, 512, 256, 160, 128, 96, 64, 48, 32, 16, 8]"

text \<open>The result of the functions that return a size as \<^verbatim>\<open>int32\<close>: an error code, all of which are negative, or the
  truncated size.\<close>

datatype pool_status = Pool_error CFE_Status_t | Pool_size uint32

definition pool_negative :: "pool_status \<Rightarrow> bool" where
  "pool_negative st = (case st of Pool_error _ \<Rightarrow> True | Pool_size w \<Rightarrow> sint w < 0)"

section \<open>Handles\<close>

definition CFE_ES_MemPoolID_ToIndex :: "mempool_cfg \<Rightarrow> CFE_ResourceId_t \<Rightarrow> CFE_Status_t \<times> uint32 option" where
  "CFE_ES_MemPoolID_ToIndex k h =
     CFE_ResourceId_ToIndex h (CFE_ES_POOLID_BASE k) (of_nat CFE_PLATFORM_ES_MAX_MEMORY_POOLS) (Some 0)"

definition CFE_ES_LocateMemPoolRecordByID :: "mempool_cfg \<Rightarrow> CFE_ResourceId_t \<Rightarrow> nat option" where
  "CFE_ES_LocateMemPoolRecordByID k h =
     (case CFE_ES_MemPoolID_ToIndex k h of (Status, Idx) \<Rightarrow>
        if Status = CFE_SUCCESS then map_option unat Idx else None)"

definition CFE_ES_MemPoolRecordIsUsed :: "CFE_ES_MemPoolRecord_t \<Rightarrow> bool" where
  "CFE_ES_MemPoolRecordIsUsed r \<longleftrightarrow> PoolID r \<noteq> CFE_RESOURCEID_UNDEFINED"

definition CFE_ES_CheckMemPoolSlotUsed :: "mempool_cfg \<Rightarrow> es_mempools \<Rightarrow> CFE_ResourceId_t \<Rightarrow> bool" where
  "CFE_ES_CheckMemPoolSlotUsed k s CheckId =
     (case CFE_ES_LocateMemPoolRecordByID k CheckId of
        None \<Rightarrow> True | Some i \<Rightarrow> CFE_ES_MemPoolRecordIsUsed (MemPoolTable s i))"

text \<open>The located record, when it is a match.\<close>

definition CFE_ES_MemPoolRecordIsMatch :: "mempool_cfg \<Rightarrow> CFE_ResourceId_t \<Rightarrow> es_mempools \<Rightarrow> nat option" where
  "CFE_ES_MemPoolRecordIsMatch k h s =
     (case CFE_ES_LocateMemPoolRecordByID k h of
        None \<Rightarrow> None
      | Some i \<Rightarrow> if PoolID (MemPoolTable s i) = h then Some i else None)"

abbreviation (input) upd_pool ::
    "nat \<Rightarrow> (CFE_ES_MemPoolRecord_t \<Rightarrow> CFE_ES_MemPoolRecord_t) \<Rightarrow> es_mempools \<Rightarrow> es_mempools" where
  "upd_pool i f s \<equiv> s\<lparr>MemPoolTable := (MemPoolTable s)(i := f (MemPoolTable s i))\<rparr>"

section \<open>Creation\<close>

text \<open>The locked section that reserves a record.\<close>

definition reserve_pool :: "mempool_cfg \<Rightarrow> es_mempools \<Rightarrow> (nat \<times> CFE_ResourceId_t) option \<times> es_mempools" where
  "reserve_pool k s =
     (let PendingID = CFE_ResourceId_FindNext (LastMemPoolId s) (of_nat CFE_PLATFORM_ES_MAX_MEMORY_POOLS)
                        (Some (CFE_ES_CheckMemPoolSlotUsed k s)) in
      case CFE_ES_LocateMemPoolRecordByID k PendingID of
        None \<Rightarrow> (None, s)
      | Some i \<Rightarrow> (Some (i, PendingID),
          (upd_pool i (\<lambda>_. \<lparr>GenPool = zero_pool, PoolID = RESERVED_ID, BaseAddr = 0,
              PoolOwner = CFE_RESOURCEID_UNDEFINED, MutexId = 0\<rparr>) s)\<lparr>LastMemPoolId := PendingID\<rparr>))"

text \<open>The result is \<open>None\<close> when the bucket sort does not end; then status and the handle stored, if any.\<close>

definition CFE_ES_PoolCreateEx ::
    "mempool_cfg \<Rightarrow> CFE_ResourceId_t \<Rightarrow> uint32 option \<Rightarrow> bool \<Rightarrow> uint64 \<Rightarrow> size_t \<Rightarrow> uint16 \<Rightarrow> size_t list option \<Rightarrow> bool
       \<Rightarrow> es_mempools \<Rightarrow> (CFE_Status_t \<times> CFE_ResourceId_t option \<times> es_mempools) option" where
  "CFE_ES_PoolCreateEx k AppId NewMutex PoolIDIsNull MemPtr Size NumBlockSizes BlockSizes UseMutex s =
     (if MemPtr = 0 \<or> PoolIDIsNull \<or> NumBlockSizes > CFE_PLATFORM_ES_POOL_MAX_BUCKETS then Some (CFE_ES_BAD_ARGUMENT, None, s)
      else
        let NumBlockSizes = (if BlockSizes = None \<and> NumBlockSizes = 0 then CFE_PLATFORM_ES_POOL_MAX_BUCKETS else NumBlockSizes);
            Sizes = (case BlockSizes of None \<Rightarrow> CFE_ES_MemPoolDefSize | Some bs \<Rightarrow> bs)
        in if Size < CFE_ES_GenPoolCalcMinSize NumBlockSizes Sizes 1 then Some (CFE_ES_BAD_ARGUMENT, None, s)
        else case reserve_pool k s of
          (None, s) \<Rightarrow> Some (CFE_ES_NO_RESOURCE_IDS_AVAILABLE, None, s)
        | (Some (i, PendingID), s) \<Rightarrow>
            let Alignment = (if align_of_pool k < CFE_PLATFORM_ES_MEMPOOL_ALIGN_SIZE_MIN
                             then CFE_PLATFORM_ES_MEMPOOL_ALIGN_SIZE_MIN else align_of_pool k)
            in case CFE_ES_GenPoolInitialize 0 Size Alignment NumBlockSizes Sizes of
              None \<Rightarrow> None
            | Some (Status, pool) \<Rightarrow>
                let s = upd_pool i (\<lambda>r. r\<lparr>GenPool := pool\<rparr>) s;
                    (Status, s) =
                      (if Status = CFE_SUCCESS \<and> UseMutex
                       then case NewMutex of
                              None \<Rightarrow> (CFE_STATUS_EXTERNAL_RESOURCE_FAIL, s)
                            | Some m \<Rightarrow> (Status, upd_pool i (\<lambda>r. r\<lparr>MutexId := m\<rparr>) s)
                       else (Status, s))
                in Some (if Status = CFE_SUCCESS
                         then (Status, Some PendingID,
                               upd_pool i (\<lambda>r. r\<lparr>BaseAddr := MemPtr, PoolOwner := AppId, PoolID := PendingID\<rparr>) s)
                         else (Status, Some CFE_RESOURCEID_UNDEFINED,
                               upd_pool i (\<lambda>r. r\<lparr>PoolID := CFE_RESOURCEID_UNDEFINED\<rparr>) s)))"

definition CFE_ES_PoolCreateNoSem where
  "CFE_ES_PoolCreateNoSem k AppId PoolIDIsNull MemPtr Size s =
     CFE_ES_PoolCreateEx k AppId None PoolIDIsNull MemPtr Size CFE_PLATFORM_ES_POOL_MAX_BUCKETS
       (Some CFE_ES_MemPoolDefSize) False s"
definition CFE_ES_PoolCreate where
  "CFE_ES_PoolCreate k AppId NewMutex PoolIDIsNull MemPtr Size s =
     CFE_ES_PoolCreateEx k AppId NewMutex PoolIDIsNull MemPtr Size CFE_PLATFORM_ES_POOL_MAX_BUCKETS
       (Some CFE_ES_MemPoolDefSize) True s"

definition CFE_ES_PoolDelete :: "mempool_cfg \<Rightarrow> CFE_ResourceId_t \<Rightarrow> es_mempools \<Rightarrow> CFE_Status_t \<times> es_mempools" where
  "CFE_ES_PoolDelete k h s =
     (case CFE_ES_MemPoolRecordIsMatch k h s of
        None \<Rightarrow> (CFE_ES_ERR_RESOURCEID_NOT_VALID, s)
      | Some i \<Rightarrow> (CFE_SUCCESS, upd_pool i (\<lambda>r. r\<lparr>PoolID := CFE_RESOURCEID_UNDEFINED\<rparr>) s))"

section \<open>Buffers\<close>

definition CFE_ES_GetPoolBuf ::
    "mempool_cfg \<Rightarrow> CFE_ResourceId_t \<Rightarrow> bool \<Rightarrow> size_t \<Rightarrow> es_mempools \<Rightarrow> pool_status \<times> uint64 option \<times> es_mempools" where
  "CFE_ES_GetPoolBuf k h BufPtrIsNull Size s =
     (if BufPtrIsNull then (Pool_error CFE_ES_BAD_ARGUMENT, None, s)
      else case CFE_ES_MemPoolRecordIsMatch k h s of
        None \<Rightarrow> (Pool_error CFE_ES_ERR_RESOURCEID_NOT_VALID, None, s)
      | Some i \<Rightarrow>
          let r = MemPoolTable s i in
          case CFE_ES_GenPoolGetBlock (direct_storage (BaseAddr r)) (GenPool r) (PoolMemory s) Size of
            (Status, pool, m, DataOffset) \<Rightarrow>
              let s = (upd_pool i (\<lambda>r. r\<lparr>GenPool := pool\<rparr>) s)\<lparr>PoolMemory := m\<rparr> in
              if Status \<noteq> CFE_SUCCESS then (Pool_error Status, None, s)
              else (Pool_size (ucast Size), Some (BaseAddr r + the DataOffset), s))"

definition CFE_ES_GetPoolBufInfo ::
    "mempool_cfg \<Rightarrow> CFE_ResourceId_t \<Rightarrow> uint64 \<Rightarrow> es_mempools \<Rightarrow> pool_status \<times> es_mempools" where
  "CFE_ES_GetPoolBufInfo k h BufPtr s =
     (if BufPtr = 0 then (Pool_error CFE_ES_BAD_ARGUMENT, s)
      else case CFE_ES_MemPoolRecordIsMatch k h s of
        None \<Rightarrow> (Pool_error CFE_ES_ERR_RESOURCEID_NOT_VALID, s)
      | Some i \<Rightarrow>
          let r = MemPoolTable s i in
          case CFE_ES_GenPoolGetBlockSize (direct_storage (BaseAddr r)) (GenPool r) (PoolMemory s) (BufPtr - BaseAddr r) of
            (Status, m, DataSize) \<Rightarrow>
              (if Status = CFE_SUCCESS then Pool_size (ucast (the DataSize)) else Pool_error Status, s\<lparr>PoolMemory := m\<rparr>))"

definition CFE_ES_PutPoolBuf ::
    "mempool_cfg \<Rightarrow> CFE_ResourceId_t \<Rightarrow> uint64 \<Rightarrow> es_mempools \<Rightarrow> pool_status \<times> es_mempools" where
  "CFE_ES_PutPoolBuf k h BufPtr s =
     (if BufPtr = 0 then (Pool_error CFE_ES_BAD_ARGUMENT, s)
      else case CFE_ES_MemPoolRecordIsMatch k h s of
        None \<Rightarrow> (Pool_error CFE_ES_ERR_RESOURCEID_NOT_VALID, s)
      | Some i \<Rightarrow>
          let r = MemPoolTable s i in
          case CFE_ES_GenPoolPutBlock (direct_storage (BaseAddr r)) (GenPool r) (PoolMemory s) (BufPtr - BaseAddr r) of
            (Status, pool, m, DataSize) \<Rightarrow>
              (if Status = CFE_SUCCESS then Pool_size (ucast (the DataSize)) else Pool_error Status,
               (upd_pool i (\<lambda>r. r\<lparr>GenPool := pool\<rparr>) s)\<lparr>PoolMemory := m\<rparr>))"

record CFE_ES_MemPoolStats_t =
  StatPoolSize :: uint32
  NumBlocksRequested :: uint32
  CheckErrCtr :: uint32
  NumFreeBytes :: uint32
  BlockStats :: "CFE_ES_BlockStats_t list"

definition CFE_ES_GetMemPoolStats ::
    "mempool_cfg \<Rightarrow> bool \<Rightarrow> CFE_ResourceId_t \<Rightarrow> es_mempools \<Rightarrow> CFE_Status_t \<times> CFE_ES_MemPoolStats_t option" where
  "CFE_ES_GetMemPoolStats k BufPtrIsNull h s =
     (if BufPtrIsNull then (CFE_ES_BAD_ARGUMENT, None)
      else case CFE_ES_MemPoolRecordIsMatch k h s of
        None \<Rightarrow> (CFE_ES_ERR_RESOURCEID_NOT_VALID, None)
      | Some i \<Rightarrow>
          let pool = GenPool (MemPoolTable s i) in
          case CFE_ES_GenPoolGetUsage pool of (free, total_size) \<Rightarrow>
          case CFE_ES_GenPoolGetCounts pool of (n, requested, errors) \<Rightarrow>
            (CFE_SUCCESS, Some \<lparr>StatPoolSize = total_size, NumBlocksRequested = requested, CheckErrCtr = errors, NumFreeBytes = free,
               BlockStats = map (\<lambda>Idx. CFE_ES_GenPoolGetBucketUsage pool (if of_nat Idx < n then n - of_nat Idx else 0))
                              [0..<CFE_MISSION_ES_POOL_MAX_BUCKETS]\<rparr>))"

text \<open>The memory range test of the platform, \<^verbatim>\<open>CFE_PSP_MemValidateRange\<close>, is an argument.\<close>

definition CFE_ES_ValidateHandle ::
    "mempool_cfg \<Rightarrow> (uint64 \<Rightarrow> size_t \<Rightarrow> bool) \<Rightarrow> CFE_ResourceId_t \<Rightarrow> es_mempools \<Rightarrow> bool" where
  "CFE_ES_ValidateHandle k range_ok h s =
     (case CFE_ES_MemPoolRecordIsMatch k h s of
        None \<Rightarrow> False
      | Some i \<Rightarrow>
          let r = MemPoolTable s i in
          CFE_ES_GenPoolValidateState (GenPool r) \<and> range_ok (BaseAddr r) (ucast (snd (CFE_ES_GenPoolGetUsage (GenPool r)))))"

section \<open>What a client relies on\<close>

text \<open>\<open>holds p H\<close>: the client holds exactly the blocks at the addresses \<open>H\<close>.\<close>

locale buffer_pool =
  fixes get :: "size_t \<Rightarrow> 'p \<Rightarrow> pool_status \<times> uint64 \<times> 'p" and put :: "uint64 \<Rightarrow> 'p \<Rightarrow> pool_status \<times> 'p"
    and holds :: "'p \<Rightarrow> uint64 set \<Rightarrow> bool"
  assumes get: "holds p H \<Longrightarrow> 0 < unat n \<Longrightarrow> unat n < 2 ^ 31 \<Longrightarrow> get n p = (st, a, p') \<Longrightarrow>
      (pool_negative st \<and> holds p' H) \<or>
      (st = Pool_size (ucast n) \<and> \<not> pool_negative st \<and> a \<noteq> 0 \<and> a \<notin> H \<and> unat a + unat n < 2 ^ 64 \<and> holds p' (insert a H))"
    and put: "holds p H \<Longrightarrow> a \<in> H \<Longrightarrow> put a p = (st, p') \<Longrightarrow>
      (\<exists>w. st = Pool_size w) \<and> holds p' (H - {a})"

definition SB_GetPoolBuf :: "mempool_cfg \<Rightarrow> CFE_ResourceId_t \<Rightarrow> size_t \<Rightarrow> es_mempools \<Rightarrow> pool_status \<times> uint64 \<times> es_mempools" where
  "SB_GetPoolBuf k h n s =
     (case CFE_ES_GetPoolBuf k h False n s of (st, a, s') \<Rightarrow> (st, case a of None \<Rightarrow> 0 | Some x \<Rightarrow> x, s'))"

text \<open>The client of handle \<open>h\<close> holds the blocks that are live in its pool, each with a nonzero size.\<close>

definition pool_holds :: "mempool_cfg \<Rightarrow> CFE_ResourceId_t \<Rightarrow> es_mempools \<Rightarrow> uint64 set \<Rightarrow> bool" where
  "pool_holds k h s H \<longleftrightarrow>
     (\<exists>i bs fl. CFE_ES_MemPoolRecordIsMatch k h s = Some i \<and>
        BaseAddr (MemPoolTable s i) \<noteq> 0 \<and>
        unat (BaseAddr (MemPoolTable s i)) + unat (PoolMaxOffset (GenPool (MemPoolTable s i))) < 2 ^ 64 \<and>
        pool_inv (mdesc (BaseAddr (MemPoolTable s i))) 0 (GenPool (MemPoolTable s i)) (PoolMemory s) bs fl \<and>
        H = (\<lambda>b. BaseAddr (MemPoolTable s i) + of_nat (fst b)) `
              live (mdesc (BaseAddr (MemPoolTable s i))) (GenPool (MemPoolTable s i)) (PoolMemory s) bs \<and>
        (\<forall>b \<in> live (mdesc (BaseAddr (MemPoolTable s i))) (GenPool (MemPoolTable s i)) (PoolMemory s) bs. 0 < snd b))"

lemma sint_ucast_nonneg:
  assumes "unat (n :: size_t) < 2 ^ 31"
  shows "0 \<le> sint (ucast n :: uint32)"
proof -
  have "int (unat n) < int (2 ^ 31)" using assms by (simp only: of_nat_less_iff)
  then have n: "uint n < 2 ^ 31" by simp
  then have "uint (ucast n :: uint32) = uint n"
    by (simp add: unsigned_ucast_eq unsigned_take_bit_eq take_bit_int_eq_self)
  moreover have "take_bit 31 (uint n) = uint n" using n by (simp add: take_bit_int_eq_self)
  then have "\<not> bit (uint n) 31" by (metis bit_take_bit_iff less_irrefl)
  ultimately show ?thesis by (simp add: sint_uint)
qed

lemma pool_base_inj:
  assumes "x < 2 ^ 63" "y < 2 ^ 63" "(base :: uint64) + of_nat x = base + of_nat y"
  shows "x = y"
  using assms addr_neq [of x y base] by force

text \<open>A live block lies in the pool, so its address does not wrap.\<close>

lemma live_bounds:
  assumes inv: "pool_inv (mdesc base) 0 p m bs fl" and l: "(x, n) \<in> live (mdesc base) p m bs"
  shows "24 \<le> x" "x + n \<le> unat (PoolMaxOffset p)" "x < 2 ^ 63"
proof -
  obtain i where b: "(x, i) \<in> set bs" "n = unat (ActualSize (dsc (mdesc base) m x))"
    using l by (auto simp: live_def)
  note B = inv_blockD [OF inv b(1)]
  have "n \<le> bsize p i" using B(5) b(2) by (simp add: desc_ok_def)
  moreover have "unat (TailPosition p) \<le> unat (PoolMaxOffset p)"
    using inv by (simp add: pool_inv_def pool_static_def word_le_nat_alt)
  moreover have "unat (PoolMaxOffset p) < 2 ^ 62" using inv by (simp add: pool_inv_def pool_static_def)
  ultimately show "24 \<le> x" "x + n \<le> unat (PoolMaxOffset p)" "x < 2 ^ 63"
    using B(1,2,7) by simp_all
qed

lemma GetBlock_max:
  "CFE_ES_GenPoolGetBlock st p m n = (status, p', m', r) \<Longrightarrow> PoolMaxOffset p' = PoolMaxOffset p"
  by (auto simp: CFE_ES_GenPoolGetBlock_def CFE_ES_GenPoolRecyclePoolBlock_def CFE_ES_GenPoolCreatePoolBlock_def Let_def
      split: if_splits option.splits prod.splits)

lemma PutBlock_max:
  "CFE_ES_GenPoolPutBlock st p m n = (status, p', m', r) \<Longrightarrow> PoolMaxOffset p' = PoolMaxOffset p"
  by (auto simp: CFE_ES_GenPoolPutBlock_def Let_def split: if_splits option.splits prod.splits)

lemma unat_pool_address:
  assumes "unat (base :: uint64) + t < 2 ^ 64" "x + n \<le> t"
  shows "unat (base + of_nat x) = unat base + x"
proof -
  have "unat (of_nat x :: uint64) = x" using assms by (simp add: unat_of_nat take_bit_nat_eq_self)
  then show ?thesis using assms by (subst unat_add_lem [THEN iffD1]) auto
qed

lemma pool_holdsI:
  assumes "CFE_ES_MemPoolRecordIsMatch k h s = Some i" "BaseAddr (MemPoolTable s i) = base" "GenPool (MemPoolTable s i) = p"
    "PoolMemory s = m" "base \<noteq> 0" "unat base + unat (PoolMaxOffset p) < 2 ^ 64"
    "pool_inv (mdesc base) 0 p m bs fl" "H = (\<lambda>b. base + of_nat (fst b)) ` live (mdesc base) p m bs"
    "\<And>x n. (x, n) \<in> live (mdesc base) p m bs \<Longrightarrow> 0 < n"
  shows "pool_holds k h s H"
  unfolding pool_holds_def using assms by (intro exI [of _ i] exI [of _ bs] exI [of _ fl]) auto

lemma GetPoolBuf_cases:
  assumes h: "pool_holds k h s H" and n: "0 < unat n" "unat n < 2 ^ 31"
    and get: "SB_GetPoolBuf k h n s = (st, a, s')"
  shows "(pool_negative st \<and> pool_holds k h s' H) \<or>
      (st = Pool_size (ucast n) \<and> \<not> pool_negative st \<and> a \<noteq> 0 \<and> a \<notin> H \<and> unat a + unat n < 2 ^ 64 \<and> pool_holds k h s' (insert a H))"
proof -
  obtain i bs fl where i: "CFE_ES_MemPoolRecordIsMatch k h s = Some i"
    and b: "BaseAddr (MemPoolTable s i) \<noteq> 0"
      "unat (BaseAddr (MemPoolTable s i)) + unat (PoolMaxOffset (GenPool (MemPoolTable s i))) < 2 ^ 64"
    and inv: "pool_inv (mdesc (BaseAddr (MemPoolTable s i))) 0 (GenPool (MemPoolTable s i)) (PoolMemory s) bs fl"
    and H: "H = (\<lambda>b. BaseAddr (MemPoolTable s i) + of_nat (fst b)) `
              live (mdesc (BaseAddr (MemPoolTable s i))) (GenPool (MemPoolTable s i)) (PoolMemory s) bs"
    and pos: "\<forall>b \<in> live (mdesc (BaseAddr (MemPoolTable s i))) (GenPool (MemPoolTable s i)) (PoolMemory s) bs. 0 < snd b"
    using h unfolding pool_holds_def by blast
  let ?base = "BaseAddr (MemPoolTable s i)" and ?p = "GenPool (MemPoolTable s i)"
  have match: "CFE_ES_MemPoolRecordIsMatch k h ((upd_pool i (\<lambda>r. r\<lparr>GenPool := q\<rparr>) s)\<lparr>PoolMemory := m\<rparr>) = Some i" for q m
    using i by (auto simp: CFE_ES_MemPoolRecordIsMatch_def split: option.splits if_splits)
  show ?thesis
  proof (rule direct.GetBlock_spec [OF inv, of n])
    fix p' m' x bs' fl'
    assume g: "CFE_ES_GenPoolGetBlock (direct_storage ?base) ?p (PoolMemory s) n = (CFE_SUCCESS, p', m', Some (of_nat x))"
      and inv': "pool_inv (mdesc ?base) 0 p' m' bs' fl'"
      and l: "live (mdesc ?base) p' m' bs' = insert (x, unat n) (live (mdesc ?base) ?p (PoolMemory s) bs)"
      and x: "x \<notin> fst ` live (mdesc ?base) ?p (PoolMemory s) bs"
    let ?s' = "(upd_pool i (\<lambda>r. r\<lparr>GenPool := p'\<rparr>) s)\<lparr>PoolMemory := m'\<rparr>"
    have r: "st = Pool_size (ucast n)" "a = ?base + of_nat x" "s' = ?s'"
      using get g i by (simp_all add: SB_GetPoolBuf_def CFE_ES_GetPoolBuf_def Let_def)
    have max: "PoolMaxOffset p' = PoolMaxOffset ?p"
      using GetBlock_max [OF g] .
    have xb: "24 \<le> x" "x + unat n \<le> unat (PoolMaxOffset p')" "x < 2 ^ 63" using live_bounds [OF inv'] l by blast+
    have ua: "unat a = unat ?base + x" using unat_pool_address b(2) xb(2) r(2) max by simp
    then have "a \<noteq> 0" using xb(1) by auto
    moreover have "a \<notin> H"
    proof
      assume "a \<in> H"
      then obtain y m where y: "(y, m) \<in> live (mdesc ?base) ?p (PoolMemory s) bs" "?base + of_nat x = ?base + of_nat y"
        using H r(2) by auto
      then have "x = y" using pool_base_inj xb(3) live_bounds(3) [OF inv y(1)] by blast
      then show False using x y(1) by force
    qed
    moreover have "unat a + unat n < 2 ^ 64" using ua xb(2) b(2) max by simp
    moreover have "pool_holds k h ?s' (insert a H)"
    proof (rule pool_holdsI [OF match _ _ _ b(1) _ inv'])
      show "insert a H = (\<lambda>b. ?base + of_nat (fst b)) ` live (mdesc ?base) p' m' bs'" using H r(2) l by simp
      show "0 < q" if "(y, q) \<in> live (mdesc ?base) p' m' bs'" for y q using that l n pos by auto
    qed (use b max in simp_all)
    moreover have "\<not> pool_negative st"
    proof -
      have "0 \<le> sint (ucast n :: uint32)" using n(2) by (rule sint_ucast_nonneg)
      then show ?thesis using r(1) by (simp add: pool_negative_def)
    qed
    ultimately show ?thesis using r by simp
  next
    assume g: "CFE_ES_GenPoolGetBlock (direct_storage ?base) ?p (PoolMemory s) n = (CFE_ES_ERR_MEM_BLOCK_SIZE, ?p, PoolMemory s, None)"
    have "st = Pool_error CFE_ES_ERR_MEM_BLOCK_SIZE" "s' = s"
      using get g i by (simp_all add: SB_GetPoolBuf_def CFE_ES_GetPoolBuf_def Let_def)
    then show ?thesis using h by (simp add: pool_negative_def)
  qed
qed

lemma PutPoolBuf_held:
  assumes h: "pool_holds k h s H" and a: "a \<in> H" and put: "CFE_ES_PutPoolBuf k h a s = (st, s')"
  shows "(\<exists>w. st = Pool_size w) \<and> pool_holds k h s' (H - {a})"
proof -
  obtain i bs fl where i: "CFE_ES_MemPoolRecordIsMatch k h s = Some i"
    and b: "BaseAddr (MemPoolTable s i) \<noteq> 0"
      "unat (BaseAddr (MemPoolTable s i)) + unat (PoolMaxOffset (GenPool (MemPoolTable s i))) < 2 ^ 64"
    and inv: "pool_inv (mdesc (BaseAddr (MemPoolTable s i))) 0 (GenPool (MemPoolTable s i)) (PoolMemory s) bs fl"
    and H: "H = (\<lambda>b. BaseAddr (MemPoolTable s i) + of_nat (fst b)) `
              live (mdesc (BaseAddr (MemPoolTable s i))) (GenPool (MemPoolTable s i)) (PoolMemory s) bs"
    and pos: "\<forall>b \<in> live (mdesc (BaseAddr (MemPoolTable s i))) (GenPool (MemPoolTable s i)) (PoolMemory s) bs. 0 < snd b"
    using h unfolding pool_holds_def by blast
  let ?base = "BaseAddr (MemPoolTable s i)" and ?p = "GenPool (MemPoolTable s i)"
  let ?live = "live (mdesc ?base) ?p (PoolMemory s) bs"
  obtain x n where x: "(x, n) \<in> ?live" "a = ?base + of_nat x" using a H by auto
  obtain j where j: "(x, j) \<in> set bs" "\<not> is_free (mdesc ?base) ?p (PoolMemory s) x j"
    "n = unat (ActualSize (dsc (mdesc ?base) (PoolMemory s) x))"
    using x(1) by (auto simp: live_def)
  have n: "0 < n" using pos x(1) by force
  have xb: "24 \<le> x" "x + n \<le> unat (PoolMaxOffset ?p)" using live_bounds [OF inv x(1)] by simp_all
  have "unat a = unat ?base + x" using unat_pool_address [OF b(2) xb(2)] x(2) by simp
  then have a0: "a \<noteq> 0" using xb(1) by auto
  have off: "a - ?base = of_nat x" using x(2) by simp
  have nz: "ActualSize (dsc (mdesc ?base) (PoolMemory s) x) \<noteq> 0" using n j(3) by auto
  obtain p' m' where g:
    "CFE_ES_GenPoolPutBlock (direct_storage ?base) ?p (PoolMemory s) (of_nat x) =
       (CFE_SUCCESS, p', m', Some (ActualSize (dsc (mdesc ?base) (PoolMemory s) x)))"
    and inv': "pool_inv (mdesc ?base) 0 p' m' bs (fl(j := x # fl j))" and l: "live (mdesc ?base) p' m' bs = ?live - {(x, n)}"
    using direct.PutBlock_live [OF inv j(1,2) nz] j(3) by metis
  have max: "PoolMaxOffset p' = PoolMaxOffset ?p" using PutBlock_max [OF g] .
  let ?s' = "(upd_pool i (\<lambda>r. r\<lparr>GenPool := p'\<rparr>) s)\<lparr>PoolMemory := m'\<rparr>"
  have r: "st = Pool_size (ucast (ActualSize (dsc (mdesc ?base) (PoolMemory s) x)))" "s' = ?s'"
    using put g i a0 off by (simp_all add: CFE_ES_PutPoolBuf_def Let_def)
  have match: "CFE_ES_MemPoolRecordIsMatch k h ?s' = Some i"
    using i by (auto simp: CFE_ES_MemPoolRecordIsMatch_def split: option.splits if_splits)
  have lay: "layout_ok 0 ?p bs" using inv by (simp add: pool_inv_def)
  have "(y, q) = (x, n)" if "(y, q) \<in> ?live" "?base + of_nat y = a" for y q
  proof -
    have "y = x"
      using that(2) x(2) by (intro pool_base_inj [OF live_bounds(3) [OF inv that(1)] live_bounds(3) [OF inv x(1)], of ?base]) simp
    moreover from this have "q = n" 
      using that(1) x(1) live_block [OF lay j(1), of _ "mdesc ?base" "PoolMemory s"] by simp
    ultimately show ?thesis by simp
  qed
  then have only: "?base + of_nat (fst b) \<noteq> a" if "b \<in> ?live - {(x, n)}" for b using that by (cases b) auto
  have Hd: "H - {a} = (\<lambda>b. ?base + of_nat (fst b)) ` (?live - {(x, n)})"
  proof
    show "H - {a} \<subseteq> (\<lambda>b. ?base + of_nat (fst b)) ` (?live - {(x, n)})" unfolding H using x(2) by (auto simp del: add_left_cancel)
    show "(\<lambda>b. ?base + of_nat (fst b)) ` (?live - {(x, n)}) \<subseteq> H - {a}" unfolding H using only by blast
  qed
  have "pool_holds k h ?s' (H - {a})"
  proof (rule pool_holdsI [OF match _ _ _ b(1) _ inv'])
    show "H - {a} = (\<lambda>b. ?base + of_nat (fst b)) ` live (mdesc ?base) p' m' bs"
      unfolding l by (rule Hd)
    show "0 < q" if "(y, q) \<in> live (mdesc ?base) p' m' bs" for y q using that l pos by auto
  qed (use b max in simp_all)
  then show ?thesis using r by blast
qed

interpretation es_pool: buffer_pool "SB_GetPoolBuf k h" "CFE_ES_PutPoolBuf k h" "pool_holds k h" for k h
  by unfold_locales (rule GetPoolBuf_cases PutPoolBuf_held; assumption)+

end
