(* ===== verification/CFS_SbState.thy ===== *)
theory CFS_SbState
  imports CFS_Sbr CFS_MemPool "HOL-Library.Monad_Syntax" "HOL-Library.AList"
begin

text \<open>
  The state of the software bus, \<^verbatim>\<open>CFE_SB_Global\<close> of \<^verbatim>\<open>cfe_sb_priv.h\<close> with the routing table and the
  objects in its memory pool, and the operations on buffers, tracking lists, destinations and pipe
  descriptors of \<^verbatim>\<open>cfe_sb_buf.c\<close> and \<^verbatim>\<open>cfe_sb_priv.c\<close>.

  Objects of the pool are maps from addresses, 0 is NULL.  The state of the pool itself is the type \<open>'p\<close>, and the
  two pool functions of executive services are fields of the configuration; the contract they keep is the locale
  \<open>buffer_pool\<close> of \<open>CFS_MemPool\<close>.  Operating system queues are bounded lists.  Loops and routing lookups that may not
  return give \<open>None\<close>.  The mutex that makes the sections between lock and unlock atomic is not part of the state, nor
  are the texts of events.
\<close>

section \<open>Data\<close>

type_synonym pointer = uint64
type_synonym CFE_ES_AppId_t = CFE_ResourceId_t
type_synonym CFE_SB_PipeId_t = CFE_ResourceId_t
type_synonym osal_id_t = uint32

abbreviation (input) NULL :: pointer where "NULL \<equiv> 0"
abbreviation (input) CFE_RESOURCEID_RESERVED :: CFE_ResourceId_t where
  "CFE_RESOURCEID_RESERVED \<equiv> CFE_ResourceId_FromInteger 0xFFFFFFFF"
abbreviation (input) CFE_PLATFORM_SB_MAX_PIPES :: nat where "CFE_PLATFORM_SB_MAX_PIPES \<equiv> 64"
abbreviation (input) CFE_PLATFORM_SB_MAX_DEST_PER_PKT :: nat where "CFE_PLATFORM_SB_MAX_DEST_PER_PKT \<equiv> 16"
abbreviation (input) CFE_PLATFORM_SB_DEFAULT_MSG_LIMIT :: uint16 where "CFE_PLATFORM_SB_DEFAULT_MSG_LIMIT \<equiv> 4"
abbreviation (input) OS_QUEUE_MAX_DEPTH :: uint16 where "OS_QUEUE_MAX_DEPTH \<equiv> 50"
abbreviation (input) CFE_SB_INACTIVE :: uint8 where "CFE_SB_INACTIVE \<equiv> 0"
abbreviation (input) CFE_SB_ACTIVE :: uint8 where "CFE_SB_ACTIVE \<equiv> 1"
abbreviation (input) CFE_SB_MSG_GLOBAL :: uint8 where "CFE_SB_MSG_GLOBAL \<equiv> 0"
abbreviation (input) CFE_SB_MSG_LOCAL :: uint8 where "CFE_SB_MSG_LOCAL \<equiv> 1"
abbreviation (input) CFE_SB_PIPEOPTS_IGNOREMINE :: uint8 where "CFE_SB_PIPEOPTS_IGNOREMINE \<equiv> 1"
abbreviation (input) CFE_SB_DISABLE :: uint32 where "CFE_SB_DISABLE \<equiv> 0"
abbreviation (input) CFE_SB_ENABLE :: uint32 where "CFE_SB_ENABLE \<equiv> 1"
abbreviation (input) CFE_SB_POLL :: int where "CFE_SB_POLL \<equiv> 0"
abbreviation (input) CFE_SB_PEND_FOREVER :: int where "CFE_SB_PEND_FOREVER \<equiv> -1"

record CFE_SB_DestinationD_t =
  DestPipeId :: CFE_SB_PipeId_t
  Active :: uint8
  MsgId2PipeLim :: uint16
  BuffCount :: uint16
  DestCnt :: uint16
  Scope :: uint8
  Prev :: pointer
  Next :: pointer

record CFE_SB_BufferD_t =
  DestRouteId :: CFE_SBR_RouteId_t
  OwnerAppId :: CFE_ES_AppId_t
  BufMsgId :: CFE_SB_MsgId_t
  AllocatedSize :: size_t
  ContentSize :: size_t
  UseCount :: uint16
  Content :: CFE_MSG_Message_t

text \<open>An address of a \<^verbatim>\<open>CFE_SB_BufferLink_t\<close>: the head of one of the two tracking lists, or the link that is the first
  member of a buffer descriptor.\<close>

datatype buffer_link = InTransitList | ZeroCopyList | BufferLink pointer

record CFE_SB_PipeD_t =
  PipeId :: CFE_SB_PipeId_t
  PipeAppId :: CFE_ES_AppId_t
  SysQueueId :: osal_id_t
  Opts :: uint8
  SendErrors :: uint16
  MaxQueueDepth :: uint16
  CurrentQueueDepth :: uint16
  PeakQueueDepth :: uint16
  LastBuffer :: pointer

record os_queue =
  QueueName :: string
  QueueDepth :: nat
  QueueItems :: "pointer list"

datatype OS_Status =
    OS_SUCCESS | OS_INVALID_POINTER | OS_QUEUE_EMPTY | OS_QUEUE_FULL | OS_QUEUE_TIMEOUT
  | OS_QUEUE_INVALID_SIZE | OS_ERR_INVALID_ID | OS_ERR_NAME_TAKEN | OS_ERR_NO_FREE_IDS | OS_ERR_NAME_NOT_FOUND | OS_ERR_NAME_TOO_LONG | OS_ERROR

record CFE_SB_HousekeepingTlm_Payload_t =
  HkCommandCounter :: uint8
  HkCommandErrorCounter :: uint8
  NoSubscribersCounter :: uint8
  MsgSendErrorCounter :: uint8
  MsgReceiveErrorCounter :: uint8
  InternalErrorCounter :: uint8
  CreatePipeErrorCounter :: uint8
  SubscribeErrorCounter :: uint8
  PipeOptsErrorCounter :: uint8
  DuplicateSubscriptionsCounter :: uint8
  GetPipeIdByNameErrorCounter :: uint8
  PipeOverflowErrorCounter :: uint16
  MsgLimitErrorCounter :: uint16
  HkMemInUse :: uint32
  UnmarkedMem :: uint32

record CFE_SB_StatsTlm_Payload_t =
  MsgIdsInUse :: uint32
  PeakMsgIdsInUse :: uint32
  PipesInUse :: uint32
  PeakPipesInUse :: uint32
  MemInUse :: uint32
  PeakMemInUse :: uint32
  SubscriptionsInUse :: uint32
  PeakSubscriptionsInUse :: uint32
  SBBuffersInUse :: uint32
  PeakSBBuffersInUse :: uint32

record CFE_SB_PipeDepthStats_t =
  StatPipeId :: CFE_SB_PipeId_t
  StatMaxQueueDepth :: uint16
  StatCurrentQueueDepth :: uint16
  StatPeakQueueDepth :: uint16

text \<open>An entry is the message ID; its quality of service is zero.\<close>

record CFE_SB_AllSubscriptionsTlm_Payload_t =
  PktSegment :: uint32
  Entries :: uint32
  Entry :: "nat \<Rightarrow> CFE_SB_MsgId_t"

text \<open>The event IDs of \<^verbatim>\<open>cfe_sb_eventids.h\<close>; 0 is no event.\<close>

abbreviation (input) CFE_SB_SEND_BAD_ARG_EID :: uint16 where "CFE_SB_SEND_BAD_ARG_EID \<equiv> 13"
abbreviation (input) CFE_SB_SEND_INV_MSGID_EID :: uint16 where "CFE_SB_SEND_INV_MSGID_EID \<equiv> 21"
abbreviation (input) CFE_SB_MSG_TOO_BIG_EID :: uint16 where "CFE_SB_MSG_TOO_BIG_EID \<equiv> 15"
abbreviation (input) CFE_SB_SEND_NO_SUBS_EID :: uint16 where "CFE_SB_SEND_NO_SUBS_EID \<equiv> 14"
abbreviation (input) CFE_SB_GET_BUF_ERR_EID :: uint16 where "CFE_SB_GET_BUF_ERR_EID \<equiv> 16"
abbreviation (input) CFE_SB_MSGID_LIM_ERR_EID :: uint16 where "CFE_SB_MSGID_LIM_ERR_EID \<equiv> 17"
abbreviation (input) CFE_SB_Q_FULL_ERR_EID :: uint16 where "CFE_SB_Q_FULL_ERR_EID \<equiv> 25"
abbreviation (input) CFE_SB_Q_WR_ERR_EID :: uint16 where "CFE_SB_Q_WR_ERR_EID \<equiv> 26"
abbreviation (input) CFE_SB_Q_RD_ERR_EID :: uint16 where "CFE_SB_Q_RD_ERR_EID \<equiv> 27"
abbreviation (input) CFE_SB_RCV_BAD_ARG_EID :: uint16 where "CFE_SB_RCV_BAD_ARG_EID \<equiv> 18"
abbreviation (input) CFE_SB_BAD_PIPEID_EID :: uint16 where "CFE_SB_BAD_PIPEID_EID \<equiv> 19"
abbreviation (input) CFE_SB_SEND_MESSAGE_INTEGRITY_FAIL_EID :: uint16 where "CFE_SB_SEND_MESSAGE_INTEGRITY_FAIL_EID \<equiv> 71"
abbreviation (input) CFE_SB_RCV_MESSAGE_INTEGRITY_FAIL_EID :: uint16 where "CFE_SB_RCV_MESSAGE_INTEGRITY_FAIL_EID \<equiv> 72"
abbreviation (input) CFE_SB_CR_PIPE_BAD_ARG_EID :: uint16 where "CFE_SB_CR_PIPE_BAD_ARG_EID \<equiv> 2"
abbreviation (input) CFE_SB_MAX_PIPES_MET_EID :: uint16 where "CFE_SB_MAX_PIPES_MET_EID \<equiv> 3"
abbreviation (input) CFE_SB_CR_PIPE_NAME_TAKEN_EID :: uint16 where "CFE_SB_CR_PIPE_NAME_TAKEN_EID \<equiv> 69"
abbreviation (input) CFE_SB_CR_PIPE_NO_FREE_EID :: uint16 where "CFE_SB_CR_PIPE_NO_FREE_EID \<equiv> 70"
abbreviation (input) CFE_SB_CR_PIPE_ERR_EID :: uint16 where "CFE_SB_CR_PIPE_ERR_EID \<equiv> 4"
abbreviation (input) CFE_SB_PIPE_ADDED_EID :: uint16 where "CFE_SB_PIPE_ADDED_EID \<equiv> 5"
abbreviation (input) CFE_SB_DEL_PIPE_ERR1_EID :: uint16 where "CFE_SB_DEL_PIPE_ERR1_EID \<equiv> 46"
abbreviation (input) CFE_SB_DEL_PIPE_ERR2_EID :: uint16 where "CFE_SB_DEL_PIPE_ERR2_EID \<equiv> 54"
abbreviation (input) CFE_SB_PIPE_DELETED_EID :: uint16 where "CFE_SB_PIPE_DELETED_EID \<equiv> 47"
abbreviation (input) CFE_SB_SETPIPEOPTS_ID_ERR_EID :: uint16 where "CFE_SB_SETPIPEOPTS_ID_ERR_EID \<equiv> 55"
abbreviation (input) CFE_SB_SETPIPEOPTS_OWNER_ERR_EID :: uint16 where "CFE_SB_SETPIPEOPTS_OWNER_ERR_EID \<equiv> 56"
abbreviation (input) CFE_SB_SETPIPEOPTS_EID :: uint16 where "CFE_SB_SETPIPEOPTS_EID \<equiv> 57"
abbreviation (input) CFE_SB_GETPIPEOPTS_ID_ERR_EID :: uint16 where "CFE_SB_GETPIPEOPTS_ID_ERR_EID \<equiv> 58"
abbreviation (input) CFE_SB_GETPIPEOPTS_PTR_ERR_EID :: uint16 where "CFE_SB_GETPIPEOPTS_PTR_ERR_EID \<equiv> 59"
abbreviation (input) CFE_SB_GETPIPEOPTS_EID :: uint16 where "CFE_SB_GETPIPEOPTS_EID \<equiv> 60"
abbreviation (input) CFE_SB_GETPIPENAME_ID_ERR_EID :: uint16 where "CFE_SB_GETPIPENAME_ID_ERR_EID \<equiv> 64"
abbreviation (input) CFE_SB_GETPIPENAME_NULL_PTR_EID :: uint16 where "CFE_SB_GETPIPENAME_NULL_PTR_EID \<equiv> 63"
abbreviation (input) CFE_SB_GETPIPENAME_EID :: uint16 where "CFE_SB_GETPIPENAME_EID \<equiv> 62"
abbreviation (input) CFE_SB_GETPIPEIDBYNAME_NULL_ERR_EID :: uint16 where "CFE_SB_GETPIPEIDBYNAME_NULL_ERR_EID \<equiv> 66"
abbreviation (input) CFE_SB_GETPIPEIDBYNAME_NAME_ERR_EID :: uint16 where "CFE_SB_GETPIPEIDBYNAME_NAME_ERR_EID \<equiv> 67"
abbreviation (input) CFE_SB_GETPIPEIDBYNAME_EID :: uint16 where "CFE_SB_GETPIPEIDBYNAME_EID \<equiv> 65"
abbreviation (input) CFE_SB_SUB_INV_PIPE_EID :: uint16 where "CFE_SB_SUB_INV_PIPE_EID \<equiv> 50"
abbreviation (input) CFE_SB_SUB_INV_CALLER_EID :: uint16 where "CFE_SB_SUB_INV_CALLER_EID \<equiv> 51"
abbreviation (input) CFE_SB_SUB_ARG_ERR_EID :: uint16 where "CFE_SB_SUB_ARG_ERR_EID \<equiv> 6"
abbreviation (input) CFE_SB_MAX_MSGS_MET_EID :: uint16 where "CFE_SB_MAX_MSGS_MET_EID \<equiv> 8"
abbreviation (input) CFE_SB_DUP_SUBSCRIP_EID :: uint16 where "CFE_SB_DUP_SUBSCRIP_EID \<equiv> 7"
abbreviation (input) CFE_SB_MAX_DESTS_MET_EID :: uint16 where "CFE_SB_MAX_DESTS_MET_EID \<equiv> 9"
abbreviation (input) CFE_SB_DEST_BLK_ERR_EID :: uint16 where "CFE_SB_DEST_BLK_ERR_EID \<equiv> 20"
abbreviation (input) CFE_SB_SUBSCRIPTION_RCVD_EID :: uint16 where "CFE_SB_SUBSCRIPTION_RCVD_EID \<equiv> 10"
abbreviation (input) CFE_SB_HASHCOLLISION_EID :: uint16 where "CFE_SB_HASHCOLLISION_EID \<equiv> 23"
abbreviation (input) CFE_SB_SUBSCRIPTION_RPT_EID :: uint16 where "CFE_SB_SUBSCRIPTION_RPT_EID \<equiv> 22"
abbreviation (input) CFE_SB_UNSUB_INV_PIPE_EID :: uint16 where "CFE_SB_UNSUB_INV_PIPE_EID \<equiv> 52"
abbreviation (input) CFE_SB_UNSUB_INV_CALLER_EID :: uint16 where "CFE_SB_UNSUB_INV_CALLER_EID \<equiv> 53"
abbreviation (input) CFE_SB_UNSUB_ARG_ERR_EID :: uint16 where "CFE_SB_UNSUB_ARG_ERR_EID \<equiv> 11"
abbreviation (input) CFE_SB_UNSUB_NO_SUBS_EID :: uint16 where "CFE_SB_UNSUB_NO_SUBS_EID \<equiv> 12"
abbreviation (input) CFE_SB_SUBSCRIPTION_REMOVED_EID :: uint16 where "CFE_SB_SUBSCRIPTION_REMOVED_EID \<equiv> 48"
abbreviation (input) CFE_SB_FULL_SUB_PKT_EID :: uint16 where "CFE_SB_FULL_SUB_PKT_EID \<equiv> 44"
abbreviation (input) CFE_SB_PART_SUB_PKT_EID :: uint16 where "CFE_SB_PART_SUB_PKT_EID \<equiv> 45"
abbreviation (input) CFE_SB_ENBL_RTE1_EID :: uint16 where "CFE_SB_ENBL_RTE1_EID \<equiv> 33"
abbreviation (input) CFE_SB_ENBL_RTE2_EID :: uint16 where "CFE_SB_ENBL_RTE2_EID \<equiv> 34"
abbreviation (input) CFE_SB_ENBL_RTE3_EID :: uint16 where "CFE_SB_ENBL_RTE3_EID \<equiv> 35"
abbreviation (input) CFE_SB_DSBL_RTE1_EID :: uint16 where "CFE_SB_DSBL_RTE1_EID \<equiv> 36"
abbreviation (input) CFE_SB_DSBL_RTE2_EID :: uint16 where "CFE_SB_DSBL_RTE2_EID \<equiv> 37"
abbreviation (input) CFE_SB_DSBL_RTE3_EID :: uint16 where "CFE_SB_DSBL_RTE3_EID \<equiv> 38"

record 'p sb_state =
  SubscriptionReporting :: uint32
  StopRecurseFlags :: "nat \<Rightarrow> uint32"
  PipeTbl :: "nat \<Rightarrow> CFE_SB_PipeD_t"
  HKTlm :: CFE_SB_HousekeepingTlm_Payload_t
  StatTlm :: CFE_SB_StatsTlm_Payload_t
  PrevSub :: CFE_SB_AllSubscriptionsTlm_Payload_t
  LastPipeId :: CFE_ResourceId_t
  Routing :: sbr_state
  Dests :: "pointer \<Rightarrow> CFE_SB_DestinationD_t"
  Bufs :: "pointer \<Rightarrow> CFE_SB_BufferD_t"
  LinkNext :: "buffer_link \<Rightarrow> buffer_link"
  LinkPrev :: "buffer_link \<Rightarrow> buffer_link"
  Pool :: 'p
  Queues :: "(osal_id_t \<times> os_queue) list"
  PspTime :: "nat \<Rightarrow> int"
  PspReads :: nat
  Events :: "uint16 list"

text \<open>What the build and the platform fix: the map of the router, the message headers, the ID layout, the sizes of
  descriptors, the pool functions, and the layout of the messages that the bus sends.\<close>

record 'p sb_cfg =
  hash_map :: bool
  build :: msg_build
  strict_ids :: bool
  content_offset :: size_t
  sizeof_DestinationD :: size_t
  GetPoolBuf :: "size_t \<Rightarrow> 'p \<Rightarrow> pool_status \<times> pointer \<times> 'p"
  PutPoolBuf :: "pointer \<Rightarrow> 'p \<Rightarrow> pool_status \<times> 'p"
  OneSubMid :: CFE_SB_MsgId_t
  OneSubSize :: size_t
  OneSubPayload :: "CFE_SB_MsgId_t \<Rightarrow> CFE_SB_PipeId_t \<Rightarrow> uint16 \<Rightarrow> CFE_MSG_Message_t \<Rightarrow> CFE_MSG_Message_t"
  HkMessage :: "CFE_SB_HousekeepingTlm_Payload_t \<Rightarrow> CFE_MSG_Message_t"
  StatMessage :: "CFE_SB_StatsTlm_Payload_t \<Rightarrow> CFE_SB_PipeDepthStats_t list \<Rightarrow> CFE_MSG_Message_t"
  PrevSubMessage :: "CFE_SB_AllSubscriptionsTlm_Payload_t \<Rightarrow> CFE_MSG_Message_t"

text \<open>The calling task: the results of \<^verbatim>\<open>CFE_ES_GetAppID\<close>, \<^verbatim>\<open>CFE_ES_TaskID_ToIndex\<close> (\<open>None\<close> when it fails) and
  \<^verbatim>\<open>CFE_TIME_GetTime\<close>, the IDs that the OSAL tries for a new queue in this order, and the result of the OSAL's
  queue implementation.\<close>

record sb_caller =
  AppIdStatus :: CFE_Status_t
  CallerAppId :: CFE_ES_AppId_t
  TaskIndex :: "nat option"
  Now :: CFE_TIME_SysTime_t
  QueueIds :: "osal_id_t list"
  QueueImpl :: OS_Status

definition CFE_SB_PIPEID_BASE :: "'p sb_cfg \<Rightarrow> uint32" where
  "CFE_SB_PIPEID_BASE cfg = (if strict_ids cfg then 0x02160000 else 0x00160000)"

abbreviation (input) upd_dest :: "pointer \<Rightarrow> (CFE_SB_DestinationD_t \<Rightarrow> CFE_SB_DestinationD_t) \<Rightarrow> 'p sb_state \<Rightarrow> 'p sb_state" where
  "upd_dest p f s \<equiv> s\<lparr>Dests := (Dests s)(p := f (Dests s p))\<rparr>"
abbreviation (input) upd_buf :: "pointer \<Rightarrow> (CFE_SB_BufferD_t \<Rightarrow> CFE_SB_BufferD_t) \<Rightarrow> 'p sb_state \<Rightarrow> 'p sb_state" where
  "upd_buf p f s \<equiv> s\<lparr>Bufs := (Bufs s)(p := f (Bufs s p))\<rparr>"
abbreviation (input) upd_pipe :: "nat \<Rightarrow> (CFE_SB_PipeD_t \<Rightarrow> CFE_SB_PipeD_t) \<Rightarrow> 'p sb_state \<Rightarrow> 'p sb_state" where
  "upd_pipe i f s \<equiv> s\<lparr>PipeTbl := (PipeTbl s)(i := f (PipeTbl s i))\<rparr>"
abbreviation (input) upd_hk ::
    "(CFE_SB_HousekeepingTlm_Payload_t \<Rightarrow> CFE_SB_HousekeepingTlm_Payload_t) \<Rightarrow> 'p sb_state \<Rightarrow> 'p sb_state" where
  "upd_hk f s \<equiv> s\<lparr>HKTlm := f (HKTlm s)\<rparr>"
abbreviation (input) upd_stat ::
    "(CFE_SB_StatsTlm_Payload_t \<Rightarrow> CFE_SB_StatsTlm_Payload_t) \<Rightarrow> 'p sb_state \<Rightarrow> 'p sb_state" where
  "upd_stat f s \<equiv> s\<lparr>StatTlm := f (StatTlm s)\<rparr>"
abbreviation (input) send_event :: "uint16 \<Rightarrow> 'p sb_state \<Rightarrow> 'p sb_state" where
  "send_event e s \<equiv> s\<lparr>Events := Events s @ [e]\<rparr>"

section \<open>Tracking lists\<close>

definition CFE_SB_TrackingListReset :: "buffer_link \<Rightarrow> 'p sb_state \<Rightarrow> 'p sb_state" where
  "CFE_SB_TrackingListReset Link s = s\<lparr>LinkPrev := (LinkPrev s)(Link := Link), LinkNext := (LinkNext s)(Link := Link)\<rparr>"

definition CFE_SB_TrackingListRemove :: "buffer_link \<Rightarrow> 'p sb_state \<Rightarrow> 'p sb_state" where
  "CFE_SB_TrackingListRemove Node s =
     (let s = s\<lparr>LinkNext := (LinkNext s)(LinkPrev s Node := LinkNext s Node)\<rparr>;
          s = s\<lparr>LinkPrev := (LinkPrev s)(LinkNext s Node := LinkPrev s Node)\<rparr>
      in CFE_SB_TrackingListReset Node s)"

definition CFE_SB_TrackingListAdd :: "buffer_link \<Rightarrow> buffer_link \<Rightarrow> 'p sb_state \<Rightarrow> 'p sb_state" where
  "CFE_SB_TrackingListAdd List Node s =
     (let s = s\<lparr>LinkPrev := (LinkPrev s)(Node := LinkPrev s List)\<rparr>;
          s = s\<lparr>LinkNext := (LinkNext s)(Node := List)\<rparr>;
          s = s\<lparr>LinkNext := (LinkNext s)(LinkPrev s Node := Node)\<rparr>
      in s\<lparr>LinkPrev := (LinkPrev s)(LinkNext s Node := Node)\<rparr>)"

section \<open>Buffers and destination blocks\<close>

definition max_stat :: "uint32 \<Rightarrow> uint32 \<Rightarrow> uint32" where
  "max_stat cur peak = (if cur > peak then cur else peak)"

definition CFE_SB_GetBufferFromPool :: "'p sb_cfg \<Rightarrow> size_t \<Rightarrow> 'p sb_state \<Rightarrow> pointer \<times> 'p sb_state" where
  "CFE_SB_GetBufferFromPool cfg MaxMsgSize s =
     (let AllocSize = MaxMsgSize + content_offset cfg in
      case GetPoolBuf cfg AllocSize (Pool s) of (stat1, addr, pool) \<Rightarrow>
        let s = s\<lparr>Pool := pool\<rparr> in
        if pool_negative stat1 then (NULL, s)
        else
          let s = upd_stat (\<lambda>t. t\<lparr>SBBuffersInUse := SBBuffersInUse t + 1\<rparr>) s;
              s = upd_stat (\<lambda>t. t\<lparr>PeakSBBuffersInUse := max_stat (SBBuffersInUse t) (PeakSBBuffersInUse t)\<rparr>) s;
              s = upd_stat (\<lambda>t. t\<lparr>MemInUse := MemInUse t + ucast AllocSize\<rparr>) s;
              s = upd_stat (\<lambda>t. t\<lparr>PeakMemInUse := max_stat (MemInUse t) (PeakMemInUse t)\<rparr>) s;
              s = upd_buf addr (\<lambda>b. \<lparr>DestRouteId = CFE_SBR_INVALID_ROUTE_ID, OwnerAppId = CFE_RESOURCEID_UNDEFINED,
                    BufMsgId = CFE_SB_INVALID_MSG_ID, AllocatedSize = AllocSize, ContentSize = 0, UseCount = 1,
                    Content = Content b\<rparr>) s
          in (addr, CFE_SB_TrackingListReset (BufferLink addr) s))"

definition CFE_SB_ReturnBufferToPool :: "'p sb_cfg \<Rightarrow> pointer \<Rightarrow> 'p sb_state \<Rightarrow> 'p sb_state" where
  "CFE_SB_ReturnBufferToPool cfg bd s =
     (let s = CFE_SB_TrackingListRemove (BufferLink bd) s;
          s = upd_stat (\<lambda>t. t\<lparr>SBBuffersInUse := SBBuffersInUse t - 1\<rparr>) s;
          s = upd_stat (\<lambda>t. t\<lparr>MemInUse := MemInUse t - ucast (AllocatedSize (Bufs s bd))\<rparr>) s
      in s\<lparr>Pool := snd (PutPoolBuf cfg bd (Pool s))\<rparr>)"

definition CFE_SB_IncrBufUseCnt :: "pointer \<Rightarrow> 'p sb_state \<Rightarrow> 'p sb_state" where
  "CFE_SB_IncrBufUseCnt bd s =
     (if UseCount (Bufs s bd) < 0x7FFF then upd_buf bd (\<lambda>b. b\<lparr>UseCount := UseCount b + 1\<rparr>) s else s)"

definition CFE_SB_DecrBufUseCnt :: "'p sb_cfg \<Rightarrow> pointer \<Rightarrow> 'p sb_state \<Rightarrow> 'p sb_state" where
  "CFE_SB_DecrBufUseCnt cfg bd s =
     (if UseCount (Bufs s bd) > 0
      then let s = upd_buf bd (\<lambda>b. b\<lparr>UseCount := UseCount b - 1\<rparr>) s
           in if UseCount (Bufs s bd) = 0 then CFE_SB_ReturnBufferToPool cfg bd s else s
      else s)"

definition CFE_SB_GetDestinationBlk :: "'p sb_cfg \<Rightarrow> 'p sb_state \<Rightarrow> pointer \<times> 'p sb_state" where
  "CFE_SB_GetDestinationBlk cfg s =
     (case GetPoolBuf cfg (sizeof_DestinationD cfg) (Pool s) of (Stat, addr, pool) \<Rightarrow>
        let s = s\<lparr>Pool := pool\<rparr> in
        if pool_negative Stat then (NULL, s)
        else
          let Size = (case Stat of Pool_size w \<Rightarrow> w | Pool_error _ \<Rightarrow> 0);
              s = upd_stat (\<lambda>t. t\<lparr>MemInUse := MemInUse t + Size\<rparr>) s;
              s = upd_stat (\<lambda>t. t\<lparr>PeakMemInUse := max_stat (MemInUse t) (PeakMemInUse t)\<rparr>) s
          in (addr, s))"

definition CFE_SB_PutDestinationBlk :: "'p sb_cfg \<Rightarrow> pointer \<Rightarrow> 'p sb_state \<Rightarrow> CFE_Status_t \<times> 'p sb_state" where
  "CFE_SB_PutDestinationBlk cfg Dest s =
     (if Dest = NULL then (CFE_SB_BAD_ARGUMENT, s)
      else case PutPoolBuf cfg Dest (Pool s) of (Stat, pool) \<Rightarrow>
        let s = s\<lparr>Pool := pool\<rparr>
        in (CFE_SUCCESS,
            case Stat of Pool_error _ \<Rightarrow> s
            | Pool_size w \<Rightarrow> if 0 < sint w then upd_stat (\<lambda>t. t\<lparr>MemInUse := MemInUse t - w\<rparr>) s else s))"

section \<open>Destination lists\<close>

definition set_dest_head :: "CFE_SBR_RouteId_t \<Rightarrow> pointer \<Rightarrow> 'p sb_state \<Rightarrow> 'p sb_state" where
  "set_dest_head Route p s = s\<lparr>Routing := CFE_SBR_SetDestListHeadPtr (Routing s) Route p\<rparr>"

partial_function (option) find_dest ::
    "(pointer \<Rightarrow> CFE_SB_DestinationD_t) \<Rightarrow> CFE_SB_PipeId_t \<Rightarrow> pointer \<Rightarrow> pointer option" where
  "find_dest ds pid destptr =
     (if destptr = NULL then Some NULL
      else if DestPipeId (ds destptr) = pid then Some destptr
      else find_dest ds pid (Next (ds destptr)))"

definition CFE_SB_GetDestPtr :: "CFE_SBR_RouteId_t \<Rightarrow> CFE_SB_PipeId_t \<Rightarrow> 'p sb_state \<Rightarrow> pointer option" where
  "CFE_SB_GetDestPtr Route pid s = find_dest (Dests s) pid (CFE_SBR_GetDestListHeadPtr (Routing s) Route)"

definition CFE_SB_AddDestNode :: "CFE_SBR_RouteId_t \<Rightarrow> pointer \<Rightarrow> 'p sb_state \<Rightarrow> 'p sb_state" where
  "CFE_SB_AddDestNode Route NewNode s =
     (let listheadptr = CFE_SBR_GetDestListHeadPtr (Routing s) Route;
          s = (if listheadptr = NULL
               then upd_dest NewNode (\<lambda>d. d\<lparr>Next := NULL, Prev := NULL\<rparr>) s
               else let WBS = listheadptr;
                        s = upd_dest NewNode (\<lambda>d. d\<lparr>Next := WBS, Prev := NULL\<rparr>) s
                    in upd_dest WBS (\<lambda>d. d\<lparr>Prev := NewNode\<rparr>) s)
      in set_dest_head Route NewNode s)"

definition CFE_SB_RemoveDestNode :: "CFE_SBR_RouteId_t \<Rightarrow> pointer \<Rightarrow> 'p sb_state \<Rightarrow> 'p sb_state" where
  "CFE_SB_RemoveDestNode Route NodeToRemove s =
     (let PrevNode = Prev (Dests s NodeToRemove);
          NextNode = Next (Dests s NodeToRemove);
          s = (if PrevNode = NULL \<and> NextNode = NULL then set_dest_head Route NULL s
               else if PrevNode = NULL
               then set_dest_head Route NextNode (upd_dest NextNode (\<lambda>d. d\<lparr>Prev := NULL\<rparr>) s)
               else if NextNode = NULL then upd_dest PrevNode (\<lambda>d. d\<lparr>Next := NULL\<rparr>) s
               else upd_dest NextNode (\<lambda>d. d\<lparr>Prev := PrevNode\<rparr>) (upd_dest PrevNode (\<lambda>d. d\<lparr>Next := NextNode\<rparr>) s))
      in upd_dest NodeToRemove (\<lambda>d. d\<lparr>Next := NULL, Prev := NULL\<rparr>) s)"

definition CFE_SB_RemoveDest :: "'p sb_cfg \<Rightarrow> CFE_SBR_RouteId_t \<Rightarrow> pointer \<Rightarrow> 'p sb_state \<Rightarrow> 'p sb_state" where
  "CFE_SB_RemoveDest cfg Route DestPtr s =
     (let s = CFE_SB_RemoveDestNode Route DestPtr s;
          s = snd (CFE_SB_PutDestinationBlk cfg DestPtr s)
      in upd_stat (\<lambda>t. t\<lparr>SubscriptionsInUse := SubscriptionsInUse t - 1\<rparr>) s)"

section \<open>Pipe descriptors\<close>

text \<open>A pointer to a pipe descriptor is its table index, \<open>None\<close> for NULL.\<close>

definition CFE_SB_PipeId_ToIndex :: "'p sb_cfg \<Rightarrow> CFE_SB_PipeId_t \<Rightarrow> CFE_Status_t \<times> uint32 option" where
  "CFE_SB_PipeId_ToIndex cfg pid =
     CFE_ResourceId_ToIndex pid (CFE_SB_PIPEID_BASE cfg) (of_nat CFE_PLATFORM_SB_MAX_PIPES) (Some 0)"

definition CFE_SB_LocatePipeDescByID :: "'p sb_cfg \<Rightarrow> CFE_SB_PipeId_t \<Rightarrow> nat option" where
  "CFE_SB_LocatePipeDescByID cfg pid =
     (case CFE_SB_PipeId_ToIndex cfg pid of (Status, Idx) \<Rightarrow>
        if Status = CFE_SUCCESS then map_option unat Idx else None)"

definition CFE_SB_PipeDescIsUsed :: "CFE_SB_PipeD_t \<Rightarrow> bool" where
  "CFE_SB_PipeDescIsUsed d \<longleftrightarrow> PipeId d \<noteq> CFE_RESOURCEID_UNDEFINED"

definition CFE_SB_CheckPipeDescSlotUsed :: "'p sb_cfg \<Rightarrow> 'p sb_state \<Rightarrow> CFE_ResourceId_t \<Rightarrow> bool" where
  "CFE_SB_CheckPipeDescSlotUsed cfg s CheckId =
     (case CFE_SB_LocatePipeDescByID cfg CheckId of None \<Rightarrow> True | Some i \<Rightarrow> CFE_SB_PipeDescIsUsed (PipeTbl s i))"

text \<open>The located descriptor of a pipe, when it matches: \<^verbatim>\<open>CFE_SB_LocatePipeDescByID\<close> and
  \<^verbatim>\<open>CFE_SB_PipeDescIsMatch\<close>.\<close>

definition CFE_SB_PipeDescIsMatch :: "'p sb_cfg \<Rightarrow> CFE_SB_PipeId_t \<Rightarrow> 'p sb_state \<Rightarrow> nat option" where
  "CFE_SB_PipeDescIsMatch cfg pid s =
     (case CFE_SB_LocatePipeDescByID cfg pid of
        None \<Rightarrow> None
      | Some i \<Rightarrow> if PipeId (PipeTbl s i) = pid then Some i else None)"

section \<open>Events\<close>

text \<open>The flags that keep a task from sending an event in the middle of sending it.\<close>

definition CFE_SB_RequestToSendEvent :: "sb_caller \<Rightarrow> int \<Rightarrow> 'p sb_state \<Rightarrow> bool \<times> 'p sb_state" where
  "CFE_SB_RequestToSendEvent c Bit s =
     (if Bit < 0 then (True, s)
      else case TaskIndex c of
        None \<Rightarrow> (False, s)
      | Some i \<Rightarrow>
          if bit (StopRecurseFlags s i) (nat Bit) then (False, s)
          else (True, s\<lparr>StopRecurseFlags := (StopRecurseFlags s)(i := set_bit (nat Bit) (StopRecurseFlags s i))\<rparr>))"

definition CFE_SB_FinishSendEvent :: "sb_caller \<Rightarrow> int \<Rightarrow> 'p sb_state \<Rightarrow> 'p sb_state" where
  "CFE_SB_FinishSendEvent c Bit s =
     (if Bit < 0 then s
      else case TaskIndex c of
        None \<Rightarrow> s
      | Some i \<Rightarrow> s\<lparr>StopRecurseFlags := (StopRecurseFlags s)(i := unset_bit (nat Bit) (StopRecurseFlags s i))\<rparr>)"

text \<open>The name of a pipe, into a buffer that is not NULL (\<open>BufOk\<close>); the buffer size limit of
  \<^verbatim>\<open>OS_GetResourceName\<close> is \<open>PipeNameSize\<close>.\<close>

definition OS_GetResourceName :: "osal_id_t \<Rightarrow> nat \<Rightarrow> 'p sb_state \<Rightarrow> OS_Status \<times> string" where
  "OS_GetResourceName q n s =
     (case map_of (Queues s) q of
        None \<Rightarrow> (OS_ERR_INVALID_ID, [])
      | Some x \<Rightarrow> if n \<le> length (QueueName x) then (OS_ERR_NAME_TOO_LONG, take (n - 1) (QueueName x))
                  else (OS_SUCCESS, QueueName x))"

definition CFE_SB_GetPipeName ::
    "'p sb_cfg \<Rightarrow> bool \<Rightarrow> nat \<Rightarrow> CFE_SB_PipeId_t \<Rightarrow> 'p sb_state \<Rightarrow> CFE_Status_t \<times> string \<times> 'p sb_state" where
  "CFE_SB_GetPipeName cfg BufOk PipeNameSize pid s =
     (let (EID, Status, name) =
        (case CFE_SB_PipeDescIsMatch cfg pid s of
           None \<Rightarrow> (CFE_SB_GETPIPENAME_ID_ERR_EID, CFE_SB_BAD_ARGUMENT, [])
         | Some i \<Rightarrow>
             if \<not> BufOk \<or> PipeNameSize = 0 then (CFE_SB_GETPIPENAME_NULL_PTR_EID, CFE_SB_BAD_ARGUMENT, [])
             else case OS_GetResourceName (SysQueueId (PipeTbl s i)) PipeNameSize s of (OsStatus, name) \<Rightarrow>
                  if OsStatus = OS_SUCCESS then (0, CFE_SUCCESS, name)
                  else (CFE_SB_GETPIPENAME_ID_ERR_EID, CFE_SB_BAD_ARGUMENT, name));
          s = (if EID \<noteq> 0 then send_event EID s else s)
      in if Status = CFE_SUCCESS then (Status, name, send_event CFE_SB_GETPIPENAME_EID s) else (Status, [], s))"

end
