(* ===== verification/CFS_SbTxn.thy ===== *)
theory CFS_SbTxn
  imports CFS_SbState
begin

text \<open>
  Message transactions of the software bus, the second half of \<^verbatim>\<open>cfe_sb_priv.c\<close>, and the transmit, receive and
  zero-copy functions of \<^verbatim>\<open>cfe_sb_api.c\<close> on top of them.

  A pointer to the content of a buffer is the address of its descriptor plus \<open>content_offset\<close>.  The queue operations are
  those of bounded FIFO queues.  A receive that waits for a message forever, or one whose verification rejects
  messages forever, gives \<open>None\<close>.
\<close>

section \<open>Transactions\<close>

datatype CFE_SB_MessageTxn_TimeoutMode_t = TimeoutMode_POLL | TimeoutMode_PEND | TimeoutMode_TIMED

record CFE_SB_PipeSetEntry_t =
  SetPipeId :: CFE_SB_PipeId_t
  SetSysQueueId :: osal_id_t
  PendingEventId :: uint16
  OsStatus :: OS_Status

text \<open>The entries of \<^verbatim>\<open>PipeSet\<close> below \<^verbatim>\<open>NumPipes\<close> are a list.\<close>

record CFE_SB_MessageTxn_State_t =
  IsTransmit :: bool
  IsEndpoint :: bool
  MaxPipes :: nat
  NumPipeErrs :: uint16
  TransactionEventId :: uint16
  TimeoutMode :: CFE_SB_MessageTxn_TimeoutMode_t
  UserTimeoutParam :: int
  AbsTimeout :: int
  TxnStatus :: CFE_Status_t
  TxnContentSize :: size_t
  RoutingMsgId :: CFE_SB_MsgId_t
  PipeSet :: "CFE_SB_PipeSetEntry_t list"

definition CFE_SB_MessageTxn_Init :: "nat \<Rightarrow> CFE_SB_MessageTxn_State_t" where
  "CFE_SB_MessageTxn_Init n =
     \<lparr>IsTransmit = False, IsEndpoint = False, MaxPipes = n, NumPipeErrs = 0, TransactionEventId = 0,
      TimeoutMode = TimeoutMode_POLL, UserTimeoutParam = 0, AbsTimeout = 0, TxnStatus = CFE_SUCCESS, TxnContentSize = 0,
      RoutingMsgId = CFE_SB_INVALID_MSG_ID, PipeSet = []\<rparr>"

definition CFE_SB_MessageTxn_IsOK :: "CFE_SB_MessageTxn_State_t \<Rightarrow> bool" where
  "CFE_SB_MessageTxn_IsOK t \<longleftrightarrow> TxnStatus t = CFE_SUCCESS \<and> TransactionEventId t = 0"

definition CFE_SB_MessageTxn_SetEventAndStatus ::
    "uint16 \<Rightarrow> CFE_Status_t \<Rightarrow> CFE_SB_MessageTxn_State_t \<Rightarrow> CFE_SB_MessageTxn_State_t" where
  "CFE_SB_MessageTxn_SetEventAndStatus EID Status t =
     (let t = (if TransactionEventId t = 0 then t\<lparr>TransactionEventId := EID\<rparr> else t)
      in if TxnStatus t = CFE_SUCCESS then t\<lparr>TxnStatus := Status\<rparr> else t)"

text \<open>The platform clock \<^verbatim>\<open>CFE_PSP_GetTime\<close> in ticks of 100 ns.\<close>

definition CFE_PSP_GetTime :: "'p sb_state \<Rightarrow> int \<times> 'p sb_state" where
  "CFE_PSP_GetTime s = (PspTime s (PspReads s), s\<lparr>PspReads := Suc (PspReads s)\<rparr>)"

abbreviation (input) OS_TIME_TICKS_PER_MSEC :: int where "OS_TIME_TICKS_PER_MSEC \<equiv> 10000"
abbreviation (input) OS_PEND :: int where "OS_PEND \<equiv> -1"
abbreviation (input) OS_CHECK :: int where "OS_CHECK \<equiv> 0"

definition CFE_SB_MessageTxn_SetTimeout ::
    "int \<Rightarrow> CFE_SB_MessageTxn_State_t \<Rightarrow> 'p sb_state \<Rightarrow> CFE_SB_MessageTxn_State_t \<times> 'p sb_state" where
  "CFE_SB_MessageTxn_SetTimeout Timeout t s =
     (let t = t\<lparr>UserTimeoutParam := Timeout\<rparr> in
      if Timeout > 0
      then case CFE_PSP_GetTime s of (now, s) \<Rightarrow>
             (t\<lparr>TimeoutMode := TimeoutMode_TIMED, AbsTimeout := now + Timeout * OS_TIME_TICKS_PER_MSEC\<rparr>, s)
      else if Timeout = CFE_SB_POLL then (t\<lparr>TimeoutMode := TimeoutMode_POLL\<rparr>, s)
      else if Timeout = CFE_SB_PEND_FOREVER then (t\<lparr>TimeoutMode := TimeoutMode_PEND\<rparr>, s)
      else (CFE_SB_MessageTxn_SetEventAndStatus CFE_SB_RCV_BAD_ARG_EID CFE_SB_BAD_ARGUMENT t, s))"

definition CFE_SB_MessageTxn_GetOsTimeout :: "CFE_SB_MessageTxn_State_t \<Rightarrow> 'p sb_state \<Rightarrow> int \<times> 'p sb_state" where
  "CFE_SB_MessageTxn_GetOsTimeout t s =
     (case TimeoutMode t of
        TimeoutMode_PEND \<Rightarrow> (OS_PEND, s)
      | TimeoutMode_TIMED \<Rightarrow>
          (case CFE_PSP_GetTime s of (TimeNow, s) \<Rightarrow>
             let OsTimeout = (AbsTimeout t - TimeNow) sdiv OS_TIME_TICKS_PER_MSEC
             in (if OsTimeout < 0 then OS_CHECK else OsTimeout, s))
      | TimeoutMode_POLL \<Rightarrow> (OS_CHECK, s))"

section \<open>Reporting\<close>

abbreviation (input) CFE_EVS_EventType_INFORMATION :: uint16 where "CFE_EVS_EventType_INFORMATION \<equiv> 2"
abbreviation (input) CFE_EVS_EventType_ERROR :: uint16 where "CFE_EVS_EventType_ERROR \<equiv> 3"
abbreviation (input) OS_MAX_API_NAME :: nat where "OS_MAX_API_NAME \<equiv> 20"

text \<open>Type and recursion bit of an event; the text, which looks up the name of the pipe, is not modelled.\<close>

definition CFE_SB_MessageTxn_GetEventDetails ::
    "'p sb_cfg \<Rightarrow> CFE_SB_PipeSetEntry_t option \<Rightarrow> uint16 \<Rightarrow> 'p sb_state \<Rightarrow> uint16 \<times> int \<times> 'p sb_state" where
  "CFE_SB_MessageTxn_GetEventDetails cfg ContextPtr EID s =
     (let s = (case ContextPtr of
                 None \<Rightarrow> s
               | Some ctx \<Rightarrow> if PendingEventId ctx = CFE_SB_BAD_PIPEID_EID then s
                             else snd (snd (CFE_SB_GetPipeName cfg True OS_MAX_API_NAME (SetPipeId ctx) s)));
          (type, bit) =
            (if EID = CFE_SB_SEND_BAD_ARG_EID then (CFE_EVS_EventType_ERROR, 5)
             else if EID = CFE_SB_SEND_INV_MSGID_EID then (CFE_EVS_EventType_ERROR, 6)
             else if EID = CFE_SB_MSG_TOO_BIG_EID then (CFE_EVS_EventType_ERROR, 7)
             else if EID = CFE_SB_SEND_NO_SUBS_EID then (CFE_EVS_EventType_INFORMATION, 0)
             else if EID = CFE_SB_GET_BUF_ERR_EID then (CFE_EVS_EventType_ERROR, 1)
             else if EID = CFE_SB_MSGID_LIM_ERR_EID then (CFE_EVS_EventType_ERROR, 2)
             else if EID = CFE_SB_Q_FULL_ERR_EID then (CFE_EVS_EventType_ERROR, 3)
             else if EID = CFE_SB_Q_WR_ERR_EID then (CFE_EVS_EventType_ERROR, 4)
             else if EID = CFE_SB_Q_RD_ERR_EID \<or> EID = CFE_SB_RCV_BAD_ARG_EID \<or> EID = CFE_SB_BAD_PIPEID_EID
             then (CFE_EVS_EventType_ERROR, - 1)
             else (0, 0))
      in (type, bit, s))"

definition CFE_SB_MessageTxn_ReportSingleEvent ::
    "'p sb_cfg \<Rightarrow> sb_caller \<Rightarrow> CFE_SB_PipeSetEntry_t option \<Rightarrow> uint16 \<Rightarrow> 'p sb_state \<Rightarrow> bool \<times> 'p sb_state" where
  "CFE_SB_MessageTxn_ReportSingleEvent cfg c ContextPtr EID s =
     (case CFE_SB_MessageTxn_GetEventDetails cfg ContextPtr EID s of (EventType, ReqBit, s) \<Rightarrow>
        let s = (if EventType > 0
                 then case CFE_SB_RequestToSendEvent c ReqBit s of (granted, s) \<Rightarrow>
                        if granted then CFE_SB_FinishSendEvent c ReqBit (send_event EID s) else s
                 else s)
        in (EventType \<ge> CFE_EVS_EventType_ERROR, s))"

definition report_pending ::
    "'p sb_cfg \<Rightarrow> sb_caller \<Rightarrow> CFE_SB_PipeSetEntry_t \<Rightarrow> nat \<times> 'p sb_state \<Rightarrow> nat \<times> 'p sb_state" where
  "report_pending cfg c ctx ns =
     (if PendingEventId ctx \<noteq> 0
      then case CFE_SB_MessageTxn_ReportSingleEvent cfg c (Some ctx) (PendingEventId ctx) (snd ns) of (IsError, s) \<Rightarrow>
             (if IsError then Suc (fst ns) else fst ns, s)
      else ns)"

definition CFE_SB_MessageTxn_ReportEvents ::
    "'p sb_cfg \<Rightarrow> sb_caller \<Rightarrow> CFE_SB_MessageTxn_State_t \<Rightarrow> 'p sb_state \<Rightarrow> 'p sb_state" where
  "CFE_SB_MessageTxn_ReportEvents cfg c t s =
     (let (NumErrors, s) =
        (if TransactionEventId t \<noteq> 0
         then case CFE_SB_MessageTxn_ReportSingleEvent cfg c None (TransactionEventId t) s of (IsError, s) \<Rightarrow>
                (if IsError then 1 else 0, s)
         else (0 :: nat, s));
          (NumErrors, s) = fold (report_pending cfg c) (PipeSet t) (NumErrors, s)
      in if NumErrors > 0
         then upd_hk (\<lambda>h. if IsTransmit t then h\<lparr>MsgSendErrorCounter := MsgSendErrorCounter h + 1\<rparr>
                          else if TxnStatus t = CFE_SB_BAD_ARGUMENT
                          then h\<lparr>MsgReceiveErrorCounter := MsgReceiveErrorCounter h + 1\<rparr>
                          else h\<lparr>InternalErrorCounter := InternalErrorCounter h + 1\<rparr>) s
         else s)"

section \<open>Transmitting\<close>

definition CFE_SB_MessageTxn_SetRoutingMsgId ::
    "CFE_SB_MsgId_t \<Rightarrow> CFE_SB_MessageTxn_State_t \<Rightarrow> CFE_SB_MessageTxn_State_t" where
  "CFE_SB_MessageTxn_SetRoutingMsgId mid t =
     (if \<not> CFE_SB_IsValidMsgId mid
      then CFE_SB_MessageTxn_SetEventAndStatus CFE_SB_SEND_INV_MSGID_EID CFE_SB_BAD_ARGUMENT t
      else t\<lparr>RoutingMsgId := mid\<rparr>)"

definition CFE_SB_MessageTxn_SetContentSize ::
    "size_t \<Rightarrow> CFE_SB_MessageTxn_State_t \<Rightarrow> CFE_SB_MessageTxn_State_t" where
  "CFE_SB_MessageTxn_SetContentSize n t =
     (if n > CFE_MISSION_SB_MAX_SB_MSG_SIZE
      then CFE_SB_MessageTxn_SetEventAndStatus CFE_SB_MSG_TOO_BIG_EID CFE_SB_MSG_TOO_BIG t
      else t\<lparr>TxnContentSize := n\<rparr>)"

definition CFE_SB_TransmitTxn_SetupFromMsg ::
    "'p sb_cfg \<Rightarrow> CFE_MSG_Message_t option \<Rightarrow> CFE_SB_MessageTxn_State_t \<Rightarrow> CFE_SB_MessageTxn_State_t" where
  "CFE_SB_TransmitTxn_SetupFromMsg cfg MsgPtr t =
     (let t = (if CFE_SB_MessageTxn_IsOK t
               then case CFE_MSG_GetMsgId (build cfg) MsgPtr (Some CFE_SB_INVALID_MSG_ID) of (Status, mid) \<Rightarrow>
                 if Status = CFE_SUCCESS then CFE_SB_MessageTxn_SetRoutingMsgId (the mid) t
                 else CFE_SB_MessageTxn_SetEventAndStatus CFE_SB_SEND_BAD_ARG_EID Status t
               else t)
      in if CFE_SB_MessageTxn_IsOK t
         then case CFE_MSG_GetSize MsgPtr (Some 0) of (Status, MsgSize) \<Rightarrow>
           if Status = CFE_SUCCESS then CFE_SB_MessageTxn_SetContentSize (the MsgSize) t
           else CFE_SB_MessageTxn_SetEventAndStatus CFE_SB_SEND_BAD_ARG_EID Status t
         else t)"

definition CFE_SB_TransmitTxn_Init :: "bool \<Rightarrow> CFE_SB_MessageTxn_State_t" where
  "CFE_SB_TransmitTxn_Init RefIsNull =
     (let t = (CFE_SB_MessageTxn_Init CFE_PLATFORM_SB_MAX_DEST_PER_PKT)\<lparr>IsTransmit := True\<rparr>
      in if RefIsNull then CFE_SB_MessageTxn_SetEventAndStatus CFE_SB_SEND_BAD_ARG_EID CFE_SB_BAD_ARGUMENT t else t)"

text \<open>The pipe of an active destination that exists and does not ignore its owner's messages.\<close>

definition dest_pipe :: "'p sb_cfg \<Rightarrow> sb_caller \<Rightarrow> CFE_SB_DestinationD_t \<Rightarrow> 'p sb_state \<Rightarrow> nat option" where
  "dest_pipe cfg c d s =
     (if Active d = CFE_SB_ACTIVE
      then case CFE_SB_PipeDescIsMatch cfg (DestPipeId d) s of
             None \<Rightarrow> None
           | Some i \<Rightarrow>
               if Opts (PipeTbl s i) AND CFE_SB_PIPEOPTS_IGNOREMINE = 0 \<or> PipeAppId (PipeTbl s i) \<noteq> CallerAppId c
               then Some i else None
      else None)"

text \<open>One destination of the loop of \<^verbatim>\<open>CFE_SB_TransmitTxn_FindDestinations\<close>.\<close>

definition add_destination ::
    "'p sb_cfg \<Rightarrow> sb_caller \<Rightarrow> pointer \<Rightarrow> pointer \<Rightarrow> CFE_SB_MessageTxn_State_t \<times> 'p sb_state
       \<Rightarrow> CFE_SB_MessageTxn_State_t \<times> 'p sb_state" where
  "add_destination cfg c BufDscPtr DestPtr ts =
     (case ts of (t, s) \<Rightarrow>
      case dest_pipe cfg c (Dests s DestPtr) s of
        None \<Rightarrow> (t, s)
      | Some i \<Rightarrow>
          let ctx = \<lparr>SetPipeId = DestPipeId (Dests s DestPtr), SetSysQueueId = SysQueueId (PipeTbl s i),
                     PendingEventId = 0, OsStatus = OS_SUCCESS\<rparr>
          in if BuffCount (Dests s DestPtr) \<ge> MsgId2PipeLim (Dests s DestPtr)
             then (t\<lparr>PipeSet := PipeSet t @ [ctx\<lparr>PendingEventId := CFE_SB_MSGID_LIM_ERR_EID\<rparr>], NumPipeErrs := NumPipeErrs t + 1\<rparr>,
                   upd_pipe i (\<lambda>p. p\<lparr>SendErrors := SendErrors p + 1\<rparr>)
                     (upd_hk (\<lambda>h. h\<lparr>MsgLimitErrorCounter := MsgLimitErrorCounter h + 1\<rparr>) s))
             else
               let s = CFE_SB_IncrBufUseCnt BufDscPtr s;
                   s = upd_dest DestPtr (\<lambda>d. d\<lparr>BuffCount := BuffCount d + 1\<rparr>) s;
                   s = upd_pipe i (\<lambda>p. p\<lparr>CurrentQueueDepth := CurrentQueueDepth p + 1\<rparr>) s;
                   s = upd_pipe i (\<lambda>p. if CurrentQueueDepth p > PeakQueueDepth p
                                       then p\<lparr>PeakQueueDepth := CurrentQueueDepth p\<rparr> else p) s
               in (t\<lparr>PipeSet := PipeSet t @ [ctx]\<rparr>, s))"

partial_function (option) find_destinations ::
    "'p sb_cfg \<Rightarrow> sb_caller \<Rightarrow> pointer \<Rightarrow> pointer \<Rightarrow> CFE_SB_MessageTxn_State_t \<times> 'p sb_state
       \<Rightarrow> (CFE_SB_MessageTxn_State_t \<times> 'p sb_state) option" where
  "find_destinations cfg c BufDscPtr DestPtr ts =
     (if DestPtr \<noteq> NULL \<and> length (PipeSet (fst ts)) < MaxPipes (fst ts)
      then let ts = add_destination cfg c BufDscPtr DestPtr ts
           in find_destinations cfg c BufDscPtr (Next (Dests (snd ts) DestPtr)) ts
      else Some ts)"

definition CFE_SB_TransmitTxn_FindDestinations ::
    "'p sb_cfg \<Rightarrow> sb_caller \<Rightarrow> pointer \<Rightarrow> CFE_SB_MessageTxn_State_t \<Rightarrow> 'p sb_state
       \<Rightarrow> (CFE_SB_MessageTxn_State_t \<times> 'p sb_state) option" where
  "CFE_SB_TransmitTxn_FindDestinations cfg c bd t s = do {
     Route \<leftarrow> CFE_SBR_GetRouteId (hash_map cfg) (Routing s) (RoutingMsgId t);
     let s = upd_buf bd (\<lambda>b. b\<lparr>DestRouteId := Route\<rparr>) s;
     (t, s) \<leftarrow>
       (if CFE_SBR_IsValidRouteId Route
        then
          let s = (if IsEndpoint t
                   then let s = s\<lparr>Routing := CFE_SBR_IncrementSequenceCounter (Routing s) Route\<rparr>
                        in upd_buf bd (\<lambda>b. b\<lparr>Content := the (snd (CFE_MSG_SetSequenceCount (Some (Content b))
                                                  (CFE_SBR_GetSequenceCounter (Routing s) Route)))\<rparr>) s
                   else s)
          in find_destinations cfg c bd (CFE_SBR_GetDestListHeadPtr (Routing s) Route) (t, s)
        else Some (CFE_SB_MessageTxn_SetEventAndStatus CFE_SB_SEND_NO_SUBS_EID CFE_SUCCESS t,
                   upd_hk (\<lambda>h. h\<lparr>NoSubscribersCounter := NoSubscribersCounter h + 1\<rparr>) s));
     let s = CFE_SB_TrackingListRemove (BufferLink bd) s;
     let s = upd_buf bd (\<lambda>b. b\<lparr>OwnerAppId := CFE_RESOURCEID_UNDEFINED\<rparr>) s;
     let s = CFE_SB_TrackingListAdd InTransitList (BufferLink bd) s;
     Some (if CFE_SB_MessageTxn_IsOK t \<and> IsEndpoint t
           then case CFE_MSG_OriginationAction (build cfg) (Now c) (Some (Content (Bufs s bd)))
                       (AllocatedSize (Bufs s bd)) (Some False) of (Status, m, IsAcceptable) \<Rightarrow>
                  (if Status \<noteq> CFE_SUCCESS \<or> IsAcceptable \<noteq> Some True
                   then CFE_SB_MessageTxn_SetEventAndStatus CFE_SB_SEND_MESSAGE_INTEGRITY_FAIL_EID Status t else t,
                   upd_buf bd (\<lambda>b. b\<lparr>Content := the m\<rparr>) s)
           else (t, s))
   }"

definition OS_QueuePut :: "osal_id_t \<Rightarrow> pointer \<Rightarrow> 'p sb_state \<Rightarrow> OS_Status \<times> 'p sb_state" where
  "OS_QueuePut q bd s =
     (case map_of (Queues s) q of
        None \<Rightarrow> (OS_ERR_INVALID_ID, s)
      | Some x \<Rightarrow> if length (QueueItems x) \<ge> QueueDepth x then (OS_QUEUE_FULL, s)
                  else (OS_SUCCESS, s\<lparr>Queues := AList.update q (x\<lparr>QueueItems := QueueItems x @ [bd]\<rparr>) (Queues s)\<rparr>))"

definition CFE_SB_TransmitTxn_PipeHandler ::
    "'p sb_cfg \<Rightarrow> pointer \<Rightarrow> CFE_SB_PipeSetEntry_t \<Rightarrow> CFE_SB_MessageTxn_State_t \<Rightarrow> 'p sb_state
       \<Rightarrow> (CFE_SB_PipeSetEntry_t \<times> CFE_SB_MessageTxn_State_t \<times> 'p sb_state) option" where
  "CFE_SB_TransmitTxn_PipeHandler cfg bd ctx t s =
     (case OS_QueuePut (SetSysQueueId ctx) bd (snd (CFE_SB_MessageTxn_GetOsTimeout t s)) of (Status, s) \<Rightarrow>
        let ctx = ctx\<lparr>OsStatus := Status\<rparr> in
        if Status = OS_SUCCESS then Some (ctx, t, s)
        else do {
          let t = t\<lparr>NumPipeErrs := NumPipeErrs t + 1\<rparr>;
          let (ctx, s) =
            (if Status = OS_QUEUE_FULL
             then (ctx\<lparr>PendingEventId := CFE_SB_Q_FULL_ERR_EID\<rparr>,
                   upd_hk (\<lambda>h. h\<lparr>PipeOverflowErrorCounter := PipeOverflowErrorCounter h + 1\<rparr>) s)
             else (ctx\<lparr>PendingEventId := CFE_SB_Q_WR_ERR_EID\<rparr>,
                   upd_hk (\<lambda>h. h\<lparr>InternalErrorCounter := InternalErrorCounter h + 1\<rparr>) s));
          let s = (case CFE_SB_PipeDescIsMatch cfg (SetPipeId ctx) s of
                     None \<Rightarrow> s
                   | Some i \<Rightarrow> if CurrentQueueDepth (PipeTbl s i) > 0
                               then upd_pipe i (\<lambda>p. p\<lparr>CurrentQueueDepth := CurrentQueueDepth p - 1\<rparr>) s else s);
          DestPtr \<leftarrow> CFE_SB_GetDestPtr (DestRouteId (Bufs s bd)) (SetPipeId ctx) s;
          let s = (if DestPtr \<noteq> NULL \<and> BuffCount (Dests s DestPtr) > 0
                   then upd_dest DestPtr (\<lambda>d. d\<lparr>BuffCount := BuffCount d - 1\<rparr>) s else s);
          Some (ctx, t, CFE_SB_DecrBufUseCnt cfg bd s)
        })"

text \<open>\<^verbatim>\<open>CFE_SB_MessageTxn_ProcessPipes\<close> with the transmit handler, which always goes on.\<close>

primrec transmit_pipes ::
    "'p sb_cfg \<Rightarrow> pointer \<Rightarrow> CFE_SB_PipeSetEntry_t list \<Rightarrow> CFE_SB_MessageTxn_State_t \<Rightarrow> 'p sb_state
       \<Rightarrow> (CFE_SB_PipeSetEntry_t list \<times> CFE_SB_MessageTxn_State_t \<times> 'p sb_state) option" where
  "transmit_pipes cfg bd [] t s = Some ([], t, s)"
| "transmit_pipes cfg bd (ctx # rest) t s = do {
     (ctx, t, s) \<leftarrow> (if PendingEventId ctx = 0 then CFE_SB_TransmitTxn_PipeHandler cfg bd ctx t s else Some (ctx, t, s));
     (rest, t, s) \<leftarrow> transmit_pipes cfg bd rest t s;
     Some (ctx # rest, t, s)
   }"

definition CFE_SB_ZeroCopyBufferValidate :: "'p sb_cfg \<Rightarrow> pointer \<Rightarrow> 'p sb_state \<Rightarrow> CFE_Status_t \<times> pointer" where
  "CFE_SB_ZeroCopyBufferValidate cfg BufPtr s =
     (let BufDscPtr = BufPtr - content_offset cfg
      in (if OwnerAppId (Bufs s BufDscPtr) = CFE_RESOURCEID_UNDEFINED then CFE_SB_BUFFER_INVALID else CFE_SUCCESS, BufDscPtr))"

definition CFE_SB_TransmitTxn_Execute ::
    "'p sb_cfg \<Rightarrow> sb_caller \<Rightarrow> pointer \<Rightarrow> CFE_SB_MessageTxn_State_t \<Rightarrow> 'p sb_state
       \<Rightarrow> (CFE_SB_MessageTxn_State_t \<times> 'p sb_state) option" where
  "CFE_SB_TransmitTxn_Execute cfg c BufPtr t s =
     (case CFE_SB_ZeroCopyBufferValidate cfg BufPtr s of (Status, bd) \<Rightarrow>
        if Status \<noteq> CFE_SUCCESS then Some (CFE_SB_MessageTxn_SetEventAndStatus 0 Status t, s)
        else do {
          let s = upd_buf bd (\<lambda>b. b\<lparr>ContentSize := TxnContentSize t, BufMsgId := RoutingMsgId t\<rparr>) s;
          (t, s) \<leftarrow> CFE_SB_TransmitTxn_FindDestinations cfg c bd t s;
          (entries, t, s) \<leftarrow> transmit_pipes cfg bd (PipeSet t) t s;
          Some (t\<lparr>PipeSet := entries\<rparr>, CFE_SB_DecrBufUseCnt cfg bd s)
        })"

section \<open>Zero-copy buffers\<close>

definition CFE_SB_AllocateMessageBuffer ::
    "'p sb_cfg \<Rightarrow> sb_caller \<Rightarrow> size_t \<Rightarrow> 'p sb_state \<Rightarrow> pointer \<times> 'p sb_state" where
  "CFE_SB_AllocateMessageBuffer cfg c MsgSize s =
     (if MsgSize > CFE_MISSION_SB_MAX_SB_MSG_SIZE then (NULL, s)
      else if AppIdStatus c \<noteq> CFE_SUCCESS then (NULL, s)
      else case CFE_SB_GetBufferFromPool cfg MsgSize s of (BufDscPtr, s) \<Rightarrow>
        if BufDscPtr = NULL then (NULL, s)
        else
          let s = upd_buf BufDscPtr (\<lambda>b. b\<lparr>OwnerAppId := CallerAppId c\<rparr>) s;
              s = CFE_SB_TrackingListAdd ZeroCopyList (BufferLink BufDscPtr) s;
              s = upd_buf BufDscPtr (\<lambda>b. b\<lparr>Content := memset_zero (Content b) (unat MsgSize)\<rparr>) s
          in (BufDscPtr + content_offset cfg, s))"

definition CFE_SB_ReleaseMessageBuffer :: "'p sb_cfg \<Rightarrow> pointer \<Rightarrow> 'p sb_state \<Rightarrow> CFE_Status_t \<times> 'p sb_state" where
  "CFE_SB_ReleaseMessageBuffer cfg BufPtr s =
     (if BufPtr = NULL then (CFE_SB_BAD_ARGUMENT, s)
      else case CFE_SB_ZeroCopyBufferValidate cfg BufPtr s of (Status, bd) \<Rightarrow>
        (Status, if Status = CFE_SUCCESS
                 then CFE_SB_DecrBufUseCnt cfg bd (upd_buf bd (\<lambda>b. b\<lparr>OwnerAppId := CFE_RESOURCEID_UNDEFINED\<rparr>) s)
                 else s))"

text \<open>The message in a content buffer.\<close>

definition message_at :: "'p sb_cfg \<Rightarrow> pointer \<Rightarrow> 'p sb_state \<Rightarrow> CFE_MSG_Message_t option" where
  "message_at cfg BufPtr s = (if BufPtr = NULL then None else Some (Content (Bufs s (BufPtr - content_offset cfg))))"

definition CFE_SB_TransmitBuffer ::
    "'p sb_cfg \<Rightarrow> sb_caller \<Rightarrow> pointer \<Rightarrow> bool \<Rightarrow> 'p sb_state \<Rightarrow> (CFE_Status_t \<times> 'p sb_state) option" where
  "CFE_SB_TransmitBuffer cfg c BufPtr IsOrigination s = do {
     let t = CFE_SB_TransmitTxn_Init (BufPtr = NULL);
     let t = (if CFE_SB_MessageTxn_IsOK t then CFE_SB_TransmitTxn_SetupFromMsg cfg (message_at cfg BufPtr s) t else t);
     (t, s) \<leftarrow> (if CFE_SB_MessageTxn_IsOK t
               then CFE_SB_TransmitTxn_Execute cfg c BufPtr (t\<lparr>IsEndpoint := IsOrigination\<rparr>) s
               else Some (t, s));
     Some (TxnStatus t, CFE_SB_MessageTxn_ReportEvents cfg c t s)
   }"

definition CFE_SB_TransmitMsg ::
    "'p sb_cfg \<Rightarrow> sb_caller \<Rightarrow> CFE_MSG_Message_t option \<Rightarrow> bool \<Rightarrow> 'p sb_state \<Rightarrow> (CFE_Status_t \<times> 'p sb_state) option" where
  "CFE_SB_TransmitMsg cfg c MsgPtr IsOrigination s = do {
     let t = CFE_SB_TransmitTxn_Init (MsgPtr = None);
     let t = (if CFE_SB_MessageTxn_IsOK t then CFE_SB_TransmitTxn_SetupFromMsg cfg MsgPtr t else t);
     let (BufPtr, t, s) =
       (if CFE_SB_MessageTxn_IsOK t
        then case CFE_SB_AllocateMessageBuffer cfg c (TxnContentSize t) s of (BufPtr, s) \<Rightarrow>
          (BufPtr, if BufPtr = NULL
                   then CFE_SB_MessageTxn_SetEventAndStatus CFE_SB_GET_BUF_ERR_EID CFE_SB_BUF_ALOC_ERR t else t, s)
        else (NULL, t, s));
     (t, s) \<leftarrow> (if CFE_SB_MessageTxn_IsOK t
               then
                 let s = upd_buf (BufPtr - content_offset cfg)
                           (\<lambda>b. b\<lparr>Content := \<lambda>i. if i < unat (TxnContentSize t) then the MsgPtr i else Content b i\<rparr>) s
                 in CFE_SB_TransmitTxn_Execute cfg c BufPtr (t\<lparr>IsEndpoint := IsOrigination\<rparr>) s
               else Some (t, s));
     Some (TxnStatus t, CFE_SB_MessageTxn_ReportEvents cfg c t s)
   }"

section \<open>Receiving\<close>

definition CFE_SB_ReceiveTxn_Init :: "bool \<Rightarrow> CFE_SB_MessageTxn_State_t" where
  "CFE_SB_ReceiveTxn_Init RefIsNull =
     (let t = CFE_SB_MessageTxn_Init 1
      in if RefIsNull then CFE_SB_MessageTxn_SetEventAndStatus CFE_SB_RCV_BAD_ARG_EID CFE_SB_BAD_ARGUMENT t else t)"

definition CFE_SB_ReceiveTxn_SetPipeId ::
    "'p sb_cfg \<Rightarrow> CFE_SB_PipeId_t \<Rightarrow> CFE_SB_MessageTxn_State_t \<Rightarrow> 'p sb_state \<Rightarrow> CFE_SB_MessageTxn_State_t \<times> 'p sb_state" where
  "CFE_SB_ReceiveTxn_SetPipeId cfg pid t s =
     (let ctx = \<lparr>SetPipeId = pid, SetSysQueueId = 0, PendingEventId = 0, OsStatus = OS_SUCCESS\<rparr> in
      case CFE_SB_PipeDescIsMatch cfg pid s of
        None \<Rightarrow>
          (CFE_SB_MessageTxn_SetEventAndStatus 0 CFE_SB_BAD_ARGUMENT
             (t\<lparr>PipeSet := [ctx\<lparr>PendingEventId := CFE_SB_BAD_PIPEID_EID\<rparr>], NumPipeErrs := NumPipeErrs t + 1\<rparr>), s)
      | Some i \<Rightarrow>
          (t\<lparr>PipeSet := [ctx\<lparr>SetSysQueueId := SysQueueId (PipeTbl s i)\<rparr>]\<rparr>,
           if LastBuffer (PipeTbl s i) \<noteq> NULL
           then upd_pipe i (\<lambda>p. p\<lparr>LastBuffer := NULL\<rparr>) (CFE_SB_DecrBufUseCnt cfg (LastBuffer (PipeTbl s i)) s)
           else s))"

definition CFE_SB_ReceiveTxn_ExportReference ::
    "'p sb_cfg \<Rightarrow> pointer \<Rightarrow> CFE_SB_PipeSetEntry_t \<Rightarrow> CFE_SB_MessageTxn_State_t \<Rightarrow> 'p sb_state
       \<Rightarrow> (pointer \<times> CFE_SB_PipeSetEntry_t \<times> CFE_SB_MessageTxn_State_t \<times> 'p sb_state) option" where
  "CFE_SB_ReceiveTxn_ExportReference cfg bd ctx t s =
     (case CFE_SB_PipeDescIsMatch cfg (SetPipeId ctx) s of
        None \<Rightarrow> Some (NULL, ctx\<lparr>PendingEventId := CFE_SB_BAD_PIPEID_EID\<rparr>,
                      CFE_SB_MessageTxn_SetEventAndStatus 0 CFE_SB_PIPE_RD_ERR t, CFE_SB_DecrBufUseCnt cfg bd s)
      | Some i \<Rightarrow> do {
          let s = CFE_SB_IncrBufUseCnt bd s;
          let s = upd_pipe i (\<lambda>p. p\<lparr>LastBuffer := bd\<rparr>) s;
          DestPtr \<leftarrow> CFE_SB_GetDestPtr (DestRouteId (Bufs s bd)) (SetPipeId ctx) s;
          let s = (if DestPtr \<noteq> NULL \<and> BuffCount (Dests s DestPtr) > 0
                   then upd_dest DestPtr (\<lambda>d. d\<lparr>BuffCount := BuffCount d - 1\<rparr>) s else s);
          let s = (if CurrentQueueDepth (PipeTbl s i) > 0
                   then upd_pipe i (\<lambda>p. p\<lparr>CurrentQueueDepth := CurrentQueueDepth p - 1\<rparr>) s else s);
          Some (bd, ctx, t, CFE_SB_DecrBufUseCnt cfg bd s)
        })"

text \<open>\<^verbatim>\<open>OS_QueueGet\<close> on an empty queue waits for ever with \<^verbatim>\<open>OS_PEND\<close>.\<close>

definition OS_QueueGet :: "osal_id_t \<Rightarrow> int \<Rightarrow> 'p sb_state \<Rightarrow> (OS_Status \<times> pointer \<times> 'p sb_state) option" where
  "OS_QueueGet q Timeout s =
     (case map_of (Queues s) q of
        None \<Rightarrow> Some (OS_ERR_INVALID_ID, NULL, s)
      | Some x \<Rightarrow>
          (case QueueItems x of
             bd # rest \<Rightarrow> Some (OS_SUCCESS, bd, s\<lparr>Queues := AList.update q (x\<lparr>QueueItems := rest\<rparr>) (Queues s)\<rparr>)
           | [] \<Rightarrow> if Timeout = OS_CHECK then Some (OS_QUEUE_EMPTY, NULL, s)
                   else if Timeout = OS_PEND then None
                   else Some (OS_QUEUE_TIMEOUT, NULL, s)))"

definition CFE_SB_ReceiveTxn_PipeHandler ::
    "'p sb_cfg \<Rightarrow> CFE_SB_PipeSetEntry_t \<Rightarrow> CFE_SB_MessageTxn_State_t \<Rightarrow> 'p sb_state
       \<Rightarrow> (pointer \<times> CFE_SB_PipeSetEntry_t \<times> CFE_SB_MessageTxn_State_t \<times> 'p sb_state) option" where
  "CFE_SB_ReceiveTxn_PipeHandler cfg ctx t s =
     (case CFE_SB_MessageTxn_GetOsTimeout t s of (OsTimeout, s) \<Rightarrow> do {
        (Status, bd, s) \<leftarrow> OS_QueueGet (SetSysQueueId ctx) OsTimeout s;
        let ctx = ctx\<lparr>OsStatus := Status\<rparr>;
        if Status = OS_SUCCESS \<and> bd \<noteq> NULL then CFE_SB_ReceiveTxn_ExportReference cfg bd ctx t s
        else if Status = OS_QUEUE_EMPTY then Some (NULL, ctx, CFE_SB_MessageTxn_SetEventAndStatus 0 CFE_SB_NO_MESSAGE t, s)
        else if Status = OS_QUEUE_TIMEOUT then Some (NULL, ctx, CFE_SB_MessageTxn_SetEventAndStatus 0 CFE_SB_TIME_OUT t, s)
        else Some (NULL, ctx\<lparr>PendingEventId := CFE_SB_Q_RD_ERR_EID\<rparr>,
                   CFE_SB_MessageTxn_SetEventAndStatus 0 CFE_SB_PIPE_RD_ERR t, s)
      })"

text \<open>\<^verbatim>\<open>CFE_SB_MessageTxn_ProcessPipes\<close> with the receive handler, which stops after the first pipe it handles.\<close>

primrec receive_pipes ::
    "'p sb_cfg \<Rightarrow> CFE_SB_PipeSetEntry_t list \<Rightarrow> CFE_SB_MessageTxn_State_t \<Rightarrow> 'p sb_state
       \<Rightarrow> (pointer \<times> CFE_SB_PipeSetEntry_t list \<times> CFE_SB_MessageTxn_State_t \<times> 'p sb_state) option" where
  "receive_pipes cfg [] t s = Some (NULL, [], t, s)"
| "receive_pipes cfg (ctx # rest) t s =
     (if PendingEventId ctx = 0
      then do { (bd, ctx, t, s) \<leftarrow> CFE_SB_ReceiveTxn_PipeHandler cfg ctx t s; Some (bd, ctx # rest, t, s) }
      else do { (bd, rest, t, s) \<leftarrow> receive_pipes cfg rest t s; Some (bd, ctx # rest, t, s) })"

partial_function (option) CFE_SB_ReceiveTxn_Execute ::
    "'p sb_cfg \<Rightarrow> sb_caller \<Rightarrow> CFE_SB_MessageTxn_State_t \<Rightarrow> 'p sb_state
       \<Rightarrow> (pointer \<times> CFE_SB_MessageTxn_State_t \<times> 'p sb_state) option" where
  "CFE_SB_ReceiveTxn_Execute cfg c t s =
     (if \<not> CFE_SB_MessageTxn_IsOK t then Some (NULL, t, s)
      else do {
        r \<leftarrow> receive_pipes cfg (PipeSet t) t s;
        case r of (bd, entries, t, s) \<Rightarrow>
          let t = t\<lparr>PipeSet := entries\<rparr> in
          if bd = NULL then Some (NULL, t\<lparr>RoutingMsgId := CFE_SB_INVALID_MSG_ID, TxnContentSize := 0\<rparr>, s)
          else if \<not> IsEndpoint t \<or>
                  CFE_MSG_VerificationAction (Some (Content (Bufs s bd))) (AllocatedSize (Bufs s bd)) (Some False) =
                    (CFE_SUCCESS, Some True)
          then Some (bd + content_offset cfg, t\<lparr>RoutingMsgId := BufMsgId (Bufs s bd), TxnContentSize := ContentSize (Bufs s bd)\<rparr>, s)
          else
            let s = snd (CFE_SB_MessageTxn_ReportSingleEvent cfg c (Some (hd entries)) CFE_SB_RCV_MESSAGE_INTEGRITY_FAIL_EID s);
                ts = CFE_SB_ReceiveTxn_SetPipeId cfg (SetPipeId (hd entries)) t s
            in CFE_SB_ReceiveTxn_Execute cfg c (fst ts) (snd ts)
      })"

text \<open>The status, and what is stored through a \<open>BufPtr\<close> that is not NULL.\<close>

definition CFE_SB_ReceiveBuffer ::
    "'p sb_cfg \<Rightarrow> sb_caller \<Rightarrow> bool \<Rightarrow> CFE_SB_PipeId_t \<Rightarrow> int \<Rightarrow> 'p sb_state
       \<Rightarrow> (CFE_Status_t \<times> pointer option \<times> 'p sb_state) option" where
  "CFE_SB_ReceiveBuffer cfg c BufPtrIsNull pid TimeOut s = do {
     let t = CFE_SB_ReceiveTxn_Init BufPtrIsNull;
     let (t, s) = (if CFE_SB_MessageTxn_IsOK t then CFE_SB_MessageTxn_SetTimeout TimeOut t s else (t, s));
     let (t, s) = (if CFE_SB_MessageTxn_IsOK t
                   then case CFE_SB_ReceiveTxn_SetPipeId cfg pid t s of (t, s) \<Rightarrow> (t\<lparr>IsEndpoint := True\<rparr>, s)
                   else (t, s));
     (r, t, s) \<leftarrow> (if \<not> BufPtrIsNull then do { (p, t, s) \<leftarrow> CFE_SB_ReceiveTxn_Execute cfg c t s; Some (Some p, t, s) }
                  else Some (None, t, s));
     Some (TxnStatus t, r, CFE_SB_MessageTxn_ReportEvents cfg c t s)
   }"

end
