(* ===== verification/CFS_SbApi.thy ===== *)
theory CFS_SbApi
  imports CFS_SbTxn
begin

text \<open>
  The pipe and subscription functions of \<^verbatim>\<open>cfe_sb_api.c\<close>, the cleanup of applications of \<^verbatim>\<open>cfe_sb_priv.c\<close>, the
  initialisation of \<^verbatim>\<open>cfe_sb_init.c\<close> and the OSAL queue functions they call.

  An output pointer is a flag that tells whether it is NULL; the value stored is an option in the result.
\<close>

section \<open>OSAL queues\<close>

text \<open>The names of queues are unique.  The OSAL allocates the first unused one of the IDs it tries; creating the queue
  itself may fail.\<close>

definition OS_QueueGetIdByName :: "string \<Rightarrow> 'p sb_state \<Rightarrow> OS_Status \<times> osal_id_t" where
  "OS_QueueGetIdByName name s =
     (case List.find (\<lambda>(q, x). QueueName x = name) (Queues s) of
        None \<Rightarrow> (OS_ERR_NAME_NOT_FOUND, 0)
      | Some (q, x) \<Rightarrow> (OS_SUCCESS, q))"

definition OS_QueueCreate ::
    "sb_caller \<Rightarrow> string option \<Rightarrow> uint16 \<Rightarrow> 'p sb_state \<Rightarrow> OS_Status \<times> osal_id_t \<times> 'p sb_state" where
  "OS_QueueCreate c queue_name queue_depth s =
     (case queue_name of
        None \<Rightarrow> (OS_INVALID_POINTER, 0, s)
      | Some name \<Rightarrow>
          if length name \<ge> OS_MAX_API_NAME then (OS_ERR_NAME_TOO_LONG, 0, s)
          else if queue_depth > OS_QUEUE_MAX_DEPTH then (OS_QUEUE_INVALID_SIZE, 0, s)
          else if fst (OS_QueueGetIdByName name s) = OS_SUCCESS then (OS_ERR_NAME_TAKEN, 0, s)
          else case List.find (\<lambda>q. q \<noteq> 0 \<and> map_of (Queues s) q = None) (QueueIds c) of
                 None \<Rightarrow> (OS_ERR_NO_FREE_IDS, 0, s)
               | Some q \<Rightarrow>
                   if QueueImpl c \<noteq> OS_SUCCESS then (QueueImpl c, 0, s)
                   else (OS_SUCCESS, q,
                         s\<lparr>Queues := AList.update q \<lparr>QueueName = name, QueueDepth = unat queue_depth, QueueItems = []\<rparr> (Queues s)\<rparr>))"

definition OS_QueueDelete :: "osal_id_t \<Rightarrow> 'p sb_state \<Rightarrow> OS_Status \<times> 'p sb_state" where
  "OS_QueueDelete q s =
     (case map_of (Queues s) q of
        None \<Rightarrow> (OS_ERR_INVALID_ID, s)
      | Some _ \<Rightarrow> (OS_SUCCESS, s\<lparr>Queues := AList.delete q (Queues s)\<rparr>))"

section \<open>Creating pipes\<close>

abbreviation (input) zero_pipe :: CFE_SB_PipeD_t where
  "zero_pipe \<equiv> \<lparr>PipeId = CFE_RESOURCEID_UNDEFINED, PipeAppId = CFE_RESOURCEID_UNDEFINED, SysQueueId = 0, Opts = 0,
     SendErrors = 0, MaxQueueDepth = 0, CurrentQueueDepth = 0, PeakQueueDepth = 0, LastBuffer = NULL\<rparr>"

text \<open>The first locked section of \<^verbatim>\<open>CFE_SB_CreatePipe\<close>: the reserved descriptor and its ID.\<close>

definition reserve_pipe :: "'p sb_cfg \<Rightarrow> 'p sb_state \<Rightarrow> (nat \<times> CFE_ResourceId_t) option \<times> 'p sb_state" where
  "reserve_pipe cfg s =
     (let PendingPipeId = CFE_ResourceId_FindNext (LastPipeId s) (of_nat CFE_PLATFORM_SB_MAX_PIPES)
                            (Some (CFE_SB_CheckPipeDescSlotUsed cfg s)) in
      case CFE_SB_LocatePipeDescByID cfg PendingPipeId of
        None \<Rightarrow> (None, s)
      | Some i \<Rightarrow> (Some (i, PendingPipeId),
                   (upd_pipe i (\<lambda>_. zero_pipe\<lparr>PipeId := CFE_RESOURCEID_RESERVED\<rparr>) s)\<lparr>LastPipeId := PendingPipeId\<rparr>))"

text \<open>Its last locked section after a failure: the descriptor, when there is one, is free again.\<close>

definition abort_pipe :: "nat option \<Rightarrow> 'p sb_state \<Rightarrow> 'p sb_state" where
  "abort_pipe desc s =
     (let s = (case desc of None \<Rightarrow> s | Some i \<Rightarrow> upd_pipe i (\<lambda>p. p\<lparr>PipeId := CFE_RESOURCEID_UNDEFINED\<rparr>) s)
      in upd_hk (\<lambda>h. h\<lparr>CreatePipeErrorCounter := CreatePipeErrorCounter h + 1\<rparr>) s)"

definition CFE_SB_CreatePipe ::
    "'p sb_cfg \<Rightarrow> sb_caller \<Rightarrow> bool \<Rightarrow> uint16 \<Rightarrow> string option \<Rightarrow> 'p sb_state
       \<Rightarrow> CFE_Status_t \<times> CFE_SB_PipeId_t option \<times> 'p sb_state" where
  "CFE_SB_CreatePipe cfg c PipeIdPtrIsNull Depth PipeName s =
     (if PipeIdPtrIsNull \<or> Depth > OS_QUEUE_MAX_DEPTH \<or> Depth = 0 \<or> PipeName = Some []
      then (CFE_SB_BAD_ARGUMENT, None, send_event CFE_SB_CR_PIPE_BAD_ARG_EID (abort_pipe None s))
      else case reserve_pipe cfg s of
        (None, s) \<Rightarrow> (CFE_SB_MAX_PIPES_MET, None, send_event CFE_SB_MAX_PIPES_MET_EID (abort_pipe None s))
      | (Some (i, PendingPipeId), s) \<Rightarrow>
          (case OS_QueueCreate c PipeName Depth s of (QStatus, SysQId, s) \<Rightarrow>
             if QStatus \<noteq> OS_SUCCESS
             then (CFE_SB_PIPE_CR_ERR, None,
                   send_event (if QStatus = OS_ERR_NAME_TAKEN then CFE_SB_CR_PIPE_NAME_TAKEN_EID
                               else if QStatus = OS_ERR_NO_FREE_IDS then CFE_SB_CR_PIPE_NO_FREE_EID
                               else CFE_SB_CR_PIPE_ERR_EID) (abort_pipe (Some i) s))
             else
               let s = upd_pipe i (\<lambda>p. p\<lparr>SysQueueId := SysQId, MaxQueueDepth := Depth, PipeAppId := CallerAppId c,
                                         PipeId := PendingPipeId\<rparr>) s;
                   s = upd_stat (\<lambda>t. t\<lparr>PipesInUse := PipesInUse t + 1\<rparr>) s;
                   s = upd_stat (\<lambda>t. t\<lparr>PeakPipesInUse := max_stat (PipesInUse t) (PeakPipesInUse t)\<rparr>) s
               in (CFE_SUCCESS, Some PendingPipeId, send_event CFE_SB_PIPE_ADDED_EID s)))"

section \<open>Deleting pipes\<close>

definition CFE_SB_RemovePipeFromRoute ::
    "'p sb_cfg \<Rightarrow> CFE_SB_PipeId_t \<Rightarrow> CFE_SBR_RouteId_t \<Rightarrow> 'p sb_state option \<Rightarrow> 'p sb_state option" where
  "CFE_SB_RemovePipeFromRoute cfg pid Route so = do {
     s \<leftarrow> so;
     destptr \<leftarrow> CFE_SB_GetDestPtr Route pid s;
     Some (if destptr \<noteq> NULL then CFE_SB_RemoveDest cfg Route destptr s else s)
   }"

text \<open>The loop of \<^verbatim>\<open>CFE_SB_DeletePipeFull\<close> that takes the messages off the pipe.\<close>

partial_function (option) drain_pipe :: "'p sb_cfg \<Rightarrow> osal_id_t \<Rightarrow> pointer \<Rightarrow> 'p sb_state \<Rightarrow> 'p sb_state option" where
  "drain_pipe cfg q BufDscPtr s =
     (let s = (if BufDscPtr \<noteq> NULL then CFE_SB_DecrBufUseCnt cfg BufDscPtr s else s) in
      do {
        (Status, bd, s) \<leftarrow> OS_QueueGet q OS_CHECK s;
        if Status \<noteq> OS_SUCCESS then Some s else drain_pipe cfg q bd s
      })"

text \<open>The locked section that takes a pipe off the routes and reserves its descriptor.\<close>

definition detach_pipe :: "'p sb_cfg \<Rightarrow> CFE_SB_PipeId_t \<Rightarrow> nat \<Rightarrow> 'p sb_state \<Rightarrow> 'p sb_state option" where
  "detach_pipe cfg pid i s = do {
     s \<leftarrow> fst (CFE_SBR_ForEachRouteId (Routing s) (CFE_SB_RemovePipeFromRoute cfg pid) (Some s) None);
     Some (upd_pipe i (\<lambda>p. p\<lparr>PipeId := CFE_RESOURCEID_RESERVED\<rparr>) s)
   }"

definition CFE_SB_DeletePipeFull ::
    "'p sb_cfg \<Rightarrow> CFE_SB_PipeId_t \<Rightarrow> CFE_ES_AppId_t \<Rightarrow> 'p sb_state \<Rightarrow> (CFE_Status_t \<times> 'p sb_state) option" where
  "CFE_SB_DeletePipeFull cfg pid AppId s =
     (let failed = (\<lambda>EID s. Some (CFE_SB_BAD_ARGUMENT,
            send_event EID (upd_hk (\<lambda>h. h\<lparr>CreatePipeErrorCounter := CreatePipeErrorCounter h + 1\<rparr>) s))) in
      case CFE_SB_PipeDescIsMatch cfg pid s of
        None \<Rightarrow> failed CFE_SB_DEL_PIPE_ERR1_EID s
      | Some i \<Rightarrow>
          if AppId \<noteq> PipeAppId (PipeTbl s i) then failed CFE_SB_DEL_PIPE_ERR2_EID s
          else do {
            s \<leftarrow> detach_pipe cfg pid i s;
            let q = SysQueueId (PipeTbl s i);
            s \<leftarrow> drain_pipe cfg q (LastBuffer (PipeTbl s i)) s;
            let s = snd (OS_QueueDelete q s);
            let s = upd_pipe i (\<lambda>p. p\<lparr>PipeId := CFE_RESOURCEID_UNDEFINED\<rparr>) s;
            let s = upd_stat (\<lambda>t. t\<lparr>PipesInUse := PipesInUse t - 1\<rparr>) s;
            Some (CFE_SUCCESS, send_event CFE_SB_PIPE_DELETED_EID s)
          })"

definition CFE_SB_DeletePipe ::
    "'p sb_cfg \<Rightarrow> sb_caller \<Rightarrow> CFE_SB_PipeId_t \<Rightarrow> 'p sb_state \<Rightarrow> (CFE_Status_t \<times> 'p sb_state) option" where
  "CFE_SB_DeletePipe cfg c pid s = CFE_SB_DeletePipeFull cfg pid (CallerAppId c) s"

definition CFE_SB_DeletePipeWithAppId ::
    "'p sb_cfg \<Rightarrow> CFE_SB_PipeId_t \<Rightarrow> CFE_ES_AppId_t \<Rightarrow> 'p sb_state \<Rightarrow> (CFE_Status_t \<times> 'p sb_state) option" where
  "CFE_SB_DeletePipeWithAppId cfg pid AppId s = CFE_SB_DeletePipeFull cfg pid AppId s"

section \<open>Pipe options and names\<close>

definition CFE_SB_SetPipeOpts ::
    "'p sb_cfg \<Rightarrow> sb_caller \<Rightarrow> CFE_SB_PipeId_t \<Rightarrow> uint8 \<Rightarrow> 'p sb_state \<Rightarrow> CFE_Status_t \<times> 'p sb_state" where
  "CFE_SB_SetPipeOpts cfg c pid opts s =
     (let failed = (\<lambda>EID s. (CFE_SB_BAD_ARGUMENT,
            send_event EID (upd_hk (\<lambda>h. h\<lparr>PipeOptsErrorCounter := PipeOptsErrorCounter h + 1\<rparr>) s))) in
      if AppIdStatus c \<noteq> CFE_SUCCESS then (AppIdStatus c, s)
      else case CFE_SB_PipeDescIsMatch cfg pid s of
        None \<Rightarrow> failed CFE_SB_SETPIPEOPTS_ID_ERR_EID s
      | Some i \<Rightarrow>
          if CallerAppId c \<noteq> PipeAppId (PipeTbl s i) then failed CFE_SB_SETPIPEOPTS_OWNER_ERR_EID s
          else (CFE_SUCCESS, send_event CFE_SB_SETPIPEOPTS_EID (upd_pipe i (\<lambda>p. p\<lparr>Opts := opts\<rparr>) s)))"

definition CFE_SB_GetPipeOpts ::
    "'p sb_cfg \<Rightarrow> CFE_SB_PipeId_t \<Rightarrow> bool \<Rightarrow> 'p sb_state \<Rightarrow> CFE_Status_t \<times> uint8 option \<times> 'p sb_state" where
  "CFE_SB_GetPipeOpts cfg pid OptsPtrIsNull s =
     (let failed = (\<lambda>EID s. (CFE_SB_BAD_ARGUMENT, None,
            send_event EID (upd_hk (\<lambda>h. h\<lparr>PipeOptsErrorCounter := PipeOptsErrorCounter h + 1\<rparr>) s))) in
      case CFE_SB_PipeDescIsMatch cfg pid s of
        None \<Rightarrow> failed CFE_SB_GETPIPEOPTS_ID_ERR_EID s
      | Some i \<Rightarrow>
          if OptsPtrIsNull then failed CFE_SB_GETPIPEOPTS_PTR_ERR_EID s
          else (CFE_SUCCESS, Some (Opts (PipeTbl s i)), send_event CFE_SB_GETPIPEOPTS_EID s))"

definition CFE_SB_GetPipeIdByName ::
    "bool \<Rightarrow> string option \<Rightarrow> 'p sb_state \<Rightarrow> CFE_Status_t \<times> CFE_SB_PipeId_t option \<times> 'p sb_state" where
  "CFE_SB_GetPipeIdByName PipeIdPtrIsNull PipeName s =
     (let failed = (\<lambda>EID s. (CFE_SB_BAD_ARGUMENT, None,
            send_event EID (upd_hk (\<lambda>h. h\<lparr>GetPipeIdByNameErrorCounter := GetPipeIdByNameErrorCounter h + 1\<rparr>) s))) in
      if PipeName = None \<or> PipeIdPtrIsNull then failed CFE_SB_GETPIPEIDBYNAME_NULL_ERR_EID s
      else case OS_QueueGetIdByName (the PipeName) s of (QStatus, SysQId) \<Rightarrow>
        if QStatus \<noteq> OS_SUCCESS then failed CFE_SB_GETPIPEIDBYNAME_NAME_ERR_EID s
        else case List.find (\<lambda>i. SysQueueId (PipeTbl s i) = SysQId) [0..<CFE_PLATFORM_SB_MAX_PIPES] of
          None \<Rightarrow> failed CFE_SB_GETPIPEIDBYNAME_NAME_ERR_EID s
        | Some i \<Rightarrow> (CFE_SUCCESS, Some (PipeId (PipeTbl s i)), send_event CFE_SB_GETPIPEIDBYNAME_EID s))"

section \<open>Subscriptions\<close>

definition CFE_SB_SendSubscriptionReport ::
    "'p sb_cfg \<Rightarrow> sb_caller \<Rightarrow> CFE_SB_MsgId_t \<Rightarrow> CFE_SB_PipeId_t \<Rightarrow> uint16 \<Rightarrow> 'p sb_state
       \<Rightarrow> (CFE_Status_t \<times> 'p sb_state) option" where
  "CFE_SB_SendSubscriptionReport cfg c mid pid Quality s =
     (if SubscriptionReporting s = CFE_SB_ENABLE
      then do {
        let m = snd (CFE_MSG_Init (build cfg) (Some (\<lambda>_. 0)) (OneSubMid cfg) (OneSubSize cfg));
        (Status, s) \<leftarrow> CFE_SB_TransmitMsg cfg c (map_option (OneSubPayload cfg mid pid Quality) m) True s;
        Some (Status, send_event CFE_SB_SUBSCRIPTION_RPT_EID s)
      }
      else Some (CFE_SUCCESS, s))"

text \<open>The first step of \<^verbatim>\<open>CFE_SB_SubscribeFull\<close>: status, event, route and collisions.\<close>

definition subscribe_route ::
    "'p sb_cfg \<Rightarrow> sb_caller \<Rightarrow> CFE_SB_MsgId_t \<Rightarrow> CFE_SB_PipeId_t \<Rightarrow> uint8 \<Rightarrow> 'p sb_state
       \<Rightarrow> (CFE_Status_t \<times> uint16 \<times> CFE_SBR_RouteId_t \<times> uint32 \<times> 'p sb_state) option" where
  "subscribe_route cfg c mid pid scope s =
     (let bad = (\<lambda>EID. Some (CFE_SB_BAD_ARGUMENT, EID, CFE_SBR_INVALID_ROUTE_ID, 0, s)) in
      case CFE_SB_PipeDescIsMatch cfg pid s of
        None \<Rightarrow> bad CFE_SB_SUB_INV_PIPE_EID
      | Some i \<Rightarrow>
          if PipeAppId (PipeTbl s i) \<noteq> CallerAppId c then bad CFE_SB_SUB_INV_CALLER_EID
          else if \<not> CFE_SB_IsValidMsgId mid \<or> scope > 1 then bad CFE_SB_SUB_ARG_ERR_EID
          else do {
            Route \<leftarrow> CFE_SBR_GetRouteId (hash_map cfg) (Routing s) mid;
            if CFE_SBR_IsValidRouteId Route then Some (CFE_SUCCESS, 0, Route, 0, s)
            else do {
              (r, Route, Collisions) \<leftarrow> CFE_SBR_AddRoute (hash_map cfg) (Routing s) mid;
              let s = s\<lparr>Routing := r\<rparr>;
              Some (if \<not> CFE_SBR_IsValidRouteId Route
                    then (CFE_SB_MAX_MSGS_MET, CFE_SB_MAX_MSGS_MET_EID, Route, Collisions, s)
                    else
                      let s = upd_stat (\<lambda>t. t\<lparr>MsgIdsInUse := MsgIdsInUse t + 1\<rparr>) s;
                          s = upd_stat (\<lambda>t. t\<lparr>PeakMsgIdsInUse := max_stat (MsgIdsInUse t) (PeakMsgIdsInUse t)\<rparr>) s
                      in (CFE_SUCCESS, 0, Route, Collisions, s))
            }
          })"

text \<open>Its loop over the destinations of the route: the pointer it stops at, the event and the status.\<close>

partial_function (option) scan_dests ::
    "(pointer \<Rightarrow> CFE_SB_DestinationD_t) \<Rightarrow> CFE_SB_PipeId_t \<Rightarrow> pointer \<Rightarrow> nat \<Rightarrow> (pointer \<times> uint16 \<times> CFE_Status_t) option" where
  "scan_dests ds pid DestPtr DestCount =
     (if DestPtr = NULL then Some (NULL, 0, CFE_SUCCESS)
      else if DestPipeId (ds DestPtr) = pid then Some (DestPtr, CFE_SB_DUP_SUBSCRIP_EID, CFE_SUCCESS)
      else if DestCount + 1 \<ge> CFE_PLATFORM_SB_MAX_DEST_PER_PKT then Some (DestPtr, CFE_SB_MAX_DESTS_MET_EID, CFE_SB_MAX_DESTS_MET)
      else scan_dests ds pid (Next (ds DestPtr)) (DestCount + 1))"

text \<open>Its second step: the new destination.\<close>

definition subscribe_dest ::
    "'p sb_cfg \<Rightarrow> CFE_SB_PipeId_t \<Rightarrow> uint16 \<Rightarrow> uint8 \<Rightarrow> CFE_SBR_RouteId_t \<Rightarrow> 'p sb_state
       \<Rightarrow> (CFE_Status_t \<times> uint16 \<times> 'p sb_state) option" where
  "subscribe_dest cfg pid MsgLim scope Route s = do {
     (DestPtr, EID, Status) \<leftarrow> scan_dests (Dests s) pid (CFE_SBR_GetDestListHeadPtr (Routing s) Route) 0;
     Some (if DestPtr \<noteq> NULL then (Status, EID, s)
           else case CFE_SB_GetDestinationBlk cfg s of (DestPtr, s) \<Rightarrow>
             if DestPtr = NULL then (CFE_SB_BUF_ALOC_ERR, CFE_SB_DEST_BLK_ERR_EID, s)
             else
               let s = upd_dest DestPtr (\<lambda>_. \<lparr>DestPipeId = pid, Active = CFE_SB_ACTIVE, MsgId2PipeLim = MsgLim,
                     BuffCount = 0, DestCnt = 0, Scope = scope, Prev = NULL, Next = NULL\<rparr>) s;
                   s = CFE_SB_AddDestNode Route DestPtr s;
                   s = upd_stat (\<lambda>t. t\<lparr>SubscriptionsInUse := SubscriptionsInUse t + 1\<rparr>) s;
                   s = upd_stat (\<lambda>t. t\<lparr>PeakSubscriptionsInUse :=
                                          max_stat (SubscriptionsInUse t) (PeakSubscriptionsInUse t)\<rparr>) s
               in (CFE_SUCCESS, 0, s))
   }"

definition CFE_SB_SubscribeFull ::
    "'p sb_cfg \<Rightarrow> sb_caller \<Rightarrow> CFE_SB_MsgId_t \<Rightarrow> CFE_SB_PipeId_t \<Rightarrow> uint16 \<Rightarrow> uint16 \<Rightarrow> uint8 \<Rightarrow> 'p sb_state
       \<Rightarrow> (CFE_Status_t \<times> 'p sb_state) option" where
  "CFE_SB_SubscribeFull cfg c mid pid Quality MsgLim scope s = do {
     (Status, EID, Route, Collisions, s) \<leftarrow> subscribe_route cfg c mid pid scope s;
     (Status, EID, s) \<leftarrow> (if Status = CFE_SUCCESS then subscribe_dest cfg pid MsgLim scope Route s
                         else Some (Status, EID, s));
     let s = (if EID = 0 then s
              else if EID = CFE_SB_DUP_SUBSCRIP_EID
              then upd_hk (\<lambda>h. h\<lparr>DuplicateSubscriptionsCounter := DuplicateSubscriptionsCounter h + 1\<rparr>) s
              else upd_hk (\<lambda>h. h\<lparr>SubscribeErrorCounter := SubscribeErrorCounter h + 1\<rparr>) s);
     let s = (if EID \<noteq> 0
              then send_event EID (snd (snd (CFE_SB_GetPipeName cfg True OS_MAX_API_NAME pid s))) else s);
     let s = (if Status = CFE_SUCCESS \<and> EID = 0 then send_event CFE_SB_SUBSCRIPTION_RCVD_EID s else s);
     s \<leftarrow> (if Status = CFE_SUCCESS \<and> scope = CFE_SB_MSG_GLOBAL
          then map_option snd (CFE_SB_SendSubscriptionReport cfg c mid pid Quality s) else Some s);
     let s = (if Collisions \<noteq> 0 then send_event CFE_SB_HASHCOLLISION_EID s else s);
     Some (Status, s)
   }"

definition CFE_SB_SubscribeEx where
  "CFE_SB_SubscribeEx cfg c mid pid Quality MsgLim s =
     CFE_SB_SubscribeFull cfg c mid pid Quality MsgLim CFE_SB_MSG_GLOBAL s"
definition CFE_SB_SubscribeLocal where
  "CFE_SB_SubscribeLocal cfg c mid pid MsgLim s = CFE_SB_SubscribeFull cfg c mid pid 0 MsgLim CFE_SB_MSG_LOCAL s"
definition CFE_SB_Subscribe where
  "CFE_SB_Subscribe cfg c mid pid s =
     CFE_SB_SubscribeFull cfg c mid pid 0 CFE_PLATFORM_SB_DEFAULT_MSG_LIMIT CFE_SB_MSG_GLOBAL s"

definition CFE_SB_UnsubscribeFull ::
    "'p sb_cfg \<Rightarrow> CFE_SB_MsgId_t \<Rightarrow> CFE_SB_PipeId_t \<Rightarrow> uint8 \<Rightarrow> CFE_ES_AppId_t \<Rightarrow> 'p sb_state
       \<Rightarrow> (CFE_Status_t \<times> 'p sb_state) option" where
  "CFE_SB_UnsubscribeFull cfg mid pid scope AppId s =
     (let bad = (\<lambda>EID. Some (CFE_SB_BAD_ARGUMENT, send_event EID s));
          no_subs = (\<lambda>s. Some (CFE_SUCCESS, send_event CFE_SB_UNSUB_NO_SUBS_EID
                                  (snd (snd (CFE_SB_GetPipeName cfg True OS_MAX_API_NAME pid s))))) in
      case CFE_SB_PipeDescIsMatch cfg pid s of
        None \<Rightarrow> bad CFE_SB_UNSUB_INV_PIPE_EID
      | Some i \<Rightarrow>
          if PipeAppId (PipeTbl s i) \<noteq> AppId then bad CFE_SB_UNSUB_INV_CALLER_EID
          else if \<not> CFE_SB_IsValidMsgId mid \<or> scope > 1 then bad CFE_SB_UNSUB_ARG_ERR_EID
          else do {
            Route \<leftarrow> CFE_SBR_GetRouteId (hash_map cfg) (Routing s) mid;
            if \<not> CFE_SBR_IsValidRouteId Route then no_subs s
            else do {
              DestPtr \<leftarrow> CFE_SB_GetDestPtr Route pid s;
              if DestPtr \<noteq> NULL
              then Some (CFE_SUCCESS, send_event CFE_SB_SUBSCRIPTION_REMOVED_EID (CFE_SB_RemoveDest cfg Route DestPtr s))
              else no_subs s
            }
          })"

definition CFE_SB_Unsubscribe where
  "CFE_SB_Unsubscribe cfg c mid pid s = CFE_SB_UnsubscribeFull cfg mid pid CFE_SB_MSG_GLOBAL (CallerAppId c) s"
definition CFE_SB_UnsubscribeLocal where
  "CFE_SB_UnsubscribeLocal cfg c mid pid s = CFE_SB_UnsubscribeFull cfg mid pid CFE_SB_MSG_LOCAL (CallerAppId c) s"
definition CFE_SB_UnsubscribeWithAppId where
  "CFE_SB_UnsubscribeWithAppId cfg mid pid AppId s = CFE_SB_UnsubscribeFull cfg mid pid CFE_SB_MSG_LOCAL AppId s"

section \<open>Cleanup and initialisation\<close>

text \<open>The loop of \<^verbatim>\<open>CFE_SB_ZeroCopyReleaseAppId\<close>.  The other list's head is never on this list; reading it as a
  buffer would be undefined.\<close>

partial_function (option) release_zero_copy ::
    "'p sb_cfg \<Rightarrow> CFE_ES_AppId_t \<Rightarrow> buffer_link \<Rightarrow> 'p sb_state \<Rightarrow> 'p sb_state option" where
  "release_zero_copy cfg AppId NextLink s =
     (case NextLink of
        ZeroCopyList \<Rightarrow> Some s
      | InTransitList \<Rightarrow> None
      | BufferLink bd \<Rightarrow>
          release_zero_copy cfg AppId (LinkNext s NextLink)
            (if OwnerAppId (Bufs s bd) = AppId then CFE_SB_DecrBufUseCnt cfg bd s else s))"

definition CFE_SB_ZeroCopyReleaseAppId :: "'p sb_cfg \<Rightarrow> CFE_ES_AppId_t \<Rightarrow> 'p sb_state \<Rightarrow> 'p sb_state option" where
  "CFE_SB_ZeroCopyReleaseAppId cfg AppId s =
     (if AppId \<noteq> CFE_RESOURCEID_UNDEFINED then release_zero_copy cfg AppId (LinkNext s ZeroCopyList) s else Some s)"

text \<open>The pipes on the list \<^verbatim>\<open>DelList\<close>, and their deletion.\<close>

definition owned_pipes :: "CFE_ES_AppId_t \<Rightarrow> 'p sb_state \<Rightarrow> CFE_SB_PipeId_t list" where
  "owned_pipes AppId s =
     [PipeId (PipeTbl s i). i \<leftarrow> [0..<CFE_PLATFORM_SB_MAX_PIPES],
        CFE_SB_PipeDescIsUsed (PipeTbl s i) \<and> PipeAppId (PipeTbl s i) = AppId]"

primrec delete_pipes :: "'p sb_cfg \<Rightarrow> CFE_ES_AppId_t \<Rightarrow> CFE_SB_PipeId_t list \<Rightarrow> 'p sb_state \<Rightarrow> 'p sb_state option" where
  "delete_pipes cfg AppId [] s = Some s"
| "delete_pipes cfg AppId (pid # pids) s = do {
     (_, s) \<leftarrow> CFE_SB_DeletePipeWithAppId cfg pid AppId s;
     delete_pipes cfg AppId pids s
   }"

definition CFE_SB_CleanUpApp :: "'p sb_cfg \<Rightarrow> CFE_ES_AppId_t \<Rightarrow> 'p sb_state \<Rightarrow> (CFE_Status_t \<times> 'p sb_state) option" where
  "CFE_SB_CleanUpApp cfg AppId s = do {
     s \<leftarrow> delete_pipes cfg AppId (owned_pipes AppId s) s;
     s \<leftarrow> CFE_SB_ZeroCopyReleaseAppId cfg AppId s;
     Some (CFE_SUCCESS, s)
   }"

definition CFE_SB_InitPipeTbl :: "'p sb_cfg \<Rightarrow> 'p sb_state \<Rightarrow> 'p sb_state" where
  "CFE_SB_InitPipeTbl cfg s = s\<lparr>LastPipeId := CFE_ResourceId_FromInteger (CFE_SB_PIPEID_BASE cfg)\<rparr>"

text \<open>The result of \<^verbatim>\<open>CFE_ES_PoolCreateEx\<close> is an argument.\<close>

definition CFE_SB_InitBuffers :: "CFE_Status_t \<times> 'p \<Rightarrow> 'p sb_state \<Rightarrow> CFE_Status_t \<times> 'p sb_state" where
  "CFE_SB_InitBuffers created s =
     (case created of (Stat, pool) \<Rightarrow>
        let s = s\<lparr>Pool := pool\<rparr> in
        if Stat \<noteq> CFE_SUCCESS then (Stat, s)
        else (CFE_SUCCESS, CFE_SB_TrackingListReset ZeroCopyList (CFE_SB_TrackingListReset InTransitList s)))"

text \<open>\<^verbatim>\<open>CFE_SB_Global\<close> after \<^verbatim>\<open>memset\<close>; the OSAL's queues, the clock and the log are not part of it.  The result of
  \<^verbatim>\<open>OS_MutSemCreate\<close> is an argument.\<close>

definition clear_global :: "'p sb_state \<Rightarrow> 'p sb_state" where
  "clear_global s = s\<lparr>SubscriptionReporting := 0, StopRecurseFlags := \<lambda>_. 0, PipeTbl := \<lambda>_. zero_pipe,
     HKTlm := \<lparr>HkCommandCounter = 0, HkCommandErrorCounter = 0, NoSubscribersCounter = 0, MsgSendErrorCounter = 0,
       MsgReceiveErrorCounter = 0, InternalErrorCounter = 0, CreatePipeErrorCounter = 0, SubscribeErrorCounter = 0,
       PipeOptsErrorCounter = 0, DuplicateSubscriptionsCounter = 0, GetPipeIdByNameErrorCounter = 0,
       PipeOverflowErrorCounter = 0, MsgLimitErrorCounter = 0, HkMemInUse = 0, UnmarkedMem = 0\<rparr>,
     StatTlm := \<lparr>MsgIdsInUse = 0, PeakMsgIdsInUse = 0, PipesInUse = 0, PeakPipesInUse = 0, MemInUse = 0, PeakMemInUse = 0,
       SubscriptionsInUse = 0, PeakSubscriptionsInUse = 0, SBBuffersInUse = 0, PeakSBBuffersInUse = 0\<rparr>,
     PrevSub := \<lparr>PktSegment = 0, Entries = 0, Entry = \<lambda>_. CFE_SB_INVALID_MSG_ID\<rparr>,
     LastPipeId := CFE_RESOURCEID_UNDEFINED\<rparr>"

definition CFE_SB_EarlyInit ::
    "'p sb_cfg \<Rightarrow> OS_Status \<Rightarrow> CFE_Status_t \<times> 'p \<Rightarrow> 'p sb_state \<Rightarrow> CFE_Status_t \<times> 'p sb_state" where
  "CFE_SB_EarlyInit cfg mutex created s =
     (let s = clear_global s in
      if mutex \<noteq> OS_SUCCESS then (CFE_STATUS_EXTERNAL_RESOURCE_FAIL, s)
      else case CFE_SB_InitBuffers created (s\<lparr>SubscriptionReporting := CFE_SB_DISABLE\<rparr>) of (Stat, s) \<Rightarrow>
        if Stat \<noteq> CFE_SUCCESS then (Stat, s)
        else (Stat, (CFE_SB_InitPipeTbl cfg s)\<lparr>Routing := CFE_SBR_Init\<rparr>))"

end
