(* ===== verification/CFS_SbTask.thy ===== *)
theory CFS_SbTask
  imports CFS_SbApi
begin

text \<open>
  The commands of the software bus task, \<^verbatim>\<open>cfe_sb_task.c\<close>, and their dispatch, \<^verbatim>\<open>cfe_sb_dispatch.c\<close>.  The commands
  that write files are a parameter of the dispatcher, as they only start a background job of file services.
\<close>

abbreviation (input) CFE_SB_CMD0_RCVD_EID :: uint16 where "CFE_SB_CMD0_RCVD_EID \<equiv> 28"
abbreviation (input) CFE_SB_CMD1_RCVD_EID :: uint16 where "CFE_SB_CMD1_RCVD_EID \<equiv> 29"
abbreviation (input) CFE_SB_SND_STATS_EID :: uint16 where "CFE_SB_SND_STATS_EID \<equiv> 32"
abbreviation (input) CFE_SB_BAD_CMD_CODE_EID :: uint16 where "CFE_SB_BAD_CMD_CODE_EID \<equiv> 42"
abbreviation (input) CFE_SB_BAD_MSGID_EID :: uint16 where "CFE_SB_BAD_MSGID_EID \<equiv> 43"
abbreviation (input) CFE_SB_LEN_ERR_EID :: uint16 where "CFE_SB_LEN_ERR_EID \<equiv> 68"
abbreviation (input) CFE_PLATFORM_SB_BUF_MEMORY_BYTES :: uint32 where "CFE_PLATFORM_SB_BUF_MEMORY_BYTES \<equiv> 524288"
abbreviation (input) CFE_MISSION_SB_MAX_PIPES :: nat where "CFE_MISSION_SB_MAX_PIPES \<equiv> 64"
abbreviation (input) CFE_SB_SUB_ENTRIES_PER_PKT :: uint32 where "CFE_SB_SUB_ENTRIES_PER_PKT \<equiv> 20"

section \<open>Command handlers\<close>

definition accept_cmd :: "'p sb_state \<Rightarrow> 'p sb_state" where
  "accept_cmd s = upd_hk (\<lambda>h. h\<lparr>HkCommandCounter := HkCommandCounter h + 1\<rparr>) s"
definition reject_cmd :: "'p sb_state \<Rightarrow> 'p sb_state" where
  "reject_cmd s = upd_hk (\<lambda>h. h\<lparr>HkCommandErrorCounter := HkCommandErrorCounter h + 1\<rparr>) s"

definition CFE_SB_NoopCmd :: "'p sb_state \<Rightarrow> 'p sb_state" where
  "CFE_SB_NoopCmd s = accept_cmd (send_event CFE_SB_CMD0_RCVD_EID s)"

definition CFE_SB_ResetCounters :: "'p sb_state \<Rightarrow> 'p sb_state" where
  "CFE_SB_ResetCounters s = upd_hk (\<lambda>h. h\<lparr>HkCommandCounter := 0, HkCommandErrorCounter := 0, NoSubscribersCounter := 0,
     DuplicateSubscriptionsCounter := 0, MsgSendErrorCounter := 0, MsgReceiveErrorCounter := 0, InternalErrorCounter := 0,
     CreatePipeErrorCounter := 0, SubscribeErrorCounter := 0, PipeOverflowErrorCounter := 0, MsgLimitErrorCounter := 0\<rparr>) s"

definition CFE_SB_ResetCountersCmd :: "'p sb_state \<Rightarrow> 'p sb_state" where
  "CFE_SB_ResetCountersCmd s = CFE_SB_ResetCounters (send_event CFE_SB_CMD1_RCVD_EID s)"

definition CFE_SB_SetSubscriptionReporting :: "uint32 \<Rightarrow> 'p sb_state \<Rightarrow> 'p sb_state" where
  "CFE_SB_SetSubscriptionReporting v s = s\<lparr>SubscriptionReporting := v\<rparr>"
definition CFE_SB_EnableSubReportingCmd :: "'p sb_state \<Rightarrow> 'p sb_state" where
  "CFE_SB_EnableSubReportingCmd s = CFE_SB_SetSubscriptionReporting CFE_SB_ENABLE s"
definition CFE_SB_DisableSubReportingCmd :: "'p sb_state \<Rightarrow> 'p sb_state" where
  "CFE_SB_DisableSubReportingCmd s = CFE_SB_SetSubscriptionReporting CFE_SB_DISABLE s"

text \<open>The two route commands differ in the state they set and in their events.\<close>

definition set_route_active ::
    "'p sb_cfg \<Rightarrow> uint8 \<Rightarrow> uint16 \<times> uint16 \<times> uint16 \<Rightarrow> CFE_SB_MsgId_t \<Rightarrow> CFE_SB_PipeId_t \<Rightarrow> 'p sb_state \<Rightarrow> 'p sb_state option" where
  "set_route_active cfg act eids mid pid s =
     (case eids of (no_route, done_eid, invalid) \<Rightarrow>
        if \<not> CFE_SB_IsValidMsgId mid \<or> CFE_SB_PipeDescIsMatch cfg pid s = None
        then Some (send_event invalid (reject_cmd s))
        else do {
          Route \<leftarrow> CFE_SBR_GetRouteId (hash_map cfg) (Routing s) mid;
          DestPtr \<leftarrow> CFE_SB_GetDestPtr Route pid s;
          Some (if DestPtr = NULL then send_event no_route (reject_cmd s)
                else send_event done_eid (accept_cmd (upd_dest DestPtr (\<lambda>d. d\<lparr>Active := act\<rparr>) s)))
        })"

definition CFE_SB_EnableRouteCmd :: "'p sb_cfg \<Rightarrow> CFE_SB_MsgId_t \<Rightarrow> CFE_SB_PipeId_t \<Rightarrow> 'p sb_state \<Rightarrow> 'p sb_state option" where
  "CFE_SB_EnableRouteCmd cfg mid pid s =
     set_route_active cfg CFE_SB_ACTIVE (CFE_SB_ENBL_RTE1_EID, CFE_SB_ENBL_RTE2_EID, CFE_SB_ENBL_RTE3_EID) mid pid s"
definition CFE_SB_DisableRouteCmd :: "'p sb_cfg \<Rightarrow> CFE_SB_MsgId_t \<Rightarrow> CFE_SB_PipeId_t \<Rightarrow> 'p sb_state \<Rightarrow> 'p sb_state option" where
  "CFE_SB_DisableRouteCmd cfg mid pid s =
     set_route_active cfg CFE_SB_INACTIVE (CFE_SB_DSBL_RTE1_EID, CFE_SB_DSBL_RTE2_EID, CFE_SB_DSBL_RTE3_EID) mid pid s"

text \<open>\<^verbatim>\<open>CFE_SB_TimeStampMsg\<close> on a packet about to be sent.\<close>

definition CFE_SB_TimeStampMsg :: "'p sb_cfg \<Rightarrow> sb_caller \<Rightarrow> CFE_MSG_Message_t \<Rightarrow> CFE_MSG_Message_t" where
  "CFE_SB_TimeStampMsg cfg c m = the (snd (CFE_MSG_SetMsgTime (build cfg) (Some m) (Now c)))"

definition CFE_SB_SendHKTlmCmd :: "'p sb_cfg \<Rightarrow> sb_caller \<Rightarrow> 'p sb_state \<Rightarrow> 'p sb_state option" where
  "CFE_SB_SendHKTlmCmd cfg c s =
     (let s = upd_hk (\<lambda>h. h\<lparr>HkMemInUse := MemInUse (StatTlm s),
                            UnmarkedMem := CFE_PLATFORM_SB_BUF_MEMORY_BYTES - PeakMemInUse (StatTlm s)\<rparr>) s
      in map_option snd (CFE_SB_TransmitMsg cfg c (Some (CFE_SB_TimeStampMsg cfg c (HkMessage cfg (HKTlm s)))) True s))"

definition pipe_depth_stats :: "'p sb_state \<Rightarrow> CFE_SB_PipeDepthStats_t list" where
  "pipe_depth_stats s =
     (let used = take CFE_MISSION_SB_MAX_PIPES
            [\<lparr>StatPipeId = PipeId p, StatMaxQueueDepth = MaxQueueDepth p, StatCurrentQueueDepth = CurrentQueueDepth p,
              StatPeakQueueDepth = PeakQueueDepth p\<rparr>. p \<leftarrow> map (PipeTbl s) [0..<CFE_PLATFORM_SB_MAX_PIPES], CFE_SB_PipeDescIsUsed p]
      in used @ replicate (CFE_MISSION_SB_MAX_PIPES - length used)
           \<lparr>StatPipeId = CFE_RESOURCEID_UNDEFINED, StatMaxQueueDepth = 0, StatCurrentQueueDepth = 0, StatPeakQueueDepth = 0\<rparr>)"

definition CFE_SB_SendStatsCmd :: "'p sb_cfg \<Rightarrow> sb_caller \<Rightarrow> 'p sb_state \<Rightarrow> 'p sb_state option" where
  "CFE_SB_SendStatsCmd cfg c s = do {
     (_, s) \<leftarrow> CFE_SB_TransmitMsg cfg c
               (Some (CFE_SB_TimeStampMsg cfg c (StatMessage cfg (StatTlm s) (pipe_depth_stats s)))) True s;
     Some (accept_cmd (send_event CFE_SB_SND_STATS_EID s))
   }"

text \<open>The first destination of a route that is not local, if there is one.\<close>

partial_function (option) global_dest :: "(pointer \<Rightarrow> CFE_SB_DestinationD_t) \<Rightarrow> pointer \<Rightarrow> pointer option" where
  "global_dest ds destptr =
     (if destptr = NULL \<or> Scope (ds destptr) = CFE_SB_MSG_GLOBAL then Some destptr
      else global_dest ds (Next (ds destptr)))"

definition CFE_SB_SendRouteSub ::
    "'p sb_cfg \<Rightarrow> sb_caller \<Rightarrow> CFE_SBR_RouteId_t \<Rightarrow> 'p sb_state option \<Rightarrow> 'p sb_state option" where
  "CFE_SB_SendRouteSub cfg c Route so = do {
     s \<leftarrow> so;
     destptr \<leftarrow> global_dest (Dests s) (CFE_SBR_GetDestListHeadPtr (Routing s) Route);
     if destptr = NULL then Some s
     else
       let s = s\<lparr>PrevSub := (PrevSub s)\<lparr>Entry := (Entry (PrevSub s))(unat (Entries (PrevSub s)) := CFE_SBR_GetMsgId (Routing s) Route),
                                        Entries := Entries (PrevSub s) + 1\<rparr>\<rparr>
       in if Entries (PrevSub s) \<ge> CFE_SB_SUB_ENTRIES_PER_PKT
          then do {
            (_, s) \<leftarrow> CFE_SB_TransmitMsg cfg c (Some (PrevSubMessage cfg (PrevSub s))) True s;
            Some ((send_event CFE_SB_FULL_SUB_PKT_EID s)
                    \<lparr>PrevSub := (PrevSub s)\<lparr>Entries := 0, PktSegment := PktSegment (PrevSub s) + 1\<rparr>\<rparr>)
          }
          else Some s
   }"

definition CFE_SB_SendPrevSubsCmd :: "'p sb_cfg \<Rightarrow> sb_caller \<Rightarrow> 'p sb_state \<Rightarrow> 'p sb_state option" where
  "CFE_SB_SendPrevSubsCmd cfg c s = do {
     let s = s\<lparr>PrevSub := (PrevSub s)\<lparr>PktSegment := 1, Entries := 0\<rparr>\<rparr>;
     s \<leftarrow> fst (CFE_SBR_ForEachRouteId (Routing s) (CFE_SB_SendRouteSub cfg c) (Some s) None);
     if Entries (PrevSub s) > 0
     then do {
       (_, s) \<leftarrow> CFE_SB_TransmitMsg cfg c (Some (PrevSubMessage cfg (PrevSub s))) True s;
       Some (send_event CFE_SB_PART_SUB_PKT_EID s)
     }
     else Some s
   }"

section \<open>Dispatch\<close>

text \<open>The message IDs of the bus and the sizes of its command types.  \<open>write_file\<close> is the effect of the three commands
  that write files, by function code.\<close>

record 'p sb_task_cfg =
  SB_SEND_HK_MID :: uint32
  SB_SUB_RPT_CTRL_MID :: uint32
  SB_CMD_MID :: uint32
  sb_cmd_size :: "uint16 \<Rightarrow> size_t"
  write_file :: "uint16 \<Rightarrow> CFE_MSG_Message_t \<Rightarrow> 'p sb_state \<Rightarrow> 'p sb_state"
  RouteCmdPayload :: "CFE_MSG_Message_t \<Rightarrow> CFE_SB_MsgId_t \<times> CFE_SB_PipeId_t"

definition CFE_SB_VerifyCmdLength :: "CFE_MSG_Message_t \<Rightarrow> size_t \<Rightarrow> 'p sb_state \<Rightarrow> bool \<times> 'p sb_state" where
  "CFE_SB_VerifyCmdLength m ExpectedLength s =
     (if ExpectedLength \<noteq> the (snd (CFE_MSG_GetSize (Some m) (Some 0)))
      then (False, reject_cmd (send_event CFE_SB_LEN_ERR_EID s)) else (True, s))"

definition sb_cmd_handler ::
    "'p sb_cfg \<Rightarrow> 'p sb_task_cfg \<Rightarrow> sb_caller \<Rightarrow> CFE_MSG_Message_t \<Rightarrow> uint16 \<Rightarrow> ('p sb_state \<Rightarrow> 'p sb_state option) option" where
  "sb_cmd_handler cfg k c m cc =
     (if cc = 0 then Some (\<lambda>s. Some (CFE_SB_NoopCmd s))
      else if cc = 1 then Some (\<lambda>s. Some (CFE_SB_ResetCountersCmd s))
      else if cc = 2 then Some (CFE_SB_SendStatsCmd cfg c)
      else if cc = 3 \<or> cc = 7 \<or> cc = 8 then Some (\<lambda>s. Some (write_file k cc m s))
      else if cc = 4 then Some (CFE_SB_EnableRouteCmd cfg (fst (RouteCmdPayload k m)) (snd (RouteCmdPayload k m)))
      else if cc = 5 then Some (CFE_SB_DisableRouteCmd cfg (fst (RouteCmdPayload k m)) (snd (RouteCmdPayload k m)))
      else None)"

definition sub_rpt_handler ::
    "'p sb_cfg \<Rightarrow> sb_caller \<Rightarrow> uint16 \<Rightarrow> ('p sb_state \<Rightarrow> 'p sb_state option) option" where
  "sub_rpt_handler cfg c cc =
     (if cc = 11 then Some (CFE_SB_SendPrevSubsCmd cfg c)
      else if cc = 9 then Some (\<lambda>s. Some (CFE_SB_EnableSubReportingCmd s))
      else if cc = 10 then Some (\<lambda>s. Some (CFE_SB_DisableSubReportingCmd s))
      else None)"

definition CFE_SB_ProcessCmdPipePkt ::
    "'p sb_cfg \<Rightarrow> 'p sb_task_cfg \<Rightarrow> sb_caller \<Rightarrow> CFE_MSG_Message_t \<Rightarrow> 'p sb_state \<Rightarrow> 'p sb_state option" where
  "CFE_SB_ProcessCmdPipePkt cfg k c m s =
     (let MessageID = CFE_SB_MsgIdToValue (the (snd (CFE_MSG_GetMsgId (build cfg) (Some m) (Some CFE_SB_INVALID_MSG_ID))));
          cc = the (snd (CFE_MSG_GetFcnCode (build cfg) (Some m) (Some 0)));
          run = (\<lambda>handler. case handler of
                   None \<Rightarrow> Some (reject_cmd (send_event CFE_SB_BAD_CMD_CODE_EID s))
                 | Some h \<Rightarrow> (case CFE_SB_VerifyCmdLength m (sb_cmd_size k cc) s of (ok, s) \<Rightarrow> if ok then h s else Some s)) in
      if MessageID = SB_SEND_HK_MID k then CFE_SB_SendHKTlmCmd cfg c s
      else if MessageID = SB_SUB_RPT_CTRL_MID k then run (sub_rpt_handler cfg c cc)
      else if MessageID = SB_CMD_MID k then run (sb_cmd_handler cfg k c m cc)
      else Some (reject_cmd (send_event CFE_SB_BAD_MSGID_EID s)))"

end
