(* ===== verification/CFS_Rings.thy ===== *)
theory CFS_Rings
  imports CFS_Prelude "HOL-Library.Multiset"
begin

text \<open>
  Circular doubly linked lists through two successor functions, as a relation to the list of their nodes: insertion,
  removal and traversal.  The tracking lists of the software bus and its destination lists are both rings.
\<close>

section \<open>Rings\<close>

text \<open>Pairs of neighbours.\<close>

definition linked :: "('a \<Rightarrow> 'a) \<Rightarrow> ('a \<Rightarrow> 'a) \<Rightarrow> ('a \<times> 'a) list \<Rightarrow> bool" where
  "linked nxt prv ps \<longleftrightarrow> (\<forall>u v. (u, v) \<in> set ps \<longrightarrow> nxt u = v \<and> prv v = u)"

lemma linked_simps [simp]:
  "linked nxt prv []" "linked nxt prv ((u, v) # ps) \<longleftrightarrow> nxt u = v \<and> prv v = u \<and> linked nxt prv ps"
  "linked nxt prv (ps @ qs) \<longleftrightarrow> linked nxt prv ps \<and> linked nxt prv qs"
  by (auto simp: linked_def)

lemma linkedD: "linked nxt prv ps \<Longrightarrow> (u, v) \<in> set ps \<Longrightarrow> nxt u = v \<and> prv v = u"
  by (simp add: linked_def)

lemma linked_cong:
  "(\<And>u v. (u, v) \<in> set ps \<Longrightarrow> nxt' u = nxt u \<and> prv' v = prv v) \<Longrightarrow> linked nxt' prv' ps = linked nxt prv ps"
  unfolding linked_def by metis

text \<open>A doubly linked ring with head \<open>h\<close> and the nodes \<open>xs\<close> in order.\<close>

definition ring :: "('a \<Rightarrow> 'a) \<Rightarrow> ('a \<Rightarrow> 'a) \<Rightarrow> 'a \<Rightarrow> 'a list \<Rightarrow> bool" where
  "ring nxt prv h xs \<longleftrightarrow> distinct (h # xs) \<and> linked nxt prv (zip (h # xs) (xs @ [h]))"

lemma ring_empty [simp]: "ring nxt prv h [] \<longleftrightarrow> nxt h = h \<and> prv h = h"
  by (auto simp: ring_def)

lemma ring_distinct: "ring nxt prv h xs \<Longrightarrow> distinct xs" "ring nxt prv h xs \<Longrightarrow> h \<notin> set xs"
  by (auto simp: ring_def)

lemma ring_cong:
  assumes "\<And>x. x \<in> set (h # xs) \<Longrightarrow> nxt' x = nxt x \<and> prv' x = prv x"
  shows "ring nxt' prv' h xs = ring nxt prv h xs"
proof -
  have "nxt' u = nxt u \<and> prv' v = prv v" if "(u, v) \<in> set (zip (h # xs) (xs @ [h]))" for u v
    using set_zip_leftD [OF that] set_zip_rightD [OF that] assms by auto
  then have "linked nxt' prv' (zip (h # xs) (xs @ [h])) = linked nxt prv (zip (h # xs) (xs @ [h]))" by (rule linked_cong)
  then show ?thesis unfolding ring_def by simp
qed

lemma zip_split:
  "zip (h # xs @ x # ys) (xs @ x # ys @ [h]) =
     zip (h # xs) (xs @ [x]) @ zip (x # ys) (ys @ [h])"
proof -
  have "zip ((h # xs) @ (x # ys)) ((xs @ [x]) @ (ys @ [h])) = zip (h # xs) (xs @ [x]) @ zip (x # ys) (ys @ [h])"
    by (rule zip_append) simp
  then show ?thesis by simp
qed

text \<open>The neighbours of a node, and the pairs that remain without it.\<close>

lemma zip_last: "zip (h # xs) (xs @ [x]) = zip (butlast (h # xs)) xs @ [(last (h # xs), x)]"
proof -
  have "zip (butlast (h # xs) @ [last (h # xs)]) (xs @ [x]) = zip (butlast (h # xs)) xs @ zip [last (h # xs)] [x]"
    by (rule zip_append) simp
  then show ?thesis by (simp del: butlast.simps last.simps)
qed

lemma zip_first: "zip (x # ys) (ys @ [h]) = (x, hd (ys @ [h])) # zip ys (tl (ys @ [h]))"
  by (cases ys) simp_all

lemma zip_joined:
  "zip (h # xs @ ys) (xs @ ys @ [h]) =
     zip (butlast (h # xs)) xs @ (last (h # xs), hd (ys @ [h])) # zip ys (tl (ys @ [h]))"
proof (cases ys)
  case Nil
  then show ?thesis using zip_last [of h xs h] by simp
next
  case (Cons y zs)
  then show ?thesis using zip_split [of h xs y zs] zip_last [of h xs y] by simp
qed

lemma ring_neighbours:
  assumes "ring nxt prv h (xs @ x # ys)"
  shows "prv x = last (h # xs)" "nxt x = hd (ys @ [h])"
    "nxt (last (h # xs)) = x" "prv (hd (ys @ [h])) = x"
  using assms unfolding ring_def append_Cons append_assoc zip_split zip_last [of h xs x] zip_first [of x ys h] linked_simps
  by blast+

lemma ring_join:
  assumes r: "ring nxt prv h (xs @ x # ys)"
  shows "ring (nxt(prv x := nxt x)) (prv(nxt x := prv x)) h (xs @ ys)"
proof -
  note n = ring_neighbours [OF r]
  have d: "distinct (h # xs @ x # ys)" using r by (simp add: ring_def)
  have P: "linked nxt prv (zip (butlast (h # xs)) xs)" "linked nxt prv (zip ys (tl (ys @ [h])))"
    using r unfolding ring_def append_Cons append_assoc zip_split zip_last [of h xs x] zip_first [of x ys h] linked_simps
    by blast+
  have l: "u \<noteq> last (h # xs) \<and> v \<noteq> hd (ys @ [h])" if "(u, v) \<in> set (zip (butlast (h # xs)) xs)" for u v
  proof
    have "distinct (butlast (h # xs) @ [last (h # xs)])"
      using d unfolding append_butlast_last_id [OF list.distinct(2)] by simp
    then show "u \<noteq> last (h # xs)" using set_zip_leftD [OF that] by (metis disjoint_iff distinct_append list.set_intros(1))
    show "v \<noteq> hd (ys @ [h])" using set_zip_rightD [OF that] d by (cases ys) auto
  qed
  have g: "u \<noteq> last (h # xs) \<and> v \<noteq> hd (ys @ [h])" if "(u, v) \<in> set (zip ys (tl (ys @ [h])))" for u v
  proof
    show "u \<noteq> last (h # xs)" using set_zip_leftD [OF that] d by (cases xs rule: rev_cases) auto
    have "v \<in> set (tl (ys @ [h]))" by (rule set_zip_rightD [OF that])
    then show "v \<noteq> hd (ys @ [h])" using d by (cases ys) auto
  qed
  have "distinct (h # xs @ ys)" using d by auto
  moreover have "linked (nxt(prv x := nxt x)) (prv(nxt x := prv x)) (zip (h # xs @ ys) (xs @ ys @ [h]))"
  proof -
    have "linked (nxt(prv x := nxt x)) (prv(nxt x := prv x)) (zip (butlast (h # xs)) xs)"
      using P(1) l unfolding linked_def n(1,2) by (auto simp del: butlast.simps last.simps)
    moreover have "linked (nxt(prv x := nxt x)) (prv(nxt x := prv x)) (zip ys (tl (ys @ [h])))"
      using P(2) g unfolding linked_def n(1,2) by (auto simp del: last.simps)
    ultimately show ?thesis unfolding zip_joined linked_simps n(1,2) by simp
  qed
  ultimately show ?thesis unfolding ring_def by simp
qed

lemma ring_insert:
  assumes r: "ring nxt prv h (xs @ ys)" and x: "x \<notin> set (h # xs @ ys)"
    and p: "p = last (h # xs)" and q: "q = hd (ys @ [h])"
  shows "ring (nxt(p := x, x := q)) (prv(q := x, x := p)) h (xs @ x # ys)"
proof -
  have d: "distinct (h # xs @ ys)" using r by (simp add: ring_def)
  have px: "p \<noteq> x" "q \<noteq> x" using x p q by (cases xs rule: rev_cases; cases ys; auto)+
  have P: "linked nxt prv (zip (butlast (h # xs)) xs)" "linked nxt prv (zip ys (tl (ys @ [h])))"
    using r unfolding ring_def append_Cons append_assoc zip_joined linked_simps by blast+
  have l: "u \<noteq> p \<and> v \<noteq> q \<and> u \<noteq> x \<and> v \<noteq> x" if "(u, v) \<in> set (zip (butlast (h # xs)) xs)" for u v
  proof -
    have "distinct (butlast (h # xs) @ [last (h # xs)])"
      using d unfolding append_butlast_last_id [OF list.distinct(2)] by simp
    then have "u \<noteq> p" using set_zip_leftD [OF that] p by (metis disjoint_iff distinct_append list.set_intros(1))
    moreover have "v \<noteq> q" using set_zip_rightD [OF that] d q by (cases ys) auto
    moreover have "u \<noteq> x" "v \<noteq> x" using set_zip_leftD [OF that] set_zip_rightD [OF that] x in_set_butlastD by fastforce+
    ultimately show ?thesis by simp
  qed
  have g: "u \<noteq> p \<and> v \<noteq> q \<and> u \<noteq> x \<and> v \<noteq> x" if "(u, v) \<in> set (zip ys (tl (ys @ [h])))" for u v
  proof -
    have u: "u \<in> set ys" and v: "v \<in> set (tl (ys @ [h]))" using set_zip_leftD [OF that] set_zip_rightD [OF that] .
    have "u \<noteq> p" using u d p by (cases xs rule: rev_cases) auto
    moreover have "v \<noteq> q" using v d q by (cases ys) auto
    moreover have "u \<noteq> x" using u x by auto
    moreover have "v \<noteq> x" using v x by (cases ys) auto
    ultimately show ?thesis by simp
  qed
  have "distinct (h # xs @ x # ys)" using d x by auto
  moreover have "linked (nxt(p := x, x := q)) (prv(q := x, x := p)) (zip (h # xs @ x # ys) (xs @ x # ys @ [h]))"
  proof -
    have "linked (nxt(p := x, x := q)) (prv(q := x, x := p)) (zip (butlast (h # xs)) xs)"
      using P(1) l unfolding linked_def by (auto simp del: butlast.simps)
    moreover have "linked (nxt(p := x, x := q)) (prv(q := x, x := p)) (zip ys (tl (ys @ [h])))"
      using P(2) g unfolding linked_def by auto
    ultimately show ?thesis unfolding zip_split zip_last [of h xs x] zip_first [of x ys h] linked_simps p [symmetric] q [symmetric]
      using px by simp
  qed
  ultimately show ?thesis unfolding ring_def by simp
qed

text \<open>Walking a ring from its head.\<close>

primrec walk :: "nat \<Rightarrow> ('a \<Rightarrow> 'a) \<Rightarrow> 'a \<Rightarrow> 'a \<Rightarrow> 'a list" where
  "walk 0 nxt stop x = []"
| "walk (Suc n) nxt stop x = (if x = stop then [] else x # walk n nxt stop (nxt x))"

lemma ring_head: "ring nxt prv h xs \<Longrightarrow> nxt h = hd (xs @ [h])" "ring nxt prv h xs \<Longrightarrow> prv h = last (h # xs)"
proof -
  assume r: "ring nxt prv h xs"
  show "nxt h = hd (xs @ [h])" using r unfolding ring_def zip_first linked_simps by blast
  show "prv h = last (h # xs)" using r unfolding ring_def zip_last linked_simps by blast
qed

lemma ring_walk:
  assumes "ring nxt prv h xs" "length xs \<le> n"
  shows "walk n nxt h (nxt h) = xs"
proof -
  have "walk n nxt h (hd (ys @ [h])) = ys" if "xs = zs @ ys" "length ys \<le> n" for zs ys
    using that
  proof (induction ys arbitrary: zs n)
    case Nil
    then show ?case by (cases n) simp_all
  next
    case (Cons y ys)
    then obtain k where n: "n = Suc k" by (cases n) auto
    have "y \<noteq> h" using ring_distinct(2) [OF assms(1)] Cons.prems(1) by auto
    moreover have "nxt y = hd (ys @ [h])" using ring_neighbours(2) [of nxt prv h zs y ys] assms(1) Cons.prems(1) by simp
    moreover have "walk k nxt h (hd (ys @ [h])) = ys" using Cons.IH [of "zs @ [y]" k] Cons.prems n by simp
    ultimately show ?case using n by simp
  qed
  from this [of "[]" xs] show ?thesis using assms ring_head(1) by fastforce
qed

end
