(* ===== verification/CFS_SbMem.thy ===== *)
theory CFS_SbMem
  imports CFS_SbTask CFS_Rings
begin

text \<open>
  Buffers, tracking lists and the memory pool of the software bus (\<^verbatim>\<open>cfe_sb_buf.c\<close>): the use count of a buffer is the
  number of its references, and the pool holds the referenced buffers and the destination blocks.  The locale \<open>sb_pool\<close>
  extends \<open>buffer_pool\<close> with the sizes of the two kinds of blocks; all lemmas about the bus are proved in it.
\<close>

section \<open>Tracking lists\<close>

lemma ring_pair_remove:
  assumes r: "ring n p h (xs @ x # ys)" and o: "ring n p h' zs" and d: "set (h # xs @ x # ys) \<inter> set (h' # zs) = {}"
  shows "ring (n(p x := n x, x := x)) (p(n x := p x, x := x)) h (xs @ ys)"
    "ring (n(p x := n x, x := x)) (p(n x := p x, x := x)) h' zs"
proof -
  have x: "x \<notin> set (h # xs @ ys)" using r by (auto simp: ring_def)
  have "ring (n(p x := n x, x := x)) (p(n x := p x, x := x)) h (xs @ ys) =
      ring (n(p x := n x)) (p(n x := p x)) h (xs @ ys)"
    using x by (intro ring_cong) auto
  then show "ring (n(p x := n x, x := x)) (p(n x := p x, x := x)) h (xs @ ys)" using ring_join [OF r] by simp
  have "p x \<in> set (h # xs)" using ring_neighbours(1) [OF r] by simp
  moreover have "n x \<in> set (h # ys)" using ring_neighbours(2) [OF r] by (cases ys) simp_all
  ultimately have "ring (n(p x := n x, x := x)) (p(n x := p x, x := x)) h' zs = ring n p h' zs"
    using d by (intro ring_cong) auto
  then show "ring (n(p x := n x, x := x)) (p(n x := p x, x := x)) h' zs" using o by simp
qed

lemma ring_pair_add:
  assumes r: "ring n p h xs" and o: "ring n p h' zs" and d: "set (h # xs) \<inter> set (h' # zs) = {}"
    and x: "x \<notin> set (h # xs)" "x \<notin> set (h' # zs)"
  shows "ring (n(x := h, p h := x)) (p(x := p h, h := x)) h (xs @ [x])"
    "ring (n(x := h, p h := x)) (p(x := p h, h := x)) h' zs"
proof -
  have ph: "p h = last (h # xs)" by (rule ring_head(2) [OF r])
  then have pin: "p h \<in> set (h # xs)" by simp
  have "ring (n(p h := x, x := h)) (p(h := x, x := p h)) h (xs @ [x])"
    by (rule ring_insert [where ys = "[]"]) (use r x ph in simp_all)
  moreover have "n(p h := x, x := h) = n(x := h, p h := x)" "p(h := x, x := p h) = p(x := p h, h := x)"
    using pin x by (auto simp: fun_eq_iff)
  ultimately show "ring (n(x := h, p h := x)) (p(x := p h, h := x)) h (xs @ [x])" by simp
  have "ring (n(x := h, p h := x)) (p(x := p h, h := x)) h' zs = ring n p h' zs"
    using d x(2) pin by (intro ring_cong) auto
  then show "ring (n(x := h, p h := x)) (p(x := p h, h := x)) h' zs" using o by simp
qed

text \<open>The two lists hold the buffers \<open>Z\<close> and \<open>T\<close>.\<close>

definition links_ok :: "pointer list \<Rightarrow> pointer list \<Rightarrow> 'p sb_state \<Rightarrow> bool" where
  "links_ok Z T s \<longleftrightarrow> ring (LinkNext s) (LinkPrev s) ZeroCopyList (map BufferLink Z) \<and>
     ring (LinkNext s) (LinkPrev s) InTransitList (map BufferLink T) \<and> set Z \<inter> set T = {}"

lemma links_distinct: "links_ok Z T s \<Longrightarrow> distinct Z" "links_ok Z T s \<Longrightarrow> distinct T"
  using ring_distinct(1) [of _ _ ZeroCopyList "map BufferLink Z"] ring_distinct(1) [of _ _ InTransitList "map BufferLink T"]
  by (auto simp: links_ok_def distinct_map)

lemma TrackingListRemove_eq:
  "CFE_SB_TrackingListRemove x s =
     s\<lparr>LinkNext := (LinkNext s)(LinkPrev s x := LinkNext s x, x := x), LinkPrev := (LinkPrev s)(LinkNext s x := LinkPrev s x, x := x)\<rparr>"
  by (simp add: CFE_SB_TrackingListRemove_def CFE_SB_TrackingListReset_def Let_def)

lemma TrackingListAdd_eq:
  assumes "LinkPrev s h \<noteq> x"
  shows "CFE_SB_TrackingListAdd h x s =
     s\<lparr>LinkNext := (LinkNext s)(x := h, LinkPrev s h := x), LinkPrev := (LinkPrev s)(x := LinkPrev s h, h := x)\<rparr>"
  using assms by (simp add: CFE_SB_TrackingListAdd_def Let_def)

lemma links_remove:
  assumes l: "links_ok Z T s" and x: "x \<in> set Z \<union> set T"
  shows "links_ok (remove1 x Z) (remove1 x T) (CFE_SB_TrackingListRemove (BufferLink x) s)"
proof (cases "x \<in> set Z")
  case True
  then obtain xs ys where Z: "Z = xs @ x # ys" "x \<notin> set xs" by (metis split_list_first)
  have "x \<notin> set T" using l True by (auto simp: links_ok_def)
  then show ?thesis
    using l Z ring_pair_remove [of "LinkNext s" "LinkPrev s" ZeroCopyList "map BufferLink xs" "BufferLink x" "map BufferLink ys"
        InTransitList "map BufferLink T"]
    by (auto simp: links_ok_def TrackingListRemove_eq remove1_append remove1_idem)
next
  case False
  then have "x \<in> set T" using x by simp
  then obtain xs ys where T: "T = xs @ x # ys" "x \<notin> set xs" by (metis split_list_first)
  then show ?thesis
    using l False ring_pair_remove [of "LinkNext s" "LinkPrev s" InTransitList "map BufferLink xs" "BufferLink x" "map BufferLink ys"
        ZeroCopyList "map BufferLink Z"]
    by (auto simp: links_ok_def TrackingListRemove_eq remove1_append remove1_idem)
qed

lemma links_add:
  assumes l: "links_ok Z T s" and x: "x \<notin> set Z" "x \<notin> set T"
  shows "links_ok (Z @ [x]) T (CFE_SB_TrackingListAdd ZeroCopyList (BufferLink x) s)"
    "links_ok Z (T @ [x]) (CFE_SB_TrackingListAdd InTransitList (BufferLink x) s)"
proof -
  have z: "ring (LinkNext s) (LinkPrev s) ZeroCopyList (map BufferLink Z)"
    and t: "ring (LinkNext s) (LinkPrev s) InTransitList (map BufferLink T)" using l by (simp_all add: links_ok_def)
  have "LinkPrev s ZeroCopyList \<in> set (ZeroCopyList # map BufferLink Z)" unfolding ring_head(2) [OF z] by (rule last_in_set) simp
  then have p: "LinkPrev s ZeroCopyList \<noteq> BufferLink x" using x by auto
  show "links_ok (Z @ [x]) T (CFE_SB_TrackingListAdd ZeroCopyList (BufferLink x) s)"
    using ring_pair_add [OF z t, of "BufferLink x"] l x by (auto simp: links_ok_def TrackingListAdd_eq [OF p])
  have "LinkPrev s InTransitList \<in> set (InTransitList # map BufferLink T)" unfolding ring_head(2) [OF t] by (rule last_in_set) simp
  then have p: "LinkPrev s InTransitList \<noteq> BufferLink x" using x by auto
  show "links_ok Z (T @ [x]) (CFE_SB_TrackingListAdd InTransitList (BufferLink x) s)"
    using ring_pair_add [OF t z, of "BufferLink x"] l x by (auto simp: links_ok_def TrackingListAdd_eq [OF p])
qed

lemma links_reset:
  assumes l: "links_ok Z T s" and x: "x \<notin> set Z" "x \<notin> set T"
  shows "links_ok Z T (CFE_SB_TrackingListReset (BufferLink x) s)"
proof -
  have "ring ((LinkNext s)(BufferLink x := BufferLink x)) ((LinkPrev s)(BufferLink x := BufferLink x)) ZeroCopyList (map BufferLink Z) =
      ring (LinkNext s) (LinkPrev s) ZeroCopyList (map BufferLink Z)" using x by (intro ring_cong) auto
  moreover have "ring ((LinkNext s)(BufferLink x := BufferLink x)) ((LinkPrev s)(BufferLink x := BufferLink x)) InTransitList (map BufferLink T) =
      ring (LinkNext s) (LinkPrev s) InTransitList (map BufferLink T)" using x by (intro ring_cong) auto
  ultimately show ?thesis using l by (simp add: links_ok_def CFE_SB_TrackingListReset_def)
qed

section \<open>Buffers and their references\<close>

text \<open>\<open>R\<close> is the multiset of references to buffers.  A buffer exists while it is referenced, and its use count is the
  number of its references; the buffers on the zero-copy list \<open>Z\<close> are those with an owner.\<close>

definition bufs_ok :: "pointer multiset \<Rightarrow> pointer list \<Rightarrow> pointer list \<Rightarrow> 'p sb_state \<Rightarrow> bool" where
  "bufs_ok R Z T s \<longleftrightarrow> links_ok Z T s \<and> set Z \<union> set T = set_mset R \<and> 0 \<notin># R \<and>
     (\<forall>b \<in># R. unat (UseCount (Bufs s b)) = count R b) \<and>
     (\<forall>b \<in> set Z. OwnerAppId (Bufs s b) \<noteq> CFE_RESOURCEID_UNDEFINED) \<and>
     (\<forall>b \<in> set T. OwnerAppId (Bufs s b) = CFE_RESOURCEID_UNDEFINED) \<and>
     SBBuffersInUse (StatTlm s) = of_nat (length Z + length T)"

text \<open>The pool holds the referenced buffers and the nodes \<open>N\<close> of the destination lists.\<close>

definition mem_ok :: "('p \<Rightarrow> pointer set \<Rightarrow> bool) \<Rightarrow> pointer multiset \<Rightarrow> pointer list \<Rightarrow> pointer set \<Rightarrow> 'p sb_state \<Rightarrow> bool" where
  "mem_ok holds R Z N s \<longleftrightarrow> (\<exists>T. bufs_ok R Z T s) \<and> holds (Pool s) (set_mset R \<union> N) \<and> set_mset R \<inter> N = {} \<and> 0 \<notin> N"

lemma bufs_ok_cong:
  assumes "LinkNext s' = LinkNext s" "LinkPrev s' = LinkPrev s" "SBBuffersInUse (StatTlm s') = SBBuffersInUse (StatTlm s)"
    "\<And>b. b \<in># R \<Longrightarrow> UseCount (Bufs s' b) = UseCount (Bufs s b) \<and> OwnerAppId (Bufs s' b) = OwnerAppId (Bufs s b)"
  shows "bufs_ok R Z T s' = bufs_ok R Z T s"
proof (cases "set Z \<union> set T = set_mset R")
  case True
  then have "b \<in># R" if "b \<in> set Z \<or> b \<in> set T" for b using that by auto
  then have "UseCount (Bufs s' b) = UseCount (Bufs s b)" "OwnerAppId (Bufs s' b) = OwnerAppId (Bufs s b)"
    if "b \<in># R \<or> b \<in> set Z \<or> b \<in> set T" for b using that assms(4) by blast+
  then show ?thesis unfolding bufs_ok_def links_ok_def assms(1-3) by (simp cong: conj_cong)
qed (simp add: bufs_ok_def)

lemma mem_ok_cong:
  assumes "LinkNext s' = LinkNext s" "LinkPrev s' = LinkPrev s" "SBBuffersInUse (StatTlm s') = SBBuffersInUse (StatTlm s)"
    "Pool s' = Pool s"
    "\<And>b. b \<in># R \<Longrightarrow> UseCount (Bufs s' b) = UseCount (Bufs s b) \<and> OwnerAppId (Bufs s' b) = OwnerAppId (Bufs s b)"
  shows "mem_ok holds R Z N s' = mem_ok holds R Z N s"
  using bufs_ok_cong [OF assms(1-3,5)] assms(4) by (simp add: mem_ok_def)

lemma mem_ok_upd_buf:
  "(b \<in># R \<Longrightarrow> UseCount (f (Bufs s b)) = UseCount (Bufs s b) \<and> OwnerAppId (f (Bufs s b)) = OwnerAppId (Bufs s b)) \<Longrightarrow>
     mem_ok holds R Z N (upd_buf b f s) = mem_ok holds R Z N s"
  by (rule mem_ok_cong) auto

lemma mem_ok_incr:
  assumes m: "mem_ok holds R Z N s" and b: "b \<in># R" and c: "count R b < 0x7FFF"
  shows "mem_ok holds (add_mset b R) Z N (CFE_SB_IncrBufUseCnt b s)"
proof -
  obtain T where t: "bufs_ok R Z T s" using m by (auto simp: mem_ok_def)
  have u: "unat (UseCount (Bufs s b)) = count R b" using t b by (simp add: bufs_ok_def)
  then have lt: "UseCount (Bufs s b) < 0x7FFF" using c by (simp add: word_less_nat_alt)
  have "unat (UseCount (Bufs s b) + 1) = Suc (count R b)" using u c by (subst unat_plus_if') auto
  then have "bufs_ok (add_mset b R) Z T (CFE_SB_IncrBufUseCnt b s)"
    using t lt b by (auto simp: bufs_ok_def CFE_SB_IncrBufUseCnt_def links_ok_def insert_absorb)
  moreover have "set_mset (add_mset b R) = set_mset R" using b by auto
  ultimately show ?thesis using m lt by (auto simp: mem_ok_def CFE_SB_IncrBufUseCnt_def)
qed

lemma Suc_length_remove1: "x \<in> set xs \<Longrightarrow> Suc (length (remove1 x xs)) = length xs"
  by (induction xs) auto

lemma set_mset_remove:
  assumes "b \<in># R"
  shows "set_mset (R - {#b#}) = (if count R b = 1 then set_mset R - {b} else set_mset R)"
proof -
  obtain Q where R: "R = add_mset b Q" using assms by (metis insert_DiffM)
  then show ?thesis by (auto simp: count_eq_zero_iff)
qed

locale sb_pool = buffer_pool "GetPoolBuf cfg" "PutPoolBuf cfg" holds
  for cfg :: "'p sb_cfg" and holds :: "'p \<Rightarrow> pointer set \<Rightarrow> bool" +
  assumes offset: "0 < unat (content_offset cfg)" "unat (content_offset cfg) < 2 ^ 30"
    and dest_size: "0 < unat (sizeof_DestinationD cfg)" "unat (sizeof_DestinationD cfg) < 2 ^ 31"

context sb_pool
begin

text \<open>Dropping a reference: the last one returns the buffer.\<close>

lemma mem_ok_decr:
  assumes m: "mem_ok holds R Z N s" and b: "b \<in># R" and z: "b \<in> set Z \<Longrightarrow> count R b = 1"
  shows "mem_ok holds (R - {#b#}) (remove1 b Z) N (CFE_SB_DecrBufUseCnt cfg b s)"
proof -
  obtain T where t: "bufs_ok R Z T s" using m by (auto simp: mem_ok_def)
  have u: "unat (UseCount (Bufs s b)) = count R b" using t b by (simp add: bufs_ok_def)
  moreover have "0 < count R b" using b by simp
  ultimately have pos: "UseCount (Bufs s b) > 0" by (simp add: word_less_nat_alt)
  have u': "unat (UseCount (Bufs s b) - 1) = count R b - 1" using u pos by (simp add: unat_sub word_le_nat_alt word_less_nat_alt)
  have H: "holds (Pool s) (set_mset R \<union> N)" "set_mset R \<inter> N = {}" "0 \<notin> N" using m by (simp_all add: mem_ok_def)
  show ?thesis
  proof (cases "count R b = 1")
    case False
    then have "UseCount (Bufs s b) - 1 \<noteq> 0" using u' \<open>0 < count R b\<close> by (metis Suc_pred' One_nat_def unat_0)
    then have s': "CFE_SB_DecrBufUseCnt cfg b s = upd_buf b (\<lambda>b. b\<lparr>UseCount := UseCount b - 1\<rparr>) s"
      using pos by (simp add: CFE_SB_DecrBufUseCnt_def Let_def)
    have "b \<notin> set Z" using z False by blast
    moreover have "set_mset (R - {#b#}) = set_mset R"
      using set_mset_remove [OF b] False by simp
    moreover have "bufs_ok (R - {#b#}) Z T (upd_buf b (\<lambda>b. b\<lparr>UseCount := UseCount b - 1\<rparr>) s)"
      using t u' calculation(2) by (simp add: bufs_ok_def links_ok_def)
    ultimately show ?thesis using H unfolding s' mem_ok_def remove1_idem [OF \<open>b \<notin> set Z\<close>] by auto
  next
    case True
    let ?s1 = "upd_buf b (\<lambda>b. b\<lparr>UseCount := UseCount b - 1\<rparr>) s"
    obtain w p' where p: "PutPoolBuf cfg b (Pool s) = (Pool_size w, p')" "holds p' ((set_mset R \<union> N) - {b})"
      using put [OF H(1), of b] b by (cases "PutPoolBuf cfg b (Pool s)") auto
    have "UseCount (Bufs s b) - 1 = 0" using u' True by (simp add: unat_eq_zero)
    then have s': "CFE_SB_DecrBufUseCnt cfg b s = CFE_SB_ReturnBufferToPool cfg b ?s1"
      using pos by (simp add: CFE_SB_DecrBufUseCnt_def Let_def)
    have links: "links_ok Z T s" and set: "set Z \<union> set T = set_mset R" using t by (simp_all add: bufs_ok_def)
    have inZT: "b \<in> set Z \<union> set T" using set b by simp
    have R: "set_mset (R - {#b#}) = set_mset R - {b}" using set_mset_remove [OF b] True by simp
    have l: "links_ok (remove1 b Z) (remove1 b T) (CFE_SB_TrackingListRemove (BufferLink b) ?s1)"
      using links_remove [of Z T ?s1 b] links inZT by (simp add: links_ok_def)
    have len: "length Z + length T = Suc (length (remove1 b Z) + length (remove1 b T))"
      using inZT links Suc_length_remove1 [of b Z] Suc_length_remove1 [of b T] unfolding links_ok_def
      by (cases "b \<in> set Z"; cases "b \<in> set T") (auto simp del: length_remove1 simp: remove1_idem)
    have "SBBuffersInUse (StatTlm s) = of_nat (length Z + length T)" using t by (simp add: bufs_ok_def)
    then have stat: "SBBuffersInUse (StatTlm s) - 1 = of_nat (length (remove1 b Z) + length (remove1 b T))"
      unfolding len by simp
    have "bufs_ok (R - {#b#}) (remove1 b Z) (remove1 b T) (CFE_SB_DecrBufUseCnt cfg b s)"
      using t l R links_distinct [OF links] stat unfolding s' bufs_ok_def
      by (auto simp: CFE_SB_ReturnBufferToPool_def TrackingListRemove_eq links_ok_def Let_def)
    moreover have "set_mset R \<union> N - {b} = set_mset (R - {#b#}) \<union> N" using R H(2) b by auto
    ultimately show ?thesis using p R H unfolding s'
      by (auto simp: mem_ok_def CFE_SB_ReturnBufferToPool_def TrackingListRemove_eq Let_def)
  qed
qed

text \<open>Allocating a message buffer makes the caller its owner.\<close>

lemma mem_ok_alloc:
  assumes m: "mem_ok holds R Z N s" and owner: "AppIdStatus c = CFE_SUCCESS \<Longrightarrow> CallerAppId c \<noteq> CFE_RESOURCEID_UNDEFINED"
    and alloc: "CFE_SB_AllocateMessageBuffer cfg c n s = (BufPtr, s')"
  shows "if BufPtr = NULL then mem_ok holds R Z N s'
    else \<exists>b. BufPtr = b + content_offset cfg \<and> b \<notin># R \<and> b \<notin> N \<and> mem_ok holds (add_mset b R) (Z @ [b]) N s'"
proof (cases "n > CFE_MISSION_SB_MAX_SB_MSG_SIZE \<or> AppIdStatus c \<noteq> CFE_SUCCESS")
  case True
  then show ?thesis using alloc m by (auto simp: CFE_SB_AllocateMessageBuffer_def split: if_splits)
next
  case False
  let ?a = "n + content_offset cfg"
  have "unat n \<le> 32768" using False by (simp add: word_less_nat_alt not_less)
  then have size: "unat ?a = unat n + unat (content_offset cfg)" using offset by (subst unat_plus_if') auto
  then have sz: "0 < unat ?a" "unat ?a < 2 ^ 31" using \<open>unat n \<le> 32768\<close> offset by simp_all
  obtain st b p' where g: "GetPoolBuf cfg ?a (Pool s) = (st, b, p')" by (cases "GetPoolBuf cfg ?a (Pool s)")
  obtain T where t: "bufs_ok R Z T s" using m by (auto simp: mem_ok_def)
  have H: "holds (Pool s) (set_mset R \<union> N)" "set_mset R \<inter> N = {}" "0 \<notin> N" using m by (simp_all add: mem_ok_def)
  show ?thesis
  proof (cases "pool_negative st")
    case True
    then have "holds p' (set_mset R \<union> N)" using get [OF H(1) sz g] by auto
    moreover have "BufPtr = NULL" "s' = s\<lparr>Pool := p'\<rparr>"
      using alloc g True False by (auto simp: CFE_SB_AllocateMessageBuffer_def CFE_SB_GetBufferFromPool_def Let_def)
    ultimately show ?thesis using t H by (auto simp: mem_ok_def bufs_ok_def links_ok_def)
  next
    case nneg: False
    then have b: "b \<noteq> 0" "b \<notin># R" "b \<notin> N" "unat b + unat ?a < 2 ^ 64" "holds p' (insert b (set_mset R \<union> N))"
      using get [OF H(1) sz g] by auto
    have "unat (b + content_offset cfg) = unat b + unat (content_offset cfg)" using b(4) size by (subst unat_plus_if') auto
    then have ptr: "b + content_offset cfg \<noteq> 0" using offset by (metis add_is_0 less_irrefl unat_0)
    obtain u where u: "CFE_SB_GetBufferFromPool cfg n s = (b, u)" "Pool u = p'"
      "LinkNext u = (LinkNext s)(BufferLink b := BufferLink b)" "LinkPrev u = (LinkPrev s)(BufferLink b := BufferLink b)"
      "SBBuffersInUse (StatTlm u) = SBBuffersInUse (StatTlm s) + 1" "UseCount (Bufs u b) = 1"
      "\<And>x. x \<noteq> b \<Longrightarrow> Bufs u x = Bufs s x"
      using g nneg by (simp add: CFE_SB_GetBufferFromPool_def Let_def CFE_SB_TrackingListReset_def)
    let ?v = "upd_buf b (\<lambda>b. b\<lparr>OwnerAppId := CallerAppId c\<rparr>) u"
    have r: "BufPtr = b + content_offset cfg"
      "s' = upd_buf b (\<lambda>b. b\<lparr>Content := memset_zero (Content b) (unat n)\<rparr>) (CFE_SB_TrackingListAdd ZeroCopyList (BufferLink b) ?v)"
      using alloc False u(1) b(1) by (auto simp: CFE_SB_AllocateMessageBuffer_def Let_def)
    have new: "b \<notin> set Z" "b \<notin> set T" using t b(2) by (auto simp: bufs_ok_def)
    have "links_ok Z T ?v"
      using links_reset [OF _ new, of s] t u(3,4) by (simp add: bufs_ok_def links_ok_def CFE_SB_TrackingListReset_def)
    then have "links_ok (Z @ [b]) T (CFE_SB_TrackingListAdd ZeroCopyList (BufferLink b) ?v)" using links_add(1) new by blast
    then have "bufs_ok (add_mset b R) (Z @ [b]) T s'"
      using t u(5-7) b(1,2) new owner False unfolding r(2)
      by (auto simp: bufs_ok_def links_ok_def CFE_SB_TrackingListAdd_def Let_def count_eq_zero_iff)
    moreover have "Pool s' = p'" using u(2) by (simp add: r(2) CFE_SB_TrackingListAdd_def Let_def)
    ultimately have "mem_ok holds (add_mset b R) (Z @ [b]) N s'" using b(3,5) H by (auto simp: mem_ok_def)
    then show ?thesis using r(1) ptr b(2,3) by auto
  qed
qed

text \<open>Sending takes a buffer from its owner.\<close>

lemma mem_ok_transit:
  assumes m: "mem_ok holds R Z N s" and b: "b \<in> set Z"
  shows "mem_ok holds R (remove1 b Z) N (CFE_SB_TrackingListAdd InTransitList (BufferLink b)
     (upd_buf b (\<lambda>b. b\<lparr>OwnerAppId := CFE_RESOURCEID_UNDEFINED\<rparr>) (CFE_SB_TrackingListRemove (BufferLink b) s)))"
proof -
  obtain T where t: "bufs_ok R Z T s" using m by (auto simp: mem_ok_def)
  have l: "links_ok Z T s" using t by (simp add: bufs_ok_def)
  have d: "distinct Z" "b \<notin> set T" using links_distinct(1) [OF l] l b by (auto simp: links_ok_def)
  let ?u = "upd_buf b (\<lambda>b. b\<lparr>OwnerAppId := CFE_RESOURCEID_UNDEFINED\<rparr>) (CFE_SB_TrackingListRemove (BufferLink b) s)"
  have "links_ok (remove1 b Z) T ?u"
    using links_remove [OF l, of b] b d(2) by (simp add: links_ok_def remove1_idem)
  then have "links_ok (remove1 b Z) (T @ [b]) (CFE_SB_TrackingListAdd InTransitList (BufferLink b) ?u)"
    using links_add(2) d by (metis DiffE remove1_idem set_remove1_eq singletonI)
  moreover have "length Z + length T = length (remove1 b Z) + length (T @ [b])"
    using Suc_length_remove1 [OF b] by simp
  ultimately have "bufs_ok R (remove1 b Z) (T @ [b]) (CFE_SB_TrackingListAdd InTransitList (BufferLink b) ?u)"
    using t d b unfolding bufs_ok_def
    by (auto simp: links_ok_def CFE_SB_TrackingListAdd_def TrackingListRemove_eq Let_def simp del: length_append length_remove1)
  then show ?thesis using m by (auto simp: mem_ok_def CFE_SB_TrackingListAdd_def TrackingListRemove_eq Let_def)
qed

lemma mem_ok_get_dest:
  assumes m: "mem_ok holds R Z N s" and g: "CFE_SB_GetDestinationBlk cfg s = (p, s')"
  shows "if p = NULL then mem_ok holds R Z N s' else p \<notin># R \<and> p \<notin> N \<and> mem_ok holds R Z (insert p N) s'"
proof -
  obtain T where t: "bufs_ok R Z T s" using m by (auto simp: mem_ok_def)
  have H: "holds (Pool s) (set_mset R \<union> N)" "set_mset R \<inter> N = {}" "0 \<notin> N" using m by (simp_all add: mem_ok_def)
  obtain st a p' where get': "GetPoolBuf cfg (sizeof_DestinationD cfg) (Pool s) = (st, a, p')"
    by (cases "GetPoolBuf cfg (sizeof_DestinationD cfg) (Pool s)")
  have b: "bufs_ok R Z T s'"
    using t g get' by (auto simp: CFE_SB_GetDestinationBlk_def bufs_ok_def links_ok_def Let_def split: if_splits)
  show ?thesis
  proof (cases "pool_negative st")
    case True
    then have "holds p' (set_mset R \<union> N)" using get [OF H(1) dest_size get'] by auto
    then show ?thesis using b H g get' True by (auto simp: mem_ok_def CFE_SB_GetDestinationBlk_def Let_def)
  next
    case False
    then have a: "a \<noteq> 0" "a \<notin># R" "a \<notin> N" "holds p' (insert a (set_mset R \<union> N))"
      using get [OF H(1) dest_size get'] by auto
    have "p = a" "Pool s' = p'" using g get' False by (auto simp: CFE_SB_GetDestinationBlk_def Let_def)
    then show ?thesis using b H a by (auto simp: mem_ok_def)
  qed
qed

lemma mem_ok_put_dest:
  assumes m: "mem_ok holds R Z N s" and p: "p \<in> N"
  shows "mem_ok holds R Z (N - {p}) (snd (CFE_SB_PutDestinationBlk cfg p s))"
proof -
  obtain T where t: "bufs_ok R Z T s" using m by (auto simp: mem_ok_def)
  have H: "holds (Pool s) (set_mset R \<union> N)" "set_mset R \<inter> N = {}" "0 \<notin> N" using m by (simp_all add: mem_ok_def)
  obtain w p' where put': "PutPoolBuf cfg p (Pool s) = (Pool_size w, p')" "holds p' (set_mset R \<union> N - {p})"
    using put [OF H(1), of p] p by (cases "PutPoolBuf cfg p (Pool s)") auto
  have p0: "p \<noteq> 0" using p H(3) by auto
  have "bufs_ok R Z T (snd (CFE_SB_PutDestinationBlk cfg p s))"
    using t put'(1) p0 by (auto simp: CFE_SB_PutDestinationBlk_def bufs_ok_def links_ok_def Let_def)
  moreover have "Pool (snd (CFE_SB_PutDestinationBlk cfg p s)) = p'"
    using put'(1) p0 by (simp add: CFE_SB_PutDestinationBlk_def Let_def)
  moreover have "set_mset R \<union> N - {p} = set_mset R \<union> (N - {p})" using p H(2) by auto
  ultimately show ?thesis using put'(2) H by (auto simp: mem_ok_def)
qed

end

section \<open>What the memory operations leave alone\<close>

lemma TrackingList_frame [simp]:
  "Routing (CFE_SB_TrackingListReset x s) = Routing s" "Dests (CFE_SB_TrackingListReset x s) = Dests s"
  "PipeTbl (CFE_SB_TrackingListReset x s) = PipeTbl s" "Queues (CFE_SB_TrackingListReset x s) = Queues s"
  "Bufs (CFE_SB_TrackingListReset x s) = Bufs s" "StatTlm (CFE_SB_TrackingListReset x s) = StatTlm s"
  "Routing (CFE_SB_TrackingListRemove x s) = Routing s" "Dests (CFE_SB_TrackingListRemove x s) = Dests s"
  "PipeTbl (CFE_SB_TrackingListRemove x s) = PipeTbl s" "Queues (CFE_SB_TrackingListRemove x s) = Queues s"
  "Bufs (CFE_SB_TrackingListRemove x s) = Bufs s" "StatTlm (CFE_SB_TrackingListRemove x s) = StatTlm s"
  "Routing (CFE_SB_TrackingListAdd l x s) = Routing s" "Dests (CFE_SB_TrackingListAdd l x s) = Dests s"
  "PipeTbl (CFE_SB_TrackingListAdd l x s) = PipeTbl s" "Queues (CFE_SB_TrackingListAdd l x s) = Queues s"
  "Bufs (CFE_SB_TrackingListAdd l x s) = Bufs s" "StatTlm (CFE_SB_TrackingListAdd l x s) = StatTlm s"
  by (simp_all add: CFE_SB_TrackingListReset_def CFE_SB_TrackingListRemove_def CFE_SB_TrackingListAdd_def Let_def)

lemma DecrBufUseCnt_frame [simp]:
  "Routing (CFE_SB_DecrBufUseCnt cfg b s) = Routing s" "Dests (CFE_SB_DecrBufUseCnt cfg b s) = Dests s"
  "PipeTbl (CFE_SB_DecrBufUseCnt cfg b s) = PipeTbl s" "Queues (CFE_SB_DecrBufUseCnt cfg b s) = Queues s"
  "PipesInUse (StatTlm (CFE_SB_DecrBufUseCnt cfg b s)) = PipesInUse (StatTlm s)"
  "SubscriptionsInUse (StatTlm (CFE_SB_DecrBufUseCnt cfg b s)) = SubscriptionsInUse (StatTlm s)"
  "MsgIdsInUse (StatTlm (CFE_SB_DecrBufUseCnt cfg b s)) = MsgIdsInUse (StatTlm s)"
  by (simp_all add: CFE_SB_DecrBufUseCnt_def CFE_SB_ReturnBufferToPool_def Let_def)

lemma IncrBufUseCnt_frame [simp]:
  "Routing (CFE_SB_IncrBufUseCnt b s) = Routing s" "Dests (CFE_SB_IncrBufUseCnt b s) = Dests s"
  "PipeTbl (CFE_SB_IncrBufUseCnt b s) = PipeTbl s" "Queues (CFE_SB_IncrBufUseCnt b s) = Queues s"
  "StatTlm (CFE_SB_IncrBufUseCnt b s) = StatTlm s"
  by (simp_all add: CFE_SB_IncrBufUseCnt_def)

lemma GetBufferFromPool_frame:
  "CFE_SB_GetBufferFromPool cfg n s = (b, s') \<Longrightarrow> Routing s' = Routing s \<and> Dests s' = Dests s \<and> PipeTbl s' = PipeTbl s \<and>
     Queues s' = Queues s \<and> PipesInUse (StatTlm s') = PipesInUse (StatTlm s) \<and>
     SubscriptionsInUse (StatTlm s') = SubscriptionsInUse (StatTlm s) \<and> MsgIdsInUse (StatTlm s') = MsgIdsInUse (StatTlm s)"
  by (auto simp: CFE_SB_GetBufferFromPool_def Let_def split: if_splits prod.splits)

lemma AllocateMessageBuffer_frame:
  "CFE_SB_AllocateMessageBuffer cfg c n s = (p, s') \<Longrightarrow> Routing s' = Routing s \<and> Dests s' = Dests s \<and> PipeTbl s' = PipeTbl s \<and>
     Queues s' = Queues s \<and> PipesInUse (StatTlm s') = PipesInUse (StatTlm s) \<and>
     SubscriptionsInUse (StatTlm s') = SubscriptionsInUse (StatTlm s) \<and> MsgIdsInUse (StatTlm s') = MsgIdsInUse (StatTlm s)"
  by (auto simp: CFE_SB_AllocateMessageBuffer_def Let_def split: if_splits prod.splits dest: GetBufferFromPool_frame)

lemma DestinationBlk_frame:
  "CFE_SB_GetDestinationBlk cfg s = (p, s') \<Longrightarrow> Routing s' = Routing s \<and> Dests s' = Dests s \<and> PipeTbl s' = PipeTbl s \<and>
     Queues s' = Queues s \<and> PipesInUse (StatTlm s') = PipesInUse (StatTlm s) \<and>
     SubscriptionsInUse (StatTlm s') = SubscriptionsInUse (StatTlm s) \<and> MsgIdsInUse (StatTlm s') = MsgIdsInUse (StatTlm s)"
  by (auto simp: CFE_SB_GetDestinationBlk_def Let_def split: if_splits prod.splits)

lemma PutDestinationBlk_frame [simp]:
  "Routing (snd (CFE_SB_PutDestinationBlk cfg p s)) = Routing s" "Dests (snd (CFE_SB_PutDestinationBlk cfg p s)) = Dests s"
  "PipeTbl (snd (CFE_SB_PutDestinationBlk cfg p s)) = PipeTbl s" "Queues (snd (CFE_SB_PutDestinationBlk cfg p s)) = Queues s"
  "PipesInUse (StatTlm (snd (CFE_SB_PutDestinationBlk cfg p s))) = PipesInUse (StatTlm s)"
  "SubscriptionsInUse (StatTlm (snd (CFE_SB_PutDestinationBlk cfg p s))) = SubscriptionsInUse (StatTlm s)"
  "MsgIdsInUse (StatTlm (snd (CFE_SB_PutDestinationBlk cfg p s))) = MsgIdsInUse (StatTlm s)"
  by (auto simp: CFE_SB_PutDestinationBlk_def Let_def split: prod.splits pool_status.splits)

end
