(* ===== verification/CFS_SbDest.thy ===== *)
theory CFS_SbDest
  imports CFS_SbMem
begin

text \<open>
  Destination lists (\<^verbatim>\<open>CFE_SB_AddDestNode\<close>, \<^verbatim>\<open>CFE_SB_RemoveDestNode\<close>, \<^verbatim>\<open>CFE_SB_GetDestPtr\<close>): each is a
  doubly linked list of distinct nodes that starts at the head pointer of its route, and the lists of different routes are
  disjoint.
\<close>

section \<open>Destination lists\<close>

text \<open>The list from \<open>h\<close> through the nodes \<open>ps\<close>: a ring closed by the pointer NULL.\<close>

definition dest_list :: "(pointer \<Rightarrow> CFE_SB_DestinationD_t) \<Rightarrow> pointer \<Rightarrow> pointer list \<Rightarrow> bool" where
  "dest_list ds h ps \<longleftrightarrow>
     ring (\<lambda>u. if u = NULL then h else Next (ds u)) (\<lambda>v. if v = NULL then last (NULL # ps) else Prev (ds v)) NULL ps"

lemma dest_list_Nil [simp]: "dest_list ds h [] \<longleftrightarrow> h = NULL"
  by (simp add: dest_list_def)

lemma dest_list_nodes: "dest_list ds h ps \<Longrightarrow> distinct ps" "dest_list ds h ps \<Longrightarrow> NULL \<notin> set ps"
  unfolding dest_list_def by (rule ring_distinct; assumption)+

lemma dest_list_head: "dest_list ds h ps \<Longrightarrow> h = hd (ps @ [NULL])"
  unfolding dest_list_def using ring_head(1) by force

lemma dest_list_neighbours:
  assumes "dest_list ds h (xs @ x # ys)"
  shows "x \<noteq> NULL" "Next (ds x) = hd (ys @ [NULL])" "Prev (ds x) = last (NULL # xs)"
proof -
  show x: "x \<noteq> NULL" using dest_list_nodes(2) [OF assms] by auto
  note ring_neighbours(1,2) [OF assms [unfolded dest_list_def]]
  then show "Next (ds x) = hd (ys @ [NULL])" "Prev (ds x) = last (NULL # xs)" using x by simp_all
qed

lemma dest_list_cong:
  "(\<And>x. x \<in> set ps \<Longrightarrow> Next (ds' x) = Next (ds x) \<and> Prev (ds' x) = Prev (ds x)) \<Longrightarrow> dest_list ds' h ps = dest_list ds h ps"
  unfolding dest_list_def by (rule ring_cong) auto

lemma dest_list_walk: "dest_list ds h ps \<Longrightarrow> length ps \<le> n \<Longrightarrow> walk n (\<lambda>u. Next (ds u)) NULL h = ps"
proof -
  have "walk n (\<lambda>u. Next (ds u)) NULL (hd (ys @ [NULL])) = ys" if "dest_list ds h (zs @ ys)" "length ys \<le> n" for zs ys
    using that
  proof (induction ys arbitrary: zs n)
    case Nil
    then show ?case by (cases n) simp_all
  next
    case (Cons y ys)
    obtain k where n: "n = Suc k" using Cons.prems(2) by (cases n) auto
    have "walk k (\<lambda>u. Next (ds u)) NULL (hd (ys @ [NULL])) = ys" using Cons.IH [of "zs @ [y]" k] Cons.prems n by simp
    then show ?case using dest_list_neighbours [OF Cons.prems(1)] n by simp
  qed
  from this [of "[]" ps] show "dest_list ds h ps \<Longrightarrow> length ps \<le> n \<Longrightarrow> walk n (\<lambda>u. Next (ds u)) NULL h = ps"
    using dest_list_head by force
qed

abbreviation (input) ptr_of :: "pointer option \<Rightarrow> pointer" where "ptr_of p \<equiv> case p of None \<Rightarrow> NULL | Some x \<Rightarrow> x"

text \<open>The search for a pipe's destination ends, and is the search in the list.\<close>

lemma find_dest_from:
  "dest_list ds h (xs @ ys) \<Longrightarrow> find_dest ds pid (hd (ys @ [NULL])) = Some (ptr_of (List.find (\<lambda>p. DestPipeId (ds p) = pid) ys))"
proof (induction ys arbitrary: xs)
  case Nil
  then show ?case by (simp add: find_dest.simps)
next
  case (Cons y ys)
  note n = dest_list_neighbours [OF Cons.prems]
  have "find_dest ds pid (hd (ys @ [NULL])) = Some (ptr_of (List.find (\<lambda>p. DestPipeId (ds p) = pid) ys))"
    using Cons.IH [of "xs @ [y]"] Cons.prems by simp
  then show ?case using n by (subst find_dest.simps) simp
qed

lemma find_dest_list:
  "dest_list ds h ps \<Longrightarrow> find_dest ds pid h = Some (ptr_of (List.find (\<lambda>p. DestPipeId (ds p) = pid) ps))"
  using find_dest_from [of ds h "[]" ps pid] dest_list_head by fastforce

text \<open>The scan of a new subscription ends as well.\<close>

lemma scan_dests_from:
  "dest_list ds h (xs @ ys) \<Longrightarrow> n + length ys \<le> 16 \<Longrightarrow> n < 16 \<Longrightarrow>
   scan_dests ds pid (hd (ys @ [NULL])) n =
     Some (case List.find (\<lambda>p. DestPipeId (ds p) = pid) ys of
             Some p \<Rightarrow> (p, CFE_SB_DUP_SUBSCRIP_EID, CFE_SUCCESS)
           | None \<Rightarrow> if n + length ys = 16 then (last ys, CFE_SB_MAX_DESTS_MET_EID, CFE_SB_MAX_DESTS_MET)
                     else (NULL, 0, CFE_SUCCESS))"
proof (induction ys arbitrary: xs n)
  case Nil
  then show ?case by (simp add: scan_dests.simps)
next
  case (Cons y ys)
  note nb = dest_list_neighbours [OF Cons.prems(1)]
  show ?case
  proof (cases "DestPipeId (ds y) = pid")
    case True
    then show ?thesis using nb by (subst scan_dests.simps) simp
  next
    case False
    show ?thesis
    proof (cases "n + 1 \<ge> 16")
      case True
      then have "ys = []" "n = 15" using Cons.prems(2,3) by (cases ys; simp)+
      then show ?thesis using nb False by (subst scan_dests.simps) simp
    next
      case small: False
      have "scan_dests ds pid (hd (ys @ [NULL])) (n + 1) = Some (case List.find (\<lambda>p. DestPipeId (ds p) = pid) ys of
             Some p \<Rightarrow> (p, CFE_SB_DUP_SUBSCRIP_EID, CFE_SUCCESS)
           | None \<Rightarrow> if (n + 1) + length ys = 16 then (last ys, CFE_SB_MAX_DESTS_MET_EID, CFE_SB_MAX_DESTS_MET)
                     else (NULL, 0, CFE_SUCCESS))"
        by (rule Cons.IH [of "xs @ [y]"]) (use Cons.prems small in simp_all)
      then show ?thesis using nb False small
        by (subst scan_dests.simps) (auto split: option.splits)
    qed
  qed
qed

lemma scan_dests_list:
  "dest_list ds h ps \<Longrightarrow> length ps \<le> 16 \<Longrightarrow> scan_dests ds pid h 0 =
     Some (case List.find (\<lambda>p. DestPipeId (ds p) = pid) ps of
             Some p \<Rightarrow> (p, CFE_SB_DUP_SUBSCRIP_EID, CFE_SUCCESS)
           | None \<Rightarrow> if length ps = 16 then (last ps, CFE_SB_MAX_DESTS_MET_EID, CFE_SB_MAX_DESTS_MET)
                     else (NULL, 0, CFE_SUCCESS))"
  using scan_dests_from [of ds h "[]" ps 0 pid] dest_list_head [of ds h ps] by simp

text \<open>What is linked does not change what a destination says.\<close>

definition same_dest :: "CFE_SB_DestinationD_t \<Rightarrow> CFE_SB_DestinationD_t \<Rightarrow> bool" where
  "same_dest d d' \<longleftrightarrow> d'\<lparr>Next := NULL, Prev := NULL\<rparr> = d\<lparr>Next := NULL, Prev := NULL\<rparr>"

lemma same_destD:
  "same_dest d d' \<Longrightarrow> DestPipeId d' = DestPipeId d \<and> Active d' = Active d \<and> MsgId2PipeLim d' = MsgId2PipeLim d \<and>
     BuffCount d' = BuffCount d \<and> DestCnt d' = DestCnt d \<and> Scope d' = Scope d"
  by (cases d; cases d') (simp add: same_dest_def)

lemma same_dest_simps [simp]: "same_dest d d" "same_dest (d\<lparr>Next := a\<rparr>) d' = same_dest d d'" "same_dest d (d'\<lparr>Next := a\<rparr>) = same_dest d d'"
  "same_dest (d\<lparr>Prev := a\<rparr>) d' = same_dest d d'" "same_dest d (d'\<lparr>Prev := a\<rparr>) = same_dest d d'"
  by (auto simp: same_dest_def)

lemma AddDestNode_Dests:
  assumes l: "dest_list (Dests s) h ps" and h: "h = CFE_SBR_GetDestListHeadPtr (Routing s) Route"
    and x: "x \<notin> set ps" "x \<noteq> NULL"
  shows "dest_list (Dests (CFE_SB_AddDestNode Route x s)) x (x # ps)"
    "same_dest (Dests s p) (Dests (CFE_SB_AddDestNode Route x s) p)"
    "p \<notin> set (x # ps) \<Longrightarrow> Dests (CFE_SB_AddDestNode Route x s) p = Dests s p"
    "CFE_SB_AddDestNode Route x s = s\<lparr>Dests := Dests (CFE_SB_AddDestNode Route x s),
       Routing := CFE_SBR_SetDestListHeadPtr (Routing s) Route x\<rparr>"
proof -
  let ?n = "\<lambda>u. if u = NULL then h else Next (Dests s u)" and ?p = "\<lambda>v. if v = NULL then last (NULL # ps) else Prev (Dests s v)"
  have hd: "h = hd (ps @ [NULL])" by (rule dest_list_head [OF l])
  have hin: "h = NULL \<or> h \<in> set ps" using hd by (cases ps) simp_all
  have D: "Dests (CFE_SB_AddDestNode Route x s) =
      (if h = NULL then (Dests s)(x := (Dests s x)\<lparr>Next := NULL, Prev := NULL\<rparr>)
       else (Dests s)(x := (Dests s x)\<lparr>Next := h, Prev := NULL\<rparr>, h := (Dests s h)\<lparr>Prev := x\<rparr>))"
    using h hin x by (auto simp: CFE_SB_AddDestNode_def set_dest_head_def Let_def)
  have "ring (?n(NULL := x, x := h)) (?p(h := x, x := NULL)) NULL ([] @ x # ps)"
  proof (rule ring_insert [of _ _ _ "[]"])
    show "ring ?n ?p NULL ([] @ ps)" using l by (simp only: dest_list_def append_Nil)
  qed (use x hd in simp_all)
  moreover have "ring (\<lambda>u. if u = NULL then x else Next (Dests (CFE_SB_AddDestNode Route x s) u))
      (\<lambda>v. if v = NULL then last (NULL # x # ps) else Prev (Dests (CFE_SB_AddDestNode Route x s) v)) NULL (x # ps) =
    ring (?n(NULL := x, x := h)) (?p(h := x, x := NULL)) NULL (x # ps)"
    using x hin dest_list_nodes(2) [OF l] hd unfolding D by (intro ring_cong) (cases ps; auto)
  ultimately show "dest_list (Dests (CFE_SB_AddDestNode Route x s)) x (x # ps)" by (simp add: dest_list_def)
  show "same_dest (Dests s p) (Dests (CFE_SB_AddDestNode Route x s) p)" unfolding D by auto
  show "p \<notin> set (x # ps) \<Longrightarrow> Dests (CFE_SB_AddDestNode Route x s) p = Dests s p" using hin unfolding D by auto
  show "CFE_SB_AddDestNode Route x s = s\<lparr>Dests := Dests (CFE_SB_AddDestNode Route x s),
       Routing := CFE_SBR_SetDestListHeadPtr (Routing s) Route x\<rparr>"
    by (simp add: CFE_SB_AddDestNode_def set_dest_head_def Let_def)
qed

lemma RemoveDestNode_Dests:
  assumes l: "dest_list (Dests s) h (xs @ x # ys)"
  shows "dest_list (Dests (CFE_SB_RemoveDestNode Route x s)) (hd (xs @ ys @ [NULL])) (xs @ ys)"
    "p \<noteq> x \<Longrightarrow> same_dest (Dests s p) (Dests (CFE_SB_RemoveDestNode Route x s) p)"
    "p \<notin> set (xs @ x # ys) \<Longrightarrow> Dests (CFE_SB_RemoveDestNode Route x s) p = Dests s p"
    "CFE_SB_RemoveDestNode Route x s = s\<lparr>Dests := Dests (CFE_SB_RemoveDestNode Route x s),
       Routing := if xs = [] then CFE_SBR_SetDestListHeadPtr (Routing s) Route (hd (ys @ [NULL])) else Routing s\<rparr>"
proof -
  let ?a = "last (NULL # xs)" and ?b = "hd (ys @ [NULL])"
  note n = dest_list_neighbours [OF l]
  have d: "distinct (xs @ x # ys)" "NULL \<notin> set (xs @ x # ys)" using dest_list_nodes [OF l] by simp_all
  have a: "?a = NULL \<longleftrightarrow> xs = []" using d(2) by (cases xs rule: rev_cases) auto
  have b: "?b = NULL \<longleftrightarrow> ys = []" using d(2) by (cases ys) auto
  have ain: "?a = NULL \<or> ?a \<in> set xs" by (cases xs rule: rev_cases) auto
  have bin: "?b = NULL \<or> ?b \<in> set ys" by (cases ys) auto
  have ab: "?a \<noteq> x" "?b \<noteq> x" "?a = ?b \<Longrightarrow> ?a = NULL" using ain bin d by auto
  let ?D = "Dests (CFE_SB_RemoveDestNode Route x s)"
  have D: "?D = (\<lambda>u. if u = x then (Dests s x)\<lparr>Next := NULL, Prev := NULL\<rparr>
      else if u = ?a \<and> u \<noteq> NULL then (Dests s u)\<lparr>Next := ?b\<rparr>
      else if u = ?b \<and> u \<noteq> NULL then (Dests s u)\<lparr>Prev := ?a\<rparr> else Dests s u)"
    using n ab unfolding CFE_SB_RemoveDestNode_def set_dest_head_def Let_def
    by (auto simp: fun_eq_iff simp del: last.simps)
  let ?n = "\<lambda>u. if u = NULL then h else Next (Dests s u)" and ?p = "\<lambda>v. if v = NULL then last (NULL # xs @ x # ys) else Prev (Dests s v)"
  have "ring (?n(?p x := ?n x)) (?p(?n x := ?p x)) NULL (xs @ ys)"
    by (rule ring_join) (use l in \<open>simp add: dest_list_def\<close>)
  moreover have "ring (\<lambda>u. if u = NULL then hd (xs @ ys @ [NULL]) else Next (?D u))
      (\<lambda>v. if v = NULL then last (NULL # xs @ ys) else Prev (?D v)) NULL (xs @ ys) =
    ring (?n(?p x := ?n x)) (?p(?n x := ?p x)) NULL (xs @ ys)"
  proof (rule ring_cong)
    fix u assume u: "u \<in> set (NULL # xs @ ys)"
    have h: "h = hd (xs @ x # ys @ [NULL])" using dest_list_head [OF l] by simp
    have px: "?p x = ?a" "?n x = ?b" using n by (simp_all del: last.simps)
    show "(if u = NULL then hd (xs @ ys @ [NULL]) else Next (?D u)) = (?n(?p x := ?n x)) u \<and>
       (if u = NULL then last (NULL # xs @ ys) else Prev (?D u)) = (?p(?n x := ?p x)) u"
    proof (cases "u = NULL")
      case True
      have "hd (xs @ ys @ [NULL]) = (?n(?a := ?b)) NULL" using a h by (cases xs) auto
      moreover have "last (NULL # xs @ ys) = (?p(?b := ?a)) NULL" using b by (cases ys) auto
      ultimately show ?thesis unfolding px True by simp
    next
      case False
      then have "u \<noteq> x" using u d by auto
      then show ?thesis unfolding px D using False ab by (auto simp del: last.simps)
    qed
  qed
  ultimately show "dest_list ?D (hd (xs @ ys @ [NULL])) (xs @ ys)" by (simp add: dest_list_def)
  show "p \<noteq> x \<Longrightarrow> same_dest (Dests s p) (?D p)" unfolding D by auto
  show "p \<notin> set (xs @ x # ys) \<Longrightarrow> ?D p = Dests s p" using ain bin unfolding D by auto
  show "CFE_SB_RemoveDestNode Route x s = s\<lparr>Dests := ?D,
       Routing := if xs = [] then CFE_SBR_SetDestListHeadPtr (Routing s) Route ?b else Routing s\<rparr>"
    using n a b unfolding CFE_SB_RemoveDestNode_def set_dest_head_def Let_def by (auto simp del: last.simps)
qed

section \<open>The destinations of all routes\<close>

definition route_head :: "'p sb_state \<Rightarrow> nat \<Rightarrow> pointer" where
  "route_head s i = ListHeadPtr (RoutingTbl (Routing s) i)"

text \<open>The destinations of the route with table index \<open>i\<close>, in list order.\<close>

definition dests_of :: "'p sb_state \<Rightarrow> nat \<Rightarrow> pointer list" where
  "dests_of s i = walk 16 (\<lambda>u. Next (Dests s u)) NULL (route_head s i)"

definition dests_ok :: "(nat \<Rightarrow> pointer list) \<Rightarrow> 'p sb_state \<Rightarrow> bool" where
  "dests_ok D s \<longleftrightarrow>
     (\<forall>i < 256. dest_list (Dests s) (route_head s i) (D i) \<and> length (D i) \<le> 16 \<and>
        distinct (map (\<lambda>p. DestPipeId (Dests s p)) (D i))) \<and>
     (\<forall>i. i \<ge> top_idx (Routing s) \<longrightarrow> D i = []) \<and> (\<forall>i j p. p \<in> set (D i) \<longrightarrow> p \<in> set (D j) \<longrightarrow> i = j)"

definition nodes :: "(nat \<Rightarrow> pointer list) \<Rightarrow> pointer set" where
  "nodes D = (\<Union>i. set (D i))"

lemma dests_okD:
  assumes "dests_ok D s" "i < 256"
  shows "dest_list (Dests s) (route_head s i) (D i)" "length (D i) \<le> 16" "distinct (map (\<lambda>p. DestPipeId (Dests s p)) (D i))"
    "dests_of s i = D i"
  using assms dest_list_walk by (auto simp: dests_ok_def dests_of_def)

lemma dests_ok_disjoint: "dests_ok D s \<Longrightarrow> p \<in> set (D i) \<Longrightarrow> p \<in> set (D j) \<Longrightarrow> i = j"
  unfolding dests_ok_def by blast

lemma dests_ok_null: "dests_ok D s \<Longrightarrow> sbr_inv h (Routing s) \<Longrightarrow> NULL \<notin> nodes D"
proof -
  assume d: "dests_ok D s" and "sbr_inv h (Routing s)"
  then have top: "top_idx (Routing s) \<le> 256" by (simp add: sbr_inv_def routes_ok_def)
  have "NULL \<notin> set (D i)" for i
  proof (cases "i < 256")
    case True
    then show ?thesis using dests_okD(1) [OF d] dest_list_nodes(2) by blast
  next
    case False
    then show ?thesis using d top by (simp add: dests_ok_def)
  qed
  then show ?thesis by (simp add: nodes_def)
qed

lemma dests_ok_cong:
  assumes "RoutingTbl (Routing s') = RoutingTbl (Routing s) \<or> (\<forall>i. route_head s' i = route_head s i)"
    "RouteIdxTop (Routing s') = RouteIdxTop (Routing s)"
    "\<And>p. p \<in> nodes D \<Longrightarrow> Next (Dests s' p) = Next (Dests s p) \<and> Prev (Dests s' p) = Prev (Dests s p) \<and>
        DestPipeId (Dests s' p) = DestPipeId (Dests s p)"
  shows "dests_ok D s' = dests_ok D s"
proof -
  have h: "route_head s' i = route_head s i" for i using assms(1) by (auto simp: route_head_def)
  have p: "Next (Dests s' p) = Next (Dests s p) \<and> Prev (Dests s' p) = Prev (Dests s p) \<and>
        DestPipeId (Dests s' p) = DestPipeId (Dests s p)" if "p \<in> set (D i)" for p i
    using assms(3) that by (auto simp: nodes_def)
  have "dest_list (Dests s') (route_head s i) (D i) = dest_list (Dests s) (route_head s i) (D i)" for i
    using p by (intro dest_list_cong) blast
  moreover have "map (\<lambda>p. DestPipeId (Dests s' p)) (D i) = map (\<lambda>p. DestPipeId (Dests s p)) (D i)" for i
    using p by simp
  ultimately show ?thesis unfolding dests_ok_def h assms(2) by (simp only:)
qed

lemma valid_rid: "CFE_SBR_IsValidRouteId r \<Longrightarrow> \<exists>i < 256. r = rid i"
proof -
  assume "CFE_SBR_IsValidRouteId r"
  then have v: "RouteId r \<noteq> 0" "unat (RouteId r) \<le> 256"
    by (auto simp: CFE_SBR_IsValidRouteId_def word_le_nat_alt)
  then have "0 < unat (RouteId r)" by (simp add: unat_gt_0)
  then have "of_nat (Suc (unat (RouteId r) - 1)) = RouteId r" by simp
  then have "r = rid (unat (RouteId r) - 1)" unfolding rid_def by (metis CFE_SBR_RouteId_t.collapse)
  moreover have "unat (RouteId r) - 1 < 256" using v(2) \<open>0 < unat (RouteId r)\<close> by simp
  ultimately show ?thesis by blast
qed

lemma head_rid: "i < 256 \<Longrightarrow> CFE_SBR_GetDestListHeadPtr (Routing s) (rid i) = route_head s i"
  by (simp add: CFE_SBR_GetDestListHeadPtr_def route_head_def)

lemma GetDestPtr_rid:
  "dests_ok D s \<Longrightarrow> i < 256 \<Longrightarrow>
     CFE_SB_GetDestPtr (rid i) pid s = Some (ptr_of (List.find (\<lambda>p. DestPipeId (Dests s p) = pid) (D i)))"
  unfolding CFE_SB_GetDestPtr_def head_rid by (rule find_dest_list) (rule dests_okD)

lemma GetDestPtr_ends:
  assumes "dests_ok D s"
  obtains p where "CFE_SB_GetDestPtr r pid s = Some p" "p = NULL \<or> p \<in> nodes D"
proof (cases "CFE_SBR_IsValidRouteId r")
  case True
  then obtain i where i: "i < 256" "r = rid i" using valid_rid by blast
  let ?f = "List.find (\<lambda>p. DestPipeId (Dests s p) = pid) (D i)"
  have "?f = Some p \<Longrightarrow> p \<in> set (D i)" for p by (auto simp: find_Some_iff)
  then have "ptr_of ?f = NULL \<or> ptr_of ?f \<in> nodes D" by (cases ?f) (auto simp: nodes_def)
  then show ?thesis using that GetDestPtr_rid [OF assms i(1)] i(2) by simp
next
  case False
  then show ?thesis using that by (simp add: CFE_SB_GetDestPtr_def CFE_SBR_GetDestListHeadPtr_def find_dest.simps)
qed

lemma SetHead_simps:
  "i < 256 \<Longrightarrow> RouteIdxTop (CFE_SBR_SetDestListHeadPtr r (rid i) p) = RouteIdxTop r"
  "i < 256 \<Longrightarrow> ListHeadPtr (RoutingTbl (CFE_SBR_SetDestListHeadPtr r (rid i) p) j) = (if j = i then p else ListHeadPtr (RoutingTbl r j))"
  "i < 256 \<Longrightarrow> sbr_inv h (CFE_SBR_SetDestListHeadPtr r (rid i) p) = sbr_inv h r"
  "MsgId (RoutingTbl (CFE_SBR_SetDestListHeadPtr r (rid i) p) j) = MsgId (RoutingTbl r j)"
  by (simp_all add: CFE_SBR_SetDestListHeadPtr_def update_entry_inv) (simp_all add: update_entry_def)

lemma dests_ok_add:
  assumes d: "dests_ok D s" and i: "i < top_idx (Routing s)" "i < 256" and p: "p \<notin> nodes D" "p \<noteq> NULL"
    and len: "length (D i) < 16" and pid: "\<And>q. q \<in> set (D i) \<Longrightarrow> DestPipeId (Dests s q) \<noteq> DestPipeId (Dests s p)"
  shows "dests_ok (D(i := p # D i)) (CFE_SB_AddDestNode (rid i) p s)"
proof -
  let ?s = "CFE_SB_AddDestNode (rid i) p s"
  have pi: "p \<notin> set (D j)" for j using p(1) by (auto simp: nodes_def)
  note A = AddDestNode_Dests [OF dests_okD(1) [OF d i(2)] head_rid [OF i(2), symmetric] pi [of i] p(2)]
  have R: "Routing ?s = CFE_SBR_SetDestListHeadPtr (Routing s) (rid i) p" by (subst A(4)) simp
  have h: "route_head ?s j = (if j = i then p else route_head s j)" for j
    unfolding route_head_def R SetHead_simps(2) [OF i(2)] by simp
  have id: "DestPipeId (Dests ?s q) = DestPipeId (Dests s q)" for q using same_destD [OF A(2)] by blast
  have other: "dest_list (Dests ?s) (route_head s j) (D j)" if "j \<noteq> i" "j < 256" for j
  proof -
    have "Dests ?s q = Dests s q" if "q \<in> set (D j)" for q
    proof (rule A(3))
      show "q \<notin> set (p # D i)" using pi [of j] that \<open>j \<noteq> i\<close> dests_ok_disjoint [OF d, of q i j] by auto
    qed
    then show ?thesis using dests_okD(1) [OF d that(2)] dest_list_cong [of "D j" "Dests ?s" "Dests s"] by auto
  qed
  show ?thesis
    unfolding dests_ok_def
  proof (intro conjI allI impI)
    fix j
    show "dest_list (Dests ?s) (route_head ?s j) ((D(i := p # D i)) j)" if "j < 256"
      using A(1) other that h by auto
    show "length ((D(i := p # D i)) j) \<le> 16" if "j < 256" using len dests_okD(2) [OF d that] by simp
    show "distinct (map (\<lambda>q. DestPipeId (Dests ?s q)) ((D(i := p # D i)) j))" if "j < 256"
      using pid dests_okD(3) [OF d that] by (force simp: id)
    show "(D(i := p # D i)) j = []" if "top_idx (Routing ?s) \<le> j"
      using d that i by (auto simp: R SetHead_simps(1) dests_ok_def)
    show "j = k" if "q \<in> set ((D(i := p # D i)) j)" "q \<in> set ((D(i := p # D i)) k)" for q k
    proof (cases "q = p")
      case True
      then show ?thesis using that pi by (auto split: if_splits)
    next
      case False
      then have "q \<in> set (D j)" "q \<in> set (D k)" using that by (auto split: if_splits)
      then show ?thesis using dests_ok_disjoint [OF d] by blast
    qed
  qed
qed

lemma dests_ok_remove:
  assumes d: "dests_ok D s" and i: "i < 256" and p: "p \<in> set (D i)"
  shows "dests_ok (D(i := remove1 p (D i))) (CFE_SB_RemoveDestNode (rid i) p s)"
    "q \<noteq> p \<Longrightarrow> same_dest (Dests s q) (Dests (CFE_SB_RemoveDestNode (rid i) p s) q)"
    "sbr_inv h (Routing (CFE_SB_RemoveDestNode (rid i) p s)) = sbr_inv h (Routing s)"
    "\<exists>ds r. CFE_SB_RemoveDestNode (rid i) p s = s\<lparr>Dests := ds, Routing := r\<rparr> \<and> RouteIdxTop r = RouteIdxTop (Routing s) \<and>
       msgid_at r = msgid_at (Routing s)"
proof -
  let ?s = "CFE_SB_RemoveDestNode (rid i) p s"
  obtain xs ys where D: "D i = xs @ p # ys" "p \<notin> set xs" using p by (metis split_list_first)
  note A = RemoveDestNode_Dests [OF dests_okD(1) [OF d i, unfolded D(1)]]
  have R: "Routing ?s = (if xs = [] then CFE_SBR_SetDestListHeadPtr (Routing s) (rid i) (hd (ys @ [NULL])) else Routing s)"
    by (subst A(4)) simp
  have top: "RouteIdxTop (Routing ?s) = RouteIdxTop (Routing s)" using R SetHead_simps(1) [OF i] by simp
  have hi: "route_head s i = hd (xs @ p # ys @ [NULL])" using dest_list_head [OF dests_okD(1) [OF d i]] D(1) by simp
  have h: "route_head ?s j = (if j = i then hd (xs @ ys @ [NULL]) else route_head s j)" for j
    unfolding route_head_def R using SetHead_simps(2) [OF i] hi by (cases xs) (auto simp: route_head_def)
  have rm: "remove1 p (D i) = xs @ ys" using D by (simp add: remove1_append)
  have dn: "p \<notin> set xs" "p \<notin> set ys" using dest_list_nodes(1) [OF dests_okD(1) [OF d i]] D(1) by auto
  have id: "DestPipeId (Dests ?s q) = DestPipeId (Dests s q)" if "q \<noteq> p" for q using same_destD [OF A(2) [OF that]] by blast
  have ids: "map (\<lambda>q. DestPipeId (Dests ?s q)) (D j) = map (\<lambda>q. DestPipeId (Dests s q)) (D j)" if "j \<noteq> i" for j
    using dests_ok_disjoint [OF d, of p i j] that p by (auto intro!: id)
  have idi: "map (\<lambda>q. DestPipeId (Dests ?s q)) (xs @ ys) = map (\<lambda>q. DestPipeId (Dests s q)) (xs @ ys)"
    using dn by (auto intro!: id)
  have other: "dest_list (Dests ?s) (route_head s j) (D j)" if "j \<noteq> i" "j < 256" for j
  proof -
    have "Dests ?s q = Dests s q" if "q \<in> set (D j)" for q
      using A(3) that \<open>j \<noteq> i\<close> dests_ok_disjoint [OF d, of q i j] D(1) by auto
    then show ?thesis using dests_okD(1) [OF d that(2)] dest_list_cong [of "D j" "Dests ?s" "Dests s"] by auto
  qed
  have len: "length (xs @ ys) \<le> 16" using dests_okD(2) [OF d i] D(1) by simp
  have dist: "distinct (map (\<lambda>q. DestPipeId (Dests s q)) (xs @ ys))" using dests_okD(3) [OF d i] D(1) by auto
  show "dests_ok (D(i := remove1 p (D i))) ?s"
    unfolding dests_ok_def rm
  proof (intro conjI allI impI)
    fix j
    show "dest_list (Dests ?s) (route_head ?s j) ((D(i := xs @ ys)) j)" if "j < 256"
      using A(1) other that h by auto
    show "length ((D(i := xs @ ys)) j) \<le> 16" if "j < 256" using len dests_okD(2) [OF d that] by simp
    show "distinct (map (\<lambda>q. DestPipeId (Dests ?s q)) ((D(i := xs @ ys)) j))" if "j < 256"
    proof (cases "j = i")
      case True
      then show ?thesis using dist unfolding True fun_upd_same idi by simp
    next
      case False
      then show ?thesis using dests_okD(3) [OF d that] ids [OF False] by (simp only: fun_upd_other not_False_eq_True)
    qed
    show "(D(i := xs @ ys)) j = []" if "top_idx (Routing ?s) \<le> j"
    proof -
      have "D j = []" using d that by (simp add: top dests_ok_def)
      then show ?thesis using D(1) by auto
    qed
    show "j = k" if "q \<in> set ((D(i := xs @ ys)) j)" "q \<in> set ((D(i := xs @ ys)) k)" for q k
    proof -
      have "q \<in> set (D j)" "q \<in> set (D k)" using that D(1) by (auto split: if_splits)
      then show ?thesis using dests_ok_disjoint [OF d] by blast
    qed
  qed
  show "q \<noteq> p \<Longrightarrow> same_dest (Dests s q) (Dests ?s q)" by (rule A(2))
  show "sbr_inv h (Routing ?s) = sbr_inv h (Routing s)" using R SetHead_simps(3) [OF i] by simp
  show "\<exists>ds r. ?s = s\<lparr>Dests := ds, Routing := r\<rparr> \<and> RouteIdxTop r = RouteIdxTop (Routing s) \<and> msgid_at r = msgid_at (Routing s)"
  proof (intro exI conjI)
    show "?s = s\<lparr>Dests := Dests ?s, Routing := Routing ?s\<rparr>" by (subst A(4)) (simp add: R)
    show "RouteIdxTop (Routing ?s) = RouteIdxTop (Routing s)" by (rule top)
    show "msgid_at (Routing ?s) = msgid_at (Routing s)" by (auto simp: R msgid_at_def SetHead_simps(4))
  qed
qed

end
