(* ===== verification/CFS_SbInv.thy ===== *)
theory CFS_SbInv
  imports CFS_SbDest
begin

text \<open>
  The invariant of the bus: the routing table, the destination lists, the queues and the memory agree.  \<open>bus_refs\<close> are
  the references that the bus itself keeps; \<open>X\<close> are references of a call in progress, and \<open>Z\<close> the buffers that
  applications own.
\<close>

section \<open>The references of the bus\<close>

definition queued :: "(osal_id_t \<times> os_queue) list \<Rightarrow> pointer multiset" where
  "queued Q = sum_list (map (\<lambda>(q, x). mset (QueueItems x)) Q)"

definition live_pipe :: "CFE_SB_PipeD_t \<Rightarrow> bool" where
  "live_pipe d \<longleftrightarrow> PipeId d \<noteq> CFE_RESOURCEID_UNDEFINED \<and> PipeId d \<noteq> CFE_RESOURCEID_RESERVED"

definition last_ref :: "CFE_SB_PipeD_t \<Rightarrow> pointer multiset" where
  "last_ref d = (if live_pipe d \<and> LastBuffer d \<noteq> NULL then {#LastBuffer d#} else {#})"

definition last_refs :: "(nat \<Rightarrow> CFE_SB_PipeD_t) \<Rightarrow> pointer multiset" where
  "last_refs T = (\<Sum>i<64. last_ref (T i))"

text \<open>The messages in queues, and the message each pipe has handed out last.\<close>

definition bus_refs :: "'p sb_state \<Rightarrow> pointer multiset" where
  "bus_refs s = queued (Queues s) + last_refs (PipeTbl s)"

lemma queued_Cons [simp]: "queued [] = {#}" "queued ((q, x) # Q) = mset (QueueItems x) + queued Q"
  by (simp_all add: queued_def)

lemma queued_update:
  "map_of Q q = Some x \<Longrightarrow> queued (AList.update q y Q) + mset (QueueItems x) = queued Q + mset (QueueItems y)"
  by (induction Q) (auto split: if_splits)

lemma queued_new: "map_of Q q = None \<Longrightarrow> queued (AList.update q y Q) = queued Q + mset (QueueItems y)"
  by (induction Q) (auto split: if_splits)

lemma delete_none: "map_of Q q = None \<Longrightarrow> AList.delete q Q = Q"
  by (induction Q) (auto split: if_splits)

lemma queued_delete:
  "distinct (map fst Q) \<Longrightarrow> map_of Q q = Some x \<Longrightarrow> queued (AList.delete q Q) + mset (QueueItems x) = queued Q"
proof (induction Q)
  case (Cons a Q)
  obtain p y where a: "a = (p, y)" by (cases a)
  show ?case
  proof (cases "p = q")
    case True
    then have "map_of Q q = None" using Cons.prems(1) a by (simp add: map_of_eq_None_iff)
    then show ?thesis using Cons.prems a True by (simp add: delete_none)
  next
    case False
    then show ?thesis using Cons a by simp
  qed
qed simp

lemma last_refs_upd: "i < 64 \<Longrightarrow> last_refs (T(i := d)) + last_ref (T i) = last_refs T + last_ref d"
proof -
  assume i: "i < 64"
  have "(\<Sum>j\<in>{..<64} - {i}. last_ref ((T(i := d)) j)) = (\<Sum>j\<in>{..<64} - {i}. last_ref (T j))" by (intro sum.cong) auto
  then show ?thesis
    using i sum.remove [of "{..<64::nat}" i "\<lambda>j. last_ref ((T(i := d)) j)"] sum.remove [of "{..<64::nat}" i "\<lambda>j. last_ref (T j)"]
    by (simp add: last_refs_def add_ac)
qed

lemma last_refs_same: "last_ref d = last_ref (T i) \<Longrightarrow> last_refs (T(i := d)) = last_refs T"
  unfolding last_refs_def by (intro sum.cong) auto

section \<open>The invariant of the bus\<close>

text \<open>\<open>X\<close> are the references of the running call, \<open>Z\<close> the buffers that applications own, \<open>D\<close> the destinations of the
  routes.\<close>

definition bus_inv ::
    "('p \<Rightarrow> pointer set \<Rightarrow> bool) \<Rightarrow> 'p sb_cfg \<Rightarrow> pointer multiset \<Rightarrow> pointer list \<Rightarrow> (nat \<Rightarrow> pointer list) \<Rightarrow> 'p sb_state \<Rightarrow> bool" where
  "bus_inv holds cfg X Z D s \<longleftrightarrow>
     sbr_inv (hash_map cfg) (Routing s) \<and> dests_ok D s \<and> distinct (map fst (Queues s)) \<and>
     mem_ok holds (bus_refs s + mset Z + X) Z (nodes D) s \<and>
     (\<forall>b. count (bus_refs s) b \<le> 16) \<and> (\<forall>b \<in> set Z. b \<notin># bus_refs s)"

lemma bus_invD:
  assumes "bus_inv holds cfg X Z D s"
  shows "sbr_inv (hash_map cfg) (Routing s)" "dests_ok D s" "distinct (map fst (Queues s))"
    "mem_ok holds (bus_refs s + mset Z + X) Z (nodes D) s" "count (bus_refs s) b \<le> 16" "b \<in> set Z \<Longrightarrow> b \<notin># bus_refs s"
  using assms by (auto simp: bus_inv_def)

lemma bus_inv_Z:
  assumes "bus_inv holds cfg X Z D s"
  shows "distinct Z" "b \<in># bus_refs s + mset Z + X \<Longrightarrow> b \<noteq> NULL"
    "b \<in># bus_refs s + mset Z + X \<Longrightarrow> unat (UseCount (Bufs s b)) = count (bus_refs s + mset Z + X) b"
    "b \<in># bus_refs s + mset Z + X \<Longrightarrow> OwnerAppId (Bufs s b) \<noteq> CFE_RESOURCEID_UNDEFINED \<longleftrightarrow> b \<in> set Z"
    "b \<in># bus_refs s + mset Z + X \<Longrightarrow> b \<notin> nodes D"
proof -
  obtain T where t: "bufs_ok (bus_refs s + mset Z + X) Z T s" and n: "set_mset (bus_refs s + mset Z + X) \<inter> nodes D = {}"
    using bus_invD(4) [OF assms] by (auto simp: mem_ok_def)
  have l: "links_ok Z T s" and ZT: "set Z \<union> set T = set_mset (bus_refs s + mset Z + X)" using t by (simp_all add: bufs_ok_def)
  show "distinct Z" using links_distinct [OF l] by simp
  show "b \<in># bus_refs s + mset Z + X \<Longrightarrow> b \<noteq> NULL" using t unfolding bufs_ok_def by metis
  show "b \<in># bus_refs s + mset Z + X \<Longrightarrow> unat (UseCount (Bufs s b)) = count (bus_refs s + mset Z + X) b"
    using t unfolding bufs_ok_def by blast
  show "b \<in># bus_refs s + mset Z + X \<Longrightarrow> OwnerAppId (Bufs s b) \<noteq> CFE_RESOURCEID_UNDEFINED \<longleftrightarrow> b \<in> set Z"
    using t ZT unfolding bufs_ok_def by blast
  show "b \<in># bus_refs s + mset Z + X \<Longrightarrow> b \<notin> nodes D" using n by blast
qed

lemma bus_inv_cong:
  assumes "Routing s' = Routing s" "map fst (Queues s') = map fst (Queues s)" "bus_refs s' = bus_refs s"
    "LinkNext s' = LinkNext s" "LinkPrev s' = LinkPrev s" "Pool s' = Pool s"
    "SBBuffersInUse (StatTlm s') = SBBuffersInUse (StatTlm s)"
    "\<And>p. p \<in> nodes D \<Longrightarrow> Next (Dests s' p) = Next (Dests s p) \<and> Prev (Dests s' p) = Prev (Dests s p) \<and>
        DestPipeId (Dests s' p) = DestPipeId (Dests s p)"
    "\<And>b. UseCount (Bufs s' b) = UseCount (Bufs s b) \<and> OwnerAppId (Bufs s' b) = OwnerAppId (Bufs s b)"
  shows "bus_inv holds cfg X Z D s' = bus_inv holds cfg X Z D s"
proof -
  have "dests_ok D s' = dests_ok D s" using assms(1,8) by (intro dests_ok_cong) auto
  moreover have "mem_ok holds R Z N s' = mem_ok holds R Z N s" for R N
    using assms(4-7,9) by (intro mem_ok_cong) auto
  ultimately show ?thesis unfolding bus_inv_def assms(1-3) by simp
qed

text \<open>Updates that the invariant does not see.\<close>

lemma bus_refs_simps [simp]:
  "bus_refs (s\<lparr>HKTlm := a\<rparr>) = bus_refs s" "bus_refs (s\<lparr>Events := e\<rparr>) = bus_refs s" "bus_refs (s\<lparr>StatTlm := t\<rparr>) = bus_refs s"
  "bus_refs (s\<lparr>StopRecurseFlags := f\<rparr>) = bus_refs s" "bus_refs (s\<lparr>PspReads := n\<rparr>) = bus_refs s" "bus_refs (s\<lparr>Dests := d\<rparr>) = bus_refs s"
  "bus_refs (s\<lparr>Bufs := u\<rparr>) = bus_refs s" "bus_refs (s\<lparr>Routing := r\<rparr>) = bus_refs s" "bus_refs (s\<lparr>Pool := p\<rparr>) = bus_refs s"
  "bus_refs (s\<lparr>PrevSub := v\<rparr>) = bus_refs s" "bus_refs (s\<lparr>SubscriptionReporting := w\<rparr>) = bus_refs s"
  "bus_refs (s\<lparr>LastPipeId := x\<rparr>) = bus_refs s"
  by (simp_all add: bus_refs_def)

lemma bus_refs_eqI: "Queues s' = Queues s \<Longrightarrow> PipeTbl s' = PipeTbl s \<Longrightarrow> bus_refs s' = bus_refs s"
  by (simp add: bus_refs_def)

lemma bus_refs_ops [simp]:
  "bus_refs (CFE_SB_DecrBufUseCnt cfg b s) = bus_refs s" "bus_refs (CFE_SB_IncrBufUseCnt b s) = bus_refs s"
  "bus_refs (snd (CFE_SB_PutDestinationBlk cfg p s)) = bus_refs s"
  "bus_refs (CFE_SB_TrackingListAdd l x s) = bus_refs s" "bus_refs (CFE_SB_TrackingListRemove x s) = bus_refs s"
  by (intro bus_refs_eqI; simp)+

lemma bus_inv_frame [simp]:
  "bus_inv holds cfg X Z D (s\<lparr>HKTlm := a\<rparr>) = bus_inv holds cfg X Z D s"
  "bus_inv holds cfg X Z D (s\<lparr>Events := e\<rparr>) = bus_inv holds cfg X Z D s"
  "bus_inv holds cfg X Z D (s\<lparr>StopRecurseFlags := f\<rparr>) = bus_inv holds cfg X Z D s"
  "bus_inv holds cfg X Z D (s\<lparr>PspReads := n\<rparr>) = bus_inv holds cfg X Z D s"
  "bus_inv holds cfg X Z D (s\<lparr>PrevSub := v\<rparr>) = bus_inv holds cfg X Z D s"
  "bus_inv holds cfg X Z D (s\<lparr>SubscriptionReporting := w\<rparr>) = bus_inv holds cfg X Z D s"
  "bus_inv holds cfg X Z D (s\<lparr>LastPipeId := x\<rparr>) = bus_inv holds cfg X Z D s"
  by (intro bus_inv_cong; simp)+

lemma bus_inv_stat: "SBBuffersInUse t = SBBuffersInUse (StatTlm s) \<Longrightarrow> bus_inv holds cfg X Z D (s\<lparr>StatTlm := t\<rparr>) = bus_inv holds cfg X Z D s"
  by (intro bus_inv_cong) simp_all

lemma bus_inv_upd_buf:
  "UseCount (f (Bufs s b)) = UseCount (Bufs s b) \<Longrightarrow> OwnerAppId (f (Bufs s b)) = OwnerAppId (Bufs s b) \<Longrightarrow>
     bus_inv holds cfg X Z D (upd_buf b f s) = bus_inv holds cfg X Z D s"
  by (rule bus_inv_cong) auto

lemma bus_inv_upd_dest:
  "Next (f (Dests s p)) = Next (Dests s p) \<Longrightarrow> Prev (f (Dests s p)) = Prev (Dests s p) \<Longrightarrow>
   DestPipeId (f (Dests s p)) = DestPipeId (Dests s p) \<Longrightarrow>
     bus_inv holds cfg X Z D (upd_dest p f s) = bus_inv holds cfg X Z D s"
  by (rule bus_inv_cong) auto

lemma bus_refs_upd_pipe: "last_ref (f (PipeTbl s i)) = last_ref (PipeTbl s i) \<Longrightarrow> bus_refs (upd_pipe i f s) = bus_refs s"
  by (simp add: bus_refs_def last_refs_same)

lemma bus_inv_upd_pipe:
  "last_ref (f (PipeTbl s i)) = last_ref (PipeTbl s i) \<Longrightarrow>
     bus_inv holds cfg X Z D (upd_pipe i f s) = bus_inv holds cfg X Z D s"
  by (rule bus_inv_cong) (simp_all add: bus_refs_upd_pipe)

lemma last_ref_simps [simp]:
  "last_ref (d\<lparr>SendErrors := a\<rparr>) = last_ref d" "last_ref (d\<lparr>CurrentQueueDepth := a\<rparr>) = last_ref d"
  "last_ref (d\<lparr>PeakQueueDepth := a\<rparr>) = last_ref d" "last_ref (d\<lparr>Opts := z\<rparr>) = last_ref d"
  by (simp_all add: last_ref_def live_pipe_def)

lemma bus_inv_routing:
  assumes "\<And>e. MsgId (f e) = MsgId e" "\<And>e. ListHeadPtr (f e) = ListHeadPtr e"
  shows "bus_inv holds cfg X Z D (s\<lparr>Routing := update_entry f i (Routing s)\<rparr>) = bus_inv holds cfg X Z D s"
proof -
  have "dests_ok D (s\<lparr>Routing := update_entry f i (Routing s)\<rparr>) = dests_ok D s"
    by (rule dests_ok_cong) (use assms in \<open>auto simp: update_entry_def route_head_def\<close>)
  moreover have "mem_ok holds R Z N (s\<lparr>Routing := r\<rparr>) = mem_ok holds R Z N s" for R N r by (rule mem_ok_cong) auto
  ultimately show ?thesis by (simp add: bus_inv_def update_entry_inv assms(1))
qed

lemma bus_inv_count: "bus_inv holds cfg X Z D s \<Longrightarrow> count (bus_refs s + mset Z + X) b \<le> 17 + count X b"
proof -
  assume i: "bus_inv holds cfg X Z D s"
  have "count (mset Z) b \<le> 1" using bus_inv_Z(1) [OF i] by (simp add: distinct_count_atmost_1)
  then show ?thesis using bus_invD(5) [OF i, of b] by simp
qed

lemma bus_inv_incr:
  assumes i: "bus_inv holds cfg X Z D s" and b: "b \<in># bus_refs s + mset Z + X" and c: "count X b < 100"
  shows "bus_inv holds cfg (add_mset b X) Z D (CFE_SB_IncrBufUseCnt b s)"
proof -
  have "count (bus_refs s + mset Z + X) b < 0x7FFF" using bus_inv_count [OF i, of b] c by simp
  then have "mem_ok holds (add_mset b (bus_refs s + mset Z + X)) Z (nodes D) (CFE_SB_IncrBufUseCnt b s)"
    using mem_ok_incr [OF bus_invD(4) [OF i] b] by simp
  moreover have "dests_ok D (CFE_SB_IncrBufUseCnt b s) = dests_ok D s" by (rule dests_ok_cong) simp_all
  ultimately show ?thesis using i by (simp add: bus_inv_def)
qed

lemma bus_inv_put:
  assumes i: "bus_inv holds cfg X Z D s" and b: "b \<in># X" "b \<notin> set Z" and c: "count (bus_refs s) b < 16"
    and put: "OS_QueuePut q b s = (OS_SUCCESS, s')"
  shows "bus_inv holds cfg (X - {#b#}) Z D s'" "bus_refs s' = add_mset b (bus_refs s)"
proof -
  obtain x where x: "map_of (Queues s) q = Some x"
    "s' = s\<lparr>Queues := AList.update q (x\<lparr>QueueItems := QueueItems x @ [b]\<rparr>) (Queues s)\<rparr>"
    using put by (auto simp: OS_QueuePut_def split: option.splits if_splits)
  have "queued (Queues s') = add_mset b (queued (Queues s))" 
    using queued_update [OF x(1), of "x\<lparr>QueueItems := QueueItems x @ [b]\<rparr>"] x(2) by (simp add: add.assoc [symmetric])
  then show r: "bus_refs s' = add_mset b (bus_refs s)" using x(2) by (simp add: bus_refs_def)
  have "dests_ok D s' = dests_ok D s" by (rule dests_ok_cong) (simp_all add: x(2))
  moreover have "mem_ok holds R Z N s' = mem_ok holds R Z N s" for R N by (rule mem_ok_cong) (simp_all add: x(2))
  moreover have "distinct (map fst (Queues s'))" using bus_invD(3) [OF i] x(2) by (simp add: distinct_update)
  moreover have "mem_ok holds (add_mset b (bus_refs s + mset Z + (X - {#b#}))) Z (nodes D) s"
    using bus_invD(4) [OF i] insert_DiffM [OF b(1)] by (metis union_mset_add_mset_right)
  moreover have "Routing s' = Routing s" by (simp add: x(2))
  ultimately show "bus_inv holds cfg (X - {#b#}) Z D s'"
    using i b(2) c unfolding bus_inv_def r by auto
qed

lemma put_fails:
  "OS_QueuePut q b s = (st, s') \<Longrightarrow> st \<noteq> OS_SUCCESS \<Longrightarrow> s' = s \<and> (st = OS_QUEUE_FULL \<or> st = OS_ERR_INVALID_ID)"
  by (auto simp: OS_QueuePut_def split: option.splits if_splits)

lemma bus_inv_get:
  assumes i: "bus_inv holds cfg X Z D s" and g: "OS_QueueGet q t s = Some (OS_SUCCESS, b, s')"
  shows "bus_inv holds cfg (add_mset b X) Z D s'" "bus_refs s = add_mset b (bus_refs s')" "b \<notin> set Z" "b \<noteq> NULL"
proof -
  obtain x rest where x: "map_of (Queues s) q = Some x" "QueueItems x = b # rest"
    "s' = s\<lparr>Queues := AList.update q (x\<lparr>QueueItems := rest\<rparr>) (Queues s)\<rparr>"
    using g by (auto simp: OS_QueueGet_def split: option.splits list.splits if_splits)
  have "queued (Queues s') + {#b#} = queued (Queues s)" using queued_update [OF x(1), of "x\<lparr>QueueItems := rest\<rparr>"] x(2,3) by simp
  then show r: "bus_refs s = add_mset b (bus_refs s')" using x(3) by (simp add: bus_refs_def)
  have "dests_ok D s' = dests_ok D s" by (rule dests_ok_cong) (simp_all add: x(3))
  moreover have "mem_ok holds R Z N s' = mem_ok holds R Z N s" for R N by (rule mem_ok_cong) (simp_all add: x(3))
  moreover have "distinct (map fst (Queues s'))" using bus_invD(3) [OF i] x(3) by (simp add: distinct_update)
  moreover have "Routing s' = Routing s" by (simp add: x(3))
  moreover have "count (bus_refs s') a \<le> 16" for a using bus_invD(5) [OF i, of a] unfolding r by (simp split: if_splits)
  moreover have "a \<notin># bus_refs s'" if "a \<in> set Z" for a using bus_invD(6) [OF i that] unfolding r by simp
  ultimately show "bus_inv holds cfg (add_mset b X) Z D s'" using i unfolding bus_inv_def r by simp
  show "b \<notin> set Z" using bus_invD(6) [OF i, of b] unfolding r by auto
  show "b \<noteq> NULL" using bus_inv_Z(2) [OF i, of b] unfolding r by simp
qed

text \<open>A pipe takes over a reference as its last buffer, or gives it up.\<close>

lemma bus_inv_last:
  assumes i: "bus_inv holds cfg X Z D s" and n: "n < 64" "live_pipe (PipeTbl s n)" "last_ref (PipeTbl s n) = {#}"
    and b: "b \<in># X" "b \<notin> set Z" "b \<noteq> NULL" "count (bus_refs s) b < 16"
  shows "bus_inv holds cfg (X - {#b#}) Z D (upd_pipe n (\<lambda>p. p\<lparr>LastBuffer := b\<rparr>) s)"
    "bus_refs (upd_pipe n (\<lambda>p. p\<lparr>LastBuffer := b\<rparr>) s) = add_mset b (bus_refs s)"
proof -
  let ?s = "upd_pipe n (\<lambda>p. p\<lparr>LastBuffer := b\<rparr>) s"
  have "last_ref ((PipeTbl s n)\<lparr>LastBuffer := b\<rparr>) = {#b#}" using n(2) b(3) by (simp add: last_ref_def live_pipe_def)
  then show r: "bus_refs ?s = add_mset b (bus_refs s)"
    using last_refs_upd [OF n(1), of "PipeTbl s" "(PipeTbl s n)\<lparr>LastBuffer := b\<rparr>"] n(3) by (simp add: bus_refs_def)
  have "dests_ok D ?s = dests_ok D s" by (rule dests_ok_cong) simp_all
  moreover have "mem_ok holds R Z N ?s = mem_ok holds R Z N s" for R N by (rule mem_ok_cong) simp_all
  moreover have "mem_ok holds (add_mset b (bus_refs s + mset Z + (X - {#b#}))) Z (nodes D) s"
    using bus_invD(4) [OF i] insert_DiffM [OF b(1)] by (metis union_mset_add_mset_right)
  ultimately show "bus_inv holds cfg (X - {#b#}) Z D ?s" using i b(2,4) unfolding bus_inv_def r by auto
qed

lemma bus_inv_unlast:
  assumes i: "bus_inv holds cfg X Z D s" and n: "n < 64" "live_pipe (PipeTbl s n)" "LastBuffer (PipeTbl s n) = b" "b \<noteq> NULL"
    and f: "last_ref (f (PipeTbl s n)) = {#}"
  shows "bus_inv holds cfg (add_mset b X) Z D (upd_pipe n f s)" "bus_refs s = add_mset b (bus_refs (upd_pipe n f s))" "b \<notin> set Z"
proof -
  let ?s = "upd_pipe n f s"
  have "last_ref (PipeTbl s n) = {#b#}" using n by (simp add: last_ref_def)
  then show r: "bus_refs s = add_mset b (bus_refs ?s)"
    using last_refs_upd [OF n(1), of "PipeTbl s" "f (PipeTbl s n)"] f by (simp add: bus_refs_def)
  have "dests_ok D ?s = dests_ok D s" by (rule dests_ok_cong) simp_all
  moreover have "mem_ok holds R Z N ?s = mem_ok holds R Z N s" for R N by (rule mem_ok_cong) simp_all
  moreover have "count (bus_refs ?s) a \<le> 16" for a using bus_invD(5) [OF i, of a] unfolding r by (simp split: if_splits)
  moreover have "a \<notin># bus_refs ?s" if "a \<in> set Z" for a using bus_invD(6) [OF i that] unfolding r by simp
  ultimately show "bus_inv holds cfg (add_mset b X) Z D ?s" using i unfolding bus_inv_def r by simp
  show "b \<notin> set Z" using bus_invD(6) [OF i, of b] unfolding r by auto
qed

section \<open>Events\<close>

text \<open>What only counts and reports.\<close>

definition quiet :: "'p sb_state \<Rightarrow> 'p sb_state \<Rightarrow> bool" where
  "quiet s s' \<longleftrightarrow> (\<exists>h e f n. s' = s\<lparr>HKTlm := h, Events := e, StopRecurseFlags := f, PspReads := n\<rparr>)"

lemma quiet_refl [simp]: "quiet s s"
proof -
  have "s = s\<lparr>HKTlm := HKTlm s, Events := Events s, StopRecurseFlags := StopRecurseFlags s, PspReads := PspReads s\<rparr>" by simp
  then show ?thesis unfolding quiet_def by blast
qed

lemma quietI [simp]:
  "quiet s s' \<Longrightarrow> quiet s (s'\<lparr>HKTlm := h\<rparr>)" "quiet s s' \<Longrightarrow> quiet s (s'\<lparr>Events := e\<rparr>)"
  "quiet s s' \<Longrightarrow> quiet s (s'\<lparr>StopRecurseFlags := f\<rparr>)" "quiet s s' \<Longrightarrow> quiet s (s'\<lparr>PspReads := n\<rparr>)"
proof -
  assume "quiet s s'"
  then obtain h0 e0 f0 n0 where s': "s' = s\<lparr>HKTlm := h0, Events := e0, StopRecurseFlags := f0, PspReads := n0\<rparr>"
    unfolding quiet_def by blast
  show "quiet s (s'\<lparr>HKTlm := h\<rparr>)" unfolding quiet_def s' by (intro exI [of _ h] exI [of _ e0] exI [of _ f0] exI [of _ n0]) simp
  show "quiet s (s'\<lparr>Events := e\<rparr>)" unfolding quiet_def s' by (intro exI [of _ h0] exI [of _ e] exI [of _ f0] exI [of _ n0]) simp
  show "quiet s (s'\<lparr>StopRecurseFlags := f\<rparr>)" unfolding quiet_def s' by (intro exI [of _ h0] exI [of _ e0] exI [of _ f] exI [of _ n0]) simp
  show "quiet s (s'\<lparr>PspReads := n\<rparr>)" unfolding quiet_def s' by (intro exI [of _ h0] exI [of _ e0] exI [of _ f0] exI [of _ n]) simp
qed

lemma quiet_trans: "quiet s s' \<Longrightarrow> quiet s' s'' \<Longrightarrow> quiet s s''"
  unfolding quiet_def [of s' s''] by (elim exE) (simp del: quietI add: quietI)

lemma quiet_frame:
  assumes "quiet s s'"
  shows "Routing s' = Routing s" "Dests s' = Dests s" "PipeTbl s' = PipeTbl s" "Queues s' = Queues s" "Bufs s' = Bufs s"
    "StatTlm s' = StatTlm s" "Pool s' = Pool s" "bus_refs s' = bus_refs s" "LastPipeId s' = LastPipeId s"
    "bus_inv holds cfg X Z D s' = bus_inv holds cfg X Z D s" "dests_ok D s' = dests_ok D s"
proof -
  show f: "Routing s' = Routing s" "Dests s' = Dests s" "PipeTbl s' = PipeTbl s" "Queues s' = Queues s" "Bufs s' = Bufs s"
    "StatTlm s' = StatTlm s" "Pool s' = Pool s" "bus_refs s' = bus_refs s" "LastPipeId s' = LastPipeId s"
    "bus_inv holds cfg X Z D s' = bus_inv holds cfg X Z D s"
    using assms unfolding quiet_def by auto
  show "dests_ok D s' = dests_ok D s" by (rule dests_ok_cong) (simp_all add: f)
qed

lemma GetPipeName_quiet: "CFE_SB_GetPipeName cfg ok n pid s = (st, name, s') \<Longrightarrow> quiet s s'"
  by (auto simp: CFE_SB_GetPipeName_def Let_def split: prod.splits option.splits if_splits)

lemma GetPipeName_quiet' [simp]: "quiet s (snd (snd (CFE_SB_GetPipeName cfg ok n pid s)))"
  using GetPipeName_quiet by (metis prod.collapse)

lemma ReportSingleEvent_quiet: "CFE_SB_MessageTxn_ReportSingleEvent cfg c ctx eid s = (e, s') \<Longrightarrow> quiet s s'"
proof -
  assume r: "CFE_SB_MessageTxn_ReportSingleEvent cfg c ctx eid s = (e, s')"
  obtain ty bt u where d: "CFE_SB_MessageTxn_GetEventDetails cfg ctx eid s = (ty, bt, u)"
    by (cases "CFE_SB_MessageTxn_GetEventDetails cfg ctx eid s") auto
  then have u: "quiet s u"
    by (auto simp: CFE_SB_MessageTxn_GetEventDetails_def Let_def split: option.splits if_splits prod.splits)
  have "quiet u s'" using r d
    by (auto simp: CFE_SB_MessageTxn_ReportSingleEvent_def CFE_SB_RequestToSendEvent_def CFE_SB_FinishSendEvent_def Let_def
        split: if_splits option.splits prod.splits)
  then show ?thesis using u by (rule quiet_trans [rotated])
qed

lemma fold_report_quiet: "quiet (snd ns) (snd (fold (report_pending cfg c) es ns))"
proof (induction es arbitrary: ns)
  case (Cons e es)
  have "quiet (snd ns) (snd (report_pending cfg c e ns))"
    by (auto simp: report_pending_def split: prod.splits dest: ReportSingleEvent_quiet)
  then show ?case using quiet_trans [OF _ Cons.IH] by simp
qed simp

lemma ReportEvents_quiet [simp]: "quiet s (CFE_SB_MessageTxn_ReportEvents cfg c t s)"
proof -
  let ?a = "if TransactionEventId t \<noteq> 0
         then case CFE_SB_MessageTxn_ReportSingleEvent cfg c None (TransactionEventId t) s of (IsError, s) \<Rightarrow> (if IsError then 1 else 0, s)
         else (0 :: nat, s)"
  have "quiet s (snd ?a)" by (auto split: prod.splits dest: ReportSingleEvent_quiet)
  then have "quiet s (snd (fold (report_pending cfg c) (PipeSet t) ?a))" using fold_report_quiet quiet_trans by blast
  moreover obtain n a where "?a = (n, a)" by (cases ?a)
  moreover obtain k u where "fold (report_pending cfg c) (PipeSet t) (n, a) = (k, u)" by (cases "fold (report_pending cfg c) (PipeSet t) (n, a)")
  ultimately show ?thesis by (simp add: CFE_SB_MessageTxn_ReportEvents_def Let_def)
qed

lemma GetOsTimeout_quiet: "CFE_SB_MessageTxn_GetOsTimeout t s = (n, s') \<Longrightarrow> quiet s s'"
  by (auto simp: CFE_SB_MessageTxn_GetOsTimeout_def CFE_PSP_GetTime_def Let_def
      split: CFE_SB_MessageTxn_TimeoutMode_t.splits)

lemma SetTimeout_quiet: "CFE_SB_MessageTxn_SetTimeout n t s = (t', s') \<Longrightarrow> quiet s s'"
  by (auto simp: CFE_SB_MessageTxn_SetTimeout_def CFE_PSP_GetTime_def Let_def split: if_splits)

section \<open>Buffers\<close>

context sb_pool
begin

lemma inv_decr:
  assumes i: "bus_inv holds cfg X Z D s" and b: "b \<in># X" "b \<notin> set Z"
  shows "bus_inv holds cfg (X - {#b#}) Z D (CFE_SB_DecrBufUseCnt cfg b s)"
proof -
  have "mem_ok holds (bus_refs s + mset Z + X - {#b#}) (remove1 b Z) (nodes D) (CFE_SB_DecrBufUseCnt cfg b s)"
    by (rule mem_ok_decr [OF bus_invD(4) [OF i]]) (use b in auto)
  moreover have "remove1 b Z = Z" using b(2) by (rule remove1_idem)
  moreover have "bus_refs s + mset Z + X - {#b#} = bus_refs s + mset Z + (X - {#b#})" using b(1) by simp
  moreover have "dests_ok D (CFE_SB_DecrBufUseCnt cfg b s) = dests_ok D s" by (rule dests_ok_cong) simp_all
  ultimately show ?thesis using i by (simp add: bus_inv_def)
qed

lemma inv_decr_owned:
  assumes i: "bus_inv holds cfg X Z D s" and b: "b \<in> set Z" "b \<notin># X"
  shows "bus_inv holds cfg X (remove1 b Z) D (CFE_SB_DecrBufUseCnt cfg b s)"
proof -
  have d: "distinct Z" using bus_inv_Z(1) [OF i] .
  have "count (bus_refs s + mset Z + X) b = 1"
  proof -
    have "count (mset Z) b = 1" using d b(1) unfolding distinct_count_atmost_1 by simp
    moreover have "count (bus_refs s) b = 0" "count X b = 0" using bus_invD(6) [OF i b(1)] b(2) by (simp_all add: not_in_iff)
    ultimately show ?thesis by simp
  qed
  then have "mem_ok holds (bus_refs s + mset Z + X - {#b#}) (remove1 b Z) (nodes D) (CFE_SB_DecrBufUseCnt cfg b s)"
    by (intro mem_ok_decr [OF bus_invD(4) [OF i]]) (use b in auto)
  moreover have "bus_refs s + mset Z + X - {#b#} = bus_refs s + mset (remove1 b Z) + X"
    using b(1) by (simp add: mset_remove1)
  moreover have "dests_ok D (CFE_SB_DecrBufUseCnt cfg b s) = dests_ok D s" by (rule dests_ok_cong) simp_all
  ultimately show ?thesis using i d by (simp add: bus_inv_def)
qed

abbreviation (input) transit :: "pointer \<Rightarrow> 'p sb_state \<Rightarrow> 'p sb_state" where
  "transit b s \<equiv> CFE_SB_TrackingListAdd InTransitList (BufferLink b)
     (upd_buf b (\<lambda>b. b\<lparr>OwnerAppId := CFE_RESOURCEID_UNDEFINED\<rparr>) (CFE_SB_TrackingListRemove (BufferLink b) s))"

lemma inv_transit:
  assumes i: "bus_inv holds cfg X Z D s" and b: "b \<in> set Z"
  shows "bus_inv holds cfg (add_mset b X) (remove1 b Z) D (transit b s)"
proof -
  have "mem_ok holds (bus_refs s + mset Z + X) (remove1 b Z) (nodes D) (transit b s)"
    by (rule mem_ok_transit [OF bus_invD(4) [OF i] b])
  moreover have "bus_refs s + mset Z + X = bus_refs s + mset (remove1 b Z) + add_mset b X"
    using b by (simp add: mset_remove1)
  moreover have "dests_ok D (transit b s) = dests_ok D s" by (rule dests_ok_cong) simp_all
  moreover have "distinct Z" using bus_inv_Z(1) [OF i] .
  ultimately show ?thesis using i by (simp add: bus_inv_def)
qed

lemma inv_alloc:
  assumes i: "bus_inv holds cfg X Z D s" and owner: "AppIdStatus c = CFE_SUCCESS \<Longrightarrow> CallerAppId c \<noteq> CFE_RESOURCEID_UNDEFINED"
    and a: "CFE_SB_AllocateMessageBuffer cfg c n s = (BufPtr, s')"
  shows "if BufPtr = NULL then bus_inv holds cfg X Z D s'
    else \<exists>b. BufPtr = b + content_offset cfg \<and> b \<notin># bus_refs s + mset Z + X \<and> b \<notin> nodes D \<and> bus_inv holds cfg X (Z @ [b]) D s'"
proof -
  note f = AllocateMessageBuffer_frame [OF a]
  have d: "dests_ok D s' = dests_ok D s" by (rule dests_ok_cong) (use f in auto)
  have r: "bus_refs s' = bus_refs s" using f by (simp add: bus_refs_def)
  note m = mem_ok_alloc [OF bus_invD(4) [OF i] owner a]
  show ?thesis
  proof (cases "BufPtr = NULL")
    case True
    then show ?thesis using m i d r f by (auto simp: bus_inv_def)
  next
    case False
    then obtain b where b: "BufPtr = b + content_offset cfg" "b \<notin># bus_refs s + mset Z + X" "b \<notin> nodes D"
      "mem_ok holds (add_mset b (bus_refs s + mset Z + X)) (Z @ [b]) (nodes D) s'" using m by auto
    then show ?thesis using False i d r f by (auto simp: bus_inv_def)
  qed
qed

end

end
