(* ===== verification/CFS_SbSend.thy ===== *)
theory CFS_SbSend
  imports CFS_SbInv
begin

text \<open>
  Transmitting keeps the invariant (\<^verbatim>\<open>CFE_SB_TransmitTxn_FindDestinations\<close>, \<^verbatim>\<open>CFE_SB_TransmitTxn_PipeHandler\<close>,
  \<^verbatim>\<open>CFE_SB_TransmitTxn_Execute\<close>): every reference that is taken for a pipe is put into its queue or dropped again.
\<close>

section \<open>Finding the destinations\<close>

text \<open>What stays while a message is sent: the routes, the subscriptions and the pipes, but for their counters.\<close>

definition same_setup :: "'p sb_state \<Rightarrow> 'p sb_state \<Rightarrow> bool" where
  "same_setup s s' \<longleftrightarrow> (\<forall>i. route_head s' i = route_head s i) \<and> msgid_at (Routing s') = msgid_at (Routing s) \<and>
     RouteIdxTop (Routing s') = RouteIdxTop (Routing s) \<and> map fst (Queues s') = map fst (Queues s) \<and>
     (\<forall>p. (Dests s' p)\<lparr>BuffCount := 0\<rparr> = (Dests s p)\<lparr>BuffCount := 0\<rparr>) \<and>
     (\<forall>i. (PipeTbl s' i)\<lparr>SendErrors := 0, CurrentQueueDepth := 0, PeakQueueDepth := 0, LastBuffer := NULL\<rparr> =
          (PipeTbl s i)\<lparr>SendErrors := 0, CurrentQueueDepth := 0, PeakQueueDepth := 0, LastBuffer := NULL\<rparr>)"

lemma same_setup_refl [simp]: "same_setup s s"
  by (simp add: same_setup_def)

lemma same_setup_trans: "same_setup s s' \<Longrightarrow> same_setup s' s'' \<Longrightarrow> same_setup s s''"
  by (simp add: same_setup_def)

lemma same_setup_dest:
  "same_setup s s' \<Longrightarrow> DestPipeId (Dests s' p) = DestPipeId (Dests s p) \<and> Active (Dests s' p) = Active (Dests s p) \<and>
     MsgId2PipeLim (Dests s' p) = MsgId2PipeLim (Dests s p) \<and> DestCnt (Dests s' p) = DestCnt (Dests s p) \<and>
     Scope (Dests s' p) = Scope (Dests s p) \<and> Next (Dests s' p) = Next (Dests s p) \<and> Prev (Dests s' p) = Prev (Dests s p)"
proof -
  assume "same_setup s s'"
  then have "(Dests s' p)\<lparr>BuffCount := 0\<rparr> = (Dests s p)\<lparr>BuffCount := 0\<rparr>" by (simp add: same_setup_def)
  then show ?thesis by (cases "Dests s p"; cases "Dests s' p") simp
qed

lemma same_setup_pipe:
  "same_setup s s' \<Longrightarrow> PipeId (PipeTbl s' i) = PipeId (PipeTbl s i) \<and> PipeAppId (PipeTbl s' i) = PipeAppId (PipeTbl s i) \<and>
     SysQueueId (PipeTbl s' i) = SysQueueId (PipeTbl s i) \<and> Opts (PipeTbl s' i) = Opts (PipeTbl s i) \<and>
     MaxQueueDepth (PipeTbl s' i) = MaxQueueDepth (PipeTbl s i)"
proof -
  assume "same_setup s s'"
  then have "(PipeTbl s' i)\<lparr>SendErrors := 0, CurrentQueueDepth := 0, PeakQueueDepth := 0, LastBuffer := NULL\<rparr> =
          (PipeTbl s i)\<lparr>SendErrors := 0, CurrentQueueDepth := 0, PeakQueueDepth := 0, LastBuffer := NULL\<rparr>" by (simp add: same_setup_def)
  then show ?thesis by (cases "PipeTbl s i"; cases "PipeTbl s' i") simp
qed

lemma same_setup_simps [simp]:
  "same_setup s (s'\<lparr>HKTlm := a\<rparr>) = same_setup s s'" "same_setup s (s'\<lparr>Events := e\<rparr>) = same_setup s s'"
  "same_setup s (s'\<lparr>StopRecurseFlags := f\<rparr>) = same_setup s s'" "same_setup s (s'\<lparr>PspReads := n\<rparr>) = same_setup s s'"
  "same_setup s (s'\<lparr>Bufs := u\<rparr>) = same_setup s s'" "same_setup s (s'\<lparr>PrevSub := v\<rparr>) = same_setup s s'"
  "same_setup s (s'\<lparr>StatTlm := t\<rparr>) = same_setup s s'"
  "same_setup s (s'\<lparr>Dests := (Dests s')(p := (Dests s' p)\<lparr>BuffCount := b\<rparr>)\<rparr>) = same_setup s s'"
  "same_setup s (s'\<lparr>PipeTbl := (PipeTbl s')(i := (PipeTbl s' i)\<lparr>SendErrors := b\<rparr>)\<rparr>) = same_setup s s'"
  "same_setup s (s'\<lparr>PipeTbl := (PipeTbl s')(i := (PipeTbl s' i)\<lparr>LastBuffer := a'\<rparr>)\<rparr>) = same_setup s s'"
  "same_setup s (s'\<lparr>PipeTbl := (PipeTbl s')(i := (PipeTbl s' i)\<lparr>CurrentQueueDepth := b\<rparr>)\<rparr>) = same_setup s s'"
  "same_setup s (s'\<lparr>PipeTbl := (PipeTbl s')(i := (PipeTbl s' i)\<lparr>PeakQueueDepth := b\<rparr>)\<rparr>) = same_setup s s'"
  "same_setup s (s'\<lparr>PipeTbl := (PipeTbl s')(i := (PipeTbl s' i)\<lparr>CurrentQueueDepth := b, PeakQueueDepth := b'\<rparr>)\<rparr>) = same_setup s s'"
  by (auto simp: same_setup_def route_head_def)

lemma update_keys_same: "map_of Q q = Some x \<Longrightarrow> map fst (AList.update q y Q) = map fst Q"
  by (induction Q) auto

lemma OS_Queue_setup:
  "OS_QueuePut q b s = (st, s') \<Longrightarrow> same_setup s s'" "OS_QueueGet q t s = Some (st, a, s') \<Longrightarrow> same_setup s s'"
  by (auto simp: OS_QueuePut_def OS_QueueGet_def same_setup_def route_head_def update_keys_same
      split: option.splits list.splits if_splits)

lemma IncrementSequence_setup [simp]:
  "same_setup s (s'\<lparr>Routing := CFE_SBR_IncrementSequenceCounter (Routing s') r\<rparr>) = same_setup s s'"
  by (auto simp: same_setup_def route_head_def CFE_SBR_IncrementSequenceCounter_def update_entry_def msgid_at_def fun_eq_iff)

lemma same_setup_buffers [simp]:
  "same_setup s (CFE_SB_IncrBufUseCnt b s') = same_setup s s'" "same_setup s (CFE_SB_DecrBufUseCnt cfg b s') = same_setup s s'"
  "same_setup s (CFE_SB_TrackingListAdd l x s') = same_setup s s'" "same_setup s (CFE_SB_TrackingListRemove x s') = same_setup s s'"
  by (simp_all add: same_setup_def route_head_def)

lemma quiet_setup: "quiet s s' \<Longrightarrow> same_setup s s'"
  by (simp add: same_setup_def quiet_frame route_head_def)

lemma same_setup_dests_ok: "same_setup s s' \<Longrightarrow> dests_ok D s' = dests_ok D s"
  using same_setup_dest [of s s'] by (intro dests_ok_cong) (simp_all add: same_setup_def)

lemma same_setup_head: "same_setup s s' \<Longrightarrow> route_head s' i = route_head s i"
  by (simp add: same_setup_def)

lemma same_setup_route_of: "same_setup s s' \<Longrightarrow> route_of (Routing s') mid = route_of (Routing s) mid"
  by (rule route_of_cong) (simp_all add: same_setup_def)

lemma same_setup_match: "same_setup s s' \<Longrightarrow> CFE_SB_PipeDescIsMatch cfg pid s' = CFE_SB_PipeDescIsMatch cfg pid s"
  using same_setup_pipe [of s s'] by (simp add: CFE_SB_PipeDescIsMatch_def split: option.split)

lemma same_setup_dest_pipe: "same_setup s s' \<Longrightarrow> dest_pipe cfg c (Dests s' p) s' = dest_pipe cfg c (Dests s p) s"
  using same_setup_dest [of s s' p] same_setup_match [of s s'] same_setup_pipe [of s s']
  by (simp add: dest_pipe_def cong: option.case_cong)

text \<open>The entries of a transaction that are still to be served.\<close>

definition pending :: "CFE_SB_PipeSetEntry_t list \<Rightarrow> nat" where
  "pending es = length (filter (\<lambda>e. PendingEventId e = 0) es)"

lemma pending_simps [simp]: "pending [] = 0" "pending (e # es) = (if PendingEventId e = 0 then 1 else 0) + pending es"
  "pending (es @ fs) = pending es + pending fs"
  by (simp_all add: pending_def)

lemma pending_length: "pending es \<le> length es"
  by (simp add: pending_def)

lemma add_destination_frame:
  "add_destination cfg c b p ts = (t', s') \<Longrightarrow> same_setup (snd ts) s' \<and> Queues s' = Queues (snd ts) \<and> bus_refs s' = bus_refs (snd ts) \<and>
     MaxPipes t' = MaxPipes (fst ts) \<and> IsEndpoint t' = IsEndpoint (fst ts) \<and> TxnStatus t' = TxnStatus (fst ts) \<and>
     TransactionEventId t' = TransactionEventId (fst ts) \<and> TimeoutMode t' = TimeoutMode (fst ts) \<and>
     (\<exists>es. PipeSet t' = PipeSet (fst ts) @ es \<and> length es \<le> 1)"
  by (cases ts) (auto simp: add_destination_def Let_def bus_refs_def last_refs_same same_setup_def route_head_def split: option.splits if_splits)

lemma find_destinations_fold:
  assumes "dests_ok D s" "i < 256" "D i = xs @ ys" "length (PipeSet t) + length ys \<le> MaxPipes t"
  shows "find_destinations cfg c b (hd (ys @ [NULL])) (t, s) = Some (fold (add_destination cfg c b) ys (t, s))"
  using assms
proof (induction ys arbitrary: xs t s)
  case Nil
  then show ?case by (simp add: find_destinations.simps)
next
  case (Cons y ys)
  obtain t' s' where a: "add_destination cfg c b y (t, s) = (t', s')" by (cases "add_destination cfg c b y (t, s)")
  have F: "same_setup s s'" "MaxPipes t' = MaxPipes t" "length (PipeSet t') \<le> length (PipeSet t) + 1"
    using add_destination_frame [OF a] by auto
  have d: "dests_ok D s'" using same_setup_dests_ok [OF F(1)] Cons.prems(1) by simp
  have l: "dest_list (Dests s') (route_head s' i) (xs @ y # ys)" using dests_okD(1) [OF d Cons.prems(2)] Cons.prems(3) by simp
  note n = dest_list_neighbours [OF l]
  have "find_destinations cfg c b (hd (ys @ [NULL])) (t', s') = Some (fold (add_destination cfg c b) ys (t', s'))"
    by (rule Cons.IH [of _ "xs @ [y]"]) (use d F Cons.prems in auto)
  then show ?case using a n Cons.prems(4) by (subst find_destinations.simps) simp
qed

context sb_pool
begin

lemma add_destination_inv:
  assumes i: "bus_inv holds cfg (X + replicate_mset n b) Z D s" and b: "b \<in># bus_refs s + mset Z + X"
    and n: "n < 50" "count X b \<le> 1" and a: "add_destination cfg c b p (t, s) = (t', s')"
    and es: "PipeSet t' = PipeSet t @ es"
  shows "bus_inv holds cfg (X + replicate_mset (n + pending es) b) Z D s'"
proof (cases "dest_pipe cfg c (Dests s p) s")
  case None
  then show ?thesis using a es i by (simp add: add_destination_def)
next
  case (Some k)
  show ?thesis
  proof (cases "BuffCount (Dests s p) \<ge> MsgId2PipeLim (Dests s p)")
    case True
    then have "pending es = 0" "s' = upd_pipe k (\<lambda>p. p\<lparr>SendErrors := SendErrors p + 1\<rparr>)
                     (upd_hk (\<lambda>h. h\<lparr>MsgLimitErrorCounter := MsgLimitErrorCounter h + 1\<rparr>) s)"
      using a es Some by (auto simp: add_destination_def Let_def)
    moreover have "bus_inv holds cfg (X + replicate_mset n b) Z D s'"
      unfolding calculation(2) using i by (subst bus_inv_upd_pipe) simp_all
    ultimately show ?thesis by simp
  next
    case False
    let ?s1 = "CFE_SB_IncrBufUseCnt b s"
    let ?s2 = "upd_dest p (\<lambda>d. d\<lparr>BuffCount := BuffCount d + 1\<rparr>) ?s1"
    let ?s3 = "upd_pipe k (\<lambda>p. p\<lparr>CurrentQueueDepth := CurrentQueueDepth p + 1\<rparr>) ?s2"
    let ?s4 = "upd_pipe k (\<lambda>p. if CurrentQueueDepth p > PeakQueueDepth p then p\<lparr>PeakQueueDepth := CurrentQueueDepth p\<rparr> else p) ?s3"
    have e: "pending es = 1" "s' = ?s4"
      using a es Some False by (auto simp: add_destination_def Let_def)
    have "bus_inv holds cfg (add_mset b (X + replicate_mset n b)) Z D ?s1"
      by (rule bus_inv_incr [OF i]) (use b n in auto)
    moreover have "bus_inv holds cfg (add_mset b (X + replicate_mset n b)) Z D ?s2 = bus_inv holds cfg (add_mset b (X + replicate_mset n b)) Z D ?s1"
      by (rule bus_inv_upd_dest) simp_all
    moreover have "bus_inv holds cfg (add_mset b (X + replicate_mset n b)) Z D ?s3 = bus_inv holds cfg (add_mset b (X + replicate_mset n b)) Z D ?s2"
      by (rule bus_inv_upd_pipe) simp
    moreover have "bus_inv holds cfg (add_mset b (X + replicate_mset n b)) Z D ?s4 = bus_inv holds cfg (add_mset b (X + replicate_mset n b)) Z D ?s3"
      by (rule bus_inv_upd_pipe) simp
    ultimately show ?thesis unfolding e by simp
  qed
qed

lemma fold_destinations_inv:
  assumes "bus_inv holds cfg (X + replicate_mset n b) Z D s" "b \<in># bus_refs s + mset Z + X"
    "n + length ps \<le> 40" "count X b \<le> 1" "fold (add_destination cfg c b) ps (t, s) = (t', s')"
  shows "\<exists>es. PipeSet t' = PipeSet t @ es \<and> length es \<le> length ps \<and> bus_inv holds cfg (X + replicate_mset (n + pending es) b) Z D s' \<and>
    same_setup s s' \<and> Queues s' = Queues s \<and> bus_refs s' = bus_refs s \<and> IsEndpoint t' = IsEndpoint t \<and> TxnStatus t' = TxnStatus t \<and>
    TransactionEventId t' = TransactionEventId t"
  using assms
proof (induction ps arbitrary: t s n)
  case Nil
  then show ?case by simp
next
  case (Cons p ps)
  obtain u r where a: "add_destination cfg c b p (t, s) = (u, r)" by (cases "add_destination cfg c b p (t, s)")
  note F = add_destination_frame [OF a]
  obtain es where es: "PipeSet u = PipeSet t @ es" "length es \<le> 1" using F by auto
  have "pending es \<le> 1" using pending_length [of es] es(2) by simp
  moreover have "bus_inv holds cfg (X + replicate_mset (n + pending es) b) Z D r"
    by (rule add_destination_inv [OF Cons.prems(1,2) _ Cons.prems(4) a es(1)]) (use Cons.prems in simp)
  ultimately obtain fs where "PipeSet t' = PipeSet u @ fs" "length fs \<le> length ps"
    "bus_inv holds cfg (X + replicate_mset (n + pending es + pending fs) b) Z D s'" "same_setup r s'" "Queues s' = Queues r"
    "bus_refs s' = bus_refs r" "IsEndpoint t' = IsEndpoint u" "TxnStatus t' = TxnStatus u" "TransactionEventId t' = TransactionEventId u"
    using Cons.IH [of "n + pending es" r u] Cons.prems a F by auto
  then show ?case using es F same_setup_trans [of s r s'] by (intro exI [of _ "es @ fs"]) (auto simp: add.assoc)
qed

end

section \<open>Sending\<close>

lemma match_simps [simp]:
  "CFE_SB_PipeDescIsMatch cfg pid (s\<lparr>HKTlm := a\<rparr>) = CFE_SB_PipeDescIsMatch cfg pid s"
  "CFE_SB_PipeDescIsMatch cfg pid (s\<lparr>Events := e\<rparr>) = CFE_SB_PipeDescIsMatch cfg pid s"
  "CFE_SB_PipeDescIsMatch cfg pid (s\<lparr>StatTlm := t\<rparr>) = CFE_SB_PipeDescIsMatch cfg pid s"
  "CFE_SB_PipeDescIsMatch cfg pid (s\<lparr>Bufs := u\<rparr>) = CFE_SB_PipeDescIsMatch cfg pid s"
  "CFE_SB_PipeDescIsMatch cfg pid (s\<lparr>Dests := d\<rparr>) = CFE_SB_PipeDescIsMatch cfg pid s"
  "CFE_SB_PipeDescIsMatch cfg pid (s\<lparr>Queues := q\<rparr>) = CFE_SB_PipeDescIsMatch cfg pid s"
  "CFE_SB_PipeDescIsMatch cfg pid (s\<lparr>Routing := r\<rparr>) = CFE_SB_PipeDescIsMatch cfg pid s"
  by (simp_all add: CFE_SB_PipeDescIsMatch_def split: option.split)

lemma match_cong: "PipeTbl s' = PipeTbl s \<Longrightarrow> CFE_SB_PipeDescIsMatch cfg pid s' = CFE_SB_PipeDescIsMatch cfg pid s"
  by (simp add: CFE_SB_PipeDescIsMatch_def split: option.split)

context sb_pool
begin

lemma PipeHandler_inv:
  assumes i: "bus_inv holds cfg (add_mset b X) Z D s" and b: "b \<notin> set Z" "count (bus_refs s) b < 16"
  obtains ctx' t' s' where "CFE_SB_TransmitTxn_PipeHandler cfg b ctx t s = Some (ctx', t', s')"
    "bus_inv holds cfg X Z D s'" "same_setup s s'" "count (bus_refs s') b \<le> Suc (count (bus_refs s) b)" "TxnStatus t' = TxnStatus t"
    "\<And>x. UseCount (Bufs s x) = UseCount (Bufs s' x) \<or> x = b" "DestRouteId (Bufs s' b) = DestRouteId (Bufs s b)"
proof -
  let ?q = "SetSysQueueId ctx"
  obtain n u where to: "CFE_SB_MessageTxn_GetOsTimeout t s = (n, u)" by (cases "CFE_SB_MessageTxn_GetOsTimeout t s")
  note q = GetOsTimeout_quiet [OF to]
  have iu: "bus_inv holds cfg (add_mset b X) Z D u" using quiet_frame(10) [OF q] i by metis
  obtain st v where p: "OS_QueuePut ?q b u = (st, v)" by (cases "OS_QueuePut ?q b u")
  show thesis
  proof (cases "st = OS_SUCCESS")
    case True
    then have p': "OS_QueuePut ?q b u = (OS_SUCCESS, v)" using p by simp
    have c: "count (bus_refs u) b < 16" using b(2) quiet_frame(8) [OF q] by simp
    note put = bus_inv_put [OF iu _ b(1) c p']
    have "same_setup u v" by (rule OS_Queue_setup(1) [OF p'])
    moreover have "Bufs v = Bufs u"
      using p' by (auto simp: OS_QueuePut_def split: option.splits if_splits)
    moreover have "CFE_SB_TransmitTxn_PipeHandler cfg b ctx t s = Some (ctx\<lparr>OsStatus := st\<rparr>, t, v)"
      using to p True by (simp add: CFE_SB_TransmitTxn_PipeHandler_def Let_def)
    ultimately show ?thesis
      using that put same_setup_trans [OF quiet_setup [OF q]] quiet_frame(5,8) [OF q] by simp
  next
    case False
    then have v: "v = u" "st = OS_QUEUE_FULL \<or> st = OS_ERR_INVALID_ID" using put_fails [OF p] by simp_all
    let ?ctx = "if st = OS_QUEUE_FULL then ctx\<lparr>OsStatus := st, PendingEventId := CFE_SB_Q_FULL_ERR_EID\<rparr>
                else ctx\<lparr>OsStatus := st, PendingEventId := CFE_SB_Q_WR_ERR_EID\<rparr>"
    define u1 where "u1 = (if st = OS_QUEUE_FULL then upd_hk (\<lambda>h. h\<lparr>PipeOverflowErrorCounter := PipeOverflowErrorCounter h + 1\<rparr>) u
               else upd_hk (\<lambda>h. h\<lparr>InternalErrorCounter := InternalErrorCounter h + 1\<rparr>) u)"
    let ?u2 = "case CFE_SB_PipeDescIsMatch cfg (SetPipeId ctx) u1 of None \<Rightarrow> u1
               | Some i \<Rightarrow> if CurrentQueueDepth (PipeTbl u1 i) > 0
                           then upd_pipe i (\<lambda>p. p\<lparr>CurrentQueueDepth := CurrentQueueDepth p - 1\<rparr>) u1 else u1"
    have q1: "quiet u u1" by (simp add: u1_def)
    have i1: "bus_inv holds cfg (add_mset b X) Z D u1" using quiet_frame(10) [OF q1] iu by metis
    have i2: "bus_inv holds cfg (add_mset b X) Z D ?u2"
    proof (cases "CFE_SB_PipeDescIsMatch cfg (SetPipeId ctx) u1")
      case (Some k)
      have "bus_inv holds cfg (add_mset b X) Z D (upd_pipe k (\<lambda>p. p\<lparr>CurrentQueueDepth := CurrentQueueDepth p - 1\<rparr>) u1)"
        using i1 by (subst bus_inv_upd_pipe) simp_all
      then show ?thesis using Some i1 by simp
    qed (use i1 in simp)
    have s2: "same_setup u ?u2" using quiet_setup [OF q1] by (simp split: option.split)
    have f2: "Bufs ?u2 = Bufs u" "bus_refs ?u2 = bus_refs u"
      using quiet_frame(3,4,5) [OF q1] by (simp_all add: bus_refs_def last_refs_same split: option.split)
    obtain p where g: "CFE_SB_GetDestPtr (DestRouteId (Bufs ?u2 b)) (SetPipeId ctx) ?u2 = Some p" "p = NULL \<or> p \<in> nodes D"
      using GetDestPtr_ends bus_invD(2) [OF i2] by blast
    let ?u3 = "if p \<noteq> NULL \<and> BuffCount (Dests ?u2 p) > 0 then upd_dest p (\<lambda>d. d\<lparr>BuffCount := BuffCount d - 1\<rparr>) ?u2 else ?u2"
    have i3: "bus_inv holds cfg (add_mset b X) Z D ?u3"
      using i2 bus_inv_upd_dest [of "\<lambda>d. d\<lparr>BuffCount := BuffCount d - 1\<rparr>" ?u2 p holds cfg "add_mset b X" Z D] by simp
    have s3: "same_setup u ?u3" "bus_refs ?u3 = bus_refs u" "Bufs ?u3 = Bufs u" using s2 f2 by simp_all
    have r: "CFE_SB_TransmitTxn_PipeHandler cfg b ctx t s =
        Some (?ctx, t\<lparr>NumPipeErrs := NumPipeErrs t + 1\<rparr>, CFE_SB_DecrBufUseCnt cfg b ?u3)"
      using to p v g(1) unfolding u1_def
      by (cases "CFE_SB_PipeDescIsMatch cfg (SetPipeId ctx) u"; cases "st = OS_QUEUE_FULL")
        (simp_all add: CFE_SB_TransmitTxn_PipeHandler_def Let_def cong: if_cong)
    have "bus_inv holds cfg X Z D (CFE_SB_DecrBufUseCnt cfg b ?u3)" using inv_decr [OF i3, of b] b(1) by simp
    moreover have "same_setup s (CFE_SB_DecrBufUseCnt cfg b ?u3)"
      using same_setup_trans [OF quiet_setup [OF q] s3(1)] by simp
    moreover have "bus_refs (CFE_SB_DecrBufUseCnt cfg b ?u3) = bus_refs s" using s3(2) quiet_frame(8) [OF q] by simp
    moreover have "UseCount (Bufs s x) = UseCount (Bufs (CFE_SB_DecrBufUseCnt cfg b ?u3) x) \<or> x = b" for x
      using s3(3) quiet_frame(5) [OF q]
      by (auto simp: CFE_SB_DecrBufUseCnt_def CFE_SB_ReturnBufferToPool_def Let_def)
    moreover have "DestRouteId (Bufs (CFE_SB_DecrBufUseCnt cfg b ?u3) b) = DestRouteId (Bufs s b)"
      using s3(3) quiet_frame(5) [OF q]
      by (auto simp: CFE_SB_DecrBufUseCnt_def CFE_SB_ReturnBufferToPool_def Let_def)
    ultimately show ?thesis using that [OF r] by simp
  qed
qed

lemma transmit_pipes_inv:
  assumes "bus_inv holds cfg (X + replicate_mset (pending es) b) Z D s" "b \<notin> set Z" "count (bus_refs s) b + pending es \<le> 16"
  shows "\<exists>es' t' s'. transmit_pipes cfg b es t s = Some (es', t', s') \<and> bus_inv holds cfg X Z D s' \<and> same_setup s s' \<and>
    TxnStatus t' = TxnStatus t"
  using assms
proof (induction es arbitrary: t s)
  case Nil
  then show ?case by simp
next
  case (Cons e es)
  show ?case
  proof (cases "PendingEventId e = 0")
    case False
    then show ?thesis using Cons.IH [of s t] Cons.prems by auto
  next
    case True
    have "bus_inv holds cfg (add_mset b (X + replicate_mset (pending es) b)) Z D s" "count (bus_refs s) b < 16"
      using Cons.prems(1,3) True by simp_all
    then obtain e' u r where h: "CFE_SB_TransmitTxn_PipeHandler cfg b e t s = Some (e', u, r)"
      "bus_inv holds cfg (X + replicate_mset (pending es) b) Z D r" "same_setup s r" "count (bus_refs r) b \<le> Suc (count (bus_refs s) b)"
      "TxnStatus u = TxnStatus t"
      using PipeHandler_inv [of b "X + replicate_mset (pending es) b" Z D s e t] Cons.prems(2) by metis
    have "count (bus_refs r) b + pending es \<le> 16" using h(4) Cons.prems(3) True by simp
    then show ?thesis using Cons.IH [OF h(2) Cons.prems(2), of u] h True same_setup_trans [OF h(3)] by auto
  qed
qed

lemma FindDestinations_inv:
  assumes i: "bus_inv holds cfg {#} Z D s" and b: "b \<in> set Z" and t: "PipeSet t = []" "MaxPipes t = 16" "TxnStatus t = CFE_SUCCESS"
  shows "\<exists>t' s'. CFE_SB_TransmitTxn_FindDestinations cfg c b t s = Some (t', s') \<and> pending (PipeSet t') \<le> 16 \<and>
    bus_inv holds cfg (add_mset b (replicate_mset (pending (PipeSet t')) b)) (remove1 b Z) D s' \<and> bus_refs s' = bus_refs s \<and>
    same_setup s s'"
proof -
  let ?r = "route_of (Routing s) (RoutingMsgId t)"
  have route: "CFE_SBR_GetRouteId (hash_map cfg) (Routing s) (RoutingMsgId t) = Some ?r"
    by (rule GetRouteId_spec) (rule bus_invD [OF i])
  let ?s1 = "upd_buf b (\<lambda>b. b\<lparr>DestRouteId := ?r\<rparr>) s"
  have i1: "bus_inv holds cfg {#} Z D ?s1" using i by (subst bus_inv_upd_buf) simp_all
  define s2 where "s2 = (if IsEndpoint t
     then let s = ?s1\<lparr>Routing := CFE_SBR_IncrementSequenceCounter (Routing ?s1) ?r\<rparr>
          in upd_buf b (\<lambda>b. b\<lparr>Content := the (snd (CFE_MSG_SetSequenceCount (Some (Content b))
                 (CFE_SBR_GetSequenceCounter (Routing s) ?r)))\<rparr>) s
     else ?s1)"
  have i2: "bus_inv holds cfg {#} Z D s2"
  proof (cases "IsEndpoint t")
    case True
    have "bus_inv holds cfg {#} Z D (?s1\<lparr>Routing := CFE_SBR_IncrementSequenceCounter (Routing ?s1) ?r\<rparr>)"
      using i1 unfolding CFE_SBR_IncrementSequenceCounter_def
      by (cases "CFE_SBR_IsValidRouteId ?r") (simp_all only: if_True if_False, subst bus_inv_routing, simp_all)
    then show ?thesis using True unfolding s2_def Let_def by (simp only: if_True) (subst bus_inv_upd_buf; simp)
  qed (use i1 in \<open>simp add: s2_def\<close>)
  have r2: "bus_refs s2 = bus_refs s" "Queues s2 = Queues s" "same_setup s s2" "same_setup s ?s1" by (simp_all add: s2_def Let_def)
  define tail where "tail = (\<lambda>(t :: CFE_SB_MessageTxn_State_t, s).
     let s = transit b s in
     if CFE_SB_MessageTxn_IsOK t \<and> IsEndpoint t
     then case CFE_MSG_OriginationAction (build cfg) (Now c) (Some (Content (Bufs s b)))
                 (AllocatedSize (Bufs s b)) (Some False) of (Status, m, IsAcceptable) \<Rightarrow>
            (if Status \<noteq> CFE_SUCCESS \<or> IsAcceptable \<noteq> Some True
             then CFE_SB_MessageTxn_SetEventAndStatus CFE_SB_SEND_MESSAGE_INTEGRITY_FAIL_EID Status t else t,
             upd_buf b (\<lambda>b. b\<lparr>Content := the m\<rparr>) s)
     else (t, s))"
  have tl: "PipeSet (fst (tail (u, v))) = PipeSet u \<and> bus_refs (snd (tail (u, v))) = bus_refs v \<and> same_setup v (snd (tail (u, v))) \<and>
      bus_inv holds cfg (add_mset b Y) (remove1 b Z) D (snd (tail (u, v)))"
    if "bus_inv holds cfg Y Z D v" for u v Y
  proof -
    have j: "bus_inv holds cfg (add_mset b Y) (remove1 b Z) D (transit b v)" by (rule inv_transit [OF that b])
    obtain st m ok where o: "CFE_MSG_OriginationAction (build cfg) (Now c) (Some (Content (Bufs (transit b v) b)))
                 (AllocatedSize (Bufs (transit b v) b)) (Some False) = (st, m, ok)" by (metis prod_cases3)
    have "bus_inv holds cfg (add_mset b Y) (remove1 b Z) D (upd_buf b (\<lambda>b. b\<lparr>Content := the m\<rparr>) (transit b v))"
      using j by (subst bus_inv_upd_buf) simp_all
    then show ?thesis using j o
      by (auto simp: tail_def Let_def CFE_SB_MessageTxn_SetEventAndStatus_def simp del: TrackingList_frame)
  qed
  show ?thesis
  proof (cases "CFE_SBR_IsValidRouteId ?r")
    case False
    let ?u = "(CFE_SB_MessageTxn_SetEventAndStatus CFE_SB_SEND_NO_SUBS_EID CFE_SUCCESS t,
       upd_hk (\<lambda>h. h\<lparr>NoSubscribersCounter := NoSubscribersCounter h + 1\<rparr>) ?s1)"
    have "CFE_SB_TransmitTxn_FindDestinations cfg c b t s = Some (tail ?u)"
      using route False unfolding CFE_SB_TransmitTxn_FindDestinations_def tail_def by (simp add: Let_def)
    moreover have "bus_inv holds cfg {#} Z D (snd ?u)" using i1 by simp
    moreover have "PipeSet (fst ?u) = []" using t(1) by (simp add: CFE_SB_MessageTxn_SetEventAndStatus_def Let_def)
    moreover have "same_setup s (snd ?u)" by simp
    ultimately show ?thesis using tl [of "{#}" "snd ?u" "fst ?u"] same_setup_trans [of s "snd ?u"] by (cases "tail ?u") simp
  next
    case True
    then obtain n where n: "n < 256" "?r = rid n" using valid_rid by blast
    have d: "dests_ok D s2" by (rule bus_invD [OF i2])
    have len: "length (D n) \<le> 16" by (rule dests_okD [OF d n(1)])
    have head: "CFE_SBR_GetDestListHeadPtr (Routing s2) ?r = hd (D n @ [NULL])"
      using head_rid [OF n(1), of s2] dest_list_head [OF dests_okD(1) [OF d n(1)]] n(2) by simp
    obtain u v where f: "fold (add_destination cfg c b) (D n) (t, s2) = (u, v)" by (cases "fold (add_destination cfg c b) (D n) (t, s2)")
    have "find_destinations cfg c b (CFE_SBR_GetDestListHeadPtr (Routing s2) ?r) (t, s2) = Some (u, v)"
      unfolding head using find_destinations_fold [OF d n(1), of "[]" "D n" t cfg c b] t len f by simp
    then have "CFE_SB_TransmitTxn_FindDestinations cfg c b t s = Some (tail (u, v))"
      using route True unfolding CFE_SB_TransmitTxn_FindDestinations_def tail_def s2_def by (simp add: Let_def)
    moreover obtain es where es: "PipeSet u = PipeSet t @ es" "length es \<le> length (D n)"
      "bus_inv holds cfg ({#} + replicate_mset (0 + pending es) b) Z D v" "bus_refs v = bus_refs s2" "same_setup s2 v"
      using fold_destinations_inv [of "{#}" 0 b Z D s2 "D n" c t u v] i2 b len f by auto
    moreover have "pending es \<le> 16" using pending_length [of es] es(2) len by simp
    moreover have "same_setup s v" using same_setup_trans [OF r2(3) es(5)] .
    ultimately show ?thesis using tl [OF es(3), of u] t(1) r2(1) same_setup_trans [of s v] by (cases "tail (u, v)") simp
  qed
qed

lemma Execute_inv:
  assumes i: "bus_inv holds cfg {#} Z D s" and b: "BufPtr - content_offset cfg \<in># bus_refs s + mset Z"
    and t: "PipeSet t = []" "MaxPipes t = 16" "TxnStatus t = CFE_SUCCESS"
  shows "\<exists>t' s'. CFE_SB_TransmitTxn_Execute cfg c BufPtr t s = Some (t', s') \<and>
     bus_inv holds cfg {#} (if BufPtr - content_offset cfg \<in> set Z then remove1 (BufPtr - content_offset cfg) Z else Z) D s' \<and>
     same_setup s s'"
proof -
  let ?b = "BufPtr - content_offset cfg"
  have own: "OwnerAppId (Bufs s ?b) \<noteq> CFE_RESOURCEID_UNDEFINED \<longleftrightarrow> ?b \<in> set Z" using bus_inv_Z(4) [OF i] b by simp
  show ?thesis
  proof (cases "?b \<in> set Z")
    case False
    then show ?thesis using own i by (simp add: CFE_SB_TransmitTxn_Execute_def CFE_SB_ZeroCopyBufferValidate_def)
  next
    case True
    let ?s1 = "upd_buf ?b (\<lambda>b. b\<lparr>ContentSize := TxnContentSize t, BufMsgId := RoutingMsgId t\<rparr>) s"
    have i1: "bus_inv holds cfg {#} Z D ?s1" using i by (subst bus_inv_upd_buf) simp_all
    obtain u v where f: "CFE_SB_TransmitTxn_FindDestinations cfg c ?b t ?s1 = Some (u, v)" "pending (PipeSet u) \<le> 16"
      "bus_inv holds cfg (add_mset ?b (replicate_mset (pending (PipeSet u)) ?b)) (remove1 ?b Z) D v" "bus_refs v = bus_refs ?s1" "same_setup ?s1 v"
      using FindDestinations_inv [OF i1 True t] by blast
    have out: "?b \<notin> set (remove1 ?b Z)" using bus_inv_Z(1) [OF i] by simp
    have "count (bus_refs v) ?b = 0" using f(4) bus_invD(6) [OF i True] by (simp add: not_in_iff)
    then obtain es x y where p: "transmit_pipes cfg ?b (PipeSet u) u v = Some (es, x, y)" "bus_inv holds cfg {#?b#} (remove1 ?b Z) D y" "same_setup v y"
      using transmit_pipes_inv [of "{#?b#}" "PipeSet u" ?b "remove1 ?b Z" D v u] f(2,3) out by auto
    have "bus_inv holds cfg {#} (remove1 ?b Z) D (CFE_SB_DecrBufUseCnt cfg ?b y)" using inv_decr [OF p(2) _ out] by simp
    moreover have "same_setup s (CFE_SB_DecrBufUseCnt cfg ?b y)"
      using same_setup_trans [OF same_setup_trans [OF _ f(5)] p(3), of s] by simp
    ultimately show ?thesis using f(1) p(1) own True
      by (simp add: CFE_SB_TransmitTxn_Execute_def CFE_SB_ZeroCopyBufferValidate_def)
  qed
qed

end

end
