(* ===== verification/CFS_SbCalls.thy ===== *)
theory CFS_SbCalls
  imports CFS_SbSend
begin

text \<open>
  The calls that transmit, receive, allocate and release messages keep the invariant and return; a receive does not
  return exactly when it waits for ever on an empty pipe.
\<close>

section \<open>The calls of the bus\<close>

definition caller_ok :: "sb_caller \<Rightarrow> bool" where
  "caller_ok c \<longleftrightarrow> (AppIdStatus c = CFE_SUCCESS \<longrightarrow> CallerAppId c \<noteq> CFE_RESOURCEID_UNDEFINED)"

lemma SetEventAndStatus_frame [simp]:
  "PipeSet (CFE_SB_MessageTxn_SetEventAndStatus e st t) = PipeSet t" "MaxPipes (CFE_SB_MessageTxn_SetEventAndStatus e st t) = MaxPipes t"
  "IsEndpoint (CFE_SB_MessageTxn_SetEventAndStatus e st t) = IsEndpoint t"
  by (simp_all add: CFE_SB_MessageTxn_SetEventAndStatus_def Let_def)

lemma SetupFromMsg_frame [simp]:
  "PipeSet (CFE_SB_TransmitTxn_SetupFromMsg cfg m t) = PipeSet t" "MaxPipes (CFE_SB_TransmitTxn_SetupFromMsg cfg m t) = MaxPipes t"
  by (auto simp: CFE_SB_TransmitTxn_SetupFromMsg_def CFE_SB_MessageTxn_SetRoutingMsgId_def CFE_SB_MessageTxn_SetContentSize_def Let_def
      split: prod.splits)

lemma TransmitTxn_Init_frame [simp]: "PipeSet (CFE_SB_TransmitTxn_Init x) = []" "MaxPipes (CFE_SB_TransmitTxn_Init x) = 16"
  by (simp_all add: CFE_SB_TransmitTxn_Init_def CFE_SB_MessageTxn_Init_def Let_def)

lemma SetEvent_not_OK: "e \<noteq> 0 \<Longrightarrow> \<not> CFE_SB_MessageTxn_IsOK (CFE_SB_MessageTxn_SetEventAndStatus e st t)"
  by (auto simp: CFE_SB_MessageTxn_IsOK_def CFE_SB_MessageTxn_SetEventAndStatus_def Let_def)

text \<open>The transaction of a message about to be sent.\<close>

definition transmit_setup :: "'p sb_cfg \<Rightarrow> bool \<Rightarrow> CFE_MSG_Message_t option \<Rightarrow> CFE_SB_MessageTxn_State_t" where
  "transmit_setup cfg null m =
     (let t = CFE_SB_TransmitTxn_Init null in if CFE_SB_MessageTxn_IsOK t then CFE_SB_TransmitTxn_SetupFromMsg cfg m t else t)"

lemma transmit_setup_frame [simp]: "PipeSet (transmit_setup cfg n m) = []" "MaxPipes (transmit_setup cfg n m) = 16"
  by (simp_all add: transmit_setup_def Let_def)

lemma null_not_OK: "\<not> CFE_SB_MessageTxn_IsOK (transmit_setup cfg True m)"
  by (simp add: transmit_setup_def CFE_SB_TransmitTxn_Init_def SetEvent_not_OK Let_def)

lemma upd_owner_comm: "b\<lparr>OwnerAppId := x, UseCount := y\<rparr> = b\<lparr>UseCount := y, OwnerAppId := x\<rparr>"
  by (cases b) simp

context sb_pool
begin

lemma TransmitBuffer_inv:
  assumes i: "bus_inv holds cfg {#} Z D s" and b: "BufPtr = NULL \<or> BufPtr - content_offset cfg \<in># bus_refs s + mset Z"
  obtains st s' where "CFE_SB_TransmitBuffer cfg c BufPtr org s = Some (st, s')" 
    "bus_inv holds cfg {#} Z D s' \<or>
     BufPtr - content_offset cfg \<in> set Z \<and> bus_inv holds cfg {#} (remove1 (BufPtr - content_offset cfg) Z) D s'"
    "same_setup s s'"
proof -
  define t where "t = transmit_setup cfg (BufPtr = NULL) (message_at cfg BufPtr s)"
  show thesis
  proof (cases "CFE_SB_MessageTxn_IsOK t")
    case False
    then have "CFE_SB_TransmitBuffer cfg c BufPtr org s = Some (TxnStatus t, CFE_SB_MessageTxn_ReportEvents cfg c t s)"
      unfolding t_def transmit_setup_def by (simp add: CFE_SB_TransmitBuffer_def Let_def)
    then show ?thesis using that quiet_frame(10) [OF ReportEvents_quiet] quiet_setup [OF ReportEvents_quiet] i by metis
  next
    case True
    then have "BufPtr \<noteq> NULL" using null_not_OK t_def by fastforce
    then have b': "BufPtr - content_offset cfg \<in># bus_refs s + mset Z" using b by simp
    obtain u v where e: "CFE_SB_TransmitTxn_Execute cfg c BufPtr (t\<lparr>IsEndpoint := org\<rparr>) s = Some (u, v)"
      "bus_inv holds cfg {#} (if BufPtr - content_offset cfg \<in> set Z then remove1 (BufPtr - content_offset cfg) Z else Z) D v" "same_setup s v"
      using Execute_inv [OF i b', of "t\<lparr>IsEndpoint := org\<rparr>" c] True by (auto simp: t_def CFE_SB_MessageTxn_IsOK_def)
    have "CFE_SB_TransmitBuffer cfg c BufPtr org s = Some (TxnStatus u, CFE_SB_MessageTxn_ReportEvents cfg c u v)"
      using True e(1) unfolding t_def transmit_setup_def by (simp add: CFE_SB_TransmitBuffer_def Let_def)
    moreover have "bus_inv holds cfg {#} Y D (CFE_SB_MessageTxn_ReportEvents cfg c u v) = bus_inv holds cfg {#} Y D v" for Y
      by (rule quiet_frame(10) [OF ReportEvents_quiet])
    moreover have "same_setup s (CFE_SB_MessageTxn_ReportEvents cfg c u v)"
      using same_setup_trans [OF e(3) quiet_setup [OF ReportEvents_quiet]] .
    ultimately show ?thesis using that e(2) by (auto split: if_splits)
  qed
qed

lemma TransmitMsg_inv:
  assumes i: "bus_inv holds cfg {#} Z D s" and c: "caller_ok c"
  obtains st s' where "CFE_SB_TransmitMsg cfg c MsgPtr org s = Some (st, s')" "bus_inv holds cfg {#} Z D s'" "same_setup s s'"
proof -
  define t where "t = transmit_setup cfg (MsgPtr = None) MsgPtr"
  show thesis
  proof (cases "CFE_SB_MessageTxn_IsOK t")
    case False
    then have "CFE_SB_TransmitMsg cfg c MsgPtr org s = Some (TxnStatus t, CFE_SB_MessageTxn_ReportEvents cfg c t s)"
      unfolding t_def transmit_setup_def by (simp add: CFE_SB_TransmitMsg_def Let_def)
    then show ?thesis using that quiet_frame(10) [OF ReportEvents_quiet] quiet_setup [OF ReportEvents_quiet] i by metis
  next
    case True
    obtain p u where a: "CFE_SB_AllocateMessageBuffer cfg c (TxnContentSize t) s = (p, u)"
      by (cases "CFE_SB_AllocateMessageBuffer cfg c (TxnContentSize t) s")
    note A = inv_alloc [OF i _ a]
    have su: "same_setup s u" using AllocateMessageBuffer_frame [OF a] by (simp add: same_setup_def route_head_def)
    have owner: "AppIdStatus c = CFE_SUCCESS \<Longrightarrow> CallerAppId c \<noteq> CFE_RESOURCEID_UNDEFINED" using c by (simp add: caller_ok_def)
    show ?thesis
    proof (cases "p = NULL")
      case null: True
      let ?t = "CFE_SB_MessageTxn_SetEventAndStatus CFE_SB_GET_BUF_ERR_EID CFE_SB_BUF_ALOC_ERR t"
      have "CFE_SB_TransmitMsg cfg c MsgPtr org s = Some (TxnStatus ?t, CFE_SB_MessageTxn_ReportEvents cfg c ?t u)"
        using True a null SetEvent_not_OK unfolding t_def transmit_setup_def by (simp add: CFE_SB_TransmitMsg_def Let_def)
      moreover have "bus_inv holds cfg {#} Z D u" using A owner null by simp
      moreover have "same_setup s (CFE_SB_MessageTxn_ReportEvents cfg c ?t u)"
        using same_setup_trans [OF su quiet_setup [OF ReportEvents_quiet]] .
      ultimately show ?thesis using that quiet_frame(10) [OF ReportEvents_quiet] by metis
    next
      case False
      obtain b where b: "p = b + content_offset cfg" "b \<notin># bus_refs s + mset Z" "bus_inv holds cfg {#} (Z @ [b]) D u"
        using A owner False by auto
      let ?v = "upd_buf (p - content_offset cfg)
                  (\<lambda>b. b\<lparr>Content := \<lambda>i. if i < unat (TxnContentSize t) then the MsgPtr i else Content b i\<rparr>) u"
      have i2: "bus_inv holds cfg {#} (Z @ [b]) D ?v" using b(3) by (subst bus_inv_upd_buf) simp_all
      have "remove1 b (Z @ [b]) = Z" using b(2) by (simp add: remove1_append)
      then obtain x y where e: "CFE_SB_TransmitTxn_Execute cfg c p (t\<lparr>IsEndpoint := org\<rparr>) ?v = Some (x, y)"
        "bus_inv holds cfg {#} Z D y" "same_setup ?v y"
        using Execute_inv [OF i2, of p "t\<lparr>IsEndpoint := org\<rparr>" c] True b(1) by (auto simp: t_def CFE_SB_MessageTxn_IsOK_def)
      have "CFE_SB_TransmitMsg cfg c MsgPtr org s = Some (TxnStatus x, CFE_SB_MessageTxn_ReportEvents cfg c x y)"
        using True a False e(1) unfolding t_def transmit_setup_def by (simp add: CFE_SB_TransmitMsg_def Let_def)
      moreover have "same_setup s ?v" using su by simp
      then have "same_setup s (CFE_SB_MessageTxn_ReportEvents cfg c x y)"
        using same_setup_trans [OF same_setup_trans [OF _ e(3)] quiet_setup [OF ReportEvents_quiet]] by blast
      ultimately show ?thesis using that e(2) quiet_frame(10) [OF ReportEvents_quiet] by metis
    qed
  qed
qed

lemma ReleaseMessageBuffer_inv:
  assumes i: "bus_inv holds cfg {#} Z D s" and b: "BufPtr = NULL \<or> BufPtr - content_offset cfg \<in># bus_refs s + mset Z"
    and r: "CFE_SB_ReleaseMessageBuffer cfg BufPtr s = (st, s')"
  shows "if BufPtr \<noteq> NULL \<and> BufPtr - content_offset cfg \<in> set Z
    then st = CFE_SUCCESS \<and> bus_inv holds cfg {#} (remove1 (BufPtr - content_offset cfg) Z) D s'
    else st \<noteq> CFE_SUCCESS \<and> s' = s"
proof (cases "BufPtr = NULL")
  case True
  then show ?thesis using r by (simp add: CFE_SB_ReleaseMessageBuffer_def)
next
  case False
  let ?b = "BufPtr - content_offset cfg"
  have own: "OwnerAppId (Bufs s ?b) \<noteq> CFE_RESOURCEID_UNDEFINED \<longleftrightarrow> ?b \<in> set Z" using bus_inv_Z(4) [OF i] b False by simp
  show ?thesis
  proof (cases "?b \<in> set Z")
    case z: True
    let ?u = "upd_buf ?b (\<lambda>b. b\<lparr>OwnerAppId := CFE_RESOURCEID_UNDEFINED\<rparr>) s"
    have s': "st = CFE_SUCCESS" "s' = CFE_SB_DecrBufUseCnt cfg ?b ?u"
      using r False own z by (auto simp: CFE_SB_ReleaseMessageBuffer_def CFE_SB_ZeroCopyBufferValidate_def)
    have eq: "CFE_SB_DecrBufUseCnt cfg ?b ?u = upd_buf ?b (\<lambda>b. b\<lparr>OwnerAppId := CFE_RESOURCEID_UNDEFINED\<rparr>) (CFE_SB_DecrBufUseCnt cfg ?b s)"
      by (simp add: CFE_SB_DecrBufUseCnt_def CFE_SB_ReturnBufferToPool_def CFE_SB_TrackingListRemove_def CFE_SB_TrackingListReset_def
          Let_def upd_owner_comm)
    have j: "bus_inv holds cfg {#} (remove1 ?b Z) D (CFE_SB_DecrBufUseCnt cfg ?b s)" by (rule inv_decr_owned [OF i z]) simp
    have gone: "?b \<notin># bus_refs (CFE_SB_DecrBufUseCnt cfg ?b s) + mset (remove1 ?b Z) + {#}"
    proof -
      have "?b \<notin> set (remove1 ?b Z)" using bus_inv_Z(1) [OF i] by simp
      then have "?b \<notin># mset (remove1 ?b Z)" by (simp only: set_mset_mset not_False_eq_True)
      then show ?thesis using bus_invD(6) [OF i z] by (simp del: mset_remove1)
    qed
    have "mem_ok holds R Z' N (upd_buf ?b (\<lambda>b. b\<lparr>OwnerAppId := CFE_RESOURCEID_UNDEFINED\<rparr>) (CFE_SB_DecrBufUseCnt cfg ?b s)) =
        mem_ok holds R Z' N (CFE_SB_DecrBufUseCnt cfg ?b s)" if "?b \<notin># R" for R Z' N
      using that by (intro mem_ok_upd_buf) simp
    from this [OF gone] have "bus_inv holds cfg {#} (remove1 ?b Z) D
        (upd_buf ?b (\<lambda>b. b\<lparr>OwnerAppId := CFE_RESOURCEID_UNDEFINED\<rparr>) (CFE_SB_DecrBufUseCnt cfg ?b s))"
      using j dests_ok_cong [of "upd_buf ?b (\<lambda>b. b\<lparr>OwnerAppId := CFE_RESOURCEID_UNDEFINED\<rparr>) (CFE_SB_DecrBufUseCnt cfg ?b s)"
          "CFE_SB_DecrBufUseCnt cfg ?b s" D]
      by (simp add: bus_inv_def)
    then show ?thesis using False z s' eq by simp
  next
    case z: False
    then show ?thesis using r False own by (auto simp: CFE_SB_ReleaseMessageBuffer_def CFE_SB_ZeroCopyBufferValidate_def)
  qed
qed

end

section \<open>Receiving\<close>

lemma match_live:
  assumes "CFE_SB_PipeDescIsMatch cfg pid s = Some i"
  shows "i < 64" "PipeId (PipeTbl s i) = pid" "live_pipe (PipeTbl s i)" "CFE_SB_LocatePipeDescByID cfg pid = Some i"
proof -
  show l: "CFE_SB_LocatePipeDescByID cfg pid = Some i" and p: "PipeId (PipeTbl s i) = pid"
    using assms by (auto simp: CFE_SB_PipeDescIsMatch_def split: option.splits if_splits)
  have base: "CFE_ResourceId_ToInteger pid - CFE_SB_PIPEID_BASE cfg \<le> 65535"
    and ix: "i = unat ((CFE_ResourceId_ToInteger pid - CFE_SB_PIPEID_BASE cfg) mod 64)"
    using l by (auto simp: CFE_SB_LocatePipeDescByID_def CFE_SB_PipeId_ToIndex_def Let_def not_less split: if_splits prod.splits)
  show "i < 64" unfolding ix by (simp add: unat_mod)
  show "live_pipe (PipeTbl s i)" using p base by (auto simp: live_pipe_def CFE_SB_PIPEID_BASE_def split: if_splits)
qed

lemma Decr_PipeTbl: "CFE_SB_DecrBufUseCnt cfg b (s\<lparr>PipeTbl := T\<rparr>) = (CFE_SB_DecrBufUseCnt cfg b s)\<lparr>PipeTbl := T\<rparr>"
  by (simp add: CFE_SB_DecrBufUseCnt_def CFE_SB_ReturnBufferToPool_def CFE_SB_TrackingListRemove_def CFE_SB_TrackingListReset_def Let_def)

lemma VerificationAction_ok: "CFE_MSG_VerificationAction (Some m) n (Some False) = (CFE_SUCCESS, Some True)"
  by simp

context sb_pool
begin

lemma SetPipeId_inv:
  assumes i: "bus_inv holds cfg {#} Z D s" and p: "CFE_SB_ReceiveTxn_SetPipeId cfg pid t s = (t', s')"
  shows "bus_inv holds cfg {#} Z D s'" "same_setup s s'"
    "CFE_SB_PipeDescIsMatch cfg pid s' = CFE_SB_PipeDescIsMatch cfg pid s" "Queues s' = Queues s"
    "CFE_SB_PipeDescIsMatch cfg pid s' = Some k \<Longrightarrow> LastBuffer (PipeTbl s' k) = NULL"
    "\<exists>e. PipeSet t' = [e] \<and> SetPipeId e = pid \<and> (CFE_SB_MessageTxn_IsOK t' \<longrightarrow> CFE_SB_PipeDescIsMatch cfg pid s' \<noteq> None \<and> PendingEventId e = 0)"
proof -
  show "bus_inv holds cfg {#} Z D s'"
  proof (cases "\<exists>k. CFE_SB_PipeDescIsMatch cfg pid s = Some k \<and> LastBuffer (PipeTbl s k) \<noteq> NULL")
    case True
    then obtain k where k: "CFE_SB_PipeDescIsMatch cfg pid s = Some k" "LastBuffer (PipeTbl s k) \<noteq> NULL" by blast
    let ?b = "LastBuffer (PipeTbl s k)"
    have "bus_inv holds cfg {#?b#} Z D (upd_pipe k (\<lambda>p. p\<lparr>LastBuffer := NULL\<rparr>) s)" "?b \<notin> set Z"
      using bus_inv_unlast [OF i match_live(1,3) [OF k(1)] refl k(2), of "\<lambda>p. p\<lparr>LastBuffer := NULL\<rparr>"] by (simp_all add: last_ref_def)
    then have "bus_inv holds cfg {#} Z D (CFE_SB_DecrBufUseCnt cfg ?b (upd_pipe k (\<lambda>p. p\<lparr>LastBuffer := NULL\<rparr>) s))"
      using inv_decr [of "{#?b#}" Z D _ ?b] by simp
    moreover have "s' = CFE_SB_DecrBufUseCnt cfg ?b (upd_pipe k (\<lambda>p. p\<lparr>LastBuffer := NULL\<rparr>) s)"
      using p k by (simp add: CFE_SB_ReceiveTxn_SetPipeId_def Let_def Decr_PipeTbl)
    ultimately show ?thesis by simp
  next
    case False
    then have "s' = s" using p by (auto simp: CFE_SB_ReceiveTxn_SetPipeId_def Let_def split: option.splits)
    then show ?thesis using i by simp
  qed
  show "same_setup s s'"
    using p by (auto simp: CFE_SB_ReceiveTxn_SetPipeId_def same_setup_def route_head_def Let_def split: option.splits if_splits)
  show "CFE_SB_PipeDescIsMatch cfg pid s' = CFE_SB_PipeDescIsMatch cfg pid s" "Queues s' = Queues s"
    "CFE_SB_PipeDescIsMatch cfg pid s' = Some k \<Longrightarrow> LastBuffer (PipeTbl s' k) = NULL"
    "\<exists>e. PipeSet t' = [e] \<and> SetPipeId e = pid \<and> (CFE_SB_MessageTxn_IsOK t' \<longrightarrow> CFE_SB_PipeDescIsMatch cfg pid s' \<noteq> None \<and> PendingEventId e = 0)"
    using p by (auto simp: CFE_SB_ReceiveTxn_SetPipeId_def CFE_SB_PipeDescIsMatch_def CFE_SB_MessageTxn_IsOK_def
        CFE_SB_MessageTxn_SetEventAndStatus_def Let_def split: option.splits if_splits)
qed

lemma ExportReference_inv:
  assumes i: "bus_inv holds cfg {#b#} Z D s" and b: "b \<notin> set Z" "b \<noteq> NULL" "count (bus_refs s) b < 16"
    and last: "\<And>k. CFE_SB_PipeDescIsMatch cfg (SetPipeId ctx) s = Some k \<Longrightarrow> LastBuffer (PipeTbl s k) = NULL"
  obtains p ctx' t' s' where "CFE_SB_ReceiveTxn_ExportReference cfg b ctx t s = Some (p, ctx', t', s')"
    "bus_inv holds cfg {#} Z D s'" "p = NULL \<or> p = b \<and> b \<in># bus_refs s' \<and> Content (Bufs s' b) = Content (Bufs s b)"
    "p = (if CFE_SB_PipeDescIsMatch cfg (SetPipeId ctx) s = None then NULL else b)" "IsEndpoint t' = IsEndpoint t" "same_setup s s'"
proof (cases "CFE_SB_PipeDescIsMatch cfg (SetPipeId ctx) s")
  case None
  have "bus_inv holds cfg {#} Z D (CFE_SB_DecrBufUseCnt cfg b s)" using inv_decr [OF i, of b] b by simp
  then show ?thesis using that None by (simp add: CFE_SB_ReceiveTxn_ExportReference_def)
next
  case (Some k)
  note m = match_live [OF Some]
  let ?s1 = "CFE_SB_IncrBufUseCnt b s"
  have i1: "bus_inv holds cfg {#b, b#} Z D ?s1" by (rule bus_inv_incr [OF i]) simp_all
  have l1: "last_ref (PipeTbl ?s1 k) = {#}" using last [OF Some] by (simp add: last_ref_def)
  let ?s2 = "upd_pipe k (\<lambda>p. p\<lparr>LastBuffer := b\<rparr>) ?s1"
  have i2: "bus_inv holds cfg {#b#} Z D ?s2" "bus_refs ?s2 = add_mset b (bus_refs s)"
    using bus_inv_last [OF i1 m(1) _ l1, of b] m(3) b by simp_all
  obtain p where g: "CFE_SB_GetDestPtr (DestRouteId (Bufs ?s2 b)) (SetPipeId ctx) ?s2 = Some p" "p = NULL \<or> p \<in> nodes D"
    using GetDestPtr_ends bus_invD(2) [OF i2(1)] by blast
  define s3 where "s3 = (if p \<noteq> NULL \<and> BuffCount (Dests ?s2 p) > 0 then upd_dest p (\<lambda>d. d\<lparr>BuffCount := BuffCount d - 1\<rparr>) ?s2 else ?s2)"
  have i3: "bus_inv holds cfg {#b#} Z D s3" "bus_refs s3 = bus_refs ?s2" "Bufs s3 = Bufs ?s2"
    using i2(1) bus_inv_upd_dest [of "\<lambda>d. d\<lparr>BuffCount := BuffCount d - 1\<rparr>" ?s2 p holds cfg "{#b#}" Z D] by (simp_all add: s3_def)
  define s4 where "s4 = (if CurrentQueueDepth (PipeTbl s3 k) > 0
                   then upd_pipe k (\<lambda>p. p\<lparr>CurrentQueueDepth := CurrentQueueDepth p - 1\<rparr>) s3 else s3)"
  have i4: "bus_inv holds cfg {#b#} Z D s4" "bus_refs s4 = bus_refs ?s2" "Bufs s4 = Bufs ?s2"
    using i3 bus_inv_upd_pipe [of "\<lambda>p. p\<lparr>CurrentQueueDepth := CurrentQueueDepth p - 1\<rparr>" s3 k holds cfg "{#b#}" Z D]
      bus_refs_upd_pipe [of "\<lambda>p. p\<lparr>CurrentQueueDepth := CurrentQueueDepth p - 1\<rparr>" s3 k] by (simp_all add: s4_def)
  have r: "CFE_SB_ReceiveTxn_ExportReference cfg b ctx t s = Some (b, ctx, t, CFE_SB_DecrBufUseCnt cfg b s4)"
    using Some g(1) by (simp add: CFE_SB_ReceiveTxn_ExportReference_def Let_def s3_def s4_def cong: if_cong)
  have "same_setup s s4" unfolding s4_def s3_def by (simp add: same_setup_def route_head_def)
  then have "same_setup s (CFE_SB_DecrBufUseCnt cfg b s4)" by simp
  moreover have "bus_inv holds cfg {#} Z D (CFE_SB_DecrBufUseCnt cfg b s4)" using inv_decr [OF i4(1), of b] b(1) by simp
  moreover have "b \<in># bus_refs (CFE_SB_DecrBufUseCnt cfg b s4)" using i4(2) i2(2) by simp
  moreover have "Content (Bufs (CFE_SB_DecrBufUseCnt cfg b s4) b) = Content (Bufs s b)"
    using i4(3) by (simp add: CFE_SB_DecrBufUseCnt_def CFE_SB_ReturnBufferToPool_def CFE_SB_IncrBufUseCnt_def Let_def)
  ultimately show ?thesis using that [OF r] Some by simp
qed

end

context sb_pool
begin

lemma receive_handler_inv:
  assumes i: "bus_inv holds cfg {#} Z D s"
    and last: "\<And>k. CFE_SB_PipeDescIsMatch cfg (SetPipeId ctx) s = Some k \<Longrightarrow> LastBuffer (PipeTbl s k) = NULL"
    and h: "CFE_SB_ReceiveTxn_PipeHandler cfg ctx t s = Some (p, ctx', t', s')"
  shows "bus_inv holds cfg {#} Z D s'" "p = NULL \<or> p \<in># bus_refs s'" "same_setup s s'"
proof -
  obtain n u where to: "CFE_SB_MessageTxn_GetOsTimeout t s = (n, u)" by (cases "CFE_SB_MessageTxn_GetOsTimeout t s")
  note q = GetOsTimeout_quiet [OF to]
  have iu: "bus_inv holds cfg {#} Z D u" using quiet_frame(10) [OF q] i by metis
  obtain st b v where g: "OS_QueueGet (SetSysQueueId ctx) n u = Some (st, b, v)"
    using h to by (cases "OS_QueueGet (SetSysQueueId ctx) n u") (auto simp: CFE_SB_ReceiveTxn_PipeHandler_def)
  have pt: "PipeTbl v = PipeTbl s"
    using g quiet_frame(3) [OF q] by (auto simp: OS_QueueGet_def split: option.splits list.splits if_splits)
  have sv: "same_setup s v" using same_setup_trans [OF quiet_setup [OF q] OS_Queue_setup(2) [OF g]] .
  have "bus_inv holds cfg {#} Z D s' \<and> (p = NULL \<or> p \<in># bus_refs s') \<and> same_setup s s'"
  proof (cases "st = OS_SUCCESS")
    case True
    note G = bus_inv_get [OF iu g [unfolded True]]
    have c: "count (bus_refs v) b < 16" using bus_invD(5) [OF iu, of b] unfolding G(2) by simp
    have m: "CFE_SB_PipeDescIsMatch cfg pid v = CFE_SB_PipeDescIsMatch cfg pid s" for pid by (rule match_cong) (rule pt)
    have l: "CFE_SB_PipeDescIsMatch cfg (SetPipeId (ctx\<lparr>OsStatus := st\<rparr>)) v = Some k \<Longrightarrow> LastBuffer (PipeTbl v k) = NULL" for k
      using last m pt by simp
    obtain p2 c2 t2 s2 where e: "CFE_SB_ReceiveTxn_ExportReference cfg b (ctx\<lparr>OsStatus := st\<rparr>) t v = Some (p2, c2, t2, s2)"
      "bus_inv holds cfg {#} Z D s2" "p2 = NULL \<or> p2 = b \<and> b \<in># bus_refs s2 \<and> Content (Bufs s2 b) = Content (Bufs v b)" "same_setup v s2"
      by (rule ExportReference_inv [OF G(1,3,4) c l])
    then show ?thesis using same_setup_trans [OF sv e(4)] h to g True G(4) by (auto simp: CFE_SB_ReceiveTxn_PipeHandler_def Let_def)
  next
    case False
    then have "v = u" using g by (auto simp: OS_QueueGet_def split: option.splits list.splits if_splits)
    then show ?thesis using h to g False iu sv by (auto simp: CFE_SB_ReceiveTxn_PipeHandler_def Let_def split: if_splits)
  qed
  then show "bus_inv holds cfg {#} Z D s'" "p = NULL \<or> p \<in># bus_refs s'" "same_setup s s'" by simp_all
qed

text \<open>The receiver runs through its loop once: the default verification accepts every message.\<close>

lemma ReceiveTxn_once:
  assumes "PipeSet t = [e]" "PendingEventId e = 0" "CFE_SB_MessageTxn_IsOK t"
  shows "CFE_SB_ReceiveTxn_Execute cfg c t s =
    (case CFE_SB_ReceiveTxn_PipeHandler cfg e t s of
       None \<Rightarrow> None
     | Some (bd, e', t', s') \<Rightarrow>
         Some (if bd = NULL then (NULL, t'\<lparr>PipeSet := [e'], RoutingMsgId := CFE_SB_INVALID_MSG_ID, TxnContentSize := 0\<rparr>, s')
               else (bd + content_offset cfg,
                     t'\<lparr>PipeSet := [e'], RoutingMsgId := BufMsgId (Bufs s' bd), TxnContentSize := ContentSize (Bufs s' bd)\<rparr>, s')))"
  using assms by (subst CFE_SB_ReceiveTxn_Execute.simps) (auto split: option.splits prod.splits)

definition receive_setup :: "bool \<Rightarrow> CFE_SB_PipeId_t \<Rightarrow> int \<Rightarrow> 'p sb_state \<Rightarrow> CFE_SB_MessageTxn_State_t \<times> 'p sb_state" where
  "receive_setup null pid n s =
     (let t = CFE_SB_ReceiveTxn_Init null;
          (t, s) = (if CFE_SB_MessageTxn_IsOK t then CFE_SB_MessageTxn_SetTimeout n t s else (t, s))
      in if CFE_SB_MessageTxn_IsOK t
         then case CFE_SB_ReceiveTxn_SetPipeId cfg pid t s of (t, s) \<Rightarrow> (t\<lparr>IsEndpoint := True\<rparr>, s) else (t, s))"

lemma receive_setup_inv:
  assumes i: "bus_inv holds cfg {#} Z D s" and r: "receive_setup null pid n s = (t, u)"
  shows "bus_inv holds cfg {#} Z D u" "Queues u = Queues s" "same_setup s u"
    "CFE_SB_PipeDescIsMatch cfg pid u = CFE_SB_PipeDescIsMatch cfg pid s"
    "CFE_SB_MessageTxn_IsOK t \<Longrightarrow> \<exists>e. PipeSet t = [e] \<and> SetPipeId e = pid \<and> PendingEventId e = 0 \<and>
       (\<exists>k. CFE_SB_PipeDescIsMatch cfg pid u = Some k \<and> LastBuffer (PipeTbl u k) = NULL)"
proof -
  obtain t1 s1 where st: "(if CFE_SB_MessageTxn_IsOK (CFE_SB_ReceiveTxn_Init null) then CFE_SB_MessageTxn_SetTimeout n (CFE_SB_ReceiveTxn_Init null) s
      else (CFE_SB_ReceiveTxn_Init null, s)) = (t1, s1)" by (metis surj_pair)
  have q: "quiet s s1" using st by (auto split: if_splits dest: SetTimeout_quiet)
  have i1: "bus_inv holds cfg {#} Z D s1" using quiet_frame(10) [OF q] i by metis
  have m1: "CFE_SB_PipeDescIsMatch cfg pid s1 = CFE_SB_PipeDescIsMatch cfg pid s" by (rule match_cong) (rule quiet_frame [OF q])
  have rs: "receive_setup null pid n s = (if CFE_SB_MessageTxn_IsOK t1
         then case CFE_SB_ReceiveTxn_SetPipeId cfg pid t1 s1 of (t, s) \<Rightarrow> (t\<lparr>IsEndpoint := True\<rparr>, s) else (t1, s1))"
    using st by (simp add: receive_setup_def Let_def)
  show "same_setup s u"
    using r rs quiet_setup [OF q] by (auto split: if_splits prod.splits dest!: SetPipeId_inv(2) [OF i1] intro: same_setup_trans)
  show "bus_inv holds cfg {#} Z D u" "Queues u = Queues s"
    "CFE_SB_PipeDescIsMatch cfg pid u = CFE_SB_PipeDescIsMatch cfg pid s"
    using r rs i1 m1 quiet_frame(4) [OF q] by (auto split: if_splits prod.splits dest: SetPipeId_inv(1,3,4) [OF i1])
  assume ok: "CFE_SB_MessageTxn_IsOK t"
  then have ok1: "CFE_SB_MessageTxn_IsOK t1" using r rs by (auto split: if_splits)
  obtain t2 where p: "CFE_SB_ReceiveTxn_SetPipeId cfg pid t1 s1 = (t2, u)" "t = t2\<lparr>IsEndpoint := True\<rparr>"
    using r rs ok1 by (auto split: prod.splits)
  have ok2: "CFE_SB_MessageTxn_IsOK t2" using ok p(2) by (simp add: CFE_SB_MessageTxn_IsOK_def)
  then show "\<exists>e. PipeSet t = [e] \<and> SetPipeId e = pid \<and> PendingEventId e = 0 \<and>
       (\<exists>k. CFE_SB_PipeDescIsMatch cfg pid u = Some k \<and> LastBuffer (PipeTbl u k) = NULL)"
    using SetPipeId_inv(5,6) [OF i1 p(1)] p(2) by fastforce
qed

lemma SetPipeId_entry:
  "CFE_SB_ReceiveTxn_SetPipeId cfg pid t s = (t', s') \<Longrightarrow> CFE_SB_PipeDescIsMatch cfg pid s = Some k \<Longrightarrow>
     PipeSet t' = [\<lparr>SetPipeId = pid, SetSysQueueId = SysQueueId (PipeTbl s k), PendingEventId = 0, OsStatus = OS_SUCCESS\<rparr>] \<and>
     TimeoutMode t' = TimeoutMode t"
  by (auto simp: CFE_SB_ReceiveTxn_SetPipeId_def Let_def)

lemma receive_setup_entry:
  assumes r: "receive_setup null pid n s = (t, u)" and ok: "CFE_SB_MessageTxn_IsOK t"
    and k: "CFE_SB_PipeDescIsMatch cfg pid s = Some k"
  shows "PipeSet t = [\<lparr>SetPipeId = pid, SetSysQueueId = SysQueueId (PipeTbl s k), PendingEventId = 0, OsStatus = OS_SUCCESS\<rparr>]"
    "TimeoutMode t = TimeoutMode_PEND \<Longrightarrow> n = - 1"
proof -
  obtain t1 s1 where st: "(if CFE_SB_MessageTxn_IsOK (CFE_SB_ReceiveTxn_Init null) then CFE_SB_MessageTxn_SetTimeout n (CFE_SB_ReceiveTxn_Init null) s
      else (CFE_SB_ReceiveTxn_Init null, s)) = (t1, s1)" by (metis surj_pair)
  have q: "quiet s s1" using st by (auto split: if_splits dest: SetTimeout_quiet)
  have rs: "receive_setup null pid n s = (if CFE_SB_MessageTxn_IsOK t1
         then case CFE_SB_ReceiveTxn_SetPipeId cfg pid t1 s1 of (t, s) \<Rightarrow> (t\<lparr>IsEndpoint := True\<rparr>, s) else (t1, s1))"
    using st by (simp add: receive_setup_def Let_def)
  then have ok1: "CFE_SB_MessageTxn_IsOK t1" using r ok by (auto split: if_splits)
  obtain t2 where p: "CFE_SB_ReceiveTxn_SetPipeId cfg pid t1 s1 = (t2, u)" "t = t2\<lparr>IsEndpoint := True\<rparr>"
    using r rs ok1 by (auto split: prod.splits)
  have "CFE_SB_PipeDescIsMatch cfg pid s1 = Some k" using k match_cong [OF quiet_frame(3) [OF q], of cfg pid] by simp
  note E = SetPipeId_entry [OF p(1) this]
  show "PipeSet t = [\<lparr>SetPipeId = pid, SetSysQueueId = SysQueueId (PipeTbl s k), PendingEventId = 0, OsStatus = OS_SUCCESS\<rparr>]"
    using E p(2) quiet_frame(3) [OF q] by simp
  have "TimeoutMode t1 = TimeoutMode_PEND \<Longrightarrow> n = - 1"
    using st by (auto simp: CFE_SB_MessageTxn_SetTimeout_def CFE_SB_ReceiveTxn_Init_def CFE_SB_MessageTxn_Init_def
        CFE_SB_MessageTxn_SetEventAndStatus_def CFE_PSP_GetTime_def Let_def split: if_splits)
  then show "TimeoutMode t = TimeoutMode_PEND \<Longrightarrow> n = - 1" using E p(2) by simp
qed

lemma ReceiveBuffer_setup:
  "CFE_SB_ReceiveBuffer cfg c null pid n s =
    (case receive_setup null pid n s of (t, s) \<Rightarrow>
       if \<not> null
       then (case CFE_SB_ReceiveTxn_Execute cfg c t s of
               None \<Rightarrow> None
             | Some (p, t, s) \<Rightarrow> Some (TxnStatus t, Some p, CFE_SB_MessageTxn_ReportEvents cfg c t s))
       else Some (TxnStatus t, None, CFE_SB_MessageTxn_ReportEvents cfg c t s))"
  by (auto simp: CFE_SB_ReceiveBuffer_def receive_setup_def Let_def split: prod.splits option.splits)

lemma ReceiveBuffer_inv:
  assumes i: "bus_inv holds cfg {#} Z D s" and r: "CFE_SB_ReceiveBuffer cfg c null pid n s = Some (st, p, s')"
  shows "bus_inv holds cfg {#} Z D s'" "p = Some a \<Longrightarrow> a \<noteq> NULL \<Longrightarrow> a - content_offset cfg \<in># bus_refs s'" "same_setup s s'"
proof -
  obtain t u where s: "receive_setup null pid n s = (t, u)" by (cases "receive_setup null pid n s")
  note S = receive_setup_inv [OF i s]
  have keep: "bus_inv holds cfg {#} Z D (CFE_SB_MessageTxn_ReportEvents cfg c t' v) = bus_inv holds cfg {#} Z D v"
    "bus_refs (CFE_SB_MessageTxn_ReportEvents cfg c t' v) = bus_refs v" for t' v
    by (rule quiet_frame [OF ReportEvents_quiet])+
  have rep: "same_setup s v \<Longrightarrow> same_setup s (CFE_SB_MessageTxn_ReportEvents cfg c t' v)" for t' v
    by (rule same_setup_trans [OF _ quiet_setup [OF ReportEvents_quiet]])
  have "bus_inv holds cfg {#} Z D s' \<and> same_setup s s' \<and> (\<forall>a. p = Some a \<and> a \<noteq> NULL \<longrightarrow> a - content_offset cfg \<in># bus_refs s')"
  proof (cases "\<not> null \<and> CFE_SB_MessageTxn_IsOK t")
    case True
    obtain e k where e: "PipeSet t = [e]" "SetPipeId e = pid" "PendingEventId e = 0"
      "CFE_SB_PipeDescIsMatch cfg pid u = Some k" "LastBuffer (PipeTbl u k) = NULL" using S(5) True by blast
    obtain b e' t' v where h: "CFE_SB_ReceiveTxn_PipeHandler cfg e t u = Some (b, e', t', v)"
      using r True s ReceiveTxn_once [OF e(1,3), of c u] by (auto simp: ReceiveBuffer_setup split: option.splits)
    have H: "bus_inv holds cfg {#} Z D v" "b = NULL \<or> b \<in># bus_refs v" "same_setup u v"
      using receive_handler_inv [OF S(1) _ h] e by auto
    have "same_setup s v" using same_setup_trans [OF S(3) H(3)] .
    note rep [OF this]
    show ?thesis using r True s ReceiveTxn_once [OF e(1,3), of c u] h H \<open>\<And>t'. same_setup s (CFE_SB_MessageTxn_ReportEvents cfg c t' v)\<close>
      by (auto simp: ReceiveBuffer_setup keep split: if_splits)
  next
    case False
    then have "s' = CFE_SB_MessageTxn_ReportEvents cfg c t u" "p = None \<or> p = Some NULL"
      using r s by (auto simp: ReceiveBuffer_setup CFE_SB_ReceiveTxn_Execute.simps [of cfg c t u] split: if_splits)
    then show ?thesis using keep S(1) rep [OF S(3)] by auto
  qed
  then show "bus_inv holds cfg {#} Z D s'" "p = Some a \<Longrightarrow> a \<noteq> NULL \<Longrightarrow> a - content_offset cfg \<in># bus_refs s'"
    "same_setup s s'" by auto
qed

lemma ExportReference_total:
  "dests_ok D s \<Longrightarrow> CFE_SB_ReceiveTxn_ExportReference cfg b ctx t s \<noteq> None"
proof (cases "CFE_SB_PipeDescIsMatch cfg (SetPipeId ctx) s")
  case (Some k)
  assume d: "dests_ok D s"
  let ?u = "upd_pipe k (\<lambda>p. p\<lparr>LastBuffer := b\<rparr>) (CFE_SB_IncrBufUseCnt b s)"
  have "dests_ok D ?u" using d by (subst dests_ok_cong) simp_all
  then obtain p where "CFE_SB_GetDestPtr (DestRouteId (Bufs ?u b)) (SetPipeId ctx) ?u = Some p" using GetDestPtr_ends by blast
  then show ?thesis using Some by (simp add: CFE_SB_ReceiveTxn_ExportReference_def Let_def)
qed (simp add: CFE_SB_ReceiveTxn_ExportReference_def)

text \<open>A receive does not return only when it waits forever on an empty pipe.\<close>

lemma ReceiveBuffer_total:
  assumes i: "bus_inv holds cfg {#} Z D s" and n: "CFE_SB_ReceiveBuffer cfg c null pid n s = None"
  shows "\<not> null \<and> n = CFE_SB_PEND_FOREVER \<and>
    (\<exists>k x. CFE_SB_PipeDescIsMatch cfg pid s = Some k \<and> map_of (Queues s) (SysQueueId (PipeTbl s k)) = Some x \<and> QueueItems x = [])"
proof -
  obtain t u where s: "receive_setup null pid n s = (t, u)" by (cases "receive_setup null pid n s")
  note S = receive_setup_inv [OF i s]
  have ok: "\<not> null" "CFE_SB_MessageTxn_IsOK t"
    using n s by (auto simp: ReceiveBuffer_setup CFE_SB_ReceiveTxn_Execute.simps [of cfg c t u] split: if_splits)
  obtain e k where e: "PipeSet t = [e]" "SetPipeId e = pid" "PendingEventId e = 0"
      "CFE_SB_PipeDescIsMatch cfg pid u = Some k" "LastBuffer (PipeTbl u k) = NULL" using S(5) ok(2) by blast
  have h: "CFE_SB_ReceiveTxn_PipeHandler cfg e t u = None"
    using n ok s ReceiveTxn_once [OF e(1,3) ok(2), of c u] by (auto simp: ReceiveBuffer_setup split: option.splits)
  obtain w v where to: "CFE_SB_MessageTxn_GetOsTimeout t u = (w, v)" by (cases "CFE_SB_MessageTxn_GetOsTimeout t u")
  note q = GetOsTimeout_quiet [OF to]
  have "OS_QueueGet (SetSysQueueId e) w v = None"
  proof (cases "OS_QueueGet (SetSysQueueId e) w v")
    case (Some a)
    obtain st b y where a: "a = (st, b, y)" by (metis prod_cases3)
    have "dests_ok D v" using quiet_frame(11) [OF q] bus_invD(2) [OF S(1)] by metis
    moreover have "Dests y = Dests v \<and> Routing y = Routing v"
      using Some a by (auto simp: OS_QueueGet_def split: option.splits list.splits if_splits)
    ultimately have "dests_ok D y" by (subst dests_ok_cong [of y v]) simp_all
    then have "CFE_SB_ReceiveTxn_ExportReference cfg b (e\<lparr>OsStatus := st\<rparr>) t y \<noteq> None" by (rule ExportReference_total)
    then show ?thesis using h to Some a
      by (auto simp: CFE_SB_ReceiveTxn_PipeHandler_def Let_def split: if_splits)
  qed
  then obtain x where x: "map_of (Queues v) (SetSysQueueId e) = Some x" "QueueItems x = []" "w = - 1"
    by (auto simp: OS_QueueGet_def split: option.splits list.splits if_splits)
  have "TimeoutMode t = TimeoutMode_PEND"
    using to x(3) by (auto simp: CFE_SB_MessageTxn_GetOsTimeout_def Let_def split: CFE_SB_MessageTxn_TimeoutMode_t.splits prod.splits if_splits)
  moreover have "CFE_SB_PipeDescIsMatch cfg pid s = Some k" using e(4) S(4) by simp
  moreover note k = this
  have "TimeoutMode t = TimeoutMode_PEND \<Longrightarrow> n = - 1" "SetSysQueueId e = SysQueueId (PipeTbl s k)"
    using receive_setup_entry [OF s ok(2) k] e(1) by simp_all
  moreover have "Queues v = Queues s" using quiet_frame(4) [OF q] S(2) by simp
  ultimately show ?thesis using ok x k by auto
qed

end

end
