(* ===== verification/CFS_SbPipes.thy ===== *)
theory CFS_SbPipes
  imports CFS_SbCalls
begin

text \<open>
  Creating and deleting pipes: \<^verbatim>\<open>CFE_SB_DeletePipeFull\<close> takes the pipe off every route, empties its queue and drops
  the references it had.  \<open>sb_inv\<close> adds to the invariant that live pipes have their own queues and that every
  destination belongs to a live pipe.
\<close>

section \<open>Creating pipes\<close>

lemma FindNext_loop_unused:
  "FindNext_loop chk B T n v = r \<Longrightarrow> r \<noteq> CFE_RESOURCEID_UNDEFINED \<Longrightarrow> \<not> chk r"
  by (induction n arbitrary: v) (auto simp: Let_def split: if_splits)

lemma Locate_reserved [simp]:
  "CFE_SB_LocatePipeDescByID cfg CFE_RESOURCEID_UNDEFINED = None" "CFE_SB_LocatePipeDescByID cfg CFE_RESOURCEID_RESERVED = None"
  by (simp_all add: CFE_SB_LocatePipeDescByID_def CFE_SB_PipeId_ToIndex_def CFE_SB_PIPEID_BASE_def)

lemma reserve_pipe_free:
  assumes "reserve_pipe cfg s = (Some (i, pid), s')"
  shows "CFE_SB_LocatePipeDescByID cfg pid = Some i" "PipeId (PipeTbl s i) = CFE_RESOURCEID_UNDEFINED" "i < 64"
    "s' = (upd_pipe i (\<lambda>_. zero_pipe\<lparr>PipeId := CFE_RESOURCEID_RESERVED\<rparr>) s)\<lparr>LastPipeId := pid\<rparr>"
proof -
  let ?p = "CFE_ResourceId_FindNext (LastPipeId s) (of_nat CFE_PLATFORM_SB_MAX_PIPES) (Some (CFE_SB_CheckPipeDescSlotUsed cfg s))"
  show l: "CFE_SB_LocatePipeDescByID cfg pid = Some i"
    and "s' = (upd_pipe i (\<lambda>_. zero_pipe\<lparr>PipeId := CFE_RESOURCEID_RESERVED\<rparr>) s)\<lparr>LastPipeId := pid\<rparr>"
    using assms by (auto simp: reserve_pipe_def Let_def split: option.splits)
  have p: "?p = pid" using assms by (auto simp: reserve_pipe_def Let_def split: option.splits)
  have "pid \<noteq> CFE_RESOURCEID_UNDEFINED" using l Locate_reserved(1) [of cfg] by auto
  then have "\<not> CFE_SB_CheckPipeDescSlotUsed cfg s pid"
    using p FindNext_loop_unused unfolding CFE_ResourceId_FindNext_def by (simp only: option.case) blast
  then show "PipeId (PipeTbl s i) = CFE_RESOURCEID_UNDEFINED"
    using l by (simp add: CFE_SB_CheckPipeDescSlotUsed_def CFE_SB_PipeDescIsUsed_def)
  have "i = unat ((CFE_ResourceId_ToInteger pid - CFE_SB_PIPEID_BASE cfg) mod 64)"
    using l by (auto simp: CFE_SB_LocatePipeDescByID_def CFE_SB_PipeId_ToIndex_def Let_def split: if_splits prod.splits)
  then show "i < 64" by (simp add: unat_mod)
qed

lemma QueueCreate_cases:
  assumes "OS_QueueCreate c name n s = (st, q, s')"
  shows "st \<noteq> OS_SUCCESS \<and> s' = s \<or>
    st = OS_SUCCESS \<and> q \<noteq> 0 \<and> map_of (Queues s) q = None \<and> name \<noteq> None \<and> n \<le> OS_QUEUE_MAX_DEPTH \<and>
      s' = s\<lparr>Queues := AList.update q \<lparr>QueueName = the name, QueueDepth = unat n, QueueItems = []\<rparr> (Queues s)\<rparr>"
  using assms by (auto simp: OS_QueueCreate_def find_Some_iff split: option.splits if_splits)

lemma bus_inv_refs_cong:
  assumes i: "bus_inv holds cfg X Z D s" and r: "bus_refs s' = bus_refs s" and q: "distinct (map fst (Queues s'))"
    and "Routing s' = Routing s" "Dests s' = Dests s" "Bufs s' = Bufs s" "LinkNext s' = LinkNext s" "LinkPrev s' = LinkPrev s"
    "Pool s' = Pool s" "SBBuffersInUse (StatTlm s') = SBBuffersInUse (StatTlm s)"
  shows "bus_inv holds cfg X Z D s'"
proof -
  have "dests_ok D s' = dests_ok D s" by (rule dests_ok_cong) (use assms in simp_all)
  moreover have "mem_ok holds R Z N s' = mem_ok holds R Z N s" for R N by (rule mem_ok_cong) (use assms in simp_all)
  ultimately show ?thesis using i q assms(4) by (simp add: bus_inv_def r)
qed

lemma last_ref_free: "PipeId d = CFE_RESOURCEID_UNDEFINED \<or> PipeId d = CFE_RESOURCEID_RESERVED \<or> LastBuffer d = NULL \<Longrightarrow> last_ref d = {#}"
  by (auto simp: last_ref_def live_pipe_def)

lemma CreatePipe_inv:
  assumes i: "bus_inv holds cfg X Z D s" and r: "CFE_SB_CreatePipe cfg c null depth name s = (st, p, s')"
  shows "bus_inv holds cfg X Z D s'"
proof (cases "null \<or> depth > OS_QUEUE_MAX_DEPTH \<or> depth = 0 \<or> name = Some []")
  case True
  then show ?thesis using r i by (auto simp: CFE_SB_CreatePipe_def abort_pipe_def Let_def)
next
  case ok: False
  obtain k u where k: "reserve_pipe cfg s = (k, u)" by (cases "reserve_pipe cfg s")
  show ?thesis
  proof (cases k)
    case None
    then have "u = s" using k by (auto simp: reserve_pipe_def Let_def split: option.splits)
    then show ?thesis using r ok k None i by (auto simp: CFE_SB_CreatePipe_def abort_pipe_def Let_def)
  next
    case (Some a)
    obtain n pid where a: "a = (n, pid)" by (cases a)
    note R = reserve_pipe_free [OF k [unfolded Some a]]
    have l: "last_ref (PipeTbl s n) = {#}" using R(2) by (simp add: last_ref_free)
    have upd: "last_refs ((PipeTbl s)(n := d)) = last_refs (PipeTbl s)" if "LastBuffer d = NULL" for d
      using l that by (intro last_refs_same) (simp add: last_ref_free)
    obtain qs q v where q: "OS_QueueCreate c name depth u = (qs, q, v)" by (metis prod_cases3)
    show ?thesis
    proof (cases "qs = OS_SUCCESS")
      case False
      then have "v = u" using QueueCreate_cases [OF q] by simp
      then have "s' = send_event (if qs = OS_ERR_NAME_TAKEN then CFE_SB_CR_PIPE_NAME_TAKEN_EID
           else if qs = OS_ERR_NO_FREE_IDS then CFE_SB_CR_PIPE_NO_FREE_EID else CFE_SB_CR_PIPE_ERR_EID) (abort_pipe (Some n) u)"
        using r ok k Some a q False by (simp add: CFE_SB_CreatePipe_def Let_def)
      moreover have "bus_inv holds cfg X Z D (upd_pipe n (\<lambda>p. p\<lparr>PipeId := CFE_RESOURCEID_UNDEFINED\<rparr>) u)"
        by (rule bus_inv_refs_cong [OF i]) (use bus_invD(3) [OF i] in \<open>simp_all add: R(4) bus_refs_def upd\<close>)
      ultimately show ?thesis by (simp add: abort_pipe_def Let_def)
    next
      case True
      then have Q: "map_of (Queues u) q = None"
        "v = u\<lparr>Queues := AList.update q \<lparr>QueueName = the name, QueueDepth = unat depth, QueueItems = []\<rparr> (Queues u)\<rparr>"
        using QueueCreate_cases [OF q] by simp_all
      have s': "s' = send_event CFE_SB_PIPE_ADDED_EID (v\<lparr>PipeTbl := PipeTbl s', StatTlm := StatTlm s'\<rparr>)"
        "PipeTbl s' = (PipeTbl s)(n := zero_pipe\<lparr>SysQueueId := q, MaxQueueDepth := depth, PipeAppId := CallerAppId c, PipeId := pid\<rparr>)"
        "SBBuffersInUse (StatTlm s') = SBBuffersInUse (StatTlm s)"
        using r ok k Some a q True Q(2) by (auto simp: CFE_SB_CreatePipe_def Let_def R(4))
      show ?thesis
      proof (rule bus_inv_refs_cong [OF i])
        show "bus_refs s' = bus_refs s"
          using Q by (subst s'(1)) (simp add: bus_refs_def s'(2) upd R(4) queued_new)
        show "distinct (map fst (Queues s'))"
          using bus_invD(3) [OF i] Q(2) by (subst s'(1)) (simp add: R(4) distinct_update)
      qed (subst s'(1), simp add: Q(2) R(4) s'(3))+
    qed
  qed
qed

section \<open>Removing destinations\<close>

lemma nodes_remove:
  assumes d: "dests_ok D s" and i: "i < 256" and p: "p \<in> set (D i)"
  shows "nodes (D(i := remove1 p (D i))) = nodes D - {p}"
proof -
  have "distinct (D i)" using dest_list_nodes(1) [OF dests_okD(1) [OF d i]] .
  moreover have "p \<notin> set (D j)" if "j \<noteq> i" for j using dests_ok_disjoint [OF d p, of j] that by blast
  ultimately show ?thesis by (auto simp: nodes_def split: if_splits)
qed

context sb_pool
begin

lemma RemoveDest_inv:
  assumes b: "bus_inv holds cfg X Z D s" and i: "i < 256" and p: "p \<in> set (D i)"
  shows "bus_inv holds cfg X Z (D(i := remove1 p (D i))) (CFE_SB_RemoveDest cfg (rid i) p s)"
    "q \<noteq> p \<Longrightarrow> same_dest (Dests s q) (Dests (CFE_SB_RemoveDest cfg (rid i) p s) q)"
    "PipeTbl (CFE_SB_RemoveDest cfg (rid i) p s) = PipeTbl s" "Queues (CFE_SB_RemoveDest cfg (rid i) p s) = Queues s"
    "RouteIdxTop (Routing (CFE_SB_RemoveDest cfg (rid i) p s)) = RouteIdxTop (Routing s)"
    "msgid_at (Routing (CFE_SB_RemoveDest cfg (rid i) p s)) = msgid_at (Routing s)"
    "PipesInUse (StatTlm (CFE_SB_RemoveDest cfg (rid i) p s)) = PipesInUse (StatTlm s)"
proof -
  let ?u = "CFE_SB_RemoveDestNode (rid i) p s"
  let ?v = "snd (CFE_SB_PutDestinationBlk cfg p ?u)"
  have s': "CFE_SB_RemoveDest cfg (rid i) p s = upd_stat (\<lambda>t. t\<lparr>SubscriptionsInUse := SubscriptionsInUse t - 1\<rparr>) ?v"
    by (simp add: CFE_SB_RemoveDest_def Let_def)
  note d = bus_invD(2) [OF b]
  note A = dests_ok_remove [OF d i p]
  obtain ds r where u: "?u = s\<lparr>Dests := ds, Routing := r\<rparr>" "RouteIdxTop r = RouteIdxTop (Routing s)" "msgid_at r = msgid_at (Routing s)"
    using A(4) by blast
  have "mem_ok holds (bus_refs s + mset Z + X) Z (nodes D) ?u"
    using bus_invD(4) [OF b] unfolding u(1) by (subst mem_ok_cong) simp_all
  then have "mem_ok holds (bus_refs s + mset Z + X) Z (nodes D - {p}) ?v"
    by (rule mem_ok_put_dest) (use p in \<open>auto simp: nodes_def\<close>)
  then have m: "mem_ok holds (bus_refs s + mset Z + X) Z (nodes (D(i := remove1 p (D i)))) (CFE_SB_RemoveDest cfg (rid i) p s)"
    unfolding nodes_remove [OF d i p] s' by (subst mem_ok_cong) simp_all
  have "dests_ok (D(i := remove1 p (D i))) (CFE_SB_RemoveDest cfg (rid i) p s) = dests_ok (D(i := remove1 p (D i))) ?u"
    by (rule dests_ok_cong) (simp_all add: s')
  moreover have "bus_refs (CFE_SB_RemoveDest cfg (rid i) p s) = bus_refs s" unfolding s' u(1) by simp
  moreover have "Queues (CFE_SB_RemoveDest cfg (rid i) p s) = Queues s" unfolding s' u(1) by simp
  moreover have "sbr_inv (hash_map cfg) (Routing (CFE_SB_RemoveDest cfg (rid i) p s)) = sbr_inv (hash_map cfg) (Routing s)"
    using A(3) unfolding s' by simp
  ultimately show "bus_inv holds cfg X Z (D(i := remove1 p (D i))) (CFE_SB_RemoveDest cfg (rid i) p s)"
    using b A(1) m unfolding bus_inv_def by simp
  show "q \<noteq> p \<Longrightarrow> same_dest (Dests s q) (Dests (CFE_SB_RemoveDest cfg (rid i) p s) q)" using A(2) unfolding s' by simp
  show "PipeTbl (CFE_SB_RemoveDest cfg (rid i) p s) = PipeTbl s" "Queues (CFE_SB_RemoveDest cfg (rid i) p s) = Queues s"
    "RouteIdxTop (Routing (CFE_SB_RemoveDest cfg (rid i) p s)) = RouteIdxTop (Routing s)"
    "msgid_at (Routing (CFE_SB_RemoveDest cfg (rid i) p s)) = msgid_at (Routing s)"
    "PipesInUse (StatTlm (CFE_SB_RemoveDest cfg (rid i) p s)) = PipesInUse (StatTlm s)"
    unfolding s' u(1) using u(2,3) by simp_all
qed

text \<open>The destination of a pipe is its only one on the route, so removing it filters the list.\<close>

lemma remove1_find:
  "distinct (map f xs) \<Longrightarrow> List.find (\<lambda>x. f x = a) xs = Some p \<Longrightarrow> remove1 p xs = filter (\<lambda>x. f x \<noteq> a) xs"
proof (induction xs)
  case (Cons x xs)
  show ?case
  proof (cases "f x = a")
    case True
    have "\<forall>y\<in>set xs. f y \<noteq> a" using Cons.prems(1) unfolding True [symmetric] by (auto simp: image_iff)
    then show ?thesis using Cons.prems(2) True by (simp add: filter_True)
  next
    case False
    then show ?thesis using Cons by (auto simp: find_Some_iff)
  qed
qed simp

lemma RemovePipeFromRoute_inv:
  assumes b: "bus_inv holds cfg X Z D s" and i: "i < 256"
  shows "\<exists>s'. CFE_SB_RemovePipeFromRoute cfg pid (rid i) (Some s) = Some s' \<and>
    bus_inv holds cfg X Z (D(i := filter (\<lambda>p. DestPipeId (Dests s p) \<noteq> pid) (D i))) s' \<and>
    (\<forall>q \<in> nodes (D(i := filter (\<lambda>p. DestPipeId (Dests s p) \<noteq> pid) (D i))). same_dest (Dests s q) (Dests s' q)) \<and>
    PipeTbl s' = PipeTbl s \<and> Queues s' = Queues s \<and> RouteIdxTop (Routing s') = RouteIdxTop (Routing s) \<and>
    msgid_at (Routing s') = msgid_at (Routing s) \<and> PipesInUse (StatTlm s') = PipesInUse (StatTlm s)"
proof -
  note d = bus_invD(2) [OF b]
  have g: "CFE_SB_GetDestPtr (rid i) pid s = Some (ptr_of (List.find (\<lambda>p. DestPipeId (Dests s p) = pid) (D i)))"
    by (rule GetDestPtr_rid [OF d i])
  show ?thesis
  proof (cases "List.find (\<lambda>p. DestPipeId (Dests s p) = pid) (D i)")
    case None
    then have "filter (\<lambda>p. DestPipeId (Dests s p) \<noteq> pid) (D i) = D i" by (simp add: find_None_iff filter_id_conv)
    then show ?thesis using g None b by (simp add: CFE_SB_RemovePipeFromRoute_def)
  next
    case (Some p)
    then have p: "p \<in> set (D i)" by (auto simp: find_Some_iff)
    have "p \<noteq> NULL" using p dest_list_nodes(2) [OF dests_okD(1) [OF d i]] by auto
    then have r: "CFE_SB_RemovePipeFromRoute cfg pid (rid i) (Some s) = Some (CFE_SB_RemoveDest cfg (rid i) p s)"
      using g Some by (simp add: CFE_SB_RemovePipeFromRoute_def)
    note f = remove1_find [OF dests_okD(3) [OF d i] Some]
    note R = RemoveDest_inv [OF b i p]
    have "same_dest (Dests s q) (Dests (CFE_SB_RemoveDest cfg (rid i) p s) q)"
      if "q \<in> nodes (D(i := filter (\<lambda>p. DestPipeId (Dests s p) \<noteq> pid) (D i)))" for q
      using that R(2) [of q] nodes_remove [OF d i p] unfolding f by auto
    then show ?thesis using r R(1,3-7) unfolding f by blast
  qed
qed

lemma fold_remove_inv:
  assumes "bus_inv holds cfg X Z D s" "distinct ks" "\<And>k. k \<in> set ks \<Longrightarrow> k < 256"
  shows "\<exists>s'. fold (\<lambda>k. CFE_SB_RemovePipeFromRoute cfg pid (rid k)) ks (Some s) = Some s' \<and>
    bus_inv holds cfg X Z (\<lambda>i. if i \<in> set ks then filter (\<lambda>p. DestPipeId (Dests s p) \<noteq> pid) (D i) else D i) s' \<and>
    (\<forall>q \<in> nodes (\<lambda>i. if i \<in> set ks then filter (\<lambda>p. DestPipeId (Dests s p) \<noteq> pid) (D i) else D i). same_dest (Dests s q) (Dests s' q)) \<and>
    PipeTbl s' = PipeTbl s \<and> Queues s' = Queues s \<and> RouteIdxTop (Routing s') = RouteIdxTop (Routing s) \<and>
    msgid_at (Routing s') = msgid_at (Routing s) \<and> PipesInUse (StatTlm s') = PipesInUse (StatTlm s)"
  using assms
proof (induction ks arbitrary: s D)
  case Nil
  then show ?case by simp
next
  case (Cons k ks)
  let ?f = "\<lambda>s i. filter (\<lambda>p. DestPipeId (Dests s p) \<noteq> pid) (D i)"
  let ?D1 = "D(k := ?f s k)"
  obtain u where u: "CFE_SB_RemovePipeFromRoute cfg pid (rid k) (Some s) = Some u" "bus_inv holds cfg X Z ?D1 u"
    "\<forall>q \<in> nodes ?D1. same_dest (Dests s q) (Dests u q)"
    "PipeTbl u = PipeTbl s" "Queues u = Queues s" "RouteIdxTop (Routing u) = RouteIdxTop (Routing s)"
    "msgid_at (Routing u) = msgid_at (Routing s)" "PipesInUse (StatTlm u) = PipesInUse (StatTlm s)"
    using RemovePipeFromRoute_inv [OF Cons.prems(1), of k pid] Cons.prems(3) by auto
  have "DestPipeId (Dests u q) = DestPipeId (Dests s q)" if "q \<in> set (D i)" "i \<noteq> k" for q i
  proof -
    have "q \<in> nodes ?D1" using that by (auto simp: nodes_def intro!: exI [of _ i])
    then show ?thesis using u(3) same_destD by blast
  qed
  then have fil: "filter (\<lambda>p. DestPipeId (Dests u p) \<noteq> pid) (D i) = ?f s i" if "i \<noteq> k" for i
    using that by (intro filter_cong) auto
  let ?D2 = "\<lambda>i. if i \<in> set (k # ks) then ?f s i else D i"
  have D2: "(\<lambda>i. if i \<in> set ks then filter (\<lambda>p. DestPipeId (Dests u p) \<noteq> pid) (?D1 i) else ?D1 i) = ?D2"
    using fil Cons.prems(2) by (auto simp: fun_eq_iff)
  obtain s' where s': "fold (\<lambda>k. CFE_SB_RemovePipeFromRoute cfg pid (rid k)) ks (Some u) = Some s'"
    "bus_inv holds cfg X Z ?D2 s'" "\<forall>q \<in> nodes ?D2. same_dest (Dests u q) (Dests s' q)"
    "PipeTbl s' = PipeTbl u" "Queues s' = Queues u" "RouteIdxTop (Routing s') = RouteIdxTop (Routing u)"
    "msgid_at (Routing s') = msgid_at (Routing u)" "PipesInUse (StatTlm s') = PipesInUse (StatTlm u)"
    using Cons.IH [OF u(2)] Cons.prems unfolding D2 by auto
  have sub: "nodes ?D2 \<subseteq> nodes ?D1" by (auto simp: nodes_def split: if_splits)
  have "same_dest (Dests s q) (Dests s' q)" if "q \<in> nodes ?D2" for q
  proof -
    have "same_dest (Dests s q) (Dests u q)" "same_dest (Dests u q) (Dests s' q)" using u(3) s'(3) that sub by blast+
    then show ?thesis by (simp add: same_dest_def)
  qed
  moreover have "fold (\<lambda>k. CFE_SB_RemovePipeFromRoute cfg pid (rid k)) (k # ks) (Some s) = Some s'" using u(1) s'(1) by simp
  ultimately show ?case using s'(2,4-8) u(4-8) by (intro exI [of _ s']) simp
qed

end

section \<open>Deleting pipes\<close>

lemma ForEachRouteId_fold:
  assumes "top_idx r \<le> 256"
  shows "fst (CFE_SBR_ForEachRouteId r f a None) = fold (\<lambda>k. f (rid k)) [0..<top_idx r] a"
proof -
  have "fold (\<lambda>i. f (CFE_SBR_ValueToRouteId (of_nat i))) [0..<top_idx r] a = fold (\<lambda>k. f (rid k)) [0..<top_idx r] a"
    using assms by (intro fold_cong) (simp_all add: ValueToRouteId_rid unat_of_nat)
  then show ?thesis by (simp add: CFE_SBR_ForEachRouteId_def Let_def)
qed

text \<open>The destinations that do not belong to a pipe.\<close>

abbreviation (input) others :: "'p sb_state \<Rightarrow> CFE_SB_PipeId_t \<Rightarrow> (nat \<Rightarrow> pointer list) \<Rightarrow> nat \<Rightarrow> pointer list" where
  "others s pid D \<equiv> \<lambda>i. filter (\<lambda>p. DestPipeId (Dests s p) \<noteq> pid) (D i)"

context sb_pool
begin

lemma drain_pipe_empty:
  assumes "map_of (Queues s) q = None"
  shows "drain_pipe cfg q b s = Some (if b \<noteq> NULL then CFE_SB_DecrBufUseCnt cfg b s else s)"
  using assms by (subst drain_pipe.simps) (simp add: OS_QueueGet_def Let_def)

lemma drain_pipe_inv:
  assumes "bus_inv holds cfg (if b = NULL then {#} else {#b#}) Z D s" "b \<notin> set Z" "map_of (Queues s) q = Some x"
  shows "\<exists>s'. drain_pipe cfg q b s = Some s' \<and> bus_inv holds cfg {#} Z D s' \<and> Routing s' = Routing s \<and> Dests s' = Dests s \<and>
    Queues s' = AList.update q (x\<lparr>QueueItems := []\<rparr>) (Queues s) \<and> PipeTbl s' = PipeTbl s \<and> 
    PipesInUse (StatTlm s') = PipesInUse (StatTlm s)"
  using assms
proof (induction "QueueItems x" arbitrary: x b s)
  case Nil
  let ?u = "if b \<noteq> NULL then CFE_SB_DecrBufUseCnt cfg b s else s"
  have "bus_inv holds cfg {#} Z D ?u" using Nil inv_decr [of "{#b#}" Z D s b] by (auto split: if_splits)
  moreover have "AList.update q (x\<lparr>QueueItems := []\<rparr>) (Queues s) = Queues s"
    using Nil by (simp add: update_triv)
  moreover have "drain_pipe cfg q b s = Some ?u"
    using Nil.hyps [symmetric] Nil.prems(3) by (subst drain_pipe.simps) (simp add: OS_QueueGet_def Let_def)
  ultimately show ?case by (cases "b = NULL") simp_all
next
  case (Cons a as)
  let ?u = "if b \<noteq> NULL then CFE_SB_DecrBufUseCnt cfg b s else s"
  have u: "bus_inv holds cfg {#} Z D ?u" using Cons.prems inv_decr [of "{#b#}" Z D s b] by (auto split: if_splits)
  let ?x = "x\<lparr>QueueItems := as\<rparr>"
  let ?v = "?u\<lparr>Queues := AList.update q ?x (Queues s)\<rparr>"
  have g: "OS_QueueGet q OS_CHECK ?u = Some (OS_SUCCESS, a, ?v)"
    using Cons.prems(3) Cons.hyps(2) [symmetric] by (simp add: OS_QueueGet_def)
  note b = bus_inv_get [OF u g]
  obtain s' where s': "drain_pipe cfg q a ?v = Some s'" "bus_inv holds cfg {#} Z D s'" "Routing s' = Routing ?v" "Dests s' = Dests ?v"
    "Queues s' = AList.update q (?x\<lparr>QueueItems := []\<rparr>) (Queues ?v)" "PipeTbl s' = PipeTbl ?v" 
    "PipesInUse (StatTlm s') = PipesInUse (StatTlm ?v)"
    using Cons.hyps(1) [of ?x a ?v] b by (auto simp: update_conv')
  have "drain_pipe cfg q b s = Some s'"
    using s'(1) g by (subst drain_pipe.simps) (simp add: Let_def)
  then show ?case using s'(2-) by (intro exI [of _ s']) simp
qed

lemma detach_pipe_inv:
  assumes b: "bus_inv holds cfg {#} Z D s" and i: "i < 64" "live_pipe (PipeTbl s i)"
  obtains s' where "detach_pipe cfg pid i s = Some s'"
    "bus_inv holds cfg (last_ref (PipeTbl s i)) Z (others s pid D) s'" "set_mset (last_ref (PipeTbl s i)) \<inter> set Z = {}"
    "PipeTbl s' = (PipeTbl s)(i := (PipeTbl s i)\<lparr>PipeId := CFE_RESOURCEID_RESERVED\<rparr>)" "Queues s' = Queues s"
    "\<forall>q \<in> nodes (others s pid D). same_dest (Dests s q) (Dests s' q)" "RouteIdxTop (Routing s') = RouteIdxTop (Routing s)"
    "msgid_at (Routing s') = msgid_at (Routing s)" "PipesInUse (StatTlm s') = PipesInUse (StatTlm s)"
proof -
  have top: "top_idx (Routing s) \<le> 256" using bus_invD(1) [OF b] by (simp add: sbr_inv_def routes_ok_def)
  have out: "(\<lambda>k. if k \<in> set [0..<top_idx (Routing s)] then filter (\<lambda>p. DestPipeId (Dests s p) \<noteq> pid) (D k) else D k) = others s pid D"
  proof
    fix k
    have "D k = []" if "k \<ge> top_idx (Routing s)" using bus_invD(2) [OF b] that by (simp add: dests_ok_def)
    then show "(if k \<in> set [0..<top_idx (Routing s)] then filter (\<lambda>p. DestPipeId (Dests s p) \<noteq> pid) (D k) else D k) = others s pid D k"
      by (cases "k < top_idx (Routing s)") simp_all
  qed
  obtain u where u: "fold (\<lambda>k. CFE_SB_RemovePipeFromRoute cfg pid (rid k)) [0..<top_idx (Routing s)] (Some s) = Some u"
    "bus_inv holds cfg {#} Z (others s pid D) u" "\<forall>q \<in> nodes (others s pid D). same_dest (Dests s q) (Dests u q)"
    "PipeTbl u = PipeTbl s" "Queues u = Queues s" "RouteIdxTop (Routing u) = RouteIdxTop (Routing s)"
    "msgid_at (Routing u) = msgid_at (Routing s)" "PipesInUse (StatTlm u) = PipesInUse (StatTlm s)"
    using fold_remove_inv [OF b, of "[0..<top_idx (Routing s)]" pid] top unfolding out by auto
  let ?r = "\<lambda>p. p\<lparr>PipeId := CFE_RESOURCEID_RESERVED\<rparr>"
  have d: "detach_pipe cfg pid i s = Some (upd_pipe i ?r u)"
    using u(1) by (simp add: detach_pipe_def ForEachRouteId_fold [OF top])
  have f: "last_ref (?r (PipeTbl u i)) = {#}" by (simp add: last_ref_free)
  have "bus_inv holds cfg (last_ref (PipeTbl s i)) Z (others s pid D) (upd_pipe i ?r u) \<and> set_mset (last_ref (PipeTbl s i)) \<inter> set Z = {}"
  proof (cases "LastBuffer (PipeTbl s i) = NULL")
    case True
    then have l: "last_ref (PipeTbl u i) = {#}" by (simp add: u(4) last_ref_free)
    have "bus_inv holds cfg {#} Z (others s pid D) (upd_pipe i ?r u)"
      by (rule bus_inv_refs_cong [OF u(2)]) (use bus_invD(3) [OF u(2)] l f in \<open>simp_all add: bus_refs_def last_refs_same\<close>)
    then show ?thesis using l by (simp add: u(4))
  next
    case False
    then have l: "last_ref (PipeTbl s i) = {#LastBuffer (PipeTbl s i)#}" using i(2) by (simp add: last_ref_def)
    have "live_pipe (PipeTbl u i)" "LastBuffer (PipeTbl u i) = LastBuffer (PipeTbl s i)" using i(2) by (simp_all add: u(4))
    from bus_inv_unlast [where f = ?r, OF u(2) i(1) this False f] show ?thesis by (simp add: l)
  qed
  then show thesis using that [OF d] u by simp
qed

lemma QueueDelete_inv:
  assumes b: "bus_inv holds cfg X Z D s" and e: "\<And>x. map_of (Queues s) q = Some x \<Longrightarrow> QueueItems x = []"
  shows "bus_inv holds cfg X Z D (snd (OS_QueueDelete q s))"
    "Queues (snd (OS_QueueDelete q s)) = AList.delete q (Queues s)" "PipeTbl (snd (OS_QueueDelete q s)) = PipeTbl s"
    "Routing (snd (OS_QueueDelete q s)) = Routing s" "Dests (snd (OS_QueueDelete q s)) = Dests s"
    "StatTlm (snd (OS_QueueDelete q s)) = StatTlm s" "Bufs (snd (OS_QueueDelete q s)) = Bufs s"
    "bus_refs (snd (OS_QueueDelete q s)) = bus_refs s"
proof -
  note dq = bus_invD(3) [OF b]
  have q: "queued (AList.delete q (Queues s)) = queued (Queues s)"
  proof (cases "map_of (Queues s) q")
    case (Some x)
    then show ?thesis using queued_delete [OF dq Some] e [OF Some] by simp
  qed (simp add: delete_none)
  show "Queues (snd (OS_QueueDelete q s)) = AList.delete q (Queues s)"
    by (auto simp: OS_QueueDelete_def delete_none split: option.splits)
  show r: "bus_refs (snd (OS_QueueDelete q s)) = bus_refs s" using q by (auto simp: OS_QueueDelete_def bus_refs_def split: option.splits)
  show "bus_inv holds cfg X Z D (snd (OS_QueueDelete q s))"
    by (rule bus_inv_refs_cong [OF b r])
      (use dq in \<open>auto simp: OS_QueueDelete_def distinct_delete split: option.splits\<close>)
qed (auto simp: OS_QueueDelete_def split: option.splits)

lemma DeletePipeFull_fails:
  assumes "\<And>i. CFE_SB_PipeDescIsMatch cfg pid s = Some i \<Longrightarrow> AppId \<noteq> PipeAppId (PipeTbl s i)"
  shows "\<exists>s'. CFE_SB_DeletePipeFull cfg pid AppId s = Some (CFE_SB_BAD_ARGUMENT, s') \<and> quiet s s'"
  using assms by (cases "CFE_SB_PipeDescIsMatch cfg pid s") (simp_all add: CFE_SB_DeletePipeFull_def Let_def)

lemma DeletePipeFull_inv:
  assumes b: "bus_inv holds cfg {#} Z D s" and m: "CFE_SB_PipeDescIsMatch cfg pid s = Some i" and a: "PipeAppId (PipeTbl s i) = AppId"
  obtains s' where "CFE_SB_DeletePipeFull cfg pid AppId s = Some (CFE_SUCCESS, s')" "bus_inv holds cfg {#} Z (others s pid D) s'"
    "PipeTbl s' = (PipeTbl s)(i := (PipeTbl s i)\<lparr>PipeId := CFE_RESOURCEID_UNDEFINED\<rparr>)"
    "Queues s' = AList.delete (SysQueueId (PipeTbl s i)) (Queues s)"
    "\<forall>q \<in> nodes (others s pid D). same_dest (Dests s q) (Dests s' q)" "RouteIdxTop (Routing s') = RouteIdxTop (Routing s)"
    "msgid_at (Routing s') = msgid_at (Routing s)" "PipesInUse (StatTlm s') = PipesInUse (StatTlm s) - 1"
proof -
  note l = match_live [OF m]
  obtain t where t: "detach_pipe cfg pid i s = Some t"
    "bus_inv holds cfg (last_ref (PipeTbl s i)) Z (others s pid D) t" "set_mset (last_ref (PipeTbl s i)) \<inter> set Z = {}"
    "PipeTbl t = (PipeTbl s)(i := (PipeTbl s i)\<lparr>PipeId := CFE_RESOURCEID_RESERVED\<rparr>)" "Queues t = Queues s"
    "\<forall>q \<in> nodes (others s pid D). same_dest (Dests s q) (Dests t q)" "RouteIdxTop (Routing t) = RouteIdxTop (Routing s)"
    "msgid_at (Routing t) = msgid_at (Routing s)" "PipesInUse (StatTlm t) = PipesInUse (StatTlm s)"
    by (rule detach_pipe_inv [OF b l(1,3)])
  let ?q = "SysQueueId (PipeTbl t i)" and ?b = "LastBuffer (PipeTbl t i)"
  have X: "last_ref (PipeTbl s i) = (if ?b = NULL then {#} else {#?b#})" using l(3) by (simp add: t(4) last_ref_def)
  have X0: "NULL \<notin> set Z" using bus_inv_Z(2) [OF b, of NULL] by auto
  obtain u where u: "drain_pipe cfg ?q ?b t = Some u" "bus_inv holds cfg {#} Z (others s pid D) u"
    "Routing u = Routing t" "Dests u = Dests t" "PipeTbl u = PipeTbl t" "PipesInUse (StatTlm u) = PipesInUse (StatTlm t)"
    "AList.delete ?q (Queues u) = AList.delete ?q (Queues t)" "\<And>x. map_of (Queues u) ?q = Some x \<Longrightarrow> QueueItems x = []"
  proof (cases "map_of (Queues t) ?q")
    case None
    show thesis
    proof (rule that [OF drain_pipe_empty [OF None]])
      show "bus_inv holds cfg {#} Z (others s pid D) (if ?b \<noteq> NULL then CFE_SB_DecrBufUseCnt cfg ?b t else t)"
        using t(2,3) inv_decr [of "{#?b#}" Z "others s pid D" t ?b] by (auto simp: X split: if_splits)
    qed (use None in \<open>simp_all split: if_splits\<close>)
  next
    case (Some x)
    have "?b \<notin> set Z" using t(3) X0 by (auto simp: X split: if_splits)
    from drain_pipe_inv [OF t(2) [unfolded X] this Some] that show thesis
      by (auto simp: delete_update_same update_conv')
  qed
  note v = QueueDelete_inv [OF u(2,8)]
  let ?v = "snd (OS_QueueDelete ?q u)"
  let ?w = "upd_stat (\<lambda>t. t\<lparr>PipesInUse := PipesInUse t - 1\<rparr>) (upd_pipe i (\<lambda>p. p\<lparr>PipeId := CFE_RESOURCEID_UNDEFINED\<rparr>) ?v)"
  have w: "CFE_SB_DeletePipeFull cfg pid AppId s = Some (CFE_SUCCESS, send_event CFE_SB_PIPE_DELETED_EID ?w)"
    using m a t(1) u(1) by (simp add: CFE_SB_DeletePipeFull_def Let_def)
  have q: "?q = SysQueueId (PipeTbl s i)" by (simp add: t(4))
  have r: "last_refs ((PipeTbl ?v)(i := (PipeTbl ?v i)\<lparr>PipeId := CFE_RESOURCEID_UNDEFINED\<rparr>)) = last_refs (PipeTbl ?v)"
    by (rule last_refs_same) (simp add: v(3) u(5) t(4) last_ref_free)
  have "bus_inv holds cfg {#} Z (others s pid D) ?w"
    by (rule bus_inv_refs_cong [OF v(1)]) (use bus_invD(3) [OF v(1)] r in \<open>simp_all add: bus_refs_def\<close>)
  then have "bus_inv holds cfg {#} Z (others s pid D) (send_event CFE_SB_PIPE_DELETED_EID ?w)" by simp
  from that [OF w this] show thesis using t u v by (simp add: q)
qed

end

section \<open>The pipes\<close>

text \<open>Live pipes have their own IDs and queues, and every destination belongs to one.\<close>

definition pipes_ok :: "'p sb_cfg \<Rightarrow> (nat \<Rightarrow> pointer list) \<Rightarrow> 'p sb_state \<Rightarrow> bool" where
  "pipes_ok cfg D s \<longleftrightarrow>
     (\<forall>i < 64. live_pipe (PipeTbl s i) \<longrightarrow> CFE_SB_LocatePipeDescByID cfg (PipeId (PipeTbl s i)) = Some i \<and>
        SysQueueId (PipeTbl s i) \<in> set (map fst (Queues s))) \<and>
     inj_on (\<lambda>i. SysQueueId (PipeTbl s i)) {i. i < 64 \<and> live_pipe (PipeTbl s i)} \<and>
     (\<forall>p \<in> nodes D. CFE_SB_PipeDescIsMatch cfg (DestPipeId (Dests s p)) s \<noteq> None)"

definition sb_inv :: "('p \<Rightarrow> pointer set \<Rightarrow> bool) \<Rightarrow> 'p sb_cfg \<Rightarrow> pointer list \<Rightarrow> (nat \<Rightarrow> pointer list) \<Rightarrow> 'p sb_state \<Rightarrow> bool" where
  "sb_inv holds cfg Z D s \<longleftrightarrow> bus_inv holds cfg {#} Z D s \<and> pipes_ok cfg D s"

lemma sb_invD: "sb_inv holds cfg Z D s \<Longrightarrow> bus_inv holds cfg {#} Z D s" "sb_inv holds cfg Z D s \<Longrightarrow> pipes_ok cfg D s"
  by (simp_all add: sb_inv_def)

lemma pipes_okD:
  assumes "pipes_ok cfg D s"
  shows "i < 64 \<Longrightarrow> live_pipe (PipeTbl s i) \<Longrightarrow> CFE_SB_LocatePipeDescByID cfg (PipeId (PipeTbl s i)) = Some i"
    "i < 64 \<Longrightarrow> live_pipe (PipeTbl s i) \<Longrightarrow> SysQueueId (PipeTbl s i) \<in> set (map fst (Queues s))"
    "i < 64 \<Longrightarrow> j < 64 \<Longrightarrow> live_pipe (PipeTbl s i) \<Longrightarrow> live_pipe (PipeTbl s j) \<Longrightarrow>
       SysQueueId (PipeTbl s i) = SysQueueId (PipeTbl s j) \<longleftrightarrow> i = j"
    "p \<in> nodes D \<Longrightarrow> \<exists>i. CFE_SB_PipeDescIsMatch cfg (DestPipeId (Dests s p)) s = Some i"
  using assms by (auto simp: pipes_ok_def inj_on_def)

lemma same_setup_live: "same_setup s s' \<Longrightarrow> live_pipe (PipeTbl s' i) = live_pipe (PipeTbl s i)"
  using same_setup_pipe [of s s' i] by (simp add: live_pipe_def)

lemma pipes_ok_frame:
  assumes p: "pipes_ok cfg D s"
    and t: "\<And>i. i < 64 \<Longrightarrow> PipeId (PipeTbl s' i) = PipeId (PipeTbl s i) \<and> SysQueueId (PipeTbl s' i) = SysQueueId (PipeTbl s i)"
    and q: "map fst (Queues s') = map fst (Queues s)" and d: "\<And>p. p \<in> nodes D \<Longrightarrow> DestPipeId (Dests s' p) = DestPipeId (Dests s p)"
  shows "pipes_ok cfg D s'"
proof -
  have l: "live_pipe (PipeTbl s' i) = live_pipe (PipeTbl s i)" if "i < 64" for i using t [OF that] by (simp add: live_pipe_def)
  have "CFE_SB_LocatePipeDescByID cfg (PipeId (PipeTbl s' i)) = Some i \<and> SysQueueId (PipeTbl s' i) \<in> set (map fst (Queues s'))"
    if "i < 64" "live_pipe (PipeTbl s' i)" for i
    using pipes_okD(1,2) [OF p that(1)] l [OF that(1)] that(2) t [OF that(1)] unfolding q by metis
  moreover have "i = j" if "i < 64" "j < 64" "live_pipe (PipeTbl s' i)" "live_pipe (PipeTbl s' j)"
      "SysQueueId (PipeTbl s' i) = SysQueueId (PipeTbl s' j)" for i j
    using pipes_okD(3) [OF p that(1,2)] l that t by metis
  moreover have "CFE_SB_PipeDescIsMatch cfg (DestPipeId (Dests s' x)) s' \<noteq> None" if x: "x \<in> nodes D" for x
  proof -
    obtain i where i: "CFE_SB_PipeDescIsMatch cfg (DestPipeId (Dests s x)) s = Some i" using pipes_okD(4) [OF p x] by blast
    have "PipeId (PipeTbl s' i) = DestPipeId (Dests s x)" using t [OF match_live(1) [OF i]] match_live(2) [OF i] by simp
    then show ?thesis using match_live(4) [OF i] unfolding CFE_SB_PipeDescIsMatch_def d [OF x] by simp
  qed
  ultimately show ?thesis unfolding pipes_ok_def inj_on_def by blast
qed

lemma same_setup_pipes_ok:
  assumes h: "same_setup s s'" and p: "pipes_ok cfg D s"
  shows "pipes_ok cfg D s'"
proof (rule pipes_ok_frame [OF p])
  show "PipeId (PipeTbl s' i) = PipeId (PipeTbl s i) \<and> SysQueueId (PipeTbl s' i) = SysQueueId (PipeTbl s i)" for i
    using same_setup_pipe [OF h, of i] by simp
  show "map fst (Queues s') = map fst (Queues s)" using h unfolding same_setup_def by blast
  show "DestPipeId (Dests s' x) = DestPipeId (Dests s x)" for x using same_setup_dest [OF h, of x] by simp
qed

lemma quiet_sb_inv:
  assumes q: "quiet s s'" and i: "sb_inv holds cfg Z D s"
  shows "sb_inv holds cfg Z D s'"
proof -
  have "bus_inv holds cfg {#} Z D s'" by (rule iffD2 [OF quiet_frame(10) [OF q] sb_invD(1) [OF i]])
  moreover have "pipes_ok cfg D s'" by (rule same_setup_pipes_ok [OF quiet_setup [OF q] sb_invD(2) [OF i]])
  ultimately show ?thesis unfolding sb_inv_def by blast
qed

lemma sb_inv_same: "same_setup s s' \<Longrightarrow> pipes_ok cfg D s \<Longrightarrow> bus_inv holds cfg {#} Z D s' \<Longrightarrow> sb_inv holds cfg Z D s'"
  unfolding sb_inv_def by (rule conjI) (assumption, rule same_setup_pipes_ok)

lemma match_upd_free:
  assumes "CFE_SB_PipeDescIsMatch cfg pid s = Some i" "PipeTbl s' = (PipeTbl s)(n := d)" "\<not> live_pipe (PipeTbl s n)"
  shows "CFE_SB_PipeDescIsMatch cfg pid s' = Some i"
proof -
  have "i \<noteq> n" using match_live(3) [OF assms(1)] assms(3) by auto
  then show ?thesis using match_live(2,4) [OF assms(1)] assms(2) by (simp add: CFE_SB_PipeDescIsMatch_def)
qed

text \<open>A free descriptor stays free, or becomes a pipe with a new queue.\<close>

lemma pipes_ok_free:
  assumes p: "pipes_ok cfg D s" and n: "\<not> live_pipe (PipeTbl s n)" and t: "PipeTbl s' = (PipeTbl s)(n := d)"
    and d: "Dests s' = Dests s" and q: "set (map fst (Queues s)) \<subseteq> set (map fst (Queues s'))"
    and new: "live_pipe d \<Longrightarrow> CFE_SB_LocatePipeDescByID cfg (PipeId d) = Some n \<and> SysQueueId d \<in> set (map fst (Queues s')) \<and>
      SysQueueId d \<notin> set (map fst (Queues s))"
  shows "pipes_ok cfg D s'"
proof -
  have old: "CFE_SB_LocatePipeDescByID cfg (PipeId (PipeTbl s i)) = Some i \<and> SysQueueId (PipeTbl s i) \<in> set (map fst (Queues s))"
    if "i < 64" "live_pipe (PipeTbl s i)" for i using pipes_okD(1,2) [OF p that] by simp
  have "CFE_SB_LocatePipeDescByID cfg (PipeId (PipeTbl s' i)) = Some i \<and> SysQueueId (PipeTbl s' i) \<in> set (map fst (Queues s'))"
    if "i < 64" "live_pipe (PipeTbl s' i)" for i
    using old [of i] q new that by (cases "i = n") (auto simp: t)
  moreover have "i = j" if "i < 64" "j < 64" "live_pipe (PipeTbl s' i)" "live_pipe (PipeTbl s' j)"
      "SysQueueId (PipeTbl s' i) = SysQueueId (PipeTbl s' j)" for i j
  proof -
    consider "i \<noteq> n" "j \<noteq> n" | "i = n" "j \<noteq> n" | "i \<noteq> n" "j = n" | "i = n" "j = n" by blast
    then show ?thesis
    proof cases
      case 1
      then show ?thesis using that pipes_okD(3) [OF p that(1,2)] by (simp add: t)
    next
      case 2
      then show ?thesis using that old [of j] new by (simp add: t)
    next
      case 3
      then show ?thesis using that old [of i] new by (simp add: t)
    qed simp
  qed
  moreover have "CFE_SB_PipeDescIsMatch cfg (DestPipeId (Dests s' x)) s' \<noteq> None" if "x \<in> nodes D" for x
    using pipes_okD(4) [OF p that] match_upd_free [OF _ t n] d by auto
  ultimately show ?thesis unfolding pipes_ok_def inj_on_def by blast
qed

lemma CreatePipe_cases:
  assumes r: "CFE_SB_CreatePipe cfg c null depth name s = (st, p, s')"
  shows "st \<noteq> CFE_SUCCESS \<and> p = None \<and> Dests s' = Dests s \<and> Queues s' = Queues s \<and> Routing s' = Routing s \<and>
      (PipeTbl s' = PipeTbl s \<or> (\<exists>n d. PipeTbl s' = (PipeTbl s)(n := d) \<and> PipeId (PipeTbl s n) = CFE_RESOURCEID_UNDEFINED \<and>
         PipeId d = CFE_RESOURCEID_UNDEFINED)) \<or>
    st = CFE_SUCCESS \<and> Dests s' = Dests s \<and> Routing s' = Routing s \<and> (\<exists>n pid q. p = Some pid \<and> n < 64 \<and>
       CFE_SB_LocatePipeDescByID cfg pid = Some n \<and> PipeId (PipeTbl s n) = CFE_RESOURCEID_UNDEFINED \<and>
       PipeTbl s' = (PipeTbl s)(n := zero_pipe\<lparr>SysQueueId := q, MaxQueueDepth := depth, PipeAppId := CallerAppId c, PipeId := pid\<rparr>) \<and>
       map_of (Queues s) q = None \<and>
       Queues s' = AList.update q \<lparr>QueueName = the name, QueueDepth = unat depth, QueueItems = []\<rparr> (Queues s))"
proof (cases "null \<or> depth > OS_QUEUE_MAX_DEPTH \<or> depth = 0 \<or> name = Some []")
  case True
  then show ?thesis using r by (auto simp: CFE_SB_CreatePipe_def abort_pipe_def Let_def)
next
  case ok: False
  obtain k u where k: "reserve_pipe cfg s = (k, u)" by (cases "reserve_pipe cfg s")
  show ?thesis
  proof (cases k)
    case None
    then have "u = s" using k by (auto simp: reserve_pipe_def Let_def split: option.splits)
    then show ?thesis using r ok k None by (auto simp: CFE_SB_CreatePipe_def abort_pipe_def Let_def)
  next
    case (Some a)
    obtain n pid where a: "a = (n, pid)" by (cases a)
    note R = reserve_pipe_free [OF k [unfolded Some a]]
    obtain qs q v where q: "OS_QueueCreate c name depth u = (qs, q, v)" by (metis prod_cases3)
    show ?thesis
    proof (cases "qs = OS_SUCCESS")
      case False
      then have "v = u" using QueueCreate_cases [OF q] by simp
      define e where "e = (if qs = OS_ERR_NAME_TAKEN then CFE_SB_CR_PIPE_NAME_TAKEN_EID
           else if qs = OS_ERR_NO_FREE_IDS then CFE_SB_CR_PIPE_NO_FREE_EID else CFE_SB_CR_PIPE_ERR_EID)"
      let ?u = "upd_pipe n (\<lambda>p. p\<lparr>PipeId := CFE_RESOURCEID_UNDEFINED\<rparr>) u"
      have "st = CFE_SB_PIPE_CR_ERR" "p = None"
        "s' = send_event e (upd_hk (\<lambda>h. h\<lparr>CreatePipeErrorCounter := CreatePipeErrorCounter h + 1\<rparr>) ?u)"
        using r ok k Some a q False \<open>v = u\<close> by (simp_all add: CFE_SB_CreatePipe_def abort_pipe_def Let_def e_def)
      moreover have "PipeTbl ?u = (PipeTbl s)(n := zero_pipe\<lparr>PipeId := CFE_RESOURCEID_UNDEFINED\<rparr>)" by (simp add: R(4))
      ultimately show ?thesis using R(2,4) by (intro disjI1 conjI disjI2 exI [of _ n] exI [of _ "zero_pipe\<lparr>PipeId := CFE_RESOURCEID_UNDEFINED\<rparr>"]) simp_all
    next
      case True
      then have Q: "map_of (Queues u) q = None"
        "v = u\<lparr>Queues := AList.update q \<lparr>QueueName = the name, QueueDepth = unat depth, QueueItems = []\<rparr> (Queues u)\<rparr>"
        using QueueCreate_cases [OF q] by simp_all
      show ?thesis using r ok k Some a q True Q R by (auto simp: CFE_SB_CreatePipe_def Let_def)
    qed
  qed
qed

lemma not_live [simp]: "PipeId d = CFE_RESOURCEID_UNDEFINED \<Longrightarrow> \<not> live_pipe d"
  by (simp add: live_pipe_def)

lemma update_keys_new: "map_of Q q = None \<Longrightarrow> map fst (AList.update q x Q) = map fst Q @ [q]"
  by (induction Q) (auto split: if_splits)

lemma CreatePipe_pipes_ok:
  assumes p: "pipes_ok cfg D s" and r: "CFE_SB_CreatePipe cfg c null depth name s = (st, pd, s')"
  shows "pipes_ok cfg D s'"
  using CreatePipe_cases [OF r]
proof (elim disjE conjE exE)
  assume "PipeTbl s' = PipeTbl s" "Dests s' = Dests s" "Queues s' = Queues s"
  then show ?thesis by (intro pipes_ok_frame [OF p]) simp_all
next
  fix n d assume "PipeTbl s' = (PipeTbl s)(n := d)" "PipeId (PipeTbl s n) = CFE_RESOURCEID_UNDEFINED"
    "PipeId d = CFE_RESOURCEID_UNDEFINED" "Dests s' = Dests s" "Queues s' = Queues s"
  then show ?thesis by (intro pipes_ok_free [OF p, of n s' d]) (auto simp: live_pipe_def)
next
  fix n pid q
  assume a: "PipeTbl s' = (PipeTbl s)(n := zero_pipe\<lparr>SysQueueId := q, MaxQueueDepth := depth, PipeAppId := CallerAppId c, PipeId := pid\<rparr>)"
    "map_of (Queues s) q = None" "CFE_SB_LocatePipeDescByID cfg pid = Some n" "PipeId (PipeTbl s n) = CFE_RESOURCEID_UNDEFINED"
    "Queues s' = AList.update q \<lparr>QueueName = the name, QueueDepth = unat depth, QueueItems = []\<rparr> (Queues s)" "Dests s' = Dests s"
  then have "q \<notin> set (map fst (Queues s))" by (simp add: map_of_eq_None_iff)
  then show ?thesis using a by (intro pipes_ok_free [OF p _ a(1)]) (auto simp: update_keys_new simp del: set_map)
qed

text \<open>A pipe is deleted with its destinations.\<close>

lemma pipes_ok_delete:
  assumes p: "pipes_ok cfg D s" and m: "CFE_SB_PipeDescIsMatch cfg pid s = Some n"
    and t: "PipeTbl s' = (PipeTbl s)(n := (PipeTbl s n)\<lparr>PipeId := CFE_RESOURCEID_UNDEFINED\<rparr>)"
    and q: "Queues s' = AList.delete (SysQueueId (PipeTbl s n)) (Queues s)"
    and d: "\<And>x. x \<in> nodes (others s pid D) \<Longrightarrow> DestPipeId (Dests s' x) = DestPipeId (Dests s x)"
  shows "pipes_ok cfg (others s pid D) s'"
proof -
  note l = match_live [OF m]
  have live: "live_pipe (PipeTbl s' i) \<longleftrightarrow> i \<noteq> n \<and> live_pipe (PipeTbl s i)" for i by (simp add: t)
  have keys: "set (map fst (Queues s')) = set (map fst (Queues s)) - {SysQueueId (PipeTbl s n)}"
    using q by (simp add: delete_keys)
  have "CFE_SB_LocatePipeDescByID cfg (PipeId (PipeTbl s' i)) = Some i \<and> SysQueueId (PipeTbl s' i) \<in> set (map fst (Queues s'))"
    if "i < 64" "live_pipe (PipeTbl s' i)" for i
    using that pipes_okD(1,2) [OF p that(1)] pipes_okD(3) [OF p that(1) l(1)] l(3) unfolding keys live by (simp add: t)
  moreover have "i = j" if "i < 64" "j < 64" "live_pipe (PipeTbl s' i)" "live_pipe (PipeTbl s' j)"
      "SysQueueId (PipeTbl s' i) = SysQueueId (PipeTbl s' j)" for i j
    using that pipes_okD(3) [OF p that(1,2)] unfolding live by (simp add: t)
  moreover have "CFE_SB_PipeDescIsMatch cfg (DestPipeId (Dests s' x)) s' \<noteq> None" if x: "x \<in> nodes (others s pid D)" for x
  proof -
    have "x \<in> nodes D" "DestPipeId (Dests s x) \<noteq> pid" using x by (auto simp: nodes_def)
    then obtain i where i: "CFE_SB_PipeDescIsMatch cfg (DestPipeId (Dests s x)) s = Some i" using pipes_okD(4) [OF p] by blast
    have "i \<noteq> n" using match_live(2) [OF i] l(2) \<open>DestPipeId (Dests s x) \<noteq> pid\<close> by auto
    then show ?thesis using match_live(2,4) [OF i] d [OF x] by (simp add: CFE_SB_PipeDescIsMatch_def t)
  qed
  ultimately show ?thesis unfolding pipes_ok_def inj_on_def by blast
qed

end
