(* ===== verification/CFS_SbSubs.thy ===== *)
theory CFS_SbSubs
  imports CFS_SbPipes
begin

text \<open>
  Subscriptions: the subscribers of a message are the pipes in the destination list of its route, and
  \<^verbatim>\<open>CFE_SB_SubscribeFull\<close> and \<^verbatim>\<open>CFE_SB_UnsubscribeFull\<close> add and remove exactly one of them.
\<close>

section \<open>Subscriptions\<close>

text \<open>The same destinations and pipes: only routes, counters and the pool may have changed.\<close>

lemma routing_new_entry:
  assumes "top_idx (Routing s) < 256"
  shows "route_head (s\<lparr>Routing := new_entry mid ((Routing s)\<lparr>MSGMAP := M\<rparr>)\<rparr>) i = route_head s i"
    "top_idx (new_entry mid ((Routing s)\<lparr>MSGMAP := M\<rparr>)) = Suc (top_idx (Routing s))"
  using new_entry_top [of "(Routing s)\<lparr>MSGMAP := M\<rparr>" mid] assms
  by (simp_all add: route_head_def new_entry_def update_entry_def Let_def)

lemma dests_ok_new_entry:
  assumes d: "dests_ok D s" and t: "top_idx (Routing s) < 256"
  shows "dests_ok D (s\<lparr>Routing := new_entry mid ((Routing s)\<lparr>MSGMAP := M\<rparr>)\<rparr>)"
proof -
  let ?u = "s\<lparr>Routing := new_entry mid ((Routing s)\<lparr>MSGMAP := M\<rparr>)\<rparr>"
  have "\<forall>i < 256. dest_list (Dests ?u) (route_head ?u i) (D i) \<and> length (D i) \<le> 16 \<and>
      distinct (map (\<lambda>p. DestPipeId (Dests ?u p)) (D i))"
    unfolding routing_new_entry(1) [OF t] using d by (simp add: dests_ok_def)
  moreover have "\<forall>i. i \<ge> top_idx (Routing ?u) \<longrightarrow> D i = []"
    using d routing_new_entry(2) [OF t, of mid M] by (simp add: dests_ok_def)
  moreover have "\<forall>i j p. p \<in> set (D i) \<longrightarrow> p \<in> set (D j) \<longrightarrow> i = j" using d by (simp add: dests_ok_def)
  ultimately show ?thesis unfolding dests_ok_def by blast
qed

lemma bus_inv_routes:
  assumes i: "bus_inv holds cfg X Z D s" and "sbr_inv (hash_map cfg) r" "dests_ok D (s\<lparr>Routing := r\<rparr>)"
  shows "bus_inv holds cfg X Z D (s\<lparr>Routing := r\<rparr>)"
proof -
  have "mem_ok holds R Z N (s\<lparr>Routing := r\<rparr>) = mem_ok holds R Z N s" for R N by (rule mem_ok_cong) simp_all
  then show ?thesis using assms by (simp add: bus_inv_def)
qed

definition subscriber :: "'p sb_cfg \<Rightarrow> sb_caller \<Rightarrow> CFE_SB_MsgId_t \<Rightarrow> CFE_SB_PipeId_t \<Rightarrow> uint8 \<Rightarrow> 'p sb_state \<Rightarrow> bool" where
  "subscriber cfg c mid pid scope s \<longleftrightarrow> CFE_SB_IsValidMsgId mid \<and> scope \<le> 1 \<and>
     (case CFE_SB_PipeDescIsMatch cfg pid s of None \<Rightarrow> False | Some i \<Rightarrow> PipeAppId (PipeTbl s i) = CallerAppId c)"

lemma subscribe_route_inv:
  assumes i: "bus_inv holds cfg X Z D s"
  obtains st e r col s' where "subscribe_route cfg c mid pid scope s = Some (st, e, r, col, s')" "bus_inv holds cfg X Z D s'"
    "Dests s' = Dests s" "PipeTbl s' = PipeTbl s" "Queues s' = Queues s" "Bufs s' = Bufs s" 
    "st = CFE_SUCCESS \<longleftrightarrow> subscriber cfg c mid pid scope s \<and> (route_of (Routing s) mid \<noteq> CFE_SBR_INVALID_ROUTE_ID \<or> top_idx (Routing s) < 256)"
    "st = CFE_SUCCESS \<longrightarrow> e = 0 \<and> r = route_of (Routing s') mid \<and> (\<exists>k < top_idx (Routing s'). r = rid k)"
    "st \<noteq> CFE_SUCCESS \<longrightarrow> Routing s' = Routing s" "\<forall>m. m \<noteq> mid \<longrightarrow> route_of (Routing s') m = route_of (Routing s) m"
    "route_of (Routing s) mid \<noteq> CFE_SBR_INVALID_ROUTE_ID \<longrightarrow> route_of (Routing s') mid = route_of (Routing s) mid"
    "route_of (Routing s) mid = CFE_SBR_INVALID_ROUTE_ID \<longrightarrow> st = CFE_SUCCESS \<longrightarrow> r = rid (top_idx (Routing s)) \<and> top_idx (Routing s) < 256"
proof (cases "subscriber cfg c mid pid scope s")
  case False
  have "\<exists>e. subscribe_route cfg c mid pid scope s = Some (CFE_SB_BAD_ARGUMENT, e, CFE_SBR_INVALID_ROUTE_ID, 0, s)"
  proof (cases "CFE_SB_PipeDescIsMatch cfg pid s")
    case (Some n)
    then have "PipeAppId (PipeTbl s n) \<noteq> CallerAppId c \<or> \<not> CFE_SB_IsValidMsgId mid \<or> scope > 1"
      using False by (auto simp: subscriber_def not_le)
    then show ?thesis using Some by (cases "PipeAppId (PipeTbl s n) = CallerAppId c") (auto simp: subscribe_route_def)
  qed (simp add: subscribe_route_def)
  then obtain e where e: "subscribe_route cfg c mid pid scope s = Some (CFE_SB_BAD_ARGUMENT, e, CFE_SBR_INVALID_ROUTE_ID, 0, s)" by blast
  show thesis by (rule that [OF e i]) (use False in simp_all)
next
  case True
  then obtain n where n: "CFE_SB_PipeDescIsMatch cfg pid s = Some n" "PipeAppId (PipeTbl s n) = CallerAppId c"
    "CFE_SB_IsValidMsgId mid" "\<not> scope > 1"
    by (auto simp: subscriber_def not_less split: option.splits)
  note inv = bus_invD(1) [OF i]
  let ?r = "route_of (Routing s) mid"
  have g: "CFE_SBR_GetRouteId (hash_map cfg) (Routing s) mid = Some ?r" by (rule GetRouteId_spec [OF inv])
  show thesis
  proof (cases "?r = CFE_SBR_INVALID_ROUTE_ID")
    case False
    have ok: "routes_ok (Routing s)" using inv by (simp add: sbr_inv_def)
    then obtain k where k: "k < top_idx (Routing s)" "?r = rid k" using route_of_cases [OF ok, of mid] False by metis
    have "k < 256" using k(1) ok by (simp add: routes_ok_def)
    then have v: "CFE_SBR_IsValidRouteId ?r" using k(2) by simp
    then have e: "subscribe_route cfg c mid pid scope s = Some (CFE_SUCCESS, 0, ?r, 0, s)"
      using n g by (simp add: subscribe_route_def)
    show thesis by (rule that [OF e i]) (use True False k in auto)
  next
    case new: True
    then have v: "\<not> CFE_SBR_IsValidRouteId ?r" by simp
    show thesis
    proof (cases "top_idx (Routing s) < 256")
      case False
      have "CFE_SBR_AddRoute (hash_map cfg) (Routing s) mid = Some (Routing s, CFE_SBR_INVALID_ROUTE_ID, 0)"
        using AddRoute_rejects False by blast
      then have e: "subscribe_route cfg c mid pid scope s =
          Some (CFE_SB_MAX_MSGS_MET, CFE_SB_MAX_MSGS_MET_EID, CFE_SBR_INVALID_ROUTE_ID, 0, s)"
        using n g v by (simp add: subscribe_route_def)
      show thesis by (rule that [OF e i]) (use False new in simp_all)
    next
      case room: True
      obtain M col where a: "CFE_SBR_AddRoute (hash_map cfg) (Routing s) mid =
          Some (new_entry mid ((Routing s)\<lparr>MSGMAP := M\<rparr>), rid (top_idx (Routing s)), col)"
        "sbr_inv (hash_map cfg) (new_entry mid ((Routing s)\<lparr>MSGMAP := M\<rparr>))"
        using AddRoute_ok [OF inv n(3) new room] by metis
      let ?R = "new_entry mid ((Routing s)\<lparr>MSGMAP := M\<rparr>)"
      let ?u = "upd_stat (\<lambda>t. t\<lparr>PeakMsgIdsInUse := max_stat (MsgIdsInUse t) (PeakMsgIdsInUse t)\<rparr>)
         (upd_stat (\<lambda>t. t\<lparr>MsgIdsInUse := MsgIdsInUse t + 1\<rparr>) (s\<lparr>Routing := ?R\<rparr>))"
      have e: "subscribe_route cfg c mid pid scope s = Some (CFE_SUCCESS, 0, rid (top_idx (Routing s)), col, ?u)"
        using n g v a(1) room by (simp add: subscribe_route_def Let_def)
      have "bus_inv holds cfg X Z D (s\<lparr>Routing := ?R\<rparr>)"
        by (rule bus_inv_routes [OF i a(2) dests_ok_new_entry [OF bus_invD(2) [OF i] room]])
      then have b: "bus_inv holds cfg X Z D ?u" by (subst bus_inv_stat; simp)+
      have "routes_ok ((Routing s)\<lparr>MSGMAP := M\<rparr>)"
        using inv routes_ok_cong [of "(Routing s)\<lparr>MSGMAP := M\<rparr>" "Routing s"] by (simp add: sbr_inv_def)
      moreover have c: "route_of ((Routing s)\<lparr>MSGMAP := M\<rparr>) m = route_of (Routing s) m" for m by (rule route_of_cong) simp_all
      ultimately have r: "route_of ?R m = (if m = mid then rid (top_idx (Routing s)) else route_of (Routing s) m)" for m
        using route_of_new_entry [of "(Routing s)\<lparr>MSGMAP := M\<rparr>" mid m] n(3) new room by simp
      show thesis by (rule that [OF e b]) (use True room r new routing_new_entry(2) [OF room] in auto)
    qed
  qed
qed

lemma nodes_add: "nodes (D(k := p # D k)) = insert p (nodes D)"
  by (auto simp: nodes_def split: if_splits)

lemma top_256: "bus_inv holds cfg X Z D s \<Longrightarrow> k < top_idx (Routing s) \<Longrightarrow> k < 256"
  using bus_invD(1) by (fastforce simp: sbr_inv_def routes_ok_def)

lemma new_dest_ok:
  assumes i: "bus_inv holds cfg X Z D s" and k: "k < top_idx (Routing s)" and len: "length (D k) < 16"
    and new: "pid \<notin> (\<lambda>p. DestPipeId (Dests s p)) ` set (D k)"
    and m: "mem_ok holds (bus_refs s + mset Z + X) Z (insert p (nodes D)) u" and p: "p \<notin> nodes D" "p \<noteq> NULL"
    and u: "Routing u = Routing s" "Dests u = Dests s" "PipeTbl u = PipeTbl s" "Queues u = Queues s" 
    and d: "DestPipeId d = pid"
  defines "s' \<equiv> CFE_SB_AddDestNode (rid k) p (upd_dest p (\<lambda>_. d) u)"
  shows "bus_inv holds cfg X Z (D(k := p # D k)) s'" "DestPipeId (Dests s' p) = pid"
    "q \<in> nodes D \<Longrightarrow> same_dest (Dests s q) (Dests s' q)"
    "PipeTbl s' = PipeTbl s" "Queues s' = Queues s" "msgid_at (Routing s') = msgid_at (Routing s)"
    "RouteIdxTop (Routing s') = RouteIdxTop (Routing s)"
proof -
  let ?v = "upd_dest p (\<lambda>_. d) u"
  note d256 = top_256 [OF i k]
  have dv: "dests_ok D ?v"
  proof -
    have "dests_ok D ?v = dests_ok D s" by (rule dests_ok_cong) (use u p in \<open>auto simp: route_head_def\<close>)
    then show ?thesis using bus_invD(2) [OF i] by simp
  qed
  have q: "DestPipeId (Dests ?v q) \<noteq> DestPipeId (Dests ?v p)" if "q \<in> set (D k)" for q
  proof -
    have "q \<noteq> p" using that p(1) by (auto simp: nodes_def)
    then show ?thesis using imageI [OF that, of "\<lambda>p. DestPipeId (Dests s p)"] new d u(2) by auto
  qed
  have kv: "k < top_idx (Routing ?v)" using k u(1) by simp
  note A = dests_ok_add [OF dv kv d256 p len q]
  have l: "dest_list (Dests ?v) (route_head ?v k) (D k)" by (rule dests_okD(1) [OF dv d256])
  have "p \<notin> set (D k)" using p(1) by (auto simp: nodes_def)
  note B = AddDestNode_Dests [OF l head_rid [OF d256, symmetric] this p(2)]
  have r: "Routing s' = CFE_SBR_SetDestListHeadPtr (Routing s) (rid k) p" unfolding s'_def by (subst B(4)) (simp add: u(1))
  show T: "PipeTbl s' = PipeTbl s" "Queues s' = Queues s" unfolding s'_def by (subst B(4), simp add: u)+
  show "msgid_at (Routing s') = msgid_at (Routing s)" "RouteIdxTop (Routing s') = RouteIdxTop (Routing s)"
    unfolding r by (simp_all add: fun_eq_iff msgid_at_def SetHead_simps d256)
  show "DestPipeId (Dests s' p) = pid" using same_destD [OF B(2) [of p]] d unfolding s'_def by simp
  show "same_dest (Dests s q) (Dests s' q)" if "q \<in> nodes D"
    using B(2) [of q] that p(1) u(2) unfolding s'_def by (cases "q = p") simp_all
  have "mem_ok holds R Z N s' = mem_ok holds R Z N u" for R N
    unfolding s'_def by (subst B(4), rule mem_ok_cong) simp_all
  then have "mem_ok holds (bus_refs s + mset Z + X) Z (nodes (D(k := p # D k))) s'" using m by (simp only: nodes_add)
  moreover have "bus_refs s' = bus_refs s" by (rule bus_refs_eqI [OF T(2,1)])
  ultimately show "bus_inv holds cfg X Z (D(k := p # D k)) s'"
    using i A T(2) r SetHead_simps(3) [OF d256] unfolding bus_inv_def s'_def [symmetric] by simp
qed

context sb_pool
begin

lemma subscribe_dest_inv:
  assumes i: "bus_inv holds cfg X Z D s" and k: "k < top_idx (Routing s)"
  obtains st e s' D' where "subscribe_dest cfg pid lim scope (rid k) s = Some (st, e, s')" "bus_inv holds cfg X Z D' s'"
    "PipeTbl s' = PipeTbl s" "Queues s' = Queues s" "msgid_at (Routing s') = msgid_at (Routing s)"
    "RouteIdxTop (Routing s') = RouteIdxTop (Routing s)" "\<forall>q \<in> nodes D. same_dest (Dests s q) (Dests s' q)"
    "(st = CFE_SUCCESS \<and> e = 0 \<and> (\<exists>p. D' = D(k := p # D k) \<and> DestPipeId (Dests s' p) = pid)) \<or>
     (D' = D \<and> e \<noteq> 0 \<and> (st = CFE_SUCCESS \<longleftrightarrow> pid \<in> (\<lambda>p. DestPipeId (Dests s p)) ` set (D k)))"
proof -
  note k256 = top_256 [OF i k] and dk = dests_okD [OF bus_invD(2) [OF i] top_256 [OF i k]]
  let ?f = "List.find (\<lambda>p. DestPipeId (Dests s p) = pid) (D k)"
  have scan: "scan_dests (Dests s) pid (CFE_SBR_GetDestListHeadPtr (Routing s) (rid k)) 0 =
     Some (case ?f of Some p \<Rightarrow> (p, CFE_SB_DUP_SUBSCRIP_EID, CFE_SUCCESS)
           | None \<Rightarrow> if length (D k) = 16 then (last (D k), CFE_SB_MAX_DESTS_MET_EID, CFE_SB_MAX_DESTS_MET) else (NULL, 0, CFE_SUCCESS))"
    unfolding head_rid [OF k256] by (rule scan_dests_list [OF dk(1,2)])
  have nn: "p \<noteq> NULL" if "p \<in> set (D k)" for p using that dest_list_nodes(2) [OF dk(1)] by auto
  show thesis
  proof (cases ?f)
    case (Some p)
    then have p: "p \<in> set (D k)" "DestPipeId (Dests s p) = pid" by (auto simp: find_Some_iff)
    then have r: "subscribe_dest cfg pid lim scope (rid k) s = Some (CFE_SUCCESS, CFE_SB_DUP_SUBSCRIP_EID, s)"
      using scan Some nn by (simp add: subscribe_dest_def)
    show thesis by (rule that [OF r i]) (use p in auto)
  next
    case None
    then have new: "pid \<notin> (\<lambda>p. DestPipeId (Dests s p)) ` set (D k)" by (auto simp: find_None_iff)
    show thesis
    proof (cases "length (D k) = 16")
      case True
      then have "last (D k) \<noteq> NULL" by (intro nn last_in_set) auto
      then have r: "subscribe_dest cfg pid lim scope (rid k) s = Some (CFE_SB_MAX_DESTS_MET, CFE_SB_MAX_DESTS_MET_EID, s)"
        using scan None True by (simp add: subscribe_dest_def)
      show thesis by (rule that [OF r i]) (use new in auto)
    next
      case False
      then have len: "length (D k) < 16" using dk(2) by simp
      obtain p u where g: "CFE_SB_GetDestinationBlk cfg s = (p, u)" by (cases "CFE_SB_GetDestinationBlk cfg s")
      note F = DestinationBlk_frame [OF g]
      note m = mem_ok_get_dest [OF bus_invD(4) [OF i] g]
      show thesis
      proof (cases "p = NULL")
        case True
        then have r: "subscribe_dest cfg pid lim scope (rid k) s = Some (CFE_SB_BUF_ALOC_ERR, CFE_SB_DEST_BLK_ERR_EID, u)"
          using scan None False g by (simp add: subscribe_dest_def)
        have "dests_ok D u = dests_ok D s" by (rule dests_ok_cong) (use F in auto)
        moreover have "bus_refs u = bus_refs s" by (rule bus_refs_eqI) (use F in simp_all)
        ultimately have b: "bus_inv holds cfg X Z D u" using i m True F by (simp add: bus_inv_def)
        show thesis by (rule that [OF r b]) (use new F in auto)
      next
        case ptr: False
        let ?d = "\<lparr>DestPipeId = pid, Active = CFE_SB_ACTIVE, MsgId2PipeLim = lim, BuffCount = 0, DestCnt = 0, Scope = scope,
          Prev = NULL, Next = NULL\<rparr>"
        define v where "v = CFE_SB_AddDestNode (rid k) p (upd_dest p (\<lambda>_. ?d) u)"
        have mp: "mem_ok holds (bus_refs s + mset Z + X) Z (insert p (nodes D)) u" "p \<notin> nodes D" using m ptr by simp_all
        note N = new_dest_ok [OF i k len new mp ptr, of ?d, folded v_def]
        let ?w = "upd_stat (\<lambda>t. t\<lparr>PeakSubscriptionsInUse := max_stat (SubscriptionsInUse t) (PeakSubscriptionsInUse t)\<rparr>)
            (upd_stat (\<lambda>t. t\<lparr>SubscriptionsInUse := SubscriptionsInUse t + 1\<rparr>) v)"
        have r: "subscribe_dest cfg pid lim scope (rid k) s = Some (CFE_SUCCESS, 0, ?w)"
          using scan None False g ptr by (simp add: subscribe_dest_def Let_def v_def)
        have "bus_inv holds cfg X Z (D(k := p # D k)) v" using N(1) F by simp
        then have b: "bus_inv holds cfg X Z (D(k := p # D k)) ?w" by (subst bus_inv_stat; simp)+
        show thesis by (rule that [OF r b]) (use N(2-) F in auto)
      qed
    qed
  qed
qed

end

section \<open>The subscribers of a message\<close>

definition subscribers :: "'p sb_state \<Rightarrow> CFE_SB_MsgId_t \<Rightarrow> CFE_SB_PipeId_t list" where
  "subscribers s mid =
     (let r = route_of (Routing s) mid
      in if CFE_SBR_IsValidRouteId r
         then map (\<lambda>p. DestPipeId (Dests s p)) (dests_of s (unat (CFE_SBR_RouteIdToValue r))) else [])"

lemma route_of_rid:
  assumes "sbr_inv h r"
  shows "route_of r mid = CFE_SBR_INVALID_ROUTE_ID \<or> (\<exists>k < top_idx r. k < 256 \<and> route_of r mid = rid k \<and> msgid_at r k = mid)"
proof -
  have ok: "routes_ok r" using assms by (simp add: sbr_inv_def)
  show ?thesis using ok by (cases rule: route_of_cases [OF ok, of mid]) (auto simp: routes_ok_def)
qed

lemma subscribers_rid:
  "dests_ok D s \<Longrightarrow> k < 256 \<Longrightarrow> route_of (Routing s) mid = rid k \<Longrightarrow> subscribers s mid = map (\<lambda>p. DestPipeId (Dests s p)) (D k)"
  using dests_okD(4) [of D s k] by (simp add: subscribers_def)

lemma subscribers_none: "route_of (Routing s) mid = CFE_SBR_INVALID_ROUTE_ID \<Longrightarrow> subscribers s mid = []"
  by (simp add: subscribers_def)

text \<open>Destinations change on one route only.\<close>

lemma subscribers_frame:
  assumes d: "dests_ok D s" "dests_ok D' s'" and r: "sbr_inv h (Routing s)" "route_of (Routing s') m = route_of (Routing s) m"
    and e: "\<And>k. route_of (Routing s) m = rid k \<Longrightarrow> k < 256 \<Longrightarrow> D' k = D k \<and> (\<forall>p \<in> set (D k). DestPipeId (Dests s' p) = DestPipeId (Dests s p))"
  shows "subscribers s' m = subscribers s m"
  using route_of_rid [OF r(1), of m]
proof
  assume n: "route_of (Routing s) m = CFE_SBR_INVALID_ROUTE_ID"
  then show ?thesis using subscribers_none [of s m] subscribers_none [of s' m] r(2) by simp
next
  assume "\<exists>k < top_idx (Routing s). k < 256 \<and> route_of (Routing s) m = rid k \<and> msgid_at (Routing s) k = m"
  then obtain k where k: "k < 256" "route_of (Routing s) m = rid k" by blast
  then show ?thesis using subscribers_rid [OF d(1) k] subscribers_rid [OF d(2) k(1), of m] r(2) e [OF k(2,1)] by simp
qed

lemma same_setup_subscribers:
  assumes "bus_inv holds cfg X Z D s" "same_setup s s'"
  shows "subscribers s' m = subscribers s m"
proof (rule subscribers_frame [where D = D and D' = D])
  show "dests_ok D s" by (rule bus_invD [OF assms(1)])
  then show "dests_ok D s'" using same_setup_dests_ok [OF assms(2)] by simp
  show "sbr_inv (hash_map cfg) (Routing s)" by (rule bus_invD [OF assms(1)])
  show "route_of (Routing s') m = route_of (Routing s) m" by (rule same_setup_route_of [OF assms(2)])
qed (use same_setup_dest [OF assms(2)] in simp)

context sb_pool
begin

text \<open>The locked sections of a subscription.\<close>

lemma subscribe_inv:
  assumes i: "sb_inv holds cfg Z D s"
  obtains st e r col s1 st' e' s2 D' where "subscribe_route cfg c mid pid scope s = Some (st, e, r, col, s1)"
    "(if st = CFE_SUCCESS then subscribe_dest cfg pid lim scope r s1 else Some (st, e, s1)) = Some (st', e', s2)"
    "sb_inv holds cfg Z D' s2" "PipeTbl s2 = PipeTbl s" "Queues s2 = Queues s"
    "\<forall>m. set (subscribers s2 m) = (if m = mid \<and> st' = CFE_SUCCESS then insert pid (set (subscribers s m)) else set (subscribers s m))"
    "st' = CFE_SUCCESS \<longrightarrow> subscriber cfg c mid pid scope s"
proof -
  note b = sb_invD(1) [OF i] and P = sb_invD(2) [OF i]
  obtain st e r col s1 where Q: "subscribe_route cfg c mid pid scope s = Some (st, e, r, col, s1)" and
    R: "bus_inv holds cfg {#} Z D s1" "Dests s1 = Dests s" "PipeTbl s1 = PipeTbl s" "Queues s1 = Queues s" "Bufs s1 = Bufs s"
    "st = CFE_SUCCESS \<longleftrightarrow> subscriber cfg c mid pid scope s \<and> (route_of (Routing s) mid \<noteq> CFE_SBR_INVALID_ROUTE_ID \<or> top_idx (Routing s) < 256)"
    "st = CFE_SUCCESS \<longrightarrow> e = 0 \<and> r = route_of (Routing s1) mid \<and> (\<exists>k < top_idx (Routing s1). r = rid k)"
    "st \<noteq> CFE_SUCCESS \<longrightarrow> Routing s1 = Routing s" "\<forall>m. m \<noteq> mid \<longrightarrow> route_of (Routing s1) m = route_of (Routing s) m"
    "route_of (Routing s) mid \<noteq> CFE_SBR_INVALID_ROUTE_ID \<longrightarrow> route_of (Routing s1) mid = route_of (Routing s) mid"
    "route_of (Routing s) mid = CFE_SBR_INVALID_ROUTE_ID \<longrightarrow> st = CFE_SUCCESS \<longrightarrow> r = rid (top_idx (Routing s)) \<and> top_idx (Routing s) < 256"
    by (rule subscribe_route_inv [OF b, of c mid pid scope])
  have p1: "pipes_ok cfg D s1" by (rule pipes_ok_frame [OF P]) (use R(2-4) in simp_all)
  note d = bus_invD(2) [OF b] and d1 = bus_invD(2) [OF R(1)] and inv = bus_invD(1) [OF b] and inv1 = bus_invD(1) [OF R(1)]
  have s1: "subscribers s1 m = subscribers s m" for m
  proof (cases "route_of (Routing s1) m = route_of (Routing s) m")
    case True
    show ?thesis by (rule subscribers_frame [OF d d1 inv True]) (simp add: R(2))
  next
    case False
    then have m: "m = mid" "route_of (Routing s) mid = CFE_SBR_INVALID_ROUTE_ID" using R(9,10) by auto
    have "st = CFE_SUCCESS" using False R(8) by auto
    then have t: "route_of (Routing s1) m = rid (top_idx (Routing s))" "top_idx (Routing s) < 256" using R(7,11) m by auto
    have "D (top_idx (Routing s)) = []" using d by (simp add: dests_ok_def)
    then show ?thesis using subscribers_rid [OF d1 t(2,1)] subscribers_none [OF m(2)] m(1) by simp
  qed
  show thesis
  proof (cases "st = CFE_SUCCESS")
    case False
    show thesis
      by (rule that [OF Q, of st e s1 D]) (use False R(1,3,4) p1 s1 in \<open>simp_all add: sb_inv_def\<close>)
  next
    case True
    obtain k where k: "k < top_idx (Routing s1)" "r = rid k" "r = route_of (Routing s1) mid" using R(7) True by blast
    note k256 = top_256 [OF R(1) k(1)]
    obtain st' e' s2 D' where S: "subscribe_dest cfg pid lim scope (rid k) s1 = Some (st', e', s2)" "bus_inv holds cfg {#} Z D' s2"
      "PipeTbl s2 = PipeTbl s1" "Queues s2 = Queues s1" "msgid_at (Routing s2) = msgid_at (Routing s1)"
      "RouteIdxTop (Routing s2) = RouteIdxTop (Routing s1)" "\<forall>q \<in> nodes D. same_dest (Dests s1 q) (Dests s2 q)"
      "(st' = CFE_SUCCESS \<and> e' = 0 \<and> (\<exists>p. D' = D(k := p # D k) \<and> DestPipeId (Dests s2 p) = pid)) \<or>
       (D' = D \<and> e' \<noteq> 0 \<and> (st' = CFE_SUCCESS \<longleftrightarrow> pid \<in> (\<lambda>p. DestPipeId (Dests s1 p)) ` set (D k)))"
      by (rule subscribe_dest_inv [OF R(1) k(1), of pid lim scope])
    have id: "DestPipeId (Dests s2 q) = DestPipeId (Dests s1 q)" if "q \<in> nodes D" for q using same_destD S(7) that by blast
    have ro: "route_of (Routing s2) m = route_of (Routing s1) m" for m by (rule route_of_cong) (use S(5,6) in simp_all)
    note d2 = bus_invD(2) [OF S(2)]
    have old: "subscribers s1 mid = map (\<lambda>p. DestPipeId (Dests s1 p)) (D k)" using subscribers_rid [OF d1 k256] k(2,3) by simp
    have other: "subscribers s2 m = subscribers s1 m" if "m \<noteq> mid" for m
    proof (rule subscribers_frame [OF d1 d2 inv1 ro])
      fix j assume j: "route_of (Routing s1) m = rid j" "j < 256"
      have "j \<noteq> k" using route_of_rid [OF inv1, of m] route_of_rid [OF inv1, of mid] j k k256 that rid_inj by auto
      then have "D' j = D j" using S(8) by auto
      then show "D' j = D j \<and> (\<forall>p \<in> set (D j). DestPipeId (Dests s2 p) = DestPipeId (Dests s1 p))"
        using id by (auto simp: nodes_def)
    qed
    have new: "subscribers s2 mid = map (\<lambda>p. DestPipeId (Dests s2 p)) (D' k)" using subscribers_rid [OF d2 k256] ro k(2,3) by simp
    have idk: "map (\<lambda>p. DestPipeId (Dests s2 p)) (D k) = map (\<lambda>p. DestPipeId (Dests s1 p)) (D k)"
      using id by (auto simp: nodes_def)
    have mid: "set (subscribers s2 mid) = (if st' = CFE_SUCCESS then insert pid (set (subscribers s1 mid)) else set (subscribers s1 mid))"
      using S(8)
    proof
      assume "st' = CFE_SUCCESS \<and> e' = 0 \<and> (\<exists>p. D' = D(k := p # D k) \<and> DestPipeId (Dests s2 p) = pid)"
      then obtain p where p: "st' = CFE_SUCCESS" "D' = D(k := p # D k)" "DestPipeId (Dests s2 p) = pid" by blast
      then have "subscribers s2 mid = pid # subscribers s1 mid" unfolding new old using idk by simp
      then show ?thesis using p(1) by simp
    next
      assume "D' = D \<and> e' \<noteq> 0 \<and> (st' = CFE_SUCCESS \<longleftrightarrow> pid \<in> (\<lambda>p. DestPipeId (Dests s1 p)) ` set (D k))"
      then show ?thesis unfolding new old using idk by (auto simp: insert_absorb)
    qed
    have sub: "subscriber cfg c mid pid scope s" using R(6) True by blast
    then have mt: "CFE_SB_PipeDescIsMatch cfg pid s2 \<noteq> None"
      using match_cong [of s2 s cfg pid] S(3) R(3) by (auto simp: subscriber_def split: option.splits)
    have p2: "pipes_ok cfg D s2" by (rule pipes_ok_frame [OF p1]) (use S(3,4) id in simp_all)
    have "CFE_SB_PipeDescIsMatch cfg (DestPipeId (Dests s2 x)) s2 \<noteq> None" if "x \<in> nodes D'" for x
      using S(8)
    proof
      assume "st' = CFE_SUCCESS \<and> e' = 0 \<and> (\<exists>p. D' = D(k := p # D k) \<and> DestPipeId (Dests s2 p) = pid)"
      then obtain p where "D' = D(k := p # D k)" "DestPipeId (Dests s2 p) = pid" by blast
      then show ?thesis using that mt pipes_okD(4) [OF p2, of x] by (auto simp: nodes_add)
    next
      assume "D' = D \<and> e' \<noteq> 0 \<and> (st' = CFE_SUCCESS \<longleftrightarrow> pid \<in> (\<lambda>p. DestPipeId (Dests s1 p)) ` set (D k))"
      then show ?thesis using that pipes_okD(4) [OF p2, of x] by auto
    qed
    then have "pipes_ok cfg D' s2" using p2 unfolding pipes_ok_def by blast
    then have fin: "sb_inv holds cfg Z D' s2" using S(2) by (simp add: sb_inv_def)
    have "set (subscribers s2 m) = (if m = mid \<and> st' = CFE_SUCCESS then insert pid (set (subscribers s m)) else set (subscribers s m))" for m
      using other mid s1 by (cases "m = mid") simp_all
    with that [OF Q _ fin] sub show thesis using True S(1,3,4) R(3,4) k(2) by simp
  qed
qed

end

lemma GetPipeName_quiet2 [simp]: "quiet s u \<Longrightarrow> quiet s (snd (snd (CFE_SB_GetPipeName cfg ok n pid u)))"
  by (rule quiet_trans [OF _ GetPipeName_quiet'])

lemma nodesI: "p \<in> set (D i) \<Longrightarrow> p \<in> nodes D"
  by (auto simp: nodes_def)

text \<open>The counters and events of a subscription.\<close>

definition subscribe_events :: "'p sb_cfg \<Rightarrow> CFE_SB_PipeId_t \<Rightarrow> CFE_Status_t \<Rightarrow> uint16 \<Rightarrow> 'p sb_state \<Rightarrow> 'p sb_state" where
  "subscribe_events cfg pid Status EID s =
     (let s = (if EID = 0 then s
              else if EID = CFE_SB_DUP_SUBSCRIP_EID
              then upd_hk (\<lambda>h. h\<lparr>DuplicateSubscriptionsCounter := DuplicateSubscriptionsCounter h + 1\<rparr>) s
              else upd_hk (\<lambda>h. h\<lparr>SubscribeErrorCounter := SubscribeErrorCounter h + 1\<rparr>) s);
          s = (if EID \<noteq> 0 then send_event EID (snd (snd (CFE_SB_GetPipeName cfg True OS_MAX_API_NAME pid s))) else s)
      in if Status = CFE_SUCCESS \<and> EID = 0 then send_event CFE_SB_SUBSCRIPTION_RCVD_EID s else s)"

lemma subscribe_events_quiet: "quiet s (subscribe_events cfg pid st e s)"
  by (simp add: subscribe_events_def Let_def)

lemma SubscribeFull_events:
  "CFE_SB_SubscribeFull cfg c mid pid q lim scope s = do {
     (Status, EID, Route, Collisions, s) \<leftarrow> subscribe_route cfg c mid pid scope s;
     (Status, EID, s) \<leftarrow> (if Status = CFE_SUCCESS then subscribe_dest cfg pid lim scope Route s else Some (Status, EID, s));
     let s = subscribe_events cfg pid Status EID s;
     s \<leftarrow> (if Status = CFE_SUCCESS \<and> scope = CFE_SB_MSG_GLOBAL
          then map_option snd (CFE_SB_SendSubscriptionReport cfg c mid pid q s) else Some s);
     let s = (if Collisions \<noteq> 0 then send_event CFE_SB_HASHCOLLISION_EID s else s);
     Some (Status, s)
   }"
  by (simp only: CFE_SB_SubscribeFull_def subscribe_events_def Let_def)

context sb_pool
begin

lemma SendSubscriptionReport_inv:
  assumes i: "sb_inv holds cfg Z D s" and c: "caller_ok c"
  obtains st s' where "CFE_SB_SendSubscriptionReport cfg c mid pid q s = Some (st, s')" "sb_inv holds cfg Z D s'" "same_setup s s'"
proof (cases "SubscriptionReporting s = CFE_SB_ENABLE")
  case False
  then show thesis using that i by (simp add: CFE_SB_SendSubscriptionReport_def)
next
  case True
  let ?m = "map_option (OneSubPayload cfg mid pid q) (snd (CFE_MSG_Init (build cfg) (Some (\<lambda>_. 0)) (OneSubMid cfg) (OneSubSize cfg)))"
  obtain st u where t: "CFE_SB_TransmitMsg cfg c ?m True s = Some (st, u)" "bus_inv holds cfg {#} Z D u" "same_setup s u"
    by (rule TransmitMsg_inv [OF sb_invD(1) [OF i] c])
  have "sb_inv holds cfg Z D u" by (rule sb_inv_same [OF t(3) sb_invD(2) [OF i] t(2)])
  then have "sb_inv holds cfg Z D (send_event CFE_SB_SUBSCRIPTION_RPT_EID u)" by (rule quiet_sb_inv [rotated]) simp
  moreover have "CFE_SB_SendSubscriptionReport cfg c mid pid q s = Some (st, send_event CFE_SB_SUBSCRIPTION_RPT_EID u)"
    using True t(1) by (simp add: CFE_SB_SendSubscriptionReport_def Let_def)
  ultimately show thesis using that t(3) by simp
qed

lemma SubscribeFull_inv:
  assumes i: "sb_inv holds cfg Z D s" and c: "caller_ok c"
  obtains st s' D' where "CFE_SB_SubscribeFull cfg c mid pid q lim scope s = Some (st, s')" "sb_inv holds cfg Z D' s'"
    "\<forall>m. set (subscribers s' m) = (if m = mid \<and> st = CFE_SUCCESS then insert pid (set (subscribers s m)) else set (subscribers s m))"
    "st = CFE_SUCCESS \<longrightarrow> subscriber cfg c mid pid scope s"
proof -
  obtain st e r col s1 st' e' s2 D' where Q: "subscribe_route cfg c mid pid scope s = Some (st, e, r, col, s1)"
    "(if st = CFE_SUCCESS then subscribe_dest cfg pid lim scope r s1 else Some (st, e, s1)) = Some (st', e', s2)"
    "sb_inv holds cfg Z D' s2" "PipeTbl s2 = PipeTbl s" "Queues s2 = Queues s"
    "\<forall>m. set (subscribers s2 m) = (if m = mid \<and> st' = CFE_SUCCESS then insert pid (set (subscribers s m)) else set (subscribers s m))"
    "st' = CFE_SUCCESS \<longrightarrow> subscriber cfg c mid pid scope s"
    by (rule subscribe_inv [OF i, where lim = lim])
  define u where "u = subscribe_events cfg pid st' e' s2"
  have q: "quiet s2 u" unfolding u_def by (rule subscribe_events_quiet)
  have iu: "sb_inv holds cfg Z D' u" by (rule quiet_sb_inv [OF q Q(3)])
  obtain v where v: "(if st' = CFE_SUCCESS \<and> scope = CFE_SB_MSG_GLOBAL
      then map_option snd (CFE_SB_SendSubscriptionReport cfg c mid pid q u) else Some u) = Some v"
    "sb_inv holds cfg Z D' v" "same_setup u v"
  proof (cases "st' = CFE_SUCCESS \<and> scope = CFE_SB_MSG_GLOBAL")
    case True
    obtain st0 s0 where "CFE_SB_SendSubscriptionReport cfg c mid pid q u = Some (st0, s0)" "sb_inv holds cfg Z D' s0" "same_setup u s0"
      by (rule SendSubscriptionReport_inv [OF iu c])
    then show thesis using that True by simp
  qed (use that iu in auto)
  define w where "w = (if col \<noteq> 0 then send_event CFE_SB_HASHCOLLISION_EID v else v)"
  have w: "quiet v w" by (simp add: w_def)
  have "CFE_SB_SubscribeFull cfg c mid pid q lim scope s = Some (st', w)"
    using Q(1,2) v(1) by (simp add: SubscribeFull_events u_def [symmetric] w_def)
  moreover have "sb_inv holds cfg Z D' w" by (rule quiet_sb_inv [OF w v(2)])
  moreover have "same_setup s2 w" using same_setup_trans [OF same_setup_trans [OF quiet_setup [OF q] v(3)] quiet_setup [OF w]] .
  then have "subscribers w m = subscribers s2 m" for m by (rule same_setup_subscribers [OF sb_invD(1) [OF Q(3)]])
  ultimately show thesis using that Q(6,7) by simp
qed

lemma UnsubscribeFull_inv:
  assumes i: "sb_inv holds cfg Z D s"
  obtains st s' D' where "CFE_SB_UnsubscribeFull cfg mid pid scope app s = Some (st, s')" "sb_inv holds cfg Z D' s'"
    "\<forall>m. set (subscribers s' m) = (if m = mid \<and> st = CFE_SUCCESS then set (subscribers s m) - {pid} else set (subscribers s m))"
    "st = CFE_SUCCESS \<longleftrightarrow> CFE_SB_IsValidMsgId mid \<and> scope \<le> 1 \<and>
       (case CFE_SB_PipeDescIsMatch cfg pid s of None \<Rightarrow> False | Some i \<Rightarrow> PipeAppId (PipeTbl s i) = app)"
proof (cases "CFE_SB_IsValidMsgId mid \<and> scope \<le> 1 \<and>
       (case CFE_SB_PipeDescIsMatch cfg pid s of None \<Rightarrow> False | Some i \<Rightarrow> PipeAppId (PipeTbl s i) = app)")
  case False
  have "\<exists>e. CFE_SB_UnsubscribeFull cfg mid pid scope app s = Some (CFE_SB_BAD_ARGUMENT, send_event e s)"
  proof (cases "CFE_SB_PipeDescIsMatch cfg pid s")
    case (Some n)
    then have "PipeAppId (PipeTbl s n) \<noteq> app \<or> \<not> CFE_SB_IsValidMsgId mid \<or> scope > 1" using False by (auto simp: not_le)
    then show ?thesis using Some
      by (intro exI [of _ "if PipeAppId (PipeTbl s n) = app then CFE_SB_UNSUB_ARG_ERR_EID else CFE_SB_UNSUB_INV_CALLER_EID"])
        (simp add: CFE_SB_UnsubscribeFull_def)
  next
    case None
    then show ?thesis by (intro exI [of _ CFE_SB_UNSUB_INV_PIPE_EID]) (simp add: CFE_SB_UnsubscribeFull_def)
  qed
  then obtain e where e: "CFE_SB_UnsubscribeFull cfg mid pid scope app s = Some (CFE_SB_BAD_ARGUMENT, send_event e s)" by blast
  have q: "quiet s (send_event e s)" by simp
  show thesis
    by (rule that [OF e quiet_sb_inv [OF q i]])
      (use False same_setup_subscribers [OF sb_invD(1) [OF i] quiet_setup [OF q]] in simp_all)
next
  case True
  then obtain n where n: "CFE_SB_PipeDescIsMatch cfg pid s = Some n" "PipeAppId (PipeTbl s n) = app"
    "CFE_SB_IsValidMsgId mid" "\<not> scope > 1"
    by (auto simp: not_less split: option.splits)
  note b = sb_invD(1) [OF i] and P = sb_invD(2) [OF i]
  note d = bus_invD(2) [OF b] and inv = bus_invD(1) [OF b]
  let ?r = "route_of (Routing s) mid"
  have g: "CFE_SBR_GetRouteId (hash_map cfg) (Routing s) mid = Some ?r" by (rule GetRouteId_spec [OF inv])
  let ?none = "send_event CFE_SB_UNSUB_NO_SUBS_EID (snd (snd (CFE_SB_GetPipeName cfg True OS_MAX_API_NAME pid s)))"
  have qn: "quiet s ?none" by simp
  note ret = that
  have none: thesis if "CFE_SB_UnsubscribeFull cfg mid pid scope app s = Some (CFE_SUCCESS, ?none)" "pid \<notin> set (subscribers s mid)"
  proof (rule ret [OF that(1) quiet_sb_inv [OF qn i]])
    show "\<forall>m. set (subscribers ?none m) =
        (if m = mid \<and> CFE_SUCCESS = CFE_SUCCESS then set (subscribers s m) - {pid} else set (subscribers s m))"
      unfolding same_setup_subscribers [OF b quiet_setup [OF qn]] using that(2) by simp
  qed (use True in simp)
  show thesis
  proof (cases "?r = CFE_SBR_INVALID_ROUTE_ID")
    case True
    then show thesis using n g subscribers_none [OF True] by (intro none) (simp_all add: CFE_SB_UnsubscribeFull_def)
  next
    case False
    then obtain k where k: "k < 256" "?r = rid k" using route_of_rid [OF inv, of mid] by blast
    have subs: "subscribers s mid = map (\<lambda>p. DestPipeId (Dests s p)) (D k)" by (rule subscribers_rid [OF d k])
    let ?f = "List.find (\<lambda>p. DestPipeId (Dests s p) = pid) (D k)"
    have p: "CFE_SB_GetDestPtr (rid k) pid s = Some (ptr_of ?f)" by (rule GetDestPtr_rid [OF d k(1)])
    show thesis
    proof (cases ?f)
      case None
      have "CFE_SB_UnsubscribeFull cfg mid pid scope app s = Some (CFE_SUCCESS, ?none)"
        using n g k p None by (simp add: CFE_SB_UnsubscribeFull_def)
      moreover have "pid \<notin> set (subscribers s mid)" using None by (auto simp: subs find_None_iff)
      ultimately show thesis by (rule none)
    next
      case (Some x)
      then have x: "x \<in> set (D k)" "DestPipeId (Dests s x) = pid" by (auto simp: find_Some_iff)
      have x0: "x \<noteq> NULL" using x(1) dest_list_nodes(2) [OF dests_okD(1) [OF d k(1)]] by auto
      let ?u = "CFE_SB_RemoveDest cfg (rid k) x s"
      have r: "CFE_SB_UnsubscribeFull cfg mid pid scope app s = Some (CFE_SUCCESS, send_event CFE_SB_SUBSCRIPTION_REMOVED_EID ?u)"
        using n g k p Some x0 by (simp add: CFE_SB_UnsubscribeFull_def)
      note R = RemoveDest_inv [OF b k(1) x(1)]
      let ?D = "D(k := remove1 x (D k))"
      have nd: "nodes ?D = nodes D - {x}" by (rule nodes_remove [OF d k(1) x(1)])
      have id: "DestPipeId (Dests ?u q) = DestPipeId (Dests s q)" if "q \<in> nodes ?D" for q
        using same_destD [OF R(2) [of q]] that nd by auto
      have sub: "pipes_ok cfg ?D s" using P unfolding pipes_ok_def nd by blast
      have P1: "pipes_ok cfg ?D ?u" by (rule pipes_ok_frame [OF sub]) (use R(3,4) id in simp_all)
      have iu: "sb_inv holds cfg Z ?D ?u" using R(1) P1 by (simp add: sb_inv_def)
      have ro: "route_of (Routing ?u) m = route_of (Routing s) m" for m by (rule route_of_cong) (use R(5,6) in simp_all)
      note du = bus_invD(2) [OF R(1)]
      have other: "subscribers ?u m = subscribers s m" if "m \<noteq> mid" for m
      proof (rule subscribers_frame [OF d du inv ro])
        fix j assume j: "route_of (Routing s) m = rid j" "j < 256"
        have "j \<noteq> k" using route_of_rid [OF inv, of m] route_of_rid [OF inv, of mid] j k that rid_inj by auto
        then show "?D j = D j \<and> (\<forall>p \<in> set (D j). DestPipeId (Dests ?u p) = DestPipeId (Dests s p))"
          using id nodesI [of _ ?D j] by simp
      qed
      have "subscribers ?u mid = map (\<lambda>p. DestPipeId (Dests ?u p)) (remove1 x (D k))"
        using subscribers_rid [OF du k(1), of mid] ro k(2) by simp
      also have "\<dots> = map (\<lambda>p. DestPipeId (Dests s p)) (remove1 x (D k))" using id nodesI [of _ ?D k] by simp
      also have "remove1 x (D k) = filter (\<lambda>p. DestPipeId (Dests s p) \<noteq> pid) (D k)"
        by (rule remove1_find [OF dests_okD(3) [OF d k(1)] Some])
      finally have mid: "set (subscribers ?u mid) = set (subscribers s mid) - {pid}" unfolding subs by auto
      have q: "quiet ?u (send_event CFE_SB_SUBSCRIPTION_REMOVED_EID ?u)" by simp
      show thesis
        by (rule that [OF r quiet_sb_inv [OF q iu]])
          (use True other mid same_setup_subscribers [OF R(1) quiet_setup [OF q]] in \<open>simp_all add: \<close>)
    qed
  qed
qed

end

end
