(* ===== verification/CFS_SbClean.thy ===== *)
theory CFS_SbClean
  imports CFS_SbSubs
begin

text \<open>
  The cleanup of an application (\<^verbatim>\<open>CFE_SB_CleanUpApp\<close>), the pipe options and the commands of the software bus task.
\<close>

section \<open>Cleaning up applications\<close>

lemma zero_copy_links:
  assumes "bus_inv holds cfg X Z D s"
  shows "LinkNext s ZeroCopyList = hd (map BufferLink Z @ [ZeroCopyList])"
    "Z = xs @ x # ys \<Longrightarrow> LinkNext s (BufferLink x) = hd (map BufferLink ys @ [ZeroCopyList])"
proof -
  obtain T where "links_ok Z T s" using bus_invD(4) [OF assms] by (auto simp: mem_ok_def bufs_ok_def)
  then have r: "ring (LinkNext s) (LinkPrev s) ZeroCopyList (map BufferLink Z)" by (simp add: links_ok_def)
  show "LinkNext s ZeroCopyList = hd (map BufferLink Z @ [ZeroCopyList])" by (rule ring_head [OF r])
  assume "Z = xs @ x # ys"
  then have "ring (LinkNext s) (LinkPrev s) ZeroCopyList (map BufferLink xs @ BufferLink x # map BufferLink ys)" using r by simp
  then show "LinkNext s (BufferLink x) = hd (map BufferLink ys @ [ZeroCopyList])" by (rule ring_neighbours)
qed

lemma Decr_other [simp]: "x \<noteq> b \<Longrightarrow> Bufs (CFE_SB_DecrBufUseCnt cfg b s) x = Bufs s x"
  by (simp add: CFE_SB_DecrBufUseCnt_def CFE_SB_ReturnBufferToPool_def Let_def)

context sb_pool
begin

lemma release_zero_copy_inv:
  assumes "bus_inv holds cfg {#} (xs @ ys) D s"
  shows "\<exists>s'. release_zero_copy cfg app (hd (map BufferLink ys @ [ZeroCopyList])) s = Some s' \<and>
    bus_inv holds cfg {#} (xs @ filter (\<lambda>b. OwnerAppId (Bufs s b) \<noteq> app) ys) D s' \<and> same_setup s s' \<and> Queues s' = Queues s \<and>
    (\<forall>b. b \<in> set xs \<or> OwnerAppId (Bufs s b) \<noteq> app \<longrightarrow> Bufs s' b = Bufs s b)"
  using assms
proof (induction ys arbitrary: xs s)
  case Nil
  then show ?case by (subst release_zero_copy.simps) simp
next
  case (Cons y ys)
  have n: "LinkNext s (BufferLink y) = hd (map BufferLink ys @ [ZeroCopyList])" by (rule zero_copy_links(2) [OF Cons.prems refl])
  have dist: "distinct (xs @ y # ys)" by (rule bus_inv_Z [OF Cons.prems])
  show ?case
  proof (cases "OwnerAppId (Bufs s y) = app")
    case False
    then obtain s' where "release_zero_copy cfg app (hd (map BufferLink ys @ [ZeroCopyList])) s = Some s'"
      "bus_inv holds cfg {#} ((xs @ [y]) @ filter (\<lambda>b. OwnerAppId (Bufs s b) \<noteq> app) ys) D s'" "same_setup s s'" "Queues s' = Queues s"
      "\<forall>b. b \<in> set (xs @ [y]) \<or> OwnerAppId (Bufs s b) \<noteq> app \<longrightarrow> Bufs s' b = Bufs s b"
      using Cons.IH [of "xs @ [y]" s] Cons.prems by auto
    then show ?thesis using False n by (subst release_zero_copy.simps) simp
  next
    case True
    let ?u = "CFE_SB_DecrBufUseCnt cfg y s"
    have "remove1 y (xs @ y # ys) = xs @ ys" using dist by (simp add: remove1_append)
    then have u: "bus_inv holds cfg {#} (xs @ ys) D ?u" using inv_decr_owned [OF Cons.prems, of y] by simp
    have "OwnerAppId (Bufs ?u b) = OwnerAppId (Bufs s b)" if "b \<in> set ys" for b using that dist by (cases "b = y") auto
    then have f: "filter (\<lambda>b. OwnerAppId (Bufs ?u b) \<noteq> app) ys = filter (\<lambda>b. OwnerAppId (Bufs s b) \<noteq> app) ys"
      by (intro filter_cong) simp_all
    obtain s' where "release_zero_copy cfg app (hd (map BufferLink ys @ [ZeroCopyList])) ?u = Some s'"
      "bus_inv holds cfg {#} (xs @ filter (\<lambda>b. OwnerAppId (Bufs s b) \<noteq> app) ys) D s'" "same_setup ?u s'" "Queues s' = Queues ?u"
      and e: "\<forall>b. b \<in> set xs \<or> OwnerAppId (Bufs ?u b) \<noteq> app \<longrightarrow> Bufs s' b = Bufs ?u b"
      using Cons.IH [OF u] unfolding f by blast
    moreover have "same_setup s ?u" by simp
    moreover have "Bufs s' b = Bufs s b" if "b \<in> set xs \<or> OwnerAppId (Bufs s b) \<noteq> app" for b
    proof -
      have "b \<noteq> y" using that True dist by auto
      then have "Bufs ?u b = Bufs s b" by simp
      then show ?thesis using e that by metis
    qed
    ultimately show ?thesis using True n same_setup_trans [of s ?u s'] by (subst release_zero_copy.simps) simp
  qed
qed

lemma ZeroCopyRelease_inv:
  assumes i: "sb_inv holds cfg Z D s"
  obtains s' where "CFE_SB_ZeroCopyReleaseAppId cfg app s = Some s'" 
    "sb_inv holds cfg (filter (\<lambda>b. OwnerAppId (Bufs s b) \<noteq> app) Z) D s'" "same_setup s s'" "Queues s' = Queues s"
    "\<forall>b. OwnerAppId (Bufs s b) \<noteq> app \<longrightarrow> Bufs s' b = Bufs s b"
proof (cases "app = CFE_RESOURCEID_UNDEFINED")
  case True
  have "OwnerAppId (Bufs s b) \<noteq> CFE_RESOURCEID_UNDEFINED" if "b \<in> set Z" for b
    using bus_inv_Z(4) [OF sb_invD(1) [OF i], of b] that by simp
  then have "filter (\<lambda>b. OwnerAppId (Bufs s b) \<noteq> app) Z = Z" unfolding True by (simp add: filter_id_conv)
  then show thesis using that i True by (simp add: CFE_SB_ZeroCopyReleaseAppId_def)
next
  case False
  note b = sb_invD(1) [OF i]
  obtain s' where s': "release_zero_copy cfg app (LinkNext s ZeroCopyList) s = Some s'"
    "bus_inv holds cfg {#} (filter (\<lambda>b. OwnerAppId (Bufs s b) \<noteq> app) Z) D s'" "same_setup s s'" "Queues s' = Queues s"
    "\<forall>b. OwnerAppId (Bufs s b) \<noteq> app \<longrightarrow> Bufs s' b = Bufs s b"
    using release_zero_copy_inv [of "[]" Z D s app] b unfolding zero_copy_links(1) [OF b] by auto
  show thesis by (rule that [OF _ sb_inv_same [OF s'(3) sb_invD(2) [OF i] s'(2)] s'(3-)])
      (use s'(1) False in \<open>simp add: CFE_SB_ZeroCopyReleaseAppId_def\<close>)
qed

lemma subscribers_delete:
  assumes b: "bus_inv holds cfg X Z D s" "bus_inv holds cfg X' Z' (others s pid D) s'"
    and r: "RouteIdxTop (Routing s') = RouteIdxTop (Routing s)" "msgid_at (Routing s') = msgid_at (Routing s)"
    and q: "\<forall>q \<in> nodes (others s pid D). same_dest (Dests s q) (Dests s' q)"
  shows "subscribers s' m = filter (\<lambda>p. p \<noteq> pid) (subscribers s m)"
proof -
  note d = bus_invD(2) [OF b(1)] and d' = bus_invD(2) [OF b(2)] and inv = bus_invD(1) [OF b(1)]
  have ro: "route_of (Routing s') m = route_of (Routing s) m" by (rule route_of_cong) (use r in simp_all)
  show ?thesis
    using route_of_rid [OF inv, of m]
  proof
    assume n: "route_of (Routing s) m = CFE_SBR_INVALID_ROUTE_ID"
    then show ?thesis using subscribers_none [OF n] subscribers_none [of s' m] ro by simp
  next
    assume "\<exists>k < top_idx (Routing s). k < 256 \<and> route_of (Routing s) m = rid k \<and> msgid_at (Routing s) k = m"
    then obtain k where k: "k < 256" "route_of (Routing s) m = rid k" by blast
    have "DestPipeId (Dests s' x) = DestPipeId (Dests s x)" if "x \<in> set (others s pid D k)" for x
      using same_destD q nodesI [of x "others s pid D" k] that by blast
    then have "map (\<lambda>p. DestPipeId (Dests s' p)) (others s pid D k) = map (\<lambda>p. DestPipeId (Dests s p)) (others s pid D k)" by simp
    then show ?thesis using subscribers_rid [OF d k] subscribers_rid [OF d' k(1), of m] ro k(2)
      by (simp add: filter_map comp_def)
  qed
qed

lemma DeletePipe_sb_inv:
  assumes i: "sb_inv holds cfg Z D s"
  obtains st s' D' where "CFE_SB_DeletePipeFull cfg pid app s = Some (st, s')" "sb_inv holds cfg Z D' s'"
    "st = CFE_SUCCESS \<longleftrightarrow> (case CFE_SB_PipeDescIsMatch cfg pid s of None \<Rightarrow> False | Some n \<Rightarrow> PipeAppId (PipeTbl s n) = app)"
    "\<forall>m. subscribers s' m = (if st = CFE_SUCCESS then filter (\<lambda>p. p \<noteq> pid) (subscribers s m) else subscribers s m)"
    "\<forall>n. PipeTbl s' n = (if st = CFE_SUCCESS \<and> CFE_SB_PipeDescIsMatch cfg pid s = Some n
       then (PipeTbl s n)\<lparr>PipeId := CFE_RESOURCEID_UNDEFINED\<rparr> else PipeTbl s n)"
    "\<forall>n. st = CFE_SUCCESS \<longrightarrow> CFE_SB_PipeDescIsMatch cfg pid s = Some n \<longrightarrow> map_of (Queues s') (SysQueueId (PipeTbl s n)) = None"
proof (cases "case CFE_SB_PipeDescIsMatch cfg pid s of None \<Rightarrow> False | Some n \<Rightarrow> PipeAppId (PipeTbl s n) = app")
  case False
  then have "\<And>n. CFE_SB_PipeDescIsMatch cfg pid s = Some n \<Longrightarrow> app \<noteq> PipeAppId (PipeTbl s n)" by auto
  then obtain s' where s': "CFE_SB_DeletePipeFull cfg pid app s = Some (CFE_SB_BAD_ARGUMENT, s')" "quiet s s'"
    using DeletePipeFull_fails by blast
  show thesis
    by (rule that [OF s'(1) quiet_sb_inv [OF s'(2) i]])
      (use False quiet_frame(3) [OF s'(2)] same_setup_subscribers [OF sb_invD(1) [OF i] quiet_setup [OF s'(2)]] in simp_all)
next
  case True
  then obtain n where n: "CFE_SB_PipeDescIsMatch cfg pid s = Some n" "PipeAppId (PipeTbl s n) = app" by (auto split: option.splits)
  note b = sb_invD(1) [OF i]
  obtain s' where s': "CFE_SB_DeletePipeFull cfg pid app s = Some (CFE_SUCCESS, s')" "bus_inv holds cfg {#} Z (others s pid D) s'"
    "PipeTbl s' = (PipeTbl s)(n := (PipeTbl s n)\<lparr>PipeId := CFE_RESOURCEID_UNDEFINED\<rparr>)"
    "Queues s' = AList.delete (SysQueueId (PipeTbl s n)) (Queues s)"
    "\<forall>q \<in> nodes (others s pid D). same_dest (Dests s q) (Dests s' q)" "RouteIdxTop (Routing s') = RouteIdxTop (Routing s)"
    "msgid_at (Routing s') = msgid_at (Routing s)" "PipesInUse (StatTlm s') = PipesInUse (StatTlm s) - 1"
    by (rule DeletePipeFull_inv [OF b n])
  have "pipes_ok cfg (others s pid D) s'"
    by (rule pipes_ok_delete [OF sb_invD(2) [OF i] n(1) s'(3,4)]) (use same_destD s'(5) in blast)
  then have j: "sb_inv holds cfg Z (others s pid D) s'" using s'(2) by (simp add: sb_inv_def)
  show thesis
    by (rule that [OF s'(1) j])
      (use n s'(3) subscribers_delete [OF b s'(2,6,7,5)] in \<open>auto simp: s'(4) delete_conv'\<close>)
qed

end

text \<open>The application that owns a pipe.\<close>

definition pipe_owner :: "'p sb_cfg \<Rightarrow> 'p sb_state \<Rightarrow> CFE_SB_PipeId_t \<Rightarrow> CFE_ES_AppId_t option" where
  "pipe_owner cfg s pid = map_option (\<lambda>n. PipeAppId (PipeTbl s n)) (CFE_SB_PipeDescIsMatch cfg pid s)"

lemma owner_after_delete:
  assumes "\<forall>n. PipeTbl s' n = (if ok \<and> CFE_SB_PipeDescIsMatch cfg pid s = Some n
       then (PipeTbl s n)\<lparr>PipeId := CFE_RESOURCEID_UNDEFINED\<rparr> else PipeTbl s n)"
  shows "pipe_owner cfg s' p = (if ok \<and> p = pid then None else pipe_owner cfg s p)"
proof (cases "CFE_SB_LocatePipeDescByID cfg p")
  case None
  then show ?thesis by (simp add: pipe_owner_def CFE_SB_PipeDescIsMatch_def)
next
  case (Some k)
  then have u: "CFE_RESOURCEID_UNDEFINED \<noteq> p" using Locate_reserved(1) [of cfg] by auto
  have k: "PipeTbl s' k = (if ok \<and> CFE_SB_PipeDescIsMatch cfg pid s = Some k
       then (PipeTbl s k)\<lparr>PipeId := CFE_RESOURCEID_UNDEFINED\<rparr> else PipeTbl s k)" using assms by blast
  have m: "CFE_SB_PipeDescIsMatch cfg p t = (if PipeId (PipeTbl t k) = p then Some k else None)" for t
    using Some by (simp add: CFE_SB_PipeDescIsMatch_def)
  show ?thesis
  proof (cases "ok \<and> CFE_SB_PipeDescIsMatch cfg pid s = Some k")
    case True
    then have "PipeId (PipeTbl s k) = pid" using match_live(2) by blast
    then show ?thesis using True k u unfolding pipe_owner_def m by simp
  next
    case False
    have "p = pid \<Longrightarrow> ok \<Longrightarrow> PipeId (PipeTbl s k) \<noteq> pid" using False m [of s] by auto
    moreover have "PipeTbl s' k = PipeTbl s k" using False k by presburger
    ultimately show ?thesis unfolding pipe_owner_def m by simp
  qed
qed

context sb_pool
begin

lemma delete_pipes_inv:
  assumes "sb_inv holds cfg Z D s"
  shows "\<exists>s' D'. delete_pipes cfg app pids s = Some s' \<and> sb_inv holds cfg Z D' s' \<and>
    (\<forall>p. pipe_owner cfg s' p = (if p \<in> set pids \<and> pipe_owner cfg s p = Some app then None else pipe_owner cfg s p)) \<and>
    (\<forall>m. subscribers s' m = filter (\<lambda>p. \<not> (p \<in> set pids \<and> pipe_owner cfg s p = Some app)) (subscribers s m))"
  using assms
proof (induction pids arbitrary: s D)
  case Nil
  then show ?case by auto
next
  case (Cons pid pids)
  obtain st s1 D1 where s1: "CFE_SB_DeletePipeFull cfg pid app s = Some (st, s1)" "sb_inv holds cfg Z D1 s1"
    "st = CFE_SUCCESS \<longleftrightarrow> (case CFE_SB_PipeDescIsMatch cfg pid s of None \<Rightarrow> False | Some n \<Rightarrow> PipeAppId (PipeTbl s n) = app)"
    "\<forall>m. subscribers s1 m = (if st = CFE_SUCCESS then filter (\<lambda>p. p \<noteq> pid) (subscribers s m) else subscribers s m)"
    "\<forall>n. PipeTbl s1 n = (if st = CFE_SUCCESS \<and> CFE_SB_PipeDescIsMatch cfg pid s = Some n
       then (PipeTbl s n)\<lparr>PipeId := CFE_RESOURCEID_UNDEFINED\<rparr> else PipeTbl s n)"
    "\<forall>n. st = CFE_SUCCESS \<longrightarrow> CFE_SB_PipeDescIsMatch cfg pid s = Some n \<longrightarrow> map_of (Queues s1) (SysQueueId (PipeTbl s n)) = None"
    by (rule DeletePipe_sb_inv [OF Cons.prems])
  note o1 = owner_after_delete [OF s1(5)]
  have st: "st = CFE_SUCCESS \<longleftrightarrow> pipe_owner cfg s pid = Some app" using s1(3) by (simp add: pipe_owner_def split: option.splits)
  obtain s' D' where s': "delete_pipes cfg app pids s1 = Some s'" "sb_inv holds cfg Z D' s'"
    "\<forall>p. pipe_owner cfg s' p = (if p \<in> set pids \<and> pipe_owner cfg s1 p = Some app then None else pipe_owner cfg s1 p)"
    "\<forall>m. subscribers s' m = filter (\<lambda>p. \<not> (p \<in> set pids \<and> pipe_owner cfg s1 p = Some app)) (subscribers s1 m)"
    using Cons.IH [OF s1(2)] by blast
  have "delete_pipes cfg app (pid # pids) s = Some s'" using s1(1) s'(1) by (simp add: CFE_SB_DeletePipeWithAppId_def)
  moreover have "pipe_owner cfg s' p =
      (if p \<in> set (pid # pids) \<and> pipe_owner cfg s p = Some app then None else pipe_owner cfg s p)" for p
    using s'(3) o1 [of p] st by auto
  moreover have "subscribers s' m = filter (\<lambda>p. \<not> (p \<in> set (pid # pids) \<and> pipe_owner cfg s p = Some app)) (subscribers s m)" for m
    using s'(4) s1(4) o1 st by (auto intro!: filter_cong)
  ultimately show ?case using s'(2) by blast
qed

lemma owned_pipes_complete:
  assumes "pipes_ok cfg D s" "pipe_owner cfg s p = Some app"
  shows "p \<in> set (owned_pipes app s)"
proof -
  obtain n where n: "CFE_SB_PipeDescIsMatch cfg p s = Some n" "PipeAppId (PipeTbl s n) = app"
    using assms(2) by (auto simp: pipe_owner_def)
  note l = match_live [OF n(1)]
  have "CFE_SB_PipeDescIsUsed (PipeTbl s n)" using l(3) by (simp add: CFE_SB_PipeDescIsUsed_def live_pipe_def)
  then show ?thesis using l(1,2) n(2) by (auto simp: owned_pipes_def)
qed

lemma CleanUpApp_inv:
  assumes i: "sb_inv holds cfg Z D s"
  obtains s' Z' D' where "CFE_SB_CleanUpApp cfg app s = Some (CFE_SUCCESS, s')" "sb_inv holds cfg Z' D' s'"
    "\<forall>p. pipe_owner cfg s' p = (if pipe_owner cfg s p = Some app then None else pipe_owner cfg s p)"
    "\<forall>m. subscribers s' m = filter (\<lambda>p. pipe_owner cfg s p \<noteq> Some app) (subscribers s m)"
    "\<forall>b \<in> set Z'. OwnerAppId (Bufs s' b) \<noteq> app"
proof -
  obtain u D' where u: "delete_pipes cfg app (owned_pipes app s) s = Some u" "sb_inv holds cfg Z D' u"
    "\<forall>p. pipe_owner cfg u p = (if p \<in> set (owned_pipes app s) \<and> pipe_owner cfg s p = Some app then None else pipe_owner cfg s p)"
    "\<forall>m. subscribers u m = filter (\<lambda>p. \<not> (p \<in> set (owned_pipes app s) \<and> pipe_owner cfg s p = Some app)) (subscribers s m)"
    using delete_pipes_inv [OF i] by blast
  note c = owned_pipes_complete [OF sb_invD(2) [OF i]]
  obtain s' where s': "CFE_SB_ZeroCopyReleaseAppId cfg app u = Some s'" 
    "sb_inv holds cfg (filter (\<lambda>b. OwnerAppId (Bufs u b) \<noteq> app) Z) D' s'" "same_setup u s'" "Queues s' = Queues u"
    "\<forall>b. OwnerAppId (Bufs u b) \<noteq> app \<longrightarrow> Bufs s' b = Bufs u b"
    by (rule ZeroCopyRelease_inv [OF u(2)])
  have o: "pipe_owner cfg s' p = pipe_owner cfg u p" for p
    using same_setup_match [OF s'(3), of cfg p] same_setup_pipe [OF s'(3)] by (simp add: pipe_owner_def cong: option.map_cong)
  show thesis
  proof (rule that [OF _ s'(2)])
    show "CFE_SB_CleanUpApp cfg app s = Some (CFE_SUCCESS, s')" using u(1) s'(1) by (simp add: CFE_SB_CleanUpApp_def)
    show "\<forall>p. pipe_owner cfg s' p = (if pipe_owner cfg s p = Some app then None else pipe_owner cfg s p)"
      using o u(3) c by auto
    show "\<forall>m. subscribers s' m = filter (\<lambda>p. pipe_owner cfg s p \<noteq> Some app) (subscribers s m)"
      using same_setup_subscribers [OF sb_invD(1) [OF u(2)] s'(3)] u(4) c by (auto intro!: filter_cong)
    show "\<forall>b \<in> set (filter (\<lambda>b. OwnerAppId (Bufs u b) \<noteq> app) Z). OwnerAppId (Bufs s' b) \<noteq> app" using s'(5) by simp
  qed
qed

end

section \<open>Options and commands\<close>

lemma sb_inv_frame:
  assumes i: "sb_inv holds cfg Z D s"
    and "Routing s' = Routing s" "Queues s' = Queues s" "LinkNext s' = LinkNext s" "LinkPrev s' = LinkPrev s" "Pool s' = Pool s"
      "StatTlm s' = StatTlm s" "Bufs s' = Bufs s"
    and d: "\<And>p. Next (Dests s' p) = Next (Dests s p) \<and> Prev (Dests s' p) = Prev (Dests s p) \<and> DestPipeId (Dests s' p) = DestPipeId (Dests s p)"
    and t: "\<And>n. PipeId (PipeTbl s' n) = PipeId (PipeTbl s n) \<and> SysQueueId (PipeTbl s' n) = SysQueueId (PipeTbl s n) \<and>
      LastBuffer (PipeTbl s' n) = LastBuffer (PipeTbl s n)"
  shows "sb_inv holds cfg Z D s'"
proof -
  have "last_ref (PipeTbl s' n) = last_ref (PipeTbl s n)" for n using t [of n] by (simp add: last_ref_def live_pipe_def)
  then have "bus_refs s' = bus_refs s" using assms(3) by (simp add: bus_refs_def last_refs_def)
  then have "bus_inv holds cfg {#} Z D s' = bus_inv holds cfg {#} Z D s"
    using assms(2-8) d by (intro bus_inv_cong) simp_all
  moreover have "pipes_ok cfg D s'"
    by (rule pipes_ok_frame [OF sb_invD(2) [OF i]]) (use t d assms(3) in simp_all)
  ultimately show ?thesis using sb_invD(1) [OF i] unfolding sb_inv_def by blast
qed

lemma SetPipeOpts_inv:
  assumes i: "sb_inv holds cfg Z D s" and r: "CFE_SB_SetPipeOpts cfg c pid opts s = (st, s')"
  shows "sb_inv holds cfg Z D s'"
proof (cases "st = CFE_SUCCESS \<and> AppIdStatus c = CFE_SUCCESS")
  case False
  then have "quiet s s'" using r by (auto simp: CFE_SB_SetPipeOpts_def Let_def split: option.splits if_splits)
  then show ?thesis by (rule quiet_sb_inv [OF _ i])
next
  case True
  then obtain n where "s' = send_event CFE_SB_SETPIPEOPTS_EID (upd_pipe n (\<lambda>p. p\<lparr>Opts := opts\<rparr>) s)"
    using r by (auto simp: CFE_SB_SetPipeOpts_def Let_def split: option.splits if_splits)
  then show ?thesis by (intro sb_inv_frame [OF i]) simp_all
qed

lemma GetPipeOpts_quiet: "CFE_SB_GetPipeOpts cfg pid null s = (st, x, s') \<Longrightarrow> quiet s s'"
  by (auto simp: CFE_SB_GetPipeOpts_def Let_def split: option.splits if_splits)

lemma GetPipeIdByName_quiet: "CFE_SB_GetPipeIdByName null name s = (st, x, s') \<Longrightarrow> quiet s s'"
  by (auto simp: CFE_SB_GetPipeIdByName_def Let_def split: option.splits if_splits prod.splits)

lemma accept_quiet [simp]: "quiet s u \<Longrightarrow> quiet s (accept_cmd u)" "quiet s u \<Longrightarrow> quiet s (reject_cmd u)"
  by (simp_all add: accept_cmd_def reject_cmd_def)

lemma set_route_active_inv:
  assumes i: "sb_inv holds cfg Z D s"
  obtains s' where "set_route_active cfg act eids mid pid s = Some s'" "sb_inv holds cfg Z D s'"
proof -
  obtain a b c where e: "eids = (a, b, c)" by (cases eids)
  show thesis
  proof (cases "\<not> CFE_SB_IsValidMsgId mid \<or> CFE_SB_PipeDescIsMatch cfg pid s = None")
    case True
    then have "set_route_active cfg act eids mid pid s = Some (send_event c (reject_cmd s))"
      by (simp add: set_route_active_def e)
    moreover have "sb_inv holds cfg Z D (send_event c (reject_cmd s))" by (rule quiet_sb_inv [OF _ i]) simp
    ultimately show thesis by (rule that)
  next
    case False
    note b = sb_invD(1) [OF i]
    have g: "CFE_SBR_GetRouteId (hash_map cfg) (Routing s) mid = Some (route_of (Routing s) mid)"
      by (rule GetRouteId_spec [OF bus_invD(1) [OF b]])
    obtain p where p: "CFE_SB_GetDestPtr (route_of (Routing s) mid) pid s = Some p" using GetDestPtr_ends [OF bus_invD(2) [OF b]] by blast
    show thesis
    proof (rule that)
      show "set_route_active cfg act eids mid pid s = Some (if p = NULL then send_event a (reject_cmd s)
          else send_event b (accept_cmd (upd_dest p (\<lambda>d. d\<lparr>Active := act\<rparr>) s)))"
        using False g p by (auto simp: set_route_active_def e)
      show "sb_inv holds cfg Z D (if p = NULL then send_event a (reject_cmd s)
          else send_event b (accept_cmd (upd_dest p (\<lambda>d. d\<lparr>Active := act\<rparr>) s)))"
        by (rule sb_inv_frame [OF i]) (simp_all add: accept_cmd_def reject_cmd_def)
    qed
  qed
qed

lemma global_dest_from:
  "dest_list ds h (xs @ ys) \<Longrightarrow> \<exists>p. global_dest ds (hd (ys @ [NULL])) = Some p"
proof (induction ys arbitrary: xs)
  case Nil
  then show ?case by (subst global_dest.simps) simp
next
  case (Cons y ys)
  have "\<exists>p. global_dest ds (hd (ys @ [NULL])) = Some p" by (rule Cons.IH [of "xs @ [y]"]) (use Cons.prems in simp)
  then show ?case using dest_list_neighbours [OF Cons.prems] by (subst global_dest.simps) simp
qed

context sb_pool
begin

lemma TransmitMsg_sb_inv:
  assumes "sb_inv holds cfg Z D s" "caller_ok c"
  obtains st s' where "CFE_SB_TransmitMsg cfg c m org s = Some (st, s')" "sb_inv holds cfg Z D s'"
  by (rule TransmitMsg_inv [OF sb_invD(1) [OF assms(1)] assms(2), of m org]) (blast intro: that sb_inv_same [OF _ sb_invD(2) [OF assms(1)]])

lemma SendRouteSub_inv:
  assumes i: "sb_inv holds cfg Z D s" and c: "caller_ok c" and k: "k < 256"
  obtains s' where "CFE_SB_SendRouteSub cfg c (rid k) (Some s) = Some s'" "sb_inv holds cfg Z D s'"
proof -
  note l = dests_okD(1) [OF bus_invD(2) [OF sb_invD(1) [OF i]] k]
  obtain p where p: "global_dest (Dests s) (CFE_SBR_GetDestListHeadPtr (Routing s) (rid k)) = Some p"
    using global_dest_from [of _ _ "[]" "D k"] l dest_list_head [OF l] head_rid [OF k, of s] by auto
  define u where "u = s\<lparr>PrevSub := (PrevSub s)\<lparr>Entry := (Entry (PrevSub s))(unat (Entries (PrevSub s)) := CFE_SBR_GetMsgId (Routing s) (rid k)),
                                        Entries := Entries (PrevSub s) + 1\<rparr>\<rparr>"
  have iu: "sb_inv holds cfg Z D u" by (rule sb_inv_frame [OF i]) (simp_all add: u_def)
  obtain st v where v: "CFE_SB_TransmitMsg cfg c (Some (PrevSubMessage cfg (PrevSub u))) True u = Some (st, v)" "sb_inv holds cfg Z D v"
    by (rule TransmitMsg_sb_inv [OF iu c])
  have iv: "sb_inv holds cfg Z D ((send_event CFE_SB_FULL_SUB_PKT_EID v)
      \<lparr>PrevSub := (PrevSub (send_event CFE_SB_FULL_SUB_PKT_EID v))\<lparr>Entries := 0, PktSegment := PktSegment (PrevSub (send_event CFE_SB_FULL_SUB_PKT_EID v)) + 1\<rparr>\<rparr>)"
    by (rule sb_inv_frame [OF v(2)]) simp_all
  show thesis
    by (cases "p = NULL"; cases "Entries (PrevSub u) \<ge> CFE_SB_SUB_ENTRIES_PER_PKT")
      (use that p i iu iv v(1) in \<open>simp_all add: CFE_SB_SendRouteSub_def Let_def u_def [symmetric]\<close>)
qed

lemma fold_SendRouteSub_inv:
  assumes "sb_inv holds cfg Z D s" "caller_ok c" "\<And>k. k \<in> set ks \<Longrightarrow> k < 256"
  shows "\<exists>s'. fold (\<lambda>k. CFE_SB_SendRouteSub cfg c (rid k)) ks (Some s) = Some s' \<and> sb_inv holds cfg Z D s'"
  using assms
proof (induction ks arbitrary: s)
  case (Cons k ks)
  obtain u where "CFE_SB_SendRouteSub cfg c (rid k) (Some s) = Some u" "sb_inv holds cfg Z D u"
    using SendRouteSub_inv [OF Cons.prems(1,2), of k] Cons.prems(3) by auto
  then show ?case using Cons.IH [of u] Cons.prems(2,3) by simp
qed simp

lemma SendPrevSubs_inv:
  assumes i: "sb_inv holds cfg Z D s" and c: "caller_ok c"
  obtains s' where "CFE_SB_SendPrevSubsCmd cfg c s = Some s'" "sb_inv holds cfg Z D s'"
proof -
  define u where "u = s\<lparr>PrevSub := (PrevSub s)\<lparr>PktSegment := 1, Entries := 0\<rparr>\<rparr>"
  have iu: "sb_inv holds cfg Z D u" by (rule sb_inv_frame [OF i]) (simp_all add: u_def)
  have top: "top_idx (Routing u) \<le> 256" using bus_invD(1) [OF sb_invD(1) [OF iu]] by (simp add: sbr_inv_def routes_ok_def)
  obtain v where v: "fold (\<lambda>k. CFE_SB_SendRouteSub cfg c (rid k)) [0..<top_idx (Routing u)] (Some u) = Some v" "sb_inv holds cfg Z D v"
    using fold_SendRouteSub_inv [OF iu c, of "[0..<top_idx (Routing u)]"] top by auto
  obtain st w where w: "CFE_SB_TransmitMsg cfg c (Some (PrevSubMessage cfg (PrevSub v))) True v = Some (st, w)" "sb_inv holds cfg Z D w"
    by (rule TransmitMsg_sb_inv [OF v(2) c])
  have e: "sb_inv holds cfg Z D (send_event CFE_SB_PART_SUB_PKT_EID w)" by (rule quiet_sb_inv [OF _ w(2)]) simp
  show thesis
    by (cases "Entries (PrevSub v) > 0")
      (use that v w e in \<open>simp_all add: CFE_SB_SendPrevSubsCmd_def Let_def u_def [symmetric] ForEachRouteId_fold [OF top]\<close>)
qed

lemma SendHK_inv:
  assumes i: "sb_inv holds cfg Z D s" and c: "caller_ok c"
  obtains s' where "CFE_SB_SendHKTlmCmd cfg c s = Some s'" "sb_inv holds cfg Z D s'"
proof -
  define u where "u = upd_hk (\<lambda>h. h\<lparr>HkMemInUse := MemInUse (StatTlm s),
                            UnmarkedMem := CFE_PLATFORM_SB_BUF_MEMORY_BYTES - PeakMemInUse (StatTlm s)\<rparr>) s"
  have iu: "sb_inv holds cfg Z D u" by (rule quiet_sb_inv [OF _ i]) (simp add: u_def)
  obtain st v where "CFE_SB_TransmitMsg cfg c (Some (CFE_SB_TimeStampMsg cfg c (HkMessage cfg (HKTlm u)))) True u = Some (st, v)"
    "sb_inv holds cfg Z D v" by (rule TransmitMsg_sb_inv [OF iu c])
  then show thesis using that by (simp add: CFE_SB_SendHKTlmCmd_def Let_def u_def [symmetric])
qed

lemma SendStats_inv:
  assumes i: "sb_inv holds cfg Z D s" and c: "caller_ok c"
  obtains s' where "CFE_SB_SendStatsCmd cfg c s = Some s'" "sb_inv holds cfg Z D s'"
proof -
  obtain st v where v: "CFE_SB_TransmitMsg cfg c (Some (CFE_SB_TimeStampMsg cfg c (StatMessage cfg (StatTlm s) (pipe_depth_stats s)))) True s = Some (st, v)"
    "sb_inv holds cfg Z D v" by (rule TransmitMsg_sb_inv [OF i c])
  have "sb_inv holds cfg Z D (accept_cmd (send_event CFE_SB_SND_STATS_EID v))" by (rule quiet_sb_inv [OF _ v(2)]) simp
  then show thesis using that v(1) by (simp add: CFE_SB_SendStatsCmd_def)
qed

lemma ProcessCmdPipePkt_inv:
  assumes i: "sb_inv holds cfg Z D s" and c: "caller_ok c" and w: "\<And>cc m s. quiet s (write_file k cc m s)"
  obtains s' where "CFE_SB_ProcessCmdPipePkt cfg k c m s = Some s'" "sb_inv holds cfg Z D s'"
proof -
  have q: "quiet s u \<Longrightarrow> sb_inv holds cfg Z D s \<Longrightarrow> sb_inv holds cfg Z D u" for s u by (rule quiet_sb_inv)
  let ?run = "\<lambda>h n. case h of None \<Rightarrow> Some (reject_cmd (send_event CFE_SB_BAD_CMD_CODE_EID s))
      | Some h \<Rightarrow> (case CFE_SB_VerifyCmdLength m n s of (ok, s) \<Rightarrow> if ok then h s else Some s)"
  have run: "\<exists>s'. ?run h n = Some s' \<and> sb_inv holds cfg Z D s'"
    if "\<And>f. h = Some f \<Longrightarrow> \<exists>s'. f s = Some s' \<and> sb_inv holds cfg Z D s'" for h n
  proof (cases h)
    case None
    have "sb_inv holds cfg Z D (reject_cmd (send_event CFE_SB_BAD_CMD_CODE_EID s))" by (rule q [OF _ i]) simp
    then show ?thesis using None by simp
  next
    case (Some f)
    have "sb_inv holds cfg Z D (reject_cmd (send_event CFE_SB_LEN_ERR_EID s))" by (rule q [OF _ i]) simp
    then show ?thesis using Some that [OF Some] by (auto simp: CFE_SB_VerifyCmdLength_def)
  qed
  have cmd: "\<exists>s'. f s = Some s' \<and> sb_inv holds cfg Z D s'" if "sb_cmd_handler cfg k c m cc = Some f" for f cc
  proof -
    have "quiet s (CFE_SB_NoopCmd s)" "quiet s (CFE_SB_ResetCountersCmd s)"
      by (simp_all add: CFE_SB_NoopCmd_def CFE_SB_ResetCountersCmd_def CFE_SB_ResetCounters_def)
    then have "sb_inv holds cfg Z D (CFE_SB_NoopCmd s)" "sb_inv holds cfg Z D (CFE_SB_ResetCountersCmd s)"
      "sb_inv holds cfg Z D (write_file k cc m s)"
      using q i w by blast+
    moreover have "\<exists>s'. CFE_SB_SendStatsCmd cfg c s = Some s' \<and> sb_inv holds cfg Z D s'" by (rule SendStats_inv [OF i c]) blast
    moreover have "\<exists>s'. CFE_SB_EnableRouteCmd cfg mid pid s = Some s' \<and> sb_inv holds cfg Z D s'" for mid pid
      unfolding CFE_SB_EnableRouteCmd_def by (rule set_route_active_inv [OF i]) blast
    moreover have "\<exists>s'. CFE_SB_DisableRouteCmd cfg mid pid s = Some s' \<and> sb_inv holds cfg Z D s'" for mid pid
      unfolding CFE_SB_DisableRouteCmd_def by (rule set_route_active_inv [OF i]) blast
    ultimately show ?thesis using that by (auto simp: sb_cmd_handler_def split: if_splits)
  qed
  have rpt: "\<exists>s'. f s = Some s' \<and> sb_inv holds cfg Z D s'" if "sub_rpt_handler cfg c cc = Some f" for f cc
  proof -
    have "sb_inv holds cfg Z D (CFE_SB_EnableSubReportingCmd s)" "sb_inv holds cfg Z D (CFE_SB_DisableSubReportingCmd s)"
      by (rule sb_inv_frame [OF i]; simp add: CFE_SB_EnableSubReportingCmd_def CFE_SB_DisableSubReportingCmd_def
          CFE_SB_SetSubscriptionReporting_def)+
    moreover have "\<exists>s'. CFE_SB_SendPrevSubsCmd cfg c s = Some s' \<and> sb_inv holds cfg Z D s'" by (rule SendPrevSubs_inv [OF i c]) blast
    ultimately show ?thesis using that by (auto simp: sub_rpt_handler_def split: if_splits)
  qed
  have r1: "\<exists>s'. ?run (sub_rpt_handler cfg c cc) n = Some s' \<and> sb_inv holds cfg Z D s'" for cc n by (rule run) (rule rpt)
  have r2: "\<exists>s'. ?run (sb_cmd_handler cfg k c m cc) n = Some s' \<and> sb_inv holds cfg Z D s'" for cc n by (rule run) (rule cmd)
  have "\<exists>s'. CFE_SB_SendHKTlmCmd cfg c s = Some s' \<and> sb_inv holds cfg Z D s'" by (rule SendHK_inv [OF i c]) blast
  moreover have "sb_inv holds cfg Z D (reject_cmd (send_event CFE_SB_BAD_MSGID_EID s))" by (rule q [OF _ i]) simp
  ultimately have "\<exists>s'. CFE_SB_ProcessCmdPipePkt cfg k c m s = Some s' \<and> sb_inv holds cfg Z D s'"
    using r1 r2 unfolding CFE_SB_ProcessCmdPipePkt_def Let_def by (simp cong: if_cong)
  then show thesis using that by blast
qed

end

end
