(* ===== verification/CFS_SbDeliver.thy ===== *)
theory CFS_SbDeliver
  imports CFS_SbClean
begin

text \<open>
  What a transmission and a reception do to the messages that wait on the pipes: \<open>inbox\<close> is the list of messages of a
  pipe, \<open>accepts\<close> tells which pipes get a message.
\<close>

section \<open>What a transmission delivers\<close>

text \<open>The entry of a destination in the pipe set of a transmission.\<close>

definition dest_entries :: "'p sb_cfg \<Rightarrow> sb_caller \<Rightarrow> 'p sb_state \<Rightarrow> pointer \<Rightarrow> CFE_SB_PipeSetEntry_t list" where
  "dest_entries cfg c s p =
     (case dest_pipe cfg c (Dests s p) s of
        None \<Rightarrow> []
      | Some k \<Rightarrow> [\<lparr>SetPipeId = DestPipeId (Dests s p), SetSysQueueId = SysQueueId (PipeTbl s k),
          PendingEventId = if BuffCount (Dests s p) \<ge> MsgId2PipeLim (Dests s p) then CFE_SB_MSGID_LIM_ERR_EID else 0,
          OsStatus = OS_SUCCESS\<rparr>])"

text \<open>The buffers keep everything but their use counts.\<close>

definition same_bufs :: "'p sb_state \<Rightarrow> 'p sb_state \<Rightarrow> bool" where
  "same_bufs s s' \<longleftrightarrow> (\<forall>x. (Bufs s' x)\<lparr>UseCount := 0\<rparr> = (Bufs s x)\<lparr>UseCount := 0\<rparr>)"

lemma same_bufs_simps [simp]: "same_bufs s s" "Bufs s' = Bufs s \<Longrightarrow> same_bufs s s'"
  by (simp_all add: same_bufs_def)

lemma same_bufs_trans: "same_bufs s s' \<Longrightarrow> same_bufs s' s'' \<Longrightarrow> same_bufs s s''"
  by (simp add: same_bufs_def)

lemma same_bufs_Incr: "same_bufs s (CFE_SB_IncrBufUseCnt b s)" "same_bufs s (CFE_SB_DecrBufUseCnt cfg b s)"
  by (auto simp: same_bufs_def CFE_SB_IncrBufUseCnt_def CFE_SB_DecrBufUseCnt_def CFE_SB_ReturnBufferToPool_def Let_def)

lemma same_bufsD:
  assumes "same_bufs s s'"
  shows "Content (Bufs s' x) = Content (Bufs s x) \<and> BufMsgId (Bufs s' x) = BufMsgId (Bufs s x) \<and>
    ContentSize (Bufs s' x) = ContentSize (Bufs s x) \<and> AllocatedSize (Bufs s' x) = AllocatedSize (Bufs s x)"
proof -
  have "(Bufs s' x)\<lparr>UseCount := 0\<rparr> = (Bufs s x)\<lparr>UseCount := 0\<rparr>" using assms by (simp add: same_bufs_def)
  then show ?thesis by (cases "Bufs s x"; cases "Bufs s' x") simp
qed

lemma add_destination_entries:
  assumes "add_destination cfg c b p (t, s) = (t', s')"
  shows "PipeSet t' = PipeSet t @ dest_entries cfg c s p" "same_bufs s s'" "q \<noteq> p \<Longrightarrow> Dests s' q = Dests s q"
proof -
  show "PipeSet t' = PipeSet t @ dest_entries cfg c s p" "q \<noteq> p \<Longrightarrow> Dests s' q = Dests s q"
    using assms by (auto simp: add_destination_def dest_entries_def Let_def split: option.splits if_splits)
  have "Bufs s' = Bufs s \<or> Bufs s' = Bufs (CFE_SB_IncrBufUseCnt b s)"
    using assms by (auto simp: add_destination_def Let_def split: option.splits if_splits)
  then show "same_bufs s s'" using same_bufs_Incr(1) [of s b] by (auto simp: same_bufs_def)
qed

lemma dest_entries_cong:
  assumes h: "same_setup s s'" and d: "Dests s' p = Dests s p"
  shows "dest_entries cfg c s' p = dest_entries cfg c s p"
  using same_setup_dest_pipe [OF h, of cfg c p] same_setup_pipe [OF h] d by (simp add: dest_entries_def split: option.split)

lemma fold_destinations_entries:
  assumes "fold (add_destination cfg c b) ps (t, s) = (t', s')" "distinct ps"
  shows "PipeSet t' = PipeSet t @ concat (map (dest_entries cfg c s) ps) \<and> same_bufs s s'"
  using assms
proof (induction ps arbitrary: t s)
  case (Cons p ps)
  obtain u v where a: "add_destination cfg c b p (t, s) = (u, v)" by (cases "add_destination cfg c b p (t, s)")
  note A = add_destination_entries [OF a]
  have h: "same_setup s v" using add_destination_frame [OF a] by simp
  have e: "map (dest_entries cfg c v) ps = map (dest_entries cfg c s) ps"
  proof (rule map_cong [OF refl])
    fix q assume "q \<in> set ps"
    then have "q \<noteq> p" using Cons.prems(2) by auto
    then show "dest_entries cfg c v q = dest_entries cfg c s q" using dest_entries_cong [OF h A(3)] by simp
  qed
  have "PipeSet t' = PipeSet u @ concat (map (dest_entries cfg c v) ps) \<and> same_bufs v s'"
    using Cons.IH [of u v] Cons.prems a by simp
  then show ?case unfolding e A(1) using same_bufs_trans [OF A(2)] by simp
qed simp

text \<open>A put on a queue, and the puts of a transmission.\<close>

definition put_queue :: "pointer \<Rightarrow> osal_id_t \<Rightarrow> (osal_id_t \<times> os_queue) list \<Rightarrow> (osal_id_t \<times> os_queue) list" where
  "put_queue b q Q =
     (case map_of Q q of
        None \<Rightarrow> Q
      | Some x \<Rightarrow> if length (QueueItems x) \<ge> QueueDepth x then Q else AList.update q (x\<lparr>QueueItems := QueueItems x @ [b]\<rparr>) Q)"

lemma put_queue_Put: "OS_QueuePut q b s = (st, s') \<Longrightarrow> Queues s' = put_queue b q (Queues s) \<and> Bufs s' = Bufs s"
  by (auto simp: OS_QueuePut_def put_queue_def split: option.splits if_splits)

lemma map_of_put_queue:
  "map_of (put_queue b q Q) q' = (if q' = q then map_option (\<lambda>x. if length (QueueItems x) \<ge> QueueDepth x then x
      else x\<lparr>QueueItems := QueueItems x @ [b]\<rparr>) (map_of Q q') else map_of Q q')"
  by (simp add: put_queue_def update_conv' split: option.split)

lemma map_of_put_queues:
  "distinct qs \<Longrightarrow> map_of (fold (put_queue b) qs Q) q = (if q \<in> set qs then map_option (\<lambda>x. if length (QueueItems x) \<ge> QueueDepth x then x
      else x\<lparr>QueueItems := QueueItems x @ [b]\<rparr>) (map_of Q q) else map_of Q q)"
  by (induction qs arbitrary: Q) (auto simp: map_of_put_queue)

lemma PipeHandler_effect:
  assumes "CFE_SB_TransmitTxn_PipeHandler cfg b ctx t s = Some (ctx', t', s')"
  shows "Queues s' = put_queue b (SetSysQueueId ctx) (Queues s)" "same_bufs s s'"
proof -
  obtain n u where to: "CFE_SB_MessageTxn_GetOsTimeout t s = (n, u)" by (cases "CFE_SB_MessageTxn_GetOsTimeout t s")
  note q = GetOsTimeout_quiet [OF to]
  obtain st v where p: "OS_QueuePut (SetSysQueueId ctx) b u = (st, v)" by (cases "OS_QueuePut (SetSysQueueId ctx) b u")
  note P = put_queue_Put [OF p]
  have "Queues s' = Queues v \<and> (Bufs s' = Bufs v \<or> Bufs s' = Bufs (CFE_SB_DecrBufUseCnt cfg b v))"
  proof (cases "st = OS_SUCCESS")
    case True
    then show ?thesis using assms to p by (simp add: CFE_SB_TransmitTxn_PipeHandler_def Let_def)
  next
    case False
    have decr: "Bufs (CFE_SB_DecrBufUseCnt cfg b w) = Bufs (CFE_SB_DecrBufUseCnt cfg b v)" if "Bufs w = Bufs v" for w
      using that by (simp add: CFE_SB_DecrBufUseCnt_def CFE_SB_ReturnBufferToPool_def Let_def)
    define u1 where "u1 = (if st = OS_QUEUE_FULL then upd_hk (\<lambda>h. h\<lparr>PipeOverflowErrorCounter := PipeOverflowErrorCounter h + 1\<rparr>) v
               else upd_hk (\<lambda>h. h\<lparr>InternalErrorCounter := InternalErrorCounter h + 1\<rparr>) v)"
    let ?u2 = "case CFE_SB_PipeDescIsMatch cfg (SetPipeId ctx) u1 of None \<Rightarrow> u1
               | Some i \<Rightarrow> if CurrentQueueDepth (PipeTbl u1 i) > 0
                           then upd_pipe i (\<lambda>p. p\<lparr>CurrentQueueDepth := CurrentQueueDepth p - 1\<rparr>) u1 else u1"
    obtain x where x: "CFE_SB_GetDestPtr (DestRouteId (Bufs ?u2 b)) (SetPipeId ctx) ?u2 = Some x"
      using assms to p False unfolding u1_def
      by (cases "CFE_SB_PipeDescIsMatch cfg (SetPipeId ctx) v"; cases "st = OS_QUEUE_FULL")
        (auto simp: CFE_SB_TransmitTxn_PipeHandler_def Let_def bind_eq_Some_conv cong: if_cong)
    let ?w = "if x \<noteq> NULL \<and> BuffCount (Dests ?u2 x) > 0 then upd_dest x (\<lambda>d. d\<lparr>BuffCount := BuffCount d - 1\<rparr>) ?u2 else ?u2"
    have "s' = CFE_SB_DecrBufUseCnt cfg b ?w"
      using assms to p False x unfolding u1_def
      by (cases "CFE_SB_PipeDescIsMatch cfg (SetPipeId ctx) v"; cases "st = OS_QUEUE_FULL")
        (simp_all add: CFE_SB_TransmitTxn_PipeHandler_def Let_def cong: if_cong)
    moreover have "Bufs ?w = Bufs v" "Queues ?w = Queues v" by (simp_all add: u1_def split: option.split)
    ultimately have "\<exists>w. s' = CFE_SB_DecrBufUseCnt cfg b w \<and> Bufs w = Bufs v \<and> Queues w = Queues v" by blast
    then obtain w where w: "s' = CFE_SB_DecrBufUseCnt cfg b w" "Bufs w = Bufs v" "Queues w = Queues v" by blast
    show ?thesis unfolding w(1) using decr [OF w(2)] w(3) by simp
  qed
  then show "Queues s' = put_queue b (SetSysQueueId ctx) (Queues s)" "same_bufs s s'"
    using P quiet_frame(4,5) [OF q] same_bufs_Incr(2) [of v cfg b] by (auto simp: same_bufs_def)
qed

lemma transmit_pipes_effect:
  "transmit_pipes cfg b es t s = Some (es', t', s') \<Longrightarrow>
     Queues s' = fold (put_queue b) (map SetSysQueueId (filter (\<lambda>e. PendingEventId e = 0) es)) (Queues s) \<and> same_bufs s s'"
proof (induction es arbitrary: t s es' t' s')
  case (Cons e es)
  obtain e1 t1 s1 fs where a: "(if PendingEventId e = 0 then CFE_SB_TransmitTxn_PipeHandler cfg b e t s else Some (e, t, s)) = Some (e1, t1, s1)"
    "transmit_pipes cfg b es t1 s1 = Some (fs, t', s')"
    using Cons.prems by (auto simp: bind_eq_Some_conv)
  note I = Cons.IH [OF a(2)]
  show ?case
  proof (cases "PendingEventId e = 0")
    case True
    then have h: "CFE_SB_TransmitTxn_PipeHandler cfg b e t s = Some (e1, t1, s1)" using a(1) by simp
    show ?thesis using I True PipeHandler_effect [OF h] same_bufs_trans [of s s1 s'] by simp
  qed (use I a(1) in auto)
qed simp

text \<open>The message as it is stored for the receivers.\<close>

definition sent_message ::
    "'p sb_cfg \<Rightarrow> sb_caller \<Rightarrow> sbr_state \<Rightarrow> bool \<Rightarrow> CFE_SBR_RouteId_t \<Rightarrow> size_t \<Rightarrow> CFE_MSG_Message_t \<Rightarrow> CFE_MSG_Message_t" where
  "sent_message cfg c r IsOrigination Route Size m =
     (if IsOrigination
      then the (fst (snd (CFE_MSG_OriginationAction (build cfg) (Now c)
             (Some (the (snd (CFE_MSG_SetSequenceCount (Some m)
                (CFE_SBR_GetSequenceCounter (CFE_SBR_IncrementSequenceCounter r Route) Route))))) Size (Some False))))
      else m)"

lemma transit_Bufs:
  "Bufs (CFE_SB_TrackingListAdd InTransitList (BufferLink b)
     (upd_buf b (\<lambda>b. b\<lparr>OwnerAppId := CFE_RESOURCEID_UNDEFINED\<rparr>) (CFE_SB_TrackingListRemove (BufferLink b) s))) =
   (Bufs s)(b := (Bufs s b)\<lparr>OwnerAppId := CFE_RESOURCEID_UNDEFINED\<rparr>)"
  by simp

lemma fold_frame:
  "fold (add_destination cfg c b) ps ts = (t', s') \<Longrightarrow> Queues s' = Queues (snd ts) \<and> IsEndpoint t' = IsEndpoint (fst ts) \<and>
     TxnStatus t' = TxnStatus (fst ts) \<and> TransactionEventId t' = TransactionEventId (fst ts)"
proof (induction ps arbitrary: ts)
  case (Cons p ps)
  obtain u v where a: "add_destination cfg c b p ts = (u, v)" by (cases "add_destination cfg c b p ts")
  show ?case using Cons.IH [of "(u, v)"] Cons.prems a add_destination_frame [OF a] by simp
qed simp

lemma FindDestinations_effect:
  assumes d: "dests_ok D s" and inv: "sbr_inv (hash_map cfg) (Routing s)"
    and t: "PipeSet t = []" "MaxPipes t = 16" "CFE_SB_MessageTxn_IsOK t"
    and r: "CFE_SB_TransmitTxn_FindDestinations cfg c b t s = Some (t', s')"
  defines "Route \<equiv> route_of (Routing s) (RoutingMsgId t)"
  shows "PipeSet t' = (if CFE_SBR_IsValidRouteId Route then concat (map (dest_entries cfg c s) (D (unat (CFE_SBR_RouteIdToValue Route)))) else [])"
    "Queues s' = Queues s" "x \<noteq> b \<Longrightarrow> (Bufs s' x)\<lparr>UseCount := 0\<rparr> = (Bufs s x)\<lparr>UseCount := 0\<rparr>"
    "CFE_SBR_IsValidRouteId Route \<Longrightarrow>
       Content (Bufs s' b) = sent_message cfg c (Routing s) (IsEndpoint t) Route (AllocatedSize (Bufs s b)) (Content (Bufs s b))"
    "BufMsgId (Bufs s' b) = BufMsgId (Bufs s b)" "ContentSize (Bufs s' b) = ContentSize (Bufs s b)"
proof -
  have route: "CFE_SBR_GetRouteId (hash_map cfg) (Routing s) (RoutingMsgId t) = Some Route"
    unfolding Route_def by (rule GetRouteId_spec [OF inv])
  let ?s1 = "upd_buf b (\<lambda>b. b\<lparr>DestRouteId := Route\<rparr>) s"
  define s2 where "s2 = (if IsEndpoint t
     then let s = ?s1\<lparr>Routing := CFE_SBR_IncrementSequenceCounter (Routing ?s1) Route\<rparr>
          in upd_buf b (\<lambda>b. b\<lparr>Content := the (snd (CFE_MSG_SetSequenceCount (Some (Content b))
                 (CFE_SBR_GetSequenceCounter (Routing s) Route)))\<rparr>) s
     else ?s1)"
  define tail where "tail = (\<lambda>(t :: CFE_SB_MessageTxn_State_t, s :: 'a sb_state).
     let s = CFE_SB_TrackingListAdd InTransitList (BufferLink b)
     (upd_buf b (\<lambda>b. b\<lparr>OwnerAppId := CFE_RESOURCEID_UNDEFINED\<rparr>) (CFE_SB_TrackingListRemove (BufferLink b) s)) in
     if CFE_SB_MessageTxn_IsOK t \<and> IsEndpoint t
     then case CFE_MSG_OriginationAction (build cfg) (Now c) (Some (Content (Bufs s b)))
                 (AllocatedSize (Bufs s b)) (Some False) of (Status, m, IsAcceptable) \<Rightarrow>
            (if Status \<noteq> CFE_SUCCESS \<or> IsAcceptable \<noteq> Some True
             then CFE_SB_MessageTxn_SetEventAndStatus CFE_SB_SEND_MESSAGE_INTEGRITY_FAIL_EID Status t else t,
             upd_buf b (\<lambda>b. b\<lparr>Content := the m\<rparr>) s)
     else (t, s))"
  have tl: "PipeSet (fst (tail (u, v))) = PipeSet u" "Queues (snd (tail (u, v))) = Queues v"
    "x \<noteq> b \<Longrightarrow> Bufs (snd (tail (u, v))) x = Bufs v x"
    "Content (Bufs (snd (tail (u, v))) b) = (if CFE_SB_MessageTxn_IsOK u \<and> IsEndpoint u
       then the (fst (snd (CFE_MSG_OriginationAction (build cfg) (Now c) (Some (Content (Bufs v b))) (AllocatedSize (Bufs v b)) (Some False))))
       else Content (Bufs v b))"
    "BufMsgId (Bufs (snd (tail (u, v))) b) = BufMsgId (Bufs v b)" "ContentSize (Bufs (snd (tail (u, v))) b) = ContentSize (Bufs v b)"
    for u v x
    unfolding tail_def by (auto simp: Let_def transit_Bufs CFE_SB_MessageTxn_SetEventAndStatus_def split: prod.split simp del: TrackingList_frame(11,17))
  have s2: "Dests s2 = Dests s" "Queues s2 = Queues s" "same_setup s s2" "AllocatedSize (Bufs s2 b) = AllocatedSize (Bufs s b)"
    "BufMsgId (Bufs s2 b) = BufMsgId (Bufs s b)" "ContentSize (Bufs s2 b) = ContentSize (Bufs s b)"
    "\<And>x. x \<noteq> b \<Longrightarrow> Bufs s2 x = Bufs s x"
    by (auto simp: s2_def Let_def)
  show A: "PipeSet t' = (if CFE_SBR_IsValidRouteId Route then concat (map (dest_entries cfg c s) (D (unat (CFE_SBR_RouteIdToValue Route)))) else [])"
    "Queues s' = Queues s" "x \<noteq> b \<Longrightarrow> (Bufs s' x)\<lparr>UseCount := 0\<rparr> = (Bufs s x)\<lparr>UseCount := 0\<rparr>"
    "CFE_SBR_IsValidRouteId Route \<Longrightarrow>
       Content (Bufs s' b) = sent_message cfg c (Routing s) (IsEndpoint t) Route (AllocatedSize (Bufs s b)) (Content (Bufs s b))"
    "BufMsgId (Bufs s' b) = BufMsgId (Bufs s b)" "ContentSize (Bufs s' b) = ContentSize (Bufs s b)" for x
  proof -
    have "PipeSet t' = (if CFE_SBR_IsValidRouteId Route then concat (map (dest_entries cfg c s) (D (unat (CFE_SBR_RouteIdToValue Route)))) else []) \<and>
      Queues s' = Queues s \<and> (x \<noteq> b \<longrightarrow> (Bufs s' x)\<lparr>UseCount := 0\<rparr> = (Bufs s x)\<lparr>UseCount := 0\<rparr>) \<and>
      (CFE_SBR_IsValidRouteId Route \<longrightarrow>
         Content (Bufs s' b) = sent_message cfg c (Routing s) (IsEndpoint t) Route (AllocatedSize (Bufs s b)) (Content (Bufs s b))) \<and>
      BufMsgId (Bufs s' b) = BufMsgId (Bufs s b) \<and> ContentSize (Bufs s' b) = ContentSize (Bufs s b)"
    proof (cases "CFE_SBR_IsValidRouteId Route")
      case False
      let ?u = "(CFE_SB_MessageTxn_SetEventAndStatus CFE_SB_SEND_NO_SUBS_EID CFE_SUCCESS t,
         upd_hk (\<lambda>h. h\<lparr>NoSubscribersCounter := NoSubscribersCounter h + 1\<rparr>) (upd_buf b (\<lambda>b. b\<lparr>DestRouteId := Route\<rparr>) s))"
      have "CFE_SB_TransmitTxn_FindDestinations cfg c b t s = Some (tail ?u)"
        using route False unfolding CFE_SB_TransmitTxn_FindDestinations_def tail_def by (simp add: Let_def)
      then have "tail ?u = (t', s')" unfolding r by (rule option.inject [THEN iffD1, symmetric])
      then have "t' = fst (tail ?u)" "s' = snd (tail ?u)" by (metis fst_conv, metis snd_conv)
      then show ?thesis using False t(1) by (simp add: tl)
    next
      case True
      then obtain n where n: "n < 256" "Route = rid n" using valid_rid by blast
      have d2: "dests_ok D s2" using same_setup_dests_ok [OF s2(3)] d by simp
      have len: "length (D n) \<le> 16" by (rule dests_okD [OF d n(1)])
      have head: "CFE_SBR_GetDestListHeadPtr (Routing s2) Route = hd (D n @ [NULL])"
        using head_rid [OF n(1), of s2] dest_list_head [OF dests_okD(1) [OF d2 n(1)]] n(2) by simp
      obtain u v where f: "fold (add_destination cfg c b) (D n) (t, s2) = (u, v)" by (cases "fold (add_destination cfg c b) (D n) (t, s2)")
      have "find_destinations cfg c b (CFE_SBR_GetDestListHeadPtr (Routing s2) Route) (t, s2) = Some (u, v)"
        unfolding head using find_destinations_fold [OF d2 n(1), of "[]" "D n" t cfg c b] t len f by simp
      then have "CFE_SB_TransmitTxn_FindDestinations cfg c b t s = Some (tail (u, v))"
        using route True unfolding CFE_SB_TransmitTxn_FindDestinations_def tail_def s2_def by (simp add: Let_def)
      then have "tail (u, v) = (t', s')" unfolding r by (rule option.inject [THEN iffD1, symmetric])
      then have ts: "t' = fst (tail (u, v))" "s' = snd (tail (u, v))" by (metis fst_conv, metis snd_conv)
      note E = fold_destinations_entries [OF f dest_list_nodes(1) [OF dests_okD(1) [OF d n(1)]]]
      have es: "dest_entries cfg c s2 = dest_entries cfg c s"
        by (rule ext, rule dest_entries_cong [OF s2(3)]) (simp add: s2(1))
      have F: "Queues v = Queues s2" "IsEndpoint u = IsEndpoint t" "CFE_SB_MessageTxn_IsOK u"
        using fold_frame [OF f] t(3) by (simp_all add: CFE_SB_MessageTxn_IsOK_def)
      have B: "Content (Bufs v y) = Content (Bufs s2 y)" "AllocatedSize (Bufs v y) = AllocatedSize (Bufs s2 y)"
        "BufMsgId (Bufs v y) = BufMsgId (Bufs s2 y)" "ContentSize (Bufs v y) = ContentSize (Bufs s2 y)" for y
        using same_bufsD [OF conjunct2 [OF E], of y] by simp_all
      have "Content (Bufs s2 b) = (if IsEndpoint t then the (snd (CFE_MSG_SetSequenceCount (Some (Content (Bufs s b)))
          (CFE_SBR_GetSequenceCounter (CFE_SBR_IncrementSequenceCounter (Routing s) Route) Route))) else Content (Bufs s b))"
        by (simp add: s2_def Let_def)
      then have "Content (Bufs s' b) = sent_message cfg c (Routing s) (IsEndpoint t) Route (AllocatedSize (Bufs s b)) (Content (Bufs s b))"
        unfolding ts tl using F B s2(4) by (simp add: sent_message_def)
      moreover have "(Bufs s' x)\<lparr>UseCount := 0\<rparr> = (Bufs s x)\<lparr>UseCount := 0\<rparr>" if "x \<noteq> b"
        using E s2(7) [OF that] tl(3) [OF that] that unfolding ts same_bufs_def by simp
      moreover have "PipeSet t' = concat (map (dest_entries cfg c s) (D n))" unfolding ts tl using E t(1) es by simp
      ultimately show ?thesis using True n B s2 F unfolding ts tl by simp
    qed
    then show "PipeSet t' = (if CFE_SBR_IsValidRouteId Route then concat (map (dest_entries cfg c s) (D (unat (CFE_SBR_RouteIdToValue Route)))) else [])"
      "Queues s' = Queues s" "x \<noteq> b \<Longrightarrow> (Bufs s' x)\<lparr>UseCount := 0\<rparr> = (Bufs s x)\<lparr>UseCount := 0\<rparr>"
      "CFE_SBR_IsValidRouteId Route \<Longrightarrow>
         Content (Bufs s' b) = sent_message cfg c (Routing s) (IsEndpoint t) Route (AllocatedSize (Bufs s b)) (Content (Bufs s b))"
      "BufMsgId (Bufs s' b) = BufMsgId (Bufs s b)" "ContentSize (Bufs s' b) = ContentSize (Bufs s b)" by blast+
  qed
qed

section \<open>Delivery\<close>

text \<open>The buffers in the queue of a pipe, and what they hold: message ID, size and content.\<close>

definition pipe_items :: "'p sb_state \<Rightarrow> nat \<Rightarrow> pointer list" where
  "pipe_items s n = (case map_of (Queues s) (SysQueueId (PipeTbl s n)) of None \<Rightarrow> [] | Some x \<Rightarrow> QueueItems x)"

definition stored :: "'p sb_state \<Rightarrow> pointer \<Rightarrow> CFE_SB_MsgId_t \<times> size_t \<times> CFE_MSG_Message_t" where
  "stored s b = (BufMsgId (Bufs s b), ContentSize (Bufs s b), Content (Bufs s b))"

definition inbox :: "'p sb_state \<Rightarrow> nat \<Rightarrow> (CFE_SB_MsgId_t \<times> size_t \<times> CFE_MSG_Message_t) list" where
  "inbox s n = map (stored s) (pipe_items s n)"

text \<open>The pipe has an active subscription below its limit, does not ignore the sender, and has room.\<close>

definition subscribed :: "'p sb_cfg \<Rightarrow> sb_caller \<Rightarrow> 'p sb_state \<Rightarrow> CFE_SB_MsgId_t \<Rightarrow> nat \<Rightarrow> bool" where
  "subscribed cfg c s mid n \<longleftrightarrow>
     CFE_SBR_IsValidRouteId (route_of (Routing s) mid) \<and>
     (\<exists>p \<in> set (dests_of s (unat (CFE_SBR_RouteIdToValue (route_of (Routing s) mid)))).
        dest_pipe cfg c (Dests s p) s = Some n \<and> BuffCount (Dests s p) < MsgId2PipeLim (Dests s p))"

definition accepts :: "'p sb_cfg \<Rightarrow> sb_caller \<Rightarrow> 'p sb_state \<Rightarrow> CFE_SB_MsgId_t \<Rightarrow> nat \<Rightarrow> bool" where
  "accepts cfg c s mid n \<longleftrightarrow> subscribed cfg c s mid n \<and>
     (case map_of (Queues s) (SysQueueId (PipeTbl s n)) of None \<Rightarrow> False | Some x \<Rightarrow> length (QueueItems x) < QueueDepth x)"

text \<open>The pipes that a transmission puts the message on.\<close>

definition receivers :: "'p sb_cfg \<Rightarrow> sb_caller \<Rightarrow> 'p sb_state \<Rightarrow> pointer list \<Rightarrow> nat list" where
  "receivers cfg c s ps = concat (map (\<lambda>p. case dest_pipe cfg c (Dests s p) s of None \<Rightarrow> []
     | Some k \<Rightarrow> if BuffCount (Dests s p) < MsgId2PipeLim (Dests s p) then [k] else []) ps)"

lemma receivers_iff:
  "k \<in> set (receivers cfg c s ps) \<longleftrightarrow>
     (\<exists>p \<in> set ps. dest_pipe cfg c (Dests s p) s = Some k \<and> BuffCount (Dests s p) < MsgId2PipeLim (Dests s p))"
  by (induction ps) (auto simp: receivers_def split: option.split)

lemma dest_pipe_match: "dest_pipe cfg c d s = Some k \<Longrightarrow> CFE_SB_PipeDescIsMatch cfg (DestPipeId d) s = Some k"
  by (auto simp: dest_pipe_def split: if_splits option.splits)

lemma receivers_distinct:
  "distinct (map (\<lambda>p. DestPipeId (Dests s p)) ps) \<Longrightarrow> distinct (receivers cfg c s ps)"
proof (induction ps)
  case (Cons p ps)
  have "k \<notin> set (receivers cfg c s ps)" if k: "dest_pipe cfg c (Dests s p) s = Some k" for k
  proof
    assume "k \<in> set (receivers cfg c s ps)"
    then obtain q where q: "q \<in> set ps" "dest_pipe cfg c (Dests s q) s = Some k" by (auto simp: receivers_iff)
    have "DestPipeId (Dests s q) = DestPipeId (Dests s p)"
      using match_live(2) [OF dest_pipe_match [OF q(2)]] match_live(2) [OF dest_pipe_match [OF k]] by simp
    moreover have "DestPipeId (Dests s p) \<notin> (\<lambda>p. DestPipeId (Dests s p)) ` set ps" using Cons.prems by simp
    ultimately show False using q(1) by (metis imageI)
  qed
  moreover have "receivers cfg c s (p # ps) = (case dest_pipe cfg c (Dests s p) s of None \<Rightarrow> []
     | Some k \<Rightarrow> if BuffCount (Dests s p) < MsgId2PipeLim (Dests s p) then [k] else []) @ receivers cfg c s ps"
    by (simp add: receivers_def)
  ultimately show ?case using Cons by (auto split: option.split)
qed (simp add: receivers_def)

lemma pending_queues:
  "map SetSysQueueId (filter (\<lambda>e. PendingEventId e = 0) (concat (map (dest_entries cfg c s) ps))) =
     map (\<lambda>k. SysQueueId (PipeTbl s k)) (receivers cfg c s ps)"
  by (induction ps) (auto simp: dest_entries_def receivers_def not_le split: option.split)

lemma queue_distinct:
  assumes p: "pipes_ok cfg D s" and d: "distinct (map (\<lambda>p. DestPipeId (Dests s p)) ps)"
  shows "distinct (map (\<lambda>k. SysQueueId (PipeTbl s k)) (receivers cfg c s ps))"
    "n < 64 \<Longrightarrow> live_pipe (PipeTbl s n) \<Longrightarrow>
       SysQueueId (PipeTbl s n) \<in> set (map (\<lambda>k. SysQueueId (PipeTbl s k)) (receivers cfg c s ps)) \<longleftrightarrow> n \<in> set (receivers cfg c s ps)"
proof -
  have l: "k < 64 \<and> live_pipe (PipeTbl s k)" if "k \<in> set (receivers cfg c s ps)" for k
    using that match_live(1,3) [OF dest_pipe_match] by (fastforce simp: receivers_iff)
  show "n < 64 \<Longrightarrow> live_pipe (PipeTbl s n) \<Longrightarrow>
       SysQueueId (PipeTbl s n) \<in> set (map (\<lambda>k. SysQueueId (PipeTbl s k)) (receivers cfg c s ps)) \<longleftrightarrow> n \<in> set (receivers cfg c s ps)"
    using l pipes_okD(3) [OF p] by fastforce
  have "inj_on (\<lambda>k. SysQueueId (PipeTbl s k)) (set (receivers cfg c s ps))"
    using l pipes_okD(3) [OF p] by (auto simp: inj_on_def)
  then show "distinct (map (\<lambda>k. SysQueueId (PipeTbl s k)) (receivers cfg c s ps))"
    using receivers_distinct [OF d] by (simp add: distinct_map)
qed

lemma pipe_items_refs: "b \<in> set (pipe_items s n) \<Longrightarrow> b \<in># bus_refs s"
proof -
  assume "b \<in> set (pipe_items s n)"
  then obtain x where x: "map_of (Queues s) (SysQueueId (PipeTbl s n)) = Some x" "b \<in> set (QueueItems x)"
    by (cases "map_of (Queues s) (SysQueueId (PipeTbl s n))") (simp_all add: pipe_items_def)
  have "b \<in># queued Q" if "map_of Q q = Some x" for Q q
    using that x(2) by (induction Q) (auto split: if_splits)
  then show ?thesis using x(1) by (auto simp: bus_refs_def)
qed

context sb_pool
begin

lemma Execute_effect:
  assumes i: "sb_inv holds cfg Z D s" and b: "BufPtr - content_offset cfg = b" "b \<in> set Z"
    and t: "PipeSet t = []" "MaxPipes t = 16" "CFE_SB_MessageTxn_IsOK t"
    and r: "CFE_SB_TransmitTxn_Execute cfg c BufPtr t s = Some (t', s')"
    and n: "n < 64" "live_pipe (PipeTbl s n)"
  shows "inbox s' n = inbox s n @ (if accepts cfg c s (RoutingMsgId t) n
    then [(RoutingMsgId t, TxnContentSize t, sent_message cfg c (Routing s) (IsEndpoint t) (route_of (Routing s) (RoutingMsgId t))
       (AllocatedSize (Bufs s b)) (Content (Bufs s b)))] else [])"
proof -
  note B = sb_invD(1) [OF i] and P = sb_invD(2) [OF i]
  let ?R = "route_of (Routing s) (RoutingMsgId t)"
  have own: "OwnerAppId (Bufs s b) \<noteq> CFE_RESOURCEID_UNDEFINED" using bus_inv_Z(4) [OF B, of b] b(2) by simp
  let ?s1 = "upd_buf b (\<lambda>b. b\<lparr>ContentSize := TxnContentSize t, BufMsgId := RoutingMsgId t\<rparr>) s"
  obtain u v where f: "CFE_SB_TransmitTxn_FindDestinations cfg c b t ?s1 = Some (u, v)"
    using r own b(1) by (auto simp: CFE_SB_TransmitTxn_Execute_def CFE_SB_ZeroCopyBufferValidate_def bind_eq_Some_conv)
  then obtain es x y where p: "transmit_pipes cfg b (PipeSet u) u v = Some (es, x, y)" "s' = CFE_SB_DecrBufUseCnt cfg b y"
    using r own b(1) by (auto simp: CFE_SB_TransmitTxn_Execute_def CFE_SB_ZeroCopyBufferValidate_def bind_eq_Some_conv)
  have d1: "dests_ok D ?s1" using bus_invD(2) [OF B] by (subst dests_ok_cong) simp_all
  note F = FindDestinations_effect [OF d1 _ t f]
  have inv: "sbr_inv (hash_map cfg) (Routing ?s1)" using bus_invD(1) [OF B] by simp
  note F = F [OF inv]
  note T = transmit_pipes_effect [OF p(1)]
  have b0: "BufPtr - content_offset cfg \<in># bus_refs s + mset Z" using b by simp
  have h: "same_setup s s'"
    using Execute_inv [OF B b0 t(1,2), of c] t(3) r by (auto simp: CFE_SB_MessageTxn_IsOK_def)
  define ps where "ps = (if CFE_SBR_IsValidRouteId ?R then D (unat (CFE_SBR_RouteIdToValue ?R)) else [])"
  have entries: "dest_entries cfg c ?s1 = dest_entries cfg c s"
    by (rule ext) (simp add: dest_entries_def dest_pipe_def cong: option.case_cong)
  have "PipeSet u = concat (map (dest_entries cfg c s) ps)" using F(1) by (simp add: ps_def entries)
  then have q: "Queues s' = fold (put_queue b) (map (\<lambda>k. SysQueueId (PipeTbl s k)) (receivers cfg c s ps)) (Queues s)"
    using T F(2) by (simp add: p(2) pending_queues)
  have dd: "distinct (map (\<lambda>p. DestPipeId (Dests s p)) ps)" and dof: "set ps = (if CFE_SBR_IsValidRouteId ?R
      then set (dests_of s (unat (CFE_SBR_RouteIdToValue ?R))) else {})"
    using dests_okD(3,4) [OF bus_invD(2) [OF B]] valid_rid [of ?R] unfolding ps_def by (auto split: if_splits)
  note Q = queue_distinct [OF P dd, where c = c]
  have recv: "n \<in> set (receivers cfg c s ps) \<longleftrightarrow> subscribed cfg c s (RoutingMsgId t) n"
    using dof by (auto simp: receivers_iff subscribed_def)
  obtain x0 where x0: "map_of (Queues s) (SysQueueId (PipeTbl s n)) = Some x0"
    using pipes_okD(2) [OF P n] by (cases "map_of (Queues s) (SysQueueId (PipeTbl s n))") (auto simp: map_of_eq_None_iff)
  have "SysQueueId (PipeTbl s' n) = SysQueueId (PipeTbl s n)" using same_setup_pipe [OF h] by simp
  then have items: "pipe_items s' n = pipe_items s n @ (if accepts cfg c s (RoutingMsgId t) n then [b] else [])"
    using x0 Q(2) [OF n] recv unfolding q pipe_items_def accepts_def by (simp add: map_of_put_queues [OF Q(1)] not_le)
  have sb: "same_bufs v s'" using T same_bufs_trans [OF _ same_bufs_Incr(2) [of y cfg b]] p(2) by blast
  have old: "stored s' a = stored s a" if "a \<in> set (pipe_items s n)" for a
  proof -
    have "a \<noteq> b" using pipe_items_refs [OF that] bus_invD(6) [OF B b(2)] by auto
    then have "(Bufs v a)\<lparr>UseCount := 0\<rparr> = (Bufs s a)\<lparr>UseCount := 0\<rparr>" using F(3) [of a] by simp
    then have "Content (Bufs v a) = Content (Bufs s a)" "BufMsgId (Bufs v a) = BufMsgId (Bufs s a)" "ContentSize (Bufs v a) = ContentSize (Bufs s a)"
      by (cases "Bufs v a"; cases "Bufs s a"; simp)+
    then show ?thesis using same_bufsD [OF sb, of a] by (simp add: stored_def)
  qed
  have new: "stored s' b = (RoutingMsgId t, TxnContentSize t, sent_message cfg c (Routing s) (IsEndpoint t) ?R
       (AllocatedSize (Bufs s b)) (Content (Bufs s b)))" if "accepts cfg c s (RoutingMsgId t) n"
    using that F(4-6) same_bufsD [OF sb, of b] by (simp add: stored_def accepts_def subscribed_def)
  show ?thesis unfolding inbox_def items using old new by simp
qed

end

text \<open>What a delivery depends on.\<close>

lemma delivery_cong:
  assumes "Routing s' = Routing s" "Dests s' = Dests s" "PipeTbl s' = PipeTbl s" "Queues s' = Queues s"
  shows "accepts cfg c s' mid n = accepts cfg c s mid n" "pipe_items s' n = pipe_items s n"
proof -
  have "dest_pipe cfg c d s' = dest_pipe cfg c d s" for d
    using match_cong [OF assms(3)] assms(3) by (simp add: dest_pipe_def cong: option.case_cong)
  then show "accepts cfg c s' mid n = accepts cfg c s mid n"
    using assms by (simp add: accepts_def subscribed_def dests_of_def route_head_def)
  show "pipe_items s' n = pipe_items s n" using assms by (simp add: pipe_items_def)
qed

lemma ReportEvents_same:
  "inbox (CFE_SB_MessageTxn_ReportEvents cfg c t s) n = inbox s n"
  using quiet_frame(3,4,5) [OF ReportEvents_quiet [of s cfg c t]] by (simp add: inbox_def pipe_items_def stored_def [abs_def])

text \<open>The routing ID and the size of a transaction are those of the message.\<close>

lemma transmit_setup_values:
  assumes "CFE_SB_MessageTxn_IsOK (transmit_setup cfg False (Some m))"
  shows "RoutingMsgId (transmit_setup cfg False (Some m)) = the (snd (CFE_MSG_GetMsgId (build cfg) (Some m) (Some CFE_SB_INVALID_MSG_ID)))"
    "TxnContentSize (transmit_setup cfg False (Some m)) = the (snd (CFE_MSG_GetSize (Some m) (Some 0)))"
  using assms
  by (auto simp: transmit_setup_def CFE_SB_TransmitTxn_SetupFromMsg_def CFE_SB_MessageTxn_SetRoutingMsgId_def
      CFE_SB_MessageTxn_SetContentSize_def CFE_SB_MessageTxn_IsOK_def CFE_SB_MessageTxn_SetEventAndStatus_def Let_def
      simp del: CFE_MSG_GetSize.simps split: prod.splits if_splits)

lemma transmit_setup_status:
  "\<not> CFE_SB_MessageTxn_IsOK (transmit_setup cfg False (Some m)) \<Longrightarrow> TxnStatus (transmit_setup cfg False (Some m)) \<noteq> CFE_SUCCESS"
  by (auto simp: transmit_setup_def CFE_SB_TransmitTxn_SetupFromMsg_def CFE_SB_MessageTxn_SetRoutingMsgId_def
      CFE_SB_MessageTxn_SetContentSize_def CFE_SB_MessageTxn_IsOK_def CFE_SB_MessageTxn_SetEventAndStatus_def Let_def
      CFE_SB_TransmitTxn_Init_def CFE_SB_MessageTxn_Init_def
      simp del: CFE_MSG_GetSize.simps split: prod.splits if_splits)

lemma GetBufferFromPool_Bufs: "CFE_SB_GetBufferFromPool cfg n s = (b, u) \<Longrightarrow> b \<noteq> NULL \<Longrightarrow> z \<noteq> b \<Longrightarrow> Bufs u z = Bufs s z"
  by (auto simp: CFE_SB_GetBufferFromPool_def CFE_SB_TrackingListReset_def Let_def split: if_splits prod.splits)

lemma AllocateMessageBuffer_Bufs:
  assumes a: "CFE_SB_AllocateMessageBuffer cfg c n s = (p, u)" and p: "p \<noteq> NULL" and z: "z \<noteq> p - content_offset cfg"
  shows "Bufs u z = Bufs s z"
proof -
  obtain b v where g: "CFE_SB_GetBufferFromPool cfg n s = (b, v)" by (cases "CFE_SB_GetBufferFromPool cfg n s")
  have "b \<noteq> NULL" "p = b + content_offset cfg" and u: "x \<noteq> b \<Longrightarrow> Bufs u x = Bufs v x" for x
    using a p g by (auto simp: CFE_SB_AllocateMessageBuffer_def Let_def split: if_splits)
  then show ?thesis using GetBufferFromPool_Bufs [OF g, of z] z u [of z] by simp
qed

context sb_pool
begin

lemma TransmitMsg_delivers:
  assumes i: "sb_inv holds cfg Z D s" and c: "caller_ok c"
    and r: "CFE_SB_TransmitMsg cfg c (Some m) org s = Some (CFE_SUCCESS, s')"
  defines "mid \<equiv> the (snd (CFE_MSG_GetMsgId (build cfg) (Some m) (Some CFE_SB_INVALID_MSG_ID)))"
    and "len \<equiv> the (snd (CFE_MSG_GetSize (Some m) (Some 0)))"
  shows "\<exists>x a. (\<forall>k < unat len. x k = m k) \<and> (\<forall>n < 64. live_pipe (PipeTbl s n) \<longrightarrow>
    inbox s' n = inbox s n @ (if accepts cfg c s mid n
      then [(mid, len, sent_message cfg c (Routing s) org (route_of (Routing s) mid) a x)] else []))"
proof -
  define t where "t = transmit_setup cfg False (Some m)"
  have ok: "CFE_SB_MessageTxn_IsOK t"
  proof (rule ccontr)
    assume n: "\<not> CFE_SB_MessageTxn_IsOK t"
    then have "CFE_SB_TransmitMsg cfg c (Some m) org s = Some (TxnStatus t, CFE_SB_MessageTxn_ReportEvents cfg c t s)"
      unfolding t_def transmit_setup_def by (simp add: CFE_SB_TransmitMsg_def Let_def)
    then show False using r transmit_setup_status [of cfg m] n by (simp add: t_def)
  qed
  have mid: "RoutingMsgId t = mid" and len: "TxnContentSize t = len"
    using transmit_setup_values [of cfg m] ok by (simp_all only: t_def mid_def len_def)
  obtain p u where a: "CFE_SB_AllocateMessageBuffer cfg c (TxnContentSize t) s = (p, u)"
    by (cases "CFE_SB_AllocateMessageBuffer cfg c (TxnContentSize t) s")
  have owner: "AppIdStatus c = CFE_SUCCESS \<Longrightarrow> CallerAppId c \<noteq> CFE_RESOURCEID_UNDEFINED" using c by (simp add: caller_ok_def)
  note A = inv_alloc [OF sb_invD(1) [OF i] owner a] and F = AllocateMessageBuffer_frame [OF a]
  have p0: "p \<noteq> NULL"
  proof
    assume "p = NULL"
    let ?t = "CFE_SB_MessageTxn_SetEventAndStatus CFE_SB_GET_BUF_ERR_EID CFE_SB_BUF_ALOC_ERR t"
    have "CFE_SB_TransmitMsg cfg c (Some m) org s = Some (TxnStatus ?t, CFE_SB_MessageTxn_ReportEvents cfg c ?t u)"
      using ok a \<open>p = NULL\<close> SetEvent_not_OK unfolding t_def transmit_setup_def by (simp add: CFE_SB_TransmitMsg_def Let_def)
    moreover have "TxnStatus ?t \<noteq> CFE_SUCCESS" by (simp add: CFE_SB_MessageTxn_SetEventAndStatus_def Let_def)
    ultimately show False using r by simp
  qed
  then obtain b where b: "p = b + content_offset cfg" "b \<notin># bus_refs s + mset Z" "bus_inv holds cfg {#} (Z @ [b]) D u"
    using A by auto
  define v where "v = upd_buf (p - content_offset cfg)
                  (\<lambda>b. b\<lparr>Content := \<lambda>i. if i < unat (TxnContentSize t) then the (Some m) i else Content b i\<rparr>) u"
  have bv: "bus_inv holds cfg {#} (Z @ [b]) D v" using b(3) unfolding v_def by (subst bus_inv_upd_buf) simp_all
  have same: "Routing v = Routing s" "Dests v = Dests s" "PipeTbl v = PipeTbl s" "Queues v = Queues s" using F by (simp_all add: v_def)
  have iv: "sb_inv holds cfg (Z @ [b]) D v"
    using bv pipes_ok_frame [OF sb_invD(2) [OF i], of v] same by (simp add: sb_inv_def)
  obtain x y where e: "CFE_SB_TransmitTxn_Execute cfg c p (t\<lparr>IsEndpoint := org\<rparr>) v = Some (x, y)"
    using Execute_inv [OF bv, of p "t\<lparr>IsEndpoint := org\<rparr>" c] ok b(1) by (auto simp: t_def CFE_SB_MessageTxn_IsOK_def)
  have s': "s' = CFE_SB_MessageTxn_ReportEvents cfg c x y"
  proof -
    have "CFE_SB_TransmitMsg cfg c (Some m) org s = Some (TxnStatus x, CFE_SB_MessageTxn_ReportEvents cfg c x y)"
      using ok a p0 e [unfolded v_def] unfolding t_def transmit_setup_def by (simp add: CFE_SB_TransmitMsg_def Let_def)
    then show ?thesis using r by simp
  qed
  have old: "inbox v n = inbox s n" for n
  proof -
    have "stored v z = stored s z" if "z \<in> set (pipe_items s n)" for z
    proof -
      have "z \<noteq> b" using pipe_items_refs [OF that] b(2) by auto
      then have "Bufs v z = Bufs s z" using AllocateMessageBuffer_Bufs [OF a p0] b(1) by (simp add: v_def)
      then show ?thesis by (simp add: stored_def)
    qed
    then show ?thesis using delivery_cong(2) [OF same] by (simp add: inbox_def)
  qed
  have "inbox s' n = inbox s n @ (if accepts cfg c s mid n
      then [(mid, len, sent_message cfg c (Routing s) org (route_of (Routing s) mid) (AllocatedSize (Bufs v b)) (Content (Bufs v b)))] else [])"
    if n: "n < 64" "live_pipe (PipeTbl s n)" for n
  proof -
    let ?t = "t\<lparr>IsEndpoint := org\<rparr>"
    have T: "CFE_SB_MessageTxn_IsOK ?t" "PipeSet ?t = []" "MaxPipes ?t = 16" "RoutingMsgId ?t = mid" "TxnContentSize ?t = len"
      "IsEndpoint ?t = org"
      using ok mid len by (simp_all add: CFE_SB_MessageTxn_IsOK_def) (simp_all add: t_def)
    have "p - content_offset cfg = b" "b \<in> set (Z @ [b])" using b(1) by simp_all
    from Execute_effect [OF iv this T(2,3,1) e] n have
      "inbox y n = inbox v n @ (if accepts cfg c v mid n
        then [(mid, len, sent_message cfg c (Routing v) org (route_of (Routing v) mid) (AllocatedSize (Bufs v b)) (Content (Bufs v b)))] else [])"
      using same(3) unfolding T(4-6) by simp
    then show ?thesis unfolding s' ReportEvents_same old delivery_cong(1) [OF same] same(1) .
  qed
  moreover have "\<forall>k < unat len. Content (Bufs v b) k = m k" using b(1) len by (simp add: v_def)
  ultimately show ?thesis by blast
qed

end

section \<open>Reception\<close>

lemma SetTimeout_ok:
  "- 1 \<le> (n :: int) \<Longrightarrow> CFE_SB_MessageTxn_IsOK t \<Longrightarrow> CFE_SB_MessageTxn_IsOK (fst (CFE_SB_MessageTxn_SetTimeout n t s))"
  by (auto simp: CFE_SB_MessageTxn_SetTimeout_def CFE_SB_MessageTxn_IsOK_def CFE_PSP_GetTime_def Let_def)

context sb_pool
begin

lemma receive_setup_ok:
  assumes n: "- 1 \<le> (n :: int)" and k: "CFE_SB_PipeDescIsMatch cfg pid s = Some k"
  obtains t u where "receive_setup False pid n s = (t, u)" "CFE_SB_MessageTxn_IsOK t" "same_bufs s u"
proof -
  have i: "CFE_SB_MessageTxn_IsOK (CFE_SB_ReceiveTxn_Init False)"
    by (simp add: CFE_SB_ReceiveTxn_Init_def CFE_SB_MessageTxn_Init_def CFE_SB_MessageTxn_IsOK_def Let_def)
  obtain t1 s1 where t1: "CFE_SB_MessageTxn_SetTimeout n (CFE_SB_ReceiveTxn_Init False) s = (t1, s1)"
    by (cases "CFE_SB_MessageTxn_SetTimeout n (CFE_SB_ReceiveTxn_Init False) s")
  have ok: "CFE_SB_MessageTxn_IsOK t1" using SetTimeout_ok [OF n i, of s] t1 by simp
  note q = SetTimeout_quiet [OF t1]
  have m: "CFE_SB_PipeDescIsMatch cfg pid s1 = Some k" using k match_cong [OF quiet_frame(3) [OF q], of cfg pid] by simp
  obtain t2 s2 where p: "CFE_SB_ReceiveTxn_SetPipeId cfg pid t1 s1 = (t2, s2)" by (cases "CFE_SB_ReceiveTxn_SetPipeId cfg pid t1 s1")
  have "CFE_SB_MessageTxn_IsOK (t2\<lparr>IsEndpoint := True\<rparr>)" using p m ok
    by (auto simp: CFE_SB_ReceiveTxn_SetPipeId_def CFE_SB_MessageTxn_IsOK_def Let_def)
  moreover have "Bufs s2 = Bufs s1 \<or> Bufs s2 = Bufs (CFE_SB_DecrBufUseCnt cfg (LastBuffer (PipeTbl s1 k)) s1)"
    using p m by (auto simp: CFE_SB_ReceiveTxn_SetPipeId_def Let_def split: if_splits)
  then have "same_bufs s s2"
    using same_bufs_Incr(2) [of s1 cfg "LastBuffer (PipeTbl s1 k)"] quiet_frame(5) [OF q] by (auto simp: same_bufs_def)
  moreover have "receive_setup False pid n s = (t2\<lparr>IsEndpoint := True\<rparr>, s2)"
    using i t1 ok p by (simp add: receive_setup_def)
  ultimately show thesis using that by blast
qed

end

lemma ExportReference_effect:
  assumes d: "dests_ok D s" and k: "CFE_SB_PipeDescIsMatch cfg (SetPipeId ctx) s = Some k"
  obtains s' where "CFE_SB_ReceiveTxn_ExportReference cfg b ctx t s = Some (b, ctx, t, s')" "same_bufs s s'" "Queues s' = Queues s"
proof -
  let ?u = "upd_pipe k (\<lambda>p. p\<lparr>LastBuffer := b\<rparr>) (CFE_SB_IncrBufUseCnt b s)"
  have "dests_ok D ?u" using d by (subst dests_ok_cong) simp_all
  then obtain p where p: "CFE_SB_GetDestPtr (DestRouteId (Bufs ?u b)) (SetPipeId ctx) ?u = Some p" using GetDestPtr_ends by blast
  define s3 where "s3 = (if p \<noteq> NULL \<and> BuffCount (Dests ?u p) > 0 then upd_dest p (\<lambda>d. d\<lparr>BuffCount := BuffCount d - 1\<rparr>) ?u else ?u)"
  define s4 where "s4 = (if CurrentQueueDepth (PipeTbl s3 k) > 0
                   then upd_pipe k (\<lambda>p. p\<lparr>CurrentQueueDepth := CurrentQueueDepth p - 1\<rparr>) s3 else s3)"
  have "CFE_SB_ReceiveTxn_ExportReference cfg b ctx t s = Some (b, ctx, t, CFE_SB_DecrBufUseCnt cfg b s4)"
    using k p by (simp add: CFE_SB_ReceiveTxn_ExportReference_def Let_def s3_def s4_def cong: if_cong)
  moreover have "Bufs s4 = Bufs (CFE_SB_IncrBufUseCnt b s)" "Queues s4 = Queues s" by (simp_all add: s3_def s4_def)
  then have "same_bufs s (CFE_SB_DecrBufUseCnt cfg b s4)"
    using same_bufs_Incr(1) [of s b] same_bufs_Incr(2) [of s4 cfg b] by (simp add: same_bufs_def)
  ultimately show thesis using that \<open>Queues s4 = Queues s\<close> by simp
qed

lemma same_bufs_stored: "same_bufs s s' \<Longrightarrow> stored s' = stored s"
  using same_bufsD by (fastforce simp: stored_def)

context sb_pool
begin

lemma ReceiveBuffer_takes:
  assumes i: "sb_inv holds cfg Z D s" and n: "- 1 \<le> (n :: int)" and k: "CFE_SB_PipeDescIsMatch cfg pid s = Some k"
    and items: "pipe_items s k = b # rest"
  obtains s' where "CFE_SB_ReceiveBuffer cfg c False pid n s = Some (CFE_SUCCESS, Some (b + content_offset cfg), s')"
    "stored s' = stored s" "pipe_items s' k = rest"
    "\<forall>j < 64. live_pipe (PipeTbl s j) \<longrightarrow> j \<noteq> k \<longrightarrow> pipe_items s' j = pipe_items s j" "same_setup s s'"
proof -
  note B = sb_invD(1) [OF i] and P = sb_invD(2) [OF i]
  note l = match_live [OF k]
  obtain t u where r: "receive_setup False pid n s = (t, u)" "CFE_SB_MessageTxn_IsOK t" "same_bufs s u"
    by (rule receive_setup_ok [OF n k])
  note S = receive_setup_inv [OF B r(1)]
  let ?e = "\<lparr>SetPipeId = pid, SetSysQueueId = SysQueueId (PipeTbl s k), PendingEventId = 0, OsStatus = OS_SUCCESS\<rparr>"
  note e = receive_setup_entry(1) [OF r(1,2) k]
  obtain x where x: "map_of (Queues s) (SysQueueId (PipeTbl s k)) = Some x" "QueueItems x = b # rest"
    using items by (cases "map_of (Queues s) (SysQueueId (PipeTbl s k))") (simp_all add: pipe_items_def)
  obtain w v where to: "CFE_SB_MessageTxn_GetOsTimeout t u = (w, v)" by (cases "CFE_SB_MessageTxn_GetOsTimeout t u")
  note q = GetOsTimeout_quiet [OF to]
  define y where "y = v\<lparr>Queues := AList.update (SysQueueId (PipeTbl s k)) (x\<lparr>QueueItems := rest\<rparr>) (Queues s)\<rparr>"
  have qv: "Queues v = Queues s" using quiet_frame(4) [OF q] S(2) by simp
  have g: "OS_QueueGet (SetSysQueueId ?e) w v = Some (OS_SUCCESS, b, y)" using x qv by (simp add: OS_QueueGet_def y_def)
  have iv: "bus_inv holds cfg {#} Z D v" using quiet_frame(10) [OF q] S(1) by blast
  have b0: "b \<noteq> NULL" by (rule bus_inv_get(4) [OF iv g])
  have dy: "dests_ok D y" unfolding y_def using bus_invD(2) [OF iv] by (subst dests_ok_cong) simp_all
  have ky: "CFE_SB_PipeDescIsMatch cfg (SetPipeId ?e) y = Some k"
    using S(4) k match_cong [OF quiet_frame(3) [OF q], of cfg pid] by (simp add: y_def)
  obtain z where z: "CFE_SB_ReceiveTxn_ExportReference cfg b ?e t y = Some (b, ?e, t, z)" "same_bufs y z" "Queues z = Queues y"
    by (rule ExportReference_effect [OF dy ky])
  have h: "CFE_SB_ReceiveTxn_PipeHandler cfg ?e t u = Some (b, ?e, t, z)"
    using to g b0 by (simp add: CFE_SB_ReceiveTxn_PipeHandler_def z(1))
  let ?t = "t\<lparr>PipeSet := [?e], RoutingMsgId := BufMsgId (Bufs z b), TxnContentSize := ContentSize (Bufs z b)\<rparr>"
  let ?s = "CFE_SB_MessageTxn_ReportEvents cfg c ?t z"
  have res: "CFE_SB_ReceiveBuffer cfg c False pid n s = Some (CFE_SUCCESS, Some (b + content_offset cfg), ?s)"
    using ReceiveTxn_once [OF e _ r(2), of c u] h b0 r(2) by (simp add: ReceiveBuffer_setup r(1) CFE_SB_MessageTxn_IsOK_def)
  note F = quiet_frame [OF ReportEvents_quiet [of z cfg c ?t]]
  have same: "same_setup s ?s" by (rule ReceiveBuffer_inv(3) [OF B res])
  have "same_bufs u z" using z(2) unfolding same_bufs_def y_def by (simp add: quiet_frame(5) [OF q])
  note bufs = same_bufs_trans [OF r(3) this]
  have id: "SysQueueId (PipeTbl ?s j) = SysQueueId (PipeTbl s j)" for j using same_setup_pipe [OF same] by simp
  have Q: "Queues ?s = AList.update (SysQueueId (PipeTbl s k)) (x\<lparr>QueueItems := rest\<rparr>) (Queues s)"
    using F(4) z(3) by (simp add: y_def)
  show thesis
  proof (rule that [OF res])
    show "stored ?s = stored s" using same_bufs_stored [of s ?s] bufs F(5) by (simp add: same_bufs_def)
    show "pipe_items ?s k = rest" unfolding pipe_items_def id Q by (simp add: update_conv')
    show "\<forall>j < 64. live_pipe (PipeTbl s j) \<longrightarrow> j \<noteq> k \<longrightarrow> pipe_items ?s j = pipe_items s j"
      using pipes_okD(3) [OF P _ l(1) _ l(3)] unfolding pipe_items_def id Q by (simp add: update_conv')
    show "same_setup s ?s" by (rule same)
  qed
qed

end

section \<open>When a transmission succeeds\<close>

text \<open>A message that is passed on (not originated) is transmitted with success once its header is accepted and a buffer is
  there; full queues and limits are events of the pipes, not errors of the call.\<close>

lemma find_destinations_status:
  assumes "find_destinations cfg c b p ts = Some us"
  shows "TxnStatus (fst us) = TxnStatus (fst ts) \<and> IsEndpoint (fst us) = IsEndpoint (fst ts)"
proof (rule find_destinations.raw_induct [OF _ assms])
  fix fd cfg c b p ts us
  assume IH: "\<And>cfg c b p ts us. fd cfg c b p ts = Some us \<Longrightarrow>
      TxnStatus (fst us) = TxnStatus (fst ts) \<and> IsEndpoint (fst us) = IsEndpoint (fst ts)"
    and r: "(if p \<noteq> NULL \<and> length (PipeSet (fst ts)) < MaxPipes (fst ts)
      then let ts = add_destination cfg c b p ts in fd cfg c b (Next (Dests (snd ts) p)) ts else Some ts) = Some us"
  show "TxnStatus (fst us) = TxnStatus (fst ts) \<and> IsEndpoint (fst us) = IsEndpoint (fst ts)"
  proof (cases "p \<noteq> NULL \<and> length (PipeSet (fst ts)) < MaxPipes (fst ts)")
    case True
    obtain u v where a: "add_destination cfg c b p ts = (u, v)" by (cases "add_destination cfg c b p ts")
    have "fd cfg c b (Next (Dests v p)) (u, v) = Some us" using r True a by simp
    from IH [OF this] show ?thesis using add_destination_frame [OF a] by simp
  qed (use r in auto)
qed

lemma FindDestinations_status:
  assumes "CFE_SB_TransmitTxn_FindDestinations cfg c b t s = Some (t', s')" "\<not> IsEndpoint t"
  shows "TxnStatus t' = TxnStatus t"
proof -
  obtain Route where R: "CFE_SBR_GetRouteId (hash_map cfg) (Routing s) (RoutingMsgId t) = Some Route"
    using assms(1) by (cases "CFE_SBR_GetRouteId (hash_map cfg) (Routing s) (RoutingMsgId t)") (simp_all add: CFE_SB_TransmitTxn_FindDestinations_def)
  show ?thesis
  proof (cases "CFE_SBR_IsValidRouteId Route")
    case False
    then have "t' = CFE_SB_MessageTxn_SetEventAndStatus CFE_SB_SEND_NO_SUBS_EID CFE_SUCCESS t"
      using assms R by (simp add: CFE_SB_TransmitTxn_FindDestinations_def Let_def)
    then show ?thesis by (simp add: CFE_SB_MessageTxn_SetEventAndStatus_def Let_def)
  next
    case True
    let ?u = "upd_buf b (\<lambda>b. b\<lparr>DestRouteId := Route\<rparr>) s"
    let ?f = "find_destinations cfg c b (CFE_SBR_GetDestListHeadPtr (Routing s) Route) (t, ?u)"
    obtain u v where f: "?f = Some (u, v)" using assms R True by (cases ?f) (auto simp: CFE_SB_TransmitTxn_FindDestinations_def Let_def)
    then have "TxnStatus u = TxnStatus t" "\<not> IsEndpoint u" using find_destinations_status [OF f] assms(2) by simp_all
    moreover have "t' = u" using assms R True f calculation(2) by (simp add: CFE_SB_TransmitTxn_FindDestinations_def Let_def)
    ultimately show ?thesis by simp
  qed
qed

lemma PipeHandler_status:
  "CFE_SB_TransmitTxn_PipeHandler cfg b ctx t s = Some (ctx', t', s') \<Longrightarrow> TxnStatus t' = TxnStatus t"
  by (auto simp: CFE_SB_TransmitTxn_PipeHandler_def Let_def bind_eq_Some_conv split: prod.splits if_splits)

lemma transmit_pipes_status:
  "transmit_pipes cfg b es t s = Some (es', t', s') \<Longrightarrow> TxnStatus t' = TxnStatus t"
  by (induction es arbitrary: es' t s) (fastforce simp: bind_eq_Some_conv dest: PipeHandler_status split: if_splits)+

lemma Execute_status:
  assumes "CFE_SB_TransmitTxn_Execute cfg c p t s = Some (t', s')" "\<not> IsEndpoint t"
    "OwnerAppId (Bufs s (p - content_offset cfg)) \<noteq> CFE_RESOURCEID_UNDEFINED"
  shows "TxnStatus t' = TxnStatus t"
  using assms
  by (auto simp: CFE_SB_TransmitTxn_Execute_def CFE_SB_ZeroCopyBufferValidate_def bind_eq_Some_conv
      dest!: transmit_pipes_status FindDestinations_status)

lemma AllocateMessageBuffer_owner:
  "CFE_SB_AllocateMessageBuffer cfg c n s = (p, s') \<Longrightarrow> p \<noteq> NULL \<Longrightarrow>
     AppIdStatus c = CFE_SUCCESS \<and> OwnerAppId (Bufs s' (p - content_offset cfg)) = CallerAppId c"
  by (auto simp: CFE_SB_AllocateMessageBuffer_def Let_def split: if_splits prod.splits)

lemma TransmitMsg_relayed:
  assumes c: "caller_ok c" and ok: "CFE_SB_MessageTxn_IsOK (transmit_setup cfg False (Some m))"
    and a: "fst (CFE_SB_AllocateMessageBuffer cfg c (TxnContentSize (transmit_setup cfg False (Some m))) s) \<noteq> NULL"
    and r: "CFE_SB_TransmitMsg cfg c (Some m) False s = Some (st, s')"
  shows "st = CFE_SUCCESS"
proof -
  define t where "t = transmit_setup cfg False (Some m)"
  obtain p u where p: "CFE_SB_AllocateMessageBuffer cfg c (TxnContentSize t) s = (p, u)" "p \<noteq> NULL"
    using a by (cases "CFE_SB_AllocateMessageBuffer cfg c (TxnContentSize t) s") (simp add: t_def)
  define v where "v = upd_buf (p - content_offset cfg)
                  (\<lambda>b. b\<lparr>Content := \<lambda>i. if i < unat (TxnContentSize t) then the (Some m) i else Content b i\<rparr>) u"
  have "CFE_SB_TransmitMsg cfg c (Some m) False s =
      map_option (\<lambda>(x, y). (TxnStatus x, CFE_SB_MessageTxn_ReportEvents cfg c x y))
        (CFE_SB_TransmitTxn_Execute cfg c p (t\<lparr>IsEndpoint := False\<rparr>) v)"
    using ok p unfolding t_def transmit_setup_def v_def
    by (cases "CFE_SB_TransmitTxn_Execute cfg c p (t\<lparr>IsEndpoint := False\<rparr>) v")
      (auto simp: CFE_SB_TransmitMsg_def Let_def v_def t_def transmit_setup_def)
  then obtain x y where e: "CFE_SB_TransmitTxn_Execute cfg c p (t\<lparr>IsEndpoint := False\<rparr>) v = Some (x, y)" "st = TxnStatus x"
    using r by (cases "CFE_SB_TransmitTxn_Execute cfg c p (t\<lparr>IsEndpoint := False\<rparr>) v") auto
  have "OwnerAppId (Bufs v (p - content_offset cfg)) \<noteq> CFE_RESOURCEID_UNDEFINED"
    using AllocateMessageBuffer_owner [OF p] c by (simp add: v_def caller_ok_def)
  then have "TxnStatus x = TxnStatus t" using Execute_status [OF e(1)] by simp
  then show ?thesis using e(2) ok by (simp add: t_def CFE_SB_MessageTxn_IsOK_def)
qed

end
