(* ===== verification/CFS_SbRun.thy ===== *)
theory CFS_SbRun
  imports CFS_SbDeliver
begin

text \<open>
  The bus in operation: the calls of applications and the commands as one step function, the pool of executive services as
  the interpretation of the locale \<open>sb_pool\<close>, the states that a running bus reaches, and its properties.
\<close>

section \<open>Calls\<close>

text \<open>The calls of applications and the command messages of the software bus task, each with its arguments.\<close>

datatype 'p sb_call =
    CreatePipe bool uint16 "string option"
  | DeletePipe CFE_SB_PipeId_t
  | SetPipeOpts CFE_SB_PipeId_t uint8
  | GetPipeOpts CFE_SB_PipeId_t bool
  | GetPipeName bool nat CFE_SB_PipeId_t
  | GetPipeIdByName bool "string option"
  | SubscribeFull CFE_SB_MsgId_t CFE_SB_PipeId_t uint16 uint16 uint8
  | Unsubscribe CFE_SB_MsgId_t CFE_SB_PipeId_t uint8
  | AllocateMessageBuffer size_t
  | ReleaseMessageBuffer pointer
  | TransmitMsg "CFE_MSG_Message_t option" bool
  | TransmitBuffer pointer bool
  | ReceiveBuffer bool CFE_SB_PipeId_t int
  | CleanUpApp CFE_ES_AppId_t
  | ProcessCmdPipePkt "'p sb_task_cfg" CFE_MSG_Message_t

definition sb_step :: "'p sb_cfg \<Rightarrow> sb_caller \<Rightarrow> 'p sb_call \<Rightarrow> 'p sb_state \<Rightarrow> 'p sb_state option" where
  "sb_step cfg c call s =
     (case call of
        CreatePipe null depth name \<Rightarrow> Some (snd (snd (CFE_SB_CreatePipe cfg c null depth name s)))
      | DeletePipe pid \<Rightarrow> map_option snd (CFE_SB_DeletePipe cfg c pid s)
      | SetPipeOpts pid opts \<Rightarrow> Some (snd (CFE_SB_SetPipeOpts cfg c pid opts s))
      | GetPipeOpts pid null \<Rightarrow> Some (snd (snd (CFE_SB_GetPipeOpts cfg pid null s)))
      | GetPipeName ok n pid \<Rightarrow> Some (snd (snd (CFE_SB_GetPipeName cfg ok n pid s)))
      | GetPipeIdByName null name \<Rightarrow> Some (snd (snd (CFE_SB_GetPipeIdByName null name s)))
      | SubscribeFull mid pid quality lim scope \<Rightarrow> map_option snd (CFE_SB_SubscribeFull cfg c mid pid quality lim scope s)
      | Unsubscribe mid pid scope \<Rightarrow> map_option snd (CFE_SB_UnsubscribeFull cfg mid pid scope (CallerAppId c) s)
      | AllocateMessageBuffer n \<Rightarrow> Some (snd (CFE_SB_AllocateMessageBuffer cfg c n s))
      | ReleaseMessageBuffer p \<Rightarrow> Some (snd (CFE_SB_ReleaseMessageBuffer cfg p s))
      | TransmitMsg m org \<Rightarrow> map_option snd (CFE_SB_TransmitMsg cfg c m org s)
      | TransmitBuffer p org \<Rightarrow> map_option snd (CFE_SB_TransmitBuffer cfg c p org s)
      | ReceiveBuffer null pid n \<Rightarrow> map_option (\<lambda>(_, _, s). s) (CFE_SB_ReceiveBuffer cfg c null pid n s)
      | CleanUpApp app \<Rightarrow> map_option snd (CFE_SB_CleanUpApp cfg app s)
      | ProcessCmdPipePkt k m \<Rightarrow> CFE_SB_ProcessCmdPipePkt cfg k c m s)"

text \<open>The buffers on the zero-copy list, which applications own.\<close>

partial_function (option) zero_copy_list :: "'p sb_state \<Rightarrow> buffer_link \<Rightarrow> pointer list option" where
  "zero_copy_list s Link =
     (case Link of
        ZeroCopyList \<Rightarrow> Some []
      | InTransitList \<Rightarrow> None
      | BufferLink b \<Rightarrow> do { bs \<leftarrow> zero_copy_list s (LinkNext s Link); Some (b # bs) })"

definition owned_buffers :: "'p sb_state \<Rightarrow> pointer list" where
  "owned_buffers s = (case zero_copy_list s (LinkNext s ZeroCopyList) of None \<Rightarrow> [] | Some bs \<Rightarrow> bs)"

text \<open>All references to buffers: the messages in queues, the last message handed out by each pipe, the buffers that
  applications own.\<close>

definition references :: "'p sb_state \<Rightarrow> pointer multiset" where
  "references s = bus_refs s + mset (owned_buffers s)"

definition destinations :: "'p sb_state \<Rightarrow> pointer set" where
  "destinations s = (\<Union>i < 256. set (dests_of s i))"

text \<open>Callers pass the addresses of buffers that are in use, or NULL, and the commands that write files leave the bus
  alone.\<close>

definition legal_call :: "'p sb_cfg \<Rightarrow> sb_caller \<Rightarrow> 'p sb_call \<Rightarrow> 'p sb_state \<Rightarrow> bool" where
  "legal_call cfg c call s \<longleftrightarrow> caller_ok c \<and>
     (case call of
        ReleaseMessageBuffer p \<Rightarrow> p = NULL \<or> p - content_offset cfg \<in># references s
      | TransmitBuffer p _ \<Rightarrow> p = NULL \<or> p - content_offset cfg \<in># references s
      | ProcessCmdPipePkt k _ \<Rightarrow> \<forall>cc m s. quiet s (write_file k cc m s)
      | _ \<Rightarrow> True)"

text \<open>A receive that waits for ever on an empty pipe is the only call that does not return.\<close>

definition waits_forever :: "'p sb_cfg \<Rightarrow> 'p sb_call \<Rightarrow> 'p sb_state \<Rightarrow> bool" where
  "waits_forever cfg call s \<longleftrightarrow>
     (case call of
        ReceiveBuffer null pid n \<Rightarrow> \<not> null \<and> n = CFE_SB_PEND_FOREVER \<and>
          (case CFE_SB_PipeDescIsMatch cfg pid s of None \<Rightarrow> False | Some k \<Rightarrow> pipe_items s k = [])
      | _ \<Rightarrow> False)"

section \<open>The invariant of the calls\<close>

lemma zero_copy_suffix:
  assumes "bus_inv holds cfg X (xs @ ys) D s"
  shows "zero_copy_list s (hd (map BufferLink ys @ [ZeroCopyList])) = Some ys"
  using assms
proof (induction ys arbitrary: xs)
  case Nil
  then show ?case by (subst zero_copy_list.simps) simp
next
  case (Cons y ys)
  have "LinkNext s (BufferLink y) = hd (map BufferLink ys @ [ZeroCopyList])" by (rule zero_copy_links(2) [OF Cons.prems refl])
  then show ?case using Cons.IH [of "xs @ [y]"] Cons.prems by (subst zero_copy_list.simps) simp
qed

lemma owned_buffers_eq: "bus_inv holds cfg X Z D s \<Longrightarrow> owned_buffers s = Z"
  using zero_copy_suffix [of holds cfg X "[]" Z D s] zero_copy_links(1) [of holds cfg X Z D s] by (simp add: owned_buffers_def)

lemma references_eq: "bus_inv holds cfg X Z D s \<Longrightarrow> references s = bus_refs s + mset Z"
  by (simp add: references_def owned_buffers_eq)

lemma destinations_eq: "bus_inv holds cfg X Z D s \<Longrightarrow> destinations s = nodes D"
proof -
  assume b: "bus_inv holds cfg X Z D s"
  note d = bus_invD(2) [OF b]
  have top: "top_idx (Routing s) \<le> 256" using bus_invD(1) [OF b] by (simp add: sbr_inv_def routes_ok_def)
  have "D i = []" if "i \<ge> 256" for i using d top that by (simp add: dests_ok_def)
  then have "i < 256" if "x \<in> set (D i)" for i x using that by (cases "i < 256") auto
  then have "nodes D = (\<Union>i < 256. set (D i))" unfolding nodes_def by blast
  then show ?thesis using dests_okD(4) [OF d] by (simp add: destinations_def)
qed

lemma QueueGet_wait: "OS_QueueGet q OS_PEND s = None" if "map_of (Queues s) q = Some x" "QueueItems x = []"
  using that by (simp add: OS_QueueGet_def)

context sb_pool
begin

lemma receive_waits:
  assumes i: "sb_inv holds cfg Z D s" and k: "CFE_SB_PipeDescIsMatch cfg pid s = Some k" and e: "pipe_items s k = []"
  shows "CFE_SB_ReceiveBuffer cfg c False pid CFE_SB_PEND_FOREVER s = None"
proof -
  note B = sb_invD(1) [OF i] and l = match_live [OF k]
  obtain t u where r: "receive_setup False pid (- 1) s = (t, u)" "CFE_SB_MessageTxn_IsOK t" "same_bufs s u"
    by (rule receive_setup_ok [OF _ k, of "- 1"]) simp
  note S = receive_setup_inv [OF B r(1)]
  note en = receive_setup_entry(1) [OF r(1,2) k]
  obtain x where x: "map_of (Queues s) (SysQueueId (PipeTbl s k)) = Some x" "QueueItems x = []"
    using e pipes_okD(2) [OF sb_invD(2) [OF i] l(1,3)]
    by (cases "map_of (Queues s) (SysQueueId (PipeTbl s k))") (auto simp: pipe_items_def map_of_eq_None_iff)
  have "TimeoutMode t = TimeoutMode_PEND"
    using r(1) k by (auto simp: receive_setup_def CFE_SB_MessageTxn_SetTimeout_def CFE_SB_ReceiveTxn_Init_def CFE_SB_MessageTxn_Init_def
        CFE_SB_MessageTxn_IsOK_def CFE_SB_ReceiveTxn_SetPipeId_def Let_def split: prod.splits)
  then have "CFE_SB_ReceiveTxn_PipeHandler cfg \<lparr>SetPipeId = pid, SetSysQueueId = SysQueueId (PipeTbl s k), PendingEventId = 0,
      OsStatus = OS_SUCCESS\<rparr> t u = None"
    using x S(2) by (simp add: CFE_SB_ReceiveTxn_PipeHandler_def CFE_SB_MessageTxn_GetOsTimeout_def OS_QueueGet_def)
  then show ?thesis using ReceiveTxn_once [OF en _ r(2), of c u] by (simp add: ReceiveBuffer_setup r(1))
qed

lemma sb_step_inv:
  assumes i: "sb_inv holds cfg Z D s" and l: "legal_call cfg c call s"
  shows "if waits_forever cfg call s then sb_step cfg c call s = None
    else \<exists>s' Z' D'. sb_step cfg c call s = Some s' \<and> sb_inv holds cfg Z' D' s'"
proof -
  note B = sb_invD(1) [OF i] and P = sb_invD(2) [OF i]
  have c: "caller_ok c" using l by (simp add: legal_call_def)
  have same: "sb_inv holds cfg Z' D s'" if "same_setup s s'" "bus_inv holds cfg {#} Z' D s'" for Z' s'
    using that same_setup_pipes_ok [OF that(1) P] by (simp add: sb_inv_def)
  note quiet = quiet_sb_inv [OF _ i]
  show ?thesis
  proof (cases call)
    case (CreatePipe null depth name)
    obtain st p s' where r: "CFE_SB_CreatePipe cfg c null depth name s = (st, p, s')" by (metis prod_cases3)
    have "sb_inv holds cfg Z D s'" using CreatePipe_inv [OF B r] CreatePipe_pipes_ok [OF P r] by (simp add: sb_inv_def)
    then show ?thesis using CreatePipe r by (auto simp: sb_step_def waits_forever_def)
  next
    case (DeletePipe pid)
    obtain st s' D' where "CFE_SB_DeletePipeFull cfg pid (CallerAppId c) s = Some (st, s')" "sb_inv holds cfg Z D' s'"
      using DeletePipe_sb_inv [OF i, of pid "CallerAppId c"] by metis
    then show ?thesis using DeletePipe by (auto simp: sb_step_def waits_forever_def CFE_SB_DeletePipe_def)
  next
    case (SetPipeOpts pid opts)
    obtain st s' where r: "CFE_SB_SetPipeOpts cfg c pid opts s = (st, s')" by (cases "CFE_SB_SetPipeOpts cfg c pid opts s")
    have "sb_inv holds cfg Z D s'" by (rule SetPipeOpts_inv [OF i r])
    then show ?thesis using SetPipeOpts r by (auto simp: sb_step_def waits_forever_def)
  next
    case (GetPipeOpts pid null)
    obtain st x s' where r: "CFE_SB_GetPipeOpts cfg pid null s = (st, x, s')" by (metis prod_cases3)
    have "sb_inv holds cfg Z D s'" by (rule quiet [OF GetPipeOpts_quiet [OF r]])
    then show ?thesis using GetPipeOpts r by (auto simp: sb_step_def waits_forever_def)
  next
    case (GetPipeName ok n pid)
    have "sb_inv holds cfg Z D (snd (snd (CFE_SB_GetPipeName cfg ok n pid s)))" by (rule quiet) simp
    then show ?thesis using GetPipeName by (auto simp: sb_step_def waits_forever_def)
  next
    case (GetPipeIdByName null name)
    obtain st x s' where r: "CFE_SB_GetPipeIdByName null name s = (st, x, s')" by (metis prod_cases3)
    have "sb_inv holds cfg Z D s'" by (rule quiet [OF GetPipeIdByName_quiet [OF r]])
    then show ?thesis using GetPipeIdByName r by (auto simp: sb_step_def waits_forever_def)
  next
    case (SubscribeFull mid pid quality lim scope)
    obtain st s' D' where "CFE_SB_SubscribeFull cfg c mid pid quality lim scope s = Some (st, s')" "sb_inv holds cfg Z D' s'"
      using SubscribeFull_inv [OF i c, of mid pid quality lim scope] by metis
    then show ?thesis using SubscribeFull by (auto simp: sb_step_def waits_forever_def)
  next
    case (Unsubscribe mid pid scope)
    obtain st s' D' where "CFE_SB_UnsubscribeFull cfg mid pid scope (CallerAppId c) s = Some (st, s')" "sb_inv holds cfg Z D' s'"
      using UnsubscribeFull_inv [OF i, of mid pid scope "CallerAppId c"] by metis
    then show ?thesis using Unsubscribe by (auto simp: sb_step_def waits_forever_def)
  next
    case (AllocateMessageBuffer n)
    obtain p s' where r: "CFE_SB_AllocateMessageBuffer cfg c n s = (p, s')" by (cases "CFE_SB_AllocateMessageBuffer cfg c n s")
    have "same_setup s s'" using AllocateMessageBuffer_frame [OF r] by (simp add: same_setup_def route_head_def)
    moreover have "\<exists>Z'. bus_inv holds cfg {#} Z' D s'"
      using inv_alloc [OF B _ r] c by (auto simp: caller_ok_def split: if_splits)
    ultimately show ?thesis using same AllocateMessageBuffer r by (auto simp: sb_step_def waits_forever_def)
  next
    case (ReleaseMessageBuffer p)
    obtain st s' where r: "CFE_SB_ReleaseMessageBuffer cfg p s = (st, s')" by (cases "CFE_SB_ReleaseMessageBuffer cfg p s")
    have b: "p = NULL \<or> p - content_offset cfg \<in># bus_refs s + mset Z"
      using l references_eq [OF B] by (simp add: legal_call_def ReleaseMessageBuffer)
    have h: "same_setup s s'"
    proof (cases "p = NULL \<or> OwnerAppId (Bufs s (p - content_offset cfg)) = CFE_RESOURCEID_UNDEFINED")
      case True
      then show ?thesis using r by (cases "p = NULL") (auto simp: CFE_SB_ReleaseMessageBuffer_def CFE_SB_ZeroCopyBufferValidate_def)
    next
      case False
      then have "s' = CFE_SB_DecrBufUseCnt cfg (p - content_offset cfg)
          (upd_buf (p - content_offset cfg) (\<lambda>b. b\<lparr>OwnerAppId := CFE_RESOURCEID_UNDEFINED\<rparr>) s)"
        using r by (simp add: CFE_SB_ReleaseMessageBuffer_def CFE_SB_ZeroCopyBufferValidate_def)
      then show ?thesis by simp
    qed
    have "\<exists>Z'. bus_inv holds cfg {#} Z' D s'" using ReleaseMessageBuffer_inv [OF B b r] B by (auto split: if_splits)
    then show ?thesis using same [OF h] ReleaseMessageBuffer r by (auto simp: sb_step_def waits_forever_def)
  next
    case (TransmitMsg m org)
    obtain st s' where "CFE_SB_TransmitMsg cfg c m org s = Some (st, s')" "sb_inv holds cfg Z D s'"
      by (rule TransmitMsg_sb_inv [OF i c])
    then show ?thesis using TransmitMsg by (auto simp: sb_step_def waits_forever_def)
  next
    case (TransmitBuffer p org)
    have b: "p = NULL \<or> p - content_offset cfg \<in># bus_refs s + mset Z"
      using l references_eq [OF B] by (simp add: legal_call_def TransmitBuffer)
    obtain st s' where r: "CFE_SB_TransmitBuffer cfg c p org s = Some (st, s')" 
      "bus_inv holds cfg {#} Z D s' \<or>
       p - content_offset cfg \<in> set Z \<and> bus_inv holds cfg {#} (remove1 (p - content_offset cfg) Z) D s'" "same_setup s s'"
      by (rule TransmitBuffer_inv [OF B b])
    have "\<exists>Z'. sb_inv holds cfg Z' D s'" using r(2) same [OF r(3)] by blast
    then show ?thesis using TransmitBuffer r(1) by (auto simp: sb_step_def waits_forever_def)
  next
    case (ReceiveBuffer null pid n)
    show ?thesis
    proof (cases "waits_forever cfg call s")
      case True
      then obtain k where "\<not> null" "n = CFE_SB_PEND_FOREVER" "CFE_SB_PipeDescIsMatch cfg pid s = Some k" "pipe_items s k = []"
        by (auto simp: waits_forever_def ReceiveBuffer split: option.splits)
      then show ?thesis using True receive_waits [OF i] ReceiveBuffer by (simp add: sb_step_def)
    next
      case False
      have "CFE_SB_ReceiveBuffer cfg c null pid n s \<noteq> None"
      proof
        assume "CFE_SB_ReceiveBuffer cfg c null pid n s = None"
        from ReceiveBuffer_total [OF B this] show False using False by (auto simp: waits_forever_def ReceiveBuffer pipe_items_def)
      qed
      then obtain st p s' where r: "CFE_SB_ReceiveBuffer cfg c null pid n s = Some (st, p, s')" by (metis not_None_eq prod_cases3)
      have "sb_inv holds cfg Z D s'" by (rule same [OF ReceiveBuffer_inv(3,1) [OF B r]])
      then show ?thesis using False ReceiveBuffer r by (auto simp: sb_step_def)
    qed
  next
    case (CleanUpApp app)
    obtain s' Z' D' where "CFE_SB_CleanUpApp cfg app s = Some (CFE_SUCCESS, s')" "sb_inv holds cfg Z' D' s'"
      using CleanUpApp_inv [OF i, of app] by metis
    then show ?thesis using CleanUpApp by (auto simp: sb_step_def waits_forever_def)
  next
    case (ProcessCmdPipePkt k m)
    then have "\<And>cc m s. quiet s (write_file k cc m s)" using l by (simp add: legal_call_def)
    then obtain s' where "CFE_SB_ProcessCmdPipePkt cfg k c m s = Some s'" "sb_inv holds cfg Z D s'"
      by (rule ProcessCmdPipePkt_inv [OF i c])
    then show ?thesis using ProcessCmdPipePkt by (auto simp: sb_step_def waits_forever_def)
  qed
qed

text \<open>The bus after its initialisation.\<close>

lemma EarlyInit_inv:
  assumes p: "holds pool {}" and q: "Queues s0 = []" and r: "CFE_SB_EarlyInit cfg OS_SUCCESS (CFE_SUCCESS, pool) s0 = (st, s)"
  shows "st = CFE_SUCCESS" "sb_inv holds cfg [] (\<lambda>_. []) s"
proof -
  let ?u = "CFE_SB_TrackingListReset ZeroCopyList (CFE_SB_TrackingListReset InTransitList
      ((clear_global s0)\<lparr>SubscriptionReporting := CFE_SB_DISABLE, Pool := pool\<rparr>))"
  have s: "st = CFE_SUCCESS" "s = (CFE_SB_InitPipeTbl cfg ?u)\<lparr>Routing := CFE_SBR_Init\<rparr>"
    using r by (simp_all add: CFE_SB_EarlyInit_def CFE_SB_InitBuffers_def Let_def)
  then show "st = CFE_SUCCESS" by simp
  have f: "Queues s = []" "PipeTbl s = (\<lambda>_. zero_pipe)" "Routing s = CFE_SBR_Init" "Pool s = pool" "SBBuffersInUse (StatTlm s) = 0"
    unfolding s(2) by (simp_all add: CFE_SB_InitPipeTbl_def clear_global_def q CFE_SB_TrackingListReset_def)
  have l: "LinkNext s ZeroCopyList = ZeroCopyList" "LinkPrev s ZeroCopyList = ZeroCopyList"
    "LinkNext s InTransitList = InTransitList" "LinkPrev s InTransitList = InTransitList"
    unfolding s(2) by (simp_all add: CFE_SB_InitPipeTbl_def CFE_SB_TrackingListReset_def)
  have refs: "bus_refs s = {#}" by (simp add: bus_refs_def f queued_def last_refs_def last_ref_free)
  have "bufs_ok {#} [] [] s" by (simp add: bufs_ok_def links_ok_def l f)
  then have "mem_ok holds {#} [] (nodes (\<lambda>_. [])) s" using p by (auto simp: mem_ok_def nodes_def f)
  moreover have "dests_ok (\<lambda>_. []) s" by (simp add: dests_ok_def route_head_def f CFE_SBR_Init_def CFE_SBR_Init_Map_def)
  ultimately have "bus_inv holds cfg {#} [] (\<lambda>_. []) s" using sbr_inv_Init by (simp add: bus_inv_def refs f)
  moreover have "pipes_ok cfg (\<lambda>_. []) s" by (simp add: pipes_ok_def f nodes_def)
  ultimately show "sb_inv holds cfg [] (\<lambda>_. []) s" by (simp add: sb_inv_def)
qed

end

section \<open>The memory pool of the bus\<close>

lemma PoolCreate_holds:
  assumes r: "CFE_ES_PoolCreateEx k app mutex False base psz n (Some sizes) False s = Some (CFE_SUCCESS, Some h, s')"
    and b: "unat n \<le> 17" "unat n \<le> length sizes" "unat base + unat psz < 2 ^ 62" "unat (align_of_pool k) < 2 ^ 32"
      "list_all (\<lambda>s. unat s < 2 ^ 62) sizes"
  shows "pool_holds k h s' {}"
proof -
  let ?align = "if align_of_pool k < CFE_PLATFORM_ES_MEMPOOL_ALIGN_SIZE_MIN then CFE_PLATFORM_ES_MEMPOOL_ALIGN_SIZE_MIN else align_of_pool k"
  have base: "base \<noteq> 0" using r by (simp add: CFE_ES_PoolCreateEx_def split: if_splits)
  obtain i t p where i: "CFE_ES_LocateMemPoolRecordByID k h = Some i"
    and p: "CFE_ES_GenPoolInitialize 0 psz ?align n sizes = Some (CFE_SUCCESS, p)"
    and s': "MemPoolTable s' i = \<lparr>GenPool = p, PoolID = h, BaseAddr = base, PoolOwner = app, MutexId = 0\<rparr>"
    using r base by (auto simp: CFE_ES_PoolCreateEx_def reserve_pool_def Let_def split: if_splits option.splits prod.splits)
  have al: "unat ?align < 2 ^ 32" using b(4) by simp
  have inv: "pool_inv (mdesc base) 0 p (PoolMemory s') [] (\<lambda>_. [])"
    by (rule Initialize_inv [of 0 psz ?align n sizes]) (use p b al in simp_all)
  have "PoolMaxOffset p = psz" using Initialize_sorts [of 0 psz ?align n sizes] p b(2) by (auto split: if_splits)
  then show ?thesis using b(3)
    by (intro pool_holdsI [of k h s' i, OF _ _ _ refl base _ inv]) (simp_all add: CFE_ES_MemPoolRecordIsMatch_def i s' live_def)
qed

text \<open>The sizes of the buckets (\<^verbatim>\<open>CFE_PLATFORM_SB_MAX_BLOCK_SIZE\<close> first) and the creation of the pool, which uses no
  mutex.  The memory partition is at \<open>base\<close>.\<close>

definition CFE_SB_MemPoolDefSize :: "size_t list" where
  "CFE_SB_MemPoolDefSize = [32896, 32768, 16384, 8192, 4096, 2048, 1024, 512, 256, 160, 128, 96, 64, 36, 20, 16, 8]"

definition sb_create_pool ::
    "mempool_cfg \<Rightarrow> CFE_ResourceId_t \<Rightarrow> uint64 \<Rightarrow> es_mempools
       \<Rightarrow> (CFE_Status_t \<times> CFE_ResourceId_t option \<times> es_mempools) option" where
  "sb_create_pool k app base m =
     CFE_ES_PoolCreateEx k app None False base 524288 CFE_PLATFORM_ES_POOL_MAX_BUCKETS (Some CFE_SB_MemPoolDefSize) False m"

text \<open>The bus over the executive services pool of handle \<open>h\<close>: the calls of the pool API, the offset of
  \<^verbatim>\<open>Content\<close> in \<^verbatim>\<open>CFE_SB_BufferD_t\<close> and the size of \<^verbatim>\<open>CFE_SB_DestinationD_t\<close> of a 64-bit build.\<close>

definition es_cfg :: "mempool_cfg \<Rightarrow> CFE_ResourceId_t \<Rightarrow> es_mempools sb_cfg \<Rightarrow> es_mempools sb_cfg" where
  "es_cfg k h cfg = cfg\<lparr>GetPoolBuf := SB_GetPoolBuf k h, PutPoolBuf := CFE_ES_PutPoolBuf k h,
     content_offset := 64, sizeof_DestinationD := 32\<rparr>"

lemma es_cfg_simps [simp]:
  "GetPoolBuf (es_cfg k h cfg) = SB_GetPoolBuf k h" "PutPoolBuf (es_cfg k h cfg) = CFE_ES_PutPoolBuf k h"
  "content_offset (es_cfg k h cfg) = 64" "sizeof_DestinationD (es_cfg k h cfg) = 32"
  by (simp_all add: es_cfg_def)

interpretation es_bus: sb_pool "es_cfg k h cfg" "pool_holds k h" for k h cfg
  unfolding sb_pool_def sb_pool_axioms_def es_cfg_simps using es_pool.buffer_pool_axioms by simp

section \<open>The states of a running bus\<close>

text \<open>The pool is created, the bus is initialised, and then applications and the software bus task call it in any
  order.  \<open>h\<close> is the handle that the bus keeps.\<close>

inductive sb_reachable :: "mempool_cfg \<Rightarrow> CFE_ResourceId_t \<Rightarrow> es_mempools sb_cfg \<Rightarrow> es_mempools sb_state \<Rightarrow> bool"
  for k h cfg where
  Start: "sb_reachable k h cfg s"
    if "sb_create_pool k app base m = Some (CFE_SUCCESS, Some h, pool)" "unat base < 2 ^ 61" "unat (align_of_pool k) < 2 ^ 32"
      "Queues s0 = []" "CFE_SB_EarlyInit (es_cfg k h cfg) OS_SUCCESS (CFE_SUCCESS, pool) s0 = (st, s)"
| Step: "sb_reachable k h cfg s'"
    if "sb_reachable k h cfg s" "legal_call (es_cfg k h cfg) c call s" "sb_step (es_cfg k h cfg) c call s = Some s'"

lemma reachable_inv:
  assumes "sb_reachable k h cfg s"
  shows "\<exists>Z D. sb_inv (pool_holds k h) (es_cfg k h cfg) Z D s"
  using assms
proof induction
  case (Start app base m pool s0 st s)
  have "pool_holds k h pool {}"
    by (rule PoolCreate_holds [OF Start(1) [unfolded sb_create_pool_def]]) (use Start in \<open>simp_all add: CFE_SB_MemPoolDefSize_def\<close>)
  then show ?case using es_bus.EarlyInit_inv(2) Start by blast
next
  case (Step s c call s')
  then obtain Z D where i: "sb_inv (pool_holds k h) (es_cfg k h cfg) Z D s" by blast
  show ?case using es_bus.sb_step_inv [OF i Step(2)] Step(3) by (auto split: if_splits)
qed

section \<open>Memory\<close>

lemma reachableE:
  assumes "sb_reachable k h cfg s"
  obtains Z D where "sb_inv (pool_holds k h) (es_cfg k h cfg) Z D s" "owned_buffers s = Z" "references s = bus_refs s + mset Z"
    "destinations s = nodes D"
proof -
  obtain Z D where i: "sb_inv (pool_holds k h) (es_cfg k h cfg) Z D s" using reachable_inv [OF assms] by blast
  show thesis
    by (rule that [OF i owned_buffers_eq [OF sb_invD(1) [OF i]] references_eq [OF sb_invD(1) [OF i]] destinations_eq [OF sb_invD(1) [OF i]]])
qed

text \<open>C1. In every state that a running bus reaches, the memory pool of executive services holds exactly the buffers that
  something refers to and the destination blocks of the routes, and no block is both: no message is leaked and no pointer
  dangles.\<close>

theorem bus_memory_exact:
  "sb_reachable k h cfg s \<Longrightarrow>
     pool_holds k h (Pool s) (set_mset (references s) \<union> destinations s) \<and> set_mset (references s) \<inter> destinations s = {}"
proof (erule reachableE)
  fix Z D
  assume i: "sb_inv (pool_holds k h) (es_cfg k h cfg) Z D s" and r: "references s = bus_refs s + mset Z" "destinations s = nodes D"
  show ?thesis using bus_invD(4) [OF sb_invD(1) [OF i]] by (auto simp: mem_ok_def r)
qed

text \<open>C4. In every reachable state the use count of a buffer is the number of its references: the queues it waits in, the
  pipes that handed it out last, and the application that owns it.\<close>

theorem use_counts_exact:
  "sb_reachable k h cfg s \<Longrightarrow> b \<in># references s \<Longrightarrow> unat (UseCount (Bufs s b)) = count (references s) b"
proof (erule reachableE)
  fix Z D
  assume b: "b \<in># references s" and i: "sb_inv (pool_holds k h) (es_cfg k h cfg) Z D s" and r: "references s = bus_refs s + mset Z"
  obtain T where "bufs_ok (references s) Z T s" using bus_invD(4) [OF sb_invD(1) [OF i]] by (auto simp: mem_ok_def r)
  then show ?thesis using b by (simp add: bufs_ok_def)
qed

section \<open>Calls\<close>

text \<open>C2. Every call of an application and every command returns, whatever the state of the running bus, but for a receive
  that waits for ever on an empty pipe.\<close>

theorem calls_return:
  "sb_reachable k h cfg s \<Longrightarrow> legal_call (es_cfg k h cfg) c call s \<Longrightarrow>
     sb_step (es_cfg k h cfg) c call s = None \<longleftrightarrow> waits_forever (es_cfg k h cfg) call s"
proof -
  assume "sb_reachable k h cfg s" and l: "legal_call (es_cfg k h cfg) c call s"
  then obtain Z D where "sb_inv (pool_holds k h) (es_cfg k h cfg) Z D s" using reachable_inv by blast
  from es_bus.sb_step_inv [OF this l] show ?thesis by (auto split: if_splits)
qed

text \<open>C3. A successful transmission appends the message, with the sequence count and the headers of its origination, to
  every pipe that accepts it, and changes no other pipe.\<close>

theorem transmit_delivers:
  assumes "sb_reachable k h cfg s" "caller_ok c" "CFE_SB_TransmitMsg (es_cfg k h cfg) c (Some m) org s = Some (CFE_SUCCESS, s')"
  defines "mid \<equiv> the (snd (CFE_MSG_GetMsgId (build cfg) (Some m) (Some CFE_SB_INVALID_MSG_ID)))"
    and "len \<equiv> the (snd (CFE_MSG_GetSize (Some m) (Some 0)))"
  shows "\<exists>x a. (\<forall>k < unat len. x k = m k) \<and> (\<forall>n < 64. live_pipe (PipeTbl s n) \<longrightarrow>
    inbox s' n = inbox s n @ (if accepts (es_cfg k h cfg) c s mid n
      then [(mid, len, sent_message cfg c (Routing s) org (route_of (Routing s) mid) a x)] else []))"
proof -
  obtain Z D where i: "sb_inv (pool_holds k h) (es_cfg k h cfg) Z D s" using reachable_inv [OF assms(1)] by blast
  have e: "build (es_cfg k h cfg) = build cfg" "sent_message (es_cfg k h cfg) = sent_message cfg"
    by (simp_all add: es_cfg_def sent_message_def [abs_def] cong: if_cong)
  show ?thesis using es_bus.TransmitMsg_delivers [OF i assms(2,3)] unfolding mid_def len_def e .
qed

text \<open>C5. A receive on a pipe with messages returns the oldest of them and leaves the rest in order, and the other pipes
  alone.\<close>

theorem receive_fifo:
  assumes "sb_reachable k h cfg s" "- 1 \<le> t" "CFE_SB_PipeDescIsMatch (es_cfg k h cfg) pid s = Some n" "inbox s n = x # rest"
  shows "\<exists>b s'. CFE_SB_ReceiveBuffer (es_cfg k h cfg) c False pid t s = Some (CFE_SUCCESS, Some (b + 64), s') \<and> stored s' b = x \<and>
     inbox s' n = rest \<and> (\<forall>j < 64. live_pipe (PipeTbl s j) \<longrightarrow> j \<noteq> n \<longrightarrow> inbox s' j = inbox s j)"
proof -
  obtain Z D where i: "sb_inv (pool_holds k h) (es_cfg k h cfg) Z D s" using reachable_inv [OF assms(1)] by blast
  obtain b bs where b: "pipe_items s n = b # bs" "x = stored s b" "rest = map (stored s) bs"
    using assms(4) by (auto simp: inbox_def)
  obtain s' where "CFE_SB_ReceiveBuffer (es_cfg k h cfg) c False pid t s = Some (CFE_SUCCESS, Some (b + 64), s')"
    "stored s' = stored s" "pipe_items s' n = bs"
    "\<forall>j < 64. live_pipe (PipeTbl s j) \<longrightarrow> j \<noteq> n \<longrightarrow> pipe_items s' j = pipe_items s j"
    using es_bus.ReceiveBuffer_takes [OF i assms(2,3) b(1), of c] by auto
  then show ?thesis using b by (intro exI [of _ b] exI [of _ s']) (simp add: inbox_def)
qed

text \<open>C7. A subscription always returns, adds the pipe to the subscribers of the message exactly when it succeeds, and
  succeeds only for a valid message and a pipe of the caller; the subscribers of other messages stay.\<close>

theorem subscribe_exact:
  assumes "sb_reachable k h cfg s" "caller_ok c"
  shows "\<exists>st s'. CFE_SB_SubscribeFull (es_cfg k h cfg) c mid pid q lim scope s = Some (st, s') \<and>
     (\<forall>m. set (subscribers s' m) = set (subscribers s m) \<union> (if m = mid \<and> st = CFE_SUCCESS then {pid} else {})) \<and>
     (st = CFE_SUCCESS \<longrightarrow> CFE_SB_IsValidMsgId mid \<and> scope \<le> 1 \<and> pipe_owner (es_cfg k h cfg) s pid = Some (CallerAppId c))"
proof -
  obtain Z D where i: "sb_inv (pool_holds k h) (es_cfg k h cfg) Z D s" using reachable_inv [OF assms(1)] by blast
  obtain st s' where s: "CFE_SB_SubscribeFull (es_cfg k h cfg) c mid pid q lim scope s = Some (st, s')"
    "\<forall>m. set (subscribers s' m) = (if m = mid \<and> st = CFE_SUCCESS then insert pid (set (subscribers s m)) else set (subscribers s m))"
    "st = CFE_SUCCESS \<longrightarrow> subscriber (es_cfg k h cfg) c mid pid scope s"
    using es_bus.SubscribeFull_inv [OF i assms(2), of mid pid q lim scope] by metis
  then show ?thesis
    by (intro exI [of _ st] exI [of _ s']) (auto simp: subscriber_def pipe_owner_def split: option.splits)
qed

text \<open>C8. Unsubscribing always returns, succeeds exactly for a valid message and a pipe of the application, and then
  removes exactly this pipe from the subscribers of this message.\<close>

theorem unsubscribe_exact:
  assumes "sb_reachable k h cfg s"
  shows "\<exists>st s'. CFE_SB_UnsubscribeFull (es_cfg k h cfg) mid pid scope app s = Some (st, s') \<and>
     (\<forall>m. set (subscribers s' m) = set (subscribers s m) - (if m = mid \<and> st = CFE_SUCCESS then {pid} else {})) \<and>
     (st = CFE_SUCCESS \<longleftrightarrow> CFE_SB_IsValidMsgId mid \<and> scope \<le> 1 \<and> pipe_owner (es_cfg k h cfg) s pid = Some app)"
proof -
  obtain Z D where i: "sb_inv (pool_holds k h) (es_cfg k h cfg) Z D s" using reachable_inv [OF assms(1)] by blast
  obtain st s' where "CFE_SB_UnsubscribeFull (es_cfg k h cfg) mid pid scope app s = Some (st, s')"
    "\<forall>m. set (subscribers s' m) = (if m = mid \<and> st = CFE_SUCCESS then set (subscribers s m) - {pid} else set (subscribers s m))"
    "st = CFE_SUCCESS \<longleftrightarrow> CFE_SB_IsValidMsgId mid \<and> scope \<le> 1 \<and>
       (case CFE_SB_PipeDescIsMatch (es_cfg k h cfg) pid s of None \<Rightarrow> False | Some i \<Rightarrow> PipeAppId (PipeTbl s i) = app)"
    using es_bus.UnsubscribeFull_inv [OF i, of mid pid scope app] by metis
  then show ?thesis by (intro exI [of _ st] exI [of _ s']) (simp add: pipe_owner_def split: option.split)
qed

text \<open>C6. The cleanup of an application deletes exactly its pipes, removes them from the subscribers of every message and
  leaves it no buffer.\<close>

theorem cleanup_complete:
  assumes "sb_reachable k h cfg s"
  shows "\<exists>s'. CFE_SB_CleanUpApp (es_cfg k h cfg) app s = Some (CFE_SUCCESS, s') \<and>
     (\<forall>p. pipe_owner (es_cfg k h cfg) s' p = (if pipe_owner (es_cfg k h cfg) s p = Some app then None else pipe_owner (es_cfg k h cfg) s p)) \<and>
     (\<forall>m. subscribers s' m = filter (\<lambda>p. pipe_owner (es_cfg k h cfg) s p \<noteq> Some app) (subscribers s m)) \<and>
     (\<forall>b \<in> set (owned_buffers s'). OwnerAppId (Bufs s' b) \<noteq> app)"
proof -
  obtain Z D where i: "sb_inv (pool_holds k h) (es_cfg k h cfg) Z D s" using reachable_inv [OF assms(1)] by blast
  obtain s' Z' D' where s: "CFE_SB_CleanUpApp (es_cfg k h cfg) app s = Some (CFE_SUCCESS, s')" "sb_inv (pool_holds k h) (es_cfg k h cfg) Z' D' s'"
    "\<forall>p. pipe_owner (es_cfg k h cfg) s' p = (if pipe_owner (es_cfg k h cfg) s p = Some app then None else pipe_owner (es_cfg k h cfg) s p)"
    "\<forall>m. subscribers s' m = filter (\<lambda>p. pipe_owner (es_cfg k h cfg) s p \<noteq> Some app) (subscribers s m)"
    "\<forall>b \<in> set Z'. OwnerAppId (Bufs s' b) \<noteq> app"
    by (rule es_bus.CleanUpApp_inv [OF i, of app])
  then show ?thesis using owned_buffers_eq [OF sb_invD(1) [OF s(2)]] by (intro exI [of _ s']) simp
qed

end
