(* ===== verification/CFS_SbDemo.thy ===== *)
theory CFS_SbDemo
  imports CFS_SbRun
begin

text \<open>
  A run of the bus on the sample platform configuration, evaluated: the pool is created, the bus initialised, a pipe
  created and subscribed, and a message sent to it.  The witnesses of the properties of \<open>CFS_SbRun\<close> are states of it.
\<close>

section \<open>The pool of the sample platform\<close>

definition demo_ids :: mempool_cfg where "demo_ids = \<lparr>strict_pool_ids = True, align_of_pool = 16\<rparr>"

definition demo_mempools :: es_mempools where
  "demo_mempools = \<lparr>MemPoolTable = \<lambda>_. \<lparr>GenPool = zero_pool, PoolID = CFE_RESOURCEID_UNDEFINED, BaseAddr = 0, PoolOwner = CFE_RESOURCEID_UNDEFINED, MutexId = 0\<rparr>,
     LastMemPoolId = CFE_ResourceId_FromInteger (CFE_ES_POOLID_BASE demo_ids), PoolMemory = \<lambda>_. 0\<rparr>"

definition demo_caller :: sb_caller where
  "demo_caller = \<lparr>AppIdStatus = CFE_SUCCESS, CallerAppId = CFE_ResourceId_FromInteger 0x02110001, TaskIndex = Some 0,
   Now = \<lparr>Seconds = 10, Subseconds = 0\<rparr>, QueueIds = [1, 2, 3], QueueImpl = OS_SUCCESS\<rparr>"

definition demo_message :: CFE_MSG_Message_t where
  "demo_message = (\<lambda>i. if i < 12 then [0x08, 0x83, 0xC0, 0, 0, 5, 0, 0, 0, 0, 0, 0] ! i else 0)"

definition demo_hk :: CFE_SB_HousekeepingTlm_Payload_t where
  "demo_hk = \<lparr>HkCommandCounter = 0, HkCommandErrorCounter = 0, NoSubscribersCounter = 0, MsgSendErrorCounter = 0,
       MsgReceiveErrorCounter = 0, InternalErrorCounter = 0, CreatePipeErrorCounter = 0, SubscribeErrorCounter = 0,
       PipeOptsErrorCounter = 0, DuplicateSubscriptionsCounter = 0, GetPipeIdByNameErrorCounter = 0,
       PipeOverflowErrorCounter = 0, MsgLimitErrorCounter = 0, HkMemInUse = 0, UnmarkedMem = 0\<rparr>"

definition demo_stat :: CFE_SB_StatsTlm_Payload_t where
  "demo_stat = \<lparr>MsgIdsInUse = 0, PeakMsgIdsInUse = 0, PipesInUse = 0, PeakPipesInUse = 0, MemInUse = 0, PeakMemInUse = 0,
       SubscriptionsInUse = 0, PeakSubscriptionsInUse = 0, SBBuffersInUse = 0, PeakSBBuffersInUse = 0\<rparr>"

definition demo_global :: "es_mempools sb_state" where
  "demo_global = clear_global \<lparr>SubscriptionReporting = 0, StopRecurseFlags = \<lambda>_. 0, PipeTbl = \<lambda>_. zero_pipe,
     HKTlm = demo_hk, StatTlm = demo_stat, PrevSub = \<lparr>PktSegment = 0, Entries = 0, Entry = \<lambda>_. CFE_SB_INVALID_MSG_ID\<rparr>, LastPipeId = CFE_RESOURCEID_UNDEFINED, Routing = CFE_SBR_Init,
     Dests = \<lambda>_. \<lparr>DestPipeId = CFE_RESOURCEID_UNDEFINED, Active = 0, MsgId2PipeLim = 0, BuffCount = 0, DestCnt = 0, Scope = 0, Prev = 0, Next = 0\<rparr>,
     Bufs = \<lambda>_. \<lparr>DestRouteId = CFE_SBR_INVALID_ROUTE_ID, OwnerAppId = CFE_RESOURCEID_UNDEFINED, BufMsgId = CFE_SB_INVALID_MSG_ID,
       AllocatedSize = 0, ContentSize = 0, UseCount = 0, Content = \<lambda>_. 0\<rparr>,
     LinkNext = \<lambda>x. x, LinkPrev = \<lambda>x. x, Pool = demo_mempools, Queues = [], PspTime = \<lambda>n. 10 * int n, PspReads = 0, Events = []\<rparr>"

definition demo_cfg :: "es_mempools sb_cfg" where
  "demo_cfg = \<lparr>hash_map = False, build = \<lparr>hdr_ext = False, msgid_v2 = False, little_endian = True, spacecraft_id = 0x42\<rparr>,
     strict_ids = True, content_offset = 64, sizeof_DestinationD = 32, GetPoolBuf = \<lambda>n s. (Pool_size 0, 0, s), PutPoolBuf = \<lambda>n s. (Pool_size 0, s),
     OneSubMid = CFE_SB_ValueToMsgId 0x080E, OneSubSize = 32, OneSubPayload = \<lambda>_ _ _ m. m, HkMessage = \<lambda>_ _. 0, StatMessage = \<lambda>_ _ _. 0,
     PrevSubMessage = \<lambda>_ _. 0\<rparr>"

definition "demo_create = sb_create_pool demo_ids (CFE_ResourceId_FromInteger 0x02110001) 0x10000 demo_mempools"

definition demo_handle :: CFE_ResourceId_t where "demo_handle = CFE_ResourceId_FromInteger 34865153"

lemma demo_sort: "bubble_sort CFE_SB_MemPoolDefSize = Some [8, 16, 20, 36, 64, 96, 128, 160, 256, 512, 1024, 2048, 4096, 8192, 16384, 32768, 32896]"
  unfolding CFE_SB_MemPoolDefSize_def by (simp add: bubble_sort.simps)

lemmas demo_rid = CFE_ResourceId_FindNext_def CFE_ES_CheckMemPoolSlotUsed_def CFE_ES_LocateMemPoolRecordByID_def CFE_ES_MemPoolID_ToIndex_def
  CFE_ResourceId_ToIndex.simps CFE_ResourceId_GetBase_def CFE_ResourceId_GetSerial_def numeral_eq_Suc CFE_ES_MemPoolRecordIsUsed_def CFE_ES_POOLID_BASE_def

definition demo_sizes :: "size_t list" where
  "demo_sizes = [8, 16, 20, 36, 64, 96, 128, 160, 256, 512, 1024, 2048, 4096, 8192, 16384, 32768, 32896]"

definition demo_bus_pool :: CFE_ES_GenPoolRecord_t where
  "demo_bus_pool = \<lparr>PoolTotalSize = 524288, PoolMaxOffset = 524288, AlignMask = 15, TailPosition = 0, PoolAllocationCount = 0,
     ValidationErrorCount = 0, NumBuckets = 17, Buckets = \<lambda>i. if i < 17 then zero_bucket\<lparr>BlockSize := demo_sizes ! i\<rparr> else zero_bucket\<rparr>"

lemma demo_init_pool: "CFE_ES_GenPoolInitialize 0 524288 16 17 CFE_SB_MemPoolDefSize = Some (CFE_SUCCESS, demo_bus_pool)"
proof -
  have "take 17 CFE_SB_MemPoolDefSize = CFE_SB_MemPoolDefSize" "length demo_sizes = 17" by (simp_all add: CFE_SB_MemPoolDefSize_def demo_sizes_def)
  then show ?thesis using demo_sort [folded demo_sizes_def]
    by (simp add: CFE_ES_GenPoolInitialize_def demo_bus_pool_def zero_pool_def Let_def) (simp add: demo_sizes_def word_le_nat_alt)
qed

lemma demo_find_next: "CFE_ResourceId_FindNext (LastMemPoolId demo_mempools) 10 (Some (CFE_ES_CheckMemPoolSlotUsed demo_ids demo_mempools)) = demo_handle"
  "CFE_ES_LocateMemPoolRecordByID demo_ids demo_handle = Some 1"
  by code_simp+

lemma demo_reserve: "reserve_pool demo_ids demo_mempools = (Some (1, demo_handle), demo_mempools\<lparr>MemPoolTable := (MemPoolTable demo_mempools)
   (1 := \<lparr>GenPool = zero_pool, PoolID = RESERVED_ID, BaseAddr = 0, PoolOwner = CFE_RESOURCEID_UNDEFINED, MutexId = 0\<rparr>), LastMemPoolId := demo_handle\<rparr>)"
  using demo_find_next by (simp add: reserve_pool_def)

lemma demo_min_size: "CFE_ES_GenPoolCalcMinSize 17 CFE_SB_MemPoolDefSize 1 = 32"
  by code_simp

definition demo_mem :: es_mempools where
  "demo_mem = \<lparr>MemPoolTable = (MemPoolTable demo_mempools) (1 := \<lparr>GenPool = demo_bus_pool, PoolID = demo_handle, BaseAddr = 0x10000, 
     PoolOwner = CFE_ResourceId_FromInteger 34668545, MutexId = 0\<rparr>), LastMemPoolId = demo_handle, PoolMemory = \<lambda>_. 0\<rparr>"

lemma demo_created: "demo_create = Some (CFE_SUCCESS, Some demo_handle, demo_mem)"
  by (simp add: demo_create_def sb_create_pool_def CFE_ES_PoolCreateEx_def demo_init_pool demo_reserve demo_min_size demo_ids_def [THEN arg_cong [of _ _ align_of_pool]]) (simp add: demo_mem_def demo_mempools_def)

section \<open>Initialisation, a pipe and a subscription\<close>

abbreviation demo_bus :: "es_mempools sb_cfg" where "demo_bus \<equiv> es_cfg demo_ids demo_handle demo_cfg"

definition demo_start :: "es_mempools sb_state" where
  "demo_start = snd (CFE_SB_EarlyInit demo_bus OS_SUCCESS (CFE_SUCCESS, demo_mem) demo_global)"

lemma demo_start_reachable: "sb_reachable demo_ids demo_handle demo_cfg demo_start"
proof (rule sb_reachable.Start)
  show "sb_create_pool demo_ids (CFE_ResourceId_FromInteger 0x02110001) 0x10000 demo_mempools = Some (CFE_SUCCESS, Some demo_handle, demo_mem)"
    using demo_created by (simp add: demo_create_def)
  show "CFE_SB_EarlyInit demo_bus OS_SUCCESS (CFE_SUCCESS, demo_mem) demo_global = (fst (CFE_SB_EarlyInit demo_bus OS_SUCCESS (CFE_SUCCESS, demo_mem) demo_global), demo_start)"
    by (simp add: demo_start_def)
qed (simp_all add: demo_global_def demo_ids_def clear_global_def)

definition demo_pipe :: CFE_ResourceId_t where "demo_pipe = CFE_ResourceId_FromInteger 34996225"

lemma demo_bus_simps [simp]: "strict_ids demo_bus" "\<not> hash_map demo_bus" "build demo_bus = build demo_cfg"
   "CFE_SB_PIPEID_BASE demo_bus = 34996224"
  by (simp_all add: es_cfg_def demo_cfg_def CFE_SB_PIPEID_BASE_def)

lemma demo_start_eq: "demo_start = demo_global\<lparr>Pool := demo_mem, LastPipeId := CFE_ResourceId_FromInteger 0x02160000\<rparr>"
  by (simp add: demo_start_def demo_global_def CFE_SB_EarlyInit_def CFE_SB_InitBuffers_def clear_global_def CFE_SB_InitPipeTbl_def CFE_SB_TrackingListReset_def fun_eq_iff)

definition "demo_s1 = snd (snd (CFE_SB_CreatePipe demo_bus demo_caller False 4 (Some ''PIPE'') demo_start))"

lemma FindNext_first:
  assumes "0 < T" "CFE_ResourceId_GetSerial i + 1 < 0xFFFF" "\<not> f (CFE_ResourceId_FromInteger (CFE_ResourceId_GetBase i + (CFE_ResourceId_GetSerial i + 1)))"
  shows "CFE_ResourceId_FindNext i T (Some f) = CFE_ResourceId_FromInteger (CFE_ResourceId_GetBase i + (CFE_ResourceId_GetSerial i + 1))"
proof -
  obtain n where "unat T = Suc n" using assms(1) by (cases "unat T") (auto simp: word_less_nat_alt)
  then show ?thesis using assms(2,3) by (simp add: CFE_ResourceId_FindNext_def Let_def linorder_not_le [symmetric])
qed

lemma demo_locate: "CFE_SB_LocatePipeDescByID demo_bus demo_pipe = Some 1"
  by (simp add: CFE_SB_LocatePipeDescByID_def CFE_SB_PipeId_ToIndex_def demo_pipe_def)

lemma demo_next_pipe: "CFE_ResourceId_FindNext (LastPipeId demo_start) 64 (Some (CFE_SB_CheckPipeDescSlotUsed demo_bus demo_start)) = demo_pipe"
  by (subst FindNext_first)
    (simp_all add: demo_start_eq CFE_SB_CheckPipeDescSlotUsed_def demo_locate [unfolded demo_pipe_def] demo_global_def CFE_SB_PipeDescIsUsed_def CFE_ResourceId_GetBase_def CFE_ResourceId_GetSerial_def demo_pipe_def clear_global_def)

lemma demo_s1_eq: "demo_s1 = demo_global\<lparr>Pool := demo_mem, LastPipeId := demo_pipe, Queues := [(1, \<lparr>QueueName = ''PIPE'', QueueDepth = 4, QueueItems = []\<rparr>)], Events := [CFE_SB_PIPE_ADDED_EID],
   PipeTbl := (\<lambda>_. zero_pipe)(1 := zero_pipe\<lparr>PipeId := demo_pipe, PipeAppId := CallerAppId demo_caller, SysQueueId := 1, MaxQueueDepth := 4\<rparr>),
   StatTlm := demo_stat\<lparr>PipesInUse := 1, PeakPipesInUse := 1\<rparr>\<rparr>"
  by (simp add: demo_s1_def CFE_SB_CreatePipe_def reserve_pipe_def demo_next_pipe demo_locate OS_QueueCreate_def demo_caller_def) (simp add: demo_start_eq demo_global_def clear_global_def demo_stat_def OS_QueueGetIdByName_def max_stat_def)

definition "demo_bus_pool1 = (set_bucket (\<lambda>b. b\<lparr>AllocationCount := AllocationCount b + 1\<rparr>) 3 demo_bus_pool)\<lparr>TailPosition := 68, PoolAllocationCount := 1\<rparr>"

definition demo_mem_with :: "CFE_ES_GenPoolRecord_t \<Rightarrow> memory \<Rightarrow> es_mempools" where
  "demo_mem_with p m = demo_mem\<lparr>MemPoolTable := (MemPoolTable demo_mem) (1 := (MemPoolTable demo_mem 1)\<lparr>GenPool := p\<rparr>), PoolMemory := m\<rparr>"

lemma demo_find: "find_bucket_index bs r 17 0 = (if r \<le> BlockSize (bs 0) then 0 else if r \<le> BlockSize (bs 1) then 1 else if r \<le> BlockSize (bs 2) then 2 else
   if r \<le> BlockSize (bs 3) then 3 else if r \<le> BlockSize (bs 4) then 4 else if r \<le> BlockSize (bs 5) then 5 else find_bucket_index bs r 11 6)"
  by (simp add: eval_nat_numeral)

lemmas demo_get_eval = CFE_ES_GenPoolGetBlock_def CFE_ES_GenPoolFindBucket_def CFE_ES_GenPoolRecyclePoolBlock_def
  CFE_ES_GenPoolCreatePoolBlock_def CFE_ES_GenPoolGetBucketState_def set_bucket_def
  next_block_offset_def direct_storage_def CFE_ES_MemPoolDirectRetrieve_def CFE_ES_MemPoolDirectCommit_def Let_def

lemma demo_mem_simps [simp]: "MemPoolTable demo_mem (Suc 0) = \<lparr>GenPool = demo_bus_pool, PoolID = demo_handle, BaseAddr = 0x10000, 
     PoolOwner = CFE_ResourceId_FromInteger 34668545, MutexId = 0\<rparr>"
   "MemPoolTable (demo_mem_with p m) (Suc 0) = \<lparr>GenPool = p, PoolID = demo_handle, BaseAddr = 0x10000, 
     PoolOwner = CFE_ResourceId_FromInteger 34668545, MutexId = 0\<rparr>"
   "PoolMemory (demo_mem_with p m) = m"
  by (simp_all add: demo_mem_def demo_mem_with_def)

lemma demo_block1: "\<exists>m'. CFE_ES_GenPoolGetBlock (direct_storage 0x10000) demo_bus_pool m 32 = (CFE_SUCCESS, demo_bus_pool1, m', Some 32)"
  by (simp add: demo_get_eval demo_bus_pool_def demo_bus_pool1_def demo_find demo_sizes_def)

lemma demo_get1: "\<exists>m. SB_GetPoolBuf demo_ids demo_handle 32 demo_mem = (Pool_size 32, 65568, demo_mem_with demo_bus_pool1 m)"
proof -
  obtain m where m: "CFE_ES_GenPoolGetBlock (direct_storage 0x10000) demo_bus_pool (PoolMemory demo_mem) 32 = (CFE_SUCCESS, demo_bus_pool1, m, Some 32)" using demo_block1 by blast
  show ?thesis
   by (rule exI [of _ m]) (simp add: SB_GetPoolBuf_def CFE_ES_GetPoolBuf_def CFE_ES_MemPoolRecordIsMatch_def demo_find_next m Let_def demo_mem_with_def)
qed

definition "demo_bus_pool2 = (set_bucket (\<lambda>b. b\<lparr>AllocationCount := AllocationCount b + 1\<rparr>) 5 demo_bus_pool1)\<lparr>TailPosition := 192, PoolAllocationCount := 2\<rparr>"

lemma demo_block2: "\<exists>m'. CFE_ES_GenPoolGetBlock (direct_storage 0x10000) demo_bus_pool1 m 76 = (CFE_SUCCESS, demo_bus_pool2, m', Some 96)"
  by (simp add: demo_get_eval demo_bus_pool_def demo_bus_pool1_def demo_bus_pool2_def demo_find demo_sizes_def)

lemma demo_get2: "\<exists>m'. SB_GetPoolBuf demo_ids demo_handle 76 (demo_mem_with demo_bus_pool1 m) = (Pool_size 76, 65632, demo_mem_with demo_bus_pool2 m')"
proof -
  obtain m' where m: "CFE_ES_GenPoolGetBlock (direct_storage 0x10000) demo_bus_pool1 m 76 = (CFE_SUCCESS, demo_bus_pool2, m', Some 96)" using demo_block2 by blast
  have "PoolID (MemPoolTable (demo_mem_with demo_bus_pool1 m) 1) = demo_handle" by simp
  then show ?thesis
   by (intro exI [of _ m']) (simp add: SB_GetPoolBuf_def CFE_ES_GetPoolBuf_def CFE_ES_MemPoolRecordIsMatch_def demo_find_next m Let_def, simp add: demo_mem_with_def)
qed

abbreviation demo_mid :: CFE_SB_MsgId_t where "demo_mid \<equiv> CFE_SB_ValueToMsgId 0x0883"

definition "demo_routes = CFE_SBR_Init\<lparr>MSGMAP := (\<lambda>_. CFE_SBR_INVALID_ROUTE_ID)(0x883 := CFE_SBR_RouteId 1),
   RoutingTbl := (RoutingTbl CFE_SBR_Init)(0 := \<lparr>ListHeadPtr = 0, MsgId = demo_mid, SeqCnt = 0\<rparr>), RouteIdxTop := 1\<rparr>"

definition "demo_s1r = demo_s1\<lparr>Routing := demo_routes, StatTlm := demo_stat\<lparr>PipesInUse := 1, PeakPipesInUse := 1, MsgIdsInUse := 1, PeakMsgIdsInUse := 1\<rparr>\<rparr>"

lemmas demo_sbr_eval = CFE_SBR_GetRouteId_def CFE_SBR_GetRouteId_direct_def CFE_SBR_AddRoute_def CFE_SBR_SetRouteId_def CFE_SBR_SetRouteId_direct_def CFE_SBR_Init_def CFE_SBR_Init_Map_def
  CFE_SB_IsValidMsgId_def CFE_SBR_IsValidRouteId_def update_entry_def CFE_SBR_ValueToRouteId_def CFE_SBR_RouteIdToValue_def

lemma demo_s1_route: "subscribe_route demo_bus demo_caller demo_mid demo_pipe 0 demo_s1 = Some (CFE_SUCCESS, 0, CFE_SBR_RouteId 1, 0, demo_s1r)"
  by (simp add: demo_s1r_def demo_routes_def subscribe_route_def CFE_SB_PipeDescIsMatch_def demo_locate demo_s1_eq demo_global_def demo_sbr_eval clear_global_def demo_stat_def max_stat_def Let_def)

definition demo_s2 :: "memory \<Rightarrow> es_mempools sb_state" where
 "demo_s2 m = demo_s1r\<lparr>Routing := demo_routes\<lparr>RoutingTbl := (RoutingTbl CFE_SBR_Init)(0 := \<lparr>ListHeadPtr = 65568, MsgId = demo_mid, SeqCnt = 0\<rparr>)\<rparr>,
   Dests := (Dests demo_global)(65568 := \<lparr>DestPipeId = demo_pipe, Active = 1, MsgId2PipeLim = 4, BuffCount = 0, DestCnt = 0, Scope = 0, Prev = 0, Next = 0\<rparr>),
   Pool := demo_mem_with demo_bus_pool1 m,
   StatTlm := demo_stat\<lparr>MsgIdsInUse := 1, PeakMsgIdsInUse := 1, PipesInUse := 1, PeakPipesInUse := 1, MemInUse := 32, PeakMemInUse := 32, SubscriptionsInUse := 1, PeakSubscriptionsInUse := 1\<rparr>,
   Events := [CFE_SB_PIPE_ADDED_EID, CFE_SB_SUBSCRIPTION_RCVD_EID]\<rparr>"

lemmas demo_state = demo_s1r_def demo_s1_eq demo_global_def clear_global_def demo_stat_def

lemma demo_s1_dest: "\<exists>m. subscribe_dest demo_bus demo_pipe 4 0 (CFE_SBR_RouteId 1) demo_s1r = Some (CFE_SUCCESS, 0, (demo_s2 m)\<lparr>Events := [CFE_SB_PIPE_ADDED_EID]\<rparr>)"
proof -
  obtain m where m: "SB_GetPoolBuf demo_ids demo_handle 32 demo_mem = (Pool_size 32, 65568, demo_mem_with demo_bus_pool1 m)" using demo_get1 by blast
  have "Pool demo_s1r = demo_mem" "CFE_SBR_GetDestListHeadPtr (Routing demo_s1r) (CFE_SBR_RouteId 1) = 0"
    by (simp_all add: demo_state CFE_SBR_GetDestListHeadPtr_def demo_routes_def demo_sbr_eval)
  then show ?thesis
    by (intro exI [of _ m]) (simp add: subscribe_dest_def scan_dests.simps CFE_SB_GetDestinationBlk_def m pool_negative_def Let_def,
       simp add: CFE_SB_AddDestNode_def Let_def demo_s2_def demo_state set_dest_head_def CFE_SBR_SetDestListHeadPtr_def demo_routes_def demo_sbr_eval max_stat_def CFE_SBR_GetDestListHeadPtr_def)
qed

lemma demo_subscribed: "\<exists>m. CFE_SB_SubscribeFull demo_bus demo_caller demo_mid demo_pipe 0 4 0 demo_s1 = Some (CFE_SUCCESS, demo_s2 m)"
proof -
  obtain m where m: "subscribe_dest demo_bus demo_pipe 4 0 (CFE_SBR_RouteId 1) demo_s1r = Some (CFE_SUCCESS, 0, (demo_s2 m)\<lparr>Events := [CFE_SB_PIPE_ADDED_EID]\<rparr>)" using demo_s1_dest by blast
  then show ?thesis
    by (intro exI [of _ m]) (simp add: CFE_SB_SubscribeFull_def demo_s1_route CFE_SB_SendSubscriptionReport_def, simp add: demo_s2_def demo_state)
qed

section \<open>A message\<close>

lemma demo_msg_eval: "CFE_MSG_GetMsgId (build demo_cfg) (Some demo_message) (Some (CFE_SB_ValueToMsgId 0)) = (CFE_SUCCESS, Some demo_mid)"
  "CFE_MSG_GetSize (Some demo_message) (Some 0) = (CFE_SUCCESS, Some 12)"
  by code_simp+

lemma demo_len_eval: "demo_message 4 = 0" "demo_message 5 = 5" by (simp_all add: demo_message_def)

definition "demo_txn = (CFE_SB_MessageTxn_Init 16)\<lparr>IsTransmit := True, RoutingMsgId := demo_mid, TxnContentSize := 12\<rparr>"

lemma demo_setup: "transmit_setup demo_bus False (Some demo_message) = demo_txn"
  by (simp add: transmit_setup_def CFE_SB_TransmitTxn_Init_def CFE_SB_MessageTxn_IsOK_def CFE_SB_TransmitTxn_SetupFromMsg_def Let_def demo_msg_eval demo_txn_def 
     CFE_SB_MessageTxn_Init_def CFE_SB_MessageTxn_SetRoutingMsgId_def CFE_SB_MessageTxn_SetContentSize_def demo_sbr_eval demo_len_eval)

lemma demo_alloc: "fst (CFE_SB_AllocateMessageBuffer demo_bus demo_caller 12 (demo_s2 m)) \<noteq> NULL"
proof -
  obtain m' where m: "SB_GetPoolBuf demo_ids demo_handle 76 (demo_mem_with demo_bus_pool1 m) = (Pool_size 76, 65632, demo_mem_with demo_bus_pool2 m')" using demo_get2 by blast
  have "Pool (demo_s2 m) = demo_mem_with demo_bus_pool1 m" by (simp add: demo_s2_def)
  then show ?thesis by (simp add: CFE_SB_AllocateMessageBuffer_def demo_caller_def CFE_SB_GetBufferFromPool_def m pool_negative_def Let_def)
qed

lemma demo_s2_simps [simp]:
  "PipeTbl (demo_s2 m) = (\<lambda>_. zero_pipe)(1 := zero_pipe\<lparr>PipeId := demo_pipe, PipeAppId := CallerAppId demo_caller, SysQueueId := 1, MaxQueueDepth := 4\<rparr>)"
  "Queues (demo_s2 m) = [(1, \<lparr>QueueName = ''PIPE'', QueueDepth = 4, QueueItems = []\<rparr>)]"
  "Dests (demo_s2 m) 65568 = \<lparr>DestPipeId = demo_pipe, Active = 1, MsgId2PipeLim = 4, BuffCount = 0, DestCnt = 0, Scope = 0, Prev = 0, Next = 0\<rparr>"
  by (simp_all add: demo_s2_def demo_state)

lemma demo_s2_route: "route_of (Routing (demo_s2 m)) demo_mid = rid 0" "route_head (demo_s2 m) 0 = 65568"
  by (simp_all add: route_of_def demo_s2_def msgid_at_def route_head_def demo_routes_def)

lemma demo_s2_dests: "dests_of (demo_s2 m) 0 = [65568]"
proof -
  have n: "(16 :: nat) = Suc (Suc 14)" by simp
  show ?thesis unfolding dests_of_def demo_s2_route n walk.simps by simp
qed

lemma demo_s2_match: "CFE_SB_PipeDescIsMatch demo_bus demo_pipe (demo_s2 m) = Some 1"
  by (simp add: CFE_SB_PipeDescIsMatch_def demo_locate)

lemma demo_accepts: "accepts demo_bus demo_caller (demo_s2 m) demo_mid 1"
  by (simp add: accepts_def subscribed_def demo_s2_route demo_s2_dests rid_def demo_sbr_eval dest_pipe_def demo_s2_match)

section \<open>The run\<close>

lemma demo_run:
  obtains s1 s2 s3 x where "sb_reachable demo_ids demo_handle demo_cfg s1" "pipe_owner demo_bus s1 demo_pipe = Some (CallerAppId demo_caller)"
    "CFE_SB_SubscribeFull demo_bus demo_caller demo_mid demo_pipe 0 4 0 s1 = Some (CFE_SUCCESS, s2)"
    "sb_reachable demo_ids demo_handle demo_cfg s2" "pipe_owner demo_bus s2 demo_pipe = Some (CallerAppId demo_caller)"
    "CFE_SB_PipeDescIsMatch demo_bus demo_pipe s2 = Some 1" "inbox s2 1 = []"
    "subscribers s2 demo_mid = [demo_pipe]" "live_pipe (PipeTbl s2 1)" "accepts demo_bus demo_caller s2 demo_mid 1"
    "CFE_SB_TransmitMsg demo_bus demo_caller (Some demo_message) False s2 = Some (CFE_SUCCESS, s3)"
    "sb_reachable demo_ids demo_handle demo_cfg s3" "CFE_SB_PipeDescIsMatch demo_bus demo_pipe s3 = Some 1" "inbox s3 1 = [x]"
    "\<exists>b. b \<in># references s3"
proof -
  have c: "caller_ok demo_caller" by (simp add: caller_ok_def demo_caller_def)
  have r1: "sb_reachable demo_ids demo_handle demo_cfg demo_s1"
    by (rule sb_reachable.Step [OF demo_start_reachable, of demo_caller "CreatePipe False 4 (Some ''PIPE'')"]) (simp_all add: legal_call_def c sb_step_def demo_s1_def)
  obtain m where m: "CFE_SB_SubscribeFull demo_bus demo_caller demo_mid demo_pipe 0 4 0 demo_s1 = Some (CFE_SUCCESS, demo_s2 m)" using demo_subscribed by blast
  have r2: "sb_reachable demo_ids demo_handle demo_cfg (demo_s2 m)"
    by (rule sb_reachable.Step [OF r1, of demo_caller "SubscribeFull demo_mid demo_pipe 0 4 0"]) (simp_all add: legal_call_def c sb_step_def m)
  obtain Z D where i: "sb_inv (pool_holds demo_ids demo_handle) demo_bus Z D (demo_s2 m)" using reachable_inv [OF r2] by blast
  obtain st s3 where t: "CFE_SB_TransmitMsg demo_bus demo_caller (Some demo_message) False (demo_s2 m) = Some (st, s3)" "same_setup (demo_s2 m) s3"
    by (rule es_bus.TransmitMsg_inv [OF sb_invD(1) [OF i] c])
  have "st = CFE_SUCCESS"
    by (rule TransmitMsg_relayed [OF c _ _ t(1)]) (simp_all only: demo_setup, simp_all add: demo_txn_def CFE_SB_MessageTxn_IsOK_def CFE_SB_MessageTxn_Init_def demo_alloc)
  note t = t [unfolded this]
  have r3: "sb_reachable demo_ids demo_handle demo_cfg s3"
    by (rule sb_reachable.Step [OF r2, of demo_caller "TransmitMsg (Some demo_message) False"]) (simp_all add: legal_call_def c sb_step_def t(1))
  have live: "live_pipe (PipeTbl (demo_s2 m) 1)" by (simp add: live_pipe_def demo_pipe_def)
  have inb: "inbox (demo_s2 m) 1 = []" by (simp add: inbox_def pipe_items_def)
  have mid: "the (snd (CFE_MSG_GetMsgId (build demo_bus) (Some demo_message) (Some CFE_SB_INVALID_MSG_ID))) = demo_mid" using demo_msg_eval(1) by simp
  obtain x where x: "inbox s3 1 = [x]"
    using es_bus.TransmitMsg_delivers [OF i c t(1), unfolded mid] live inb demo_accepts by force
  have m3: "CFE_SB_PipeDescIsMatch demo_bus demo_pipe s3 = Some 1" using same_setup_match [OF t(2)] demo_s2_match by simp
  have sub: "subscribers (demo_s2 m) demo_mid = [demo_pipe]" by (simp add: subscribers_def Let_def demo_s2_route demo_s2_dests rid_def demo_sbr_eval)
  have own: "pipe_owner demo_bus demo_s1 demo_pipe = Some (CallerAppId demo_caller)" by (simp add: pipe_owner_def CFE_SB_PipeDescIsMatch_def demo_locate demo_s1_eq)
  have own2: "pipe_owner demo_bus (demo_s2 m) demo_pipe = Some (CallerAppId demo_caller)" by (simp add: pipe_owner_def demo_s2_match)
  obtain b where "b \<in> set (pipe_items s3 1)" using x by (auto simp: inbox_def)
  then have "\<exists>b. b \<in># references s3" using pipe_items_refs by (force simp: references_def)
  then show thesis using that [OF r1 own m r2 own2 demo_s2_match inb sub live demo_accepts t(1) r3 m3 x] by blast
qed

section \<open>Witnesses\<close>

lemma demo_caller_ok: "caller_ok demo_caller"
  by (simp add: caller_ok_def demo_caller_def)

theorem bus_memory_exact_witness:
  "\<exists>s. sb_reachable demo_ids demo_handle demo_cfg s \<and> references s \<noteq> {#} \<and>
     pool_holds demo_ids demo_handle (Pool s) (set_mset (references s) \<union> destinations s) \<and> set_mset (references s) \<inter> destinations s = {}"
proof (rule demo_run)
  fix s assume "sb_reachable demo_ids demo_handle demo_cfg s" "\<exists>b. b \<in># references s"
  then show ?thesis using bus_memory_exact by (intro exI [of _ s]) auto
qed

theorem use_counts_exact_witness:
  "\<exists>s b. sb_reachable demo_ids demo_handle demo_cfg s \<and> b \<in># references s \<and> unat (UseCount (Bufs s b)) = count (references s) b"
proof (rule demo_run)
  fix s assume r: "sb_reachable demo_ids demo_handle demo_cfg s" "\<exists>b. b \<in># references s"
  then obtain b where "b \<in># references s" by blast
  then show ?thesis using use_counts_exact [OF r(1)] r(1) by blast
qed

theorem calls_return_witness:
  "\<exists>s. sb_reachable demo_ids demo_handle demo_cfg s \<and> sb_step demo_bus demo_caller (ReceiveBuffer False demo_pipe CFE_SB_PEND_FOREVER) s = None \<and>
     sb_step demo_bus demo_caller (ReceiveBuffer False demo_pipe 5) s \<noteq> None"
proof (rule demo_run)
  fix s assume r: "sb_reachable demo_ids demo_handle demo_cfg s" "CFE_SB_PipeDescIsMatch demo_bus demo_pipe s = Some 1" "inbox s 1 = []"
  have "legal_call demo_bus demo_caller (ReceiveBuffer False demo_pipe n) s" for n by (simp add: legal_call_def demo_caller_ok)
  moreover have "waits_forever demo_bus (ReceiveBuffer False demo_pipe n) s \<longleftrightarrow> n = CFE_SB_PEND_FOREVER" for n
    using r(2,3) by (simp add: waits_forever_def inbox_def)
  ultimately show ?thesis using calls_return [OF r(1), of demo_caller] r(1) by (intro exI [of _ s]) simp
qed

theorem transmit_delivers_witness:
  "\<exists>s s' x. sb_reachable demo_ids demo_handle demo_cfg s \<and> inbox s 1 = [] \<and>
     CFE_SB_TransmitMsg demo_bus demo_caller (Some demo_message) False s = Some (CFE_SUCCESS, s') \<and>
     inbox s' 1 = [(demo_mid, 12, x)] \<and> (\<forall>k < 12. x k = demo_message k)"
proof (rule demo_run)
  fix s s' assume r: "sb_reachable demo_ids demo_handle demo_cfg s" "inbox s 1 = []" "live_pipe (PipeTbl s 1)"
    "accepts demo_bus demo_caller s demo_mid 1" "CFE_SB_TransmitMsg demo_bus demo_caller (Some demo_message) False s = Some (CFE_SUCCESS, s')"
  obtain x a where "\<forall>k < 12. x k = demo_message k" "inbox s' 1 = [(demo_mid, 12, sent_message demo_cfg demo_caller (Routing s) False (route_of (Routing s) demo_mid) a x)]"
    using transmit_delivers [OF r(1) demo_caller_ok r(5)] r(2-4) unfolding demo_msg_eval by force
  then show ?thesis using r by (intro exI [of _ s] exI [of _ s'] exI [of _ x]) (simp add: sent_message_def)
qed

theorem receive_fifo_witness:
  "\<exists>s x b s'. sb_reachable demo_ids demo_handle demo_cfg s \<and> inbox s 1 = [x] \<and>
     CFE_SB_ReceiveBuffer demo_bus demo_caller False demo_pipe CFE_SB_PEND_FOREVER s = Some (CFE_SUCCESS, Some (b + 64), s') \<and>
     stored s' b = x \<and> inbox s' 1 = []"
proof (rule demo_run)
  fix s x assume r: "sb_reachable demo_ids demo_handle demo_cfg s" "CFE_SB_PipeDescIsMatch demo_bus demo_pipe s = Some 1" "inbox s 1 = [x]"
  obtain b s' where "CFE_SB_ReceiveBuffer demo_bus demo_caller False demo_pipe CFE_SB_PEND_FOREVER s = Some (CFE_SUCCESS, Some (b + 64), s')"
    "stored s' b = x" "inbox s' 1 = []"
    using receive_fifo [OF r(1) _ r(2,3), of CFE_SB_PEND_FOREVER demo_caller] by auto
  then show ?thesis using r by blast
qed

theorem subscribe_exact_witness:
  "\<exists>s s'. sb_reachable demo_ids demo_handle demo_cfg s \<and>
     CFE_SB_SubscribeFull demo_bus demo_caller demo_mid demo_pipe 0 4 0 s = Some (CFE_SUCCESS, s') \<and> demo_pipe \<in> set (subscribers s' demo_mid)"
proof (rule demo_run)
  fix s s' assume r: "sb_reachable demo_ids demo_handle demo_cfg s"
    "CFE_SB_SubscribeFull demo_bus demo_caller demo_mid demo_pipe 0 4 0 s = Some (CFE_SUCCESS, s')"
  then show ?thesis using subscribe_exact [OF r(1) demo_caller_ok, of demo_mid demo_pipe 0 4 0] by auto
qed

theorem unsubscribe_exact_witness:
  "\<exists>s s'. sb_reachable demo_ids demo_handle demo_cfg s \<and> subscribers s demo_mid = [demo_pipe] \<and>
     CFE_SB_UnsubscribeFull demo_bus demo_mid demo_pipe 0 (CallerAppId demo_caller) s = Some (CFE_SUCCESS, s') \<and> subscribers s' demo_mid = []"
proof (rule demo_run)
  fix s assume r: "sb_reachable demo_ids demo_handle demo_cfg s" "subscribers s demo_mid = [demo_pipe]"
    and o: "pipe_owner demo_bus s demo_pipe = Some (CallerAppId demo_caller)"
  have "CFE_SB_IsValidMsgId demo_mid" by (simp add: CFE_SB_IsValidMsgId_def)
  then obtain s' where "CFE_SB_UnsubscribeFull demo_bus demo_mid demo_pipe 0 (CallerAppId demo_caller) s = Some (CFE_SUCCESS, s')"
    "\<forall>m. set (subscribers s' m) = set (subscribers s m) - (if m = demo_mid then {demo_pipe} else {})"
    using unsubscribe_exact [OF r(1), of demo_mid demo_pipe 0 "CallerAppId demo_caller"] o by auto
  moreover from this have "subscribers s' demo_mid = []" using r(2) by (simp flip: set_empty)
  ultimately show ?thesis using r by blast
qed

theorem cleanup_complete_witness:
  "\<exists>s s'. sb_reachable demo_ids demo_handle demo_cfg s \<and> subscribers s demo_mid = [demo_pipe] \<and>
     CFE_SB_CleanUpApp demo_bus (CallerAppId demo_caller) s = Some (CFE_SUCCESS, s') \<and> subscribers s' demo_mid = [] \<and>
     pipe_owner demo_bus s' demo_pipe = None"
proof (rule demo_run)
  fix s assume r: "sb_reachable demo_ids demo_handle demo_cfg s" "subscribers s demo_mid = [demo_pipe]"
    and o: "pipe_owner demo_bus s demo_pipe = Some (CallerAppId demo_caller)"
  obtain s' where "CFE_SB_CleanUpApp demo_bus (CallerAppId demo_caller) s = Some (CFE_SUCCESS, s')"
    "pipe_owner demo_bus s' demo_pipe = None"
    "subscribers s' demo_mid = filter (\<lambda>p. pipe_owner demo_bus s p \<noteq> Some (CallerAppId demo_caller)) (subscribers s demo_mid)"
    using cleanup_complete [OF r(1), of "CallerAppId demo_caller"] o by auto
  then show ?thesis using r o by auto
qed

end
