(* ===== verification/CFS_Fs.thy ===== *)
theory CFS_Fs
  imports CFS_Prelude CFS_ResourceId "HOL-Library.Monad_Syntax"
begin

text \<open>
  File services, \<^verbatim>\<open>cfe_fs_api.c\<close>: the standard file header, the parser of file names with default path and
  extension, and the writer of files in the background.
  The calls of the operating system on files answer from a stream of results in the state and are logged there with
  what they write.  A buffer that holds a string is the list of its characters; what lies behind the terminating null
  is not modelled for outputs, and is part of the list for inputs.
\<close>

section \<open>Files of the operating system\<close>

datatype 'r file_op =
    Opened string
  | Sought nat
  | Wrote_header "uint8 list"
  | Wrote_time uint32 uint32
  | Wrote_record 'r
  | Closed

record 'r os_files =
  OsAnswers :: "nat \<Rightarrow> int option"
  OsAsked :: nat
  FileOps :: "'r file_op list"

abbreviation (input) OS_SUCCESS_STATUS :: int where "OS_SUCCESS_STATUS \<equiv> 0"

text \<open>A call that succeeds completely is answered by \<open>None\<close>; \<open>full\<close> is its result.\<close>

definition os_call :: "'r file_op \<Rightarrow> int \<Rightarrow> 'r os_files \<Rightarrow> int \<times> 'r os_files" where
  "os_call ev full f = (case OsAnswers f (OsAsked f) of None \<Rightarrow> full | Some r \<Rightarrow> r, f\<lparr>OsAsked := OsAsked f + 1, FileOps := FileOps f @ [ev]\<rparr>)"

definition OS_close :: "'r os_files \<Rightarrow> 'r os_files" where
  "OS_close f = f\<lparr>FileOps := FileOps f @ [Closed]\<rparr>"

section \<open>File headers\<close>

record CFE_FS_Header_t =
  ContentType :: uint32
  SubType :: uint32
  HdrLength :: uint32
  HdrSpacecraftID :: uint32
  HdrProcessorID :: uint32
  HdrApplicationID :: uint32
  TimeSeconds :: uint32
  TimeSubSeconds :: uint32
  Description :: string

abbreviation (input) CFE_FS_HDR_DESC_MAX_LEN :: nat where "CFE_FS_HDR_DESC_MAX_LEN \<equiv> 32"
abbreviation (input) sizeof_CFE_FS_Header_t :: nat where "sizeof_CFE_FS_Header_t \<equiv> 64"
abbreviation (input) CFE_FS_FILE_CONTENT_ID :: uint32 where "CFE_FS_FILE_CONTENT_ID \<equiv> 0x63464531"

text \<open>The bytes of a \<^verbatim>\<open>uint32\<close> in the memory of a processor.\<close>

definition bytes32 :: "bool \<Rightarrow> uint32 \<Rightarrow> uint8 list" where
  "bytes32 little v =
     (let bs = [ucast v, ucast (drop_bit 8 v), ucast (drop_bit 16 v), ucast (drop_bit 24 v)]
      in if little then bs else rev bs)"

definition of_bytes32 :: "bool \<Rightarrow> uint8 list \<Rightarrow> uint32" where
  "of_bytes32 little bs =
     (let bs = (if little then bs else rev bs)
      in ucast (bs ! 0) OR push_bit 8 (ucast (bs ! 1)) OR push_bit 16 (ucast (bs ! 2)) OR push_bit 24 (ucast (bs ! 3)))"

definition CFE_FS_ByteSwapUint32 :: "bool \<Rightarrow> uint32 \<Rightarrow> uint32" where
  "CFE_FS_ByteSwapUint32 little v =
     (let InPtr = bytes32 little v in of_bytes32 little [InPtr ! 3, InPtr ! 2, InPtr ! 1, InPtr ! 0])"

definition CFE_FS_ByteSwapCFEHeader :: "bool \<Rightarrow> CFE_FS_Header_t \<Rightarrow> CFE_FS_Header_t" where
  "CFE_FS_ByteSwapCFEHeader little Hdr = Hdr\<lparr>
     ContentType := CFE_FS_ByteSwapUint32 little (ContentType Hdr),
     SubType := CFE_FS_ByteSwapUint32 little (SubType Hdr),
     HdrLength := CFE_FS_ByteSwapUint32 little (HdrLength Hdr),
     HdrSpacecraftID := CFE_FS_ByteSwapUint32 little (HdrSpacecraftID Hdr),
     HdrProcessorID := CFE_FS_ByteSwapUint32 little (HdrProcessorID Hdr),
     HdrApplicationID := CFE_FS_ByteSwapUint32 little (HdrApplicationID Hdr),
     TimeSeconds := CFE_FS_ByteSwapUint32 little (TimeSeconds Hdr),
     TimeSubSeconds := CFE_FS_ByteSwapUint32 little (TimeSubSeconds Hdr)\<rparr>"

text \<open>The memory image of a header: its words, and the description filled with nulls.\<close>

definition pad_desc :: "string \<Rightarrow> string" where
  "pad_desc d = take CFE_FS_HDR_DESC_MAX_LEN (d @ replicate CFE_FS_HDR_DESC_MAX_LEN (CHR 0x00))"

definition header_image :: "bool \<Rightarrow> CFE_FS_Header_t \<Rightarrow> uint8 list" where
  "header_image little Hdr =
     concat (map (bytes32 little)
       [ContentType Hdr, SubType Hdr, HdrLength Hdr, HdrSpacecraftID Hdr, HdrProcessorID Hdr, HdrApplicationID Hdr,
        TimeSeconds Hdr, TimeSubSeconds Hdr]) @
     map (\<lambda>c. of_nat (of_char c)) (pad_desc (Description Hdr))"

definition image_word :: "bool \<Rightarrow> uint8 list \<Rightarrow> nat \<Rightarrow> uint32" where
  "image_word little bs i = of_bytes32 little (take 4 (drop (4 * i) bs))"

definition header_of_image :: "bool \<Rightarrow> uint8 list \<Rightarrow> CFE_FS_Header_t" where
  "header_of_image little bs =
     \<lparr>ContentType = image_word little bs 0, SubType = image_word little bs 1, HdrLength = image_word little bs 2,
      HdrSpacecraftID = image_word little bs 3, HdrProcessorID = image_word little bs 4,
      HdrApplicationID = image_word little bs 5, TimeSeconds = image_word little bs 6,
      TimeSubSeconds = image_word little bs 7,
      Description = takeWhile (\<lambda>c. c \<noteq> CHR 0x00) (map (\<lambda>b. char_of (unat b)) (drop 32 bs))\<rparr>"

definition zero_header :: CFE_FS_Header_t where
  "zero_header = \<lparr>ContentType = 0, SubType = 0, HdrLength = 0, HdrSpacecraftID = 0, HdrProcessorID = 0,
     HdrApplicationID = 0, TimeSeconds = 0, TimeSubSeconds = 0, Description = []\<rparr>"

text \<open>What the code asks of its surroundings: the byte order of the processor, the IDs of spacecraft, processor and
  application, and the time.\<close>

record fs_caller =
  LittleEndian :: bool
  CallerSpacecraftId :: uint32
  CallerProcessorId :: uint32
  CallerAppId :: CFE_ResourceId_t
  CallerTime :: CFE_TIME_SysTime_t

definition CFE_FS_InitHeader :: "CFE_FS_Header_t option \<Rightarrow> string option \<Rightarrow> uint32 \<Rightarrow> CFE_FS_Header_t option" where
  "CFE_FS_InitHeader Hdr Desc FileSubType =
     (case (Hdr, Desc) of
        (Some _, Some d) \<Rightarrow>
          Some (zero_header\<lparr>SubType := FileSubType, Description := take (CFE_FS_HDR_DESC_MAX_LEN - 1) (takeWhile (\<lambda>c. c \<noteq> CHR 0x00) d)\<rparr>)
      | _ \<Rightarrow> Hdr)"

text \<open>The result is an error code or the number of bytes written; the header is left in the byte order of the
  processor, and the file holds the image of the swapped one.\<close>

definition CFE_FS_WriteHeader ::
    "fs_caller \<Rightarrow> CFE_FS_Header_t option \<Rightarrow> 'r os_files
       \<Rightarrow> (CFE_Status_t + int) \<times> CFE_FS_Header_t option \<times> 'r os_files" where
  "CFE_FS_WriteHeader c Hdr f =
     (case Hdr of
        None \<Rightarrow> (Inl CFE_FS_BAD_ARGUMENT, None, f)
      | Some h \<Rightarrow>
          let (OsStatus, f) = os_call (Sought 0) 0 f
          in if OsStatus \<ge> OS_SUCCESS_STATUS
             then let swap = (\<lambda>h. if LittleEndian c then CFE_FS_ByteSwapCFEHeader True h else h);
                      h = swap (h\<lparr>HdrSpacecraftID := CallerSpacecraftId c, HdrProcessorID := CallerProcessorId c,
                                  HdrApplicationID := CFE_ResourceId_ToInteger (CallerAppId c),
                                  HdrLength := of_nat sizeof_CFE_FS_Header_t, ContentType := CFE_FS_FILE_CONTENT_ID,
                                  TimeSeconds := Seconds (CallerTime c), TimeSubSeconds := Subseconds (CallerTime c)\<rparr>);
                      (OsStatus, f) = os_call (Wrote_header (header_image (LittleEndian c) h)) (int sizeof_CFE_FS_Header_t) f;
                      h = swap h
                  in (if OsStatus \<ge> OS_SUCCESS_STATUS then Inr OsStatus else Inl CFE_STATUS_EXTERNAL_RESOURCE_FAIL,
                      Some h, f)
             else (Inl CFE_STATUS_EXTERNAL_RESOURCE_FAIL, Some h, f))"

text \<open>\<open>content\<close> are the bytes that the read finds in the file; a read that fails finds none.\<close>

definition CFE_FS_ReadHeader ::
    "bool \<Rightarrow> uint8 list \<Rightarrow> CFE_FS_Header_t option \<Rightarrow> 'r os_files
       \<Rightarrow> (CFE_Status_t + int) \<times> CFE_FS_Header_t option \<times> 'r os_files" where
  "CFE_FS_ReadHeader little content Hdr f =
     (case Hdr of
        None \<Rightarrow> (Inl CFE_FS_BAD_ARGUMENT, None, f)
      | Some h \<Rightarrow>
          let (OsStatus, f) = os_call (Sought 0) 0 f
          in if OsStatus \<ge> OS_SUCCESS_STATUS
             then let n = min sizeof_CFE_FS_Header_t (length content);
                      h = header_of_image little (take n content @ drop n (header_image little h))
                  in if n \<noteq> sizeof_CFE_FS_Header_t then (Inl CFE_STATUS_EXTERNAL_RESOURCE_FAIL, Some h, f)
                     else (Inr (int n), Some (if little then CFE_FS_ByteSwapCFEHeader True h else h), f)
             else (Inl CFE_STATUS_EXTERNAL_RESOURCE_FAIL, Some h, f))"

definition CFE_FS_SetTimestamp ::
    "bool \<Rightarrow> CFE_TIME_SysTime_t \<Rightarrow> 'r os_files \<Rightarrow> CFE_Status_t \<times> 'r os_files" where
  "CFE_FS_SetTimestamp little NewTimestamp f =
     (let FileOffset = 24; (OsStatus, f) = os_call (Sought FileOffset) (int FileOffset) f
      in if OsStatus = int FileOffset
         then let swap = (\<lambda>v. if little then CFE_FS_ByteSwapUint32 True v else v);
                  (OsStatus, f) = os_call (Wrote_time (swap (Seconds NewTimestamp)) (swap (Subseconds NewTimestamp))) 8 f
              in (if OsStatus = 8 then CFE_SUCCESS else CFE_STATUS_EXTERNAL_RESOURCE_FAIL, f)
         else (CFE_STATUS_EXTERNAL_RESOURCE_FAIL, f))"

section \<open>File names\<close>

text \<open>The state of the parser: the component it is at, the output so far, and the characters of the input that are left,
  \<open>None\<close> when there is no more input.\<close>

datatype fs_component =
    PROCESS_INIT | PATHNAME_COMPONENT | PATHNAME_SEPARATOR | FILENAME_COMPONENT | EXTENSION_SEPARATOR
  | EXTENSION_COMPONENT | END_COMPONENT

record fs_parse =
  Component :: fs_component
  ParseStatus :: CFE_Status_t
  OutputBuffer :: string
  ComponentTerm :: char
  LastPathReached :: bool
  InputPtr :: "string option"

record fs_defaults =
  OutputBufSize :: nat
  DefaultPath :: "string option"
  DefaultExtension :: "string option"

fun next_component :: "fs_component \<Rightarrow> bool \<Rightarrow> fs_component" where
  "next_component PROCESS_INIT at_last = PATHNAME_COMPONENT"
| "next_component PATHNAME_COMPONENT at_last = PATHNAME_SEPARATOR"
| "next_component PATHNAME_SEPARATOR at_last = (if at_last then FILENAME_COMPONENT else PATHNAME_COMPONENT)"
| "next_component FILENAME_COMPONENT at_last = EXTENSION_SEPARATOR"
| "next_component EXTENSION_SEPARATOR at_last = EXTENSION_COMPONENT"
| "next_component EXTENSION_COMPONENT at_last = END_COMPONENT"
| "next_component END_COMPONENT at_last = END_COMPONENT"

text \<open>\<^verbatim>\<open>memchr\<close>, the number of characters before the first \<open>c\<close>.\<close>

definition memchr :: "char \<Rightarrow> string \<Rightarrow> nat option" where
  "memchr c xs = (if c \<in> set xs then Some (length (takeWhile (\<lambda>x. x \<noteq> c) xs)) else None)"

text \<open>Appending stops at a null and when the buffer is full; then the last character makes room for the terminator.\<close>

fun append_component :: "nat \<Rightarrow> string \<Rightarrow> string \<Rightarrow> string \<times> bool" where
  "append_component sz out [] = (out, False)"
| "append_component sz out (c # cs) =
     (if c = CHR 0x00 then (out, False)
      else let out = out @ [c]
           in if length out \<ge> sz then (butlast out, True) else append_component sz out cs)"

fun drop_last :: "char \<Rightarrow> string \<Rightarrow> string" where
  "drop_last c out = rev (dropWhile (\<lambda>x. x = c) (rev out))"

text \<open>One component: the characters it contributes, and the state before they are appended.\<close>

definition parse_component :: "fs_defaults \<Rightarrow> fs_parse \<Rightarrow> string \<times> fs_parse" where
  "parse_component d st =
     (let st = st\<lparr>Component := next_component (Component st) (LastPathReached st)\<rparr>;
          input = the (InputPtr st)
      in case Component st of
           PATHNAME_COMPONENT \<Rightarrow>
             let st = st\<lparr>ComponentTerm := CHR ''/''\<rparr>
             in (case memchr (CHR ''/'') input of
                   Some n \<Rightarrow> (take n input, st\<lparr>InputPtr := Some (drop n input)\<rparr>)
                 | None \<Rightarrow>
                     (case DefaultPath d of
                        Some path \<Rightarrow> (if OutputBuffer st = [] then path else [], st\<lparr>LastPathReached := True\<rparr>)
                      | None \<Rightarrow> ([], st\<lparr>LastPathReached := True\<rparr>)))
         | FILENAME_COMPONENT \<Rightarrow>
             let st = st\<lparr>ComponentTerm := CHR ''.''\<rparr>;
                 (name, st) = (case memchr (CHR ''.'') input of
                                 Some n \<Rightarrow> (take n input, st\<lparr>InputPtr := Some (drop n input)\<rparr>)
                               | None \<Rightarrow> (input, st\<lparr>InputPtr := DefaultExtension d\<rparr>))
             in (name, if name \<noteq> [] \<and> hd name \<noteq> CHR 0x00 then st\<lparr>ParseStatus := CFE_SUCCESS\<rparr> else st)
         | PATHNAME_SEPARATOR \<Rightarrow>
             ([ComponentTerm st], st\<lparr>OutputBuffer := drop_last (ComponentTerm st) (OutputBuffer st),
                                     InputPtr := Some (dropWhile (\<lambda>c. c = ComponentTerm st) input)\<rparr>)
         | EXTENSION_SEPARATOR \<Rightarrow>
             ([ComponentTerm st], st\<lparr>OutputBuffer := drop_last (ComponentTerm st) (OutputBuffer st),
                                     InputPtr := Some (dropWhile (\<lambda>c. c = ComponentTerm st) input)\<rparr>)
         | _ \<Rightarrow> (input, st\<lparr>ComponentTerm := CHR 0x00, InputPtr := None\<rparr>))"

definition parse_step :: "fs_defaults \<Rightarrow> fs_parse \<Rightarrow> fs_parse" where
  "parse_step d st =
     (let (comp, st) = parse_component d st;
          (out, full) = append_component (OutputBufSize d) (OutputBuffer st) comp;
          st = st\<lparr>OutputBuffer := out\<rparr>
      in if full then st\<lparr>ParseStatus := CFE_FS_FNAME_TOO_LONG, InputPtr := None\<rparr> else st)"

partial_function (option) parse_loop :: "fs_defaults \<Rightarrow> fs_parse \<Rightarrow> fs_parse option" where
  "parse_loop d st =
     (if InputPtr st \<noteq> None \<and> Component st \<noteq> END_COMPONENT then parse_loop d (parse_step d st) else Some st)"

text \<open>The input is the array at the pointer, all of its \<open>InputBufSize\<close> characters; the output is the string in the
  buffer, \<open>None\<close> for a buffer that is left alone.\<close>

definition CFE_FS_ParseInputFileNameEx ::
    "bool \<Rightarrow> string option \<Rightarrow> string option \<Rightarrow> fs_defaults \<Rightarrow> (CFE_Status_t \<times> string option) option" where
  "CFE_FS_ParseInputFileNameEx OutputBufferIsNull InputBuffer DefaultInput d =
     (if OutputBufferIsNull \<or> OutputBufSize d = 0 then Some (CFE_FS_BAD_ARGUMENT, None)
      else let input = (case InputBuffer of
                          Some (c # cs) \<Rightarrow> if c \<noteq> CHR 0x00 then Some (c # cs) else DefaultInput
                        | _ \<Rightarrow> DefaultInput)
           in map_option (\<lambda>st. (ParseStatus st, Some (OutputBuffer st)))
                (parse_loop d \<lparr>Component = PROCESS_INIT, ParseStatus = CFE_FS_INVALID_PATH, OutputBuffer = [],
                               ComponentTerm = CHR 0x00, LastPathReached = False, InputPtr = input\<rparr>))"

datatype CFE_FS_FileCategory_t =
    CFE_FS_FileCategory_UNKNOWN | CFE_FS_FileCategory_DYNAMIC_MODULE | CFE_FS_FileCategory_BINARY_DATA_DUMP
  | CFE_FS_FileCategory_TEXT_LOG | CFE_FS_FileCategory_SCRIPT | CFE_FS_FileCategory_TEMP | CFE_FS_FileCategory_MAX

text \<open>The mount points and the extension of loadable modules come from the configuration of the build.\<close>

record fs_config =
  NonvolMountPoint :: string
  RamdiskMountPoint :: string
  Default_ModuleExtension :: string

fun CFE_FS_GetDefaultMountPoint :: "fs_config \<Rightarrow> CFE_FS_FileCategory_t \<Rightarrow> string option" where
  "CFE_FS_GetDefaultMountPoint k CFE_FS_FileCategory_SCRIPT = Some (NonvolMountPoint k)"
| "CFE_FS_GetDefaultMountPoint k CFE_FS_FileCategory_DYNAMIC_MODULE = Some (NonvolMountPoint k)"
| "CFE_FS_GetDefaultMountPoint k CFE_FS_FileCategory_TEMP = Some (RamdiskMountPoint k)"
| "CFE_FS_GetDefaultMountPoint k CFE_FS_FileCategory_BINARY_DATA_DUMP = Some (RamdiskMountPoint k)"
| "CFE_FS_GetDefaultMountPoint k CFE_FS_FileCategory_TEXT_LOG = Some (RamdiskMountPoint k)"
| "CFE_FS_GetDefaultMountPoint k _ = None"

fun CFE_FS_GetDefaultExtension :: "fs_config \<Rightarrow> CFE_FS_FileCategory_t \<Rightarrow> string option" where
  "CFE_FS_GetDefaultExtension k CFE_FS_FileCategory_SCRIPT = Some ''.scr''"
| "CFE_FS_GetDefaultExtension k CFE_FS_FileCategory_DYNAMIC_MODULE = Some (Default_ModuleExtension k)"
| "CFE_FS_GetDefaultExtension k CFE_FS_FileCategory_TEMP = Some ''.tmp''"
| "CFE_FS_GetDefaultExtension k CFE_FS_FileCategory_TEXT_LOG = Some ''.log''"
| "CFE_FS_GetDefaultExtension k _ = None"

definition CFE_FS_ParseInputFileName ::
    "fs_config \<Rightarrow> bool \<Rightarrow> string option \<Rightarrow> nat \<Rightarrow> CFE_FS_FileCategory_t \<Rightarrow> (CFE_Status_t \<times> string option) option" where
  "CFE_FS_ParseInputFileName k OutputBufferIsNull InputName sz FileCategory =
     CFE_FS_ParseInputFileNameEx OutputBufferIsNull None InputName
       \<lparr>OutputBufSize = sz, DefaultPath = CFE_FS_GetDefaultMountPoint k FileCategory,
        DefaultExtension = CFE_FS_GetDefaultExtension k FileCategory\<rparr>"

text \<open>\<open>last_slash\<close> is the position of the last \<open>/\<close>, or \<open>-1\<close>.\<close>

fun last_slash :: "nat \<Rightarrow> int \<Rightarrow> string \<Rightarrow> int" where
  "last_slash i mark [] = mark"
| "last_slash i mark (c # cs) = last_slash (i + 1) (if c = CHR ''/'' then int i else mark) cs"

definition CFE_FS_ExtractFilenameFromPath :: "string option \<Rightarrow> bool \<Rightarrow> CFE_Status_t \<times> string option" where
  "CFE_FS_ExtractFilenameFromPath OriginalPath FileNameOnlyIsNull =
     (case OriginalPath of
        None \<Rightarrow> (CFE_FS_BAD_ARGUMENT, None)
      | Some path \<Rightarrow>
          if FileNameOnlyIsNull then (CFE_FS_BAD_ARGUMENT, None)
          else let StringLength = length path; DirMarkIdx = last_slash 0 (- 1) path
               in if int StringLength - (DirMarkIdx + 1) < 64
                  then if DirMarkIdx > 0 then (CFE_SUCCESS, Some (drop (nat DirMarkIdx + 1) path))
                       else (CFE_FS_INVALID_PATH, None)
                  else (CFE_FS_FNAME_TOO_LONG, None))"

section \<open>Files written in the background\<close>

text \<open>A request is named by the address of its meta data, 0 is NULL.  \<open>GetData\<close> is the callback that gives the record
  of a number, with the end-of-file flag; a callback that is NULL is \<open>None\<close>, \<open>OnEvent\<close> tells whether the event callback
  is set.\<close>

record CFE_FS_FileWriteMetaData_t =
  IsPending :: bool
  FileName :: string
  FileSubType :: uint32
  MetaDescription :: string
  GetData :: "(uint32 \<Rightarrow> bool \<times> uint8 list) option"
  OnEvent :: bool

datatype CFE_FS_FileWriteEvent_t =
    CFE_FS_FileWriteEvent_UNDEFINED | CFE_FS_FileWriteEvent_COMPLETE | CFE_FS_FileWriteEvent_CREATE_ERROR
  | CFE_FS_FileWriteEvent_HEADER_WRITE_ERROR | CFE_FS_FileWriteEvent_RECORD_WRITE_ERROR | CFE_FS_FileWriteEvent_MAX

text \<open>An event callback: the request, the event, the status, the record number, the size and the position.\<close>

record dump_event =
  EventMeta :: nat
  FileWriteEvent :: CFE_FS_FileWriteEvent_t
  EventStatus :: "CFE_Status_t + int"
  EventRecordNum :: uint32
  EventBlockSize :: nat
  EventPosition :: uint64

text \<open>\<^verbatim>\<open>CFE_FS_Global.FileDump\<close>, the meta data of the requests, and what was done to files and callbacks.\<close>

record fs_state =
  RequestCount :: uint32
  CompleteCount :: uint32
  DumpEntries :: "nat \<Rightarrow> nat"
  FdOpen :: bool
  Credit :: "32 word"
  RecordNum :: uint32
  FileSize :: uint64
  Metas :: "nat \<Rightarrow> CFE_FS_FileWriteMetaData_t"
  Files :: "uint8 list os_files"
  DumpEvents :: "dump_event list"

abbreviation (input) CFE_FS_MAX_BACKGROUND_FILE_WRITES :: uint32 where "CFE_FS_MAX_BACKGROUND_FILE_WRITES \<equiv> 4"
abbreviation (input) CFE_FS_BACKGROUND_CREDIT_PER_SECOND :: uint32 where "CFE_FS_BACKGROUND_CREDIT_PER_SECOND \<equiv> 10000"
abbreviation (input) CFE_FS_BACKGROUND_MAX_CREDIT :: "32 word" where "CFE_FS_BACKGROUND_MAX_CREDIT \<equiv> 10000"

definition dump_slot :: "uint32 \<Rightarrow> nat" where
  "dump_slot n = unat (n AND (CFE_FS_MAX_BACKGROUND_FILE_WRITES - 1))"

definition on_event ::
    "nat \<Rightarrow> CFE_FS_FileWriteEvent_t \<Rightarrow> CFE_Status_t + int \<Rightarrow> uint32 \<Rightarrow> nat \<Rightarrow> uint64 \<Rightarrow> fs_state \<Rightarrow> fs_state" where
  "on_event m e st n sz pos s = s\<lparr>DumpEvents := DumpEvents s @ [\<lparr>EventMeta = m, FileWriteEvent = e, EventStatus = st,
     EventRecordNum = n, EventBlockSize = sz, EventPosition = pos\<rparr>]\<rparr>"

definition add_credit :: "uint32 \<Rightarrow> fs_state \<Rightarrow> fs_state" where
  "add_credit ElapsedTime s =
     (let c = Credit s + (ElapsedTime * CFE_FS_BACKGROUND_CREDIT_PER_SECOND) div 1000
      in s\<lparr>Credit := if sint c > sint CFE_FS_BACKGROUND_MAX_CREDIT then CFE_FS_BACKGROUND_MAX_CREDIT else c\<rparr>)"

text \<open>The first time an entry is processed: create the file and write its header.\<close>

definition dump_open :: "fs_caller \<Rightarrow> nat \<Rightarrow> fs_state \<Rightarrow> fs_state" where
  "dump_open c m s =
     (if \<not> FdOpen s \<and> IsPending (Metas s m)
      then let (OsStatus, f) = os_call (Opened (FileName (Metas s m))) OS_SUCCESS_STATUS (Files s); s = s\<lparr>Files := f\<rparr>
           in if OsStatus \<noteq> OS_SUCCESS_STATUS
              then on_event m CFE_FS_FileWriteEvent_CREATE_ERROR (Inr OsStatus) 0 0 0 s
              else let FileHdr = CFE_FS_InitHeader (Some zero_header) (Some (MetaDescription (Metas s m)))
                                   (FileSubType (Metas s m));
                       (Status, _, f) = CFE_FS_WriteHeader c FileHdr (Files s);
                       s = s\<lparr>Files := f\<rparr>
                   in if Status \<noteq> Inr (int sizeof_CFE_FS_Header_t)
                      then on_event m CFE_FS_FileWriteEvent_HEADER_WRITE_ERROR Status (RecordNum s) sizeof_CFE_FS_Header_t
                             (FileSize s) (s\<lparr>Files := OS_close (Files s)\<rparr>)
                      else s\<lparr>FdOpen := True, FileSize := of_nat sizeof_CFE_FS_Header_t,
                             Credit := Credit s - of_nat sizeof_CFE_FS_Header_t, RecordNum := 0\<rparr>
      else s)"

text \<open>The loop over the records, with the flag \<open>IsEOF\<close>; \<open>None\<close> when it does not end.  A write that fails leaves it.\<close>

partial_function (option) dump_loop :: "nat \<Rightarrow> bool \<Rightarrow> fs_state \<Rightarrow> (bool \<times> fs_state) option" where
  "dump_loop m IsEOF s =
     (if FdOpen s \<and> sint (Credit s) > 0 \<and> \<not> IsEOF
      then case the (GetData (Metas s m)) (RecordNum s) of (IsEOF, record) \<Rightarrow>
             if record \<noteq> []
             then let s = s\<lparr>Credit := Credit s - of_nat (length record)\<rparr>;
                      (OsStatus, f) = os_call (Wrote_record record) (int (length record)) (Files s);
                      s = s\<lparr>Files := f\<rparr>
                  in if OsStatus \<noteq> int (length record)
                     then Some (IsEOF, on_event m CFE_FS_FileWriteEvent_RECORD_WRITE_ERROR (Inr OsStatus) (RecordNum s)
                                         (length record) (FileSize s) (s\<lparr>Files := OS_close (Files s), FdOpen := False\<rparr>))
                     else dump_loop m IsEOF (s\<lparr>FileSize := FileSize s + of_nat (length record), RecordNum := RecordNum s + 1\<rparr>)
             else dump_loop m IsEOF (s\<lparr>RecordNum := RecordNum s + 1\<rparr>)
      else Some (IsEOF, s))"

definition dump_finish :: "nat \<Rightarrow> bool \<Rightarrow> fs_state \<Rightarrow> fs_state" where
  "dump_finish m IsEOF s =
     (let s = (if IsEOF
               then on_event m CFE_FS_FileWriteEvent_COMPLETE (Inl CFE_SUCCESS) (RecordNum s) 0 (FileSize s)
                      (s\<lparr>Files := OS_close (Files s), FdOpen := False\<rparr>)
               else s)
      in if \<not> FdOpen s
         then s\<lparr>DumpEntries := (DumpEntries s)(dump_slot (CompleteCount s) := 0), CompleteCount := CompleteCount s + 1,
                Metas := (Metas s)(m := (Metas s m)\<lparr>IsPending := False\<rparr>)\<rparr>
         else s)"

definition CFE_FS_RunBackgroundFileDump :: "fs_caller \<Rightarrow> uint32 \<Rightarrow> fs_state \<Rightarrow> (bool \<times> fs_state) option" where
  "CFE_FS_RunBackgroundFileDump c ElapsedTime s =
     (let s = add_credit ElapsedTime s
      in if CompleteCount s = RequestCount s then Some (False, s)
         else let m = DumpEntries s (dump_slot (CompleteCount s))
              in do {
                   (IsEOF, s) \<leftarrow> dump_loop m False (dump_open c m s);
                   Some (\<not> IsEOF, dump_finish m IsEOF s)
                 })"

definition CFE_FS_BackgroundFileDumpRequest :: "nat \<Rightarrow> fs_state \<Rightarrow> CFE_Status_t \<times> fs_state" where
  "CFE_FS_BackgroundFileDumpRequest m s =
     (if m = 0 then (CFE_FS_BAD_ARGUMENT, s)
      else if GetData (Metas s m) = None \<or> \<not> OnEvent (Metas s m) then (CFE_FS_BAD_ARGUMENT, s)
      else if FileName (Metas s m) = [] then (CFE_FS_INVALID_PATH, s)
      else if IsPending (Metas s m) then (CFE_STATUS_REQUEST_ALREADY_PENDING, s)
      else let PendingRequestCount = RequestCount s + 1
           in if PendingRequestCount = CompleteCount s + CFE_FS_MAX_BACKGROUND_FILE_WRITES
              then (CFE_STATUS_REQUEST_ALREADY_PENDING, s)
              else (CFE_SUCCESS,
                    s\<lparr>DumpEntries := (DumpEntries s)(dump_slot (RequestCount s) := m),
                      Metas := (Metas s)(m := (Metas s m)\<lparr>IsPending := True\<rparr>), RequestCount := PendingRequestCount\<rparr>))"

definition CFE_FS_BackgroundFileDumpIsPending :: "nat \<Rightarrow> fs_state \<Rightarrow> bool" where
  "CFE_FS_BackgroundFileDumpIsPending m s \<longleftrightarrow> m \<noteq> 0 \<and> IsPending (Metas s m)"

end
