(* ===== verification/CFS_FsNames.thy ===== *)
theory CFS_FsNames
  imports CFS_Fs
begin

text \<open>
  The parser of file names always returns and never overruns its buffer, and what it returns: the directory of the input
  or the default one, the base name, and the extension of the input or the default one.
\<close>

section \<open>Appending\<close>

abbreviation (input) c_string :: "string \<Rightarrow> string" where "c_string \<equiv> takeWhile (\<lambda>c. c \<noteq> CHR 0x00)"

lemma append_component_fits:
  "length out + length (c_string xs) < sz \<Longrightarrow> append_component sz out xs = (out @ c_string xs, False)"
proof (induction sz out xs rule: append_component.induct)
  case (2 sz out c cs)
  then show ?case by (cases "c = CHR 0x00") (auto simp: Let_def)
qed simp

lemma append_component_length:
  "length out < sz \<Longrightarrow> append_component sz out xs = (out', full) \<Longrightarrow> length out' < sz"
  by (induction sz out xs rule: append_component.induct) (auto simp: Let_def split: if_splits)

lemma drop_last_length: "length (drop_last c out) \<le> length out"
  by (simp add: length_dropWhile_le [THEN order_trans])

lemma drop_last_none: "xs = [] \<or> last xs \<noteq> c \<Longrightarrow> drop_last c xs = xs"
  by (cases xs rule: rev_cases) auto

declare drop_last.simps [simp del]

lemma drop_last_snoc: "ys = [] \<or> last ys \<noteq> c \<Longrightarrow> drop_last c (ys @ [c]) = ys"
  using drop_last_none [of ys c] by (simp add: drop_last.simps)

lemma memchr_none [simp]: "c \<notin> set xs \<Longrightarrow> memchr c xs = None"
  by (simp add: memchr_def)

lemma memchr_append: "c \<notin> set xs \<Longrightarrow> memchr c (xs @ c # ys) = Some (length xs)"
  by (induction xs) (auto simp: memchr_def)

section \<open>The parser returns\<close>

lemma parse_step_fields:
  "OutputBuffer (parse_step d st) =
     fst (append_component (OutputBufSize d) (OutputBuffer (snd (parse_component d st))) (fst (parse_component d st)))"
  "Component (parse_step d st) = Component (snd (parse_component d st))"
  "LastPathReached (parse_step d st) = LastPathReached (snd (parse_component d st))"
  "InputPtr (parse_step d st) = Some xs \<Longrightarrow> InputPtr (snd (parse_component d st)) = Some xs"
  by (auto simp: parse_step_def Let_def split: prod.splits if_splits)

lemma parse_component_Component:
  "Component (snd (parse_component d st)) = next_component (Component st) (LastPathReached st)"
  by (cases "Component st"; cases "LastPathReached st")
    (auto simp: parse_component_def Let_def split: option.splits)

lemma parse_component_output: "length (OutputBuffer (snd (parse_component d st))) \<le> length (OutputBuffer st)"
  by (cases "Component st"; cases "LastPathReached st")
    (auto simp: parse_component_def Let_def drop_last_length split: option.splits)

lemma parse_step_length:
  assumes "length (OutputBuffer st) < OutputBufSize d"
  shows "length (OutputBuffer (parse_step d st)) < OutputBufSize d"
  using assms parse_component_output [of d st] append_component_length [OF _ prod.collapse [symmetric]]
  by (metis le_less_trans parse_step_fields(1))

definition returns :: "fs_defaults \<Rightarrow> fs_parse \<Rightarrow> bool" where
  "returns d st \<longleftrightarrow> (\<exists>st'. parse_loop d st = Some st' \<and> length (OutputBuffer st') < OutputBufSize d)"

lemma returns_step:
  assumes "length (OutputBuffer st) < OutputBufSize d"
    "InputPtr st \<noteq> None \<Longrightarrow> Component st \<noteq> END_COMPONENT \<Longrightarrow> returns d (parse_step d st)"
  shows "returns d st"
  using assms unfolding returns_def by (subst parse_loop.simps) auto

text \<open>After the directories at most four components are left.\<close>

fun rank :: "fs_component \<Rightarrow> nat" where
  "rank FILENAME_COMPONENT = 3"
| "rank EXTENSION_SEPARATOR = 2"
| "rank EXTENSION_COMPONENT = 1"
| "rank END_COMPONENT = 0"
| "rank _ = 4"

lemma returns_tail:
  "length (OutputBuffer st) < OutputBufSize d \<Longrightarrow> rank (Component st) < 4 \<Longrightarrow> returns d st"
proof (induction "rank (Component st)" arbitrary: st rule: less_induct)
  case less
  show ?case
  proof (rule returns_step [OF less.prems(1)])
    assume "Component st \<noteq> END_COMPONENT"
    then have "rank (Component (parse_step d st)) < rank (Component st)"
      using less.prems(2) by (cases "Component st") (auto simp: parse_step_fields parse_component_Component)
    then show "returns d (parse_step d st)"
      using less.hyps [of "parse_step d st"] parse_step_length [OF less.prems(1)] less.prems(2) by linarith
  qed
qed

lemma path_component:
  assumes "InputPtr st = Some xs" "Component st = PROCESS_INIT \<or> Component st = PATHNAME_SEPARATOR \<and> \<not> LastPathReached st"
  shows "CHR ''/'' \<notin> set xs \<Longrightarrow> LastPathReached (parse_step d st)"
    "CHR ''/'' \<in> set xs \<Longrightarrow> InputPtr (parse_step d st) = Some ys \<Longrightarrow>
       ComponentTerm (parse_step d st) = CHR ''/'' \<and> ys = dropWhile (\<lambda>c. c \<noteq> CHR ''/'') xs"
  using assms
  by (auto simp: parse_step_def parse_component_def memchr_def Let_def dropWhile_eq_drop split: prod.splits if_splits option.splits)

lemma separator_component:
  assumes "InputPtr st = Some xs" "Component st = PATHNAME_COMPONENT" "InputPtr (parse_step d st) = Some ys"
  shows "ys = dropWhile (\<lambda>c. c = ComponentTerm st) xs"
  using assms by (auto simp: parse_step_def parse_component_def Let_def split: prod.splits if_splits)

lemma dropWhile_shorter: "c \<in> set xs \<Longrightarrow> length (dropWhile (\<lambda>x. x = c) (dropWhile (\<lambda>x. x \<noteq> c) xs)) < length xs"
  by (induction xs) (auto simp: less_Suc_eq_le length_dropWhile_le)

lemma returns_path:
  assumes "length (OutputBuffer st) < OutputBufSize d"
    "Component st = PROCESS_INIT \<or> Component st = PATHNAME_SEPARATOR \<and> \<not> LastPathReached st"
  shows "returns d st"
  using assms
proof (induction "length (the (InputPtr st))" arbitrary: st rule: less_induct)
  case less
  let ?s1 = "parse_step d st" and ?s2 = "parse_step d (parse_step d st)"
  have c1: "Component ?s1 = PATHNAME_COMPONENT"
    using less.prems(2) by (auto simp: parse_step_fields parse_component_Component)
  then have c2: "Component ?s2 = PATHNAME_SEPARATOR" by (simp add: parse_step_fields parse_component_Component)
  have l1: "length (OutputBuffer ?s1) < OutputBufSize d" by (rule parse_step_length [OF less.prems(1)])
  have l2: "length (OutputBuffer ?s2) < OutputBufSize d" by (rule parse_step_length [OF l1])
  have l3: "length (OutputBuffer (parse_step d ?s2)) < OutputBufSize d" by (rule parse_step_length [OF l2])
  have "returns d ?s2" if "InputPtr st = Some xs" "InputPtr ?s1 = Some ys" for xs ys
  proof (cases "LastPathReached ?s2")
    case True
    then have "Component (parse_step d ?s2) = FILENAME_COMPONENT"
      using c2 by (simp add: parse_step_fields parse_component_Component)
    then show ?thesis using returns_step [OF l2] returns_tail [OF l3] by simp
  next
    case False
    have "LastPathReached ?s2 = LastPathReached ?s1" using c1 by (simp add: parse_step_fields(3) parse_component_def Let_def)
    with False have s: "CHR ''/'' \<in> set xs" using path_component(1) [OF that(1) less.prems(2)] by blast
    show ?thesis
    proof (rule returns_step [OF l2])
      assume "InputPtr ?s2 \<noteq> None"
      then obtain zs where z: "InputPtr ?s2 = Some zs" by blast
      have "length zs < length xs"
        using path_component(2) [OF that(1) less.prems(2) s that(2)] separator_component [OF that(2) c1 z] dropWhile_shorter [OF s]
        by simp
      then have "returns d ?s2" using less.hyps [of ?s2] z that(1) l2 c2 False by simp
      then show "returns d (parse_step d ?s2)" using z c2 unfolding returns_def by (subst (asm) parse_loop.simps) simp
    qed
  qed
  then have "returns d ?s2" if "InputPtr st \<noteq> None" "InputPtr ?s1 \<noteq> None" using that by blast
  then have "returns d ?s1" if "InputPtr st \<noteq> None" using returns_step [OF l1] that by blast
  then show ?case using returns_step [OF less.prems(1)] by blast
qed


section \<open>What the parser returns\<close>

text \<open>The specification: runs of the separator are one separator.\<close>

function squeeze :: "char \<Rightarrow> string \<Rightarrow> string" where
  "squeeze c [] = []"
| "squeeze c (x # xs) = x # squeeze c (if x = c then dropWhile (\<lambda>y. y = c) xs else xs)"
  by pat_completeness auto
termination by (relation "measure (length \<circ> snd)") (auto simp: less_Suc_eq_le length_dropWhile_le)

definition dir_part :: "string \<Rightarrow> string" where
  "dir_part s = rev (dropWhile (\<lambda>c. c \<noteq> CHR ''/'') (rev s))"
definition file_part :: "string \<Rightarrow> string" where
  "file_part s = rev (takeWhile (\<lambda>c. c \<noteq> CHR ''/'') (rev s))"

abbreviation (input) base_part :: "string \<Rightarrow> string" where "base_part f \<equiv> takeWhile (\<lambda>c. c \<noteq> CHR ''.'') f"
abbreviation (input) strip_dots :: "string \<Rightarrow> string" where "strip_dots e \<equiv> dropWhile (\<lambda>c. c = CHR ''.'') e"

definition full_directory :: "fs_defaults \<Rightarrow> string \<Rightarrow> string" where
  "full_directory d s =
     (if CHR ''/'' \<in> set s then squeeze (CHR ''/'') (dir_part s)
      else drop_last (CHR ''/'') (case DefaultPath d of None \<Rightarrow> [] | Some path \<Rightarrow> path) @ ''/'')"

definition full_extension :: "fs_defaults \<Rightarrow> string \<Rightarrow> string" where
  "full_extension d f =
     (if CHR ''.'' \<in> set f then ''.'' @ strip_dots (dropWhile (\<lambda>c. c \<noteq> CHR ''.'') f)
      else case DefaultExtension d of None \<Rightarrow> [] | Some e \<Rightarrow> ''.'' @ strip_dots e)"

definition full_name :: "fs_defaults \<Rightarrow> string \<Rightarrow> string" where
  "full_name d s = full_directory d s @ base_part (file_part s) @ full_extension d (file_part s)"

abbreviation (input) parser ::
    "fs_component \<Rightarrow> CFE_Status_t \<Rightarrow> string \<Rightarrow> char \<Rightarrow> bool \<Rightarrow> string option \<Rightarrow> fs_parse" where
  "parser cmp stt out tm lp inp \<equiv> \<lparr>Component = cmp, ParseStatus = stt, OutputBuffer = out, ComponentTerm = tm,
     LastPathReached = lp, InputPtr = inp\<rparr>"

lemma parse_loop_step:
  "cmp \<noteq> END_COMPONENT \<Longrightarrow>
     parse_loop d (parser cmp stt out tm lp (Some xs)) = parse_loop d (parse_step d (parser cmp stt out tm lp (Some xs)))"
  "parse_loop d (parser cmp stt out tm lp None) = Some (parser cmp stt out tm lp None)"
  by (subst parse_loop.simps; simp)+

lemma append_fits:
  "c_string xs = ys \<Longrightarrow> length out + length ys < sz \<Longrightarrow> append_component sz out xs = (out @ ys, False)"
  using append_component_fits by blast

lemma c_string_none: "CHR 0x00 \<notin> set xs \<Longrightarrow> c_string xs = xs"
  by (induction xs) auto

lemma c_string_pad: "CHR 0x00 \<notin> set xs \<Longrightarrow> c_string (xs @ replicate k (CHR 0x00)) = xs"
  by (induction xs) (auto simp: takeWhile_replicate)

lemma directory_step:
  assumes "cmp = PROCESS_INIT \<or> cmp = PATHNAME_SEPARATOR" "CHR ''/'' \<notin> set p" "CHR 0x00 \<notin> set p" "out = [] \<or> p \<noteq> []"
    "length out + length p + 1 < OutputBufSize d"
  shows "parse_loop d (parser cmp stt out tm False (Some (p @ CHR ''/'' # r))) =
     parse_loop d (parser PATHNAME_SEPARATOR stt (out @ p @ ''/'') (CHR ''/'') False
       (Some (dropWhile (\<lambda>c. c = CHR ''/'') r)))"
proof -
  have c: "cmp \<noteq> END_COMPONENT" "next_component cmp False = PATHNAME_COMPONENT" using assms(1) by auto
  have "parse_step d (parser cmp stt out tm False (Some (p @ CHR ''/'' # r))) =
      parser PATHNAME_COMPONENT stt (out @ p) (CHR ''/'') False (Some (CHR ''/'' # r))"
    using assms(3,5)
    by (simp add: parse_step_def parse_component_def c memchr_append [OF assms(2)] append_fits [OF c_string_none])
  moreover have "drop_last (CHR ''/'') (out @ p) = out @ p" using assms(2,4) by (cases p rule: rev_cases) (auto intro!: drop_last_none)
  then have "parse_step d (parser PATHNAME_COMPONENT stt (out @ p) (CHR ''/'') False (Some (CHR ''/'' # r))) =
      parser PATHNAME_SEPARATOR stt (out @ p @ ''/'') (CHR ''/'') False (Some (dropWhile (\<lambda>c. c = CHR ''/'') r))"
    using assms(5) by (simp add: parse_step_def parse_component_def)
  ultimately show ?thesis using c by (simp add: parse_loop_step)
qed

lemma directories_end:
  assumes "cmp = PROCESS_INIT \<or> cmp = PATHNAME_SEPARATOR" "CHR ''/'' \<notin> set xs" "out = [] \<or> (\<exists>o'. out = o' @ ''/'' \<and> (o' = [] \<or> last o' \<noteq> CHR ''/''))"
    "def = (if out = [] then case DefaultPath d of None \<Rightarrow> [] | Some path \<Rightarrow> path else [])"
    "CHR 0x00 \<notin> set def" "length out < OutputBufSize d" "out = [] \<Longrightarrow> length def + 1 < OutputBufSize d"
  shows "parse_loop d (parser cmp stt out tm False (Some xs)) =
     parse_loop d (parser PATHNAME_SEPARATOR stt (if out = [] then drop_last (CHR ''/'') def @ ''/'' else out) (CHR ''/'') True (Some xs))"
proof -
  have c: "cmp \<noteq> END_COMPONENT" "next_component cmp False = PATHNAME_COMPONENT" using assms(1) by auto
  have "parse_component d (parser cmp stt out tm False (Some xs)) =
      (def, parser PATHNAME_COMPONENT stt out (CHR ''/'') True (Some xs))"
    using assms(2) by (simp add: parse_component_def c assms(4) split: option.split)
  then have "parse_step d (parser cmp stt out tm False (Some xs)) =
      parser PATHNAME_COMPONENT stt (out @ def) (CHR ''/'') True (Some xs)"
    using assms(4,6,7) append_fits [OF c_string_none [OF assms(5)], of out "OutputBufSize d"]
    by (cases "out = []") (simp_all add: parse_step_def)
  moreover have "drop_last (CHR ''/'') (out @ def) @ ''/'' = (if out = [] then drop_last (CHR ''/'') def @ ''/'' else out)"
    using assms(3,4) by (auto simp: drop_last_snoc drop_last_snoc [of "[]", simplified])
  moreover have "length (drop_last (CHR ''/'') (out @ def)) + 1 < OutputBufSize d"
  proof (cases "out = []")
    case True then show ?thesis using drop_last_length [of "CHR ''/''" def] assms(7) by simp
  next
    case False then show ?thesis using assms(3,4,6) by (auto simp: drop_last_snoc drop_last_snoc [of "[]", simplified])
  qed
  then have "parse_step d (parser PATHNAME_COMPONENT stt (out @ def) (CHR ''/'') True (Some xs)) =
      parser PATHNAME_SEPARATOR stt (drop_last (CHR ''/'') (out @ def) @ ''/'') (CHR ''/'') True (Some xs)"
    using assms(2) by (cases xs) (auto simp: parse_step_def parse_component_def)
  ultimately show ?thesis using c by (simp add: parse_loop_step)
qed

lemma last_takeWhile: "takeWhile P xs \<noteq> [] \<Longrightarrow> P (last (takeWhile P xs))"
  by (induction xs) (auto split: if_splits)

lemma takeWhile_until: "c \<notin> set b \<Longrightarrow> takeWhile (\<lambda>x. x \<noteq> c) (b @ c # r) = b"
  and dropWhile_until: "c \<notin> set b \<Longrightarrow> dropWhile (\<lambda>x. x \<noteq> c) (b @ c # r) = c # r"
  by (induction b) auto

lemma c_string_strip: "CHR 0x00 \<notin> set r \<Longrightarrow> c_string (strip_dots (r @ replicate k (CHR 0x00))) = strip_dots r"
proof (induction r)
  case Nil then show ?case by (cases k) auto
next
  case (Cons c r) then show ?case using c_string_pad [of "c # r" k] by (auto split: if_splits)
qed

lemma extension_end:
  assumes "c_string (strip_dots xs) = ys" "length out + 1 + length ys < OutputBufSize d" "last out \<noteq> CHR ''.''"
  shows "parse_loop d (parser FILENAME_COMPONENT stt out (CHR ''.'') True (Some xs)) =
    Some (parser EXTENSION_COMPONENT stt (out @ ''.'' @ ys) (CHR 0x00) True None)"
proof -
  have "parse_step d (parser FILENAME_COMPONENT stt out (CHR ''.'') True (Some xs)) =
      parser EXTENSION_SEPARATOR stt (out @ ''.'') (CHR ''.'') True (Some (strip_dots xs))"
    using assms(2,3) by (simp add: parse_step_def parse_component_def drop_last_none)
  moreover have "parse_step d (parser EXTENSION_SEPARATOR stt (out @ ''.'') (CHR ''.'') True (Some (strip_dots xs))) =
      parser EXTENSION_COMPONENT stt (out @ ''.'' @ ys) (CHR 0x00) True None"
    using assms(2) by (simp add: parse_step_def parse_component_def append_fits [OF assms(1)])
  ultimately show ?thesis by (simp add: parse_loop_step)
qed

lemma filename_step:
  assumes "parse_component d (parser PATHNAME_SEPARATOR CFE_FS_INVALID_PATH out tm True (Some xs)) =
      (name, parser FILENAME_COMPONENT stt out (CHR ''.'') True rest)"
    "c_string name = b" "length out + length b < OutputBufSize d"
  shows "parse_loop d (parser PATHNAME_SEPARATOR CFE_FS_INVALID_PATH out tm True (Some xs)) =
     parse_loop d (parser FILENAME_COMPONENT stt (out @ b) (CHR ''.'') True rest)"
  by (simp add: parse_loop_step parse_step_def assms(1) append_fits [OF assms(2,3)])

lemma name_end:
  assumes "CHR 0x00 \<notin> set f" "\<And>e. DefaultExtension d = Some e \<Longrightarrow> CHR 0x00 \<notin> set e"
    "length out + length (base_part f) + length (full_extension d f) < OutputBufSize d" "out = o' @ ''/''"
  shows "\<exists>st'. parse_loop d (parser PATHNAME_SEPARATOR CFE_FS_INVALID_PATH out tm True (Some (f @ replicate k (CHR 0x00)))) = Some st' \<and>
     ParseStatus st' = (if base_part f = [] then CFE_FS_INVALID_PATH else CFE_SUCCESS) \<and>
     OutputBuffer st' = out @ base_part f @ full_extension d f"
proof -
  let ?pad = "replicate k (CHR 0x00)" and ?in = "f @ replicate k (CHR 0x00)"
  define stt where "stt = (if base_part f = [] then CFE_FS_INVALID_PATH else CFE_SUCCESS)"
  have l: "last (out @ base_part f) \<noteq> CHR ''.''" "length out + length (base_part f) < OutputBufSize d"
    using assms(3,4) last_takeWhile [of _ f] by (auto simp: last_append)
  show ?thesis
  proof (cases "CHR ''.'' \<in> set f")
    case True
    then obtain b r where b: "f = b @ CHR ''.'' # r" "CHR ''.'' \<notin> set b" by (blast dest: split_list_first)
    then have n: "base_part f = b" by (simp add: takeWhile_until)
    have z: "CHR 0x00 \<notin> set b" "CHR 0x00 \<notin> set r" using assms(1) b(1) by auto
    have e: "full_extension d f = ''.'' @ strip_dots r" using b by (simp add: full_extension_def dropWhile_until)
    have "parse_component d (parser PATHNAME_SEPARATOR CFE_FS_INVALID_PATH out tm True (Some ?in)) =
        (b, parser FILENAME_COMPONENT stt out (CHR ''.'') True (Some (CHR ''.'' # r @ ?pad)))"
      using z(1) b(2) memchr_append [OF b(2), of "r @ ?pad"] by (cases b) (auto simp: parse_component_def stt_def n b(1) takeWhile_until [OF b(2)])
    from filename_step [OF this c_string_none [OF z(1)]]
      extension_end [of "CHR ''.'' # r @ ?pad" "strip_dots r" "out @ b" d stt] c_string_strip [OF z(2), of k]
    show ?thesis using l z(2) assms(3) e n unfolding stt_def [symmetric] by simp
  next
    case False
    have n: "base_part f = f" using False by (induction f) auto
    have hf: "f \<noteq> [] \<Longrightarrow> hd f \<noteq> CHR 0x00" using assms(1) hd_in_set [of f] by metis
    have hk: "k \<noteq> 0 \<Longrightarrow> hd (replicate k (CHR 0x00)) = CHR 0x00" by simp
    have m: "memchr (CHR ''.'') ?in = None" using False by (intro memchr_none) auto
    have "parse_component d (parser PATHNAME_SEPARATOR CFE_FS_INVALID_PATH out tm True (Some ?in)) =
        (?in, parser FILENAME_COMPONENT stt out (CHR ''.'') True (DefaultExtension d))"
      using hf hk by (cases "f = []") (auto simp: parse_component_def stt_def m n hd_append Let_def, rule ccontr, simp)
    note step = filename_step [OF this c_string_pad [OF assms(1)]]
    show ?thesis
    proof (cases "DefaultExtension d")
      case None
      then show ?thesis using step l(2) False unfolding stt_def [symmetric] by (simp add: n parse_loop_step full_extension_def)
    next
      case (Some e)
      have stt': "stt = (if f = [] then CFE_FS_INVALID_PATH else CFE_SUCCESS)" unfolding stt_def n ..
      from Some have "full_extension d f = ''.'' @ strip_dots e" using False by (simp add: full_extension_def)
      moreover have "c_string (strip_dots e) = strip_dots e"
        using c_string_strip [of e 0] assms(2) [OF Some] by simp
      ultimately show ?thesis
        using step extension_end [of e "strip_dots e" "out @ f" d stt] l assms(3) Some unfolding n by (simp add: stt')
    qed
  qed
qed

lemma part_Cons:
  "dir_part (c # s) = (if c = CHR ''/'' \<or> CHR ''/'' \<in> set s then c # dir_part s else [])" (is ?d)
  "file_part (c # s) = (if c = CHR ''/'' \<or> CHR ''/'' \<in> set s then file_part s else c # s)" (is ?f)
proof -
  have "?d \<and> ?f"
  proof (cases "CHR ''/'' \<in> set s")
    case True
    then show ?thesis by (simp add: dir_part_def file_part_def dropWhile_append1 takeWhile_append1 [of "CHR ''/''"])
  next
    case False
    have tw: "takeWhile (\<lambda>c. c \<noteq> CHR ''/'') (rev s) = rev s"
      by (rule takeWhile_eq_all_conv [THEN iffD2]) (use False in auto)
    have "rev (takeWhile (\<lambda>c. c \<noteq> CHR ''/'') (rev s)) = s" by (subst tw) simp
    moreover have "dropWhile (\<lambda>c. c \<noteq> CHR ''/'') (rev s) = []"
      "\<And>ys. takeWhile (\<lambda>c. c \<noteq> CHR ''/'') (rev s @ ys) = rev s @ takeWhile (\<lambda>c. c \<noteq> CHR ''/'') ys"
      "\<And>ys. dropWhile (\<lambda>c. c \<noteq> CHR ''/'') (rev s @ ys) = dropWhile (\<lambda>c. c \<noteq> CHR ''/'') ys"
      using False by (auto simp: dropWhile_eq_Nil_conv intro!: takeWhile_append2 dropWhile_append2)
    ultimately show ?thesis using False by (cases "c = CHR ''/''") (simp_all add: dir_part_def file_part_def)
  qed
  then show ?d ?f by blast+
qed

lemma part_Nil [simp]: "dir_part [] = []" "file_part [] = []"
  by (simp_all add: dir_part_def file_part_def)

lemma part_none: "CHR ''/'' \<notin> set s \<Longrightarrow> dir_part s = [] \<and> file_part s = s"
  by (induction s) (auto simp: part_Cons)

lemma part_append:
  "dir_part (p @ CHR ''/'' # s) = p @ CHR ''/'' # dir_part s" "file_part (p @ CHR ''/'' # s) = file_part s"
  by (induction p) (auto simp: part_Cons)

lemma part_dropWhile:
  "dropWhile (\<lambda>c. c = CHR ''/'') (dir_part s) = dir_part (dropWhile (\<lambda>c. c = CHR ''/'') s)"
  "file_part (dropWhile (\<lambda>c. c = CHR ''/'') s) = file_part s"
  by (induction s) (auto simp: part_Cons)

lemma squeeze_append: "c \<notin> set p \<Longrightarrow> squeeze c (p @ c # s) = p @ c # squeeze c (dropWhile (\<lambda>x. x = c) s)"
  by (induction p) auto

lemma dropWhile_pad: "c \<noteq> CHR 0x00 \<Longrightarrow>
    dropWhile (\<lambda>x. x = c) (r @ replicate k (CHR 0x00)) = dropWhile (\<lambda>x. x = c) r @ replicate k (CHR 0x00)"
proof (induction r)
  case Nil then show ?case by (cases k) auto
qed auto

lemma squeeze_length: "length (squeeze c s) \<le> length s"
  by (induction c s rule: squeeze.induct) (auto intro: order_trans [OF _ length_dropWhile_le])

lemma set_file_part: "set (file_part s) \<subseteq> set s"
  by (auto simp: file_part_def dest: set_takeWhileD)

definition directory_from :: "fs_defaults \<Rightarrow> string \<Rightarrow> string \<Rightarrow> string" where
  "directory_from d out xs = (if out = [] then full_directory d xs else out @ squeeze (CHR ''/'') (dir_part xs))"

lemma directories:
  assumes "cmp = PROCESS_INIT \<or> cmp = PATHNAME_SEPARATOR" "CHR 0x00 \<notin> set xs"
    "out = [] \<or> (\<exists>o'. out = o' @ ''/'' \<and> (o' = [] \<or> last o' \<noteq> CHR ''/'')) \<and> dropWhile (\<lambda>c. c = CHR ''/'') xs = xs"
    "\<And>path. DefaultPath d = Some path \<Longrightarrow> CHR 0x00 \<notin> set path \<and> length path + 1 < OutputBufSize d"
    "length (directory_from d out xs) < OutputBufSize d" "length out < OutputBufSize d" "1 < OutputBufSize d"
  shows "\<exists>o'. parse_loop d (parser cmp stt out tm False (Some (xs @ replicate k (CHR 0x00)))) =
      parse_loop d (parser PATHNAME_SEPARATOR stt (directory_from d out xs) (CHR ''/'') True (Some (file_part xs @ replicate k (CHR 0x00))))
    \<and> directory_from d out xs = o' @ ''/''"
  using assms
proof (induction "length xs" arbitrary: cmp xs out tm rule: less_induct)
  case less
  let ?pad = "replicate k (CHR 0x00)"
  show ?case
  proof (cases "CHR ''/'' \<in> set xs")
    case False
    let ?def = "if out = [] then case DefaultPath d of None \<Rightarrow> [] | Some path \<Rightarrow> path else []"
    have d: "directory_from d out xs = (if out = [] then drop_last (CHR ''/'') ?def @ ''/'' else out)"
      using False by (auto simp: directory_from_def full_directory_def part_none)
    have "parse_loop d (parser cmp stt out tm False (Some (xs @ ?pad))) = parse_loop d (parser PATHNAME_SEPARATOR stt
        (if out = [] then drop_last (CHR ''/'') ?def @ ''/'' else out) (CHR ''/'') True (Some (xs @ ?pad)))"
    proof (rule directories_end [OF less.prems(1) _ _ refl])
      show "CHR 0x00 \<notin> set ?def" by (cases "out = []"; cases "DefaultPath d"; simp add: less.prems(4))
      show "length ?def + 1 < OutputBufSize d" if "out = []"
        using less.prems(7) that by (cases "DefaultPath d") (simp_all add: less.prems(4) [simplified])
      show "CHR ''/'' \<notin> set (xs @ ?pad)" using False by auto
      show "out = [] \<or> (\<exists>o'. out = o' @ ''/'' \<and> (o' = [] \<or> last o' \<noteq> CHR ''/''))" using less.prems(3) by blast
      show "length out < OutputBufSize d" by (rule less.prems(6))
    qed
    moreover have "\<exists>o'. directory_from d out xs = o' @ ''/''" using d less.prems(3) by (cases "out = []") auto
    ultimately show ?thesis by (simp only: d part_none [OF False]) simp
  next
    case True
    then obtain p r where xs: "xs = p @ CHR ''/'' # r" "CHR ''/'' \<notin> set p" by (blast dest: split_list_first)
    let ?r = "dropWhile (\<lambda>c. c = CHR ''/'') r" and ?out = "out @ p @ ''/''"
    have p: "out = [] \<or> p \<noteq> []" using less.prems(3) xs by (auto simp: dropWhile_eq_self_iff)
    have o: "o' = [] \<or> last o' \<noteq> CHR ''/''" if "o' = out @ p" for o'
      using that p xs(2) by (cases p rule: rev_cases) auto
    have d: "directory_from d out xs = directory_from d ?out ?r"
      using True by (simp add: directory_from_def full_directory_def xs part_append squeeze_append [OF xs(2)] part_dropWhile)
    then have l: "length out + length p + 1 < OutputBufSize d" using less.prems(5) by (simp add: directory_from_def)
    have "CHR 0x00 \<notin> set ?r" "length ?r < length xs" using less.prems(2) xs(1)
      by (auto dest: set_dropWhileD simp: less_Suc_eq_le intro: order_trans [OF length_dropWhile_le])
    then have "\<exists>o'. parse_loop d (parser PATHNAME_SEPARATOR stt ?out (CHR ''/'') False (Some (?r @ ?pad))) =
        parse_loop d (parser PATHNAME_SEPARATOR stt (directory_from d ?out ?r) (CHR ''/'') True (Some (file_part ?r @ ?pad)))
      \<and> directory_from d ?out ?r = o' @ ''/''"
    proof (intro less.hyps)
      show "?out = [] \<or> (\<exists>o'. ?out = o' @ ''/'' \<and> (o' = [] \<or> last o' \<noteq> CHR ''/'')) \<and> dropWhile (\<lambda>c. c = CHR ''/'') ?r = ?r"
        by (intro disjI2 conjI exI [of _ "out @ p"] o [OF refl]) (simp_all add: dropWhile_idem)
    qed (use less.prems(4,5,7) d l in auto)
    moreover have "CHR 0x00 \<notin> set p" using less.prems(2) xs(1) by auto
    ultimately show ?thesis
      using directory_step [OF less.prems(1) xs(2) _ p l, of stt tm "r @ ?pad"]
      by (simp add: xs(1) dropWhile_pad part_append part_dropWhile d [unfolded xs(1)])
  qed
qed

section \<open>Properties\<close>

text \<open>C39. \<^verbatim>\<open>CFE_FS_ParseInputFileNameEx\<close> returns for every input, and unless it rejects its output buffer the string it
  stores there fits with its terminating null.\<close>

lemma ParseInputFileName_bounded:
  "\<exists>Status Output. CFE_FS_ParseInputFileNameEx isnull InputBuffer DefaultInput d = Some (Status, Output) \<and>
     (case Output of None \<Rightarrow> Status = CFE_FS_BAD_ARGUMENT \<and> (isnull \<or> OutputBufSize d = 0)
                   | Some name \<Rightarrow> length name + 1 \<le> OutputBufSize d)"
proof (cases "isnull \<or> OutputBufSize d = 0")
  case True then show ?thesis by (simp add: CFE_FS_ParseInputFileNameEx_def)
next
  case False
  then show ?thesis
    using returns_path [of "\<lparr>Component = PROCESS_INIT, ParseStatus = CFE_FS_INVALID_PATH, OutputBuffer = [],
      ComponentTerm = CHR 0x00, LastPathReached = False,
      InputPtr = case InputBuffer of Some (c # cs) \<Rightarrow> if c \<noteq> CHR 0x00 then Some (c # cs) else DefaultInput | _ \<Rightarrow> DefaultInput\<rparr>" d]
    by (auto simp: CFE_FS_ParseInputFileNameEx_def returns_def Let_def Suc_le_eq)
qed

text \<open>C38. A name of an input buffer, or a default name when the buffer is empty, becomes a complete file name: its
  directory without repeated slashes or else the default path, its base name, and its extension without repeated dots or
  else the default extension.  The result is an error exactly if the base name is empty.  Nulls may fill the buffer
  behind the name, and the complete name and the default path fit into the output buffer.\<close>

lemma ParseInputFileName_complete:
  assumes "OutputBufSize d > 1" "CHR 0x00 \<notin> set s"
    "\<And>path. DefaultPath d = Some path \<Longrightarrow> CHR 0x00 \<notin> set path \<and> length path + 1 < OutputBufSize d"
    "\<And>e. DefaultExtension d = Some e \<Longrightarrow> CHR 0x00 \<notin> set e"
    "length (full_name d s) < OutputBufSize d"
    "s \<noteq> [] \<and> InputBuffer = Some (s @ replicate k (CHR 0x00)) \<or>
     (InputBuffer = None \<or> InputBuffer = Some (replicate k (CHR 0x00))) \<and> DefaultInput = Some s"
  shows "CFE_FS_ParseInputFileNameEx False InputBuffer DefaultInput d =
    Some (if base_part (file_part s) = [] then CFE_FS_INVALID_PATH else CFE_SUCCESS, Some (full_name d s))"
proof -
  obtain n where input: "(case InputBuffer of Some (c # cs) \<Rightarrow> if c \<noteq> CHR 0x00 then Some (c # cs) else DefaultInput
      | _ \<Rightarrow> DefaultInput) = Some (s @ replicate n (CHR 0x00))"
  proof (cases "s \<noteq> [] \<and> InputBuffer = Some (s @ replicate k (CHR 0x00))")
    case True
    then show ?thesis using that [of k] assms(2) by (cases s) auto
  next
    case False
    then show ?thesis using that [of 0] assms(6) by (cases k) auto
  qed
  let ?st = "parser PROCESS_INIT CFE_FS_INVALID_PATH [] (CHR 0x00) False (Some (s @ replicate n (CHR 0x00)))"
  have l: "length (full_directory d s) + length (base_part (file_part s)) + length (full_extension d (file_part s)) < OutputBufSize d"
    using assms(5) by (simp add: full_name_def)
  then obtain o' where "parse_loop d ?st = parse_loop d (parser PATHNAME_SEPARATOR CFE_FS_INVALID_PATH
      (full_directory d s) (CHR ''/'') True (Some (file_part s @ replicate n (CHR 0x00))))" "full_directory d s = o' @ ''/''"
    using directories [of PROCESS_INIT s "[]" d CFE_FS_INVALID_PATH "CHR 0x00" n] assms(1-3) by (auto simp: directory_from_def)
  moreover have "CHR 0x00 \<notin> set (file_part s)" using set_file_part [of s] assms(2) by blast
  ultimately obtain st' where "parse_loop d ?st = Some st'"
      "ParseStatus st' = (if base_part (file_part s) = [] then CFE_FS_INVALID_PATH else CFE_SUCCESS)"
      "OutputBuffer st' = full_name d s"
    using name_end [of "file_part s" d "full_directory d s" o' "CHR ''/''" n] assms(4) l by (auto simp: full_name_def)
  then show ?thesis using assms(1) input by (simp add: CFE_FS_ParseInputFileNameEx_def)
qed

definition example_defaults :: fs_defaults where
  "example_defaults = \<lparr>OutputBufSize = 64, DefaultPath = Some ''/ram'', DefaultExtension = Some ''.log''\<rparr>"

lemma ParseInputFileName_complete_witness:
  "CFE_FS_ParseInputFileNameEx False (Some (''cfe_evs'' @ replicate 57 (CHR 0x00))) (Some ''/ram/cfe_evs.log'') example_defaults
     = Some (CFE_SUCCESS, Some ''/ram/cfe_evs.log'')"
proof -
  have f: "file_part ''cfe_evs'' = ''cfe_evs''" by (simp add: part_Cons)
  have "full_name example_defaults ''cfe_evs'' = ''/ram/cfe_evs.log''"
    by (simp add: full_name_def f full_directory_def full_extension_def example_defaults_def drop_last.simps)
  then show ?thesis
    using ParseInputFileName_complete [of example_defaults "''cfe_evs''" "Some (''cfe_evs'' @ replicate 57 (CHR 0x00))" 57
      "Some ''/ram/cfe_evs.log''"] f
    by (simp add: example_defaults_def)
qed

text \<open>Characters behind the terminating null of the input are not ignored: a slash there ends a path component.\<close>

lemma parse_behind_null:
  "CFE_FS_ParseInputFileNameEx False (Some (''log'' @ [CHR 0x00] @ ''old/name'')) None example_defaults
     = Some (CFE_SUCCESS, Some ''log/name.log'')"
  unfolding CFE_FS_ParseInputFileNameEx_def example_defaults_def
  by (simp add: parse_loop.simps parse_step_def parse_component_def memchr_def drop_last.simps)

end
