(* ===== verification/CFS_FsDump.thy ===== *)
theory CFS_FsDump
  imports CFS_Fs
begin

text \<open>
  File headers are the same bytes on processors of both byte orders, the queue of background requests is a bounded FIFO
  queue, and a request whose file operations succeed is written completely.
\<close>

section \<open>Headers\<close>

lemma of_bytes32_bytes32 [simp]: "of_bytes32 little (bytes32 little v) = v"
  by (cases little) (simp_all add: of_bytes32_def bytes32_def uint32_bits bit_simps Let_def)

lemma length_bytes32 [simp]: "length (bytes32 little v) = 4"
  by (simp add: bytes32_def Let_def)

lemma nth_bytes32: "i < 4 \<Longrightarrow> bytes32 little v ! i = ucast (drop_bit (if little then 8 * i else 24 - 8 * i) v)"
  by (auto simp: bytes32_def Let_def less_Suc_eq numeral_eq_Suc)

lemma uint8_bits: "(v :: uint8) = w \<longleftrightarrow> list_all (\<lambda>n. bit v n = bit w n) [0, 1, 2, 3, 4, 5, 6, 7]"
proof
  assume *: "list_all (\<lambda>n. bit v n = bit w n) [0, 1, 2, 3, 4, 5, 6, 7]"
  show "v = w"
  proof (rule bit_word_eqI)
    fix n assume "n < LENGTH(8)"
    then have "n \<in> {0, 1, 2, 3, 4, 5, 6, 7}" by auto
    then show "bit v n = bit w n" using * by auto
  qed
qed simp

lemma bytes32_swap: "bytes32 little (CFE_FS_ByteSwapUint32 little v) = rev (bytes32 little v)"
  by (cases little) (simp_all add: CFE_FS_ByteSwapUint32_def of_bytes32_def bytes32_def uint8_bits bit_simps Let_def)

lemma swap_swap [simp]: "CFE_FS_ByteSwapUint32 little (CFE_FS_ByteSwapUint32 little v) = v"
  by (cases little) (simp_all add: CFE_FS_ByteSwapUint32_def of_bytes32_def bytes32_def uint32_bits bit_simps Let_def)

lemma bytes32_big: "bytes32 True (CFE_FS_ByteSwapUint32 True v) = bytes32 False v"
  unfolding bytes32_swap by (simp add: bytes32_def Let_def)

lemma of_bytes32_swap: "CFE_FS_ByteSwapUint32 True (of_bytes32 True (bytes32 False v)) = v"
  by (metis bytes32_big of_bytes32_bytes32 swap_swap)

lemma header_swap_swap: "CFE_FS_ByteSwapCFEHeader little (CFE_FS_ByteSwapCFEHeader little h) = h"
  by (simp add: CFE_FS_ByteSwapCFEHeader_def)

lemma header_image_swapped: "header_image True (CFE_FS_ByteSwapCFEHeader True h) = header_image False h"
  by (simp add: header_image_def CFE_FS_ByteSwapCFEHeader_def bytes32_big)

definition desc_ok :: "CFE_FS_Header_t \<Rightarrow> bool" where
  "desc_ok h \<longleftrightarrow> length (Description h) < CFE_FS_HDR_DESC_MAX_LEN \<and> CHR 0x00 \<notin> set (Description h)"

lemma pad_desc_length [simp]: "length (pad_desc s) = 32"
  by (simp add: pad_desc_def)

lemma pad_desc_string: "desc_ok h \<Longrightarrow> takeWhile (\<lambda>c. c \<noteq> CHR 0x00) (pad_desc (Description h)) = Description h"
proof -
  assume "desc_ok h"
  then have "pad_desc (Description h) = Description h @ CHR 0x00 # replicate (31 - length (Description h)) (CHR 0x00)"
    "\<forall>c\<in>set (Description h). c \<noteq> CHR 0x00"
    by (auto simp: pad_desc_def desc_ok_def min_def simp flip: replicate_Suc) 
  then show ?thesis by simp
qed

lemma length_header_image [simp]: "length (header_image little h) = 64"
  by (simp add: header_image_def)

lemma header_of_image:
  assumes "desc_ok h"
  shows "header_of_image False (header_image False h) = h"
    "CFE_FS_ByteSwapCFEHeader True (header_of_image True (header_image False h)) = h"
proof -
  have d: "map (\<lambda>b. char_of (unat b)) (map (\<lambda>c. of_nat (of_char c) :: uint8) s) = s" for s
    by (induction s) (auto simp: unat_of_nat)
  have w: "image_word little (header_image False h) i = of_bytes32 little (bytes32 False
      ([ContentType h, SubType h, HdrLength h, HdrSpacecraftID h, HdrProcessorID h, HdrApplicationID h,
        TimeSeconds h, TimeSubSeconds h] ! i))" if "i < 8" for little i
    using that by (auto simp: image_word_def header_image_def less_Suc_eq numeral_eq_Suc)
  have s: "takeWhile (\<lambda>c. c \<noteq> CHR 0x00) (map (\<lambda>b. char_of (unat b)) (drop 32 (header_image False h))) = Description h"
    using pad_desc_string [OF assms] by (simp add: header_image_def d del: map_map)
  show "header_of_image False (header_image False h) = h"
    by (simp add: header_of_image_def w s)
  show "CFE_FS_ByteSwapCFEHeader True (header_of_image True (header_image False h)) = h"
    by (simp add: header_of_image_def w s CFE_FS_ByteSwapCFEHeader_def of_bytes32_swap)
qed

text \<open>C40. The header of a file does not depend on the byte order of processors: a header that one processor writes
  completely is read by any other with the same contents, which are those of the request and the identity of the writer.\<close>

lemma header_portable:
  assumes "CFE_FS_WriteHeader c (Some h) f = (Inr 64, h', f')" "desc_ok h"
  shows "\<exists>image. FileOps f' = FileOps f @ [Sought 0, Wrote_header image] \<and>
     (\<forall>little x g. OsAnswers g (OsAsked g) = None \<longrightarrow> (\<exists>g'. CFE_FS_ReadHeader little image (Some x) g = (Inr 64, h', g'))) \<and>
     h' = Some (h\<lparr>HdrSpacecraftID := CallerSpacecraftId c, HdrProcessorID := CallerProcessorId c,
       HdrApplicationID := CFE_ResourceId_ToInteger (CallerAppId c), HdrLength := 64,
       ContentType := CFE_FS_FILE_CONTENT_ID, TimeSeconds := Seconds (CallerTime c),
       TimeSubSeconds := Subseconds (CallerTime c)\<rparr>)"
proof -
  define r where "r = h\<lparr>HdrSpacecraftID := CallerSpacecraftId c, HdrProcessorID := CallerProcessorId c,
       HdrApplicationID := CFE_ResourceId_ToInteger (CallerAppId c), HdrLength := 64,
       ContentType := CFE_FS_FILE_CONTENT_ID, TimeSeconds := Seconds (CallerTime c), TimeSubSeconds := Subseconds (CallerTime c)\<rparr>"
  have r: "desc_ok r" using assms(2) by (simp add: desc_ok_def r_def)
  have "h' = Some r \<and> FileOps f' = FileOps f @ [Sought 0, Wrote_header (header_image False r)]"
    using assms(1) by (auto simp: CFE_FS_WriteHeader_def os_call_def Let_def header_image_swapped header_swap_swap r_def
      split: if_splits)
  moreover have "\<exists>g'. CFE_FS_ReadHeader little (header_image False r) (Some x) g = (Inr 64, Some r, g')"
    if "OsAnswers g (OsAsked g) = None" for little x and g :: "'r os_files"
    using that header_of_image [OF r] by (cases little) (simp_all add: CFE_FS_ReadHeader_def os_call_def)
  ultimately show ?thesis by (auto simp: r_def)
qed

section \<open>Credit\<close>

lemma sint_of_int: "- (2 ^ 31) \<le> x \<Longrightarrow> x < 2 ^ 31 \<Longrightarrow> sint (word_of_int x :: 32 word) = x"
  by (simp add: int_word_sint)

lemma sint_add:
  fixes a :: "32 word"
  assumes "- (2 ^ 31) \<le> sint a + x" "sint a + x < 2 ^ 31"
  shows "sint (a + word_of_int x) = sint a + x"
  using sint_of_int [OF assms] by (simp add: wi_hom_add [symmetric])

definition credit_ok :: "fs_state \<Rightarrow> bool" where
  "credit_ok s \<longleftrightarrow> - 9900 < sint (Credit s) \<and> sint (Credit s) \<le> 10000"

lemma credit_spend:
  assumes "sint (Credit s) > 0" "sint (Credit s) \<le> 10000" "n \<le> 9900"
  shows "sint (Credit s - of_nat n) = sint (Credit s) - int n"
proof -
  have "Credit s - of_nat n = Credit s + word_of_int (- int n)" by simp
  then show ?thesis using sint_add [of "Credit s" "- int n"] assms by simp
qed

lemma add_credit_second:
  assumes "1000 \<le> t" "t \<le> 429496" "credit_ok s"
  shows "100 < sint (Credit (add_credit t s))" "sint (Credit (add_credit t s)) \<le> 10000"
proof -
  have t: "1000 \<le> uint t" "uint t \<le> 429496" using assms(1,2) by (simp_all add: word_le_def)
  have "uint (t * 10000) = uint t * 10000" using t by (simp add: uint_word_ariths)
  then have "uint ((t * 10000) div 1000) = uint t * 10" by (simp add: uint_div_distrib)
  then have "(t * 10000) div 1000 = word_of_int (uint t * 10)" by (metis word_of_int_uint)
  then have "sint (Credit s + (t * 10000) div 1000) = sint (Credit s) + uint t * 10"
    using sint_add [of "Credit s" "uint t * 10"] t assms(3) by (simp add: credit_ok_def)
  then show "100 < sint (Credit (add_credit t s))" "sint (Credit (add_credit t s)) \<le> 10000"
    using t assms(3) by (auto simp: add_credit_def credit_ok_def Let_def)
qed

section \<open>Writing a request\<close>

text \<open>What is in a file after the records below \<open>k\<close>.\<close>

definition record_at :: "(uint32 \<Rightarrow> bool \<times> uint8 list) \<Rightarrow> nat \<Rightarrow> uint8 list" where
  "record_at get i = snd (get (of_nat i))"
definition records_ops :: "(uint32 \<Rightarrow> bool \<times> uint8 list) \<Rightarrow> nat \<Rightarrow> uint8 list file_op list" where
  "records_ops get k = map Wrote_record (filter (\<lambda>r. r \<noteq> []) (map (record_at get) [0..<k]))"
definition records_size :: "(uint32 \<Rightarrow> bool \<times> uint8 list) \<Rightarrow> nat \<Rightarrow> nat" where
  "records_size get k = sum_list (map (length \<circ> record_at get) [0..<k])"

text \<open>A source of records whose last one has number \<open>N\<close>.\<close>

definition source_ok :: "(uint32 \<Rightarrow> bool \<times> uint8 list) \<Rightarrow> nat \<Rightarrow> bool" where
  "source_ok get N \<longleftrightarrow> N + 1 < 2 ^ 32 \<and> fst (get (of_nat N)) \<and> (\<forall>i<N. \<not> fst (get (of_nat i))) \<and>
     (\<forall>i\<le>N. length (record_at get i) \<le> 9900)"

text \<open>What the loop leaves alone.\<close>

definition same_queue :: "fs_state \<Rightarrow> fs_state \<Rightarrow> bool" where
  "same_queue s s' \<longleftrightarrow> CompleteCount s' = CompleteCount s \<and> RequestCount s' = RequestCount s \<and>
     DumpEntries s' = DumpEntries s \<and> Metas s' = Metas s \<and> DumpEvents s' = DumpEvents s \<and> FdOpen s' = FdOpen s \<and>
     OsAnswers (Files s') = OsAnswers (Files s)"

definition writing :: "(uint32 \<Rightarrow> bool \<times> uint8 list) \<Rightarrow> nat \<Rightarrow> uint8 list file_op list \<Rightarrow> fs_state \<Rightarrow> nat \<Rightarrow> bool" where
  "writing get m base s k \<longleftrightarrow> FdOpen s \<and> GetData (Metas s m) = Some get \<and> (\<forall>i. OsAnswers (Files s) i = None) \<and>
     RecordNum s = of_nat k \<and> FileOps (Files s) = base @ records_ops get k \<and>
     FileSize s = of_nat (64 + records_size get k) \<and> credit_ok s"

lemma records_Suc:
  "records_ops get (Suc k) = records_ops get k @ (if record_at get k = [] then [] else [Wrote_record (record_at get k)])"
  "records_size get (Suc k) = records_size get k + length (record_at get k)"
  by (simp_all add: records_ops_def records_size_def)

lemma dump_loop_step:
  assumes w: "writing get m base s k" and s: "source_ok get N" "k \<le> N" and c: "sint (Credit s) > 0"
  shows "\<exists>s'. dump_loop m False s = dump_loop m (k = N) s' \<and> writing get m base s' (Suc k) \<and> same_queue s s'"
proof -
  let ?r = "record_at get k"
  let ?s = "if ?r = [] then s\<lparr>RecordNum := RecordNum s + 1\<rparr>
            else s\<lparr>Credit := Credit s - of_nat (length ?r),
                   Files := (Files s)\<lparr>OsAsked := OsAsked (Files s) + 1, FileOps := FileOps (Files s) @ [Wrote_record ?r]\<rparr>,
                   FileSize := FileSize s + of_nat (length ?r), RecordNum := RecordNum s + 1\<rparr>"
  have g: "get (of_nat k) = (k = N, ?r)"
    using s by (cases "k = N") (auto simp: writing_def source_ok_def record_at_def prod_eq_iff)
  have "dump_loop m False s = dump_loop m (k = N) ?s"
    using w c by (subst dump_loop.simps) (auto simp: writing_def g os_call_def Let_def)
  moreover have "writing get m base ?s (Suc k)" "same_queue s ?s"
    using w s c credit_spend [of s "length ?r"]
    by (auto simp: writing_def same_queue_def records_Suc credit_ok_def source_ok_def)
  ultimately show ?thesis by blast
qed

lemma dump_loop_runs:
  assumes "writing get m base s k" "source_ok get N" "k \<le> N"
  shows "\<exists>k' s'. dump_loop m False s = Some (k' = Suc N, s') \<and> writing get m base s' k' \<and> same_queue s s' \<and>
     k \<le> k' \<and> k' \<le> Suc N \<and> (sint (Credit s) > 0 \<longrightarrow> k < k')"
  using assms(1,3)
proof (induction "N - k" arbitrary: k s rule: less_induct)
  case less
  show ?case
  proof (cases "sint (Credit s) > 0")
    case False
    then have "dump_loop m False s = Some (False, s)" by (subst dump_loop.simps) simp
    then show ?thesis using less.prems False by (intro exI [of _ k] exI [of _ s]) (auto simp: same_queue_def)
  next
    case True
    obtain s' where s': "dump_loop m False s = dump_loop m (k = N) s'" "writing get m base s' (Suc k)" "same_queue s s'"
      using dump_loop_step [OF less.prems(1) assms(2) less.prems(2) True] by blast
    show ?thesis
    proof (cases "k = N")
      case True
      then have "dump_loop m False s = Some (True, s')" using s'(1) by (subst (asm) (2) dump_loop.simps) simp
      then show ?thesis using s' True by (intro exI [of _ "Suc k"] exI [of _ s']) auto
    next
      case False
      then have "N - Suc k < N - k" "Suc k \<le> N" using less.prems(2) by auto
      from less.hyps [OF this(1) s'(2) this(2)] s' False
      show ?thesis by (fastforce simp: same_queue_def)
    qed
  qed
qed

text \<open>A call on an open file, and the first call of a request.\<close>

definition complete_event :: "nat \<Rightarrow> (uint32 \<Rightarrow> bool \<times> uint8 list) \<Rightarrow> nat \<Rightarrow> dump_event" where
  "complete_event m get N = \<lparr>EventMeta = m, FileWriteEvent = CFE_FS_FileWriteEvent_COMPLETE, EventStatus = Inl CFE_SUCCESS,
     EventRecordNum = of_nat (N + 1), EventBlockSize = 0, EventPosition = of_nat (64 + records_size get (N + 1))\<rparr>"

text \<open>The request has been completed since \<open>s\<close>, and its file is \<open>base\<close> and all records.\<close>

definition completed ::
    "(uint32 \<Rightarrow> bool \<times> uint8 list) \<Rightarrow> nat \<Rightarrow> nat \<Rightarrow> uint8 list file_op list \<Rightarrow> fs_state \<Rightarrow> fs_state \<Rightarrow> bool" where
  "completed get N m base s s' \<longleftrightarrow> FileOps (Files s') = base @ records_ops get (N + 1) @ [Closed] \<and>
     DumpEvents s' = DumpEvents s @ [complete_event m get N] \<and>
     \<not> IsPending (Metas s' m) \<and> \<not> FdOpen s' \<and> CompleteCount s' = CompleteCount s + 1 \<and> RequestCount s' = RequestCount s"

definition head_request :: "nat \<Rightarrow> fs_state \<Rightarrow> bool" where
  "head_request m s \<longleftrightarrow> CompleteCount s \<noteq> RequestCount s \<and> DumpEntries s (dump_slot (CompleteCount s)) = m"

lemma same_queue_trans: "same_queue s s' \<Longrightarrow> same_queue s' s'' \<Longrightarrow> same_queue s s''"
  by (simp add: same_queue_def)

lemma add_credit_frame:
  "same_queue s (add_credit t s)" "FdOpen (add_credit t s) = FdOpen s" "Files (add_credit t s) = Files s"
  "RecordNum (add_credit t s) = RecordNum s" "FileSize (add_credit t s) = FileSize s" "Metas (add_credit t s) = Metas s"
  by (simp_all add: add_credit_def same_queue_def Let_def)

lemma dump_call:
  assumes "head_request m s" "source_ok get N" "k \<le> N"
    "dump_open c m (add_credit t s) = s0" "writing get m base s0 k" "sint (Credit s0) > 0"
    "CompleteCount s0 = CompleteCount s" "RequestCount s0 = RequestCount s" "DumpEvents s0 = DumpEvents s"
  shows "\<exists>k' s'. CFE_FS_RunBackgroundFileDump c t s = Some (k' \<noteq> Suc N, s') \<and> k < k' \<and> k' \<le> Suc N \<and>
     (if k' = Suc N then completed get N m base s s' else writing get m base s' k' \<and> same_queue s0 s')"
proof -
  obtain k' s' where l: "dump_loop m False s0 = Some (k' = Suc N, s')" "writing get m base s' k'" "same_queue s0 s'"
      "k' \<le> Suc N" "k < k'"
    using dump_loop_runs [OF assms(5,2,3)] assms(6) by auto
  have "CFE_FS_RunBackgroundFileDump c t s = Some (k' \<noteq> Suc N, dump_finish m (k' = Suc N) s')"
    using assms(1,4) l(1) by (simp add: CFE_FS_RunBackgroundFileDump_def head_request_def add_credit_def Let_def)
  moreover have "dump_finish m False s' = s'" using l(2) by (simp add: dump_finish_def writing_def)
  moreover have "completed get N m base s (dump_finish m True s')" if "k' = Suc N"
    using l(2,3) that assms(7-9)
    by (simp add: completed_def dump_finish_def on_event_def OS_close_def writing_def same_queue_def complete_event_def)
  ultimately show ?thesis using l by (intro exI [of _ k']) (cases "k' = Suc N"; force)
qed

lemma WriteHeader_ok:
  assumes "\<forall>i. OsAnswers f i = None"
  shows "\<exists>h' image. CFE_FS_WriteHeader c (Some h) f =
     (Inr 64, h', f\<lparr>OsAsked := OsAsked f + 2, FileOps := FileOps f @ [Sought 0, Wrote_header image]\<rparr>)"
  by (cases "LittleEndian c"; simp add: CFE_FS_WriteHeader_def os_call_def Let_def assms; rule exI; rule refl)

lemma dump_open_ok:
  assumes "\<not> FdOpen s" "IsPending (Metas s m)" "\<forall>i. OsAnswers (Files s) i = None"
  shows "\<exists>image. dump_open c m s = s\<lparr>FdOpen := True, FileSize := 64, Credit := Credit s - 64, RecordNum := 0,
     Files := (Files s)\<lparr>OsAsked := OsAsked (Files s) + 3, FileOps := FileOps (Files s) @
       [Opened (FileName (Metas s m)), Sought 0, Wrote_header image]\<rparr>\<rparr>"
proof -
  let ?f = "(Files s)\<lparr>OsAsked := OsAsked (Files s) + 1, FileOps := FileOps (Files s) @ [Opened (FileName (Metas s m))]\<rparr>"
  obtain h where h: "CFE_FS_InitHeader (Some zero_header) (Some (MetaDescription (Metas s m))) (FileSubType (Metas s m)) = Some h"
    by (simp add: CFE_FS_InitHeader_def)
  from assms(3) obtain h' image where w: "CFE_FS_WriteHeader c (Some h) ?f =
      (Inr 64, h', ?f\<lparr>OsAsked := OsAsked ?f + 2, FileOps := FileOps ?f @ [Sought 0, Wrote_header image]\<rparr>)"
    using WriteHeader_ok [of ?f c h] by auto
  show ?thesis
    using assms w by (intro exI [of _ image]) (simp add: dump_open_def os_call_def h)
qed

lemma dump_call_first:
  assumes "head_request m s" "\<not> FdOpen s" "IsPending (Metas s m)" "GetData (Metas s m) = Some get"
    "\<forall>i. OsAnswers (Files s) i = None" "credit_ok s" "1000 \<le> t" "t \<le> 429496" "dump_open c m (add_credit t s) = s0"
  shows "\<exists>image. writing get m (FileOps (Files s) @ [Opened (FileName (Metas s m)), Sought 0, Wrote_header image]) s0 0 \<and>
     sint (Credit s0) > 0 \<and> CompleteCount s0 = CompleteCount s \<and> RequestCount s0 = RequestCount s \<and>
     DumpEvents s0 = DumpEvents s \<and> Metas s0 = Metas s \<and> DumpEntries s0 = DumpEntries s"
proof -
  let ?s = "add_credit t s"
  note cr = add_credit_second [OF assms(7,8,6)] and fr = add_credit_frame [where s = s and t = t]
  then have c: "sint (Credit ?s - 64) = sint (Credit ?s) - 64" using credit_spend [of ?s 64] by simp
  have "\<not> FdOpen ?s" "IsPending (Metas ?s m)" "\<forall>i. OsAnswers (Files ?s) i = None" using assms(2,3,5) fr by simp_all
  from dump_open_ok [OF this, of c] assms(9) obtain image where s0: "s0 = ?s\<lparr>FdOpen := True, FileSize := 64,
      Credit := Credit ?s - 64, RecordNum := 0, Files := (Files ?s)\<lparr>OsAsked := OsAsked (Files ?s) + 3,
      FileOps := FileOps (Files ?s) @ [Opened (FileName (Metas ?s m)), Sought 0, Wrote_header image]\<rparr>\<rparr>" by blast
  show ?thesis
    using assms(4,5) cr fr c
    by (intro exI [of _ image]) (simp add: s0 writing_def credit_ok_def records_ops_def records_size_def same_queue_def)
qed

fun run_dump :: "fs_caller \<Rightarrow> uint32 list \<Rightarrow> fs_state \<Rightarrow> fs_state option" where
  "run_dump c [] s = Some s"
| "run_dump c (t # ts) s = do { (_, s) \<leftarrow> CFE_FS_RunBackgroundFileDump c t s; run_dump c ts s }"

definition seconds_apart :: "uint32 list \<Rightarrow> bool" where
  "seconds_apart ts \<longleftrightarrow> (\<forall>t\<in>set ts. 1000 \<le> t \<and> t \<le> 429496)"

lemma dump_run:
  assumes "source_ok get N"
  shows "head_request m s \<Longrightarrow> writing get m base s k \<Longrightarrow> k \<le> N \<Longrightarrow> seconds_apart ts \<Longrightarrow> Suc N - k \<le> length ts \<Longrightarrow>
     \<exists>j s'. j \<le> Suc N - k \<and> run_dump c (take j ts) s = Some s' \<and> completed get N m base s s'"
proof (induction ts arbitrary: s k)
  case (Cons t ts)
  let ?s = "add_credit t s"
  have t: "1000 \<le> t" "t \<le> 429496" "credit_ok s" using Cons.prems(2,4) by (auto simp: seconds_apart_def writing_def)
  have o: "dump_open c m ?s = ?s" using Cons.prems(2) by (simp add: dump_open_def add_credit_frame writing_def)
  have w: "writing get m base ?s k"
    using Cons.prems(2) add_credit_second [OF t] by (simp add: writing_def add_credit_frame credit_ok_def)
  have "sint (Credit ?s) > 0" using add_credit_second [OF t] by simp
  from dump_call [OF Cons.prems(1) assms Cons.prems(3) o w this]
  obtain k' s' where c: "CFE_FS_RunBackgroundFileDump c t s = Some (k' \<noteq> Suc N, s')" "k < k'" "k' \<le> Suc N"
      "if k' = Suc N then completed get N m base s s' else writing get m base s' k' \<and> same_queue ?s s'"
    using add_credit_frame [where s = s and t = t] by (auto simp: same_queue_def)
  show ?case
  proof (cases "k' = Suc N")
    case True
    then show ?thesis using c Cons.prems(3) by (intro exI [of _ 1] exI [of _ s']) auto
  next
    case False
    have q: "same_queue s s'" using c(4) False by (auto intro: same_queue_trans [OF add_credit_frame(1)])
    then have "head_request m s'" using Cons.prems(1) by (simp add: same_queue_def head_request_def)
    moreover have "seconds_apart ts" using Cons.prems(4) by (simp add: seconds_apart_def)
    moreover have "Suc N - k' \<le> length ts" using Cons.prems(5) c(2,3) by simp
    ultimately obtain j s'' where j: "j \<le> Suc N - k'" "run_dump c (take j ts) s' = Some s''" "completed get N m base s' s''"
      using Cons.IH [of s' k'] c False Cons.prems(5) by auto
    then have "completed get N m base s s''" using q by (simp add: completed_def same_queue_def)
    then show ?thesis using j c(1,2,3) by (intro exI [of _ "Suc j"] exI [of _ s'']) auto
  qed
qed simp

text \<open>C36. A request at the head of the queue is written completely: when the operating system does not fail, its records
  are at most 9900 bytes and the background task runs once a second or so, then at most as many calls as there are records
  create the file, write its header and every record in order, close it, report the completion with the number of records
  and the size of the file, and free the request and its place in the queue.\<close>

lemma background_dump_completes:
  assumes "head_request m s" "\<not> FdOpen s" "IsPending (Metas s m)" "GetData (Metas s m) = Some get" "source_ok get N"
    "\<forall>i. OsAnswers (Files s) i = None" "credit_ok s" "seconds_apart ts" "N + 1 \<le> length ts"
  shows "\<exists>j s' image. j \<le> N + 1 \<and> run_dump c (take j ts) s = Some s' \<and>
     completed get N m (FileOps (Files s) @ [Opened (FileName (Metas s m)), Sought 0, Wrote_header image]) s s'"
proof -
  obtain t ts' where ts: "ts = t # ts'" using assms(9) by (cases ts) auto
  then have t: "1000 \<le> t" "t \<le> 429496" using assms(8) by (auto simp: seconds_apart_def)
  define s0 where "s0 = dump_open c m (add_credit t s)"
  obtain image where i: "writing get m (FileOps (Files s) @ [Opened (FileName (Metas s m)), Sought 0, Wrote_header image]) s0 0"
      "sint (Credit s0) > 0" "CompleteCount s0 = CompleteCount s" "RequestCount s0 = RequestCount s" "DumpEvents s0 = DumpEvents s"
      "Metas s0 = Metas s" "DumpEntries s0 = DumpEntries s"
    using dump_call_first [OF assms(1-4,6,7) t s0_def [symmetric]] by blast
  let ?base = "FileOps (Files s) @ [Opened (FileName (Metas s m)), Sought 0, Wrote_header image]"
  obtain k' s' where c: "CFE_FS_RunBackgroundFileDump c t s = Some (k' \<noteq> Suc N, s')" "0 < k'" "k' \<le> Suc N"
      "if k' = Suc N then completed get N m ?base s s' else writing get m ?base s' k' \<and> same_queue s0 s'"
    using dump_call [OF assms(1,5) _ s0_def [symmetric] i(1,2,3,4,5)] by blast
  show ?thesis
  proof (cases "k' = Suc N")
    case True
    then show ?thesis using c ts by (intro exI [of _ 1] exI [of _ s'] exI [of _ image]) auto
  next
    case False
    then have q: "same_queue s0 s'" "writing get m ?base s' k'" using c(4) by auto
    have len: "Suc N - k' \<le> length ts'" using assms(9) ts c(2) by auto
    have "head_request m s'" using assms(1) q(1) i by (simp add: head_request_def same_queue_def)
    moreover have "seconds_apart ts'" using assms(8) ts by (simp add: seconds_apart_def)
    ultimately obtain j s'' where j: "j \<le> Suc N - k'" "run_dump c (take j ts') s' = Some s''" "completed get N m ?base s' s''"
      using dump_run [OF assms(5) _ q(2), of ts' c] len c(3) False by auto
    then have "completed get N m ?base s s''" using q i by (simp add: completed_def same_queue_def)
    then show ?thesis using j c(1,2) ts by (intro exI [of _ "Suc j"] exI [of _ s''] exI [of _ image]) auto
  qed
qed

section \<open>The queue of requests\<close>

text \<open>The requests that wait or are being written, oldest first.\<close>

definition pending_count :: "fs_state \<Rightarrow> nat" where
  "pending_count s = unat (RequestCount s - CompleteCount s)"
definition pending_requests :: "fs_state \<Rightarrow> nat list" where
  "pending_requests s = map (\<lambda>i. DumpEntries s (dump_slot (CompleteCount s + of_nat i))) [0..<pending_count s]"

lemma dump_slot_mod: "dump_slot n = unat n mod 4"
proof -
  have "unat n AND mask 2 = unat n mod 4" by (simp add: take_bit_eq_mod flip: take_bit_eq_mask)
  then show ?thesis by (simp add: dump_slot_def unsigned_and_eq mask_eq_exp_minus_1)
qed

lemma dump_slot_add: "dump_slot (a + of_nat i) = (unat a + i) mod 4"
proof -
  have "(unat a + i mod 4294967296) mod 4 = (unat a + i mod 4294967296 mod 4) mod 4" by (simp only: mod_add_right_eq)
  also have "\<dots> = (unat a + i) mod 4" by (simp add: mod_mod_cancel mod_add_right_eq)
  finally show ?thesis by (simp add: dump_slot_mod unat_word_ariths unat_of_nat mod_mod_cancel)
qed

lemma mod_4_cancel: "i < 4 \<Longrightarrow> j < 4 \<Longrightarrow> (m + i) mod 4 = (m + j) mod 4 \<longleftrightarrow> i = (j :: nat)"
proof -
  assume "i < 4" "j < 4"
  moreover have "m mod 4 < 4" by simp
  moreover have "(r + i) mod 4 = (r + j) mod 4 \<longleftrightarrow> i = j" if "r < 4" "i < 4" "j < 4" for r i j :: nat
  proof -
    have "r \<in> {0, 1, 2, 3}" "i \<in> {0, 1, 2, 3}" "j \<in> {0, 1, 2, 3}" using that by auto
    then show ?thesis by (elim insertE emptyE) simp_all
  qed
  ultimately show ?thesis using mod_add_left_eq [of m 4 i] mod_add_left_eq [of m 4 j] by metis
qed

lemma dump_slot_apart: "i < 4 \<Longrightarrow> j < 4 \<Longrightarrow> dump_slot (a + of_nat i) = dump_slot (a + of_nat j) \<longleftrightarrow> i = j"
  unfolding dump_slot_add by (rule mod_4_cancel)

lemma pending_full: "RequestCount s + 1 = CompleteCount s + 4 \<longleftrightarrow> pending_count s = 3"
proof -
  have "RequestCount s + 1 = CompleteCount s + 4 \<longleftrightarrow> RequestCount s - CompleteCount s = 3" by (simp add: algebra_simps)
  also have "\<dots> \<longleftrightarrow> unat (RequestCount s - CompleteCount s) = unat (3 :: uint32)" by (metis word_unat_eq_iff)
  finally show ?thesis by (simp add: pending_count_def)
qed

text \<open>Whatever the operating system answers, the loop leaves the queue alone.\<close>

definition same_requests :: "fs_state \<Rightarrow> fs_state \<Rightarrow> bool" where
  "same_requests s s' \<longleftrightarrow> CompleteCount s' = CompleteCount s \<and> RequestCount s' = RequestCount s \<and>
     DumpEntries s' = DumpEntries s \<and> Metas s' = Metas s"

lemma same_requests_refl [simp]: "same_requests s s"
  by (simp add: same_requests_def)

lemma same_requests_trans: "same_requests s s' \<Longrightarrow> same_requests s' s'' \<Longrightarrow> same_requests s s''"
  by (simp add: same_requests_def)

lemma same_requests_upd [simp]:
  "same_requests s (s'\<lparr>Credit := v\<rparr>) = same_requests s s'" "same_requests s (s'\<lparr>Files := f\<rparr>) = same_requests s s'"
  "same_requests s (s'\<lparr>FileSize := w\<rparr>) = same_requests s s'" "same_requests s (s'\<lparr>RecordNum := n\<rparr>) = same_requests s s'"
  "same_requests s (s'\<lparr>FdOpen := b\<rparr>) = same_requests s s'" "same_requests s (on_event m e st k sz pos s') = same_requests s s'"
  by (simp_all add: same_requests_def on_event_def)

lemma dump_loop_requests:
  assumes "dump_loop m e s = Some r"
  shows "same_requests s (snd r)"
proof (rule dump_loop.raw_induct [OF _ assms])
  fix rec :: "nat \<Rightarrow> bool \<Rightarrow> fs_state \<Rightarrow> (bool \<times> fs_state) option" and m e s r
  assume ih: "\<And>m e s r. rec m e s = Some r \<Longrightarrow> same_requests s (snd r)"
    and body: "(if FdOpen s \<and> sint (Credit s) > 0 \<and> \<not> e
      then case the (GetData (Metas s m)) (RecordNum s) of (IsEOF, record) \<Rightarrow>
             if record \<noteq> []
             then let s = s\<lparr>Credit := Credit s - of_nat (length record)\<rparr>;
                      (OsStatus, f) = os_call (Wrote_record record) (int (length record)) (Files s);
                      s = s\<lparr>Files := f\<rparr>
                  in if OsStatus \<noteq> int (length record)
                     then Some (IsEOF, on_event m CFE_FS_FileWriteEvent_RECORD_WRITE_ERROR (Inr OsStatus) (RecordNum s)
                                         (length record) (FileSize s) (s\<lparr>Files := OS_close (Files s), FdOpen := False\<rparr>))
                     else rec m IsEOF (s\<lparr>FileSize := FileSize s + of_nat (length record), RecordNum := RecordNum s + 1\<rparr>)
             else rec m IsEOF (s\<lparr>RecordNum := RecordNum s + 1\<rparr>)
      else Some (e, s)) = Some r"
  have "same_requests s (snd r)" if "rec m e' s' = Some r" "same_requests s s'" for e' s'
    using that(2) ih [OF that(1)] by (rule same_requests_trans)
  then show "same_requests s (snd r)" using body by (auto simp: Let_def split: if_splits prod.splits)
qed

lemma dump_open_requests: "same_requests s (dump_open c m s)"
  by (simp add: dump_open_def Let_def split: prod.split)

lemma pending_cong:
  "same_requests s s' \<Longrightarrow> pending_count s' = pending_count s \<and> pending_requests s' = pending_requests s"
  by (simp add: same_requests_def pending_count_def pending_requests_def)

lemma request_appends:
  assumes "pending_count s < 3"
    "s' = s\<lparr>DumpEntries := (DumpEntries s)(dump_slot (RequestCount s) := m),
            Metas := (Metas s)(m := (Metas s m)\<lparr>IsPending := True\<rparr>), RequestCount := RequestCount s + 1\<rparr>"
  shows "pending_count s' = pending_count s + 1" "pending_requests s' = pending_requests s @ [m]"
proof -
  have r: "RequestCount s = CompleteCount s + of_nat (pending_count s)"
    by (simp add: pending_count_def)
  have "RequestCount s' - CompleteCount s' = of_nat (pending_count s + 1)"
    unfolding assms(2) using r by simp
  then have "pending_count s' = unat (of_nat (pending_count s + 1) :: uint32)" by (simp add: pending_count_def [of s'])
  then show c: "pending_count s' = pending_count s + 1" using assms(1) by (subst (asm) unat_of_nat) simp_all
  have "dump_slot (CompleteCount s + of_nat i) \<noteq> dump_slot (RequestCount s)" if "i < pending_count s" for i
    using dump_slot_apart [of i "pending_count s" "CompleteCount s"] that assms(1) by (subst r) simp
  moreover have "dump_slot (CompleteCount s + of_nat (pending_count s)) = dump_slot (RequestCount s)" by (simp flip: r)
  ultimately show "pending_requests s' = pending_requests s @ [m]"
    unfolding pending_requests_def c by (auto simp: assms(2))
qed

lemma finish_removes:
  assumes "pending_count s \<noteq> 0" "pending_count s \<le> 3"
    "s' = dump_finish m e s" "m = DumpEntries s (dump_slot (CompleteCount s))"
  shows "pending_requests s' = pending_requests s \<and> pending_count s' = pending_count s \<or>
    pending_requests s = m # pending_requests s' \<and> pending_count s' = pending_count s - 1 \<and> \<not> FdOpen s' \<and> \<not> IsPending (Metas s' m)"
proof (cases "e \<or> \<not> FdOpen s")
  case False
  then show ?thesis using assms(3) by (simp add: dump_finish_def)
next
  case True
  then have q: "CompleteCount s' = CompleteCount s + 1" "RequestCount s' = RequestCount s"
      "DumpEntries s' = (DumpEntries s)(dump_slot (CompleteCount s) := 0)" "\<not> FdOpen s'" "\<not> IsPending (Metas s' m)"
    using assms(3) by (auto simp: dump_finish_def on_event_def OS_close_def)
  obtain n where n: "pending_count s = Suc n" using assms(1) not0_implies_Suc by blast
  have "RequestCount s - CompleteCount s = of_nat (pending_count s)" by (simp add: pending_count_def)
  then have "RequestCount s - CompleteCount s = of_nat n + 1" by (simp add: n)
  then have "RequestCount s' - CompleteCount s' = of_nat n" using q by (simp add: algebra_simps)
  then have c: "pending_count s' = n" using n assms(2) by (simp add: pending_count_def [of s'] unat_of_nat)
  have "dump_slot (CompleteCount s + 1 + of_nat i) \<noteq> dump_slot (CompleteCount s)" if "i < n" for i
    using dump_slot_apart [of "Suc i" 0 "CompleteCount s"] that n assms(2) by (simp add: add.assoc)
  then have "pending_requests s' = map (\<lambda>i. DumpEntries s (dump_slot (CompleteCount s + of_nat (Suc i)))) [0..<n]"
    unfolding pending_requests_def c by (simp add: q add.assoc [symmetric])
  moreover have "pending_requests s = m # map (\<lambda>i. DumpEntries s (dump_slot (CompleteCount s + of_nat (Suc i)))) [0..<n]"
    unfolding pending_requests_def n map_upt_Suc using assms(4) by simp
  ultimately show ?thesis using c n q by simp
qed

text \<open>C37. The background requests are a FIFO queue of three places.  A request is accepted exactly if it is complete, not
  pending already and fewer than three requests are pending; then it becomes the last one.  A call of the background task
  that completes a request removes the first one.\<close>

lemma dump_queue_fifo:
  assumes "pending_count s \<le> 3" "CFE_FS_BackgroundFileDumpRequest m s = (Status, s')"
    "CFE_FS_RunBackgroundFileDump c t s = Some (again, s'')"
  shows "pending_count s' \<le> 3 \<and> pending_count s'' \<le> 3 \<and>
     (Status = CFE_SUCCESS \<longleftrightarrow> m \<noteq> 0 \<and> GetData (Metas s m) \<noteq> None \<and> OnEvent (Metas s m) \<and> FileName (Metas s m) \<noteq> [] \<and>
        \<not> IsPending (Metas s m) \<and> length (pending_requests s) < 3) \<and>
     (if Status = CFE_SUCCESS then pending_requests s' = pending_requests s @ [m] \<and> CFE_FS_BackgroundFileDumpIsPending m s'
      else s' = s) \<and>
     (pending_requests s'' = pending_requests s \<or>
      pending_requests s = hd (pending_requests s) # pending_requests s'' \<and> \<not> FdOpen s'' \<and>
      \<not> CFE_FS_BackgroundFileDumpIsPending (hd (pending_requests s)) s'')"
proof -
  have l: "length (pending_requests s) = pending_count s" by (simp add: pending_requests_def)
  have request: "pending_count s' \<le> 3" "Status = CFE_SUCCESS \<longleftrightarrow> m \<noteq> 0 \<and> GetData (Metas s m) \<noteq> None \<and> OnEvent (Metas s m) \<and>
      FileName (Metas s m) \<noteq> [] \<and> \<not> IsPending (Metas s m) \<and> pending_count s < 3"
    "if Status = CFE_SUCCESS then pending_requests s' = pending_requests s @ [m] \<and> CFE_FS_BackgroundFileDumpIsPending m s'
      else s' = s"
    using assms(1,2) pending_full [of s] request_appends [OF _ refl, of s m]
    by (auto simp: CFE_FS_BackgroundFileDumpRequest_def CFE_FS_BackgroundFileDumpIsPending_def Let_def split: if_splits)
  let ?s = "add_credit t s"
  have q: "same_requests s ?s" by (simp add: add_credit_def Let_def)
  have "pending_count s'' \<le> 3 \<and> (pending_requests s'' = pending_requests s \<or>
      pending_requests s = hd (pending_requests s) # pending_requests s'' \<and> \<not> FdOpen s'' \<and>
      \<not> IsPending (Metas s'' (hd (pending_requests s))))"
  proof (cases "CompleteCount ?s = RequestCount ?s")
    case True
    then show ?thesis using assms(1,3) pending_cong [OF q] by (simp add: CFE_FS_RunBackgroundFileDump_def)
  next
    case False
    let ?m = "DumpEntries ?s (dump_slot (CompleteCount ?s))"
    obtain e s2 where d: "dump_loop ?m False (dump_open c ?m ?s) = Some (e, s2)" "s'' = dump_finish ?m e s2"
      using assms(3) False by (auto simp: CFE_FS_RunBackgroundFileDump_def Let_def bind_eq_Some_conv)
    have r: "same_requests s s2"
      using same_requests_trans [OF same_requests_trans [OF q dump_open_requests] dump_loop_requests [OF d(1)]] by simp
    then have "pending_count s2 \<noteq> 0" "?m = DumpEntries s2 (dump_slot (CompleteCount s2))"
      using False q by (auto simp: same_requests_def pending_count_def unat_eq_0)
    from finish_removes [OF this(1) _ d(2) this(2)] pending_cong [OF r] assms(1)
    show ?thesis by auto
  qed
  then show ?thesis unfolding CFE_FS_BackgroundFileDumpIsPending_def l
    using request [unfolded CFE_FS_BackgroundFileDumpIsPending_def] by blast
qed

section \<open>An example\<close>

definition example_fs_caller :: fs_caller where
  "example_fs_caller = \<lparr>LittleEndian = True, CallerSpacecraftId = 66, CallerProcessorId = 1,
     CallerAppId = CFE_ResourceId_FromInteger 0x02110001, CallerTime = \<lparr>Seconds = 1000, Subseconds = 5\<rparr>\<rparr>"

definition example_header :: CFE_FS_Header_t where
  "example_header = zero_header\<lparr>SubType := 4, Description := ''dump''\<rparr>"

definition no_files :: "uint8 list os_files" where
  "no_files = \<lparr>OsAnswers = \<lambda>_. None, OsAsked = 0, FileOps = []\<rparr>"

text \<open>A source of three records, the second of them a hole.\<close>

definition example_source :: "uint32 \<Rightarrow> bool \<times> uint8 list" where
  "example_source i = (i = 2, if i = 1 then [] else [ucast i, 7])"

definition example_meta :: CFE_FS_FileWriteMetaData_t where
  "example_meta = \<lparr>IsPending = False, FileName = ''/ram/x.dat'', FileSubType = 4, MetaDescription = ''dump'',
     GetData = Some example_source, OnEvent = True\<rparr>"

definition example_fs :: fs_state where
  "example_fs = \<lparr>RequestCount = 0xFFFFFFFF, CompleteCount = 0xFFFFFFFF, DumpEntries = \<lambda>_. 0, FdOpen = False, Credit = 0,
     RecordNum = 0, FileSize = 0, Metas = \<lambda>_. example_meta, Files = no_files, DumpEvents = []\<rparr>"

definition example_requested :: fs_state where
  "example_requested = snd (CFE_FS_BackgroundFileDumpRequest 7 example_fs)"

lemma header_portable_witness:
  "\<exists>h' f'. CFE_FS_WriteHeader example_fs_caller (Some example_header) no_files = (Inr 64, h', f') \<and>
     (\<exists>image. FileOps f' = FileOps no_files @ [Sought 0, Wrote_header image] \<and>
     (\<forall>little x g. OsAnswers g (OsAsked g) = None \<longrightarrow> (\<exists>g'. CFE_FS_ReadHeader little image (Some x) g = (Inr 64, h', g'))))"
proof -
  obtain h' f' where w: "CFE_FS_WriteHeader example_fs_caller (Some example_header) no_files = (Inr 64, h', f')"
    using WriteHeader_ok [of no_files example_fs_caller example_header] by (auto simp: no_files_def)
  have "desc_ok example_header" by (simp add: desc_ok_def example_header_def)
  from header_portable [OF w this] w show ?thesis by blast
qed

lemma example_requested_eq:
  "CFE_FS_BackgroundFileDumpRequest 7 example_fs = (CFE_SUCCESS, example_requested)"
  "example_requested = example_fs\<lparr>DumpEntries := (\<lambda>_. 0)(3 := 7), Metas := (\<lambda>_. example_meta)(7 := example_meta\<lparr>IsPending := True\<rparr>),
     RequestCount := 0\<rparr>"
  by (simp_all add: example_requested_def CFE_FS_BackgroundFileDumpRequest_def example_fs_def example_meta_def dump_slot_mod)

lemma example_source_ok: "source_ok example_source 2"
proof -
  have b: "i < 2 \<Longrightarrow> i = 0 \<or> i = 1" for i :: nat by auto
  show ?thesis by (auto simp: source_ok_def example_source_def record_at_def dest!: b)
qed

lemma background_dump_completes_witness:
  "\<exists>j s' image. j \<le> 3 \<and> run_dump example_fs_caller (take j [1000, 2000, 1500]) example_requested = Some s' \<and>
     completed example_source 2 7 [Opened ''/ram/x.dat'', Sought 0, Wrote_header image] example_requested s'"
  using background_dump_completes [of 7 example_requested example_source 2 "[1000, 2000, 1500]" example_fs_caller] example_source_ok
  by (simp add: example_requested_eq(2) example_fs_def example_meta_def no_files_def head_request_def dump_slot_mod
    credit_ok_def seconds_apart_def)

lemma dump_queue_fifo_witness:
  "\<exists>again s''. CFE_FS_RunBackgroundFileDump example_fs_caller 0 example_fs = Some (again, s'') \<and>
     pending_count example_requested \<le> 3 \<and> pending_requests example_requested = pending_requests example_fs @ [7]"
proof -
  have "CFE_FS_RunBackgroundFileDump example_fs_caller 0 example_fs = Some (False, add_credit 0 example_fs)"
    by (simp add: CFE_FS_RunBackgroundFileDump_def add_credit_def example_fs_def)
  moreover have "pending_count example_fs \<le> 3" by (simp add: pending_count_def example_fs_def)
  ultimately show ?thesis using dump_queue_fifo [OF _ example_requested_eq(1)] by auto
qed

text \<open>A write of the last record that fails is reported as an error and as completion.\<close>

lemma last_record_failure_completes:
  assumes "FdOpen s" "sint (Credit s) > 0" "CompleteCount s \<noteq> RequestCount s" "m = DumpEntries s (dump_slot (CompleteCount s))"
    "GetData (Metas s m) = Some (\<lambda>_. (True, [1, 2]))" "OsAnswers (Files s) (OsAsked (Files s)) = Some (- 1)"
    "t = 0" "sint (Credit s) \<le> 10000"
  shows "\<exists>s'. CFE_FS_RunBackgroundFileDump c t s = Some (False, s') \<and>
     map FileWriteEvent (DumpEvents s') = map FileWriteEvent (DumpEvents s) @
       [CFE_FS_FileWriteEvent_RECORD_WRITE_ERROR, CFE_FS_FileWriteEvent_COMPLETE]"
proof -
  have "add_credit t s = s" using assms(7,8) by (simp add: add_credit_def)
  moreover have "dump_open c m s = s" using assms(1) by (simp add: dump_open_def)
  moreover have "\<exists>s2. dump_loop m False s = Some (True, s2) \<and>
      map FileWriteEvent (DumpEvents s2) = map FileWriteEvent (DumpEvents s) @ [CFE_FS_FileWriteEvent_RECORD_WRITE_ERROR]"
    using assms(1,2,5,6) by (subst dump_loop.simps) (simp add: os_call_def on_event_def)
  then obtain s2 where "dump_loop m False s = Some (True, s2)"
      "map FileWriteEvent (DumpEvents s2) = map FileWriteEvent (DumpEvents s) @ [CFE_FS_FileWriteEvent_RECORD_WRITE_ERROR]" by blast
  moreover have "map FileWriteEvent (DumpEvents (dump_finish m True s2)) =
      map FileWriteEvent (DumpEvents s2) @ [CFE_FS_FileWriteEvent_COMPLETE]"
    by (simp add: dump_finish_def on_event_def OS_close_def)
  ultimately show ?thesis using assms(3,4) by (simp add: CFE_FS_RunBackgroundFileDump_def)
qed

end
