(* ===== verification/CFS_EvsState.thy ===== *)
theory CFS_EvsState
  imports CFS_Msg CFS_ResourceId CFS_TimeMath CFS_Fs
begin

text \<open>
  Event services: the state \<^verbatim>\<open>CFE_EVS_Global\<close> of \<^verbatim>\<open>cfe_evs_task.h\<close>, the local event log of \<^verbatim>\<open>cfe_evs_log.c\<close>, and the
  filters, the squelching and the sending of events of \<^verbatim>\<open>cfe_evs_utils.c\<close>.
  What the code asks of other services is the record \<open>evs_caller\<close>: the identity of the caller, the names of
  applications and the clocks at the time of the call.  The packets and port messages sent are a log in the state.
  The mutex around the log and the squelch tokens is not part of the state.
\<close>

section \<open>Formatted text\<close>

text \<open>\<^verbatim>\<open>printf\<close> as far as events use it: \<open>%s\<close>, \<open>%d\<close>, \<open>%u\<close>, \<open>%x\<close> and \<open>%X\<close>, with a field width that is filled with zeros and the
  length modifier \<open>l\<close>.\<close>

datatype printf_arg = Str string | Num int

datatype printf_mode = Copying | Conversion nat

function digits :: "nat \<Rightarrow> string \<Rightarrow> string" where
  "digits n ds = (if length ds < 2 then [] else if n < length ds then [ds ! n]
                  else digits (n div length ds) ds @ [ds ! (n mod length ds)])"
  by pat_completeness auto
termination by (relation "measure fst") auto

declare digits.simps [simp del]

definition print_num :: "char \<Rightarrow> int \<Rightarrow> string" where
  "print_num k v =
     (if k = CHR ''x'' then digits (nat v) ''0123456789abcdef''
      else if k = CHR ''X'' then digits (nat v) ''0123456789ABCDEF''
      else if v < 0 then CHR ''-'' # digits (nat (- v)) ''0123456789'' else digits (nat v) ''0123456789'')"

fun print_arg :: "char \<Rightarrow> nat \<Rightarrow> printf_arg \<Rightarrow> string" where
  "print_arg k w (Str s) = s"
| "print_arg k w (Num v) = (let t = print_num k v in replicate (w - length t) (CHR ''0'') @ t)"

fun expand :: "printf_mode \<Rightarrow> string \<Rightarrow> printf_arg list \<Rightarrow> string" where
  "expand mode [] as = []"
| "expand Copying (c # cs) as = (if c = CHR ''%'' then expand (Conversion 0) cs as else c # expand Copying cs as)"
| "expand (Conversion w) (c # cs) as =
     (if c = CHR ''%'' then c # expand Copying cs as
      else if 48 \<le> (of_char c :: nat) \<and> (of_char c :: nat) \<le> 57 then expand (Conversion (10 * w + (of_char c - 48))) cs as
      else if c = CHR ''l'' then expand (Conversion w) cs as
      else case as of [] \<Rightarrow> expand Copying cs [] | a # as \<Rightarrow> print_arg c w a @ expand Copying cs as)"

section \<open>State\<close>

text \<open>The codes of \<^verbatim>\<open>cfe_error.h\<close>, for the texts that print them and the test for a negative status.\<close>

primrec status_code :: "CFE_Status_t \<Rightarrow> uint32" where
  "status_code CFE_SUCCESS = 0"
| "status_code CFE_STATUS_WRONG_MSG_LENGTH = 0xc8000002"
| "status_code CFE_SB_BAD_ARGUMENT = 0xca000003"
| "status_code CFE_ES_BAD_ARGUMENT = 0xc400000a"
| "status_code CFE_ES_ERR_RESOURCEID_NOT_VALID = 0xc4000001"
| "status_code CFE_ES_BUFFER_NOT_IN_POOL = 0xc4000025"
| "status_code CFE_ES_ERR_MEM_BLOCK_SIZE = 0xc4000008"
| "status_code CFE_ES_POOL_BLOCK_INVALID = 0xc400002C"
| "status_code CFE_EVS_UNKNOWN_FILTER = 0xc2000001"
| "status_code CFE_EVS_APP_NOT_REGISTERED = 0xc2000002"
| "status_code CFE_EVS_APP_ILLEGAL_APP_ID = 0xc2000003"
| "status_code CFE_EVS_EVT_NOT_REGISTERED = 0xc2000006"
| "status_code CFE_EVS_INVALID_PARAMETER = 0xc2000008"
| "status_code CFE_EVS_APP_SQUELCHED = 0xc2000009"
| "status_code CFE_TIME_BAD_ARGUMENT = 0xce000005"
| "status_code CFE_TIME_TOO_MANY_SYNCH_CALLBACKS = 0xce000003"
| "status_code CFE_TIME_CALLBACK_NOT_REGISTERED = 0xce000004"
| "status_code CFE_TIME_INTERNAL_ONLY = 0xce000001"
| "status_code CFE_TIME_OUT_OF_RANGE = 0xce000002"
| "status_code CFE_STATUS_EXTERNAL_RESOURCE_FAIL = 0xc8000005"
| "status_code CFE_ES_NO_RESOURCE_IDS_AVAILABLE = 0xc400002B"
| "status_code CFE_SB_TIME_OUT = 0xca000001"
| "status_code CFE_SB_NO_MESSAGE = 0xca000002"
| "status_code CFE_SB_MAX_PIPES_MET = 0xca000004"
| "status_code CFE_SB_PIPE_CR_ERR = 0xca000005"
| "status_code CFE_SB_PIPE_RD_ERR = 0xca000006"
| "status_code CFE_SB_MSG_TOO_BIG = 0xca000007"
| "status_code CFE_SB_BUF_ALOC_ERR = 0xca000008"
| "status_code CFE_SB_MAX_MSGS_MET = 0xca000009"
| "status_code CFE_SB_MAX_DESTS_MET = 0xca00000a"
| "status_code CFE_SB_BUFFER_INVALID = 0xca00000e"
| "status_code CFE_STATUS_NO_COUNTER_INCREMENT = 0x48000001"
| "status_code CFE_STATUS_BAD_COMMAND_CODE = 0xc8000004"
| "status_code CFE_EVS_APP_FILTER_OVERLOAD = 0xc2000004"
| "status_code CFE_EVS_RESET_AREA_POINTER = 0xc2000005"
| "status_code CFE_EVS_FILE_WRITE_ERROR = 0xc2000007"
| "status_code CFE_ES_ERR_NAME_NOT_FOUND = 0xc4000002"
| "status_code CFE_FS_BAD_ARGUMENT = 0xc6000001"
| "status_code CFE_FS_INVALID_PATH = 0xc6000002"
| "status_code CFE_FS_FNAME_TOO_LONG = 0xc6000003"
| "status_code CFE_MSG_BAD_ARGUMENT = 0xca000003"
| "status_code CFE_MSG_WRONG_MSG_TYPE = 0xca00000d"
| "status_code CFE_STATUS_REQUEST_ALREADY_PENDING = 0xc8000006"


abbreviation (input) CFE_PLATFORM_ES_MAX_APPLICATIONS :: nat where "CFE_PLATFORM_ES_MAX_APPLICATIONS \<equiv> 32"
abbreviation (input) CFE_MISSION_ES_MAX_APPLICATIONS :: nat where "CFE_MISSION_ES_MAX_APPLICATIONS \<equiv> 16"
abbreviation (input) CFE_PLATFORM_EVS_MAX_EVENT_FILTERS :: nat where "CFE_PLATFORM_EVS_MAX_EVENT_FILTERS \<equiv> 8"
abbreviation (input) CFE_PLATFORM_EVS_MAX_APP_EVENT_BURST :: uint32 where "CFE_PLATFORM_EVS_MAX_APP_EVENT_BURST \<equiv> 32"
abbreviation (input) CFE_PLATFORM_EVS_APP_EVENTS_PER_SEC :: int where "CFE_PLATFORM_EVS_APP_EVENTS_PER_SEC \<equiv> 15"
abbreviation (input) CFE_PLATFORM_EVS_LOG_MAX :: uint16 where "CFE_PLATFORM_EVS_LOG_MAX \<equiv> 20"
abbreviation (input) CFE_PLATFORM_EVS_DEFAULT_TYPE_FLAG :: uint8 where "CFE_PLATFORM_EVS_DEFAULT_TYPE_FLAG \<equiv> 0xE"
abbreviation (input) CFE_PLATFORM_EVS_DEFAULT_LOG_MODE :: uint8 where "CFE_PLATFORM_EVS_DEFAULT_LOG_MODE \<equiv> 1"
abbreviation (input) CFE_PLATFORM_EVS_PORT_DEFAULT :: uint8 where "CFE_PLATFORM_EVS_PORT_DEFAULT \<equiv> 1"
abbreviation (input) CFE_MISSION_EVS_MAX_MESSAGE_LENGTH :: nat where "CFE_MISSION_EVS_MAX_MESSAGE_LENGTH \<equiv> 122"
abbreviation (input) CFE_EVS_MAX_PORT_MSG_LENGTH :: nat where "CFE_EVS_MAX_PORT_MSG_LENGTH \<equiv> 161"
abbreviation (input) CFE_EVS_FREE_SLOT :: uint16 where "CFE_EVS_FREE_SLOT \<equiv> 0xFFFF"
abbreviation (input) CFE_EVS_NO_MASK :: uint16 where "CFE_EVS_NO_MASK \<equiv> 0"
abbreviation (input) CFE_EVS_MAX_EVENT_SEND_COUNT :: uint16 where "CFE_EVS_MAX_EVENT_SEND_COUNT \<equiv> 65535"
abbreviation (input) CFE_EVS_MAX_FILTER_COUNT :: uint16 where "CFE_EVS_MAX_FILTER_COUNT \<equiv> 65535"
abbreviation (input) CFE_EVS_MAX_SQUELCH_COUNT :: uint8 where "CFE_EVS_MAX_SQUELCH_COUNT \<equiv> 255"
abbreviation (input) CFE_EVS_MSG_TRUNCATED :: char where "CFE_EVS_MSG_TRUNCATED \<equiv> CHR ''$''"

abbreviation (input) CFE_EVS_EventType_DEBUG :: uint16 where "CFE_EVS_EventType_DEBUG \<equiv> 1"
abbreviation (input) CFE_EVS_EventType_INFORMATION :: uint16 where "CFE_EVS_EventType_INFORMATION \<equiv> 2"
abbreviation (input) CFE_EVS_EventType_ERROR :: uint16 where "CFE_EVS_EventType_ERROR \<equiv> 3"
abbreviation (input) CFE_EVS_EventType_CRITICAL :: uint16 where "CFE_EVS_EventType_CRITICAL \<equiv> 4"
abbreviation (input) CFE_EVS_DEBUG_BIT :: uint8 where "CFE_EVS_DEBUG_BIT \<equiv> 1"
abbreviation (input) CFE_EVS_INFORMATION_BIT :: uint8 where "CFE_EVS_INFORMATION_BIT \<equiv> 2"
abbreviation (input) CFE_EVS_ERROR_BIT :: uint8 where "CFE_EVS_ERROR_BIT \<equiv> 4"
abbreviation (input) CFE_EVS_CRITICAL_BIT :: uint8 where "CFE_EVS_CRITICAL_BIT \<equiv> 8"
abbreviation (input) CFE_EVS_LogMode_OVERWRITE :: uint8 where "CFE_EVS_LogMode_OVERWRITE \<equiv> 0"
abbreviation (input) CFE_EVS_LogMode_DISCARD :: uint8 where "CFE_EVS_LogMode_DISCARD \<equiv> 1"
abbreviation (input) CFE_EVS_MsgFormat_SHORT :: uint8 where "CFE_EVS_MsgFormat_SHORT \<equiv> 0"
abbreviation (input) CFE_EVS_MsgFormat_LONG :: uint8 where "CFE_EVS_MsgFormat_LONG \<equiv> 1"

record EVS_BinFilter_t =
  FilterEventID :: uint16
  FilterMask :: uint16
  FilterCount :: uint16

record EVS_AppData_t =
  AppID :: CFE_ResourceId_t
  UnregAppID :: CFE_ResourceId_t
  BinFilters :: "nat \<Rightarrow> EVS_BinFilter_t"
  ActiveFlag :: bool
  EventTypesActiveFlag :: uint8
  EventCount :: uint16
  LastSquelchCreditableTime :: OS_time_t
  SquelchTokens :: int
  SquelchedCount :: uint8

record CFE_EVS_PacketID_t =
  PktAppName :: string
  PktEventID :: uint16
  PktEventType :: uint16
  PktSpacecraftID :: uint32
  PktProcessorID :: uint32

record CFE_EVS_LongEventTlm_t =
  LongHeader :: CFE_MSG_Message_t
  LongPacketID :: CFE_EVS_PacketID_t
  Message :: string

record CFE_EVS_ShortEventTlm_t =
  ShortHeader :: CFE_MSG_Message_t
  ShortPacketID :: CFE_EVS_PacketID_t

record CFE_EVS_Log_t =
  LogNext :: uint16
  LogCount :: uint16
  LogFullFlag :: uint8
  LogMode :: uint8
  LogOverflowCounter :: uint16
  LogEntry :: "nat \<Rightarrow> CFE_EVS_LongEventTlm_t"

record CFE_EVS_AppTlmData_t =
  TlmAppID :: CFE_ResourceId_t
  AppMessageSentCounter :: uint16
  AppEnableStatus :: bool
  AppMessageSquelchedCounter :: uint8

record CFE_EVS_HousekeepingTlm_Payload_t =
  EvsCommandCounter :: uint8
  EvsCommandErrorCounter :: uint8
  MessageFormatMode :: uint8
  MessageTruncCounter :: uint8
  UnregisteredAppCounter :: uint8
  OutputPort :: uint8
  HkLogFullFlag :: uint8
  HkLogMode :: uint8
  MessageSendCounter :: uint16
  HkLogOverflowCounter :: uint16
  LogEnabled :: bool
  HkAppData :: "nat \<Rightarrow> CFE_EVS_AppTlmData_t"

datatype evs_output =
    Long_sent CFE_EVS_LongEventTlm_t
  | Short_sent CFE_EVS_ShortEventTlm_t
  | Port_output uint8 string
  | EvsHk_sent CFE_EVS_HousekeepingTlm_Payload_t

record CFE_EVS_AppDataFile_t =
  FileAppName :: string
  FileActiveFlag :: bool
  FileEventTypesActiveFlag :: uint8
  FileEventCount :: uint16
  FileSquelchedCount :: uint8
  FileFilters :: "EVS_BinFilter_t list"

datatype evs_file_record = Log_record CFE_EVS_LongEventTlm_t | AppData_record CFE_EVS_AppDataFile_t

record evs_state =
  AppData :: "nat \<Rightarrow> EVS_AppData_t"
  EVS_Log :: CFE_EVS_Log_t
  EVS_TlmPkt :: CFE_EVS_HousekeepingTlm_Payload_t
  EVS_AppID :: CFE_ResourceId_t
  EVS_EventBurstMax :: uint32
  EvsFiles :: "evs_file_record os_files"
  EvsOutputs :: "evs_output list"

text \<open>The build: message IDs and sizes of packets, the epoch of the printed time, the base of application IDs, the IDs of
  spacecraft and processor, the byte order, the mount points and the version text.\<close>

record evs_cfg =
  EvsBuild :: msg_build
  EvsEpoch :: time_epoch
  CFE_ES_APPID_BASE :: uint32
  LONG_EVENT_MSG_MID :: CFE_SB_MsgId_t
  SHORT_EVENT_MSG_MID :: CFE_SB_MsgId_t
  sizeof_LongEventTlm :: size_t
  sizeof_ShortEventTlm :: size_t
  PspSpacecraftId :: uint32
  PspProcessorId :: uint32
  sizeof_AppDataFile :: nat
  EvsLittleEndian :: bool
  EvsFsConfig :: fs_config
  EvsVersionString :: string

record evs_caller =
  GetAppID :: "CFE_Status_t \<times> CFE_ResourceId_t"
  AppIDByName :: "string \<Rightarrow> CFE_Status_t \<times> CFE_ResourceId_t"
  AppNameOf :: "CFE_ResourceId_t \<Rightarrow> string"
  TimeNow :: CFE_TIME_SysTime_t
  PspNow :: OS_time_t

definition upd_app :: "nat \<Rightarrow> (EVS_AppData_t \<Rightarrow> EVS_AppData_t) \<Rightarrow> evs_state \<Rightarrow> evs_state" where
  "upd_app i f s = s\<lparr>AppData := (AppData s)(i := f (AppData s i))\<rparr>"
definition upd_evs_hk ::
    "(CFE_EVS_HousekeepingTlm_Payload_t \<Rightarrow> CFE_EVS_HousekeepingTlm_Payload_t) \<Rightarrow> evs_state \<Rightarrow> evs_state" where
  "upd_evs_hk f s = s\<lparr>EVS_TlmPkt := f (EVS_TlmPkt s)\<rparr>"
definition upd_filter :: "nat \<Rightarrow> nat \<Rightarrow> (EVS_BinFilter_t \<Rightarrow> EVS_BinFilter_t) \<Rightarrow> evs_state \<Rightarrow> evs_state" where
  "upd_filter i k f s = upd_app i (\<lambda>a. a\<lparr>BinFilters := (BinFilters a)(k := f (BinFilters a k))\<rparr>) s"
definition evs_issue :: "evs_output \<Rightarrow> evs_state \<Rightarrow> evs_state" where
  "evs_issue e s = s\<lparr>EvsOutputs := EvsOutputs s @ [e]\<rparr>"

end
