(* ===== verification/CFS_Evs.thy ===== *)
theory CFS_Evs
  imports CFS_EvsState
begin

text \<open>
  Event services, \<^verbatim>\<open>cfe_evs_log.c\<close> (the log itself), \<^verbatim>\<open>cfe_evs_utils.c\<close> and \<^verbatim>\<open>cfe_evs.c\<close>: the event log, the filters, the
  limit on the rate of events, the sending of events and the functions that applications call.  A pointer into the
  table of applications is an index, a pointer to a filter the index in the filters of the application.
\<close>

section \<open>The event log\<close>

definition EVS_AddLog :: "CFE_EVS_LongEventTlm_t \<Rightarrow> CFE_EVS_Log_t \<Rightarrow> CFE_EVS_Log_t" where
  "EVS_AddLog EVS_Pkt l =
     (let l = (if LogFullFlag l = 1 then l\<lparr>LogOverflowCounter := LogOverflowCounter l + 1\<rparr> else l)
      in if LogFullFlag l = 0 \<or> LogMode l = CFE_EVS_LogMode_OVERWRITE
         then let l = l\<lparr>LogEntry := (LogEntry l)(unat (LogNext l) := EVS_Pkt)\<rparr>;
                  l = l\<lparr>LogNext := LogNext l + 1\<rparr>;
                  l = (if LogNext l \<ge> CFE_PLATFORM_EVS_LOG_MAX then l\<lparr>LogNext := 0\<rparr> else l)
              in if LogCount l < CFE_PLATFORM_EVS_LOG_MAX
                 then let l = l\<lparr>LogCount := LogCount l + 1\<rparr>
                      in if LogCount l = CFE_PLATFORM_EVS_LOG_MAX then l\<lparr>LogFullFlag := 1\<rparr> else l
                 else l
         else l)"

definition zero_packet :: CFE_EVS_LongEventTlm_t where
  "zero_packet = \<lparr>LongHeader = (\<lambda>_. 0),
     LongPacketID = \<lparr>PktAppName = [], PktEventID = 0, PktEventType = 0, PktSpacecraftID = 0, PktProcessorID = 0\<rparr>,
     Message = []\<rparr>"

definition EVS_ClearLog :: "CFE_EVS_Log_t \<Rightarrow> CFE_EVS_Log_t" where
  "EVS_ClearLog l = l\<lparr>LogNext := 0, LogCount := 0, LogFullFlag := 0, LogOverflowCounter := 0, LogEntry := (\<lambda>_. zero_packet)\<rparr>"

section \<open>Entries of applications\<close>

definition CFE_ES_AppID_ToIndex :: "evs_cfg \<Rightarrow> CFE_ResourceId_t \<Rightarrow> uint32 option \<Rightarrow> CFE_Status_t \<times> uint32 option" where
  "CFE_ES_AppID_ToIndex cfg ID Idx =
     CFE_ResourceId_ToIndex ID (CFE_ES_APPID_BASE cfg) (of_nat CFE_PLATFORM_ES_MAX_APPLICATIONS) Idx"

definition EVS_GetAppDataByID :: "evs_cfg \<Rightarrow> CFE_ResourceId_t \<Rightarrow> nat option" where
  "EVS_GetAppDataByID cfg ID =
     (case CFE_ES_AppID_ToIndex cfg ID (Some 0) of
        (Status, AppIndex) \<Rightarrow>
          if Status = CFE_SUCCESS \<and> unat (the AppIndex) < CFE_PLATFORM_ES_MAX_APPLICATIONS then Some (unat (the AppIndex))
          else None)"

definition EVS_AppDataIsUsed :: "evs_state \<Rightarrow> nat \<Rightarrow> bool" where
  "EVS_AppDataIsUsed s i \<longleftrightarrow> AppID (AppData s i) \<noteq> CFE_RESOURCEID_UNDEFINED"

definition EVS_AppDataIsMatch :: "evs_state \<Rightarrow> nat option \<Rightarrow> CFE_ResourceId_t \<Rightarrow> bool" where
  "EVS_AppDataIsMatch s AppDataPtr ID \<longleftrightarrow> (case AppDataPtr of None \<Rightarrow> False | Some i \<Rightarrow> AppID (AppData s i) = ID)"

definition EVS_GetCurrentContext :: "evs_cfg \<Rightarrow> evs_caller \<Rightarrow> CFE_Status_t \<times> nat option \<times> CFE_ResourceId_t" where
  "EVS_GetCurrentContext cfg c =
     (case GetAppID c of
        (Status, ID) \<Rightarrow>
          let AppDataPtr = (if Status = CFE_SUCCESS then EVS_GetAppDataByID cfg ID else None)
          in (if AppDataPtr = None then CFE_EVS_APP_ILLEGAL_APP_ID else Status, AppDataPtr, ID))"

definition EVS_GetApplicationInfo :: "evs_cfg \<Rightarrow> evs_caller \<Rightarrow> string \<Rightarrow> evs_state \<Rightarrow> CFE_Status_t \<times> nat option" where
  "EVS_GetApplicationInfo cfg c pAppName s =
     (case AppIDByName c pAppName of
        (Status, ID) \<Rightarrow>
          if Status \<noteq> CFE_SUCCESS then (Status, None)
          else (case EVS_GetAppDataByID cfg ID of
                  None \<Rightarrow> (CFE_EVS_APP_ILLEGAL_APP_ID, None)
                | Some i \<Rightarrow> if \<not> EVS_AppDataIsMatch s (Some i) ID then (CFE_EVS_APP_NOT_REGISTERED, None)
                            else (Status, Some i)))"

section \<open>Event packets\<close>

definition EVS_OutputPort :: "uint8 \<Rightarrow> string \<Rightarrow> evs_state \<Rightarrow> evs_state" where
  "EVS_OutputPort PortNum Msg s =
     evs_issue (Port_output PortNum (expand Copying (''EVS Port%u %s'' @ [CHR 0x0A]) [Num (uint PortNum), Str Msg])) s"

text \<open>The text of an array of characters, up to its null.\<close>

definition text_in :: "string \<Rightarrow> string" where
  "text_in buf = takeWhile (\<lambda>c. c \<noteq> CHR 0x00) buf"

text \<open>The line of an event for the ports; \<^verbatim>\<open>CFE_TIME_Print\<close> always returns (lemma \<open>Print_returns\<close>).\<close>

definition port_message :: "evs_cfg \<Rightarrow> CFE_EVS_LongEventTlm_t \<Rightarrow> string" where
  "port_message cfg EVS_Pkt =
     (let PktTime = the (snd (CFE_MSG_GetMsgTime (EvsBuild cfg) (Some (LongHeader EVS_Pkt)) (Some \<lparr>Seconds = 0, Subseconds = 0\<rparr>)));
          TimeBuffer = text_in (the (the (CFE_TIME_Print (EvsEpoch cfg) (Some []) PktTime)));
          ID = LongPacketID EVS_Pkt
      in take (CFE_EVS_MAX_PORT_MSG_LENGTH - 1)
           (expand Copying ''%s %u/%u/%s %u: %s''
              [Str TimeBuffer, Num (uint (PktSpacecraftID ID)), Num (uint (PktProcessorID ID)), Str (PktAppName ID),
               Num (uint (PktEventID ID)), Str (Message EVS_Pkt)]))"

definition EVS_SendViaPorts :: "evs_cfg \<Rightarrow> CFE_EVS_LongEventTlm_t \<Rightarrow> evs_state \<Rightarrow> evs_state" where
  "EVS_SendViaPorts cfg EVS_Pkt s =
     (let PortMessage = port_message cfg EVS_Pkt;
          port = (\<lambda>n mask s. if OutputPort (EVS_TlmPkt s) AND mask \<noteq> 0 then EVS_OutputPort n PortMessage s else s)
      in port 4 8 (port 3 4 (port 2 2 (port 1 1 s))))"

text \<open>The packet that is built of an event: the header with the time, who sent it, and the text, whose last character is
  replaced when it is too long.\<close>

definition event_packet ::
    "evs_cfg \<Rightarrow> evs_caller \<Rightarrow> CFE_ResourceId_t \<Rightarrow> uint16 \<Rightarrow> uint16 \<Rightarrow> CFE_TIME_SysTime_t \<Rightarrow> string \<Rightarrow> CFE_EVS_LongEventTlm_t" where
  "event_packet cfg c ID EventID EventType TimeStamp txt =
     (let hdr = snd (CFE_MSG_Init (EvsBuild cfg) (Some (\<lambda>_. 0)) (LONG_EVENT_MSG_MID cfg) (sizeof_LongEventTlm cfg));
          Msg = (if length txt \<ge> CFE_MISSION_EVS_MAX_MESSAGE_LENGTH
                 then (take (CFE_MISSION_EVS_MAX_MESSAGE_LENGTH - 1) txt)[CFE_MISSION_EVS_MAX_MESSAGE_LENGTH - 2 := CFE_EVS_MSG_TRUNCATED]
                 else txt)
      in \<lparr>LongHeader = the (snd (CFE_MSG_SetMsgTime (EvsBuild cfg) hdr TimeStamp)),
          LongPacketID = \<lparr>PktAppName = AppNameOf c ID, PktEventID = EventID, PktEventType = EventType,
                          PktSpacecraftID = PspSpacecraftId cfg, PktProcessorID = PspProcessorId cfg\<rparr>,
          Message = Msg\<rparr>)"

definition EVS_GenerateEventTelemetry ::
    "evs_cfg \<Rightarrow> evs_caller \<Rightarrow> nat \<Rightarrow> uint16 \<Rightarrow> uint16 \<Rightarrow> CFE_TIME_SysTime_t \<Rightarrow> string \<Rightarrow> printf_arg list
       \<Rightarrow> evs_state \<Rightarrow> evs_state" where
  "EVS_GenerateEventTelemetry cfg c i EventID EventType TimeStamp MsgSpec ArgPtr s =
     (let txt = expand Copying MsgSpec ArgPtr;
          LongEventTlm = event_packet cfg c (AppID (AppData s i)) EventID EventType TimeStamp txt;
          s = (if length txt \<ge> CFE_MISSION_EVS_MAX_MESSAGE_LENGTH
               then upd_evs_hk (\<lambda>h. h\<lparr>MessageTruncCounter := MessageTruncCounter h + 1\<rparr>) s else s);
          s = s\<lparr>EVS_Log := EVS_AddLog LongEventTlm (EVS_Log s)\<rparr>;
          s = EVS_SendViaPorts cfg LongEventTlm s;
          s = (if MessageFormatMode (EVS_TlmPkt s) = CFE_EVS_MsgFormat_LONG then evs_issue (Long_sent LongEventTlm) s
               else if MessageFormatMode (EVS_TlmPkt s) = CFE_EVS_MsgFormat_SHORT
               then let hdr = snd (CFE_MSG_Init (EvsBuild cfg) (Some (\<lambda>_. 0)) (SHORT_EVENT_MSG_MID cfg) (sizeof_ShortEventTlm cfg))
                    in evs_issue (Short_sent \<lparr>ShortHeader = the (snd (CFE_MSG_SetMsgTime (EvsBuild cfg) hdr TimeStamp)),
                                              ShortPacketID = LongPacketID LongEventTlm\<rparr>) s
               else s);
          s = (if MessageSendCounter (EVS_TlmPkt s) < CFE_EVS_MAX_EVENT_SEND_COUNT
               then upd_evs_hk (\<lambda>h. h\<lparr>MessageSendCounter := MessageSendCounter h + 1\<rparr>) s else s)
      in if EventCount (AppData s i) < CFE_EVS_MAX_EVENT_SEND_COUNT
         then upd_app i (\<lambda>a. a\<lparr>EventCount := EventCount a + 1\<rparr>) s else s)"

section \<open>Filters\<close>

definition EVS_FindEventID :: "uint16 \<Rightarrow> (nat \<Rightarrow> EVS_BinFilter_t) \<Rightarrow> nat option" where
  "EVS_FindEventID EventID FilterArray =
     find (\<lambda>i. FilterEventID (FilterArray i) = EventID) [0..<CFE_PLATFORM_EVS_MAX_EVENT_FILTERS]"

lemma FindEventID_Some:
  "EVS_FindEventID EventID fs = Some k \<Longrightarrow> k < 8 \<and> FilterEventID (fs k) = EventID"
  by (auto simp: EVS_FindEventID_def find_Some_iff)

text \<open>Whether the event type is enabled for the application.\<close>

definition type_disabled :: "uint8 \<Rightarrow> uint16 \<Rightarrow> bool" where
  "type_disabled EventTypesActive EventType =
     (if EventType = CFE_EVS_EventType_DEBUG then EventTypesActive AND CFE_EVS_DEBUG_BIT = 0
      else if EventType = CFE_EVS_EventType_INFORMATION then EventTypesActive AND CFE_EVS_INFORMATION_BIT = 0
      else if EventType = CFE_EVS_EventType_ERROR then EventTypesActive AND CFE_EVS_ERROR_BIT = 0
      else if EventType = CFE_EVS_EventType_CRITICAL then EventTypesActive AND CFE_EVS_CRITICAL_BIT = 0
      else True)"

text \<open>Counting an event in a filter may itself send an event, which is filtered with the filters of event services.  The
  recursion ends: each time it comes back, one more of those filters is locked.\<close>

definition unlocked :: "evs_cfg \<Rightarrow> evs_state \<Rightarrow> nat" where
  "unlocked cfg s =
     (case EVS_GetAppDataByID cfg (EVS_AppID s) of
        None \<Rightarrow> 0
      | Some j \<Rightarrow> card {k. k < 8 \<and> FilterCount (BinFilters (AppData s j) k) \<noteq> CFE_EVS_MAX_FILTER_COUNT})"

lemma unlocked_other: "EVS_GetAppDataByID cfg (EVS_AppID s) \<noteq> Some i \<Longrightarrow> unlocked cfg (upd_filter i k f s) = unlocked cfg s"
  by (auto simp: unlocked_def upd_filter_def upd_app_def split: option.split)

lemma unlocked_less:
  assumes "EVS_GetAppDataByID cfg (EVS_AppID s) = Some i" "k < 8" "FilterCount (BinFilters (AppData s i) k) < 65535"
    "FilterCount (f (BinFilters (AppData s i) k)) = 65535"
  shows "unlocked cfg (upd_filter i k f s) < unlocked cfg s"
proof -
  let ?S = "{k. k < 8 \<and> FilterCount (BinFilters (AppData s i) k) \<noteq> 65535}"
  have "{n. n < 8 \<and> FilterCount (BinFilters (AppData (upd_filter i k f s) i) n) \<noteq> 65535} = ?S - {k}"
    using assms by (auto simp: upd_filter_def upd_app_def)
  moreover have "k \<in> ?S" using assms by auto
  ultimately have "unlocked cfg (upd_filter i k f s) = card (?S - {k})"
    using assms(1) by (simp add: unlocked_def upd_filter_def upd_app_def)
  also have "\<dots> < card ?S" using \<open>k \<in> ?S\<close> by (intro card_Diff1_less) auto
  finally show ?thesis using assms(1) by (simp add: unlocked_def)
qed

function EVS_IsFiltered ::
      "evs_cfg \<Rightarrow> evs_caller \<Rightarrow> nat \<Rightarrow> uint16 \<Rightarrow> uint16 \<Rightarrow> evs_state \<Rightarrow> bool \<times> evs_state"
  and EVS_SendEvent ::
      "evs_cfg \<Rightarrow> evs_caller \<Rightarrow> uint16 \<Rightarrow> uint16 \<Rightarrow> string \<Rightarrow> printf_arg list \<Rightarrow> evs_state \<Rightarrow> evs_state" where
  "EVS_IsFiltered cfg c i EventID EventType s =
     (if \<not> ActiveFlag (AppData s i) \<or> type_disabled (EventTypesActiveFlag (AppData s i)) EventType then (True, s)
      else case EVS_FindEventID EventID (BinFilters (AppData s i)) of
             None \<Rightarrow> (False, s)
           | Some k \<Rightarrow>
               let Filter = BinFilters (AppData s i) k; Filtered = FilterMask Filter AND FilterCount Filter \<noteq> 0
               in if FilterCount Filter < CFE_EVS_MAX_FILTER_COUNT
                  then let s' = upd_filter i k (\<lambda>f. f\<lparr>FilterCount := FilterCount f + 1\<rparr>) s
                       in if FilterCount Filter + 1 = CFE_EVS_MAX_FILTER_COUNT
                          then (Filtered, EVS_SendEvent cfg c 42 CFE_EVS_EventType_INFORMATION
                                  ''Max filter count reached, AppName = %s, EventID = 0x%08x: Filter locked until reset''
                                  [Str (AppNameOf c (AppID (AppData s' i))), Num (uint EventID)] s')
                          else (Filtered, s')
                  else (Filtered, s))"
| "EVS_SendEvent cfg c EventID EventType Spec args s =
     (case EVS_GetAppDataByID cfg (EVS_AppID s) of
        None \<Rightarrow> s
      | Some i \<Rightarrow>
          if EVS_AppDataIsMatch s (Some i) (EVS_AppID s)
          then case EVS_IsFiltered cfg c i EventID EventType s of
                 (Filtered, s) \<Rightarrow>
                   if \<not> Filtered then EVS_GenerateEventTelemetry cfg c i EventID EventType (TimeNow c) Spec args s else s
          else s)"
  by pat_completeness auto
termination
proof (relation "measure (\<lambda>x. case x of
      Inl (cfg, c, i, EventID, EventType, s) \<Rightarrow>
        (if EVS_GetAppDataByID cfg (EVS_AppID s) = Some i then 2 * unlocked cfg s else 2 * unlocked cfg s + 2)
    | Inr (cfg, c, EventID, EventType, Spec, args, s) \<Rightarrow> 2 * unlocked cfg s + 1)", goal_cases)
  case 1 show ?case by simp
next
  case (2 cfg c i EventID EventType s k x xa x')
  then show ?case
    using unlocked_less [of cfg s i k "\<lambda>f. f\<lparr>FilterCount := FilterCount f + 1\<rparr>"]
      unlocked_other [of cfg s i k "\<lambda>f. f\<lparr>FilterCount := FilterCount f + 1\<rparr>"]
    by (auto dest: FindEventID_Some simp: upd_filter_def upd_app_def)
next
  case 3 then show ?case by simp
qed

declare EVS_IsFiltered.simps [simp del] EVS_SendEvent.simps [simp del]

section \<open>Rate limit\<close>

abbreviation (input) OS_TIME_TICKS_PER_MSEC :: int where "OS_TIME_TICKS_PER_MSEC \<equiv> 10000"
abbreviation (input) EVENT_COST :: int where "EVENT_COST \<equiv> 1000"

definition OS_TimeGetTotalMilliseconds :: "OS_time_t \<Rightarrow> int" where
  "OS_TimeGetTotalMilliseconds tm = tm sdiv OS_TIME_TICKS_PER_MSEC"

definition UPPER_THRESHOLD :: "evs_state \<Rightarrow> int" where
  "UPPER_THRESHOLD s = sint (EVS_EventBurstMax s * 1000)"
definition LOWER_THRESHOLD :: "evs_state \<Rightarrow> int" where
  "LOWER_THRESHOLD s = - sint (EVS_EventBurstMax s) * 1000"

text \<open>The entry after a call, whether the event may pass, and whether the application is reported.  The sums are at 64 bits
  and stay between the thresholds, so they do not wrap.\<close>

definition squelch_tokens :: "int \<Rightarrow> int \<Rightarrow> OS_time_t \<Rightarrow> EVS_AppData_t \<Rightarrow> bool \<times> bool \<times> EVS_AppData_t" where
  "squelch_tokens upper lower CurrentTime a =
     (let DeltaTimeMs = OS_TimeGetTotalMilliseconds (CurrentTime - LastSquelchCreditableTime a);
          CreditCount = DeltaTimeMs * CFE_PLATFORM_EVS_APP_EVENTS_PER_SEC;
          a = (if CreditCount \<ge> EVENT_COST
               then a\<lparr>LastSquelchCreditableTime := CurrentTime,
                      SquelchTokens := if SquelchTokens a + CreditCount > upper then upper else SquelchTokens a + CreditCount\<rparr>
               else a);
          (NotSquelched, SendSquelchEvent, a) =
            (if SquelchTokens a \<le> 0
             then (False, SquelchTokens a > - EVENT_COST \<and> CreditCount < EVENT_COST,
                   if SquelchedCount a < CFE_EVS_MAX_SQUELCH_COUNT then a\<lparr>SquelchedCount := SquelchedCount a + 1\<rparr> else a)
             else (True, False, a));
          a = a\<lparr>SquelchTokens := if SquelchTokens a - EVENT_COST < lower then lower else SquelchTokens a - EVENT_COST\<rparr>
      in (NotSquelched, SendSquelchEvent, a))"

definition EVS_CheckAndIncrementSquelchTokens :: "evs_cfg \<Rightarrow> evs_caller \<Rightarrow> nat \<Rightarrow> evs_state \<Rightarrow> bool \<times> evs_state" where
  "EVS_CheckAndIncrementSquelchTokens cfg c i s =
     (if EVS_EventBurstMax s \<noteq> 0
      then case squelch_tokens (UPPER_THRESHOLD s) (LOWER_THRESHOLD s) (PspNow c) (AppData s i) of
             (NotSquelched, SendSquelchEvent, a) \<Rightarrow>
               let s = upd_app i (\<lambda>_. a) s
               in (NotSquelched,
                   if SendSquelchEvent
                   then EVS_SendEvent cfg c 44 CFE_EVS_EventType_ERROR ''Events squelched, AppName = %s''
                          [Str (AppNameOf c (AppID (AppData s i)))] s
                   else s)
      else (True, s))"

section \<open>Applications that are not registered, and event types\<close>

definition EVS_NotRegistered ::
    "evs_cfg \<Rightarrow> evs_caller \<Rightarrow> nat \<Rightarrow> CFE_ResourceId_t \<Rightarrow> evs_state \<Rightarrow> CFE_Status_t \<times> evs_state" where
  "EVS_NotRegistered cfg c i CallerID s =
     (CFE_EVS_APP_NOT_REGISTERED,
      if UnregAppID (AppData s i) \<noteq> CallerID
      then let s = upd_evs_hk (\<lambda>h. h\<lparr>UnregisteredAppCounter := UnregisteredAppCounter h + 1\<rparr>) s;
               s = upd_app i (\<lambda>a. a\<lparr>UnregAppID := CallerID\<rparr>) s
           in EVS_SendEvent cfg c 41 CFE_EVS_EventType_ERROR
                ''App %s not registered with Event Services. Unable to send event.'' [Str (AppNameOf c CallerID)] s
      else s)"

abbreviation (input) EventTypeBits :: uint8 where
  "EventTypeBits \<equiv> CFE_EVS_DEBUG_BIT OR CFE_EVS_INFORMATION_BIT OR CFE_EVS_ERROR_BIT OR CFE_EVS_CRITICAL_BIT"

definition EVS_EnableTypes :: "nat \<Rightarrow> uint8 \<Rightarrow> evs_state \<Rightarrow> evs_state" where
  "EVS_EnableTypes i BitMask s =
     upd_app i (\<lambda>a. a\<lparr>EventTypesActiveFlag := EventTypesActiveFlag a OR (BitMask AND EventTypeBits)\<rparr>) s"
definition EVS_DisableTypes :: "nat \<Rightarrow> uint8 \<Rightarrow> evs_state \<Rightarrow> evs_state" where
  "EVS_DisableTypes i BitMask s =
     upd_app i (\<lambda>a. a\<lparr>EventTypesActiveFlag := EventTypesActiveFlag a AND NOT (BitMask AND EventTypeBits)\<rparr>) s"

section \<open>Functions for applications\<close>

record CFE_EVS_BinFilter_t =
  BinEventID :: uint16
  BinMask :: uint16

definition zero_filter :: EVS_BinFilter_t where
  "zero_filter = \<lparr>FilterEventID = 0, FilterMask = 0, FilterCount = 0\<rparr>"

definition zero_app :: EVS_AppData_t where
  "zero_app = \<lparr>AppID = CFE_RESOURCEID_UNDEFINED, UnregAppID = CFE_RESOURCEID_UNDEFINED, BinFilters = (\<lambda>_. zero_filter),
     ActiveFlag = False, EventTypesActiveFlag = 0, EventCount = 0, LastSquelchCreditableTime = 0, SquelchTokens = 0,
     SquelchedCount = 0\<rparr>"

text \<open>\<open>Filters\<close> is the array at the pointer, or NULL.  Without filters the first \<open>FilterLimit\<close> entries keep their zeros.\<close>

definition registered_filters :: "(nat \<Rightarrow> CFE_EVS_BinFilter_t) option \<Rightarrow> nat \<Rightarrow> nat \<Rightarrow> EVS_BinFilter_t" where
  "registered_filters Filters FilterLimit i =
     (if i < FilterLimit
      then (case Filters of None \<Rightarrow> zero_filter
                          | Some f \<Rightarrow> \<lparr>FilterEventID = BinEventID (f i), FilterMask = BinMask (f i), FilterCount = 0\<rparr>)
      else if i < CFE_PLATFORM_EVS_MAX_EVENT_FILTERS
           then \<lparr>FilterEventID = CFE_EVS_FREE_SLOT, FilterMask = 0, FilterCount = 0\<rparr> else zero_filter)"

definition CFE_EVS_Register ::
    "evs_cfg \<Rightarrow> evs_caller \<Rightarrow> (nat \<Rightarrow> CFE_EVS_BinFilter_t) option \<Rightarrow> uint16 \<Rightarrow> uint16 \<Rightarrow> evs_state \<Rightarrow> CFE_Status_t \<times> evs_state" where
  "CFE_EVS_Register cfg c Filters NumEventFilters FilterScheme s =
     (case EVS_GetCurrentContext cfg c of
        (Status, AppDataPtr, ID) \<Rightarrow>
          if Status = CFE_SUCCESS
          then let i = the AppDataPtr; s = upd_app i (\<lambda>_. zero_app) s
               in if FilterScheme \<noteq> 0 then (CFE_EVS_UNKNOWN_FILTER, s)
                  else if NumEventFilters \<noteq> 0 \<and> Filters = None then (CFE_ES_BAD_ARGUMENT, s)
                  else let FilterLimit = min (unat NumEventFilters) CFE_PLATFORM_EVS_MAX_EVENT_FILTERS
                       in (Status, upd_app i (\<lambda>a. a\<lparr>ActiveFlag := True, EventTypesActiveFlag := CFE_PLATFORM_EVS_DEFAULT_TYPE_FLAG,
                                    SquelchTokens := uint CFE_PLATFORM_EVS_MAX_APP_EVENT_BURST * 1000,
                                    BinFilters := registered_filters Filters FilterLimit, AppID := ID\<rparr>) s)
          else (Status, s))"

text \<open>What \<^verbatim>\<open>CFE_EVS_SendEvent\<close>, \<^verbatim>\<open>CFE_EVS_SendEventWithAppID\<close> and \<^verbatim>\<open>CFE_EVS_SendTimedEvent\<close> do for the entry of an application.\<close>

definition send_app_event ::
    "evs_cfg \<Rightarrow> evs_caller \<Rightarrow> nat \<Rightarrow> CFE_ResourceId_t \<Rightarrow> CFE_TIME_SysTime_t \<Rightarrow> uint16 \<Rightarrow> uint16 \<Rightarrow> string \<Rightarrow> printf_arg list
       \<Rightarrow> evs_state \<Rightarrow> CFE_Status_t \<times> evs_state" where
  "send_app_event cfg c i ID Time EventID EventType Spec args s =
     (if \<not> EVS_AppDataIsMatch s (Some i) ID then EVS_NotRegistered cfg c i ID s
      else case EVS_IsFiltered cfg c i EventID EventType s of
             (Filtered, s) \<Rightarrow>
               if \<not> Filtered
               then (case EVS_CheckAndIncrementSquelchTokens cfg c i s of
                       (NotSquelched, s) \<Rightarrow>
                         if NotSquelched
                         then (CFE_SUCCESS, EVS_GenerateEventTelemetry cfg c i EventID EventType Time Spec args s)
                         else (CFE_EVS_APP_SQUELCHED, s))
               else (CFE_SUCCESS, s))"

definition CFE_EVS_SendTimedEvent ::
    "evs_cfg \<Rightarrow> evs_caller \<Rightarrow> CFE_TIME_SysTime_t \<Rightarrow> uint16 \<Rightarrow> uint16 \<Rightarrow> string option \<Rightarrow> printf_arg list \<Rightarrow> evs_state
       \<Rightarrow> CFE_Status_t \<times> evs_state" where
  "CFE_EVS_SendTimedEvent cfg c Time EventID EventType Spec args s =
     (case Spec of
        None \<Rightarrow> (CFE_EVS_INVALID_PARAMETER, s)
      | Some spec \<Rightarrow>
          (case EVS_GetCurrentContext cfg c of
             (Status, AppDataPtr, ID) \<Rightarrow>
               if Status = CFE_SUCCESS then send_app_event cfg c (the AppDataPtr) ID Time EventID EventType spec args s
               else (Status, s)))"

definition CFE_EVS_SendEvent ::
    "evs_cfg \<Rightarrow> evs_caller \<Rightarrow> uint16 \<Rightarrow> uint16 \<Rightarrow> string option \<Rightarrow> printf_arg list \<Rightarrow> evs_state \<Rightarrow> CFE_Status_t \<times> evs_state" where
  "CFE_EVS_SendEvent cfg c EventID EventType Spec args s =
     (case Spec of
        None \<Rightarrow> (CFE_EVS_INVALID_PARAMETER, s)
      | Some spec \<Rightarrow>
          (case EVS_GetCurrentContext cfg c of
             (Status, AppDataPtr, ID) \<Rightarrow>
               if Status = CFE_SUCCESS
               then send_app_event cfg c (the AppDataPtr) ID (TimeNow c) EventID EventType spec args s
               else (Status, s)))"

definition CFE_EVS_SendEventWithAppID ::
    "evs_cfg \<Rightarrow> evs_caller \<Rightarrow> uint16 \<Rightarrow> uint16 \<Rightarrow> CFE_ResourceId_t \<Rightarrow> string option \<Rightarrow> printf_arg list \<Rightarrow> evs_state
       \<Rightarrow> CFE_Status_t \<times> evs_state" where
  "CFE_EVS_SendEventWithAppID cfg c EventID EventType ID Spec args s =
     (case Spec of
        None \<Rightarrow> (CFE_EVS_INVALID_PARAMETER, s)
      | Some spec \<Rightarrow>
          (case EVS_GetAppDataByID cfg ID of
             None \<Rightarrow> (CFE_EVS_APP_ILLEGAL_APP_ID, s)
           | Some i \<Rightarrow> send_app_event cfg c i ID (TimeNow c) EventID EventType spec args s))"

abbreviation (input) reset_count :: "EVS_BinFilter_t \<Rightarrow> EVS_BinFilter_t" where "reset_count f \<equiv> f\<lparr>FilterCount := 0\<rparr>"

definition reset_filters :: "nat \<Rightarrow> evs_state \<Rightarrow> evs_state" where
  "reset_filters i s =
     upd_app i (\<lambda>a. a\<lparr>BinFilters := \<lambda>k. if k < CFE_PLATFORM_EVS_MAX_EVENT_FILTERS then reset_count (BinFilters a k) else BinFilters a k\<rparr>) s"

definition CFE_EVS_ResetFilter :: "evs_cfg \<Rightarrow> evs_caller \<Rightarrow> uint16 \<Rightarrow> evs_state \<Rightarrow> CFE_Status_t \<times> evs_state" where
  "CFE_EVS_ResetFilter cfg c EventID s =
     (case EVS_GetCurrentContext cfg c of
        (Status, AppDataPtr, ID) \<Rightarrow>
          if Status \<noteq> CFE_SUCCESS then (Status, s)
          else if \<not> EVS_AppDataIsMatch s AppDataPtr ID then (CFE_EVS_APP_NOT_REGISTERED, s)
          else (case EVS_FindEventID EventID (BinFilters (AppData s (the AppDataPtr))) of
                  Some k \<Rightarrow> (Status, upd_filter (the AppDataPtr) k reset_count s)
                | None \<Rightarrow> (CFE_EVS_EVT_NOT_REGISTERED, s)))"

definition CFE_EVS_ResetAllFilters :: "evs_cfg \<Rightarrow> evs_caller \<Rightarrow> evs_state \<Rightarrow> CFE_Status_t \<times> evs_state" where
  "CFE_EVS_ResetAllFilters cfg c s =
     (case EVS_GetCurrentContext cfg c of
        (Status, AppDataPtr, ID) \<Rightarrow>
          if Status \<noteq> CFE_SUCCESS then (Status, s)
          else if \<not> EVS_AppDataIsMatch s AppDataPtr ID then (CFE_EVS_APP_NOT_REGISTERED, s)
          else (Status, reset_filters (the AppDataPtr) s))"

definition CFE_EVS_CleanUpApp :: "evs_cfg \<Rightarrow> CFE_ResourceId_t \<Rightarrow> evs_state \<Rightarrow> CFE_Status_t \<times> evs_state" where
  "CFE_EVS_CleanUpApp cfg ID s =
     (case EVS_GetAppDataByID cfg ID of
        None \<Rightarrow> (CFE_EVS_APP_ILLEGAL_APP_ID, s)
      | Some i \<Rightarrow> (CFE_SUCCESS,
                   if EVS_AppDataIsMatch s (Some i) ID then upd_app i (\<lambda>a. a\<lparr>AppID := CFE_RESOURCEID_UNDEFINED\<rparr>) s else s))"

end
