(* ===== verification/CFS_EvsTask.thy ===== *)
theory CFS_EvsTask
  imports CFS_Evs
begin

text \<open>
  The task of event services: \<^verbatim>\<open>cfe_evs_task.c\<close>, the commands on the log of \<^verbatim>\<open>cfe_evs_log.c\<close>, and the dispatch of received
  messages, \<^verbatim>\<open>cfe_evs_dispatch.c\<close>.  A message is the record of what the dispatcher and the handlers read from it.  A
  handler gives its status and the state.
\<close>

section \<open>Messages\<close>

record evs_msg =
  EvsMsgId :: uint32
  EvsFcnCode :: uint16
  EvsMsgSize :: uint64
  PayAppName :: "nat \<Rightarrow> uint8"
  PayEventID :: uint16
  PayMask :: uint16
  PayBitMask :: uint8
  PayMsgFormat :: uint8
  PayLogMode :: uint8
  PayFilename :: string

text \<open>Message IDs and the sizes of the command types, which the build fixes.\<close>

record evs_msg_cfg =
  CFE_EVS_CMD_MID :: uint32
  CFE_EVS_SEND_HK_MID :: uint32
  evs_cmd_length :: "uint16 \<Rightarrow> uint64"

abbreviation (input) OS_MAX_API_NAME :: nat where "OS_MAX_API_NAME \<equiv> 20"
abbreviation (input) OS_MAX_PATH_LEN :: nat where "OS_MAX_PATH_LEN \<equiv> 64"

text \<open>The name in a command, copied with \<^verbatim>\<open>CFE_SB_MessageStringGet\<close>.\<close>

definition string_at :: "nat \<Rightarrow> (nat \<Rightarrow> uint8) \<Rightarrow> string" where
  "string_at n m = text_in (map (\<lambda>i. char_of (unat (m i))) [0..<n])"

definition LocalName :: "evs_msg \<Rightarrow> string" where
  "LocalName data =
     string_at OS_MAX_API_NAME (the (snd (CFE_SB_MessageStringGet (Some (\<lambda>_. 0)) (PayAppName data) None
       (of_nat OS_MAX_API_NAME) (of_nat OS_MAX_API_NAME))))"

section \<open>Start\<close>

text \<open>The answers of the surroundings at the start: the reset area and whether it is large enough, the mutex, and whether the
  processor was powered on.\<close>

record evs_boot =
  ResetAreaOk :: bool
  ResetAreaLarge :: bool
  MutexOk :: bool
  PowerOn :: bool

text \<open>\<open>reset_log\<close> is the log in the reset area.\<close>

definition CFE_EVS_EarlyInit :: "evs_boot \<Rightarrow> CFE_EVS_Log_t \<Rightarrow> evs_state \<Rightarrow> CFE_Status_t \<times> evs_state" where
  "CFE_EVS_EarlyInit boot reset_log s =
     (let s = s\<lparr>AppData := (\<lambda>_. zero_app), EVS_AppID := CFE_RESOURCEID_UNDEFINED, EVS_Log := reset_log,
                EVS_TlmPkt := \<lparr>EvsCommandCounter = 0, EvsCommandErrorCounter = 0, MessageFormatMode = CFE_EVS_MsgFormat_LONG,
                  MessageTruncCounter = 0, UnregisteredAppCounter = 0, OutputPort = CFE_PLATFORM_EVS_PORT_DEFAULT,
                  HkLogFullFlag = 0, HkLogMode = CFE_PLATFORM_EVS_DEFAULT_LOG_MODE, MessageSendCounter = 0,
                  HkLogOverflowCounter = 0, LogEnabled = False,
                  HkAppData = (\<lambda>_. \<lparr>TlmAppID = CFE_RESOURCEID_UNDEFINED, AppMessageSentCounter = 0, AppEnableStatus = False,
                                   AppMessageSquelchedCounter = 0\<rparr>)\<rparr>,
                EVS_EventBurstMax := CFE_PLATFORM_EVS_MAX_APP_EVENT_BURST\<rparr>
      in if \<not> ResetAreaOk boot \<or> \<not> ResetAreaLarge boot then (CFE_EVS_RESET_AREA_POINTER, s)
         else let Status = (if MutexOk boot then CFE_SUCCESS else CFE_STATUS_EXTERNAL_RESOURCE_FAIL);
                  s = upd_evs_hk (\<lambda>h. h\<lparr>LogEnabled := True\<rparr>) s; l = EVS_Log s
              in (Status,
                  if PowerOn boot \<or>
                     (LogMode l \<noteq> CFE_EVS_LogMode_OVERWRITE \<and> LogMode l \<noteq> CFE_EVS_LogMode_DISCARD) \<or>
                     (LogFullFlag l \<noteq> 0 \<and> LogFullFlag l \<noteq> 1) \<or> LogNext l \<ge> CFE_PLATFORM_EVS_LOG_MAX
                  then s\<lparr>EVS_Log := (EVS_ClearLog l)\<lparr>LogMode := CFE_PLATFORM_EVS_DEFAULT_LOG_MODE\<rparr>\<rparr> else s))"

text \<open>\<open>pipe\<close> is the outcome of creating the command pipe and subscribing to its two messages.\<close>

definition CFE_EVS_TaskInit :: "evs_cfg \<Rightarrow> evs_caller \<Rightarrow> CFE_Status_t \<Rightarrow> evs_state \<Rightarrow> CFE_Status_t \<times> evs_state" where
  "CFE_EVS_TaskInit cfg c pipe s =
     (case GetAppID c of
        (Status, ID) \<Rightarrow>
          if Status \<noteq> CFE_SUCCESS then (Status, s)
          else (case CFE_EVS_Register cfg c None 0 0 s of
                  (Status, s) \<Rightarrow>
                    if Status \<noteq> CFE_SUCCESS then (Status, s)
                    else if pipe \<noteq> CFE_SUCCESS then (pipe, s)
                    else (CFE_SUCCESS,
                          EVS_SendEvent cfg c 1 CFE_EVS_EventType_INFORMATION ''cFE EVS Initialized: %s''
                            [Str (EvsVersionString cfg)] (s\<lparr>EVS_AppID := ID\<rparr>))))"

section \<open>Housekeeping\<close>

definition CFE_EVS_NoopCmd :: "evs_cfg \<Rightarrow> evs_caller \<Rightarrow> evs_state \<Rightarrow> CFE_Status_t \<times> evs_state" where
  "CFE_EVS_NoopCmd cfg c s =
     (CFE_SUCCESS, EVS_SendEvent cfg c 0 CFE_EVS_EventType_INFORMATION ''No-op Cmd Rcvd: %s'' [Str (EvsVersionString cfg)] s)"

definition CFE_EVS_ClearLogCmd :: "evs_state \<Rightarrow> CFE_Status_t \<times> evs_state" where
  "CFE_EVS_ClearLogCmd s = (CFE_SUCCESS, s\<lparr>EVS_Log := EVS_ClearLog (EVS_Log s)\<rparr>)"

text \<open>The loop over the applications: \<open>j\<close> entries of the packet have been filled.\<close>

function report_apps ::
    "evs_state \<Rightarrow> nat \<Rightarrow> nat \<Rightarrow> (nat \<Rightarrow> CFE_EVS_AppTlmData_t) \<Rightarrow> nat \<times> (nat \<Rightarrow> CFE_EVS_AppTlmData_t)" where
  "report_apps s i j tlm =
     (if j < CFE_MISSION_ES_MAX_APPLICATIONS \<and> i < CFE_PLATFORM_ES_MAX_APPLICATIONS
      then if EVS_AppDataIsUsed s i
           then report_apps s (i + 1) (j + 1)
                  (tlm(j := \<lparr>TlmAppID = AppID (AppData s i), AppMessageSentCounter = EventCount (AppData s i),
                             AppEnableStatus = ActiveFlag (AppData s i), AppMessageSquelchedCounter = SquelchedCount (AppData s i)\<rparr>))
           else report_apps s (i + 1) j tlm
      else (j, tlm))"
  by pat_completeness auto
termination by (relation "measure (\<lambda>(s, i, j, tlm). CFE_PLATFORM_ES_MAX_APPLICATIONS - i)") auto

declare report_apps.simps [simp del]

text \<open>The loop that clears the unused entries: its pointer does not move, so every round clears the entry \<open>j\<close>.\<close>

definition clear_unused :: "nat \<Rightarrow> (nat \<Rightarrow> CFE_EVS_AppTlmData_t) \<Rightarrow> nat \<Rightarrow> CFE_EVS_AppTlmData_t" where
  "clear_unused j tlm =
     fold (\<lambda>i tlm. tlm(j := \<lparr>TlmAppID = CFE_RESOURCEID_UNDEFINED, AppMessageSentCounter = 0, AppEnableStatus = False,
                            AppMessageSquelchedCounter = 0\<rparr>)) [j..<CFE_MISSION_ES_MAX_APPLICATIONS] tlm"

definition CFE_EVS_SendHkCmd :: "evs_state \<Rightarrow> CFE_Status_t \<times> evs_state" where
  "CFE_EVS_SendHkCmd s =
     (let s = upd_evs_hk (\<lambda>h. h\<lparr>HkLogFullFlag := LogFullFlag (EVS_Log s), HkLogMode := LogMode (EVS_Log s),
                                HkLogOverflowCounter := LogOverflowCounter (EVS_Log s)\<rparr>) s;
          (j, tlm) = report_apps s 0 0 (HkAppData (EVS_TlmPkt s));
          s = upd_evs_hk (\<lambda>h. h\<lparr>HkAppData := clear_unused j tlm\<rparr>) s
      in (CFE_STATUS_NO_COUNTER_INCREMENT, evs_issue (EvsHk_sent (EVS_TlmPkt s)) s))"

definition CFE_EVS_ResetCountersCmd :: "evs_cfg \<Rightarrow> evs_caller \<Rightarrow> evs_state \<Rightarrow> CFE_Status_t \<times> evs_state" where
  "CFE_EVS_ResetCountersCmd cfg c s =
     (CFE_STATUS_NO_COUNTER_INCREMENT,
      EVS_SendEvent cfg c 16 CFE_EVS_EventType_DEBUG ''Reset Counters Command Received'' []
        (upd_evs_hk (\<lambda>h. h\<lparr>EvsCommandCounter := 0, EvsCommandErrorCounter := 0, MessageSendCounter := 0,
                           MessageTruncCounter := 0, UnregisteredAppCounter := 0\<rparr>) s))"

section \<open>Ports, event types and format\<close>

definition bitmask_error :: "evs_cfg \<Rightarrow> evs_caller \<Rightarrow> evs_msg \<Rightarrow> int \<Rightarrow> evs_state \<Rightarrow> CFE_Status_t \<times> evs_state" where
  "bitmask_error cfg c data CC s =
     (CFE_EVS_INVALID_PARAMETER,
      EVS_SendEvent cfg c 40 CFE_EVS_EventType_ERROR ''Bit Mask = 0x%08x out of range: CC = %lu''
        [Num (uint (PayBitMask data)), Num CC] s)"

text \<open>The loop over the registered applications.\<close>

definition for_used_apps :: "(nat \<Rightarrow> evs_state \<Rightarrow> evs_state) \<Rightarrow> evs_state \<Rightarrow> evs_state" where
  "for_used_apps f s =
     fold (\<lambda>i s. if EVS_AppDataIsUsed s i then f i s else s) [0..<CFE_PLATFORM_ES_MAX_APPLICATIONS] s"

definition CFE_EVS_EnablePortsCmd :: "evs_cfg \<Rightarrow> evs_caller \<Rightarrow> evs_msg \<Rightarrow> evs_state \<Rightarrow> CFE_Status_t \<times> evs_state" where
  "CFE_EVS_EnablePortsCmd cfg c data s =
     (if PayBitMask data = 0 \<or> PayBitMask data > 0x0F then bitmask_error cfg c data 11 s
      else (CFE_SUCCESS,
            EVS_SendEvent cfg c 18 CFE_EVS_EventType_DEBUG ''Enable Ports Command Received with Port Bit Mask = 0x%02x'' [Num (uint (PayBitMask data))]
              (upd_evs_hk (\<lambda>h. h\<lparr>OutputPort := OutputPort h OR PayBitMask data\<rparr>) s)))"

definition CFE_EVS_DisablePortsCmd :: "evs_cfg \<Rightarrow> evs_caller \<Rightarrow> evs_msg \<Rightarrow> evs_state \<Rightarrow> CFE_Status_t \<times> evs_state" where
  "CFE_EVS_DisablePortsCmd cfg c data s =
     (if PayBitMask data = 0 \<or> PayBitMask data > 0x0F then bitmask_error cfg c data 12 s
      else (CFE_SUCCESS,
            EVS_SendEvent cfg c 19 CFE_EVS_EventType_DEBUG ''Disable Ports Command Received with Port Bit Mask = 0x%02x'' [Num (uint (PayBitMask data))]
              (upd_evs_hk (\<lambda>h. h\<lparr>OutputPort := OutputPort h AND NOT (PayBitMask data)\<rparr>) s)))"

definition CFE_EVS_EnableEventTypeCmd :: "evs_cfg \<Rightarrow> evs_caller \<Rightarrow> evs_msg \<Rightarrow> evs_state \<Rightarrow> CFE_Status_t \<times> evs_state" where
  "CFE_EVS_EnableEventTypeCmd cfg c data s =
     (if PayBitMask data = 0 \<or> PayBitMask data > 0x0F then bitmask_error cfg c data 2 s
      else (CFE_SUCCESS,
            EVS_SendEvent cfg c 20 CFE_EVS_EventType_DEBUG ''Enable Event Type Command Received with Event Type Bit Mask = 0x%02x'' [Num (uint (PayBitMask data))]
              (for_used_apps (\<lambda>i. EVS_EnableTypes i (PayBitMask data)) s)))"

definition CFE_EVS_DisableEventTypeCmd :: "evs_cfg \<Rightarrow> evs_caller \<Rightarrow> evs_msg \<Rightarrow> evs_state \<Rightarrow> CFE_Status_t \<times> evs_state" where
  "CFE_EVS_DisableEventTypeCmd cfg c data s =
     (if PayBitMask data = 0 \<or> PayBitMask data > 0x0F then bitmask_error cfg c data 3 s
      else (CFE_SUCCESS,
            EVS_SendEvent cfg c 21 CFE_EVS_EventType_DEBUG ''Disable Event Type Command Received with Event Type Bit Mask = 0x%02x'' [Num (uint (PayBitMask data))]
              (for_used_apps (\<lambda>i. EVS_DisableTypes i (PayBitMask data)) s)))"

definition CFE_EVS_SetEventFormatModeCmd :: "evs_cfg \<Rightarrow> evs_caller \<Rightarrow> evs_msg \<Rightarrow> evs_state \<Rightarrow> CFE_Status_t \<times> evs_state" where
  "CFE_EVS_SetEventFormatModeCmd cfg c data s =
     (if PayMsgFormat data = CFE_EVS_MsgFormat_SHORT \<or> PayMsgFormat data = CFE_EVS_MsgFormat_LONG
      then (CFE_SUCCESS,
            EVS_SendEvent cfg c 22 CFE_EVS_EventType_DEBUG ''Set Event Format Mode Command Received with Mode = 0x%02x''
              [Num (uint (PayMsgFormat data))] (upd_evs_hk (\<lambda>h. h\<lparr>MessageFormatMode := PayMsgFormat data\<rparr>) s))
      else (CFE_EVS_INVALID_PARAMETER,
            EVS_SendEvent cfg c 10 CFE_EVS_EventType_ERROR
              ''Set Event Format Mode Command: Invalid Event Format Mode = 0x%02x'' [Num (uint (PayMsgFormat data))] s))"

definition CFE_EVS_SetLogModeCmd :: "evs_cfg \<Rightarrow> evs_caller \<Rightarrow> evs_msg \<Rightarrow> evs_state \<Rightarrow> CFE_Status_t \<times> evs_state" where
  "CFE_EVS_SetLogModeCmd cfg c data s =
     (if PayLogMode data = CFE_EVS_LogMode_OVERWRITE \<or> PayLogMode data = CFE_EVS_LogMode_DISCARD
      then (CFE_SUCCESS,
            EVS_SendEvent cfg c 38 CFE_EVS_EventType_DEBUG ''Set Log Mode Command: Log Mode = %d''
              [Num (uint (PayLogMode data))] (s\<lparr>EVS_Log := (EVS_Log s)\<lparr>LogMode := PayLogMode data\<rparr>\<rparr>))
      else (CFE_EVS_INVALID_PARAMETER,
            EVS_SendEvent cfg c 39 CFE_EVS_EventType_ERROR ''Set Log Mode Command Error: Log Mode = %d''
              [Num (uint (PayLogMode data))] s))"

section \<open>Commands on one application\<close>

abbreviation (input) not_registered_text :: string where
  "not_registered_text \<equiv> ''%s not registered with EVS: CC = %lu''"
abbreviation (input) no_id_text :: string where
  "no_id_text \<equiv> ''Unable to retrieve application ID for %s: CC = %lu''"

text \<open>A command names an application: its handler runs on the entry of the application, or one of three errors is
  reported; two of the texts differ between commands.\<close>

definition app_command ::
    "evs_cfg \<Rightarrow> evs_caller \<Rightarrow> evs_msg \<Rightarrow> int \<Rightarrow> string \<Rightarrow> string \<Rightarrow> (nat \<Rightarrow> evs_state \<Rightarrow> CFE_Status_t \<times> evs_state)
       \<Rightarrow> evs_state \<Rightarrow> CFE_Status_t \<times> evs_state" where
  "app_command cfg c data CC not_registered no_id handler s =
     (case EVS_GetApplicationInfo cfg c (LocalName data) s of
        (Status, AppDataPtr) \<Rightarrow>
          if Status = CFE_SUCCESS then handler (the AppDataPtr) s
          else (Status,
                if Status = CFE_EVS_APP_NOT_REGISTERED
                then EVS_SendEvent cfg c 7 CFE_EVS_EventType_ERROR not_registered [Str (LocalName data), Num CC] s
                else if Status = CFE_EVS_APP_ILLEGAL_APP_ID
                then EVS_SendEvent cfg c 8 CFE_EVS_EventType_ERROR ''Illegal application ID retrieved for %s: CC = %lu''
                       [Str (LocalName data), Num CC] s
                else EVS_SendEvent cfg c 9 CFE_EVS_EventType_ERROR no_id [Str (LocalName data), Num CC] s))"

definition CFE_EVS_EnableAppEventTypeCmd :: "evs_cfg \<Rightarrow> evs_caller \<Rightarrow> evs_msg \<Rightarrow> evs_state \<Rightarrow> CFE_Status_t \<times> evs_state" where
  "CFE_EVS_EnableAppEventTypeCmd cfg c data s =
     app_command cfg c data 5 not_registered_text no_id_text (\<lambda>i s.
       if PayBitMask data = 0 \<or> PayBitMask data > 0x0F then bitmask_error cfg c data 5 s
       else (CFE_SUCCESS,
             EVS_SendEvent cfg c 23 CFE_EVS_EventType_DEBUG
               ''Enable App Event Type Command Received with AppName = %s, EventType Bit Mask = 0x%02x''
               [Str (LocalName data), Num (uint (PayBitMask data))] (EVS_EnableTypes i (PayBitMask data) s))) s"

definition CFE_EVS_DisableAppEventTypeCmd :: "evs_cfg \<Rightarrow> evs_caller \<Rightarrow> evs_msg \<Rightarrow> evs_state \<Rightarrow> CFE_Status_t \<times> evs_state" where
  "CFE_EVS_DisableAppEventTypeCmd cfg c data s =
     app_command cfg c data 6 ''%s not registered with EVS,: CC = %lu'' no_id_text (\<lambda>i s.
       if PayBitMask data = 0 \<or> PayBitMask data > 0x0F then bitmask_error cfg c data 6 s
       else (CFE_SUCCESS,
             EVS_SendEvent cfg c 24 CFE_EVS_EventType_DEBUG
               ''Disable App Event Type Command Received with AppName = %s, EventType Bit Mask = 0x%02x''
               [Str (LocalName data), Num (uint (PayBitMask data))] (EVS_DisableTypes i (PayBitMask data) s))) s"

definition CFE_EVS_EnableAppEventsCmd :: "evs_cfg \<Rightarrow> evs_caller \<Rightarrow> evs_msg \<Rightarrow> evs_state \<Rightarrow> CFE_Status_t \<times> evs_state" where
  "CFE_EVS_EnableAppEventsCmd cfg c data s =
     app_command cfg c data 7 not_registered_text no_id_text (\<lambda>i s.
       (CFE_SUCCESS,
        EVS_SendEvent cfg c 25 CFE_EVS_EventType_DEBUG ''Enable App Events Command Received with AppName = %s''
          [Str (LocalName data)] (upd_app i (\<lambda>a. a\<lparr>ActiveFlag := True\<rparr>) s))) s"

definition CFE_EVS_DisableAppEventsCmd :: "evs_cfg \<Rightarrow> evs_caller \<Rightarrow> evs_msg \<Rightarrow> evs_state \<Rightarrow> CFE_Status_t \<times> evs_state" where
  "CFE_EVS_DisableAppEventsCmd cfg c data s =
     app_command cfg c data 8 not_registered_text ''Disable App Events Command: Unable to retrieve application ID for %s: CC = %lu'' (\<lambda>i s.
       (CFE_SUCCESS,
        EVS_SendEvent cfg c 26 CFE_EVS_EventType_DEBUG ''Disable App Events Command Received with AppName = %s''
          [Str (LocalName data)] (upd_app i (\<lambda>a. a\<lparr>ActiveFlag := False\<rparr>) s))) s"

definition CFE_EVS_ResetAppCounterCmd :: "evs_cfg \<Rightarrow> evs_caller \<Rightarrow> evs_msg \<Rightarrow> evs_state \<Rightarrow> CFE_Status_t \<times> evs_state" where
  "CFE_EVS_ResetAppCounterCmd cfg c data s =
     app_command cfg c data 9 not_registered_text ''Reset Event Counter Command: Unable to retrieve application ID for %s: CC = %lu'' (\<lambda>i s.
       (CFE_SUCCESS,
        EVS_SendEvent cfg c 27 CFE_EVS_EventType_DEBUG ''Reset Event Counter Command Received with AppName = %s''
          [Str (LocalName data)] (upd_app i (\<lambda>a. a\<lparr>EventCount := 0, SquelchedCount := 0\<rparr>) s))) s"

definition CFE_EVS_ResetAllFiltersCmd :: "evs_cfg \<Rightarrow> evs_caller \<Rightarrow> evs_msg \<Rightarrow> evs_state \<Rightarrow> CFE_Status_t \<times> evs_state" where
  "CFE_EVS_ResetAllFiltersCmd cfg c data s =
     app_command cfg c data 14 not_registered_text no_id_text (\<lambda>i s.
       (CFE_SUCCESS,
        EVS_SendEvent cfg c 29 CFE_EVS_EventType_DEBUG ''Reset All Filters Command Received with AppName = %s''
          [Str (LocalName data)] (reset_filters i s))) s"


section \<open>Commands on filters\<close>

definition CFE_EVS_SetFilterCmd :: "evs_cfg \<Rightarrow> evs_caller \<Rightarrow> evs_msg \<Rightarrow> evs_state \<Rightarrow> CFE_Status_t \<times> evs_state" where
  "CFE_EVS_SetFilterCmd cfg c data s =
     app_command cfg c data 10 not_registered_text no_id_text (\<lambda>i s.
       case EVS_FindEventID (PayEventID data) (BinFilters (AppData s i)) of
         Some k \<Rightarrow>
           (CFE_SUCCESS,
            EVS_SendEvent cfg c 17 CFE_EVS_EventType_DEBUG
              ''Set Filter Mask Command Received with AppName=%s, EventID=0x%08x, Mask=0x%04x''
              [Str (LocalName data), Num (uint (PayEventID data)), Num (uint (PayMask data))]
              (upd_filter i k (\<lambda>f. f\<lparr>FilterMask := PayMask data\<rparr>) s))
       | None \<Rightarrow>
           (CFE_EVS_EVT_NOT_REGISTERED,
            EVS_SendEvent cfg c 6 CFE_EVS_EventType_ERROR ''%s Event ID %d not registered for filtering: CC = %lu ''
              [Str (LocalName data), Num (uint (PayEventID data)), Num 10] s)) s"

definition CFE_EVS_ResetFilterCmd :: "evs_cfg \<Rightarrow> evs_caller \<Rightarrow> evs_msg \<Rightarrow> evs_state \<Rightarrow> CFE_Status_t \<times> evs_state" where
  "CFE_EVS_ResetFilterCmd cfg c data s =
     app_command cfg c data 13 not_registered_text no_id_text (\<lambda>i s.
       case EVS_FindEventID (PayEventID data) (BinFilters (AppData s i)) of
         Some k \<Rightarrow>
           (CFE_SUCCESS,
            EVS_SendEvent cfg c 28 CFE_EVS_EventType_DEBUG
              ''Reset Filter Command Received with AppName = %s, EventID = 0x%08x''
              [Str (LocalName data), Num (uint (PayEventID data))]
              (upd_filter i k (reset_count) s))
       | None \<Rightarrow>
           (CFE_EVS_EVT_NOT_REGISTERED,
            EVS_SendEvent cfg c 6 CFE_EVS_EventType_ERROR ''%s Event ID %d not registered for filtering: CC = %lu''
              [Str (LocalName data), Num (uint (PayEventID data)), Num 13] s)) s"

definition CFE_EVS_DeleteEventFilterCmd :: "evs_cfg \<Rightarrow> evs_caller \<Rightarrow> evs_msg \<Rightarrow> evs_state \<Rightarrow> CFE_Status_t \<times> evs_state" where
  "CFE_EVS_DeleteEventFilterCmd cfg c data s =
     app_command cfg c data 16 not_registered_text no_id_text (\<lambda>i s.
       case EVS_FindEventID (PayEventID data) (BinFilters (AppData s i)) of
         Some k \<Rightarrow>
           (CFE_SUCCESS,
            EVS_SendEvent cfg c 31 CFE_EVS_EventType_DEBUG
              ''Delete Filter Command Received with AppName = %s, EventID = 0x%08x''
              [Str (LocalName data), Num (uint (PayEventID data))]
              (upd_filter i k (\<lambda>f. f\<lparr>FilterEventID := CFE_EVS_FREE_SLOT, FilterMask := CFE_EVS_NO_MASK, FilterCount := 0\<rparr>) s))
       | None \<Rightarrow>
           (CFE_EVS_EVT_NOT_REGISTERED,
            EVS_SendEvent cfg c 6 CFE_EVS_EventType_ERROR ''%s Event ID %d not registered for filtering: CC = %lu''
              [Str (LocalName data), Num (uint (PayEventID data)), Num 16] s)) s"

definition CFE_EVS_AddEventFilterCmd :: "evs_cfg \<Rightarrow> evs_caller \<Rightarrow> evs_msg \<Rightarrow> evs_state \<Rightarrow> CFE_Status_t \<times> evs_state" where
  "CFE_EVS_AddEventFilterCmd cfg c data s =
     app_command cfg c data 15 not_registered_text no_id_text (\<lambda>i s.
       case EVS_FindEventID (PayEventID data) (BinFilters (AppData s i)) of
         Some k \<Rightarrow>
           (CFE_EVS_EVT_NOT_REGISTERED,
            EVS_SendEvent cfg c 37 CFE_EVS_EventType_ERROR
              ''Add Filter Command:AppName = %s, EventID = 0x%08x is already registered for filtering''
              [Str (LocalName data), Num (uint (PayEventID data))] s)
       | None \<Rightarrow>
           (case EVS_FindEventID CFE_EVS_FREE_SLOT (BinFilters (AppData s i)) of
              Some k \<Rightarrow>
                (CFE_SUCCESS,
                 EVS_SendEvent cfg c 30 CFE_EVS_EventType_DEBUG
                   ''Add Filter Command Received with AppName = %s, EventID = 0x%08x, Mask = 0x%04x''
                   [Str (LocalName data), Num (uint (PayEventID data)), Num (uint (PayMask data))]
                   (upd_filter i k (\<lambda>f. f\<lparr>FilterEventID := PayEventID data, FilterMask := PayMask data, FilterCount := 0\<rparr>) s))
            | None \<Rightarrow>
                (CFE_EVS_APP_FILTER_OVERLOAD,
                 EVS_SendEvent cfg c 11 CFE_EVS_EventType_ERROR
                   ''Add Filter Command: number of registered filters has reached max = %d''
                   [Num (int CFE_PLATFORM_EVS_MAX_EVENT_FILTERS)] s))) s"

section \<open>Commands that write files\<close>

abbreviation (input) CFE_FS_SubType_EVS_APPDATA :: uint32 where "CFE_FS_SubType_EVS_APPDATA \<equiv> 15"
abbreviation (input) CFE_FS_SubType_EVS_EVENTLOG :: uint32 where "CFE_FS_SubType_EVS_EVENTLOG \<equiv> 16"

text \<open>The name of a file to write; the parser always returns (property \<open>ParseInputFileName_bounded\<close>).\<close>

definition dump_file_name :: "evs_cfg \<Rightarrow> string \<Rightarrow> string \<Rightarrow> CFE_Status_t \<times> string" where
  "dump_file_name cfg input DefaultInput =
     map_prod id the (the (CFE_FS_ParseInputFileNameEx False (Some input) (Some DefaultInput)
       \<lparr>OutputBufSize = OS_MAX_PATH_LEN,
        DefaultPath = CFE_FS_GetDefaultMountPoint (EvsFsConfig cfg) CFE_FS_FileCategory_BINARY_DATA_DUMP,
        DefaultExtension = CFE_FS_GetDefaultExtension (EvsFsConfig cfg) CFE_FS_FileCategory_BINARY_DATA_DUMP\<rparr>))"

definition evs_fs_caller :: "evs_cfg \<Rightarrow> evs_caller \<Rightarrow> fs_caller" where
  "evs_fs_caller cfg c =
     \<lparr>LittleEndian = EvsLittleEndian cfg, CallerSpacecraftId = PspSpacecraftId cfg, CallerProcessorId = PspProcessorId cfg,
      CallerAppId = snd (GetAppID c), CallerTime = TimeNow c\<rparr>"

definition bytes_written :: "CFE_Status_t + int \<Rightarrow> int" where
  "bytes_written r = (case r of Inl Status \<Rightarrow> sint (status_code Status) | Inr n \<Rightarrow> n)"

definition evs_os_call :: "evs_file_record file_op \<Rightarrow> int \<Rightarrow> evs_state \<Rightarrow> int \<times> evs_state" where
  "evs_os_call ev full s = (case os_call ev full (EvsFiles s) of (OsStatus, f) \<Rightarrow> (OsStatus, s\<lparr>EvsFiles := f\<rparr>))"

definition evs_write_header :: "evs_cfg \<Rightarrow> evs_caller \<Rightarrow> string \<Rightarrow> uint32 \<Rightarrow> evs_state \<Rightarrow> int \<times> evs_state" where
  "evs_write_header cfg c desc subtype s =
     (case CFE_FS_WriteHeader (evs_fs_caller cfg c) (CFE_FS_InitHeader (Some zero_header) (Some desc) subtype) (EvsFiles s) of
        (Status, _, f) \<Rightarrow> (bytes_written Status, s\<lparr>EvsFiles := f\<rparr>))"

definition evs_close :: "evs_state \<Rightarrow> evs_state" where
  "evs_close s = s\<lparr>EvsFiles := OS_close (EvsFiles s)\<rparr>"

text \<open>The loop over the entries of the log: \<open>n\<close> of them are left, \<open>i\<close> are written, and \<open>LogIndex\<close> is the next one.\<close>

fun write_log_entries :: "evs_cfg \<Rightarrow> nat \<Rightarrow> nat \<Rightarrow> nat \<Rightarrow> int \<Rightarrow> evs_state \<Rightarrow> nat \<times> int \<times> evs_state" where
  "write_log_entries cfg 0 i LogIndex OsStatus s = (i, OsStatus, s)"
| "write_log_entries cfg (Suc n) i LogIndex OsStatus s =
     (case evs_os_call (Wrote_record (Log_record (LogEntry (EVS_Log s) LogIndex))) (int (unat (sizeof_LongEventTlm cfg))) s of
        (OsStatus, s) \<Rightarrow>
          if OsStatus = int (unat (sizeof_LongEventTlm cfg))
          then write_log_entries cfg n (i + 1) (if LogIndex + 1 \<ge> unat CFE_PLATFORM_EVS_LOG_MAX then 0 else LogIndex + 1) OsStatus s
          else (i, OsStatus, s))"

definition CFE_EVS_WriteLogDataFileCmd :: "evs_cfg \<Rightarrow> evs_caller \<Rightarrow> evs_msg \<Rightarrow> evs_state \<Rightarrow> CFE_Status_t \<times> evs_state" where
  "CFE_EVS_WriteLogDataFileCmd cfg c data s =
     (case dump_file_name cfg (PayFilename data) ''/ram/cfe_evs.log'' of
        (Result, LogFilename) \<Rightarrow>
          if Result \<noteq> CFE_SUCCESS
          then (Result, EVS_SendEvent cfg c 3 CFE_EVS_EventType_ERROR
                  ''Write Log File Command Error: CFE_FS_ParseInputFileNameEx() = 0x%08X'' [Num (uint (status_code Result))] s)
          else case evs_os_call (Opened LogFilename) OS_SUCCESS_STATUS s of
                 (OsStatus, s) \<Rightarrow>
                   if OsStatus \<noteq> OS_SUCCESS_STATUS
                   then (CFE_STATUS_EXTERNAL_RESOURCE_FAIL,
                         EVS_SendEvent cfg c 3 CFE_EVS_EventType_ERROR
                           ''Write Log File Command Error: OS_OpenCreate = %ld, filename = %s'' [Num OsStatus, Str LogFilename] s)
                   else case evs_write_header cfg c ''cFE EVS Log File'' CFE_FS_SubType_EVS_EVENTLOG s of
                     (BytesWritten, s) \<Rightarrow>
                       if BytesWritten = int sizeof_CFE_FS_Header_t
                       then let n = unat (LogCount (EVS_Log s));
                                LogIndex = (if LogCount (EVS_Log s) = CFE_PLATFORM_EVS_LOG_MAX then unat (LogNext (EVS_Log s)) else 0)
                            in (case write_log_entries cfg n 0 LogIndex OsStatus s of
                                  (i, OsStatus, s) \<Rightarrow>
                                    if i = n
                                    then (CFE_SUCCESS,
                                          evs_close (EVS_SendEvent cfg c 33 CFE_EVS_EventType_DEBUG
                                            ''Write Log File Command: %d event log entries written to %s''
                                            [Num (int n), Str LogFilename] s))
                                    else (CFE_EVS_FILE_WRITE_ERROR,
                                          evs_close (EVS_SendEvent cfg c 2 CFE_EVS_EventType_ERROR
                                            ''Write Log File Command Error: OS_write = %ld, filename = %s''
                                            [Num OsStatus, Str LogFilename] s)))
                       else (CFE_EVS_FILE_WRITE_ERROR,
                             evs_close (EVS_SendEvent cfg c 14 CFE_EVS_EventType_ERROR
                               ''Write File Header to Log File Error: WriteHdr RC: %d, Expected: %d, filename = %s''
                               [Num BytesWritten, Num (int sizeof_CFE_FS_Header_t), Str LogFilename] s)))"

text \<open>The loop over the applications; it ends early, with \<open>False\<close>, when a record cannot be written.\<close>

fun write_app_data :: "evs_cfg \<Rightarrow> evs_caller \<Rightarrow> string \<Rightarrow> nat list \<Rightarrow> nat \<Rightarrow> evs_state \<Rightarrow> bool \<times> nat \<times> evs_state" where
  "write_app_data cfg c name [] EntryCount s = (True, EntryCount, s)"
| "write_app_data cfg c name (i # is) EntryCount s =
     (if EVS_AppDataIsUsed s i
      then let a = AppData s i;
               AppDataFile = \<lparr>FileAppName = AppNameOf c (AppID a), FileActiveFlag = ActiveFlag a,
                 FileEventTypesActiveFlag = EventTypesActiveFlag a, FileEventCount = EventCount a,
                 FileSquelchedCount = SquelchedCount a,
                 FileFilters = map (BinFilters a) [0..<CFE_PLATFORM_EVS_MAX_EVENT_FILTERS]\<rparr>
           in (case evs_os_call (Wrote_record (AppData_record AppDataFile)) (int (sizeof_AppDataFile cfg)) s of
                 (OsStatus, s) \<Rightarrow>
                   if OsStatus = int (sizeof_AppDataFile cfg) then write_app_data cfg c name is (EntryCount + 1) s
                   else (False, EntryCount,
                         EVS_SendEvent cfg c 12 CFE_EVS_EventType_ERROR
                           ''Write App Data Command Error: At entry = %d, OS_write = %ld, filename = %s''
                           [Num (int EntryCount), Num OsStatus, Str name] s))
      else write_app_data cfg c name is EntryCount s)"

definition CFE_EVS_WriteAppDataFileCmd :: "evs_cfg \<Rightarrow> evs_caller \<Rightarrow> evs_msg \<Rightarrow> evs_state \<Rightarrow> CFE_Status_t \<times> evs_state" where
  "CFE_EVS_WriteAppDataFileCmd cfg c data s =
     (case dump_file_name cfg (PayFilename data) ''/ram/cfe_evs_app.dat'' of
        (Result, name) \<Rightarrow>
          if Result \<noteq> CFE_SUCCESS
          then (Result, EVS_SendEvent cfg c 13 CFE_EVS_EventType_ERROR
                  ''Write App Data Command Error: CFE_FS_ParseInputFileNameEx() = 0x%08X'' [Num (uint (status_code Result))] s)
          else case evs_os_call (Opened name) OS_SUCCESS_STATUS s of
                 (OsStatus, s) \<Rightarrow>
                   if OsStatus \<noteq> OS_SUCCESS_STATUS
                   then (CFE_STATUS_EXTERNAL_RESOURCE_FAIL,
                         EVS_SendEvent cfg c 13 CFE_EVS_EventType_ERROR
                           ''Write App Data Command Error: OS_OpenCreate = %ld, filename = %s'' [Num OsStatus, Str name] s)
                   else case evs_write_header cfg c ''EVS Application Data File'' CFE_FS_SubType_EVS_APPDATA s of
                     (BytesWritten, s) \<Rightarrow>
                       if BytesWritten = int sizeof_CFE_FS_Header_t
                       then (case write_app_data cfg c name [0..<CFE_PLATFORM_ES_MAX_APPLICATIONS] 0 s of
                               (complete, EntryCount, s) \<Rightarrow>
                                 if complete
                                 then (CFE_SUCCESS,
                                       evs_close (EVS_SendEvent cfg c 32 CFE_EVS_EventType_DEBUG
                                         ''Write App Data Command: %d application data entries written to %s''
                                         [Num (int EntryCount), Str name] s))
                                 else (CFE_EVS_FILE_WRITE_ERROR, evs_close s))
                       else (CFE_EVS_FILE_WRITE_ERROR, evs_close s))"

section \<open>Dispatch\<close>

definition CFE_EVS_VerifyCmdLength :: "evs_cfg \<Rightarrow> evs_caller \<Rightarrow> evs_msg \<Rightarrow> uint64 \<Rightarrow> evs_state \<Rightarrow> bool \<times> evs_state" where
  "CFE_EVS_VerifyCmdLength cfg c data ExpectedLength s =
     (if ExpectedLength \<noteq> EvsMsgSize data
      then (False, EVS_SendEvent cfg c 43 CFE_EVS_EventType_ERROR
              ''Invalid msg length: ID = 0x%X,  CC = %u, Len = %u, Expected = %u''
              [Num (uint (EvsMsgId data)), Num (uint (EvsFcnCode data)), Num (uint (ucast (EvsMsgSize data) :: uint32)),
               Num (uint (ucast ExpectedLength :: uint32))] s)
      else (True, s))"

text \<open>The handler of each function code.\<close>

definition evs_cmd_handler ::
    "evs_cfg \<Rightarrow> evs_caller \<Rightarrow> evs_msg \<Rightarrow> uint16 \<Rightarrow> (evs_state \<Rightarrow> CFE_Status_t \<times> evs_state) option" where
  "evs_cmd_handler cfg c data cc =
     (if cc = 0 then Some (CFE_EVS_NoopCmd cfg c)
      else if cc = 1 then Some (CFE_EVS_ResetCountersCmd cfg c)
      else if cc = 2 then Some (CFE_EVS_EnableEventTypeCmd cfg c data)
      else if cc = 3 then Some (CFE_EVS_DisableEventTypeCmd cfg c data)
      else if cc = 4 then Some (CFE_EVS_SetEventFormatModeCmd cfg c data)
      else if cc = 5 then Some (CFE_EVS_EnableAppEventTypeCmd cfg c data)
      else if cc = 6 then Some (CFE_EVS_DisableAppEventTypeCmd cfg c data)
      else if cc = 7 then Some (CFE_EVS_EnableAppEventsCmd cfg c data)
      else if cc = 8 then Some (CFE_EVS_DisableAppEventsCmd cfg c data)
      else if cc = 9 then Some (CFE_EVS_ResetAppCounterCmd cfg c data)
      else if cc = 10 then Some (CFE_EVS_SetFilterCmd cfg c data)
      else if cc = 11 then Some (CFE_EVS_EnablePortsCmd cfg c data)
      else if cc = 12 then Some (CFE_EVS_DisablePortsCmd cfg c data)
      else if cc = 13 then Some (CFE_EVS_ResetFilterCmd cfg c data)
      else if cc = 14 then Some (CFE_EVS_ResetAllFiltersCmd cfg c data)
      else if cc = 15 then Some (CFE_EVS_AddEventFilterCmd cfg c data)
      else if cc = 16 then Some (CFE_EVS_DeleteEventFilterCmd cfg c data)
      else if cc = 17 then Some (CFE_EVS_WriteAppDataFileCmd cfg c data)
      else if cc = 18 then Some (CFE_EVS_WriteLogDataFileCmd cfg c data)
      else if cc = 19 then Some (CFE_EVS_SetLogModeCmd cfg c data)
      else if cc = 20 then Some CFE_EVS_ClearLogCmd
      else None)"

definition CFE_EVS_ProcessGroundCommand :: "evs_cfg \<Rightarrow> evs_msg_cfg \<Rightarrow> evs_caller \<Rightarrow> evs_msg \<Rightarrow> evs_state \<Rightarrow> evs_state" where
  "CFE_EVS_ProcessGroundCommand cfg m c data s =
     (case (case evs_cmd_handler cfg c data (EvsFcnCode data) of
              None \<Rightarrow>
                (CFE_STATUS_BAD_COMMAND_CODE,
                 EVS_SendEvent cfg c 15 CFE_EVS_EventType_ERROR ''Invalid command code -- ID = 0x%08x, CC = %u''
                   [Num (uint (EvsMsgId data)), Num (uint (EvsFcnCode data))] s)
            | Some handler \<Rightarrow>
                (case CFE_EVS_VerifyCmdLength cfg c data (evs_cmd_length m (EvsFcnCode data)) s of
                   (ok, s) \<Rightarrow> if ok then handler s else (CFE_STATUS_WRONG_MSG_LENGTH, s))) of
        (Status, s) \<Rightarrow>
          if Status = CFE_SUCCESS then upd_evs_hk (\<lambda>h. h\<lparr>EvsCommandCounter := EvsCommandCounter h + 1\<rparr>) s
          else if sint (status_code Status) < 0
          then upd_evs_hk (\<lambda>h. h\<lparr>EvsCommandErrorCounter := EvsCommandErrorCounter h + 1\<rparr>) s else s)"

definition CFE_EVS_ProcessCommandPacket :: "evs_cfg \<Rightarrow> evs_msg_cfg \<Rightarrow> evs_caller \<Rightarrow> evs_msg \<Rightarrow> evs_state \<Rightarrow> evs_state" where
  "CFE_EVS_ProcessCommandPacket cfg m c data s =
     (if EvsMsgId data = CFE_EVS_CMD_MID m then CFE_EVS_ProcessGroundCommand cfg m c data s
      else if EvsMsgId data = CFE_EVS_SEND_HK_MID m then snd (CFE_EVS_SendHkCmd s)
      else EVS_SendEvent cfg c 5 CFE_EVS_EventType_ERROR ''Invalid command packet, Message ID = 0x%08X''
             [Num (uint (EvsMsgId data))]
             (upd_evs_hk (\<lambda>h. h\<lparr>EvsCommandErrorCounter := EvsCommandErrorCounter h + 1\<rparr>) s))"

end
