(* ===== verification/CFS_EvsLog.thy ===== *)
theory CFS_EvsLog
  imports CFS_EvsTask
begin

text \<open>
  The event log as a bounded list of packets, oldest first, and the file that the ground can have it written to.
\<close>

section \<open>The log as a list\<close>

definition log_events :: "CFE_EVS_Log_t \<Rightarrow> CFE_EVS_LongEventTlm_t list" where
  "log_events l =
     (if LogCount l = 20 then map (LogEntry l) ([unat (LogNext l)..<20] @ [0..<unat (LogNext l)])
      else map (LogEntry l) [0..<unat (LogCount l)])"

definition log_ok :: "CFE_EVS_Log_t \<Rightarrow> bool" where
  "log_ok l \<longleftrightarrow> LogCount l \<le> 20 \<and> LogNext l < 20 \<and> LogFullFlag l = (if LogCount l = 20 then 1 else 0)
     \<and> (LogCount l < 20 \<longrightarrow> LogNext l = LogCount l)"

lemma log_ok_clear: "log_ok (EVS_ClearLog l)"
  by (simp add: log_ok_def EVS_ClearLog_def)

lemma log_events_clear [simp]: "log_events (EVS_ClearLog l) = []"
  by (simp add: log_events_def EVS_ClearLog_def)

lemma length_log_events: "log_ok l \<Longrightarrow> length (log_events l) = unat (LogCount l)"
  by (auto simp: log_events_def log_ok_def word_less_nat_alt)

lemma unat_20: "(n :: uint16) \<noteq> 20 \<Longrightarrow> n \<le> 20 \<Longrightarrow> unat n < 20" "(n :: uint16) < 20 \<Longrightarrow> unat n < 20"
  by (simp_all add: word_le_nat_alt word_less_nat_alt word_unat_eq_iff)

lemma unat_plus1: "unat (n :: uint16) < 20 \<Longrightarrow> unat (n + 1) = unat n + 1"
  by (simp add: unat_word_ariths)

text \<open>A full log with a next position: its list turns by one place.\<close>

lemma map_upd_other: "x \<notin> set xs \<Longrightarrow> map (f(x := y)) xs = map f xs"
  by (induction xs) auto

lemma turn_log:
  assumes "n < (20 :: nat)"
  shows "map (f(n := p)) ([Suc n mod 20..<20] @ [0..<Suc n mod 20]) = tl (map f ([n..<20] @ [0..<n])) @ [p]"
proof (cases "n = 19")
  case True
  have "[0..<20] = [0..<19] @ [19 :: nat]" "[19..<20] = [19 :: nat]" by (simp_all add: upt_rec)
  then show ?thesis using True by (simp add: map_upd_other del: upt_rec_numeral)
next
  case False
  have "[n..<20] = n # [Suc n..<20]" using assms by (simp add: upt_conv_Cons)
  then show ?thesis using assms False by (simp add: map_upd_other del: upt_rec_numeral)
qed

lemma AddLog_room:
  assumes "log_ok l" "LogCount l \<noteq> 20"
  shows "EVS_AddLog p l =
    (if LogCount l = 19 then l\<lparr>LogEntry := (LogEntry l)(19 := p), LogNext := 0, LogCount := 20, LogFullFlag := 1\<rparr>
     else l\<lparr>LogEntry := (LogEntry l)(unat (LogCount l) := p), LogNext := LogCount l + 1, LogCount := LogCount l + 1\<rparr>)"
proof -
  let ?n = "unat (LogCount l)"
  have n: "?n < 20" "LogNext l = LogCount l" "LogFullFlag l = 0"
    using assms unat_20(1) [of "LogCount l"] by (auto simp: log_ok_def)
  have c: "LogCount l < 20" using n(1) by (simp add: word_less_nat_alt)
  show ?thesis
  proof (cases "LogCount l = 19")
    case True then show ?thesis using n by (simp add: EVS_AddLog_def)
  next
    case False
    then have "?n \<noteq> 19" by (simp add: word_unat_eq_iff)
    then have "\<not> 20 \<le> LogCount l + 1" "LogCount l + 1 \<noteq> 20"
      using n(1) unat_plus1 [OF n(1)] by (auto simp: word_le_nat_alt word_unat_eq_iff)
    then show ?thesis using n c False by (simp add: EVS_AddLog_def)
  qed
qed

lemma AddLog_full:
  assumes "log_ok l" "LogCount l = 20"
  shows "EVS_AddLog p l =
    (let l = l\<lparr>LogOverflowCounter := LogOverflowCounter l + 1\<rparr>
     in if LogMode l = CFE_EVS_LogMode_OVERWRITE
        then l\<lparr>LogEntry := (LogEntry l)(unat (LogNext l) := p), LogNext := of_nat (Suc (unat (LogNext l)) mod 20)\<rparr> else l)"
proof -
  have n: "unat (LogNext l) < 20" "LogFullFlag l = 1"
    using assms unat_20(2) [of "LogNext l"] by (auto simp: log_ok_def)
  have "(if 20 \<le> LogNext l + 1 then 0 else LogNext l + 1) = of_nat (Suc (unat (LogNext l)) mod 20)"
  proof (cases "LogNext l = 19")
    case False
    then have "unat (LogNext l) \<noteq> 19" by (simp add: word_unat_eq_iff)
    then have "\<not> 20 \<le> LogNext l + 1" "Suc (unat (LogNext l)) mod 20 = Suc (unat (LogNext l))"
      using n(1) unat_plus1 [OF n(1)] by (auto simp: word_le_nat_alt)
    then show ?thesis by (simp add: add.commute)
  qed simp
  then show ?thesis using n assms(2) by (cases "20 \<le> LogNext l + 1") (simp_all add: EVS_AddLog_def Let_def)
qed

lemma AddLog_events:
  assumes "log_ok l"
  shows "log_ok (EVS_AddLog p l)" "LogMode (EVS_AddLog p l) = LogMode l"
    "log_events (EVS_AddLog p l) =
       (if length (log_events l) < 20 then log_events l @ [p]
        else if LogMode l = CFE_EVS_LogMode_OVERWRITE then tl (log_events l) @ [p] else log_events l)"
    "LogOverflowCounter (EVS_AddLog p l) = LogOverflowCounter l + (if length (log_events l) < 20 then 0 else 1)"
proof -
  note len = length_log_events [OF assms]
  have "log_ok (EVS_AddLog p l) \<and> LogMode (EVS_AddLog p l) = LogMode l \<and> log_events (EVS_AddLog p l) =
       (if length (log_events l) < 20 then log_events l @ [p]
        else if LogMode l = CFE_EVS_LogMode_OVERWRITE then tl (log_events l) @ [p] else log_events l)
     \<and> LogOverflowCounter (EVS_AddLog p l) = LogOverflowCounter l + (if length (log_events l) < 20 then 0 else 1)"
  proof (cases "LogCount l = 20")
    case False
    let ?n = "unat (LogCount l)"
    have n: "?n < 20" using assms False unat_20(1) [of "LogCount l"] by (auto simp: log_ok_def)
    have f: "LogFullFlag l = 0" using assms False by (auto simp: log_ok_def)
    show ?thesis
    proof (cases "LogCount l = 19")
      case True
      have "[0..<20] = [0..<19] @ [19 :: nat]" by (simp add: upt_rec)
      then show ?thesis using True
        by (simp add: AddLog_room [OF assms False] log_ok_def log_events_def map_upd_other del: upt_rec_numeral)
    next
      case n19: False
      then have "?n \<noteq> 19" by (simp add: word_unat_eq_iff)
      then have "LogCount l + 1 < 20" "LogCount l + 1 \<noteq> 20"
        using n unat_plus1 [OF n] by (auto simp: word_less_nat_alt word_unat_eq_iff)
      then show ?thesis using n n19 f False unat_plus1 [OF n]
        by (simp add: AddLog_room [OF assms False] log_ok_def log_events_def map_upd_other del: upt_rec_numeral)
    qed
  next
    case True
    let ?n = "unat (LogNext l)"
    have n: "?n < 20" "LogFullFlag l = 1" "LogNext l < 20"
      using assms True unat_20(2) [of "LogNext l"] by (auto simp: log_ok_def)
    have "Suc ?n mod 20 < 20" by simp
    then have "unat (of_nat (Suc ?n mod 20) :: uint16) = Suc ?n mod 20" by (simp add: unat_of_nat)
    moreover from this have "(of_nat (Suc ?n mod 20) :: uint16) < 20" by (simp add: word_less_nat_alt)
    ultimately show ?thesis
      using n True turn_log [OF n(1), of "LogEntry l" p]
      by (simp add: AddLog_full [OF assms True] Let_def log_ok_def log_events_def len del: upt_rec_numeral)
  qed
  then show "log_ok (EVS_AddLog p l)" "LogMode (EVS_AddLog p l) = LogMode l"
    "log_events (EVS_AddLog p l) =
       (if length (log_events l) < 20 then log_events l @ [p]
        else if LogMode l = CFE_EVS_LogMode_OVERWRITE then tl (log_events l) @ [p] else log_events l)"
    "LogOverflowCounter (EVS_AddLog p l) = LogOverflowCounter l + (if length (log_events l) < 20 then 0 else 1)"
    by simp_all
qed


text \<open>The list after a number of events, from an empty log.\<close>

abbreviation (input) kept :: "uint8 \<Rightarrow> 'a list \<Rightarrow> 'a list" where
  "kept mode ps \<equiv> (if mode = CFE_EVS_LogMode_OVERWRITE then drop (length ps - 20) ps else take 20 ps)"

lemma add_all:
  assumes "log_ok l" "log_events l = kept (LogMode l) ps0" "LogOverflowCounter l = of_nat (length ps0 - 20)"
  shows "log_events (fold EVS_AddLog ps l) = kept (LogMode l) (ps0 @ ps)
    \<and> LogOverflowCounter (fold EVS_AddLog ps l) = of_nat (length ps0 + length ps - 20) \<and> log_ok (fold EVS_AddLog ps l)
    \<and> LogMode (fold EVS_AddLog ps l) = LogMode l"
  using assms
proof (induction ps arbitrary: l ps0)
  case (Cons p ps)
  note add = AddLog_events [OF Cons.prems(1), of p]
  have len: "length (log_events l) = min (length ps0) 20" using Cons.prems(2) by (auto simp: min_def)
  have turn: "20 \<le> length ps0 \<Longrightarrow> drop (length ps0 - 19) ps0 = tl (drop (length ps0 - 20) ps0)"
  proof -
    assume "20 \<le> length ps0"
    then have "length ps0 - 19 = Suc (length ps0 - 20)" by simp
    then show ?thesis by (simp add: drop_Suc tl_drop)
  qed
  have "log_events (EVS_AddLog p l) = kept (LogMode l) (ps0 @ [p])"
    using Cons.prems(2) len add(3) turn by (auto simp: tl_drop [symmetric])
  moreover have "LogOverflowCounter (EVS_AddLog p l) = of_nat (length (ps0 @ [p]) - 20)"
    using Cons.prems(3) len add(4) by (auto simp: Suc_diff_le)
  ultimately show ?case using Cons.IH [OF add(1), of "ps0 @ [p]"] add(2) by simp
qed simp

text \<open>C10. The event log is a bounded list.  After any number of events the log that was cleared holds, oldest first, the last
  20 of them in the overwrite mode and the first 20 in the discard mode, and it has counted the events that did not find
  room.\<close>

lemma event_log_refines:
  "log_events (fold EVS_AddLog ps (EVS_ClearLog l))
     = (if LogMode l = CFE_EVS_LogMode_OVERWRITE then drop (length ps - 20) ps else take 20 ps)
   \<and> LogOverflowCounter (fold EVS_AddLog ps (EVS_ClearLog l)) = of_nat (length ps - 20)"
proof -
  have m: "LogMode (EVS_ClearLog l) = LogMode l" "LogOverflowCounter (EVS_ClearLog l) = 0"
    by (simp_all add: EVS_ClearLog_def)
  then show ?thesis using add_all [OF log_ok_clear, of l "[]" ps] by simp
qed

end
