(* ===== verification/CFS_EvsInv.thy ===== *)
theory CFS_EvsInv
  imports CFS_EvsLog
begin

text \<open>
  What sending an event may change: the counts of the filters that match it, the counters of events, the log and the
  packets sent.  Everything else, the settings of applications and of event services, it leaves alone.  With this frame
  each operation is its own update up to events.
\<close>

section \<open>The frame of events\<close>

definition settings_of :: "EVS_AppData_t \<Rightarrow> EVS_AppData_t" where
  "settings_of a = a\<lparr>BinFilters := \<lambda>k. (BinFilters a k)\<lparr>FilterCount := 0\<rparr>, EventCount := 0\<rparr>"

definition hk_settings :: "CFE_EVS_HousekeepingTlm_Payload_t \<Rightarrow> CFE_EVS_HousekeepingTlm_Payload_t" where
  "hk_settings h = h\<lparr>MessageTruncCounter := 0, MessageSendCounter := 0\<rparr>"

definition counts_ok :: "uint16 set \<Rightarrow> EVS_AppData_t \<Rightarrow> EVS_AppData_t \<Rightarrow> bool" where
  "counts_ok E a a' \<longleftrightarrow> (\<forall>k. (FilterEventID (BinFilters a k) \<notin> E \<longrightarrow> FilterCount (BinFilters a' k) = FilterCount (BinFilters a k))
     \<and> (FilterCount (BinFilters a k) = 65535 \<longrightarrow> FilterCount (BinFilters a' k) = 65535))"

definition evs_quiet :: "uint16 set \<Rightarrow> evs_state \<Rightarrow> evs_state \<Rightarrow> bool" where
  "evs_quiet E s s' \<longleftrightarrow> (\<forall>i. settings_of (AppData s' i) = settings_of (AppData s i) \<and> counts_ok E (AppData s i) (AppData s' i))
     \<and> EVS_AppID s' = EVS_AppID s \<and> EVS_EventBurstMax s' = EVS_EventBurstMax s \<and> EvsFiles s' = EvsFiles s
     \<and> hk_settings (EVS_TlmPkt s') = hk_settings (EVS_TlmPkt s)
     \<and> (\<exists>ps. EVS_Log s' = fold EVS_AddLog ps (EVS_Log s))"

lemma settings_of_eqD:
  assumes "settings_of a' = settings_of a"
  shows "AppID a' = AppID a" "UnregAppID a' = UnregAppID a" "ActiveFlag a' = ActiveFlag a"
    "EventTypesActiveFlag a' = EventTypesActiveFlag a" "LastSquelchCreditableTime a' = LastSquelchCreditableTime a"
    "SquelchTokens a' = SquelchTokens a" "SquelchedCount a' = SquelchedCount a"
    "FilterEventID (BinFilters a' k) = FilterEventID (BinFilters a k)" "FilterMask (BinFilters a' k) = FilterMask (BinFilters a k)"
proof -
  have "BinFilters (settings_of a') k = BinFilters (settings_of a) k" for k using assms by simp
  then have e: "(BinFilters a' k)\<lparr>FilterCount := 0\<rparr> = (BinFilters a k)\<lparr>FilterCount := 0\<rparr>" for k
    by (simp add: settings_of_def)
  show "AppID a' = AppID a" "UnregAppID a' = UnregAppID a" "ActiveFlag a' = ActiveFlag a"
    "EventTypesActiveFlag a' = EventTypesActiveFlag a" "LastSquelchCreditableTime a' = LastSquelchCreditableTime a"
    "SquelchTokens a' = SquelchTokens a" "SquelchedCount a' = SquelchedCount a"
    using arg_cong [OF assms, of AppID] arg_cong [OF assms, of UnregAppID] arg_cong [OF assms, of ActiveFlag]
      arg_cong [OF assms, of EventTypesActiveFlag] arg_cong [OF assms, of LastSquelchCreditableTime]
      arg_cong [OF assms, of SquelchTokens] arg_cong [OF assms, of SquelchedCount]
    by (simp_all add: settings_of_def)
  show "FilterEventID (BinFilters a' k) = FilterEventID (BinFilters a k)" "FilterMask (BinFilters a' k) = FilterMask (BinFilters a k)"
    using arg_cong [OF e [of k], of FilterEventID] arg_cong [OF e [of k], of FilterMask] by simp_all
qed

lemma hk_settings_eqD:
  assumes "hk_settings h' = hk_settings h"
  shows "EvsCommandCounter h' = EvsCommandCounter h" "EvsCommandErrorCounter h' = EvsCommandErrorCounter h"
    "MessageFormatMode h' = MessageFormatMode h" "UnregisteredAppCounter h' = UnregisteredAppCounter h"
    "OutputPort h' = OutputPort h" "LogEnabled h' = LogEnabled h" "HkAppData h' = HkAppData h"
  using arg_cong [OF assms, of EvsCommandCounter] arg_cong [OF assms, of EvsCommandErrorCounter]
    arg_cong [OF assms, of MessageFormatMode] arg_cong [OF assms, of UnregisteredAppCounter]
    arg_cong [OF assms, of OutputPort] arg_cong [OF assms, of LogEnabled] arg_cong [OF assms, of HkAppData]
  by (simp_all add: hk_settings_def)

lemma counts_ok_refl [simp]: "counts_ok E a a" by (simp add: counts_ok_def)

lemma evs_quiet_refl [simp]: "evs_quiet E s s"
  by (auto simp: evs_quiet_def intro: exI [of _ "[]"])

lemma evs_quiet_trans:
  assumes "evs_quiet E s s'" "evs_quiet E s' s''"
  shows "evs_quiet E s s''"
proof -
  have c: "counts_ok E (AppData s i) (AppData s'' i)" for i
    using assms settings_of_eqD(8) [of "AppData s' i" "AppData s i"] by (auto simp: evs_quiet_def counts_ok_def)
  obtain ps qs where "EVS_Log s' = fold EVS_AddLog ps (EVS_Log s)" "EVS_Log s'' = fold EVS_AddLog qs (EVS_Log s')"
    using assms by (auto simp: evs_quiet_def)
  then have "EVS_Log s'' = fold EVS_AddLog (ps @ qs) (EVS_Log s)" by simp
  then show ?thesis using assms c unfolding evs_quiet_def by metis
qed

lemma evs_quiet_mono: "evs_quiet E s s' \<Longrightarrow> E \<subseteq> F \<Longrightarrow> evs_quiet F s s'"
  by (force simp: evs_quiet_def counts_ok_def)

lemma evs_quiet_trans_mono: "evs_quiet F s' s'' \<Longrightarrow> evs_quiet E s s' \<Longrightarrow> F \<subseteq> E \<Longrightarrow> evs_quiet E s s''"
  by (blast intro: evs_quiet_trans evs_quiet_mono)

lemma evs_quiet_issue [simp]: "evs_quiet E s (evs_issue e s')  \<longleftrightarrow> evs_quiet E s s'"
  by (simp add: evs_quiet_def evs_issue_def)

lemma evs_quiet_port: "evs_quiet E s (if b then EVS_OutputPort n m s' else s') \<longleftrightarrow> evs_quiet E s s'"
  by (simp add: EVS_OutputPort_def)

lemma evs_quiet_outputs [simp]: "evs_quiet E s (EVS_SendViaPorts cfg p s') \<longleftrightarrow> evs_quiet E s s'"
  unfolding EVS_SendViaPorts_def Let_def by (simp only: evs_quiet_port)

lemma evs_quiet_event_count: "evs_quiet E s s' \<Longrightarrow> evs_quiet E s (upd_app i (\<lambda>a. a\<lparr>EventCount := n a\<rparr>) s')"
  by (auto simp: evs_quiet_def upd_app_def settings_of_def counts_ok_def)

lemma evs_quiet_hk_count:
  "evs_quiet E s s' \<Longrightarrow> evs_quiet E s (upd_evs_hk (\<lambda>h. h\<lparr>MessageTruncCounter := n h\<rparr>) s')"
  "evs_quiet E s s' \<Longrightarrow> evs_quiet E s (upd_evs_hk (\<lambda>h. h\<lparr>MessageSendCounter := m h\<rparr>) s')"
  by (auto simp: evs_quiet_def upd_evs_hk_def hk_settings_def)

lemma evs_quiet_log: "evs_quiet E s s' \<Longrightarrow> evs_quiet E s (s'\<lparr>EVS_Log := EVS_AddLog p (EVS_Log s')\<rparr>)"
proof -
  assume q: "evs_quiet E s s'"
  then obtain ps where "EVS_Log s' = fold EVS_AddLog ps (EVS_Log s)" by (auto simp: evs_quiet_def)
  then have "EVS_AddLog p (EVS_Log s') = fold EVS_AddLog (ps @ [p]) (EVS_Log s)" by simp
  then show ?thesis using q unfolding evs_quiet_def by (simp, metis)
qed

lemma evs_quiet_generate: "evs_quiet E s (EVS_GenerateEventTelemetry cfg c i EventID EventType t spec args s)"
  by (simp add: EVS_GenerateEventTelemetry_def Let_def evs_quiet_event_count evs_quiet_hk_count evs_quiet_log)

lemma evs_quiet_count:
  assumes "EVS_FindEventID EventID (BinFilters (AppData s i)) = Some k" "FilterCount (BinFilters (AppData s i) k) < 65535"
  shows "evs_quiet {EventID} s (upd_filter i k (\<lambda>f. f\<lparr>FilterCount := FilterCount f + 1\<rparr>) s)"
  using assms FindEventID_Some [OF assms(1)]
  by (auto simp: evs_quiet_def upd_filter_def upd_app_def settings_of_def counts_ok_def fun_eq_iff intro: exI [of _ "[]"])

lemma evs_quiet_events:
  "evs_quiet {EventID, 42} s (snd (EVS_IsFiltered cfg c i EventID EventType s))"
  "evs_quiet {EventID, 42} s (EVS_SendEvent cfg c EventID EventType Spec args s)"
proof (induction cfg c i EventID EventType s and cfg c EventID EventType Spec args s rule: EVS_IsFiltered_EVS_SendEvent.induct)
  case (1 cfg c i EventID EventType s)
  show ?case
  proof (cases "EVS_FindEventID EventID (BinFilters (AppData s i))")
    case (Some k)
    let ?s = "upd_filter i k (\<lambda>f. f\<lparr>FilterCount := FilterCount f + 1\<rparr>) s"
    show ?thesis
    proof (cases "FilterCount (BinFilters (AppData s i) k) < 65535")
      case True
      have q: "evs_quiet {EventID, 42} s ?s" using evs_quiet_count [OF Some True] by (rule evs_quiet_mono) auto
      show ?thesis
        using q 1 [OF _ Some refl refl True refl] Some True
        by (auto simp: EVS_IsFiltered.simps [of cfg c i EventID EventType s] Let_def intro: evs_quiet_trans_mono [OF _ q])
    qed (use Some in \<open>simp add: EVS_IsFiltered.simps Let_def\<close>)
  qed (simp add: EVS_IsFiltered.simps)
next
  case (2 cfg c EventID EventType Spec args s)
  show ?case
    using 2 by (auto simp: EVS_SendEvent.simps [of cfg c EventID EventType Spec args s] split: option.split prod.split
        intro: evs_quiet_trans evs_quiet_generate)
qed

end
