(* ===== verification/CFS_EvsFilter.thy ===== *)
theory CFS_EvsFilter
  imports CFS_EvsInv
begin

text \<open>
  Binary filters: which occurrences of an event pass, whatever else happens between them, and the filters of an
  application as a finite map from event IDs to masks.
\<close>

section \<open>Counting occurrences\<close>

lemma evs_quiet_filters:
  assumes "evs_quiet E s s'"
  shows "EVS_FindEventID EventID (BinFilters (AppData s' i)) = EVS_FindEventID EventID (BinFilters (AppData s i))"
    "FilterMask (BinFilters (AppData s' i) k) = FilterMask (BinFilters (AppData s i) k)"
    "FilterEventID (BinFilters (AppData s' i) k) = FilterEventID (BinFilters (AppData s i) k)"
    "ActiveFlag (AppData s' i) = ActiveFlag (AppData s i)"
    "EventTypesActiveFlag (AppData s' i) = EventTypesActiveFlag (AppData s i)"
    "FilterEventID (BinFilters (AppData s i) k) \<notin> E \<Longrightarrow>
       FilterCount (BinFilters (AppData s' i) k) = FilterCount (BinFilters (AppData s i) k)"
proof -
  have e: "settings_of (AppData s' i) = settings_of (AppData s i)" and c: "counts_ok E (AppData s i) (AppData s' i)"
    using assms by (auto simp: evs_quiet_def)
  show "EVS_FindEventID EventID (BinFilters (AppData s' i)) = EVS_FindEventID EventID (BinFilters (AppData s i))"
    by (simp add: EVS_FindEventID_def settings_of_eqD(8) [OF e])
qed (use assms settings_of_eqD [of "AppData s' i" "AppData s i"] in \<open>auto simp: evs_quiet_def counts_ok_def\<close>)

lemma IsFiltered_count:
  assumes "EVS_FindEventID EventID (BinFilters (AppData s i)) = Some k" "EventID \<noteq> 42"
  shows "FilterCount (BinFilters (AppData (snd (EVS_IsFiltered cfg c j E T s)) i) k) =
    (if j = i \<and> E = EventID \<and> ActiveFlag (AppData s i) \<and> \<not> type_disabled (EventTypesActiveFlag (AppData s i)) T
        \<and> FilterCount (BinFilters (AppData s i) k) < 65535
     then FilterCount (BinFilters (AppData s i) k) + 1 else FilterCount (BinFilters (AppData s i) k))"
proof (cases "EVS_FindEventID E (BinFilters (AppData s j))")
  case (Some n)
  let ?s = "upd_filter j n (\<lambda>f. f\<lparr>FilterCount := FilterCount f + 1\<rparr>) s"
  have id: "FilterEventID (BinFilters (AppData s i) k) = EventID" "FilterEventID (BinFilters (AppData s j) n) = E"
    using FindEventID_Some [OF assms(1)] FindEventID_Some [OF Some] by auto
  have same: "j = i \<and> n = k \<longleftrightarrow> j = i \<and> E = EventID" using id assms(1) Some by (metis option.inject)
  let ?counted = "ActiveFlag (AppData s j) \<and> \<not> type_disabled (EventTypesActiveFlag (AppData s j)) T
    \<and> FilterCount (BinFilters (AppData s j) n) < 65535"
  have one: "FilterCount (BinFilters (AppData ?s i) k) =
      (if j = i \<and> E = EventID then FilterCount (BinFilters (AppData s i) k) + 1 else FilterCount (BinFilters (AppData s i) k))"
    using same by (auto simp: upd_filter_def upd_app_def)
  show ?thesis
  proof (cases ?counted)
    case True
    then have q: "evs_quiet {42} ?s (snd (EVS_IsFiltered cfg c j E T s))"
      using Some evs_quiet_events(2) [of 42 ?s]
      by (simp add: EVS_IsFiltered.simps [of cfg c j E T s] Let_def)
    have fid: "FilterEventID (BinFilters (AppData ?s i) k) = EventID"
      using id(1) by (auto simp: upd_filter_def upd_app_def)
    have "FilterCount (BinFilters (AppData (snd (EVS_IsFiltered cfg c j E T s)) i) k) = FilterCount (BinFilters (AppData ?s i) k)"
      by (rule evs_quiet_filters(6) [OF q]) (simp add: fid assms(2))
    moreover have "j = i \<and> E = EventID \<Longrightarrow> n = k" using same by blast
    ultimately show ?thesis using one True by (cases "j = i \<and> E = EventID") (simp_all only: if_True if_False, auto)
  next
    case False
    then have "snd (EVS_IsFiltered cfg c j E T s) = s"
      using Some by (auto simp: EVS_IsFiltered.simps [of cfg c j E T s] Let_def)
    moreover have "j = i \<and> E = EventID \<Longrightarrow> n = k" using same by blast
    ultimately show ?thesis using False by (cases "j = i \<and> E = EventID") auto
  qed
qed (use assms in \<open>auto simp: EVS_IsFiltered.simps [of cfg c j E T s]\<close>)

text \<open>A history of events: by which caller, for which application, with which ID and type.\<close>

type_synonym evs_event = "evs_caller \<times> nat \<times> uint16 \<times> uint16"

definition filter_event :: "evs_cfg \<Rightarrow> evs_event \<Rightarrow> evs_state \<Rightarrow> evs_state" where
  "filter_event cfg ev s = (case ev of (c, i, EventID, EventType) \<Rightarrow> snd (EVS_IsFiltered cfg c i EventID EventType s))"

abbreviation (input) occurrences :: "nat \<Rightarrow> uint16 \<Rightarrow> evs_event list \<Rightarrow> nat" where
  "occurrences i EventID evs \<equiv> length (filter (\<lambda>(c, j, E, T). j = i \<and> E = EventID) evs)"

lemma filter_event_quiet: "\<exists>E. evs_quiet E s (filter_event cfg ev s)"
  by (cases ev) (simp add: filter_event_def, rule exI, rule evs_quiet_events(1))

lemma history_filters:
  shows "EVS_FindEventID EventID (BinFilters (AppData (fold (filter_event cfg) evs s) i)) = EVS_FindEventID EventID (BinFilters (AppData s i))
    \<and> FilterMask (BinFilters (AppData (fold (filter_event cfg) evs s) i) k) = FilterMask (BinFilters (AppData s i) k)
    \<and> ActiveFlag (AppData (fold (filter_event cfg) evs s) i) = ActiveFlag (AppData s i)
    \<and> EventTypesActiveFlag (AppData (fold (filter_event cfg) evs s) i) = EventTypesActiveFlag (AppData s i)"
proof (induction evs arbitrary: s)
  case (Cons ev evs)
  obtain E where "evs_quiet E s (filter_event cfg ev s)" using filter_event_quiet by blast
  then show ?case using Cons evs_quiet_filters by simp
qed simp

lemma count_Suc: "n < 65535 \<Longrightarrow> (of_nat (min n 65535) :: uint16) + 1 = of_nat (min (Suc n) 65535)"
  by (simp add: min_def)

lemma count_less: "(of_nat (min n 65535) :: uint16) < 65535 \<longleftrightarrow> n < 65535"
  by (simp add: word_less_nat_alt unat_of_nat min_def)

lemma history_count:
  assumes "EVS_FindEventID EventID (BinFilters (AppData s i)) = Some k" "EventID \<noteq> 42" "ActiveFlag (AppData s i)"
    "list_all (\<lambda>(c, j, E, T). j = i \<and> E = EventID \<longrightarrow> \<not> type_disabled (EventTypesActiveFlag (AppData s i)) T) evs"
    "FilterCount (BinFilters (AppData s i) k) = of_nat (min n 65535)"
  shows "FilterCount (BinFilters (AppData (fold (filter_event cfg) evs s) i) k) = of_nat (min (n + occurrences i EventID evs) 65535)"
  using assms
proof (induction evs arbitrary: s n)
  case (Cons ev evs)
  obtain c j E T where ev: "ev = (c, j, E, T)" by (cases ev)
  let ?s = "filter_event cfg ev s" and ?n = "if j = i \<and> E = EventID then Suc n else n"
  obtain F where q: "evs_quiet F s ?s" using filter_event_quiet by blast
  have "FilterCount (BinFilters (AppData ?s i) k) = of_nat (min ?n 65535)"
    using IsFiltered_count [OF Cons.prems(1,2), of cfg c j E T] Cons.prems(3-5) count_Suc [of n] count_less [of n]
    by (auto simp: ev filter_event_def min_def)
  then show ?case
    using Cons.IH [of ?s ?n] Cons.prems evs_quiet_filters [OF q] by (auto simp: ev)
qed simp

text \<open>C11. A binary filter passes an occurrence of its event exactly if the mask and the number of occurrences before it, at
  most 65535, have no bit in common, whatever other events are filtered in between.  The event that reports a locked filter
  is excepted, as it may be filtered itself.\<close>

lemma binary_filter:
  assumes "EVS_FindEventID EventID (BinFilters (AppData s i)) = Some k" "FilterCount (BinFilters (AppData s i) k) = 0"
    and "EventID \<noteq> 42" "ActiveFlag (AppData s i)"
    and "list_all (\<lambda>(c, j, E, T). j = i \<and> E = EventID \<longrightarrow> \<not> type_disabled (EventTypesActiveFlag (AppData s i)) T) (evs @ [(c, i, EventID, T)])"
  shows "fst (EVS_IsFiltered cfg c i EventID T (fold (filter_event cfg) evs s))
     \<longleftrightarrow> FilterMask (BinFilters (AppData s i) k) AND of_nat (min (occurrences i EventID evs) 65535) \<noteq> 0"
proof -
  let ?s = "fold (filter_event cfg) evs s"
  note h = history_filters [of EventID cfg evs s i k]
  have "FilterCount (BinFilters (AppData ?s i) k) = of_nat (min (occurrences i EventID evs) 65535)"
    using history_count [of EventID s i k evs 0 cfg] assms by simp
  then show ?thesis
    using h assms by (auto simp: EVS_IsFiltered.simps [of cfg c i EventID T ?s] Let_def)
qed

section \<open>The filters of an application as a map\<close>

definition filter_map :: "EVS_AppData_t \<Rightarrow> uint16 \<rightharpoonup> uint16" where
  "filter_map a E = (if E = CFE_EVS_FREE_SLOT then None
                     else map_option (\<lambda>k. FilterMask (BinFilters a k)) (EVS_FindEventID E (BinFilters a)))"





lemma filter_map_free [simp]: "filter_map a CFE_EVS_FREE_SLOT = None"
  by (simp add: filter_map_def)














end
