(* ===== verification/CFS_EvsRate.thy ===== *)
theory CFS_EvsRate
  imports CFS_EvsInv
begin

text \<open>
  The limit on the rate of events of an application: a token bucket.  Its potential, the tokens with the credit of the time
  that is not yet credited, grows with time only, and each event that passes takes its cost from it.
\<close>

section \<open>The potential of the bucket\<close>

definition potential :: "OS_time_t \<Rightarrow> EVS_AppData_t \<Rightarrow> int" where
  "potential t a = 10000 * SquelchTokens a + 15 * (t - LastSquelchCreditableTime a)"

definition tokens_ok :: "EVS_AppData_t \<Rightarrow> bool" where
  "tokens_ok a \<longleftrightarrow> - 32000 \<le> SquelchTokens a \<and> SquelchTokens a \<le> 32000"

lemma squelch_tokens_ok:
  assumes "squelch_tokens 32000 (- 32000) t a = (ok, ev, a')" "tokens_ok a"
  shows "tokens_ok a'" "SquelchTokens a' \<le> 31000" "ok \<Longrightarrow> - 1000 < SquelchTokens a'"
  using assms by (auto simp: squelch_tokens_def tokens_ok_def Let_def split: if_splits)

lemma squelch_tokens_time:
  assumes "squelch_tokens 32000 (- 32000) t a = (ok, ev, a')" "LastSquelchCreditableTime a \<le> t"
  shows "LastSquelchCreditableTime a' \<le> t" "15 * (t - LastSquelchCreditableTime a') < 10050000"
proof -
  define d where "d = t - LastSquelchCreditableTime a"
  have d: "0 \<le> d" using assms(2) by (simp add: d_def)
  have "15 * (d div 10000) < 1000 \<Longrightarrow> d div 10000 \<le> 66" by linarith
  then have less: "15 * (d div 10000) < 1000 \<Longrightarrow> 15 * d < 10050000"
    using div_mult_mod_eq [of d 10000] pos_mod_bound [of 10000 d] by linarith
  have c: "OS_TimeGetTotalMilliseconds (t - LastSquelchCreditableTime a) = d div 10000"
    using sdiv_pos [OF d, of 10000] by (simp add: OS_TimeGetTotalMilliseconds_def d_def)
  have "LastSquelchCreditableTime a' = (if 15 * (d div 10000) \<ge> 1000 then t else LastSquelchCreditableTime a)"
    using assms(1) by (auto simp: squelch_tokens_def c Let_def split: if_splits)
  then show "LastSquelchCreditableTime a' \<le> t" "15 * (t - LastSquelchCreditableTime a') < 10050000"
    using less assms(2) by (auto simp: d_def)
qed

lemma squelch_tokens_potential:
  assumes "squelch_tokens 32000 (- 32000) t a = (ok, ev, a')" "tokens_ok a" "LastSquelchCreditableTime a \<le> t"
  shows "potential t a' + (if ok then 10000000 else 0) \<le> potential t a"
proof -
  define d where "d = t - LastSquelchCreditableTime a"
  have d: "0 \<le> d" using assms(3) by (simp add: d_def)
  have less: "10000 * (15 * (d div 10000)) \<le> 15 * d"
    using div_mult_mod_eq [of d 10000] pos_mod_sign [of 10000 d] by linarith
  have c: "OS_TimeGetTotalMilliseconds (t - LastSquelchCreditableTime a) = d div 10000"
    using sdiv_pos [OF d, of 10000] by (simp add: OS_TimeGetTotalMilliseconds_def d_def)
  show ?thesis
    using assms(1,2) less unfolding potential_def d_def [symmetric]
    by (auto simp: squelch_tokens_def c Let_def tokens_ok_def d_def split: if_splits)
qed

section \<open>Calls one after another\<close>

fun squelch_run :: "evs_cfg \<Rightarrow> nat \<Rightarrow> evs_caller list \<Rightarrow> evs_state \<Rightarrow> nat \<times> evs_state" where
  "squelch_run cfg i [] s = (0, s)"
| "squelch_run cfg i (c # cs) s =
     (case EVS_CheckAndIncrementSquelchTokens cfg c i s of
        (ok, s) \<Rightarrow> (case squelch_run cfg i cs s of (n, s) \<Rightarrow> ((if ok then n + 1 else n), s)))"

lemma check_call:
  assumes "EVS_EventBurstMax s = 32"
  obtains ok ev a where "squelch_tokens 32000 (- 32000) (PspNow c) (AppData s i) = (ok, ev, a)"
    "fst (EVS_CheckAndIncrementSquelchTokens cfg c i s) = ok"
    "settings_of (AppData (snd (EVS_CheckAndIncrementSquelchTokens cfg c i s)) i) = settings_of a"
    "EVS_EventBurstMax (snd (EVS_CheckAndIncrementSquelchTokens cfg c i s)) = 32"
proof -
  obtain ok ev a where r: "squelch_tokens 32000 (- 32000) (PspNow c) (AppData s i) = (ok, ev, a)" by (cases "squelch_tokens 32000 (- 32000) (PspNow c) (AppData s i)") auto
  have th: "UPPER_THRESHOLD s = 32000" "LOWER_THRESHOLD s = - 32000" using assms by (simp_all add: UPPER_THRESHOLD_def LOWER_THRESHOLD_def)
  let ?s = "upd_app i (\<lambda>_. a) s"
  have q: "evs_quiet {44, 42} ?s (snd (EVS_CheckAndIncrementSquelchTokens cfg c i s))"
    using assms evs_quiet_events(2) [of 44 ?s] by (simp add: EVS_CheckAndIncrementSquelchTokens_def th r Let_def)
  show ?thesis
  proof (rule that [OF r])
    show "fst (EVS_CheckAndIncrementSquelchTokens cfg c i s) = ok"
      using assms by (simp add: EVS_CheckAndIncrementSquelchTokens_def th r Let_def)
  qed (use q assms in \<open>auto simp: evs_quiet_def upd_app_def\<close>)
qed

lemma squelch_bound:
  assumes "EVS_EventBurstMax s = 32" "tokens_ok (AppData s i)" "LastSquelchCreditableTime (AppData s i) \<le> t"
    "sorted (t # map PspNow cs)"
  shows "fst (squelch_run cfg i cs s) = 0
    \<or> 10000000 * int (fst (squelch_run cfg i cs s)) < potential t (AppData s i) + 15 * (last (t # map PspNow cs) - t) + 10000000"
  using assms
proof (induction cs arbitrary: s t)
  case (Cons c cs)
  let ?r = "EVS_CheckAndIncrementSquelchTokens cfg c i s" and ?t = "PspNow c"
  obtain ok ev a where st: "squelch_tokens 32000 (- 32000) ?t (AppData s i) = (ok, ev, a)" "fst ?r = ok"
    "settings_of (AppData (snd ?r) i) = settings_of a" "EVS_EventBurstMax (snd ?r) = 32"
    using check_call [OF Cons.prems(1)] by metis
  have le: "LastSquelchCreditableTime (AppData s i) \<le> ?t" "t \<le> ?t" using Cons.prems(3,4) by auto
  have a: "SquelchTokens (AppData (snd ?r) i) = SquelchTokens a"
    "LastSquelchCreditableTime (AppData (snd ?r) i) = LastSquelchCreditableTime a"
    using settings_of_eqD(5,6) [OF st(3)] by auto
  note ok = squelch_tokens_ok [OF st(1) Cons.prems(2)] and time = squelch_tokens_time [OF st(1) le(1)]
    and pot = squelch_tokens_potential [OF st(1) Cons.prems(2) le(1)]
  have p: "potential ?t (AppData (snd ?r) i) = potential ?t a" by (simp add: potential_def a)
  have t: "potential ?t (AppData s i) = potential t (AppData s i) + 15 * (?t - t)" by (simp add: potential_def)
  let ?n = "fst (squelch_run cfg i cs (snd ?r))"
  have run: "fst (squelch_run cfg i (c # cs) s) = (if ok then ?n + 1 else ?n)"
    using st(2) by (simp add: case_prod_beta)
  have "?n = 0 \<or> 10000000 * int ?n < potential ?t (AppData (snd ?r) i) + 15 * (last (?t # map PspNow cs) - ?t) + 10000000"
    using Cons.IH [OF st(4), of ?t] ok(1) time(1) Cons.prems(4) by (simp add: tokens_ok_def a)
  moreover have "?t \<le> last (?t # map PspNow cs)" using Cons.prems(4) by (cases cs rule: rev_cases) (auto simp: sorted_append)
  moreover have "ok \<Longrightarrow> 0 < potential ?t (AppData s i)"
    using pot ok(3) time(1) by (simp add: potential_def)
  ultimately show ?case
    unfolding run using pot t p by (auto split: if_splits)
qed simp

lemma one_more:
  assumes "N \<le> n + 1" "n = 0 \<or> 10000000 * n < p + 15 * (l - t) + 10000000" "p < 320050000" "t \<le> l"
  shows "10000000 * N < 340050000 + 15 * (l - t :: int)"
  using assms by auto

text \<open>C13. The rate of events of an application is limited: of the events it sends between two times at most 34 and 15 a second
  pass, whatever their number.\<close>

lemma rate_limit:
  assumes "EVS_EventBurstMax s = 32" "tokens_ok (AppData s i)" "cs \<noteq> []" "sorted (map PspNow cs)"
    and "LastSquelchCreditableTime (AppData s i) \<le> PspNow (hd cs)"
  shows "10000000 * int (fst (squelch_run cfg i cs s)) < 340050000 + 15 * (PspNow (last cs) - PspNow (hd cs))"
proof -
  obtain c cs' where cs: "cs = c # cs'" using assms(3) by (cases cs) auto
  let ?r = "EVS_CheckAndIncrementSquelchTokens cfg c i s" and ?t = "PspNow c"
  obtain ok ev a where st: "squelch_tokens 32000 (- 32000) ?t (AppData s i) = (ok, ev, a)" "fst ?r = ok"
    "settings_of (AppData (snd ?r) i) = settings_of a" "EVS_EventBurstMax (snd ?r) = 32"
    using check_call [OF assms(1)] by metis
  have a: "SquelchTokens (AppData (snd ?r) i) = SquelchTokens a"
    "LastSquelchCreditableTime (AppData (snd ?r) i) = LastSquelchCreditableTime a"
    using settings_of_eqD(5,6) [OF st(3)] by auto
  have le: "LastSquelchCreditableTime (AppData s i) \<le> ?t" using assms(5) cs by simp
  note ok = squelch_tokens_ok [OF st(1) assms(2)] and time = squelch_tokens_time [OF st(1) le]
  let ?n = "fst (squelch_run cfg i cs' (snd ?r))"
  have l: "last (?t # map PspNow cs') = PspNow (last cs)" by (cases cs' rule: rev_cases) (auto simp: cs)
  have "int ?n = 0 \<or> 10000000 * int ?n < potential ?t (AppData (snd ?r) i) + 15 * (PspNow (last cs) - ?t) + 10000000"
    using squelch_bound [OF st(4), of i ?t cs' cfg] ok(1) time(1) assms(4) l by (simp add: tokens_ok_def a cs)
  moreover have "potential ?t (AppData (snd ?r) i) < 320050000"
    using ok(2) time(2) by (simp add: potential_def a)
  moreover have "?t \<le> PspNow (last cs)"
    using assms(4) by (cases cs' rule: rev_cases) (auto simp: cs sorted_append)
  moreover have "int (fst (squelch_run cfg i cs s)) \<le> int ?n + 1" by (simp add: cs case_prod_beta)
  ultimately have "10000000 * int (fst (squelch_run cfg i cs s)) < 340050000 + 15 * (PspNow (last cs) - ?t)"
    by (metis one_more)
  then show ?thesis by (simp add: cs)
qed

end
