(* ===== verification/CFS_EvsRun.thy ===== *)
theory CFS_EvsRun
  imports CFS_EvsFilter CFS_EvsRate CFS_FsNames
begin

text \<open>
  The running event services: the calls of applications and the commands as one step, the states they reach, the
  invariant of the state, the accounting of commands, what is sent for an event, and the reports.
\<close>

section \<open>Steps\<close>

datatype evs_call =
    Register_call "(nat \<Rightarrow> CFE_EVS_BinFilter_t) option" uint16 uint16
  | Send_call uint16 uint16 "string option" "printf_arg list"
  | Send_id_call uint16 uint16 CFE_ResourceId_t "string option" "printf_arg list"
  | Send_timed_call CFE_TIME_SysTime_t uint16 uint16 "string option" "printf_arg list"
  | Reset_filter_call uint16
  | Reset_all_call
  | Cleanup_call CFE_ResourceId_t
  | Task_init_call CFE_Status_t
  | Packet_call evs_msg

fun evs_step :: "evs_cfg \<Rightarrow> evs_msg_cfg \<Rightarrow> evs_caller \<Rightarrow> evs_call \<Rightarrow> evs_state \<Rightarrow> evs_state" where
  "evs_step cfg m c (Register_call f n sch) s = snd (CFE_EVS_Register cfg c f n sch s)"
| "evs_step cfg m c (Send_call e t sp as) s = snd (CFE_EVS_SendEvent cfg c e t sp as s)"
| "evs_step cfg m c (Send_id_call e t ID sp as) s = snd (CFE_EVS_SendEventWithAppID cfg c e t ID sp as s)"
| "evs_step cfg m c (Send_timed_call tm e t sp as) s = snd (CFE_EVS_SendTimedEvent cfg c tm e t sp as s)"
| "evs_step cfg m c (Reset_filter_call e) s = snd (CFE_EVS_ResetFilter cfg c e s)"
| "evs_step cfg m c Reset_all_call s = snd (CFE_EVS_ResetAllFilters cfg c s)"
| "evs_step cfg m c (Cleanup_call ID) s = snd (CFE_EVS_CleanUpApp cfg ID s)"
| "evs_step cfg m c (Task_init_call pipe) s = snd (CFE_EVS_TaskInit cfg c pipe s)"
| "evs_step cfg m c (Packet_call data) s = CFE_EVS_ProcessCommandPacket cfg m c data s"

text \<open>The states after a power-on reset, or another reset with a log that is consistent.\<close>

inductive evs_reachable :: "evs_cfg \<Rightarrow> evs_msg_cfg \<Rightarrow> evs_state \<Rightarrow> bool" for cfg m where
  evs_start: "CFE_EVS_EarlyInit boot l s0 = (CFE_SUCCESS, s) \<Longrightarrow> PowerOn boot \<or> log_ok l \<Longrightarrow> evs_reachable cfg m s"
| evs_next: "evs_reachable cfg m s \<Longrightarrow> evs_reachable cfg m (evs_step cfg m c call s)"

section \<open>The invariant\<close>

definition app_wf :: "evs_cfg \<Rightarrow> nat \<Rightarrow> EVS_AppData_t \<Rightarrow> bool" where
  "app_wf cfg i a \<longleftrightarrow> tokens_ok a \<and> drop_bit 4 (EventTypesActiveFlag a) = 0
     \<and> (AppID a = CFE_RESOURCEID_UNDEFINED \<or> EVS_GetAppDataByID cfg (AppID a) = Some i)"

definition hk_wf :: "CFE_EVS_HousekeepingTlm_Payload_t \<Rightarrow> bool" where
  "hk_wf h \<longleftrightarrow> drop_bit 4 (OutputPort h) = 0
     \<and> (MessageFormatMode h = CFE_EVS_MsgFormat_SHORT \<or> MessageFormatMode h = CFE_EVS_MsgFormat_LONG)"

definition log_wf :: "CFE_EVS_Log_t \<Rightarrow> bool" where
  "log_wf l \<longleftrightarrow> log_ok l \<and> (LogMode l = CFE_EVS_LogMode_OVERWRITE \<or> LogMode l = CFE_EVS_LogMode_DISCARD)"

definition evs_wf :: "evs_cfg \<Rightarrow> evs_state \<Rightarrow> bool" where
  "evs_wf cfg s \<longleftrightarrow> (\<forall>i. app_wf cfg i (AppData s i)) \<and> hk_wf (EVS_TlmPkt s) \<and> log_wf (EVS_Log s) \<and> EVS_EventBurstMax s = 32"

lemma log_wf_AddLog: "log_wf l \<Longrightarrow> log_wf (fold EVS_AddLog ps l)"
  by (induction ps arbitrary: l) (auto simp: log_wf_def AddLog_events)

lemma wf_quiet:
  assumes "evs_wf cfg s" "evs_quiet E s s'"
  shows "evs_wf cfg s'"
proof -
  have a: "app_wf cfg i (AppData s' i)" for i
    using assms settings_of_eqD [of "AppData s' i" "AppData s i"] by (simp add: evs_wf_def evs_quiet_def app_wf_def tokens_ok_def)
  have h: "hk_wf (EVS_TlmPkt s')"
    using assms hk_settings_eqD [of "EVS_TlmPkt s'" "EVS_TlmPkt s"] by (simp add: evs_wf_def evs_quiet_def hk_wf_def)
  show ?thesis using assms a h log_wf_AddLog by (auto simp: evs_wf_def evs_quiet_def)
qed

named_theorems evs_wf \<open>the operations that keep the invariant\<close>

lemma wf_send [evs_wf]: "evs_wf cfg s \<Longrightarrow> evs_wf cfg (EVS_SendEvent cfg' c e t sp as s)"
  by (erule wf_quiet) (rule evs_quiet_events)
lemma wf_filtered [evs_wf]: "evs_wf cfg s \<Longrightarrow> evs_wf cfg (snd (EVS_IsFiltered cfg' c i e t s))"
  by (erule wf_quiet) (rule evs_quiet_events)
lemma wf_generate [evs_wf]: "evs_wf cfg s \<Longrightarrow> evs_wf cfg (EVS_GenerateEventTelemetry cfg' c i e t tm sp as s)"
  by (erule wf_quiet) (rule evs_quiet_generate)

lemma wf_upd_app [evs_wf]: "evs_wf cfg s \<Longrightarrow> (\<And>a. app_wf cfg i a \<Longrightarrow> app_wf cfg i (f a)) \<Longrightarrow> evs_wf cfg (upd_app i f s)"
  by (simp add: evs_wf_def upd_app_def)
lemma wf_upd_hk [evs_wf]: "evs_wf cfg s \<Longrightarrow> (\<And>h. hk_wf h \<Longrightarrow> hk_wf (f h)) \<Longrightarrow> evs_wf cfg (upd_evs_hk f s)"
  by (simp add: evs_wf_def upd_evs_hk_def)
lemma wf_upd_filter [evs_wf]: "evs_wf cfg s \<Longrightarrow> evs_wf cfg (upd_filter i k f s)"
  unfolding upd_filter_def by (erule wf_upd_app) (simp add: app_wf_def tokens_ok_def)
lemma wf_issue [evs_wf]: "evs_wf cfg s \<Longrightarrow> evs_wf cfg (evs_issue e s)"
  by (simp add: evs_wf_def evs_issue_def)
lemma wf_files [evs_wf]: "evs_wf cfg s \<Longrightarrow> evs_wf cfg (s\<lparr>EvsFiles := f\<rparr>)" "evs_wf cfg s \<Longrightarrow> evs_wf cfg (evs_close s)"
  by (simp_all add: evs_wf_def evs_close_def)
lemma wf_log [evs_wf]: "evs_wf cfg s \<Longrightarrow> log_wf l \<Longrightarrow> evs_wf cfg (s\<lparr>EVS_Log := l\<rparr>)"
  by (simp add: evs_wf_def)
lemma wf_id [evs_wf]: "evs_wf cfg s \<Longrightarrow> evs_wf cfg (s\<lparr>EVS_AppID := ID\<rparr>)"
  by (simp add: evs_wf_def)

lemma wf_parts: "evs_wf cfg s \<Longrightarrow> app_wf cfg i (AppData s i)" "evs_wf cfg s \<Longrightarrow> log_wf (EVS_Log s)"
  by (simp_all add: evs_wf_def)

lemma log_wf_clear: "log_wf l \<Longrightarrow> log_wf (EVS_ClearLog l)"
  by (simp add: log_wf_def log_ok_clear) (simp add: EVS_ClearLog_def)

lemma wf_check [evs_wf]:
  assumes "evs_wf cfg s"
  shows "evs_wf cfg (snd (EVS_CheckAndIncrementSquelchTokens cfg' c i s))"
proof -
  have th: "UPPER_THRESHOLD s = 32000" "LOWER_THRESHOLD s = - 32000"
    using assms by (simp_all add: evs_wf_def UPPER_THRESHOLD_def LOWER_THRESHOLD_def)
  obtain ok ev a where r: "squelch_tokens 32000 (- 32000) (PspNow c) (AppData s i) = (ok, ev, a)"
    by (cases "squelch_tokens 32000 (- 32000) (PspNow c) (AppData s i)") auto
  have "tokens_ok (AppData s i)" using wf_parts(1) [OF assms, of i] by (simp add: app_wf_def)
  then have t: "tokens_ok a" using squelch_tokens_ok(1) [OF r] by blast
  have "AppID a = AppID (AppData s i)" "EventTypesActiveFlag a = EventTypesActiveFlag (AppData s i)"
    using r by (auto simp: squelch_tokens_def Let_def split: if_splits)
  then have "app_wf cfg i a" using t wf_parts(1) [OF assms, of i] by (simp add: app_wf_def)
  then have "evs_wf cfg (upd_app i (\<lambda>_. a) s)" using assms by (rule_tac wf_upd_app) auto
  then show ?thesis using assms wf_send
    by (auto simp: EVS_CheckAndIncrementSquelchTokens_def th r Let_def)
qed

lemma wf_not_registered [evs_wf]: "evs_wf cfg s \<Longrightarrow> evs_wf cfg (snd (EVS_NotRegistered cfg' c i ID s))"
  by (auto simp: EVS_NotRegistered_def Let_def intro!: evs_wf) (auto simp: app_wf_def tokens_ok_def hk_wf_def)

lemma mask_bits: "\<not> 0xF < (x :: uint8) \<Longrightarrow> drop_bit 4 x = 0"
  by (simp add: word_unat_eq_iff drop_bit_eq_div unat_div word_less_nat_alt)

lemma wf_types [evs_wf]:
  "evs_wf cfg s \<Longrightarrow> evs_wf cfg (EVS_EnableTypes i b s)" "evs_wf cfg s \<Longrightarrow> evs_wf cfg (EVS_DisableTypes i b s)"
  unfolding EVS_EnableTypes_def EVS_DisableTypes_def
  by (erule wf_upd_app, simp add: app_wf_def tokens_ok_def drop_bit_and drop_bit_or)+

lemma wf_for_apps [evs_wf]:
  assumes "evs_wf cfg s" "\<And>i s. evs_wf cfg s \<Longrightarrow> evs_wf cfg (f i s)"
  shows "evs_wf cfg (for_used_apps f s)"
proof -
  have "evs_wf cfg (fold (\<lambda>i s. if EVS_AppDataIsUsed s i then f i s else s) is s)" for "is"
    using assms by (induction "is" arbitrary: s) auto
  then show ?thesis by (simp add: for_used_apps_def)
qed

lemma wf_reset_filters [evs_wf]: "evs_wf cfg s \<Longrightarrow> evs_wf cfg (reset_filters i s)"
  unfolding reset_filters_def by (erule wf_upd_app) (simp add: app_wf_def tokens_ok_def)

lemma wf_send_app [evs_wf]: "evs_wf cfg s \<Longrightarrow> evs_wf cfg (snd (send_app_event cfg' c i ID tm e t sp as s))"
  using wf_filtered [of cfg s cfg' c i e t] wf_check [of cfg "snd (EVS_IsFiltered cfg' c i e t s)" cfg' c i]
  by (auto simp: send_app_event_def split: prod.split intro: evs_wf)

lemma app_id_index: "EVS_GetCurrentContext cfg c = (CFE_SUCCESS, p, ID) \<Longrightarrow> \<exists>i. p = Some i \<and> EVS_GetAppDataByID cfg ID = Some i"
  by (auto simp: EVS_GetCurrentContext_def Let_def split: prod.splits if_splits)

lemma wf_register [evs_wf]:
  assumes "evs_wf cfg s"
  shows "evs_wf cfg (snd (CFE_EVS_Register cfg c f n sch s))"
proof (cases "EVS_GetCurrentContext cfg c")
  case (fields Status p ID)
  show ?thesis
  proof (cases "Status = CFE_SUCCESS")
    case True
    then obtain i where i: "p = Some i" "EVS_GetAppDataByID cfg ID = Some i" using app_id_index fields by blast
    have z: "evs_wf cfg (upd_app i (\<lambda>_. zero_app) s)"
      using assms by (rule wf_upd_app) (simp add: app_wf_def tokens_ok_def zero_app_def)
    have "evs_wf cfg (upd_app i (\<lambda>a. a\<lparr>ActiveFlag := True, EventTypesActiveFlag := CFE_PLATFORM_EVS_DEFAULT_TYPE_FLAG,
        SquelchTokens := uint CFE_PLATFORM_EVS_MAX_APP_EVENT_BURST * 1000, BinFilters := b, AppID := ID\<rparr>) (upd_app i (\<lambda>_. zero_app) s))" for b
      using z by (rule wf_upd_app) (simp add: app_wf_def tokens_ok_def i(2))
    then show ?thesis using z i(1) True by (simp add: CFE_EVS_Register_def fields Let_def)
  qed (use assms in \<open>simp add: CFE_EVS_Register_def fields\<close>)
qed

lemma wf_api [evs_wf]:
  assumes "evs_wf cfg s"
  shows "evs_wf cfg (snd (CFE_EVS_SendEvent cfg' c e t sp as s))" "evs_wf cfg (snd (CFE_EVS_SendEventWithAppID cfg' c e t ID sp as s))"
    "evs_wf cfg (snd (CFE_EVS_SendTimedEvent cfg' c tm e t sp as s))" "evs_wf cfg (snd (CFE_EVS_ResetFilter cfg' c e s))"
    "evs_wf cfg (snd (CFE_EVS_ResetAllFilters cfg' c s))" "evs_wf cfg (snd (CFE_EVS_CleanUpApp cfg' ID s))"
  unfolding CFE_EVS_SendEvent_def CFE_EVS_SendEventWithAppID_def CFE_EVS_SendTimedEvent_def CFE_EVS_ResetFilter_def
    CFE_EVS_ResetAllFilters_def CFE_EVS_CleanUpApp_def
  using assms by (auto split: option.split prod.split intro: evs_wf intro!: wf_upd_app simp: app_wf_def tokens_ok_def)

section \<open>Commands\<close>

lemma wf_app_command [evs_wf]:
  "evs_wf cfg s \<Longrightarrow> (\<And>i. evs_wf cfg (snd (h i s))) \<Longrightarrow> evs_wf cfg (snd (app_command cfg' c data CC t u h s))"
  by (auto simp: app_command_def split: prod.split intro: evs_wf)

lemma wf_bitmask_error [evs_wf]: "evs_wf cfg s \<Longrightarrow> evs_wf cfg (snd (bitmask_error cfg' c data CC s))"
  by (simp add: bitmask_error_def evs_wf)

lemmas bit_cmd_defs = CFE_EVS_EnablePortsCmd_def CFE_EVS_DisablePortsCmd_def CFE_EVS_EnableEventTypeCmd_def
  CFE_EVS_DisableEventTypeCmd_def CFE_EVS_SetEventFormatModeCmd_def CFE_EVS_SetLogModeCmd_def
lemmas app_cmd_defs = CFE_EVS_EnableAppEventTypeCmd_def CFE_EVS_DisableAppEventTypeCmd_def CFE_EVS_EnableAppEventsCmd_def
  CFE_EVS_DisableAppEventsCmd_def CFE_EVS_ResetAppCounterCmd_def CFE_EVS_ResetAllFiltersCmd_def CFE_EVS_SetFilterCmd_def
  CFE_EVS_ResetFilterCmd_def CFE_EVS_DeleteEventFilterCmd_def CFE_EVS_AddEventFilterCmd_def

lemma wf_bit_cmds [evs_wf]:
  assumes "evs_wf cfg s"
  shows "evs_wf cfg (snd (CFE_EVS_EnablePortsCmd cfg' c data s))" "evs_wf cfg (snd (CFE_EVS_DisablePortsCmd cfg' c data s))"
    "evs_wf cfg (snd (CFE_EVS_EnableEventTypeCmd cfg' c data s))" "evs_wf cfg (snd (CFE_EVS_DisableEventTypeCmd cfg' c data s))"
    "evs_wf cfg (snd (CFE_EVS_SetEventFormatModeCmd cfg' c data s))" "evs_wf cfg (snd (CFE_EVS_SetLogModeCmd cfg' c data s))"
  unfolding bit_cmd_defs using assms wf_parts(2) [OF assms]
  by (auto intro!: evs_wf simp: hk_wf_def drop_bit_and drop_bit_or mask_bits log_wf_def log_ok_def)

lemma wf_app_cmds [evs_wf]:
  assumes "evs_wf cfg s"
  shows "evs_wf cfg (snd (CFE_EVS_EnableAppEventTypeCmd cfg' c data s))" "evs_wf cfg (snd (CFE_EVS_DisableAppEventTypeCmd cfg' c data s))"
    "evs_wf cfg (snd (CFE_EVS_EnableAppEventsCmd cfg' c data s))" "evs_wf cfg (snd (CFE_EVS_DisableAppEventsCmd cfg' c data s))"
    "evs_wf cfg (snd (CFE_EVS_ResetAppCounterCmd cfg' c data s))" "evs_wf cfg (snd (CFE_EVS_ResetAllFiltersCmd cfg' c data s))"
    "evs_wf cfg (snd (CFE_EVS_SetFilterCmd cfg' c data s))" "evs_wf cfg (snd (CFE_EVS_ResetFilterCmd cfg' c data s))"
    "evs_wf cfg (snd (CFE_EVS_DeleteEventFilterCmd cfg' c data s))" "evs_wf cfg (snd (CFE_EVS_AddEventFilterCmd cfg' c data s))"
  unfolding app_cmd_defs using assms
  by (auto intro!: evs_wf split: option.split simp: app_wf_def tokens_ok_def)

lemma wf_os_call [evs_wf]: "evs_wf cfg s \<Longrightarrow> evs_wf cfg (snd (evs_os_call ev full s))"
  by (simp add: evs_os_call_def case_prod_beta evs_wf)

lemma wf_os_result: "evs_os_call ev full s = (r, s') \<Longrightarrow> evs_wf cfg s \<Longrightarrow> evs_wf cfg s'"
  using wf_os_call [of cfg s ev full] by simp

lemma wf_write_header [evs_wf]: "evs_wf cfg s \<Longrightarrow> evs_wf cfg (snd (evs_write_header cfg' c d st s))"
  by (simp add: evs_write_header_def case_prod_beta evs_wf)

lemma wf_write_log [evs_wf]: "evs_wf cfg s \<Longrightarrow> evs_wf cfg (snd (snd (write_log_entries cfg' n i k st s)))"
  by (induction n arbitrary: i k st s) (auto split: prod.split dest!: wf_os_result [where cfg = cfg])

lemma wf_write_apps [evs_wf]: "evs_wf cfg s \<Longrightarrow> evs_wf cfg (snd (snd (write_app_data cfg' c name is n s)))"
  by (induction "is" arbitrary: n s)
     (auto simp: Let_def split: prod.split dest!: wf_os_result [where cfg = cfg] intro: evs_wf)

lemma wf_file_cmds [evs_wf]:
  assumes "evs_wf cfg s"
  shows "evs_wf cfg (snd (CFE_EVS_WriteLogDataFileCmd cfg' c data s))" "evs_wf cfg (snd (CFE_EVS_WriteAppDataFileCmd cfg' c data s))"
proof -
  have header: "evs_write_header cfg' c d st s1 = (n, s2) \<Longrightarrow> evs_wf cfg s1 \<Longrightarrow> evs_wf cfg s2" for d st s1 s2 n
    using wf_write_header [of cfg s1 cfg' c d st] by simp
  have log: "write_log_entries cfg' n i k st s1 = (i', st', s2) \<Longrightarrow> evs_wf cfg s1 \<Longrightarrow> evs_wf cfg s2" for n i k st s1 i' st' s2
    using wf_write_log [of cfg s1 cfg' n i k st] by simp
  have apps: "write_app_data cfg' c name is n s1 = (b, n', s2) \<Longrightarrow> evs_wf cfg s1 \<Longrightarrow> evs_wf cfg s2" for name "is" n s1 b n' s2
    using wf_write_apps [of cfg s1 cfg' c name "is" n] by simp
  show "evs_wf cfg (snd (CFE_EVS_WriteLogDataFileCmd cfg' c data s))"
    unfolding CFE_EVS_WriteLogDataFileCmd_def Let_def
    using assms by (auto split: prod.split intro!: evs_wf dest!: wf_os_result header log)
  show "evs_wf cfg (snd (CFE_EVS_WriteAppDataFileCmd cfg' c data s))"
    unfolding CFE_EVS_WriteAppDataFileCmd_def
    using assms by (auto split: prod.split intro!: evs_wf dest!: wf_os_result header apps)
qed

lemma wf_other_cmds [evs_wf]:
  assumes "evs_wf cfg s"
  shows "evs_wf cfg (snd (CFE_EVS_NoopCmd cfg' c s))" "evs_wf cfg (snd (CFE_EVS_ClearLogCmd s))"
    "evs_wf cfg (snd (CFE_EVS_ResetCountersCmd cfg' c s))" "evs_wf cfg (snd (CFE_EVS_SendHkCmd s))"
    "evs_wf cfg (snd (CFE_EVS_VerifyCmdLength cfg' c data n s))"
  unfolding CFE_EVS_NoopCmd_def CFE_EVS_ClearLogCmd_def CFE_EVS_ResetCountersCmd_def CFE_EVS_SendHkCmd_def CFE_EVS_VerifyCmdLength_def
  using assms wf_parts(2) [OF assms] log_wf_clear
  by (auto simp: Let_def split: prod.split intro!: evs_wf) (auto simp: hk_wf_def)

lemma wf_handler: "evs_cmd_handler cfg' c data cc = Some h \<Longrightarrow> evs_wf cfg s \<Longrightarrow> evs_wf cfg (snd (h s))"
  by (auto simp: evs_cmd_handler_def evs_wf split: if_splits)

lemma wf_packet [evs_wf]:
  assumes "evs_wf cfg s"
  shows "evs_wf cfg (CFE_EVS_ProcessCommandPacket cfg' m c data s)"
proof -
  have "evs_wf cfg (CFE_EVS_ProcessGroundCommand cfg' m c data s)"
  proof (cases "evs_cmd_handler cfg' c data (EvsFcnCode data)")
    case None
    then show ?thesis using assms by (auto simp: CFE_EVS_ProcessGroundCommand_def intro!: evs_wf) (auto simp: hk_wf_def)
  next
    case (Some h)
    let ?v = "CFE_EVS_VerifyCmdLength cfg' c data (evs_cmd_length m (EvsFcnCode data)) s"
    have v: "evs_wf cfg (snd ?v)" using assms by (rule evs_wf)
    then have "evs_wf cfg (snd (h (snd ?v)))" using wf_handler [OF Some] by blast
    with v show ?thesis
      by (auto simp: CFE_EVS_ProcessGroundCommand_def Some case_prod_beta intro!: evs_wf) (auto simp: hk_wf_def)
  qed
  then show ?thesis
    using assms by (auto simp: CFE_EVS_ProcessCommandPacket_def intro!: evs_wf) (auto simp: hk_wf_def)
qed

lemma wf_task_init [evs_wf]: "evs_wf cfg s \<Longrightarrow> evs_wf cfg (snd (CFE_EVS_TaskInit cfg c pipe s))"
  using wf_register [of cfg s c None 0 0]
  by (auto simp: CFE_EVS_TaskInit_def split: prod.split intro!: evs_wf)

lemma wf_start:
  assumes "CFE_EVS_EarlyInit boot l s0 = (CFE_SUCCESS, s)" "PowerOn boot \<or> log_ok l"
  shows "evs_wf cfg s"
proof -
  have app: "\<forall>i. app_wf cfg i (AppData s i)"
    using assms(1) by (auto simp: CFE_EVS_EarlyInit_def Let_def upd_evs_hk_def zero_app_def app_wf_def tokens_ok_def split: if_splits)
  have hk: "hk_wf (EVS_TlmPkt s) \<and> EVS_EventBurstMax s = 32"
    using assms(1) by (auto simp: CFE_EVS_EarlyInit_def Let_def upd_evs_hk_def hk_wf_def split: if_splits)
  have "log_ok ((EVS_ClearLog l)\<lparr>LogMode := 1\<rparr>)" using log_ok_clear [of l] by (simp add: log_ok_def)
  then have "log_wf (EVS_Log s)"
    using assms by (auto simp: CFE_EVS_EarlyInit_def Let_def upd_evs_hk_def log_wf_def split: if_splits)
  with app hk show ?thesis by (simp add: evs_wf_def)
qed

lemma wf_step: "evs_wf cfg s \<Longrightarrow> evs_wf cfg (evs_step cfg m c call s)"
  by (cases call) (simp_all add: evs_wf)

text \<open>C14. The state of event services is well-formed after any history of calls and commands: the log is consistent, every
  registered entry stands at the index of its application, the tokens of an application are between -32000 and 32000, and
  event types, ports, format and log mode have values that the code knows.\<close>

lemma evs_well_formed: "evs_reachable cfg m s \<Longrightarrow> evs_wf cfg s"
  by (induction rule: evs_reachable.induct) (auto intro: wf_start wf_step)

end
