(* ===== verification/CFS_EvsCmd.thy ===== *)
theory CFS_EvsCmd
  imports CFS_EvsRun
begin

text \<open>
  The accounting of commands: each ground command is counted once, and a command that fails changes no setting.
\<close>

section \<open>Counters and settings\<close>

definition counters :: "evs_state \<Rightarrow> uint8 \<times> uint8" where
  "counters s = (EvsCommandCounter (EVS_TlmPkt s), EvsCommandErrorCounter (EVS_TlmPkt s))"

definition same_settings :: "evs_state \<Rightarrow> evs_state \<Rightarrow> bool" where
  "same_settings s s' \<longleftrightarrow> (\<forall>i. settings_of (AppData s' i) = settings_of (AppData s i)) \<and> EVS_AppID s' = EVS_AppID s
     \<and> OutputPort (EVS_TlmPkt s') = OutputPort (EVS_TlmPkt s) \<and> MessageFormatMode (EVS_TlmPkt s') = MessageFormatMode (EVS_TlmPkt s)
     \<and> LogMode (EVS_Log s') = LogMode (EVS_Log s)"

lemma same_settings_refl [simp]: "same_settings s s" by (simp add: same_settings_def)

lemma LogMode_fold: "LogMode (fold EVS_AddLog ps l) = LogMode l"
proof (induction ps arbitrary: l)
  case (Cons p ps)
  have "LogMode (EVS_AddLog p l) = LogMode l" by (simp add: EVS_AddLog_def Let_def)
  then show ?case using Cons by simp
qed simp

lemma counters_send [simp]: "counters (EVS_SendEvent cfg c e t sp as s) = counters s"
  using evs_quiet_events(2) [of e s cfg c t sp as] hk_settings_eqD [of "EVS_TlmPkt (EVS_SendEvent cfg c e t sp as s)" "EVS_TlmPkt s"]
  by (simp add: counters_def evs_quiet_def)

lemma settings_send [simp]: "same_settings s (EVS_SendEvent cfg c e t sp as s') \<longleftrightarrow> same_settings s s'"
  using evs_quiet_events(2) [of e s' cfg c t sp as] hk_settings_eqD [of "EVS_TlmPkt (EVS_SendEvent cfg c e t sp as s')" "EVS_TlmPkt s'"]
  by (auto simp: same_settings_def evs_quiet_def LogMode_fold)

lemma counters_upd [simp]:
  "counters (upd_app i f s) = counters s" "counters (upd_filter i k g s) = counters s" "counters (s\<lparr>EvsFiles := fs\<rparr>) = counters s"
  "counters (s\<lparr>EVS_Log := l\<rparr>) = counters s" "counters (evs_close s) = counters s"
  "counters (EVS_EnableTypes i b s) = counters s" "counters (EVS_DisableTypes i b s) = counters s"
  "counters (reset_filters i s) = counters s"
  by (simp_all add: counters_def upd_app_def upd_filter_def evs_close_def EVS_EnableTypes_def EVS_DisableTypes_def reset_filters_def)

lemma counters_hk [simp]:
  "EvsCommandCounter (f (EVS_TlmPkt s)) = EvsCommandCounter (EVS_TlmPkt s) \<Longrightarrow>
   EvsCommandErrorCounter (f (EVS_TlmPkt s)) = EvsCommandErrorCounter (EVS_TlmPkt s) \<Longrightarrow> counters (upd_evs_hk f s) = counters s"
  by (simp add: counters_def upd_evs_hk_def)

lemma counters_for_apps [simp]: "(\<And>i s. counters (f i s) = counters s) \<Longrightarrow> counters (for_used_apps f s) = counters s"
proof -
  assume f: "\<And>i s. counters (f i s) = counters s"
  have "counters (fold (\<lambda>i s. if EVS_AppDataIsUsed s i then f i s else s) is s) = counters s" for "is"
    by (induction "is" arbitrary: s) (simp_all add: f)
  then show ?thesis by (simp add: for_used_apps_def)
qed

lemma settings_files [simp]: "same_settings s (s'\<lparr>EvsFiles := f\<rparr>) \<longleftrightarrow> same_settings s s'" "same_settings s (evs_close s') \<longleftrightarrow> same_settings s s'"
  by (simp_all add: same_settings_def evs_close_def)

section \<open>Handlers\<close>

abbreviation (input) failed :: "CFE_Status_t \<Rightarrow> bool" where "failed Status \<equiv> sint (status_code Status) < 0"

definition keeps :: "evs_state \<Rightarrow> CFE_Status_t \<times> evs_state \<Rightarrow> bool" where
  "keeps s r \<longleftrightarrow> counters (snd r) = counters s \<and> (fst r = CFE_SUCCESS \<or> failed (fst r) \<and> same_settings s (snd r))"

text \<open>The statuses that \<^verbatim>\<open>CFE_ES_GetAppIDByName\<close> is documented to return.\<close>

definition names_ok :: "evs_caller \<Rightarrow> bool" where
  "names_ok c \<longleftrightarrow> (\<forall>n. fst (AppIDByName c n) \<in> {CFE_SUCCESS, CFE_ES_ERR_NAME_NOT_FOUND, CFE_ES_BAD_ARGUMENT})"

lemma keeps_app_command:
  assumes "names_ok c" "\<And>i. keeps s (h i s)"
  shows "keeps s (app_command cfg c data CC t u h s)"
proof -
  obtain Status p where r: "EVS_GetApplicationInfo cfg c (LocalName data) s = (Status, p)" by fastforce
  have "Status = CFE_SUCCESS \<or> failed Status"
    using r assms(1) unfolding names_ok_def EVS_GetApplicationInfo_def
    by (auto split: prod.splits option.splits if_splits dest: spec [of _ "LocalName data"])
  then show ?thesis using assms(2) by (auto simp: app_command_def r keeps_def)
qed

lemma keeps_bitmask_error: "keeps s (bitmask_error cfg c data CC s)"
  by (simp add: keeps_def bitmask_error_def)

lemma keeps_bit_cmds:
  "keeps s (CFE_EVS_EnablePortsCmd cfg c data s)" "keeps s (CFE_EVS_DisablePortsCmd cfg c data s)"
  "keeps s (CFE_EVS_EnableEventTypeCmd cfg c data s)" "keeps s (CFE_EVS_DisableEventTypeCmd cfg c data s)"
  "keeps s (CFE_EVS_SetEventFormatModeCmd cfg c data s)" "keeps s (CFE_EVS_SetLogModeCmd cfg c data s)"
  unfolding bit_cmd_defs by (auto simp: keeps_bitmask_error) (auto simp: keeps_def)

lemma keeps_app_cmds:
  assumes "names_ok c"
  shows "keeps s (CFE_EVS_EnableAppEventTypeCmd cfg c data s)" "keeps s (CFE_EVS_DisableAppEventTypeCmd cfg c data s)"
    "keeps s (CFE_EVS_EnableAppEventsCmd cfg c data s)" "keeps s (CFE_EVS_DisableAppEventsCmd cfg c data s)"
    "keeps s (CFE_EVS_ResetAppCounterCmd cfg c data s)" "keeps s (CFE_EVS_ResetAllFiltersCmd cfg c data s)"
    "keeps s (CFE_EVS_SetFilterCmd cfg c data s)" "keeps s (CFE_EVS_ResetFilterCmd cfg c data s)"
    "keeps s (CFE_EVS_DeleteEventFilterCmd cfg c data s)" "keeps s (CFE_EVS_AddEventFilterCmd cfg c data s)"
  unfolding app_cmd_defs using assms
  by (auto intro!: keeps_app_command simp: keeps_bitmask_error split: option.split) (auto simp: keeps_def)

text \<open>The statuses of the file name parser.\<close>

definition parse_status :: "CFE_Status_t \<Rightarrow> bool" where
  "parse_status Status \<longleftrightarrow> Status \<in> {CFE_SUCCESS, CFE_FS_BAD_ARGUMENT, CFE_FS_INVALID_PATH, CFE_FS_FNAME_TOO_LONG}"

lemma parse_step_status: "parse_status (ParseStatus st) \<Longrightarrow> parse_status (ParseStatus (parse_step d st))"
  by (auto simp: parse_status_def parse_step_def parse_component_def Let_def split: prod.splits fs_component.splits option.splits if_splits)

lemma parse_loop_status:
  assumes "parse_loop d st = Some st'" "parse_status (ParseStatus st)"
  shows "parse_status (ParseStatus st')"
proof -
  have "parse_status (ParseStatus st) \<longrightarrow> parse_status (ParseStatus st')"
  proof (rule parse_loop.raw_induct [of "\<lambda>d st st'. parse_status (ParseStatus st) \<longrightarrow> parse_status (ParseStatus st')", OF _ assms(1)])
    fix loop d st st'
    assume "\<And>d st st'. loop d st = Some st' \<Longrightarrow> parse_status (ParseStatus st) \<longrightarrow> parse_status (ParseStatus st')"
      "(if InputPtr st \<noteq> None \<and> Component st \<noteq> END_COMPONENT then loop d (parse_step d st) else Some st) = Some st'"
    then show "parse_status (ParseStatus st) \<longrightarrow> parse_status (ParseStatus st')"
      using parse_step_status [of st d] by (metis option.inject)
  qed
  then show ?thesis using assms(2) by blast
qed

lemma dump_file_status: "fst (dump_file_name cfg name def) = CFE_SUCCESS \<or> failed (fst (dump_file_name cfg name def))"
proof -
  let ?d = "\<lparr>OutputBufSize = OS_MAX_PATH_LEN,
      DefaultPath = CFE_FS_GetDefaultMountPoint (EvsFsConfig cfg) CFE_FS_FileCategory_BINARY_DATA_DUMP,
      DefaultExtension = CFE_FS_GetDefaultExtension (EvsFsConfig cfg) CFE_FS_FileCategory_BINARY_DATA_DUMP\<rparr>"
  let ?st = "\<lparr>Component = PROCESS_INIT, ParseStatus = CFE_FS_INVALID_PATH, OutputBuffer = [], ComponentTerm = CHR 0x00,
      LastPathReached = False,
      InputPtr = (case Some name of Some (c # cs) \<Rightarrow> if c \<noteq> CHR 0x00 then Some (c # cs) else Some def | _ \<Rightarrow> Some def)\<rparr>"
  obtain st' where st': "parse_loop ?d ?st = Some st'"
    using returns_path [of ?st ?d] by (auto simp: returns_def)
  then have "parse_status (ParseStatus st')" by (rule parse_loop_status) (simp add: parse_status_def)
  moreover have "fst (dump_file_name cfg name def) = ParseStatus st'"
    using st' by (simp add: dump_file_name_def CFE_FS_ParseInputFileNameEx_def)
  ultimately show ?thesis by (auto simp: parse_status_def)
qed

lemma os_call_frame [simp]: "counters (snd (evs_os_call ev full s)) = counters s"
  "same_settings s' (snd (evs_os_call ev full s)) \<longleftrightarrow> same_settings s' s"
  by (simp_all add: evs_os_call_def case_prod_beta)

lemma write_header_frame [simp]: "counters (snd (evs_write_header cfg c d st s)) = counters s"
  "same_settings s' (snd (evs_write_header cfg c d st s)) \<longleftrightarrow> same_settings s' s"
  by (simp_all add: evs_write_header_def case_prod_beta)

lemma write_log_frame [simp]: "counters (snd (snd (write_log_entries cfg n i k st s))) = counters s"
  "same_settings s' (snd (snd (write_log_entries cfg n i k st s))) \<longleftrightarrow> same_settings s' s"
  by (induction n arbitrary: i k st s) (simp_all add: case_prod_beta)

lemma write_apps_frame [simp]: "counters (snd (snd (write_app_data cfg c name is n s))) = counters s"
  "same_settings s' (snd (snd (write_app_data cfg c name is n s))) \<longleftrightarrow> same_settings s' s"
  by (induction "is" arbitrary: n s) (simp_all add: case_prod_beta Let_def)

lemma keeps_file_cmds:
  "keeps s (CFE_EVS_WriteLogDataFileCmd cfg c data s)" "keeps s (CFE_EVS_WriteAppDataFileCmd cfg c data s)"
proof -
  show "keeps s (CFE_EVS_WriteLogDataFileCmd cfg c data s)"
    using dump_file_status [of cfg "PayFilename data" "''/ram/cfe_evs.log''"]
    by (auto simp: CFE_EVS_WriteLogDataFileCmd_def Let_def case_prod_beta keeps_def)
  show "keeps s (CFE_EVS_WriteAppDataFileCmd cfg c data s)"
    using dump_file_status [of cfg "PayFilename data" "''/ram/cfe_evs_app.dat''"]
    by (auto simp: CFE_EVS_WriteAppDataFileCmd_def case_prod_beta keeps_def)
qed

lemma keeps_handler:
  assumes "evs_cmd_handler cfg c data cc = Some h" "cc \<noteq> 1" "names_ok c"
  shows "keeps s (h s)"
proof -
  have "keeps s (CFE_EVS_NoopCmd cfg c s)" "keeps s (CFE_EVS_ClearLogCmd s)"
    by (simp_all add: keeps_def CFE_EVS_NoopCmd_def CFE_EVS_ClearLogCmd_def)
  then show ?thesis
    using assms keeps_bit_cmds keeps_file_cmds keeps_app_cmds [OF assms(3)]
    by (auto simp: evs_cmd_handler_def split: if_splits)
qed

section \<open>Accounting\<close>

lemma command_counts:
  "counters (upd_evs_hk (\<lambda>h. h\<lparr>EvsCommandCounter := EvsCommandCounter h + 1\<rparr>) s) = (fst (counters s) + 1, snd (counters s))"
  "counters (upd_evs_hk (\<lambda>h. h\<lparr>EvsCommandErrorCounter := EvsCommandErrorCounter h + 1\<rparr>) s) = (fst (counters s), snd (counters s) + 1)"
  "same_settings s' (upd_evs_hk (\<lambda>h. h\<lparr>EvsCommandErrorCounter := EvsCommandErrorCounter h + 1\<rparr>) s) \<longleftrightarrow> same_settings s' s"
  by (simp_all add: counters_def upd_evs_hk_def same_settings_def)

lemma reset_command:
  assumes "EvsFcnCode data = 1" "evs_cmd_length m 1 = EvsMsgSize data"
  shows "counters (CFE_EVS_ProcessGroundCommand cfg m c data s) = (0, 0)"
proof -
  have "counters (upd_evs_hk (\<lambda>h. h\<lparr>EvsCommandCounter := 0, EvsCommandErrorCounter := 0, MessageSendCounter := 0,
      MessageTruncCounter := 0, UnregisteredAppCounter := 0\<rparr>) s) = (0, 0)"
    by (simp add: counters_def upd_evs_hk_def)
  then have "counters (snd (CFE_EVS_ResetCountersCmd cfg c s)) = (0, 0)"
    by (simp add: CFE_EVS_ResetCountersCmd_def del: counters_hk)
  moreover have "CFE_EVS_ProcessGroundCommand cfg m c data s = snd (CFE_EVS_ResetCountersCmd cfg c s)"
    using assms
    by (simp add: CFE_EVS_ProcessGroundCommand_def evs_cmd_handler_def CFE_EVS_VerifyCmdLength_def CFE_EVS_ResetCountersCmd_def)
  ultimately show ?thesis by simp
qed

text \<open>C15. Every ground command is counted once.  The reset of the counters leaves them at zero; another command is counted
  as accepted exactly if its code is known, its length is right and its handler succeeds, and otherwise as an error that
  changes no setting of an application, of the ports, of the format or of the log.\<close>

lemma evs_command_accounting:
  assumes "EvsMsgId data = CFE_EVS_CMD_MID m" "names_ok c"
  shows "let s' = CFE_EVS_ProcessCommandPacket cfg m c data s; cc = EvsFcnCode data;
             length_ok = (evs_cmd_length m cc = EvsMsgSize data)
         in (cc = 1 \<and> length_ok \<longrightarrow> counters s' = (0, 0)) \<and>
            (\<not> (cc = 1 \<and> length_ok) \<longrightarrow>
              (case evs_cmd_handler cfg c data cc of
                 Some h \<Rightarrow>
                   if length_ok \<and> fst (h s) = CFE_SUCCESS then counters s' = (fst (counters s) + 1, snd (counters s))
                   else counters s' = (fst (counters s), snd (counters s) + 1) \<and> same_settings s s'
               | None \<Rightarrow> counters s' = (fst (counters s), snd (counters s) + 1) \<and> same_settings s s'))"
proof -
  let ?cc = "EvsFcnCode data" and ?g = "CFE_EVS_ProcessGroundCommand cfg m c data s"
  let ?ok = "evs_cmd_length m ?cc = EvsMsgSize data"
  have g: "CFE_EVS_ProcessCommandPacket cfg m c data s = ?g" using assms(1) by (simp add: CFE_EVS_ProcessCommandPacket_def)
  show ?thesis
  proof (cases "?cc = 1 \<and> ?ok")
    case True
    then have "counters ?g = (0, 0)" using reset_command [of data m] by auto
    then show ?thesis using conjunct1 [OF True] conjunct2 [OF True] unfolding g Let_def by simp
  next
    case False
    show ?thesis
    proof (cases "evs_cmd_handler cfg c data ?cc")
      case None
      have "?g = upd_evs_hk (\<lambda>h. h\<lparr>EvsCommandErrorCounter := EvsCommandErrorCounter h + 1\<rparr>)
          (EVS_SendEvent cfg c 15 CFE_EVS_EventType_ERROR ''Invalid command code -- ID = 0x%08x, CC = %u''
                   [Num (uint (EvsMsgId data)), Num (uint (EvsFcnCode data))] s)"
        by (simp add: CFE_EVS_ProcessGroundCommand_def None)
      then show ?thesis using False unfolding g Let_def by (auto simp: None command_counts)
    next
      case (Some h)
      show ?thesis
      proof (cases ?ok)
        case ok: True
        then have k: "keeps s (h s)" using keeps_handler [OF Some] False assms(2) by blast
        have "?g = (case h s of (Status, s) \<Rightarrow>
            if Status = CFE_SUCCESS then upd_evs_hk (\<lambda>h. h\<lparr>EvsCommandCounter := EvsCommandCounter h + 1\<rparr>) s
            else if sint (status_code Status) < 0
            then upd_evs_hk (\<lambda>h. h\<lparr>EvsCommandErrorCounter := EvsCommandErrorCounter h + 1\<rparr>) s else s)"
          using ok by (simp add: CFE_EVS_ProcessGroundCommand_def Some CFE_EVS_VerifyCmdLength_def)
        then show ?thesis using False ok k unfolding g Let_def by (auto simp: Some command_counts keeps_def case_prod_beta)
      next
        case bad: False
        have "?g = upd_evs_hk (\<lambda>h. h\<lparr>EvsCommandErrorCounter := EvsCommandErrorCounter h + 1\<rparr>)
            (snd (CFE_EVS_VerifyCmdLength cfg c data (evs_cmd_length m ?cc) s))"
          using bad by (simp add: CFE_EVS_ProcessGroundCommand_def Some CFE_EVS_VerifyCmdLength_def)
        then show ?thesis using False bad unfolding g Let_def by (auto simp: Some command_counts CFE_EVS_VerifyCmdLength_def)
      qed
    qed
  qed
qed

end
