(* ===== verification/CFS_EvsReport.thy ===== *)
theory CFS_EvsReport
  imports CFS_EvsCmd CFS_FsDump
begin

text \<open>
  What event services put out: the packet of an event, the file of the log, and the housekeeping packet.
\<close>

section \<open>Events\<close>









section \<open>The file of the log\<close>

abbreviation (input) log_record :: "CFE_EVS_LongEventTlm_t \<Rightarrow> evs_file_record file_op" where
  "log_record p \<equiv> Wrote_record (Log_record p)"

definition log_start :: "CFE_EVS_Log_t \<Rightarrow> nat" where
  "log_start l = (if LogCount l = 20 then unat (LogNext l) else 0)"

lemma turned_upt: "k \<le> 20 \<Longrightarrow> map (\<lambda>j. (k + j) mod 20) [0..<20] = [k..<20] @ [0..<k :: nat]"
  by (rule nth_equalityI) (auto simp: nth_append mod_if)

lemma log_events_mod:
  assumes "log_ok l"
  shows "log_events l = map (\<lambda>j. LogEntry l ((log_start l + j) mod 20)) [0..<unat (LogCount l)]"
proof (cases "LogCount l = 20")
  case True
  have "unat (LogNext l) < 20" using assms by (simp add: log_ok_def word_less_nat_alt)
  then have "map (LogEntry l) (map (\<lambda>j. (unat (LogNext l) + j) mod 20) [0..<20]) = log_events l"
    using turned_upt [of "unat (LogNext l)"] True by (simp add: log_events_def del: upt_rec_numeral)
  then show ?thesis using True by (simp add: log_start_def comp_def del: upt_rec_numeral)
next
  case False
  then have "unat (LogCount l) < 20" using assms unat_20(1) [of "LogCount l"] by (auto simp: log_ok_def)
  then show ?thesis using False by (auto simp: log_events_def log_start_def)
qed

lemma os_call_full: "\<forall>n. OsAnswers (EvsFiles s) n = None \<Longrightarrow>
  evs_os_call ev full s = (full, s\<lparr>EvsFiles := (EvsFiles s)\<lparr>OsAsked := OsAsked (EvsFiles s) + 1, FileOps := FileOps (EvsFiles s) @ [ev]\<rparr>\<rparr>)"
  by (simp add: evs_os_call_def os_call_def)

lemma write_log_full:
  assumes "\<forall>n. OsAnswers (EvsFiles s) n = None" "k < 20"
  shows "\<exists>st' s'. write_log_entries cfg n i k st s = (i + n, st', s')
    \<and> FileOps (EvsFiles s') = FileOps (EvsFiles s) @ map (\<lambda>j. log_record (LogEntry (EVS_Log s) ((k + j) mod 20))) [0..<n]"
  using assms
proof (induction n arbitrary: i k st s)
  case (Suc n)
  let ?s = "s\<lparr>EvsFiles := (EvsFiles s)\<lparr>OsAsked := OsAsked (EvsFiles s) + 1, FileOps := FileOps (EvsFiles s) @ [log_record (LogEntry (EVS_Log s) k)]\<rparr>\<rparr>"
  let ?k = "if 20 \<le> k + 1 then 0 else k + 1" and ?m = "int (unat (sizeof_LongEventTlm cfg))"
  have p: "\<forall>n. OsAnswers (EvsFiles ?s) n = None" "?k < 20" using Suc.prems by auto
  obtain st' s' where "write_log_entries cfg n (i + 1) ?k ?m ?s = (i + 1 + n, st', s')
    \<and> FileOps (EvsFiles s') = FileOps (EvsFiles ?s) @ map (\<lambda>j. log_record (LogEntry (EVS_Log ?s) ((?k + j) mod 20))) [0..<n]"
    using Suc.IH [OF p, of "i + 1" ?m] by blast
  then have r: "write_log_entries cfg n (i + 1) ?k ?m ?s = (i + 1 + n, st', s')"
    "FileOps (EvsFiles s') = FileOps (EvsFiles ?s) @ map (\<lambda>j. log_record (LogEntry (EVS_Log s) ((?k + j) mod 20))) [0..<n]"
    by simp_all
  have w: "write_log_entries cfg (Suc n) i k st s = write_log_entries cfg n (i + 1) ?k ?m ?s"
    using os_call_full [OF Suc.prems(1)] by simp
  have k: "?k = Suc k mod 20" using Suc.prems(2) by (auto simp: mod_Suc)
  have "map (\<lambda>j. log_record (LogEntry (EVS_Log s) ((k + j) mod 20))) [0..<Suc n]
      = log_record (LogEntry (EVS_Log s) k) # map (\<lambda>j. log_record (LogEntry (EVS_Log s) ((?k + j) mod 20))) [0..<n]"
    using Suc.prems(2) unfolding k by (simp add: upt_conv_Cons map_Suc_upt [symmetric] comp_def mod_add_left_eq del: upt_Suc)
  then show ?case using r unfolding w by simp
qed simp

lemma send_files [simp]: "EvsFiles (EVS_SendEvent cfg c e t sp as s) = EvsFiles s"
  using evs_quiet_events(2) [of e s cfg c t sp as] by (simp add: evs_quiet_def)

text \<open>The command that writes the log to a file writes all of it: when the operating system does not fail, the file gets a
  header and then the packets of the log, oldest first, and is closed.\<close>

lemma log_file_complete:
  assumes "log_ok (EVS_Log s)" "\<forall>n. OsAnswers (EvsFiles s) n = None"
    and "dump_file_name cfg (PayFilename data) ''/ram/cfe_evs.log'' = (CFE_SUCCESS, name)"
  shows "\<exists>image. (let r = CFE_EVS_WriteLogDataFileCmd cfg c data s
     in fst r = CFE_SUCCESS \<and> FileOps (EvsFiles (snd r)) = FileOps (EvsFiles s) @ [Opened name, Sought 0, Wrote_header image]
          @ map (\<lambda>p. Wrote_record (Log_record p)) (log_events (EVS_Log s)) @ [Closed])"
proof -
  let ?h = "zero_header\<lparr>SubType := 16, Description := take 31 (takeWhile (\<lambda>ch. ch \<noteq> CHR 0x00) ''cFE EVS Log File'')\<rparr>"
  let ?s1 = "s\<lparr>EvsFiles := (EvsFiles s)\<lparr>OsAsked := OsAsked (EvsFiles s) + 1, FileOps := FileOps (EvsFiles s) @ [Opened name]\<rparr>\<rparr>"
  have init: "CFE_FS_InitHeader (Some zero_header) (Some ''cFE EVS Log File'') 16 = Some ?h"
    by (simp add: CFE_FS_InitHeader_def)
  obtain h' image where h: "CFE_FS_WriteHeader (evs_fs_caller cfg c) (Some ?h) (EvsFiles ?s1) =
     (Inr 64, h', (EvsFiles ?s1)\<lparr>OsAsked := OsAsked (EvsFiles ?s1) + 2, FileOps := FileOps (EvsFiles ?s1) @ [Sought 0, Wrote_header image]\<rparr>)"
    using WriteHeader_ok [of "EvsFiles ?s1" "evs_fs_caller cfg c" ?h] assms(2) by auto
  let ?s2 = "?s1\<lparr>EvsFiles := (EvsFiles ?s1)\<lparr>OsAsked := OsAsked (EvsFiles ?s1) + 2, FileOps := FileOps (EvsFiles ?s1) @ [Sought 0, Wrote_header image]\<rparr>\<rparr>"
  have header: "evs_write_header cfg c ''cFE EVS Log File'' 16 ?s1 = (64, ?s2)"
    unfolding evs_write_header_def init h by (simp add: bytes_written_def)
  have log: "EVS_Log ?s2 = EVS_Log s" by simp
  have ans: "\<forall>n. OsAnswers (EvsFiles ?s2) n = None" using assms(2) by simp
  have "log_start (EVS_Log s) < 20" using assms(1) by (simp add: log_start_def log_ok_def word_less_nat_alt)
  from write_log_full [OF ans this, of cfg "unat (LogCount (EVS_Log s))" 0 0]
  obtain st' s' where w: "write_log_entries cfg (unat (LogCount (EVS_Log s))) 0 (log_start (EVS_Log s)) 0 ?s2 = (unat (LogCount (EVS_Log s)), st', s')"
    "FileOps (EvsFiles s') = FileOps (EvsFiles ?s2) @ map (\<lambda>p. Wrote_record (Log_record p)) (log_events (EVS_Log s))"
    unfolding log log_events_mod [OF assms(1)] by (auto simp: comp_def)
  have open_ok: "evs_os_call (Opened name) 0 s = (0, ?s1)" by (rule os_call_full [OF assms(2)])
  have "CFE_EVS_WriteLogDataFileCmd cfg c data s = (CFE_SUCCESS,
      evs_close (EVS_SendEvent cfg c 33 CFE_EVS_EventType_DEBUG ''Write Log File Command: %d event log entries written to %s''
         [Num (int (unat (LogCount (EVS_Log s)))), Str name] s'))"
    unfolding CFE_EVS_WriteLogDataFileCmd_def assms(3) prod.case open_ok header Let_def log log_start_def [symmetric] w(1)
    by (simp only: simp_thms if_True if_False of_nat_numeral refl)
  moreover have "FileOps (EvsFiles ?s2) = FileOps (EvsFiles s) @ [Opened name, Sought 0, Wrote_header image]" by simp
  ultimately show ?thesis by (intro exI [of _ image]) (simp add: Let_def evs_close_def OS_close_def w(2))
qed

section \<open>Housekeeping\<close>

definition app_report :: "EVS_AppData_t \<Rightarrow> CFE_EVS_AppTlmData_t" where
  "app_report a = \<lparr>TlmAppID = AppID a, AppMessageSentCounter = EventCount a, AppEnableStatus = ActiveFlag a,
     AppMessageSquelchedCounter = SquelchedCount a\<rparr>"

definition no_report :: CFE_EVS_AppTlmData_t where
  "no_report = \<lparr>TlmAppID = CFE_RESOURCEID_UNDEFINED, AppMessageSentCounter = 0, AppEnableStatus = False, AppMessageSquelchedCounter = 0\<rparr>"

text \<open>The applications that are reported: the first 16 registered ones.\<close>

definition reported :: "evs_state \<Rightarrow> nat list" where
  "reported s = take 16 (filter (EVS_AppDataIsUsed s) [0..<32])"

lemma report_apps_list:
  "j \<le> 16 \<Longrightarrow> report_apps s i j tlm =
     (j + length (take (16 - j) (filter (EVS_AppDataIsUsed s) [i..<32])),
      \<lambda>n. if j \<le> n \<and> n < j + length (take (16 - j) (filter (EVS_AppDataIsUsed s) [i..<32]))
          then app_report (AppData s (filter (EVS_AppDataIsUsed s) [i..<32] ! (n - j))) else tlm n)"
proof (induction s i j tlm rule: report_apps.induct)
  case (1 s i j tlm)
  show ?case
  proof (cases "j < 16 \<and> i < 32")
    case False
    then show ?thesis using 1 by (subst report_apps.simps) (auto simp: fun_eq_iff)
  next
    case True
    then have u: "[i..<32] = i # [Suc i..<32]" by (simp add: upt_conv_Cons)
    show ?thesis
    proof (cases "EVS_AppDataIsUsed s i")
      case used: True
      let ?F = "filter (EVS_AppDataIsUsed s) [Suc i..<32]" and ?tlm = "tlm(j := app_report (AppData s i))"
      let ?m = "length (take (16 - Suc j) ?F)"
      have f: "filter (EVS_AppDataIsUsed s) [i..<32] = i # ?F" using used by (simp only: u filter.simps if_True)
      have m: "length (take (16 - j) (i # ?F)) = Suc ?m" using True by (auto simp: take_Cons' min_def)
      have step: "report_apps s i j tlm = report_apps s (i + 1) (j + 1) ?tlm"
        using True used by (subst report_apps.simps) (simp add: app_report_def)
      have "report_apps s (i + 1) (j + 1) ?tlm =
        (j + Suc ?m, \<lambda>n. if Suc j \<le> n \<and> n < j + Suc ?m then app_report (AppData s (?F ! (n - Suc j))) else ?tlm n)"
        using 1(1) [OF True used, folded app_report_def fun_upd_def, unfolded Suc_eq_plus1 [symmetric]] True by (simp add: fun_upd_def)
      then show ?thesis
        unfolding step f m by (auto simp: fun_eq_iff nth_Cons split: nat.split intro!: arg_cong [where f = "\<lambda>k. app_report (AppData s (?F ! k))"])
    next
      case unused: False
      have f: "filter (EVS_AppDataIsUsed s) [i..<32] = filter (EVS_AppDataIsUsed s) [Suc i..<32]"
        using unused by (simp only: u filter.simps if_False)
      show ?thesis
        using True unused 1(2) [OF True unused, unfolded Suc_eq_plus1 [symmetric]] 1(3)
        by (subst report_apps.simps) (simp add: f cong: if_cong)
    qed
  qed
qed

lemma clear_unused_one: "clear_unused j tlm = (if j < 16 then tlm(j := no_report) else tlm)"
proof -
  have "fold (\<lambda>i tlm. tlm(j := no_report)) is tlm = (if is = [] then tlm else tlm(j := no_report))" for "is" :: "nat list"
    by (induction "is" arbitrary: tlm) auto
  then show ?thesis by (auto simp: clear_unused_def no_report_def)
qed

text \<open>The housekeeping packet reports the state of the log and the first 16 registered applications, in the order of their
  indexes, with their counts.  Only the entry behind them is cleared: entries further behind keep what an earlier packet
  reported there, even of applications that are gone.\<close>

lemma housekeeping_report:
  "let s' = snd (CFE_EVS_SendHkCmd s); h = EVS_TlmPkt s'; n = length (reported s)
   in (\<forall>k. HkAppData h k = (if k < n then app_report (AppData s (reported s ! k))
                            else if k = n \<and> n < 16 then no_report else HkAppData (EVS_TlmPkt s) k))
    \<and> (HkLogFullFlag h, HkLogMode h, HkLogOverflowCounter h)
        = (LogFullFlag (EVS_Log s), LogMode (EVS_Log s), LogOverflowCounter (EVS_Log s))
    \<and> counters s' = counters s \<and> EvsOutputs s' = EvsOutputs s @ [EvsHk_sent h] \<and> AppData s' = AppData s"
proof -
  let ?s = "upd_evs_hk (\<lambda>h. h\<lparr>HkLogFullFlag := LogFullFlag (EVS_Log s), HkLogMode := LogMode (EVS_Log s),
      HkLogOverflowCounter := LogOverflowCounter (EVS_Log s)\<rparr>) s"
  have used: "EVS_AppDataIsUsed ?s = EVS_AppDataIsUsed s" by (simp add: fun_eq_iff EVS_AppDataIsUsed_def upd_evs_hk_def)
  have n: "length (reported s) \<le> 16" by (simp add: reported_def)
  have r: "report_apps ?s 0 0 (HkAppData (EVS_TlmPkt ?s)) = (length (reported s),
      \<lambda>k. if k < length (reported s) then app_report (AppData s (reported s ! k)) else HkAppData (EVS_TlmPkt s) k)"
    unfolding report_apps_list [of 0 ?s 0, simplified] used reported_def
    by (auto simp: fun_eq_iff upd_evs_hk_def)
  show ?thesis
    unfolding CFE_EVS_SendHkCmd_def Let_def r prod.case clear_unused_one
    using n by (simp add: upd_evs_hk_def evs_issue_def counters_def)
qed

end
