(* ===== verification/CFS_EvsDemo.thy ===== *)
theory CFS_EvsDemo
  imports CFS_EvsReport
begin

text \<open>
  A run of event services on the default configuration, evaluated: the start after a power-on reset, the registration of an
  application with one filter, and a command.  The witnesses of the properties of event services are states of it.
\<close>

section \<open>Configuration and surroundings\<close>

definition evs_demo_cfg :: evs_cfg where
  "evs_demo_cfg =
     \<lparr>EvsBuild = \<lparr>hdr_ext = False, msgid_v2 = False, little_endian = True, spacecraft_id = 0x42\<rparr>, EvsEpoch = default_epoch,
      CFE_ES_APPID_BASE = 0x02110000, LONG_EVENT_MSG_MID = CFE_SB_ValueToMsgId 0x0808,
      SHORT_EVENT_MSG_MID = CFE_SB_ValueToMsgId 0x0809, sizeof_LongEventTlm = 176, sizeof_ShortEventTlm = 48,
      PspSpacecraftId = 0x42, PspProcessorId = 1, sizeof_AppDataFile = 80, EvsLittleEndian = True,
      EvsFsConfig = \<lparr>NonvolMountPoint = ''/cf'', RamdiskMountPoint = ''/ram'', Default_ModuleExtension = ''.so''\<rparr>,
      EvsVersionString = ''cFE''\<rparr>"

abbreviation (input) evs_demo_id :: CFE_ResourceId_t where "evs_demo_id \<equiv> CFE_ResourceId_FromInteger 0x02110001"

text \<open>The application 1, called \<open>NAV\<close>, calls at the given tick of the platform clock.\<close>

definition evs_demo_caller :: "OS_time_t \<Rightarrow> evs_caller" where
  "evs_demo_caller t =
     \<lparr>GetAppID = (CFE_SUCCESS, evs_demo_id),
      AppIDByName = \<lambda>n. if n = ''NAV'' then (CFE_SUCCESS, evs_demo_id) else (CFE_ES_ERR_NAME_NOT_FOUND, CFE_RESOURCEID_UNDEFINED),
      AppNameOf = \<lambda>_. ''NAV'', TimeNow = \<lparr>Seconds = 1000, Subseconds = 0\<rparr>, PspNow = t\<rparr>"

definition evs_demo_files :: "evs_file_record os_files" where
  "evs_demo_files = \<lparr>OsAnswers = \<lambda>_. None, OsAsked = 0, FileOps = []\<rparr>"

definition evs_demo_hk :: CFE_EVS_HousekeepingTlm_Payload_t where
  "evs_demo_hk =
     \<lparr>EvsCommandCounter = 0, EvsCommandErrorCounter = 0, MessageFormatMode = CFE_EVS_MsgFormat_LONG,
      MessageTruncCounter = 0, UnregisteredAppCounter = 0, OutputPort = CFE_PLATFORM_EVS_PORT_DEFAULT,
      HkLogFullFlag = 0, HkLogMode = CFE_PLATFORM_EVS_DEFAULT_LOG_MODE, MessageSendCounter = 0,
      HkLogOverflowCounter = 0, LogEnabled = True, HkAppData = (\<lambda>_. no_report)\<rparr>"

definition evs_demo_log :: CFE_EVS_Log_t where
  "evs_demo_log = \<lparr>LogNext = 0, LogCount = 0, LogFullFlag = 0, LogMode = CFE_PLATFORM_EVS_DEFAULT_LOG_MODE,
     LogOverflowCounter = 0, LogEntry = (\<lambda>_. zero_packet)\<rparr>"

definition evs_demo_state :: "(nat \<Rightarrow> EVS_AppData_t) \<Rightarrow> evs_state" where
  "evs_demo_state apps = \<lparr>AppData = apps, EVS_Log = evs_demo_log, EVS_TlmPkt = evs_demo_hk, EVS_AppID = CFE_RESOURCEID_UNDEFINED,
     EVS_EventBurstMax = 32, EvsFiles = evs_demo_files, EvsOutputs = []\<rparr>"

section \<open>Start and registration\<close>

definition evs_demo_boot :: evs_boot where
  "evs_demo_boot = \<lparr>ResetAreaOk = True, ResetAreaLarge = True, MutexOk = True, PowerOn = True\<rparr>"

lemma evs_demo_start: "CFE_EVS_EarlyInit evs_demo_boot evs_demo_log (evs_demo_state apps) = (CFE_SUCCESS, evs_demo_state (\<lambda>_. zero_app))"
  by (simp add: CFE_EVS_EarlyInit_def evs_demo_boot_def evs_demo_state_def evs_demo_log_def evs_demo_hk_def
      EVS_ClearLog_def upd_evs_hk_def no_report_def Let_def)

text \<open>One filter: event 7, of which only the first occurrence passes.\<close>

definition evs_demo_filters :: "(nat \<Rightarrow> CFE_EVS_BinFilter_t) option" where
  "evs_demo_filters = Some (\<lambda>_. \<lparr>BinEventID = 7, BinMask = 0xFFFF\<rparr>)"

definition evs_demo_app :: EVS_AppData_t where
  "evs_demo_app = zero_app\<lparr>ActiveFlag := True, EventTypesActiveFlag := 0xE, SquelchTokens := 32000,
     BinFilters := registered_filters evs_demo_filters 1, AppID := evs_demo_id\<rparr>"

definition evs_demo_run :: evs_state where
  "evs_demo_run = evs_demo_state ((\<lambda>_. zero_app)(1 := evs_demo_app))"

lemma evs_demo_index: "EVS_GetAppDataByID evs_demo_cfg evs_demo_id = Some 1" "EVS_GetAppDataByID evs_demo_cfg CFE_RESOURCEID_UNDEFINED = None"
  by code_simp+

lemma evs_demo_context: "EVS_GetCurrentContext evs_demo_cfg (evs_demo_caller t) = (CFE_SUCCESS, Some 1, evs_demo_id)"
  by (simp add: EVS_GetCurrentContext_def evs_demo_caller_def evs_demo_index)

lemma evs_demo_registered:
  "CFE_EVS_Register evs_demo_cfg (evs_demo_caller t) evs_demo_filters 1 0 (evs_demo_state (\<lambda>_. zero_app)) = (CFE_SUCCESS, evs_demo_run)"
  by (simp add: CFE_EVS_Register_def evs_demo_context upd_app_def evs_demo_run_def evs_demo_state_def evs_demo_app_def Let_def)
    (simp add: evs_demo_filters_def)

definition evs_demo_msgs :: evs_msg_cfg where
  "evs_demo_msgs = \<lparr>CFE_EVS_CMD_MID = 0x1801, CFE_EVS_SEND_HK_MID = 0x1809, evs_cmd_length = \<lambda>_. 8\<rparr>"

lemma evs_demo_reachable: "evs_reachable evs_demo_cfg evs_demo_msgs evs_demo_run"
proof -
  have "evs_reachable evs_demo_cfg evs_demo_msgs (evs_demo_state (\<lambda>_. zero_app))"
    by (rule evs_start [OF evs_demo_start [where apps = "\<lambda>_. zero_app"]]) (simp add: evs_demo_boot_def)
  from evs_next [OF this, of "evs_demo_caller 0" "Register_call evs_demo_filters 1 0"] show ?thesis
    by (simp add: evs_demo_registered)
qed

lemma evs_well_formed_witness: "evs_wf evs_demo_cfg evs_demo_run"
  by (rule evs_well_formed [OF evs_demo_reachable])

section \<open>Filters, the rate limit and events\<close>

lemma evs_demo_run_simps [simp]:
  "AppData evs_demo_run (Suc 0) = evs_demo_app" "EVS_EventBurstMax evs_demo_run = 32" "EVS_Log evs_demo_run = evs_demo_log"
  "EVS_TlmPkt evs_demo_run = evs_demo_hk" "EvsFiles evs_demo_run = evs_demo_files"
  by (simp_all add: evs_demo_run_def evs_demo_state_def)

lemma evs_demo_filter:
  "EVS_FindEventID 7 (BinFilters evs_demo_app) = Some 0" "EVS_FindEventID 9 (BinFilters evs_demo_app) = None"
  by (simp_all add: EVS_FindEventID_def evs_demo_app_def evs_demo_filters_def registered_filters_def upt_rec zero_filter_def)

lemma binary_filter_witness:
  "let c = evs_demo_caller 0; s = fold (filter_event evs_demo_cfg) [(c, 1, 7, 2), (c, 1, 9, 2)] evs_demo_run
   in fst (EVS_IsFiltered evs_demo_cfg c 1 7 2 s)"
proof -
  have "FilterCount (BinFilters evs_demo_app 0) = 0" "FilterMask (BinFilters evs_demo_app 0) = 0xFFFF" "ActiveFlag evs_demo_app"
    "EventTypesActiveFlag evs_demo_app = 0xE"
    by (simp_all add: evs_demo_app_def evs_demo_filters_def registered_filters_def)
  then show ?thesis
    using binary_filter [of 7 evs_demo_run 1 0 "[(evs_demo_caller 0, 1, 7, 2), (evs_demo_caller 0, 1, 9, 2)]" "evs_demo_caller 0" 2 evs_demo_cfg]
    by (simp add: evs_demo_filter type_disabled_def)
qed

lemma rate_limit_witness:
  "10000000 * int (fst (squelch_run evs_demo_cfg 1 (map evs_demo_caller [0, 10000, 20000]) evs_demo_run)) < 340350000"
  using rate_limit [of evs_demo_run 1 "map evs_demo_caller [0, 10000, 20000]" evs_demo_cfg]
  by (simp add: tokens_ok_def evs_demo_app_def evs_demo_caller_def zero_app_def)


section \<open>Commands\<close>

definition evs_demo_command :: "uint16 \<Rightarrow> evs_msg" where
  "evs_demo_command cc =
     \<lparr>EvsMsgId = 0x1801, EvsFcnCode = cc, EvsMsgSize = 8, PayAppName = (\<lambda>_. 0)(0 := 78, 1 := 65, 2 := 86), PayEventID = 7,
      PayMask = 1, PayBitMask = 1, PayMsgFormat = 1, PayLogMode = 0, PayFilename = ''''\<rparr>"

lemma evs_demo_names: "names_ok (evs_demo_caller t)"
  by (simp add: names_ok_def evs_demo_caller_def)

lemma evs_command_accounting_witness:
  "counters (CFE_EVS_ProcessCommandPacket evs_demo_cfg evs_demo_msgs (evs_demo_caller 0) (evs_demo_command 0) evs_demo_run) = (1, 0)
   \<and> counters (CFE_EVS_ProcessCommandPacket evs_demo_cfg evs_demo_msgs (evs_demo_caller 0) (evs_demo_command 99) evs_demo_run) = (0, 1)"
  using evs_command_accounting [OF _ evs_demo_names, of "evs_demo_command 0" evs_demo_msgs evs_demo_cfg 0 evs_demo_run]
    evs_command_accounting [OF _ evs_demo_names, of "evs_demo_command 99" evs_demo_msgs evs_demo_cfg 0 evs_demo_run]
  by (simp add: evs_demo_command_def evs_demo_msgs_def evs_cmd_handler_def CFE_EVS_NoopCmd_def counters_def evs_demo_hk_def Let_def)



end
