(* ===== verification/Spec2Isabelle.thy ===== *)
theory Spec2Isabelle
  imports CFS_Prelude CFS_MsgHeader CFS_Msg CFS_ResourceId CFS_Sbr CFS_PoolAlloc CFS_TimeMath CFS_TimeRace CFS_SbDemo CFS_FsNames CFS_FsDump CFS_EvsDemo
begin

text \<open>
  A verification library for the core Flight Executive (cFE) of this repository, the C code under
  \<^verbatim>\<open>src/cfe/modules\<close>.

  \<^bold>\<open>The program.\<close>  cFE applications exchange messages over a software bus (module \<^verbatim>\<open>sb\<close>).  A message begins with
  CCSDS headers that the message module (\<^verbatim>\<open>msg\<close>) reads and writes; the message ID in them selects a route in the
  routing module (\<^verbatim>\<open>sbr\<close>), whose table entry heads the list of subscribed pipes and counts the messages of the
  route.  Pipes, applications and tasks are named by resource IDs (\<^verbatim>\<open>resourceid\<close>).  Message buffers and subscriptions
  live in a memory pool of executive services (\<^verbatim>\<open>es\<close>): the bus takes a buffer for a message, queues a reference to it
  on every subscribed pipe, and gives it back when the last reference is dropped.  The time service (\<^verbatim>\<open>time\<close>) keeps the
  spacecraft time: it latches a local clock at a 1 Hz tone, receives or sends the time at the tone as a message, and keeps
  going on the local clock (flywheel) when tones fail.  Event services (\<^verbatim>\<open>evs\<close>) take the event messages of applications,
  filter and limit them, and send them to ports, to the bus and to a log in memory that outlives a restart.  File services
  (\<^verbatim>\<open>fs\<close>) give files their header and name, and write dumps in the background.

  \<^bold>\<open>The theories\<close>, each after those it uses:
  \<^item> \<open>CFS_Prelude\<close>: machine integers, status codes, times, and the lemmas on words and bytes that all theories share.
  \<^item> \<open>CFS_MsgHeader\<close>: \<^verbatim>\<open>cfe_msg_ccsdspri.c\<close>, \<^verbatim>\<open>cfe_msg_ccsdsext.c\<close>.  A message is the byte memory its pointer points
    at, a NULL pointer is \<open>None\<close>; every getter and setter is a definition of the source's name.  The abstract header is
    a record of its fields: the setters refine updates of one field and the getters select it.
  \<^item> \<open>CFS_Msg\<close>: message IDs of both versions, secondary headers, \<^verbatim>\<open>CFE_MSG_Init\<close>, checksum, topic IDs, user data and
    strings.  The build options (extended header, ID version) are the record \<open>msg_build\<close>.
  \<^item> \<open>CFS_ResourceId\<close>: \<^verbatim>\<open>cfe_resourceid_api.c\<close>; the search for a free ID is correct for every callback.
  \<^item> \<open>CFS_Sbr\<close>: the routing table and both message ID maps.  The locale \<open>route_map\<close> is what the table needs of a map;
    the hash map and the direct map are interpretations, so each property holds of both and both are equivalent.
  \<^item> \<open>CFS_Pool\<close>, \<open>CFS_PoolAlloc\<close>: \<^verbatim>\<open>cfe_es_generic_pool.c\<close> over an arbitrary storage (the locale \<open>pool_storage\<close>), with
    the directly mapped storage of \<^verbatim>\<open>cfe_es_mempool.c\<close> as interpretation: disjointness of held blocks,
    what an allocation and a release do, and the loops' termination.
  \<^item> \<open>CFS_MemPool\<close>: \<^verbatim>\<open>cfe_es_mempool.c\<close>, the table of pools and its handles.  The locale \<open>buffer_pool\<close> is what a client of
    one handle relies on; the pool of a valid handle is its interpretation.
  \<^item> \<open>CFS_SbState\<close>, \<open>CFS_SbTxn\<close>, \<open>CFS_SbApi\<close>, \<open>CFS_SbTask\<close>: the software bus, \<^verbatim>\<open>CFE_SB_Global\<close> as the record
    \<open>sb_state\<close> with \<^verbatim>\<open>cfe_sb_buf.c\<close>, \<^verbatim>\<open>cfe_sb_priv.c\<close>, \<^verbatim>\<open>cfe_sb_api.c\<close>, \<^verbatim>\<open>cfe_sb_init.c\<close>, \<^verbatim>\<open>cfe_sb_task.c\<close> and
    \<^verbatim>\<open>cfe_sb_dispatch.c\<close> as functions on it.  Buffers and destination blocks are maps from addresses, the queues of the
    operating system are bounded lists, and the two pool functions are fields of the configuration \<open>sb_cfg\<close>.
  \<^item> \<open>CFS_Rings\<close>: doubly linked rings as a relation to the list of their nodes.
  \<^item> \<open>CFS_SbMem\<close>, \<open>CFS_SbDest\<close>, \<open>CFS_SbInv\<close>: use counts and tracking lists, destination lists, and the invariant of the
    bus, proved in the locale \<open>sb_pool\<close>, which extends \<open>buffer_pool\<close>.
  \<^item> \<open>CFS_SbSend\<close>, \<open>CFS_SbCalls\<close>, \<open>CFS_SbPipes\<close>, \<open>CFS_SbSubs\<close>, \<open>CFS_SbClean\<close>: the operations keep the invariant, by groups:
    transmitting, the other message calls, pipes, subscriptions, and the cleanup of applications with the commands.
  \<^item> \<open>CFS_SbDeliver\<close>: what a transmission and a reception do to the messages that wait on the pipes.
  \<^item> \<open>CFS_SbRun\<close>: the calls and commands as one step function, the states a running bus reaches, the interpretation of
    \<open>sb_pool\<close> on the pool that executive services create, and the properties of the bus; \<open>CFS_SbDemo\<close>: an evaluated run of
    it in which the hypotheses of those properties hold.
  \<^item> \<open>CFS_TimeMath\<close>: arithmetic, conversions and printing of times (\<^verbatim>\<open>cfe_time_api.c\<close>, \<^verbatim>\<open>osapi-clock.h\<close>).
  \<^item> \<open>CFS_TimeState\<close>, \<open>CFS_TimeTone\<close>, \<open>CFS_TimeTask\<close>: the time service, \<^verbatim>\<open>CFE_TIME_Global\<close> as the record
    \<open>time_state\<close> with \<^verbatim>\<open>cfe_time_utils.c\<close>, \<^verbatim>\<open>cfe_time_api.c\<close>, \<^verbatim>\<open>cfe_time_tone.c\<close>, \<^verbatim>\<open>cfe_time_task.c\<close> and
    \<^verbatim>\<open>cfe_time_dispatch.c\<close> as functions on it.  Readings of the local clock come from a stream in the state; packets,
    events and semaphores given are a log in the state.
  \<^item> \<open>CFS_TimeRef\<close>: the ring of versioned reference states refines a single value of the reference.
  \<^item> \<open>CFS_TimeSync\<close>: tone and data matching, client and server.
  \<^item> \<open>CFS_TimeRun\<close>: histories of the whole service, the accounting of commands, callbacks, and an example run at
    which the hypotheses of the time properties are shown to hold.
  \<^item> \<open>CFS_TimeRace\<close>: the read of the reference and its updates as single memory accesses in any interleaving, since
    this read takes no lock.
  \<^item> \<open>CFS_Fs\<close>: file services, \<^verbatim>\<open>cfe_fs_api.c\<close>: file headers, the parser of file names and the background writer.  The
    operating system's answers on files come from a stream in the state, and what is done to files is logged there.
  \<^item> \<open>CFS_FsNames\<close>: the file name parser returns within its buffer, and completes names as specified; \<open>CFS_FsDump\<close>:
    headers between byte orders, the queue of background requests, and that a request is written completely.
  \<^item> \<open>CFS_EvsState\<close>, \<open>CFS_Evs\<close>, \<open>CFS_EvsTask\<close>: event services, \<^verbatim>\<open>CFE_EVS_Global\<close> as the record \<open>evs_state\<close> with
    \<^verbatim>\<open>cfe_evs.c\<close>, \<^verbatim>\<open>cfe_evs_utils.c\<close>, \<^verbatim>\<open>cfe_evs_log.c\<close>, \<^verbatim>\<open>cfe_evs_task.c\<close> and \<^verbatim>\<open>cfe_evs_dispatch.c\<close> as functions on
    it.  Who calls, the names of applications and the clocks are the record \<open>evs_caller\<close>; packets and port output are a
    log in the state.  Formatted texts are computed (\<open>expand\<close>) for the conversions the code uses.
  \<^item> \<open>CFS_EvsLog\<close>: the log as a bounded list; \<open>CFS_EvsInv\<close>: what the sending of events leaves alone;
    \<open>CFS_EvsFilter\<close>: binary filters and the commands on them; \<open>CFS_EvsRate\<close>: the limit of the event rate.
  \<^item> \<open>CFS_EvsRun\<close>: histories of calls and commands and the well-formedness they keep; \<open>CFS_EvsCmd\<close>: the accounting of
    commands; \<open>CFS_EvsReport\<close>: what an event, the log file and the housekeeping packet contain; \<open>CFS_EvsDemo\<close>: a run at
    which the hypotheses of these properties hold.

  \<^bold>\<open>Conventions.\<close>  A C integer is a word of its width and wraps as in C; \<^verbatim>\<open>OS_time_t\<close> and time-outs are \<open>int\<close>, where
  no value leaves the 64-bit range.  A pointer that may be NULL is an option or an address with 0 for NULL; an output
  pointer that is only tested for NULL is a flag.  Status codes are the datatype \<open>CFE_Status_t\<close>, whose numbers
  \<open>status_code\<close> gives where the code uses them.  Loops that are not structurally bounded are \<open>partial_function (option)\<close>: \<open>None\<close> is a loop that does
  not end, and that the loops end is proved (\<open>routing_total_correct\<close>, \<open>Rebuild_terminates\<close>, \<open>Print_calendar\<close>,
  \<open>calls_return\<close>, the bucket sort in \<open>Initialize_sorts\<close>), never assumed.  No fuel is used.  Sizes that the platform
  configuration fixes have the values of the default configuration: 256 routes, 64 pipes, 16 destinations of a message,
  at most 50 messages on a queue, a bus pool of 524288 bytes with 17 bucket sizes, 4 reference states, 32 applications
  with 8 filters each, 20 events in the log.  The properties of generic pools hold for pools whose end and block sizes are
  below \<open>2 ^ 62\<close>: the code does not check them, and beyond this bound offsets wrap (lemma \<open>Rebuild_diverges\<close>).  Strings in
  messages are copied with sizes and counts at their widths; the round trip of a string is for fields below \<open>2 ^ 31\<close> bytes.

  \<^bold>\<open>What the lemmas show.\<close>  Header access: refinement of an abstract header and frame conditions.  Messages:
  initialisation, checksums that detect corruption, round trips of every encoded field.  Routing: the invariant that
  ties maps and table together, kept by every operation.  Pools: the set of held blocks and their disjointness.
  Software bus: in every state a running bus reaches, the blocks it holds of its pool are exactly its buffers and
  destinations, so nothing leaks and nothing is used after its release; the use count of a buffer is the number of
  references to it in queues, in the last-read fields of pipes and with applications; every call returns, but a receive
  that waits for ever on an empty pipe; a transmission reaches exactly the subscribed pipes with room and is received in
  order; subscriptions are a set; the cleanup of an application leaves nothing of it.
  Time: 64-bit arithmetic on subsecond counts, the calendar, the reference as one value, the tone state machine, and
  that an interrupted read of the reference gives a value that was published, or fails after at least twelve updates.
  Event services: an event is printed, sent, logged and counted exactly if its type is enabled and no filter or limit stops
  it; the log is a bounded list; filters are a finite map of masks with exact counts; the rate is bounded; every command is
  counted once.  File services: names, headers and background files are exactly as specified, and the loops end.

  \<^bold>\<open>Steps.\<close>  Each function is one step, which nothing interrupts.  In the software bus, the event log, the token
  count of an application and the queue of background requests this is what the mutex of the module gives, up to the
  places where it is released inside a function (one such gap of \<^verbatim>\<open>CFE_SB_DeletePipeFull\<close> loses a buffer and is among the
  findings).  The time reference has no mutex: its read is treated access by access in \<open>CFS_TimeRace\<close>, under the assumption
  that two updates do not interrupt each other, as they would prepare the same next state.  The other fields of the time and event
  services (command counters, filter counts) are written without a lock in the source; that such a write is not interrupted
  is an assumption of the model.

  \<^bold>\<open>Not modelled.\<close>  Texts of syslog entries, performance logging and the loops that receive messages in tasks are left
  out, as they only produce output or call the operating system.  The three commands of the software bus that write its tables
  to files are a parameter of its dispatcher: they fill in a request for the background writer of file services, which is
  modelled by itself.  The rest of executive services (applications, tasks, critical data store, syslog, performance log)
  and table services are not modelled.  The operating system abstraction and the platform support package are used only
  through the functions named in the theories.  The applications under \<^verbatim>\<open>src/apps\<close>, which mostly pass packets to
  sockets, the libraries, the host tools, the unit tests and the build scripts are not modelled.
\<close>

end
